(* ===== verification/Gnss_Prelude.thy ===== *)
theory Gnss_Prelude
  imports Main "HOL-Library.Word" "HOL-Library.Monad_Syntax"
begin

text \<open>
  Shared vocabulary of the development: the machine integer types of the C++ code, the
  collections of simplification rules the component theories extend, the reading of a byte
  list as a little-endian number, and the interface of a byte-driven state machine (a class
  with a \<open>process_byte\<close> member and a \<open>feed\<close> member that loops over a buffer), which both the
  UBX and the NMEA parser implement.
\<close>

unbundle bit_operations_syntax

section \<open>Machine integers\<close>

type_synonym u8 = "8 word"
type_synonym u16 = "16 word"
type_synonym u32 = "32 word"
type_synonym u64 = "64 word"

text \<open>
  A signed integer of the code is the word of its width, read as two's complement by \<open>sint\<close>
  where the code uses its value; \<open>static_cast\<close> between the signed and the unsigned type of one
  width keeps the bits.
\<close>

type_synonym i8 = "8 word"
type_synonym i16 = "16 word"
type_synonym i32 = "32 word"
type_synonym i64 = "64 word"

type_synonym bytes = "u8 list"

named_theorems le_simps \<open>little-endian reads and writes cancel\<close>
named_theorems framing_simps \<open>one step of a framing state machine\<close>
named_theorems reader_simps \<open>a cursor read at a known position\<close>
named_theorems at_simps \<open>a cursor read at a numeric offset\<close>
named_theorems ubx_consts \<open>the constants of the UBX headers\<close>
named_theorems decoder_layouts \<open>what each decoder computes, by byte offsets\<close>

text \<open>The mask \<open>0xFF\<close> keeps exactly the low eight bits, at every width the code uses.\<close>

lemma and_0xFF:
  "(v :: u16) AND 0xFF = take_bit 8 v"
  "(w :: u32) AND 0xFF = take_bit 8 w"
  "(x :: u64) AND 0xFF = take_bit 8 x"
  by (simp_all add: take_bit_eq_mask mask_eq_exp_minus_1)

lemma ucast_and_0xFF [simp]:
  "(ucast ((v :: u16) AND 0xFF) :: u8) = ucast v"
  "(ucast ((w :: u32) AND 0xFF) :: u8) = ucast w"
  "(ucast ((x :: u64) AND 0xFF) :: u8) = ucast x"
  unfolding and_0xFF by (auto intro!: bit_word_eqI simp: bit_simps)

lemma unat_ucast_u8 [simp]:
  "unat (ucast (b :: u8) :: u16) = unat b"
  "unat (ucast (b :: u8) :: u32) = unat b"
  "unat (ucast (b :: u8) :: u64) = unat b"
proof -
  have "unat b < 2 ^ LENGTH(8)" by (rule unsigned_less)
  then show "unat (ucast b :: u16) = unat b" "unat (ucast b :: u32) = unat b"
    "unat (ucast b :: u64) = unat b"
    by (simp_all add: unsigned_ucast_eq take_bit_nat_eq_self)
qed

lemma unat_u8_less [simp]: "unat (b :: u8) < 256"
  using unsigned_less [of b, where 'a = nat] by simp

lemma unat_u16_less [simp]: "unat (w :: u16) < 65536"
  using unsigned_less [of w, where 'a = nat] by simp

lemma unat_of_nat_u16: "n < 65536 \<Longrightarrow> unat (of_nat n :: u16) = n"
  by (simp add: unat_of_nat)

section \<open>Little-endian numbers\<close>

text \<open>The number a list of bytes denotes, least significant byte first.\<close>

fun le_nat :: "bytes \<Rightarrow> nat" where
  "le_nat [] = 0"
| "le_nat (b # bs) = unat b + 256 * le_nat bs"

lemma le_nat_less: "le_nat bs < 256 ^ length bs"
proof (induction bs)
  case Nil
  then show ?case by simp
next
  case (Cons b bs)
  have "unat b < 256" by simp
  with Cons.IH show ?case by (simp del: unat_u8_less)
qed

lemma le_nat_append: "le_nat (xs @ ys) = le_nat xs + 256 ^ length xs * le_nat ys"
  by (induction xs) (simp_all add: algebra_simps)

lemma le_nat_inject: "length xs = length ys \<Longrightarrow> le_nat xs = le_nat ys \<Longrightarrow> xs = ys"
proof (induction xs ys rule: list_induct2)
  case Nil
  then show ?case by simp
next
  case (Cons x xs y ys)
  from Cons.prems have eq: "unat x + 256 * le_nat xs = unat y + 256 * le_nat ys" by simp
  have "(unat x + 256 * le_nat xs) mod 256 = unat x" "(unat y + 256 * le_nat ys) mod 256 = unat y"
    by (simp_all add: mod_less)
  with eq have xy: "unat x = unat y" by metis
  with eq have "le_nat xs = le_nat ys" by simp
  with Cons.IH xy show ?case by (simp add: word_unat_eq_iff)
qed

section \<open>Byte-driven machines\<close>

text \<open>
  A parser object keeps a state, consumes one byte at a time and reports events (callbacks
  fired, in order). Its \<open>feed\<close> member loops over a buffer. The interface fixes the two
  members and promises that \<open>feed\<close> is that loop; what follows for every such machine is
  that the way a stream is cut into buffers does not matter, and that invariants of one byte
  are invariants of every buffer.
\<close>

locale byte_machine =
  fixes process_byte :: "'s \<Rightarrow> 'b \<Rightarrow> 's \<times> 'e list"
    and feed :: "'s \<Rightarrow> 'b list \<Rightarrow> 's \<times> 'e list"
  assumes feed_Nil: "feed s [] = (s, [])"
    and feed_Cons: "feed s (b # bs) =
      (fst (feed (fst (process_byte s b)) bs),
       snd (process_byte s b) @ snd (feed (fst (process_byte s b)) bs))"
begin

lemma feed_append:
  "feed s (xs @ ys) =
     (fst (feed (fst (feed s xs)) ys), snd (feed s xs) @ snd (feed (fst (feed s xs)) ys))"
  by (induction xs arbitrary: s) (simp_all add: feed_Nil feed_Cons)

lemma feed_single: "feed s [b] = process_byte s b"
  by (simp add: feed_Nil feed_Cons)

text \<open>Feeding a sequence of buffers one after the other.\<close>

lemma feed_chunks:
  "foldl (\<lambda>(st, es) chunk. (fst (feed st chunk), es @ snd (feed st chunk))) (s, es0) chunks
     = (fst (feed s (concat chunks)), es0 @ snd (feed s (concat chunks)))"
  by (induction chunks arbitrary: s es0) (simp_all add: feed_Nil feed_append)

lemma feed_invariant:
  assumes step: "\<And>t b. I t \<Longrightarrow> I (fst (process_byte t b))"
    and init: "I s"
  shows "I (fst (feed s bs))"
  using init by (induction bs arbitrary: s) (simp_all add: feed_Nil feed_Cons step)

lemma feed_events:
  assumes step: "\<And>t b. I t \<Longrightarrow> I (fst (process_byte t b))"
    and good: "\<And>t b e. I t \<Longrightarrow> e \<in> set (snd (process_byte t b)) \<Longrightarrow> P e"
    and init: "I s"
    and ev: "e \<in> set (snd (feed s bs))"
  shows "P e"
  using init ev
proof (induction bs arbitrary: s)
  case Nil
  then show ?case by (simp add: feed_Nil)
next
  case (Cons b bs)
  from Cons.prems show ?case
    by (auto simp: feed_Cons dest: good intro: Cons.IH step)
qed

text \<open>
  An invariant may also speak of the bytes consumed so far: \<open>J h s\<close> relates the history
  \<open>h\<close> to the state.
\<close>

lemma feed_history:
  assumes step: "\<And>h t b. J h t \<Longrightarrow> J (h @ [b]) (fst (process_byte t b))"
    and init: "J h s"
  shows "J (h @ bs) (fst (feed s bs))"
  using init
proof (induction bs arbitrary: h s)
  case Nil
  then show ?case by (simp add: feed_Nil)
next
  case (Cons b bs)
  from Cons.IH [OF step [OF Cons.prems], of b] show ?case by (simp add: feed_Cons)
qed

lemma feed_skip:
  assumes "\<And>b. b \<in> set bs \<Longrightarrow> process_byte s b = (s, [])"
  shows "feed s bs = (s, [])"
  using assms by (induction bs) (simp_all add: feed_Nil feed_Cons)

end

end
