(* ===== verification/Ubx_Protocol.thy ===== *)
theory Ubx_Protocol
  imports Gnss_Prelude
begin

text \<open>
  The header-only protocol utilities of \<open>ext_libs/ubx_parser/include/ubx_protocol.h\<close> and the
  constants of \<open>ubx_types.h\<close> they use: little-endian reads and writes, the Fletcher-8
  checksum, frame assembly, the accessors of a raw frame and the value size of a
  configuration key.
\<close>

section \<open>Framing constants\<close>

definition UBX_SYNC_CHAR_1 :: u8 where "UBX_SYNC_CHAR_1 = 0xB5"
definition UBX_SYNC_CHAR_2 :: u8 where "UBX_SYNC_CHAR_2 = 0x62"
definition UBX_FRAME_OVERHEAD :: nat where "UBX_FRAME_OVERHEAD = 8"
definition UBX_SAFE_MAX_PAYLOAD_LEN :: u16 where "UBX_SAFE_MAX_PAYLOAD_LEN = 4096"

section \<open>Little-endian reads\<close>

text \<open>
  A read takes the bytes at the pointer; the callers have checked that they exist, so a read
  is a function of exactly the bytes it touches.
\<close>

definition read_le16 :: "u8 \<Rightarrow> u8 \<Rightarrow> u16" where
  "read_le16 p0 p1 = ucast p0 OR push_bit 8 (ucast p1)"

definition read_le32 :: "u8 \<Rightarrow> u8 \<Rightarrow> u8 \<Rightarrow> u8 \<Rightarrow> u32" where
  "read_le32 p0 p1 p2 p3 =
     ucast p0 OR push_bit 8 (ucast p1) OR push_bit 16 (ucast p2) OR push_bit 24 (ucast p3)"

text \<open>The loop of \<open>read_le64\<close>: iteration \<open>i\<close> ors in byte \<open>i\<close> shifted by \<open>8 * i\<close>.\<close>

fun read_le64_loop :: "nat \<Rightarrow> bytes \<Rightarrow> u64 \<Rightarrow> u64" where
  "read_le64_loop i [] v = v"
| "read_le64_loop i (b # bs) v = read_le64_loop (Suc i) bs (v OR push_bit (8 * i) (ucast b))"

definition read_le64 :: "bytes \<Rightarrow> u64" where
  "read_le64 p = read_le64_loop 0 (take 8 p) 0"

section \<open>Little-endian writes\<close>

definition write_u8 :: "bytes \<Rightarrow> u8 \<Rightarrow> bytes" where
  "write_u8 buf v = buf @ [v]"

definition write_le16 :: "bytes \<Rightarrow> u16 \<Rightarrow> bytes" where
  "write_le16 buf v = buf @ [ucast (v AND 0xFF), ucast (drop_bit 8 v AND 0xFF)]"

definition write_le32 :: "bytes \<Rightarrow> u32 \<Rightarrow> bytes" where
  "write_le32 buf v = buf @ [ucast (v AND 0xFF), ucast (drop_bit 8 v AND 0xFF),
     ucast (drop_bit 16 v AND 0xFF), ucast (drop_bit 24 v AND 0xFF)]"

definition write_le64 :: "bytes \<Rightarrow> u64 \<Rightarrow> bytes" where
  "write_le64 buf v = foldl (\<lambda>b i. b @ [ucast (drop_bit (8 * i) v AND 0xFF)]) buf [0..<8]"

section \<open>Fletcher-8 checksum\<close>

fun checksum_loop :: "bytes \<Rightarrow> u8 \<Rightarrow> u8 \<Rightarrow> u8 \<times> u8" where
  "checksum_loop [] ck_a ck_b = (ck_a, ck_b)"
| "checksum_loop (d # ds) ck_a ck_b =
     (let ck_a' = ck_a + d; ck_b' = ck_b + ck_a' in checksum_loop ds ck_a' ck_b')"

definition compute_checksum :: "bytes \<Rightarrow> u8 \<times> u8" where
  "compute_checksum data = checksum_loop data 0 0"

section \<open>Frame assembly and raw-frame accessors\<close>

text \<open>
  The length field is \<open>static_cast<uint16_t>(payload.size())\<close>, so a payload of 64 KiB or more
  is declared shorter than it is; the checksum then covers only the declared bytes.
\<close>

definition build_ubx_frame :: "u8 \<Rightarrow> u8 \<Rightarrow> bytes \<Rightarrow> bytes" where
  "build_ubx_frame msg_class msg_id payload =
     (let payload_len = (of_nat (length payload) :: u16);
          frame = write_le16 [UBX_SYNC_CHAR_1, UBX_SYNC_CHAR_2, msg_class, msg_id] payload_len
                    @ payload;
          (ck_a, ck_b) = compute_checksum (take (4 + unat payload_len) (drop 2 frame))
      in frame @ [ck_a, ck_b])"

definition get_frame_msg_class :: "bytes \<Rightarrow> u8" where
  "get_frame_msg_class frame = (if length frame < UBX_FRAME_OVERHEAD then 0 else frame ! 2)"

definition get_frame_msg_id :: "bytes \<Rightarrow> u8" where
  "get_frame_msg_id frame = (if length frame < UBX_FRAME_OVERHEAD then 0 else frame ! 3)"

definition get_frame_msg_class_and_id :: "bytes \<Rightarrow> (u8 \<times> u8) option" where
  "get_frame_msg_class_and_id frame =
     (if length frame < UBX_FRAME_OVERHEAD then None else Some (frame ! 2, frame ! 3))"

definition verify_frame_checksum :: "bytes \<Rightarrow> bool" where
  "verify_frame_checksum frame =
     (if length frame < UBX_FRAME_OVERHEAD then False
      else let payload_len = length frame - UBX_FRAME_OVERHEAD;
               (ck_a, ck_b) = compute_checksum (take (4 + payload_len) (drop 2 frame))
           in frame ! (length frame - 2) = ck_a \<and> frame ! (length frame - 1) = ck_b)"

section \<open>Configuration key value size\<close>

definition value_byte_size :: "u32 \<Rightarrow> u8" where
  "value_byte_size key_id =
     (let code = drop_bit 28 key_id AND 0x0F
      in if code = 1 then 1 else if code = 2 then 1 else if code = 3 then 2
         else if code = 4 then 4 else if code = 5 then 8 else 0)"

section \<open>Reads invert writes\<close>

lemma not_bit_u8: "8 \<le> n \<Longrightarrow> \<not> bit (b :: u8) n"
  using bit_imp_le_length [of b n] by auto

lemma bit_read_le16:
  "bit (read_le16 a b) n \<longleftrightarrow> (if n < 8 then bit a n else bit b (n - 8))"
  by (auto simp: read_le16_def bit_simps not_bit_u8 dest: bit_imp_le_length)

lemma bit_read_le32:
  "bit (read_le32 a b c d) n \<longleftrightarrow>
     (if n < 8 then bit a n else if n < 16 then bit b (n - 8)
      else if n < 24 then bit c (n - 16) else bit d (n - 24))"
  by (auto simp: read_le32_def bit_simps not_bit_u8 dest: bit_imp_le_length)

lemma read_le64_bytes:
  "read_le64 (b0 # b1 # b2 # b3 # b4 # b5 # b6 # b7 # rest) =
     ucast b0 OR push_bit 8 (ucast b1) OR push_bit 16 (ucast b2) OR push_bit 24 (ucast b3)
     OR push_bit 32 (ucast b4) OR push_bit 40 (ucast b5) OR push_bit 48 (ucast b6)
     OR push_bit 56 (ucast b7)"
  by (simp add: read_le64_def numeral_eq_Suc or.assoc)

lemma bit_read_le64:
  "bit (read_le64 (b0 # b1 # b2 # b3 # b4 # b5 # b6 # b7 # rest)) n \<longleftrightarrow>
     (if n < 8 then bit b0 n else if n < 16 then bit b1 (n - 8)
      else if n < 24 then bit b2 (n - 16) else if n < 32 then bit b3 (n - 24)
      else if n < 40 then bit b4 (n - 32) else if n < 48 then bit b5 (n - 40)
      else if n < 56 then bit b6 (n - 48) else bit b7 (n - 56))"
  by (auto simp: read_le64_bytes bit_simps not_bit_u8 dest: bit_imp_le_length)

lemma read_write_le16 [le_simps]:
  "read_le16 (ucast v) (ucast (drop_bit 8 v)) = v"
  by (rule bit_word_eqI) (auto simp: bit_read_le16 bit_simps)

lemma read_write_le32 [le_simps]:
  "read_le32 (ucast v) (ucast (drop_bit 8 v)) (ucast (drop_bit 16 v)) (ucast (drop_bit 24 v)) = v"
  by (rule bit_word_eqI) (auto simp: bit_read_le32 bit_simps)

lemma read_write_le64 [le_simps]:
  "read_le64 (ucast v # ucast (drop_bit 8 v) # ucast (drop_bit 16 v) # ucast (drop_bit 24 v)
     # ucast (drop_bit 32 v) # ucast (drop_bit 40 v) # ucast (drop_bit 48 v)
     # ucast (drop_bit 56 v) # rest) = v"
  by (rule bit_word_eqI) (auto simp: bit_read_le64 bit_simps)

lemma ucast_read_le16 [le_simps]:
  "ucast (read_le16 a b) = a" "ucast (drop_bit 8 (read_le16 a b)) = b"
  by (auto intro!: bit_word_eqI simp: bit_read_le16 bit_simps dest: bit_imp_le_length)

lemma ucast_read_le32 [le_simps]:
  "ucast (read_le32 a b c d) = a" "ucast (drop_bit 8 (read_le32 a b c d)) = b"
  "ucast (drop_bit 16 (read_le32 a b c d)) = c" "ucast (drop_bit 24 (read_le32 a b c d)) = d"
  by (auto intro!: bit_word_eqI simp: bit_read_le32 bit_simps dest: bit_imp_le_length)

lemma ucast_read_le64 [le_simps]:
  "ucast (read_le64 [a, b, c, d, e, f, g, h]) = a"
  "ucast (drop_bit 8 (read_le64 [a, b, c, d, e, f, g, h])) = b"
  "ucast (drop_bit 16 (read_le64 [a, b, c, d, e, f, g, h])) = c"
  "ucast (drop_bit 24 (read_le64 [a, b, c, d, e, f, g, h])) = d"
  "ucast (drop_bit 32 (read_le64 [a, b, c, d, e, f, g, h])) = e"
  "ucast (drop_bit 40 (read_le64 [a, b, c, d, e, f, g, h])) = f"
  "ucast (drop_bit 48 (read_le64 [a, b, c, d, e, f, g, h])) = g"
  "ucast (drop_bit 56 (read_le64 [a, b, c, d, e, f, g, h])) = h"
  by (auto intro!: bit_word_eqI simp: bit_read_le64 bit_simps dest: bit_imp_le_length)

lemma write_le16_bytes:
  "write_le16 buf v = buf @ [ucast v, ucast (drop_bit 8 v)]"
  by (simp add: write_le16_def)

lemma write_le32_bytes:
  "write_le32 buf v =
     buf @ [ucast v, ucast (drop_bit 8 v), ucast (drop_bit 16 v), ucast (drop_bit 24 v)]"
  by (simp add: write_le32_def)

lemma write_le64_bytes:
  "write_le64 buf v = buf @ [ucast v, ucast (drop_bit 8 v), ucast (drop_bit 16 v),
     ucast (drop_bit 24 v), ucast (drop_bit 32 v), ucast (drop_bit 40 v), ucast (drop_bit 48 v),
     ucast (drop_bit 56 v)]"
  by (simp add: write_le64_def upt_conv_Cons)

lemma length_write [simp]:
  "length (write_u8 buf b) = Suc (length buf)"
  "length (write_le16 buf h) = length buf + 2"
  "length (write_le32 buf w) = length buf + 4"
  "length (write_le64 buf x) = length buf + 8"
  by (simp_all add: write_u8_def write_le16_bytes write_le32_bytes write_le64_bytes)

text \<open>A write denotes its value: the bytes appended are the little-endian digits.\<close>

lemma unat_ucast_mod [simp]:
  "unat (ucast (h :: u16) :: u8) = unat h mod 256"
  "unat (ucast (w :: u32) :: u8) = unat w mod 256"
  "unat (ucast (x :: u64) :: u8) = unat x mod 256"
  by (simp_all add: unsigned_ucast_eq take_bit_eq_mod)

lemma le_digits:
  fixes n :: nat
  shows "n < 65536 \<Longrightarrow> n mod 256 + 256 * (n div 256 mod 256) = n"
    and "n < 4294967296 \<Longrightarrow>
      n mod 256 + 256 * (n div 256 mod 256 + 256 * (n div 65536 mod 256
        + 256 * (n div 16777216 mod 256))) = n"
proof -
  have step: "m mod 256 + 256 * (m div 256) = m" for m :: nat by simp
  show "n < 65536 \<Longrightarrow> n mod 256 + 256 * (n div 256 mod 256) = n"
    by (subst mod_less) (auto simp: div_less_iff_less_mult)
  assume "n < 4294967296"
  then have top: "n div 16777216 mod 256 = n div 16777216"
    by (simp add: div_less_iff_less_mult)
  have "n div 65536 mod 256 + 256 * (n div 16777216) = n div 65536"
    using step [of "n div 65536"] by (simp add: div_mult2_eq [symmetric])
  moreover have "n div 256 mod 256 + 256 * (n div 65536) = n div 256"
    using step [of "n div 256"] by (simp add: div_mult2_eq [symmetric])
  ultimately show "n mod 256 + 256 * (n div 256 mod 256 + 256 * (n div 65536 mod 256
        + 256 * (n div 16777216 mod 256))) = n"
    using top by simp
qed

lemma le_nat_write_le16: "le_nat (write_le16 [] v) = unat v"
  by (simp add: write_le16_bytes drop_bit_eq_div unat_div le_digits)

lemma le_nat_write_le32: "le_nat (write_le32 [] v) = unat v"
proof -
  have "unat v < 2 ^ LENGTH(32)" by (rule unsigned_less)
  then have "unat v < 4294967296" by simp
  moreover from this have "unat v div 16777216 mod 256 = unat v div 16777216"
    by (simp add: div_less_iff_less_mult)
  ultimately show ?thesis
    using le_digits(2) [of "unat v"] by (simp add: write_le32_bytes drop_bit_eq_div unat_div)
qed

lemma unat_read_le16: "unat (read_le16 a b) = le_nat [a, b]"
  using le_nat_write_le16 [of "read_le16 a b"] by (simp add: write_le16_bytes le_simps del: unat_ucast_mod)

lemma unat_read_le32: "unat (read_le32 a b c d) = le_nat [a, b, c, d]"
  using le_nat_write_le32 [of "read_le32 a b c d"]
  by (simp add: write_le32_bytes le_simps del: unat_ucast_mod)

section \<open>The checksum\<close>

lemma checksum_loop_append:
  "checksum_loop (xs @ ys) a b =
     checksum_loop ys (fst (checksum_loop xs a b)) (snd (checksum_loop xs a b))"
  by (induction xs arbitrary: a b) (simp_all add: Let_def)

lemma checksum_loop_fst: "fst (checksum_loop ds a b) = a + sum_list ds"
  by (induction ds arbitrary: a b) (simp_all add: Let_def add.assoc)

text \<open>
  A corruption of exactly one byte of the covered region always changes \<open>CK_A\<close>; exchanging two
  neighbouring bytes that differ always changes \<open>CK_B\<close>.
\<close>

lemma checksum_single_byte:
  assumes "d \<noteq> d'"
  shows "fst (compute_checksum (xs @ d # ys)) \<noteq> fst (compute_checksum (xs @ d' # ys))"
  using assms by (simp add: compute_checksum_def checksum_loop_fst)

lemma checksum_loop_snd_shift:
  "snd (checksum_loop ds a b) = b + snd (checksum_loop ds a 0)"
proof (induction ds arbitrary: a b)
  case Nil
  then show ?case by simp
next
  case (Cons d ds)
  from Cons [of "a + d" "b + (a + d)"] Cons [of "a + d" "a + d"]
  show ?case by (simp add: Let_def add.assoc)
qed

lemma checksum_transposition:
  assumes "d \<noteq> d'"
  shows "snd (compute_checksum (xs @ d # d' # ys)) \<noteq> snd (compute_checksum (xs @ d' # d # ys))"
proof -
  define a where "a = fst (checksum_loop xs 0 0)"
  define b where "b = snd (checksum_loop xs 0 0)"
  have "snd (compute_checksum (xs @ e # e' # ys)) =
      b + (a + e) + (a + e + e') + snd (checksum_loop ys (a + e + e') 0)" for e e'
    by (simp add: compute_checksum_def checksum_loop_append a_def b_def Let_def)
      (subst checksum_loop_snd_shift, simp)
  from this [of d d'] this [of d' d] assms show ?thesis
    by (simp add: add_ac)
qed

section \<open>The shape of a frame\<close>

lemma build_ubx_frame_eq:
  assumes "length payload < 65536"
  shows "build_ubx_frame c i payload =
     [UBX_SYNC_CHAR_1, UBX_SYNC_CHAR_2, c, i, ucast (of_nat (length payload) :: u16),
      ucast (drop_bit 8 (of_nat (length payload) :: u16))] @ payload
     @ [fst (compute_checksum ([c, i, ucast (of_nat (length payload) :: u16),
              ucast (drop_bit 8 (of_nat (length payload) :: u16))] @ payload)),
        snd (compute_checksum ([c, i, ucast (of_nat (length payload) :: u16),
              ucast (drop_bit 8 (of_nat (length payload) :: u16))] @ payload))]"
  using assms
  by (simp add: build_ubx_frame_def write_le16_bytes Let_def unat_of_nat_u16 case_prod_beta)

lemma length_build_ubx_frame: "length (build_ubx_frame c i payload) = length payload + 8"
  by (simp add: build_ubx_frame_def write_le16_bytes Let_def case_prod_beta)

end
