(* ===== verification/Ubx_Parser.thy ===== *)
theory Ubx_Parser
  imports Ubx_Protocol "HOL-Library.AList" "HOL-Library.Sublist"
begin

text \<open>
  The UBX framing parser: \<open>src/ubx_parser.cpp\<close>, its state in \<open>src/internal/parser_state.h\<close>, the
  checksum test of \<open>src/internal/checksum.h\<close>, the dispatcher and the decoder registry (all under
  \<open>ext_libs/ubx_parser\<close>). A callback that fires is an event; the events of a call are returned
  in the order the code fires them. The second half relates the byte-at-a-time machine to a
  reference scanner over the whole stream.
\<close>

section \<open>Frames, errors and decoders\<close>

record ubx_message_header =
  hdr_class :: u8
  hdr_id :: u8
  hdr_payload_length :: u16

record ubx_frame =
  frame_header :: ubx_message_header
  frame_payload :: bytes
  frame_ck_a :: u8
  frame_ck_b :: u8

datatype parser_error_code =
    No_error
  | Checksum_mismatch
  | Payload_too_large
  | Unexpected_sync_in_payload
  | Buffer_overflow

record parse_error_info =
  err_code :: parser_error_code
  err_class :: u8
  err_id :: u8
  err_description :: string

text \<open>
  A decoder object: its identity and its \<open>decode\<close> member, whose result is the message handed to
  the decoder's callback, or \<open>None\<close> when it returns false without calling it.
\<close>

record 'm i_message_decoder =
  dec_class :: u8
  dec_id :: u8
  dec_decode :: "ubx_frame \<Rightarrow> 'm option"

datatype 'm ubx_event =
    Decoder_callback 'm
  | Raw_message ubx_frame
  | Error_callback parse_error_info

section \<open>Decoder registry\<close>

text \<open>The \<open>std::map\<close> from packed keys to owned decoders; no code iterates over it.\<close>

type_synonym 'm ubx_decoder_registry = "(u16 \<times> 'm i_message_decoder) list"

definition make_key :: "u8 \<Rightarrow> u8 \<Rightarrow> u16" where
  "make_key msg_class msg_id = push_bit 8 (ucast msg_class) OR ucast msg_id"

text \<open>\<open>register_decoder\<close> takes a pointer and ignores a null one.\<close>

definition register_decoder ::
    "'m i_message_decoder option \<Rightarrow> 'm ubx_decoder_registry \<Rightarrow> 'm ubx_decoder_registry" where
  "register_decoder decoder reg =
     (case decoder of None \<Rightarrow> reg
      | Some d \<Rightarrow> AList.update (make_key (dec_class d) (dec_id d)) d reg)"

definition registry_find :: "'m ubx_decoder_registry \<Rightarrow> u8 \<Rightarrow> u8 \<Rightarrow> 'm i_message_decoder option" where
  "registry_find reg msg_class msg_id = map_of reg (make_key msg_class msg_id)"

definition registry_has :: "'m ubx_decoder_registry \<Rightarrow> u8 \<Rightarrow> u8 \<Rightarrow> bool" where
  "registry_has reg msg_class msg_id \<longleftrightarrow> registry_find reg msg_class msg_id \<noteq> None"

definition registry_size :: "'m ubx_decoder_registry \<Rightarrow> nat" where
  "registry_size reg = length reg"

section \<open>Parse context\<close>

datatype parse_state =
    Wait_sync_1
  | Wait_sync_2
  | Wait_class
  | Wait_id
  | Wait_len_lo
  | Wait_len_hi
  | Accumulate_payload
  | Wait_ck_a
  | Wait_ck_b

record parse_context =
  ctx_state :: parse_state
  ctx_header :: ubx_message_header
  ctx_payload_buffer :: bytes
  ctx_received_ck_a :: u8
  ctx_received_ck_b :: u8
  ctx_len_lo :: u8
  ctx_len_hi :: u8

definition parse_context_reset :: "parse_context \<Rightarrow> parse_context" where
  "parse_context_reset c =
     c\<lparr>ctx_state := Wait_sync_1,
       ctx_header := \<lparr>hdr_class = 0, hdr_id = 0, hdr_payload_length = 0\<rparr>,
       ctx_payload_buffer := [],
       ctx_received_ck_a := 0,
       ctx_received_ck_b := 0,
       ctx_len_lo := 0,
       ctx_len_hi := 0\<rparr>"

text \<open>The loop of \<open>verify_checksum\<close> covers the four header bytes, then the payload.\<close>

definition verify_checksum :: "u8 \<Rightarrow> u8 \<Rightarrow> u8 \<Rightarrow> u8 \<Rightarrow> bytes \<Rightarrow> u16 \<Rightarrow> u8 \<Rightarrow> u8 \<Rightarrow> bool" where
  "verify_checksum msg_class msg_id len_lo len_hi payload payload_len expected_a expected_b =
     (let (a, b) = checksum_loop [msg_class, msg_id, len_lo, len_hi] 0 0;
          (ck_a, ck_b) = checksum_loop (take (unat payload_len) payload) a b
      in ck_a = expected_a \<and> ck_b = expected_b)"

section \<open>The parser object\<close>

text \<open>
  \<open>p_raw_cb\<close> and \<open>p_error_cb\<close> say whether the corresponding \<open>std::function\<close> is set. The counters
  are 64-bit and wrap around.
\<close>

record 'm ubx_parser =
  p_registry :: "'m ubx_decoder_registry"
  p_raw_cb :: bool
  p_error_cb :: bool
  p_ctx :: parse_context
  p_frames_decoded :: u64
  p_frames_discarded :: u64
  p_max_payload_len :: u16

definition parse_context_new :: parse_context where
  "parse_context_new =
     \<lparr>ctx_state = Wait_sync_1,
      ctx_header = \<lparr>hdr_class = 0, hdr_id = 0, hdr_payload_length = 0\<rparr>,
      ctx_payload_buffer = [], ctx_received_ck_a = 0, ctx_received_ck_b = 0,
      ctx_len_lo = 0, ctx_len_hi = 0\<rparr>"

definition ubx_parser_new :: "'m ubx_decoder_registry \<Rightarrow> 'm ubx_parser" where
  "ubx_parser_new registry =
     \<lparr>p_registry = registry, p_raw_cb = False, p_error_cb = False, p_ctx = parse_context_new,
      p_frames_decoded = 0, p_frames_discarded = 0,
      p_max_payload_len = UBX_SAFE_MAX_PAYLOAD_LEN\<rparr>"

definition set_raw_message_callback :: "bool \<Rightarrow> 'm ubx_parser \<Rightarrow> 'm ubx_parser" where
  "set_raw_message_callback cb p = p\<lparr>p_raw_cb := cb\<rparr>"

definition set_error_callback :: "bool \<Rightarrow> 'm ubx_parser \<Rightarrow> 'm ubx_parser" where
  "set_error_callback cb p = p\<lparr>p_error_cb := cb\<rparr>"

definition set_max_payload_length :: "u16 \<Rightarrow> 'm ubx_parser \<Rightarrow> 'm ubx_parser" where
  "set_max_payload_length max_len p =
     p\<lparr>p_max_payload_len := (if max_len = 0 then 1 else max_len)\<rparr>"

definition parser_reset :: "'m ubx_parser \<Rightarrow> 'm ubx_parser" where
  "parser_reset p =
     p\<lparr>p_ctx := parse_context_reset (p_ctx p), p_frames_decoded := 0, p_frames_discarded := 0\<rparr>"

section \<open>Dispatch\<close>

definition ubx_dispatch :: "'m ubx_parser \<Rightarrow> ubx_frame \<Rightarrow> 'm ubx_event list" where
  "ubx_dispatch p frame =
     (case registry_find (p_registry p) (hdr_class (frame_header frame)) (hdr_id (frame_header frame)) of
        None \<Rightarrow> []
      | Some decoder \<Rightarrow>
          (case dec_decode decoder frame of None \<Rightarrow> [] | Some msg \<Rightarrow> [Decoder_callback msg]))
     @ (if p_raw_cb p then [Raw_message frame] else [])"

definition ubx_dispatch_error :: "'m ubx_parser \<Rightarrow> parse_error_info \<Rightarrow> 'm ubx_event list" where
  "ubx_dispatch_error p info = (if p_error_cb p then [Error_callback info] else [])"

definition on_frame_complete :: "'m ubx_parser \<Rightarrow> 'm ubx_parser \<times> 'm ubx_event list" where
  "on_frame_complete p =
     (let frame = \<lparr>frame_header = ctx_header (p_ctx p),
                   frame_payload = ctx_payload_buffer (p_ctx p),
                   frame_ck_a = ctx_received_ck_a (p_ctx p),
                   frame_ck_b = ctx_received_ck_b (p_ctx p)\<rparr>;
          p' = p\<lparr>p_ctx := parse_context_reset (p_ctx p), p_frames_decoded := p_frames_decoded p + 1\<rparr>
      in (p', ubx_dispatch p' frame))"

definition discard_frame ::
    "parser_error_code \<Rightarrow> string \<Rightarrow> 'm ubx_parser \<Rightarrow> 'm ubx_parser \<times> 'm ubx_event list" where
  "discard_frame code detail p =
     (let info = \<lparr>err_code = code, err_class = hdr_class (ctx_header (p_ctx p)),
                  err_id = hdr_id (ctx_header (p_ctx p)), err_description = detail\<rparr>;
          p' = p\<lparr>p_frames_discarded := p_frames_discarded p + 1,
                 p_ctx := parse_context_reset (p_ctx p)\<rparr>
      in (p', ubx_dispatch_error p' info))"

section \<open>The state machine\<close>

definition goto :: "parse_state \<Rightarrow> 'm ubx_parser \<Rightarrow> 'm ubx_parser" where
  "goto st p = p\<lparr>p_ctx := (p_ctx p)\<lparr>ctx_state := st\<rparr>\<rparr>"

definition ubx_process_byte :: "'m ubx_parser \<Rightarrow> u8 \<Rightarrow> 'm ubx_parser \<times> 'm ubx_event list" where
  "ubx_process_byte p byte =
     (let c = p_ctx p in
      case ctx_state c of
        Wait_sync_1 \<Rightarrow> (if byte = UBX_SYNC_CHAR_1 then goto Wait_sync_2 p else p, [])
      | Wait_sync_2 \<Rightarrow>
          (if byte = UBX_SYNC_CHAR_2 then goto Wait_class p
           else if byte = UBX_SYNC_CHAR_1 then p
           else goto Wait_sync_1 p, [])
      | Wait_class \<Rightarrow>
          (p\<lparr>p_ctx := c\<lparr>ctx_header := (ctx_header c)\<lparr>hdr_class := byte\<rparr>, ctx_state := Wait_id\<rparr>\<rparr>, [])
      | Wait_id \<Rightarrow>
          (p\<lparr>p_ctx := c\<lparr>ctx_header := (ctx_header c)\<lparr>hdr_id := byte\<rparr>, ctx_state := Wait_len_lo\<rparr>\<rparr>, [])
      | Wait_len_lo \<Rightarrow>
          (p\<lparr>p_ctx := c\<lparr>ctx_len_lo := byte, ctx_state := Wait_len_hi\<rparr>\<rparr>, [])
      | Wait_len_hi \<Rightarrow>
          (let len = ucast (ctx_len_lo c) OR push_bit 8 (ucast byte);
               c1 = c\<lparr>ctx_len_hi := byte,
                       ctx_header := (ctx_header c)\<lparr>hdr_payload_length := len\<rparr>\<rparr>;
               p1 = p\<lparr>p_ctx := c1\<rparr>
           in if p_max_payload_len p < len
              then discard_frame Payload_too_large ''payload length exceeds configured maximum'' p1
              else if len = 0 then (goto Wait_ck_a p1, [])
              else (p\<lparr>p_ctx := c1\<lparr>ctx_payload_buffer := [], ctx_state := Accumulate_payload\<rparr>\<rparr>, []))
      | Accumulate_payload \<Rightarrow>
          (let buf = ctx_payload_buffer c @ [byte];
               p1 = p\<lparr>p_ctx := c\<lparr>ctx_payload_buffer := buf\<rparr>\<rparr>
           in if length buf = unat (hdr_payload_length (ctx_header c))
              then (goto Wait_ck_a p1, []) else (p1, []))
      | Wait_ck_a \<Rightarrow>
          (p\<lparr>p_ctx := c\<lparr>ctx_received_ck_a := byte, ctx_state := Wait_ck_b\<rparr>\<rparr>, [])
      | Wait_ck_b \<Rightarrow>
          (let p1 = p\<lparr>p_ctx := c\<lparr>ctx_received_ck_b := byte\<rparr>\<rparr>;
               ok = verify_checksum (hdr_class (ctx_header c)) (hdr_id (ctx_header c))
                      (ctx_len_lo c) (ctx_len_hi c) (ctx_payload_buffer c)
                      (hdr_payload_length (ctx_header c)) (ctx_received_ck_a c) byte
           in if \<not> ok then discard_frame Checksum_mismatch ''CK_A/CK_B checksum mismatch'' p1
              else on_frame_complete p1))"

fun ubx_feed :: "'m ubx_parser \<Rightarrow> bytes \<Rightarrow> 'm ubx_parser \<times> 'm ubx_event list" where
  "ubx_feed p [] = (p, [])"
| "ubx_feed p (byte # data) =
     (let (p1, es1) = ubx_process_byte p byte; (p2, es2) = ubx_feed p1 data in (p2, es1 @ es2))"

section \<open>Facts about the operations\<close>

lemma parse_context_reset_new [simp]: "parse_context_reset c = parse_context_new"
  by (cases c) (simp add: parse_context_reset_def parse_context_new_def)

lemma ubx_dispatch_state [simp]:
  "ubx_dispatch (p\<lparr>p_ctx := c\<rparr>) f = ubx_dispatch p f"
  "ubx_dispatch (p\<lparr>p_frames_decoded := n\<rparr>) f = ubx_dispatch p f"
  "ubx_dispatch (p\<lparr>p_frames_discarded := n\<rparr>) f = ubx_dispatch p f"
  by (simp_all add: ubx_dispatch_def)

lemma ubx_dispatch_error_state [simp]:
  "ubx_dispatch_error (p\<lparr>p_ctx := c\<rparr>) f = ubx_dispatch_error p f"
  "ubx_dispatch_error (p\<lparr>p_frames_decoded := n\<rparr>) f = ubx_dispatch_error p f"
  "ubx_dispatch_error (p\<lparr>p_frames_discarded := n\<rparr>) f = ubx_dispatch_error p f"
  by (simp_all add: ubx_dispatch_error_def)

lemma verify_checksum_compute:
  "unat len = length payload \<Longrightarrow>
   verify_checksum c i lo hi payload len a b \<longleftrightarrow>
     compute_checksum ([c, i, lo, hi] @ payload) = (a, b)"
  using checksum_loop_append [of "[c, i, lo, hi]" payload 0 0]
  by (auto simp: verify_checksum_def compute_checksum_def case_prod_beta prod_eq_iff)

lemma make_key_inject: "make_key c i = make_key c' i' \<longleftrightarrow> c = c' \<and> i = i'"
proof
  assume eq: "make_key c i = make_key c' i'"
  have key: "make_key a b = read_le16 b a" for a b
    by (simp add: make_key_def read_le16_def or.commute)
  from eq have "read_le16 i c = read_le16 i' c'" by (simp add: key)
  with ucast_read_le16 [of i c] ucast_read_le16 [of i' c'] show "c = c' \<and> i = i'" by simp
qed simp

lemma registry_find_register:
  "registry_find (register_decoder (Some d) reg) c i =
     (if c = dec_class d \<and> i = dec_id d then Some d else registry_find reg c i)"
  by (auto simp: registry_find_def register_decoder_def update_conv make_key_inject)

section \<open>The machine interface\<close>

text \<open>The parser is a byte machine, so feeding is compositional.\<close>

interpretation ubx_machine: byte_machine ubx_process_byte ubx_feed
  by unfold_locales (simp_all add: case_prod_beta)

declare ubx_feed.simps [simp del]

definition idle :: "'m ubx_parser \<Rightarrow> bool" where
  "idle p \<longleftrightarrow> p_ctx p = parse_context_new"

lemma idle_new [simp]: "idle (ubx_parser_new registry)"
  by (simp add: idle_def ubx_parser_new_def)

text \<open>
  The parser inside a frame: header read, \<open>buf\<close> of the payload received, checksum not yet.
\<close>

definition frame_length :: "u8 \<Rightarrow> u8 \<Rightarrow> u16" where
  "frame_length lo hi = ucast lo OR push_bit 8 (ucast hi)"

definition in_frame :: "'m ubx_parser \<Rightarrow> u8 \<Rightarrow> u8 \<Rightarrow> u8 \<Rightarrow> u8 \<Rightarrow> bytes \<Rightarrow> 'm ubx_parser" where
  "in_frame p c i lo hi buf =
     p\<lparr>p_ctx := \<lparr>ctx_state = (if length buf = unat (frame_length lo hi) then Wait_ck_a
                              else Accumulate_payload),
         ctx_header = \<lparr>hdr_class = c, hdr_id = i, hdr_payload_length = frame_length lo hi\<rparr>,
         ctx_payload_buffer = buf, ctx_received_ck_a = 0, ctx_received_ck_b = 0,
         ctx_len_lo = lo, ctx_len_hi = hi\<rparr>\<rparr>"

definition discarded :: "'m ubx_parser \<Rightarrow> 'm ubx_parser" where
  "discarded p = p\<lparr>p_ctx := parse_context_new, p_frames_discarded := p_frames_discarded p + 1\<rparr>"

definition decoded :: "'m ubx_parser \<Rightarrow> 'm ubx_parser" where
  "decoded p = p\<lparr>p_ctx := parse_context_new, p_frames_decoded := p_frames_decoded p + 1\<rparr>"

lemma idle_after [simp]: "idle (discarded p)" "idle (decoded p)"
  by (simp_all add: idle_def discarded_def decoded_def)

definition too_large_info :: "u8 \<Rightarrow> u8 \<Rightarrow> parse_error_info" where
  "too_large_info c i = \<lparr>err_code = Payload_too_large, err_class = c, err_id = i,
     err_description = ''payload length exceeds configured maximum''\<rparr>"

definition mismatch_info :: "u8 \<Rightarrow> u8 \<Rightarrow> parse_error_info" where
  "mismatch_info c i = \<lparr>err_code = Checksum_mismatch, err_class = c, err_id = i,
     err_description = ''CK_A/CK_B checksum mismatch''\<rparr>"

text \<open>The parser while it reads a header: one rewrite per byte.\<close>

definition in_header :: "'m ubx_parser \<Rightarrow> parse_state \<Rightarrow> u8 \<Rightarrow> u8 \<Rightarrow> u8 \<Rightarrow> 'm ubx_parser" where
  "in_header p st c i lo =
     p\<lparr>p_ctx := \<lparr>ctx_state = st, ctx_header = \<lparr>hdr_class = c, hdr_id = i, hdr_payload_length = 0\<rparr>,
         ctx_payload_buffer = [], ctx_received_ck_a = 0, ctx_received_ck_b = 0,
         ctx_len_lo = lo, ctx_len_hi = 0\<rparr>\<rparr>"

lemma idle_in_header: "idle p \<longleftrightarrow> p = in_header p Wait_sync_1 0 0 0"
  by (cases p) (auto simp: idle_def in_header_def parse_context_new_def)

lemma sync_chars_differ [simp]: "UBX_SYNC_CHAR_1 \<noteq> UBX_SYNC_CHAR_2" "UBX_SYNC_CHAR_2 \<noteq> UBX_SYNC_CHAR_1"
  by (simp_all add: UBX_SYNC_CHAR_1_def UBX_SYNC_CHAR_2_def)

lemma step_sync_1:
  "ubx_process_byte (in_header p Wait_sync_1 c i lo) b =
     (in_header p (if b = UBX_SYNC_CHAR_1 then Wait_sync_2 else Wait_sync_1) c i lo, [])"
  by (simp add: ubx_process_byte_def in_header_def goto_def)

lemma step_sync_2:
  "ubx_process_byte (in_header p Wait_sync_2 c i lo) b =
     (in_header p (if b = UBX_SYNC_CHAR_2 then Wait_class
        else if b = UBX_SYNC_CHAR_1 then Wait_sync_2 else Wait_sync_1) c i lo, [])"
  by (simp add: ubx_process_byte_def in_header_def goto_def)

lemma step_class:
  "ubx_process_byte (in_header p Wait_class c i lo) b = (in_header p Wait_id b i lo, [])"
  by (simp add: ubx_process_byte_def in_header_def)

lemma step_id:
  "ubx_process_byte (in_header p Wait_id c i lo) b = (in_header p Wait_len_lo c b lo, [])"
  by (simp add: ubx_process_byte_def in_header_def)

lemma step_len_lo:
  "ubx_process_byte (in_header p Wait_len_lo c i lo) b = (in_header p Wait_len_hi c i b, [])"
  by (simp add: ubx_process_byte_def in_header_def)

lemma step_len_hi:
  "ubx_process_byte (in_header p Wait_len_hi c i lo) hi =
     (if p_max_payload_len p < frame_length lo hi
      then (discarded p, ubx_dispatch_error p (too_large_info c i))
      else (in_frame p c i lo hi [], []))"
proof -
  define len where "len = frame_length lo hi"
  have "0 = unat len \<longleftrightarrow> len = 0" by (simp add: unat_eq_0 eq_commute [of 0])
  then show ?thesis
    by (simp add: ubx_process_byte_def in_header_def goto_def Let_def discard_frame_def
        discarded_def in_frame_def too_large_info_def frame_length_def [symmetric] len_def [symmetric])
qed

lemmas header_steps =
  step_sync_1 step_sync_2 step_class step_id step_len_lo step_len_hi

lemma feed_header:
  assumes "idle p"
  shows "ubx_feed p ([UBX_SYNC_CHAR_1, UBX_SYNC_CHAR_2, c, i, lo, hi] @ rest) =
     (if p_max_payload_len p < frame_length lo hi
      then (fst (ubx_feed (discarded p) rest),
            ubx_dispatch_error p (too_large_info c i) @ snd (ubx_feed (discarded p) rest))
      else ubx_feed (in_frame p c i lo hi []) rest)"
proof -
  from assms have p: "p = in_header p Wait_sync_1 0 0 0" by (simp add: idle_in_header)
  show ?thesis
    by (subst p) (simp add: header_steps ubx_feed.simps case_prod_beta)
qed

lemma feed_payload:
  assumes "length buf + length xs \<le> unat (frame_length lo hi)"
  shows "ubx_feed (in_frame p c i lo hi buf) (xs @ rest) =
     ubx_feed (in_frame p c i lo hi (buf @ xs)) rest"
  using assms
proof (induction xs arbitrary: buf)
  case Nil
  then show ?case by simp
next
  case (Cons x xs)
  then have "ubx_process_byte (in_frame p c i lo hi buf) x = (in_frame p c i lo hi (buf @ [x]), [])"
    by (simp add: ubx_process_byte_def in_frame_def goto_def Let_def)
  with Cons.IH [of "buf @ [x]"] Cons.prems show ?case by (simp add: ubx_feed.simps)
qed

text \<open>The frame a complete reception hands over.\<close>

definition received_frame :: "u8 \<Rightarrow> u8 \<Rightarrow> u8 \<Rightarrow> u8 \<Rightarrow> bytes \<Rightarrow> u8 \<Rightarrow> u8 \<Rightarrow> ubx_frame" where
  "received_frame c i lo hi buf a b =
     \<lparr>frame_header = \<lparr>hdr_class = c, hdr_id = i, hdr_payload_length = frame_length lo hi\<rparr>,
      frame_payload = buf, frame_ck_a = a, frame_ck_b = b\<rparr>"

lemma feed_trailer:
  assumes "length buf = unat (frame_length lo hi)"
  shows "ubx_feed (in_frame p c i lo hi buf) (a # b # rest) =
     (if compute_checksum ([c, i, lo, hi] @ buf) = (a, b)
      then (fst (ubx_feed (decoded p) rest),
            ubx_dispatch p (received_frame c i lo hi buf a b) @ snd (ubx_feed (decoded p) rest))
      else (fst (ubx_feed (discarded p) rest),
            ubx_dispatch_error p (mismatch_info c i) @ snd (ubx_feed (discarded p) rest)))"
  using assms
  by (cases p)
    (simp add: ubx_feed.simps ubx_process_byte_def in_frame_def goto_def Let_def verify_checksum_compute
      on_frame_complete_def discard_frame_def decoded_def discarded_def received_frame_def
      mismatch_info_def ubx_dispatch_def ubx_dispatch_error_def case_prod_beta)

section \<open>The reference scanner\<close>

text \<open>
  What the parser is meant to find in a stream: skip to a sync pair, read the header; an oversized
  length is reported and scanning resumes after the six header bytes; otherwise the declared
  payload and the two checksum bytes follow, the frame is delivered or reported, and scanning
  resumes after it. An incomplete frame at the end yields nothing yet.
\<close>

datatype scan_item = Frame_ok ubx_frame | Frame_bad parse_error_info

definition scan_frame :: "u8 \<Rightarrow> u8 \<Rightarrow> u8 \<Rightarrow> u8 \<Rightarrow> bytes \<Rightarrow> scan_item" where
  "scan_frame c i lo hi rest =
     (let n = unat (frame_length lo hi); buf = take n rest; a = rest ! n; b = rest ! Suc n
      in if compute_checksum ([c, i, lo, hi] @ buf) = (a, b)
         then Frame_ok (received_frame c i lo hi buf a b) else Frame_bad (mismatch_info c i))"

function (sequential) scan :: "u16 \<Rightarrow> bytes \<Rightarrow> scan_item list" where
  "scan m (s1 # s2 # bs) =
     (if s1 \<noteq> UBX_SYNC_CHAR_1 then scan m (s2 # bs)
      else if s2 = UBX_SYNC_CHAR_1 then scan m (s2 # bs)
      else if s2 \<noteq> UBX_SYNC_CHAR_2 then scan m bs
      else (case bs of
              c # i # lo # hi # rest \<Rightarrow>
                if m < frame_length lo hi then Frame_bad (too_large_info c i) # scan m rest
                else if length rest < unat (frame_length lo hi) + 2 then []
                else scan_frame c i lo hi rest # scan m (drop (unat (frame_length lo hi) + 2) rest)
            | _ \<Rightarrow> []))"
| "scan m bs = []"
  by pat_completeness auto
termination
  by (relation "measure (\<lambda>(m, bs). length bs)") auto

declare scan.simps [simp del]

lemma scan_noise: "b \<noteq> UBX_SYNC_CHAR_1 \<Longrightarrow> scan m (b # bs) = scan m bs"
  by (cases bs) (simp_all add: scan.simps)

lemma scan_sync: "scan m (UBX_SYNC_CHAR_1 # UBX_SYNC_CHAR_1 # bs) = scan m (UBX_SYNC_CHAR_1 # bs)"
  by (simp add: scan.simps(1) [of m UBX_SYNC_CHAR_1])

lemma scan_header:
  "scan m ([UBX_SYNC_CHAR_1, UBX_SYNC_CHAR_2, c, i, lo, hi] @ rest) =
     (if m < frame_length lo hi then Frame_bad (too_large_info c i) # scan m rest
      else if length rest < unat (frame_length lo hi) + 2 then []
      else scan_frame c i lo hi rest # scan m (drop (unat (frame_length lo hi) + 2) rest))"
  by (simp add: scan.simps)

definition emit :: "'m ubx_parser \<Rightarrow> scan_item \<Rightarrow> 'm ubx_event list" where
  "emit p item = (case item of Frame_ok f \<Rightarrow> ubx_dispatch p f | Frame_bad e \<Rightarrow> ubx_dispatch_error p e)"

lemma emit_after [simp]: "emit (discarded p) = emit p" "emit (decoded p) = emit p"
  by (simp_all add: fun_eq_iff emit_def discarded_def decoded_def split: scan_item.split)

lemma max_after [simp]:
  "p_max_payload_len (discarded p) = p_max_payload_len p"
  "p_max_payload_len (decoded p) = p_max_payload_len p"
  by (simp_all add: discarded_def decoded_def)

lemma feed_noise: "idle p \<Longrightarrow> b \<noteq> UBX_SYNC_CHAR_1 \<Longrightarrow> ubx_process_byte p b = (p, [])"
  by (simp add: ubx_process_byte_def idle_def parse_context_new_def)

lemma feed_frame:
  assumes "idle p" and "\<not> p_max_payload_len p < frame_length lo hi"
    and "length rest \<ge> unat (frame_length lo hi) + 2"
  shows "ubx_feed p ([UBX_SYNC_CHAR_1, UBX_SYNC_CHAR_2, c, i, lo, hi] @ rest) =
     (let item = scan_frame c i lo hi rest;
          q = (case item of Frame_ok _ \<Rightarrow> decoded p | Frame_bad _ \<Rightarrow> discarded p);
          rest' = drop (unat (frame_length lo hi) + 2) rest
      in (fst (ubx_feed q rest'), emit p item @ snd (ubx_feed q rest')))"
proof -
  define n where "n = unat (frame_length lo hi)"
  define buf where "buf = take n rest"
  have len: "length buf = n" using assms(3) by (simp add: buf_def n_def)
  have rest: "rest = buf @ rest ! n # rest ! Suc n # drop (n + 2) rest"
    using assms(3) by (simp add: buf_def n_def id_take_nth_drop Cons_nth_drop_Suc)
  have "ubx_feed p ([UBX_SYNC_CHAR_1, UBX_SYNC_CHAR_2, c, i, lo, hi] @ rest) =
      ubx_feed (in_frame p c i lo hi []) (buf @ rest ! n # rest ! Suc n # drop (n + 2) rest)"
    using feed_header [OF assms(1)] assms(2) rest by metis
  also have "\<dots> = ubx_feed (in_frame p c i lo hi buf) (rest ! n # rest ! Suc n # drop (n + 2) rest)"
    using feed_payload [of "[]" buf lo hi p c i] len n_def by simp
  also have "\<dots> = (let item = scan_frame c i lo hi rest;
          q = (case item of Frame_ok _ \<Rightarrow> decoded p | Frame_bad _ \<Rightarrow> discarded p);
          rest' = drop (n + 2) rest
      in (fst (ubx_feed q rest'), emit p item @ snd (ubx_feed q rest')))"
    unfolding scan_frame_def n_def [symmetric] buf_def [symmetric] Let_def
    by (subst feed_trailer) (use len in \<open>simp_all add: n_def emit_def\<close>)
  finally show ?thesis unfolding n_def .
qed

definition counters :: "'m ubx_parser \<Rightarrow> u64 \<times> u64" where
  "counters p = (p_frames_decoded p, p_frames_discarded p)"

lemma counters_simps [simp]:
  "counters (in_header p st c i lo) = counters p"
  "counters (in_frame p c i lo hi buf) = counters p"
  "counters (decoded p) = (fst (counters p) + 1, snd (counters p))"
  "counters (discarded p) = (fst (counters p), snd (counters p) + 1)"
  by (simp_all add: counters_def in_header_def in_frame_def decoded_def discarded_def)

lemma frames_after [simp]:
  "p_frames_decoded (discarded p) = p_frames_decoded p"
  "p_frames_discarded (discarded p) = p_frames_discarded p + 1"
  "p_frames_decoded (decoded p) = p_frames_decoded p + 1"
  "p_frames_discarded (decoded p) = p_frames_discarded p"
  by (simp_all add: decoded_def discarded_def)

lemma feed_incomplete:
  assumes "idle p" and "\<not> p_max_payload_len p < frame_length lo hi"
    and "length rest < unat (frame_length lo hi) + 2"
  shows "snd (ubx_feed p ([UBX_SYNC_CHAR_1, UBX_SYNC_CHAR_2, c, i, lo, hi] @ rest)) = []
    \<and> counters (fst (ubx_feed p ([UBX_SYNC_CHAR_1, UBX_SYNC_CHAR_2, c, i, lo, hi] @ rest))) = counters p"
proof -
  define n where "n = unat (frame_length lo hi)"
  have start: "ubx_feed p ([UBX_SYNC_CHAR_1, UBX_SYNC_CHAR_2, c, i, lo, hi] @ rest) =
      ubx_feed (in_frame p c i lo hi (take n rest)) (drop n rest)"
    using feed_header [OF assms(1)] assms(2)
      feed_payload [of "[]" "take n rest" lo hi p c i "drop n rest"] by (simp add: n_def)
  consider "drop n rest = []" | a where "drop n rest = [a]" "length (take n rest) = n"
    using assms(3)
    by (cases "drop n rest"; cases "tl (drop n rest)")
      (auto simp: n_def dest: arg_cong [where f = length])
  then show ?thesis
  proof cases
    case 1
    with start show ?thesis by (simp add: ubx_feed.simps)
  next
    case 2
    then have "ubx_process_byte (in_frame p c i lo hi (take n rest)) a =
        (p\<lparr>p_ctx := (p_ctx (in_frame p c i lo hi (take n rest)))
            \<lparr>ctx_received_ck_a := a, ctx_state := Wait_ck_b\<rparr>\<rparr>, [])"
      by (simp add: ubx_process_byte_def in_frame_def n_def)
    with start 2 show ?thesis by (simp add: ubx_feed.simps counters_def)
  qed
qed

text \<open>A stream that ends inside a header.\<close>

lemma feed_short:
  assumes "idle p" and "length bs < 4"
  shows "snd (ubx_feed p (UBX_SYNC_CHAR_1 # UBX_SYNC_CHAR_2 # bs)) = []
    \<and> counters (fst (ubx_feed p (UBX_SYNC_CHAR_1 # UBX_SYNC_CHAR_2 # bs))) = counters p"
proof -
  from assms(1) have p: "p = in_header p Wait_sync_1 0 0 0" by (simp add: idle_in_header)
  from assms(2) have "bs = [] \<or> (\<exists>c. bs = [c]) \<or> (\<exists>c i. bs = [c, i]) \<or> (\<exists>c i lo. bs = [c, i, lo])"
    by (cases bs; cases "tl bs"; cases "tl (tl bs)"; cases "tl (tl (tl bs))") auto
  then show ?thesis
    by (subst (1 2) p) (auto simp: header_steps ubx_feed.simps case_prod_beta)
qed

lemma feed_sync:
  assumes "idle p"
  shows "ubx_feed p (UBX_SYNC_CHAR_1 # UBX_SYNC_CHAR_1 # bs) = ubx_feed p (UBX_SYNC_CHAR_1 # bs)"
    and "b \<noteq> UBX_SYNC_CHAR_1 \<Longrightarrow> b \<noteq> UBX_SYNC_CHAR_2 \<Longrightarrow>
      ubx_feed p (UBX_SYNC_CHAR_1 # b # bs) = ubx_feed p bs"
    and "snd (ubx_feed p [b]) = [] \<and> counters (fst (ubx_feed p [b])) = counters p"
proof -
  have p: "p = in_header p Wait_sync_1 0 0 0" using assms by (simp add: idle_in_header)
  show "ubx_feed p (UBX_SYNC_CHAR_1 # UBX_SYNC_CHAR_1 # bs) = ubx_feed p (UBX_SYNC_CHAR_1 # bs)"
    by (subst (1 2) p) (simp add: header_steps ubx_feed.simps)
  show "ubx_feed p (UBX_SYNC_CHAR_1 # b # bs) = ubx_feed p bs"
    if "b \<noteq> UBX_SYNC_CHAR_1" "b \<noteq> UBX_SYNC_CHAR_2"
  proof -
    have "ubx_feed (in_header p Wait_sync_1 0 0 0) (UBX_SYNC_CHAR_1 # b # bs) =
        ubx_feed (in_header p Wait_sync_1 0 0 0) bs"
      using that by (simp add: header_steps ubx_feed.simps case_prod_beta)
    with p show ?thesis by simp
  qed
  show "snd (ubx_feed p [b]) = [] \<and> counters (fst (ubx_feed p [b])) = counters p"
    by (subst (1 2) p) (simp add: header_steps ubx_feed.simps)
qed

definition n_ok :: "scan_item list \<Rightarrow> nat" where
  "n_ok items = length (filter (\<lambda>x. case x of Frame_ok _ \<Rightarrow> True | Frame_bad _ \<Rightarrow> False) items)"

definition n_bad :: "scan_item list \<Rightarrow> nat" where
  "n_bad items = length items - n_ok items"

lemma n_ok_bad_simps [simp]:
  "n_ok [] = 0" "n_bad [] = 0"
  "n_ok (Frame_ok f # items) = Suc (n_ok items)" "n_bad (Frame_ok f # items) = n_bad items"
  "n_ok (Frame_bad e # items) = n_ok items" "n_bad (Frame_bad e # items) = Suc (n_bad items)"
proof -
  have "n_ok items \<le> length items" by (simp add: n_ok_def)
  then show "n_ok [] = 0" "n_bad [] = 0"
    "n_ok (Frame_ok f # items) = Suc (n_ok items)" "n_bad (Frame_ok f # items) = n_bad items"
    "n_ok (Frame_bad e # items) = n_ok items" "n_bad (Frame_bad e # items) = Suc (n_bad items)"
    by (simp_all add: n_ok_def n_bad_def Suc_diff_le)
qed

text \<open>The simulation: what the machine reports and counts is what the scanner finds.\<close>

definition simulates :: "'m ubx_parser \<Rightarrow> bytes \<Rightarrow> bool" where
  "simulates p bs \<longleftrightarrow>
     snd (ubx_feed p bs) = concat (map (emit p) (scan (p_max_payload_len p) bs))
     \<and> counters (fst (ubx_feed p bs)) =
         (p_frames_decoded p + of_nat (n_ok (scan (p_max_payload_len p) bs)),
          p_frames_discarded p + of_nat (n_bad (scan (p_max_payload_len p) bs)))"

lemma simulates_frame:
  fixes p :: "'m ubx_parser"
  assumes p: "idle p"
    and IH: "\<And>(q :: 'm ubx_parser) rest. idle q \<Longrightarrow> p_max_payload_len q = p_max_payload_len p \<Longrightarrow>
      length rest < length bs \<Longrightarrow> simulates q rest"
    and bs: "bs = UBX_SYNC_CHAR_1 # UBX_SYNC_CHAR_2 # c # i # lo # hi # rest"
  shows "simulates p bs"
proof (cases "p_max_payload_len p < frame_length lo hi")
  case True
  have "simulates (discarded p) rest" using IH bs by simp
  with True show ?thesis
    using feed_header [OF p, of c i lo hi rest]
    by (simp add: bs simulates_def scan.simps counters_def) (simp add: emit_def)
next
  case False
  show ?thesis
  proof (cases "length rest < unat (frame_length lo hi) + 2")
    case True
    with False feed_incomplete [OF p False True, of c i] show ?thesis
      by (simp add: bs simulates_def scan.simps counters_def)
  next
    case long: False
    define item where "item = scan_frame c i lo hi rest"
    define q where "q = (case item of Frame_ok _ \<Rightarrow> decoded p | Frame_bad _ \<Rightarrow> discarded p)"
    define rest' where "rest' = drop (unat (frame_length lo hi) + 2) rest"
    have q: "idle q" "p_max_payload_len q = p_max_payload_len p" "emit q = emit p"
      by (simp_all add: q_def split: scan_item.split)
    have "simulates q rest'" using IH q bs rest'_def by simp
    moreover have "ubx_feed p bs = (fst (ubx_feed q rest'), emit p item @ snd (ubx_feed q rest'))"
      using feed_frame [OF p False, of rest c i] long
      by (simp add: bs item_def q_def rest'_def Let_def)
    moreover have "scan (p_max_payload_len p) bs = item # scan (p_max_payload_len p) rest'"
      using False long by (simp add: bs scan.simps item_def rest'_def)
    ultimately show ?thesis
      using q by (cases item) (simp_all add: simulates_def counters_def q_def)
  qed
qed

lemma feed_simulates:
  fixes p :: "'m ubx_parser"
  shows "idle p \<Longrightarrow> simulates p bs"
proof (induction bs arbitrary: p rule: length_induct)
  case (1 bs p)
  then have IH: "\<And>(q :: 'm ubx_parser) rest. idle q \<Longrightarrow> length rest < length bs \<Longrightarrow> simulates q rest"
    by blast
  show ?case
  proof (cases bs)
    case Nil
    then show ?thesis by (simp add: simulates_def ubx_feed.simps scan.simps counters_def)
  next
    case (Cons s1 bs1)
    show ?thesis
    proof (cases bs1)
      case Nil
      with Cons feed_sync(3) [OF \<open>idle p\<close>, of s1] show ?thesis
        by (simp add: simulates_def scan.simps counters_def)
    next
      case (Cons s2 bs2)
      with \<open>bs = s1 # bs1\<close> have bs: "bs = s1 # s2 # bs2" by simp
      consider "s1 \<noteq> UBX_SYNC_CHAR_1" | "s1 = UBX_SYNC_CHAR_1" "s2 = UBX_SYNC_CHAR_1"
        | "s1 = UBX_SYNC_CHAR_1" "s2 \<noteq> UBX_SYNC_CHAR_1" "s2 \<noteq> UBX_SYNC_CHAR_2"
        | "s1 = UBX_SYNC_CHAR_1" "s2 = UBX_SYNC_CHAR_2" by blast
      then show ?thesis
      proof cases
        case 1
        have "simulates p (s2 # bs2)" using IH \<open>idle p\<close> bs by simp
        with 1 feed_noise [OF \<open>idle p\<close> 1] show ?thesis
          by (simp add: bs simulates_def scan_noise ubx_feed.simps(2) [of p s1] case_prod_beta)
      next
        case 2
        have "simulates p (s2 # bs2)" using IH \<open>idle p\<close> bs by simp
        with 2 feed_sync(1) [OF \<open>idle p\<close>, of bs2] show ?thesis
          by (simp add: bs simulates_def scan_sync)
      next
        case 3
        have "simulates p bs2" using IH \<open>idle p\<close> bs by simp
        with 3 feed_sync(2) [OF \<open>idle p\<close> 3(2,3), of bs2] show ?thesis
          by (simp add: bs simulates_def scan.simps(1))
      next
        case 4
        show ?thesis
        proof (cases "length bs2 < 4")
          case True
          then have "scan (p_max_payload_len p) bs = []"
            using 4 by (auto simp: bs scan.simps(1) split: list.split)
          with feed_short [OF \<open>idle p\<close> True] 4 show ?thesis
            by (simp add: bs simulates_def counters_def)
        next
          case False
          then obtain c i lo hi rest where "bs2 = c # i # lo # hi # rest"
            by (cases bs2; cases "tl bs2"; cases "tl (tl bs2)"; cases "tl (tl (tl bs2))") auto
          with simulates_frame [OF \<open>idle p\<close> IH, of bs c i lo hi rest] 4 bs show ?thesis by simp
        qed
      qed
    qed
  qed
qed

section \<open>Well-formed frames are found\<close>

text \<open>The frame the parser reports for a payload sent with \<open>build_ubx_frame\<close>.\<close>

definition built_frame :: "u8 \<Rightarrow> u8 \<Rightarrow> bytes \<Rightarrow> ubx_frame" where
  "built_frame c i payload =
     (let len = (of_nat (length payload) :: u16);
          ck = compute_checksum ([c, i, ucast len, ucast (drop_bit 8 len)] @ payload)
      in \<lparr>frame_header = \<lparr>hdr_class = c, hdr_id = i, hdr_payload_length = len\<rparr>,
          frame_payload = payload, frame_ck_a = fst ck, frame_ck_b = snd ck\<rparr>)"

lemma frame_length_read: "frame_length lo hi = read_le16 lo hi"
  by (simp add: frame_length_def read_le16_def)

lemma scan_built:
  assumes "length payload \<le> unat m"
  shows "scan m (build_ubx_frame c i payload @ rest) = Frame_ok (built_frame c i payload) # scan m rest"
proof -
  define len where "len = (of_nat (length payload) :: u16)"
  define ck where "ck = compute_checksum ([c, i, ucast len, ucast (drop_bit 8 len)] @ payload)"
  have small: "length payload < 65536" using assms unat_u16_less [of m] by linarith
  then have len: "unat len = length payload" by (simp add: len_def unat_of_nat_u16)
  have fl: "frame_length (ucast len) (ucast (drop_bit 8 len)) = len"
    by (simp add: frame_length_read le_simps)
  have "\<not> m < len" using assms len by (simp add: word_less_nat_alt)
  moreover have "build_ubx_frame c i payload @ rest =
      [UBX_SYNC_CHAR_1, UBX_SYNC_CHAR_2, c, i, ucast len, ucast (drop_bit 8 len)]
      @ (payload @ fst ck # snd ck # rest)"
    using small by (simp add: build_ubx_frame_eq len_def ck_def)
  moreover have "compute_checksum (c # i # ucast len # ucast (drop_bit 8 len) # payload) = (fst ck, snd ck)"
    by (simp add: ck_def)
  ultimately show ?thesis
    by (simp only: scan_header fl)
      (simp add: len scan_frame_def fl received_frame_def built_frame_def Let_def nth_append
        len_def [symmetric] ck_def [symmetric])
qed

lemma scan_noises: "UBX_SYNC_CHAR_1 \<notin> set noise \<Longrightarrow> scan m (noise @ bs) = scan m bs"
proof (induction noise)
  case (Cons b noise)
  then have "b \<noteq> UBX_SYNC_CHAR_1" by auto
  with Cons show ?case by (simp add: scan_noise)
qed simp

lemma feed_one_built:
  assumes "idle p" and "length payload \<le> unat (p_max_payload_len p)"
  shows "snd (ubx_feed p (build_ubx_frame c i payload)) = ubx_dispatch p (built_frame c i payload)"
  using feed_simulates [OF assms(1), of "build_ubx_frame c i payload"]
    scan_built [OF assms(2), of c i "[]"]
  by (simp add: simulates_def emit_def scan.simps)

section \<open>Reported frames are in the stream\<close>

lemma scan_sound:
  "Frame_ok f \<in> set (scan m bs) \<Longrightarrow>
     sublist (build_ubx_frame (hdr_class (frame_header f)) (hdr_id (frame_header f)) (frame_payload f)) bs
     \<and> length (frame_payload f) = unat (hdr_payload_length (frame_header f))
     \<and> length (frame_payload f) \<le> unat m"
proof (induction bs rule: length_induct)
  case (1 bs)
  have sub: ?case if "Frame_ok f \<in> set (scan m ys)" "length ys < length bs" "sublist ys bs" for ys
    using 1 that sublist_order.order_trans by blast
  show ?case
  proof (cases "\<exists>bs'. bs = UBX_SYNC_CHAR_1 # UBX_SYNC_CHAR_2 # bs'")
    case False
    with "1.prems" obtain s1 s2 bs' where bs: "bs = s1 # s2 # bs'"
      by (cases bs; cases "tl bs") (auto simp: scan.simps)
    with False "1.prems" have "Frame_ok f \<in> set (scan m (s2 # bs')) \<or> Frame_ok f \<in> set (scan m bs')"
      by (auto simp: scan.simps(1) [of m s1] split: if_splits)
    with sub [of "s2 # bs'"] sub [of bs'] show ?thesis by (auto simp: bs sublist_Cons_right)
  next
    case True
    with "1.prems" obtain c i lo hi rest
      where bs: "bs = [UBX_SYNC_CHAR_1, UBX_SYNC_CHAR_2, c, i, lo, hi] @ rest"
      by (auto simp: scan.simps(1) split: list.splits if_splits)
    define n where "n = unat (frame_length lo hi)"
    have "sublist (drop (n + 2) rest) rest" by simp
    then have subs: "sublist rest bs" "sublist (drop (n + 2) rest) bs"
      by (simp_all add: bs sublist_Cons_right)
    have lens: "length rest < length bs" "length (drop (n + 2) rest) < length bs"
      by (simp_all add: bs less_Suc_eq_le)
    show ?thesis
    proof (cases "Frame_ok f \<in> set (scan m rest) \<or> Frame_ok f \<in> set (scan m (drop (n + 2) rest))")
      case True
      with sub subs lens show ?thesis by blast
    next
      case False
      with "1.prems" have long: "n + 2 \<le> length rest" and fits: "n \<le> unat m"
        and f: "scan_frame c i lo hi rest = Frame_ok f"
        unfolding bs scan_header by (auto simp: n_def word_less_nat_alt split: if_splits)
      define buf where "buf = take n rest"
      have len: "length buf = n" using long by (simp add: buf_def)
      have rest: "rest = buf @ rest ! n # rest ! Suc n # drop (n + 2) rest"
        using long by (simp add: buf_def id_take_nth_drop Cons_nth_drop_Suc)
      from f have ck: "compute_checksum ([c, i, lo, hi] @ buf) = (rest ! n, rest ! Suc n)"
        and fr: "f = received_frame c i lo hi buf (rest ! n) (rest ! Suc n)"
        by (auto simp: scan_frame_def n_def buf_def Let_def split: if_splits)
      have n: "of_nat (length buf) = read_le16 lo hi" "length buf < 65536"
        by (simp_all add: len n_def frame_length_read)
      have "build_ubx_frame c i buf @ drop (n + 2) rest =
          [UBX_SYNC_CHAR_1, UBX_SYNC_CHAR_2, c, i, lo, hi] @ (buf @ rest ! n # rest ! Suc n # drop (n + 2) rest)"
        using ck n by (simp add: build_ubx_frame_eq le_simps)
      then have "bs = build_ubx_frame c i buf @ drop (n + 2) rest"
        using rest unfolding bs by argo
      then have "sublist (build_ubx_frame c i buf) bs" by simp
      with len fits show ?thesis by (simp add: fr received_frame_def n_def)
    qed
  qed
qed

section \<open>The context invariant\<close>

text \<open>
  The payload buffer never holds more than the declared length, which never exceeds the configured
  maximum; when the checksum is tested the buffer holds exactly the declared length, so the loop of
  \<open>verify_checksum\<close> reads inside it.
\<close>

definition ctx_ok :: "u16 \<Rightarrow> parse_context \<Rightarrow> bool" where
  "ctx_ok m c \<longleftrightarrow>
     (case ctx_state c of
        Accumulate_payload \<Rightarrow> length (ctx_payload_buffer c) < unat (hdr_payload_length (ctx_header c))
      | Wait_ck_a \<Rightarrow> length (ctx_payload_buffer c) = unat (hdr_payload_length (ctx_header c))
      | Wait_ck_b \<Rightarrow> length (ctx_payload_buffer c) = unat (hdr_payload_length (ctx_header c))
      | _ \<Rightarrow> ctx_payload_buffer c = [])
     \<and> (ctx_state c \<in> {Accumulate_payload, Wait_ck_a, Wait_ck_b} \<longrightarrow>
          hdr_payload_length (ctx_header c) \<le> m
          \<and> hdr_payload_length (ctx_header c) = frame_length (ctx_len_lo c) (ctx_len_hi c))"

definition parser_ok :: "u16 \<Rightarrow> 'm ubx_parser \<Rightarrow> bool" where
  "parser_ok m p \<longleftrightarrow> p_max_payload_len p = m \<and> ctx_ok m (p_ctx p)"

lemma idle_parser_ok: "idle p \<Longrightarrow> parser_ok (p_max_payload_len p) p"
  by (simp add: parser_ok_def idle_def parse_context_new_def ctx_ok_def)

lemma ctx_ok_new: "ctx_ok m parse_context_new"
  by (simp add: parse_context_new_def ctx_ok_def)

lemma process_byte_parser_ok:
  assumes "parser_ok m p"
  shows "parser_ok m (fst (ubx_process_byte p b))"
proof (cases "ctx_state (p_ctx p)")
  case Wait_len_hi
  then show ?thesis using assms
    by (auto simp: parser_ok_def ctx_ok_def ubx_process_byte_def goto_def Let_def discard_frame_def
        parse_context_new_def frame_length_def unat_gt_0 not_less)
next
  case Accumulate_payload
  then show ?thesis using assms
    by (auto simp: parser_ok_def ctx_ok_def ubx_process_byte_def goto_def Let_def)
next
  case Wait_ck_b
  then show ?thesis using assms
    by (auto simp: parser_ok_def ctx_ok_new ubx_process_byte_def Let_def discard_frame_def
        on_frame_complete_def)
qed (use assms in \<open>auto simp: parser_ok_def ctx_ok_def ubx_process_byte_def goto_def Let_def\<close>)

lemma feed_parser_ok: "parser_ok m p \<Longrightarrow> parser_ok m (fst (ubx_feed p bs))"
  by (rule ubx_machine.feed_invariant [where I = "parser_ok m"]) (rule process_byte_parser_ok)

lemma ctx_ok_buffer: "ctx_ok m c \<Longrightarrow> length (ctx_payload_buffer c) \<le> unat m"
  by (cases "ctx_state c") (auto simp: ctx_ok_def word_le_nat_alt)

section \<open>Properties\<close>

text \<open>Successive calls of \<open>feed\<close>, one per received buffer.\<close>

definition ubx_feed_chunks :: "'m ubx_parser \<Rightarrow> bytes list \<Rightarrow> 'm ubx_parser \<times> 'm ubx_event list" where
  "ubx_feed_chunks p chunks =
     foldl (\<lambda>(st, es) chunk. (fst (ubx_feed st chunk), es @ snd (ubx_feed st chunk))) (p, []) chunks"

definition parser_demo :: "unit ubx_parser" where
  "parser_demo = set_raw_message_callback True (set_error_callback True (ubx_parser_new []))"

lemma idle_demo: "idle parser_demo"
  by (simp add: parser_demo_def idle_def ubx_parser_new_def set_raw_message_callback_def
      set_error_callback_def)

lemma max_demo: "p_max_payload_len parser_demo = 4096"
  by (simp add: parser_demo_def ubx_parser_new_def set_raw_message_callback_def
      set_error_callback_def UBX_SAFE_MAX_PAYLOAD_LEN_def)

text \<open>
  C1 (refinement). Started between frames, the byte-at-a-time parser reports, for any way the stream
  is cut into buffers, exactly the events of the items the reference scanner finds in the whole
  stream, in order, and its two counters advance by the numbers of delivered and rejected frames
  (modulo \<open>2^64\<close>).
\<close>

theorem ubx_feed_refines_scan:
  assumes "idle p"
  shows "snd (ubx_feed_chunks p chunks) =
           concat (map (emit p) (scan (p_max_payload_len p) (concat chunks)))
    \<and> p_frames_decoded (fst (ubx_feed_chunks p chunks)) =
        p_frames_decoded p + of_nat (n_ok (scan (p_max_payload_len p) (concat chunks)))
    \<and> p_frames_discarded (fst (ubx_feed_chunks p chunks)) =
        p_frames_discarded p + of_nat (n_bad (scan (p_max_payload_len p) (concat chunks)))"
  using feed_simulates [OF assms, of "concat chunks"]
  by (simp add: ubx_feed_chunks_def ubx_machine.feed_chunks simulates_def counters_def)

theorem ubx_feed_refines_scan_witness:
  "snd (ubx_feed_chunks parser_demo [[0x24, 0xB5], [0xB5, 0x62, 5, 1], [0, 0, 6, 0x17]]) =
     [Raw_message \<lparr>frame_header = \<lparr>hdr_class = 5, hdr_id = 1, hdr_payload_length = 0\<rparr>,
        frame_payload = [], frame_ck_a = 6, frame_ck_b = 0x17\<rparr>]"
proof -
  have "scan 4096 (concat [[0x24, 0xB5], [0xB5, 0x62, 5, 1], [0, 0, 6, 0x17]]) =
      [Frame_ok \<lparr>frame_header = \<lparr>hdr_class = 5, hdr_id = 1, hdr_payload_length = 0\<rparr>,
        frame_payload = [], frame_ck_a = 6, frame_ck_b = 0x17\<rparr>]"
    by (simp add: scan.simps UBX_SYNC_CHAR_1_def UBX_SYNC_CHAR_2_def frame_length_def
        scan_frame_def received_frame_def compute_checksum_def)
  with ubx_feed_refines_scan [OF idle_demo, of "[[0x24, 0xB5], [0xB5, 0x62, 5, 1], [0, 0, 6, 0x17]]"]
  show ?thesis
    unfolding max_demo
    by (simp add: emit_def ubx_dispatch_def parser_demo_def ubx_parser_new_def registry_find_def
        set_raw_message_callback_def set_error_callback_def)
qed

text \<open>
  C2 (roundtrip). Every frame assembled by \<open>build_ubx_frame\<close> with a payload within the configured
  maximum is delivered, with its class, identity and payload unchanged, wherever it stands in the
  stream: frames interleaved with noise that contains no \<open>0xB5\<close> are all dispatched, in order, and
  nothing else is reported.
\<close>

theorem ubx_built_frames_dispatched:
  assumes "idle p"
    and "\<forall>(noise, c, i, payload) \<in> set items.
      UBX_SYNC_CHAR_1 \<notin> set noise \<and> length payload \<le> unat (p_max_payload_len p)"
  shows "snd (ubx_feed p (concat (map (\<lambda>(noise, c, i, payload). noise @ build_ubx_frame c i payload) items)))
    = concat (map (\<lambda>(noise, c, i, payload). ubx_dispatch p (built_frame c i payload)) items)"
proof -
  have "scan (p_max_payload_len p)
      (concat (map (\<lambda>(noise, c, i, payload). noise @ build_ubx_frame c i payload) items)) =
    map (\<lambda>(noise, c, i, payload). Frame_ok (built_frame c i payload)) items"
    using assms(2)
  proof (induction items)
    case (Cons x items)
    then show ?case by (cases x) (simp add: scan_noises scan_built)
  qed (simp add: scan.simps)
  with feed_simulates [OF assms(1)] show ?thesis
    by (simp add: simulates_def comp_def case_prod_unfold emit_def)
qed

theorem ubx_built_frames_dispatched_witness:
  "snd (ubx_feed parser_demo ([0x24, 0x47] @ build_ubx_frame 1 7 [9] @ [] @ build_ubx_frame 5 1 [0xB5, 0x62]))
    = [Raw_message (built_frame 1 7 [9]), Raw_message (built_frame 5 1 [0xB5, 0x62])]"
  using ubx_built_frames_dispatched [OF idle_demo, of "[([0x24, 0x47], 1, 7, [9]), ([], 5, 1, [0xB5, 0x62])]"]
  by (simp add: max_demo UBX_SYNC_CHAR_1_def)
    (simp add: ubx_dispatch_def parser_demo_def ubx_parser_new_def registry_find_def
      set_raw_message_callback_def set_error_callback_def)

text \<open>
  C3 (safety). No frame is invented: whatever bytes arrive, a frame handed to the raw callback occurs
  verbatim in the stream as a complete, correctly checksummed frame of its class, identity and
  payload, its payload has the length the header declares, and that length is within the
  configured maximum.
\<close>

theorem ubx_reported_frames_received:
  assumes "idle p" and "Raw_message f \<in> set (snd (ubx_feed p bs))"
  shows "sublist (build_ubx_frame (hdr_class (frame_header f)) (hdr_id (frame_header f)) (frame_payload f)) bs
    \<and> length (frame_payload f) = unat (hdr_payload_length (frame_header f))
    \<and> length (frame_payload f) \<le> unat (p_max_payload_len p)"
proof -
  from assms feed_simulates [OF assms(1), of bs]
  obtain item where item: "item \<in> set (scan (p_max_payload_len p) bs)" "Raw_message f \<in> set (emit p item)"
    by (auto simp: simulates_def)
  from item(2) have "item = Frame_ok f"
    by (auto simp: emit_def ubx_dispatch_def ubx_dispatch_error_def split: scan_item.splits
        option.splits if_splits)
  with item(1) scan_sound show ?thesis by blast
qed

theorem ubx_reported_frames_received_witness:
  "sublist (build_ubx_frame 5 1 []) [0x24, 0xB5, 0x62, 5, 1, 0, 0, 6, 0x17]"
proof -
  have "Raw_message \<lparr>frame_header = \<lparr>hdr_class = 5, hdr_id = 1, hdr_payload_length = 0\<rparr>,
        frame_payload = [], frame_ck_a = 6, frame_ck_b = 0x17\<rparr>
      \<in> set (snd (ubx_feed parser_demo [0x24, 0xB5, 0x62, 5, 1, 0, 0, 6, 0x17]))"
    using feed_simulates [OF idle_demo, of "[0x24, 0xB5, 0x62, 5, 1, 0, 0, 6, 0x17]"]
    unfolding simulates_def max_demo
    by (simp add: scan.simps UBX_SYNC_CHAR_1_def UBX_SYNC_CHAR_2_def frame_length_def
        scan_frame_def received_frame_def compute_checksum_def emit_def ubx_dispatch_def
        parser_demo_def set_raw_message_callback_def set_error_callback_def ubx_parser_new_def)
  from ubx_reported_frames_received [OF idle_demo this] show ?thesis by simp
qed

text \<open>
  C4 (error). A transmission error confined to one payload byte never gets a frame accepted: the
  frame is discarded with one checksum error, the discard counter advances, and parsing of what
  follows is not disturbed.
\<close>

theorem ubx_corrupted_byte_rejected:
  assumes "idle p" and "d' \<noteq> d" and "length (xs @ d # ys) \<le> unat (p_max_payload_len p)"
  shows "ubx_feed p ((build_ubx_frame c i (xs @ d # ys))[6 + length xs := d'] @ rest) =
     (fst (ubx_feed (discarded p) rest),
      ubx_dispatch_error p (mismatch_info c i) @ snd (ubx_feed (discarded p) rest))"
proof -
  define sent where "sent = build_ubx_frame c i (xs @ d # ys)"
  define len where "len = (of_nat (length (xs @ d # ys)) :: u16)"
  define hdr where "hdr = [c, i, ucast len, ucast (drop_bit 8 len)]"
  define ck where "ck = compute_checksum (hdr @ xs @ d # ys)"
  have small: "length (xs @ d # ys) < 65536"
    using assms(3) unat_u16_less [of "p_max_payload_len p"] by linarith
  then have "unat len = length (xs @ d # ys)"
    unfolding len_def by (rule unat_of_nat_u16)
  then have n: "unat (frame_length (ucast len) (ucast (drop_bit 8 len))) = length (xs @ d' # ys)"
    by (simp add: frame_length_read le_simps)
  have "sent = [UBX_SYNC_CHAR_1, UBX_SYNC_CHAR_2, c, i, ucast len, ucast (drop_bit 8 len)]
      @ (xs @ d # ys @ [fst ck, snd ck])"
    unfolding sent_def using small by (subst build_ubx_frame_eq) (simp_all add: len_def ck_def hdr_def)
  then have recv: "sent[6 + length xs := d'] @ rest =
      [UBX_SYNC_CHAR_1, UBX_SYNC_CHAR_2, c, i, ucast len, ucast (drop_bit 8 len)]
      @ ((xs @ d' # ys) @ fst ck # snd ck # rest)"
    by (simp add: list_update_append)
  have "fst (compute_checksum (hdr @ xs @ d' # ys)) \<noteq> fst ck"
    using checksum_single_byte [OF assms(2), of "hdr @ xs" ys] by (simp add: ck_def)
  then have bad: "compute_checksum (hdr @ xs @ d' # ys) \<noteq> (fst ck, snd ck)" by auto
  have "\<not> p_max_payload_len p < frame_length (ucast len) (ucast (drop_bit 8 len))"
    using n assms(3) by (simp add: word_less_nat_alt)
  then show ?thesis
    unfolding sent_def [symmetric] recv using bad n
    by (subst feed_header [OF assms(1)], simp, subst append_Cons [symmetric],
        subst append.assoc [symmetric], subst feed_payload)
      (simp_all add: feed_trailer hdr_def)
qed

theorem ubx_corrupted_byte_rejected_witness:
  "snd (ubx_feed parser_demo ((build_ubx_frame 5 1 [6, 1])[7 := 0x42])) =
     [Error_callback (mismatch_info 5 1)]"
  using ubx_corrupted_byte_rejected [OF idle_demo, where d' = "0x42" and d = 1 and xs = "[6]"
      and ys = "[]" and c = 5 and i = 1 and rest = "[]"]
  by (simp add: max_demo ubx_feed.simps)
    (simp add: ubx_dispatch_error_def parser_demo_def set_raw_message_callback_def set_error_callback_def)

text \<open>
  C5 (bounds). Whatever is received, the payload buffer never holds more bytes than the configured
  maximum, and when a checksum byte is awaited the buffer holds exactly the declared payload, so
  the checksum loop stays inside it.
\<close>

theorem ubx_payload_buffer_bounded:
  assumes "idle p" and "c = p_ctx (fst (ubx_feed p bs))"
  shows "length (ctx_payload_buffer c) \<le> unat (p_max_payload_len p)
    \<and> (ctx_state c \<in> {Wait_ck_a, Wait_ck_b} \<longrightarrow>
         length (ctx_payload_buffer c) = unat (hdr_payload_length (ctx_header c)))"
proof -
  from feed_parser_ok [OF idle_parser_ok [OF assms(1)], of bs]
  have "ctx_ok (p_max_payload_len p) c" by (simp add: parser_ok_def assms(2))
  then show ?thesis by (auto simp: ctx_ok_buffer) (auto simp: ctx_ok_def)
qed

theorem ubx_payload_buffer_bounded_witness:
  "length (ctx_payload_buffer (p_ctx (fst (ubx_feed parser_demo [0xB5, 0x62, 1, 7, 92, 0, 1, 2, 3])))) \<le> 4096"
  using ubx_payload_buffer_bounded [OF idle_demo refl] by (simp add: max_demo)

text \<open>
  A header that declares more than the configured maximum is rejected as soon as its
  length is known: one \<open>payload_too_large\<close> report with the header's class and identity, the discard
  counter advanced, nothing buffered, and the parser is back to scanning at the next byte.
\<close>

theorem ubx_oversized_header_rejected:
  assumes "idle p" and "unat (p_max_payload_len p) < unat (frame_length lo hi)"
  shows "ubx_feed p [0xB5, 0x62, c, i, lo, hi] =
     (p\<lparr>p_frames_discarded := p_frames_discarded p + 1\<rparr>,
      if p_error_cb p
      then [Error_callback \<lparr>err_code = Payload_too_large, err_class = c, err_id = i,
              err_description = ''payload length exceeds configured maximum''\<rparr>]
      else [])"
proof -
  have "p_max_payload_len p < frame_length lo hi" using assms(2) by (simp add: word_less_nat_alt)
  moreover have "discarded p = p\<lparr>p_frames_discarded := p_frames_discarded p + 1\<rparr>"
    using assms(1) by (cases p) (simp add: discarded_def idle_def)
  ultimately show ?thesis
    using feed_header [OF assms(1), of c i lo hi "[]"]
    by (simp add: UBX_SYNC_CHAR_1_def UBX_SYNC_CHAR_2_def ubx_feed.simps ubx_dispatch_error_def
        too_large_info_def)
qed

theorem ubx_oversized_header_rejected_witness:
  "p_frames_discarded (fst (ubx_feed parser_demo [0xB5, 0x62, 1, 7, 0xFF, 0xFF])) = 1"
proof -
  have "unat (p_max_payload_len parser_demo) < unat (frame_length 0xFF 0xFF)"
    by (simp add: max_demo frame_length_def)
  from ubx_oversized_header_rejected [OF idle_demo this, of 1 7] show ?thesis
    by (simp add: parser_demo_def set_raw_message_callback_def set_error_callback_def ubx_parser_new_def)
qed

text \<open>
  What one received frame fires: the decoder registered for its class and identity
  (the last one registered for the pair) is called first; then, whether or not there is a decoder
  and whether or not it accepted the payload, the raw callback.
\<close>

theorem ubx_dispatch_order:
  assumes "idle p" and "length payload \<le> unat (p_max_payload_len p)" and "p_raw_cb p"
    and "p_registry p = register_decoder (Some d) reg" and "dec_class d = c" and "dec_id d = i"
  shows "snd (ubx_feed p (build_ubx_frame c i payload)) =
     (case dec_decode d (built_frame c i payload) of
        None \<Rightarrow> [Raw_message (built_frame c i payload)]
      | Some m \<Rightarrow> [Decoder_callback m, Raw_message (built_frame c i payload)])"
  using feed_one_built [OF assms(1,2)] assms(3-6)
  by (simp add: ubx_dispatch_def registry_find_register built_frame_def Let_def split: option.split)

theorem ubx_dispatch_order_witness:
  "let d = \<lparr>dec_class = 5, dec_id = 1, dec_decode = \<lambda>f. Some (length (frame_payload f))\<rparr>;
       p = set_raw_message_callback True (ubx_parser_new (register_decoder (Some d) []))
   in snd (ubx_feed p (build_ubx_frame 5 1 [6, 1])) =
        [Decoder_callback 2, Raw_message (built_frame 5 1 [6, 1])]"
proof -
  define d :: "nat i_message_decoder" where
    "d = \<lparr>dec_class = 5, dec_id = 1, dec_decode = \<lambda>f. Some (length (frame_payload f))\<rparr>"
  define p where "p = set_raw_message_callback True (ubx_parser_new (register_decoder (Some d) []))"
  have "idle p" "length [6 :: u8, 1] \<le> unat (p_max_payload_len p)" "p_raw_cb p"
    "p_registry p = register_decoder (Some d) []" "dec_class d = 5" "dec_id d = 1"
    by (simp_all add: p_def d_def set_raw_message_callback_def idle_def ubx_parser_new_def
        UBX_SAFE_MAX_PAYLOAD_LEN_def)
  from ubx_dispatch_order [OF this] show ?thesis
    by (simp add: p_def d_def built_frame_def Let_def)
qed

end
