(* ===== verification/Ubx_Byte_Reader.thy ===== *)
theory Ubx_Byte_Reader
  imports Ubx_Protocol
begin

text \<open>
  The bounds-checked cursor of \<open>ext_libs/ubx_parser/src/internal/byte_reader.h\<close> every decoder
  reads a payload with. A read that fails returns \<open>None\<close> and so leaves the caller with the
  reader it had (the strong guarantee the header promises); a read that succeeds returns the
  value and the advanced reader. The second half derives, for each read, what it does on a
  reader whose remaining bytes are known, which is how decoders are evaluated and proved.
\<close>

section \<open>The cursor\<close>

record byte_reader =
  rd_data :: bytes
  rd_length :: nat
  rd_pos :: nat

definition byte_reader_new :: "bytes \<Rightarrow> byte_reader" where
  "byte_reader_new vec = \<lparr>rd_data = vec, rd_length = length vec, rd_pos = 0\<rparr>"

definition remaining :: "byte_reader \<Rightarrow> nat" where
  "remaining r = rd_length r - rd_pos r"

definition position :: "byte_reader \<Rightarrow> nat" where
  "position r = rd_pos r"

text \<open>\<open>data_[pos_ + k]\<close>; every use is guarded by a check of \<open>remaining\<close>.\<close>

definition rd_at :: "byte_reader \<Rightarrow> nat \<Rightarrow> u8" where
  "rd_at r k = rd_data r ! (rd_pos r + k)"

definition rd_advance :: "nat \<Rightarrow> byte_reader \<Rightarrow> byte_reader" where
  "rd_advance n r = r\<lparr>rd_pos := rd_pos r + n\<rparr>"

definition rd_u8 :: "byte_reader \<Rightarrow> (u8 \<times> byte_reader) option" where
  "rd_u8 r = (if remaining r < 1 then None else Some (rd_at r 0, rd_advance 1 r))"

definition rd_le16 :: "byte_reader \<Rightarrow> (u16 \<times> byte_reader) option" where
  "rd_le16 r =
     (if remaining r < 2 then None
      else Some (ucast (rd_at r 0) OR push_bit 8 (ucast (rd_at r 1)), rd_advance 2 r))"

definition rd_le32 :: "byte_reader \<Rightarrow> (u32 \<times> byte_reader) option" where
  "rd_le32 r =
     (if remaining r < 4 then None
      else Some (ucast (rd_at r 0) OR push_bit 8 (ucast (rd_at r 1))
                   OR push_bit 16 (ucast (rd_at r 2)) OR push_bit 24 (ucast (rd_at r 3)),
                 rd_advance 4 r))"

definition rd_le32s :: "byte_reader \<Rightarrow> (i32 \<times> byte_reader) option" where
  "rd_le32s r = (case rd_le32 r of None \<Rightarrow> None | Some (tmp, r') \<Rightarrow> Some (tmp, r'))"

definition rd_le64 :: "byte_reader \<Rightarrow> (u64 \<times> byte_reader) option" where
  "rd_le64 r =
     (if remaining r < 8 then None
      else Some (foldl (\<lambda>out i. out OR push_bit (8 * i) (ucast (rd_at r i))) 0 [0..<8],
                 rd_advance 8 r))"

definition rd_le16s :: "byte_reader \<Rightarrow> (i16 \<times> byte_reader) option" where
  "rd_le16s r = (case rd_le16 r of None \<Rightarrow> None | Some (tmp, r') \<Rightarrow> Some (tmp, r'))"

definition rd_skip :: "nat \<Rightarrow> byte_reader \<Rightarrow> byte_reader option" where
  "rd_skip n r = (if remaining r < n then None else Some (rd_advance n r))"

section \<open>Well-formed cursors\<close>

text \<open>
  The invariant of the class: the recorded length is the length of the data and the cursor
  never passes it, so that \<open>length_ - pos_\<close> does not wrap around and no read is out of range.
\<close>

definition rd_wf :: "byte_reader \<Rightarrow> bool" where
  "rd_wf r \<longleftrightarrow> rd_length r = length (rd_data r) \<and> rd_pos r \<le> rd_length r"

text \<open>The bytes not read yet.\<close>

definition rest :: "byte_reader \<Rightarrow> bytes" where
  "rest r = drop (rd_pos r) (rd_data r)"

lemma rd_wf_new [simp]: "rd_wf (byte_reader_new vec)"
  by (simp add: rd_wf_def byte_reader_new_def)

lemma rest_new [simp]: "rest (byte_reader_new vec) = vec"
  by (simp add: rest_def byte_reader_new_def)

lemma remaining_rest: "rd_wf r \<Longrightarrow> remaining r = length (rest r)"
  by (simp add: rd_wf_def remaining_def rest_def)

lemma rd_at_rest: "rd_wf r \<Longrightarrow> rd_at r k = rest r ! k"
  by (simp add: rd_wf_def rd_at_def rest_def)

lemma rd_wf_advance: "rd_wf r \<Longrightarrow> n \<le> length (rest r) \<Longrightarrow> rd_wf (rd_advance n r)"
  by (auto simp: rd_wf_def rd_advance_def rest_def)

lemma rest_advance: "rest (rd_advance n r) = drop n (rest r)"
  by (simp add: rest_def rd_advance_def add.commute)

lemmas rd_defs = rd_u8_def rd_le16_def rd_le32_def rd_le32s_def rd_le64_def rd_le16s_def rd_skip_def

text \<open>
  Every successful read keeps the invariant and consumes exactly its width from the front of
  the remaining bytes.
\<close>

lemma rd_u8_Some:
  "rd_wf r \<Longrightarrow> rd_u8 r = Some (v, r') \<Longrightarrow> rd_wf r' \<and> rest r = v # rest r'"
  by (cases "rest r")
    (auto simp: rd_u8_def remaining_rest rd_at_rest rest_advance rd_wf_advance split: if_splits)

lemma rd_skip_Some:
  "rd_wf r \<Longrightarrow> rd_skip n r = Some r' \<Longrightarrow> rd_wf r' \<and> rest r' = drop n (rest r) \<and> n \<le> length (rest r)"
  by (auto simp: rd_skip_def remaining_rest rest_advance rd_wf_advance split: if_splits)

lemma rd_le64_eq:
  "8 \<le> remaining r \<Longrightarrow>
     rd_le64 r = Some (read_le64 [rd_at r 0, rd_at r 1, rd_at r 2, rd_at r 3, rd_at r 4, rd_at r 5,
       rd_at r 6, rd_at r 7], rd_advance 8 r)"
  by (simp add: rd_le64_def read_le64_bytes or.assoc numeral_eq_Suc)

text \<open>
  The failure condition of each read is exactly that too few bytes remain; a read that succeeds
  leaves the width fewer.
\<close>

lemma remaining_advance [simp]: "remaining (rd_advance n r) = remaining r - n"
  by (simp add: remaining_def rd_advance_def)

lemma remaining_new [simp]: "remaining (byte_reader_new vec) = length vec"
  by (simp add: remaining_def byte_reader_new_def)

lemma rd_le16s_eq: "rd_le16s = rd_le16" and rd_le32s_eq: "rd_le32s = rd_le32"
  by (auto simp: rd_le16s_def rd_le32s_def fun_eq_iff split: option.splits)

lemmas rd_total = rd_u8_def rd_le16_def rd_le32_def rd_le16s_eq rd_le32s_eq rd_skip_def rd_le64_eq

section \<open>Reading from a known position\<close>

text \<open>
  \<open>reader_mk p q\<close> is the reader that has consumed \<open>p\<close> and has \<open>q\<close> left. Every well-formed reader
  has this form, and on it each read is an unconditional rewrite.
\<close>

definition reader_mk :: "bytes \<Rightarrow> bytes \<Rightarrow> byte_reader" where
  "reader_mk p q = \<lparr>rd_data = p @ q, rd_length = length p + length q, rd_pos = length p\<rparr>"

lemma byte_reader_new_mk: "byte_reader_new vec = reader_mk [] vec"
  by (simp add: byte_reader_new_def reader_mk_def)

lemma rd_wf_mk: "rd_wf r \<Longrightarrow> r = reader_mk (take (rd_pos r) (rd_data r)) (rest r)"
  by (cases r) (auto simp: rd_wf_def reader_mk_def rest_def)

lemma rest_mk [simp]: "rest (reader_mk p q) = q"
  by (simp add: rest_def reader_mk_def)

lemma remaining_mk [simp]: "remaining (reader_mk p q) = length q"
  by (simp add: remaining_def reader_mk_def)

lemma rd_at_mk [simp]: "rd_at (reader_mk p q) k = q ! k"
  by (simp add: rd_at_def reader_mk_def nth_append)

lemma rd_advance_mk: "length x = n \<Longrightarrow> rd_advance n (reader_mk p (x @ q)) = reader_mk (p @ x) q"
  by (auto simp: rd_advance_def reader_mk_def)

lemma rd_u8_mk: "rd_u8 (reader_mk p (a # q)) = Some (a, reader_mk (p @ [a]) q)"
  using rd_advance_mk [of "[a]" 1 p q] by (simp add: rd_u8_def)

lemma rd_le16_mk: "rd_le16 (reader_mk p (a # b # q)) = Some (read_le16 a b, reader_mk (p @ [a, b]) q)"
  using rd_advance_mk [of "[a, b]" 2 p q] by (simp add: rd_le16_def read_le16_def)

lemma rd_le32_mk:
  "rd_le32 (reader_mk p (a # b # c # d # q)) =
     Some (read_le32 a b c d, reader_mk (p @ [a, b, c, d]) q)"
  using rd_advance_mk [of "[a, b, c, d]" 4 p q]
  by (simp add: rd_le32_def read_le32_def eval_nat_numeral)

lemma rd_le64_mk:
  "rd_le64 (reader_mk p (a # b # c # d # e # f # g # h # q)) =
     Some (read_le64 [a, b, c, d, e, f, g, h], reader_mk (p @ [a, b, c, d, e, f, g, h]) q)"
  using rd_advance_mk [of "[a, b, c, d, e, f, g, h]" 8 p q]
    rd_le64_eq [of "reader_mk p (a # b # c # d # e # f # g # h # q)"]
  by (simp add: eval_nat_numeral)

lemma rd_skip_mk [reader_simps]:
  "length x = n \<Longrightarrow> rd_skip n (reader_mk p (x @ q)) = Some (reader_mk (p @ x) q)"
  by (simp add: rd_skip_def rd_advance_mk)

text \<open>
  A field codec pairs a read with the bytes a value is stored as: reading the stored bytes gives
  the value back and stops right after them, a read never succeeds on anything else, and it
  fails exactly when fewer bytes than its width are left.
\<close>

locale field_codec =
  fixes rd :: "byte_reader \<Rightarrow> ('a \<times> byte_reader) option"
    and enc :: "'a \<Rightarrow> bytes"
    and width :: nat
  assumes rd_enc: "rd (reader_mk p (enc x @ q)) = Some (x, reader_mk (p @ enc x) q)"
    and enc_width: "length (enc x) = width"
    and rd_short: "length q < width \<Longrightarrow> rd (reader_mk p q) = None"
    and rd_onto: "length q = width \<Longrightarrow> \<exists>x. enc x = q"
begin

lemma rd_enough:
  assumes "width \<le> length q"
  obtains x q' where "q = enc x @ q'" "rd (reader_mk p q) = Some (x, reader_mk (p @ enc x) q')"
proof -
  from assms have "length (take width q) = width" by simp
  then obtain x where "enc x = take width q" using rd_onto by blast
  then have "q = enc x @ drop width q" by simp
  with rd_enc [of p x "drop width q"] that show thesis by metis
qed

lemma rd_Some:
  assumes "rd (reader_mk p q) = Some (x, r)"
  obtains q' where "q = enc x @ q'" "r = reader_mk (p @ enc x) q'"
proof -
  from assms have "width \<le> length q" using rd_short [of q p] by force
  then obtain y q' where "q = enc y @ q'" "rd (reader_mk p q) = Some (y, reader_mk (p @ enc y) q')"
    by (rule rd_enough)
  with assms that show thesis by simp
qed

lemma enc_inject: "enc x = enc y \<Longrightarrow> x = y"
  using rd_enc [of "[]" x "[]"] rd_enc [of "[]" y "[]"] by simp

end

lemma length_eqD:
  "length q = 2 \<Longrightarrow> \<exists>a b. q = [a, b]"
  "length q = 4 \<Longrightarrow> \<exists>a b c d. q = [a, b, c, d]"
  "length q = 8 \<Longrightarrow> \<exists>a b c d e f g h. q = [a, b, c, d, e, f, g, h]"
  by (auto simp: numeral_eq_Suc length_Suc_conv)

interpretation u8: field_codec rd_u8 "write_u8 []" 1
proof
  show "length q = 1 \<Longrightarrow> \<exists>x. write_u8 [] x = q" for q
    by (auto simp: write_u8_def length_Suc_conv)
qed (simp_all add: rd_u8_mk write_u8_def, simp add: rd_u8_def)

interpretation le16: field_codec rd_le16 "write_le16 []" 2
proof
  show "\<exists>x. write_le16 [] x = q" if "length q = 2" for q
  proof -
    from length_eqD(1) [OF that] obtain a b where "q = [a, b]" by blast
    then have "write_le16 [] (read_le16 a b) = q" by (simp add: write_le16_bytes le_simps)
    then show ?thesis ..
  qed
qed (simp_all add: rd_le16_mk write_le16_bytes le_simps, simp add: rd_le16_def)

interpretation le32: field_codec rd_le32 "write_le32 []" 4
proof
  show "\<exists>x. write_le32 [] x = q" if "length q = 4" for q
  proof -
    from length_eqD(2) [OF that] obtain a b c d where "q = [a, b, c, d]" by blast
    then have "write_le32 [] (read_le32 a b c d) = q" by (simp add: write_le32_bytes le_simps)
    then show ?thesis ..
  qed
qed (simp_all add: rd_le32_mk write_le32_bytes le_simps, simp add: rd_le32_def)

interpretation le64: field_codec rd_le64 "write_le64 []" 8
proof
  show "\<exists>x. write_le64 [] x = q" if "length q = 8" for q
  proof -
    from length_eqD(3) [OF that] obtain a b c d e f g h where "q = [a, b, c, d, e, f, g, h]"
      by blast
    then have "write_le64 [] (read_le64 [a, b, c, d, e, f, g, h]) = q"
      by (simp add: write_le64_bytes le_simps)
    then show ?thesis ..
  qed
qed (simp_all add: rd_le64_mk write_le64_bytes le_simps, simp add: rd_le64_def)

declare u8.rd_enc [reader_simps] le16.rd_enc [reader_simps] le32.rd_enc [reader_simps]
  le64.rd_enc [reader_simps]

text \<open>The signed reads are the unsigned ones on the same bits.\<close>

interpretation le16s: field_codec rd_le16s "write_le16 []" 2
  by (unfold rd_le16s_eq) (rule le16.field_codec_axioms)

interpretation le32s: field_codec rd_le32s "write_le32 []" 4
  by (unfold rd_le32s_eq) (rule le32.field_codec_axioms)

declare le16s.rd_enc [reader_simps] le32s.rd_enc [reader_simps]

section \<open>Loops over repeated blocks\<close>

text \<open>
  \<open>for (i = 0; i < n; ++i) { if (!read block) return false; push_back }\<close>, as the decoders with
  repeated blocks have it.
\<close>

fun rd_repeat :: "nat \<Rightarrow> (byte_reader \<Rightarrow> ('a \<times> byte_reader) option) \<Rightarrow> byte_reader
    \<Rightarrow> ('a list \<times> byte_reader) option" where
  "rd_repeat 0 rd r = Some ([], r)"
| "rd_repeat (Suc n) rd r =
     (case rd r of None \<Rightarrow> None
      | Some (x, r') \<Rightarrow>
          (case rd_repeat n rd r' of None \<Rightarrow> None | Some (xs, r'') \<Rightarrow> Some (x # xs, r'')))"

lemma rd_repeat_length: "rd_repeat n rd r = Some (xs, r') \<Longrightarrow> length xs = n"
  by (induction n arbitrary: r xs) (auto split: option.splits)

context field_codec
begin

lemma rd_repeat_enc:
  "length xs = n \<Longrightarrow>
   rd_repeat n rd (reader_mk p (concat (map enc xs) @ q)) =
     Some (xs, reader_mk (p @ concat (map enc xs)) q)"
  by (induction xs arbitrary: p n) (auto simp: rd_enc)

lemma length_concat_enc: "length (concat (map enc xs)) = width * length xs"
  by (induction xs) (simp_all add: enc_width)

lemma rd_repeat_enough:
  assumes "n * width \<le> length q"
  shows "\<exists>xs q'. q = concat (map enc xs) @ q' \<and> length xs = n
    \<and> rd_repeat n rd (reader_mk p q) = Some (xs, reader_mk (p @ concat (map enc xs)) q')"
  using assms
proof (induction n arbitrary: p q)
  case 0
  then show ?case by simp
next
  case (Suc n)
  from Suc.prems have "width \<le> length q" by simp
  then obtain x q1 where x: "q = enc x @ q1" "rd (reader_mk p q) = Some (x, reader_mk (p @ enc x) q1)"
    by (rule rd_enough)
  with Suc.prems have "n * width \<le> length q1" by (simp add: enc_width)
  from Suc.IH [OF this, of "p @ enc x"] obtain xs q' where
    "q1 = concat (map enc xs) @ q'" "length xs = n"
    "rd_repeat n rd (reader_mk (p @ enc x) q1) =
       Some (xs, reader_mk ((p @ enc x) @ concat (map enc xs)) q')"
    by blast
  with x have "q = concat (map enc (x # xs)) @ q'" "length (x # xs) = Suc n"
    "rd_repeat (Suc n) rd (reader_mk p q) =
       Some (x # xs, reader_mk (p @ concat (map enc (x # xs))) q')"
    by simp_all
  then show ?case by blast
qed

end

section \<open>Reading by offset\<close>

text \<open>
  The interface description gives the fields of a payload by byte offset. \<open>reader_at p n\<close> is the
  cursor over \<open>p\<close> at offset \<open>n\<close>; a positional field pairs a read with the function of the payload
  and the offset it computes.
\<close>

definition reader_at :: "bytes \<Rightarrow> nat \<Rightarrow> byte_reader" where
  "reader_at p n = \<lparr>rd_data = p, rd_length = length p, rd_pos = n\<rparr>"

definition le16_at :: "bytes \<Rightarrow> nat \<Rightarrow> u16" where
  "le16_at p k = read_le16 (p ! k) (p ! (k + 1))"

definition le32_at :: "bytes \<Rightarrow> nat \<Rightarrow> u32" where
  "le32_at p k = read_le32 (p ! k) (p ! (k + 1)) (p ! (k + 2)) (p ! (k + 3))"

lemma reader_at_new: "byte_reader_new p = reader_at p 0"
  by (simp add: byte_reader_new_def reader_at_def)

lemma remaining_at [simp]: "remaining (reader_at p n) = length p - n"
  by (simp add: remaining_def reader_at_def)

lemma rd_at_at [simp]: "rd_at (reader_at p n) k = p ! (n + k)"
  by (simp add: rd_at_def reader_at_def)

lemma rd_advance_at [simp]: "rd_advance w (reader_at p n) = reader_at p (n + w)"
  by (simp add: rd_advance_def reader_at_def)

locale field_at =
  fixes rd :: "byte_reader \<Rightarrow> ('a \<times> byte_reader) option"
    and val :: "bytes \<Rightarrow> nat \<Rightarrow> 'a"
    and width :: nat
  assumes rd_at: "n + width \<le> length p \<Longrightarrow> rd (reader_at p n) = Some (val p n, reader_at p (n + width))"
begin

lemma repeat_at:
  "n + k * width \<le> length p \<Longrightarrow>
   rd_repeat k rd (reader_at p n) =
     Some (map (\<lambda>i. val p (n + i * width)) [0..<k], reader_at p (n + k * width))"
proof (induction k arbitrary: n)
  case 0
  then show ?case by simp
next
  case (Suc k)
  have "[0..<Suc k] = 0 # map Suc [0..<k]" by (simp add: upt_conv_Cons map_Suc_upt del: upt_Suc)
  with Suc.IH [of "n + width"] Suc.prems rd_at [of n p] show ?case
    by (simp add: add.assoc o_def del: upt_Suc)
qed

end

interpretation u8: field_at rd_u8 "\<lambda>p n. p ! n" 1
  by unfold_locales (simp add: rd_u8_def)

interpretation le16: field_at rd_le16 le16_at 2
  by unfold_locales (simp add: rd_le16_def le16_at_def read_le16_def)

interpretation le16s: field_at rd_le16s le16_at 2
  by (unfold rd_le16s_eq) (rule le16.field_at_axioms)

interpretation le32: field_at rd_le32 le32_at 4
  by unfold_locales (simp add: rd_le32_def le32_at_def read_le32_def)

interpretation le32s: field_at rd_le32s le32_at 4
  by (unfold rd_le32s_eq) (rule le32.field_at_axioms)

declare u8.rd_at [at_simps] le16.rd_at [at_simps] le16s.rd_at [at_simps] le32.rd_at [at_simps]
  le32s.rd_at [at_simps]

lemma rd_skip_at [at_simps]: "n + w \<le> length p \<Longrightarrow> rd_skip w (reader_at p n) = Some (reader_at p (n + w))"
  by (simp add: rd_skip_def)

end
