(* ===== verification/Ubx_Messages.thy ===== *)
theory Ubx_Messages
  imports Ubx_Parser Ubx_Byte_Reader
begin

text \<open>
  The decoded UBX messages: the structs of \<open>ext_libs/ubx_parser/include/messages/*.h\<close>, one record
  each with the members of the struct in its order (prefixed with the message's name), and the
  class and ID constants of \<open>ubx_types.h\<close>. An \<open>enum class : uint8_t\<close> a decoder casts a byte to
  keeps every value of the byte, so it is the byte. A fixed C array is a list of its length; a
  \<open>std::vector\<close> a list.
\<close>

section \<open>Frames as the parser hands them over\<close>

text \<open>The declared length of a received frame is the length of its payload.\<close>

definition frame_ok :: "ubx_frame \<Rightarrow> bool" where
  "frame_ok frame \<longleftrightarrow> unat (hdr_payload_length (frame_header frame)) = length (frame_payload frame)"

lemma frame_ok_length:
  assumes "frame_ok frame" and "frame_payload frame = p"
  shows "hdr_payload_length (frame_header frame) = n \<longleftrightarrow> length p = unat n"
    and "hdr_payload_length (frame_header frame) < n \<longleftrightarrow> length p < unat n"
    and "unat (hdr_payload_length (frame_header frame)) = length p"
    and "frame_payload frame = p"
  using assms by (auto simp: frame_ok_def word_unat_eq_iff word_less_nat_alt)

section \<open>Class, ID and protocol constants\<close>

definition UBX_CLASS_NAV :: u8 where [ubx_consts]: "UBX_CLASS_NAV = 0x01"
definition UBX_CLASS_INF :: u8 where [ubx_consts]: "UBX_CLASS_INF = 0x04"
definition UBX_CLASS_ACK :: u8 where [ubx_consts]: "UBX_CLASS_ACK = 0x05"
definition UBX_CLASS_CFG :: u8 where [ubx_consts]: "UBX_CLASS_CFG = 0x06"
definition UBX_CLASS_MON :: u8 where [ubx_consts]: "UBX_CLASS_MON = 0x0A"
definition UBX_CLASS_TIM :: u8 where [ubx_consts]: "UBX_CLASS_TIM = 0x0D"
definition UBX_CLASS_ESF :: u8 where [ubx_consts]: "UBX_CLASS_ESF = 0x10"
definition UBX_CLASS_SEC :: u8 where [ubx_consts]: "UBX_CLASS_SEC = 0x27"
definition UBX_CLASS_NAV2 :: u8 where [ubx_consts]: "UBX_CLASS_NAV2 = 0x29"
definition UBX_ID_NAV_STATUS :: u8 where [ubx_consts]: "UBX_ID_NAV_STATUS = 0x03"
definition UBX_ID_NAV_DOP :: u8 where [ubx_consts]: "UBX_ID_NAV_DOP = 0x04"
definition UBX_ID_NAV_ATT :: u8 where [ubx_consts]: "UBX_ID_NAV_ATT = 0x05"
definition UBX_ID_NAV_PVT :: u8 where [ubx_consts]: "UBX_ID_NAV_PVT = 0x07"
definition UBX_ID_NAV_ODO :: u8 where [ubx_consts]: "UBX_ID_NAV_ODO = 0x09"
definition UBX_ID_NAV_CLOCK :: u8 where [ubx_consts]: "UBX_ID_NAV_CLOCK = 0x22"
definition UBX_ID_NAV_TIMEGPS :: u8 where [ubx_consts]: "UBX_ID_NAV_TIMEGPS = 0x20"
definition UBX_ID_NAV_TIMEUTC :: u8 where [ubx_consts]: "UBX_ID_NAV_TIMEUTC = 0x21"
definition UBX_ID_NAV_SAT :: u8 where [ubx_consts]: "UBX_ID_NAV_SAT = 0x35"
definition UBX_ID_NAV_EELL :: u8 where [ubx_consts]: "UBX_ID_NAV_EELL = 0x3D"
definition UBX_ID_NAV_SIG :: u8 where [ubx_consts]: "UBX_ID_NAV_SIG = 0x43"
definition UBX_ID_ACK_NACK :: u8 where [ubx_consts]: "UBX_ID_ACK_NACK = 0x00"
definition UBX_ID_ACK_ACK :: u8 where [ubx_consts]: "UBX_ID_ACK_ACK = 0x01"
definition UBX_ID_INF_ERROR :: u8 where [ubx_consts]: "UBX_ID_INF_ERROR = 0x00"
definition UBX_ID_INF_WARNING :: u8 where [ubx_consts]: "UBX_ID_INF_WARNING = 0x01"
definition UBX_ID_INF_NOTICE :: u8 where [ubx_consts]: "UBX_ID_INF_NOTICE = 0x02"
definition UBX_ID_INF_TEST :: u8 where [ubx_consts]: "UBX_ID_INF_TEST = 0x03"
definition UBX_ID_INF_DEBUG :: u8 where [ubx_consts]: "UBX_ID_INF_DEBUG = 0x04"
definition UBX_ID_CFG_VALSET :: u8 where [ubx_consts]: "UBX_ID_CFG_VALSET = 0x8A"
definition UBX_ID_CFG_VALGET :: u8 where [ubx_consts]: "UBX_ID_CFG_VALGET = 0x8B"
definition UBX_VALSET_VERSION :: u8 where [ubx_consts]: "UBX_VALSET_VERSION = 0x00"
definition UBX_VALGET_VERSION_POLL :: u8 where [ubx_consts]: "UBX_VALGET_VERSION_POLL = 0x00"
definition UBX_VALGET_VERSION_RESP :: u8 where [ubx_consts]: "UBX_VALGET_VERSION_RESP = 0x01"
definition UBX_CLASS_CFG_RST :: u8 where [ubx_consts]: "UBX_CLASS_CFG_RST = 0x06"
definition UBX_ID_CFG_RST :: u8 where [ubx_consts]: "UBX_ID_CFG_RST = 0x04"
definition CFG_RST_MODE_CTRL_SW :: u8 where [ubx_consts]: "CFG_RST_MODE_CTRL_SW = 0x01"
definition CFG_RST_MODE_CTRL_SW_GNSS_ONLY :: u8 where [ubx_consts]: "CFG_RST_MODE_CTRL_SW_GNSS_ONLY = 0x02"
definition CFG_RST_MODE_CTRL_STOP :: u8 where [ubx_consts]: "CFG_RST_MODE_CTRL_STOP = 0x08"
definition CFG_RST_MODE_CTRL_START :: u8 where [ubx_consts]: "CFG_RST_MODE_CTRL_START = 0x09"
definition NAV_BBR_HOT_START :: u16 where [ubx_consts]: "NAV_BBR_HOT_START = 0x0000"
definition NAV_BBR_WARM_START :: u16 where [ubx_consts]: "NAV_BBR_WARM_START = 0x0001"
definition NAV_BBR_COLD_START :: u16 where [ubx_consts]: "NAV_BBR_COLD_START = 0xFFFF"
definition UBX_CLASS_UPD :: u8 where [ubx_consts]: "UBX_CLASS_UPD = 0x09"
definition UBX_CLASS_RXM :: u8 where [ubx_consts]: "UBX_CLASS_RXM = 0x02"
definition UBX_ID_RXM_MEASX :: u8 where [ubx_consts]: "UBX_ID_RXM_MEASX = 0x14"
definition UBX_ID_UPD_SOS :: u8 where [ubx_consts]: "UBX_ID_UPD_SOS = 0x14"
definition UPD_SOS_CMD_SAVE :: u8 where [ubx_consts]: "UPD_SOS_CMD_SAVE = 0x00"
definition UPD_SOS_CMD_CLEAR :: u8 where [ubx_consts]: "UPD_SOS_CMD_CLEAR = 0x01"
definition UPD_SOS_CMD_ACK :: u8 where [ubx_consts]: "UPD_SOS_CMD_ACK = 0x02"
definition UPD_SOS_CMD_RESTORE :: u8 where [ubx_consts]: "UPD_SOS_CMD_RESTORE = 0x03"
definition UPD_SOS_BACKUP_RESP_NOT_ACK :: u8 where [ubx_consts]: "UPD_SOS_BACKUP_RESP_NOT_ACK = 0x00"
definition UPD_SOS_BACKUP_RESP_ACK :: u8 where [ubx_consts]: "UPD_SOS_BACKUP_RESP_ACK = 0x01"
definition UPD_SOS_RESTORE_RESP_FAILED :: u8 where [ubx_consts]: "UPD_SOS_RESTORE_RESP_FAILED = 0x01"
definition UPD_SOS_RESTORE_RESP_SUCCESS :: u8 where [ubx_consts]: "UPD_SOS_RESTORE_RESP_SUCCESS = 0x02"
definition UPD_SOS_RESTORE_RESP_NO_BACKUP :: u8 where [ubx_consts]: "UPD_SOS_RESTORE_RESP_NO_BACKUP = 0x03"
definition UBX_ID_MON_VER :: u8 where [ubx_consts]: "UBX_ID_MON_VER = 0x04"
definition UBX_ID_MON_IO :: u8 where [ubx_consts]: "UBX_ID_MON_IO = 0x02"
definition UBX_ID_MON_TXBUF :: u8 where [ubx_consts]: "UBX_ID_MON_TXBUF = 0x08"
definition UBX_ID_MON_SPAN :: u8 where [ubx_consts]: "UBX_ID_MON_SPAN = 0x31"
definition UBX_ID_TIM_TP :: u8 where [ubx_consts]: "UBX_ID_TIM_TP = 0x01"
definition UBX_ID_ESF_MEAS :: u8 where [ubx_consts]: "UBX_ID_ESF_MEAS = 0x02"
definition UBX_ID_ESF_STATUS :: u8 where [ubx_consts]: "UBX_ID_ESF_STATUS = 0x10"
definition UBX_ID_ESF_INS :: u8 where [ubx_consts]: "UBX_ID_ESF_INS = 0x15"
definition UBX_ID_SEC_CRC :: u8 where [ubx_consts]: "UBX_ID_SEC_CRC = 0x01"
definition UBX_ID_SEC_SIG :: u8 where [ubx_consts]: "UBX_ID_SEC_SIG = 0x09"
definition UBX_ID_NAV2_DOP :: u8 where [ubx_consts]: "UBX_ID_NAV2_DOP = 0x04"
definition UBX_ID_NAV2_PVT :: u8 where [ubx_consts]: "UBX_ID_NAV2_PVT = 0x07"
definition UBX_ID_NAV2_TIMEGPS :: u8 where [ubx_consts]: "UBX_ID_NAV2_TIMEGPS = 0x20"
definition UBX_ID_NAV2_EELL :: u8 where [ubx_consts]: "UBX_ID_NAV2_EELL = 0x3D"

section \<open>Messages\<close>

subsection \<open>\<open>ubx_ack_ack.h\<close>\<close>

definition UBX_ACK_ACK_PAYLOAD_LEN :: u16 where [ubx_consts]: "UBX_ACK_ACK_PAYLOAD_LEN = 2"

record ubx_ack_ack =
  ack_ack_cls_id :: u8
  ack_ack_msg_id :: u8

subsection \<open>\<open>ubx_ack_nak.h\<close>\<close>

definition UBX_ACK_NAK_PAYLOAD_LEN :: u16 where [ubx_consts]: "UBX_ACK_NAK_PAYLOAD_LEN = 2"

record ubx_ack_nak =
  ack_nak_cls_id :: u8
  ack_nak_msg_id :: u8

subsection \<open>\<open>ubx_nav_pvt.h\<close>\<close>

definition UBX_NAV_PVT_PAYLOAD_LEN :: u16 where [ubx_consts]: "UBX_NAV_PVT_PAYLOAD_LEN = 92"

record ubx_nav_pvt =
  nav_pvt_i_tow :: u32
  nav_pvt_year :: u16
  nav_pvt_month :: u8
  nav_pvt_day :: u8
  nav_pvt_hour :: u8
  nav_pvt_min :: u8
  nav_pvt_sec :: u8
  nav_pvt_valid :: u8
  nav_pvt_t_acc :: u32
  nav_pvt_nano :: i32
  nav_pvt_fix_type :: u8
  nav_pvt_flags :: u8
  nav_pvt_flags2 :: u8
  nav_pvt_num_sv :: u8
  nav_pvt_lon :: i32
  nav_pvt_lat :: i32
  nav_pvt_height :: i32
  nav_pvt_h_msl :: i32
  nav_pvt_h_acc :: u32
  nav_pvt_v_acc :: u32
  nav_pvt_vel_n :: i32
  nav_pvt_vel_e :: i32
  nav_pvt_vel_d :: i32
  nav_pvt_g_speed :: i32
  nav_pvt_head_mot :: i32
  nav_pvt_s_acc :: u32
  nav_pvt_head_acc :: u32
  nav_pvt_p_dop :: u16
  nav_pvt_flags3 :: u8
  nav_pvt_head_veh :: i32
  nav_pvt_mag_dec :: i16
  nav_pvt_mag_acc :: u16

subsection \<open>\<open>ubx_nav_status.h\<close>\<close>

definition UBX_NAV_STATUS_PAYLOAD_LEN :: u16 where [ubx_consts]: "UBX_NAV_STATUS_PAYLOAD_LEN = 16"

record ubx_nav_status =
  nav_status_i_tow :: u32
  nav_status_gps_fix :: u8
  nav_status_flags :: u8
  nav_status_fix_stat :: u8
  nav_status_flags2 :: u8
  nav_status_ttff :: u32
  nav_status_msss :: u32

subsection \<open>\<open>ubx_nav_dop.h\<close>\<close>

definition UBX_NAV_DOP_PAYLOAD_LEN :: u16 where [ubx_consts]: "UBX_NAV_DOP_PAYLOAD_LEN = 18"

record ubx_nav_dop =
  nav_dop_i_tow :: u32
  nav_dop_g_dop :: u16
  nav_dop_p_dop :: u16
  nav_dop_t_dop :: u16
  nav_dop_v_dop :: u16
  nav_dop_h_dop :: u16
  nav_dop_n_dop :: u16
  nav_dop_e_dop :: u16

subsection \<open>\<open>ubx_nav_att.h\<close>\<close>

definition UBX_NAV_ATT_PAYLOAD_LEN :: u16 where [ubx_consts]: "UBX_NAV_ATT_PAYLOAD_LEN = 32"

record ubx_nav_att =
  nav_att_i_tow :: u32
  nav_att_version :: u8
  nav_att_roll :: i32
  nav_att_pitch :: i32
  nav_att_heading :: i32
  nav_att_acc_roll :: u32
  nav_att_acc_pitch :: u32
  nav_att_acc_heading :: u32

subsection \<open>\<open>ubx_nav_odo.h\<close>\<close>

definition UBX_NAV_ODO_PAYLOAD_LEN :: u16 where [ubx_consts]: "UBX_NAV_ODO_PAYLOAD_LEN = 20"

record ubx_nav_odo =
  nav_odo_version :: u8
  nav_odo_i_tow :: u32
  nav_odo_distance :: u32
  nav_odo_total_distance :: u32
  nav_odo_distance_std :: u32

subsection \<open>\<open>ubx_nav_clock.h\<close>\<close>

definition UBX_NAV_CLOCK_PAYLOAD_LEN :: u16 where [ubx_consts]: "UBX_NAV_CLOCK_PAYLOAD_LEN = 20"

record ubx_nav_clock =
  nav_clock_i_tow :: u32
  nav_clock_clk_b :: i32
  nav_clock_clk_d :: i32
  nav_clock_t_acc :: u32
  nav_clock_f_acc :: u32

subsection \<open>\<open>ubx_nav_timegps.h\<close>\<close>

definition UBX_NAV_TIMEGPS_PAYLOAD_LEN :: u16 where [ubx_consts]: "UBX_NAV_TIMEGPS_PAYLOAD_LEN = 16"

record ubx_nav_timegps =
  nav_timegps_i_tow :: u32
  nav_timegps_f_tow :: i32
  nav_timegps_week :: i16
  nav_timegps_leap_s :: i8
  nav_timegps_valid :: u8
  nav_timegps_t_acc :: u32

subsection \<open>\<open>ubx_nav_timeutc.h\<close>\<close>

definition UBX_NAV_TIMEUTC_PAYLOAD_LEN :: u16 where [ubx_consts]: "UBX_NAV_TIMEUTC_PAYLOAD_LEN = 20"

record ubx_nav_timeutc =
  nav_timeutc_i_tow :: u32
  nav_timeutc_t_acc :: u32
  nav_timeutc_nano :: i32
  nav_timeutc_year :: u16
  nav_timeutc_month :: u8
  nav_timeutc_day :: u8
  nav_timeutc_hour :: u8
  nav_timeutc_min :: u8
  nav_timeutc_sec :: u8
  nav_timeutc_valid :: u8

subsection \<open>\<open>ubx_nav_eell.h\<close>\<close>

definition UBX_NAV_EELL_PAYLOAD_LEN :: u16 where [ubx_consts]: "UBX_NAV_EELL_PAYLOAD_LEN = 16"

record ubx_nav_eell =
  nav_eell_i_tow :: u32
  nav_eell_version :: u8
  nav_eell_err_maj :: u16
  nav_eell_err_min :: u16
  nav_eell_err_orient :: u16

subsection \<open>\<open>ubx_nav2_pvt.h\<close>\<close>

definition UBX_NAV2_PVT_PAYLOAD_LEN :: u16 where [ubx_consts]: "UBX_NAV2_PVT_PAYLOAD_LEN = 92"

record ubx_nav2_pvt =
  nav2_pvt_i_tow :: u32
  nav2_pvt_year :: u16
  nav2_pvt_month :: u8
  nav2_pvt_day :: u8
  nav2_pvt_hour :: u8
  nav2_pvt_min :: u8
  nav2_pvt_sec :: u8
  nav2_pvt_valid :: u8
  nav2_pvt_t_acc :: u32
  nav2_pvt_nano :: i32
  nav2_pvt_fix_type :: u8
  nav2_pvt_flags :: u8
  nav2_pvt_flags2 :: u8
  nav2_pvt_num_sv :: u8
  nav2_pvt_lon :: i32
  nav2_pvt_lat :: i32
  nav2_pvt_height :: i32
  nav2_pvt_h_msl :: i32
  nav2_pvt_h_acc :: u32
  nav2_pvt_v_acc :: u32
  nav2_pvt_vel_n :: i32
  nav2_pvt_vel_e :: i32
  nav2_pvt_vel_d :: i32
  nav2_pvt_g_speed :: i32
  nav2_pvt_head_mot :: i32
  nav2_pvt_s_acc :: u32
  nav2_pvt_head_acc :: u32
  nav2_pvt_p_dop :: u16
  nav2_pvt_flags3 :: u8
  nav2_pvt_head_veh :: i32
  nav2_pvt_mag_dec :: i16
  nav2_pvt_mag_acc :: u16

subsection \<open>\<open>ubx_nav2_dop.h\<close>\<close>

definition UBX_NAV2_DOP_PAYLOAD_LEN :: u16 where [ubx_consts]: "UBX_NAV2_DOP_PAYLOAD_LEN = 18"

record ubx_nav2_dop =
  nav2_dop_i_tow :: u32
  nav2_dop_g_dop :: u16
  nav2_dop_p_dop :: u16
  nav2_dop_t_dop :: u16
  nav2_dop_v_dop :: u16
  nav2_dop_h_dop :: u16
  nav2_dop_n_dop :: u16
  nav2_dop_e_dop :: u16

subsection \<open>\<open>ubx_nav2_timegps.h\<close>\<close>

definition UBX_NAV2_TIMEGPS_PAYLOAD_LEN :: u16 where [ubx_consts]: "UBX_NAV2_TIMEGPS_PAYLOAD_LEN = 16"

record ubx_nav2_timegps =
  nav2_timegps_i_tow :: u32
  nav2_timegps_f_tow :: i32
  nav2_timegps_week :: i16
  nav2_timegps_leap_s :: i8
  nav2_timegps_valid :: u8
  nav2_timegps_t_acc :: u32

subsection \<open>\<open>ubx_nav2_eell.h\<close>\<close>

definition UBX_NAV2_EELL_PAYLOAD_LEN :: u16 where [ubx_consts]: "UBX_NAV2_EELL_PAYLOAD_LEN = 16"

record ubx_nav2_eell =
  nav2_eell_i_tow :: u32
  nav2_eell_version :: u8
  nav2_eell_err_maj :: u16
  nav2_eell_err_min :: u16
  nav2_eell_err_orient :: u16

subsection \<open>\<open>ubx_esf_ins.h\<close>\<close>

definition UBX_ESF_INS_PAYLOAD_LEN :: u16 where [ubx_consts]: "UBX_ESF_INS_PAYLOAD_LEN = 36"

record ubx_esf_ins =
  esf_ins_bitfield0 :: u32
  esf_ins_i_tow :: u32
  esf_ins_x_ang_rate :: i32
  esf_ins_y_ang_rate :: i32
  esf_ins_z_ang_rate :: i32
  esf_ins_x_accel :: i32
  esf_ins_y_accel :: i32
  esf_ins_z_accel :: i32

subsection \<open>\<open>ubx_tim_tp.h\<close>\<close>

definition UBX_TIM_TP_PAYLOAD_LEN :: u16 where [ubx_consts]: "UBX_TIM_TP_PAYLOAD_LEN = 16"

record ubx_tim_tp =
  tim_tp_tow_ms :: u32
  tim_tp_tow_sub_ms :: u32
  tim_tp_q_err :: i32
  tim_tp_week :: u16
  tim_tp_flags :: u8
  tim_tp_ref_info :: u8

subsection \<open>\<open>ubx_sec_crc.h\<close>\<close>

definition UBX_SEC_CRC_PAYLOAD_LEN :: u16 where [ubx_consts]: "UBX_SEC_CRC_PAYLOAD_LEN = 8"

record ubx_sec_crc =
  sec_crc_version :: u8
  sec_crc_crc_type :: u8
  sec_crc_reserved :: u16
  sec_crc_crc32 :: u32

subsection \<open>\<open>ubx_upd_sos.h\<close>\<close>

definition UBX_UPD_SOS_OUTPUT_PAYLOAD_LEN :: u16 where [ubx_consts]: "UBX_UPD_SOS_OUTPUT_PAYLOAD_LEN = 8"

record ubx_upd_sos_output =
  upd_sos_cmd :: u8
  upd_sos_response :: u8

subsection \<open>\<open>ubx_sec_sig.h\<close>\<close>

definition UBX_SEC_SIG_PAYLOAD_LEN :: u16 where [ubx_consts]: "UBX_SEC_SIG_PAYLOAD_LEN = 12"

record ubx_sec_sig =
  sec_sig_version :: u8
  sec_sig_jam_flags :: u8
  sec_sig_jam_det_enabled :: u8
  sec_sig_jamming_state :: u8
  sec_sig_spf_flags :: u8
  sec_sig_spf_det_enabled :: u8
  sec_sig_spoofing_state :: u8

subsection \<open>\<open>ubx_mon_txbuf.h\<close>\<close>

definition UBX_MON_TXBUF_PAYLOAD_LEN :: u16 where [ubx_consts]: "UBX_MON_TXBUF_PAYLOAD_LEN = 28"

definition UBX_MON_TXBUF_NUM_TARGETS :: u8 where [ubx_consts]: "UBX_MON_TXBUF_NUM_TARGETS = 6"

record ubx_mon_txbuf =
  mon_txbuf_pending :: "u16 list"
  mon_txbuf_usage :: "u8 list"
  mon_txbuf_peak_usage :: "u8 list"
  mon_txbuf_t_used :: u8
  mon_txbuf_t_peak :: u8
  mon_txbuf_errors :: u8

subsection \<open>\<open>ubx_nav_sat.h\<close>\<close>

definition UBX_NAV_SAT_HEADER_LEN :: u16 where [ubx_consts]: "UBX_NAV_SAT_HEADER_LEN = 8"

definition UBX_NAV_SAT_BLOCK_LEN :: u16 where [ubx_consts]: "UBX_NAV_SAT_BLOCK_LEN = 12"

record nav_sat_sv =
  nav_sat_sv_gnss_id :: u8
  nav_sat_sv_sv_id :: u8
  nav_sat_sv_cno :: u8
  nav_sat_sv_elev :: i8
  nav_sat_sv_azim :: i16
  nav_sat_sv_pr_res :: i16
  nav_sat_sv_flags :: u32

record ubx_nav_sat =
  nav_sat_i_tow :: u32
  nav_sat_version :: u8
  nav_sat_num_svs :: u8
  nav_sat_svs :: "nav_sat_sv list"

subsection \<open>\<open>ubx_nav_sig.h\<close>\<close>

definition UBX_NAV_SIG_HEADER_LEN :: u16 where [ubx_consts]: "UBX_NAV_SIG_HEADER_LEN = 8"

definition UBX_NAV_SIG_BLOCK_LEN :: u16 where [ubx_consts]: "UBX_NAV_SIG_BLOCK_LEN = 16"

record nav_sig_info =
  nav_sig_info_gnss_id :: u8
  nav_sig_info_sv_id :: u8
  nav_sig_info_sig_id :: u8
  nav_sig_info_freq_id :: u8
  nav_sig_info_pr_res :: i16
  nav_sig_info_cno :: u8
  nav_sig_info_qual_ind :: u8
  nav_sig_info_corr_source :: u8
  nav_sig_info_iono_model :: u8
  nav_sig_info_sig_flags :: u16

record ubx_nav_sig =
  nav_sig_i_tow :: u32
  nav_sig_version :: u8
  nav_sig_num_sigs :: u8
  nav_sig_signals :: "nav_sig_info list"

subsection \<open>\<open>ubx_esf_meas.h\<close>\<close>

definition UBX_ESF_MEAS_MAX_DATA :: u8 where [ubx_consts]: "UBX_ESF_MEAS_MAX_DATA = 32"

definition UBX_ESF_MEAS_MIN_PAYLOAD_LEN :: u16 where [ubx_consts]: "UBX_ESF_MEAS_MIN_PAYLOAD_LEN = 8"

record ubx_esf_meas_datum =
  esf_datum_data_type :: u8
  esf_datum_data_value :: i32

record ubx_esf_meas =
  esf_meas_time_tag :: u32
  esf_meas_flags :: u16
  esf_meas_id :: u16
  esf_meas_num_meas :: u8
  esf_meas_data :: "ubx_esf_meas_datum list"
  esf_meas_has_calib_ttag :: bool
  esf_meas_calib_ttag :: u32

subsection \<open>\<open>ubx_esf_status.h\<close>\<close>

definition UBX_ESF_STATUS_MAX_SENS :: u8 where [ubx_consts]: "UBX_ESF_STATUS_MAX_SENS = 32"

definition UBX_ESF_STATUS_MIN_PAYLOAD_LEN :: u16 where [ubx_consts]: "UBX_ESF_STATUS_MIN_PAYLOAD_LEN = 16"

record ubx_esf_status_sensor =
  esf_sensor_sens_status1 :: u8
  esf_sensor_sens_status2 :: u8
  esf_sensor_freq :: u8
  esf_sensor_faults :: u8

record ubx_esf_status =
  esf_status_i_tow :: u32
  esf_status_version :: u8
  esf_status_fusion_mode :: u8
  esf_status_num_sens :: u8
  esf_status_sensors :: "ubx_esf_status_sensor list"

subsection \<open>\<open>ubx_rxm_measx.h\<close>\<close>

definition UBX_RXM_MEASX_MAX_SVS :: u8 where [ubx_consts]: "UBX_RXM_MEASX_MAX_SVS = 64"

definition UBX_RXM_MEASX_HEADER_LEN :: u16 where [ubx_consts]: "UBX_RXM_MEASX_HEADER_LEN = 44"

definition UBX_RXM_MEASX_SV_BLOCK_LEN :: u16 where [ubx_consts]: "UBX_RXM_MEASX_SV_BLOCK_LEN = 24"

record rxm_measx_sv =
  measx_sv_gnss_id :: u8
  measx_sv_sv_id :: u8
  measx_sv_cno :: u8
  measx_sv_mpath_indic :: u8
  measx_sv_doppler_ms :: i32
  measx_sv_doppler_hz :: i32
  measx_sv_whole_chips :: u16
  measx_sv_frac_chips :: u16
  measx_sv_code_phase :: u32
  measx_sv_int_code_phase :: u8
  measx_sv_pseu_range_rms_err :: u8

record ubx_rxm_measx =
  rxm_measx_version :: u8
  rxm_measx_gps_tow :: u32
  rxm_measx_glo_tow :: u32
  rxm_measx_bds_tow :: u32
  rxm_measx_qzss_tow :: u32
  rxm_measx_gps_tow_acc :: u16
  rxm_measx_glo_tow_acc :: u16
  rxm_measx_bds_tow_acc :: u16
  rxm_measx_qzss_tow_acc :: u16
  rxm_measx_num_svs :: u8
  rxm_measx_flags :: u8
  rxm_measx_svs :: "rxm_measx_sv list"

subsection \<open>\<open>ubx_mon_io.h\<close>\<close>

definition UBX_MON_IO_MAX_PORTS :: u8 where [ubx_consts]: "UBX_MON_IO_MAX_PORTS = 8"

definition UBX_MON_IO_BLOCK_LEN :: u16 where [ubx_consts]: "UBX_MON_IO_BLOCK_LEN = 20"

record mon_io_port =
  mon_io_port_rx_bytes :: u32
  mon_io_port_tx_bytes :: u32
  mon_io_port_parity_errs :: u16
  mon_io_port_framing_errs :: u16
  mon_io_port_overrun_errs :: u16
  mon_io_port_break_cond :: u16
  mon_io_port_rx_busy :: u8
  mon_io_port_tx_busy :: u8

record ubx_mon_io =
  mon_io_num_ports :: u8
  mon_io_ports :: "mon_io_port list"

subsection \<open>\<open>ubx_mon_span.h\<close>\<close>

definition UBX_MON_SPAN_SPECTRUM_BINS :: u16 where [ubx_consts]: "UBX_MON_SPAN_SPECTRUM_BINS = 256"

definition UBX_MON_SPAN_MAX_RF_BLOCKS :: u8 where [ubx_consts]: "UBX_MON_SPAN_MAX_RF_BLOCKS = 4"

definition UBX_MON_SPAN_HEADER_LEN :: u8 where [ubx_consts]: "UBX_MON_SPAN_HEADER_LEN = 4"

definition UBX_MON_SPAN_BLOCK_LEN :: u16 where [ubx_consts]: "UBX_MON_SPAN_BLOCK_LEN = 272"

record mon_span_rf_block =
  rf_block_spectrum :: "u8 list"
  rf_block_span :: u32
  rf_block_res :: u32
  rf_block_center :: u32
  rf_block_pga :: u8

record ubx_mon_span =
  mon_span_version :: u8
  mon_span_num_rf_blocks :: u8
  mon_span_rf_blocks :: "mon_span_rf_block list"

subsection \<open>\<open>ubx_mon_ver.h\<close>\<close>

definition UBX_MON_VER_SW_LEN :: u16 where [ubx_consts]: "UBX_MON_VER_SW_LEN = 30"

definition UBX_MON_VER_HW_LEN :: u16 where [ubx_consts]: "UBX_MON_VER_HW_LEN = 10"

definition UBX_MON_VER_EXT_LEN :: u16 where [ubx_consts]: "UBX_MON_VER_EXT_LEN = 30"

definition UBX_MON_VER_MIN_PAYLOAD_LEN :: u16 where [ubx_consts]:
  "UBX_MON_VER_MIN_PAYLOAD_LEN = UBX_MON_VER_SW_LEN + UBX_MON_VER_HW_LEN"

record ubx_mon_ver =
  mon_ver_sw_version :: string
  mon_ver_hw_version :: string
  mon_ver_extensions :: "string list"

subsection \<open>\<open>ubx_inf.h\<close>\<close>

datatype inf_subtype = Inf_error | Inf_warning | Inf_notice | Inf_test | Inf_debug

record ubx_inf =
  inf_msg_subtype :: inf_subtype
  inf_msg_text :: string

subsection \<open>\<open>ubx_cfg_valget.h\<close>\<close>

definition UBX_CFG_VALGET_HEADER_LEN :: u16 where [ubx_consts]: "UBX_CFG_VALGET_HEADER_LEN = 4"

record cfg_valget_entry =
  valget_entry_key_id :: u32
  valget_entry_value :: u64

record ubx_cfg_valget =
  cfg_valget_version :: u8
  cfg_valget_layer :: u8
  cfg_valget_position :: u16
  cfg_valget_entries :: "cfg_valget_entry list"

section \<open>Any decoded message\<close>

text \<open>What the callback of a registered decoder receives.\<close>

datatype ubx_message =
    Ack_ack ubx_ack_ack
  | Ack_nak ubx_ack_nak
  | Nav_pvt ubx_nav_pvt
  | Nav_status ubx_nav_status
  | Nav_dop ubx_nav_dop
  | Nav_att ubx_nav_att
  | Nav_odo ubx_nav_odo
  | Nav_clock ubx_nav_clock
  | Nav_timegps ubx_nav_timegps
  | Nav_timeutc ubx_nav_timeutc
  | Nav_eell ubx_nav_eell
  | Nav2_pvt ubx_nav2_pvt
  | Nav2_dop ubx_nav2_dop
  | Nav2_timegps ubx_nav2_timegps
  | Nav2_eell ubx_nav2_eell
  | Esf_ins ubx_esf_ins
  | Tim_tp ubx_tim_tp
  | Sec_crc ubx_sec_crc
  | Upd_sos ubx_upd_sos_output
  | Sec_sig ubx_sec_sig
  | Mon_txbuf ubx_mon_txbuf
  | Nav_sat ubx_nav_sat
  | Nav_sig ubx_nav_sig
  | Esf_meas ubx_esf_meas
  | Esf_status ubx_esf_status
  | Rxm_measx ubx_rxm_measx
  | Mon_io ubx_mon_io
  | Mon_span ubx_mon_span
  | Mon_ver ubx_mon_ver
  | Inf ubx_inf
  | Cfg_valget ubx_cfg_valget

end
