(* ===== verification/Ubx_Decoders.thy ===== *)
theory Ubx_Decoders
  imports Ubx_Messages
begin

text \<open>
  The decoders of fixed-size messages: the \<open>decode\<close> members of
  \<open>ext_libs/ubx_parser/src/decoders/*.cpp\<close>, written with the option monad, each failing read
  being the early \<open>return false\<close>. For each one, the layout lemma states what it computes by the
  byte offsets of the interface description: it accepts a payload by its length alone and fills
  every member from its documented offset.
\<close>

subsection \<open>\<open>ack_ack_decoder\<close>\<close>

definition decode_ack_ack :: "ubx_frame \<Rightarrow> ubx_ack_ack option" where
  "decode_ack_ack frame =
     (if hdr_payload_length (frame_header frame) \<noteq> UBX_ACK_ACK_PAYLOAD_LEN then None
      else do {
        let r = byte_reader_new (frame_payload frame);
        (cls_id, r) \<leftarrow> rd_u8 r;
        (msg_id, r) \<leftarrow> rd_u8 r;
        Some \<lparr>ack_ack_cls_id = cls_id, ack_ack_msg_id = msg_id\<rparr>
      })"

lemma decode_ack_ack_layout [decoder_layouts]:
  assumes "frame_ok frame" and p: "frame_payload frame = p"
  shows "decode_ack_ack frame =
     (if length p = 2
      then Some \<lparr>ack_ack_cls_id = p ! 0, ack_ack_msg_id = p ! 1\<rparr>
      else None)"
  by (simp add: decode_ack_ack_def frame_ok_length [OF assms] reader_at_new at_simps ubx_consts)

subsection \<open>\<open>ack_nak_decoder\<close>\<close>

definition decode_ack_nak :: "ubx_frame \<Rightarrow> ubx_ack_nak option" where
  "decode_ack_nak frame =
     (if hdr_payload_length (frame_header frame) \<noteq> UBX_ACK_NAK_PAYLOAD_LEN then None
      else do {
        let r = byte_reader_new (frame_payload frame);
        (cls_id, r) \<leftarrow> rd_u8 r;
        (msg_id, r) \<leftarrow> rd_u8 r;
        Some \<lparr>ack_nak_cls_id = cls_id, ack_nak_msg_id = msg_id\<rparr>
      })"

lemma decode_ack_nak_layout [decoder_layouts]:
  assumes "frame_ok frame" and p: "frame_payload frame = p"
  shows "decode_ack_nak frame =
     (if length p = 2
      then Some \<lparr>ack_nak_cls_id = p ! 0, ack_nak_msg_id = p ! 1\<rparr>
      else None)"
  by (simp add: decode_ack_nak_def frame_ok_length [OF assms] reader_at_new at_simps ubx_consts)

subsection \<open>\<open>nav_pvt_decoder\<close>\<close>

definition decode_nav_pvt :: "ubx_frame \<Rightarrow> ubx_nav_pvt option" where
  "decode_nav_pvt frame =
     (if hdr_payload_length (frame_header frame) \<noteq> UBX_NAV_PVT_PAYLOAD_LEN then None
      else do {
        let r = byte_reader_new (frame_payload frame);
        (i_tow, r) \<leftarrow> rd_le32 r;
        (year, r) \<leftarrow> rd_le16 r;
        (month, r) \<leftarrow> rd_u8 r;
        (day, r) \<leftarrow> rd_u8 r;
        (hour, r) \<leftarrow> rd_u8 r;
        (minute, r) \<leftarrow> rd_u8 r;
        (second, r) \<leftarrow> rd_u8 r;
        (valid, r) \<leftarrow> rd_u8 r;
        (t_acc, r) \<leftarrow> rd_le32 r;
        (nano, r) \<leftarrow> rd_le32s r;
        (fix_type, r) \<leftarrow> rd_u8 r;
        (flags, r) \<leftarrow> rd_u8 r;
        (flags2, r) \<leftarrow> rd_u8 r;
        (num_sv, r) \<leftarrow> rd_u8 r;
        (lon, r) \<leftarrow> rd_le32s r;
        (lat, r) \<leftarrow> rd_le32s r;
        (height, r) \<leftarrow> rd_le32s r;
        (h_msl, r) \<leftarrow> rd_le32s r;
        (h_acc, r) \<leftarrow> rd_le32 r;
        (v_acc, r) \<leftarrow> rd_le32 r;
        (vel_n, r) \<leftarrow> rd_le32s r;
        (vel_e, r) \<leftarrow> rd_le32s r;
        (vel_d, r) \<leftarrow> rd_le32s r;
        (g_speed, r) \<leftarrow> rd_le32s r;
        (head_mot, r) \<leftarrow> rd_le32s r;
        (s_acc, r) \<leftarrow> rd_le32 r;
        (head_acc, r) \<leftarrow> rd_le32 r;
        (p_dop, r) \<leftarrow> rd_le16 r;
        (flags3, r) \<leftarrow> rd_u8 r;
        r \<leftarrow> rd_skip 5 r;
        (head_veh, r) \<leftarrow> rd_le32s r;
        (mag_dec, r) \<leftarrow> rd_le16s r;
        (mag_acc, r) \<leftarrow> rd_le16 r;
        Some \<lparr>nav_pvt_i_tow = i_tow, nav_pvt_year = year, nav_pvt_month = month,
              nav_pvt_day = day, nav_pvt_hour = hour, nav_pvt_min = minute, nav_pvt_sec = second,
              nav_pvt_valid = valid, nav_pvt_t_acc = t_acc, nav_pvt_nano = nano,
              nav_pvt_fix_type = fix_type, nav_pvt_flags = flags, nav_pvt_flags2 = flags2,
              nav_pvt_num_sv = num_sv, nav_pvt_lon = lon, nav_pvt_lat = lat,
              nav_pvt_height = height, nav_pvt_h_msl = h_msl, nav_pvt_h_acc = h_acc,
              nav_pvt_v_acc = v_acc, nav_pvt_vel_n = vel_n, nav_pvt_vel_e = vel_e,
              nav_pvt_vel_d = vel_d, nav_pvt_g_speed = g_speed, nav_pvt_head_mot = head_mot,
              nav_pvt_s_acc = s_acc, nav_pvt_head_acc = head_acc, nav_pvt_p_dop = p_dop,
              nav_pvt_flags3 = flags3, nav_pvt_head_veh = head_veh, nav_pvt_mag_dec = mag_dec,
              nav_pvt_mag_acc = mag_acc\<rparr>
      })"

lemma decode_nav_pvt_layout [decoder_layouts]:
  assumes "frame_ok frame" and p: "frame_payload frame = p"
  shows "decode_nav_pvt frame =
     (if length p = 92
      then Some \<lparr>nav_pvt_i_tow = le32_at p 0, nav_pvt_year = le16_at p 4, nav_pvt_month = p ! 6,
               nav_pvt_day = p ! 7, nav_pvt_hour = p ! 8, nav_pvt_min = p ! 9,
               nav_pvt_sec = p ! 10, nav_pvt_valid = p ! 11, nav_pvt_t_acc = le32_at p 12,
               nav_pvt_nano = le32_at p 16, nav_pvt_fix_type = p ! 20, nav_pvt_flags = p ! 21,
               nav_pvt_flags2 = p ! 22, nav_pvt_num_sv = p ! 23, nav_pvt_lon = le32_at p 24,
               nav_pvt_lat = le32_at p 28, nav_pvt_height = le32_at p 32,
               nav_pvt_h_msl = le32_at p 36, nav_pvt_h_acc = le32_at p 40,
               nav_pvt_v_acc = le32_at p 44, nav_pvt_vel_n = le32_at p 48,
               nav_pvt_vel_e = le32_at p 52, nav_pvt_vel_d = le32_at p 56,
               nav_pvt_g_speed = le32_at p 60, nav_pvt_head_mot = le32_at p 64,
               nav_pvt_s_acc = le32_at p 68, nav_pvt_head_acc = le32_at p 72,
               nav_pvt_p_dop = le16_at p 76, nav_pvt_flags3 = p ! 78,
               nav_pvt_head_veh = le32_at p 84, nav_pvt_mag_dec = le16_at p 88,
               nav_pvt_mag_acc = le16_at p 90\<rparr>
      else None)"
  by (simp add: decode_nav_pvt_def frame_ok_length [OF assms] reader_at_new at_simps ubx_consts)

subsection \<open>\<open>nav_status_decoder\<close>\<close>

definition decode_nav_status :: "ubx_frame \<Rightarrow> ubx_nav_status option" where
  "decode_nav_status frame =
     (if hdr_payload_length (frame_header frame) \<noteq> UBX_NAV_STATUS_PAYLOAD_LEN then None
      else do {
        let r = byte_reader_new (frame_payload frame);
        (i_tow, r) \<leftarrow> rd_le32 r;
        (gps_fix, r) \<leftarrow> rd_u8 r;
        (flags, r) \<leftarrow> rd_u8 r;
        (fix_stat, r) \<leftarrow> rd_u8 r;
        (flags2, r) \<leftarrow> rd_u8 r;
        (ttff, r) \<leftarrow> rd_le32 r;
        (msss, r) \<leftarrow> rd_le32 r;
        Some \<lparr>nav_status_i_tow = i_tow, nav_status_gps_fix = gps_fix, nav_status_flags = flags,
              nav_status_fix_stat = fix_stat, nav_status_flags2 = flags2, nav_status_ttff = ttff,
              nav_status_msss = msss\<rparr>
      })"

lemma decode_nav_status_layout [decoder_layouts]:
  assumes "frame_ok frame" and p: "frame_payload frame = p"
  shows "decode_nav_status frame =
     (if length p = 16
      then Some \<lparr>nav_status_i_tow = le32_at p 0, nav_status_gps_fix = p ! 4,
               nav_status_flags = p ! 5, nav_status_fix_stat = p ! 6, nav_status_flags2 = p ! 7,
               nav_status_ttff = le32_at p 8, nav_status_msss = le32_at p 12\<rparr>
      else None)"
  by (simp add: decode_nav_status_def frame_ok_length [OF assms] reader_at_new at_simps ubx_consts)

subsection \<open>\<open>nav_dop_decoder\<close>\<close>

definition decode_nav_dop :: "ubx_frame \<Rightarrow> ubx_nav_dop option" where
  "decode_nav_dop frame =
     (if hdr_payload_length (frame_header frame) \<noteq> UBX_NAV_DOP_PAYLOAD_LEN then None
      else do {
        let r = byte_reader_new (frame_payload frame);
        (i_tow, r) \<leftarrow> rd_le32 r;
        (g_dop, r) \<leftarrow> rd_le16 r;
        (p_dop, r) \<leftarrow> rd_le16 r;
        (t_dop, r) \<leftarrow> rd_le16 r;
        (v_dop, r) \<leftarrow> rd_le16 r;
        (h_dop, r) \<leftarrow> rd_le16 r;
        (n_dop, r) \<leftarrow> rd_le16 r;
        (e_dop, r) \<leftarrow> rd_le16 r;
        Some \<lparr>nav_dop_i_tow = i_tow, nav_dop_g_dop = g_dop, nav_dop_p_dop = p_dop,
              nav_dop_t_dop = t_dop, nav_dop_v_dop = v_dop, nav_dop_h_dop = h_dop,
              nav_dop_n_dop = n_dop, nav_dop_e_dop = e_dop\<rparr>
      })"

lemma decode_nav_dop_layout [decoder_layouts]:
  assumes "frame_ok frame" and p: "frame_payload frame = p"
  shows "decode_nav_dop frame =
     (if length p = 18
      then Some \<lparr>nav_dop_i_tow = le32_at p 0, nav_dop_g_dop = le16_at p 4,
               nav_dop_p_dop = le16_at p 6, nav_dop_t_dop = le16_at p 8,
               nav_dop_v_dop = le16_at p 10, nav_dop_h_dop = le16_at p 12,
               nav_dop_n_dop = le16_at p 14, nav_dop_e_dop = le16_at p 16\<rparr>
      else None)"
  by (simp add: decode_nav_dop_def frame_ok_length [OF assms] reader_at_new at_simps ubx_consts)

subsection \<open>\<open>nav_att_decoder\<close>\<close>

definition decode_nav_att :: "ubx_frame \<Rightarrow> ubx_nav_att option" where
  "decode_nav_att frame =
     (if hdr_payload_length (frame_header frame) \<noteq> UBX_NAV_ATT_PAYLOAD_LEN then None
      else do {
        let r = byte_reader_new (frame_payload frame);
        (i_tow, r) \<leftarrow> rd_le32 r;
        (version, r) \<leftarrow> rd_u8 r;
        r \<leftarrow> rd_skip 3 r;
        (roll, r) \<leftarrow> rd_le32s r;
        (pitch, r) \<leftarrow> rd_le32s r;
        (heading, r) \<leftarrow> rd_le32s r;
        (acc_roll, r) \<leftarrow> rd_le32 r;
        (acc_pitch, r) \<leftarrow> rd_le32 r;
        (acc_heading, r) \<leftarrow> rd_le32 r;
        Some \<lparr>nav_att_i_tow = i_tow, nav_att_version = version, nav_att_roll = roll,
              nav_att_pitch = pitch, nav_att_heading = heading, nav_att_acc_roll = acc_roll,
              nav_att_acc_pitch = acc_pitch, nav_att_acc_heading = acc_heading\<rparr>
      })"

lemma decode_nav_att_layout [decoder_layouts]:
  assumes "frame_ok frame" and p: "frame_payload frame = p"
  shows "decode_nav_att frame =
     (if length p = 32
      then Some \<lparr>nav_att_i_tow = le32_at p 0, nav_att_version = p ! 4, nav_att_roll = le32_at p 8,
               nav_att_pitch = le32_at p 12, nav_att_heading = le32_at p 16,
               nav_att_acc_roll = le32_at p 20, nav_att_acc_pitch = le32_at p 24,
               nav_att_acc_heading = le32_at p 28\<rparr>
      else None)"
  by (simp add: decode_nav_att_def frame_ok_length [OF assms] reader_at_new at_simps ubx_consts)

subsection \<open>\<open>nav_odo_decoder\<close>\<close>

definition decode_nav_odo :: "ubx_frame \<Rightarrow> ubx_nav_odo option" where
  "decode_nav_odo frame =
     (if hdr_payload_length (frame_header frame) \<noteq> UBX_NAV_ODO_PAYLOAD_LEN then None
      else do {
        let r = byte_reader_new (frame_payload frame);
        (version, r) \<leftarrow> rd_u8 r;
        r \<leftarrow> rd_skip 3 r;
        (i_tow, r) \<leftarrow> rd_le32 r;
        (distance, r) \<leftarrow> rd_le32 r;
        (total_distance, r) \<leftarrow> rd_le32 r;
        (distance_std, r) \<leftarrow> rd_le32 r;
        Some \<lparr>nav_odo_version = version, nav_odo_i_tow = i_tow, nav_odo_distance = distance,
              nav_odo_total_distance = total_distance, nav_odo_distance_std = distance_std\<rparr>
      })"

lemma decode_nav_odo_layout [decoder_layouts]:
  assumes "frame_ok frame" and p: "frame_payload frame = p"
  shows "decode_nav_odo frame =
     (if length p = 20
      then Some \<lparr>nav_odo_version = p ! 0, nav_odo_i_tow = le32_at p 4,
               nav_odo_distance = le32_at p 8, nav_odo_total_distance = le32_at p 12,
               nav_odo_distance_std = le32_at p 16\<rparr>
      else None)"
  by (simp add: decode_nav_odo_def frame_ok_length [OF assms] reader_at_new at_simps ubx_consts)

subsection \<open>\<open>nav_clock_decoder\<close>\<close>

definition decode_nav_clock :: "ubx_frame \<Rightarrow> ubx_nav_clock option" where
  "decode_nav_clock frame =
     (if hdr_payload_length (frame_header frame) \<noteq> UBX_NAV_CLOCK_PAYLOAD_LEN then None
      else do {
        let r = byte_reader_new (frame_payload frame);
        (i_tow, r) \<leftarrow> rd_le32 r;
        (clk_b, r) \<leftarrow> rd_le32s r;
        (clk_d, r) \<leftarrow> rd_le32s r;
        (t_acc, r) \<leftarrow> rd_le32 r;
        (f_acc, r) \<leftarrow> rd_le32 r;
        Some \<lparr>nav_clock_i_tow = i_tow, nav_clock_clk_b = clk_b, nav_clock_clk_d = clk_d,
              nav_clock_t_acc = t_acc, nav_clock_f_acc = f_acc\<rparr>
      })"

lemma decode_nav_clock_layout [decoder_layouts]:
  assumes "frame_ok frame" and p: "frame_payload frame = p"
  shows "decode_nav_clock frame =
     (if length p = 20
      then Some \<lparr>nav_clock_i_tow = le32_at p 0, nav_clock_clk_b = le32_at p 4,
               nav_clock_clk_d = le32_at p 8, nav_clock_t_acc = le32_at p 12,
               nav_clock_f_acc = le32_at p 16\<rparr>
      else None)"
  by (simp add: decode_nav_clock_def frame_ok_length [OF assms] reader_at_new at_simps ubx_consts)

subsection \<open>\<open>nav_timegps_decoder\<close>\<close>

definition decode_nav_timegps :: "ubx_frame \<Rightarrow> ubx_nav_timegps option" where
  "decode_nav_timegps frame =
     (if hdr_payload_length (frame_header frame) \<noteq> UBX_NAV_TIMEGPS_PAYLOAD_LEN then None
      else do {
        let r = byte_reader_new (frame_payload frame);
        (i_tow, r) \<leftarrow> rd_le32 r;
        (f_tow, r) \<leftarrow> rd_le32s r;
        (week, r) \<leftarrow> rd_le16s r;
        (leap_s, r) \<leftarrow> rd_u8 r;
        (valid, r) \<leftarrow> rd_u8 r;
        (t_acc, r) \<leftarrow> rd_le32 r;
        Some \<lparr>nav_timegps_i_tow = i_tow, nav_timegps_f_tow = f_tow, nav_timegps_week = week,
              nav_timegps_leap_s = leap_s, nav_timegps_valid = valid, nav_timegps_t_acc = t_acc\<rparr>
      })"

lemma decode_nav_timegps_layout [decoder_layouts]:
  assumes "frame_ok frame" and p: "frame_payload frame = p"
  shows "decode_nav_timegps frame =
     (if length p = 16
      then Some \<lparr>nav_timegps_i_tow = le32_at p 0, nav_timegps_f_tow = le32_at p 4,
               nav_timegps_week = le16_at p 8, nav_timegps_leap_s = p ! 10,
               nav_timegps_valid = p ! 11, nav_timegps_t_acc = le32_at p 12\<rparr>
      else None)"
  by (simp add: decode_nav_timegps_def frame_ok_length [OF assms] reader_at_new at_simps ubx_consts)

subsection \<open>\<open>nav_timeutc_decoder\<close>\<close>

definition decode_nav_timeutc :: "ubx_frame \<Rightarrow> ubx_nav_timeutc option" where
  "decode_nav_timeutc frame =
     (if hdr_payload_length (frame_header frame) \<noteq> UBX_NAV_TIMEUTC_PAYLOAD_LEN then None
      else do {
        let r = byte_reader_new (frame_payload frame);
        (i_tow, r) \<leftarrow> rd_le32 r;
        (t_acc, r) \<leftarrow> rd_le32 r;
        (nano, r) \<leftarrow> rd_le32s r;
        (year, r) \<leftarrow> rd_le16 r;
        (month, r) \<leftarrow> rd_u8 r;
        (day, r) \<leftarrow> rd_u8 r;
        (hour, r) \<leftarrow> rd_u8 r;
        (minute, r) \<leftarrow> rd_u8 r;
        (second, r) \<leftarrow> rd_u8 r;
        (valid, r) \<leftarrow> rd_u8 r;
        Some \<lparr>nav_timeutc_i_tow = i_tow, nav_timeutc_t_acc = t_acc, nav_timeutc_nano = nano,
              nav_timeutc_year = year, nav_timeutc_month = month, nav_timeutc_day = day,
              nav_timeutc_hour = hour, nav_timeutc_min = minute, nav_timeutc_sec = second,
              nav_timeutc_valid = valid\<rparr>
      })"

lemma decode_nav_timeutc_layout [decoder_layouts]:
  assumes "frame_ok frame" and p: "frame_payload frame = p"
  shows "decode_nav_timeutc frame =
     (if length p = 20
      then Some \<lparr>nav_timeutc_i_tow = le32_at p 0, nav_timeutc_t_acc = le32_at p 4,
               nav_timeutc_nano = le32_at p 8, nav_timeutc_year = le16_at p 12,
               nav_timeutc_month = p ! 14, nav_timeutc_day = p ! 15, nav_timeutc_hour = p ! 16,
               nav_timeutc_min = p ! 17, nav_timeutc_sec = p ! 18, nav_timeutc_valid = p ! 19\<rparr>
      else None)"
  by (simp add: decode_nav_timeutc_def frame_ok_length [OF assms] reader_at_new at_simps ubx_consts)

subsection \<open>\<open>nav_eell_decoder\<close>\<close>

definition decode_nav_eell :: "ubx_frame \<Rightarrow> ubx_nav_eell option" where
  "decode_nav_eell frame =
     (if hdr_payload_length (frame_header frame) \<noteq> UBX_NAV_EELL_PAYLOAD_LEN then None
      else do {
        let r = byte_reader_new (frame_payload frame);
        (i_tow, r) \<leftarrow> rd_le32 r;
        (version, r) \<leftarrow> rd_u8 r;
        r \<leftarrow> rd_skip 3 r;
        (err_maj, r) \<leftarrow> rd_le16 r;
        (err_min, r) \<leftarrow> rd_le16 r;
        (err_orient, r) \<leftarrow> rd_le16 r;
        r \<leftarrow> rd_skip 2 r;
        Some \<lparr>nav_eell_i_tow = i_tow, nav_eell_version = version, nav_eell_err_maj = err_maj,
              nav_eell_err_min = err_min, nav_eell_err_orient = err_orient\<rparr>
      })"

lemma decode_nav_eell_layout [decoder_layouts]:
  assumes "frame_ok frame" and p: "frame_payload frame = p"
  shows "decode_nav_eell frame =
     (if length p = 16
      then Some \<lparr>nav_eell_i_tow = le32_at p 0, nav_eell_version = p ! 4,
               nav_eell_err_maj = le16_at p 8, nav_eell_err_min = le16_at p 10,
               nav_eell_err_orient = le16_at p 12\<rparr>
      else None)"
  by (simp add: decode_nav_eell_def frame_ok_length [OF assms] reader_at_new at_simps ubx_consts)

subsection \<open>\<open>nav2_pvt_decoder\<close>\<close>

definition decode_nav2_pvt :: "ubx_frame \<Rightarrow> ubx_nav2_pvt option" where
  "decode_nav2_pvt frame =
     (if hdr_payload_length (frame_header frame) \<noteq> UBX_NAV2_PVT_PAYLOAD_LEN then None
      else do {
        let r = byte_reader_new (frame_payload frame);
        (i_tow, r) \<leftarrow> rd_le32 r;
        (year, r) \<leftarrow> rd_le16 r;
        (month, r) \<leftarrow> rd_u8 r;
        (day, r) \<leftarrow> rd_u8 r;
        (hour, r) \<leftarrow> rd_u8 r;
        (minute, r) \<leftarrow> rd_u8 r;
        (second, r) \<leftarrow> rd_u8 r;
        (valid, r) \<leftarrow> rd_u8 r;
        (t_acc, r) \<leftarrow> rd_le32 r;
        (nano, r) \<leftarrow> rd_le32s r;
        (fix_type, r) \<leftarrow> rd_u8 r;
        (flags, r) \<leftarrow> rd_u8 r;
        (flags2, r) \<leftarrow> rd_u8 r;
        (num_sv, r) \<leftarrow> rd_u8 r;
        (lon, r) \<leftarrow> rd_le32s r;
        (lat, r) \<leftarrow> rd_le32s r;
        (height, r) \<leftarrow> rd_le32s r;
        (h_msl, r) \<leftarrow> rd_le32s r;
        (h_acc, r) \<leftarrow> rd_le32 r;
        (v_acc, r) \<leftarrow> rd_le32 r;
        (vel_n, r) \<leftarrow> rd_le32s r;
        (vel_e, r) \<leftarrow> rd_le32s r;
        (vel_d, r) \<leftarrow> rd_le32s r;
        (g_speed, r) \<leftarrow> rd_le32s r;
        (head_mot, r) \<leftarrow> rd_le32s r;
        (s_acc, r) \<leftarrow> rd_le32 r;
        (head_acc, r) \<leftarrow> rd_le32 r;
        (p_dop, r) \<leftarrow> rd_le16 r;
        (flags3, r) \<leftarrow> rd_u8 r;
        r \<leftarrow> rd_skip 5 r;
        (head_veh, r) \<leftarrow> rd_le32s r;
        (mag_dec, r) \<leftarrow> rd_le16s r;
        (mag_acc, r) \<leftarrow> rd_le16 r;
        Some \<lparr>nav2_pvt_i_tow = i_tow, nav2_pvt_year = year, nav2_pvt_month = month,
              nav2_pvt_day = day, nav2_pvt_hour = hour, nav2_pvt_min = minute,
              nav2_pvt_sec = second, nav2_pvt_valid = valid, nav2_pvt_t_acc = t_acc,
              nav2_pvt_nano = nano, nav2_pvt_fix_type = fix_type, nav2_pvt_flags = flags,
              nav2_pvt_flags2 = flags2, nav2_pvt_num_sv = num_sv, nav2_pvt_lon = lon,
              nav2_pvt_lat = lat, nav2_pvt_height = height, nav2_pvt_h_msl = h_msl,
              nav2_pvt_h_acc = h_acc, nav2_pvt_v_acc = v_acc, nav2_pvt_vel_n = vel_n,
              nav2_pvt_vel_e = vel_e, nav2_pvt_vel_d = vel_d, nav2_pvt_g_speed = g_speed,
              nav2_pvt_head_mot = head_mot, nav2_pvt_s_acc = s_acc, nav2_pvt_head_acc = head_acc,
              nav2_pvt_p_dop = p_dop, nav2_pvt_flags3 = flags3, nav2_pvt_head_veh = head_veh,
              nav2_pvt_mag_dec = mag_dec, nav2_pvt_mag_acc = mag_acc\<rparr>
      })"

lemma decode_nav2_pvt_layout [decoder_layouts]:
  assumes "frame_ok frame" and p: "frame_payload frame = p"
  shows "decode_nav2_pvt frame =
     (if length p = 92
      then Some \<lparr>nav2_pvt_i_tow = le32_at p 0, nav2_pvt_year = le16_at p 4, nav2_pvt_month = p ! 6,
               nav2_pvt_day = p ! 7, nav2_pvt_hour = p ! 8, nav2_pvt_min = p ! 9,
               nav2_pvt_sec = p ! 10, nav2_pvt_valid = p ! 11, nav2_pvt_t_acc = le32_at p 12,
               nav2_pvt_nano = le32_at p 16, nav2_pvt_fix_type = p ! 20, nav2_pvt_flags = p ! 21,
               nav2_pvt_flags2 = p ! 22, nav2_pvt_num_sv = p ! 23, nav2_pvt_lon = le32_at p 24,
               nav2_pvt_lat = le32_at p 28, nav2_pvt_height = le32_at p 32,
               nav2_pvt_h_msl = le32_at p 36, nav2_pvt_h_acc = le32_at p 40,
               nav2_pvt_v_acc = le32_at p 44, nav2_pvt_vel_n = le32_at p 48,
               nav2_pvt_vel_e = le32_at p 52, nav2_pvt_vel_d = le32_at p 56,
               nav2_pvt_g_speed = le32_at p 60, nav2_pvt_head_mot = le32_at p 64,
               nav2_pvt_s_acc = le32_at p 68, nav2_pvt_head_acc = le32_at p 72,
               nav2_pvt_p_dop = le16_at p 76, nav2_pvt_flags3 = p ! 78,
               nav2_pvt_head_veh = le32_at p 84, nav2_pvt_mag_dec = le16_at p 88,
               nav2_pvt_mag_acc = le16_at p 90\<rparr>
      else None)"
  by (simp add: decode_nav2_pvt_def frame_ok_length [OF assms] reader_at_new at_simps ubx_consts)

subsection \<open>\<open>nav2_dop_decoder\<close>\<close>

definition decode_nav2_dop :: "ubx_frame \<Rightarrow> ubx_nav2_dop option" where
  "decode_nav2_dop frame =
     (if hdr_payload_length (frame_header frame) \<noteq> UBX_NAV2_DOP_PAYLOAD_LEN then None
      else do {
        let r = byte_reader_new (frame_payload frame);
        (i_tow, r) \<leftarrow> rd_le32 r;
        (g_dop, r) \<leftarrow> rd_le16 r;
        (p_dop, r) \<leftarrow> rd_le16 r;
        (t_dop, r) \<leftarrow> rd_le16 r;
        (v_dop, r) \<leftarrow> rd_le16 r;
        (h_dop, r) \<leftarrow> rd_le16 r;
        (n_dop, r) \<leftarrow> rd_le16 r;
        (e_dop, r) \<leftarrow> rd_le16 r;
        Some \<lparr>nav2_dop_i_tow = i_tow, nav2_dop_g_dop = g_dop, nav2_dop_p_dop = p_dop,
              nav2_dop_t_dop = t_dop, nav2_dop_v_dop = v_dop, nav2_dop_h_dop = h_dop,
              nav2_dop_n_dop = n_dop, nav2_dop_e_dop = e_dop\<rparr>
      })"

lemma decode_nav2_dop_layout [decoder_layouts]:
  assumes "frame_ok frame" and p: "frame_payload frame = p"
  shows "decode_nav2_dop frame =
     (if length p = 18
      then Some \<lparr>nav2_dop_i_tow = le32_at p 0, nav2_dop_g_dop = le16_at p 4,
               nav2_dop_p_dop = le16_at p 6, nav2_dop_t_dop = le16_at p 8,
               nav2_dop_v_dop = le16_at p 10, nav2_dop_h_dop = le16_at p 12,
               nav2_dop_n_dop = le16_at p 14, nav2_dop_e_dop = le16_at p 16\<rparr>
      else None)"
  by (simp add: decode_nav2_dop_def frame_ok_length [OF assms] reader_at_new at_simps ubx_consts)

subsection \<open>\<open>nav2_timegps_decoder\<close>\<close>

definition decode_nav2_timegps :: "ubx_frame \<Rightarrow> ubx_nav2_timegps option" where
  "decode_nav2_timegps frame =
     (if hdr_payload_length (frame_header frame) \<noteq> UBX_NAV2_TIMEGPS_PAYLOAD_LEN then None
      else do {
        let r = byte_reader_new (frame_payload frame);
        (i_tow, r) \<leftarrow> rd_le32 r;
        (f_tow, r) \<leftarrow> rd_le32s r;
        (week, r) \<leftarrow> rd_le16s r;
        (leap_s, r) \<leftarrow> rd_u8 r;
        (valid, r) \<leftarrow> rd_u8 r;
        (t_acc, r) \<leftarrow> rd_le32 r;
        Some \<lparr>nav2_timegps_i_tow = i_tow, nav2_timegps_f_tow = f_tow, nav2_timegps_week = week,
              nav2_timegps_leap_s = leap_s, nav2_timegps_valid = valid,
              nav2_timegps_t_acc = t_acc\<rparr>
      })"

lemma decode_nav2_timegps_layout [decoder_layouts]:
  assumes "frame_ok frame" and p: "frame_payload frame = p"
  shows "decode_nav2_timegps frame =
     (if length p = 16
      then Some \<lparr>nav2_timegps_i_tow = le32_at p 0, nav2_timegps_f_tow = le32_at p 4,
               nav2_timegps_week = le16_at p 8, nav2_timegps_leap_s = p ! 10,
               nav2_timegps_valid = p ! 11, nav2_timegps_t_acc = le32_at p 12\<rparr>
      else None)"
  by (simp add: decode_nav2_timegps_def frame_ok_length [OF assms] reader_at_new at_simps ubx_consts)

subsection \<open>\<open>nav2_eell_decoder\<close>\<close>

definition decode_nav2_eell :: "ubx_frame \<Rightarrow> ubx_nav2_eell option" where
  "decode_nav2_eell frame =
     (if hdr_payload_length (frame_header frame) \<noteq> UBX_NAV2_EELL_PAYLOAD_LEN then None
      else do {
        let r = byte_reader_new (frame_payload frame);
        (i_tow, r) \<leftarrow> rd_le32 r;
        (version, r) \<leftarrow> rd_u8 r;
        r \<leftarrow> rd_skip 3 r;
        (err_maj, r) \<leftarrow> rd_le16 r;
        (err_min, r) \<leftarrow> rd_le16 r;
        (err_orient, r) \<leftarrow> rd_le16 r;
        r \<leftarrow> rd_skip 2 r;
        Some \<lparr>nav2_eell_i_tow = i_tow, nav2_eell_version = version, nav2_eell_err_maj = err_maj,
              nav2_eell_err_min = err_min, nav2_eell_err_orient = err_orient\<rparr>
      })"

lemma decode_nav2_eell_layout [decoder_layouts]:
  assumes "frame_ok frame" and p: "frame_payload frame = p"
  shows "decode_nav2_eell frame =
     (if length p = 16
      then Some \<lparr>nav2_eell_i_tow = le32_at p 0, nav2_eell_version = p ! 4,
               nav2_eell_err_maj = le16_at p 8, nav2_eell_err_min = le16_at p 10,
               nav2_eell_err_orient = le16_at p 12\<rparr>
      else None)"
  by (simp add: decode_nav2_eell_def frame_ok_length [OF assms] reader_at_new at_simps ubx_consts)

subsection \<open>\<open>esf_ins_decoder\<close>\<close>

definition decode_esf_ins :: "ubx_frame \<Rightarrow> ubx_esf_ins option" where
  "decode_esf_ins frame =
     (if hdr_payload_length (frame_header frame) \<noteq> UBX_ESF_INS_PAYLOAD_LEN then None
      else do {
        let r = byte_reader_new (frame_payload frame);
        (bitfield0, r) \<leftarrow> rd_le32 r;
        r \<leftarrow> rd_skip 4 r;
        (i_tow, r) \<leftarrow> rd_le32 r;
        (x_ang_rate, r) \<leftarrow> rd_le32s r;
        (y_ang_rate, r) \<leftarrow> rd_le32s r;
        (z_ang_rate, r) \<leftarrow> rd_le32s r;
        (x_accel, r) \<leftarrow> rd_le32s r;
        (y_accel, r) \<leftarrow> rd_le32s r;
        (z_accel, r) \<leftarrow> rd_le32s r;
        Some \<lparr>esf_ins_bitfield0 = bitfield0, esf_ins_i_tow = i_tow,
              esf_ins_x_ang_rate = x_ang_rate, esf_ins_y_ang_rate = y_ang_rate,
              esf_ins_z_ang_rate = z_ang_rate, esf_ins_x_accel = x_accel,
              esf_ins_y_accel = y_accel, esf_ins_z_accel = z_accel\<rparr>
      })"

lemma decode_esf_ins_layout [decoder_layouts]:
  assumes "frame_ok frame" and p: "frame_payload frame = p"
  shows "decode_esf_ins frame =
     (if length p = 36
      then Some \<lparr>esf_ins_bitfield0 = le32_at p 0, esf_ins_i_tow = le32_at p 8,
               esf_ins_x_ang_rate = le32_at p 12, esf_ins_y_ang_rate = le32_at p 16,
               esf_ins_z_ang_rate = le32_at p 20, esf_ins_x_accel = le32_at p 24,
               esf_ins_y_accel = le32_at p 28, esf_ins_z_accel = le32_at p 32\<rparr>
      else None)"
  by (simp add: decode_esf_ins_def frame_ok_length [OF assms] reader_at_new at_simps ubx_consts)

subsection \<open>\<open>tim_tp_decoder\<close>\<close>

definition decode_tim_tp :: "ubx_frame \<Rightarrow> ubx_tim_tp option" where
  "decode_tim_tp frame =
     (if hdr_payload_length (frame_header frame) \<noteq> UBX_TIM_TP_PAYLOAD_LEN then None
      else do {
        let r = byte_reader_new (frame_payload frame);
        (tow_ms, r) \<leftarrow> rd_le32 r;
        (tow_sub_ms, r) \<leftarrow> rd_le32 r;
        (q_err, r) \<leftarrow> rd_le32s r;
        (week, r) \<leftarrow> rd_le16 r;
        (flags, r) \<leftarrow> rd_u8 r;
        (ref_info, r) \<leftarrow> rd_u8 r;
        Some \<lparr>tim_tp_tow_ms = tow_ms, tim_tp_tow_sub_ms = tow_sub_ms, tim_tp_q_err = q_err,
              tim_tp_week = week, tim_tp_flags = flags, tim_tp_ref_info = ref_info\<rparr>
      })"

lemma decode_tim_tp_layout [decoder_layouts]:
  assumes "frame_ok frame" and p: "frame_payload frame = p"
  shows "decode_tim_tp frame =
     (if length p = 16
      then Some \<lparr>tim_tp_tow_ms = le32_at p 0, tim_tp_tow_sub_ms = le32_at p 4,
               tim_tp_q_err = le32_at p 8, tim_tp_week = le16_at p 12, tim_tp_flags = p ! 14,
               tim_tp_ref_info = p ! 15\<rparr>
      else None)"
  by (simp add: decode_tim_tp_def frame_ok_length [OF assms] reader_at_new at_simps ubx_consts)

subsection \<open>\<open>sec_crc_decoder\<close>\<close>

definition decode_sec_crc :: "ubx_frame \<Rightarrow> ubx_sec_crc option" where
  "decode_sec_crc frame =
     (if hdr_payload_length (frame_header frame) < UBX_SEC_CRC_PAYLOAD_LEN then None
      else do {
        let r = byte_reader_new (frame_payload frame);
        (version, r) \<leftarrow> rd_u8 r;
        (crc_type, r) \<leftarrow> rd_u8 r;
        (reserved, r) \<leftarrow> rd_le16 r;
        (crc32, r) \<leftarrow> rd_le32 r;
        Some \<lparr>sec_crc_version = version, sec_crc_crc_type = crc_type,
              sec_crc_reserved = reserved, sec_crc_crc32 = crc32\<rparr>
      })"

lemma decode_sec_crc_layout [decoder_layouts]:
  assumes "frame_ok frame" and p: "frame_payload frame = p"
  shows "decode_sec_crc frame =
     (if 8 \<le> length p
      then Some \<lparr>sec_crc_version = p ! 0, sec_crc_crc_type = p ! 1, sec_crc_reserved = le16_at p 2,
               sec_crc_crc32 = le32_at p 4\<rparr>
      else None)"
  by (simp add: decode_sec_crc_def frame_ok_length [OF assms] reader_at_new at_simps ubx_consts del: One_nat_def)

subsection \<open>\<open>upd_sos_decoder\<close>\<close>

definition decode_upd_sos :: "ubx_frame \<Rightarrow> ubx_upd_sos_output option" where
  "decode_upd_sos frame =
     (if hdr_payload_length (frame_header frame) < UBX_UPD_SOS_OUTPUT_PAYLOAD_LEN then None
      else do {
        let r = byte_reader_new (frame_payload frame);
        (cmd, r) \<leftarrow> rd_u8 r;
        r \<leftarrow> rd_skip 3 r;
        (response, r) \<leftarrow> rd_u8 r;
        r \<leftarrow> rd_skip 3 r;
        if cmd \<noteq> UPD_SOS_CMD_ACK \<and> cmd \<noteq> UPD_SOS_CMD_RESTORE then None
        else Some \<lparr>upd_sos_cmd = cmd, upd_sos_response = response\<rparr>
      })"

lemma decode_upd_sos_layout [decoder_layouts]:
  assumes "frame_ok frame" and p: "frame_payload frame = p"
  shows "decode_upd_sos frame =
     (if 8 \<le> length p \<and> (p ! 0 = 2 \<or> p ! 0 = 3)
      then Some \<lparr>upd_sos_cmd = p ! 0, upd_sos_response = p ! 4\<rparr>
      else None)"
  by (simp add: decode_upd_sos_def frame_ok_length [OF assms] reader_at_new at_simps ubx_consts
      del: One_nat_def)


subsection \<open>\<open>sec_sig_decoder\<close>\<close>

definition decode_sec_sig :: "ubx_frame \<Rightarrow> ubx_sec_sig option" where
  "decode_sec_sig frame =
     (if hdr_payload_length (frame_header frame) < UBX_SEC_SIG_PAYLOAD_LEN then None
      else do {
        let r = byte_reader_new (frame_payload frame);
        (version, r) \<leftarrow> rd_u8 r;
        r \<leftarrow> rd_skip 3 r;
        (jam_flags, r) \<leftarrow> rd_u8 r;
        let jam_det_enabled = drop_bit 0 jam_flags AND 0x01;
        let jamming_state = drop_bit 1 jam_flags AND 0x03;
        r \<leftarrow> rd_skip 3 r;
        (spf_flags, r) \<leftarrow> rd_u8 r;
        let spf_det_enabled = drop_bit 0 spf_flags AND 0x01;
        let spoofing_state = drop_bit 1 spf_flags AND 0x07;
        r \<leftarrow> rd_skip 3 r;
        Some \<lparr>sec_sig_version = version, sec_sig_jam_flags = jam_flags,
              sec_sig_jam_det_enabled = jam_det_enabled, sec_sig_jamming_state = jamming_state,
              sec_sig_spf_flags = spf_flags, sec_sig_spf_det_enabled = spf_det_enabled,
              sec_sig_spoofing_state = spoofing_state\<rparr>
      })"

lemma decode_sec_sig_layout [decoder_layouts]:
  assumes "frame_ok frame" and p: "frame_payload frame = p"
  shows "decode_sec_sig frame =
     (if 12 \<le> length p
      then Some \<lparr>sec_sig_version = p ! 0, sec_sig_jam_flags = p ! 4,
               sec_sig_jam_det_enabled = p ! 4 AND 1,
               sec_sig_jamming_state = drop_bit 1 (p ! 4) AND 3,
               sec_sig_spf_flags = p ! 8, sec_sig_spf_det_enabled = p ! 8 AND 1,
               sec_sig_spoofing_state = drop_bit 1 (p ! 8) AND 7\<rparr>
      else None)"
  by (simp add: decode_sec_sig_def frame_ok_length [OF assms] reader_at_new at_simps ubx_consts
      del: One_nat_def)


subsection \<open>\<open>mon_txbuf_decoder\<close>\<close>

definition decode_mon_txbuf :: "ubx_frame \<Rightarrow> ubx_mon_txbuf option" where
  "decode_mon_txbuf frame =
     (if hdr_payload_length (frame_header frame) \<noteq> UBX_MON_TXBUF_PAYLOAD_LEN then None
      else do {
        let r = byte_reader_new (frame_payload frame);
        (pending, r) \<leftarrow> rd_repeat (unat UBX_MON_TXBUF_NUM_TARGETS) rd_le16 r;
        (usage, r) \<leftarrow> rd_repeat (unat UBX_MON_TXBUF_NUM_TARGETS) rd_u8 r;
        (peak_usage, r) \<leftarrow> rd_repeat (unat UBX_MON_TXBUF_NUM_TARGETS) rd_u8 r;
        (t_used, r) \<leftarrow> rd_u8 r;
        (t_peak, r) \<leftarrow> rd_u8 r;
        (errors, r) \<leftarrow> rd_u8 r;
        r \<leftarrow> rd_skip 1 r;
        Some \<lparr>mon_txbuf_pending = pending, mon_txbuf_usage = usage,
              mon_txbuf_peak_usage = peak_usage, mon_txbuf_t_used = t_used,
              mon_txbuf_t_peak = t_peak, mon_txbuf_errors = errors\<rparr>
      })"

lemma decode_mon_txbuf_layout [decoder_layouts]:
  assumes "frame_ok frame" and p: "frame_payload frame = p"
  shows "decode_mon_txbuf frame =
     (if length p = 28
      then Some \<lparr>mon_txbuf_pending = map (\<lambda>i. le16_at p (2 * i)) [0..<6],
               mon_txbuf_usage = map (\<lambda>i. p ! (12 + i)) [0..<6],
               mon_txbuf_peak_usage = map (\<lambda>i. p ! (18 + i)) [0..<6],
               mon_txbuf_t_used = p ! 24, mon_txbuf_t_peak = p ! 25, mon_txbuf_errors = p ! 26\<rparr>
      else None)"
  by (simp add: decode_mon_txbuf_def frame_ok_length [OF assms] reader_at_new at_simps ubx_consts
      le16.repeat_at u8.repeat_at mult.commute del: upt_Suc upt_rec_numeral)


end
