(* ===== verification/Ubx_Block_Decoders.thy ===== *)
theory Ubx_Block_Decoders
  imports Ubx_Decoders
begin

text \<open>
  The decoders of messages with repeated blocks or text (\<open>nav_sat\<close>, \<open>nav_sig\<close>, \<open>rxm_measx\<close>,
  \<open>esf_status\<close>, \<open>esf_meas\<close>, \<open>mon_io\<close>, \<open>mon_span\<close>, \<open>mon_ver\<close>, \<open>inf\<close>), of
  \<open>ext_libs/ubx_parser/src/decoders/*.cpp\<close>, and the decoder objects that pair each \<open>decode\<close> with
  the class and ID it is registered under. A fixed array of which only the first entries are
  filled keeps its zeroed tail. A layout lemma gives each decoder's result by byte offsets and
  its exact acceptance condition.
\<close>

section \<open>Declared lengths\<close>

text \<open>\<open>static_cast<uint16_t>(HEADER + static_cast<uint32_t>(count) * BLOCK)\<close>.\<close>

definition expected_len :: "u16 \<Rightarrow> u8 \<Rightarrow> u16 \<Rightarrow> u16" where
  "expected_len header count block =
     ucast ((ucast header :: u32) + (ucast count :: u32) * (ucast block :: u32))"

lemma unat_expected_len:
  assumes "unat header + 255 * unat block < 65536"
  shows "unat (expected_len header count block) = unat header + unat count * unat block"
proof -
  have "unat count \<le> 255" using unat_u8_less [of count] by linarith
  then have "unat count * unat block \<le> 255 * unat block" by (rule mult_right_mono) simp
  with assms have lt: "unat count * unat block < 65536" "unat header + unat count * unat block < 65536"
    by linarith+
  have w: "unat (ucast h :: u32) = unat h" for h :: u16
    using unat_u16_less [of h] by (simp add: unsigned_ucast_eq take_bit_nat_eq_self del: unat_u16_less)
  from lt(1) have prod: "unat ((ucast count :: u32) * (ucast block :: u32)) = unat count * unat block"
    by (simp add: unat_word_ariths w)
  from lt(2) have "unat ((ucast header :: u32) + (ucast count :: u32) * (ucast block :: u32))
      = unat header + unat count * unat block"
    by (simp add: unat_word_ariths(1) w prod)
  with lt(2) show ?thesis
    unfolding expected_len_def by (simp add: unsigned_ucast_eq take_bit_nat_eq_self)
qed

lemma frame_len_expected:
  assumes "frame_ok frame" and "frame_payload frame = p" and "unat header + 255 * unat block < 65536"
  shows "hdr_payload_length (frame_header frame) = expected_len header count block
    \<longleftrightarrow> length p = unat header + unat count * unat block"
  using frame_ok_length(1) [OF assms(1,2)] unat_expected_len [OF assms(3)] by simp

section \<open>\<open>nav_sat_decoder\<close>\<close>

definition read_nav_sat_sv :: "byte_reader \<Rightarrow> (nav_sat_sv \<times> byte_reader) option" where
  "read_nav_sat_sv r = do {
     (gnss_id, r) \<leftarrow> rd_u8 r;
     (sv_id, r) \<leftarrow> rd_u8 r;
     (cno, r) \<leftarrow> rd_u8 r;
     (elev, r) \<leftarrow> rd_u8 r;
     (azim, r) \<leftarrow> rd_le16s r;
     (pr_res, r) \<leftarrow> rd_le16s r;
     (flags, r) \<leftarrow> rd_le32 r;
     Some (\<lparr>nav_sat_sv_gnss_id = gnss_id, nav_sat_sv_sv_id = sv_id, nav_sat_sv_cno = cno,
            nav_sat_sv_elev = elev, nav_sat_sv_azim = azim, nav_sat_sv_pr_res = pr_res,
            nav_sat_sv_flags = flags\<rparr>, r)
   }"

definition decode_nav_sat :: "ubx_frame \<Rightarrow> ubx_nav_sat option" where
  "decode_nav_sat frame =
     (if hdr_payload_length (frame_header frame) < UBX_NAV_SAT_HEADER_LEN then None
      else do {
        let r = byte_reader_new (frame_payload frame);
        (i_tow, r) \<leftarrow> rd_le32 r;
        (version, r) \<leftarrow> rd_u8 r;
        (num_svs, r) \<leftarrow> rd_u8 r;
        r \<leftarrow> rd_skip 2 r;
        if hdr_payload_length (frame_header frame)
             \<noteq> expected_len UBX_NAV_SAT_HEADER_LEN num_svs UBX_NAV_SAT_BLOCK_LEN then None
        else do {
          (svs, r) \<leftarrow> rd_repeat (unat num_svs) read_nav_sat_sv r;
          Some \<lparr>nav_sat_i_tow = i_tow, nav_sat_version = version, nav_sat_num_svs = num_svs,
                nav_sat_svs = svs\<rparr>
        }
      })"

definition nav_sat_sv_at :: "bytes \<Rightarrow> nat \<Rightarrow> nav_sat_sv" where
  "nav_sat_sv_at p k =
     \<lparr>nav_sat_sv_gnss_id = p ! k, nav_sat_sv_sv_id = p ! (k + 1), nav_sat_sv_cno = p ! (k + 2),
      nav_sat_sv_elev = p ! (k + 3), nav_sat_sv_azim = le16_at p (k + 4),
      nav_sat_sv_pr_res = le16_at p (k + 6), nav_sat_sv_flags = le32_at p (k + 8)\<rparr>"

interpretation nav_sat_sv: field_at read_nav_sat_sv nav_sat_sv_at 12
  by unfold_locales (simp add: read_nav_sat_sv_def nav_sat_sv_at_def at_simps add.assoc
      del: One_nat_def add_2_eq_Suc add_2_eq_Suc')

lemma decode_nav_sat_layout [decoder_layouts]:
  assumes "frame_ok frame" and p: "frame_payload frame = p"
  shows "decode_nav_sat frame =
     (if 8 \<le> length p \<and> length p = 8 + 12 * unat (p ! 5)
      then Some \<lparr>nav_sat_i_tow = le32_at p 0, nav_sat_version = p ! 4, nav_sat_num_svs = p ! 5,
               nav_sat_svs = map (\<lambda>i. nav_sat_sv_at p (8 + 12 * i)) [0..<unat (p ! 5)]\<rparr>
      else None)"
  by (simp add: decode_nav_sat_def frame_ok_length(2-4) [OF assms] frame_len_expected [OF assms]
      reader_at_new at_simps nav_sat_sv.repeat_at ubx_consts mult.commute del: One_nat_def)

section \<open>\<open>nav_sig_decoder\<close>\<close>

definition read_nav_sig_info :: "byte_reader \<Rightarrow> (nav_sig_info \<times> byte_reader) option" where
  "read_nav_sig_info r = do {
     (gnss_id, r) \<leftarrow> rd_u8 r;
     (sv_id, r) \<leftarrow> rd_u8 r;
     (sig_id, r) \<leftarrow> rd_u8 r;
     (freq_id, r) \<leftarrow> rd_u8 r;
     (pr_res, r) \<leftarrow> rd_le16s r;
     (cno, r) \<leftarrow> rd_u8 r;
     (qual_ind, r) \<leftarrow> rd_u8 r;
     (corr_source, r) \<leftarrow> rd_u8 r;
     (iono_model, r) \<leftarrow> rd_u8 r;
     (sig_flags, r) \<leftarrow> rd_le16 r;
     r \<leftarrow> rd_skip 4 r;
     Some (\<lparr>nav_sig_info_gnss_id = gnss_id, nav_sig_info_sv_id = sv_id,
            nav_sig_info_sig_id = sig_id, nav_sig_info_freq_id = freq_id,
            nav_sig_info_pr_res = pr_res, nav_sig_info_cno = cno, nav_sig_info_qual_ind = qual_ind,
            nav_sig_info_corr_source = corr_source, nav_sig_info_iono_model = iono_model,
            nav_sig_info_sig_flags = sig_flags\<rparr>, r)
   }"

definition decode_nav_sig :: "ubx_frame \<Rightarrow> ubx_nav_sig option" where
  "decode_nav_sig frame =
     (if hdr_payload_length (frame_header frame) < UBX_NAV_SIG_HEADER_LEN then None
      else do {
        let r = byte_reader_new (frame_payload frame);
        (i_tow, r) \<leftarrow> rd_le32 r;
        (version, r) \<leftarrow> rd_u8 r;
        (num_sigs, r) \<leftarrow> rd_u8 r;
        r \<leftarrow> rd_skip 2 r;
        if hdr_payload_length (frame_header frame)
             \<noteq> expected_len UBX_NAV_SIG_HEADER_LEN num_sigs UBX_NAV_SIG_BLOCK_LEN then None
        else do {
          (signals, r) \<leftarrow> rd_repeat (unat num_sigs) read_nav_sig_info r;
          Some \<lparr>nav_sig_i_tow = i_tow, nav_sig_version = version, nav_sig_num_sigs = num_sigs,
                nav_sig_signals = signals\<rparr>
        }
      })"

definition nav_sig_info_at :: "bytes \<Rightarrow> nat \<Rightarrow> nav_sig_info" where
  "nav_sig_info_at p k =
     \<lparr>nav_sig_info_gnss_id = p ! k, nav_sig_info_sv_id = p ! (k + 1),
      nav_sig_info_sig_id = p ! (k + 2), nav_sig_info_freq_id = p ! (k + 3),
      nav_sig_info_pr_res = le16_at p (k + 4), nav_sig_info_cno = p ! (k + 6),
      nav_sig_info_qual_ind = p ! (k + 7), nav_sig_info_corr_source = p ! (k + 8),
      nav_sig_info_iono_model = p ! (k + 9), nav_sig_info_sig_flags = le16_at p (k + 10)\<rparr>"

interpretation nav_sig_info: field_at read_nav_sig_info nav_sig_info_at 16
  by unfold_locales (simp add: read_nav_sig_info_def nav_sig_info_at_def at_simps add.assoc
      del: One_nat_def add_2_eq_Suc add_2_eq_Suc')

lemma decode_nav_sig_layout [decoder_layouts]:
  assumes "frame_ok frame" and p: "frame_payload frame = p"
  shows "decode_nav_sig frame =
     (if 8 \<le> length p \<and> length p = 8 + 16 * unat (p ! 5)
      then Some \<lparr>nav_sig_i_tow = le32_at p 0, nav_sig_version = p ! 4, nav_sig_num_sigs = p ! 5,
               nav_sig_signals = map (\<lambda>i. nav_sig_info_at p (8 + 16 * i)) [0..<unat (p ! 5)]\<rparr>
      else None)"
  by (simp add: decode_nav_sig_def frame_ok_length(2-4) [OF assms] frame_len_expected [OF assms]
      reader_at_new at_simps nav_sig_info.repeat_at ubx_consts mult.commute del: One_nat_def)

section \<open>\<open>rxm_measx_decoder\<close>\<close>

definition read_measx_sv :: "byte_reader \<Rightarrow> (rxm_measx_sv \<times> byte_reader) option" where
  "read_measx_sv r = do {
     (gnss_id, r) \<leftarrow> rd_u8 r;
     (sv_id, r) \<leftarrow> rd_u8 r;
     (cno, r) \<leftarrow> rd_u8 r;
     (mpath_indic, r) \<leftarrow> rd_u8 r;
     (doppler_ms, r) \<leftarrow> rd_le32s r;
     (doppler_hz, r) \<leftarrow> rd_le32s r;
     (whole_chips, r) \<leftarrow> rd_le16 r;
     (frac_chips, r) \<leftarrow> rd_le16 r;
     (code_phase, r) \<leftarrow> rd_le32 r;
     (int_code_phase, r) \<leftarrow> rd_u8 r;
     (pseu_range_rms_err, r) \<leftarrow> rd_u8 r;
     r \<leftarrow> rd_skip 2 r;
     Some (\<lparr>measx_sv_gnss_id = gnss_id, measx_sv_sv_id = sv_id, measx_sv_cno = cno,
            measx_sv_mpath_indic = mpath_indic, measx_sv_doppler_ms = doppler_ms,
            measx_sv_doppler_hz = doppler_hz, measx_sv_whole_chips = whole_chips,
            measx_sv_frac_chips = frac_chips, measx_sv_code_phase = code_phase,
            measx_sv_int_code_phase = int_code_phase,
            measx_sv_pseu_range_rms_err = pseu_range_rms_err\<rparr>, r)
   }"

definition measx_sv_zero :: rxm_measx_sv where
  "measx_sv_zero =
     \<lparr>measx_sv_gnss_id = 0, measx_sv_sv_id = 0, measx_sv_cno = 0, measx_sv_mpath_indic = 0,
      measx_sv_doppler_ms = 0, measx_sv_doppler_hz = 0, measx_sv_whole_chips = 0,
      measx_sv_frac_chips = 0, measx_sv_code_phase = 0, measx_sv_int_code_phase = 0,
      measx_sv_pseu_range_rms_err = 0\<rparr>"

text \<open>
  \<open>T data[MAX]\<close> of a zero-initialised message after a loop that filled the first entries.
\<close>

definition fill_array :: "nat \<Rightarrow> 'a \<Rightarrow> 'a list \<Rightarrow> 'a list" where
  "fill_array size_max z xs = xs @ replicate (size_max - length xs) z"

lemma length_fill_array: "length xs \<le> size_max \<Longrightarrow> length (fill_array size_max z xs) = size_max"
  by (simp add: fill_array_def)

lemma take_fill_array [simp]: "length xs = n \<Longrightarrow> take n (fill_array size_max z xs) = xs"
  by (simp add: fill_array_def)

definition decode_rxm_measx :: "ubx_frame \<Rightarrow> ubx_rxm_measx option" where
  "decode_rxm_measx frame =
     (if hdr_payload_length (frame_header frame) < UBX_RXM_MEASX_HEADER_LEN then None
      else do {
        let r = byte_reader_new (frame_payload frame);
        (version, r) \<leftarrow> rd_u8 r;
        r \<leftarrow> rd_skip 3 r;
        (gps_tow, r) \<leftarrow> rd_le32 r;
        (glo_tow, r) \<leftarrow> rd_le32 r;
        (bds_tow, r) \<leftarrow> rd_le32 r;
        r \<leftarrow> rd_skip 4 r;
        (qzss_tow, r) \<leftarrow> rd_le32 r;
        (gps_tow_acc, r) \<leftarrow> rd_le16 r;
        (glo_tow_acc, r) \<leftarrow> rd_le16 r;
        (bds_tow_acc, r) \<leftarrow> rd_le16 r;
        r \<leftarrow> rd_skip 2 r;
        (qzss_tow_acc, r) \<leftarrow> rd_le16 r;
        (num_svs, r) \<leftarrow> rd_u8 r;
        (flags, r) \<leftarrow> rd_u8 r;
        r \<leftarrow> rd_skip 8 r;
        if hdr_payload_length (frame_header frame)
             \<noteq> expected_len UBX_RXM_MEASX_HEADER_LEN num_svs UBX_RXM_MEASX_SV_BLOCK_LEN then None
        else do {
          let sv_count = (if num_svs \<le> UBX_RXM_MEASX_MAX_SVS then num_svs else UBX_RXM_MEASX_MAX_SVS);
          (svs, r) \<leftarrow> rd_repeat (unat sv_count) read_measx_sv r;
          Some \<lparr>rxm_measx_version = version, rxm_measx_gps_tow = gps_tow, rxm_measx_glo_tow = glo_tow,
                rxm_measx_bds_tow = bds_tow, rxm_measx_qzss_tow = qzss_tow,
                rxm_measx_gps_tow_acc = gps_tow_acc, rxm_measx_glo_tow_acc = glo_tow_acc,
                rxm_measx_bds_tow_acc = bds_tow_acc, rxm_measx_qzss_tow_acc = qzss_tow_acc,
                rxm_measx_num_svs = sv_count, rxm_measx_flags = flags,
                rxm_measx_svs = fill_array (unat UBX_RXM_MEASX_MAX_SVS) measx_sv_zero svs\<rparr>
        }
      })"

definition measx_sv_at :: "bytes \<Rightarrow> nat \<Rightarrow> rxm_measx_sv" where
  "measx_sv_at p k =
     \<lparr>measx_sv_gnss_id = p ! k, measx_sv_sv_id = p ! (k + 1), measx_sv_cno = p ! (k + 2),
      measx_sv_mpath_indic = p ! (k + 3), measx_sv_doppler_ms = le32_at p (k + 4),
      measx_sv_doppler_hz = le32_at p (k + 8), measx_sv_whole_chips = le16_at p (k + 12),
      measx_sv_frac_chips = le16_at p (k + 14), measx_sv_code_phase = le32_at p (k + 16),
      measx_sv_int_code_phase = p ! (k + 20), measx_sv_pseu_range_rms_err = p ! (k + 21)\<rparr>"

interpretation measx_sv: field_at read_measx_sv measx_sv_at 24
  by unfold_locales (simp add: read_measx_sv_def measx_sv_at_def at_simps add.assoc
      del: One_nat_def add_2_eq_Suc add_2_eq_Suc')

lemma measx_count_gt: "\<not> n \<le> (64 :: u8) \<Longrightarrow> 64 \<le> unat n"
  by (simp add: word_le_nat_alt)

lemma decode_rxm_measx_layout [decoder_layouts]:
  assumes "frame_ok frame" and p: "frame_payload frame = p"
  shows "decode_rxm_measx frame =
     (if 44 \<le> length p \<and> length p = 44 + 24 * unat (p ! 34)
      then Some \<lparr>rxm_measx_version = p ! 0, rxm_measx_gps_tow = le32_at p 4,
               rxm_measx_glo_tow = le32_at p 8, rxm_measx_bds_tow = le32_at p 12,
               rxm_measx_qzss_tow = le32_at p 20, rxm_measx_gps_tow_acc = le16_at p 24,
               rxm_measx_glo_tow_acc = le16_at p 26, rxm_measx_bds_tow_acc = le16_at p 28,
               rxm_measx_qzss_tow_acc = le16_at p 32,
               rxm_measx_num_svs = (if p ! 34 \<le> 64 then p ! 34 else 64),
               rxm_measx_flags = p ! 35,
               rxm_measx_svs = fill_array 64 measx_sv_zero
                 (map (\<lambda>i. measx_sv_at p (44 + 24 * i)) [0..<unat (if p ! 34 \<le> 64 then p ! 34 else 64)])\<rparr>
      else None)"
proof (cases "44 \<le> length p")
  case True
  then show ?thesis
    by (simp add: decode_rxm_measx_def frame_ok_length(2-4) [OF assms] frame_len_expected [OF assms]
        reader_at_new at_simps measx_sv.repeat_at measx_count_gt Let_def ubx_consts
        mult.commute del: One_nat_def)
qed (simp add: decode_rxm_measx_def frame_ok_length(2) [OF assms] ubx_consts)

section \<open>\<open>esf_status_decoder\<close>\<close>

definition read_esf_sensor :: "byte_reader \<Rightarrow> (ubx_esf_status_sensor \<times> byte_reader) option" where
  "read_esf_sensor r = do {
     (sens_status1, r) \<leftarrow> rd_u8 r;
     (sens_status2, r) \<leftarrow> rd_u8 r;
     (freq, r) \<leftarrow> rd_u8 r;
     (faults, r) \<leftarrow> rd_u8 r;
     Some (\<lparr>esf_sensor_sens_status1 = sens_status1, esf_sensor_sens_status2 = sens_status2,
            esf_sensor_freq = freq, esf_sensor_faults = faults\<rparr>, r)
   }"

definition esf_sensor_zero :: ubx_esf_status_sensor where
  "esf_sensor_zero = \<lparr>esf_sensor_sens_status1 = 0, esf_sensor_sens_status2 = 0,
     esf_sensor_freq = 0, esf_sensor_faults = 0\<rparr>"

definition decode_esf_status :: "ubx_frame \<Rightarrow> ubx_esf_status option" where
  "decode_esf_status frame =
     (if hdr_payload_length (frame_header frame) < UBX_ESF_STATUS_MIN_PAYLOAD_LEN then None
      else do {
        let r = byte_reader_new (frame_payload frame);
        (i_tow, r) \<leftarrow> rd_le32 r;
        (version, r) \<leftarrow> rd_u8 r;
        r \<leftarrow> rd_skip 7 r;
        (fusion_mode, r) \<leftarrow> rd_u8 r;
        r \<leftarrow> rd_skip 2 r;
        (num_sens, r) \<leftarrow> rd_u8 r;
        if hdr_payload_length (frame_header frame)
             < expected_len UBX_ESF_STATUS_MIN_PAYLOAD_LEN num_sens 4 then None
        else do {
          let sens_count =
            (if num_sens \<le> UBX_ESF_STATUS_MAX_SENS then num_sens else UBX_ESF_STATUS_MAX_SENS);
          (sensors, r) \<leftarrow> rd_repeat (unat sens_count) read_esf_sensor r;
          Some \<lparr>esf_status_i_tow = i_tow, esf_status_version = version,
                esf_status_fusion_mode = fusion_mode, esf_status_num_sens = sens_count,
                esf_status_sensors = fill_array (unat UBX_ESF_STATUS_MAX_SENS) esf_sensor_zero sensors\<rparr>
        }
      })"

definition esf_sensor_at :: "bytes \<Rightarrow> nat \<Rightarrow> ubx_esf_status_sensor" where
  "esf_sensor_at p k = \<lparr>esf_sensor_sens_status1 = p ! k, esf_sensor_sens_status2 = p ! (k + 1),
     esf_sensor_freq = p ! (k + 2), esf_sensor_faults = p ! (k + 3)\<rparr>"

interpretation esf_sensor: field_at read_esf_sensor esf_sensor_at 4
  by unfold_locales (simp add: read_esf_sensor_def esf_sensor_at_def at_simps add.assoc
      del: One_nat_def add_2_eq_Suc add_2_eq_Suc')

lemma sens_count_gt: "\<not> n \<le> (32 :: u8) \<Longrightarrow> 32 \<le> unat n"
  by (simp add: word_le_nat_alt)

lemma decode_esf_status_layout [decoder_layouts]:
  assumes "frame_ok frame" and p: "frame_payload frame = p"
  shows "decode_esf_status frame =
     (if 16 \<le> length p \<and> 16 + 4 * unat (p ! 15) \<le> length p
      then Some \<lparr>esf_status_i_tow = le32_at p 0, esf_status_version = p ! 4,
               esf_status_fusion_mode = p ! 12,
               esf_status_num_sens = (if p ! 15 \<le> 32 then p ! 15 else 32),
               esf_status_sensors = fill_array 32 esf_sensor_zero
                 (map (\<lambda>i. esf_sensor_at p (16 + 4 * i))
                    [0..<unat (if p ! 15 \<le> 32 then p ! 15 else 32)])\<rparr>
      else None)"
proof (cases "16 + 4 * unat (p ! 15) \<le> length p")
  case True
  moreover from True have "\<not> p ! 15 \<le> 32 \<Longrightarrow> 144 \<le> length p"
    using sens_count_gt [of "p ! 15"] by linarith
  ultimately show ?thesis
    by (simp add: decode_esf_status_def frame_ok_length(2-4) [OF assms] unat_expected_len
        reader_at_new at_simps esf_sensor.repeat_at Let_def ubx_consts mult.commute
        del: One_nat_def)
next
  case False
  then show ?thesis
    by (simp add: decode_esf_status_def frame_ok_length(2-4) [OF assms] unat_expected_len
        reader_at_new at_simps ubx_consts mult.commute not_le
        del: One_nat_def)
qed

section \<open>\<open>esf_meas_decoder\<close>\<close>

text \<open>\<open>data_type\<close> is the six bits 29:24 of a word, \<open>data_value\<close> its low 24 bits sign-extended.\<close>

definition esf_datum_of :: "u32 \<Rightarrow> ubx_esf_meas_datum" where
  "esf_datum_of word =
     (let raw24 = word AND 0x00FFFFFF
      in \<lparr>esf_datum_data_type = ucast (drop_bit 24 word AND 0x3F),
          esf_datum_data_value =
            (if raw24 AND 0x00800000 \<noteq> 0 then raw24 OR 0xFF000000 else raw24)\<rparr>)"

definition read_esf_datum :: "byte_reader \<Rightarrow> (ubx_esf_meas_datum \<times> byte_reader) option" where
  "read_esf_datum r = do { (word, r) \<leftarrow> rd_le32 r; Some (esf_datum_of word, r) }"

definition esf_datum_zero :: ubx_esf_meas_datum where
  "esf_datum_zero = \<lparr>esf_datum_data_type = 0, esf_datum_data_value = 0\<rparr>"

definition FLAGS_TIME_TAG_TYPE_MASK :: u16 where [ubx_consts]: "FLAGS_TIME_TAG_TYPE_MASK = 0x0003"

definition decode_esf_meas :: "ubx_frame \<Rightarrow> ubx_esf_meas option" where
  "decode_esf_meas frame =
     (let payload_len = hdr_payload_length (frame_header frame)
      in if payload_len < UBX_ESF_MEAS_MIN_PAYLOAD_LEN then None
      else do {
        let data_bytes = payload_len - UBX_ESF_MEAS_MIN_PAYLOAD_LEN;
        let r = byte_reader_new (frame_payload frame);
        (time_tag, r) \<leftarrow> rd_le32 r;
        (flags, r) \<leftarrow> rd_le16 r;
        (id, r) \<leftarrow> rd_le16 r;
        let has_calib_ttag = (flags AND FLAGS_TIME_TAG_TYPE_MASK \<noteq> 0);
        let calib_bytes = (if has_calib_ttag then 4 else 0);
        if data_bytes < calib_bytes then None
        else let meas_bytes = data_bytes - calib_bytes in
        if meas_bytes mod 4 \<noteq> 0 then None
        else do {
          let num_meas = meas_bytes div 4;
          let decode_count =
            (if num_meas \<le> ucast UBX_ESF_MEAS_MAX_DATA then num_meas else ucast UBX_ESF_MEAS_MAX_DATA);
          (data, r) \<leftarrow> rd_repeat (unat decode_count) read_esf_datum r;
          let skip_count = num_meas - decode_count;
          r \<leftarrow> (if 0 < skip_count then rd_skip (unat skip_count * 4) r else Some r);
          (calib_ttag, r) \<leftarrow> (if has_calib_ttag then rd_le32 r else Some (0, r));
          Some \<lparr>esf_meas_time_tag = time_tag, esf_meas_flags = flags, esf_meas_id = id,
                esf_meas_num_meas = ucast decode_count,
                esf_meas_data = fill_array (unat UBX_ESF_MEAS_MAX_DATA) esf_datum_zero data,
                esf_meas_has_calib_ttag = has_calib_ttag, esf_meas_calib_ttag = calib_ttag\<rparr>
        }
      })"

interpretation esf_datum: field_at read_esf_datum "\<lambda>p n. esf_datum_of (le32_at p n)" 4
  by unfold_locales (simp add: read_esf_datum_def at_simps)

text \<open>
  The number of words is what the payload length leaves after the header and the optional
  calibration time tag; the words beyond the 32nd are skipped.
\<close>

lemma decode_esf_meas_layout:
  assumes "frame_ok frame" and p: "frame_payload frame = p"
    and len: "length p = 8 + 4 * n + (if le16_at p 4 AND 3 \<noteq> 0 then 4 else 0)"
  shows "decode_esf_meas frame = Some
     \<lparr>esf_meas_time_tag = le32_at p 0, esf_meas_flags = le16_at p 4, esf_meas_id = le16_at p 6,
      esf_meas_num_meas = of_nat (min n 32),
      esf_meas_data = fill_array 32 esf_datum_zero
        (map (\<lambda>i. esf_datum_of (le32_at p (8 + 4 * i))) [0..<min n 32]),
      esf_meas_has_calib_ttag = (le16_at p 4 AND 3 \<noteq> 0),
      esf_meas_calib_ttag = (if le16_at p 4 AND 3 \<noteq> 0 then le32_at p (8 + 4 * n) else 0)\<rparr>"
proof -
  define cb :: u16 where "cb = (if le16_at p 4 AND 3 \<noteq> 0 then 4 else 0)"
  define L where "L = hdr_payload_length (frame_header frame)"
  have L: "unat L = length p" unfolding L_def by (rule frame_ok_length(3) [OF assms(1,2)])
  have "length p < 65536" using unat_u16_less [of L] L by simp
  have lenp: "length p = 8 + 4 * n + unat cb" using len by (simp add: cb_def)
  have cb: "unat cb \<le> 4" by (simp add: cb_def)
  have data: "unat (L - 8) = 4 * n + unat cb"
    using lenp L by (simp add: unat_sub word_le_nat_alt)
  have meas: "unat (L - 8 - cb) = 4 * n"
    using data by (simp add: unat_sub word_le_nat_alt)
  have div: "(L - 8 - cb) div 4 = of_nat n" "(L - 8 - cb) mod 4 = 0"
    using meas \<open>length p < 65536\<close> lenp
    by (simp_all add: word_unat_eq_iff unat_div_distrib unat_mod_distrib unat_of_nat)
  have n: "unat (of_nat n :: u16) = n" using lenp \<open>length p < 65536\<close> by (simp add: unat_of_nat)
  have le: "of_nat n \<le> (32 :: u16) \<longleftrightarrow> n \<le> 32" using n by (simp add: word_le_nat_alt)
  have skip: "unat ((of_nat n :: u16) - 32) = n - 32" "0 < (of_nat n :: u16) - 32" if "32 < n"
    using n that by (simp_all add: unat_sub word_le_nat_alt word_less_nat_alt)
  have num: "ucast (of_nat n :: u16) = (of_nat n :: u8)" if "n \<le> 32"
    using that by (simp add: word_unat_eq_iff unat_of_nat unsigned_ucast_eq take_bit_nat_eq_self)
  have ge: "\<not> L - 8 < cb" using data by (simp add: word_less_nat_alt)
  note facts = ge div data lenp L n le skip num
  note decode = decode_esf_meas_def L_def [symmetric] cb_def frame_ok_length(4) [OF assms(1,2)]
    reader_at_new at_simps esf_datum.repeat_at Let_def ubx_consts mult.commute
    word_less_nat_alt [of L]
  show ?thesis
  proof (cases "le16_at p 4 AND 3 = 0"; cases "n \<le> 32")
    assume "le16_at p 4 AND 3 = 0" "n \<le> 32"
    with facts show ?thesis by (simp add: decode del: One_nat_def)
  next
    assume "le16_at p 4 AND 3 = 0" "\<not> n \<le> 32"
    with facts show ?thesis by (simp add: decode del: One_nat_def)
  next
    assume "le16_at p 4 AND 3 \<noteq> 0" "n \<le> 32"
    with facts show ?thesis by (simp add: decode del: One_nat_def)
  next
    assume "le16_at p 4 AND 3 \<noteq> 0" "\<not> n \<le> 32"
    moreover from this have "136 + 4 * (n - 32) = 8 + n * 4" by simp
    ultimately show ?thesis using facts by (simp add: decode \<open>136 + 4 * (n - 32) = 8 + n * 4\<close> del: One_nat_def)
  qed
qed

section \<open>\<open>mon_io_decoder\<close>\<close>

definition read_mon_io_port :: "byte_reader \<Rightarrow> (mon_io_port \<times> byte_reader) option" where
  "read_mon_io_port r = do {
     (rx_bytes, r) \<leftarrow> rd_le32 r;
     (tx_bytes, r) \<leftarrow> rd_le32 r;
     (parity_errs, r) \<leftarrow> rd_le16 r;
     (framing_errs, r) \<leftarrow> rd_le16 r;
     (overrun_errs, r) \<leftarrow> rd_le16 r;
     (break_cond, r) \<leftarrow> rd_le16 r;
     (rx_busy, r) \<leftarrow> rd_u8 r;
     (tx_busy, r) \<leftarrow> rd_u8 r;
     r \<leftarrow> rd_skip 2 r;
     Some (\<lparr>mon_io_port_rx_bytes = rx_bytes, mon_io_port_tx_bytes = tx_bytes,
            mon_io_port_parity_errs = parity_errs, mon_io_port_framing_errs = framing_errs,
            mon_io_port_overrun_errs = overrun_errs, mon_io_port_break_cond = break_cond,
            mon_io_port_rx_busy = rx_busy, mon_io_port_tx_busy = tx_busy\<rparr>, r)
   }"

definition mon_io_port_zero :: mon_io_port where
  "mon_io_port_zero =
     \<lparr>mon_io_port_rx_bytes = 0, mon_io_port_tx_bytes = 0, mon_io_port_parity_errs = 0,
      mon_io_port_framing_errs = 0, mon_io_port_overrun_errs = 0, mon_io_port_break_cond = 0,
      mon_io_port_rx_busy = 0, mon_io_port_tx_busy = 0\<rparr>"

definition decode_mon_io :: "ubx_frame \<Rightarrow> ubx_mon_io option" where
  "decode_mon_io frame =
     (let payload_len = hdr_payload_length (frame_header frame)
      in if payload_len = 0 \<or> payload_len mod UBX_MON_IO_BLOCK_LEN \<noteq> 0 then None
      else do {
        let num_ports = payload_len div UBX_MON_IO_BLOCK_LEN;
        let r = byte_reader_new (frame_payload frame);
        let decode_count =
          (if num_ports \<le> ucast UBX_MON_IO_MAX_PORTS then ucast num_ports else UBX_MON_IO_MAX_PORTS);
        (ports, r) \<leftarrow> rd_repeat (unat decode_count) read_mon_io_port r;
        r \<leftarrow> (if ucast decode_count < num_ports
              then rd_skip (unat ((num_ports - ucast decode_count) * UBX_MON_IO_BLOCK_LEN)) r
              else Some r);
        Some \<lparr>mon_io_num_ports = decode_count,
              mon_io_ports = fill_array (unat UBX_MON_IO_MAX_PORTS) mon_io_port_zero ports\<rparr>
      })"

definition mon_io_port_at :: "bytes \<Rightarrow> nat \<Rightarrow> mon_io_port" where
  "mon_io_port_at p k =
     \<lparr>mon_io_port_rx_bytes = le32_at p k, mon_io_port_tx_bytes = le32_at p (k + 4),
      mon_io_port_parity_errs = le16_at p (k + 8), mon_io_port_framing_errs = le16_at p (k + 10),
      mon_io_port_overrun_errs = le16_at p (k + 12), mon_io_port_break_cond = le16_at p (k + 14),
      mon_io_port_rx_busy = p ! (k + 16), mon_io_port_tx_busy = p ! (k + 17)\<rparr>"

interpretation mon_io_port: field_at read_mon_io_port mon_io_port_at 20
  by unfold_locales (simp add: read_mon_io_port_def mon_io_port_at_def at_simps add.assoc
      del: One_nat_def add_2_eq_Suc add_2_eq_Suc')

lemma ucast_of_nat_u8: "ucast (of_nat n :: u16) = (of_nat n :: u8)"
  by (simp add: word_unat_eq_iff unsigned_ucast_eq unat_of_nat take_bit_eq_mod mod_mod_cancel)

text \<open>
  The arithmetic of a block count computed from the payload length and capped: what the two
  monitor decoders do between their header and the loop.
\<close>

lemma block_count:
  fixes len block :: u16 and cap :: u8
  assumes "unat len = n * unat block" and "0 < unat block"
  shows "len mod block = 0" and "len div block = of_nat n" and "unat (of_nat n :: u16) = n"
    and "(of_nat n :: u16) \<le> ucast cap \<longleftrightarrow> n \<le> unat cap"
    and "n \<le> unat cap \<Longrightarrow> unat (of_nat n :: u8) = n"
    and "n \<le> unat cap \<Longrightarrow> ucast (of_nat n :: u8) = (of_nat n :: u16)"
    and "unat cap < n \<Longrightarrow> (ucast cap :: u16) < of_nat n"
    and "unat cap < n \<Longrightarrow> unat ((of_nat n - ucast cap) * block) = (n - unat cap) * unat block"
proof -
  have "n \<le> unat len" using assms by simp
  moreover have "unat len < 65536" by simp
  ultimately have "n < 65536" by linarith
  then show n: "unat (of_nat n :: u16) = n" by (simp add: unat_of_nat)
  show "len mod block = 0"
    by (simp add: word_unat_eq_iff unat_mod_distrib assms)
  show "len div block = of_nat n"
    by (simp only: word_unat_eq_iff unat_div_distrib assms n) (use assms(2) in simp)
  show le: "(of_nat n :: u16) \<le> ucast cap \<longleftrightarrow> n \<le> unat cap"
    by (simp add: word_le_nat_alt n)
  have cap: "unat cap < 256" by simp
  have small: "n < 256" if "n \<le> unat cap" using that cap by linarith
  show "unat (of_nat n :: u8) = n" if "n \<le> unat cap"
    using small [OF that] by (simp add: unat_of_nat)
  then show "ucast (of_nat n :: u8) = (of_nat n :: u16)" if "n \<le> unat cap"
    using that by (simp add: word_unat_eq_iff n)
  show "(ucast cap :: u16) < of_nat n" if "unat cap < n"
    using that by (simp add: word_less_nat_alt n)
  show "unat ((of_nat n - ucast cap) * block) = (n - unat cap) * unat block" if "unat cap < n"
  proof -
    from that have "unat ((of_nat n :: u16) - ucast cap) = n - unat cap"
      by (simp add: unat_sub word_le_nat_alt n)
    moreover have "(n - unat cap) * unat block \<le> unat len"
      using assms by (simp add: diff_mult_distrib)
    then have "(n - unat cap) * unat block < 65536" using \<open>unat len < 65536\<close> by linarith
    ultimately show ?thesis by (simp add: unat_word_ariths)
  qed
qed

lemma decode_mon_io_layout [decoder_layouts]:
  assumes "frame_ok frame" and p: "frame_payload frame = p"
  shows "decode_mon_io frame =
     (if p \<noteq> [] \<and> length p mod 20 = 0
      then Some \<lparr>mon_io_num_ports = of_nat (min (length p div 20) 8),
               mon_io_ports = fill_array 8 mon_io_port_zero
                 (map (\<lambda>i. mon_io_port_at p (20 * i)) [0..<min (length p div 20) 8])\<rparr>
      else None)"
proof -
  define L where "L = hdr_payload_length (frame_header frame)"
  have L: "unat L = length p" unfolding L_def by (rule frame_ok_length(3) [OF assms])
  have zero: "L = 0 \<longleftrightarrow> p = []" "L mod 20 = 0 \<longleftrightarrow> length p mod 20 = 0"
    using L by (auto simp: word_unat_eq_iff unat_mod_distrib)
  show ?thesis
  proof (cases "length p mod 20 = 0")
    case False
    then show ?thesis by (simp add: decode_mon_io_def L_def [symmetric] zero ubx_consts Let_def)
  next
    case True
    define n where "n = length p div 20"
    have len: "length p = n * 20" unfolding n_def using True by (metis mod_0_imp_dvd dvd_div_mult_self)
    then have "unat L = n * unat (20 :: u16)" using L by simp
    note bc = block_count(1-3) [OF this, simplified] block_count(4-8) [OF this, where cap = 8, simplified]
    show ?thesis
    proof (cases "n \<le> 8")
      case True
      then show ?thesis
        using bc L len
        by (simp add: decode_mon_io_def L_def [symmetric] zero ubx_consts Let_def
            frame_ok_length(4) [OF assms] reader_at_new at_simps mon_io_port.repeat_at ucast_of_nat_u8
            mult.commute)
    next
      case False
      then show ?thesis
        using bc L len
        by (simp add: decode_mon_io_def L_def [symmetric] zero ubx_consts Let_def
            frame_ok_length(4) [OF assms] reader_at_new at_simps mon_io_port.repeat_at ucast_of_nat_u8
            mult.commute)
    qed
  qed
qed

section \<open>\<open>mon_span_decoder\<close>\<close>

definition read_rf_block :: "byte_reader \<Rightarrow> (mon_span_rf_block \<times> byte_reader) option" where
  "read_rf_block r = do {
     (spectrum, r) \<leftarrow> rd_repeat (unat UBX_MON_SPAN_SPECTRUM_BINS) rd_u8 r;
     (span, r) \<leftarrow> rd_le32 r;
     (res, r) \<leftarrow> rd_le32 r;
     (center, r) \<leftarrow> rd_le32 r;
     (pga, r) \<leftarrow> rd_u8 r;
     r \<leftarrow> rd_skip 3 r;
     Some (\<lparr>rf_block_spectrum = spectrum, rf_block_span = span, rf_block_res = res,
            rf_block_center = center, rf_block_pga = pga\<rparr>, r)
   }"

definition rf_block_zero :: mon_span_rf_block where
  "rf_block_zero = \<lparr>rf_block_spectrum = replicate 256 0, rf_block_span = 0, rf_block_res = 0,
     rf_block_center = 0, rf_block_pga = 0\<rparr>"

text \<open>The \<open>numRfBlocks\<close> byte of the header is read and then overwritten by the count derived from
  the payload length.\<close>

definition decode_mon_span :: "ubx_frame \<Rightarrow> ubx_mon_span option" where
  "decode_mon_span frame =
     (let payload_len = hdr_payload_length (frame_header frame)
      in if payload_len < ucast UBX_MON_SPAN_HEADER_LEN + UBX_MON_SPAN_BLOCK_LEN then None
      else let blocks_len = payload_len - ucast UBX_MON_SPAN_HEADER_LEN
      in if blocks_len mod UBX_MON_SPAN_BLOCK_LEN \<noteq> 0 then None
      else do {
        let num_rf_blocks = blocks_len div UBX_MON_SPAN_BLOCK_LEN;
        let r = byte_reader_new (frame_payload frame);
        (version, r) \<leftarrow> rd_u8 r;
        (_, r) \<leftarrow> rd_u8 r;
        r \<leftarrow> rd_skip 2 r;
        let decode_count =
          (if num_rf_blocks \<le> ucast UBX_MON_SPAN_MAX_RF_BLOCKS then ucast num_rf_blocks
           else UBX_MON_SPAN_MAX_RF_BLOCKS);
        (blocks, r) \<leftarrow> rd_repeat (unat decode_count) read_rf_block r;
        r \<leftarrow> (if ucast decode_count < num_rf_blocks
              then rd_skip (unat ((num_rf_blocks - ucast decode_count) * UBX_MON_SPAN_BLOCK_LEN)) r
              else Some r);
        Some \<lparr>mon_span_version = version, mon_span_num_rf_blocks = decode_count,
              mon_span_rf_blocks = fill_array (unat UBX_MON_SPAN_MAX_RF_BLOCKS) rf_block_zero blocks\<rparr>
      })"

definition rf_block_at :: "bytes \<Rightarrow> nat \<Rightarrow> mon_span_rf_block" where
  "rf_block_at p k =
     \<lparr>rf_block_spectrum = map (\<lambda>i. p ! (k + i)) [0..<256], rf_block_span = le32_at p (k + 256),
      rf_block_res = le32_at p (k + 260), rf_block_center = le32_at p (k + 264),
      rf_block_pga = p ! (k + 268)\<rparr>"

interpretation rf_block: field_at read_rf_block rf_block_at 272
  by unfold_locales (simp add: read_rf_block_def rf_block_at_def u8.repeat_at at_simps add.assoc
      ubx_consts del: One_nat_def add_2_eq_Suc add_2_eq_Suc' upt_rec_numeral)

lemma decode_mon_span_layout [decoder_layouts]:
  assumes "frame_ok frame" and p: "frame_payload frame = p"
  shows "decode_mon_span frame =
     (if 276 \<le> length p \<and> (length p - 4) mod 272 = 0
      then Some \<lparr>mon_span_version = p ! 0,
               mon_span_num_rf_blocks = of_nat (min ((length p - 4) div 272) 4),
               mon_span_rf_blocks = fill_array 4 rf_block_zero
                 (map (\<lambda>i. rf_block_at p (4 + 272 * i)) [0..<min ((length p - 4) div 272) 4])\<rparr>
      else None)"
proof (cases "276 \<le> length p")
  case False
  then show ?thesis by (simp add: decode_mon_span_def frame_ok_length(2) [OF assms] ubx_consts Let_def)
next
  case big: True
  define L where "L = hdr_payload_length (frame_header frame)"
  have L: "unat L = length p" unfolding L_def by (rule frame_ok_length(3) [OF assms])
  have ge: "\<not> L < 276" using big L by (simp add: word_less_nat_alt)
  have sub: "unat (L - 4) = length p - 4" using big L by (simp add: unat_sub word_le_nat_alt)
  then have zero: "(L - 4) mod 272 = 0 \<longleftrightarrow> (length p - 4) mod 272 = 0"
    by (simp add: word_unat_eq_iff unat_mod_distrib)
  show ?thesis
  proof (cases "(length p - 4) mod 272 = 0")
    case False
    then show ?thesis
      by (simp add: decode_mon_span_def L_def [symmetric] zero ge ubx_consts Let_def)
  next
    case True
    define n where "n = (length p - 4) div 272"
    have "length p - 4 = n * 272" unfolding n_def using True by (metis mod_0_imp_dvd dvd_div_mult_self)
    then have len: "length p = n * 272 + 4" using big by simp
    then have pos: "1 \<le> n" using big by simp
    have "unat (L - 4) = n * unat (272 :: u16)" using sub len by simp
    note bc = block_count(1-3) [OF this, simplified] block_count(4-8) [OF this, where cap = 4, simplified]
    note decode = decode_mon_span_def L_def [symmetric] zero ge ubx_consts Let_def
      frame_ok_length(4) [OF assms] reader_at_new at_simps rf_block.repeat_at ucast_of_nat_u8
      mult.commute
    show ?thesis
    proof (cases "n \<le> 4")
      case True
      then show ?thesis using bc L len pos by (simp add: decode del: One_nat_def)
    next
      case False
      then show ?thesis using bc L len pos by (simp add: decode del: One_nat_def)
    qed
  qed
qed

section \<open>\<open>mon_ver_decoder\<close>\<close>

text \<open>\<open>static_cast<char>(ch)\<close>: a byte as a character.\<close>

definition char_of_u8 :: "u8 \<Rightarrow> char" where
  "char_of_u8 ch = char_of (unat ch)"

text \<open>
  \<open>read_fixed_string\<close> drops every zero byte of the field and keeps the others, those after the
  first zero byte included.
\<close>

definition read_fixed_string :: "nat \<Rightarrow> byte_reader \<Rightarrow> (string \<times> byte_reader) option" where
  "read_fixed_string field_len r =
     (if remaining r < field_len then None
      else do {
        (chars, r) \<leftarrow> rd_repeat field_len rd_u8 r;
        Some (map char_of_u8 (filter (\<lambda>ch. ch \<noteq> 0) chars), r)
      })"

definition decode_mon_ver :: "ubx_frame \<Rightarrow> ubx_mon_ver option" where
  "decode_mon_ver frame =
     (if hdr_payload_length (frame_header frame) < UBX_MON_VER_MIN_PAYLOAD_LEN then None
      else let extra = hdr_payload_length (frame_header frame) - UBX_MON_VER_MIN_PAYLOAD_LEN
      in if extra mod UBX_MON_VER_EXT_LEN \<noteq> 0 then None
      else do {
        let num_ext = extra div UBX_MON_VER_EXT_LEN;
        let r = byte_reader_new (frame_payload frame);
        (sw_version, r) \<leftarrow> read_fixed_string (unat UBX_MON_VER_SW_LEN) r;
        (hw_version, r) \<leftarrow> read_fixed_string (unat UBX_MON_VER_HW_LEN) r;
        (extensions, r) \<leftarrow> rd_repeat (unat num_ext) (read_fixed_string (unat UBX_MON_VER_EXT_LEN)) r;
        Some \<lparr>mon_ver_sw_version = sw_version, mon_ver_hw_version = hw_version,
              mon_ver_extensions = extensions\<rparr>
      })"

definition fixed_string_at :: "nat \<Rightarrow> bytes \<Rightarrow> nat \<Rightarrow> string" where
  "fixed_string_at n p k = map char_of_u8 (filter (\<lambda>ch. ch \<noteq> 0) (map (\<lambda>i. p ! (k + i)) [0..<n]))"

interpretation fixed_string: field_at "read_fixed_string n" "fixed_string_at n" n for n
  by unfold_locales (simp add: read_fixed_string_def fixed_string_at_def u8.repeat_at)

lemma decode_mon_ver_layout [decoder_layouts]:
  assumes "frame_ok frame" and p: "frame_payload frame = p"
  shows "decode_mon_ver frame =
     (if 40 \<le> length p \<and> (length p - 40) mod 30 = 0
      then Some \<lparr>mon_ver_sw_version = fixed_string_at 30 p 0,
               mon_ver_hw_version = fixed_string_at 10 p 30,
               mon_ver_extensions =
                 map (\<lambda>i. fixed_string_at 30 p (40 + 30 * i)) [0..<(length p - 40) div 30]\<rparr>
      else None)"
proof (cases "40 \<le> length p")
  case False
  then show ?thesis by (simp add: decode_mon_ver_def frame_ok_length(2) [OF assms] ubx_consts Let_def)
next
  case big: True
  define L where "L = hdr_payload_length (frame_header frame)"
  have L: "unat L = length p" unfolding L_def by (rule frame_ok_length(3) [OF assms])
  have ge: "\<not> L < 40" using big L by (simp add: word_less_nat_alt)
  have sub: "unat (L - 40) = length p - 40" using big L by (simp add: unat_sub word_le_nat_alt)
  then have zero: "(L - 40) mod 30 = 0 \<longleftrightarrow> (length p - 40) mod 30 = 0"
    by (simp add: word_unat_eq_iff unat_mod_distrib)
  have div: "unat ((L - 40) div 30) = (length p - 40) div 30" by (simp add: unat_div_distrib sub)
  have "40 + (length p - 40) div 30 * 30 \<le> length p"
    using big div_times_less_eq_dividend [of "length p - 40" 30] by linarith
  with big show ?thesis
    by (simp add: decode_mon_ver_def L_def [symmetric] zero ge div ubx_consts Let_def
        frame_ok_length(4) [OF assms] reader_at_new fixed_string.rd_at fixed_string.repeat_at
        mult.commute)
qed

section \<open>\<open>inf_decoder\<close>\<close>

fun inf_text :: "bytes \<Rightarrow> string" where
  "inf_text [] = []"
| "inf_text (ch # chs) = (if ch = 0 then [] else char_of_u8 ch # inf_text chs)"

definition inf_subtype_of :: "u8 \<Rightarrow> inf_subtype option" where
  "inf_subtype_of msg_id =
     (if msg_id = UBX_ID_INF_ERROR then Some Inf_error
      else if msg_id = UBX_ID_INF_WARNING then Some Inf_warning
      else if msg_id = UBX_ID_INF_NOTICE then Some Inf_notice
      else if msg_id = UBX_ID_INF_TEST then Some Inf_test
      else if msg_id = UBX_ID_INF_DEBUG then Some Inf_debug
      else None)"

definition decode_inf :: "ubx_frame \<Rightarrow> ubx_inf option" where
  "decode_inf frame = do {
     subtype \<leftarrow> inf_subtype_of (hdr_id (frame_header frame));
     Some \<lparr>inf_msg_subtype = subtype,
           inf_msg_text =
             inf_text (take (unat (hdr_payload_length (frame_header frame))) (frame_payload frame))\<rparr>
   }"

lemma inf_text_takeWhile: "inf_text bs = map char_of_u8 (takeWhile (\<lambda>ch. ch \<noteq> 0) bs)"
  by (induction bs) simp_all

lemma decode_inf_layout [decoder_layouts]:
  assumes "frame_ok frame" and p: "frame_payload frame = p"
  shows "decode_inf frame =
     (if hdr_id (frame_header frame) \<le> 4
      then Some \<lparr>inf_msg_subtype = [Inf_error, Inf_warning, Inf_notice, Inf_test, Inf_debug]
                 ! unat (hdr_id (frame_header frame)),
               inf_msg_text = map char_of_u8 (takeWhile (\<lambda>ch. ch \<noteq> 0) p)\<rparr>
      else None)"
proof -
  have le: "i \<le> 4 \<longleftrightarrow> i = 0 \<or> i = 1 \<or> i = 2 \<or> i = 3 \<or> i = 4" for i :: u8
    by (auto simp: word_le_nat_alt word_unat_eq_iff)
  show ?thesis
    using frame_ok_length(3,4) [OF assms]
    by (auto simp: decode_inf_def inf_subtype_of_def inf_text_takeWhile ubx_consts le)
qed

section \<open>Decoder objects\<close>

text \<open>
  Each decoder object answers \<open>msg_class()\<close> and \<open>msg_id()\<close> with the constants of its message and
  hands the decoded message to its callback (which every registration in the program sets).
\<close>

definition ack_ack_decoder :: "ubx_message i_message_decoder" where
  "ack_ack_decoder = \<lparr>dec_class = UBX_CLASS_ACK, dec_id = UBX_ID_ACK_ACK,
     dec_decode = map_option Ack_ack \<circ> decode_ack_ack\<rparr>"

definition ack_nak_decoder :: "ubx_message i_message_decoder" where
  "ack_nak_decoder = \<lparr>dec_class = UBX_CLASS_ACK, dec_id = UBX_ID_ACK_NACK,
     dec_decode = map_option Ack_nak \<circ> decode_ack_nak\<rparr>"

definition nav_pvt_decoder :: "ubx_message i_message_decoder" where
  "nav_pvt_decoder = \<lparr>dec_class = UBX_CLASS_NAV, dec_id = UBX_ID_NAV_PVT,
     dec_decode = map_option Nav_pvt \<circ> decode_nav_pvt\<rparr>"

definition nav_status_decoder :: "ubx_message i_message_decoder" where
  "nav_status_decoder = \<lparr>dec_class = UBX_CLASS_NAV, dec_id = UBX_ID_NAV_STATUS,
     dec_decode = map_option Nav_status \<circ> decode_nav_status\<rparr>"

definition nav_dop_decoder :: "ubx_message i_message_decoder" where
  "nav_dop_decoder = \<lparr>dec_class = UBX_CLASS_NAV, dec_id = UBX_ID_NAV_DOP,
     dec_decode = map_option Nav_dop \<circ> decode_nav_dop\<rparr>"

definition nav_att_decoder :: "ubx_message i_message_decoder" where
  "nav_att_decoder = \<lparr>dec_class = UBX_CLASS_NAV, dec_id = UBX_ID_NAV_ATT,
     dec_decode = map_option Nav_att \<circ> decode_nav_att\<rparr>"

definition nav_odo_decoder :: "ubx_message i_message_decoder" where
  "nav_odo_decoder = \<lparr>dec_class = UBX_CLASS_NAV, dec_id = UBX_ID_NAV_ODO,
     dec_decode = map_option Nav_odo \<circ> decode_nav_odo\<rparr>"

definition nav_clock_decoder :: "ubx_message i_message_decoder" where
  "nav_clock_decoder = \<lparr>dec_class = UBX_CLASS_NAV, dec_id = UBX_ID_NAV_CLOCK,
     dec_decode = map_option Nav_clock \<circ> decode_nav_clock\<rparr>"

definition nav_timegps_decoder :: "ubx_message i_message_decoder" where
  "nav_timegps_decoder = \<lparr>dec_class = UBX_CLASS_NAV, dec_id = UBX_ID_NAV_TIMEGPS,
     dec_decode = map_option Nav_timegps \<circ> decode_nav_timegps\<rparr>"

definition nav_timeutc_decoder :: "ubx_message i_message_decoder" where
  "nav_timeutc_decoder = \<lparr>dec_class = UBX_CLASS_NAV, dec_id = UBX_ID_NAV_TIMEUTC,
     dec_decode = map_option Nav_timeutc \<circ> decode_nav_timeutc\<rparr>"

definition nav_eell_decoder :: "ubx_message i_message_decoder" where
  "nav_eell_decoder = \<lparr>dec_class = UBX_CLASS_NAV, dec_id = UBX_ID_NAV_EELL,
     dec_decode = map_option Nav_eell \<circ> decode_nav_eell\<rparr>"

definition nav2_pvt_decoder :: "ubx_message i_message_decoder" where
  "nav2_pvt_decoder = \<lparr>dec_class = UBX_CLASS_NAV2, dec_id = UBX_ID_NAV2_PVT,
     dec_decode = map_option Nav2_pvt \<circ> decode_nav2_pvt\<rparr>"

definition nav2_dop_decoder :: "ubx_message i_message_decoder" where
  "nav2_dop_decoder = \<lparr>dec_class = UBX_CLASS_NAV2, dec_id = UBX_ID_NAV2_DOP,
     dec_decode = map_option Nav2_dop \<circ> decode_nav2_dop\<rparr>"

definition nav2_timegps_decoder :: "ubx_message i_message_decoder" where
  "nav2_timegps_decoder = \<lparr>dec_class = UBX_CLASS_NAV2, dec_id = UBX_ID_NAV2_TIMEGPS,
     dec_decode = map_option Nav2_timegps \<circ> decode_nav2_timegps\<rparr>"

definition nav2_eell_decoder :: "ubx_message i_message_decoder" where
  "nav2_eell_decoder = \<lparr>dec_class = UBX_CLASS_NAV2, dec_id = UBX_ID_NAV2_EELL,
     dec_decode = map_option Nav2_eell \<circ> decode_nav2_eell\<rparr>"

definition esf_ins_decoder :: "ubx_message i_message_decoder" where
  "esf_ins_decoder = \<lparr>dec_class = UBX_CLASS_ESF, dec_id = UBX_ID_ESF_INS,
     dec_decode = map_option Esf_ins \<circ> decode_esf_ins\<rparr>"

definition tim_tp_decoder :: "ubx_message i_message_decoder" where
  "tim_tp_decoder = \<lparr>dec_class = UBX_CLASS_TIM, dec_id = UBX_ID_TIM_TP,
     dec_decode = map_option Tim_tp \<circ> decode_tim_tp\<rparr>"

definition sec_crc_decoder :: "ubx_message i_message_decoder" where
  "sec_crc_decoder = \<lparr>dec_class = UBX_CLASS_SEC, dec_id = UBX_ID_SEC_CRC,
     dec_decode = map_option Sec_crc \<circ> decode_sec_crc\<rparr>"

definition upd_sos_decoder :: "ubx_message i_message_decoder" where
  "upd_sos_decoder = \<lparr>dec_class = UBX_CLASS_UPD, dec_id = UBX_ID_UPD_SOS,
     dec_decode = map_option Upd_sos \<circ> decode_upd_sos\<rparr>"

definition sec_sig_decoder :: "ubx_message i_message_decoder" where
  "sec_sig_decoder = \<lparr>dec_class = UBX_CLASS_SEC, dec_id = UBX_ID_SEC_SIG,
     dec_decode = map_option Sec_sig \<circ> decode_sec_sig\<rparr>"

definition mon_txbuf_decoder :: "ubx_message i_message_decoder" where
  "mon_txbuf_decoder = \<lparr>dec_class = UBX_CLASS_MON, dec_id = UBX_ID_MON_TXBUF,
     dec_decode = map_option Mon_txbuf \<circ> decode_mon_txbuf\<rparr>"

definition nav_sat_decoder :: "ubx_message i_message_decoder" where
  "nav_sat_decoder = \<lparr>dec_class = UBX_CLASS_NAV, dec_id = UBX_ID_NAV_SAT,
     dec_decode = map_option Nav_sat \<circ> decode_nav_sat\<rparr>"

definition nav_sig_decoder :: "ubx_message i_message_decoder" where
  "nav_sig_decoder = \<lparr>dec_class = UBX_CLASS_NAV, dec_id = UBX_ID_NAV_SIG,
     dec_decode = map_option Nav_sig \<circ> decode_nav_sig\<rparr>"

definition esf_meas_decoder :: "ubx_message i_message_decoder" where
  "esf_meas_decoder = \<lparr>dec_class = UBX_CLASS_ESF, dec_id = UBX_ID_ESF_MEAS,
     dec_decode = map_option Esf_meas \<circ> decode_esf_meas\<rparr>"

definition esf_status_decoder :: "ubx_message i_message_decoder" where
  "esf_status_decoder = \<lparr>dec_class = UBX_CLASS_ESF, dec_id = UBX_ID_ESF_STATUS,
     dec_decode = map_option Esf_status \<circ> decode_esf_status\<rparr>"

definition rxm_measx_decoder :: "ubx_message i_message_decoder" where
  "rxm_measx_decoder = \<lparr>dec_class = UBX_CLASS_RXM, dec_id = UBX_ID_RXM_MEASX,
     dec_decode = map_option Rxm_measx \<circ> decode_rxm_measx\<rparr>"

definition mon_io_decoder :: "ubx_message i_message_decoder" where
  "mon_io_decoder = \<lparr>dec_class = UBX_CLASS_MON, dec_id = UBX_ID_MON_IO,
     dec_decode = map_option Mon_io \<circ> decode_mon_io\<rparr>"

definition mon_span_decoder :: "ubx_message i_message_decoder" where
  "mon_span_decoder = \<lparr>dec_class = UBX_CLASS_MON, dec_id = UBX_ID_MON_SPAN,
     dec_decode = map_option Mon_span \<circ> decode_mon_span\<rparr>"

definition mon_ver_decoder :: "ubx_message i_message_decoder" where
  "mon_ver_decoder = \<lparr>dec_class = UBX_CLASS_MON, dec_id = UBX_ID_MON_VER,
     dec_decode = map_option Mon_ver \<circ> decode_mon_ver\<rparr>"

definition inf_decoder :: "u8 \<Rightarrow> ubx_message i_message_decoder" where
  "inf_decoder i = \<lparr>dec_class = UBX_CLASS_INF, dec_id = i, dec_decode = map_option Inf \<circ> decode_inf\<rparr>"

lemmas decoder_objects =
  ack_ack_decoder_def ack_nak_decoder_def nav_pvt_decoder_def nav_status_decoder_def
  nav_dop_decoder_def nav_att_decoder_def nav_odo_decoder_def nav_clock_decoder_def
  nav_timegps_decoder_def nav_timeutc_decoder_def nav_eell_decoder_def nav2_pvt_decoder_def
  nav2_dop_decoder_def nav2_timegps_decoder_def nav2_eell_decoder_def esf_ins_decoder_def
  tim_tp_decoder_def sec_crc_decoder_def upd_sos_decoder_def sec_sig_decoder_def
  mon_txbuf_decoder_def nav_sat_decoder_def nav_sig_decoder_def esf_meas_decoder_def
  esf_status_decoder_def rxm_measx_decoder_def mon_io_decoder_def mon_span_decoder_def
  mon_ver_decoder_def inf_decoder_def

end
