(* ===== verification/Ubx_Decoding.thy ===== *)
theory Ubx_Decoding
  imports Ubx_Block_Decoders
begin

text \<open>
  What the decoders promise to the code above them: the message a callback receives for the bytes
  on the wire, the payloads that are accepted and rejected, and the bounds of counts and arrays
  that the callers index with.
\<close>

section \<open>From the wire to the callback\<close>

lemma frame_ok_built: "length payload < 65536 \<Longrightarrow> frame_ok (built_frame c i payload)"
  by (simp add: frame_ok_def built_frame_def Let_def unat_of_nat_u16)

lemma frame_payload_built [simp]: "frame_payload (built_frame c i payload) = payload"
  by (simp add: built_frame_def Let_def)

lemma frame_header_built [simp]:
  "hdr_class (frame_header (built_frame c i payload)) = c"
  "hdr_id (frame_header (built_frame c i payload)) = i"
  by (simp_all add: built_frame_def Let_def)

text \<open>
  A frame sent with \<open>build_ubx_frame\<close> to an idle parser ends in exactly the callback of the decoder
  registered for it, or in nothing when the decoder rejects it.
\<close>

lemma feed_decoder:
  assumes "idle p" and "\<not> p_raw_cb p" and "length payload \<le> unat (p_max_payload_len p)"
    and "registry_find (p_registry p) c i = Some d"
  shows "snd (ubx_feed p (build_ubx_frame c i payload)) =
     (case dec_decode d (built_frame c i payload) of None \<Rightarrow> [] | Some msg \<Rightarrow> [Decoder_callback msg])"
  using assms(2,4) by (simp add: feed_one_built [OF assms(1,3)] ubx_dispatch_def)

lemma payload_small: "length payload \<le> unat (m :: u16) \<Longrightarrow> length payload < 65536"
  using unat_u16_less [of m] by linarith

text \<open>A parser with one registered decoder and no raw callback, for the witnesses.\<close>

definition parser_with :: "ubx_message i_message_decoder \<Rightarrow> ubx_message ubx_parser" where
  "parser_with d = ubx_parser_new (register_decoder (Some d) [])"

lemma parser_with [simp]:
  "idle (parser_with d)" "\<not> p_raw_cb (parser_with d)" "p_max_payload_len (parser_with d) = 4096"
  "registry_find (p_registry (parser_with d)) (dec_class d) (dec_id d) = Some d"
  by (simp_all add: parser_with_def ubx_parser_new_def UBX_SAFE_MAX_PAYLOAD_LEN_def
      registry_find_register) (simp add: idle_def)

text \<open>
  C7 (functional). A UBX-NAV-PVT frame of 92 payload bytes makes the position callback fire once with
  every member taken from the byte offset the interface description gives it: time of week at 0,
  fix type at 20, longitude at 24, latitude at 28, heights at 32 and 36, velocities from 48,
  heading of vehicle at 84 (after the five reserved bytes at 79), magnetic declination at 88. A
  frame of any other length makes no callback fire.
\<close>

theorem nav_pvt_delivered:
  assumes "idle p" and "\<not> p_raw_cb p" and "length payload \<le> unat (p_max_payload_len p)"
    and "registry_find (p_registry p) UBX_CLASS_NAV UBX_ID_NAV_PVT = Some nav_pvt_decoder"
  shows "snd (ubx_feed p (build_ubx_frame UBX_CLASS_NAV UBX_ID_NAV_PVT payload)) =
    (if length payload = 92
     then [Decoder_callback (Nav_pvt
        \<lparr>nav_pvt_i_tow = le32_at payload 0, nav_pvt_year = le16_at payload 4,
         nav_pvt_month = payload ! 6, nav_pvt_day = payload ! 7, nav_pvt_hour = payload ! 8,
         nav_pvt_min = payload ! 9, nav_pvt_sec = payload ! 10, nav_pvt_valid = payload ! 11,
         nav_pvt_t_acc = le32_at payload 12, nav_pvt_nano = le32_at payload 16,
         nav_pvt_fix_type = payload ! 20, nav_pvt_flags = payload ! 21,
         nav_pvt_flags2 = payload ! 22, nav_pvt_num_sv = payload ! 23,
         nav_pvt_lon = le32_at payload 24, nav_pvt_lat = le32_at payload 28,
         nav_pvt_height = le32_at payload 32, nav_pvt_h_msl = le32_at payload 36,
         nav_pvt_h_acc = le32_at payload 40, nav_pvt_v_acc = le32_at payload 44,
         nav_pvt_vel_n = le32_at payload 48, nav_pvt_vel_e = le32_at payload 52,
         nav_pvt_vel_d = le32_at payload 56, nav_pvt_g_speed = le32_at payload 60,
         nav_pvt_head_mot = le32_at payload 64, nav_pvt_s_acc = le32_at payload 68,
         nav_pvt_head_acc = le32_at payload 72, nav_pvt_p_dop = le16_at payload 76,
         nav_pvt_flags3 = payload ! 78, nav_pvt_head_veh = le32_at payload 84,
         nav_pvt_mag_dec = le16_at payload 88, nav_pvt_mag_acc = le16_at payload 90\<rparr>)]
     else [])"
  by (simp add: feed_decoder [OF assms] nav_pvt_decoder_def
      decode_nav_pvt_layout [OF frame_ok_built frame_payload_built] payload_small [OF assms(3)])

theorem nav_pvt_delivered_witness:
  "\<exists>m. snd (ubx_feed (parser_with nav_pvt_decoder)
      (build_ubx_frame UBX_CLASS_NAV UBX_ID_NAV_PVT
        (replicate 24 0 @ [0x40, 0x42, 0x0F, 0x00] @ [0xFF, 0xFF, 0xFF, 0xFF] @ replicate 60 0)))
    = [Decoder_callback (Nav_pvt m)]
    \<and> sint (nav_pvt_lon m) = 1000000 \<and> sint (nav_pvt_lat m) = - 1"
proof -
  have reg: "registry_find (p_registry (parser_with nav_pvt_decoder)) UBX_CLASS_NAV UBX_ID_NAV_PVT
      = Some nav_pvt_decoder"
    using parser_with(4) [of nav_pvt_decoder] by (simp add: nav_pvt_decoder_def)
  have offsets:
    "le32_at (replicate 24 0 @ [0x40, 0x42, 0x0F, 0x00] @ [0xFF, 0xFF, 0xFF, 0xFF] @ replicate 60 0) 24 = 1000000"
    "le32_at (replicate 24 0 @ [0x40, 0x42, 0x0F, 0x00] @ [0xFF, 0xFF, 0xFF, 0xFF] @ replicate 60 0) 28 = 0xFFFFFFFF"
    by (simp_all add: le32_at_def nth_append read_le32_def)
  show ?thesis
    by (subst nav_pvt_delivered [OF parser_with(1,2) _ reg]) (simp_all add: offsets del: append.simps)
qed

section \<open>Which payloads are accepted\<close>

text \<open>
  C12 (error). Of the messages with a fixed layout, each decoder accepts a received frame exactly when
  the payload has the length of the interface description; the security checksum and signal
  messages also accept longer payloads (fields may be appended to them), and the save-on-shutdown
  decoder in addition insists on one of the two receiver-output commands, so that an echoed host
  command is never reported. No accepted payload makes a read fail half-way.
\<close>

theorem fixed_decoders_accept_by_length:
  assumes "frame_ok f"
  shows "(decode_ack_ack f \<noteq> None \<longleftrightarrow> length (frame_payload f) = 2)
    \<and> (decode_ack_nak f \<noteq> None \<longleftrightarrow> length (frame_payload f) = 2)
    \<and> (decode_nav_pvt f \<noteq> None \<longleftrightarrow> length (frame_payload f) = 92)
    \<and> (decode_nav2_pvt f \<noteq> None \<longleftrightarrow> length (frame_payload f) = 92)
    \<and> (decode_nav_status f \<noteq> None \<longleftrightarrow> length (frame_payload f) = 16)
    \<and> (decode_nav_dop f \<noteq> None \<longleftrightarrow> length (frame_payload f) = 18)
    \<and> (decode_nav2_dop f \<noteq> None \<longleftrightarrow> length (frame_payload f) = 18)
    \<and> (decode_nav_att f \<noteq> None \<longleftrightarrow> length (frame_payload f) = 32)
    \<and> (decode_nav_odo f \<noteq> None \<longleftrightarrow> length (frame_payload f) = 20)
    \<and> (decode_nav_clock f \<noteq> None \<longleftrightarrow> length (frame_payload f) = 20)
    \<and> (decode_nav_timegps f \<noteq> None \<longleftrightarrow> length (frame_payload f) = 16)
    \<and> (decode_nav2_timegps f \<noteq> None \<longleftrightarrow> length (frame_payload f) = 16)
    \<and> (decode_nav_timeutc f \<noteq> None \<longleftrightarrow> length (frame_payload f) = 20)
    \<and> (decode_nav_eell f \<noteq> None \<longleftrightarrow> length (frame_payload f) = 16)
    \<and> (decode_nav2_eell f \<noteq> None \<longleftrightarrow> length (frame_payload f) = 16)
    \<and> (decode_esf_ins f \<noteq> None \<longleftrightarrow> length (frame_payload f) = 36)
    \<and> (decode_tim_tp f \<noteq> None \<longleftrightarrow> length (frame_payload f) = 16)
    \<and> (decode_mon_txbuf f \<noteq> None \<longleftrightarrow> length (frame_payload f) = 28)
    \<and> (decode_sec_crc f \<noteq> None \<longleftrightarrow> 8 \<le> length (frame_payload f))
    \<and> (decode_sec_sig f \<noteq> None \<longleftrightarrow> 12 \<le> length (frame_payload f))
    \<and> (decode_upd_sos f \<noteq> None \<longleftrightarrow>
         8 \<le> length (frame_payload f) \<and> (frame_payload f ! 0 = 2 \<or> frame_payload f ! 0 = 3))"
  by (simp add: decoder_layouts [OF assms refl])

theorem fixed_decoders_accept_by_length_witness:
  "decode_upd_sos (built_frame 9 0x14 [0, 0, 0, 0, 1, 0, 0, 0]) = None
    \<and> decode_upd_sos (built_frame 9 0x14 [3, 0, 0, 0, 2, 0, 0, 0]) \<noteq> None
    \<and> decode_nav_dop (built_frame 1 4 (replicate 17 0)) = None"
proof -
  have ok: "frame_ok (built_frame 9 0x14 [0, 0, 0, 0, 1, 0, 0, 0])"
    "frame_ok (built_frame 9 0x14 [3, 0, 0, 0, 2, 0, 0, 0])"
    "frame_ok (built_frame 1 4 (replicate 17 0))"
    by (simp_all add: frame_ok_built)
  from fixed_decoders_accept_by_length [OF ok(1)] fixed_decoders_accept_by_length [OF ok(2)]
    fixed_decoders_accept_by_length [OF ok(3)]
  show ?thesis by simp
qed

section \<open>Repeated blocks\<close>

text \<open>
  The time-tag bits and the length of an accepted UBX-ESF-MEAS payload: anything but a whole number
  of words after the header and the optional calibration tag is rejected.
\<close>

lemma decode_esf_meas_accept:
  assumes "frame_ok frame" and p: "frame_payload frame = p" and "decode_esf_meas frame \<noteq> None"
  shows "\<exists>n. length p = 8 + 4 * n + (if le16_at p 4 AND 3 \<noteq> 0 then 4 else 0)"
proof -
  define cb :: u16 where "cb = (if le16_at p 4 AND 3 \<noteq> 0 then 4 else 0)"
  define L where "L = hdr_payload_length (frame_header frame)"
  have L: "unat L = length p" unfolding L_def by (rule frame_ok_length(3) [OF assms(1,2)])
  have big: "8 \<le> length p"
  proof (rule ccontr)
    assume "\<not> 8 \<le> length p"
    then have "decode_esf_meas frame = None"
      by (simp add: decode_esf_meas_def Let_def ubx_consts frame_ok_length(2) [OF assms(1,2)])
    with assms(3) show False by simp
  qed
  then have sub: "unat (L - 8) = length p - 8" using L by (simp add: unat_sub word_le_nat_alt)
  have ge: "\<not> L < 8" using big L by (simp add: word_less_nat_alt)
  have none: "decode_esf_meas frame = None" if "L - 8 < cb \<or> (L - 8 - cb) mod 4 \<noteq> 0"
  proof -
    note decode = decode_esf_meas_def Let_def ubx_consts L_def [symmetric]
      frame_ok_length(4) [OF assms(1,2)] reader_at_new at_simps
    show ?thesis
    proof (cases "le16_at p 4 AND 3 = 0")
      case True
      with that have "(L - 8) mod 4 \<noteq> 0" by (simp add: cb_def)
      with True big \<open>\<not> L < 8\<close> show ?thesis by (simp add: decode del: One_nat_def)
    next
      case False
      with that have "L - 8 < 4 \<or> (L - 12) mod 4 \<noteq> 0" by (simp add: cb_def)
      with False big \<open>\<not> L < 8\<close> show ?thesis
        by (cases "L - 8 < 4") (simp_all add: decode del: One_nat_def)
    qed
  qed
  have "\<not> (L - 8 < cb \<or> (L - 8 - cb) mod 4 \<noteq> 0)"
  proof
    assume "L - 8 < cb \<or> (L - 8 - cb) mod 4 \<noteq> 0"
    from none [OF this] assms(3) show False by simp
  qed
  then have acc: "\<not> L - 8 < cb" "(L - 8 - cb) mod 4 = 0" by simp_all
  then have "unat (L - 8 - cb) = length p - 8 - unat cb" and cb: "unat cb \<le> length p - 8"
    using sub by (simp_all add: unat_sub word_le_nat_alt not_less)
  with acc(2) have "(length p - 8 - unat cb) mod 4 = 0"
    by (simp add: word_unat_eq_iff unat_mod_distrib)
  then obtain n where "length p - 8 - unat cb = 4 * n" by (metis mod_0_imp_dvd dvdE)
  with cb big have "length p = 8 + 4 * n + unat cb" by simp
  then show ?thesis by (auto simp: cb_def split: if_splits)
qed

text \<open>
  An array member of capacity \<open>k\<close> of which the first \<open>n\<close> entries are valid and the others zero.
\<close>

definition capped_array :: "nat \<Rightarrow> 'a \<Rightarrow> u8 \<Rightarrow> 'a list \<Rightarrow> bool" where
  "capped_array k z n xs \<longleftrightarrow>
     length xs = k \<and> unat n \<le> k \<and> drop (unat n) xs = replicate (k - unat n) z"

lemma capped_fill:
  "unat n = length xs \<Longrightarrow> length xs \<le> k \<Longrightarrow> capped_array k z n (fill_array k z xs)"
  by (simp add: capped_array_def fill_array_def)

lemma unat_of_nat_min: "k < 256 \<Longrightarrow> unat (of_nat (min n k) :: u8) = min n k"
  by (simp add: unat_of_nat min_def)

lemma rxm_measx_capped:
  assumes "frame_ok f" and "decode_rxm_measx f = Some m"
  shows "capped_array 64 measx_sv_zero (rxm_measx_num_svs m) (rxm_measx_svs m)"
  using assms(2) unfolding decode_rxm_measx_layout [OF assms(1) refl]
  by (auto split: if_split_asm simp del: upt_rec_numeral intro!: capped_fill simp: word_le_nat_alt)

lemma esf_status_capped:
  assumes "frame_ok f" and "decode_esf_status f = Some m"
  shows "capped_array 32 esf_sensor_zero (esf_status_num_sens m) (esf_status_sensors m)"
  using assms(2) unfolding decode_esf_status_layout [OF assms(1) refl]
  by (auto split: if_split_asm simp del: upt_rec_numeral intro!: capped_fill simp: word_le_nat_alt)

lemma esf_meas_capped:
  assumes "frame_ok f" and "decode_esf_meas f = Some m"
  shows "capped_array 32 esf_datum_zero (esf_meas_num_meas m) (esf_meas_data m)"
proof -
  from decode_esf_meas_accept [OF assms(1) refl] assms(2) obtain n where "length (frame_payload f) =
      8 + 4 * n + (if le16_at (frame_payload f) 4 AND 3 \<noteq> 0 then 4 else 0)" by auto
  from decode_esf_meas_layout [OF assms(1) refl this] assms(2) show ?thesis
    by (auto intro!: capped_fill simp: unat_of_nat_min)
qed

lemma mon_io_capped:
  assumes "frame_ok f" and "decode_mon_io f = Some m"
  shows "capped_array 8 mon_io_port_zero (mon_io_num_ports m) (mon_io_ports m)"
  using assms(2) unfolding decode_mon_io_layout [OF assms(1) refl]
  by (auto split: if_split_asm intro!: capped_fill simp: unat_of_nat_min)

lemma mon_span_capped:
  assumes "frame_ok f" and "decode_mon_span f = Some m"
  shows "capped_array 4 rf_block_zero (mon_span_num_rf_blocks m) (mon_span_rf_blocks m)"
  using assms(2) unfolding decode_mon_span_layout [OF assms(1) refl]
  by (auto split: if_split_asm intro!: capped_fill simp: unat_of_nat_min)

text \<open>
  C11 (bounds). However many blocks a frame carries, the messages with fixed-capacity arrays come out
  with the array at its full capacity and a count within it, so that every consumer that indexes
  \<open>[0, count)\<close> stays inside the array; every entry beyond the count is the zero value.
\<close>

theorem block_counts_within_arrays:
  assumes "frame_ok f"
  shows "(\<forall>m. decode_rxm_measx f = Some m \<longrightarrow>
            capped_array 64 measx_sv_zero (rxm_measx_num_svs m) (rxm_measx_svs m))
    \<and> (\<forall>m. decode_esf_status f = Some m \<longrightarrow>
            capped_array 32 esf_sensor_zero (esf_status_num_sens m) (esf_status_sensors m))
    \<and> (\<forall>m. decode_esf_meas f = Some m \<longrightarrow>
            capped_array 32 esf_datum_zero (esf_meas_num_meas m) (esf_meas_data m))
    \<and> (\<forall>m. decode_mon_io f = Some m \<longrightarrow>
            capped_array 8 mon_io_port_zero (mon_io_num_ports m) (mon_io_ports m))
    \<and> (\<forall>m. decode_mon_span f = Some m \<longrightarrow>
            capped_array 4 rf_block_zero (mon_span_num_rf_blocks m) (mon_span_rf_blocks m))"
  using assms rxm_measx_capped esf_status_capped esf_meas_capped mon_io_capped mon_span_capped
  by blast

text \<open>Nine port blocks, one more than the array holds.\<close>

theorem block_counts_within_arrays_witness:
  "\<exists>m. decode_mon_io (built_frame 0x0A 2 (replicate 180 1)) = Some m \<and> mon_io_num_ports m = 8
    \<and> length (mon_io_ports m) = 8"
proof -
  have ok: "frame_ok (built_frame 0x0A 2 (replicate 180 1))" by (simp add: frame_ok_built)
  have "decode_mon_io (built_frame 0x0A 2 (replicate 180 1)) \<noteq> None"
    unfolding decode_mon_io_layout [OF ok refl] by simp
  then obtain m where m: "decode_mon_io (built_frame 0x0A 2 (replicate 180 1)) = Some m" by blast
  then have "mon_io_num_ports m = 8" unfolding decode_mon_io_layout [OF ok refl] by auto
  moreover from block_counts_within_arrays [OF ok] m have "length (mon_io_ports m) = 8"
    by (auto simp: capped_array_def)
  ultimately show ?thesis using m by blast
qed

text \<open>
  C10 (functional). The satellite and signal lists are as long as their declared counts, entry \<open>i\<close> comes
  from block \<open>i\<close> of the payload, and a payload whose length is not header plus count times block is
  rejected, so that no block is read past the end or left over.
\<close>

theorem satellite_blocks_exact:
  assumes "frame_ok f" and "frame_payload f = p"
  shows "(\<forall>m. decode_nav_sat f = Some m \<longleftrightarrow>
            8 \<le> length p \<and> length p = 8 + 12 * unat (nav_sat_num_svs m)
            \<and> nav_sat_i_tow m = le32_at p 0 \<and> nav_sat_version m = p ! 4 \<and> nav_sat_num_svs m = p ! 5
            \<and> length (nav_sat_svs m) = unat (nav_sat_num_svs m)
            \<and> (\<forall>i < unat (nav_sat_num_svs m). nav_sat_svs m ! i = nav_sat_sv_at p (8 + 12 * i)))
    \<and> (\<forall>m. decode_nav_sig f = Some m \<longleftrightarrow>
            8 \<le> length p \<and> length p = 8 + 16 * unat (nav_sig_num_sigs m)
            \<and> nav_sig_i_tow m = le32_at p 0 \<and> nav_sig_version m = p ! 4 \<and> nav_sig_num_sigs m = p ! 5
            \<and> length (nav_sig_signals m) = unat (nav_sig_num_sigs m)
            \<and> (\<forall>i < unat (nav_sig_num_sigs m). nav_sig_signals m ! i = nav_sig_info_at p (8 + 16 * i)))"
proof (intro conjI allI)
  show "decode_nav_sat f = Some m \<longleftrightarrow>
      8 \<le> length p \<and> length p = 8 + 12 * unat (nav_sat_num_svs m)
      \<and> nav_sat_i_tow m = le32_at p 0 \<and> nav_sat_version m = p ! 4 \<and> nav_sat_num_svs m = p ! 5
      \<and> length (nav_sat_svs m) = unat (nav_sat_num_svs m)
      \<and> (\<forall>i < unat (nav_sat_num_svs m). nav_sat_svs m ! i = nav_sat_sv_at p (8 + 12 * i))" for m
    unfolding decode_nav_sat_layout [OF assms]
    by (cases m) (auto simp: list_eq_iff_nth_eq)
  show "decode_nav_sig f = Some m \<longleftrightarrow>
      8 \<le> length p \<and> length p = 8 + 16 * unat (nav_sig_num_sigs m)
      \<and> nav_sig_i_tow m = le32_at p 0 \<and> nav_sig_version m = p ! 4 \<and> nav_sig_num_sigs m = p ! 5
      \<and> length (nav_sig_signals m) = unat (nav_sig_num_sigs m)
      \<and> (\<forall>i < unat (nav_sig_num_sigs m). nav_sig_signals m ! i = nav_sig_info_at p (8 + 16 * i))" for m
    unfolding decode_nav_sig_layout [OF assms]
    by (cases m) (auto simp: list_eq_iff_nth_eq)
qed

theorem satellite_blocks_exact_witness:
  "decode_nav_sat (built_frame 1 0x35 [0, 0, 0, 0, 1, 1, 0, 0, 6, 3, 40, 0xF6, 0, 0, 0, 0, 0, 0, 0, 0]) =
     Some \<lparr>nav_sat_i_tow = 0, nav_sat_version = 1, nav_sat_num_svs = 1,
       nav_sat_svs = [\<lparr>nav_sat_sv_gnss_id = 6, nav_sat_sv_sv_id = 3, nav_sat_sv_cno = 40,
         nav_sat_sv_elev = - 10, nav_sat_sv_azim = 0, nav_sat_sv_pr_res = 0, nav_sat_sv_flags = 0\<rparr>]\<rparr>"
proof -
  have ok: "frame_ok (built_frame 1 0x35 [0, 0, 0, 0, 1, 1, 0, 0, 6, 3, 40, 0xF6, 0, 0, 0, 0, 0, 0, 0, 0])"
    by (simp add: frame_ok_built)
  show ?thesis
    by (subst satellite_blocks_exact [OF ok frame_payload_built, THEN conjunct1, rule_format])
      (simp add: nav_sat_sv_at_def le16_at_def le32_at_def read_le16_def read_le32_def)
qed

section \<open>Version strings\<close>

definition null_padded :: "nat \<Rightarrow> bytes \<Rightarrow> bytes" where
  "null_padded n s = s @ replicate (n - length s) 0"

lemma length_null_padded: "length s \<le> n \<Longrightarrow> length (null_padded n s) = n"
  by (simp add: null_padded_def)

lemma filter_null_padded: "0 \<notin> set s \<Longrightarrow> filter (\<lambda>ch. ch \<noteq> 0) (null_padded n s) = s"
  by (auto simp: null_padded_def filter_id_conv)

lemma fixed_string_at_block:
  assumes "length pre = k" and "length block = n"
  shows "fixed_string_at n (pre @ block @ post) k = map char_of_u8 (filter (\<lambda>ch. ch \<noteq> 0) block)"
proof -
  have "map (\<lambda>i. (pre @ block @ post) ! (k + i)) [0..<n] = block"
    using assms by (auto simp: list_eq_iff_nth_eq nth_append)
  then show ?thesis by (simp add: fixed_string_at_def)
qed

lemma fixed_strings_at_blocks:
  assumes "\<And>b. b \<in> set blocks \<Longrightarrow> length b = n"
  shows "map (\<lambda>i. fixed_string_at n (pre @ concat blocks) (length pre + n * i)) [0..<length blocks]
    = map (\<lambda>b. map char_of_u8 (filter (\<lambda>ch. ch \<noteq> 0) b)) blocks"
  using assms
proof (induction blocks arbitrary: pre)
  case (Cons b blocks)
  have upt: "[0..<length (b # blocks)] = 0 # map Suc [0..<length blocks]"
    by (simp add: upt_conv_Cons map_Suc_upt del: upt_Suc)
  have "fixed_string_at n (pre @ concat (b # blocks)) (length pre) =
      map char_of_u8 (filter (\<lambda>ch. ch \<noteq> 0) b)"
    using fixed_string_at_block [of pre "length pre" b n "concat blocks"] Cons.prems by simp
  moreover have "length (pre @ b) + n * i = length pre + n * Suc i" for i
    using Cons.prems by simp
  ultimately show ?case
    using Cons.IH [of "pre @ b"] Cons.prems unfolding upt by (simp add: o_def add.assoc)
qed simp

text \<open>
  Version strings sent the way the interface description has them, null-padded to their
  fixed fields, come out of the UBX-MON-VER decoder as they were: software version, hardware
  version and every extension in order.
\<close>

theorem mon_ver_roundtrip:
  assumes "length sw \<le> 30" and "length hw \<le> 10" and "0 \<notin> set sw" and "0 \<notin> set hw"
    and "\<forall>e \<in> set exts. length e \<le> 30 \<and> 0 \<notin> set e" and "40 + 30 * length exts < 65536"
  shows "decode_mon_ver (built_frame c i
      (null_padded 30 sw @ null_padded 10 hw @ concat (map (null_padded 30) exts))) =
    Some \<lparr>mon_ver_sw_version = map char_of_u8 sw, mon_ver_hw_version = map char_of_u8 hw,
          mon_ver_extensions = map (map char_of_u8) exts\<rparr>"
proof -
  define p where "p = null_padded 30 sw @ null_padded 10 hw @ concat (map (null_padded 30) exts)"
  have "length (concat (map (null_padded 30) exts)) = 30 * length exts"
    using assms(5) by (induction exts) (simp_all add: length_null_padded)
  with assms have len: "length p = 40 + 30 * length exts" by (simp add: p_def length_null_padded)
  have sw: "fixed_string_at 30 p 0 = map char_of_u8 sw"
    using fixed_string_at_block [of "[]" 0 "null_padded 30 sw" 30] assms
    by (simp add: p_def length_null_padded filter_null_padded)
  have hw: "fixed_string_at 10 p 30 = map char_of_u8 hw"
    using fixed_string_at_block [of "null_padded 30 sw" 30 "null_padded 10 hw" 10] assms
    by (simp add: p_def length_null_padded filter_null_padded)
  have "map (\<lambda>i. fixed_string_at 30 p (40 + 30 * i)) [0..<length exts]
      = map (\<lambda>e. map char_of_u8 (filter (\<lambda>ch. ch \<noteq> 0) (null_padded 30 e))) exts"
  proof -
    have "length b = 30" if "b \<in> set (map (null_padded 30) exts)" for b
      using that assms(5) by (auto simp: length_null_padded)
    from fixed_strings_at_blocks [of "map (null_padded 30) exts", OF this,
        of "null_padded 30 sw @ null_padded 10 hw"] assms
    show ?thesis by (simp add: p_def length_null_padded o_def)
  qed
  also have "\<dots> = map (map char_of_u8) exts"
    using assms(5) by (auto simp: filter_null_padded)
  finally have ext: "map (\<lambda>i. fixed_string_at 30 p (40 + 30 * i)) [0..<length exts]
      = map (map char_of_u8) exts" .
  have ok: "frame_ok (built_frame c i p)" using len assms(6) by (simp add: frame_ok_built)
  show ?thesis
    unfolding p_def [symmetric] decode_mon_ver_layout [OF ok frame_payload_built]
    using len sw hw ext by simp
qed

theorem mon_ver_roundtrip_witness:
  "decode_mon_ver (built_frame 0x0A 4 (null_padded 30 [0x52, 0x4F] @ null_padded 10 [0x30] @
      concat (map (null_padded 30) [[0x50], []]))) =
    Some \<lparr>mon_ver_sw_version = ''RO'', mon_ver_hw_version = ''0'', mon_ver_extensions = [''P'', '''']\<rparr>"
  by (subst mon_ver_roundtrip) (simp_all add: char_of_u8_def char_of_def bit_0)

text \<open>A field with a zero byte inside does not end there: the bytes after it are kept.\<close>

lemma mon_ver_embedded_null:
  "fixed_string_at 30 ([0x41, 0, 0x42] @ replicate 27 0) 0 = ''AB''"
  using fixed_string_at_block [of "[]" 0 "[0x41, 0, 0x42] @ replicate 27 0" 30 "[]"]
  by (simp add: char_of_u8_def char_of_def bit_0)

end
