(* ===== verification/Ubx_Builders.thy ===== *)
theory Ubx_Builders
  imports Ubx_Decoding
begin

text \<open>
  The builders of outgoing messages in \<open>ext_libs/ubx_parser/src\<close>: the generic
  \<open>ubx_message_builder\<close> (its setters return the changed builder) and the UBX-CFG-RST, UBX-UPD-SOS
  and UBX-ESF-MEAS builders on top of it. The frames they make are related to the parser and the
  decoder of the same library.
\<close>

section \<open>Frames of the protocol library\<close>

lemma verify_build_ubx_frame:
  assumes "length payload < 65536"
  shows "verify_frame_checksum (build_ubx_frame c i payload)"
proof -
  define len where "len = (of_nat (length payload) :: u16)"
  define body where "body = [c, i, ucast len, ucast (drop_bit 8 len)] @ payload"
  define ck where "ck = compute_checksum body"
  have frame: "build_ubx_frame c i payload =
      [UBX_SYNC_CHAR_1, UBX_SYNC_CHAR_2] @ body @ [fst ck, snd ck]"
    using assms by (simp add: build_ubx_frame_eq body_def ck_def len_def)
  have "length body = 4 + length payload" by (simp add: body_def)
  then show ?thesis
    unfolding frame
    by (simp add: verify_frame_checksum_def UBX_FRAME_OVERHEAD_def nth_append ck_def [symmetric]
        case_prod_beta)
qed

lemma build_ubx_frame_inject:
  assumes "length p < 65536" and "length p' < 65536"
  shows "build_ubx_frame c i p = build_ubx_frame c' i' p' \<longleftrightarrow> c = c' \<and> i = i' \<and> p = p'"
proof
  assume eq: "build_ubx_frame c i p = build_ubx_frame c' i' p'"
  then have len: "length p = length p'"
    using length_build_ubx_frame [of c i p] length_build_ubx_frame [of c' i' p'] by simp
  from eq show "c = c' \<and> i = i' \<and> p = p'"
    unfolding build_ubx_frame_eq [OF assms(1)] build_ubx_frame_eq [OF assms(2)]
    using len by simp
qed simp

section \<open>\<open>ubx_message_builder\<close>\<close>

record ubx_message_builder =
  mb_class :: u8
  mb_id :: u8
  mb_payload :: bytes

definition message_builder_new :: ubx_message_builder where
  "message_builder_new = \<lparr>mb_class = 0, mb_id = 0, mb_payload = []\<rparr>"

definition set_class :: "u8 \<Rightarrow> ubx_message_builder \<Rightarrow> ubx_message_builder" where
  "set_class msg_class b = b\<lparr>mb_class := msg_class\<rparr>"

definition set_id :: "u8 \<Rightarrow> ubx_message_builder \<Rightarrow> ubx_message_builder" where
  "set_id msg_id b = b\<lparr>mb_id := msg_id\<rparr>"

definition set_payload :: "bytes \<Rightarrow> ubx_message_builder \<Rightarrow> ubx_message_builder" where
  "set_payload payload b = b\<lparr>mb_payload := payload\<rparr>"

definition append_u8 :: "u8 \<Rightarrow> ubx_message_builder \<Rightarrow> ubx_message_builder" where
  "append_u8 v b = b\<lparr>mb_payload := mb_payload b @ [v]\<rparr>"

definition append_le16 :: "u16 \<Rightarrow> ubx_message_builder \<Rightarrow> ubx_message_builder" where
  "append_le16 v b = b\<lparr>mb_payload := write_le16 (mb_payload b) v\<rparr>"

definition append_le32 :: "u32 \<Rightarrow> ubx_message_builder \<Rightarrow> ubx_message_builder" where
  "append_le32 v b = b\<lparr>mb_payload := write_le32 (mb_payload b) v\<rparr>"

definition clear_payload :: "ubx_message_builder \<Rightarrow> ubx_message_builder" where
  "clear_payload b = b\<lparr>mb_payload := []\<rparr>"

definition mb_build :: "ubx_message_builder \<Rightarrow> bytes" where
  "mb_build b = build_ubx_frame (mb_class b) (mb_id b) (mb_payload b)"

definition make_frame :: "u8 \<Rightarrow> u8 \<Rightarrow> bytes \<Rightarrow> bytes" where
  "make_frame msg_class msg_id payload = build_ubx_frame msg_class msg_id payload"

lemmas builder_defs = message_builder_new_def set_class_def set_id_def set_payload_def append_u8_def
  append_le16_def append_le32_def clear_payload_def mb_build_def make_frame_def

section \<open>UBX-CFG-RST\<close>

definition build_cfg_rst :: "u16 \<Rightarrow> u8 \<Rightarrow> bytes" where
  "build_cfg_rst nav_bbr_mask reset_mode =
     mb_build (append_u8 0x00 (append_u8 reset_mode (append_le16 nav_bbr_mask
       (set_id UBX_ID_CFG_RST (set_class UBX_CLASS_CFG_RST message_builder_new)))))"

definition build_hot_stop :: bytes where
  "build_hot_stop = build_cfg_rst NAV_BBR_HOT_START CFG_RST_MODE_CTRL_STOP"

definition build_warm_stop :: bytes where
  "build_warm_stop = build_cfg_rst NAV_BBR_WARM_START CFG_RST_MODE_CTRL_STOP"

definition build_cold_stop :: bytes where
  "build_cold_stop = build_cfg_rst NAV_BBR_COLD_START CFG_RST_MODE_CTRL_STOP"

definition build_hot_start :: bytes where
  "build_hot_start = build_cfg_rst NAV_BBR_HOT_START CFG_RST_MODE_CTRL_START"

definition build_warm_start :: bytes where
  "build_warm_start = build_cfg_rst NAV_BBR_WARM_START CFG_RST_MODE_CTRL_START"

definition build_cold_start :: bytes where
  "build_cold_start = build_cfg_rst NAV_BBR_COLD_START CFG_RST_MODE_CTRL_START"

definition build_hot_reset :: bytes where
  "build_hot_reset = build_cfg_rst NAV_BBR_HOT_START CFG_RST_MODE_CTRL_SW_GNSS_ONLY"

definition build_warm_reset :: bytes where
  "build_warm_reset = build_cfg_rst NAV_BBR_WARM_START CFG_RST_MODE_CTRL_SW_GNSS_ONLY"

definition build_cold_reset :: bytes where
  "build_cold_reset = build_cfg_rst NAV_BBR_COLD_START CFG_RST_MODE_CTRL_SW_GNSS_ONLY"

lemmas rst_defs = build_hot_stop_def build_warm_stop_def build_cold_stop_def build_hot_start_def
  build_warm_start_def build_cold_start_def build_hot_reset_def build_warm_reset_def
  build_cold_reset_def

lemma build_cfg_rst_frame:
  "build_cfg_rst m mode = build_ubx_frame 6 4 [ucast m, ucast (drop_bit 8 m), mode, 0]"
  by (simp add: build_cfg_rst_def builder_defs write_le16_bytes ubx_consts)

section \<open>UBX-UPD-SOS\<close>

definition build_poll :: bytes where
  "build_poll = make_frame UBX_CLASS_UPD UBX_ID_UPD_SOS []"

definition build_save :: bytes where
  "build_save = mb_build (append_u8 0 (append_u8 0 (append_u8 0 (append_u8 UPD_SOS_CMD_SAVE
     (set_id UBX_ID_UPD_SOS (set_class UBX_CLASS_UPD message_builder_new))))))"

definition build_clear :: bytes where
  "build_clear = mb_build (append_u8 0 (append_u8 0 (append_u8 0 (append_u8 UPD_SOS_CMD_CLEAR
     (set_id UBX_ID_UPD_SOS (set_class UBX_CLASS_UPD message_builder_new))))))"

section \<open>UBX-ESF-MEAS\<close>

text \<open>
  The packing of one datum. \<open>data_type\<close> is shifted without a mask, so a type of 64 or more spills
  into the two reserved bits.
\<close>

definition esf_data_word :: "ubx_esf_meas_datum \<Rightarrow> u32" where
  "esf_data_word d =
     push_bit 24 (ucast (esf_datum_data_type d)) OR (esf_datum_data_value d AND 0x00FFFFFF)"

text \<open>\<open>(num_meas << 11) & 0xF800\<close> is computed in \<open>int\<close> and cut to 16 bits.\<close>

definition esf_meas_flags_word :: "u8 \<Rightarrow> u16" where
  "esf_meas_flags_word num_meas = ucast (push_bit 11 (ucast num_meas :: u32) AND 0xF800)"

definition build_esf_meas :: "ubx_esf_meas \<Rightarrow> bytes" where
  "build_esf_meas meas =
     (if esf_meas_num_meas meas = 0 \<or> UBX_ESF_MEAS_MAX_DATA < esf_meas_num_meas meas then []
      else let
        b = append_le16 (esf_meas_id meas) (append_le16 (esf_meas_flags_word (esf_meas_num_meas meas))
              (append_le32 (esf_meas_time_tag meas)
                (set_id UBX_ID_ESF_MEAS (set_class UBX_CLASS_ESF message_builder_new))))
      in mb_build (foldl (\<lambda>b i. append_le32 (esf_data_word (esf_meas_data meas ! i)) b) b
           [0..<unat (esf_meas_num_meas meas)]))"

lemma foldl_append_le32:
  "foldl (\<lambda>b i. append_le32 (f i) b) b is =
     b\<lparr>mb_payload := mb_payload b @ concat (map (\<lambda>i. write_le32 [] (f i)) is)\<rparr>"
  by (induction "is" arbitrary: b) (simp_all add: append_le32_def write_le32_bytes)

text \<open>The payload of a built measurement frame.\<close>

definition esf_meas_payload :: "ubx_esf_meas \<Rightarrow> bytes" where
  "esf_meas_payload meas =
     write_le32 [] (esf_meas_time_tag meas)
     @ write_le16 [] (esf_meas_flags_word (esf_meas_num_meas meas)) @ write_le16 [] (esf_meas_id meas)
     @ concat (map (\<lambda>i. write_le32 [] (esf_data_word (esf_meas_data meas ! i)))
         [0..<unat (esf_meas_num_meas meas)])"

lemma build_esf_meas_frame:
  assumes "esf_meas_num_meas meas \<noteq> 0" and "esf_meas_num_meas meas \<le> 32"
  shows "build_esf_meas meas = build_ubx_frame UBX_CLASS_ESF UBX_ID_ESF_MEAS (esf_meas_payload meas)"
proof -
  have "\<not> (esf_meas_num_meas meas = 0 \<or> UBX_ESF_MEAS_MAX_DATA < esf_meas_num_meas meas)"
    using assms by (auto simp: ubx_consts)
  then show ?thesis
    unfolding build_esf_meas_def foldl_append_le32 Let_def
    by (simp add: esf_meas_payload_def builder_defs write_le32_bytes write_le16_bytes)
qed

text \<open>What survives the packing of a datum: six bits of the type, 24 bits of the value.\<close>

lemma bit_and_mask24:
  "bit (v AND 0x00FFFFFF :: u32) n \<longleftrightarrow> n < 24 \<and> bit v n"
  "bit (v AND 0x00800000 :: u32) n \<longleftrightarrow> n = 23 \<and> bit v 23"
  "bit (0xFF000000 :: u32) n \<longleftrightarrow> 24 \<le> n \<and> n < 32"
  "bit (x AND 0x3F :: u8) n \<longleftrightarrow> n < 6 \<and> bit x n"
proof -
  have eq: "(0x00FFFFFF :: u32) = mask 24" "(0x00800000 :: u32) = push_bit 23 1"
    "(0xFF000000 :: u32) = push_bit 24 (mask 8)" "(0x3F :: u8) = mask 6"
    by (simp_all add: mask_eq_exp_minus_1 push_bit_eq_mult)
  have "bit (0x00800000 :: u32) n \<longleftrightarrow> n = 23"
    unfolding eq(2) bit_push_bit_iff bit_1_iff by auto
  then show "bit (v AND 0x00800000 :: u32) n \<longleftrightarrow> n = 23 \<and> bit v 23"
    by (auto simp: bit_and_iff)
  show "bit (v AND 0x00FFFFFF :: u32) n \<longleftrightarrow> n < 24 \<and> bit v n"
    "bit (0xFF000000 :: u32) n \<longleftrightarrow> 24 \<le> n \<and> n < 32"
    "bit (x AND 0x3F :: u8) n \<longleftrightarrow> n < 6 \<and> bit x n"
    unfolding eq by (auto simp: bit_simps dest: bit_imp_le_length)
qed

lemma esf_datum_of_word:
  "esf_datum_of (esf_data_word d) =
     \<lparr>esf_datum_data_type = esf_datum_data_type d AND 0x3F,
      esf_datum_data_value = signed_take_bit 23 (esf_datum_data_value d)\<rparr>"
proof -
  define v where "v = esf_datum_data_value d"
  define t where "t = esf_datum_data_type d"
  define w where "w = esf_data_word d"
  have bitw: "bit w n \<longleftrightarrow> (if n < 24 then bit v n else n < 32 \<and> bit t (n - 24))" for n
    unfolding w_def esf_data_word_def v_def [symmetric] t_def [symmetric]
    by (auto simp: bit_or_iff bit_push_bit_iff bit_unsigned_iff bit_and_mask24 not_bit_u8
        dest: bit_imp_le_length)
  have type: "ucast (drop_bit 24 w AND 0x3F) = t AND 0x3F"
    by (rule bit_word_eqI) (auto simp: bit_simps bit_and_mask24 bitw)
  have raw: "bit (w AND 0x00FFFFFF) n \<longleftrightarrow> n < 24 \<and> bit v n" for n
    by (simp add: bit_and_mask24 bitw)
  have sign: "(w AND 0x00FFFFFF) AND 0x00800000 = 0 \<longleftrightarrow> \<not> bit v 23"
    unfolding bit_eq_iff [of "(w AND 0x00FFFFFF) AND 0x00800000" 0] bit_and_mask24(2) raw by auto
  have val: "(if (w AND 0x00FFFFFF) AND 0x00800000 \<noteq> 0 then (w AND 0x00FFFFFF) OR 0xFF000000
      else w AND 0x00FFFFFF) = signed_take_bit 23 v"
  proof -
    have "bit (if (w AND 0x00FFFFFF) AND 0x00800000 \<noteq> 0 then (w AND 0x00FFFFFF) OR 0xFF000000
        else w AND 0x00FFFFFF) n = bit (signed_take_bit 23 v) n" if "n < 32" for n
    proof -
      note hi = bit_and_mask24(3) [of n]
      show ?thesis
    proof (cases "n < 24")
      case True
      then have "min 23 n = n" by simp
      with True that sign hi show ?thesis
        by (simp add: bit_or_iff raw bit_signed_take_bit_iff)
    next
      case False
      then have "min 23 n = 23" by simp
      with False that sign hi show ?thesis
        by (simp add: bit_or_iff raw bit_signed_take_bit_iff)
    qed
    qed
    then show ?thesis by (intro bit_word_eqI) simp
  qed
  show ?thesis
    by (simp only: esf_datum_of_def Let_def w_def [symmetric] type val)
      (simp add: v_def t_def)
qed

section \<open>What a receiver of the frames sees\<close>

lemma le32_at_write: "length pre = k \<Longrightarrow> le32_at (pre @ write_le32 [] v @ post) k = v"
  by (auto simp: le32_at_def write_le32_bytes nth_append read_write_le32)

lemma le16_at_write: "length pre = k \<Longrightarrow> le16_at (pre @ write_le16 [] v @ post) k = v"
  by (auto simp: le16_at_def write_le16_bytes nth_append read_write_le16)

lemma length_write_le32 [simp]: "length (write_le32 buf v) = length buf + 4"
  by (simp add: write_le32_bytes)

lemma length_write_le16 [simp]: "length (write_le16 buf v) = length buf + 2"
  by (simp add: write_le16_bytes)

lemma le32_at_concat:
  "i < length ws \<Longrightarrow> length pre = k \<Longrightarrow>
     le32_at (pre @ concat (map (write_le32 []) ws)) (k + 4 * i) = ws ! i"
proof (induction ws arbitrary: pre k i)
  case (Cons w ws)
  show ?case
  proof (cases i)
    case 0
    then show ?thesis using Cons.prems by (simp add: le32_at_write)
  next
    case (Suc j)
    then show ?thesis
      using Cons.IH [of j "pre @ write_le32 [] w" "k + 4"] Cons.prems by (simp add: add.assoc)
  qed
qed simp

lemma flags_word_no_tag: "esf_meas_flags_word n AND 3 = 0"
proof -
  have "\<not> bit (esf_meas_flags_word n) k" if "k < 2" for k
    using that by (auto simp: esf_meas_flags_word_def bit_simps)
  moreover have "bit (3 :: u16) k \<longleftrightarrow> k < 2" for k
  proof -
    have "(3 :: u16) = mask 2" by (simp add: mask_eq_exp_minus_1)
    then show ?thesis by (simp only: bit_mask_iff) auto
  qed
  ultimately have "\<not> (bit (esf_meas_flags_word n) k \<and> bit (3 :: u16) k)" for k by blast
  then show ?thesis by (intro bit_word_eqI) (simp add: bit_and_iff)
qed

lemma length_esf_meas_payload:
  "length (esf_meas_payload meas) = 8 + 4 * unat (esf_meas_num_meas meas)"
proof -
  have "length (concat (map (\<lambda>i. write_le32 [] (f i)) xs)) = 4 * length xs" for f and xs :: "nat list"
    by (induction xs) simp_all
  then show ?thesis by (simp add: esf_meas_payload_def)
qed

text \<open>The measurement that comes back: the first \<open>num_meas\<close> data, each cut to 6 and 24 bits.\<close>

definition esf_meas_received :: "ubx_esf_meas \<Rightarrow> ubx_esf_meas" where
  "esf_meas_received meas =
     \<lparr>esf_meas_time_tag = esf_meas_time_tag meas,
      esf_meas_flags = esf_meas_flags_word (esf_meas_num_meas meas), esf_meas_id = esf_meas_id meas,
      esf_meas_num_meas = esf_meas_num_meas meas,
      esf_meas_data = fill_array 32 esf_datum_zero
        (map (\<lambda>d. \<lparr>esf_datum_data_type = esf_datum_data_type d AND 0x3F,
                    esf_datum_data_value = signed_take_bit 23 (esf_datum_data_value d)\<rparr>)
           (take (unat (esf_meas_num_meas meas)) (esf_meas_data meas))),
      esf_meas_has_calib_ttag = False, esf_meas_calib_ttag = 0\<rparr>"

lemma decode_esf_meas_payload:
  assumes "length (esf_meas_data meas) = 32" and "esf_meas_num_meas meas \<le> 32"
  shows "decode_esf_meas (built_frame c i (esf_meas_payload meas)) = Some (esf_meas_received meas)"
proof -
  define p where "p = esf_meas_payload meas"
  define n where "n = unat (esf_meas_num_meas meas)"
  define ws where "ws = map (\<lambda>i. esf_data_word (esf_meas_data meas ! i)) [0..<n]"
  have n: "n \<le> 32" using assms(2) by (simp add: n_def word_le_nat_alt)
  define F where "F = write_le16 [] (esf_meas_flags_word (esf_meas_num_meas meas))"
  have p: "p = write_le32 [] (esf_meas_time_tag meas) @ F @ write_le16 [] (esf_meas_id meas)
      @ concat (map (write_le32 []) ws)"
    by (simp add: p_def esf_meas_payload_def ws_def n_def F_def o_def)
  have F: "length F = 2" by (simp add: F_def)
  have fields: "le32_at p 0 = esf_meas_time_tag meas"
    "le16_at p 4 = esf_meas_flags_word (esf_meas_num_meas meas)" "le16_at p 6 = esf_meas_id meas"
    using le32_at_write [of "[]" 0] le16_at_write [of "write_le32 [] (esf_meas_time_tag meas)" 4]
      le16_at_write [of "write_le32 [] (esf_meas_time_tag meas) @ F" 6] F
    unfolding p by (simp_all add: F_def)
  have words: "le32_at p (8 + 4 * i) = ws ! i" if "i < n" for i
    using le32_at_concat [of i ws "write_le32 [] (esf_meas_time_tag meas) @ F @ write_le16 [] (esf_meas_id meas)" 8]
      that F unfolding p by (simp add: ws_def)
  have len: "length p = 8 + 4 * n + (if le16_at p 4 AND 3 \<noteq> 0 then 4 else 0)"
    by (simp add: fields flags_word_no_tag) (simp add: p_def n_def length_esf_meas_payload)
  then have ok: "frame_ok (built_frame c i p)"
    using n by (intro frame_ok_built) (simp add: fields flags_word_no_tag)
  have num: "of_nat (min n 32) = esf_meas_num_meas meas" using n by (simp add: n_def min_def)
  have data: "map (\<lambda>i. esf_datum_of (le32_at p (8 + 4 * i))) [0..<min n 32] =
      map (\<lambda>d. \<lparr>esf_datum_data_type = esf_datum_data_type d AND 0x3F,
                esf_datum_data_value = signed_take_bit 23 (esf_datum_data_value d)\<rparr>)
        (take n (esf_meas_data meas))"
    using n assms(1) by (auto simp: list_eq_iff_nth_eq words ws_def esf_datum_of_word)
  show ?thesis
    unfolding p_def [symmetric] decode_esf_meas_layout [OF ok frame_payload_built len]
    by (simp only: fields flags_word_no_tag num data esf_meas_received_def n_def [symmetric]) simp
qed

lemma signed_24_bits:
  assumes "- (2 ^ 23) \<le> sint (v :: u32)" and "sint v < 2 ^ 23"
  shows "signed_take_bit 23 v = v"
proof (rule bit_word_eqI)
  fix n assume n: "n < LENGTH(32)"
  have "signed_take_bit 23 (sint v) = sint v"
    using assms by (rule signed_take_bit_int_eq_self)
  then have "bit (sint v) (min 23 n) = bit (sint v) n"
    using bit_signed_take_bit_iff [of 23 "sint v" n] by simp
  with n show "bit (signed_take_bit 23 v) n = bit v n"
    by (simp add: bit_signed_take_bit_iff bit_sint_iff min_def split: if_splits)
qed

lemma six_bits: "(t :: u8) < 64 \<Longrightarrow> t AND 0x3F = t"
proof -
  assume "t < 64"
  then have "unat t < 2 ^ 6" by (simp add: word_less_nat_alt)
  then have "take_bit 6 t = t"
    by (simp add: word_unat_eq_iff unsigned_take_bit_eq take_bit_nat_eq_self)
  moreover have "(0x3F :: u8) = mask 6" by (simp add: mask_eq_exp_minus_1)
  ultimately show ?thesis by (simp only: take_bit_eq_mask)
qed

lemma esf_meas_received_same:
  assumes "length (esf_meas_data meas) = 32" and "esf_meas_num_meas meas \<le> 32"
    and "\<forall>d \<in> set (esf_meas_data meas). esf_datum_data_type d < 64
      \<and> - (2 ^ 23) \<le> sint (esf_datum_data_value d) \<and> sint (esf_datum_data_value d) < 2 ^ 23"
  shows "take (unat (esf_meas_num_meas meas)) (esf_meas_data (esf_meas_received meas))
    = take (unat (esf_meas_num_meas meas)) (esf_meas_data meas)"
proof -
  have n: "unat (esf_meas_num_meas meas) \<le> 32" using assms(2) by (simp add: word_le_nat_alt)
  have "map (\<lambda>d. \<lparr>esf_datum_data_type = esf_datum_data_type d AND 0x3F,
      esf_datum_data_value = signed_take_bit 23 (esf_datum_data_value d)\<rparr>) xs = xs"
    if "set xs \<subseteq> set (esf_meas_data meas)" for xs
    using that
  proof (induction xs)
    case (Cons d xs)
    then show ?case using assms(3) signed_24_bits six_bits by (cases d) force
  qed simp
  from this [OF set_take_subset] n assms(1) show ?thesis
    by (simp add: esf_meas_received_def min_absorb2)
qed

text \<open>
  C24 (roundtrip). A measurement built with 1 to 32 data and fed to a parser that knows UBX-ESF-MEAS
  arrives as the same time tag, provider and count, with no calibration tag; each datum keeps the
  low six bits of its type and the low 24 bits of its value, sign-extended, so data with types
  below 64 and signed 24-bit values come back unchanged. With 0 or more than 32 data nothing is
  built.
\<close>

theorem esf_meas_roundtrip:
  assumes "idle p" and "\<not> p_raw_cb p" and "136 \<le> unat (p_max_payload_len p)"
    and "registry_find (p_registry p) UBX_CLASS_ESF UBX_ID_ESF_MEAS = Some esf_meas_decoder"
    and "length (esf_meas_data meas) = 32"
  shows "snd (ubx_feed p (build_esf_meas meas)) =
    (if esf_meas_num_meas meas = 0 \<or> 32 < esf_meas_num_meas meas then []
     else [Decoder_callback (Esf_meas (esf_meas_received meas))])
    \<and> (esf_meas_num_meas meas \<le> 32
       \<and> (\<forall>d \<in> set (esf_meas_data meas). esf_datum_data_type d < 64
            \<and> - (2 ^ 23) \<le> sint (esf_datum_data_value d) \<and> sint (esf_datum_data_value d) < 2 ^ 23)
       \<longrightarrow> take (unat (esf_meas_num_meas meas)) (esf_meas_data (esf_meas_received meas))
            = take (unat (esf_meas_num_meas meas)) (esf_meas_data meas))"
proof (intro conjI impI)
  show "snd (ubx_feed p (build_esf_meas meas)) =
    (if esf_meas_num_meas meas = 0 \<or> 32 < esf_meas_num_meas meas then []
     else [Decoder_callback (Esf_meas (esf_meas_received meas))])"
  proof (cases "esf_meas_num_meas meas = 0 \<or> 32 < esf_meas_num_meas meas")
    case True
    then show ?thesis by (auto simp: build_esf_meas_def ubx_consts ubx_machine.feed_Nil)
  next
    case False
    then have n: "esf_meas_num_meas meas \<noteq> 0" "esf_meas_num_meas meas \<le> 32" by auto
    from n(2) have "unat (esf_meas_num_meas meas) \<le> 32" by (simp add: word_le_nat_alt)
    then have "length (esf_meas_payload meas) \<le> unat (p_max_payload_len p)"
      using assms(3) by (simp add: length_esf_meas_payload)
    from feed_decoder [OF assms(1,2) this assms(4)] False show ?thesis
      by (simp add: build_esf_meas_frame [OF n] esf_meas_decoder_def
          decode_esf_meas_payload [OF assms(5) n(2)])
  qed
qed (use esf_meas_received_same assms(5) in blast)

definition esf_meas_demo :: ubx_esf_meas where
  "esf_meas_demo = \<lparr>esf_meas_time_tag = 1000, esf_meas_flags = 0, esf_meas_id = 7,
     esf_meas_num_meas = 2,
     esf_meas_data = [\<lparr>esf_datum_data_type = 14, esf_datum_data_value = - 5\<rparr>,
       \<lparr>esf_datum_data_type = 16, esf_datum_data_value = 1024\<rparr>] @ replicate 30 esf_datum_zero,
     esf_meas_has_calib_ttag = False, esf_meas_calib_ttag = 0\<rparr>"

theorem esf_meas_roundtrip_witness:
  "\<exists>m. snd (ubx_feed (parser_with esf_meas_decoder) (build_esf_meas esf_meas_demo))
      = [Decoder_callback (Esf_meas m)]
    \<and> take 2 (esf_meas_data m) = [\<lparr>esf_datum_data_type = 14, esf_datum_data_value = - 5\<rparr>,
         \<lparr>esf_datum_data_type = 16, esf_datum_data_value = 1024\<rparr>]"
proof -
  have reg: "registry_find (p_registry (parser_with esf_meas_decoder)) UBX_CLASS_ESF UBX_ID_ESF_MEAS
      = Some esf_meas_decoder"
    using parser_with(4) [of esf_meas_decoder] by (simp add: esf_meas_decoder_def)
  have "136 \<le> unat (p_max_payload_len (parser_with esf_meas_decoder))" by simp
  from esf_meas_roundtrip [OF parser_with(1,2) this reg, of esf_meas_demo] show ?thesis
    by (simp add: esf_meas_demo_def esf_datum_zero_def)
qed

text \<open>
  The nine reset, stop and start commands are 12-byte frames of class 0x06 and
  identity 0x04 whose payload is the clear mask, least significant byte first, the mode (0x08
  stop, 0x09 start, 0x02 reset of the GNSS part) and a zero; they pass the checksum test the
  transport makes before it sends them and no two of them are the same.
\<close>

theorem reset_commands:
  "list_all (\<lambda>(frame, m, mode). frame = build_ubx_frame 6 4 [ucast m, ucast (drop_bit 8 m), mode, 0]
        \<and> length frame = 12 \<and> verify_frame_checksum frame)
     [(build_hot_stop, 0x0000 :: u16, 0x08), (build_warm_stop, 0x0001, 0x08), (build_cold_stop, 0xFFFF, 0x08),
      (build_hot_start, 0x0000, 0x09), (build_warm_start, 0x0001, 0x09), (build_cold_start, 0xFFFF, 0x09),
      (build_hot_reset, 0x0000, 0x02), (build_warm_reset, 0x0001, 0x02), (build_cold_reset, 0xFFFF, 0x02)]
   \<and> distinct [build_hot_stop, build_warm_stop, build_cold_stop, build_hot_start, build_warm_start,
        build_cold_start, build_hot_reset, build_warm_reset, build_cold_reset]"
  by (simp add: rst_defs build_cfg_rst_frame build_ubx_frame_inject verify_build_ubx_frame
      length_build_ubx_frame ubx_consts)

end
