(* ===== verification/Ubx_Config.thy ===== *)
theory Ubx_Config
  imports Ubx_Builders "HOL-Library.Mapping"
begin

text \<open>
  The configuration layer of \<open>ext_libs/ubx_parser\<close>: the value and entry types of
  \<open>config/ubx_config_types.h\<close>, the key-sized (de)serialisation of \<open>ubx_config_protocol.h\<close>, the
  VALSET and VALGET builders, the VALGET decoder and the in-memory repository. The repository is
  seen by its clients through a key-value store interface.
\<close>

section \<open>Types\<close>

datatype config_layer = Layer_ram | Layer_bbr | Layer_flash

definition layer_byte :: "config_layer \<Rightarrow> u8" where
  "layer_byte layer = (case layer of Layer_ram \<Rightarrow> 0x01 | Layer_bbr \<Rightarrow> 0x02 | Layer_flash \<Rightarrow> 0x04)"

text \<open>A \<open>config_value\<close> is its raw 64-bit pattern; its constructors zero-extend.\<close>

record config_value =
  raw :: u64

definition config_value_bool :: "bool \<Rightarrow> config_value" where
  "config_value_bool v = \<lparr>raw = (if v then 1 else 0)\<rparr>"

definition config_value_u64 :: "u64 \<Rightarrow> config_value" where
  "config_value_u64 v = \<lparr>raw = v\<rparr>"

definition config_value_i32 :: "i32 \<Rightarrow> config_value" where
  "config_value_i32 v = \<lparr>raw = ucast v\<rparr>"

definition as_u8 :: "config_value \<Rightarrow> u8" where "as_u8 v = ucast (raw v)"
definition as_u16 :: "config_value \<Rightarrow> u16" where "as_u16 v = ucast (raw v)"
definition as_u32 :: "config_value \<Rightarrow> u32" where "as_u32 v = ucast (raw v)"

record config_entry =
  key_id :: u32
  cfg_value :: config_value

section \<open>Serialisation by key size\<close>

definition write_config_value :: "bytes \<Rightarrow> config_value \<Rightarrow> u8 \<Rightarrow> bytes" where
  "write_config_value buf val byte_size =
     (if byte_size = 1 then write_u8 buf (as_u8 val)
      else if byte_size = 2 then write_le16 buf (as_u16 val)
      else if byte_size = 4 then write_le32 buf (as_u32 val)
      else if byte_size = 8 then write_le64 buf (raw val)
      else buf)"

definition read_config_value :: "bytes \<Rightarrow> u8 \<Rightarrow> config_value" where
  "read_config_value p byte_size =
     \<lparr>raw = (if byte_size = 1 then ucast (p ! 0)
             else if byte_size = 2 then ucast (read_le16 (p ! 0) (p ! 1))
             else if byte_size = 4 then ucast (read_le32 (p ! 0) (p ! 1) (p ! 2) (p ! 3))
             else if byte_size = 8 then read_le64 p
             else 0)\<rparr>"

section \<open>VALSET and VALGET builders\<close>

definition VALGET_LAYER_RAM :: u8 where "VALGET_LAYER_RAM = 0"

definition valget_build :: "u32 list \<Rightarrow> u8 \<Rightarrow> u16 \<Rightarrow> bytes" where
  "valget_build key_ids layer pos =
     (if key_ids = [] then []
      else let payload = write_u8 [] UBX_VALGET_VERSION_POLL;
               payload = write_u8 payload layer;
               payload = write_le16 payload pos;
               payload = foldl write_le32 payload key_ids
           in build_ubx_frame UBX_CLASS_CFG UBX_ID_CFG_VALGET payload)"

text \<open>One turn of the loop over the entries; an unrecognised size code is skipped.\<close>

definition valset_append :: "bytes \<Rightarrow> config_entry \<Rightarrow> bytes" where
  "valset_append payload e =
     (let sz = value_byte_size (key_id e)
      in if sz = 0 then payload
         else write_config_value (write_le32 payload (key_id e)) (cfg_value e) sz)"

definition valset_build :: "config_entry list \<Rightarrow> config_layer \<Rightarrow> bytes" where
  "valset_build entries layer =
     (if entries = [] then []
      else let payload = write_u8 [] UBX_VALSET_VERSION;
               payload = write_u8 payload (layer_byte layer);
               payload = write_le16 payload 0x0000;
               payload = foldl valset_append payload entries
           in if length payload \<le> 4 then []
              else build_ubx_frame UBX_CLASS_CFG UBX_ID_CFG_VALSET payload)"

section \<open>VALGET decoder\<close>

text \<open>\<open>value_size_from_key\<close> is its own copy of the key size table.\<close>

definition value_size_from_key :: "u32 \<Rightarrow> u8" where
  "value_size_from_key key =
     (let code = drop_bit 28 key AND 0x0F
      in if code = 0x1 then 1 else if code = 0x2 then 1 else if code = 0x3 then 2
         else if code = 0x4 then 4 else if code = 0x5 then 8 else 0)"

text \<open>
  The \<open>switch\<close> that reads a value. Its reads are not tested, since the caller has compared the
  remaining length with the size; a read that fails would leave the reader and the zero value.
\<close>

definition read_valget_value :: "u8 \<Rightarrow> byte_reader \<Rightarrow> u64 \<times> byte_reader" where
  "read_valget_value vsz r =
     (if vsz = 1 then (case rd_u8 r of Some (v, r) \<Rightarrow> (ucast v, r) | None \<Rightarrow> (0, r))
      else if vsz = 2 then (case rd_le16 r of Some (v, r) \<Rightarrow> (ucast v, r) | None \<Rightarrow> (0, r))
      else if vsz = 4 then (case rd_le32 r of Some (v, r) \<Rightarrow> (ucast v, r) | None \<Rightarrow> (0, r))
      else if vsz = 8 then (case rd_le64 r of Some (v, r) \<Rightarrow> (v, r) | None \<Rightarrow> (0, r))
      else (0, r))"

lemma remaining_read_valget_value: "remaining (snd (read_valget_value vsz r)) \<le> remaining r"
  by (auto simp: read_valget_value_def rd_u8_def rd_le16_def rd_le32_def rd_le64_def)

text \<open>The \<open>while (r.remaining() >= 4)\<close> loop; it ends because each turn consumes a key.\<close>

function (sequential) valget_entries :: "byte_reader \<Rightarrow> cfg_valget_entry list \<Rightarrow> cfg_valget_entry list option" where
  "valget_entries r acc =
     (if remaining r < 4 then Some acc
      else case rd_le32 r of None \<Rightarrow> None
      | Some (key, r1) \<Rightarrow>
          let vsz = value_size_from_key key
          in if vsz = 0 then Some acc
             else if remaining r1 < unat vsz then None
             else let (v, r2) = read_valget_value vsz r1
                  in valget_entries r2 (acc @ [\<lparr>valget_entry_key_id = key, valget_entry_value = v\<rparr>]))"
  by pat_completeness auto

termination
proof (relation "measure (\<lambda>(r, acc). remaining r)")
  fix r acc x key r1 vsz y v r2
  assume "\<not> remaining r < 4" "rd_le32 r = Some x" "(key, r1) = x"
    "y = read_valget_value vsz r1" "(v, r2) = y"
  moreover from this have "remaining r1 < remaining r"
    by (auto simp: rd_le32_def split: if_splits)
  moreover have "remaining (snd (read_valget_value vsz r1)) \<le> remaining r1"
    by (rule remaining_read_valget_value)
  ultimately show "((r2, acc @ [\<lparr>valget_entry_key_id = key, valget_entry_value = v\<rparr>]), r, acc)
      \<in> measure (\<lambda>(r, acc). remaining r)"
    by (metis (mono_tags, lifting) in_measure case_prod_conv le_less_trans snd_conv)
qed simp

definition decode_cfg_valget :: "ubx_frame \<Rightarrow> ubx_cfg_valget option" where
  "decode_cfg_valget frame =
     (if hdr_payload_length (frame_header frame) < UBX_CFG_VALGET_HEADER_LEN then None
      else do {
        let r = byte_reader_new (frame_payload frame);
        (version, r) \<leftarrow> rd_u8 r;
        (layer, r) \<leftarrow> rd_u8 r;
        (pos, r) \<leftarrow> rd_le16 r;
        entries \<leftarrow> valget_entries r [];
        Some \<lparr>cfg_valget_version = version, cfg_valget_layer = layer,
              cfg_valget_position = pos, cfg_valget_entries = entries\<rparr>
      })"

definition cfg_valget_decoder :: "ubx_message i_message_decoder" where
  "cfg_valget_decoder = \<lparr>dec_class = UBX_CLASS_CFG, dec_id = UBX_ID_CFG_VALGET,
     dec_decode = map_option Cfg_valget \<circ> decode_cfg_valget\<rparr>"

section \<open>Repository\<close>

text \<open>
  The store a client of the configuration layer relies on: a fresh store is empty, and a store
  after writing a key returns the new value for it and what it had for every other key.
\<close>

locale kv_store =
  fixes store :: "'k \<Rightarrow> 'v \<Rightarrow> 'r \<Rightarrow> 'r"
    and fetch :: "'r \<Rightarrow> 'k \<Rightarrow> 'v option"
    and clear :: "'r \<Rightarrow> 'r"
  assumes fetch_store: "fetch (store k v r) k' = (if k' = k then Some v else fetch r k')"
    and fetch_clear: "fetch (clear r) k = None"
begin

text \<open>A run of writes leaves, for each key, the last value written.\<close>

lemma fetch_stores:
  "fetch (foldl (\<lambda>r (k, v). store k v r) r es) k =
     (case map_of (rev es) k of None \<Rightarrow> fetch r k | Some v \<Rightarrow> Some v)"
proof (induction es arbitrary: r)
  case (Cons e es)
  then show ?case by (cases e) (auto simp: fetch_store map_add_def split: option.splits)
qed simp

lemma fetch_stores_clear:
  "fetch (foldl (\<lambda>r (k, v). store k v r) (clear r) es) k = map_of (rev es) k"
  by (simp add: fetch_stores fetch_clear split: option.splits)

lemma fetch_stores_distinct:
  assumes "distinct (map fst es)" and "(k, v) \<in> set es"
  shows "fetch (foldl (\<lambda>r (k, v). store k v r) r es) k = Some v"
proof -
  have "map_of (rev es) k = Some v"
    using assms by (simp add: map_of_eq_Some_iff rev_map [symmetric])
  then show ?thesis by (simp add: fetch_stores)
qed

lemma store_commute:
  "k \<noteq> k' \<Longrightarrow> fetch (store k v (store k' v' r)) = fetch (store k' v' (store k v r))"
  by (rule ext) (simp add: fetch_store)

end

text \<open>\<open>ubx_config_repository\<close>: a \<open>std::map\<close>, iterated in key order.\<close>

type_synonym ubx_config_repository = "(u32, config_value) mapping"

definition repo_store :: "config_entry \<Rightarrow> ubx_config_repository \<Rightarrow> ubx_config_repository" where
  "repo_store entry repo = Mapping.update (key_id entry) (cfg_value entry) repo"

definition repo_fetch :: "ubx_config_repository \<Rightarrow> u32 \<Rightarrow> config_value option" where
  "repo_fetch repo key = Mapping.lookup repo key"

definition repo_contains :: "ubx_config_repository \<Rightarrow> u32 \<Rightarrow> bool" where
  "repo_contains repo key \<longleftrightarrow> Mapping.lookup repo key \<noteq> None"

definition repo_all_keys :: "ubx_config_repository \<Rightarrow> u32 list" where
  "repo_all_keys repo = Mapping.ordered_keys repo"

definition repo_clear :: "ubx_config_repository \<Rightarrow> ubx_config_repository" where
  "repo_clear repo = Mapping.empty"

interpretation repo: kv_store
  "\<lambda>k v. repo_store \<lparr>key_id = k, cfg_value = v\<rparr>" repo_fetch repo_clear
  by unfold_locales
    (auto simp: repo_store_def repo_fetch_def repo_clear_def lookup_update' lookup_empty)

lemma repo_all_keys:
  "finite (Mapping.keys repo) \<Longrightarrow>
   sorted (repo_all_keys repo) \<and> distinct (repo_all_keys repo)
   \<and> set (repo_all_keys repo) = {k. repo_contains repo k}"
  by (simp add: repo_all_keys_def repo_contains_def Mapping.ordered_keys_def Mapping.keys_dom_lookup
      dom_def)

section \<open>The wire format of entries\<close>

lemma value_byte_size_cases: "value_byte_size k \<in> {0, 1, 2, 4, 8}"
  by (simp add: value_byte_size_def Let_def)

lemma value_size_from_key_eq: "value_size_from_key = value_byte_size"
  by (simp add: fun_eq_iff value_size_from_key_def value_byte_size_def)

definition kv_bytes :: "config_entry \<Rightarrow> bytes" where
  "kv_bytes e =
     (if value_byte_size (key_id e) = 0 then []
      else write_le32 [] (key_id e)
             @ write_config_value [] (cfg_value e) (value_byte_size (key_id e)))"

lemma write_le64_onto: "write_le64 buf v = buf @ write_le64 [] v"
  by (simp add: write_le64_bytes)

lemma write_config_value_onto: "write_config_value buf v n = buf @ write_config_value [] v n"
  by (simp add: write_config_value_def write_u8_def write_le16_bytes write_le32_bytes
      write_le64_onto [of buf])

lemma valset_append_bytes: "valset_append payload e = payload @ kv_bytes e"
  using write_config_value_onto [of "write_le32 payload (key_id e)" "cfg_value e"]
  by (simp add: valset_append_def kv_bytes_def Let_def) (simp add: write_le32_bytes)

lemma foldl_valset_append: "foldl valset_append payload es = payload @ concat (map kv_bytes es)"
  by (induction es arbitrary: payload) (simp_all add: valset_append_bytes)

text \<open>What a value is once it has been cut to the size of its key.\<close>

definition wire_value :: "u32 \<Rightarrow> config_value \<Rightarrow> u64" where
  "wire_value k v = take_bit (8 * unat (value_byte_size k)) (raw v)"

definition valget_entry_of :: "config_entry \<Rightarrow> cfg_valget_entry" where
  "valget_entry_of e =
     \<lparr>valget_entry_key_id = key_id e, valget_entry_value = wire_value (key_id e) (cfg_value e)\<rparr>"

lemma ucast_ucast_take_bit:
  "ucast (ucast (v :: u64) :: u8) = take_bit 8 v"
  "ucast (ucast (v :: u64) :: u16) = take_bit 16 v"
  "ucast (ucast (v :: u64) :: u32) = take_bit 32 v"
  by (auto intro!: bit_word_eqI simp: bit_simps)

lemma valget_entries_step:
  assumes "value_byte_size (key_id e) \<noteq> 0"
  shows "valget_entries (reader_mk p (kv_bytes e @ q)) acc =
    valget_entries (reader_mk (p @ kv_bytes e) q) (acc @ [valget_entry_of e])"
proof -
  have len: "\<not> length (kv_bytes e @ q) < 4"
    using assms by (simp add: kv_bytes_def)
  define vb where "vb = write_config_value [] (cfg_value e) (value_byte_size (key_id e))"
  have kv: "kv_bytes e @ q = write_le32 [] (key_id e) @ vb @ q"
    using assms by (simp add: kv_bytes_def vb_def)
  have "\<not> length (vb @ q) < unat (value_byte_size (key_id e))
      \<and> read_valget_value (value_byte_size (key_id e)) (reader_mk p' (vb @ q))
        = (wire_value (key_id e) (cfg_value e), reader_mk (p' @ vb) q)" for p'
    using value_byte_size_cases [of "key_id e"] assms
    by (auto simp: vb_def write_config_value_def read_valget_value_def wire_value_def
        reader_simps as_u8_def as_u16_def as_u32_def ucast_ucast_take_bit u8.enc_width
        le16.enc_width le32.enc_width le64.enc_width take_bit_word_eq_self)
  then show ?thesis
    using assms len
    by (subst valget_entries.simps)
      (simp add: le32.rd_enc value_size_from_key_eq valget_entry_of_def kv_bytes_def vb_def [symmetric]
        del: valget_entries.simps)
qed

lemma valget_entries_kv:
  assumes "\<forall>e \<in> set es. value_byte_size (key_id e) \<noteq> 0"
  shows "valget_entries (reader_mk p (concat (map kv_bytes es))) acc = Some (acc @ map valget_entry_of es)"
  using assms
proof (induction es arbitrary: p acc)
  case Nil
  then show ?case by (subst valget_entries.simps) simp
next
  case (Cons e es)
  then show ?case
    using valget_entries_step [of e p "concat (map kv_bytes es)" acc]
    by (simp del: valget_entries.simps)
qed

declare valget_entries.simps [simp del]

text \<open>The payload of a VALGET response that reports the given entries.\<close>

definition valget_response :: "u8 \<Rightarrow> u16 \<Rightarrow> config_entry list \<Rightarrow> bytes" where
  "valget_response layer pos es =
     [UBX_VALGET_VERSION_RESP, layer] @ write_le16 [] pos @ concat (map kv_bytes es)"

lemma kv_bytes_unknown: "value_byte_size (key_id e) = 0 \<Longrightarrow> kv_bytes e = []"
  by (simp add: kv_bytes_def)

lemma concat_kv_bytes_known:
  "concat (map kv_bytes es) = concat (map kv_bytes (filter (\<lambda>e. value_byte_size (key_id e) \<noteq> 0) es))"
  by (induction es) (simp_all add: kv_bytes_unknown)

lemma decode_valget_response:
  assumes "length (valget_response layer pos es) < 65536"
  shows "decode_cfg_valget (built_frame c i (valget_response layer pos es)) =
    Some \<lparr>cfg_valget_version = UBX_VALGET_VERSION_RESP, cfg_valget_layer = layer,
          cfg_valget_position = pos,
          cfg_valget_entries =
            map valget_entry_of (filter (\<lambda>e. value_byte_size (key_id e) \<noteq> 0) es)\<rparr>"
proof -
  define known where "known = filter (\<lambda>e. value_byte_size (key_id e) \<noteq> 0) es"
  define p where "p = valget_response layer pos es"
  have p: "p = UBX_VALGET_VERSION_RESP # layer # write_le16 [] pos @ concat (map kv_bytes known)"
    by (simp add: p_def valget_response_def concat_kv_bytes_known [of es] known_def)
  have ok: "frame_ok (built_frame c i p)" using assms by (simp add: frame_ok_built p_def)
  have len: "\<not> hdr_payload_length (frame_header (built_frame c i p)) < UBX_CFG_VALGET_HEADER_LEN"
    unfolding frame_ok_length(2) [OF ok refl] by (simp add: p ubx_consts le16.enc_width)
  have "\<forall>e \<in> set known. value_byte_size (key_id e) \<noteq> 0" by (simp add: known_def)
  then show ?thesis
    unfolding p_def [symmetric] known_def [symmetric] decode_cfg_valget_def using len
    by (simp add: byte_reader_new_mk) (simp add: p rd_u8_mk reader_simps valget_entries_kv)
qed

lemma valset_build_frame:
  assumes "valset_build entries layer \<noteq> []"
  shows "valset_build entries layer = build_ubx_frame UBX_CLASS_CFG UBX_ID_CFG_VALSET
    ([UBX_VALSET_VERSION, layer_byte layer, 0, 0] @ concat (map kv_bytes entries))"
proof -
  have "write_le16 (write_u8 (write_u8 [] UBX_VALSET_VERSION) (layer_byte layer)) 0 =
      [UBX_VALSET_VERSION, layer_byte layer, 0, 0]"
    by (simp add: write_u8_def write_le16_bytes)
  with assms show ?thesis
    by (auto simp: valset_build_def Let_def foldl_valset_append split: if_splits)
qed

lemma valset_build_Nil:
  "valset_build entries layer = [] \<longleftrightarrow> (\<forall>e \<in> set entries. value_byte_size (key_id e) = 0)"
proof -
  have "length (write_le16 (write_u8 (write_u8 [] UBX_VALSET_VERSION) (layer_byte layer)) 0) = 4"
    by (simp add: write_u8_def write_le16_bytes)
  moreover have "build_ubx_frame c i p \<noteq> []" for c i p
    using length_build_ubx_frame [of c i p] by (metis add_is_0 list.size(3) zero_neq_numeral)
  moreover have "kv_bytes e = [] \<longleftrightarrow> value_byte_size (key_id e) = 0" for e
    by (simp add: kv_bytes_def write_le32_bytes)
  ultimately show ?thesis
    by (auto simp: valset_build_def Let_def foldl_valset_append)
qed

text \<open>
  C23 (roundtrip). What VALSET writes is what VALGET reads: the payload of a VALSET frame is its
  four-byte header and the key-value bytes of the entries, and a VALGET response with those same
  bytes, received by the parser, hands the callback exactly the entries with a recognised key
  size, in order, each value cut to the size of its key. No frame is built exactly when no entry
  has a recognised size.
\<close>

theorem valset_valget_roundtrip:
  assumes "idle p" and "\<not> p_raw_cb p"
    and "registry_find (p_registry p) UBX_CLASS_CFG UBX_ID_CFG_VALGET = Some cfg_valget_decoder"
    and "length (valget_response l pos entries) \<le> unat (p_max_payload_len p)"
  shows "(valset_build entries layer = [] \<longleftrightarrow> (\<forall>e \<in> set entries. value_byte_size (key_id e) = 0))
    \<and> (valset_build entries layer \<noteq> [] \<longrightarrow>
       (\<exists>kv. valset_build entries layer = build_ubx_frame UBX_CLASS_CFG UBX_ID_CFG_VALSET
               ([UBX_VALSET_VERSION, layer_byte layer, 0, 0] @ kv)
           \<and> valget_response l pos entries = [UBX_VALGET_VERSION_RESP, l] @ write_le16 [] pos @ kv))
    \<and> snd (ubx_feed p (build_ubx_frame UBX_CLASS_CFG UBX_ID_CFG_VALGET (valget_response l pos entries)))
        = [Decoder_callback (Cfg_valget
            \<lparr>cfg_valget_version = UBX_VALGET_VERSION_RESP, cfg_valget_layer = l,
             cfg_valget_position = pos,
             cfg_valget_entries =
               map valget_entry_of (filter (\<lambda>e. value_byte_size (key_id e) \<noteq> 0) entries)\<rparr>)]"
proof -
  have "snd (ubx_feed p (build_ubx_frame UBX_CLASS_CFG UBX_ID_CFG_VALGET (valget_response l pos entries)))
        = [Decoder_callback (Cfg_valget
            \<lparr>cfg_valget_version = UBX_VALGET_VERSION_RESP, cfg_valget_layer = l,
             cfg_valget_position = pos,
             cfg_valget_entries =
               map valget_entry_of (filter (\<lambda>e. value_byte_size (key_id e) \<noteq> 0) entries)\<rparr>)]"
    by (simp add: feed_decoder [OF assms(1,2,4,3)] cfg_valget_decoder_def
        decode_valget_response [OF payload_small [OF assms(4)]])
  then show ?thesis
    using valset_build_Nil valset_build_frame
    by (auto simp: valget_response_def)
qed

theorem valset_valget_roundtrip_witness:
  "snd (ubx_feed (parser_with cfg_valget_decoder)
      (build_ubx_frame UBX_CLASS_CFG UBX_ID_CFG_VALGET
        (valget_response 0 0 [\<lparr>key_id = 0x30210001, cfg_value = \<lparr>raw = 0x103E8\<rparr>\<rparr>,
           \<lparr>key_id = 0xF0000000, cfg_value = \<lparr>raw = 1\<rparr>\<rparr>])))
    = [Decoder_callback (Cfg_valget
        \<lparr>cfg_valget_version = 1, cfg_valget_layer = 0, cfg_valget_position = 0,
         cfg_valget_entries = [\<lparr>valget_entry_key_id = 0x30210001, valget_entry_value = 0x3E8\<rparr>]\<rparr>)]"
proof -
  have reg: "registry_find (p_registry (parser_with cfg_valget_decoder)) UBX_CLASS_CFG UBX_ID_CFG_VALGET
      = Some cfg_valget_decoder"
    using parser_with(4) [of cfg_valget_decoder] by (simp add: cfg_valget_decoder_def)
  have sz: "value_byte_size 0x30210001 = 2" "value_byte_size 0xF0000000 = 0"
    by (simp_all add: value_byte_size_def)
  have len: "length (valget_response 0 0 [\<lparr>key_id = 0x30210001, cfg_value = \<lparr>raw = 0x103E8\<rparr>\<rparr>,
           \<lparr>key_id = 0xF0000000, cfg_value = \<lparr>raw = 1\<rparr>\<rparr>])
      \<le> unat (p_max_payload_len (parser_with cfg_valget_decoder))"
    by (simp add: valget_response_def kv_bytes_def sz write_config_value_def write_le16_bytes
        write_le32_bytes)
  show ?thesis
    using valset_valget_roundtrip [OF parser_with(1,2) reg len]
    by (simp add: sz valget_entry_of_def wire_value_def UBX_VALGET_VERSION_RESP_def)
qed

end
