(* ===== verification/Ubx_Config_Sync.thy ===== *)
theory Ubx_Config_Sync
  imports Ubx_Config
begin

text \<open>
  The synchronisation of the receiver's configuration with an INI file:
  \<open>config/ubx_config_sync_service\<close> and the parts of \<open>config/ubx_config_manager\<close> over it. The
  transport is an object with synchronous and asynchronous sends, threaded through the
  operations; the INI provider is what its \<open>load\<close> and \<open>get_all_entries\<close> return for a path.
\<close>

section \<open>Sync service\<close>

record sync_service =
  sync_repository :: ubx_config_repository
  sync_default :: "config_entry list"

definition sync_service_new :: sync_service where
  "sync_service_new = \<lparr>sync_repository = Mapping.empty, sync_default = []\<rparr>"

text \<open>A send of the transport: its result and the transport afterwards.\<close>

type_synonym 't send_op = "bytes \<Rightarrow> 't \<Rightarrow> bool \<times> 't"

text \<open>
  The provider: \<open>None\<close> when \<open>load(path)\<close> returns false, otherwise what \<open>get_all_entries()\<close> returns
  after it.
\<close>

type_synonym ini_provider = "string \<Rightarrow> config_entry list option"

definition load_default_config :: "ini_provider \<Rightarrow> string \<Rightarrow> sync_service \<Rightarrow> bool \<times> sync_service" where
  "load_default_config provider path s =
     (case provider path of
        None \<Rightarrow> (False, s)
      | Some entries \<Rightarrow> (entries \<noteq> [], s\<lparr>sync_default := entries\<rparr>))"

definition sync_start_valget_poll :: "'t send_op \<Rightarrow> sync_service \<Rightarrow> 't \<Rightarrow> bool \<times> sync_service \<times> 't" where
  "sync_start_valget_poll send_sync s t =
     (if sync_default s = [] then (False, s, t)
      else let key_ids = map key_id (sync_default s);
               s' = s\<lparr>sync_repository := repo_clear (sync_repository s)\<rparr>;
               msg = valget_build key_ids VALGET_LAYER_RAM 0
           in if msg = [] then (False, s', t)
              else let (ok, t') = send_sync msg t in (ok, s', t'))"

definition sync_on_valget_response :: "ubx_cfg_valget \<Rightarrow> sync_service \<Rightarrow> sync_service" where
  "sync_on_valget_response msg s =
     (if cfg_valget_version msg \<noteq> UBX_VALGET_VERSION_RESP then s
      else s\<lparr>sync_repository :=
             foldl (\<lambda>repo e. repo_store \<lparr>key_id = valget_entry_key_id e,
                       cfg_value = config_value_u64 (valget_entry_value e)\<rparr> repo)
               (sync_repository s) (cfg_valget_entries msg)\<rparr>)"

text \<open>The loop of \<open>apply_configuration\<close> collects the entries the receiver lacks or has otherwise.\<close>

definition pending_updates :: "sync_service \<Rightarrow> config_entry list" where
  "pending_updates s =
     filter (\<lambda>desired. case repo_fetch (sync_repository s) (key_id desired) of
               None \<Rightarrow> True
             | Some current_val \<Rightarrow> raw current_val \<noteq> raw (cfg_value desired)) (sync_default s)"

definition apply_configuration :: "'t send_op \<Rightarrow> config_layer \<Rightarrow> sync_service \<Rightarrow> 't \<Rightarrow> bool \<times> 't" where
  "apply_configuration send_sync layer s t =
     (let updates = pending_updates s
      in if updates = [] then (True, t)
         else let msg = valset_build updates layer
              in if msg = [] then (False, t) else send_sync msg t)"

definition force_apply_configuration :: "'t send_op \<Rightarrow> config_layer \<Rightarrow> sync_service \<Rightarrow> 't \<Rightarrow> bool \<times> 't" where
  "force_apply_configuration send_sync layer s t =
     (let updates = sync_default s
      in if updates = [] then (False, t)
         else let msg = valset_build updates layer
              in if msg = [] then (False, t) else send_sync msg t)"

definition default_config_size :: "sync_service \<Rightarrow> nat" where
  "default_config_size s = length (sync_default s)"

section \<open>Config manager\<close>

definition set_config :: "'t send_op \<Rightarrow> config_entry list \<Rightarrow> config_layer \<Rightarrow> 't \<Rightarrow> bool \<times> 't" where
  "set_config send_async entries layer t =
     (if entries = [] then (False, t)
      else let msg = valset_build entries layer in if msg = [] then (False, t) else send_async msg t)"

definition poll_config :: "'t send_op \<Rightarrow> u32 list \<Rightarrow> u8 \<Rightarrow> 't \<Rightarrow> bool \<times> 't" where
  "poll_config send_async key_ids layer t =
     (if key_ids = [] then (False, t)
      else let msg = valget_build key_ids layer 0 in if msg = [] then (False, t) else send_async msg t)"

definition start_poll :: "'t send_op \<Rightarrow> ini_provider \<Rightarrow> string \<Rightarrow> sync_service \<Rightarrow> 't
    \<Rightarrow> bool \<times> sync_service \<times> 't" where
  "start_poll send_sync provider path s t =
     (let (ok, s') = load_default_config provider path s
      in if \<not> ok then (False, s', t) else sync_start_valget_poll send_sync s' t)"

section \<open>Facts\<close>

lemma sync_on_valget_response_fold:
  "cfg_valget_version msg = UBX_VALGET_VERSION_RESP \<Longrightarrow>
   sync_on_valget_response msg s = s\<lparr>sync_repository :=
     foldl (\<lambda>r (k, v). repo_store \<lparr>key_id = k, cfg_value = v\<rparr> r) (sync_repository s)
       (map (\<lambda>e. (valget_entry_key_id e, config_value_u64 (valget_entry_value e))) (cfg_valget_entries msg))\<rparr>"
  by (simp add: sync_on_valget_response_def foldl_map)

lemma sync_default_on_response [simp]: "sync_default (sync_on_valget_response d s) = sync_default s"
  by (simp add: sync_on_valget_response_def)

lemma raw_eq: "raw v = raw w \<longleftrightarrow> v = (w :: config_value)"
  by (cases v; cases w) simp

text \<open>What a repository holds after a response for a cleared one.\<close>

lemma fetch_after_response:
  assumes "cfg_valget_version d = UBX_VALGET_VERSION_RESP"
    and "sync_repository s = repo_clear r"
    and "distinct (map valget_entry_key_id (cfg_valget_entries d))"
  shows "repo_fetch (sync_repository (sync_on_valget_response d s)) k = Some v \<longleftrightarrow>
    \<lparr>valget_entry_key_id = k, valget_entry_value = raw v\<rparr> \<in> set (cfg_valget_entries d)"
proof -
  let ?es = "map (\<lambda>e. (valget_entry_key_id e, config_value_u64 (valget_entry_value e))) (cfg_valget_entries d)"
  have dist: "distinct (map fst (rev ?es))"
    using assms(3) by (simp add: rev_map [symmetric] o_def)
  have "repo_fetch (sync_repository (sync_on_valget_response d s)) k = map_of (rev ?es) k"
    using assms(1,2) by (simp add: sync_on_valget_response_fold repo.fetch_stores_clear)
  also have "\<dots> = Some v \<longleftrightarrow> (k, v) \<in> set ?es"
    using map_of_eq_Some_iff [OF dist] by simp
  also have "\<dots> \<longleftrightarrow> \<lparr>valget_entry_key_id = k, valget_entry_value = raw v\<rparr> \<in> set (cfg_valget_entries d)"
    by (auto simp: config_value_u64_def image_iff)
      (metis cfg_valget_entry.surjective old.unit.exhaust, force)
  finally show ?thesis .
qed

section \<open>Properties\<close>

text \<open>An entry whose value has no bits beyond the size of its key.\<close>

definition entry_fits :: "config_entry \<Rightarrow> bool" where
  "entry_fits e \<longleftrightarrow> value_byte_size (key_id e) \<noteq> 0 \<and> wire_value (key_id e) (cfg_value e) = raw (cfg_value e)"

lemma poll_clears:
  "sync_default s \<noteq> [] \<Longrightarrow>
   sync_repository (fst (snd (sync_start_valget_poll send_sync s t))) = repo_clear (sync_repository s)
   \<and> sync_default (fst (snd (sync_start_valget_poll send_sync s t))) = sync_default s"
  by (simp add: sync_start_valget_poll_def Let_def case_prod_beta)

lemma valget_entry_of_eq:
  "\<lparr>valget_entry_key_id = key_id e, valget_entry_value = raw (cfg_value e)\<rparr> = valget_entry_of e'
    \<longleftrightarrow> key_id e' = key_id e \<and> wire_value (key_id e') (cfg_value e') = raw (cfg_value e)"
  by (auto simp: valget_entry_of_def)

text \<open>
  After a poll and the response that reports every default entry as VALSET stores it, the entries
  still pending are exactly those that do not fit their key.
\<close>

lemma pending_after_echo:
  assumes "sync_default s \<noteq> []" and "distinct (map key_id (sync_default s))"
    and "length (valget_response l pos (sync_default s)) < 65536"
  shows "\<exists>m. decode_cfg_valget (built_frame c i (valget_response l pos (sync_default s))) = Some m
    \<and> pending_updates (sync_on_valget_response m (fst (snd (sync_start_valget_poll send_sync s t))))
        = filter (\<lambda>e. \<not> entry_fits e) (sync_default s)"
proof -
  let ?known = "filter (\<lambda>e. value_byte_size (key_id e) \<noteq> 0) (sync_default s)"
  define s1 where "s1 = fst (snd (sync_start_valget_poll send_sync s t))"
  obtain m where m: "decode_cfg_valget (built_frame c i (valget_response l pos (sync_default s))) = Some m"
    and ver: "cfg_valget_version m = UBX_VALGET_VERSION_RESP"
    and ent: "cfg_valget_entries m = map valget_entry_of ?known"
    using decode_valget_response [OF assms(3), of c i] by simp
  have s1: "sync_repository s1 = repo_clear (sync_repository s)" "sync_default s1 = sync_default s"
    using poll_clears [OF assms(1), of send_sync t] by (simp_all add: s1_def)
  have keys: "map valget_entry_key_id (map valget_entry_of xs) = map key_id xs" for xs
    by (simp add: valget_entry_of_def)
  have dist: "distinct (map valget_entry_key_id (cfg_valget_entries m))"
    unfolding ent keys using assms(2) by (simp add: distinct_map_filter)
  note fetch = fetch_after_response [OF ver s1(1) dist]
  have "(case repo_fetch (sync_repository (sync_on_valget_response m s1)) (key_id e) of
          None \<Rightarrow> True | Some current_val \<Rightarrow> raw current_val \<noteq> raw (cfg_value e)) \<longleftrightarrow> \<not> entry_fits e"
    if e: "e \<in> set (sync_default s)" for e
  proof -
    have "repo_fetch (sync_repository (sync_on_valget_response m s1)) (key_id e) = Some (cfg_value e)
        \<longleftrightarrow> (\<exists>e' \<in> set ?known. key_id e' = key_id e \<and> wire_value (key_id e') (cfg_value e') = raw (cfg_value e))"
      unfolding fetch ent set_map by (simp only: image_iff valget_entry_of_eq)
    also have "\<dots> \<longleftrightarrow> entry_fits e"
    proof
      assume "\<exists>e' \<in> set ?known. key_id e' = key_id e \<and> wire_value (key_id e') (cfg_value e') = raw (cfg_value e)"
      then obtain e' where e': "e' \<in> set (sync_default s)" "value_byte_size (key_id e') \<noteq> 0"
        "key_id e' = key_id e" "wire_value (key_id e') (cfg_value e') = raw (cfg_value e)" by auto
      with e assms(2) have "e' = e" by (auto simp: distinct_map inj_on_def)
      with e' show "entry_fits e" by (simp add: entry_fits_def)
    qed (use e in \<open>auto simp: entry_fits_def\<close>)
    finally show ?thesis by (auto simp: raw_eq split: option.splits)
  qed
  then have "pending_updates (sync_on_valget_response m s1) = filter (\<lambda>e. \<not> entry_fits e) (sync_default s)"
    by (auto simp: pending_updates_def s1(2) intro: filter_cong)
  with m show ?thesis unfolding s1_def by blast
qed

text \<open>
  C22 (functional). Synchronisation settles: once the receiver reports every default entry the way VALSET
  stores it (keys distinct), applying the configuration finds as pending exactly the entries that
  do not fit their key; when all fit it returns true and sends nothing, whatever the transport
  would answer, and otherwise it sends the VALSET frame of those entries alone.
\<close>

theorem config_sync_settles:
  assumes "sync_default s \<noteq> []" and "distinct (map key_id (sync_default s))"
    and "length (valget_response l pos (sync_default s)) < 65536"
  shows "\<exists>m. decode_cfg_valget (built_frame c i (valget_response l pos (sync_default s))) = Some m
    \<and> (let s' = sync_on_valget_response m (fst (snd (sync_start_valget_poll send_sync s t)));
           unfit = filter (\<lambda>e. \<not> entry_fits e) (sync_default s)
       in pending_updates s' = unfit
          \<and> apply_configuration send layer s' t' =
              (if unfit = [] then (True, t')
               else if \<forall>e \<in> set unfit. value_byte_size (key_id e) = 0 then (False, t')
               else send (valset_build unfit layer) t'))"
proof -
  obtain m where m: "decode_cfg_valget (built_frame c i (valget_response l pos (sync_default s))) = Some m"
    and pending: "pending_updates (sync_on_valget_response m (fst (snd (sync_start_valget_poll send_sync s t))))
        = filter (\<lambda>e. \<not> entry_fits e) (sync_default s)"
    using pending_after_echo [OF assms, of c i send_sync t] by blast
  define unfit where "unfit = filter (\<lambda>e. \<not> entry_fits e) (sync_default s)"
  define s' where "s' = sync_on_valget_response m (fst (snd (sync_start_valget_poll send_sync s t)))"
  have "pending_updates s' = unfit" using pending by (simp add: s'_def unfit_def)
  then have "apply_configuration send layer s' t' =
      (if unfit = [] then (True, t')
       else if \<forall>e \<in> set unfit. value_byte_size (key_id e) = 0 then (False, t')
       else send (valset_build unfit layer) t')"
    by (auto simp: apply_configuration_def Let_def valset_build_Nil)
  with m \<open>pending_updates s' = unfit\<close> show ?thesis
    unfolding Let_def unfit_def [symmetric] unfolding s'_def by (intro exI [of _ m] conjI)
qed

definition sync_demo :: sync_service where
  "sync_demo = \<lparr>sync_repository = Mapping.empty,
     sync_default = [\<lparr>key_id = 0x30210001, cfg_value = \<lparr>raw = 200\<rparr>\<rparr>]\<rparr>"

theorem config_sync_settles_witness:
  "\<exists>m. decode_cfg_valget (built_frame 6 0x8B (valget_response 0 0 (sync_default sync_demo))) = Some m
    \<and> apply_configuration (\<lambda>msg n. (False, n)) Layer_ram (sync_on_valget_response m
         (fst (snd (sync_start_valget_poll (\<lambda>msg n. (True, n)) sync_demo (0::nat))))) 5 = (True, 5 :: nat)"
proof -
  have fits: "value_byte_size 0x30210001 = 2" by (simp add: value_byte_size_def)
  have "sync_default sync_demo \<noteq> []" "distinct (map key_id (sync_default sync_demo))"
    "length (valget_response 0 0 (sync_default sync_demo)) < 65536"
    by (simp_all add: sync_demo_def valget_response_def kv_bytes_def fits write_config_value_def
        write_le16_bytes write_le32_bytes)
  from config_sync_settles [OF this, where c = 6 and i = "0x8B" and send_sync = "\<lambda>msg n. (True, n)"
      and t = "0 :: nat" and send = "\<lambda>msg n. (False, n)" and layer = Layer_ram and t' = "5 :: nat"]
  show ?thesis
    by (auto simp: Let_def entry_fits_def wire_value_def fits sync_demo_def)
qed

lemma negative_i32_top_bit: "sint (v :: i32) < 0 \<Longrightarrow> bit v 31"
  using bit_last_iff [of v] by simp

text \<open>
  A negative setting for a one- or two-byte key never settles: the INI provider stores the
  32-bit pattern of the number, the receiver reports the pattern of the key's size, and the
  comparison of the two 64-bit patterns fails for ever, so the entry is sent again on every
  synchronisation although the receiver already has it.
\<close>

theorem negative_setting_never_settles:
  assumes "sync_default s \<noteq> []" and "distinct (map key_id (sync_default s))"
    and "length (valget_response l pos (sync_default s)) < 65536"
    and "\<lparr>key_id = k, cfg_value = config_value_i32 v\<rparr> \<in> set (sync_default s)"
    and "sint v < 0" and "value_byte_size k = 1 \<or> value_byte_size k = 2"
  shows "\<exists>m. decode_cfg_valget (built_frame c i (valget_response l pos (sync_default s))) = Some m
    \<and> \<lparr>key_id = k, cfg_value = config_value_i32 v\<rparr> \<in> set (pending_updates
         (sync_on_valget_response m (fst (snd (sync_start_valget_poll send_sync s t)))))"
proof -
  have "bit (raw (config_value_i32 v)) 31"
    using negative_i32_top_bit [OF assms(5)] by (simp add: config_value_i32_def bit_simps)
  moreover have "\<not> bit (wire_value k (config_value_i32 v)) 31"
    using assms(6) by (auto simp: wire_value_def bit_simps)
  ultimately have "wire_value k (config_value_i32 v) \<noteq> raw (config_value_i32 v)" by metis
  then have "\<not> entry_fits \<lparr>key_id = k, cfg_value = config_value_i32 v\<rparr>"
    by (simp add: entry_fits_def)
  with pending_after_echo [OF assms(1-3), of c i send_sync t] assms(4) show ?thesis by auto
qed

theorem negative_setting_never_settles_witness:
  "\<exists>m. decode_cfg_valget (built_frame 6 0x8B (valget_response 0 0
        [\<lparr>key_id = 0x20140011, cfg_value = config_value_i32 (- 1)\<rparr>])) = Some m
    \<and> \<lparr>key_id = 0x20140011, cfg_value = config_value_i32 (- 1)\<rparr> \<in> set (pending_updates
         (sync_on_valget_response m (fst (snd (sync_start_valget_poll (\<lambda>msg n. (True, n))
            \<lparr>sync_repository = Mapping.empty,
             sync_default = [\<lparr>key_id = 0x20140011, cfg_value = config_value_i32 (- 1)\<rparr>]\<rparr> ())))))"
proof -
  have sz: "value_byte_size 0x20140011 = 1" by (simp add: value_byte_size_def)
  have len: "length (valget_response 0 0 [\<lparr>key_id = 0x20140011, cfg_value = config_value_i32 (- 1)\<rparr>]) < 65536"
    by (simp add: valget_response_def kv_bytes_def sz write_config_value_def write_le16_bytes
        write_le32_bytes write_u8_def)
  show ?thesis
    using negative_setting_never_settles [where s = "\<lparr>sync_repository = Mapping.empty,
        sync_default = [\<lparr>key_id = 0x20140011, cfg_value = config_value_i32 (- 1)\<rparr>]\<rparr>"
        and k = "0x20140011" and v = "- 1" and l = 0 and pos = 0 and c = 6 and i = "0x8B"
        and send_sync = "\<lambda>msg n. (True, n)" and t = "()"] len
    by (simp add: sz)
qed

lemma map_of_map_values:
  "map_of (map (\<lambda>e. (f e, g (h e))) xs) k = map_option g (map_of (map (\<lambda>e. (f e, h e)) xs) k)"
  by (induction xs) simp_all

text \<open>
  Responses that come in pages accumulate: after any sequence of responses each key has
  the value of the last version-1 response that reports it, keys of no response keep what the
  repository had, and a response of another version changes nothing.
\<close>

theorem paged_responses_accumulate:
  "repo_fetch (sync_repository (foldl (\<lambda>s m. sync_on_valget_response m s) s pages)) k =
    (case map_of (rev (concat (map (\<lambda>m. if cfg_valget_version m = UBX_VALGET_VERSION_RESP
                        then map (\<lambda>e. (valget_entry_key_id e, valget_entry_value e)) (cfg_valget_entries m)
                        else []) pages))) k of
       None \<Rightarrow> repo_fetch (sync_repository s) k
     | Some v \<Rightarrow> Some \<lparr>raw = v\<rparr>)"
proof (induction pages arbitrary: s)
  case Nil
  then show ?case by simp
next
  case (Cons m pages)
  have one: "repo_fetch (sync_repository (sync_on_valget_response m s)) k =
      (case map_of (rev (if cfg_valget_version m = UBX_VALGET_VERSION_RESP
              then map (\<lambda>e. (valget_entry_key_id e, valget_entry_value e)) (cfg_valget_entries m)
              else [])) k of
         None \<Rightarrow> repo_fetch (sync_repository s) k | Some v \<Rightarrow> Some \<lparr>raw = v\<rparr>)"
  proof (cases "cfg_valget_version m = UBX_VALGET_VERSION_RESP")
    case True
    have "map_of (rev (map (\<lambda>e. (valget_entry_key_id e, \<lparr>raw = valget_entry_value e\<rparr>)) es)) k =
        map_option (\<lambda>v. \<lparr>raw = v\<rparr>) (map_of (rev (map (\<lambda>e. (valget_entry_key_id e, valget_entry_value e)) es)) k)"
      for es :: "cfg_valget_entry list" unfolding rev_map by (rule map_of_map_values)
    with True show ?thesis
      by (simp add: sync_on_valget_response_fold repo.fetch_stores config_value_u64_def
          split: option.splits)
  qed (simp add: sync_on_valget_response_def)
  show ?case by (simp add: Cons.IH one map_add_def split: option.splits)
qed

end
