(* ===== verification/Serial_Transport.thy ===== *)
theory Serial_Transport
  imports Ubx_Builders
begin

text \<open>
  \<open>gnss_controller/serial_transport_impl\<close>: sending a UBX frame over a port, and the synchronous
  send that waits for the acknowledgement another thread reports through \<open>handle_ack\<close>. The
  sending thread and the acknowledgements interleave freely between the statements of
  \<open>send_sync\<close>, so it is a step relation; its mutex makes it the only sender. The event it waits
  for is the \<open>toggle_event\<close> of \<open>libevent.h\<close>: a flag set, reset and waited for under a lock.
\<close>

section \<open>State and operations\<close>

text \<open>\<open>tr_port\<close> says whether a port was given.\<close>

record serial_transport =
  tr_port :: bool
  tr_ack_toggle :: bool
  tr_last_class :: u8
  tr_last_id :: u8

definition transport_new :: "bool \<Rightarrow> serial_transport" where
  "transport_new port =
     \<lparr>tr_port = port, tr_ack_toggle = False, tr_last_class = 0xFF, tr_last_id = 0xFF\<rparr>"

text \<open>The port's \<open>write_bytes\<close>: the count it returns, or \<open>None\<close> when it throws an \<open>io_exception\<close>.\<close>

type_synonym port_write = "bytes \<Rightarrow> int option"

definition send_async :: "port_write \<Rightarrow> serial_transport \<Rightarrow> bytes \<Rightarrow> bool" where
  "send_async wr t msg =
     (if \<not> tr_port t then False
      else case wr msg of None \<Rightarrow> False | Some written \<Rightarrow> written = int (length msg))"

definition handle_ack :: "u8 \<Rightarrow> u8 \<Rightarrow> bool \<Rightarrow> serial_transport \<Rightarrow> serial_transport" where
  "handle_ack msg_class msg_id is_ack t =
     (if is_ack \<and> msg_class = tr_last_class t \<and> msg_id = tr_last_id t
      then t\<lparr>tr_ack_toggle := True\<rparr> else t)"

section \<open>The synchronous send\<close>

text \<open>The points of \<open>send_sync\<close> between which another thread can run.\<close>

datatype send_point =
    At_entry
  | Toggle_reset
  | Class_recorded
  | Id_recorded
  | Waiting
  | Returned bool

datatype send_action =
    Run
  | Timeout
  | Ack u8 u8 bool

inductive send_step :: "port_write \<Rightarrow> bytes \<Rightarrow> send_point \<times> serial_transport \<Rightarrow> send_action
    \<Rightarrow> send_point \<times> serial_transport \<Rightarrow> bool"
  for wr :: port_write and msg :: bytes
where
  invalid: "\<not> verify_frame_checksum msg \<Longrightarrow>
     send_step wr msg (At_entry, t) Run (Returned False, t)"
| reset: "verify_frame_checksum msg \<Longrightarrow>
     send_step wr msg (At_entry, t) Run (Toggle_reset, t\<lparr>tr_ack_toggle := False\<rparr>)"
| record_class:
     "send_step wr msg (Toggle_reset, t) Run
        (Class_recorded, t\<lparr>tr_last_class := get_frame_msg_class msg\<rparr>)"
| record_id:
     "send_step wr msg (Class_recorded, t) Run
        (Id_recorded, t\<lparr>tr_last_id := get_frame_msg_id msg\<rparr>)"
| send_failed: "\<not> send_async wr t msg \<Longrightarrow>
     send_step wr msg (Id_recorded, t) Run (Returned False, t)"
| sent: "send_async wr t msg \<Longrightarrow>
     send_step wr msg (Id_recorded, t) Run (Waiting, t)"
| acked: "tr_ack_toggle t \<Longrightarrow>
     send_step wr msg (Waiting, t) Run (Returned True, t)"
| timed_out: "\<not> tr_ack_toggle t \<Longrightarrow>
     send_step wr msg (Waiting, t) Timeout
       (Returned False, t\<lparr>tr_last_class := 0xFF, tr_last_id := 0xFF\<rparr>)"
| ack: "send_step wr msg (pc, t) (Ack c i b) (pc, handle_ack c i b t)"

code_pred (modes: i \<Rightarrow> i \<Rightarrow> i \<Rightarrow> i \<Rightarrow> o \<Rightarrow> bool) send_step .

inductive_cases send_stepE: "send_step wr msg (pc, t) a (pc', t')"

text \<open>A run is the list of actions it takes.\<close>

inductive send_run :: "port_write \<Rightarrow> bytes \<Rightarrow> send_point \<times> serial_transport \<Rightarrow> send_action list
    \<Rightarrow> send_point \<times> serial_transport \<Rightarrow> bool"
  for wr :: port_write and msg :: bytes
where
  start: "send_run wr msg s [] s"
| step: "send_run wr msg s as s' \<Longrightarrow> send_step wr msg s' a s'' \<Longrightarrow>
     send_run wr msg s (as @ [a]) s''"

section \<open>What a positive result means\<close>

text \<open>
  The invariant of a run from the entry of \<open>send_sync\<close>: the pair the transport compares with is
  the one the program counter says, and a set toggle has been set by an acknowledgement of a
  pair that was recorded at some moment of this call.
\<close>

definition recorded_pairs :: "bytes \<Rightarrow> serial_transport \<Rightarrow> (u8 \<times> u8) set" where
  "recorded_pairs msg t0 =
     {(tr_last_class t0, tr_last_id t0), (get_frame_msg_class msg, tr_last_id t0),
      (get_frame_msg_class msg, get_frame_msg_id msg)}"

definition pair_at :: "bytes \<Rightarrow> serial_transport \<Rightarrow> send_point \<Rightarrow> (u8 \<times> u8) set" where
  "pair_at msg t0 pc =
     (case pc of At_entry \<Rightarrow> {(tr_last_class t0, tr_last_id t0)}
      | Toggle_reset \<Rightarrow> {(tr_last_class t0, tr_last_id t0)}
      | Class_recorded \<Rightarrow> {(get_frame_msg_class msg, tr_last_id t0)}
      | Id_recorded \<Rightarrow> {(get_frame_msg_class msg, get_frame_msg_id msg)}
      | Waiting \<Rightarrow> {(get_frame_msg_class msg, get_frame_msg_id msg)}
      | Returned b \<Rightarrow> UNIV)"

definition send_inv :: "bytes \<Rightarrow> serial_transport \<Rightarrow> send_action list \<Rightarrow> send_point \<times> serial_transport \<Rightarrow> bool" where
  "send_inv msg t0 as s \<longleftrightarrow>
     (case s of (pc, t) \<Rightarrow>
        (tr_last_class t, tr_last_id t) \<in> pair_at msg t0 pc
        \<and> (pc \<noteq> At_entry \<and> (\<forall>b. pc \<noteq> Returned b) \<and> tr_ack_toggle t \<longrightarrow>
             (\<exists>(c, i) \<in> recorded_pairs msg t0. Ack c i True \<in> set as))
        \<and> (pc = Returned True \<longrightarrow> (\<exists>(c, i) \<in> recorded_pairs msg t0. Ack c i True \<in> set as)))"

lemma handle_ack_pair [simp]:
  "tr_last_class (handle_ack c i b t) = tr_last_class t"
  "tr_last_id (handle_ack c i b t) = tr_last_id t"
  by (simp_all add: handle_ack_def)

lemma send_inv_step:
  assumes "send_inv msg t0 as s" and "send_step wr msg s a s'"
  shows "send_inv msg t0 (as @ [a]) s'"
  using assms(2,1)
proof cases
  case (ack pc t c i b)
  with assms(1) show ?thesis
    by (cases pc) (auto simp: send_inv_def pair_at_def recorded_pairs_def handle_ack_def split: if_splits)
qed (auto simp: send_inv_def pair_at_def recorded_pairs_def)

lemma send_inv_run:
  assumes "send_run wr msg (At_entry, t0) as s"
  shows "send_inv msg t0 as s"
  using assms
proof (induction "(At_entry, t0)" as s)
  case start
  then show ?case by (simp add: send_inv_def pair_at_def)
qed (rule send_inv_step)

text \<open>Past the entry the frame has been checked, and past the write it has been sent in full.\<close>

definition send_checked :: "port_write \<Rightarrow> bytes \<Rightarrow> send_point \<Rightarrow> bool" where
  "send_checked wr msg pc \<longleftrightarrow>
     (pc \<in> {At_entry, Returned False} \<or> verify_frame_checksum msg)
     \<and> (pc \<in> {Waiting, Returned True} \<longrightarrow> (\<exists>t. send_async wr t msg))"

lemma send_checked_step:
  "send_checked wr msg (fst s) \<Longrightarrow> send_step wr msg s a s' \<Longrightarrow> send_checked wr msg (fst s')"
  by (auto simp: send_checked_def elim!: send_step.cases)

lemma send_checked_run:
  assumes "send_run wr msg (At_entry, t0) as s"
  shows "send_checked wr msg (fst s)"
  using assms
proof (induction "(At_entry, t0)" as s)
  case start
  then show ?case by (simp add: send_checked_def)
qed (rule send_checked_step)

lemma send_runs: "send_run wr msg s as s' \<Longrightarrow> send_run wr msg s' bs s'' \<Longrightarrow> send_run wr msg s (as @ bs) s''"
proof (rotate_tac, induction s' bs s'' rule: send_run.induct)
  case (step s' bs s'' a s''')
  from send_run.step [OF step.IH [OF step.prems] step.hyps(2)] show ?case by simp
qed simp

lemma send_run_one: "send_step wr msg s a s' \<Longrightarrow> send_run wr msg s [a] s'"
  using send_run.step [OF send_run.start] by fastforce

text \<open>A run of acknowledgements alone.\<close>

lemma send_run_acks:
  "send_run wr msg (pc, t) (map (\<lambda>(c, i, b). Ack c i b) acks)
     (pc, foldl (\<lambda>t (c, i, b). handle_ack c i b t) t acks)"
proof (induction acks arbitrary: t)
  case (Cons x acks)
  obtain c i b where x: "x = (c, i, b)" by (cases x)
  from send_runs [OF send_run_one [OF send_step.ack] Cons.IH] show ?case by (simp add: x)
qed (simp add: send_run.start)


definition rate_frame :: bytes where
  "rate_frame = build_ubx_frame 6 0x8A [0, 1, 0, 0]"

lemma rate_frame_facts:
  "verify_frame_checksum rate_frame" "get_frame_msg_class rate_frame = 6"
  "get_frame_msg_id rate_frame = 0x8A"
proof -
  show "verify_frame_checksum rate_frame" by (simp add: rate_frame_def verify_build_ubx_frame)
  show "get_frame_msg_class rate_frame = 6" "get_frame_msg_id rate_frame = 0x8A"
    by (simp_all add: rate_frame_def get_frame_msg_class_def get_frame_msg_id_def
        UBX_FRAME_OVERHEAD_def build_ubx_frame_eq)
qed

text \<open>A port that takes every message in full.\<close>

definition port_ok :: port_write where
  "port_ok msg = Some (int (length msg))"

lemma send_to_waiting:
  assumes "verify_frame_checksum msg" and "tr_port t"
  shows "send_run port_ok msg (At_entry, t) [Run, Run, Run, Run]
    (Waiting, t\<lparr>tr_ack_toggle := False, tr_last_class := get_frame_msg_class msg,
       tr_last_id := get_frame_msg_id msg\<rparr>)"
proof -
  let ?s = "\<lambda>pc t. (pc, t :: serial_transport)"
  have "send_run port_ok msg (At_entry, t) ((([] @ [Run]) @ [Run]) @ [Run])
      (Id_recorded, t\<lparr>tr_ack_toggle := False, tr_last_class := get_frame_msg_class msg,
       tr_last_id := get_frame_msg_id msg\<rparr>)"
    by (intro send_run.step [OF send_run.step [OF send_run.step [OF send_run.start
        send_step.reset [OF assms(1)]] send_step.record_class] send_step.record_id])
  from send_run.step [OF this send_step.sent] assms(2) show ?thesis
    by (simp add: send_async_def port_ok_def)
qed

lemma acked_run:
  assumes "tr_last_class t = c" and "tr_last_id t = i"
  shows "send_run wr msg (Waiting, t) [Ack c i True, Run] (Returned True, t\<lparr>tr_ack_toggle := True\<rparr>)"
proof -
  have "handle_ack c i True t = t\<lparr>tr_ack_toggle := True\<rparr>" using assms by (simp add: handle_ack_def)
  then have "send_step wr msg (Waiting, t) (Ack c i True) (Waiting, t\<lparr>tr_ack_toggle := True\<rparr>)"
    using send_step.ack [of wr msg Waiting t c i True] by simp
  from send_run.step [OF send_run_one [OF this] send_step.acked] show ?thesis by simp
qed


lemma foldl_handle_ack:
  "tr_last_class (foldl (\<lambda>t (c, i, b). handle_ack c i b t) t acks) = tr_last_class t"
  "tr_last_id (foldl (\<lambda>t (c, i, b). handle_ack c i b t) t acks) = tr_last_id t"
  by (induction acks arbitrary: t) (auto simp: case_prod_beta)

lemma foldl_handle_nak:
  "\<forall>(c, i, b) \<in> set naks. \<not> b \<Longrightarrow> foldl (\<lambda>t (c, i, b). handle_ack c i b t) t naks = t"
  by (induction naks arbitrary: t) (auto simp: handle_ack_def)

text \<open>
  C21 (liveness). A valid frame on a port that takes it is acknowledged as soon as its acknowledgement
  arrives after the write, whatever acknowledgements, NAKs and acknowledgements of other frames
  come before it; a NAK is not taken as an answer: after NAKs alone the call still waits and can
  only end by the timeout, which clears the recorded pair.
\<close>

theorem send_sync_returns:
  assumes "verify_frame_checksum msg" and "tr_port t"
  shows "(\<exists>t'. send_run port_ok msg (At_entry, t)
            (([Run, Run, Run, Run] @ map (\<lambda>(c, i, b). Ack c i b) acks)
              @ [Ack (get_frame_msg_class msg) (get_frame_msg_id msg) True, Run]) (Returned True, t'))
    \<and> ((\<forall>(c, i, b) \<in> set naks. \<not> b) \<longrightarrow>
       (\<exists>t'. send_run port_ok msg (At_entry, t)
            ([Run, Run, Run, Run] @ map (\<lambda>(c, i, b). Ack c i b) naks) (Waiting, t')
          \<and> (\<forall>s. \<not> send_step port_ok msg (Waiting, t') Run s)
          \<and> send_step port_ok msg (Waiting, t') Timeout
              (Returned False, t'\<lparr>tr_last_class := 0xFF, tr_last_id := 0xFF\<rparr>)))"
proof (intro conjI impI)
  note waiting = send_runs [OF send_to_waiting [OF assms] send_run_acks]
  show "\<exists>t'. send_run port_ok msg (At_entry, t)
            (([Run, Run, Run, Run] @ map (\<lambda>(c, i, b). Ack c i b) acks)
              @ [Ack (get_frame_msg_class msg) (get_frame_msg_id msg) True, Run]) (Returned True, t')"
    by (rule exI, rule send_runs [OF waiting acked_run]) (simp_all add: foldl_handle_ack)
  assume naks: "\<forall>(c, i, b) \<in> set naks. \<not> b"
  define t1 where "t1 = t\<lparr>tr_ack_toggle := False, tr_last_class := get_frame_msg_class msg,
    tr_last_id := get_frame_msg_id msg\<rparr>"
  have "\<not> tr_ack_toggle t1" by (simp add: t1_def)
  then have "(\<forall>s. \<not> send_step port_ok msg (Waiting, t1) Run s)
      \<and> send_step port_ok msg (Waiting, t1) Timeout
          (Returned False, t1\<lparr>tr_last_class := 0xFF, tr_last_id := 0xFF\<rparr>)"
    by (auto elim: send_step.cases intro: send_step.timed_out)
  moreover have "send_run port_ok msg (At_entry, t)
      ([Run, Run, Run, Run] @ map (\<lambda>(c, i, b). Ack c i b) naks) (Waiting, t1)"
    using waiting [of naks] by (simp only: foldl_handle_nak [OF naks] t1_def)
  ultimately show "\<exists>t'. send_run port_ok msg (At_entry, t)
            ([Run, Run, Run, Run] @ map (\<lambda>(c, i, b). Ack c i b) naks) (Waiting, t')
          \<and> (\<forall>s. \<not> send_step port_ok msg (Waiting, t') Run s)
          \<and> send_step port_ok msg (Waiting, t') Timeout
              (Returned False, t'\<lparr>tr_last_class := 0xFF, tr_last_id := 0xFF\<rparr>)"
    by blast
qed

theorem send_sync_returns_witness:
  "\<exists>t'. send_run port_ok rate_frame (At_entry, transport_new True)
     ([Run, Run, Run, Run, Ack 6 0x8A False] @ [Ack 6 0x8A True, Run]) (Returned True, t')"
proof -
  have port: "tr_port (transport_new True)" by (simp add: transport_new_def)
  from send_sync_returns [OF rate_frame_facts(1) port, of "[(6, 0x8A, False)]", THEN conjunct1]
  show ?thesis by (simp add: rate_frame_facts)
qed

text \<open>
  The acknowledgement of an earlier frame can be taken for that of the new one: if the
  previous call succeeded, its class and identity are still recorded when the next call resets the
  flag, and a second acknowledgement of the old frame that arrives before the new pair is in
  place makes the new call return true although nothing has acknowledged the new frame.
\<close>

theorem send_sync_stale_ack:
  assumes "verify_frame_checksum msg" and "tr_port t"
    and "(tr_last_class t, tr_last_id t) \<noteq> (get_frame_msg_class msg, get_frame_msg_id msg)"
  shows "\<exists>as t'. send_run port_ok msg (At_entry, t) as (Returned True, t')
    \<and> (\<forall>b. Ack (get_frame_msg_class msg) (get_frame_msg_id msg) b \<notin> set as)"
proof -
  let ?c = "tr_last_class t" and ?i = "tr_last_id t"
  let ?t1 = "t\<lparr>tr_ack_toggle := True\<rparr>"
  let ?t2 = "?t1\<lparr>tr_last_class := get_frame_msg_class msg\<rparr>\<lparr>tr_last_id := get_frame_msg_id msg\<rparr>"
  have ack: "handle_ack ?c ?i True (t\<lparr>tr_ack_toggle := False\<rparr>) = ?t1"
    by (simp add: handle_ack_def)
  have "send_run port_ok msg (At_entry, t) ((([] @ [Run]) @ [Ack ?c ?i True]) @ [Run])
      (Class_recorded, ?t1\<lparr>tr_last_class := get_frame_msg_class msg\<rparr>)"
  proof -
    have "send_step port_ok msg (Toggle_reset, t\<lparr>tr_ack_toggle := False\<rparr>) (Ack ?c ?i True)
        (Toggle_reset, ?t1)"
      using send_step.ack [of port_ok msg Toggle_reset "t\<lparr>tr_ack_toggle := False\<rparr>" ?c ?i True]
      unfolding ack .
    then show ?thesis
      by (intro send_run.step [OF send_run.step [OF send_run.step [OF send_run.start
          send_step.reset [OF assms(1)]]] send_step.record_class])
  qed
  then have "send_run port_ok msg (At_entry, t)
      ((((([] @ [Run]) @ [Ack ?c ?i True]) @ [Run]) @ [Run]) @ [Run]) (Waiting, ?t2)"
    using assms(2)
    by (intro send_run.step [OF send_run.step [OF _ send_step.record_id] send_step.sent])
      (simp_all add: send_async_def port_ok_def)
  then have "send_run port_ok msg (At_entry, t)
      (((((([] @ [Run]) @ [Ack ?c ?i True]) @ [Run]) @ [Run]) @ [Run]) @ [Run]) (Returned True, ?t2)"
    by (rule send_run.step [OF _ send_step.acked]) simp
  then show ?thesis using assms(3) by (intro exI conjI) auto
qed

theorem send_sync_stale_ack_witness:
  "\<exists>as t'. send_run port_ok rate_frame
       (At_entry, \<lparr>tr_port = True, tr_ack_toggle = True, tr_last_class = 6, tr_last_id = 0x8B\<rparr>) as
       (Returned True, t')
    \<and> Ack 6 0x8A True \<notin> set as"
  using send_sync_stale_ack [OF rate_frame_facts(1),
      of "\<lparr>tr_port = True, tr_ack_toggle = True, tr_last_class = 6, tr_last_id = 0x8B\<rparr>"]
  by (auto simp: rate_frame_facts)

end
