(* ===== verification/Nmea_Sentence.thy ===== *)
theory Nmea_Sentence
  imports Gnss_Prelude
begin

text \<open>
  NMEA sentences as strings: the checksum and its two hexadecimal digits
  (\<open>internal/checksum.h\<close>, \<open>generator/nmea_checksum_impl.h\<close>, \<open>generator/nmea_formatter.cpp\<close>), the
  tokenised sentence (\<open>sentences/nmea_sentence.h\<close>), its tokenizer
  (\<open>internal/sentence_tokenizer.h\<close>) and the assembly of a sentence from its type and fields
  (\<open>generator/builders/sentence_builder_base.h\<close>). A C++ \<open>char\<close> is a HOL \<open>char\<close>; \<open>byte_of\<close> and
  \<open>char_of_byte\<close> are the casts to and from \<open>uint8_t\<close>.
\<close>

section \<open>Characters and bytes\<close>

definition byte_of :: "char \<Rightarrow> u8" where
  "byte_of c = of_char c"

definition char_of_byte :: "u8 \<Rightarrow> char" where
  "char_of_byte b = char_of (unat b)"

lemma byte_of_nat: "byte_of c = of_nat (of_char c)"
  by (simp add: byte_of_def of_nat_of_char)

lemma of_char_less [simp]: "(of_char c :: nat) < 256"
  by (metis mod_less_divisor of_char_mod_256 zero_less_numeral)

lemma unat_byte_of [simp]: "unat (byte_of c) = of_char c"
  by (simp add: byte_of_nat unat_of_nat)

lemma char_of_byte_of [simp]: "char_of_byte (byte_of c) = c"
  by (simp add: char_of_byte_def)

lemma byte_of_char_of_byte [simp]: "byte_of (char_of_byte b) = b"
proof -
  have "unat b < 256" by simp
  then show ?thesis
    by (simp add: word_unat_eq_iff char_of_byte_def del: unat_u8_less)
qed

lemma byte_of_eq [simp]: "byte_of c = byte_of d \<longleftrightarrow> c = d"
  by (metis char_of_byte_of)

lemma map_char_of_byte_of [simp]: "map char_of_byte (map byte_of s) = s"
  by (simp add: map_idI)

section \<open>Checksum\<close>

definition nmea_compute_checksum :: "string \<Rightarrow> u8" where
  "nmea_compute_checksum data = foldl (\<lambda>cs c. cs XOR byte_of c) 0 data"

lemma checksum_from:
  "foldl (\<lambda>cs c. cs XOR byte_of c) a s = a XOR nmea_compute_checksum s"
  by (induction s rule: rev_induct) (simp_all add: nmea_compute_checksum_def ac_simps)

lemma nmea_compute_checksum_simps:
  "nmea_compute_checksum [] = 0"
  "nmea_compute_checksum (s @ t) = nmea_compute_checksum s XOR nmea_compute_checksum t"
  "nmea_compute_checksum (c # s) = byte_of c XOR nmea_compute_checksum s"
proof -
  show "nmea_compute_checksum [] = 0" by (simp add: nmea_compute_checksum_def)
  show "nmea_compute_checksum (s @ t) = nmea_compute_checksum s XOR nmea_compute_checksum t"
    using checksum_from [of "nmea_compute_checksum s" t]
    by (simp add: nmea_compute_checksum_def [of "s @ t"] nmea_compute_checksum_def [of s])
  show "nmea_compute_checksum (c # s) = byte_of c XOR nmea_compute_checksum s"
    using checksum_from [of "byte_of c" s] by (simp add: nmea_compute_checksum_def [of "c # s"])
qed

lemma checksum_Nil [simp]: "nmea_compute_checksum [] = 0"
  by (rule nmea_compute_checksum_simps)

lemma xor_left_inject: "a XOR b = a XOR c \<longleftrightarrow> b = (c :: u8)"
proof
  assume "a XOR b = a XOR c"
  then have "a XOR (a XOR b) = a XOR (a XOR c)" by simp
  then show "b = c" by (simp flip: xor.assoc)
qed simp

text \<open>Replacing one character always changes the checksum.\<close>

lemma checksum_one_char:
  "d \<noteq> c \<Longrightarrow> nmea_compute_checksum (xs @ d # ys) \<noteq> nmea_compute_checksum (xs @ c # ys)"
  by (simp add: nmea_compute_checksum_simps xor_left_inject xor.commute [of _ "nmea_compute_checksum ys"])

section \<open>Hexadecimal digits\<close>

text \<open>The lambda \<open>hex_val\<close> of \<open>parse_hex_byte\<close>; characters compare by their codes.\<close>

definition hex_val :: "char \<Rightarrow> u8 option" where
  "hex_val c =
     (let b = byte_of c in
      if byte_of CHR ''0'' \<le> b \<and> b \<le> byte_of CHR ''9'' then Some (b - byte_of CHR ''0'')
      else if byte_of CHR ''A'' \<le> b \<and> b \<le> byte_of CHR ''F'' then Some (b - byte_of CHR ''A'' + 10)
      else if byte_of CHR ''a'' \<le> b \<and> b \<le> byte_of CHR ''f'' then Some (b - byte_of CHR ''a'' + 10)
      else None)"

definition parse_hex_byte :: "char \<Rightarrow> char \<Rightarrow> u8 option" where
  "parse_hex_byte hi lo =
     (case hex_val hi of None \<Rightarrow> None
      | Some h \<Rightarrow> (case hex_val lo of None \<Rightarrow> None
         | Some l \<Rightarrow> Some (push_bit 4 h OR l)))"

text \<open>\<open>snprintf\<close> with the format \<open>%02X\<close>: two upper-case digits.\<close>

definition hex_digit :: "u8 \<Rightarrow> char" where
  "hex_digit d = ''0123456789ABCDEF'' ! unat d"

definition checksum_to_hex :: "u8 \<Rightarrow> string" where
  "checksum_to_hex cs = [hex_digit (drop_bit 4 cs), hex_digit (cs AND 0x0F)]"

lemma hex_val_digits: "\<forall>n \<in> set [0..<16]. hex_val (''0123456789ABCDEF'' ! n) = Some (of_nat n)"
  by (simp add: upt_rec hex_val_def byte_of_def Let_def word_le_nat_alt)

lemma hex_val_digit: "unat d < 16 \<Longrightarrow> hex_val (hex_digit d) = Some d"
  using hex_val_digits by (simp add: hex_digit_def)

lemma parse_hex_checksum:
  "parse_hex_byte (hex_digit (drop_bit 4 cs)) (hex_digit (cs AND 0x0F)) = Some cs"
proof -
  have m: "cs AND 0x0F = take_bit 4 cs" by (simp add: take_bit_eq_mask mask_eq_exp_minus_1)
  have "unat (take_bit 4 cs) < 16"
    using take_bit_nat_less_exp [of 4 "unat cs"] by (simp add: unsigned_take_bit_eq)
  moreover have "unat (drop_bit 4 cs) < 16"
  proof -
    have "unat cs < 256" by simp
    then have "unat cs div 16 < 16" by (simp del: unat_u8_less)
    then show ?thesis by (simp only: drop_bit_eq_div unat_div) simp
  qed
  moreover have "push_bit 4 (drop_bit 4 cs) OR take_bit 4 cs = cs"
    by (rule bit_word_eqI) (auto simp: bit_simps)
  ultimately show ?thesis by (simp add: parse_hex_byte_def hex_val_digit m)
qed

section \<open>Sentences\<close>

record nmea_sentence =
  sen_talker :: string
  sen_type :: string
  sen_fields :: "string list"
  sen_checksum :: u8
  sen_checksum_present :: bool
  sen_checksum_valid :: bool

definition nmea_sentence_new :: nmea_sentence where
  "nmea_sentence_new = \<lparr>sen_talker = [], sen_type = [], sen_fields = [], sen_checksum = 0,
     sen_checksum_present = False, sen_checksum_valid = False\<rparr>"

definition sen_field :: "nmea_sentence \<Rightarrow> nat \<Rightarrow> string" where
  "sen_field s idx = (if idx < length (sen_fields s) then sen_fields s ! idx else [])"

definition sen_has_field :: "nmea_sentence \<Rightarrow> nat \<Rightarrow> bool" where
  "sen_has_field s idx \<longleftrightarrow> idx < length (sen_fields s) \<and> sen_fields s ! idx \<noteq> []"

definition sen_field_count :: "nmea_sentence \<Rightarrow> nat" where
  "sen_field_count s = length (sen_fields s)"

section \<open>Tokenizer\<close>

text \<open>\<open>std::string::find(c, start)\<close>, \<open>None\<close> for \<open>npos\<close>, and \<open>substr\<close>.\<close>

definition str_find :: "string \<Rightarrow> char \<Rightarrow> nat \<Rightarrow> nat option" where
  "str_find s c start =
     (let n = length (takeWhile (\<lambda>x. x \<noteq> c) (drop start s))
      in if start + n < length s then Some (start + n) else None)"

definition substr :: "string \<Rightarrow> nat \<Rightarrow> nat \<Rightarrow> string" where
  "substr s start len = take len (drop start s)"

lemma str_find_ge: "str_find s c start = Some i \<Longrightarrow> start \<le> i"
  by (auto simp: str_find_def Let_def split: if_splits)

text \<open>The loop that splits the fields; \<open>start\<close> grows past the end of the string.\<close>

function tokenize_fields :: "string \<Rightarrow> nat \<Rightarrow> string list \<Rightarrow> string list" where
  "tokenize_fields s start acc =
     (if start \<le> length s
      then let e = (case str_find s CHR '','' start of None \<Rightarrow> length s | Some i \<Rightarrow> i)
           in tokenize_fields s (e + 1) (acc @ [substr s start (e - start)])
      else acc)"
  by pat_completeness auto

termination
  by (relation "measure (\<lambda>(s, start, acc). length s + 1 - start)")
    (auto split: option.splits dest: str_find_ge)

declare tokenize_fields.simps [simp del]

definition split_id :: "string \<Rightarrow> string \<times> string" where
  "split_id ident =
     (if ident \<noteq> [] \<and> ident ! 0 = CHR ''P'' then (''P'', drop 1 ident)
      else if length ident \<ge> 5 then (take 2 ident, drop 2 ident)
      else if length ident \<ge> 3 then ([], ident)
      else ([], ident))"

definition tokenize :: "string \<Rightarrow> nmea_sentence" where
  "tokenize buf =
     (if buf = [] then nmea_sentence_new
      else let (ident, remaining) =
                 (case str_find buf CHR '','' 0 of
                    None \<Rightarrow> (buf, [])
                  | Some comma \<Rightarrow> (take comma buf, drop (comma + 1) buf));
               (talker, type) = split_id ident
           in nmea_sentence_new\<lparr>sen_talker := talker, sen_type := type,
                sen_fields := tokenize_fields remaining 0 []\<rparr>)"

text \<open>The fields are the split at commas, the inverse of joining with commas.\<close>

fun join_fields :: "string list \<Rightarrow> string" where
  "join_fields [] = []"
| "join_fields [f] = f"
| "join_fields (f # fs) = f @ CHR '','' # join_fields fs"

lemma str_find_skip:
  assumes "CHR '','' \<notin> set f"
  shows "str_find (pre @ f @ CHR '','' # post) CHR '','' (length pre) = Some (length pre + length f)"
    and "str_find (pre @ f) CHR '','' (length pre) = None"
proof -
  have "length (takeWhile (\<lambda>x. x \<noteq> CHR '','') (f @ CHR '','' # post)) = length f"
    "length (takeWhile (\<lambda>x. x \<noteq> CHR '','') f) = length f"
    using assms by (induction f) auto
  then show "str_find (pre @ f @ CHR '','' # post) CHR '','' (length pre) = Some (length pre + length f)"
    "str_find (pre @ f) CHR '','' (length pre) = None"
    by (simp_all add: str_find_def)
qed

lemma tokenize_fields_join:
  assumes "fs \<noteq> []" and "\<forall>f \<in> set fs. CHR '','' \<notin> set f"
  shows "tokenize_fields (pre @ join_fields fs) (length pre) acc = acc @ fs"
  using assms
proof (induction fs arbitrary: pre acc rule: join_fields.induct)
  case (2 f)
  then show ?case
    by (subst tokenize_fields.simps) (simp add: str_find_skip(2) substr_def tokenize_fields.simps)
next
  case (3 f g fs)
  then have "tokenize_fields ((pre @ f @ '','') @ join_fields (g # fs)) (length (pre @ f @ '',''))
      (acc @ [f]) = (acc @ [f]) @ g # fs"
    by (intro "3.IH") auto
  moreover have "CHR '','' \<notin> set f" using "3.prems" by simp
  ultimately show ?case
    by (subst tokenize_fields.simps) (simp add: str_find_skip(1) substr_def)
qed simp

lemma tokenize_join:
  assumes "ident \<noteq> []" and "CHR '','' \<notin> set ident" and "fs \<noteq> []"
    and "\<forall>f \<in> set fs. CHR '','' \<notin> set f"
  shows "tokenize (ident @ CHR '','' # join_fields fs) =
    nmea_sentence_new\<lparr>sen_talker := fst (split_id ident), sen_type := snd (split_id ident),
      sen_fields := fs\<rparr>"
  using str_find_skip(1) [OF assms(2), of "[]" "join_fields fs"]
    tokenize_fields_join [OF assms(3,4), of "[]" "[]"] assms(1)
  by (simp add: tokenize_def case_prod_beta)

section \<open>Assembly\<close>

text \<open>\<open>assemble\<close> of the builder base class, over the formatter's \<open>checksum_to_hex\<close>.\<close>

definition assemble :: "string \<Rightarrow> string \<Rightarrow> string \<Rightarrow> string" where
  "assemble talker type body_fields =
     (let content = talker @ type @ '','' @ body_fields;
          raw_cs = nmea_compute_checksum content
      in ''$'' @ content @ ''*'' @ checksum_to_hex raw_cs @ [CHR 0x0D, CHR 0x0A])"

end
