(* ===== verification/Nmea_Fields.thy ===== *)
theory Nmea_Fields
  imports Nmea_Sentence
begin

text \<open>
  The integer fields of a sentence: reading them (\<open>internal/field_parser.h\<close>, over the C library's
  \<open>strtol\<close> and \<open>strtoul\<close> in base 10 with a 64-bit \<open>long\<close>) and writing them
  (\<open>generator/nmea_formatter.cpp\<close>, over \<open>snprintf\<close>). What a parse function stores is an \<open>Some\<close>, a
  false result is \<open>None\<close>.
\<close>

section \<open>The C library's conversions\<close>

definition is_space :: "char \<Rightarrow> bool" where
  "is_space c \<longleftrightarrow> c \<in> {CHR '' '', CHR 0x09, CHR 0x0A, CHR 0x0B, CHR 0x0C, CHR 0x0D}"

definition digits :: string where "digits = ''0123456789''"

definition is_digit :: "char \<Rightarrow> bool" where
  "is_digit c \<longleftrightarrow> c \<in> set digits"

definition digit_value :: "char \<Rightarrow> nat" where
  "digit_value c = of_char c - of_char CHR ''0''"

definition digits_value :: "string \<Rightarrow> nat" where
  "digits_value ds = foldl (\<lambda>n c. 10 * n + digit_value c) 0 ds"

text \<open>The sign and the digits \<open>strtol\<close> converts, without the blanks before them.\<close>

definition strto_parts :: "string \<Rightarrow> bool \<times> string" where
  "strto_parts s =
     (let s = dropWhile is_space s in
      case s of
        c # s' \<Rightarrow> if c = CHR ''-'' then (True, takeWhile is_digit s')
                  else if c = CHR ''+'' then (False, takeWhile is_digit s')
                  else (False, takeWhile is_digit s)
      | [] \<Rightarrow> (False, []))"

text \<open>\<open>None\<close> when nothing is converted; a value out of range is replaced by the nearest limit.\<close>

definition strtol :: "string \<Rightarrow> int option" where
  "strtol s =
     (case strto_parts s of (neg, ds) \<Rightarrow>
        if ds = [] then None
        else let v = (if neg then - int (digits_value ds) else int (digits_value ds))
             in Some (max (- (2 ^ 63)) (min (2 ^ 63 - 1) v)))"

text \<open>\<open>strtoul\<close> negates in the unsigned type, unless the value is out of range.\<close>

definition strtoul :: "string \<Rightarrow> u64 option" where
  "strtoul s =
     (case strto_parts s of (neg, ds) \<Rightarrow>
        if ds = [] then None
        else if digits_value ds \<ge> 2 ^ 64 then Some (- 1)
        else if neg then Some (- of_nat (digits_value ds)) else Some (of_nat (digits_value ds)))"

section \<open>Field parsing\<close>

definition parse_int :: "string \<Rightarrow> i32 option" where
  "parse_int s = (if s = [] then None
     else case strtol s of None \<Rightarrow> None | Some v \<Rightarrow> Some (word_of_int v))"

definition parse_uint :: "string \<Rightarrow> u32 option" where
  "parse_uint s = (if s = [] then None
     else case strtoul s of None \<Rightarrow> None | Some v \<Rightarrow> Some (ucast v))"

definition parse_utc_date :: "string \<Rightarrow> u32 option" where
  "parse_utc_date s = (if s = [] then None
     else case parse_uint s of None \<Rightarrow> None | Some v \<Rightarrow> Some v)"

definition parse_char :: "string \<Rightarrow> char option" where
  "parse_char s = (if s = [] then None else Some (s ! 0))"

section \<open>Field formatting\<close>

fun nat_digits :: "nat \<Rightarrow> string" where
  "nat_digits n = (if n < 10 then [digits ! n] else nat_digits (n div 10) @ [digits ! (n mod 10)])"

declare nat_digits.simps [simp del]

definition sprint_int :: "nat \<Rightarrow> int \<Rightarrow> string" where
  "sprint_int width v =
     (let sign = (if v < 0 then ''-'' else '''');
          ds = nat_digits (nat \<bar>v\<bar>)
      in sign @ replicate (width - (length sign + length ds)) CHR ''0'' @ ds)"

text \<open>A buffer of 32 characters keeps 31.\<close>

definition format_int :: "i32 \<Rightarrow> int \<Rightarrow> string" where
  "format_int value min_width =
     (if min_width \<le> 0 then take 31 (sprint_int 0 (sint value))
      else take 31 (sprint_int (nat min_width) (sint value)))"

text \<open>Unsigned fields: \<open>%0wu\<close>.\<close>

definition sprint_uint :: "nat \<Rightarrow> nat \<Rightarrow> string" where
  "sprint_uint width v = replicate (width - length (nat_digits v)) CHR ''0'' @ nat_digits v"

definition format_utc_time :: "int \<Rightarrow> u8 \<Rightarrow> u8 \<Rightarrow> u8 \<Rightarrow> u32 \<Rightarrow> string" where
  "format_utc_time time_decimals hour minute second ms =
     (if time_decimals \<ge> 2
      then let cs = (ms div 10) mod 100
           in take 15 (sprint_uint 2 (unat hour) @ sprint_uint 2 (unat minute)
                @ sprint_uint 2 (unat second) @ ''.'' @ sprint_uint 2 (unat cs))
      else let ds = (ms div 100) mod 10
           in take 15 (sprint_uint 2 (unat hour) @ sprint_uint 2 (unat minute)
                @ sprint_uint 2 (unat second) @ ''.'' @ sprint_uint 1 (unat ds)))"

definition format_date :: "u8 \<Rightarrow> u8 \<Rightarrow> u16 \<Rightarrow> string" where
  "format_date day month year =
     take 8 (sprint_uint 2 (unat day mod 100) @ sprint_uint 2 (unat month mod 100)
       @ sprint_uint 2 (unat year mod 100))"

section \<open>Reading back what was written\<close>

lemma digit_nth:
  "\<forall>n \<in> set [0..<10]. is_digit (digits ! n) \<and> digit_value (digits ! n) = n \<and> \<not> is_space (digits ! n)
     \<and> digits ! n \<noteq> CHR ''-'' \<and> digits ! n \<noteq> CHR ''+''"
  by (simp add: upt_rec is_digit_def digits_def digit_value_def is_space_def)

lemma digit_nthD:
  assumes "n < 10"
  shows "is_digit (digits ! n)" "digit_value (digits ! n) = n"
  using digit_nth assms by auto

lemma digits_value_snoc [simp]: "digits_value (ds @ [c]) = 10 * digits_value ds + digit_value c"
  by (simp add: digits_value_def)

lemma digits_value_zeros [simp]: "digits_value (replicate k CHR ''0'' @ ds) = digits_value ds"
  by (induction k) (simp_all add: digits_value_def digit_value_def)

lemma nat_digits_ok [simp]:
  "digits_value (nat_digits n) = n" "list_all is_digit (nat_digits n)" "nat_digits n \<noteq> []"
proof (induction n rule: nat_digits.induct)
  case (1 n)
  have less: "n mod 10 < 10" by simp
  { case 1 show ?case using "1.IH"(1) digit_nthD(2) [OF less]
      by (subst nat_digits.simps) (auto simp: digit_nthD digits_value_def [of "[_]"]) }
  { case 2 show ?case using "1.IH"(2) digit_nthD(1) [OF less]
      by (subst nat_digits.simps) (auto simp: digit_nthD) }
  { case 3 show ?case by (subst nat_digits.simps) simp }
qed

lemma nat_digits_length: "n < 10 ^ k \<Longrightarrow> 0 < k \<Longrightarrow> length (nat_digits n) \<le> k"
proof (induction n arbitrary: k rule: nat_digits.induct)
  case (1 n)
  show ?case
  proof (cases "n < 10")
    case True
    with "1.prems" show ?thesis by (subst nat_digits.simps) simp
  next
    case False
    then obtain j where k: "k = Suc j" "0 < j" using "1.prems" by (cases k; cases "k = 1") auto
    with "1.prems" have "n div 10 < 10 ^ j" by (simp add: less_mult_imp_div_less mult.commute)
    from "1.IH" [OF False this k(2)] k False show ?thesis by (subst nat_digits.simps) simp
  qed
qed

text \<open>Digits, after an optional minus, are read whole.\<close>

lemma is_digit_cases: "is_digit c \<Longrightarrow> \<not> is_space c \<and> c \<noteq> CHR ''-'' \<and> c \<noteq> CHR ''+''"
  unfolding is_digit_def in_set_conv_nth using digit_nth by (auto simp: digits_def)

lemma takeWhile_digits: "list_all P ds \<Longrightarrow> takeWhile P ds = ds"
  by (induction ds) simp_all

lemma strto_parts_digits:
  assumes "list_all is_digit ds" and "ds \<noteq> []"
  shows "strto_parts ds = (False, ds)" "strto_parts (CHR ''-'' # ds) = (True, ds)"
proof -
  obtain c ds' where ds: "ds = c # ds'" "is_digit c" using assms by (cases ds) auto
  show "strto_parts ds = (False, ds)"
    using assms is_digit_cases [OF ds(2)] by (simp add: strto_parts_def ds takeWhile_digits)
  show "strto_parts (CHR ''-'' # ds) = (True, ds)"
    using assms by (simp add: strto_parts_def takeWhile_digits is_space_def)
qed

lemma strto_parts_sprint:
  "strto_parts (sprint_int width v) =
     (v < 0, replicate (width - (length (if v < 0 then ''-'' else '''') + length (nat_digits (nat \<bar>v\<bar>)))) CHR ''0''
        @ nat_digits (nat \<bar>v\<bar>))"
proof -
  have zeros: "list_all is_digit (replicate k CHR ''0'' @ nat_digits n)" for k n
    using digit_nthD(1) [of 0] nat_digits_ok(2) [of n] by (auto simp: list_all_iff digits_def)
  show ?thesis
    by (simp add: sprint_int_def Let_def strto_parts_digits [OF zeros])
qed

lemma length_sprint_int:
  "length (sprint_int width v) =
     max width (length (if v < 0 then ''-'' else '''') + length (nat_digits (nat \<bar>v\<bar>)))"
  by (simp add: sprint_int_def Let_def)

lemma sprint_int_not_Nil [simp]: "sprint_int width v \<noteq> []"
  by (simp add: sprint_int_def Let_def)

lemma strtol_sprint:
  "- (2 ^ 63) \<le> v \<Longrightarrow> v < 2 ^ 63 \<Longrightarrow> strtol (sprint_int width v) = Some v"
  by (simp add: strtol_def strto_parts_sprint Let_def)

lemma sint_i32_bounds: "- (2 ^ 31) \<le> sint (v :: i32)" "sint (v :: i32) < 2 ^ 31"
  using sint_greater_eq [of v] sint_less [of v] by simp_all

lemma length_format_int_arg: "length (sprint_int width (sint (v :: i32))) \<le> max width 11"
proof -
  have "nat \<bar>sint v\<bar> \<le> 2 ^ 31" using sint_i32_bounds [of v] by (auto simp: nat_le_iff)
  then have "nat \<bar>sint v\<bar> < 10 ^ 10" by simp
  from nat_digits_length [OF this] show ?thesis by (auto simp: length_sprint_int)
qed

lemma format_int_sprint:
  "w \<le> 31 \<Longrightarrow> format_int v w = sprint_int (nat w) (sint v)"
  using length_format_int_arg [of 0 v] length_format_int_arg [of "nat w" v]
  by (simp add: format_int_def)

lemma parse_format_int [simp]: "w \<le> 31 \<Longrightarrow> parse_int (format_int v w) = Some v"
  using sint_i32_bounds [of v] by (simp add: parse_int_def format_int_sprint strtol_sprint)

lemma format_int_not_Nil [simp]: "w \<le> 31 \<Longrightarrow> format_int v w \<noteq> []"
  by (simp add: format_int_sprint)

lemma set_sprint_int: "c \<in> set (sprint_int width v) \<Longrightarrow> is_digit c \<or> c = CHR ''-''"
  using digit_nthD(1) [of 0] nat_digits_ok(2) [of "nat \<bar>v\<bar>"]
  by (auto simp: sprint_int_def Let_def list_all_iff digits_def split: if_splits)

lemma length_format_int:
  assumes "w \<le> 31" and "\<bar>sint v\<bar> < 10 ^ k" and "0 < k"
  shows "length (format_int v w) \<le> max (nat w) (Suc k)"
    and "0 \<le> sint v \<Longrightarrow> length (format_int v w) \<le> max (nat w) k"
proof -
  have "nat \<bar>sint v\<bar> < 10 ^ k" using assms(2) by (simp add: nat_less_iff)
  from nat_digits_length [OF this assms(3)]
  show "length (format_int v w) \<le> max (nat w) (Suc k)"
    "0 \<le> sint v \<Longrightarrow> length (format_int v w) \<le> max (nat w) k"
    by (auto simp: format_int_sprint [OF assms(1)] length_sprint_int)
qed

end
