(* ===== verification/Nmea_Parser.thy ===== *)
theory Nmea_Parser
  imports Nmea_Sentence "HOL-Library.Sublist"
begin

text \<open>
  The NMEA framing state machine (\<open>nmea_parser.cpp\<close>, \<open>internal/parser_state.h\<close>), the registry of
  sentence parsers and the dispatcher. A callback fired is an event, in order; a sentence parser
  is its type and its \<open>parse\<close>, which either fails or fires its own callback with a message.
  \<open>nmea_scan\<close> is the reference reading of a stream, and the machine is proved to refine it.
\<close>

section \<open>Errors\<close>

datatype nmea_error_code =
    Nmea_none
  | Nmea_checksum_mismatch
  | Nmea_sentence_too_long
  | Nmea_unexpected_start_in_sentence
  | Nmea_malformed_fields
  | Nmea_unknown_sentence_type

record nmea_error_info =
  nerr_code :: nmea_error_code
  nerr_talker :: string
  nerr_type :: string
  nerr_description :: string

definition nmea_error_message :: "nmea_error_code \<Rightarrow> string" where
  "nmea_error_message code =
     (case code of
        Nmea_none \<Rightarrow> ''none''
      | Nmea_checksum_mismatch \<Rightarrow> ''checksum_mismatch''
      | Nmea_sentence_too_long \<Rightarrow> ''sentence_too_long''
      | Nmea_unexpected_start_in_sentence \<Rightarrow> ''unexpected_start_in_sentence''
      | Nmea_malformed_fields \<Rightarrow> ''malformed_fields''
      | Nmea_unknown_sentence_type \<Rightarrow> ''unknown_sentence_type'')"

section \<open>Registry\<close>

record 'm sentence_parser =
  sp_type :: string
  sp_parse :: "nmea_sentence \<Rightarrow> 'm option"

type_synonym 'm nmea_sentence_registry = "string \<Rightarrow> 'm sentence_parser list option"

definition nmea_register_parser ::
    "'m sentence_parser \<Rightarrow> 'm nmea_sentence_registry \<Rightarrow> 'm nmea_sentence_registry" where
  "nmea_register_parser sp reg =
     (let type = sp_type sp
      in reg(type \<mapsto> (case reg type of None \<Rightarrow> [] | Some ps \<Rightarrow> ps) @ [sp]))"

definition nmea_registry_find :: "'m nmea_sentence_registry \<Rightarrow> string \<Rightarrow> 'm sentence_parser list" where
  "nmea_registry_find reg type = (case reg type of None \<Rightarrow> [] | Some ps \<Rightarrow> ps)"

definition nmea_has_parser :: "'m nmea_sentence_registry \<Rightarrow> string \<Rightarrow> bool" where
  "nmea_has_parser reg type = (case reg type of None \<Rightarrow> False | Some ps \<Rightarrow> ps \<noteq> [])"

lemma nmea_registry_find_register:
  "nmea_registry_find (nmea_register_parser sp reg) type =
     (if type = sp_type sp then nmea_registry_find reg type @ [sp] else nmea_registry_find reg type)"
  by (simp add: nmea_registry_find_def nmea_register_parser_def Let_def split: option.splits)

section \<open>Parser state\<close>

datatype nmea_parse_state =
    Wait_dollar
  | Accumulate_sentence
  | Wait_checksum_hi
  | Wait_checksum_lo
  | Wait_lf

definition NMEA_BUFFER_LEN :: nat where "NMEA_BUFFER_LEN = 256"

text \<open>
  \<open>nc_buf\<close> is \<open>buf[0..buf_len)\<close>. The terminating zeros the machine writes at \<open>buf[buf_len]\<close> are not
  read by anything; that they stay within the \<open>NMEA_BUFFER_LEN + 1\<close> characters of the array is
  the bound proved below.
\<close>

record nmea_parse_context =
  nc_state :: nmea_parse_state
  nc_buf :: string
  nc_running_checksum :: u8
  nc_cs_hi :: char
  nc_received_checksum :: u8
  nc_checksum_present :: bool

definition nmea_context_reset :: nmea_parse_context where
  "nmea_context_reset = \<lparr>nc_state = Wait_dollar, nc_buf = [], nc_running_checksum = 0,
     nc_cs_hi = CHR 0x00, nc_received_checksum = 0, nc_checksum_present = False\<rparr>"

text \<open>The parser with its dispatcher: the flags say whether a callback is set.\<close>

record 'm nmea_parser =
  np_registry :: "'m nmea_sentence_registry"
  np_raw_cb :: bool
  np_error_cb :: bool
  np_report_unknown :: bool
  np_ctx :: nmea_parse_context
  np_decoded :: u64
  np_discarded :: u64

definition nmea_parser_new :: "'m nmea_sentence_registry \<Rightarrow> 'm nmea_parser" where
  "nmea_parser_new registry = \<lparr>np_registry = registry, np_raw_cb = False, np_error_cb = False,
     np_report_unknown = False, np_ctx = nmea_context_reset, np_decoded = 0, np_discarded = 0\<rparr>"

definition nmea_set_raw_sentence_callback :: "'m nmea_parser \<Rightarrow> 'm nmea_parser" where
  "nmea_set_raw_sentence_callback p = p\<lparr>np_raw_cb := True\<rparr>"

definition nmea_set_error_callback :: "'m nmea_parser \<Rightarrow> 'm nmea_parser" where
  "nmea_set_error_callback p = p\<lparr>np_error_cb := True\<rparr>"

definition nmea_set_report_unknown :: "bool \<Rightarrow> 'm nmea_parser \<Rightarrow> 'm nmea_parser" where
  "nmea_set_report_unknown enable p = p\<lparr>np_report_unknown := enable\<rparr>"

definition nmea_parser_reset :: "'m nmea_parser \<Rightarrow> 'm nmea_parser" where
  "nmea_parser_reset p = p\<lparr>np_ctx := nmea_context_reset, np_decoded := 0, np_discarded := 0\<rparr>"

section \<open>Dispatcher\<close>

datatype 'm nmea_event =
    Raw_sentence nmea_sentence
  | Sentence_callback 'm
  | Nmea_error nmea_error_info

definition nmea_report_error :: "'m nmea_parser \<Rightarrow> nmea_error_info \<Rightarrow> 'm nmea_event list" where
  "nmea_report_error p info = (if np_error_cb p then [Nmea_error info] else [])"

definition malformed_info :: "nmea_sentence \<Rightarrow> nmea_error_info" where
  "malformed_info s = \<lparr>nerr_code = Nmea_malformed_fields, nerr_talker = sen_talker s,
     nerr_type = sen_type s,
     nerr_description = ''malformed fields in '' @ sen_talker s @ sen_type s\<rparr>"

definition unknown_info :: "nmea_sentence \<Rightarrow> nmea_error_info" where
  "unknown_info s = \<lparr>nerr_code = Nmea_unknown_sentence_type, nerr_talker = sen_talker s,
     nerr_type = sen_type s,
     nerr_description = ''no parser registered for sentence type: '' @ sen_type s\<rparr>"

definition nmea_dispatch :: "'m nmea_parser \<Rightarrow> nmea_sentence \<Rightarrow> 'm nmea_event list" where
  "nmea_dispatch p s =
     (if np_raw_cb p then [Raw_sentence s] else []) @
     (let parsers = nmea_registry_find (np_registry p) (sen_type s)
      in if parsers = []
         then (if np_report_unknown p \<and> np_error_cb p then [Nmea_error (unknown_info s)] else [])
         else concat (map (\<lambda>sp. case sp_parse sp s of
                Some m \<Rightarrow> [Sentence_callback m]
              | None \<Rightarrow> if np_error_cb p then [Nmea_error (malformed_info s)] else []) parsers))"

section \<open>State machine\<close>

definition discard_with_error ::
    "nmea_error_code \<Rightarrow> string \<Rightarrow> string \<Rightarrow> string \<Rightarrow> 'm nmea_parser \<Rightarrow> 'm nmea_parser \<times> 'm nmea_event list" where
  "discard_with_error code talker type desc p =
     (p\<lparr>np_discarded := np_discarded p + 1, np_ctx := nmea_context_reset\<rparr>,
      nmea_report_error p \<lparr>nerr_code = code, nerr_talker = talker, nerr_type = type,
        nerr_description = desc\<rparr>)"

definition on_sentence_complete :: "'m nmea_parser \<Rightarrow> 'm nmea_parser \<times> 'm nmea_event list" where
  "on_sentence_complete p =
     (let ctx = np_ctx p;
          sentence = (tokenize (nc_buf ctx))\<lparr>sen_checksum_present := nc_checksum_present ctx,
            sen_checksum := nc_received_checksum ctx\<rparr>;
          sentence = (if nc_checksum_present ctx
            then sentence\<lparr>sen_checksum_valid := nc_running_checksum ctx = nc_received_checksum ctx\<rparr>
            else sentence\<lparr>sen_checksum_valid := False\<rparr>)
      in if nc_checksum_present ctx \<and> \<not> sen_checksum_valid sentence
         then discard_with_error Nmea_checksum_mismatch (sen_talker sentence) (sen_type sentence)
                (''checksum mismatch in '' @ sen_talker sentence @ sen_type sentence) p
         else (p\<lparr>np_decoded := np_decoded p + 1, np_ctx := nmea_context_reset\<rparr>,
               nmea_dispatch p sentence))"

definition nmea_process_byte :: "'m nmea_parser \<Rightarrow> u8 \<Rightarrow> 'm nmea_parser \<times> 'm nmea_event list" where
  "nmea_process_byte p byte =
     (let c = char_of_byte byte; ctx = np_ctx p in
      case nc_state ctx of
        Wait_dollar \<Rightarrow>
          (if c = CHR ''$''
           then (p\<lparr>np_ctx := nmea_context_reset\<lparr>nc_state := Accumulate_sentence\<rparr>\<rparr>, [])
           else (p, []))
      | Accumulate_sentence \<Rightarrow>
          (if c = CHR ''$''
           then let (p', es) = discard_with_error Nmea_unexpected_start_in_sentence [] []
                      ''new '$' received before previous sentence terminated'' p
                in (p'\<lparr>np_ctx := (np_ctx p')\<lparr>nc_buf := [], nc_state := Accumulate_sentence\<rparr>\<rparr>, es)
           else if c = CHR ''*''
           then (p\<lparr>np_ctx := ctx\<lparr>nc_checksum_present := True, nc_state := Wait_checksum_hi\<rparr>\<rparr>, [])
           else if c = CHR 0x0D
           then (p\<lparr>np_ctx := ctx\<lparr>nc_checksum_present := False, nc_state := Wait_lf\<rparr>\<rparr>, [])
           else if c = CHR 0x0A
           then on_sentence_complete (p\<lparr>np_ctx := ctx\<lparr>nc_checksum_present := False\<rparr>\<rparr>)
           else if length (nc_buf ctx) \<ge> NMEA_BUFFER_LEN
           then discard_with_error Nmea_sentence_too_long [] [] ''sentence exceeded buffer size'' p
           else (p\<lparr>np_ctx := ctx\<lparr>nc_buf := nc_buf ctx @ [c],
                   nc_running_checksum := nc_running_checksum ctx XOR byte_of c\<rparr>\<rparr>, []))
      | Wait_checksum_hi \<Rightarrow>
          (p\<lparr>np_ctx := ctx\<lparr>nc_cs_hi := c, nc_state := Wait_checksum_lo\<rparr>\<rparr>, [])
      | Wait_checksum_lo \<Rightarrow>
          (case parse_hex_byte (nc_cs_hi ctx) c of
             None \<Rightarrow> discard_with_error Nmea_checksum_mismatch [] []
                       ''invalid non-hex checksum characters'' p
           | Some parsed \<Rightarrow>
               (p\<lparr>np_ctx := ctx\<lparr>nc_received_checksum := parsed, nc_state := Wait_lf\<rparr>\<rparr>, []))
      | Wait_lf \<Rightarrow>
          (if c = CHR 0x0D then (p, [])
           else if c = CHR 0x0A then on_sentence_complete p
           else if c = CHR ''$''
           then let (p', es) = discard_with_error Nmea_unexpected_start_in_sentence [] []
                      ''new '$' before LF'' p
                in (p'\<lparr>np_ctx := nmea_context_reset\<lparr>nc_state := Accumulate_sentence\<rparr>\<rparr>, es)
           else (p, [])))"

fun nmea_feed :: "'m nmea_parser \<Rightarrow> bytes \<Rightarrow> 'm nmea_parser \<times> 'm nmea_event list" where
  "nmea_feed p [] = (p, [])"
| "nmea_feed p (b # bs) =
     (let (p1, es1) = nmea_process_byte p b; (p2, es2) = nmea_feed p1 bs in (p2, es1 @ es2))"

interpretation nmea_machine: byte_machine nmea_process_byte nmea_feed
  by unfold_locales (simp_all add: case_prod_beta)

declare nmea_feed.simps [simp del]

section \<open>Reference reading of a stream\<close>

text \<open>
  What a stream of characters contains: complete sentences (content and received checksum, if
  one is present) and broken ones. The mode says where the reading is: outside a sentence, just
  after a \<open>$\<close>, or behind the content and checksum of a sentence, whose line end is awaited.
\<close>

datatype nmea_item =
    Sentence_item string "u8 option"
  | Broken_item nmea_error_code string

datatype scan_mode =
    Outside
  | Inside
  | Ending string "u8 option"

definition plain :: "char \<Rightarrow> bool" where
  "plain c \<longleftrightarrow> c \<noteq> CHR ''$'' \<and> c \<noteq> CHR ''*'' \<and> c \<noteq> CHR 0x0D \<and> c \<noteq> CHR 0x0A"

definition not_end :: "char \<Rightarrow> bool" where
  "not_end c \<longleftrightarrow> c \<noteq> CHR ''$'' \<and> c \<noteq> CHR 0x0A"

definition new_start :: nmea_item where
  "new_start = Broken_item Nmea_unexpected_start_in_sentence
     ''new '$' received before previous sentence terminated''"

definition new_start_tail :: nmea_item where
  "new_start_tail = Broken_item Nmea_unexpected_start_in_sentence ''new '$' before LF''"

definition too_long :: nmea_item where
  "too_long = Broken_item Nmea_sentence_too_long ''sentence exceeded buffer size''"

definition bad_hex :: nmea_item where
  "bad_hex = Broken_item Nmea_checksum_mismatch ''invalid non-hex checksum characters''"

lemma dropWhile_ConsD: "dropWhile P s = x # r \<Longrightarrow> length r < length s"
  by (metis length_Cons length_dropWhile_le less_eq_Suc_le)

lemma length_takeWhile_drop: "n < length (takeWhile P s) \<Longrightarrow> length s - Suc n < length s"
  using length_takeWhile_le [of P s] by linarith

function (sequential) nmea_scan :: "scan_mode \<Rightarrow> string \<Rightarrow> nmea_item list" where
  "nmea_scan Outside s =
     (case dropWhile (\<lambda>c. c \<noteq> CHR ''$'') s of [] \<Rightarrow> [] | c # r \<Rightarrow> nmea_scan Inside r)"
| "nmea_scan Inside s =
     (if NMEA_BUFFER_LEN < length (takeWhile plain s)
      then too_long # nmea_scan Outside (drop (Suc NMEA_BUFFER_LEN) s)
      else case dropWhile plain s of [] \<Rightarrow> []
        | c # r \<Rightarrow>
            if c = CHR ''$'' then new_start # nmea_scan Inside r
            else if c = CHR 0x0A then Sentence_item (takeWhile plain s) None # nmea_scan Outside r
            else if c = CHR 0x0D then nmea_scan (Ending (takeWhile plain s) None) r
            else if length r < 2 then []
            else (case parse_hex_byte (r ! 0) (r ! 1) of
                    None \<Rightarrow> bad_hex # nmea_scan Outside (drop 2 r)
                  | Some v \<Rightarrow> nmea_scan (Ending (takeWhile plain s) (Some v)) (drop 2 r)))"
| "nmea_scan (Ending body ck) s =
     (case dropWhile not_end s of [] \<Rightarrow> []
      | c # r \<Rightarrow> if c = CHR ''$'' then new_start_tail # nmea_scan Inside r
                else Sentence_item body ck # nmea_scan Outside r)"
  by pat_completeness auto

termination
  by (relation "measure (length \<circ> snd)")
    (auto dest: dropWhile_ConsD length_takeWhile_drop intro: le_less_trans)

declare nmea_scan.simps [simp del]

section \<open>The machine refines the reading\<close>

definition sentence_ok :: "string \<Rightarrow> u8 option \<Rightarrow> bool" where
  "sentence_ok body ck = (case ck of None \<Rightarrow> True | Some v \<Rightarrow> v = nmea_compute_checksum body)"

definition received_sentence :: "string \<Rightarrow> u8 option \<Rightarrow> nmea_sentence" where
  "received_sentence body ck = (tokenize body)\<lparr>sen_checksum_present := ck \<noteq> None,
     sen_checksum := (case ck of None \<Rightarrow> 0 | Some v \<Rightarrow> v), sen_checksum_valid := ck \<noteq> None\<rparr>"

definition mismatch_info :: "string \<Rightarrow> nmea_error_info" where
  "mismatch_info body = \<lparr>nerr_code = Nmea_checksum_mismatch, nerr_talker = sen_talker (tokenize body),
     nerr_type = sen_type (tokenize body),
     nerr_description = ''checksum mismatch in '' @ sen_talker (tokenize body) @ sen_type (tokenize body)\<rparr>"

definition nmea_emit :: "'m nmea_parser \<Rightarrow> nmea_item \<Rightarrow> 'm nmea_event list" where
  "nmea_emit p item =
     (case item of
        Sentence_item body ck \<Rightarrow>
          if sentence_ok body ck then nmea_dispatch p (received_sentence body ck)
          else nmea_report_error p (mismatch_info body)
      | Broken_item code desc \<Rightarrow>
          nmea_report_error p \<lparr>nerr_code = code, nerr_talker = [], nerr_type = [],
            nerr_description = desc\<rparr>)"

definition item_ok :: "nmea_item \<Rightarrow> bool" where
  "item_ok item = (case item of Sentence_item body ck \<Rightarrow> sentence_ok body ck | Broken_item c d \<Rightarrow> False)"

text \<open>The parser after an item: the counter of its outcome advanced, the context replaced.\<close>

definition counted :: "nmea_item \<Rightarrow> nmea_parse_context \<Rightarrow> 'm nmea_parser \<Rightarrow> 'm nmea_parser" where
  "counted item ctx p =
     (if item_ok item then p\<lparr>np_decoded := np_decoded p + 1, np_ctx := ctx\<rparr>
      else p\<lparr>np_discarded := np_discarded p + 1, np_ctx := ctx\<rparr>)"

lemma nmea_report_error_state [simp]:
  "nmea_report_error (p\<lparr>np_ctx := ctx\<rparr>) = nmea_report_error p"
  "nmea_report_error (p\<lparr>np_decoded := n\<rparr>) = nmea_report_error p"
  "nmea_report_error (p\<lparr>np_discarded := n\<rparr>) = nmea_report_error p"
  by (simp_all add: nmea_report_error_def fun_eq_iff)

lemma nmea_dispatch_state [simp]:
  "nmea_dispatch (p\<lparr>np_ctx := ctx\<rparr>) = nmea_dispatch p"
  "nmea_dispatch (p\<lparr>np_decoded := n\<rparr>) = nmea_dispatch p"
  "nmea_dispatch (p\<lparr>np_discarded := n\<rparr>) = nmea_dispatch p"
  by (simp_all add: nmea_dispatch_def fun_eq_iff)

lemma nmea_emit_counted [simp]:
  "nmea_emit (counted item ctx p) = nmea_emit p" "nmea_emit (p\<lparr>np_ctx := ctx\<rparr>) = nmea_emit p"
  by (simp_all add: nmea_emit_def counted_def fun_eq_iff split: nmea_item.split)

lemma counted_counters [simp]:
  "np_decoded (counted item ctx p) = np_decoded p + (if item_ok item then 1 else 0)"
  "np_discarded (counted item ctx p) = np_discarded p + (if item_ok item then 0 else 1)"
  "np_ctx (counted item ctx p) = ctx"
  by (simp_all add: counted_def)

definition ctx_at :: "scan_mode \<Rightarrow> nmea_parse_context \<Rightarrow> bool" where
  "ctx_at m ctx =
     (case m of
        Outside \<Rightarrow> ctx = nmea_context_reset
      | Inside \<Rightarrow> ctx = nmea_context_reset\<lparr>nc_state := Accumulate_sentence\<rparr>
      | Ending body ck \<Rightarrow> nc_state ctx = Wait_lf \<and> nc_buf ctx = body
          \<and> nc_running_checksum ctx = nmea_compute_checksum body
          \<and> nc_checksum_present ctx = (ck \<noteq> None)
          \<and> nc_received_checksum ctx = (case ck of None \<Rightarrow> 0 | Some v \<Rightarrow> v))"

definition refines :: "'m nmea_parser \<Rightarrow> scan_mode \<Rightarrow> string \<Rightarrow> bool" where
  "refines p m s \<longleftrightarrow>
     snd (nmea_feed p (map byte_of s)) = concat (map (nmea_emit p) (nmea_scan m s))
     \<and> np_decoded (fst (nmea_feed p (map byte_of s)))
         = np_decoded p + of_nat (length (filter item_ok (nmea_scan m s)))
     \<and> np_discarded (fst (nmea_feed p (map byte_of s)))
         = np_discarded p + of_nat (length (filter (\<lambda>i. \<not> item_ok i) (nmea_scan m s)))"

lemma refines_item:
  assumes "nmea_feed p (map byte_of pre) = (counted item ctx p, nmea_emit p item)"
    and "nmea_scan m (pre @ r) = item # nmea_scan m' r"
    and "refines (counted item ctx p) m' r"
  shows "refines p m (pre @ r)"
  using assms by (simp add: refines_def nmea_machine.feed_append)

lemma refines_skip:
  assumes "nmea_feed p (map byte_of pre) = (p\<lparr>np_ctx := ctx\<rparr>, [])"
    and "nmea_scan m (pre @ r) = nmea_scan m' r"
    and "refines (p\<lparr>np_ctx := ctx\<rparr>) m' r"
  shows "refines p m (pre @ r)"
  using assms by (simp add: refines_def nmea_machine.feed_append)

lemma refines_nothing:
  assumes "snd (nmea_feed p (map byte_of s)) = []" and "nmea_scan m s = []"
    and "fst (nmea_feed p (map byte_of s)) = p\<lparr>np_ctx := ctx\<rparr>"
  shows "refines p m s"
  using assms by (simp add: refines_def)

lemma feed_none [simp]: "nmea_feed p [] = (p, [])" by (simp add: nmea_machine.feed_Nil)

lemma feed_two:
  "nmea_feed p (b # bs) = (fst (nmea_feed (fst (nmea_process_byte p b)) bs),
     snd (nmea_process_byte p b) @ snd (nmea_feed (fst (nmea_process_byte p b)) bs))"
  by (rule nmea_machine.feed_Cons)

text \<open>The context with the content \<open>body\<close> read and nothing after it.\<close>

definition body_ctx :: "string \<Rightarrow> nmea_parse_context" where
  "body_ctx body = nmea_context_reset\<lparr>nc_state := Accumulate_sentence, nc_buf := body,
     nc_running_checksum := nmea_compute_checksum body\<rparr>"

lemma body_ctx_simps [simp]:
  "nc_state (body_ctx body) = Accumulate_sentence" "nc_buf (body_ctx body) = body"
  "nc_running_checksum (body_ctx body) = nmea_compute_checksum body"
  "nc_received_checksum (body_ctx body) = 0" "nc_checksum_present (body_ctx body) = False"
  "nmea_context_reset\<lparr>nc_state := Accumulate_sentence\<rparr> = body_ctx []"
  "(body_ctx body)\<lparr>nc_checksum_present := False\<rparr> = body_ctx body"
  "nc_state nmea_context_reset = Wait_dollar"
  by (simp_all add: body_ctx_def nmea_context_reset_def)

lemma nmea_feed_noise:
  assumes "np_ctx p = nmea_context_reset" and "CHR ''$'' \<notin> set s"
  shows "nmea_feed p (map byte_of s) = (p, [])"
proof (rule nmea_machine.feed_skip)
  fix b assume "b \<in> set (map byte_of s)"
  then obtain c where "b = byte_of c" "c \<noteq> CHR ''$''" using assms(2) by auto
  then show "nmea_process_byte p b = (p, [])"
    by (simp add: nmea_process_byte_def Let_def assms(1))
qed

lemma process_plain:
  assumes "np_ctx p = body_ctx body" and "plain c" and "length body < NMEA_BUFFER_LEN"
  shows "nmea_process_byte p (byte_of c) = (p\<lparr>np_ctx := body_ctx (body @ [c])\<rparr>, [])"
  using assms by (simp add: nmea_process_byte_def Let_def plain_def)
    (simp add: body_ctx_def nmea_context_reset_def nmea_compute_checksum_simps)

lemma feed_body:
  assumes "np_ctx p = body_ctx pre" and "\<forall>c \<in> set body. plain c"
    and "length (pre @ body) \<le> NMEA_BUFFER_LEN"
  shows "nmea_feed p (map byte_of body) = (p\<lparr>np_ctx := body_ctx (pre @ body)\<rparr>, [])"
  using assms
proof (induction body arbitrary: p pre)
  case Nil
  then show ?case by simp
next
  case (Cons c body)
  then have "nmea_process_byte p (byte_of c) = (p\<lparr>np_ctx := body_ctx (pre @ [c])\<rparr>, [])"
    by (intro process_plain) simp_all
  with Cons.IH [of "p\<lparr>np_ctx := body_ctx (pre @ [c])\<rparr>" "pre @ [c]"] Cons.prems show ?case
    by (simp add: feed_two)
qed

lemma feed_not_end:
  assumes "nc_state (np_ctx p) = Wait_lf" and "\<forall>c \<in> set s. not_end c"
  shows "nmea_feed p (map byte_of s) = (p, [])"
proof (rule nmea_machine.feed_skip)
  fix b assume "b \<in> set (map byte_of s)"
  then obtain c where "b = byte_of c" "not_end c" using assms(2) by auto
  then show "nmea_process_byte p b = (p, [])"
    by (simp add: nmea_process_byte_def Let_def assms(1) not_end_def)
qed

lemma process_dollar:
  assumes "np_ctx p = nmea_context_reset"
  shows "nmea_process_byte p (byte_of CHR ''$'') = (p\<lparr>np_ctx := body_ctx []\<rparr>, [])"
  by (simp add: nmea_process_byte_def Let_def assms)

lemma complete_counted:
  assumes "ctx_at (Ending body ck) (np_ctx p) \<or> np_ctx p = body_ctx body \<and> ck = None"
  shows "on_sentence_complete p =
     (counted (Sentence_item body ck) nmea_context_reset p, nmea_emit p (Sentence_item body ck))"
proof -
  have "nc_buf (np_ctx p) = body" "nc_running_checksum (np_ctx p) = nmea_compute_checksum body"
    "nc_checksum_present (np_ctx p) = (ck \<noteq> None)"
    "nc_received_checksum (np_ctx p) = (case ck of None \<Rightarrow> 0 | Some v \<Rightarrow> v)"
    using assms by (auto simp: ctx_at_def)
  then show ?thesis
    by (cases ck) (auto simp: on_sentence_complete_def Let_def counted_def item_ok_def sentence_ok_def
        nmea_emit_def received_sentence_def discard_with_error_def mismatch_info_def)
qed

lemma process_lf:
  assumes "np_ctx p = body_ctx body"
  shows "nmea_process_byte p (byte_of CHR 0x0A) =
     (counted (Sentence_item body None) nmea_context_reset p, nmea_emit p (Sentence_item body None))"
proof -
  have eq: "p\<lparr>np_ctx := body_ctx body\<rparr> = p" unfolding assms [symmetric] by simp
  have "nmea_process_byte p (byte_of CHR 0x0A) = on_sentence_complete (p\<lparr>np_ctx := body_ctx body\<rparr>)"
    using assms by (simp add: nmea_process_byte_def Let_def)
  then show ?thesis unfolding eq using complete_counted [of body None p] assms by simp
qed

lemma process_new_start:
  assumes "np_ctx p = body_ctx body"
  shows "nmea_process_byte p (byte_of CHR ''$'') = (counted new_start (body_ctx []) p, nmea_emit p new_start)"
  using assms by (simp add: nmea_process_byte_def Let_def discard_with_error_def counted_def item_ok_def
      new_start_def nmea_emit_def) (simp add: nmea_context_reset_def body_ctx_def)

lemma process_too_long:
  assumes "np_ctx p = body_ctx body" and "plain c" and "NMEA_BUFFER_LEN \<le> length body"
  shows "nmea_process_byte p (byte_of c) = (counted too_long nmea_context_reset p, nmea_emit p too_long)"
  using assms by (simp add: nmea_process_byte_def Let_def discard_with_error_def counted_def item_ok_def
      too_long_def nmea_emit_def plain_def)

lemma process_cr:
  assumes "np_ctx p = body_ctx body"
  shows "nmea_process_byte p (byte_of CHR 0x0D) = (p\<lparr>np_ctx := (body_ctx body)\<lparr>nc_state := Wait_lf\<rparr>\<rparr>, [])"
  using assms by (simp add: nmea_process_byte_def Let_def)

definition hex_ctx :: "string \<Rightarrow> char \<Rightarrow> u8 \<Rightarrow> nmea_parse_context" where
  "hex_ctx body hi v = (body_ctx body)\<lparr>nc_checksum_present := True, nc_cs_hi := hi,
     nc_received_checksum := v, nc_state := Wait_lf\<rparr>"

lemma feed_checksum:
  assumes "np_ctx p = body_ctx body"
  shows "nmea_feed p (map byte_of [CHR ''*'', hi, lo]) =
     (case parse_hex_byte hi lo of
        None \<Rightarrow> (counted bad_hex nmea_context_reset p, nmea_emit p bad_hex)
      | Some v \<Rightarrow> (p\<lparr>np_ctx := hex_ctx body hi v\<rparr>, []))"
  using assms by (simp add: feed_two nmea_process_byte_def Let_def discard_with_error_def counted_def
      item_ok_def bad_hex_def nmea_emit_def split: option.split)
    (simp add: hex_ctx_def body_ctx_def nmea_context_reset_def)

lemma feed_checksum_short:
  assumes "np_ctx p = body_ctx body" and "length s < 2"
  shows "\<exists>ctx. nmea_feed p (map byte_of (CHR ''*'' # s)) = (p\<lparr>np_ctx := ctx\<rparr>, [])"
  using assms by (cases s) (auto simp: feed_two nmea_process_byte_def Let_def)

lemma ctx_at_Ending [simp]:
  "ctx_at (Ending body (Some v)) (hex_ctx body hi v)"
  "ctx_at (Ending body None) ((body_ctx body)\<lparr>nc_state := Wait_lf\<rparr>)"
  by (simp_all add: ctx_at_def hex_ctx_def)

lemma ctx_at_simps [simp]:
  "ctx_at Outside ctx \<longleftrightarrow> ctx = nmea_context_reset" "ctx_at Inside ctx \<longleftrightarrow> ctx = body_ctx []"
  by (simp_all add: ctx_at_def)

lemma takeWhile_all: "\<forall>c \<in> set (takeWhile P s). P c"
  by (auto dest: set_takeWhileD)

lemma dropWhile_Cons_split:
  assumes "dropWhile P s = c # r"
  shows "s = takeWhile P s @ c # r" and "\<not> P c"
proof -
  from assms show "s = takeWhile P s @ c # r" by (metis takeWhile_dropWhile_id)
  from assms show "\<not> P c" by (metis hd_dropWhile list.distinct(1) list.sel(1))
qed

lemma dropWhile_Nil_all: "dropWhile P s = [] \<Longrightarrow> takeWhile P s = s"
  by (metis append_Nil2 takeWhile_dropWhile_id)

lemma feed_map_append:
  "nmea_feed p (map byte_of xs) = (q, []) \<Longrightarrow>
   nmea_feed p (map byte_of (xs @ ys)) = nmea_feed q (map byte_of ys)"
  by (simp add: nmea_machine.feed_append)

lemma refines_outside:
  fixes p :: "'m nmea_parser"
  assumes IH: "\<And>c r (q :: 'm nmea_parser). dropWhile (\<lambda>c. c \<noteq> CHR ''$'') s = c # r \<Longrightarrow> np_ctx q = body_ctx [] \<Longrightarrow> refines q Inside r"
    and p: "np_ctx p = nmea_context_reset"
  shows "refines p Outside s"
proof (cases "dropWhile (\<lambda>c. c \<noteq> CHR ''$'') s")
  case Nil
  then have "CHR ''$'' \<notin> set s" by (auto simp: dropWhile_eq_Nil_conv)
  from nmea_feed_noise [OF p this] show ?thesis
    by (intro refines_nothing [where ctx = "np_ctx p"])
      (simp_all add: nmea_scan.simps Nil del: dropWhile_eq_Nil_conv)
next
  case (Cons c r)
  let ?noise = "takeWhile (\<lambda>c. c \<noteq> CHR ''$'') s"
  from dropWhile_Cons_split [OF Cons] have s: "s = (?noise @ [c]) @ r" and c: "c = CHR ''$''"
    by simp_all
  have "CHR ''$'' \<notin> set ?noise" by (auto dest: set_takeWhileD)
  then have "nmea_feed p (map byte_of (?noise @ [c])) = (p\<lparr>np_ctx := body_ctx []\<rparr>, [])"
    using feed_map_append [OF nmea_feed_noise [OF p], of ?noise "[c]"]
    by (simp add: c nmea_machine.feed_single process_dollar [OF p])
  moreover have "nmea_scan Outside ((?noise @ [c]) @ r) = nmea_scan Inside r"
    unfolding s [symmetric] by (simp add: nmea_scan.simps Cons)
  ultimately have "refines p Outside ((?noise @ [c]) @ r)"
    by (rule refines_skip) (rule IH [OF Cons], simp)
  then show ?thesis unfolding s [symmetric] .
qed

lemma refines_ending:
  fixes p :: "'m nmea_parser"
  assumes IH1: "\<And>r (q :: 'm nmea_parser). dropWhile not_end s = CHR ''$'' # r \<Longrightarrow> np_ctx q = body_ctx [] \<Longrightarrow> refines q Inside r"
    and IH2: "\<And>r (q :: 'm nmea_parser). dropWhile not_end s = CHR 0x0A # r \<Longrightarrow> np_ctx q = nmea_context_reset \<Longrightarrow> refines q Outside r"
    and p: "ctx_at (Ending body ck) (np_ctx p)"
  shows "refines p (Ending body ck) s"
proof (cases "dropWhile not_end s")
  case Nil
  then have "\<forall>c \<in> set s. not_end c" by (auto simp: dropWhile_eq_Nil_conv)
  with p have "nmea_feed p (map byte_of s) = (p, [])" by (intro feed_not_end) (simp_all add: ctx_at_def)
  then show ?thesis
    by (intro refines_nothing [where ctx = "np_ctx p"])
      (simp_all add: nmea_scan.simps Nil del: dropWhile_eq_Nil_conv)
next
  case (Cons c r)
  let ?skip = "takeWhile not_end s"
  from dropWhile_Cons_split [OF Cons] have s: "s = (?skip @ [c]) @ r" and "\<not> not_end c"
    by simp_all
  then consider "c = CHR ''$''" | "c = CHR 0x0A" by (auto simp: not_end_def)
  then show ?thesis
  proof cases
    case 1
    have "nmea_feed p (map byte_of (?skip @ [c])) =
        (counted new_start_tail (body_ctx []) p, nmea_emit p new_start_tail)"
      using feed_map_append [OF feed_not_end [OF _ takeWhile_all], where ys = "[c]" and p = p] p 1
      by (simp add: ctx_at_def nmea_machine.feed_single nmea_process_byte_def Let_def discard_with_error_def
          counted_def item_ok_def new_start_tail_def nmea_emit_def)
    moreover have "nmea_scan (Ending body ck) ((?skip @ [c]) @ r) = new_start_tail # nmea_scan Inside r"
      unfolding s [symmetric] by (simp add: nmea_scan.simps Cons 1)
    ultimately have "refines p (Ending body ck) ((?skip @ [c]) @ r)"
      by (rule refines_item) (rule IH1, use Cons 1 in simp_all)
    then show ?thesis unfolding s [symmetric] .
  next
    case 2
    have "nmea_feed p (map byte_of (?skip @ [c])) =
        (counted (Sentence_item body ck) nmea_context_reset p, nmea_emit p (Sentence_item body ck))"
      using feed_map_append [OF feed_not_end [OF _ takeWhile_all], where ys = "[c]" and p = p] p 2
        complete_counted [of body ck p]
      by (simp add: nmea_machine.feed_single nmea_process_byte_def Let_def) (simp add: ctx_at_def)
    moreover have "nmea_scan (Ending body ck) ((?skip @ [c]) @ r) =
        Sentence_item body ck # nmea_scan Outside r"
      unfolding s [symmetric] by (simp add: nmea_scan.simps Cons 2)
    ultimately have "refines p (Ending body ck) ((?skip @ [c]) @ r)"
      by (rule refines_item) (rule IH2, use Cons 2 in simp_all)
    then show ?thesis unfolding s [symmetric] .
  qed
qed

lemma refines_inside_long:
  fixes p :: "'m nmea_parser"
  assumes IH: "\<And>q :: 'm nmea_parser. np_ctx q = nmea_context_reset \<Longrightarrow> refines q Outside (drop (Suc NMEA_BUFFER_LEN) s)"
    and p: "np_ctx p = body_ctx []" and long: "NMEA_BUFFER_LEN < length (takeWhile plain s)"
  shows "refines p Inside s"
proof -
  let ?body = "take NMEA_BUFFER_LEN s" and ?c = "s ! NMEA_BUFFER_LEN"
    and ?r = "drop (Suc NMEA_BUFFER_LEN) s"
  have less: "NMEA_BUFFER_LEN < length s" using long length_takeWhile_le less_le_trans by blast
  then have s: "s = (?body @ [?c]) @ ?r" by (simp add: Cons_nth_drop_Suc)
  have nth: "plain (s ! i)" if "i < length (takeWhile plain s)" for i
    using that by (metis nth_mem takeWhile_all takeWhile_nth)
  have "\<forall>c \<in> set ?body. plain c" using long nth less by (auto simp: in_set_conv_nth)
  then have "nmea_feed p (map byte_of ?body) = (p\<lparr>np_ctx := body_ctx ?body\<rparr>, [])"
    using feed_body [OF p] by simp
  from feed_map_append [OF this, of "[?c]"] nth [OF long] less
  have "nmea_feed p (map byte_of (?body @ [?c])) =
      (counted too_long nmea_context_reset p, nmea_emit p too_long)"
    by (simp add: nmea_machine.feed_single process_too_long [where body = ?body])
      (simp add: counted_def)
  moreover have "nmea_scan Inside ((?body @ [?c]) @ ?r) = too_long # nmea_scan Outside ?r"
    unfolding s [symmetric] using long by (simp add: nmea_scan.simps)
  ultimately have "refines p Inside ((?body @ [?c]) @ ?r)"
    by (rule refines_item) (rule IH, simp)
  then show ?thesis unfolding s [symmetric] .
qed

text \<open>One step of the reading behind a content \<open>body\<close> that fits the buffer.\<close>

lemma inside_after_body:
  assumes p: "np_ctx p = body_ctx []" and fits: "length (takeWhile plain s) \<le> NMEA_BUFFER_LEN"
    and rest: "dropWhile plain s = x @ r"
  shows "s = (takeWhile plain s @ x) @ r"
    and "nmea_feed p (map byte_of (takeWhile plain s @ x)) =
      nmea_feed (p\<lparr>np_ctx := body_ctx (takeWhile plain s)\<rparr>) (map byte_of x)"
proof -
  show "s = (takeWhile plain s @ x) @ r" using rest by (metis append_assoc takeWhile_dropWhile_id)
  show "nmea_feed p (map byte_of (takeWhile plain s @ x)) =
      nmea_feed (p\<lparr>np_ctx := body_ctx (takeWhile plain s)\<rparr>) (map byte_of x)"
    using feed_map_append [OF feed_body [OF p takeWhile_all]] fits by simp
qed

lemma refines_inside_item:
  fixes p :: "'m nmea_parser"
  assumes p: "np_ctx p = body_ctx []" and fits: "length (takeWhile plain s) \<le> NMEA_BUFFER_LEN"
    and rest: "dropWhile plain s = x @ r"
    and step: "nmea_feed (p\<lparr>np_ctx := body_ctx (takeWhile plain s)\<rparr>) (map byte_of x) =
      (counted item ctx (p\<lparr>np_ctx := body_ctx (takeWhile plain s)\<rparr>),
       nmea_emit (p\<lparr>np_ctx := body_ctx (takeWhile plain s)\<rparr>) item)"
    and scan: "nmea_scan Inside s = item # nmea_scan m r"
    and IH: "\<And>q :: 'm nmea_parser. np_ctx q = ctx \<Longrightarrow> refines q m r"
  shows "refines p Inside s"
proof -
  note split = inside_after_body [OF p fits rest]
  have "refines p Inside ((takeWhile plain s @ x) @ r)"
  proof (rule refines_item)
    have eq: "counted item ctx (p\<lparr>np_ctx := body_ctx (takeWhile plain s)\<rparr>) = counted item ctx p"
      by (simp add: counted_def)
    show "nmea_feed p (map byte_of (takeWhile plain s @ x)) = (counted item ctx p, nmea_emit p item)"
      unfolding split(2) step eq by simp
    show "nmea_scan Inside ((takeWhile plain s @ x) @ r) = item # nmea_scan m r"
      unfolding split(1) [symmetric] by (rule scan)
  qed (rule IH, simp)
  then show ?thesis unfolding split(1) [symmetric] .
qed

lemma refines_inside_skip:
  fixes p :: "'m nmea_parser"
  assumes p: "np_ctx p = body_ctx []" and fits: "length (takeWhile plain s) \<le> NMEA_BUFFER_LEN"
    and rest: "dropWhile plain s = x @ r"
    and step: "nmea_feed (p\<lparr>np_ctx := body_ctx (takeWhile plain s)\<rparr>) (map byte_of x) =
      (p\<lparr>np_ctx := ctx\<rparr>, [])"
    and scan: "nmea_scan Inside s = nmea_scan m r"
    and IH: "\<And>q :: 'm nmea_parser. np_ctx q = ctx \<Longrightarrow> refines q m r"
  shows "refines p Inside s"
proof -
  note split = inside_after_body [OF p fits rest]
  have "refines p Inside ((takeWhile plain s @ x) @ r)"
  proof (rule refines_skip)
    show "nmea_feed p (map byte_of (takeWhile plain s @ x)) = (p\<lparr>np_ctx := ctx\<rparr>, [])"
      unfolding split(2) step ..
    show "nmea_scan Inside ((takeWhile plain s @ x) @ r) = nmea_scan m r"
      unfolding split(1) [symmetric] by (rule scan)
  qed (rule IH, simp)
  then show ?thesis unfolding split(1) [symmetric] .
qed

lemma scan_inside:
  assumes "\<not> NMEA_BUFFER_LEN < length (takeWhile plain s)" and "dropWhile plain s = c # r"
  shows "nmea_scan Inside s =
     (if c = CHR ''$'' then new_start # nmea_scan Inside r
      else if c = CHR 0x0A then Sentence_item (takeWhile plain s) None # nmea_scan Outside r
      else if c = CHR 0x0D then nmea_scan (Ending (takeWhile plain s) None) r
      else if length r < 2 then []
      else (case parse_hex_byte (r ! 0) (r ! 1) of
              None \<Rightarrow> bad_hex # nmea_scan Outside (drop 2 r)
            | Some v \<Rightarrow> nmea_scan (Ending (takeWhile plain s) (Some v)) (drop 2 r)))"
  using assms by (subst nmea_scan.simps) simp

lemma refines_inside:
  fixes p :: "'m nmea_parser"
  assumes IH: "\<And>m r (q :: 'm nmea_parser). length r < length s \<Longrightarrow> ctx_at m (np_ctx q) \<Longrightarrow> refines q m r"
    and p: "np_ctx p = body_ctx []"
  shows "refines p Inside s"
proof (cases "NMEA_BUFFER_LEN < length (takeWhile plain s)")
  case True
  then have "length (drop (Suc NMEA_BUFFER_LEN) s) < length s"
    by (simp add: length_takeWhile_drop)
  with IH [of "drop (Suc NMEA_BUFFER_LEN) s" Outside] show ?thesis
    by (intro refines_inside_long [OF _ p True]) simp
next
  case False
  then have fits: "length (takeWhile plain s) \<le> NMEA_BUFFER_LEN" by simp
  let ?p = "p\<lparr>np_ctx := body_ctx (takeWhile plain s)\<rparr>"
  have at: "np_ctx ?p = body_ctx (takeWhile plain s)" by simp
  show ?thesis
  proof (cases "dropWhile plain s")
    case Nil
    then show ?thesis
      using inside_after_body [OF p fits, of "[]" "[]"] fits
      by (intro refines_nothing [where ctx = "body_ctx (takeWhile plain s)"])
        (simp_all add: nmea_scan.simps Nil del: dropWhile_eq_Nil_conv)
  next
    case (Cons c r)
    have r: "length r < length s" using dropWhile_ConsD [OF Cons] .
    have rest: "dropWhile plain s = [c] @ r" using Cons by simp
    note scan = scan_inside [OF False Cons]
    have "c = CHR ''$'' \<or> c = CHR 0x0A \<or> c = CHR 0x0D \<or> c = CHR ''*''"
      using dropWhile_Cons_split(2) [OF Cons] unfolding plain_def by argo
    moreover have "length r < 2 \<or> (\<exists>hi lo r'. r = hi # lo # r')"
      by (cases r rule: remdups_adj.cases) simp_all
    ultimately consider "c = CHR ''$''" | "c = CHR 0x0A" | "c = CHR 0x0D"
      | "c = CHR ''*''" "length r < 2" | hi lo r' where "c = CHR ''*''" "r = hi # lo # r'"
      by blast
    then show ?thesis
    proof cases
      case 1
      from process_new_start [OF at] 1 show ?thesis
        by (intro refines_inside_item [OF p fits rest, where item = new_start and m = Inside
              and ctx = "body_ctx []"] IH [OF r])
          (simp_all add: nmea_machine.feed_single scan)
    next
      case 2
      from process_lf [OF at] 2 show ?thesis
        by (intro refines_inside_item [OF p fits rest, where m = Outside
              and item = "Sentence_item (takeWhile plain s) None" and ctx = nmea_context_reset] IH [OF r])
          (simp_all add: nmea_machine.feed_single scan)
    next
      case 3
      from process_cr [OF at] 3 show ?thesis
        by (intro refines_inside_skip [OF p fits rest, where m = "Ending (takeWhile plain s) None"
              and ctx = "(body_ctx (takeWhile plain s))\<lparr>nc_state := Wait_lf\<rparr>"] IH [OF r])
          (simp_all add: nmea_machine.feed_single scan)
    next
      case 4
      from feed_checksum_short [OF at 4(2)] obtain ctx
        where "nmea_feed ?p (map byte_of (CHR ''*'' # r)) = (p\<lparr>np_ctx := ctx\<rparr>, [])" by auto
      with inside_after_body [OF p fits, of "c # r" "[]"] 4 Cons
      have "nmea_feed p (map byte_of s) = (p\<lparr>np_ctx := ctx\<rparr>, [])" by simp
      then show ?thesis
        by (intro refines_nothing [where ctx = ctx]) (simp_all add: scan 4)
    next
      case 5
      have r': "length r' < length s" using r 5 by simp
      have rest': "dropWhile plain s = [c, hi, lo] @ r'" using Cons 5 by simp
      show ?thesis
      proof (cases "parse_hex_byte hi lo")
        case None
        with feed_checksum [OF at, of hi lo] 5 show ?thesis
          by (intro refines_inside_item [OF p fits rest', where item = bad_hex and m = Outside
                and ctx = nmea_context_reset] IH [OF r'])
            (simp_all add: scan)
      next
        case (Some v)
        with feed_checksum [OF at, of hi lo] 5 show ?thesis
          by (intro refines_inside_skip [OF p fits rest', where
                m = "Ending (takeWhile plain s) (Some v)"
                and ctx = "hex_ctx (takeWhile plain s) hi v"] IH [OF r'])
            (simp_all add: scan)
      qed
    qed
  qed
qed

lemma feed_refines:
  fixes p :: "'m nmea_parser"
  assumes "ctx_at m (np_ctx p)"
  shows "refines p m s"
  using assms
proof (induction "length s" arbitrary: s m p rule: less_induct)
  case less
  show ?case
  proof (cases m)
    case Outside
    with less show ?thesis by (auto intro!: refines_outside dest!: dropWhile_ConsD)
  next
    case Inside
    with less show ?thesis by (auto intro!: refines_inside)
  next
    case (Ending body ck)
    with less show ?thesis by (auto intro!: refines_ending dest!: dropWhile_ConsD)
  qed
qed

section \<open>Readings of well-formed streams\<close>

lemma takeWhile_plain:
  "\<forall>c \<in> set body. plain c \<Longrightarrow> \<not> plain d \<Longrightarrow> takeWhile plain (body @ d # r) = body"
  "\<forall>c \<in> set body. plain c \<Longrightarrow> \<not> plain d \<Longrightarrow> dropWhile plain (body @ d # r) = d # r"
  by simp_all

lemma nmea_scan_noise:
  assumes "CHR ''$'' \<notin> set noise"
  shows "nmea_scan Outside (noise @ CHR ''$'' # s) = nmea_scan Inside s"
proof -
  have "dropWhile (\<lambda>c. c \<noteq> CHR ''$'') (noise @ CHR ''$'' # s) = CHR ''$'' # s"
    using assms by (induction noise) auto
  then show ?thesis by (subst nmea_scan.simps) simp
qed

lemma scan_sentence:
  assumes "\<forall>c \<in> set body. plain c" and "length body \<le> NMEA_BUFFER_LEN"
    and "parse_hex_byte hi lo = Some v"
  shows "nmea_scan Inside (body @ CHR ''*'' # hi # lo # CHR 0x0D # CHR 0x0A # s) =
    Sentence_item body (Some v) # nmea_scan Outside s"
proof -
  have np: "\<not> plain CHR ''*''" by (simp add: plain_def)
  note tw = takeWhile_plain [OF assms(1) np]
  have "nmea_scan Inside (body @ CHR ''*'' # hi # lo # CHR 0x0D # CHR 0x0A # s) =
      nmea_scan (Ending body (Some v)) (CHR 0x0D # CHR 0x0A # s)"
    using scan_inside [OF _ tw(2), of "hi # lo # CHR 0x0D # CHR 0x0A # s"] assms(2,3) by (simp add: tw)
  also have "\<dots> = Sentence_item body (Some v) # nmea_scan Outside s"
    by (subst nmea_scan.simps) (simp add: not_end_def)
  finally show ?thesis .
qed

text \<open>A sentence on the wire: content and the checksum digits sent with it.\<close>

definition on_wire :: "string \<Rightarrow> u8 \<Rightarrow> string" where
  "on_wire body v = ''$'' @ body @ ''*'' @ checksum_to_hex v @ [CHR 0x0D, CHR 0x0A]"

lemma assemble_on_wire:
  "assemble talker type body_fields = on_wire (talker @ type @ '','' @ body_fields)
     (nmea_compute_checksum (talker @ type @ '','' @ body_fields))"
  by (simp add: assemble_def on_wire_def Let_def)

lemma scan_on_wire:
  assumes "CHR ''$'' \<notin> set noise" and "\<forall>c \<in> set body. plain c" and "length body \<le> NMEA_BUFFER_LEN"
  shows "nmea_scan Outside (noise @ on_wire body v @ s) = Sentence_item body (Some v) # nmea_scan Outside s"
  using nmea_scan_noise [OF assms(1)] scan_sentence [OF assms(2,3) parse_hex_checksum]
  by (simp add: on_wire_def checksum_to_hex_def)

lemma scan_on_wires:
  assumes "\<forall>(noise, body, v) \<in> set items. CHR ''$'' \<notin> set noise \<and> (\<forall>c \<in> set body. plain c)
    \<and> length body \<le> NMEA_BUFFER_LEN"
  shows "nmea_scan Outside (concat (map (\<lambda>(noise, body, v). noise @ on_wire body v) items)) =
    map (\<lambda>(noise, body, v). Sentence_item body (Some v)) items"
  using assms
proof (induction items)
  case Nil
  then show ?case by (simp add: nmea_scan.simps)
next
  case (Cons x items)
  obtain noise body v where x: "x = (noise, body, v)" by (cases x)
  with Cons show ?case by (simp add: scan_on_wire)
qed

definition nmea_idle :: "'m nmea_parser \<Rightarrow> bool" where
  "nmea_idle p \<longleftrightarrow> np_ctx p = nmea_context_reset"

lemma nmea_idle_new [simp]: "nmea_idle (nmea_parser_new reg)"
  by (simp add: nmea_idle_def nmea_parser_new_def)

lemma idle_refines: "nmea_idle p \<Longrightarrow> refines p Outside s"
  by (rule feed_refines) (simp add: nmea_idle_def)

lemma feed_chars: "nmea_feed p bs = nmea_feed p (map byte_of (map char_of_byte bs))"
proof -
  have "map byte_of (map char_of_byte bs) = bs" by (simp add: map_idI)
  then show ?thesis by simp
qed

section \<open>Properties\<close>

definition nmea_feed_chunks :: "'m nmea_parser \<Rightarrow> bytes list \<Rightarrow> 'm nmea_parser \<times> 'm nmea_event list" where
  "nmea_feed_chunks p chunks =
     foldl (\<lambda>(st, es) chunk. (fst (nmea_feed st chunk), es @ snd (nmea_feed st chunk))) (p, []) chunks"

text \<open>
  C28 (refinement). However a stream is cut into buffers, an idle parser reports exactly the events of
  the sentences the reference reading finds in it, in order, and its counters advance by the
  numbers of good and of broken items.
\<close>

theorem nmea_feed_refines_scan:
  assumes "nmea_idle p"
  shows "snd (nmea_feed_chunks p chunks) =
      concat (map (nmea_emit p) (nmea_scan Outside (map char_of_byte (concat chunks))))
    \<and> np_decoded (fst (nmea_feed_chunks p chunks)) = np_decoded p
        + of_nat (length (filter item_ok (nmea_scan Outside (map char_of_byte (concat chunks)))))
    \<and> np_discarded (fst (nmea_feed_chunks p chunks)) = np_discarded p
        + of_nat (length (filter (\<lambda>i. \<not> item_ok i) (nmea_scan Outside (map char_of_byte (concat chunks)))))"
  using idle_refines [OF assms, of "map char_of_byte (concat chunks)"]
  unfolding refines_def feed_chars [symmetric] nmea_feed_chunks_def nmea_machine.feed_chunks by simp

definition nmea_demo :: "string nmea_parser" where
  "nmea_demo = nmea_set_error_callback (nmea_set_raw_sentence_callback (nmea_parser_new
     (nmea_register_parser \<lparr>sp_type = ''GGA'', sp_parse = (\<lambda>s. if sen_field s 0 = [] then None
        else Some (sen_field s 0))\<rparr> (\<lambda>_. None))))"

lemma nmea_demo_idle: "nmea_idle nmea_demo"
  by (simp add: nmea_demo_def nmea_idle_def nmea_set_error_callback_def
      nmea_set_raw_sentence_callback_def nmea_parser_new_def)

theorem nmea_feed_refines_scan_witness:
  "np_discarded (fst (nmea_feed_chunks nmea_demo [map byte_of ''$G'', map byte_of ''P$X'']))
     = 1"
proof -
  have "map char_of_byte (concat [map byte_of ''$G'', map byte_of ''P$X'']) = ''$GP$X''"
    by (simp del: map_map)
  moreover have "nmea_scan Outside ''$GP$X'' = [new_start]"
    by (simp add: nmea_scan.simps plain_def NMEA_BUFFER_LEN_def)
  ultimately show ?thesis
    using nmea_feed_refines_scan [OF nmea_demo_idle, of "[map byte_of ''$G'', map byte_of ''P$X'']"]
    by (simp add: item_ok_def new_start_def nmea_demo_def nmea_set_error_callback_def
      nmea_set_raw_sentence_callback_def nmea_parser_new_def del: map_map)
qed

text \<open>What a receiver promises to send: a standard sentence whose characters do not frame.\<close>

definition well_formed :: "string \<Rightarrow> string \<Rightarrow> string list \<Rightarrow> bool" where
  "well_formed talker type fs \<longleftrightarrow>
     length talker = 2 \<and> talker ! 0 \<noteq> CHR ''P'' \<and> 3 \<le> length type \<and> fs \<noteq> []
     \<and> (\<forall>c \<in> set (talker @ type). plain c \<and> c \<noteq> CHR '','')
     \<and> (\<forall>f \<in> set fs. \<forall>c \<in> set f. plain c \<and> c \<noteq> CHR '','')
     \<and> length (talker @ type @ '','' @ join_fields fs) \<le> NMEA_BUFFER_LEN"

definition valid_sentence :: "string \<Rightarrow> string \<Rightarrow> string list \<Rightarrow> nmea_sentence" where
  "valid_sentence talker type fs = \<lparr>sen_talker = talker, sen_type = type, sen_fields = fs,
     sen_checksum = nmea_compute_checksum (talker @ type @ '','' @ join_fields fs),
     sen_checksum_present = True, sen_checksum_valid = True\<rparr>"

lemma set_join_fields: "x \<in> set (join_fields fs) \<Longrightarrow> x = CHR '','' \<or> (\<exists>f \<in> set fs. x \<in> set f)"
proof (induction fs rule: join_fields.induct)
  case (3 f g fs)
  then consider "x \<in> set f" | "x = CHR '',''" | "x \<in> set (join_fields (g # fs))"
    unfolding join_fields.simps set_append list.set by blast
  then show ?case using "3.IH" by cases auto
qed simp_all

lemma well_formed_plain:
  assumes "well_formed talker type fs" and "x \<in> set (talker @ type @ '','' @ join_fields fs)"
  shows "plain x"
proof -
  have comma: "plain CHR '',''" by (simp add: plain_def)
  from assms(2) consider "x \<in> set (talker @ type)" | "x = CHR '',''" | "x \<in> set (join_fields fs)"
    unfolding set_append list.set by blast
  then show ?thesis
  proof cases
    case 1
    with assms(1) show ?thesis unfolding well_formed_def by blast
  next
    case 2
    with comma show ?thesis by simp
  next
    case 3
    with assms(1) set_join_fields [OF 3] comma show ?thesis unfolding well_formed_def by blast
  qed
qed

lemma received_well_formed:
  assumes "well_formed talker type fs"
  shows "received_sentence (talker @ type @ '','' @ join_fields fs)
      (Some (nmea_compute_checksum (talker @ type @ '','' @ join_fields fs))) = valid_sentence talker type fs"
proof -
  have wf: "length talker = 2" "talker ! 0 \<noteq> CHR ''P''" "3 \<le> length type" "fs \<noteq> []"
    "CHR '','' \<notin> set (talker @ type)" "\<forall>f \<in> set fs. CHR '','' \<notin> set f"
    using assms unfolding well_formed_def by blast+
  then have "split_id (talker @ type) = (talker, type)"
    by (simp add: split_id_def nth_append)
  moreover have "tokenize ((talker @ type) @ CHR '','' # join_fields fs) =
      nmea_sentence_new\<lparr>sen_talker := fst (split_id (talker @ type)),
        sen_type := snd (split_id (talker @ type)), sen_fields := fs\<rparr>"
    using wf by (intro tokenize_join) auto
  ultimately show ?thesis
    by (simp add: received_sentence_def valid_sentence_def nmea_sentence_new_def)
qed

text \<open>Assembled sentences with the noise before them, as contents and checksums.\<close>

definition assembled_wire :: "(string \<times> string \<times> string \<times> string list) list \<Rightarrow> (string \<times> string \<times> u8) list" where
  "assembled_wire items = map (\<lambda>(noise, talker, type, fs). (noise, talker @ type @ '','' @ join_fields fs,
     nmea_compute_checksum (talker @ type @ '','' @ join_fields fs))) items"

lemma assembled_stream:
  "concat (map (\<lambda>(noise, talker, type, fs). noise @ assemble talker type (join_fields fs)) items) =
   concat (map (\<lambda>(noise, body, v). noise @ on_wire body v) (assembled_wire items))"
  by (auto simp: assembled_wire_def assemble_on_wire intro!: arg_cong [of _ _ concat])

lemma assembled_scan:
  assumes "\<forall>(noise, talker, type, fs) \<in> set items. CHR ''$'' \<notin> set noise \<and> well_formed talker type fs"
  shows "nmea_scan Outside (concat (map (\<lambda>(noise, body, v). noise @ on_wire body v) (assembled_wire items))) =
    map (\<lambda>(noise, body, v). Sentence_item body (Some v)) (assembled_wire items)"
proof (rule scan_on_wires, clarify)
  fix noise body v assume "(noise, body, v) \<in> set (assembled_wire items)"
  then obtain talker type fs where item: "(noise, talker, type, fs) \<in> set items"
    and body: "body = talker @ type @ '','' @ join_fields fs"
    unfolding assembled_wire_def by auto
  from item assms have "CHR ''$'' \<notin> set noise" "well_formed talker type fs" by blast+
  moreover from this(2) have "length body \<le> NMEA_BUFFER_LEN"
    unfolding well_formed_def body by blast
  ultimately show "CHR ''$'' \<notin> set noise \<and> (\<forall>c \<in> set body. plain c) \<and> length body \<le> NMEA_BUFFER_LEN"
    using well_formed_plain unfolding body by blast
qed

lemma assembled_events:
  assumes "\<forall>(noise, talker, type, fs) \<in> set items. CHR ''$'' \<notin> set noise \<and> well_formed talker type fs"
  shows "concat (map (nmea_emit p) (map (\<lambda>(noise, body, v). Sentence_item body (Some v)) (assembled_wire items))) =
    concat (map (\<lambda>(noise, talker, type, fs). nmea_dispatch p (valid_sentence talker type fs)) items)"
proof -
  have each: "nmea_emit p (case (case x of (noise, talker, type, fs) \<Rightarrow>
        (noise, talker @ type @ '','' @ join_fields fs,
         nmea_compute_checksum (talker @ type @ '','' @ join_fields fs)))
      of (noise, body, v) \<Rightarrow> Sentence_item body (Some v)) =
      (case x of (noise, talker, type, fs) \<Rightarrow> nmea_dispatch p (valid_sentence talker type fs))"
    if "x \<in> set items" for x
  proof -
    obtain noise talker type fs where x: "x = (noise, talker, type, fs)" by (cases x)
    with that assms have "well_formed talker type fs" by blast
    from received_well_formed [OF this] show ?thesis by (simp add: x nmea_emit_def sentence_ok_def)
  qed
  show ?thesis unfolding assembled_wire_def map_map comp_def
    by (intro arg_cong [of _ _ concat] map_cong refl each)
qed

lemma assembled_ok:
  "filter item_ok (map (\<lambda>(noise, body, v). Sentence_item body (Some v)) (assembled_wire items)) =
   map (\<lambda>(noise, body, v). Sentence_item body (Some v)) (assembled_wire items)"
  by (auto simp: assembled_wire_def filter_id_conv item_ok_def sentence_ok_def)

lemma assembled_feed_events:
  assumes "nmea_idle p"
    and "\<forall>(noise, talker, type, fs) \<in> set items. CHR ''$'' \<notin> set noise \<and> well_formed talker type fs"
  shows "snd (nmea_feed p (map byte_of (concat (map (\<lambda>(noise, talker, type, fs).
            noise @ assemble talker type (join_fields fs)) items)))) =
      concat (map (\<lambda>(noise, talker, type, fs). nmea_dispatch p (valid_sentence talker type fs)) items)"
  using idle_refines [OF assms(1), of "concat (map (\<lambda>(noise, talker, type, fs).
      noise @ assemble talker type (join_fields fs)) items)"]
  unfolding assembled_stream refines_def assembled_scan [OF assms(2)] assembled_events [OF assms(2)] by simp

text \<open>
  C29 (roundtrip). Sentences assembled by the generator arrive whole: however much noise without a \<open>$\<close>
  precedes each of them, every sentence reaches the dispatcher once, in order, with exactly the
  talker, the type and the fields it was assembled from and its checksum marked valid, and the
  decoded counter counts them all.
\<close>

theorem nmea_assembled_sentences_delivered:
  assumes "nmea_idle p"
    and "\<forall>(noise, talker, type, fs) \<in> set items. CHR ''$'' \<notin> set noise \<and> well_formed talker type fs"
  shows "snd (nmea_feed p (map byte_of (concat (map (\<lambda>(noise, talker, type, fs).
            noise @ assemble talker type (join_fields fs)) items)))) =
      concat (map (\<lambda>(noise, talker, type, fs). nmea_dispatch p (valid_sentence talker type fs)) items)
    \<and> np_decoded (fst (nmea_feed p (map byte_of (concat (map (\<lambda>(noise, talker, type, fs).
            noise @ assemble talker type (join_fields fs)) items))))) = np_decoded p + of_nat (length items)"
  using idle_refines [OF assms(1), of "concat (map (\<lambda>(noise, talker, type, fs).
      noise @ assemble talker type (join_fields fs)) items)"]
  unfolding assembled_stream refines_def assembled_scan [OF assms(2)] assembled_events [OF assms(2)]
    assembled_ok
  by (simp add: assembled_wire_def)

theorem nmea_assembled_sentences_delivered_witness:
  "snd (nmea_feed nmea_demo (map byte_of (''xy'' @ assemble ''GP'' ''GGA'' ''12,,N''))) =
     [Raw_sentence (valid_sentence ''GP'' ''GGA'' [''12'', [], ''N'']), Sentence_callback ''12'']"
proof -
  have "well_formed ''GP'' ''GGA'' [''12'', [], ''N'']"
    by (simp add: well_formed_def plain_def NMEA_BUFFER_LEN_def)
  with nmea_assembled_sentences_delivered [OF nmea_demo_idle, of "[(''xy'', ''GP'', ''GGA'', [''12'', [], ''N''])]"]
  have "snd (nmea_feed nmea_demo (map byte_of (''xy'' @ assemble ''GP'' ''GGA'' ''12,,N''))) =
      nmea_dispatch nmea_demo (valid_sentence ''GP'' ''GGA'' [''12'', [], ''N''])" by simp
  then show ?thesis
    by (simp add: nmea_dispatch_def nmea_demo_def nmea_set_error_callback_def sen_field_def
        nmea_set_raw_sentence_callback_def nmea_parser_new_def nmea_registry_find_def
        nmea_register_parser_def valid_sentence_def)
qed

text \<open>
  A sentence in which one content character was replaced by another (that does not frame)
  is rejected: one \<open>checksum_mismatch\<close> report, nothing handed to the raw callback or a parser, the
  discard counter advanced, and the bytes that follow are read as if the sentence had not been
  there.
\<close>

theorem nmea_corrupted_char_rejected:
  assumes "nmea_idle p" and "d \<noteq> c" and "\<forall>x \<in> set (xs @ d # ys). plain x"
    and "length (xs @ d # ys) \<le> NMEA_BUFFER_LEN"
  shows "snd (nmea_feed p (map byte_of (on_wire (xs @ d # ys) (nmea_compute_checksum (xs @ c # ys)) @ s))) =
      nmea_report_error p (mismatch_info (xs @ d # ys)) @ snd (nmea_feed p (map byte_of s))
    \<and> np_discarded (fst (nmea_feed p (map byte_of (on_wire (xs @ d # ys) (nmea_compute_checksum (xs @ c # ys)) @ s))))
      = np_discarded (fst (nmea_feed p (map byte_of s))) + 1"
proof -
  let ?item = "Sentence_item (xs @ d # ys) (Some (nmea_compute_checksum (xs @ c # ys)))"
  have scan: "nmea_scan Outside (on_wire (xs @ d # ys) (nmea_compute_checksum (xs @ c # ys)) @ s) =
      ?item # nmea_scan Outside s"
    using scan_on_wire [of "[]" "xs @ d # ys"] assms(3,4) by simp
  have "nmea_compute_checksum (xs @ c # ys) \<noteq> nmea_compute_checksum (xs @ d # ys)"
    using checksum_one_char assms(2) by metis
  then have "\<not> item_ok ?item" "nmea_emit p ?item = nmea_report_error p (mismatch_info (xs @ d # ys))"
    by (simp_all add: item_ok_def sentence_ok_def nmea_emit_def)
  with idle_refines [OF assms(1), of s]
    idle_refines [OF assms(1), of "on_wire (xs @ d # ys) (nmea_compute_checksum (xs @ c # ys)) @ s"]
  show ?thesis by (simp add: refines_def scan)
qed

theorem nmea_corrupted_char_rejected_witness:
  "snd (nmea_feed nmea_demo (map byte_of (on_wire ''GPGGA,13'' (nmea_compute_checksum ''GPGGA,12'')))) =
     [Nmea_error (mismatch_info ''GPGGA,13'')]"
  using nmea_corrupted_char_rejected [OF nmea_demo_idle, of "CHR ''3''" "CHR ''2''" "''GPGGA,1''" "[]" "[]"]
  by (simp add: plain_def NMEA_BUFFER_LEN_def nmea_report_error_def nmea_demo_def nmea_set_error_callback_def
     )

section \<open>Soundness and bounds\<close>

text \<open>A sentence occurs in a stream, up to its line end or its checksum digits.\<close>

definition occurs :: "string \<Rightarrow> u8 option \<Rightarrow> string \<Rightarrow> bool" where
  "occurs body ck s \<longleftrightarrow> (\<forall>c \<in> set body. plain c) \<and> length body \<le> NMEA_BUFFER_LEN
     \<and> (case ck of
          None \<Rightarrow> (\<exists>e \<in> {CHR 0x0D, CHR 0x0A}. sublist (CHR ''$'' # body @ [e]) s)
        | Some v \<Rightarrow> (\<exists>hi lo. parse_hex_byte hi lo = Some v
             \<and> sublist (CHR ''$'' # body @ [CHR ''*'', hi, lo]) s))"

lemma occurs_mono: "occurs body ck s \<Longrightarrow> sublist s t \<Longrightarrow> occurs body ck t"
  unfolding occurs_def by (cases ck) (auto intro: sublist_order.order_trans)

definition occurs_from :: "scan_mode \<Rightarrow> string \<Rightarrow> u8 option \<Rightarrow> string \<Rightarrow> bool" where
  "occurs_from m body ck s =
     (case m of Outside \<Rightarrow> occurs body ck s
      | Inside \<Rightarrow> occurs body ck (CHR ''$'' # s)
      | Ending b k \<Rightarrow> body = b \<and> ck = k \<or> occurs body ck s)"

lemma sublist_suffix: "s = xs @ r \<Longrightarrow> sublist r (y # s)"
  by (metis append_Cons sublist_append_leftI)

lemma occurs_inside:
  assumes fits: "length (takeWhile plain s) \<le> NMEA_BUFFER_LEN" and rest: "dropWhile plain s = x @ r"
    and ck: "case ck of None \<Rightarrow> x = [CHR 0x0D] \<or> x = [CHR 0x0A]
      | Some v \<Rightarrow> \<exists>hi lo. x = [CHR ''*'', hi, lo] \<and> parse_hex_byte hi lo = Some v"
  shows "occurs (takeWhile plain s) ck (CHR ''$'' # s)"
proof -
  have "CHR ''$'' # s = (CHR ''$'' # takeWhile plain s @ x) @ r"
    using rest by (metis append_Cons append_assoc takeWhile_dropWhile_id)
  then have "sublist (CHR ''$'' # takeWhile plain s @ x) (CHR ''$'' # s)"
    by (metis sublist_append_rightI)
  with fits ck takeWhile_all [of plain s] show ?thesis
    unfolding occurs_def by (cases ck) auto
qed

lemma scan_inside_cases:
  assumes "\<not> NMEA_BUFFER_LEN < length (takeWhile plain s)" and Cons: "dropWhile plain s = c # r"
    and item: "Sentence_item body ck \<in> set (nmea_scan Inside s)"
  obtains (dollar) "c = CHR ''$''" "Sentence_item body ck \<in> set (nmea_scan Inside r)"
  | (now) "c = CHR 0x0A" "body = takeWhile plain s" "ck = None"
  | (out) r' where "Sentence_item body ck \<in> set (nmea_scan Outside r')" "r' = r \<or> r' = drop 2 r"
  | (cr) "c = CHR 0x0D" "Sentence_item body ck \<in> set (nmea_scan (Ending (takeWhile plain s) None) r)"
  | (hex) hi lo r' v where "c = CHR ''*''" "r = hi # lo # r'" "parse_hex_byte hi lo = Some v"
      "Sentence_item body ck \<in> set (nmea_scan (Ending (takeWhile plain s) (Some v)) r')"
proof -
  have star: "c = CHR ''*''" if "c \<noteq> CHR ''$''" "c \<noteq> CHR 0x0A" "c \<noteq> CHR 0x0D"
    using dropWhile_Cons_split(2) [OF Cons] that unfolding plain_def by blast
  have two: "r = r ! 0 # r ! 1 # drop 2 r" if "\<not> length r < 2"
    using that by (cases r rule: remdups_adj.cases) simp_all
  note scan = scan_inside [OF assms(1) Cons]
  show thesis
  proof (cases "c = CHR ''$'' \<or> c = CHR 0x0A \<or> c = CHR 0x0D \<or> length r < 2")
    case True
    with item scan dollar now out cr show thesis by (auto simp: new_start_def split: if_splits)
  next
    case False
    with item scan star two out hex [of "r ! 0" "r ! 1" "drop 2 r"] show thesis
      by (auto simp: bad_hex_def split: option.splits)
  qed
qed

text \<open>What the rest of the reading can find occurs in the stream, for each way it goes on.\<close>

lemma occurs_later:
  assumes "occurs_from m body ck r" and "sublist (CHR ''$'' # r) t \<or> m \<noteq> Inside \<and> sublist r t"
    and "\<And>b k. m = Ending b k \<Longrightarrow> occurs b k t"
  shows "occurs body ck t"
proof (cases m)
  case Outside
  have "sublist r (CHR ''$'' # r)" by (simp add: sublist_Cons_right)
  with assms(1,2) Outside show ?thesis
    by (auto simp: occurs_from_def intro: occurs_mono sublist_order.order_trans)
next
  case (Ending b k)
  have "sublist r (CHR ''$'' # r)" by (simp add: sublist_Cons_right)
  with assms Ending show ?thesis
    by (auto simp: occurs_from_def intro: occurs_mono sublist_order.order_trans)
qed (use assms in \<open>auto simp: occurs_from_def intro: occurs_mono\<close>)

lemma scan_sound_inside:
  assumes IH: "\<And>m r. length r < length s \<Longrightarrow> Sentence_item body ck \<in> set (nmea_scan m r) \<Longrightarrow> occurs_from m body ck r"
    and item: "Sentence_item body ck \<in> set (nmea_scan Inside s)"
  shows "occurs body ck (CHR ''$'' # s)"
proof (cases "NMEA_BUFFER_LEN < length (takeWhile plain s)")
  case True
  then have "length (drop (Suc NMEA_BUFFER_LEN) s) < length s" by (simp add: length_takeWhile_drop)
  moreover have "Sentence_item body ck \<in> set (nmea_scan Outside (drop (Suc NMEA_BUFFER_LEN) s))"
    using item True by (subst (asm) nmea_scan.simps) (simp add: too_long_def)
  ultimately have "occurs_from Outside body ck (drop (Suc NMEA_BUFFER_LEN) s)" by (rule IH)
  then show ?thesis
    by (rule occurs_later) (metis append_take_drop_id scan_mode.simps(3) sublist_suffix, simp)
next
  case False
  then have fits: "length (takeWhile plain s) \<le> NMEA_BUFFER_LEN" by simp
  show ?thesis
  proof (cases "dropWhile plain s")
    case Nil
    with item False show ?thesis by (subst (asm) nmea_scan.simps) (simp del: dropWhile_eq_Nil_conv)
  next
    case (Cons c r)
    have len: "length r < length s" using dropWhile_ConsD [OF Cons] .
    have c: "sublist (c # r) (CHR ''$'' # s)"
      using dropWhile_Cons_split(1) [OF Cons] by (rule sublist_suffix)
    have r: "sublist r (CHR ''$'' # s)"
      using c by (meson sublist_Cons_right sublist_order.order_trans sublist_order.order_refl)
    have d: "sublist (drop n r) (CHR ''$'' # s)" for n
      using r by (meson sublist_drop sublist_order.order_trans)
    from False Cons item show ?thesis
    proof (cases rule: scan_inside_cases)
      case dollar
      from occurs_later [OF IH [OF len dollar(2)]] c dollar(1) show ?thesis by simp
    next
      case now
      with occurs_inside [OF fits, of "[c]" r None] Cons show ?thesis by simp
    next
      case (out r')
      with len have "length r' < length s" by auto
      from occurs_later [OF IH [OF this out(1)]] out(2) r d show ?thesis by auto
    next
      case cr
      from occurs_later [OF IH [OF len cr(2)]] r occurs_inside [OF fits, of "[c]" r None] Cons cr(1)
      show ?thesis by simp
    next
      case (hex hi lo r' v)
      have "length r' < length s" using len hex(2) by simp
      from occurs_later [OF IH [OF this hex(4)]] d [of 2] hex Cons
        occurs_inside [OF fits, of "[c, hi, lo]" r' "Some v"]
      show ?thesis by simp
    qed
  qed
qed

lemma nmea_scan_sound:
  "Sentence_item body ck \<in> set (nmea_scan m s) \<Longrightarrow> occurs_from m body ck s"
proof (induction "length s" arbitrary: m s rule: less_induct)
  case less
  note IH = less.hyps
  show ?case
  proof (cases m)
    case Outside
    show ?thesis
    proof (cases "dropWhile (\<lambda>c. c \<noteq> CHR ''$'') s")
      case (Cons c r)
      from dropWhile_Cons_split [OF Cons] have c: "c = CHR ''$''" "sublist (c # r) s"
        by (auto, metis sublist_append_leftI)
      from less.prems have "Sentence_item body ck \<in> set (nmea_scan Inside r)"
        unfolding Outside by (subst (asm) nmea_scan.simps) (simp add: Cons)
      from IH [OF dropWhile_ConsD [OF Cons] this] c Outside show ?thesis
        by (auto simp: occurs_from_def intro: occurs_mono)
    qed (use less.prems in \<open>simp add: Outside nmea_scan.simps del: dropWhile_eq_Nil_conv\<close>)
  next
    case Inside
    with scan_sound_inside [of s body ck] IH less.prems show ?thesis by (simp add: occurs_from_def)
  next
    case (Ending b k)
    show ?thesis
    proof (cases "dropWhile not_end s")
      case (Cons c r)
      from dropWhile_Cons_split(1) [OF Cons] have c: "sublist (c # r) s" by (metis sublist_append_leftI)
      then have r: "sublist r s"
        by (meson sublist_Cons_right sublist_order.order_trans sublist_order.order_refl)
      from less.prems Cons Ending consider "body = b" "ck = k"
        | "c = CHR ''$''" "Sentence_item body ck \<in> set (nmea_scan Inside r)"
        | "Sentence_item body ck \<in> set (nmea_scan Outside r)"
        by (auto simp: nmea_scan.simps(3) new_start_tail_def split: if_splits)
      then show ?thesis
        using IH [OF dropWhile_ConsD [OF Cons]] c r Ending
        by cases (force simp: occurs_from_def intro: occurs_mono)+
    qed (use less.prems in \<open>simp add: Ending nmea_scan.simps del: dropWhile_eq_Nil_conv\<close>)
  qed
qed

text \<open>
  No sentence is invented: every sentence handed to the raw callback occurs in the bytes
  received since the parser was idle, between a \<open>$\<close> and its line end or checksum digits, its content
  free of framing characters and at most 256 long; when its checksum was sent, the digits are the
  XOR of the content, and what the callback gets is the tokenised content with the checksum marked
  present and valid exactly then.
\<close>

theorem nmea_reported_sentences_received:
  assumes "nmea_idle p" and "Raw_sentence sentence \<in> set (snd (nmea_feed p bs))"
  shows "\<exists>body ck. sentence = received_sentence body ck \<and> occurs body ck (map char_of_byte bs)
    \<and> (ck = None \<or> ck = Some (nmea_compute_checksum body))"
proof -
  have "refines p Outside (map char_of_byte bs)" by (rule idle_refines [OF assms(1)])
  with assms(2) obtain item where item: "item \<in> set (nmea_scan Outside (map char_of_byte bs))"
      "Raw_sentence sentence \<in> set (nmea_emit p item)"
    unfolding refines_def feed_chars [symmetric] by auto
  from item(2) obtain body ck where b: "item = Sentence_item body ck" "sentence_ok body ck"
      "sentence = received_sentence body ck"
    by (auto simp: nmea_emit_def nmea_report_error_def nmea_dispatch_def Let_def
        split: nmea_item.splits if_splits option.splits)
  with nmea_scan_sound [of body ck Outside] item(1) show ?thesis
    by (auto simp: occurs_from_def sentence_ok_def split: option.splits)
qed

theorem nmea_reported_sentences_received_witness:
  "\<exists>body ck. valid_sentence ''GP'' ''GGA'' [''12'', [], ''N''] = received_sentence body ck
     \<and> occurs body ck (''xy'' @ assemble ''GP'' ''GGA'' ''12,,N'')"
proof -
  have "well_formed ''GP'' ''GGA'' [''12'', [], ''N'']"
    by (simp add: well_formed_def plain_def NMEA_BUFFER_LEN_def)
  then have "snd (nmea_feed nmea_demo (map byte_of (''xy'' @ assemble ''GP'' ''GGA'' ''12,,N''))) =
      nmea_dispatch nmea_demo (valid_sentence ''GP'' ''GGA'' [''12'', [], ''N''])"
    using assembled_feed_events [OF nmea_demo_idle, of "[(''xy'', ''GP'', ''GGA'', [''12'', [], ''N''])]"]
    by simp
  then have "Raw_sentence (valid_sentence ''GP'' ''GGA'' [''12'', [], ''N''])
      \<in> set (snd (nmea_feed nmea_demo (map byte_of (''xy'' @ assemble ''GP'' ''GGA'' ''12,,N''))))"
    by (simp only:) (simp add: nmea_dispatch_def nmea_demo_def nmea_set_error_callback_def
        nmea_set_raw_sentence_callback_def nmea_parser_new_def)
  from nmea_reported_sentences_received [OF nmea_demo_idle this] show ?thesis
    unfolding map_char_of_byte_of by blast
qed

definition nmea_ctx_ok :: "nmea_parse_context \<Rightarrow> bool" where
  "nmea_ctx_ok ctx \<longleftrightarrow> length (nc_buf ctx) \<le> NMEA_BUFFER_LEN
     \<and> nc_running_checksum ctx = nmea_compute_checksum (nc_buf ctx)"

lemma nmea_ctx_ok_reset [simp]: "nmea_ctx_ok nmea_context_reset" "nmea_ctx_ok (body_ctx [])"
  by (simp_all add: nmea_ctx_ok_def nmea_context_reset_def)

lemma nmea_ctx_ok_update [simp]:
  "nmea_ctx_ok (ctx\<lparr>nc_state := st\<rparr>) = nmea_ctx_ok ctx"
  "nmea_ctx_ok (ctx\<lparr>nc_cs_hi := h\<rparr>) = nmea_ctx_ok ctx"
  "nmea_ctx_ok (ctx\<lparr>nc_received_checksum := v\<rparr>) = nmea_ctx_ok ctx"
  "nmea_ctx_ok (ctx\<lparr>nc_checksum_present := b\<rparr>) = nmea_ctx_ok ctx"
  by (simp_all add: nmea_ctx_ok_def)

lemma nmea_ctx_ok_complete: "nmea_ctx_ok (np_ctx (fst (on_sentence_complete p)))"
  by (simp add: on_sentence_complete_def Let_def discard_with_error_def)

lemma nmea_ctx_ok_step:
  assumes "nmea_ctx_ok (np_ctx p)"
  shows "nmea_ctx_ok (np_ctx (fst (nmea_process_byte p b)))"
proof (cases "nc_state (np_ctx p)")
  case Accumulate_sentence
  have "nmea_ctx_ok ((np_ctx p)\<lparr>nc_buf := nc_buf (np_ctx p) @ [char_of_byte b],
      nc_running_checksum := nc_running_checksum (np_ctx p) XOR b\<rparr>)"
    if "\<not> NMEA_BUFFER_LEN \<le> length (nc_buf (np_ctx p))"
    using assms that by (simp add: nmea_ctx_ok_def nmea_compute_checksum_simps)
  moreover have "nmea_ctx_ok (nmea_context_reset\<lparr>nc_buf := [], nc_state := Accumulate_sentence\<rparr>)"
    by (simp add: nmea_ctx_ok_def nmea_context_reset_def)
  ultimately show ?thesis using assms Accumulate_sentence
    by (simp add: nmea_process_byte_def Let_def discard_with_error_def nmea_ctx_ok_complete)
qed (use assms in \<open>simp_all add: nmea_process_byte_def Let_def discard_with_error_def nmea_ctx_ok_complete
  split: option.split\<close>)

text \<open>
  Whatever is received, the content buffer never holds more than 256 characters, so the
  terminating zero fits its array of 257, and the running checksum is always the checksum of the
  buffered content.
\<close>

theorem nmea_buffer_bounded:
  assumes "nmea_idle p" and "ctx = np_ctx (fst (nmea_feed p bs))"
  shows "length (nc_buf ctx) \<le> 256 \<and> nc_running_checksum ctx = nmea_compute_checksum (nc_buf ctx)"
proof -
  have "nmea_ctx_ok (np_ctx p)" using assms(1) by (simp add: nmea_idle_def)
  from nmea_machine.feed_invariant [where I = "\<lambda>p. nmea_ctx_ok (np_ctx p)", OF nmea_ctx_ok_step this, of bs]
  show ?thesis by (simp add: assms(2) nmea_ctx_ok_def NMEA_BUFFER_LEN_def)
qed

theorem nmea_buffer_bounded_witness:
  "length (nc_buf (np_ctx (fst (nmea_feed nmea_demo (replicate 1000 36))))) \<le> 256"
  using nmea_buffer_bounded [OF nmea_demo_idle refl] by blast

lemma find_registered:
  "nmea_registry_find (fold nmea_register_parser sps reg) type =
     nmea_registry_find reg type @ filter (\<lambda>sp. sp_type sp = type) sps"
  by (induction sps arbitrary: reg) (simp_all add: nmea_registry_find_register)

text \<open>
  A sentence is dispatched to the raw callback first, then to every parser registered for
  its type and to no other, in the order of registration; each of them either fires its callback
  or has its failure reported as \<open>malformed_fields\<close>, and without such a parser the sentence is
  reported as unknown only if the caller asked for it.
\<close>

theorem nmea_dispatch_order:
  "nmea_dispatch (nmea_parser_new (fold nmea_register_parser sps (\<lambda>_. None))
       \<lparr>np_raw_cb := raw, np_error_cb := err, np_report_unknown := unknown\<rparr>) s =
     (if raw then [Raw_sentence s] else []) @
     (if \<forall>sp \<in> set sps. sp_type sp \<noteq> sen_type s
      then (if unknown \<and> err then [Nmea_error (unknown_info s)] else [])
      else concat (map (\<lambda>sp. case sp_parse sp s of Some m \<Rightarrow> [Sentence_callback m]
             | None \<Rightarrow> if err then [Nmea_error (malformed_info s)] else [])
           (filter (\<lambda>sp. sp_type sp = sen_type s) sps)))"
proof -
  have "nmea_registry_find (fold nmea_register_parser sps (\<lambda>_. None)) (sen_type s) =
      filter (\<lambda>sp. sp_type sp = sen_type s) sps"
    unfolding find_registered by (simp add: nmea_registry_find_def)
  then show ?thesis
    by (simp add: nmea_dispatch_def nmea_parser_new_def Let_def filter_empty_conv)
qed

theorem nmea_dispatch_order_witness:
  "nmea_dispatch (nmea_parser_new (fold nmea_register_parser
        [\<lparr>sp_type = ''GGA'', sp_parse = (\<lambda>s. Some (1::nat))\<rparr>, \<lparr>sp_type = ''GGA'', sp_parse = (\<lambda>s. None)\<rparr>]
        (\<lambda>_. None))\<lparr>np_raw_cb := False, np_error_cb := True, np_report_unknown := False\<rparr>)
     (valid_sentence ''GP'' ''GGA'' [[]]) =
   [Sentence_callback 1, Nmea_error (malformed_info (valid_sentence ''GP'' ''GGA'' [[]]))]"
  unfolding nmea_dispatch_order by (simp add: valid_sentence_def)

end
