(* ===== verification/Nmea_Gsv.thy ===== *)
theory Nmea_Gsv
  imports Nmea_Fields Nmea_Parser
begin

text \<open>
  The satellites-in-view sentences: the message (\<open>sentences/nmea_gsv.h\<close>), its parser
  (\<open>parsers/gsv_parser.cpp\<close>) and the generator's builder (\<open>generator/builders/gsv_builder.cpp\<close>),
  which splits the satellites of a constellation over sentences of at most four. The properties
  take satellites from the builder over the wire back to the parser's callback.
\<close>

section \<open>Messages\<close>

record gsv_satellite =
  sv_id :: u8
  sv_elevation :: i8
  sv_azimuth :: u16
  sv_snr :: i8

definition gsv_satellite_new :: gsv_satellite where
  "gsv_satellite_new = \<lparr>sv_id = 0, sv_elevation = - 1, sv_azimuth = 0, sv_snr = - 1\<rparr>"

text \<open>\<open>gsv_satellites\<close> is the array of four.\<close>

record nmea_gsv =
  gsv_talker :: string
  gsv_num_msgs :: u8
  gsv_msg_num :: u8
  gsv_sats_in_view :: u8
  gsv_satellites :: "gsv_satellite list"
  gsv_sat_count :: u8
  gsv_signal_id :: u8
  gsv_valid :: bool

section \<open>Parser\<close>

text \<open>One turn of the satellite loop; the block starts at field \<open>3 + 4 i\<close>.\<close>

definition gsv_parse_sv :: "nmea_sentence \<Rightarrow> nat \<Rightarrow> gsv_satellite" where
  "gsv_parse_sv s i =
     (let base = 3 + i * 4 in
      \<lparr>sv_id = (case parse_int (sen_field s base) of None \<Rightarrow> 0 | Some v \<Rightarrow> ucast v),
       sv_elevation = (if sen_has_field s (base + 1)
         then case parse_int (sen_field s (base + 1)) of None \<Rightarrow> - 1 | Some v \<Rightarrow> ucast v else - 1),
       sv_azimuth = (if sen_has_field s (base + 2)
         then case parse_int (sen_field s (base + 2)) of None \<Rightarrow> 0 | Some v \<Rightarrow> ucast v else 0),
       sv_snr = (if sen_has_field s (base + 3)
         then case parse_int (sen_field s (base + 3)) of None \<Rightarrow> - 1 | Some v \<Rightarrow> ucast v else - 1)\<rparr>)"

definition gsv_parse :: "nmea_sentence \<Rightarrow> nmea_gsv option" where
  "gsv_parse s =
     (if sen_field_count s < 3 then None
      else case parse_int (sen_field s 0) of None \<Rightarrow> None
      | Some num_msgs \<Rightarrow> (case parse_int (sen_field s 1) of None \<Rightarrow> None
      | Some msg_num \<Rightarrow> (case parse_int (sen_field s 2) of None \<Rightarrow> None
      | Some sats \<Rightarrow>
          let remaining = (if sen_field_count s > 3 then sen_field_count s - 3 else 0);
              sat_fields = (remaining div 4) * 4;
              sig_field = 3 + sat_fields;
              num_sats = sat_fields div 4;
              signal_id = (if sig_field < sen_field_count s \<and> sen_has_field s sig_field
                then case parse_int (sen_field s sig_field) of None \<Rightarrow> 0 | Some sig \<Rightarrow> ucast sig
                else 0);
              sat_count = (if num_sats > 4 then 4 else num_sats)
          in Some \<lparr>gsv_talker = sen_talker s, gsv_num_msgs = ucast num_msgs,
               gsv_msg_num = ucast msg_num, gsv_sats_in_view = ucast sats,
               gsv_satellites = map (gsv_parse_sv s) [0..<sat_count]
                 @ replicate (4 - sat_count) gsv_satellite_new,
               gsv_sat_count = of_nat sat_count, gsv_signal_id = signal_id, gsv_valid = True\<rparr>)))"

text \<open>The parser object over its callback \<open>cb\<close>.\<close>

definition gsv_parser :: "(nmea_gsv \<Rightarrow> 'm) \<Rightarrow> 'm sentence_parser" where
  "gsv_parser cb = \<lparr>sp_type = ''GSV'', sp_parse = map_option cb \<circ> gsv_parse\<rparr>"

section \<open>Builder\<close>

record gsv_satellite_record =
  rec_sv_id :: u8
  rec_elevation_deg :: i8
  rec_azimuth_deg :: i16
  rec_snr :: u8

record gsv_input =
  gi_talker :: string
  gi_satellites :: "gsv_satellite_record list"
  gi_valid :: bool

definition SATS_PER_GSV_MSG :: u8 where "SATS_PER_GSV_MSG = 4"

text \<open>The builder over the XOR checksum and the formatter; the base class keeps talker and flag.\<close>

record gsv_builder =
  gb_talker :: string
  gb_enabled :: bool
  gb_input :: gsv_input
  gb_input_valid :: bool

definition gsv_builder_new :: "string \<Rightarrow> bool \<Rightarrow> gsv_builder" where
  "gsv_builder_new talker enabled = \<lparr>gb_talker = talker, gb_enabled = enabled,
     gb_input = \<lparr>gi_talker = [], gi_satellites = [], gi_valid = False\<rparr>, gb_input_valid = False\<rparr>"

definition gsv_prepare :: "gsv_input \<Rightarrow> gsv_builder \<Rightarrow> gsv_builder" where
  "gsv_prepare input b = b\<lparr>gb_input := input, gb_input_valid := gi_valid input\<rparr>"

definition gsv_sat_fields :: "gsv_satellite_record \<Rightarrow> string" where
  "gsv_sat_fields sv =
     '','' @ format_int (ucast (rec_sv_id sv)) 0 @
     '','' @ (if 0 \<le> sint (rec_elevation_deg sv) then format_int (scast (rec_elevation_deg sv)) 0 else []) @
     '','' @ format_int (scast (rec_azimuth_deg sv)) 0 @
     '','' @ (if 0 < rec_snr sv then format_int (ucast (rec_snr sv)) 0 else [])"

definition gsv_build_one :: "gsv_builder \<Rightarrow> gsv_input \<Rightarrow> u8 \<Rightarrow> u8 \<Rightarrow> u8 \<Rightarrow> string" where
  "gsv_build_one b d msg_num total_msgs sat_offset =
     (let total_sats = (of_nat (length (gi_satellites d)) :: u8);
          fields = format_int (ucast total_msgs) 0 @ '','' @ format_int (ucast msg_num) 0 @ '',''
            @ format_int (ucast total_sats) 2;
          count_in_msg =
            (if unat sat_offset + unat SATS_PER_GSV_MSG \<le> unat total_sats then SATS_PER_GSV_MSG
             else total_sats - sat_offset);
          fields = fields @ concat (map (\<lambda>i. gsv_sat_fields (gi_satellites d ! (unat sat_offset + i)))
            [0..<unat count_in_msg]);
          use_talker = (if gi_talker d = [] then gb_talker b else gi_talker d);
          content = use_talker @ ''GSV'' @ '','' @ fields;
          raw_cs = nmea_compute_checksum content
      in ''$'' @ content @ ''*'' @ checksum_to_hex raw_cs @ [CHR 0x0D, CHR 0x0A])"

text \<open>The loop over \<open>msg\<close> from 1 to \<open>total_msgs\<close>, at most 64, so its \<open>uint8_t\<close> does not wrap.\<close>

definition gsv_build_all :: "gsv_builder \<Rightarrow> string list" where
  "gsv_build_all b =
     (if \<not> gb_enabled b \<or> \<not> gb_input_valid b then []
      else let d = gb_input b;
               total_sats = (of_nat (length (gi_satellites d)) :: u8);
               total_msgs = (if total_sats = 0 then 1
                 else (ucast ((ucast total_sats + ucast SATS_PER_GSV_MSG - 1 :: u32)
                   div ucast SATS_PER_GSV_MSG) :: u8))
           in map (\<lambda>n. let msg = (of_nat n :: u8);
                          offset = (msg - 1) * SATS_PER_GSV_MSG
                      in gsv_build_one b d msg total_msgs offset) [1..<Suc (unat total_msgs)])"

definition gsv_build :: "gsv_builder \<Rightarrow> string" where
  "gsv_build b = (let all = gsv_build_all b in if all = [] then [] else all ! 0)"

section \<open>The fields of a built sentence\<close>

definition sat_field_list :: "gsv_satellite_record \<Rightarrow> string list" where
  "sat_field_list sv = [format_int (ucast (rec_sv_id sv)) 0,
     (if 0 \<le> sint (rec_elevation_deg sv) then format_int (scast (rec_elevation_deg sv)) 0 else []),
     format_int (scast (rec_azimuth_deg sv)) 0,
     (if 0 < rec_snr sv then format_int (ucast (rec_snr sv)) 0 else [])]"

lemma join_fields_Cons: "join_fields (f # fs) = f @ concat (map (\<lambda>g. CHR '','' # g) fs)"
  by (induction fs arbitrary: f) simp_all

lemma concat_sat_fields:
  "concat (map gsv_sat_fields svs) = concat (map (\<lambda>g. CHR '','' # g) (concat (map sat_field_list svs)))"
  by (induction svs) (simp_all add: gsv_sat_fields_def sat_field_list_def)

text \<open>The satellites of message \<open>n\<close> (from 0): four from \<open>4 n\<close> on.\<close>

definition gsv_chunk :: "gsv_satellite_record list \<Rightarrow> nat \<Rightarrow> gsv_satellite_record list" where
  "gsv_chunk svs n = take 4 (drop (4 * n) svs)"

definition gsv_messages :: "'a list \<Rightarrow> nat" where
  "gsv_messages svs = (if svs = [] then 1 else (length svs + 3) div 4)"

definition gsv_fields :: "gsv_satellite_record list \<Rightarrow> nat \<Rightarrow> string list" where
  "gsv_fields svs n =
     [format_int (of_nat (gsv_messages svs)) 0, format_int (of_nat (Suc n)) 0,
      format_int (of_nat (length svs)) 2] @ concat (map sat_field_list (gsv_chunk svs n))"

lemma small_nat_casts:
  assumes "n < 256"
  shows "unat (of_nat n :: u8) = n" "(ucast (of_nat n :: u8) :: i32) = of_nat n"
    "unat (ucast (of_nat n :: u8) :: u32) = n"
proof -
  show "unat (of_nat n :: u8) = n" using assms by (simp add: unat_of_nat)
  then show "unat (ucast (of_nat n :: u8) :: u32) = n" by simp
  from assms show "(ucast (of_nat n :: u8) :: i32) = of_nat n"
    by (simp add: word_unat_eq_iff unat_of_nat unat_ucast_u8)
qed

lemma gsv_messages_bounds:
  assumes "length svs < 256"
  shows "0 < gsv_messages svs" "gsv_messages svs \<le> 64" "length svs \<le> 4 * gsv_messages svs"
    "n < gsv_messages svs \<Longrightarrow> 4 * n \<le> length svs"
proof -
  have len: "svs \<noteq> [] \<Longrightarrow> 0 < length svs" by simp
  have arith: "0 < (k + 3) div 4" "(k + 3) div 4 \<le> 64" "k \<le> 4 * ((k + 3) div 4)"
    if "0 < k" "k < 256" for k :: nat
    using that by presburger+
  show "0 < gsv_messages svs" "gsv_messages svs \<le> 64" "length svs \<le> 4 * gsv_messages svs"
    using arith [OF len assms] by (simp_all add: gsv_messages_def)
  show "4 * n \<le> length svs" if "n < gsv_messages svs"
  proof (cases "svs = []")
    case False
    with that have "n < (length svs + 3) div 4" by (simp add: gsv_messages_def)
    then show ?thesis by presburger
  qed (use that in \<open>simp add: gsv_messages_def\<close>)
qed

lemma gsv_total_msgs:
  assumes "length svs < 256"
  shows "(if (of_nat (length svs) :: u8) = 0 then 1
     else (ucast ((ucast (of_nat (length svs) :: u8) + ucast SATS_PER_GSV_MSG - 1 :: u32)
        div ucast SATS_PER_GSV_MSG) :: u8)) = of_nat (gsv_messages svs)"
proof (cases "svs = []")
  case True
  then show ?thesis by (simp add: gsv_messages_def)
next
  case False
  let ?l = "ucast (of_nat (length svs) :: u8) :: u32"
  have nz: "(of_nat (length svs) :: u8) \<noteq> 0"
    using small_nat_casts(1) [OF assms] False by (metis length_0_conv unsigned_0)
  have sum: "?l + ucast SATS_PER_GSV_MSG - 1 = of_nat (length svs + 3)"
    using small_nat_casts(3) [OF assms] by (simp add: SATS_PER_GSV_MSG_def flip: word_of_nat_eq_iff)
      (metis of_nat_unat ucast_id unsigned_ucast_eq)
  have "unat (of_nat (length svs + 3) :: u32) = length svs + 3"
    using assms by (subst unat_of_nat) simp
  then have "unat ((?l + ucast SATS_PER_GSV_MSG - 1) div ucast SATS_PER_GSV_MSG) = gsv_messages svs"
    unfolding sum by (simp add: unat_div SATS_PER_GSV_MSG_def gsv_messages_def False)
  then have "((?l + ucast SATS_PER_GSV_MSG - 1) div ucast SATS_PER_GSV_MSG) = of_nat (gsv_messages svs)"
    by (metis of_nat_unat ucast_id)
  moreover have "gsv_messages svs < 256" using gsv_messages_bounds(2) [OF assms] by simp
  ultimately have "(ucast ((?l + ucast SATS_PER_GSV_MSG - 1) div ucast SATS_PER_GSV_MSG) :: u8) =
      of_nat (gsv_messages svs)"
    by (simp add: word_unat_eq_iff unat_of_nat unsigned_ucast_eq take_bit_nat_eq_self)
  with nz show ?thesis by simp
qed

lemma map_nth_chunk: "map (\<lambda>i. svs ! (m + i)) [0..<min 4 (length svs - m)] = take 4 (drop m svs)"
  by (rule nth_equalityI) auto

lemma gsv_build_one_assemble:
  assumes small: "length (gi_satellites d) < 256" and n: "n < gsv_messages (gi_satellites d)"
  shows "gsv_build_one b d (of_nat (Suc n)) (of_nat (gsv_messages (gi_satellites d))) (of_nat (4 * n)) =
    assemble (if gi_talker d = [] then gb_talker b else gi_talker d) ''GSV''
      (join_fields (gsv_fields (gi_satellites d) n))"
proof -
  let ?svs = "gi_satellites d"
  let ?total = "of_nat (length ?svs) :: u8" and ?off = "of_nat (4 * n) :: u8"
  let ?count = "if unat ?off + unat SATS_PER_GSV_MSG \<le> unat ?total then SATS_PER_GSV_MSG else ?total - ?off"
  have le: "4 * n \<le> length ?svs" using gsv_messages_bounds(4) [OF small n] .
  have off: "unat ?off = 4 * n" "unat ?total = length ?svs"
    using small le by (simp_all add: small_nat_casts del: of_nat_mult)
  have "unat (?total - ?off) = length ?svs - 4 * n"
    using off le by (simp add: unat_sub word_le_nat_alt del: of_nat_mult)
  then have count: "unat ?count = min 4 (length ?svs - 4 * n)"
    using off by (auto simp: SATS_PER_GSV_MSG_def del: of_nat_mult)
  have "map (\<lambda>i. gsv_sat_fields (?svs ! (unat ?off + i))) [0..<unat ?count] =
      map gsv_sat_fields (gsv_chunk ?svs n)"
    unfolding count unfolding off(1) gsv_chunk_def map_nth_chunk [symmetric] by simp
  moreover have "gsv_messages ?svs < 256" "Suc n < 256"
    using gsv_messages_bounds(2) [OF small] n by simp_all
  ultimately show ?thesis
    using small by (simp add: gsv_build_one_def Let_def assemble_def gsv_fields_def small_nat_casts
        join_fields_Cons concat_sat_fields del: of_nat_Suc of_nat_mult)
qed

lemma gsv_build_all_assemble:
  assumes "gb_enabled b" and "gb_input_valid b" and "gb_input b = d" and "length (gi_satellites d) < 256"
  shows "gsv_build_all b = map (\<lambda>n. assemble (if gi_talker d = [] then gb_talker b else gi_talker d) ''GSV''
      (join_fields (gsv_fields (gi_satellites d) n))) [0..<gsv_messages (gi_satellites d)]"
proof -
  let ?m = "gsv_messages (gi_satellites d)"
  have m: "unat (of_nat ?m :: u8) = ?m"
    using gsv_messages_bounds(2) [OF assms(4)] by (simp add: small_nat_casts)
  have "gsv_build_all b = map (\<lambda>n. gsv_build_one b d (of_nat n) (of_nat ?m)
      ((of_nat n - 1) * SATS_PER_GSV_MSG)) [1..<Suc ?m]"
    using assms(1-3) gsv_total_msgs [OF assms(4)] m by (simp add: gsv_build_all_def Let_def)
  also have "\<dots> = map (\<lambda>n. gsv_build_one b d (of_nat (Suc n)) (of_nat ?m) (of_nat (4 * n))) [0..<?m]"
    by (simp add: map_Suc_upt [symmetric] comp_def SATS_PER_GSV_MSG_def mult.commute del: upt_Suc)
  also have "\<dots> = map (\<lambda>n. assemble (if gi_talker d = [] then gb_talker b else gi_talker d) ''GSV''
      (join_fields (gsv_fields (gi_satellites d) n))) [0..<?m]"
    using gsv_build_one_assemble [OF assms(4)] by (intro map_cong) auto
  finally show ?thesis .
qed

section \<open>Reading a built sentence\<close>

definition gsv_received :: "gsv_satellite_record \<Rightarrow> gsv_satellite" where
  "gsv_received sv = \<lparr>sv_id = rec_sv_id sv,
     sv_elevation = (if 0 \<le> sint (rec_elevation_deg sv) then rec_elevation_deg sv else - 1),
     sv_azimuth = rec_azimuth_deg sv,
     sv_snr = (if 0 < rec_snr sv then rec_snr sv else - 1)\<rparr>"

definition gsv_received_message :: "string \<Rightarrow> gsv_satellite_record list \<Rightarrow> nat \<Rightarrow> nmea_gsv" where
  "gsv_received_message talker svs n = \<lparr>gsv_talker = talker,
     gsv_num_msgs = of_nat (gsv_messages svs), gsv_msg_num = of_nat (Suc n),
     gsv_sats_in_view = of_nat (length svs),
     gsv_satellites = map gsv_received (gsv_chunk svs n)
       @ replicate (4 - length (gsv_chunk svs n)) gsv_satellite_new,
     gsv_sat_count = of_nat (length (gsv_chunk svs n)), gsv_signal_id = 0, gsv_valid = True\<rparr>"

lemma cast_back:
  "ucast (ucast (b :: u8) :: i32) = b" "ucast (scast (e :: i8) :: i32) = e"
  "(ucast (scast (a :: i16) :: i32) :: u16) = a"
  by (rule bit_word_eqI, simp add: bit_simps)+

lemma length_sat_field_list [simp]: "length (sat_field_list sv) = 4"
  by (simp add: sat_field_list_def)

lemma length_concat_sats [simp]: "length (concat (map sat_field_list svs)) = 4 * length svs"
  by (induction svs) simp_all

lemma nth_concat_sats:
  "i < length svs \<Longrightarrow> j < 4 \<Longrightarrow> concat (map sat_field_list svs) ! (i * 4 + j) = sat_field_list (svs ! i) ! j"
proof (induction svs arbitrary: i)
  case (Cons sv svs)
  then show ?case by (cases i) (simp_all add: nth_append)
qed simp

lemma length_gsv_chunk: "length (gsv_chunk svs n) \<le> 4"
  by (simp add: gsv_chunk_def)

lemma length_gsv_fields [simp]: "length (gsv_fields svs n) = 3 + 4 * length (gsv_chunk svs n)"
  by (simp add: gsv_fields_def)

lemma gsv_fields_nth:
  assumes "i < length (gsv_chunk svs n)" and "j < 4" and "sen_fields s = gsv_fields svs n"
  shows "sen_field s (3 + i * 4 + j) = sat_field_list (gsv_chunk svs n ! i) ! j"
    and "sen_has_field s (3 + i * 4 + j) \<longleftrightarrow> sat_field_list (gsv_chunk svs n ! i) ! j \<noteq> []"
proof -
  have "3 + i * 4 + j < length (sen_fields s)" using assms by simp
  moreover have "sen_fields s ! (3 + i * 4 + j) = sat_field_list (gsv_chunk svs n ! i) ! j"
    using nth_concat_sats [OF assms(1,2)] by (simp add: assms(3) gsv_fields_def nth_append numeral_3_eq_3)
  ultimately show "sen_field s (3 + i * 4 + j) = sat_field_list (gsv_chunk svs n ! i) ! j"
    "sen_has_field s (3 + i * 4 + j) \<longleftrightarrow> sat_field_list (gsv_chunk svs n ! i) ! j \<noteq> []"
    by (simp_all add: sen_field_def sen_has_field_def)
qed

lemma gsv_parse_sv_built:
  assumes "i < length (gsv_chunk svs n)" and "sen_fields s = gsv_fields svs n"
  shows "gsv_parse_sv s i = gsv_received (gsv_chunk svs n ! i)"
  using gsv_fields_nth(1) [OF assms(1) _ assms(2), of 0] gsv_fields_nth [OF assms(1) _ assms(2), of 1]
    gsv_fields_nth [OF assms(1) _ assms(2), of 2] gsv_fields_nth [OF assms(1) _ assms(2), of 3]
  by (simp add: gsv_parse_sv_def gsv_received_def sat_field_list_def Let_def cast_back
      numeral_2_eq_2 numeral_3_eq_3)

lemma gsv_parse_built:
  assumes "sen_fields s = gsv_fields svs n" and "sen_talker s = talker"
    and "length svs < 256" and "n < gsv_messages svs"
  shows "gsv_parse s = Some (gsv_received_message talker svs n)"
proof -
  let ?c = "length (gsv_chunk svs n)"
  have count: "sen_field_count s = 3 + 4 * ?c" by (simp add: sen_field_count_def assms(1))
  have head: "sen_field s 0 = format_int (of_nat (gsv_messages svs)) 0"
    "sen_field s 1 = format_int (of_nat (Suc n)) 0" "sen_field s 2 = format_int (of_nat (length svs)) 2"
    using assms(1) by (simp_all add: sen_field_def gsv_fields_def)
  have svs: "map (gsv_parse_sv s) [0..<?c] = map gsv_received (gsv_chunk svs n)"
    by (rule nth_equalityI) (simp_all add: gsv_parse_sv_built [OF _ assms(1)])
  have small: "(ucast (of_nat k :: i32) :: u8) = of_nat k" if "k < 256" for k
    using that by (simp add: word_unat_eq_iff unat_of_nat unsigned_ucast_eq take_bit_nat_eq_self)
  have "gsv_messages svs < 256" "Suc n < 256"
    using gsv_messages_bounds(2) [OF assms(3)] assms(4) by simp_all
  then show ?thesis
    using length_gsv_chunk [of svs n] svs assms(2,3)
    by (simp add: gsv_parse_def count head Let_def gsv_received_message_def small
        del: of_nat_Suc One_nat_def)
qed

lemma length_join_fields:
  "\<forall>f \<in> set fs. length f \<le> k \<Longrightarrow> length (join_fields fs) \<le> Suc k * length fs"
  by (induction fs rule: join_fields.induct) auto

definition field_ok :: "string \<Rightarrow> bool" where
  "field_ok f \<longleftrightarrow> length f \<le> 11 \<and> (\<forall>c \<in> set f. plain c \<and> c \<noteq> CHR '','')"

lemma field_ok_Nil [simp]: "field_ok []"
  by (simp add: field_ok_def)

lemma field_ok_format_int [simp]:
  assumes w: "w \<le> 11"
  shows "field_ok (format_int v w)"
proof -
  have d: "\<forall>c \<in> set digits. plain c \<and> c \<noteq> CHR '',''" by (simp add: digits_def plain_def)
  have "plain CHR ''-'' \<and> CHR ''-'' \<noteq> CHR '',''" by (simp add: plain_def)
  with d set_sprint_int [of _ "nat w" "sint v"] have "\<forall>c \<in> set (format_int v w). plain c \<and> c \<noteq> CHR '',''"
    using w by (auto simp: format_int_sprint is_digit_def)
  moreover have "length (format_int v w) \<le> 11"
    using length_format_int_arg [of "nat w" v] w by (simp add: format_int_sprint)
  ultimately show ?thesis by (simp add: field_ok_def)
qed

lemma gsv_fields_chars: "\<forall>f \<in> set (gsv_fields svs n). field_ok f"
  by (simp add: gsv_fields_def sat_field_list_def)

definition talker_ok :: "string \<Rightarrow> bool" where
  "talker_ok t \<longleftrightarrow> length t = 2 \<and> t ! 0 \<noteq> CHR ''P'' \<and> (\<forall>c \<in> set t. plain c \<and> c \<noteq> CHR '','')"

lemma well_formed_gsv:
  assumes "talker_ok t"
  shows "well_formed t ''GSV'' (gsv_fields svs n)"
proof -
  have "length (join_fields (gsv_fields svs n)) \<le> Suc 11 * length (gsv_fields svs n)"
    using gsv_fields_chars unfolding field_ok_def by (intro length_join_fields) blast
  also have "\<dots> \<le> 12 * 19" using length_gsv_chunk [of svs n] by simp
  finally have "length (t @ ''GSV'' @ '','' @ join_fields (gsv_fields svs n)) \<le> NMEA_BUFFER_LEN"
    using assms by (simp add: NMEA_BUFFER_LEN_def talker_ok_def)
  moreover have "\<forall>c \<in> set ''GSV''. plain c \<and> c \<noteq> CHR '',''" by (simp add: plain_def)
  moreover have "gsv_fields svs n \<noteq> []" by (simp add: gsv_fields_def)
  moreover have "\<forall>f \<in> set (gsv_fields svs n). \<forall>c \<in> set f. plain c \<and> c \<noteq> CHR '',''"
    using gsv_fields_chars unfolding field_ok_def by blast
  ultimately show ?thesis
    using assms unfolding well_formed_def talker_ok_def set_append by simp
qed

section \<open>Properties\<close>

lemma concat_chunks: "concat (map (gsv_chunk svs) [0..<n]) = take (4 * n) svs"
proof (induction n)
  case (Suc n)
  have "take (4 * n) svs @ take 4 (drop (4 * n) svs) = take (4 * n + 4) svs" by (rule take_add [symmetric])
  with Suc show ?case by (simp add: gsv_chunk_def add.commute)
qed simp

lemma received_message_satellites:
  "take (unat (gsv_sat_count (gsv_received_message t svs n))) (gsv_satellites (gsv_received_message t svs n))
     = map gsv_received (gsv_chunk svs n)"
  using length_gsv_chunk [of svs n] by (simp add: gsv_received_message_def small_nat_casts)

text \<open>
  C32 (roundtrip). The satellites of a constellation survive the wire: all sentences the builder makes of up
  to 255 satellites, fed to an idle NMEA parser with the GSV parser installed, are decoded into
  the messages 1 to n of one set, and the satellites of these messages together are the
  builder's, in order, with an elevation below zero and a signal of zero read as not available.
\<close>

theorem gsv_sets_roundtrip:
  assumes "nmea_idle p" and "\<not> np_raw_cb p"
    and "nmea_registry_find (np_registry p) ''GSV'' = [gsv_parser cb]"
    and "gb_enabled b" and "gi_valid d" and "length (gi_satellites d) < 256" and "talker_ok (gi_talker d)"
  shows "snd (nmea_feed p (map byte_of (concat (gsv_build_all (gsv_prepare d b))))) =
      map (\<lambda>n. Sentence_callback (cb (gsv_received_message (gi_talker d) (gi_satellites d) n)))
        [0..<gsv_messages (gi_satellites d)]
    \<and> concat (map (\<lambda>n. let m = gsv_received_message (gi_talker d) (gi_satellites d) n
               in take (unat (gsv_sat_count m)) (gsv_satellites m)) [0..<gsv_messages (gi_satellites d)])
      = map gsv_received (gi_satellites d)"
proof
  let ?t = "gi_talker d" and ?svs = "gi_satellites d"
  let ?items = "map (\<lambda>n. ([], ?t, ''GSV'', gsv_fields ?svs n)) [0..<gsv_messages ?svs]"
  have nonempty: "?t \<noteq> []" using assms(7) unfolding talker_ok_def by (metis list.size(3) zero_neq_numeral)
  have "gsv_build_all (gsv_prepare d b) =
      map (\<lambda>n. assemble ?t ''GSV'' (join_fields (gsv_fields ?svs n))) [0..<gsv_messages ?svs]"
    using gsv_build_all_assemble [of "gsv_prepare d b" d] assms(4,5,6) nonempty
    by (simp add: gsv_prepare_def)
  then have wire: "concat (gsv_build_all (gsv_prepare d b)) =
      concat (map (\<lambda>(noise, talker, type, fs). noise @ assemble talker type (join_fields fs)) ?items)"
    by (simp add: comp_def)
  have ok: "\<forall>(noise, talker, type, fs) \<in> set ?items. CHR ''$'' \<notin> set noise \<and> well_formed talker type fs"
    using well_formed_gsv [OF assms(7)] by auto
  have "nmea_dispatch p (valid_sentence ?t ''GSV'' (gsv_fields ?svs n)) =
      [Sentence_callback (cb (gsv_received_message ?t ?svs n))]" if "n < gsv_messages ?svs" for n
    using gsv_parse_built [OF _ _ assms(6) that, of "valid_sentence ?t ''GSV'' (gsv_fields ?svs n)"] assms(2,3)
    by (simp add: nmea_dispatch_def valid_sentence_def gsv_parser_def)
  then have "concat (map (\<lambda>(noise, talker, type, fs). nmea_dispatch p (valid_sentence talker type fs)) ?items) =
      concat (map (\<lambda>n. [Sentence_callback (cb (gsv_received_message ?t ?svs n))]) [0..<gsv_messages ?svs])"
    unfolding map_map comp_def by (intro arg_cong [of _ _ concat] map_cong) auto
  then show "snd (nmea_feed p (map byte_of (concat (gsv_build_all (gsv_prepare d b))))) =
      map (\<lambda>n. Sentence_callback (cb (gsv_received_message ?t ?svs n))) [0..<gsv_messages ?svs]"
    unfolding wire assembled_feed_events [OF assms(1) ok] by (simp add: concat_map_singleton)
  have "concat (map (\<lambda>n. map gsv_received (gsv_chunk ?svs n)) [0..<gsv_messages ?svs]) =
      map gsv_received (concat (map (gsv_chunk ?svs) [0..<gsv_messages ?svs]))"
    by (simp add: map_concat comp_def)
  then show "concat (map (\<lambda>n. let m = gsv_received_message ?t ?svs n
       in take (unat (gsv_sat_count m)) (gsv_satellites m)) [0..<gsv_messages ?svs]) = map gsv_received ?svs"
    using gsv_messages_bounds(3) [OF assms(6)]
    by (simp add: Let_def received_message_satellites concat_chunks)
qed

theorem gsv_sets_roundtrip_witness:
  "snd (nmea_feed (nmea_parser_new (nmea_register_parser (gsv_parser id) (\<lambda>_. None))) (map byte_of (concat
     (gsv_build_all (gsv_prepare \<lparr>gi_talker = ''GL'', gi_satellites = [\<lparr>rec_sv_id = 65, rec_elevation_deg = 41,
        rec_azimuth_deg = 300, rec_snr = 0\<rparr>], gi_valid = True\<rparr> (gsv_builder_new ''GP'' True)))))) =
   [Sentence_callback \<lparr>gsv_talker = ''GL'', gsv_num_msgs = 1, gsv_msg_num = 1, gsv_sats_in_view = 1,
      gsv_satellites = [\<lparr>sv_id = 65, sv_elevation = 41, sv_azimuth = 300, sv_snr = - 1\<rparr>]
        @ replicate 3 gsv_satellite_new, gsv_sat_count = 1, gsv_signal_id = 0, gsv_valid = True\<rparr>]"
proof -
  let ?p = "nmea_parser_new (nmea_register_parser (gsv_parser id) (\<lambda>_. None))"
  let ?d = "\<lparr>gi_talker = ''GL'', gi_satellites = [\<lparr>rec_sv_id = 65, rec_elevation_deg = 41,
        rec_azimuth_deg = 300, rec_snr = 0\<rparr>], gi_valid = True\<rparr>"
  have "talker_ok ''GL''" by (simp add: talker_ok_def plain_def)
  then have "\<not> np_raw_cb ?p" "nmea_registry_find (np_registry ?p) ''GSV'' = [gsv_parser id]"
    "gb_enabled (gsv_builder_new ''GP'' True)" "talker_ok (gi_talker ?d)"
    by (simp_all add: nmea_parser_new_def nmea_registry_find_def nmea_register_parser_def gsv_parser_def
        gsv_builder_new_def)
  moreover have "gi_valid ?d" "length (gi_satellites ?d) < 256" by simp_all
  ultimately have "snd (nmea_feed ?p (map byte_of (concat (gsv_build_all (gsv_prepare ?d
      (gsv_builder_new ''GP'' True)))))) =
    map (\<lambda>n. Sentence_callback (id (gsv_received_message (gi_talker ?d) (gi_satellites ?d) n)))
      [0..<gsv_messages (gi_satellites ?d)]"
    by (intro gsv_sets_roundtrip [OF nmea_idle_new, THEN conjunct1])
  moreover have "gsv_messages (gi_satellites ?d) = 1" by (simp add: gsv_messages_def)
  moreover have msg: "gsv_received_message (gi_talker ?d) (gi_satellites ?d) 0 =
      \<lparr>gsv_talker = ''GL'', gsv_num_msgs = 1, gsv_msg_num = 1, gsv_sats_in_view = 1,
      gsv_satellites = [\<lparr>sv_id = 65, sv_elevation = 41, sv_azimuth = 300, sv_snr = - 1\<rparr>]
        @ replicate 3 gsv_satellite_new, gsv_sat_count = 1, gsv_signal_id = 0, gsv_valid = True\<rparr>"
    by (simp add: gsv_received_message_def gsv_messages_def gsv_chunk_def gsv_received_def)
  ultimately show ?thesis by (simp add: upt_rec)
qed

end
