(* ===== verification/Io_Config.thy ===== *)
theory Io_Config
  imports Gnss_Prelude "HOL-Library.Signed_Division"
begin

text \<open>
  The channel configurations of \<open>ext_libs/io_helper\<close> (\<open>uart_types.h\<close>, \<open>uart_config.h\<close>,
  \<open>i2c_config.h\<close>, \<open>file_config.h\<close>, \<open>i_io_config.h\<close>), the exception hierarchy of
  \<open>io_exception.h\<close>, and the terminal settings that \<open>uart_port::apply_termios_config\<close> computes from a
  configuration, over the bit values of Linux' \<open>termios.h\<close>.
\<close>

section \<open>Configurations\<close>

datatype baud_rate =
    B_50 | B_75 | B_110 | B_134 | B_150 | B_200 | B_300 | B_600 | B_1200 | B_1800 | B_2400
  | B_4800 | B_9600 | B_19200 | B_38400 | B_57600 | B_115200 | B_230400 | B_460800 | B_921600
  | B_1000000 | B_1152000 | B_1500000 | B_2000000 | B_2500000 | B_3000000 | B_3500000 | B_4000000

datatype data_bits = FIVE | SIX | SEVEN | EIGHT

datatype parity = Parity_none | Parity_odd | Parity_even

datatype stop_bits = Stop_one | Stop_two

datatype flow_control = Flow_none | Flow_hardware | Flow_software

record uart_config =
  uc_device_path :: string
  uc_baud :: baud_rate
  uc_data :: data_bits
  uc_par :: parity
  uc_stop :: stop_bits
  uc_flow :: flow_control
  uc_read_timeout_ms :: int
  uc_non_blocking :: bool

definition gnss_default :: "string \<Rightarrow> uart_config" where
  "gnss_default dev =
     \<lparr>uc_device_path = dev, uc_baud = B_9600, uc_data = EIGHT, uc_par = Parity_none,
      uc_stop = Stop_one, uc_flow = Flow_none, uc_read_timeout_ms = 100, uc_non_blocking = False\<rparr>"

definition gnss_high_speed :: "string \<Rightarrow> uart_config" where
  "gnss_high_speed dev = (gnss_default dev)\<lparr>uc_baud := B_115200\<rparr>"

definition gnss_default_nb :: "string \<Rightarrow> uart_config" where
  "gnss_default_nb dev = (gnss_default dev)\<lparr>uc_non_blocking := True\<rparr>"

definition gnss_high_speed_nb :: "string \<Rightarrow> uart_config" where
  "gnss_high_speed_nb dev = (gnss_high_speed dev)\<lparr>uc_non_blocking := True\<rparr>"

definition uart_custom :: "string \<Rightarrow> baud_rate \<Rightarrow> bool \<Rightarrow> uart_config" where
  "uart_custom dev baud non_blocking =
     (gnss_default dev)\<lparr>uc_baud := baud, uc_non_blocking := non_blocking\<rparr>"

record i2c_config =
  ic_device_path :: string
  ic_address :: u8
  ic_read_timeout_ms :: int

definition ddc_default :: "string \<Rightarrow> u8 \<Rightarrow> i2c_config" where
  "ddc_default dev addr = \<lparr>ic_device_path = dev, ic_address = addr, ic_read_timeout_ms = 100\<rparr>"

definition i2c_custom :: "string \<Rightarrow> u8 \<Rightarrow> int \<Rightarrow> i2c_config" where
  "i2c_custom dev addr read_timeout_ms =
     (ddc_default dev addr)\<lparr>ic_read_timeout_ms := read_timeout_ms\<rparr>"

definition I2C_DDC_REG_BYTES_AVAIL_MSB :: u8 where "I2C_DDC_REG_BYTES_AVAIL_MSB = 0xFD"
definition I2C_DDC_REG_DATA_STREAM :: u8 where "I2C_DDC_REG_DATA_STREAM = 0xFF"
definition I2C_DDC_REG_DATA_WRITE :: u8 where "I2C_DDC_REG_DATA_WRITE = 0x00"

record file_config =
  fc_file_path :: string
  fc_loop :: bool
  fc_writable :: bool
  fc_throttle_us :: int

definition file_config_new :: file_config where
  "file_config_new = \<lparr>fc_file_path = '''', fc_loop = False, fc_writable = False, fc_throttle_us = 0\<rparr>"

definition replay_config :: "string \<Rightarrow> bool \<Rightarrow> int \<Rightarrow> file_config" where
  "replay_config path loop throttle_us =
     file_config_new\<lparr>fc_file_path := path, fc_loop := loop, fc_writable := False,
       fc_throttle_us := throttle_us\<rparr>"

definition record_config :: "string \<Rightarrow> file_config" where
  "record_config path =
     file_config_new\<lparr>fc_file_path := path, fc_writable := True, fc_loop := False\<rparr>"

text \<open>A channel configuration is one of the concrete structs, read through \<open>i_io_config\<close>.\<close>

datatype io_channel_type = Ch_uart | Ch_i2c | Ch_file | Ch_udp | Ch_tcp

datatype i_io_config =
    Uart_config uart_config
  | I2c_config i2c_config
  | File_config file_config

fun channel_type :: "i_io_config \<Rightarrow> io_channel_type" where
  "channel_type (Uart_config c) = Ch_uart"
| "channel_type (I2c_config c) = Ch_i2c"
| "channel_type (File_config c) = Ch_file"

text \<open>The exceptions the ports throw, by their base class; all of them are \<open>io_exception\<close>s.\<close>

datatype io_exception = Io_open_error | Io_config_error | Io_read_error | Io_write_error

section \<open>Terminal settings\<close>

record termios =
  c_iflag :: u32
  c_oflag :: u32
  c_cflag :: u32
  c_lflag :: u32
  c_vmin :: u8
  c_vtime :: u8
  c_ispeed :: u32
  c_ospeed :: u32

definition CSIZE :: u32 where "CSIZE = 0x30"
definition CS5 :: u32 where "CS5 = 0x00"
definition CS6 :: u32 where "CS6 = 0x10"
definition CS7 :: u32 where "CS7 = 0x20"
definition CS8 :: u32 where "CS8 = 0x30"
definition CSTOPB :: u32 where "CSTOPB = 0x40"
definition CREAD :: u32 where "CREAD = 0x80"
definition PARENB :: u32 where "PARENB = 0x100"
definition PARODD :: u32 where "PARODD = 0x200"
definition CLOCAL :: u32 where "CLOCAL = 0x800"
definition CRTSCTS :: u32 where "CRTSCTS = 0x80000000"
definition IXON :: u32 where "IXON = 0x400"
definition IXANY :: u32 where "IXANY = 0x800"
definition IXOFF :: u32 where "IXOFF = 0x1000"

lemmas termios_bits = CSIZE_def CS5_def CS6_def CS7_def CS8_def CSTOPB_def CREAD_def PARENB_def
  PARODD_def CLOCAL_def CRTSCTS_def IXON_def IXANY_def IXOFF_def

definition baud_to_speed :: "baud_rate \<Rightarrow> u32" where
  "baud_to_speed baud =
     (case baud of B_50 \<Rightarrow> 1 | B_75 \<Rightarrow> 2 | B_110 \<Rightarrow> 3 | B_134 \<Rightarrow> 4 | B_150 \<Rightarrow> 5 | B_200 \<Rightarrow> 6 | B_300 \<Rightarrow> 7
      | B_600 \<Rightarrow> 8 | B_1200 \<Rightarrow> 9 | B_1800 \<Rightarrow> 10 | B_2400 \<Rightarrow> 11 | B_4800 \<Rightarrow> 12 | B_9600 \<Rightarrow> 13
      | B_19200 \<Rightarrow> 14 | B_38400 \<Rightarrow> 15 | B_57600 \<Rightarrow> 0x1001 | B_115200 \<Rightarrow> 0x1002 | B_230400 \<Rightarrow> 0x1003
      | B_460800 \<Rightarrow> 0x1004 | B_921600 \<Rightarrow> 0x1007 | B_1000000 \<Rightarrow> 0x1008 | B_1152000 \<Rightarrow> 0x1009
      | B_1500000 \<Rightarrow> 0x100A | B_2000000 \<Rightarrow> 0x100B | B_2500000 \<Rightarrow> 0x100C | B_3000000 \<Rightarrow> 0x100D
      | B_3500000 \<Rightarrow> 0x100E | B_4000000 \<Rightarrow> 0x100F)"

text \<open>The C library's \<open>cfmakeraw\<close>.\<close>

definition cfmakeraw :: "termios \<Rightarrow> termios" where
  "cfmakeraw tty =
     tty\<lparr>c_iflag := c_iflag tty AND NOT 0x5EB, c_oflag := c_oflag tty AND NOT 0x1,
         c_lflag := c_lflag tty AND NOT 0x804B,
         c_cflag := c_cflag tty AND NOT (CSIZE OR PARENB) OR CS8,
         c_vmin := 1, c_vtime := 0\<rparr>"

definition set_data_bits :: "data_bits \<Rightarrow> u32 \<Rightarrow> u32" where
  "set_data_bits d cflag =
     cflag AND NOT CSIZE OR (case d of FIVE \<Rightarrow> CS5 | SIX \<Rightarrow> CS6 | SEVEN \<Rightarrow> CS7 | EIGHT \<Rightarrow> CS8)"

definition set_parity :: "parity \<Rightarrow> u32 \<Rightarrow> u32" where
  "set_parity par cflag =
     (case par of Parity_none \<Rightarrow> cflag AND NOT PARENB
      | Parity_odd \<Rightarrow> cflag OR (PARENB OR PARODD)
      | Parity_even \<Rightarrow> (cflag OR PARENB) AND NOT PARODD)"

definition set_stop_bits :: "stop_bits \<Rightarrow> u32 \<Rightarrow> u32" where
  "set_stop_bits st cflag = (if st = Stop_two then cflag OR CSTOPB else cflag AND NOT CSTOPB)"

definition set_flow :: "flow_control \<Rightarrow> termios \<Rightarrow> termios" where
  "set_flow fl tty =
     (case fl of
        Flow_none \<Rightarrow> tty\<lparr>c_cflag := c_cflag tty AND NOT CRTSCTS,
          c_iflag := c_iflag tty AND NOT (IXON OR IXOFF OR IXANY)\<rparr>
      | Flow_hardware \<Rightarrow> tty\<lparr>c_cflag := c_cflag tty OR CRTSCTS,
          c_iflag := c_iflag tty AND NOT (IXON OR IXOFF OR IXANY)\<rparr>
      | Flow_software \<Rightarrow> tty\<lparr>c_cflag := c_cflag tty AND NOT CRTSCTS,
          c_iflag := c_iflag tty OR (IXON OR IXOFF)\<rparr>)"

text \<open>\<open>cc_t\<close> is an 8-bit unsigned type, and the cast to it keeps the low eight bits; C++
  division truncates, which is \<open>sdiv\<close>.\<close>

definition set_timeout :: "int \<Rightarrow> termios \<Rightarrow> termios" where
  "set_timeout read_timeout_ms tty =
     (if read_timeout_ms = 0 then tty\<lparr>c_vmin := 1, c_vtime := 0\<rparr>
      else tty\<lparr>c_vmin := 0, c_vtime := of_int ((read_timeout_ms + 99) sdiv 100)\<rparr>)"

definition apply_termios_config :: "uart_config \<Rightarrow> termios \<Rightarrow> termios" where
  "apply_termios_config cfg tty0 =
     (let speed = baud_to_speed (uc_baud cfg);
          tty = cfmakeraw (tty0\<lparr>c_ispeed := speed, c_ospeed := speed\<rparr>);
          tty = tty\<lparr>c_cflag := set_stop_bits (uc_stop cfg) (set_parity (uc_par cfg)
                  (set_data_bits (uc_data cfg) (c_cflag tty)))\<rparr>;
          tty = set_flow (uc_flow cfg) tty;
          tty = tty\<lparr>c_cflag := c_cflag tty OR (CREAD OR CLOCAL)\<rparr>
      in set_timeout (uc_read_timeout_ms cfg) tty)"

section \<open>The settings mean what the configuration says\<close>

text \<open>What a terminal driver reads out of the flags, bit by bit.\<close>

definition line_data :: "termios \<Rightarrow> data_bits" where
  "line_data tty =
     (if bit (c_cflag tty) 5 then if bit (c_cflag tty) 4 then EIGHT else SEVEN
      else if bit (c_cflag tty) 4 then SIX else FIVE)"

definition line_parity :: "termios \<Rightarrow> parity" where
  "line_parity tty =
     (if \<not> bit (c_cflag tty) 8 then Parity_none
      else if bit (c_cflag tty) 9 then Parity_odd else Parity_even)"

definition line_stop :: "termios \<Rightarrow> stop_bits" where
  "line_stop tty = (if bit (c_cflag tty) 6 then Stop_two else Stop_one)"

definition line_flow :: "termios \<Rightarrow> flow_control" where
  "line_flow tty =
     (if bit (c_cflag tty) 31 then Flow_hardware
      else if bit (c_iflag tty) 10 \<and> bit (c_iflag tty) 12 then Flow_software else Flow_none)"

text \<open>Canonical mode, echo, signals and output processing are off, the receiver is on.\<close>

definition line_raw :: "termios \<Rightarrow> bool" where
  "line_raw tty \<longleftrightarrow> \<not> bit (c_lflag tty) 0 \<and> \<not> bit (c_lflag tty) 1 \<and> \<not> bit (c_lflag tty) 3
     \<and> \<not> bit (c_oflag tty) 0 \<and> bit (c_cflag tty) 7 \<and> bit (c_cflag tty) 11"

lemmas termios_ops = set_data_bits_def set_parity_def set_stop_bits_def set_flow_def
  set_timeout_def cfmakeraw_def termios_bits

lemma set_data_bits_bit:
  "bit (set_data_bits d w) 4 = (d = SIX \<or> d = EIGHT)"
  "bit (set_data_bits d w) 5 = (d = SEVEN \<or> d = EIGHT)"
  by (cases d; simp add: set_data_bits_def termios_bits bit_simps)+

lemma set_parity_bit:
  "bit (set_parity p w) 4 = bit w 4" "bit (set_parity p w) 5 = bit w 5"
  "bit (set_parity p w) 8 = (p \<noteq> Parity_none)"
  "p \<noteq> Parity_none \<Longrightarrow> bit (set_parity p w) 9 = (p = Parity_odd)"
  by (cases p; simp add: set_parity_def termios_bits bit_simps)+

lemma set_stop_bits_bit:
  "bit (set_stop_bits st w) 4 = bit w 4" "bit (set_stop_bits st w) 5 = bit w 5"
  "bit (set_stop_bits st w) 6 = (st = Stop_two)"
  "bit (set_stop_bits st w) 8 = bit w 8" "bit (set_stop_bits st w) 9 = bit w 9"
  by (simp_all add: set_stop_bits_def CSTOPB_def bit_simps)

lemma set_flow_bit:
  "bit (c_cflag (set_flow fl tty)) 4 = bit (c_cflag tty) 4"
  "bit (c_cflag (set_flow fl tty)) 5 = bit (c_cflag tty) 5"
  "bit (c_cflag (set_flow fl tty)) 6 = bit (c_cflag tty) 6"
  "bit (c_cflag (set_flow fl tty)) 8 = bit (c_cflag tty) 8"
  "bit (c_cflag (set_flow fl tty)) 9 = bit (c_cflag tty) 9"
  "bit (c_cflag (set_flow fl tty)) 31 = (fl = Flow_hardware)"
  "bit (c_iflag (set_flow fl tty)) 10 = (fl = Flow_software)"
  "fl = Flow_software \<Longrightarrow> bit (c_iflag (set_flow fl tty)) 12"
  "c_lflag (set_flow fl tty) = c_lflag tty" "c_oflag (set_flow fl tty) = c_oflag tty"
  by (cases fl; simp add: set_flow_def termios_bits bit_simps)+

lemma set_timeout_flags [simp]:
  "c_cflag (set_timeout ms tty) = c_cflag tty" "c_iflag (set_timeout ms tty) = c_iflag tty"
  "c_lflag (set_timeout ms tty) = c_lflag tty" "c_oflag (set_timeout ms tty) = c_oflag tty"
  by (simp_all add: set_timeout_def)

lemma cfmakeraw_bit:
  "\<not> bit (c_lflag (cfmakeraw tty)) 0" "\<not> bit (c_lflag (cfmakeraw tty)) (Suc 0)"
  "\<not> bit (c_lflag (cfmakeraw tty)) 3" "\<not> bit (c_oflag (cfmakeraw tty)) 0"
  by (simp_all add: cfmakeraw_def bit_simps)

lemma receiver_on_bit:
  "bit (w OR (CREAD OR CLOCAL)) 4 = bit w 4" "bit (w OR (CREAD OR CLOCAL)) 5 = bit w 5"
  "bit (w OR (CREAD OR CLOCAL)) 6 = bit w 6" "bit (w OR (CREAD OR CLOCAL)) 8 = bit w 8"
  "bit (w OR (CREAD OR CLOCAL)) 9 = bit w 9" "bit (w OR (CREAD OR CLOCAL)) 31 = bit w 31"
  "bit (w OR (CREAD OR CLOCAL)) 7" "bit (w OR (CREAD OR CLOCAL)) 11"
  by (simp_all add: CREAD_def CLOCAL_def bit_simps)

lemmas line_bits = set_data_bits_bit set_parity_bit set_stop_bits_bit set_flow_bit cfmakeraw_bit
  receiver_on_bit

lemma cc_t_small: "0 \<le> k \<Longrightarrow> k < 256 \<Longrightarrow> uint (of_int k :: u8) = k"
  by (simp add: uint_word_of_int_eq take_bit_eq_mod)

text \<open>
  C40 (functional). Whatever the terminal was set to before, the settings computed from a configuration
  are raw mode with the receiver on, at the configured speed, and the data bits, the parity, the
  stop bits and the flow control a driver reads back from the flags are the configured ones. A
  zero timeout means a blocking read; a timeout of up to 25.5 seconds is rounded up to the next
  tenth of a second. One between 25.5 and 25.6 seconds is cut off by the 8-bit field: it becomes
  zero, and a read does not wait at all.
\<close>

theorem uart_settings_applied:
  "let t = apply_termios_config cfg tty; ms = uc_read_timeout_ms cfg in
     line_raw t \<and> c_ispeed t = baud_to_speed (uc_baud cfg) \<and> c_ospeed t = baud_to_speed (uc_baud cfg)
     \<and> line_data t = uc_data cfg \<and> line_parity t = uc_par cfg \<and> line_stop t = uc_stop cfg
     \<and> line_flow t = uc_flow cfg
     \<and> (ms = 0 \<longrightarrow> c_vmin t = 1 \<and> c_vtime t = 0)
     \<and> (0 < ms \<and> ms \<le> 25500 \<longrightarrow> c_vmin t = 0 \<and> ms \<le> 100 * uint (c_vtime t) \<and> 100 * uint (c_vtime t) < ms + 100)
     \<and> (25500 < ms \<and> ms \<le> 25600 \<longrightarrow> c_vmin t = 0 \<and> c_vtime t = 0)"
proof -
  let ?t = "apply_termios_config cfg tty" and ?ms = "uc_read_timeout_ms cfg"
  have "line_raw ?t" by (simp add: apply_termios_config_def Let_def line_raw_def line_bits)
  moreover have "line_data ?t = uc_data cfg"
    by (cases "uc_data cfg") (simp_all add: apply_termios_config_def Let_def line_data_def line_bits)
  moreover have "line_parity ?t = uc_par cfg"
    by (cases "uc_par cfg") (simp_all add: apply_termios_config_def Let_def line_parity_def line_bits)
  moreover have "line_stop ?t = uc_stop cfg"
    by (cases "uc_stop cfg") (simp_all add: apply_termios_config_def Let_def line_stop_def line_bits)
  moreover have "line_flow ?t = uc_flow cfg"
    by (cases "uc_flow cfg") (simp_all add: apply_termios_config_def Let_def line_flow_def line_bits)
  moreover have "c_ispeed ?t = baud_to_speed (uc_baud cfg) \<and> c_ospeed ?t = baud_to_speed (uc_baud cfg)"
    by (simp add: apply_termios_config_def Let_def set_timeout_def set_flow_def cfmakeraw_def
        split: flow_control.split)
  moreover have "?ms = 0 \<Longrightarrow> c_vmin ?t = 1 \<and> c_vtime ?t = 0"
    by (simp add: apply_termios_config_def Let_def set_timeout_def)
  moreover have "c_vmin ?t = 0 \<and> ?ms \<le> 100 * uint (c_vtime ?t) \<and> 100 * uint (c_vtime ?t) < ?ms + 100"
    if ms: "0 < ?ms" "?ms \<le> 25500"
  proof -
    have "(?ms + 99) sdiv 100 = (?ms + 99) div 100" using ms by (simp add: signed_divide_int_def)
    then have "c_vmin ?t = 0 \<and> c_vtime ?t = of_int ((?ms + 99) div 100)"
      using ms by (simp add: apply_termios_config_def Let_def set_timeout_def)
    moreover have "uint (of_int ((?ms + 99) div 100) :: u8) = (?ms + 99) div 100"
      using ms by (intro cc_t_small) auto
    moreover have "?ms \<le> 100 * ((?ms + 99) div 100)" "100 * ((?ms + 99) div 100) < ?ms + 100"
      by presburger+
    ultimately show ?thesis by simp
  qed
  moreover have "c_vmin ?t = 0 \<and> c_vtime ?t = 0" if ms: "25500 < ?ms" "?ms \<le> 25600"
  proof -
    have "(?ms + 99) sdiv 100 = (?ms + 99) div 100" using ms by (simp add: signed_divide_int_def)
    also have "\<dots> = 256" using ms by linarith
    finally show ?thesis using ms by (simp add: apply_termios_config_def Let_def set_timeout_def)
  qed
  ultimately show ?thesis by (simp add: Let_def)
qed

definition cooked_tty :: termios where
  "cooked_tty = \<lparr>c_iflag = 0x500, c_oflag = 5, c_cflag = 0x3BF, c_lflag = 0x8A3B, c_vmin = 1, c_vtime = 0,
     c_ispeed = 15, c_ospeed = 15\<rparr>"

theorem uart_settings_applied_witness:
  "let t = apply_termios_config (gnss_default ''/dev/ttyS3'') cooked_tty in
     line_data t = EIGHT \<and> line_parity t = Parity_none \<and> uint (c_vtime t) = 1
     \<and> c_vtime (apply_termios_config ((gnss_default ''/dev/ttyS3'')\<lparr>uc_read_timeout_ms := 25600\<rparr>) cooked_tty) = 0"
  using uart_settings_applied [of "gnss_default ''/dev/ttyS3''" cooked_tty]
    uart_settings_applied [of "(gnss_default ''/dev/ttyS3'')\<lparr>uc_read_timeout_ms := 25600\<rparr>" cooked_tty]
  by (simp add: Let_def gnss_default_def)

end
