(* ===== verification/Io_Port.thy ===== *)
theory Io_Port
  imports Io_Config
begin

text \<open>
  The ports of \<open>ext_libs/io_helper\<close> behind the interface \<open>i_io_port\<close>: \<open>uart_port\<close>, \<open>i2c_port\<close> and
  \<open>file_port\<close>, their factory, and the virtual calls that \<open>io_channel_wrapper\<close> forwards. Every public
  method holds the mutex of its port, so it is one function of the port's state. The kernel is not
  part of the program: what its system calls answer is the record \<open>os\<close>, given anew to every
  operation, and the files it keeps and the bytes it was given to transmit are the \<open>io_world\<close>.
\<close>

section \<open>The kernel\<close>

text \<open>
  How one \<open>read\<close> or \<open>write\<close> on a regular file goes: all of it, a shorter count of at least one byte,
  interrupted, or failed. A list of these says how the calls of one operation go; when it is used
  up the calls transfer all they can.
\<close>

datatype sys_io = Io_all | Io_short nat | Io_eintr | Io_fail

record os =
  os_open :: "string \<Rightarrow> u32 \<Rightarrow> int"
  os_tcgetattr :: "termios option"
  os_tcsetattr :: bool
  os_fionread :: "int option"
  os_read :: "nat \<Rightarrow> bytes option"
  os_write :: "bytes \<Rightarrow> nat option"
  os_slave :: bool
  os_rdwr :: "u8 \<Rightarrow> nat \<Rightarrow> bytes option"
  os_i2c_write :: bool
  os_mkdir :: "string \<Rightarrow> bool"
  os_stat :: bool
  os_seek :: bool
  os_sync :: bool
  os_file_io :: "sys_io list"

text \<open>The files by path, and the bytes handed to devices with the device they went to.\<close>

record io_world =
  w_files :: "string \<Rightarrow> bytes option"
  w_sent :: "(string \<times> bytes) list"

definition O_RDONLY :: u32 where "O_RDONLY = 0"
definition O_RDWR :: u32 where "O_RDWR = 2"
definition O_CREAT :: u32 where "O_CREAT = 0x40"
definition O_NOCTTY :: u32 where "O_NOCTTY = 0x100"
definition O_TRUNC :: u32 where "O_TRUNC = 0x200"
definition O_NONBLOCK :: u32 where "O_NONBLOCK = 0x800"

text \<open>\<open>read\<close> yields at most the bytes asked for, and \<open>write\<close> takes at most the bytes offered.\<close>

definition sys_read :: "os \<Rightarrow> nat \<Rightarrow> bytes option" where
  "sys_read os len = map_option (take len) (os_read os len)"

definition sys_write :: "os \<Rightarrow> bytes \<Rightarrow> nat option" where
  "sys_write os bs = map_option (\<lambda>n. min n (length bs)) (os_write os bs)"

section \<open>UART port\<close>

record uart_port =
  up_fd :: int
  up_config :: uart_config
  up_tty :: "termios option"

definition uart_port_new :: uart_port where
  "uart_port_new = \<lparr>up_fd = -1, up_config = gnss_default '''', up_tty = None\<rparr>"

definition uart_close_locked :: "uart_port \<Rightarrow> uart_port" where
  "uart_close_locked p = (if 0 \<le> up_fd p then p\<lparr>up_fd := -1\<rparr> else p)"

definition uart_open_locked :: "os \<Rightarrow> i_io_config \<Rightarrow> uart_port \<Rightarrow> uart_port \<times> (io_exception + bool)" where
  "uart_open_locked os cfg p =
     (case cfg of
        Uart_config ucfg \<Rightarrow>
          (let p = (if 0 \<le> up_fd p then uart_close_locked p else p);
               flags = (if uc_non_blocking ucfg then O_RDWR OR O_NOCTTY OR O_NONBLOCK
                        else O_RDWR OR O_NOCTTY);
               fd = os_open os (uc_device_path ucfg) flags;
               p = p\<lparr>up_fd := fd\<rparr>
           in if fd < 0 then (p, Inl Io_open_error)
              else let p = p\<lparr>up_config := ucfg\<rparr> in
                case os_tcgetattr os of
                  None \<Rightarrow> (p\<lparr>up_fd := -1\<rparr>, Inl Io_config_error)
                | Some tty \<Rightarrow>
                    if os_tcsetattr os
                    then (p\<lparr>up_tty := Some (apply_termios_config ucfg tty)\<rparr>, Inr True)
                    else (p\<lparr>up_fd := -1\<rparr>, Inl Io_config_error))
      | _ \<Rightarrow> (p, Inl Io_config_error))"

definition uart_is_open :: "uart_port \<Rightarrow> bool" where
  "uart_is_open p \<longleftrightarrow> 0 \<le> up_fd p"

definition uart_flush :: "os \<Rightarrow> uart_port \<Rightarrow> bool" where
  "uart_flush os p \<longleftrightarrow> \<not> up_fd p < 0 \<and> os_sync os"

definition uart_reconnect :: "os \<Rightarrow> uart_port \<Rightarrow> uart_port \<times> (io_exception + bool)" where
  "uart_reconnect os p =
     (if up_fd p < 0 then (p, Inr False)
      else let saved = up_config p in uart_open_locked os (Uart_config saved) (uart_close_locked p))"

definition uart_reconfigure ::
  "os \<Rightarrow> i_io_config \<Rightarrow> uart_port \<Rightarrow> uart_port \<times> (io_exception + bool)" where
  "uart_reconfigure os cfg p = uart_open_locked os cfg (uart_close_locked p)"

definition uart_read_byte :: "os \<Rightarrow> uart_port \<Rightarrow> io_exception + bytes" where
  "uart_read_byte os p =
     (if up_fd p < 0 then Inl Io_read_error
      else case sys_read os 1 of None \<Rightarrow> Inl Io_read_error | Some bs \<Rightarrow> Inr bs)"

definition uart_read_bytes :: "os \<Rightarrow> nat \<Rightarrow> uart_port \<Rightarrow> io_exception + bytes" where
  "uart_read_bytes os max_len p =
     (if up_fd p < 0 then Inl Io_read_error
      else if max_len = 0 then Inr []
      else case sys_read os max_len of None \<Rightarrow> Inl Io_read_error | Some bs \<Rightarrow> Inr bs)"

definition uart_available :: "os \<Rightarrow> uart_port \<Rightarrow> int" where
  "uart_available os p =
     (if up_fd p < 0 then -1 else case os_fionread os of None \<Rightarrow> -1 | Some n \<Rightarrow> n)"

definition uart_write_bytes ::
  "os \<Rightarrow> bytes \<Rightarrow> io_world \<Rightarrow> uart_port \<Rightarrow> io_world \<times> (io_exception + int)" where
  "uart_write_bytes os buf w p =
     (if up_fd p < 0 then (w, Inl Io_write_error)
      else if buf = [] then (w, Inr 0)
      else case sys_write os buf of
             None \<Rightarrow> (w, Inl Io_write_error)
           | Some n \<Rightarrow> (w\<lparr>w_sent := w_sent w @ [(uc_device_path (up_config p), take n buf)]\<rparr>, Inr (int n)))"

section \<open>I2C port\<close>

record i2c_port =
  ip_fd :: int
  ip_config :: i2c_config

definition i2c_port_new :: i2c_port where
  "i2c_port_new = \<lparr>ip_fd = -1, ip_config = ddc_default '''' 0x42\<rparr>"

definition i2c_close_locked :: "i2c_port \<Rightarrow> i2c_port" where
  "i2c_close_locked p = (if 0 \<le> ip_fd p then p\<lparr>ip_fd := -1\<rparr> else p)"

definition i2c_open_locked :: "os \<Rightarrow> i_io_config \<Rightarrow> i2c_port \<Rightarrow> i2c_port \<times> (io_exception + bool)" where
  "i2c_open_locked os cfg p =
     (case cfg of
        I2c_config icfg \<Rightarrow>
          (let new_fd = os_open os (ic_device_path icfg) O_RDWR in
           if new_fd < 0 then (p, Inl Io_open_error)
           else if \<not> os_slave os then (p, Inl Io_config_error)
           else (p\<lparr>ip_fd := new_fd, ip_config := icfg\<rparr>, Inr True))
      | _ \<Rightarrow> (p, Inl Io_config_error))"

definition i2c_open :: "os \<Rightarrow> i_io_config \<Rightarrow> i2c_port \<Rightarrow> i2c_port \<times> (io_exception + bool)" where
  "i2c_open os cfg p = i2c_open_locked os cfg (if 0 \<le> ip_fd p then i2c_close_locked p else p)"

definition i2c_is_open :: "i2c_port \<Rightarrow> bool" where
  "i2c_is_open p \<longleftrightarrow> 0 \<le> ip_fd p"

definition i2c_reconnect :: "os \<Rightarrow> i2c_port \<Rightarrow> i2c_port \<times> (io_exception + bool)" where
  "i2c_reconnect os p =
     (let p = i2c_close_locked p in i2c_open_locked os (I2c_config (ip_config p)) p)"

definition i2c_reconfigure ::
  "os \<Rightarrow> i_io_config \<Rightarrow> i2c_port \<Rightarrow> i2c_port \<times> (io_exception + bool)" where
  "i2c_reconfigure os cfg p = i2c_open_locked os cfg (i2c_close_locked p)"

definition i2c_get_fd :: "i2c_port \<Rightarrow> int" where
  "i2c_get_fd p = -1"

text \<open>
  The combined transaction writes the register number and reads \<open>read_len\<close> bytes; the length
  travels in a 16-bit field, while the value returned is the length asked for: the rest of the
  zero-initialised buffer is not filled.
\<close>

definition rdwr_locked :: "os \<Rightarrow> u8 \<Rightarrow> nat \<Rightarrow> bytes option" where
  "rdwr_locked os reg read_len =
     (let n = unat (of_nat read_len :: u16) in
      case os_rdwr os reg n of
        None \<Rightarrow> None
      | Some bs \<Rightarrow> Some (take read_len (take n bs @ replicate read_len 0)))"

definition i2c_read_bytes :: "os \<Rightarrow> nat \<Rightarrow> i2c_port \<Rightarrow> io_exception + bytes" where
  "i2c_read_bytes os max_len p =
     (if max_len = 0 then Inr []
      else if ip_fd p < 0 then Inl Io_read_error
      else case rdwr_locked os I2C_DDC_REG_DATA_STREAM max_len of
             None \<Rightarrow> Inl Io_read_error | Some bs \<Rightarrow> Inr bs)"

definition i2c_read_byte :: "os \<Rightarrow> i2c_port \<Rightarrow> io_exception + bytes" where
  "i2c_read_byte os p =
     (if ip_fd p < 0 then Inl Io_read_error
      else case rdwr_locked os I2C_DDC_REG_DATA_STREAM 1 of
             None \<Rightarrow> Inl Io_read_error | Some bs \<Rightarrow> Inr bs)"

definition i2c_available :: "os \<Rightarrow> i2c_port \<Rightarrow> int" where
  "i2c_available os p =
     (if ip_fd p < 0 then -1
      else case rdwr_locked os I2C_DDC_REG_BYTES_AVAIL_MSB 2 of
             None \<Rightarrow> -1
           | Some bs \<Rightarrow> int (unat ((push_bit 8 (ucast (bs ! 0)) :: u16) OR ucast (bs ! 1))))"

definition i2c_write_bytes ::
  "os \<Rightarrow> bytes \<Rightarrow> io_world \<Rightarrow> i2c_port \<Rightarrow> io_world \<times> (io_exception + int)" where
  "i2c_write_bytes os buf w p =
     (if buf = [] then (w, Inr 0)
      else if ip_fd p < 0 then (w, Inl Io_write_error)
      else let frame = I2C_DDC_REG_DATA_WRITE # buf; len = unat (of_nat (length frame) :: u16) in
        if os_i2c_write os
        then (w\<lparr>w_sent := w_sent w @ [(ic_device_path (ip_config p), take len frame)]\<rparr>,
              Inr (int (length buf)))
        else (w, Inl Io_write_error))"

section \<open>File port\<close>

text \<open>The offset of the open file description is the kernel's; it goes with the descriptor.\<close>

record file_port =
  fp_fd :: int
  fp_config :: file_config
  fp_pos :: nat

definition file_port_new :: file_port where
  "file_port_new = \<lparr>fp_fd = -1, fp_config = file_config_new, fp_pos = 0\<rparr>"

definition file_close_locked :: "file_port \<Rightarrow> file_port" where
  "file_close_locked p = (if 0 \<le> fp_fd p then p\<lparr>fp_fd := -1\<rparr> else p)"

text \<open>The C library's \<open>dirname\<close>, and the prefixes of the directory that are created in turn.\<close>

definition strip_slashes :: "string \<Rightarrow> string" where
  "strip_slashes path = rev (dropWhile (\<lambda>c. c = CHR ''/'') (rev path))"

definition dirname :: "string \<Rightarrow> string" where
  "dirname path =
     (let p = strip_slashes path in
      if p = [] then (if path = [] then ''.'' else ''/'')
      else let d = rev (dropWhile (\<lambda>c. c \<noteq> CHR ''/'') (rev p)) in
        if d = [] then ''.''
        else let e = strip_slashes d in if e = [] then ''/'' else e)"

definition mkdir_paths :: "string \<Rightarrow> string list" where
  "mkdir_paths dir =
     map (\<lambda>pos. take pos dir)
       (filter (\<lambda>pos. pos = length dir \<or> dir ! pos = CHR ''/'') [1..<Suc (length dir)])"

definition file_open_locked ::
  "os \<Rightarrow> i_io_config \<Rightarrow> io_world \<Rightarrow> file_port \<Rightarrow> io_world \<times> file_port \<times> (io_exception + bool)" where
  "file_open_locked os config w p =
     (case config of
        File_config cfg \<Rightarrow>
          (let path = fc_file_path cfg;
               flags = (if fc_writable cfg then O_RDWR OR O_CREAT OR O_TRUNC else O_RDONLY)
           in if fc_writable cfg \<and> \<not> list_all (os_mkdir os) (mkdir_paths (dirname path))
              then (w, p, Inl Io_open_error)
              else let new_fd = (if \<not> fc_writable cfg \<and> w_files w path = None then -1
                                 else os_open os path flags)
                in if new_fd < 0 then (w, p, Inl Io_open_error)
                   else (if fc_writable cfg then w\<lparr>w_files := (w_files w)(path \<mapsto> [])\<rparr> else w,
                         p\<lparr>fp_fd := new_fd, fp_config := cfg, fp_pos := 0\<rparr>, Inr True))
      | _ \<Rightarrow> (w, p, Inl Io_open_error))"

definition file_open ::
  "os \<Rightarrow> i_io_config \<Rightarrow> io_world \<Rightarrow> file_port \<Rightarrow> io_world \<times> file_port \<times> (io_exception + bool)" where
  "file_open os cfg w p = file_open_locked os cfg w (if 0 \<le> fp_fd p then file_close_locked p else p)"

definition file_is_open :: "file_port \<Rightarrow> bool" where
  "file_is_open p \<longleftrightarrow> 0 \<le> fp_fd p"

definition file_flush :: "os \<Rightarrow> file_port \<Rightarrow> bool" where
  "file_flush os p \<longleftrightarrow> \<not> fp_fd p < 0 \<and> os_sync os"

definition file_reconnect ::
  "os \<Rightarrow> io_world \<Rightarrow> file_port \<Rightarrow> io_world \<times> file_port \<times> (io_exception + bool)" where
  "file_reconnect os w p =
     (let p = file_close_locked p in file_open_locked os (File_config (fp_config p)) w p)"

definition file_reconfigure ::
  "os \<Rightarrow> i_io_config \<Rightarrow> io_world \<Rightarrow> file_port \<Rightarrow> io_world \<times> file_port \<times> (io_exception + bool)" where
  "file_reconfigure os cfg w p = file_open_locked os cfg w (file_close_locked p)"

definition file_content :: "io_world \<Rightarrow> file_port \<Rightarrow> bytes" where
  "file_content w p = (case w_files w (fc_file_path (fp_config p)) of None \<Rightarrow> [] | Some c \<Rightarrow> c)"

text \<open>
  The loop of \<open>read_locked\<close>: one \<open>read\<close> per iteration, until \<open>len\<close> bytes are there, the file ends, or
  a call fails. \<open>acc\<close> is the part of the buffer already filled; a failure loses it, while the
  offset stays where the calls left it.
\<close>

partial_function (option) read_locked ::
  "bool \<Rightarrow> bool \<Rightarrow> bytes \<Rightarrow> sys_io list \<Rightarrow> nat \<Rightarrow> nat \<Rightarrow> bytes \<Rightarrow> (nat \<times> bytes option) option"
where
  "read_locked loop seek_ok content outs pos len acc =
     (if length acc < len then
        case outs of
          Io_eintr # outs' \<Rightarrow> read_locked loop seek_ok content outs' pos len acc
        | Io_fail # outs' \<Rightarrow> Some (pos, None)
        | _ \<Rightarrow>
          (let want = len - length acc;
               most = (case outs of Io_short k # _ \<Rightarrow> min (Suc k) want | _ \<Rightarrow> want);
               bs = take most (drop pos content)
           in if bs = [] then
                if loop \<and> acc = [] then
                  if seek_ok then read_locked loop seek_ok content (tl outs) 0 len acc
                  else Some (pos, None)
                else Some (pos, Some acc)
              else read_locked loop seek_ok content (tl outs) (pos + length bs) len (acc @ bs))
      else Some (pos, Some acc))"

definition file_read_bytes ::
  "os \<Rightarrow> nat \<Rightarrow> io_world \<Rightarrow> file_port \<Rightarrow> (file_port \<times> (io_exception + bytes)) option" where
  "file_read_bytes os max_len w p =
     (if max_len = 0 then Some (p, Inr [])
      else if fp_fd p < 0 then Some (p, Inl Io_read_error)
      else case read_locked (fc_loop (fp_config p)) (os_seek os) (file_content w p) (os_file_io os)
                  (fp_pos p) max_len [] of
             None \<Rightarrow> None
           | Some (pos, None) \<Rightarrow> Some (p\<lparr>fp_pos := pos\<rparr>, Inl Io_read_error)
           | Some (pos, Some bs) \<Rightarrow> Some (p\<lparr>fp_pos := pos\<rparr>, Inr bs))"

text \<open>\<open>available\<close> is an \<open>int\<close>: the 64-bit difference is cut to its low 32 bits.\<close>

definition int_of_off :: "int \<Rightarrow> int" where
  "int_of_off n = sint (word_of_int n :: i32)"

definition file_available :: "os \<Rightarrow> io_world \<Rightarrow> file_port \<Rightarrow> int" where
  "file_available os w p =
     (if fp_fd p < 0 then -1
      else if \<not> os_seek os then -1
      else if \<not> os_stat os then -1
      else let size = int (length (file_content w p)); left_over = size - int (fp_pos p) in
        if left_over > 0 then int_of_off left_over
        else if fc_loop (fp_config p) \<and> size > 0 then int_of_off size
        else 0)"

text \<open>The kernel writes at the offset; a gap behind the end is filled with zeros.\<close>

definition put_at :: "nat \<Rightarrow> bytes \<Rightarrow> bytes \<Rightarrow> bytes" where
  "put_at pos bs content =
     take pos content @ replicate (pos - length content) 0 @ bs @ drop (pos + length bs) content"

text \<open>The loop of \<open>write_bytes\<close>: the bytes written and whether the loop completed.\<close>

fun write_loop :: "sys_io list \<Rightarrow> bytes \<Rightarrow> bytes \<times> bool" where
  "write_loop outs [] = ([], True)"
| "write_loop [] bs = (bs, True)"
| "write_loop (Io_all # outs) bs = (bs, True)"
| "write_loop (Io_short k # outs) bs =
     (let (written, ok) = write_loop outs (drop (Suc k) bs) in (take (Suc k) bs @ written, ok))"
| "write_loop (Io_eintr # outs) bs = write_loop outs bs"
| "write_loop (Io_fail # outs) bs = ([], False)"

definition file_write_bytes ::
  "os \<Rightarrow> bytes \<Rightarrow> io_world \<Rightarrow> file_port \<Rightarrow> io_world \<times> file_port \<times> (io_exception + int)" where
  "file_write_bytes os buf w p =
     (if buf = [] then (w, p, Inr 0)
      else if fp_fd p < 0 then (w, p, Inl Io_open_error)
      else if \<not> fc_writable (fp_config p) then (w, p, Inl Io_open_error)
      else let (written, ok) = write_loop (os_file_io os) buf;
               w' = w\<lparr>w_files := (w_files w)(fc_file_path (fp_config p) \<mapsto>
                        put_at (fp_pos p) written (file_content w p))\<rparr>;
               p' = p\<lparr>fp_pos := fp_pos p + length written\<rparr>
        in (w', p', if ok then Inr (int (length buf)) else Inl Io_open_error))"

section \<open>Reads and writes of a file\<close>

lemma write_loop_ok: "Io_fail \<notin> set outs \<Longrightarrow> write_loop outs bs = (bs, True)"
  by (induction outs bs rule: write_loop.induct) (auto split: prod.splits)

lemma write_loop_prefix: "\<exists>ys. bs = fst (write_loop outs bs) @ ys"
  by (induction outs bs rule: write_loop.induct) (auto split: prod.splits, metis append_take_drop_id)

lemma put_at_end [simp]: "put_at (length c) bs c = c @ bs"
  by (simp add: put_at_def)

lemma read_locked_full:
  "length acc \<ge> len \<Longrightarrow> read_locked loop sk c outs pos len acc = Some (pos, Some acc)"
  by (subst read_locked.simps) simp

lemma read_locked_eintr:
  "length acc < len \<Longrightarrow>
   read_locked loop sk c (Io_eintr # outs) pos len acc = read_locked loop sk c outs pos len acc"
  by (subst read_locked.simps) simp

text \<open>The bytes one call asks for, at least one while there is room.\<close>

definition wanted :: "sys_io list \<Rightarrow> nat \<Rightarrow> nat" where
  "wanted outs want = (case outs of Io_short k # _ \<Rightarrow> min (Suc k) want | _ \<Rightarrow> want)"

lemma wanted_bounds: "0 < want \<Longrightarrow> 0 < wanted outs want" "wanted outs want \<le> want"
  by (auto simp: wanted_def split: list.split sys_io.split)

lemma read_locked_call:
  assumes "length acc < len" and "\<forall>o'. outs = o' # tl outs \<longrightarrow> o' \<noteq> Io_eintr \<and> o' \<noteq> Io_fail"
  shows "read_locked loop sk c outs pos len acc =
    (if length c \<le> pos then
       if loop \<and> acc = [] then if sk then read_locked loop sk c (tl outs) 0 len acc else Some (pos, None)
       else Some (pos, Some acc)
     else let bs = take (wanted outs (len - length acc)) (drop pos c)
       in read_locked loop sk c (tl outs) (pos + length bs) len (acc @ bs))"
proof -
  have "wanted outs (len - length acc) > 0" using assms(1) by (simp add: wanted_bounds)
  then have "(take (wanted outs (len - length acc)) (drop pos c) = []) = (length c \<le> pos)" by auto
  moreover have "read_locked loop sk c outs pos len acc =
    (let bs = take (wanted outs (len - length acc)) (drop pos c)
     in if bs = [] then if loop \<and> acc = [] then if sk then read_locked loop sk c (tl outs) 0 len acc
            else Some (pos, None) else Some (pos, Some acc)
        else read_locked loop sk c (tl outs) (pos + length bs) len (acc @ bs))"
    using assms by (subst read_locked.simps)
      (auto simp: wanted_def Let_def split: list.split sys_io.split)
  ultimately show ?thesis by (simp add: Let_def)
qed

lemma no_fail_tl: "Io_fail \<notin> set outs \<Longrightarrow> Io_fail \<notin> set (tl outs)"
  by (cases outs) auto

text \<open>One call at a time, an induction over the outcomes left and the room left.\<close>

lemma read_locked_cases [case_names full eintr fail call]:
  assumes "length acc \<ge> len \<Longrightarrow> P"
    and "\<And>outs'. length acc < len \<Longrightarrow> outs = Io_eintr # outs' \<Longrightarrow> P"
    and "\<And>outs'. length acc < len \<Longrightarrow> outs = Io_fail # outs' \<Longrightarrow> P"
    and "length acc < len \<Longrightarrow> \<forall>o'. outs = o' # tl outs \<longrightarrow> o' \<noteq> Io_eintr \<and> o' \<noteq> Io_fail \<Longrightarrow> P"
  shows P
  using assms by (cases "length acc < len"; cases outs; cases "hd outs") auto

lemma read_locked_straight:
  assumes "Io_fail \<notin> set outs" and "length acc \<le> len" and "\<not> (loop \<and> acc = [] \<and> length c \<le> pos)"
  shows "read_locked loop sk c outs pos len acc =
    Some (pos + length (take (len - length acc) (drop pos c)),
          Some (acc @ take (len - length acc) (drop pos c)))"
  using assms
proof (induction "length outs + (len - length acc)" arbitrary: outs acc pos rule: less_induct)
  case less
  show ?case
  proof (cases rule: read_locked_cases [where len = len and acc = acc and outs = outs])
    case full
    then show ?thesis using less.prems by (simp add: read_locked_full)
  next
    case (eintr outs')
    then show ?thesis using less.prems less.hyps [of outs' acc pos]
      by (simp add: read_locked_eintr)
  next
    case (fail outs')
    then show ?thesis using less.prems by simp
  next
    case call
    show ?thesis
    proof (cases "length c \<le> pos")
      case True
      then show ?thesis using less.prems by (subst read_locked_call [OF call]) auto
    next
      case False
      define k where "k = wanted outs (len - length acc)"
      define bs where "bs = take k (drop pos c)"
      have k: "0 < k" "k \<le> len - length acc"
        using call(1) by (simp_all add: k_def wanted_bounds)
      then have bs: "bs \<noteq> []" "length bs \<le> len - length acc" using False by (auto simp: bs_def)
      then have decr: "length (tl outs) + (len - length (acc @ bs)) < length outs + (len - length acc)"
        using call(1) by (cases bs) auto
      have split: "take (len - length acc) (drop pos c) =
          bs @ take (len - length (acc @ bs)) (drop (pos + length bs) c)"
      proof (cases "k \<le> length (drop pos c)")
        case True
        then have l: "length bs = k" by (simp add: bs_def)
        have "take (len - length acc) (drop pos c) = take (k + (len - length acc - k)) (drop pos c)"
          using k by simp
        also have "\<dots> = bs @ take (len - length acc - k) (drop k (drop pos c))"
          by (simp only: take_add bs_def)
        finally show ?thesis using l by (simp add: add.commute)
      next
        case False
        then show ?thesis using k by (simp add: bs_def)
      qed
      have "read_locked loop sk c outs pos len acc =
          read_locked loop sk c (tl outs) (pos + length bs) len (acc @ bs)"
        using False by (subst read_locked_call [OF call]) (simp add: Let_def bs_def k_def)
      also have "\<dots> = Some (pos + length bs + length (take (len - length (acc @ bs)) (drop (pos + length bs) c)),
          Some ((acc @ bs) @ take (len - length (acc @ bs)) (drop (pos + length bs) c)))"
        by (rule less.hyps [OF decr]) (use less.prems bs call(1) no_fail_tl in auto)
      finally show ?thesis by (simp add: split)
    qed
  qed
qed

lemma read_locked_wraps:
  assumes "Io_fail \<notin> set outs" and "0 < len" and "length c \<le> pos" and "c \<noteq> []"
  shows "read_locked True True c outs pos len [] = Some (length (take len c), Some (take len c))"
  using assms
proof (induction outs)
  case Nil
  have "read_locked True True c [] pos len [] = read_locked True True c [] 0 len []"
    using Nil by (subst read_locked_call) auto
  then show ?case using Nil by (subst (asm) (2) read_locked_straight) auto
next
  case (Cons o' outs)
  show ?case
  proof (cases "o' = Io_eintr")
    case True
    then show ?thesis using Cons by (simp add: read_locked_eintr)
  next
    case False
    then have "read_locked True True c (o' # outs) pos len [] = read_locked True True c outs 0 len []"
      using Cons.prems by (subst read_locked_call) auto
    then show ?thesis using Cons.prems by (subst (asm) (2) read_locked_straight) auto
  qed
qed

text \<open>The loop ends unless it looks for data in an empty file for ever.\<close>

lemma read_locked_total:
  assumes "c \<noteq> [] \<or> \<not> loop \<or> \<not> sk \<or> acc \<noteq> []"
  shows "\<exists>r. read_locked loop sk c outs pos len acc = Some r"
  using assms
proof (induction "2 * (length outs + (len - length acc)) + of_bool (length c \<le> pos)"
    arbitrary: outs acc pos rule: less_induct)
  case less
  show ?case
  proof (cases rule: read_locked_cases [where len = len and acc = acc and outs = outs])
    case full
    then show ?thesis by (simp add: read_locked_full)
  next
    case (eintr outs')
    then show ?thesis using less.prems less.hyps [of outs' acc pos]
      by (simp add: read_locked_eintr)
  next
    case (fail outs')
    then show ?thesis by (subst read_locked.simps) simp
  next
    case call
    show ?thesis
    proof (cases "length c \<le> pos")
      case True
      have "\<exists>r. read_locked loop sk c (tl outs) 0 len acc = Some r" if "c \<noteq> []"
        by (rule less.hyps) (use that True in auto)
      then show ?thesis using True less.prems by (subst read_locked_call [OF call]) auto
    next
      case False
      define bs where "bs = take (wanted outs (len - length acc)) (drop pos c)"
      have "0 < wanted outs (len - length acc)" using call(1) by (simp add: wanted_bounds)
      then have "bs \<noteq> []" using False by (simp add: bs_def)
      then have "\<exists>r. read_locked loop sk c (tl outs) (pos + length bs) len (acc @ bs) = Some r"
        using call(1) by (intro less.hyps) (cases bs, auto)
      then show ?thesis using False by (subst read_locked_call [OF call]) (simp add: Let_def bs_def)
    qed
  qed
qed

lemma read_locked_fails:
  "Io_fail \<in> set outs \<Longrightarrow> \<exists>r. read_locked True True [] outs pos len [] = Some r"
proof (induction outs arbitrary: pos)
  case (Cons o' outs)
  have "\<exists>r. read_locked True True [] (o' # outs) pos len [] = Some r"
    if "\<exists>r. read_locked True True [] outs pos len [] = Some r"
      "\<exists>r. read_locked True True [] outs 0 len [] = Some r"
    using that by (subst read_locked.simps) (auto split: sys_io.split)
  moreover have "o' = Io_fail \<Longrightarrow> \<exists>r. read_locked True True [] (o' # outs) pos len [] = Some r"
    by (subst read_locked.simps) auto
  ultimately show ?case using Cons by auto
qed simp

lemma read_locked_spins:
  assumes "0 < len" and "Io_fail \<notin> set outs"
  shows "read_locked True True [] outs pos len [] = None"
proof -
  have "\<not> (loop \<and> sk \<and> c = [] \<and> acc = [] \<and> 0 < len \<and> Io_fail \<notin> set outs)"
    if "read_locked loop sk c outs pos len acc = Some r" for loop sk c outs pos len acc r
  proof (rule read_locked.raw_induct [where P = "\<lambda>loop sk c outs pos len acc r.
        \<not> (loop \<and> sk \<and> c = [] \<and> acc = [] \<and> 0 < len \<and> Io_fail \<notin> set outs)", OF _ that], goal_cases)
    case (1 rd loop sk c outs pos len acc r)
    show ?case
    proof
      assume spin: "loop \<and> sk \<and> c = [] \<and> acc = [] \<and> 0 < len \<and> Io_fail \<notin> set outs"
      have "\<exists>outs' pos'. rd loop sk c outs' pos' len acc = Some r \<and> Io_fail \<notin> set outs'"
      proof (cases outs)
        case Nil
        then show ?thesis using 1(2) spin by (intro exI [of _ "[]"] exI [of _ 0]) simp
      next
        case (Cons o' outs')
        then show ?thesis using 1(2) spin by (cases o') auto
      qed
      then obtain outs' pos' where "rd loop sk c outs' pos' len acc = Some r" "Io_fail \<notin> set outs'"
        by blast
      from 1(1) [OF this(1)] this(2) spin show False by blast
    qed
  qed
  then show ?thesis using assms by (cases "read_locked True True [] outs pos len []") blast+
qed

text \<open>
  C39 (termination). A read of a file port returns, with data or with an exception, in every case
  but one: an open port in loop mode whose file is empty seeks back to the start and tries again
  for ever, holding the mutex, as long as no system call fails.
\<close>

theorem file_read_returns:
  "(\<exists>r. file_read_bytes os len w p = Some r) \<longleftrightarrow>
     \<not> (0 < len \<and> file_is_open p \<and> fc_loop (fp_config p) \<and> file_content w p = []
        \<and> os_seek os \<and> Io_fail \<notin> set (os_file_io os))"
proof -
  let ?r = "read_locked (fc_loop (fp_config p)) (os_seek os) (file_content w p) (os_file_io os)
    (fp_pos p) len []"
  have "(\<exists>r. file_read_bytes os len w p = Some r) \<longleftrightarrow> len = 0 \<or> fp_fd p < 0 \<or> (\<exists>r. ?r = Some r)"
    by (auto simp: file_read_bytes_def split: option.split)
  moreover have "(\<exists>r. ?r = Some r) \<longleftrightarrow> \<not> (fc_loop (fp_config p) \<and> file_content w p = [] \<and> os_seek os
      \<and> Io_fail \<notin> set (os_file_io os))" if "0 < len"
    using read_locked_total [of "file_content w p" "fc_loop (fp_config p)" "os_seek os" "[]"]
      read_locked_fails read_locked_spins [OF that]
    by (cases "fc_loop (fp_config p) \<and> file_content w p = [] \<and> os_seek os") fastforce+
  ultimately show ?thesis by (auto simp: file_is_open_def)
qed

text \<open>What a read yields when no call fails: the kernel's short and interrupted calls do not show.\<close>

definition read_spec :: "bool \<Rightarrow> bytes \<Rightarrow> nat \<Rightarrow> nat \<Rightarrow> bytes" where
  "read_spec loop content pos len =
     (if loop \<and> length content \<le> pos then take len content else take len (drop pos content))"

lemma file_read_bytes_spec:
  assumes "Io_fail \<notin> set (os_file_io os)" and "os_seek os" and "file_is_open p"
    and "fc_loop (fp_config p) \<longrightarrow> file_content w p \<noteq> []"
  shows "\<exists>pos. file_read_bytes os len w p =
    Some (p\<lparr>fp_pos := pos\<rparr>, Inr (read_spec (fc_loop (fp_config p)) (file_content w p) (fp_pos p) len))
    \<and> (\<not> fc_loop (fp_config p) \<longrightarrow>
         pos = fp_pos p + length (take len (drop (fp_pos p) (file_content w p))))"
proof (cases "len = 0")
  case True
  then show ?thesis by (intro exI [of _ "fp_pos p"]) (simp add: file_read_bytes_def read_spec_def)
next
  case False
  let ?c = "file_content w p" and ?loop = "fc_loop (fp_config p)"
  have "?loop \<and> length ?c \<le> fp_pos p \<Longrightarrow> read_locked ?loop True ?c (os_file_io os) (fp_pos p) len []
      = Some (length (take len ?c), Some (take len ?c))"
    using assms False by (simp add: read_locked_wraps)
  moreover have "\<not> (?loop \<and> length ?c \<le> fp_pos p) \<Longrightarrow>
      read_locked ?loop True ?c (os_file_io os) (fp_pos p) len []
      = Some (fp_pos p + length (take len (drop (fp_pos p) ?c)), Some (take len (drop (fp_pos p) ?c)))"
    by (subst read_locked_straight) (use assms(1) in auto)
  ultimately show ?thesis
    using assms(2,3) False
    by (cases "?loop \<and> length ?c \<le> fp_pos p")
      (auto simp: file_read_bytes_def file_is_open_def read_spec_def simp del: length_take length_drop)
qed

lemma read_locked_length:
  assumes "read_locked loop sk c outs pos len acc = Some (pos', Some bs)" and "length acc \<le> len"
  shows "length bs \<le> len"
proof -
  have "length acc \<le> len \<longrightarrow> (\<forall>bs. snd r = Some bs \<longrightarrow> length bs \<le> len)"
    if "read_locked loop sk c outs pos len acc = Some r" for r
  proof (rule read_locked.raw_induct [where P = "\<lambda>loop sk c outs pos len acc r.
        length acc \<le> len \<longrightarrow> (\<forall>bs. snd r = Some bs \<longrightarrow> length bs \<le> len)", OF _ that], goal_cases)
    case (1 rd loop sk c outs pos len acc r)
    have "length (acc @ take m (drop pos c)) \<le> len" if "length acc < len" "m \<le> len - length acc" for m
      using that by simp
    with 1 show ?case by (auto simp: Let_def split: if_splits list.splits sys_io.splits)
  qed
  then show ?thesis using assms by fastforce
qed

section \<open>The port interface\<close>

text \<open>
  What the clients of \<open>i_io_port\<close> rely on: a closed port is not open, only an open port has a valid
  descriptor, \<open>reconfigure\<close> either returns true and leaves the port open or throws and leaves it
  closed, a closed port throws on a read, and a read yields at most what was asked for.
\<close>

locale io_port_spec =
  fixes is_open :: "'p \<Rightarrow> bool"
    and get_fd :: "'p \<Rightarrow> int"
    and close :: "'p \<Rightarrow> 'p"
    and reconfigure :: "os \<Rightarrow> i_io_config \<Rightarrow> io_world \<Rightarrow> 'p \<Rightarrow> io_world \<times> 'p \<times> (io_exception + bool)"
    and read_bytes :: "os \<Rightarrow> nat \<Rightarrow> io_world \<Rightarrow> 'p \<Rightarrow> ('p \<times> (io_exception + bytes)) option"
  assumes close_law: "\<not> is_open (close p)"
    and fd_law: "0 \<le> get_fd p \<Longrightarrow> is_open p"
    and reconfigure_law: "reconfigure os cfg w p = (w', p', r) \<Longrightarrow>
      r = Inr True \<and> is_open p' \<or> (\<exists>e. r = Inl e) \<and> \<not> is_open p'"
    and read_closed_law: "\<not> is_open p \<Longrightarrow> 0 < len \<Longrightarrow> read_bytes os len w p = Some (p, Inl Io_read_error)"
    and read_law: "read_bytes os len w p = Some (p', res) \<Longrightarrow>
      (is_open p' \<longleftrightarrow> is_open p) \<and> get_fd p' = get_fd p \<and> (\<forall>bs. res = Inr bs \<longrightarrow> length bs \<le> len)"
begin

lemma close_fd: "get_fd (close p) < 0"
  using close_law fd_law by (metis not_le)

text \<open>The result \<open>false\<close> that the callers test for never comes.\<close>

lemma reconfigure_not_false: "snd (snd (reconfigure os cfg w p)) \<noteq> Inr False"
  using reconfigure_law [of os cfg w p] by (cases "reconfigure os cfg w p") fastforce

lemma reconfigure_iff_open:
  "snd (snd (reconfigure os cfg w p)) = Inr True \<longleftrightarrow> is_open (fst (snd (reconfigure os cfg w p)))"
  using reconfigure_law [of os cfg w p] by (cases "reconfigure os cfg w p") fastforce

lemma reconfigure_fails_fd:
  "snd (snd (reconfigure os cfg w p)) \<noteq> Inr True \<Longrightarrow> get_fd (fst (snd (reconfigure os cfg w p))) < 0"
  using reconfigure_iff_open fd_law by (metis not_le)

lemma read_some_open:
  "read_bytes os len w p = Some (p', Inr bs) \<Longrightarrow> 0 < len \<Longrightarrow> is_open p"
  using read_closed_law by fastforce

end

lemma uart_open_locked_result:
  "uart_open_locked os cfg p = (p', r) \<Longrightarrow> up_fd p < 0 \<Longrightarrow>
   r = Inr True \<and> 0 \<le> up_fd p' \<or> (\<exists>e. r = Inl e) \<and> up_fd p' < 0"
  by (auto simp: uart_open_locked_def Let_def split: i_io_config.splits if_splits option.splits)

lemma i2c_open_locked_result:
  "i2c_open_locked os cfg p = (p', r) \<Longrightarrow> ip_fd p < 0 \<Longrightarrow>
   r = Inr True \<and> 0 \<le> ip_fd p' \<or> (\<exists>e. r = Inl e) \<and> ip_fd p' < 0"
  by (auto simp: i2c_open_locked_def Let_def split: i_io_config.splits if_splits)

lemma file_open_locked_result:
  "file_open_locked os cfg w p = (w', p', r) \<Longrightarrow> fp_fd p < 0 \<Longrightarrow>
   r = Inr True \<and> 0 \<le> fp_fd p' \<or> (\<exists>e. r = Inl e) \<and> fp_fd p' < 0"
  by (auto simp: file_open_locked_def Let_def split: i_io_config.splits if_splits)

lemma closed_fd [simp]:
  "up_fd (uart_close_locked u) < 0" "ip_fd (i2c_close_locked i) < 0" "fp_fd (file_close_locked f) < 0"
  by (simp_all add: uart_close_locked_def i2c_close_locked_def file_close_locked_def)

lemma rdwr_locked_length: "rdwr_locked os reg n = Some bs \<Longrightarrow> length bs = n"
  by (auto simp: rdwr_locked_def Let_def split: option.splits)

lemma file_read_bytes_law:
  assumes "file_read_bytes os len w p = Some (p', res)"
  shows "fp_fd p' = fp_fd p \<and> (\<forall>bs. res = Inr bs \<longrightarrow> length bs \<le> len)"
  using assms read_locked_length
  by (fastforce simp: file_read_bytes_def split: if_splits option.splits)

interpretation uartp: io_port_spec uart_is_open up_fd uart_close_locked
  "\<lambda>os cfg w p. (w, uart_reconfigure os cfg p)"
  "\<lambda>os len w p. Some (p, uart_read_bytes os len p)"
  by unfold_locales
    (auto simp: uart_is_open_def uart_reconfigure_def uart_read_bytes_def sys_read_def not_le
      dest: uart_open_locked_result split: if_splits option.splits)

interpretation i2cp: io_port_spec i2c_is_open i2c_get_fd i2c_close_locked
  "\<lambda>os cfg w p. (w, i2c_reconfigure os cfg p)"
  "\<lambda>os len w p. Some (p, i2c_read_bytes os len p)"
  by unfold_locales
    (auto simp: i2c_is_open_def i2c_reconfigure_def i2c_read_bytes_def i2c_get_fd_def not_le
      dest: i2c_open_locked_result rdwr_locked_length split: if_splits option.splits)

interpretation filep: io_port_spec file_is_open fp_fd file_close_locked file_reconfigure file_read_bytes
proof unfold_locales
  fix os cfg w w' r p p'
  assume "file_reconfigure os cfg w p = (w', p', r)"
  then show "r = Inr True \<and> file_is_open p' \<or> (\<exists>e. r = Inl e) \<and> \<not> file_is_open p'"
    using file_open_locked_result [of os cfg w "file_close_locked p" w' p' r]
    by (simp add: file_reconfigure_def file_is_open_def not_le)
next
  fix os len w p p' res
  assume "file_read_bytes os len w p = Some (p', res)"
  then show "(file_is_open p' = file_is_open p) \<and> fp_fd p' = fp_fd p
      \<and> (\<forall>bs. res = Inr bs \<longrightarrow> length bs \<le> len)"
    using file_read_bytes_law by (auto simp: file_is_open_def)
qed (auto simp: file_is_open_def file_read_bytes_def not_le)

section \<open>Virtual calls\<close>

text \<open>
  A \<open>shared_ptr<i_io_port>\<close> points to one of the concrete ports; the calls of the interface are
  dispatched on it. \<open>io_channel_wrapper\<close> forwards each of its operations to the port it was made
  for, which its owner keeps alive.
\<close>

datatype io_port = Port_uart uart_port | Port_i2c i2c_port | Port_file file_port

fun io_port_create :: "i_io_config \<Rightarrow> io_port" where
  "io_port_create (Uart_config c) = Port_uart uart_port_new"
| "io_port_create (I2c_config c) = Port_i2c i2c_port_new"
| "io_port_create (File_config c) = Port_file file_port_new"

fun port_is_open :: "io_port \<Rightarrow> bool" where
  "port_is_open (Port_uart p) = uart_is_open p"
| "port_is_open (Port_i2c p) = i2c_is_open p"
| "port_is_open (Port_file p) = file_is_open p"

fun port_get_fd :: "io_port \<Rightarrow> int" where
  "port_get_fd (Port_uart p) = up_fd p"
| "port_get_fd (Port_i2c p) = i2c_get_fd p"
| "port_get_fd (Port_file p) = fp_fd p"

fun port_close :: "io_port \<Rightarrow> io_port" where
  "port_close (Port_uart p) = Port_uart (uart_close_locked p)"
| "port_close (Port_i2c p) = Port_i2c (i2c_close_locked p)"
| "port_close (Port_file p) = Port_file (file_close_locked p)"

fun port_open ::
  "os \<Rightarrow> i_io_config \<Rightarrow> io_world \<Rightarrow> io_port \<Rightarrow> io_world \<times> io_port \<times> (io_exception + bool)" where
  "port_open os cfg w (Port_uart p) = (w, map_prod Port_uart (\<lambda>r. r) (uart_open_locked os cfg p))"
| "port_open os cfg w (Port_i2c p) = (w, map_prod Port_i2c (\<lambda>r. r) (i2c_open os cfg p))"
| "port_open os cfg w (Port_file p) =
     map_prod (\<lambda>w. w) (map_prod Port_file (\<lambda>r. r)) (file_open os cfg w p)"

fun port_reconfigure ::
  "os \<Rightarrow> i_io_config \<Rightarrow> io_world \<Rightarrow> io_port \<Rightarrow> io_world \<times> io_port \<times> (io_exception + bool)" where
  "port_reconfigure os cfg w (Port_uart p) = (w, map_prod Port_uart (\<lambda>r. r) (uart_reconfigure os cfg p))"
| "port_reconfigure os cfg w (Port_i2c p) = (w, map_prod Port_i2c (\<lambda>r. r) (i2c_reconfigure os cfg p))"
| "port_reconfigure os cfg w (Port_file p) =
     map_prod (\<lambda>w. w) (map_prod Port_file (\<lambda>r. r)) (file_reconfigure os cfg w p)"

fun port_reconnect ::
  "os \<Rightarrow> io_world \<Rightarrow> io_port \<Rightarrow> io_world \<times> io_port \<times> (io_exception + bool)" where
  "port_reconnect os w (Port_uart p) = (w, map_prod Port_uart (\<lambda>r. r) (uart_reconnect os p))"
| "port_reconnect os w (Port_i2c p) = (w, map_prod Port_i2c (\<lambda>r. r) (i2c_reconnect os p))"
| "port_reconnect os w (Port_file p) =
     map_prod (\<lambda>w. w) (map_prod Port_file (\<lambda>r. r)) (file_reconnect os w p)"

fun port_flush :: "os \<Rightarrow> io_port \<Rightarrow> bool" where
  "port_flush os (Port_uart p) = uart_flush os p"
| "port_flush os (Port_i2c p) = True"
| "port_flush os (Port_file p) = file_flush os p"

fun port_available :: "os \<Rightarrow> io_world \<Rightarrow> io_port \<Rightarrow> int" where
  "port_available os w (Port_uart p) = uart_available os p"
| "port_available os w (Port_i2c p) = i2c_available os p"
| "port_available os w (Port_file p) = file_available os w p"

fun port_read_bytes ::
  "os \<Rightarrow> nat \<Rightarrow> io_world \<Rightarrow> io_port \<Rightarrow> (io_port \<times> (io_exception + bytes)) option" where
  "port_read_bytes os len w (Port_uart p) = Some (Port_uart p, uart_read_bytes os len p)"
| "port_read_bytes os len w (Port_i2c p) = Some (Port_i2c p, i2c_read_bytes os len p)"
| "port_read_bytes os len w (Port_file p) =
     map_option (map_prod Port_file (\<lambda>r. r)) (file_read_bytes os len w p)"

fun port_write_bytes ::
  "os \<Rightarrow> bytes \<Rightarrow> io_world \<Rightarrow> io_port \<Rightarrow> io_world \<times> io_port \<times> (io_exception + int)" where
  "port_write_bytes os buf w (Port_uart p) =
     (case uart_write_bytes os buf w p of (w', r) \<Rightarrow> (w', Port_uart p, r))"
| "port_write_bytes os buf w (Port_i2c p) =
     (case i2c_write_bytes os buf w p of (w', r) \<Rightarrow> (w', Port_i2c p, r))"
| "port_write_bytes os buf w (Port_file p) =
     map_prod (\<lambda>w. w) (map_prod Port_file (\<lambda>r. r)) (file_write_bytes os buf w p)"

definition wrapper_shutdown :: "io_port \<Rightarrow> io_port" where
  "wrapper_shutdown p = (if port_is_open p then port_close p else p)"

interpretation port: io_port_spec port_is_open port_get_fd port_close port_reconfigure port_read_bytes
proof unfold_locales
  fix os cfg w w' r p p'
  assume reconf: "port_reconfigure os cfg w p = (w', p', r)"
  show "r = Inr True \<and> port_is_open p' \<or> (\<exists>e. r = Inl e) \<and> \<not> port_is_open p'"
  proof (cases p)
    case (Port_uart u)
    with reconf uartp.reconfigure_law [where os = os and cfg = cfg and p = u] show ?thesis
      by (cases "uart_reconfigure os cfg u") fastforce
  next
    case (Port_i2c i)
    with reconf i2cp.reconfigure_law [where os = os and cfg = cfg and p = i] show ?thesis
      by (cases "i2c_reconfigure os cfg i") fastforce
  next
    case (Port_file f)
    with reconf filep.reconfigure_law [where os = os and cfg = cfg and p = f and w = w] show ?thesis
      by (cases "file_reconfigure os cfg w f") fastforce
  qed
next
  fix os len w p p' res
  assume "port_read_bytes os len w p = Some (p', res)"
  then show "(port_is_open p' = port_is_open p) \<and> port_get_fd p' = port_get_fd p
      \<and> (\<forall>bs. res = Inr bs \<longrightarrow> length bs \<le> len)"
    using uartp.read_law i2cp.read_law filep.read_law by (cases p) fastforce+
next
  show "\<not> port_is_open (port_close p)" for p
    by (cases p) (simp_all add: uartp.close_law i2cp.close_law filep.close_law)
next
  show "0 \<le> port_get_fd p \<Longrightarrow> port_is_open p" for p
    using uartp.fd_law i2cp.fd_law filep.fd_law by (cases p) simp_all
next
  show "\<not> port_is_open p \<Longrightarrow> 0 < len \<Longrightarrow> port_read_bytes os len w p = Some (p, Inl Io_read_error)"
    for os len w p
    by (cases p) (simp_all add: uart_read_bytes_def uart_is_open_def i2c_read_bytes_def
        i2c_is_open_def filep.read_closed_law)
qed

end
