(* ===== verification/Io_Access.thy ===== *)
theory Io_Access
  imports Io_Port
begin

text \<open>
  The remaining accessors of the ports of \<open>ext_libs/io_helper\<close>: reads and writes of one byte, of
  character buffers and of strings. The buffers given are taken to be non-null. They are the same
  operation as the vector versions of \<open>Io_Port\<close>, which is what the lemmas show.
\<close>

section \<open>UART port\<close>

text \<open>The code for \<open>char\<close> and \<open>unsigned char\<close> buffers is the same.\<close>

definition uart_read_chars :: "os \<Rightarrow> nat \<Rightarrow> uart_port \<Rightarrow> io_exception + bytes" where
  "uart_read_chars os len p =
     (if up_fd p < 0 then Inl Io_read_error
      else if len = 0 then Inr []
      else case sys_read os len of None \<Rightarrow> Inl Io_read_error | Some bs \<Rightarrow> Inr bs)"

definition uart_read_uchars :: "os \<Rightarrow> nat \<Rightarrow> uart_port \<Rightarrow> io_exception + bytes" where
  "uart_read_uchars os len p =
     (if up_fd p < 0 then Inl Io_read_error
      else if len = 0 then Inr []
      else case sys_read os len of None \<Rightarrow> Inl Io_read_error | Some bs \<Rightarrow> Inr bs)"

text \<open>The string is cleared before an exception leaves the function.\<close>

definition uart_read_string :: "os \<Rightarrow> nat \<Rightarrow> uart_port \<Rightarrow> bytes \<Rightarrow> bytes \<times> (io_exception + int)" where
  "uart_read_string os max_len p str =
     (if up_fd p < 0 then (str, Inl Io_read_error)
      else if max_len = 0 then ([], Inr 0)
      else case sys_read os max_len of
             None \<Rightarrow> ([], Inl Io_read_error) | Some bs \<Rightarrow> (bs, Inr (int (length bs))))"

definition uart_write_byte ::
  "os \<Rightarrow> u8 \<Rightarrow> io_world \<Rightarrow> uart_port \<Rightarrow> io_world \<times> (io_exception + int)" where
  "uart_write_byte os c w p =
     (if up_fd p < 0 then (w, Inl Io_write_error)
      else case sys_write os [c] of
             None \<Rightarrow> (w, Inl Io_write_error)
           | Some n \<Rightarrow> (w\<lparr>w_sent := w_sent w @ [(uc_device_path (up_config p), take n [c])]\<rparr>, Inr (int n)))"

definition uart_write_chars ::
  "os \<Rightarrow> bytes \<Rightarrow> io_world \<Rightarrow> uart_port \<Rightarrow> io_world \<times> (io_exception + int)" where
  "uart_write_chars os buf w p =
     (if up_fd p < 0 then (w, Inl Io_write_error)
      else if length buf = 0 then (w, Inr 0)
      else case sys_write os buf of
             None \<Rightarrow> (w, Inl Io_write_error)
           | Some n \<Rightarrow> (w\<lparr>w_sent := w_sent w @ [(uc_device_path (up_config p), take n buf)]\<rparr>, Inr (int n)))"

definition uart_write_string ::
  "os \<Rightarrow> bytes \<Rightarrow> io_world \<Rightarrow> uart_port \<Rightarrow> io_world \<times> (io_exception + int)" where
  "uart_write_string os str w p = uart_write_chars os str w p"

lemma uart_accessors:
  "uart_read_chars os len p = uart_read_bytes os len p"
  "uart_read_uchars os len p = uart_read_bytes os len p"
  "uart_read_byte os p = uart_read_bytes os 1 p"
  "uart_write_byte os c w p = uart_write_bytes os [c] w p"
  "uart_write_string os buf w p = uart_write_bytes os buf w p"
  by (simp_all add: uart_read_chars_def uart_read_uchars_def uart_read_byte_def uart_read_bytes_def
      uart_write_byte_def uart_write_string_def uart_write_chars_def uart_write_bytes_def)

section \<open>I2C port\<close>

definition i2c_read_chars :: "os \<Rightarrow> nat \<Rightarrow> i2c_port \<Rightarrow> io_exception + bytes" where
  "i2c_read_chars os len p =
     (if len = 0 then Inr []
      else if ip_fd p < 0 then Inl Io_read_error
      else case rdwr_locked os I2C_DDC_REG_DATA_STREAM len of
             None \<Rightarrow> Inl Io_read_error | Some bs \<Rightarrow> Inr bs)"

definition i2c_read_uchars :: "os \<Rightarrow> nat \<Rightarrow> i2c_port \<Rightarrow> io_exception + bytes" where
  "i2c_read_uchars os len p =
     (if len = 0 then Inr []
      else if ip_fd p < 0 then Inl Io_read_error
      else case rdwr_locked os I2C_DDC_REG_DATA_STREAM len of
             None \<Rightarrow> Inl Io_read_error | Some bs \<Rightarrow> Inr bs)"

definition i2c_read_string :: "os \<Rightarrow> nat \<Rightarrow> i2c_port \<Rightarrow> bytes \<Rightarrow> bytes \<times> (io_exception + int)" where
  "i2c_read_string os max_len p str =
     (if max_len = 0 then (str, Inr 0)
      else case i2c_read_bytes os max_len p of
             Inl e \<Rightarrow> (str, Inl e)
           | Inr tmp \<Rightarrow> if tmp \<noteq> [] then (tmp, Inr (int (length tmp))) else (str, Inr 0))"

definition i2c_write_byte ::
  "os \<Rightarrow> u8 \<Rightarrow> io_world \<Rightarrow> i2c_port \<Rightarrow> io_world \<times> (io_exception + int)" where
  "i2c_write_byte os c w p = (let payload = c in i2c_write_bytes os [payload] w p)"

definition i2c_write_chars ::
  "os \<Rightarrow> bytes \<Rightarrow> io_world \<Rightarrow> i2c_port \<Rightarrow> io_world \<times> (io_exception + int)" where
  "i2c_write_chars os buf w p = (if length buf = 0 then (w, Inr 0) else i2c_write_bytes os buf w p)"

definition i2c_write_string ::
  "os \<Rightarrow> bytes \<Rightarrow> io_world \<Rightarrow> i2c_port \<Rightarrow> io_world \<times> (io_exception + int)" where
  "i2c_write_string os str w p = i2c_write_bytes os str w p"

lemma i2c_accessors:
  "i2c_read_chars os len p = i2c_read_bytes os len p"
  "i2c_read_uchars os len p = i2c_read_bytes os len p"
  "i2c_read_byte os p = i2c_read_bytes os 1 p"
  "i2c_write_chars os buf w p = i2c_write_bytes os buf w p"
  by (simp_all add: i2c_read_chars_def i2c_read_uchars_def i2c_read_byte_def i2c_read_bytes_def
      i2c_write_chars_def i2c_write_bytes_def)

section \<open>File port\<close>

definition file_read_chars ::
  "os \<Rightarrow> nat \<Rightarrow> io_world \<Rightarrow> file_port \<Rightarrow> (file_port \<times> (io_exception + bytes)) option" where
  "file_read_chars os len w p =
     (if len = 0 then Some (p, Inr [])
      else if fp_fd p < 0 then Some (p, Inl Io_read_error)
      else case read_locked (fc_loop (fp_config p)) (os_seek os) (file_content w p) (os_file_io os)
                  (fp_pos p) len [] of
             None \<Rightarrow> None
           | Some (pos, None) \<Rightarrow> Some (p\<lparr>fp_pos := pos\<rparr>, Inl Io_read_error)
           | Some (pos, Some bs) \<Rightarrow> Some (p\<lparr>fp_pos := pos\<rparr>, Inr bs))"

definition file_read_uchars ::
  "os \<Rightarrow> nat \<Rightarrow> io_world \<Rightarrow> file_port \<Rightarrow> (file_port \<times> (io_exception + bytes)) option" where
  "file_read_uchars os len w p =
     (if len = 0 then Some (p, Inr [])
      else if fp_fd p < 0 then Some (p, Inl Io_read_error)
      else case read_locked (fc_loop (fp_config p)) (os_seek os) (file_content w p) (os_file_io os)
                  (fp_pos p) len [] of
             None \<Rightarrow> None
           | Some (pos, None) \<Rightarrow> Some (p\<lparr>fp_pos := pos\<rparr>, Inl Io_read_error)
           | Some (pos, Some bs) \<Rightarrow> Some (p\<lparr>fp_pos := pos\<rparr>, Inr bs))"

definition file_read_byte ::
  "os \<Rightarrow> io_world \<Rightarrow> file_port \<Rightarrow> (file_port \<times> (io_exception + bytes)) option" where
  "file_read_byte os w p =
     (if fp_fd p < 0 then Some (p, Inl Io_read_error)
      else case read_locked (fc_loop (fp_config p)) (os_seek os) (file_content w p) (os_file_io os)
                  (fp_pos p) 1 [] of
             None \<Rightarrow> None
           | Some (pos, None) \<Rightarrow> Some (p\<lparr>fp_pos := pos\<rparr>, Inl Io_read_error)
           | Some (pos, Some bs) \<Rightarrow> Some (p\<lparr>fp_pos := pos\<rparr>, Inr bs))"

definition file_read_string ::
  "os \<Rightarrow> nat \<Rightarrow> io_world \<Rightarrow> file_port \<Rightarrow> bytes \<Rightarrow> (file_port \<times> bytes \<times> (io_exception + int)) option" where
  "file_read_string os max_len w p str =
     (if max_len = 0 then Some (p, str, Inr 0)
      else case file_read_bytes os max_len w p of
             None \<Rightarrow> None
           | Some (p', Inl e) \<Rightarrow> Some (p', str, Inl e)
           | Some (p', Inr tmp) \<Rightarrow>
               Some (p', if tmp \<noteq> [] then tmp else str, Inr (int (length tmp))))"

definition file_write_byte ::
  "os \<Rightarrow> u8 \<Rightarrow> io_world \<Rightarrow> file_port \<Rightarrow> io_world \<times> file_port \<times> (io_exception + int)" where
  "file_write_byte os c w p = file_write_bytes os [c] w p"

definition file_write_chars ::
  "os \<Rightarrow> bytes \<Rightarrow> io_world \<Rightarrow> file_port \<Rightarrow> io_world \<times> file_port \<times> (io_exception + int)" where
  "file_write_chars os buf w p =
     (if length buf = 0 then (w, p, Inr 0) else file_write_bytes os buf w p)"

definition file_write_string ::
  "os \<Rightarrow> bytes \<Rightarrow> io_world \<Rightarrow> file_port \<Rightarrow> io_world \<times> file_port \<times> (io_exception + int)" where
  "file_write_string os str w p = file_write_bytes os str w p"

lemma file_accessors:
  "file_read_chars os len w p = file_read_bytes os len w p"
  "file_read_uchars os len w p = file_read_bytes os len w p"
  "file_read_byte os w p = file_read_bytes os 1 w p"
  "file_write_chars os buf w p = file_write_bytes os buf w p"
  by (simp_all add: file_read_chars_def file_read_uchars_def file_read_byte_def file_read_bytes_def
      file_write_chars_def file_write_bytes_def)

end
