(* ===== verification/Gnss_Receiver.thy ===== *)
theory Gnss_Receiver
  imports Io_Port Ubx_Parser Nmea_Parser
begin

text \<open>
  \<open>gnss_receiver\<close>: the life cycle of one receiver channel and the loop of its worker thread, which
  waits for data on the port, reads it, feeds both parsers and reconfigures the port when something
  fails. The operations hold \<open>state_mutex_\<close>; the worker is a step function of one loop iteration,
  which the operations interleave with. \<open>stop\<close> waits for the iteration that is under way.
\<close>

section \<open>State\<close>

datatype receiver_state = Rc_idle | Rc_initialized | Rc_running

text \<open>
  The locals of \<open>worker_loop\<close> that live across iterations: the port its wrapper was made for, the
  registered descriptor and the count of failed attempts.
\<close>

record worker =
  wk_port :: nat
  wk_fd :: int
  wk_fails :: nat

text \<open>
  The world a receiver acts on: the kernel's part and the port objects, which receivers and
  controller share by index. A raw-message callback is named by the port it writes to; a parser
  keeps the one that was set when it was made, \<open>rc_parser_cb\<close>. The
  databases are what their \<open>register_with_parser\<close> does to a registry. \<open>rc_worker\<close> is the thread, while
  its loop runs.
\<close>

record io_sys =
  sys_world :: io_world
  sys_ports :: "io_port list"

record ('m, 'n) gnss_receiver =
  rc_port :: nat
  rc_config :: "i_io_config option"
  rc_state :: receiver_state
  rc_running :: bool
  rc_ubx_db :: "('m ubx_decoder_registry \<Rightarrow> 'm ubx_decoder_registry) option"
  rc_nmea_db :: "('n nmea_sentence_registry \<Rightarrow> 'n nmea_sentence_registry) option"
  rc_extra_setup :: "('m ubx_decoder_registry \<Rightarrow> 'm ubx_decoder_registry) option"
  rc_raw_msg_cb :: "nat option"
  rc_ubx_parser :: "'m ubx_parser option"
  rc_parser_cb :: "nat option"
  rc_nmea_parser :: "'n nmea_parser option"
  rc_worker :: "worker option"

definition gnss_receiver_new :: "nat \<Rightarrow> ('m, 'n) gnss_receiver" where
  "gnss_receiver_new port =
     \<lparr>rc_port = port, rc_config = None, rc_state = Rc_idle, rc_running = False, rc_ubx_db = None,
      rc_nmea_db = None, rc_extra_setup = None, rc_raw_msg_cb = None, rc_ubx_parser = None,
      rc_parser_cb = None, rc_nmea_parser = None, rc_worker = None\<rparr>"

definition UART_READ_CHUNK_BYTES :: int where "UART_READ_CHUNK_BYTES = 2048"
definition UART_MAX_RECONFIGURE_RETRIES :: nat where "UART_MAX_RECONFIGURE_RETRIES = 5"

definition set_port_obj :: "nat \<Rightarrow> io_world \<times> io_port \<Rightarrow> io_sys \<Rightarrow> io_sys" where
  "set_port_obj i wp sys =
     sys\<lparr>sys_world := fst wp, sys_ports := (sys_ports sys)[i := snd wp]\<rparr>"

section \<open>Life cycle\<close>

definition receiver_init ::
  "os \<Rightarrow> i_io_config option \<Rightarrow> io_sys \<Rightarrow> ('m, 'n) gnss_receiver \<Rightarrow> io_sys \<times> ('m, 'n) gnss_receiver \<times> bool"
where
  "receiver_init os config sys r =
     (case config of
        None \<Rightarrow> (sys, r, False)
      | Some cfg \<Rightarrow>
          if rc_state r \<noteq> Rc_idle then
            (case port_reconfigure os cfg (sys_world sys) (sys_ports sys ! rc_port r) of
               (w, p, res) \<Rightarrow>
                 (let sys' = set_port_obj (rc_port r) (w, p) sys in
                  case res of
                    Inl e \<Rightarrow> (sys', r, False)
                  | Inr ok \<Rightarrow> if ok then (sys', r\<lparr>rc_config := config\<rparr>, True) else (sys', r, False)))
          else
            (case port_open os cfg (sys_world sys) (sys_ports sys ! rc_port r) of
               (w, p, res) \<Rightarrow>
                 (let sys' = set_port_obj (rc_port r) (w, p) sys in
                  case res of
                    Inl e \<Rightarrow> (sys', r, False)
                  | Inr ok \<Rightarrow>
                      if ok then (sys', r\<lparr>rc_config := config, rc_state := Rc_initialized\<rparr>, True)
                      else (sys', r, False))))"

text \<open>A fresh registry and fresh parsers are built on every start.\<close>

definition start_registry :: "('m, 'n) gnss_receiver \<Rightarrow> 'm ubx_decoder_registry" where
  "start_registry r =
     (let registry = [];
          registry = (case rc_ubx_db r of None \<Rightarrow> registry | Some register \<Rightarrow> register registry)
      in case rc_extra_setup r of None \<Rightarrow> registry | Some setup \<Rightarrow> setup registry)"

definition start_ubx_parser :: "('m, 'n) gnss_receiver \<Rightarrow> 'm ubx_parser" where
  "start_ubx_parser r =
     (let parser = set_error_callback True (ubx_parser_new (start_registry r))
      in if rc_raw_msg_cb r \<noteq> None then set_raw_message_callback True parser else parser)"

definition start_nmea_parser :: "('m, 'n) gnss_receiver \<Rightarrow> 'n nmea_parser option" where
  "start_nmea_parser r =
     (case rc_nmea_db r of
        None \<Rightarrow> rc_nmea_parser r
      | Some register \<Rightarrow> Some (nmea_parser_new (register (\<lambda>_. None))))"

definition receiver_start :: "('m, 'n) gnss_receiver \<Rightarrow> ('m, 'n) gnss_receiver \<times> bool" where
  "receiver_start r =
     (if rc_state r \<noteq> Rc_initialized then (r, False)
      else (r\<lparr>rc_ubx_parser := Some (start_ubx_parser r), rc_parser_cb := rc_raw_msg_cb r,
              rc_nmea_parser := start_nmea_parser r, rc_running := True,
              rc_worker := Some \<lparr>wk_port = rc_port r, wk_fd = -1, wk_fails = 0\<rparr>,
              rc_state := Rc_running\<rparr>, True))"

definition receiver_stop :: "('m, 'n) gnss_receiver \<Rightarrow> ('m, 'n) gnss_receiver" where
  "receiver_stop r =
     (if rc_state r \<noteq> Rc_running then r
      else r\<lparr>rc_running := False, rc_worker := None, rc_ubx_parser := None, rc_parser_cb := None,
             rc_nmea_parser := None, rc_state := Rc_initialized\<rparr>)"

definition receiver_terminate ::
  "io_sys \<Rightarrow> ('m, 'n) gnss_receiver \<Rightarrow> io_sys \<times> ('m, 'n) gnss_receiver" where
  "receiver_terminate sys r =
     (let r = receiver_stop r in
      if rc_state r = Rc_initialized
      then (set_port_obj (rc_port r)
              (sys_world sys, wrapper_shutdown (sys_ports sys ! rc_port r)) sys,
            r\<lparr>rc_state := Rc_idle\<rparr>)
      else (sys, r))"

definition receiver_is_running :: "('m, 'n) gnss_receiver \<Rightarrow> bool" where
  "receiver_is_running r = rc_running r"

definition receiver_setup_ubx ::
  "('m ubx_decoder_registry \<Rightarrow> 'm ubx_decoder_registry) \<Rightarrow> ('m, 'n) gnss_receiver \<Rightarrow> ('m, 'n) gnss_receiver"
where "receiver_setup_ubx db r = r\<lparr>rc_ubx_db := Some db\<rparr>"

definition receiver_setup_nmea ::
  "('n nmea_sentence_registry \<Rightarrow> 'n nmea_sentence_registry) \<Rightarrow> ('m, 'n) gnss_receiver \<Rightarrow> ('m, 'n) gnss_receiver"
where "receiver_setup_nmea db r = r\<lparr>rc_nmea_db := Some db\<rparr>"

definition receiver_set_extra_setup ::
  "('m ubx_decoder_registry \<Rightarrow> 'm ubx_decoder_registry) \<Rightarrow> ('m, 'n) gnss_receiver \<Rightarrow> ('m, 'n) gnss_receiver"
where "receiver_set_extra_setup cb r = r\<lparr>rc_extra_setup := Some cb\<rparr>"

definition receiver_set_raw_cb :: "nat option \<Rightarrow> ('m, 'n) gnss_receiver \<Rightarrow> ('m, 'n) gnss_receiver" where
  "receiver_set_raw_cb cb r = r\<lparr>rc_raw_msg_cb := cb\<rparr>"

definition receiver_set_port :: "nat \<Rightarrow> ('m, 'n) gnss_receiver \<Rightarrow> ('m, 'n) gnss_receiver" where
  "receiver_set_port port r = (if rc_state r \<noteq> Rc_idle then r else r\<lparr>rc_port := port\<rparr>)"

section \<open>Worker loop\<close>

text \<open>
  What one iteration meets: whether the event manager takes the descriptor, what waiting returns
  and which events the callback of the descriptor saw, and the kernel.
\<close>

datatype poll_event = No_event | Poll_in | Poll_error

record loop_env =
  le_add_fd :: bool
  le_wait :: int
  le_event :: poll_event
  le_os :: os

text \<open>
  How an iteration ends: the loop goes on, it is left, an exception nobody catches or a null
  pointer ends the process, or a port call does not return.
\<close>

datatype loop_end = Loop_continue | Loop_exit | Loop_abort | Loop_null | Loop_hang

datatype ('m, 'n) worker_event =
    Chunk_read bytes
  | Ubx_event "'m ubx_event"
  | Nmea_event "'n nmea_event"

definition reconfigure_port ::
  "os \<Rightarrow> i_io_config option \<Rightarrow> io_sys \<Rightarrow> worker \<Rightarrow> (io_sys \<times> worker \<times> bool) option" where
  "reconfigure_port os config sys wk =
     (case config of
        None \<Rightarrow> None
      | Some cfg \<Rightarrow>
          let wk = (if 0 \<le> wk_fd wk then wk\<lparr>wk_fd := -1\<rparr> else wk) in
          (case port_reconfigure os cfg (sys_world sys) (sys_ports sys ! wk_port wk) of
             (w, p, res) \<Rightarrow>
               let sys' = set_port_obj (wk_port wk) (w, p) sys;
                   ok = (case res of Inl e \<Rightarrow> False | Inr b \<Rightarrow> b)
               in if ok \<and> 0 \<le> port_get_fd p then Some (sys', wk\<lparr>wk_fails := 0\<rparr>, True)
                  else let wk = wk\<lparr>wk_fails := Suc (wk_fails wk)\<rparr>
                    in Some (sys', wk, wk_fails wk < UART_MAX_RECONFIGURE_RETRIES)))"

text \<open>The two ways to go on after an attempt: the worker lives on, or the loop is left.\<close>

definition after_reconfigure ::
  "os \<Rightarrow> io_sys \<Rightarrow> ('m, 'n) gnss_receiver \<Rightarrow> worker
   \<Rightarrow> io_sys \<times> ('m, 'n) gnss_receiver \<times> ('m, 'n) worker_event list \<times> loop_end" where
  "after_reconfigure os sys r wk =
     (case reconfigure_port os (rc_config r) sys wk of
        None \<Rightarrow> (sys, r, [], Loop_null)
      | Some (sys', wk', go_on) \<Rightarrow>
          if go_on then (sys', r\<lparr>rc_worker := Some wk'\<rparr>, [], Loop_continue)
          else (sys', r\<lparr>rc_worker := None, rc_running := False\<rparr>, [], Loop_exit))"

definition feed_parsers ::
  "bytes \<Rightarrow> ('m, 'n) gnss_receiver \<Rightarrow> ('m, 'n) gnss_receiver \<times> ('m, 'n) worker_event list" where
  "feed_parsers buf r =
     (let (ubx, es) = (case rc_ubx_parser r of None \<Rightarrow> (None, [])
                       | Some p \<Rightarrow> (case ubx_feed p buf of (p', es) \<Rightarrow> (Some p', es)));
          (nmea, fs) = (case rc_nmea_parser r of None \<Rightarrow> (None, [])
                        | Some p \<Rightarrow> (case nmea_feed p buf of (p', fs) \<Rightarrow> (Some p', fs)))
      in (r\<lparr>rc_ubx_parser := ubx, rc_nmea_parser := nmea\<rparr>,
          Chunk_read buf # map Ubx_event es @ map Nmea_event fs))"

definition worker_read ::
  "os \<Rightarrow> io_sys \<Rightarrow> ('m, 'n) gnss_receiver \<Rightarrow> worker
   \<Rightarrow> io_sys \<times> ('m, 'n) gnss_receiver \<times> ('m, 'n) worker_event list \<times> loop_end" where
  "worker_read os sys r wk =
     (let port = sys_ports sys ! wk_port wk;
          avail = port_available os (sys_world sys) port;
          r = r\<lparr>rc_worker := Some wk\<rparr>
      in if avail \<le> 0 then (sys, r, [], Loop_continue)
         else
           let read_size = (if avail > UART_READ_CHUNK_BYTES then UART_READ_CHUNK_BYTES else avail) in
           case port_read_bytes os (nat read_size) (sys_world sys) port of
             None \<Rightarrow> (sys, r, [], Loop_hang)
           | Some (port', Inl e) \<Rightarrow>
               (set_port_obj (wk_port wk) (sys_world sys, port') sys, r, [], Loop_abort)
           | Some (port', Inr buf) \<Rightarrow>
               (let sys' = set_port_obj (wk_port wk) (sys_world sys, port') sys in
                if buf \<noteq> [] then (case feed_parsers buf r of (r', es) \<Rightarrow> (sys', r', es, Loop_continue))
                else (sys', r, [], Loop_continue)))"

definition worker_iteration ::
  "loop_env \<Rightarrow> io_sys \<Rightarrow> ('m, 'n) gnss_receiver
   \<Rightarrow> io_sys \<times> ('m, 'n) gnss_receiver \<times> ('m, 'n) worker_event list \<times> loop_end" where
  "worker_iteration env sys r =
     (case rc_worker r of
        None \<Rightarrow> (sys, r, [], Loop_exit)
      | Some wk \<Rightarrow>
          if \<not> rc_running r then (sys, r\<lparr>rc_worker := None\<rparr>, [], Loop_exit)
          else
            let fd = port_get_fd (sys_ports sys ! wk_port wk) in
            if fd < 0 then after_reconfigure (le_os env) sys r wk
            else if fd \<noteq> wk_fd wk \<and> \<not> le_add_fd env then after_reconfigure (le_os env) sys r wk
            else
              let wk = wk\<lparr>wk_fd := fd\<rparr> in
              if le_wait env = 0 then (sys, r\<lparr>rc_worker := Some wk\<rparr>, [], Loop_continue)
              else if le_wait env < 0 then after_reconfigure (le_os env) sys r wk
              else if le_event env = Poll_error then after_reconfigure (le_os env) sys r wk
              else if le_event env = No_event then (sys, r\<lparr>rc_worker := Some wk\<rparr>, [], Loop_continue)
              else worker_read (le_os env) sys r wk)"

section \<open>Operations and iterations in any order\<close>

datatype ('m, 'n) receiver_op =
    Op_init os "i_io_config option"
  | Op_start
  | Op_stop
  | Op_terminate
  | Op_set_port nat
  | Op_setup_ubx "'m ubx_decoder_registry \<Rightarrow> 'm ubx_decoder_registry"
  | Op_setup_nmea "'n nmea_sentence_registry \<Rightarrow> 'n nmea_sentence_registry"
  | Op_set_extra_setup "'m ubx_decoder_registry \<Rightarrow> 'm ubx_decoder_registry"
  | Op_set_raw_cb "nat option"
  | Op_iteration loop_env

fun receiver_step ::
  "('m, 'n) receiver_op \<Rightarrow> io_sys \<times> ('m, 'n) gnss_receiver \<Rightarrow> io_sys \<times> ('m, 'n) gnss_receiver" where
  "receiver_step (Op_init os cfg) (sys, r) = (case receiver_init os cfg sys r of (sys', r', _) \<Rightarrow> (sys', r'))"
| "receiver_step Op_start (sys, r) = (sys, fst (receiver_start r))"
| "receiver_step Op_stop (sys, r) = (sys, receiver_stop r)"
| "receiver_step Op_terminate (sys, r) = receiver_terminate sys r"
| "receiver_step (Op_set_port i) (sys, r) = (sys, receiver_set_port i r)"
| "receiver_step (Op_setup_ubx db) (sys, r) = (sys, receiver_setup_ubx db r)"
| "receiver_step (Op_setup_nmea db) (sys, r) = (sys, receiver_setup_nmea db r)"
| "receiver_step (Op_set_extra_setup cb) (sys, r) = (sys, receiver_set_extra_setup cb r)"
| "receiver_step (Op_set_raw_cb cb) (sys, r) = (sys, receiver_set_raw_cb cb r)"
| "receiver_step (Op_iteration env) (sys, r) =
     (case worker_iteration env sys r of (sys', r', _, _) \<Rightarrow> (sys', r'))"

fun receiver_steps ::
  "('m, 'n) receiver_op list \<Rightarrow> io_sys \<times> ('m, 'n) gnss_receiver \<Rightarrow> io_sys \<times> ('m, 'n) gnss_receiver" where
  "receiver_steps [] s = s"
| "receiver_steps (op # ops) s = receiver_steps ops (receiver_step op s)"

text \<open>
  The invariant: the running flag goes with a live worker on the receiver's port, both only in the
  running state; the parsers exist in the running state only; a configuration is there in every
  state but the initial one.
\<close>

definition receiver_ok :: "('m, 'n) gnss_receiver \<Rightarrow> bool" where
  "receiver_ok r \<longleftrightarrow>
     (rc_running r \<longleftrightarrow> rc_worker r \<noteq> None)
     \<and> (rc_running r \<longrightarrow> rc_state r = Rc_running)
     \<and> (rc_ubx_parser r \<noteq> None \<longleftrightarrow> rc_state r = Rc_running)
     \<and> (rc_nmea_parser r \<noteq> None \<longrightarrow> rc_state r = Rc_running)
     \<and> (rc_state r \<noteq> Rc_idle \<longrightarrow> rc_config r \<noteq> None)
     \<and> (\<forall>wk. rc_worker r = Some wk \<longrightarrow> wk_port wk = rc_port r \<and> wk_fails wk < UART_MAX_RECONFIGURE_RETRIES)"

named_theorems receiver_defs \<open>the operations of a receiver\<close>

declare receiver_init_def [receiver_defs] receiver_start_def [receiver_defs]
  receiver_stop_def [receiver_defs] receiver_terminate_def [receiver_defs]
  receiver_set_port_def [receiver_defs] receiver_setup_ubx_def [receiver_defs]
  receiver_setup_nmea_def [receiver_defs] receiver_set_extra_setup_def [receiver_defs]
  receiver_set_raw_cb_def [receiver_defs]

lemma receiver_new_ok: "receiver_ok (gnss_receiver_new port)"
  by (simp add: receiver_ok_def gnss_receiver_new_def)

lemma receiver_init_ok:
  assumes "receiver_init os cfg sys r = (sys', r', b)" and "receiver_ok r"
  shows "receiver_ok r'"
  using assms by (auto simp: receiver_init_def receiver_ok_def Let_def
      split: option.splits if_splits prod.splits sum.splits)

lemma receiver_start_ok: "receiver_ok r \<Longrightarrow> receiver_ok (fst (receiver_start r))"
  by (simp add: receiver_start_def receiver_ok_def UART_MAX_RECONFIGURE_RETRIES_def)

lemma receiver_stop_ok: "receiver_ok r \<Longrightarrow> receiver_ok (receiver_stop r)"
  by (auto simp: receiver_stop_def receiver_ok_def)

lemma receiver_terminate_ok: "receiver_ok r \<Longrightarrow> receiver_ok (snd (receiver_terminate sys r))"
  using receiver_stop_ok [of r]
  by (auto simp: receiver_terminate_def Let_def receiver_ok_def split: if_splits)

lemma reconfigure_port_worker:
  "reconfigure_port os cfg sys wk = Some (sys', wk', go_on) \<Longrightarrow>
   wk_port wk' = wk_port wk \<and> (go_on \<longleftrightarrow> wk_fails wk' < UART_MAX_RECONFIGURE_RETRIES)
   \<and> (wk_fails wk' = 0 \<or> wk_fails wk' = Suc (wk_fails wk))"
  by (auto simp: reconfigure_port_def Let_def UART_MAX_RECONFIGURE_RETRIES_def
      split: option.splits prod.splits if_splits)

lemma reconfigure_port_config: "cfg \<noteq> None \<Longrightarrow> reconfigure_port os cfg sys wk \<noteq> None"
  by (auto simp: reconfigure_port_def Let_def split: option.splits prod.splits)

lemma after_reconfigure_ok:
  assumes "after_reconfigure os sys r wk = (sys', r', es, e)" and "receiver_ok r"
    and "rc_running r" and "wk_port wk = rc_port r"
  shows "receiver_ok r' \<and> e \<noteq> Loop_null"
proof -
  have "rc_config r \<noteq> None" using assms(2,3) by (auto simp: receiver_ok_def)
  then obtain sys2 wk2 go_on where rp: "reconfigure_port os (rc_config r) sys wk = Some (sys2, wk2, go_on)"
    using reconfigure_port_config by (metis not_None_eq prod_cases3)
  then show ?thesis
    using assms reconfigure_port_worker [OF rp]
    by (auto simp: after_reconfigure_def receiver_ok_def split: if_splits)
qed

lemma feed_parsers_ok:
  "feed_parsers buf r = (r', es) \<Longrightarrow> receiver_ok r \<Longrightarrow> receiver_ok r'"
  by (auto simp: feed_parsers_def receiver_ok_def split: option.splits prod.splits)

lemma worker_read_ok:
  assumes "worker_read os sys r wk = (sys', r', es, e)" and "receiver_ok (r\<lparr>rc_worker := Some wk\<rparr>)"
  shows "receiver_ok r' \<and> e \<noteq> Loop_null"
  using assms feed_parsers_ok
  by (auto simp: worker_read_def Let_def split: option.splits prod.splits sum.splits if_splits)

lemma worker_iteration_ok:
  assumes "worker_iteration env sys r = (sys', r', es, e)" and "receiver_ok r"
  shows "receiver_ok r' \<and> e \<noteq> Loop_null"
proof (cases "rc_worker r")
  case None
  then show ?thesis using assms by (simp add: worker_iteration_def)
next
  case (Some wk)
  then have wk: "rc_running r" "wk_port wk = rc_port r" "wk_fails wk < UART_MAX_RECONFIGURE_RETRIES"
    using assms(2) by (auto simp: receiver_ok_def)
  have keep: "receiver_ok (r\<lparr>rc_worker := Some (wk\<lparr>wk_fd := fd\<rparr>)\<rparr>)" for fd
    using assms(2) wk by (simp add: receiver_ok_def)
  show ?thesis
    using assms(1) Some wk(1) keep after_reconfigure_ok [OF _ assms(2) wk(1)] wk(2)
      worker_read_ok [OF _ keep]
    by (auto simp: worker_iteration_def Let_def split: if_splits)
qed

lemma receiver_setters_ok:
  "receiver_ok r \<Longrightarrow> receiver_ok (receiver_setup_ubx db r)"
  "receiver_ok r \<Longrightarrow> receiver_ok (receiver_setup_nmea ndb r)"
  "receiver_ok r \<Longrightarrow> receiver_ok (receiver_set_extra_setup cb r)"
  "receiver_ok r \<Longrightarrow> receiver_ok (receiver_set_raw_cb rcb r)"
  "receiver_ok r \<Longrightarrow> receiver_ok (receiver_set_port i r)"
  by (auto simp: receiver_ok_def receiver_setup_ubx_def receiver_setup_nmea_def
      receiver_set_extra_setup_def receiver_set_raw_cb_def receiver_set_port_def)

lemma receiver_step_ok:
  assumes "receiver_ok r"
  shows "receiver_ok (snd (receiver_step op (sys, r)))"
proof (cases op)
  case (Op_init os cfg)
  then show ?thesis using receiver_init_ok assms by (cases "receiver_init os cfg sys r") fastforce
next
  case (Op_iteration env)
  then show ?thesis
    using worker_iteration_ok assms by (cases "worker_iteration env sys r") fastforce
qed (simp_all add: assms receiver_start_ok receiver_stop_ok receiver_terminate_ok receiver_setters_ok)

lemma receiver_steps_ok: "receiver_ok (snd s) \<Longrightarrow> receiver_ok (snd (receiver_steps ops s))"
  by (induction ops arbitrary: s) (simp_all, metis receiver_step_ok prod.collapse)

section \<open>Runs of the worker\<close>

fun worker_run ::
  "loop_env list \<Rightarrow> io_sys \<Rightarrow> ('m, 'n) gnss_receiver
   \<Rightarrow> io_sys \<times> ('m, 'n) gnss_receiver \<times> ('m, 'n) worker_event list \<times> loop_end" where
  "worker_run [] sys r = (sys, r, [], Loop_continue)"
| "worker_run (env # envs) sys r =
     (case worker_iteration env sys r of
        (sys', r', es, e) \<Rightarrow>
          if e = Loop_continue
          then (case worker_run envs sys' r' of (sys'', r'', es', e') \<Rightarrow> (sys'', r'', es @ es', e'))
          else (sys', r', es, e))"

fun read_stream :: "('m, 'n) worker_event list \<Rightarrow> bytes" where
  "read_stream [] = []"
| "read_stream (Chunk_read bs # es) = bs @ read_stream es"
| "read_stream (Ubx_event x # es) = read_stream es"
| "read_stream (Nmea_event x # es) = read_stream es"

fun ubx_events :: "('m, 'n) worker_event list \<Rightarrow> 'm ubx_event list" where
  "ubx_events [] = []"
| "ubx_events (Chunk_read bs # es) = ubx_events es"
| "ubx_events (Ubx_event x # es) = x # ubx_events es"
| "ubx_events (Nmea_event x # es) = ubx_events es"

fun nmea_events :: "('m, 'n) worker_event list \<Rightarrow> 'n nmea_event list" where
  "nmea_events [] = []"
| "nmea_events (Chunk_read bs # es) = nmea_events es"
| "nmea_events (Ubx_event x # es) = nmea_events es"
| "nmea_events (Nmea_event x # es) = x # nmea_events es"

lemma event_parts_append [simp]:
  "read_stream (es @ fs) = read_stream es @ read_stream fs"
  "ubx_events (es @ fs) = ubx_events es @ ubx_events fs"
  "nmea_events (es @ fs) = nmea_events es @ nmea_events fs"
  by (induction es rule: read_stream.induct) simp_all

lemma event_parts_ubx [simp]:
  "read_stream (map Ubx_event xs) = []" "ubx_events (map Ubx_event xs) = xs"
  "nmea_events (map Ubx_event xs) = []"
  by (induction xs) simp_all

lemma event_parts_nmea [simp]:
  "read_stream (map Nmea_event ys) = []" "ubx_events (map Nmea_event ys) = []"
  "nmea_events (map Nmea_event ys) = ys"
  by (induction ys) simp_all

text \<open>What an optional parser makes of a stream.\<close>

definition ubx_after :: "'m ubx_parser option \<Rightarrow> bytes \<Rightarrow> 'm ubx_parser option \<times> 'm ubx_event list" where
  "ubx_after po bs =
     (case po of None \<Rightarrow> (None, []) | Some p \<Rightarrow> (Some (fst (ubx_feed p bs)), snd (ubx_feed p bs)))"

definition nmea_after :: "'n nmea_parser option \<Rightarrow> bytes \<Rightarrow> 'n nmea_parser option \<times> 'n nmea_event list" where
  "nmea_after po bs =
     (case po of None \<Rightarrow> (None, []) | Some p \<Rightarrow> (Some (fst (nmea_feed p bs)), snd (nmea_feed p bs)))"

lemma after_Nil [simp]: "ubx_after po [] = (po, [])" "nmea_after qo [] = (qo, [])"
  by (simp_all add: ubx_after_def nmea_after_def ubx_machine.feed_Nil nmea_machine.feed_Nil
      split: option.split)

lemma after_append:
  "ubx_after po (xs @ ys) =
     (fst (ubx_after (fst (ubx_after po xs)) ys), snd (ubx_after po xs) @ snd (ubx_after (fst (ubx_after po xs)) ys))"
  "nmea_after qo (xs @ ys) =
     (fst (nmea_after (fst (nmea_after qo xs)) ys), snd (nmea_after qo xs) @ snd (nmea_after (fst (nmea_after qo xs)) ys))"
  by (simp_all add: ubx_after_def nmea_after_def ubx_machine.feed_append nmea_machine.feed_append
      split: option.split)

text \<open>A receiver and its log agree with the parsers run on the bytes read.\<close>

definition fed_by :: "('m, 'n) gnss_receiver \<Rightarrow> ('m, 'n) gnss_receiver \<Rightarrow> ('m, 'n) worker_event list \<Rightarrow> bool" where
  "fed_by r r' es \<longleftrightarrow>
     ubx_after (rc_ubx_parser r) (read_stream es) = (rc_ubx_parser r', ubx_events es)
     \<and> nmea_after (rc_nmea_parser r) (read_stream es) = (rc_nmea_parser r', nmea_events es)"

lemma fed_by_nothing:
  "rc_ubx_parser r' = rc_ubx_parser r \<Longrightarrow> rc_nmea_parser r' = rc_nmea_parser r \<Longrightarrow> fed_by r r' []"
  by (simp add: fed_by_def)

lemma fed_by_append: "fed_by r r' es \<Longrightarrow> fed_by r' r'' fs \<Longrightarrow> fed_by r r'' (es @ fs)"
  by (simp add: fed_by_def after_append)

lemma feed_parsers_fed: "feed_parsers buf r = (r', es) \<Longrightarrow> fed_by r r' es"
  by (auto simp: feed_parsers_def fed_by_def ubx_after_def nmea_after_def
      split: option.splits prod.splits)

lemma after_reconfigure_fed: "after_reconfigure os sys r wk = (sys', r', es, e) \<Longrightarrow> fed_by r r' es"
  by (auto simp: after_reconfigure_def intro!: fed_by_nothing split: option.splits prod.splits if_splits)

lemma worker_read_fed:
  assumes "worker_read os sys r wk = (sys', r', es, e)"
  shows "fed_by r r' es"
proof -
  have "fed_by r r' es" if "feed_parsers buf (r\<lparr>rc_worker := Some wk\<rparr>) = (r', es)" for buf
    using feed_parsers_fed [OF that] by (simp add: fed_by_def)
  then show ?thesis
    using assms by (auto simp: worker_read_def Let_def intro!: fed_by_nothing
        split: option.splits prod.splits sum.splits if_splits)
qed

lemma worker_iteration_fed:
  assumes "worker_iteration env sys r = (sys', r', es, e)"
  shows "fed_by r r' es"
proof (cases "rc_worker r")
  case None
  then show ?thesis using assms by (auto simp: worker_iteration_def intro!: fed_by_nothing)
next
  case (Some wk)
  then show ?thesis
    using assms after_reconfigure_fed worker_read_fed
    by (auto simp: worker_iteration_def Let_def intro!: fed_by_nothing split: if_splits)
qed

lemma worker_run_fed: "worker_run envs sys r = (sys', r', es, e) \<Longrightarrow> fed_by r r' es"
proof (induction envs arbitrary: sys r es)
  case Nil
  then show ?case by (auto intro: fed_by_nothing)
next
  case (Cons env envs)
  obtain sys1 r1 es1 e1 where it: "worker_iteration env sys r = (sys1, r1, es1, e1)"
    by (metis prod_cases4)
  obtain sys2 r2 es2 e2 where run: "worker_run envs sys1 r1 = (sys2, r2, es2, e2)"
    by (metis prod_cases4)
  from Cons.prems it run Cons.IH [of sys1 r1] worker_iteration_fed [OF it] show ?case
    by (auto split: if_splits intro: fed_by_append)
qed

section \<open>Properties\<close>

text \<open>
  C36 (invariant). After any sequence of operations, worker iterations and answers of the kernel, in any
  order, the running flag is set exactly while the worker's loop lives, and only in the running
  state; the UBX parser exists exactly in the running state; every state but the initial one has a
  configuration, so no iteration that follows dereferences a null configuration.
\<close>

theorem receiver_lifecycle:
  "let (sys', r) = receiver_steps ops (sys, gnss_receiver_new port) in
     receiver_ok r \<and> receiver_is_running r = (rc_worker r \<noteq> None)
     \<and> (rc_ubx_parser r \<noteq> None) = (rc_state r = Rc_running)
     \<and> snd (snd (snd (worker_iteration env sys' r))) \<noteq> Loop_null"
proof -
  obtain sys' r where s: "receiver_steps ops (sys, gnss_receiver_new port) = (sys', r)"
    by (metis surj_pair)
  have ok: "receiver_ok r"
    using receiver_steps_ok [of "(sys, gnss_receiver_new port)" ops] s by (simp add: receiver_new_ok)
  obtain sys2 r2 es e where "worker_iteration env sys' r = (sys2, r2, es, e)" by (metis prod_cases4)
  with worker_iteration_ok [OF this ok] ok s show ?thesis
    by (auto simp: receiver_is_running_def receiver_ok_def)
qed


text \<open>A kernel whose device opens, has the given bytes waiting and takes every byte it is given.\<close>

definition os_device :: "bytes \<Rightarrow> os" where
  "os_device waiting =
     \<lparr>os_open = (\<lambda>_ _. 3), os_tcgetattr = Some cooked_tty, os_tcsetattr = True,
      os_fionread = Some (int (length waiting)), os_read = (\<lambda>_. Some waiting),
      os_write = (\<lambda>bs. Some (length bs)), os_slave = True, os_rdwr = (\<lambda>_ _. Some waiting),
      os_i2c_write = True, os_mkdir = (\<lambda>_. True), os_stat = True, os_seek = True, os_sync = True,
      os_file_io = []\<rparr>"

definition data_env :: "bytes \<Rightarrow> loop_env" where
  "data_env waiting =
     \<lparr>le_add_fd = True, le_wait = 1, le_event = Poll_in, le_os = os_device waiting\<rparr>"

definition sys_demo :: "i_io_config \<Rightarrow> io_sys" where
  "sys_demo cfg = \<lparr>sys_world = \<lparr>w_files = (\<lambda>_. None), w_sent = []\<rparr>, sys_ports = [io_port_create cfg]\<rparr>"

definition receiver_demo :: "(unit, string) gnss_receiver" where
  "receiver_demo =
     (gnss_receiver_new 0)\<lparr>rc_raw_msg_cb := Some 1, rc_nmea_db := Some (\<lambda>reg. reg)\<rparr>"

definition uart_demo :: i_io_config where
  "uart_demo = Uart_config (gnss_default ''/dev/ttyS3'')"

definition opened_demo :: "io_sys \<times> (unit, string) gnss_receiver" where
  "opened_demo = receiver_step (Op_init (os_device []) (Some uart_demo)) (sys_demo uart_demo, receiver_demo)"

lemma opened_demo_simps:
  "rc_state (snd opened_demo) = Rc_initialized" "rc_nmea_db (snd opened_demo) = Some (\<lambda>reg. reg)"
  "rc_port (snd opened_demo) = 0" "rc_config (snd opened_demo) = Some uart_demo"
  "sys_ports (fst opened_demo) =
     [Port_uart \<lparr>up_fd = 3, up_config = gnss_default ''/dev/ttyS3'',
        up_tty = Some (apply_termios_config (gnss_default ''/dev/ttyS3'') cooked_tty)\<rparr>]"
  by (simp_all add: opened_demo_def receiver_init_def receiver_demo_def gnss_receiver_new_def
      sys_demo_def uart_demo_def uart_open_locked_def uart_port_new_def os_device_def
      set_port_obj_def Let_def gnss_default_def)


section \<open>Giving up\<close>

text \<open>
  A port that no attempt revives: an I2C port, whose descriptor the interface never shows, or a
  closed port none of whose devices can be opened.
\<close>

definition dead_port :: "io_port \<Rightarrow> bool" where
  "dead_port p \<longleftrightarrow> (\<exists>i. p = Port_i2c i)"

definition unplugged :: "os \<Rightarrow> bool" where
  "unplugged os \<longleftrightarrow> os_open os = (\<lambda>_ _. -1)"

lemma unplugged_reconfigure:
  "unplugged os \<Longrightarrow> port_get_fd (fst (snd (port_reconfigure os cfg w p))) < 0"
  by (cases p)
    (auto simp: unplugged_def uart_reconfigure_def i2c_get_fd_def uart_open_locked_def Let_def
      file_reconfigure_def file_open_locked_def uart_close_locked_def file_close_locked_def
      split: i_io_config.splits)

lemma dead_reconfigure:
  "dead_port p \<Longrightarrow> dead_port (fst (snd (port_reconfigure os cfg w p)))"
  "dead_port p \<Longrightarrow> port_get_fd p < 0"
  by (auto simp: dead_port_def i2c_get_fd_def)

definition stays_dead :: "loop_env list \<Rightarrow> io_port \<Rightarrow> bool" where
  "stays_dead envs p \<longleftrightarrow>
     dead_port p \<or> (port_get_fd p < 0 \<and> (\<forall>env \<in> set envs. unplugged (le_os env)))"

lemma stays_dead_step:
  assumes "stays_dead (env # envs) p"
  shows "port_get_fd p < 0" "stays_dead envs (fst (snd (port_reconfigure (le_os env) cfg w p)))"
    "port_get_fd (fst (snd (port_reconfigure (le_os env) cfg w p))) < 0"
  using assms dead_reconfigure [of p] dead_reconfigure(2) unplugged_reconfigure
  unfolding stays_dead_def by (auto; blast)+

lemma dead_iteration:
  assumes "stays_dead (env # envs) (sys_ports sys ! wk_port wk)" and "wk_port wk < length (sys_ports sys)"
    and "rc_worker r = Some wk" and "rc_running r" and "rc_config r = Some cfg"
    and "wk_fails wk < UART_MAX_RECONFIGURE_RETRIES"
  obtains sys' wk' where "wk_port wk' = wk_port wk" and "wk_fails wk' = Suc (wk_fails wk)"
    and "length (sys_ports sys') = length (sys_ports sys)"
    and "stays_dead envs (sys_ports sys' ! wk_port wk)"
    and "worker_iteration env sys r =
      (if Suc (wk_fails wk) < UART_MAX_RECONFIGURE_RETRIES
       then (sys', r\<lparr>rc_worker := Some wk'\<rparr>, [], Loop_continue)
       else (sys', r\<lparr>rc_worker := None, rc_running := False\<rparr>, [], Loop_exit))"
proof -
  define wk1 where "wk1 = (if 0 \<le> wk_fd wk then wk\<lparr>wk_fd := -1\<rparr> else wk)"
  define res where "res = port_reconfigure (le_os env) cfg (sys_world sys) (sys_ports sys ! wk_port wk)"
  define sys' where "sys' = set_port_obj (wk_port wk) (fst res, fst (snd res)) sys"
  define wk' where "wk' = wk1\<lparr>wk_fails := Suc (wk_fails wk)\<rparr>"
  note dead = stays_dead_step(1) [OF assms(1)]
    stays_dead_step(2,3) [OF assms(1), of cfg "sys_world sys", folded res_def]
  have wk1: "wk_port wk1 = wk_port wk" "wk_fails wk1 = wk_fails wk" by (simp_all add: wk1_def)
  have "reconfigure_port (le_os env) (rc_config r) sys wk =
      Some (sys', wk', Suc (wk_fails wk) < UART_MAX_RECONFIGURE_RETRIES)"
    using dead(3) wk1
    by (simp add: reconfigure_port_def assms(5) Let_def wk1_def [symmetric] res_def [symmetric]
        case_prod_beta sys'_def wk'_def not_le)
  then have "worker_iteration env sys r =
      (if Suc (wk_fails wk) < UART_MAX_RECONFIGURE_RETRIES
       then (sys', r\<lparr>rc_worker := Some wk'\<rparr>, [], Loop_continue)
       else (sys', r\<lparr>rc_worker := None, rc_running := False\<rparr>, [], Loop_exit))"
    using dead(1) by (simp add: worker_iteration_def assms(3,4) after_reconfigure_def Let_def)
  moreover have "stays_dead envs (sys_ports sys' ! wk_port wk)"
    using dead(2) assms(2) by (simp add: sys'_def set_port_obj_def)
  moreover have "wk_port wk' = wk_port wk" "wk_fails wk' = Suc (wk_fails wk)"
    "length (sys_ports sys') = length (sys_ports sys)"
    by (simp_all add: wk'_def wk1 sys'_def set_port_obj_def)
  ultimately show thesis using that by blast
qed

lemma dead_run:
  assumes "stays_dead envs (sys_ports sys ! wk_port wk)" and "wk_port wk < length (sys_ports sys)"
    and "rc_worker r = Some wk" and "rc_running r" and "rc_config r = Some cfg"
    and "wk_fails wk < UART_MAX_RECONFIGURE_RETRIES"
  shows "\<exists>sys'. (if length envs + wk_fails wk < UART_MAX_RECONFIGURE_RETRIES
      then \<exists>wk'. worker_run envs sys r = (sys', r\<lparr>rc_worker := Some wk'\<rparr>, [], Loop_continue)
      else worker_run envs sys r = (sys', r\<lparr>rc_worker := None, rc_running := False\<rparr>, [], Loop_exit))"
  using assms
proof (induction envs arbitrary: sys r wk)
  case Nil
  then have "r\<lparr>rc_worker := Some wk\<rparr> = r" by simp
  with Nil show ?case by (auto intro: exI [of _ wk])
next
  case (Cons env envs)
  from Cons.prems obtain sys1 wk1 where wk1: "wk_port wk1 = wk_port wk" "wk_fails wk1 = Suc (wk_fails wk)"
    and len: "length (sys_ports sys1) = length (sys_ports sys)"
    and dead: "stays_dead envs (sys_ports sys1 ! wk_port wk)"
    and it: "worker_iteration env sys r =
      (if Suc (wk_fails wk) < UART_MAX_RECONFIGURE_RETRIES
       then (sys1, r\<lparr>rc_worker := Some wk1\<rparr>, [], Loop_continue)
       else (sys1, r\<lparr>rc_worker := None, rc_running := False\<rparr>, [], Loop_exit))"
    by (rule dead_iteration)
  show ?case
  proof (cases "Suc (wk_fails wk) < UART_MAX_RECONFIGURE_RETRIES")
    case True
    have "\<exists>sys'. (if length envs + wk_fails wk1 < UART_MAX_RECONFIGURE_RETRIES
      then \<exists>wk'. worker_run envs sys1 (r\<lparr>rc_worker := Some wk1\<rparr>)
             = (sys', (r\<lparr>rc_worker := Some wk1\<rparr>)\<lparr>rc_worker := Some wk'\<rparr>, [], Loop_continue)
      else worker_run envs sys1 (r\<lparr>rc_worker := Some wk1\<rparr>)
             = (sys', (r\<lparr>rc_worker := Some wk1\<rparr>)\<lparr>rc_worker := None, rc_running := False\<rparr>, [], Loop_exit))"
      by (rule Cons.IH) (use Cons.prems wk1 len dead True in simp_all)
    with True show ?thesis by (auto simp: it wk1 split: if_splits)
  next
    case False
    then show ?thesis using Cons.prems(6) by (auto simp: it)
  qed
qed


definition i2c_demo :: i_io_config where
  "i2c_demo = I2c_config (ddc_default ''/dev/i2c-1'' 0x42)"

definition opened_i2c :: "io_sys \<times> (unit, string) gnss_receiver" where
  "opened_i2c = receiver_step (Op_init (os_device []) (Some i2c_demo)) (sys_demo i2c_demo, receiver_demo)"


end
