(* ===== verification/Gnss_Controller.thy ===== *)
theory Gnss_Controller
  imports Gnss_Receiver Serial_Transport Nmea_Fields
begin

text \<open>
  \<open>gnss_controller\<close>: the receivers of all channels over their ports, the commands to the chip over
  the port of the first channel, and the record and replay modes. Every command holds
  \<open>cmd_mutex_\<close>, so it is one function of the controller's state; the iterations of the receivers'
  workers come between the commands. An exception that leaves a command leaves the state as it
  is at that point.
\<close>

section \<open>State\<close>

text \<open>
  The port objects live in \<open>gc_sys\<close> and are named by their index there; a null pointer is \<open>None\<close>. The
  configuration manager is in \<open>Ubx_Config_Sync\<close>.
\<close>

record ('m, 'n) gnss_controller =
  gc_configs :: "i_io_config list"
  gc_ports :: "nat list"
  gc_receivers :: "('m, 'n) gnss_receiver list"
  gc_transport :: serial_transport
  gc_record_ports :: "nat option list"
  gc_record_active :: bool
  gc_saved_ports :: "nat option list"
  gc_saved_configs :: "i_io_config option list"
  gc_replay_ports :: "nat option list"
  gc_replay_active :: bool
  gc_slot_connected :: bool
  gc_sys :: io_sys

text \<open>The constructor throws \<open>invalid_argument\<close> when there is no channel.\<close>

definition gnss_controller_new ::
  "i_io_config list \<Rightarrow> (string \<Rightarrow> bytes option) \<Rightarrow> ('m, 'n) gnss_controller option" where
  "gnss_controller_new configs files =
     (if configs = [] then None
      else Some \<lparr>gc_configs = configs, gc_ports = [0..<length configs],
        gc_receivers = map gnss_receiver_new [0..<length configs],
        gc_transport = transport_new True, gc_record_ports = [], gc_record_active = False,
        gc_saved_ports = [], gc_saved_configs = [], gc_replay_ports = [],
        gc_replay_active = False, gc_slot_connected = True,
        gc_sys = \<lparr>sys_world = \<lparr>w_files = files, w_sent = []\<rparr>,
                  sys_ports = map io_port_create configs\<rparr>\<rparr>)"

text \<open>The constructor for a single channel drops the slot that the other one has just connected.\<close>

definition gnss_controller_new_single ::
  "i_io_config \<Rightarrow> (string \<Rightarrow> bytes option) \<Rightarrow> ('m, 'n) gnss_controller option" where
  "gnss_controller_new_single config files =
     map_option (\<lambda>c. c\<lparr>gc_slot_connected := False\<rparr>) (gnss_controller_new [config] files)"

definition receiver_at :: "('m, 'n) gnss_controller \<Rightarrow> nat \<Rightarrow> ('m, 'n) gnss_receiver" where
  "receiver_at c i = gc_receivers c ! i"

definition set_receiver ::
  "nat \<Rightarrow> ('m, 'n) gnss_receiver \<Rightarrow> ('m, 'n) gnss_controller \<Rightarrow> ('m, 'n) gnss_controller" where
  "set_receiver i r c = c\<lparr>gc_receivers := (gc_receivers c)[i := r]\<rparr>"

definition n_receivers :: "('m, 'n) gnss_controller \<Rightarrow> nat" where
  "n_receivers c = length (gc_receivers c)"

text \<open>What the kernel answers during a command, for each receiver it deals with.\<close>

type_synonym os_at = "nat \<Rightarrow> os"

section \<open>Life cycle\<close>

text \<open>
  \<open>init\<close> wires every receiver to the shared databases and gives the first one the decoders of the
  chip's replies, then initialises all of them, going on after a failure.
\<close>

definition wire_receivers ::
  "('m ubx_decoder_registry \<Rightarrow> 'm ubx_decoder_registry) \<Rightarrow>
   ('n nmea_sentence_registry \<Rightarrow> 'n nmea_sentence_registry) \<Rightarrow>
   ('m ubx_decoder_registry \<Rightarrow> 'm ubx_decoder_registry) \<Rightarrow>
   ('m, 'n) gnss_controller \<Rightarrow> ('m, 'n) gnss_controller" where
  "wire_receivers ubx_db nmea_db extra c =
     (let rs = map (receiver_setup_nmea nmea_db \<circ> receiver_setup_ubx ubx_db) (gc_receivers c)
      in c\<lparr>gc_receivers := rs[0 := receiver_set_extra_setup extra (rs ! 0)]\<rparr>)"

fun init_loop ::
  "os_at \<Rightarrow> nat list \<Rightarrow> ('m, 'n) gnss_controller \<Rightarrow> bool \<Rightarrow> ('m, 'n) gnss_controller \<times> bool" where
  "init_loop os [] c all_ok = (c, all_ok)"
| "init_loop os (i # is) c all_ok =
     (case receiver_init (os i) (Some (gc_configs c ! i)) (gc_sys c) (receiver_at c i) of
        (sys', r', ok) \<Rightarrow> init_loop os is (set_receiver i r' (c\<lparr>gc_sys := sys'\<rparr>)) (all_ok \<and> ok))"

definition controller_init ::
  "('m ubx_decoder_registry \<Rightarrow> 'm ubx_decoder_registry) \<Rightarrow>
   ('n nmea_sentence_registry \<Rightarrow> 'n nmea_sentence_registry) \<Rightarrow>
   ('m ubx_decoder_registry \<Rightarrow> 'm ubx_decoder_registry) \<Rightarrow> os_at \<Rightarrow>
   ('m, 'n) gnss_controller \<Rightarrow> ('m, 'n) gnss_controller \<times> bool" where
  "controller_init ubx_db nmea_db extra os c =
     (let c = wire_receivers ubx_db nmea_db extra c in init_loop os [0..<n_receivers c] c True)"

fun start_loop ::
  "nat list \<Rightarrow> ('m, 'n) gnss_controller \<Rightarrow> bool \<Rightarrow> ('m, 'n) gnss_controller \<times> bool" where
  "start_loop [] c all_ok = (c, all_ok)"
| "start_loop (i # is) c all_ok =
     (case receiver_start (receiver_at c i) of
        (r', ok) \<Rightarrow> start_loop is (set_receiver i r' c) (all_ok \<and> ok))"

definition controller_start :: "('m, 'n) gnss_controller \<Rightarrow> ('m, 'n) gnss_controller \<times> bool" where
  "controller_start c = start_loop [0..<n_receivers c] c True"

definition controller_stop :: "('m, 'n) gnss_controller \<Rightarrow> ('m, 'n) gnss_controller" where
  "controller_stop c = c\<lparr>gc_receivers := map receiver_stop (gc_receivers c)\<rparr>"

fun terminate_loop :: "nat list \<Rightarrow> ('m, 'n) gnss_controller \<Rightarrow> ('m, 'n) gnss_controller" where
  "terminate_loop [] c = c"
| "terminate_loop (i # is) c =
     (case receiver_terminate (gc_sys c) (receiver_at c i) of
        (sys', r') \<Rightarrow> terminate_loop is (set_receiver i r' (c\<lparr>gc_sys := sys'\<rparr>)))"

definition controller_terminate :: "('m, 'n) gnss_controller \<Rightarrow> ('m, 'n) gnss_controller" where
  "controller_terminate c = (let c = controller_stop c in terminate_loop [0..<n_receivers c] c)"

definition controller_is_running :: "('m, 'n) gnss_controller \<Rightarrow> bool" where
  "controller_is_running c = receiver_is_running (receiver_at c 0)"

section \<open>Commands to the chip\<close>

text \<open>
  An asynchronous command is one frame written to the first channel's own port. What the
  transport sees of the port is its \<open>write_bytes\<close>: an exception, or the count written.
\<close>

definition port_write_of :: "os \<Rightarrow> nat \<Rightarrow> io_sys \<Rightarrow> port_write" where
  "port_write_of os i sys bs =
     (case snd (snd (port_write_bytes os bs (sys_world sys) (sys_ports sys ! i))) of
        Inl e \<Rightarrow> None | Inr n \<Rightarrow> Some n)"

definition send_command :: "os \<Rightarrow> bytes \<Rightarrow> ('m, 'n) gnss_controller \<Rightarrow> ('m, 'n) gnss_controller \<times> bool" where
  "send_command os frame c =
     (let i = gc_ports c ! 0; sys = gc_sys c
      in case port_write_bytes os frame (sys_world sys) (sys_ports sys ! i) of
           (w, p, r) \<Rightarrow> (c\<lparr>gc_sys := set_port_obj i (w, p) sys\<rparr>,
                        send_async (port_write_of os i sys) (gc_transport c) frame))"

definition controller_hot_stop :: "os \<Rightarrow> ('m, 'n) gnss_controller \<Rightarrow> ('m, 'n) gnss_controller \<times> bool" where
  "controller_hot_stop os c = send_command os build_hot_stop c"

definition controller_warm_stop :: "os \<Rightarrow> ('m, 'n) gnss_controller \<Rightarrow> ('m, 'n) gnss_controller \<times> bool" where
  "controller_warm_stop os c = send_command os build_warm_stop c"

definition controller_cold_stop :: "os \<Rightarrow> ('m, 'n) gnss_controller \<Rightarrow> ('m, 'n) gnss_controller \<times> bool" where
  "controller_cold_stop os c = send_command os build_cold_stop c"

definition controller_hot_start :: "os \<Rightarrow> ('m, 'n) gnss_controller \<Rightarrow> ('m, 'n) gnss_controller \<times> bool" where
  "controller_hot_start os c = send_command os build_hot_start c"

definition controller_warm_start :: "os \<Rightarrow> ('m, 'n) gnss_controller \<Rightarrow> ('m, 'n) gnss_controller \<times> bool" where
  "controller_warm_start os c = send_command os build_warm_start c"

definition controller_cold_start :: "os \<Rightarrow> ('m, 'n) gnss_controller \<Rightarrow> ('m, 'n) gnss_controller \<times> bool" where
  "controller_cold_start os c = send_command os build_cold_start c"

definition controller_hot_reset :: "os \<Rightarrow> ('m, 'n) gnss_controller \<Rightarrow> ('m, 'n) gnss_controller \<times> bool" where
  "controller_hot_reset os c = send_command os build_hot_reset c"

definition controller_warm_reset :: "os \<Rightarrow> ('m, 'n) gnss_controller \<Rightarrow> ('m, 'n) gnss_controller \<times> bool" where
  "controller_warm_reset os c = send_command os build_warm_reset c"

definition controller_cold_reset :: "os \<Rightarrow> ('m, 'n) gnss_controller \<Rightarrow> ('m, 'n) gnss_controller \<times> bool" where
  "controller_cold_reset os c = send_command os build_cold_reset c"

text \<open>The frames of the commands that wait for an answer, handed to \<open>send_sync\<close>.\<close>

definition get_version_frame :: bytes where "get_version_frame = make_frame 0x0A 0x04 []"
definition backup_frame :: bytes where "backup_frame = build_save"
definition clear_backup_frame :: bytes where "clear_backup_frame = build_clear"

text \<open>
  \<open>hardware_reset\<close>: the pin is what its \<open>write_value\<close> answers for a level; the result comes with the
  levels that were driven, in order, between which the code sleeps for the pulse's duration.
\<close>

definition hardware_reset :: "(bool \<Rightarrow> bool) option \<Rightarrow> bool \<times> bool list" where
  "hardware_reset reset_n_pin =
     (case reset_n_pin of
        None \<Rightarrow> (False, [])
      | Some write_value \<Rightarrow>
          if \<not> write_value False then (False, [False])
          else if \<not> write_value True then (False, [False, True])
          else (True, [False, True]))"

section \<open>Record mode\<close>

definition DEFAULT_UBX_RECORD_PATH :: string where
  "DEFAULT_UBX_RECORD_PATH = ''/var/log/gnss/record.ubx''"

definition make_record_path :: "nat \<Rightarrow> string" where
  "make_record_path i = DEFAULT_UBX_RECORD_PATH @ nat_digits i"

text \<open>A new port object made by the factory and opened.\<close>

definition open_new_port ::
  "os \<Rightarrow> i_io_config \<Rightarrow> io_sys \<Rightarrow> io_sys \<times> nat \<times> (io_exception + bool)" where
  "open_new_port os cfg sys =
     (let pid = length (sys_ports sys)
      in case port_open os cfg (sys_world sys) (io_port_create cfg) of
           (w, p, r) \<Rightarrow> (\<lparr>sys_world = w, sys_ports = sys_ports sys @ [p]\<rparr>, pid, r))"

text \<open>The callback is changed between a stop and a start, so that the parser is made anew.\<close>

definition rewire_raw_cb :: "nat option \<Rightarrow> ('m, 'n) gnss_receiver \<Rightarrow> ('m, 'n) gnss_receiver" where
  "rewire_raw_cb cb r =
     (let was_running = receiver_is_running r;
          r = (if was_running then receiver_stop r else r);
          r = receiver_set_raw_cb cb r
      in if was_running then fst (receiver_start r) else r)"

fun record_loop ::
  "os_at \<Rightarrow> nat list \<Rightarrow> ('m, 'n) gnss_controller \<Rightarrow> bool \<Rightarrow> ('m, 'n) gnss_controller \<times> (io_exception + bool)"
where
  "record_loop os [] c any_started = (c, Inr any_started)"
| "record_loop os (i # is) c any_started =
     (case open_new_port (os i) (File_config (record_config (make_record_path i))) (gc_sys c) of
        (sys', pid, Inl e) \<Rightarrow> (c\<lparr>gc_sys := sys'\<rparr>, Inl e)
      | (sys', pid, Inr False) \<Rightarrow>
          record_loop os is
            (c\<lparr>gc_sys := sys', gc_record_ports := gc_record_ports c @ [None]\<rparr>) any_started
      | (sys', pid, Inr True) \<Rightarrow>
          (let c' = set_receiver i (rewire_raw_cb (Some pid) (receiver_at c i)) (c\<lparr>gc_sys := sys'\<rparr>)
           in record_loop os is (c'\<lparr>gc_record_ports := gc_record_ports c' @ [Some pid]\<rparr>) True))"

definition start_record ::
  "os_at \<Rightarrow> ('m, 'n) gnss_controller \<Rightarrow> ('m, 'n) gnss_controller \<times> (io_exception + bool)" where
  "start_record os c =
     (if gc_record_active c then (c, Inr False)
      else if gc_replay_active c then (c, Inr False)
      else case record_loop os [0..<n_receivers c] c False of
             (c', Inl e) \<Rightarrow> (c', Inl e)
           | (c', Inr any_started) \<Rightarrow>
               if \<not> any_started then (c'\<lparr>gc_record_ports := []\<rparr>, Inr False)
               else (c'\<lparr>gc_record_active := True\<rparr>, Inr True))"

definition close_port_opt :: "nat option \<Rightarrow> io_sys \<Rightarrow> io_sys" where
  "close_port_opt po sys =
     (case po of None \<Rightarrow> sys
      | Some i \<Rightarrow> set_port_obj i (sys_world sys, port_close (sys_ports sys ! i)) sys)"

fun stop_record_loop :: "nat list \<Rightarrow> ('m, 'n) gnss_controller \<Rightarrow> ('m, 'n) gnss_controller" where
  "stop_record_loop [] c = c"
| "stop_record_loop (i # is) c =
     (let c' = set_receiver i (rewire_raw_cb None (receiver_at c i)) c
      in stop_record_loop is (c'\<lparr>gc_sys := close_port_opt (gc_record_ports c ! i) (gc_sys c')\<rparr>))"

definition stop_record :: "('m, 'n) gnss_controller \<Rightarrow> ('m, 'n) gnss_controller \<times> bool" where
  "stop_record c =
     (if \<not> gc_record_active c then (c, False)
      else let n = min (n_receivers c) (length (gc_record_ports c));
               c' = stop_record_loop [0..<n] c
        in (c'\<lparr>gc_record_ports := [], gc_record_active := False\<rparr>, True))"

section \<open>Replay mode\<close>

definition replay_file_config :: "nat \<Rightarrow> i_io_config" where
  "replay_file_config i = File_config (replay_config (make_record_path i) False 10000)"

text \<open>
  One receiver is taken off its port and put on the file port \<open>pid\<close>. \<open>os\<close> answers the calls of the
  receiver's own \<open>init\<close>, which opens the file once more; the result says whether it succeeded.
\<close>

definition replay_receiver ::
  "os \<Rightarrow> nat \<Rightarrow> nat \<Rightarrow> ('m, 'n) gnss_controller \<Rightarrow> ('m, 'n) gnss_controller" where
  "replay_receiver os i pid c =
     (case receiver_terminate (gc_sys c) (receiver_at c i) of
        (sys1, r1) \<Rightarrow>
          (case receiver_init os (Some (replay_file_config i)) sys1 (receiver_set_port pid r1) of
             (sys2, r2, ok) \<Rightarrow>
               if \<not> ok then
                 set_receiver i (receiver_set_port (gc_ports c ! i) r2)
                   (c\<lparr>gc_sys := close_port_opt (Some pid) sys2,
                      gc_saved_ports := gc_saved_ports c @ [None],
                      gc_saved_configs := gc_saved_configs c @ [None],
                      gc_replay_ports := gc_replay_ports c @ [None]\<rparr>)
               else
                 set_receiver i (fst (receiver_start r2))
                   (c\<lparr>gc_sys := sys2,
                      gc_saved_ports := gc_saved_ports c @ [Some (gc_ports c ! i)],
                      gc_saved_configs := gc_saved_configs c @ [Some (gc_configs c ! i)],
                      gc_replay_ports := gc_replay_ports c @ [Some pid]\<rparr>)))"

fun replay_loop ::
  "os_at \<Rightarrow> os_at \<Rightarrow> nat list \<Rightarrow> ('m, 'n) gnss_controller \<Rightarrow> bool
   \<Rightarrow> ('m, 'n) gnss_controller \<times> (io_exception + bool)" where
  "replay_loop os os' [] c any_started = (c, Inr any_started)"
| "replay_loop os os' (i # is) c any_started =
     (case open_new_port (os i) (replay_file_config i) (gc_sys c) of
        (sys', pid, Inl e) \<Rightarrow> (c\<lparr>gc_sys := sys'\<rparr>, Inl e)
      | (sys', pid, Inr False) \<Rightarrow>
          replay_loop os os' is
            (c\<lparr>gc_sys := sys', gc_saved_ports := gc_saved_ports c @ [None],
               gc_saved_configs := gc_saved_configs c @ [None],
               gc_replay_ports := gc_replay_ports c @ [None]\<rparr>) any_started
      | (sys', pid, Inr True) \<Rightarrow>
          (let c' = replay_receiver (os' i) i pid (c\<lparr>gc_sys := sys'\<rparr>)
           in replay_loop os os' is c' (any_started \<or> last (gc_replay_ports c') \<noteq> None)))"

text \<open>A receiver goes back to the port and configuration saved for it.\<close>

definition restore_receiver :: "os \<Rightarrow> nat \<Rightarrow> ('m, 'n) gnss_controller \<Rightarrow> ('m, 'n) gnss_controller" where
  "restore_receiver os i c =
     (case gc_saved_ports c ! i of
        None \<Rightarrow> c
      | Some pid \<Rightarrow>
          (case receiver_init os (gc_saved_configs c ! i) (gc_sys c)
                  (receiver_set_port pid (receiver_at c i)) of
             (sys', r', ok) \<Rightarrow>
               set_receiver i (fst (receiver_start r')) (c\<lparr>gc_sys := sys'\<rparr>)))"

definition clear_replay :: "('m, 'n) gnss_controller \<Rightarrow> ('m, 'n) gnss_controller" where
  "clear_replay c = c\<lparr>gc_saved_ports := [], gc_saved_configs := [], gc_replay_ports := []\<rparr>"

definition start_replay ::
  "os_at \<Rightarrow> os_at \<Rightarrow> os_at \<Rightarrow> ('m, 'n) gnss_controller
   \<Rightarrow> ('m, 'n) gnss_controller \<times> (io_exception + bool)" where
  "start_replay os os' os'' c =
     (if gc_replay_active c then (c, Inr False)
      else if gc_record_active c then (c, Inr False)
      else case replay_loop os os' [0..<n_receivers c] (clear_replay c) False of
             (c', Inl e) \<Rightarrow> (c', Inl e)
           | (c', Inr any_started) \<Rightarrow>
               if \<not> any_started
               then (clear_replay (foldl (\<lambda>c i. restore_receiver (os'' i) i c) c' [0..<n_receivers c']),
                     Inr False)
               else (c'\<lparr>gc_replay_active := True\<rparr>, Inr True))"

definition unreplay_receiver :: "os \<Rightarrow> nat \<Rightarrow> ('m, 'n) gnss_controller \<Rightarrow> ('m, 'n) gnss_controller" where
  "unreplay_receiver os i c =
     (case receiver_terminate (gc_sys c) (receiver_at c i) of
        (sys1, r1) \<Rightarrow>
          (let file_port = (if i < length (gc_replay_ports c) then gc_replay_ports c ! i else None);
               c' = set_receiver i r1 (c\<lparr>gc_sys := close_port_opt file_port sys1\<rparr>)
           in if i < length (gc_saved_ports c) \<and> gc_saved_ports c ! i \<noteq> None then
                (case receiver_init os (gc_saved_configs c ! i) (gc_sys c')
                        (receiver_set_port (the (gc_saved_ports c ! i)) r1) of
                   (sys2, r2, ok) \<Rightarrow>
                     if \<not> ok then set_receiver i r2 (c'\<lparr>gc_sys := sys2\<rparr>)
                     else set_receiver i (fst (receiver_start r2)) (c'\<lparr>gc_sys := sys2\<rparr>))
              else c'))"

definition stop_replay ::
  "os_at \<Rightarrow> ('m, 'n) gnss_controller \<Rightarrow> ('m, 'n) gnss_controller \<times> bool" where
  "stop_replay os c =
     (if \<not> gc_replay_active c then (c, False)
      else let c' = foldl (\<lambda>c i. unreplay_receiver (os i) i c) c [0..<n_receivers c]
        in ((clear_replay c')\<lparr>gc_replay_active := False\<rparr>, True))"

section \<open>Workers\<close>

text \<open>The record callback rebuilds the frame as it was on the wire.\<close>

definition frame_bytes :: "ubx_frame \<Rightarrow> bytes" where
  "frame_bytes f =
     [UBX_SYNC_CHAR_1, UBX_SYNC_CHAR_2, hdr_class (frame_header f), hdr_id (frame_header f),
      ucast (hdr_payload_length (frame_header f) AND 0xFF),
      ucast (drop_bit 8 (hdr_payload_length (frame_header f)) AND 0xFF)]
     @ frame_payload f @ [frame_ck_a f, frame_ck_b f]"

fun raw_frames :: "'m ubx_event list \<Rightarrow> ubx_frame list" where
  "raw_frames [] = []"
| "raw_frames (Raw_message f # es) = f # raw_frames es"
| "raw_frames (Decoder_callback m # es) = raw_frames es"
| "raw_frames (Error_callback e # es) = raw_frames es"

text \<open>The callbacks of the frames of one buffer; an exception leaves \<open>feed\<close> and the thread.\<close>

fun record_frames :: "os_at \<Rightarrow> nat \<Rightarrow> ubx_frame list \<Rightarrow> nat \<Rightarrow> io_sys \<Rightarrow> io_sys \<times> bool" where
  "record_frames os k [] pid sys = (sys, True)"
| "record_frames os k (f # fs) pid sys =
     (case port_write_bytes (os k) (frame_bytes f) (sys_world sys) (sys_ports sys ! pid) of
        (w, p, Inl e) \<Rightarrow> (set_port_obj pid (w, p) sys, False)
      | (w, p, Inr n) \<Rightarrow> record_frames os (Suc k) fs pid (set_port_obj pid (w, p) sys))"

definition controller_worker ::
  "loop_env \<Rightarrow> os_at \<Rightarrow> nat \<Rightarrow> ('m, 'n) gnss_controller
   \<Rightarrow> ('m, 'n) gnss_controller \<times> ('m, 'n) worker_event list \<times> loop_end" where
  "controller_worker env os i c =
     (case worker_iteration env (gc_sys c) (receiver_at c i) of
        (sys', r', es, e) \<Rightarrow>
          (case rc_parser_cb (receiver_at c i) of
             None \<Rightarrow> (set_receiver i r' (c\<lparr>gc_sys := sys'\<rparr>), es, e)
           | Some pid \<Rightarrow>
               (case record_frames os 0 (raw_frames (ubx_events es)) pid sys' of
                  (sys'', ok) \<Rightarrow>
                    (set_receiver i r' (c\<lparr>gc_sys := sys''\<rparr>), es, if ok then e else Loop_abort))))"

section \<open>Commands and iterations in any order\<close>

datatype ('m, 'n) controller_cmd =
    Cmd_init "'m ubx_decoder_registry \<Rightarrow> 'm ubx_decoder_registry"
      "'n nmea_sentence_registry \<Rightarrow> 'n nmea_sentence_registry"
      "'m ubx_decoder_registry \<Rightarrow> 'm ubx_decoder_registry" os_at
  | Cmd_start
  | Cmd_stop
  | Cmd_terminate
  | Cmd_send os bytes
  | Cmd_start_record os_at
  | Cmd_stop_record
  | Cmd_start_replay os_at os_at os_at
  | Cmd_stop_replay os_at
  | Worker_iteration loop_env os_at nat

fun controller_step ::
  "('m, 'n) controller_cmd \<Rightarrow> ('m, 'n) gnss_controller \<Rightarrow> ('m, 'n) gnss_controller" where
  "controller_step (Cmd_init ubx_db nmea_db extra os) c = fst (controller_init ubx_db nmea_db extra os c)"
| "controller_step Cmd_start c = fst (controller_start c)"
| "controller_step Cmd_stop c = controller_stop c"
| "controller_step Cmd_terminate c = controller_terminate c"
| "controller_step (Cmd_send os frame) c = fst (send_command os frame c)"
| "controller_step (Cmd_start_record os) c = fst (start_record os c)"
| "controller_step Cmd_stop_record c = fst (stop_record c)"
| "controller_step (Cmd_start_replay os os' os'') c = fst (start_replay os os' os'' c)"
| "controller_step (Cmd_stop_replay os) c = fst (stop_replay os c)"
| "controller_step (Worker_iteration env os i) c = fst (controller_worker env os i c)"

definition controller_steps ::
  "('m, 'n) controller_cmd list \<Rightarrow> ('m, 'n) gnss_controller \<Rightarrow> ('m, 'n) gnss_controller" where
  "controller_steps cmds c = fold controller_step cmds c"

text \<open>
  The channels: as many receivers as configurations and ports, and every receiver in a proper
  state. \<open>modes\<close> is what record and replay have to do with each other and with the channels.
\<close>

definition channels_ok :: "nat \<Rightarrow> ('m, 'n) gnss_controller \<Rightarrow> bool" where
  "channels_ok n c \<longleftrightarrow> 0 < n \<and> length (gc_receivers c) = n \<and> length (gc_configs c) = n
     \<and> length (gc_ports c) = n \<and> list_all receiver_ok (gc_receivers c)"

definition modes_ok :: "nat \<Rightarrow> ('m, 'n) gnss_controller \<Rightarrow> bool" where
  "modes_ok n c \<longleftrightarrow> \<not> (gc_record_active c \<and> gc_replay_active c)
     \<and> (gc_record_active c \<longrightarrow> n \<le> length (gc_record_ports c))
     \<and> (gc_replay_active c \<longrightarrow> length (gc_saved_ports c) = n \<and> length (gc_saved_configs c) = n
          \<and> length (gc_replay_ports c) = n)"

definition modes :: "('m, 'n) gnss_controller \<Rightarrow> bool \<times> bool \<times> nat option list \<times> nat option list
    \<times> i_io_config option list \<times> nat option list" where
  "modes c = (gc_record_active c, gc_replay_active c, gc_record_ports c, gc_saved_ports c,
     gc_saved_configs c, gc_replay_ports c)"

named_theorems channel_simps \<open>what keeps the channels and the modes\<close>

lemma channels_at: "channels_ok n c \<Longrightarrow> i < n \<Longrightarrow> receiver_ok (receiver_at c i)"
  by (auto simp: channels_ok_def receiver_at_def list_all_length)

lemma channels_set [channel_simps]:
  "channels_ok n c \<Longrightarrow> receiver_ok r \<Longrightarrow> channels_ok n (set_receiver i r c)"
  by (auto simp: channels_ok_def set_receiver_def list_all_iff dest!: set_update_subset_insert [THEN subsetD])

lemma channels_upd [channel_simps]:
  "channels_ok n (c\<lparr>gc_sys := s\<rparr>) = channels_ok n c"
  "channels_ok n (c\<lparr>gc_record_ports := po\<rparr>) = channels_ok n c"
  "channels_ok n (c\<lparr>gc_record_active := b\<rparr>) = channels_ok n c"
  "channels_ok n (c\<lparr>gc_replay_active := b\<rparr>) = channels_ok n c"
  "channels_ok n (c\<lparr>gc_saved_ports := po\<rparr>) = channels_ok n c"
  "channels_ok n (c\<lparr>gc_saved_configs := cs\<rparr>) = channels_ok n c"
  "channels_ok n (c\<lparr>gc_replay_ports := po\<rparr>) = channels_ok n c"
  "channels_ok n (clear_replay c) = channels_ok n c"
  by (simp_all add: channels_ok_def clear_replay_def)

lemma modes_set [channel_simps]:
  "modes (set_receiver i r c) = modes c" "modes (c\<lparr>gc_sys := s\<rparr>) = modes c"
  "gc_record_ports (set_receiver i r c) = gc_record_ports c"
  "gc_saved_ports (set_receiver i r c) = gc_saved_ports c"
  "gc_saved_configs (set_receiver i r c) = gc_saved_configs c"
  "gc_replay_ports (set_receiver i r c) = gc_replay_ports c"
  "gc_record_active (set_receiver i r c) = gc_record_active c"
  "gc_replay_active (set_receiver i r c) = gc_replay_active c"
  "gc_sys (set_receiver i r c) = gc_sys c"
  by (simp_all add: modes_def set_receiver_def)

lemma receiver_at_sys [simp]: "receiver_at (c\<lparr>gc_sys := s\<rparr>) i = receiver_at c i"
  by (simp add: receiver_at_def)

lemma n_receivers_ok: "channels_ok n c \<Longrightarrow> n_receivers c = n"
  by (simp add: channels_ok_def n_receivers_def)

lemma rewire_raw_cb_ok: "receiver_ok r \<Longrightarrow> receiver_ok (rewire_raw_cb cb r)"
  by (simp add: rewire_raw_cb_def Let_def receiver_stop_ok receiver_setters_ok receiver_start_ok)

lemma init_loop_ok:
  assumes "channels_ok n c" and "\<forall>i \<in> set is. i < n"
  shows "channels_ok n (fst (init_loop os is c b)) \<and> modes (fst (init_loop os is c b)) = modes c"
  using assms
proof (induction os "is" c b rule: init_loop.induct)
  case (2 os i "is" c all_ok)
  obtain sys' r' ok where init: "receiver_init (os i) (Some (gc_configs c ! i)) (gc_sys c) (receiver_at c i)
      = (sys', r', ok)" by (metis prod_cases3)
  have "receiver_ok r'" using receiver_init_ok [OF init] channels_at "2.prems" by auto
  then show ?case using 2 init by (simp add: channel_simps)
qed simp

lemma start_loop_ok:
  assumes "channels_ok n c" and "\<forall>i \<in> set is. i < n"
  shows "channels_ok n (fst (start_loop is c b)) \<and> modes (fst (start_loop is c b)) = modes c"
  using assms
proof (induction "is" c b rule: start_loop.induct)
  case (2 i "is" c all_ok)
  obtain r' ok where start: "receiver_start (receiver_at c i) = (r', ok)" by (metis surj_pair)
  have "receiver_ok r'"
    using receiver_start_ok [OF channels_at [OF "2.prems"(1)], of i] "2.prems" start by simp
  then show ?case using 2 start by (simp add: channel_simps)
qed simp

lemma terminate_loop_ok:
  assumes "channels_ok n c" and "\<forall>i \<in> set is. i < n"
  shows "channels_ok n (terminate_loop is c) \<and> modes (terminate_loop is c) = modes c"
  using assms
proof (induction "is" c rule: terminate_loop.induct)
  case (2 i "is" c)
  obtain sys' r' where t: "receiver_terminate (gc_sys c) (receiver_at c i) = (sys', r')"
    by (metis surj_pair)
  have "receiver_ok r'"
    using receiver_terminate_ok [OF channels_at [OF "2.prems"(1)], of i] "2.prems" t by (metis list.set_intros(1) snd_conv)
  then show ?case using 2 t by (simp add: channel_simps)
qed simp

lemma record_loop_ok:
  assumes "channels_ok n c" and "\<forall>i \<in> set is. i < n"
  shows "channels_ok n (fst (record_loop os is c b))
    \<and> (\<exists>ps. modes (fst (record_loop os is c b)) = modes (c\<lparr>gc_record_ports := gc_record_ports c @ ps\<rparr>)
        \<and> (\<forall>a. snd (record_loop os is c b) = Inr a \<longrightarrow> length ps = length is))"
  using assms
proof (induction "is" arbitrary: c b)
  case Nil
  then show ?case by (auto intro!: exI [of _ "[]"])
next
  case (Cons i "is")
  obtain sys' pid r where o: "open_new_port (os i) (File_config (record_config (make_record_path i))) (gc_sys c)
      = (sys', pid, r)" by (metis prod_cases3)
  have re: "receiver_ok (rewire_raw_cb (Some pid) (receiver_at c i))"
    using Cons.prems channels_at by (auto intro!: rewire_raw_cb_ok)
  consider e where "r = Inl e" | "r = Inr False" | "r = Inr True" by (cases r) auto
  then show ?case
  proof cases
    case 1
    then show ?thesis using o Cons.prems
      by (auto simp: channel_simps modes_def intro!: exI [of _ "[]"])
  next
    case 2
    let ?c = "c\<lparr>gc_sys := sys', gc_record_ports := gc_record_ports c @ [None]\<rparr>"
    have "channels_ok n ?c" using Cons.prems by (simp add: channel_simps)
    with Cons.IH [of ?c b] Cons.prems obtain ps where ps:
      "channels_ok n (fst (record_loop os is ?c b))"
      "modes (fst (record_loop os is ?c b)) = modes (?c\<lparr>gc_record_ports := gc_record_ports ?c @ ps\<rparr>)"
      "\<forall>a. snd (record_loop os is ?c b) = Inr a \<longrightarrow> length ps = length is"
      by fastforce
    have "record_loop os (i # is) c b = record_loop os is ?c b" using o 2 by simp
    with ps show ?thesis by (intro conjI exI [of _ "None # ps"]) (simp_all add: modes_def)
  next
    case 3
    define c' where "c' = set_receiver i (rewire_raw_cb (Some pid) (receiver_at c i)) (c\<lparr>gc_sys := sys'\<rparr>)"
    let ?c = "c'\<lparr>gc_record_ports := gc_record_ports c' @ [Some pid]\<rparr>"
    have c': "channels_ok n ?c" "modes c' = modes c"
      using re Cons.prems by (simp_all add: c'_def channel_simps)
    with Cons.IH [of ?c True] Cons.prems obtain ps where ps:
      "channels_ok n (fst (record_loop os is ?c True))"
      "modes (fst (record_loop os is ?c True)) = modes (?c\<lparr>gc_record_ports := gc_record_ports ?c @ ps\<rparr>)"
      "\<forall>a. snd (record_loop os is ?c True) = Inr a \<longrightarrow> length ps = length is"
      by fastforce
    have "record_loop os (i # is) c b = record_loop os is ?c True"
      using o 3 by (simp add: c'_def Let_def)
    with ps c'(2) show ?thesis by (intro conjI exI [of _ "Some pid # ps"]) (simp_all add: modes_def)
  qed
qed

lemma stop_record_loop_ok:
  assumes "channels_ok n c" and "\<forall>i \<in> set is. i < n"
  shows "channels_ok n (stop_record_loop is c) \<and> modes (stop_record_loop is c) = modes c"
  using assms
proof (induction "is" arbitrary: c)
  case (Cons i "is")
  define c' where "c' = set_receiver i (rewire_raw_cb None (receiver_at c i)) c"
  let ?c = "c'\<lparr>gc_sys := close_port_opt (gc_record_ports c ! i) (gc_sys c')\<rparr>"
  have "channels_ok n ?c" "modes ?c = modes c"
    using Cons.prems channels_at [OF Cons.prems(1)]
    by (simp_all add: c'_def channel_simps rewire_raw_cb_ok)
  with Cons.IH [of ?c] Cons.prems show ?case by (simp add: c'_def [symmetric] Let_def)
qed simp

lemma receiver_set_port_ok [channel_simps]: "receiver_ok r \<Longrightarrow> receiver_ok (receiver_set_port i r)"
  by (rule receiver_setters_ok)

lemma receiver_start_ok' [channel_simps]: "receiver_ok r \<Longrightarrow> receiver_ok (fst (receiver_start r))"
  by (rule receiver_start_ok)

lemma receiver_init_ok' [channel_simps]:
  "receiver_ok r \<Longrightarrow> receiver_ok (fst (snd (receiver_init os cfg sys r)))"
  using receiver_init_ok by (cases "receiver_init os cfg sys r") fastforce

text \<open>The three lists of the replay mode grow together.\<close>

definition replay_len :: "nat \<Rightarrow> ('m, 'n) gnss_controller \<Rightarrow> bool" where
  "replay_len k c \<longleftrightarrow> length (gc_saved_ports c) = k \<and> length (gc_saved_configs c) = k
     \<and> length (gc_replay_ports c) = k"

lemma replay_len_upd [channel_simps]:
  "replay_len k (c\<lparr>gc_sys := s\<rparr>) = replay_len k c"
  "replay_len k (set_receiver i r c) = replay_len k c"
  by (simp_all add: replay_len_def channel_simps)

definition record_part :: "('m, 'n) gnss_controller \<Rightarrow> bool \<times> bool \<times> nat option list" where
  "record_part c = (gc_record_active c, gc_replay_active c, gc_record_ports c)"

lemma record_part_upd [channel_simps]:
  "record_part (c\<lparr>gc_sys := s\<rparr>) = record_part c"
  "record_part (set_receiver i r c) = record_part c"
  "record_part (c\<lparr>gc_saved_ports := po\<rparr>) = record_part c"
  "record_part (c\<lparr>gc_saved_configs := cs\<rparr>) = record_part c"
  "record_part (c\<lparr>gc_replay_ports := po\<rparr>) = record_part c"
  "record_part (clear_replay c) = record_part c"
  by (simp_all add: record_part_def channel_simps clear_replay_def)

lemma replay_receiver_ok:
  assumes "channels_ok n c" and "i < n" and "replay_len k c"
  shows "channels_ok n (replay_receiver os i pid c) \<and> replay_len (Suc k) (replay_receiver os i pid c)
    \<and> record_part (replay_receiver os i pid c) = record_part c"
proof -
  obtain sys1 r1 where t: "receiver_terminate (gc_sys c) (receiver_at c i) = (sys1, r1)" by (metis surj_pair)
  obtain sys2 r2 ok where init: "receiver_init os (Some (replay_file_config i)) sys1 (receiver_set_port pid r1)
      = (sys2, r2, ok)" by (metis prod_cases3)
  have "receiver_ok r1"
    using receiver_terminate_ok [OF channels_at [OF assms(1,2)], of "gc_sys c"] t by simp
  then have "receiver_ok r2" using receiver_init_ok [OF init] by (simp add: channel_simps)
  then show ?thesis
    using assms t init by (simp add: replay_receiver_def channel_simps) (simp add: replay_len_def)
qed

lemma replay_loop_ok:
  assumes "channels_ok n c" and "\<forall>i \<in> set is. i < n" and "replay_len k c"
  shows "channels_ok n (fst (replay_loop os os' is c b))
    \<and> record_part (fst (replay_loop os os' is c b)) = record_part c
    \<and> (\<forall>a. snd (replay_loop os os' is c b) = Inr a \<longrightarrow>
         replay_len (k + length is) (fst (replay_loop os os' is c b)))"
  using assms
proof (induction "is" arbitrary: c b k)
  case Nil
  then show ?case by simp
next
  case (Cons i "is")
  obtain sys' pid r where o: "open_new_port (os i) (replay_file_config i) (gc_sys c) = (sys', pid, r)"
    by (metis prod_cases3)
  have go_on: ?case if "replay_loop os os' (i # is) c b = replay_loop os os' is c2 b2"
      and "channels_ok n c2" "replay_len (Suc k) c2" "record_part c2 = record_part c" for c2 b2
    using Cons.IH [OF that(2) _ that(3), of b2] that Cons.prems(2) by simp
  consider e where "r = Inl e" | "r = Inr False" | "r = Inr True" by (cases r) auto
  then show ?case
  proof cases
    case 1
    then show ?thesis using o Cons.prems by (simp add: channel_simps)
  next
    case 2
    let ?c = "c\<lparr>gc_sys := sys', gc_saved_ports := gc_saved_ports c @ [None],
       gc_saved_configs := gc_saved_configs c @ [None], gc_replay_ports := gc_replay_ports c @ [None]\<rparr>"
    have "channels_ok n ?c" "record_part ?c = record_part c" "replay_len (Suc k) ?c"
      using Cons.prems by (simp_all add: channel_simps) (simp add: replay_len_def)
    with go_on show ?thesis using o 2 by simp
  next
    case 3
    let ?c = "replay_receiver (os' i) i pid (c\<lparr>gc_sys := sys'\<rparr>)"
    have "channels_ok n ?c" "replay_len (Suc k) ?c" "record_part ?c = record_part c"
      using replay_receiver_ok [of n "c\<lparr>gc_sys := sys'\<rparr>" i k "os' i" pid] Cons.prems
      by (simp_all add: channel_simps)
    with go_on show ?thesis using o 3 by (simp add: Let_def)
  qed
qed

lemma restore_receiver_ok:
  assumes "channels_ok n c" and "i < n"
  shows "channels_ok n (restore_receiver os i c)" "record_part (restore_receiver os i c) = record_part c"
proof -
  have "receiver_ok (receiver_set_port p (receiver_at c i))" for p
    using channels_at [OF assms] by (simp add: channel_simps)
  then show "channels_ok n (restore_receiver os i c)" "record_part (restore_receiver os i c) = record_part c"
    using assms by (auto simp: restore_receiver_def channel_simps case_prod_beta split: option.split)
qed

lemma unreplay_receiver_ok:
  assumes "channels_ok n c" and "i < n"
  shows "channels_ok n (unreplay_receiver os i c)" "record_part (unreplay_receiver os i c) = record_part c"
proof -
  obtain sys1 r1 where t: "receiver_terminate (gc_sys c) (receiver_at c i) = (sys1, r1)" by (metis surj_pair)
  have r1: "receiver_ok r1"
    using receiver_terminate_ok [OF channels_at [OF assms], of "gc_sys c"] t by simp
  then have "receiver_ok (receiver_set_port p r1)" for p by (simp add: channel_simps)
  with r1 show "channels_ok n (unreplay_receiver os i c)" "record_part (unreplay_receiver os i c) = record_part c"
    using assms t by (auto simp: unreplay_receiver_def channel_simps Let_def case_prod_beta)
qed

text \<open>A fold over receivers of a step that keeps the channels.\<close>

lemma fold_channels:
  assumes "\<And>c i. channels_ok n c \<Longrightarrow> i < n \<Longrightarrow> channels_ok n (f c i) \<and> record_part (f c i) = record_part c"
    and "channels_ok n c" and "\<forall>i \<in> set is. i < n"
  shows "channels_ok n (foldl f c is) \<and> record_part (foldl f c is) = record_part c"
  using assms(2,3) by (induction "is" arbitrary: c) (simp_all add: assms(1))

definition controller_ok :: "nat \<Rightarrow> ('m, 'n) gnss_controller \<Rightarrow> bool" where
  "controller_ok n c \<longleftrightarrow> channels_ok n c \<and> modes_ok n c"

lemma controller_ok_modes: "controller_ok n c \<Longrightarrow> channels_ok n c' \<Longrightarrow> modes c' = modes c \<Longrightarrow> controller_ok n c'"
  by (simp add: controller_ok_def modes_ok_def modes_def)

text \<open>Without the replay mode the lists of the replay mode are of no account.\<close>

lemma controller_ok_record_part:
  "controller_ok n c \<Longrightarrow> channels_ok n c' \<Longrightarrow> record_part c' = record_part c \<Longrightarrow>
   \<not> gc_replay_active c \<Longrightarrow> controller_ok n c'"
  by (auto simp: controller_ok_def modes_ok_def record_part_def)

lemma wire_receivers_ok:
  assumes "channels_ok n c"
  shows "channels_ok n (wire_receivers ubx_db nmea_db extra c)"
    "modes (wire_receivers ubx_db nmea_db extra c) = modes c"
proof -
  let ?f = "receiver_setup_nmea nmea_db \<circ> receiver_setup_ubx ubx_db"
  let ?rs = "map ?f (gc_receivers c)"
  have "list_all receiver_ok ?rs"
    using assms by (simp add: channels_ok_def list_all_iff receiver_setters_ok)
  moreover have "receiver_ok (receiver_set_extra_setup extra (?rs ! 0))"
    using calculation assms by (intro receiver_setters_ok) (simp add: channels_ok_def list_all_length)
  ultimately have "list_all receiver_ok (?rs[0 := receiver_set_extra_setup extra (?rs ! 0)])"
    by (auto simp: list_all_iff dest!: set_update_subset_insert [THEN subsetD])
  then show "channels_ok n (wire_receivers ubx_db nmea_db extra c)"
    using assms by (simp add: wire_receivers_def Let_def channels_ok_def)
  show "modes (wire_receivers ubx_db nmea_db extra c) = modes c"
    by (simp add: wire_receivers_def Let_def modes_def)
qed

lemma controller_stop_ok:
  assumes "channels_ok n c"
  shows "channels_ok n (controller_stop c)" "modes (controller_stop c) = modes c"
  using assms by (auto simp: controller_stop_def channels_ok_def modes_def list_all_iff receiver_stop_ok)

lemma start_record_ok:
  assumes "controller_ok n c"
  shows "controller_ok n (fst (start_record os c))"
proof (cases "gc_record_active c \<or> gc_replay_active c")
  case True
  then show ?thesis using assms by (auto simp: start_record_def)
next
  case False
  have ch: "channels_ok n c" and n: "n_receivers c = n"
    using assms n_receivers_ok by (auto simp: controller_ok_def)
  obtain c' r where l: "record_loop os [0..<n_receivers c] c False = (c', r)" by (metis surj_pair)
  have ok: "channels_ok n c'" "gc_record_active c' = False" "gc_replay_active c' = False"
    "\<forall>a. r = Inr a \<longrightarrow> n \<le> length (gc_record_ports c')"
    using record_loop_ok [OF ch, of "[0..<n_receivers c]" os False] l n False
    by (auto simp: modes_def)
  have "controller_ok n c'" "controller_ok n (c'\<lparr>gc_record_ports := []\<rparr>)"
    using ok by (simp_all add: controller_ok_def modes_ok_def channel_simps)
  moreover have "r = Inr a \<Longrightarrow> controller_ok n (c'\<lparr>gc_record_active := True\<rparr>)" for a
    using ok by (simp add: controller_ok_def modes_ok_def channel_simps)
  ultimately show ?thesis
    using l False by (cases r) (simp_all add: start_record_def)
qed

lemma stop_record_ok:
  assumes "controller_ok n c"
  shows "controller_ok n (fst (stop_record c))"
proof (cases "gc_record_active c")
  case True
  let ?is = "[0..<min (n_receivers c) (length (gc_record_ports c))]"
  have ch: "channels_ok n c" and n: "n_receivers c = n" and "\<not> gc_replay_active c"
    using assms n_receivers_ok True by (auto simp: controller_ok_def modes_ok_def)
  moreover have "channels_ok n (stop_record_loop ?is c)" "modes (stop_record_loop ?is c) = modes c"
    using stop_record_loop_ok [OF ch, of ?is] n by simp_all
  ultimately show ?thesis
    by (simp add: stop_record_def controller_ok_def modes_ok_def modes_def channel_simps)
qed (simp add: stop_record_def assms)

lemma start_replay_ok:
  assumes "controller_ok n c"
  shows "controller_ok n (fst (start_replay os os' os'' c))"
proof (cases "gc_record_active c \<or> gc_replay_active c")
  case True
  then show ?thesis using assms by (auto simp: start_replay_def)
next
  case False
  have ch: "channels_ok n (clear_replay c)" and n: "n_receivers c = n"
    using assms n_receivers_ok by (auto simp: controller_ok_def channel_simps)
  obtain c' r where l: "replay_loop os os' [0..<n_receivers c] (clear_replay c) False = (c', r)"
    by (metis surj_pair)
  have ok: "channels_ok n c'" "record_part c' = record_part c" "\<forall>a. r = Inr a \<longrightarrow> replay_len n c'"
    using replay_loop_ok [OF ch, of "[0..<n_receivers c]" 0 os os' False] l n
    by (auto simp: channel_simps replay_len_def clear_replay_def)
  then have c': "controller_ok n c'" "gc_record_active c' = False"
    using controller_ok_record_part [OF assms] False by (auto simp: record_part_def)
  have n': "n_receivers c' = n" using ok(1) by (rule n_receivers_ok)
  define c2 where "c2 = foldl (\<lambda>c i. restore_receiver (os'' i) i c) c' [0..<n_receivers c']"
  have "channels_ok n c2 \<and> record_part c2 = record_part c'"
    unfolding c2_def by (rule fold_channels) (use restore_receiver_ok ok n' in auto)
  then have "controller_ok n (clear_replay c2)"
    by (intro controller_ok_record_part [OF assms]) (use False ok in \<open>simp_all add: channel_simps\<close>)
  moreover have "r = Inr a \<Longrightarrow> controller_ok n (c'\<lparr>gc_replay_active := True\<rparr>)" for a
    using ok c' by (auto simp: controller_ok_def modes_ok_def replay_len_def channel_simps)
  ultimately show ?thesis
    using l False c'(1) by (cases r) (auto simp: start_replay_def c2_def [symmetric])
qed

lemma stop_replay_ok:
  assumes "controller_ok n c"
  shows "controller_ok n (fst (stop_replay os c))"
proof (cases "gc_replay_active c")
  case True
  define c2 where "c2 = foldl (\<lambda>c i. unreplay_receiver (os i) i c) c [0..<n_receivers c]"
  have ch: "channels_ok n c" and n: "n_receivers c = n" and r: "\<not> gc_record_active c"
    using assms n_receivers_ok True by (auto simp: controller_ok_def modes_ok_def)
  have "channels_ok n c2 \<and> record_part c2 = record_part c"
    unfolding c2_def by (rule fold_channels) (use unreplay_receiver_ok ch n in auto)
  then show ?thesis
    using r True by (simp add: stop_replay_def c2_def [symmetric] controller_ok_def modes_ok_def
        record_part_def channel_simps clear_replay_def)
qed (simp add: stop_replay_def assms)

lemma controller_worker_ok:
  assumes "controller_ok n c"
  shows "controller_ok n (fst (controller_worker env os i c))"
proof (cases "i < n")
  case True
  obtain sys' r' es e where it: "worker_iteration env (gc_sys c) (receiver_at c i) = (sys', r', es, e)"
    by (metis prod_cases4)
  have ch: "channels_ok n c" using assms by (simp add: controller_ok_def)
  have "receiver_ok r'" using worker_iteration_ok [OF it channels_at [OF ch True]] by simp
  with ch it assms show ?thesis
    by (auto simp: controller_worker_def channel_simps split: option.split prod.split
        intro!: controller_ok_modes [OF assms])
next
  case False
  then have "channels_ok n (set_receiver i r (c\<lparr>gc_sys := s\<rparr>))" for r s
    using assms by (simp add: set_receiver_def controller_ok_def channels_ok_def list_update_beyond not_less)
  then show ?thesis
    by (auto simp: controller_worker_def channel_simps split: option.split prod.split
        intro!: controller_ok_modes [OF assms])
qed

lemma controller_step_ok:
  assumes "controller_ok n c"
  shows "controller_ok n (controller_step cmd c)"
proof -
  have ch: "channels_ok n c" and n: "n_receivers c = n"
    using assms n_receivers_ok by (auto simp: controller_ok_def)
  note keep = controller_ok_modes [OF assms]
  show ?thesis
  proof (cases cmd)
    case (Cmd_init ubx_db nmea_db extra os)
    let ?c = "wire_receivers ubx_db nmea_db extra c"
    have w: "channels_ok n ?c" "modes ?c = modes c" "n_receivers ?c = n"
      using wire_receivers_ok [OF ch] n_receivers_ok by blast+
    show ?thesis
      unfolding Cmd_init controller_step.simps controller_init_def Let_def w(3)
      using init_loop_ok [OF w(1), of "[0..<n]" os True] w(2) by (intro keep) simp_all
  next
    case Cmd_start
    show ?thesis
      unfolding Cmd_start controller_step.simps controller_start_def n
      using start_loop_ok [OF ch, of "[0..<n]" True] by (intro keep) simp_all
  next
    case Cmd_stop
    then show ?thesis using controller_stop_ok [OF ch] by (auto intro!: keep)
  next
    case Cmd_terminate
    have s: "channels_ok n (controller_stop c)" "modes (controller_stop c) = modes c"
        "n_receivers (controller_stop c) = n"
      using controller_stop_ok [OF ch] n_receivers_ok by blast+
    show ?thesis
      unfolding Cmd_terminate controller_step.simps controller_terminate_def Let_def s(3)
      using terminate_loop_ok [OF s(1), of "[0..<n]"] s(2) by (intro keep) simp_all
  next
    case (Cmd_send os frame)
    then show ?thesis
      by (auto simp: send_command_def Let_def channel_simps ch split: prod.split intro!: keep)
  qed (simp_all add: assms start_record_ok stop_record_ok start_replay_ok stop_replay_ok
      controller_worker_ok)
qed

lemma controller_steps_ok: "controller_ok n c \<Longrightarrow> controller_ok n (controller_steps cmds c)"
  unfolding controller_steps_def by (induction cmds arbitrary: c) (simp_all add: controller_step_ok)

lemma controller_new_ok:
  "gnss_controller_new configs files = Some c \<Longrightarrow> controller_ok (length configs) c"
  by (auto simp: gnss_controller_new_def controller_ok_def channels_ok_def modes_ok_def
      list_all_iff receiver_new_ok split: if_splits)

section \<open>Properties\<close>

text \<open>
  Whatever commands are given and whatever the workers and the kernel do in between,
  commands that are left by an exception included, there are always as many receivers as configured
  channels, each of them in a proper state; record and replay are never active together; while
  recording is active there is a record entry for every channel, and while replay is active there
  are exactly as many saved ports, saved configurations and file ports as channels, so the loops
  of \<open>stop_record\<close> and \<open>stop_replay\<close> stay inside their vectors.
\<close>

theorem controller_invariant:
  assumes "gnss_controller_new configs files = Some c0"
  shows "let c = controller_steps cmds c0; n = length configs in
     length (gc_receivers c) = n \<and> length (gc_ports c) = n \<and> list_all receiver_ok (gc_receivers c)
     \<and> \<not> (gc_record_active c \<and> gc_replay_active c)
     \<and> (gc_record_active c \<longrightarrow> n \<le> length (gc_record_ports c))
     \<and> (gc_replay_active c \<longrightarrow> length (gc_saved_ports c) = n \<and> length (gc_saved_configs c) = n
          \<and> length (gc_replay_ports c) = n)"
  using controller_steps_ok [OF controller_new_ok [OF assms], of cmds]
  by (simp add: Let_def controller_ok_def channels_ok_def modes_ok_def)

definition controller_demo :: "(unit, string) gnss_controller" where
  "controller_demo = the (gnss_controller_new [uart_demo] (\<lambda>_. None))"

theorem controller_invariant_witness:
  "list_all receiver_ok (gc_receivers (controller_steps
     [Cmd_init (\<lambda>r. r) (\<lambda>r. r) (\<lambda>r. r) (\<lambda>_. os_device []), Cmd_start, Cmd_start_record (\<lambda>_. os_device [])]
     controller_demo))"
proof -
  have "gnss_controller_new [uart_demo] (\<lambda>_. None) = Some controller_demo"
    by (simp add: controller_demo_def gnss_controller_new_def)
  from controller_invariant [OF this] show ?thesis by (simp add: Let_def)
qed

end
