(* ===== verification/Gnss_Record.thy ===== *)
theory Gnss_Record
  imports Gnss_Controller
begin

text \<open>
  What the record and replay modes of \<open>gnss_controller\<close> do together: the file a recording leaves
  holds the frames of the stream that was received, and read back it yields the same frames.
\<close>

section \<open>Frames and their bytes\<close>

definition ok_frames :: "scan_item list \<Rightarrow> ubx_frame list" where
  "ok_frames items = concat (map (\<lambda>x. case x of Frame_ok f \<Rightarrow> [f] | Frame_bad e \<Rightarrow> []) items)"

lemma ok_frames_simps [simp]:
  "ok_frames [] = []" "ok_frames (Frame_ok f # items) = f # ok_frames items"
  "ok_frames (Frame_bad e # items) = ok_frames items"
  "ok_frames (xs @ ys) = ok_frames xs @ ok_frames ys"
  "ok_frames (map Frame_ok fs) = fs"
  by (simp_all add: ok_frames_def) (induction fs; simp)

text \<open>A frame that came out of the checksum test of the scanner.\<close>

definition scanned :: "u16 \<Rightarrow> ubx_frame \<Rightarrow> bool" where
  "scanned m f \<longleftrightarrow> (\<exists>c i lo hi rest. scan_frame c i lo hi rest = Frame_ok f
     \<and> \<not> m < frame_length lo hi \<and> \<not> length rest < unat (frame_length lo hi) + 2)"

lemma scan_scanned: "f \<in> set (ok_frames (scan m bs)) \<Longrightarrow> scanned m f"
proof (induction m bs rule: scan.induct)
  case (1 m s1 s2 bs)
  show ?case
  proof (cases "s1 = UBX_SYNC_CHAR_1 \<and> s2 = UBX_SYNC_CHAR_2
      \<and> (\<exists>c i lo hi rest. bs = c # i # lo # hi # rest)")
    case False
    then show ?thesis using 1 by (auto simp: scan.simps(1) [of m s1 s2] split: if_splits list.splits)
  next
    case True
    then obtain c i lo hi rest where bs: "s1 = UBX_SYNC_CHAR_1" "s2 = UBX_SYNC_CHAR_2"
        "bs = c # i # lo # hi # rest" by blast
    have ne: "UBX_SYNC_CHAR_2 \<noteq> UBX_SYNC_CHAR_1"
      by (simp add: UBX_SYNC_CHAR_1_def UBX_SYNC_CHAR_2_def)
    have in_frame: "f \<in> set (ok_frames (if m < frame_length lo hi then Frame_bad (too_large_info c i) # scan m rest
      else if length rest < unat (frame_length lo hi) + 2 then []
      else scan_frame c i lo hi rest # scan m (drop (unat (frame_length lo hi) + 2) rest)))"
      using "1.prems" scan_header [of m c i lo hi rest] bs by simp
    consider "m < frame_length lo hi" "f \<in> set (ok_frames (scan m rest))"
      | "\<not> m < frame_length lo hi" "\<not> length rest < unat (frame_length lo hi) + 2"
        "f \<in> set (ok_frames (scan m (drop (unat (frame_length lo hi) + 2) rest)))"
      | "\<not> m < frame_length lo hi" "\<not> length rest < unat (frame_length lo hi) + 2"
        "scan_frame c i lo hi rest = Frame_ok f"
      using in_frame by (cases "scan_frame c i lo hi rest") (auto split: if_splits)
    then show ?thesis
    proof cases
      case 1
      then show ?thesis using "1.IH" bs ne by simp
    next
      case 2
      then show ?thesis using "1.IH" bs ne by simp
    next
      case 3
      then show ?thesis unfolding scanned_def by blast
    qed
  qed
qed (simp_all add: scan.simps)

lemma frame_length_bytes:
  "ucast (frame_length lo hi AND 0xFF) = lo" "ucast (drop_bit 8 (frame_length lo hi) AND 0xFF) = hi"
  by (simp_all add: frame_length_read le_simps)

text \<open>The bytes written for a frame are read back as that frame.\<close>

lemma scan_frame_bytes:
  assumes "scanned m f"
  shows "scan m (frame_bytes f @ bs) = Frame_ok f # scan m bs"
proof -
  obtain c i lo hi rest where sf: "scan_frame c i lo hi rest = Frame_ok f"
    and fits: "\<not> m < frame_length lo hi" "\<not> length rest < unat (frame_length lo hi) + 2"
    using assms by (auto simp: scanned_def)
  define n where "n = unat (frame_length lo hi)"
  define buf where "buf = take n rest"
  have buf: "length buf = n" using fits by (simp add: buf_def n_def)
  have ck: "compute_checksum ([c, i, lo, hi] @ buf) = (rest ! n, rest ! Suc n)"
    and f: "f = received_frame c i lo hi buf (rest ! n) (rest ! Suc n)"
    using sf by (auto simp: scan_frame_def Let_def n_def buf_def split: if_splits)
  let ?tail = "buf @ [rest ! n, rest ! Suc n] @ bs"
  have "frame_bytes f @ bs = [UBX_SYNC_CHAR_1, UBX_SYNC_CHAR_2, c, i, lo, hi] @ ?tail"
    by (simp add: f frame_bytes_def received_frame_def frame_length_bytes del: ucast_and_0xFF)
  moreover have "scan_frame c i lo hi ?tail = Frame_ok f"
    using ck buf by (simp add: scan_frame_def Let_def n_def [symmetric] f nth_append)
  ultimately show ?thesis using fits buf
    by (simp only: scan_header) (simp add: n_def [symmetric])
qed

lemma scan_recorded:
  "\<forall>f \<in> set fs. scanned m f \<Longrightarrow> scan m (concat (map frame_bytes fs)) = map Frame_ok fs"
  by (induction fs) (simp_all add: scan_frame_bytes scan.simps)

section \<open>Raw messages of a stream\<close>

lemma raw_frames_append [simp]: "raw_frames (es @ fs) = raw_frames es @ raw_frames fs"
  by (induction es rule: raw_frames.induct) simp_all

lemma raw_frames_dispatch: "p_raw_cb p \<Longrightarrow> raw_frames (ubx_dispatch p f) = [f]"
  by (auto simp: ubx_dispatch_def split: option.split)

lemma raw_frames_emit:
  assumes "p_raw_cb p"
  shows "raw_frames (concat (map (emit p) items)) = ok_frames items"
proof (induction items)
  case (Cons x items)
  then show ?case using raw_frames_dispatch [OF assms]
    by (cases x) (auto simp: emit_def ubx_dispatch_error_def)
qed simp

lemma feed_raw_frames:
  assumes "idle p" and "p_raw_cb p"
  shows "raw_frames (snd (ubx_feed p bs)) = ok_frames (scan (p_max_payload_len p) bs)"
  using feed_simulates [OF assms(1), of bs] raw_frames_emit [OF assms(2)]
  by (simp add: simulates_def)

section \<open>A recording channel\<close>

definition not_file :: "io_port \<Rightarrow> bool" where
  "not_file p \<longleftrightarrow> (\<forall>f. p \<noteq> Port_file f)"

lemma not_file_calls:
  assumes "not_file p"
  shows "fst (port_reconfigure os cfg w p) = w" "not_file (fst (snd (port_reconfigure os cfg w p)))"
    "port_read_bytes os len w p = Some (p', res) \<Longrightarrow> not_file p'"
  using assms by (cases p; auto simp: not_file_def map_prod_def split: prod.splits)+

text \<open>An iteration on a port that is not a file leaves the files and the other ports alone.\<close>

definition only_port :: "nat \<Rightarrow> io_sys \<Rightarrow> io_sys \<Rightarrow> bool" where
  "only_port i sys sys' \<longleftrightarrow> w_files (sys_world sys') = w_files (sys_world sys)
     \<and> length (sys_ports sys') = length (sys_ports sys) \<and> not_file (sys_ports sys' ! i)
     \<and> (\<forall>j. j \<noteq> i \<longrightarrow> sys_ports sys' ! j = sys_ports sys ! j)"

lemma only_port_refl: "not_file (sys_ports sys ! i) \<Longrightarrow> only_port i sys sys"
  by (simp add: only_port_def)

lemma only_port_set:
  "i < length (sys_ports sys) \<Longrightarrow> not_file p \<Longrightarrow> only_port i sys (set_port_obj i (sys_world sys, p) sys)"
  by (simp add: only_port_def set_port_obj_def)

lemma after_reconfigure_only:
  assumes "after_reconfigure os sys r wk = (sys', r', es, e)"
    and "not_file (sys_ports sys ! wk_port wk)" and "wk_port wk < length (sys_ports sys)"
  shows "only_port (wk_port wk) sys sys' \<and> rc_port r' = rc_port r \<and> rc_parser_cb r' = rc_parser_cb r"
proof (cases "rc_config r")
  case None
  then show ?thesis using assms by (auto simp: after_reconfigure_def reconfigure_port_def only_port_refl)
next
  case (Some cfg)
  obtain w p res where res: "port_reconfigure os cfg (sys_world sys) (sys_ports sys ! wk_port wk) = (w, p, res)"
    by (metis prod_cases3)
  have "w = sys_world sys" "not_file p"
    using not_file_calls(1,2) [OF assms(2), of os cfg "sys_world sys"] res by simp_all
  then have "only_port (wk_port wk) sys (set_port_obj (wk_port wk) (w, p) sys)"
    using only_port_set assms(3) by blast
  then show ?thesis
    using assms(1) Some res by (auto simp: after_reconfigure_def reconfigure_port_def Let_def split: if_splits)
qed

lemma worker_read_only:
  assumes "worker_read os sys r wk = (sys', r', es, e)"
    and "not_file (sys_ports sys ! wk_port wk)" and "wk_port wk < length (sys_ports sys)"
  shows "only_port (wk_port wk) sys sys' \<and> rc_port r' = rc_port r \<and> rc_parser_cb r' = rc_parser_cb r"
proof -
  have fed: "rc_port r1 = rc_port r0 \<and> rc_parser_cb r1 = rc_parser_cb r0"
    if "feed_parsers buf r0 = (r1, es1)" for buf and r0 r1 :: "('a, 'b) gnss_receiver" and es1
    using that by (auto simp: feed_parsers_def split: option.splits prod.splits)
  let ?port = "sys_ports sys ! wk_port wk"
  let ?len = "nat (if port_available os (sys_world sys) ?port > UART_READ_CHUNK_BYTES
    then UART_READ_CHUNK_BYTES else port_available os (sys_world sys) ?port)"
  show ?thesis
  proof (cases "port_available os (sys_world sys) ?port \<le> 0
      \<or> port_read_bytes os ?len (sys_world sys) ?port = None")
    case True
    then have "worker_read os sys r wk = (sys, r\<lparr>rc_worker := Some wk\<rparr>, [],
        if port_available os (sys_world sys) ?port \<le> 0 then Loop_continue else Loop_hang)"
      by (auto simp add: worker_read_def Let_def simp del: if_split)
    then show ?thesis using assms(1) only_port_refl [OF assms(2)] by auto
  next
    case False
    then obtain port' res where rd: "port_read_bytes os ?len (sys_world sys) ?port = Some (port', res)"
      by auto
    have "only_port (wk_port wk) sys (set_port_obj (wk_port wk) (sys_world sys, port') sys)"
      using only_port_set [OF assms(3) not_file_calls(3) [OF assms(2) rd]] .
    show ?thesis
    proof (cases res)
      case (Inl x)
      then show ?thesis
        using assms(1) False rd \<open>only_port _ _ _\<close>
        by (auto simp: worker_read_def Let_def simp del: if_split)
    next
      case (Inr buf)
      let ?r = "r\<lparr>rc_worker := Some wk\<rparr>"
      obtain r1 es1 where f: "feed_parsers buf ?r = (r1, es1)" by (metis surj_pair)
      have "worker_read os sys r wk =
          (if buf \<noteq> [] then (set_port_obj (wk_port wk) (sys_world sys, port') sys, r1, es1, Loop_continue)
           else (set_port_obj (wk_port wk) (sys_world sys, port') sys, ?r, [], Loop_continue))"
        using False rd Inr f by (simp add: worker_read_def Let_def del: if_split)
      then show ?thesis using assms(1) \<open>only_port _ _ _\<close> fed [OF f] by (auto split: if_splits)
    qed
  qed
qed

lemma worker_iteration_only:
  assumes "worker_iteration env sys r = (sys', r', es, e)" and "receiver_ok r"
    and "not_file (sys_ports sys ! rc_port r)" and "rc_port r < length (sys_ports sys)"
  shows "only_port (rc_port r) sys sys' \<and> rc_port r' = rc_port r \<and> rc_parser_cb r' = rc_parser_cb r"
proof (cases "rc_worker r")
  case None
  then show ?thesis using assms by (simp add: worker_iteration_def only_port_refl)
next
  case (Some wk)
  then have wk: "wk_port wk = rc_port r" using assms(2) by (simp add: receiver_ok_def)
  show ?thesis
    using assms(1) Some after_reconfigure_only [of _ sys r wk sys' r' es e]
      after_reconfigure_only [of _ sys r "wk\<lparr>wk_fd := fd\<rparr>" sys' r' es e for fd]
      worker_read_only [of _ sys r "wk\<lparr>wk_fd := fd\<rparr>" sys' r' es e for fd] wk assms(3,4)
      only_port_refl [OF assms(3)]
    by (auto simp: worker_iteration_def Let_def split: if_splits)
qed

text \<open>The record file of a port: open for writing, the offset at its end.\<close>

definition writing :: "nat \<Rightarrow> string \<Rightarrow> bytes \<Rightarrow> io_sys \<Rightarrow> bool" where
  "writing pid path content sys \<longleftrightarrow> pid < length (sys_ports sys)
     \<and> w_files (sys_world sys) path = Some content
     \<and> (\<exists>q. sys_ports sys ! pid = Port_file q \<and> 0 \<le> fp_fd q \<and> fc_writable (fp_config q)
          \<and> fc_file_path (fp_config q) = path \<and> fp_pos q = length content)"

lemma write_recorded:
  assumes "writing pid path content sys" and "Io_fail \<notin> set (os_file_io os)"
  shows "\<exists>w p. port_write_bytes os bs (sys_world sys) (sys_ports sys ! pid) = (w, p, Inr (int (length bs)))
    \<and> writing pid path (content @ bs) (set_port_obj pid (w, p) sys)
    \<and> (\<forall>j. j \<noteq> pid \<longrightarrow> sys_ports (set_port_obj pid (w, p) sys) ! j = sys_ports sys ! j)"
proof -
  obtain q where q: "sys_ports sys ! pid = Port_file q" "0 \<le> fp_fd q" "fc_writable (fp_config q)"
      "fc_file_path (fp_config q) = path" "fp_pos q = length content"
    and pid: "pid < length (sys_ports sys)" and f: "w_files (sys_world sys) path = Some content"
    using assms(1) by (auto simp: writing_def)
  have "file_content (sys_world sys) q = content" by (simp add: file_content_def q f)
  then show ?thesis
    using q pid f by (cases "bs = []")
      (auto simp: file_write_bytes_def write_loop_ok [OF assms(2)] writing_def set_port_obj_def)
qed

lemma record_frames_written:
  assumes "writing pid path content sys" and "\<forall>k. Io_fail \<notin> set (os_file_io (os k))"
  shows "\<exists>sys'. record_frames os k fs pid sys = (sys', True)
    \<and> writing pid path (content @ concat (map frame_bytes fs)) sys'
    \<and> (\<forall>j. j \<noteq> pid \<longrightarrow> sys_ports sys' ! j = sys_ports sys ! j)
    \<and> length (sys_ports sys') = length (sys_ports sys)"
  using assms(1)
proof (induction fs arbitrary: sys content k)
  case Nil
  then show ?case by simp
next
  case (Cons f fs)
  from write_recorded [OF Cons.prems, of "os k" "frame_bytes f"] assms(2) obtain w p where
    wp: "port_write_bytes (os k) (frame_bytes f) (sys_world sys) (sys_ports sys ! pid)
      = (w, p, Inr (int (length (frame_bytes f))))"
    "writing pid path (content @ frame_bytes f) (set_port_obj pid (w, p) sys)"
    "\<forall>j. j \<noteq> pid \<longrightarrow> sys_ports (set_port_obj pid (w, p) sys) ! j = sys_ports sys ! j"
    by blast
  from Cons.IH [OF wp(2), of "Suc k"] wp(1,3) show ?case by (auto simp: set_port_obj_def)
qed

section \<open>Runs of a channel\<close>

fun controller_run ::
  "(loop_env \<times> os_at) list \<Rightarrow> nat \<Rightarrow> ('m, 'n) gnss_controller
   \<Rightarrow> ('m, 'n) gnss_controller \<times> ('m, 'n) worker_event list \<times> loop_end" where
  "controller_run [] i c = (c, [], Loop_continue)"
| "controller_run ((env, os) # envs) i c =
     (case controller_worker env os i c of
        (c', es, e) \<Rightarrow>
          if e = Loop_continue
          then (case controller_run envs i c' of (c'', es', e') \<Rightarrow> (c'', es @ es', e'))
          else (c', es, e))"

definition recording :: "nat \<Rightarrow> nat \<Rightarrow> string \<Rightarrow> bytes \<Rightarrow> ('m, 'n) gnss_controller \<Rightarrow> bool" where
  "recording i pid path content c \<longleftrightarrow>
     (let r = receiver_at c i; sys = gc_sys c in
        i < length (gc_receivers c) \<and> receiver_ok r \<and> rc_parser_cb r = Some pid
        \<and> rc_port r < length (sys_ports sys) \<and> not_file (sys_ports sys ! rc_port r) \<and> rc_port r \<noteq> pid
        \<and> writing pid path content sys)"

lemma recording_worker:
  assumes "recording i pid path content c" and "\<forall>k. Io_fail \<notin> set (os_file_io (os k))"
    and "controller_worker env os i c = (c', es, e)"
  shows "recording i pid path (content @ concat (map frame_bytes (raw_frames (ubx_events es)))) c'
    \<and> fed_by (receiver_at c i) (receiver_at c' i) es
    \<and> (gc_record_ports c' = gc_record_ports c \<and> gc_record_active c' = gc_record_active c
       \<and> length (gc_receivers c') = length (gc_receivers c))"
proof -
  let ?r = "receiver_at c i" and ?sys = "gc_sys c"
  have rec: "i < length (gc_receivers c)" "receiver_ok ?r" "rc_parser_cb ?r = Some pid"
    "rc_port ?r < length (sys_ports ?sys)" "not_file (sys_ports ?sys ! rc_port ?r)" "rc_port ?r \<noteq> pid"
    "writing pid path content ?sys"
    using assms(1) by (simp_all add: recording_def Let_def)
  obtain sys1 r1 es1 e1 where it: "worker_iteration env ?sys ?r = (sys1, r1, es1, e1)"
    by (metis prod_cases4)
  note only = worker_iteration_only [OF it rec(2,5,4)]
  have "writing pid path content sys1"
    using only rec(6,7) by (auto simp: only_port_def writing_def)
  from record_frames_written [OF this assms(2), of 0 "raw_frames (ubx_events es1)"] obtain sys2 where
    sys2: "record_frames os 0 (raw_frames (ubx_events es1)) pid sys1 = (sys2, True)"
    "writing pid path (content @ concat (map frame_bytes (raw_frames (ubx_events es1)))) sys2"
    "\<forall>j. j \<noteq> pid \<longrightarrow> sys_ports sys2 ! j = sys_ports sys1 ! j"
    "length (sys_ports sys2) = length (sys_ports sys1)" by blast
  have c': "c' = set_receiver i r1 (c\<lparr>gc_sys := sys2\<rparr>)" "es = es1"
    using assms(3) it rec(3) sys2(1) by (auto simp: controller_worker_def)
  have at: "receiver_at c' i = r1" using rec(1) by (simp add: c' receiver_at_def set_receiver_def)
  have "receiver_ok r1" using worker_iteration_ok [OF it rec(2)] by simp
  then show ?thesis
    using worker_iteration_fed [OF it] only sys2 rec at
    by (simp add: recording_def Let_def c' only_port_def channel_simps) (simp add: set_receiver_def)
qed

lemma recording_run:
  assumes "recording i pid path content c"
    and "\<forall>(env, os) \<in> set envs. \<forall>k. Io_fail \<notin> set (os_file_io (os k))"
    and "controller_run envs i c = (c', es, e)"
  shows "recording i pid path (content @ concat (map frame_bytes (raw_frames (ubx_events es)))) c'
    \<and> fed_by (receiver_at c i) (receiver_at c' i) es
    \<and> (gc_record_ports c' = gc_record_ports c \<and> gc_record_active c' = gc_record_active c
       \<and> length (gc_receivers c') = length (gc_receivers c))"
  using assms
proof (induction envs arbitrary: c content es)
  case Nil
  then show ?case by (auto intro: fed_by_nothing)
next
  case (Cons eo envs)
  obtain env os where eo: "eo = (env, os)" by (metis surj_pair)
  obtain c1 es1 e1 where w: "controller_worker env os i c = (c1, es1, e1)" by (metis prod_cases3)
  obtain c2 es2 e2 where r: "controller_run envs i c1 = (c2, es2, e2)" by (metis prod_cases3)
  have one: "recording i pid path (content @ concat (map frame_bytes (raw_frames (ubx_events es1)))) c1
      \<and> fed_by (receiver_at c i) (receiver_at c1 i) es1
      \<and> (gc_record_ports c1 = gc_record_ports c \<and> gc_record_active c1 = gc_record_active c
         \<and> length (gc_receivers c1) = length (gc_receivers c))"
    using recording_worker [OF Cons.prems(1) _ w] Cons.prems(2) eo by auto
  show ?case
  proof (cases "e1 = Loop_continue")
    case True
    then have run2: "controller_run envs i c1 = (c', es2, e)" and es: "es = es1 @ es2"
      using Cons.prems(3) w r by (auto simp: eo)
    have "\<forall>(env, os) \<in> set envs. \<forall>k. Io_fail \<notin> set (os_file_io (os k))" using Cons.prems(2) by simp
    from Cons.IH [OF one [THEN conjunct1] this run2] one show ?thesis
      by (auto simp: es intro: fed_by_append)
  next
    case False
    then show ?thesis using Cons.prems(3) w one by (simp add: eo)
  qed
qed

section \<open>Record, then replay\<close>

lemma open_record_port:
  assumes "open_new_port os (File_config (record_config path)) sys = (sys', pid, Inr True)"
  shows "writing pid path [] sys'" "pid = length (sys_ports sys)"
    "\<And>j. j < length (sys_ports sys) \<Longrightarrow> sys_ports sys' ! j = sys_ports sys ! j"
    "length (sys_ports sys') = Suc (length (sys_ports sys))"
  using assms by (auto simp: open_new_port_def Let_def file_open_def file_open_locked_def
      file_port_new_def record_config_def file_config_new_def writing_def nth_append
      split: if_splits)

lemma rewire_running:
  assumes "receiver_ok r" and "receiver_is_running r"
  shows "\<exists>p. rc_ubx_parser (rewire_raw_cb (Some pid) r) = Some p \<and> idle p \<and> p_raw_cb p
      \<and> p_max_payload_len p = UBX_SAFE_MAX_PAYLOAD_LEN"
    and "rc_parser_cb (rewire_raw_cb (Some pid) r) = Some pid"
    and "rc_port (rewire_raw_cb (Some pid) r) = rc_port r"
  using assms by (auto simp: rewire_raw_cb_def receiver_is_running_def receiver_ok_def receiver_stop_def
      receiver_set_raw_cb_def receiver_start_def start_ubx_parser_def Let_def idle_def
      ubx_parser_new_def set_error_callback_def set_raw_message_callback_def)

lemma stop_record_files:
  assumes "length (gc_receivers c) = 1" and "gc_record_active c" and "gc_record_ports c = [po]"
  shows "w_files (sys_world (gc_sys (fst (stop_record c)))) = w_files (sys_world (gc_sys c))"
  using assms by (auto simp: stop_record_def n_receivers_def Let_def close_port_opt_def set_port_obj_def
      set_receiver_def split: option.split)


definition running_demo :: "(unit, string) gnss_controller" where
  "running_demo = controller_steps
     [Cmd_init (\<lambda>r. r) (\<lambda>r. r) (\<lambda>r. r) (\<lambda>_. os_device []), Cmd_start] controller_demo"

lemma running_demo_facts:
  "gc_receivers running_demo = [receiver_at running_demo 0]"
  "receiver_is_running (receiver_at running_demo 0)" "receiver_ok (receiver_at running_demo 0)"
  "gc_record_ports running_demo = []" "\<not> gc_record_active running_demo" "\<not> gc_replay_active running_demo"
  "rc_port (receiver_at running_demo 0) = 0"
  "\<exists>u. sys_ports (gc_sys running_demo) = [Port_uart u]"
proof -
  have new: "gnss_controller_new [uart_demo] (\<lambda>_. None) = Some controller_demo"
    by (simp add: controller_demo_def gnss_controller_new_def)
  from controller_steps_ok [OF controller_new_ok [OF new]]
  have "controller_ok 1 running_demo" by (simp add: running_demo_def)
  then show "receiver_ok (receiver_at running_demo 0)"
    by (auto simp: controller_ok_def intro: channels_at)
qed (simp_all add: running_demo_def controller_steps_def controller_demo_def gnss_controller_new_def
    controller_init_def controller_start_def wire_receivers_def Let_def n_receivers_def receiver_at_def
    set_receiver_def receiver_init_def receiver_start_def gnss_receiver_new_def receiver_setup_ubx_def
    receiver_setup_nmea_def receiver_set_extra_setup_def uart_demo_def uart_open_locked_def
    uart_port_new_def os_device_def set_port_obj_def receiver_is_running_def gnss_default_def)


section \<open>Replay without a file\<close>

lemma open_replay_port:
  assumes "w_files (sys_world sys) path = Some content" and "0 \<le> os_open os path O_RDONLY"
  shows "\<exists>q. open_new_port os (File_config (replay_config path loop us)) sys =
    (sys\<lparr>sys_ports := sys_ports sys @ [Port_file q]\<rparr>, length (sys_ports sys), Inr True)"
  using assms by (cases sys) (auto simp: open_new_port_def file_open_def file_open_locked_def
      file_port_new_def replay_config_def file_config_new_def Let_def)

lemma open_missing_port:
  assumes "w_files (sys_world sys) path = None"
  shows "\<exists>p. open_new_port os (File_config (replay_config path loop us)) sys =
    (sys\<lparr>sys_ports := sys_ports sys @ [p]\<rparr>, length (sys_ports sys), Inl Io_open_error)"
  using assms by (cases sys) (auto simp: open_new_port_def file_open_def file_open_locked_def
      file_port_new_def replay_config_def file_config_new_def Let_def)

lemma reopen_replay_port:
  assumes "w_files w path = Some content" and "0 \<le> os_open os path O_RDONLY"
  shows "\<exists>q'. port_open os (File_config (replay_config path loop us)) w (Port_file q) = (w, Port_file q', Inr True)"
  using assms by (auto simp: file_open_def file_open_locked_def file_close_locked_def
      replay_config_def file_config_new_def Let_def)

lemma terminate_receiver:
  assumes "receiver_ok r" and "rc_state r \<noteq> Rc_idle"
  shows "\<exists>r'. receiver_terminate sys r =
      (set_port_obj (rc_port r) (sys_world sys, wrapper_shutdown (sys_ports sys ! rc_port r)) sys, r')
    \<and> rc_state r' = Rc_idle \<and> rc_port r' = rc_port r"
proof -
  have "rc_state (receiver_stop r) = Rc_initialized" "rc_port (receiver_stop r) = rc_port r"
    using assms(2) by (cases "rc_state r"; simp add: receiver_stop_def)+
  then show ?thesis by (simp add: receiver_terminate_def Let_def)
qed

lemma shutdown_closed: "\<not> port_is_open (wrapper_shutdown p)"
  by (simp add: wrapper_shutdown_def port.close_law)

text \<open>
  Replay with two channels of which only the first has a recording. The file port of the
  second throws instead of returning false, and nothing on the way catches it: the exception
  leaves \<open>start_replay\<close> with the first channel already on its file, its live port closed and its
  saved entries in place, but replay not marked active, so \<open>stop_replay\<close> refuses to restore it.
\<close>

theorem replay_missing_file_strands:
  assumes "gc_receivers c = [r0, r1]" and "receiver_ok r0" and "rc_state r0 \<noteq> Rc_idle"
    and "\<not> gc_record_active c" and "\<not> gc_replay_active c"
    and "rc_port r0 < length (sys_ports (gc_sys c))"
    and "w_files (sys_world (gc_sys c)) (make_record_path 0) = Some content"
    and "w_files (sys_world (gc_sys c)) (make_record_path 1) = None"
    and "0 \<le> os_open (os 0) (make_record_path 0) O_RDONLY" and "0 \<le> os_open (os' 0) (make_record_path 0) O_RDONLY"
  shows "\<exists>c'. start_replay os os' os'' c = (c', Inl Io_open_error)
    \<and> \<not> gc_replay_active c' \<and> stop_replay os'' c' = (c', False)
    \<and> rc_port (receiver_at c' 0) = length (sys_ports (gc_sys c))
    \<and> receiver_is_running (receiver_at c' 0)
    \<and> \<not> port_is_open (sys_ports (gc_sys c') ! rc_port r0)"
proof -
  let ?sys = "gc_sys c" and ?n = "length (sys_ports (gc_sys c))" and ?w = "sys_world (gc_sys c)"
  let ?cfg = "replay_file_config 0"
  obtain q where o0: "open_new_port (os 0) ?cfg ?sys
      = (?sys\<lparr>sys_ports := sys_ports ?sys @ [Port_file q]\<rparr>, ?n, Inr True)"
    using open_replay_port [OF assms(7,9)] by (auto simp: replay_file_config_def)
  define sys1 where "sys1 = ?sys\<lparr>sys_ports := sys_ports ?sys @ [Port_file q]\<rparr>"
  define sys2 where "sys2 = set_port_obj (rc_port r0) (?w, wrapper_shutdown (sys_ports ?sys ! rc_port r0)) sys1"
  have sys1: "sys_world sys1 = ?w" "sys_ports sys1 ! rc_port r0 = sys_ports ?sys ! rc_port r0"
    using assms(6) by (simp_all add: sys1_def nth_append)
  obtain r2 where t: "receiver_terminate sys1 r0 = (sys2, r2)" "rc_state r2 = Rc_idle"
    using terminate_receiver [OF assms(2,3), of sys1] by (auto simp: sys2_def sys1)
  have q2: "sys_ports sys2 ! ?n = Port_file q" "sys_world sys2 = ?w" "length (sys_ports sys2) = Suc ?n"
    using assms(6) by (simp_all add: sys2_def set_port_obj_def sys1_def nth_append)
  obtain q' where "port_open (os' 0) ?cfg ?w (Port_file q) = (?w, Port_file q', Inr True)"
    using reopen_replay_port [OF assms(7,10)] unfolding replay_file_config_def by blast
  define sys3 where "sys3 = set_port_obj ?n (?w, Port_file q') sys2"
  define r3 where "r3 = (receiver_set_port ?n r2)\<lparr>rc_config := Some ?cfg, rc_state := Rc_initialized\<rparr>"
  have init: "receiver_init (os' 0) (Some ?cfg) sys2 (receiver_set_port ?n r2) = (sys3, r3, True)"
    using \<open>port_open (os' 0) ?cfg ?w (Port_file q) = _\<close> t(2) q2
    by (simp add: receiver_init_def receiver_set_port_def r3_def sys3_def)
  define c1 where "c1 = replay_receiver (os' 0) 0 ?n ((clear_replay c)\<lparr>gc_sys := sys1\<rparr>)"
  have at0: "receiver_at c 0 = r0" "receiver_at (clear_replay c) 0 = r0" "n_receivers c = 2"
    using assms(1) by (simp_all add: receiver_at_def clear_replay_def n_receivers_def)
  have c1: "gc_sys c1 = sys3" "receiver_at c1 0 = fst (receiver_start r3)" "\<not> gc_replay_active c1"
    using t(1) init assms(1,5) by (simp_all add: c1_def replay_receiver_def at0 set_receiver_def
        receiver_at_def clear_replay_def)
  have "w_files (sys_world sys3) (make_record_path 1) = None"
    using assms(8) by (simp add: sys3_def set_port_obj_def)
  then obtain p where o1: "open_new_port (os 1) (replay_file_config 1) sys3
      = (sys3\<lparr>sys_ports := sys_ports sys3 @ [p]\<rparr>, length (sys_ports sys3), Inl Io_open_error)"
    using open_missing_port unfolding replay_file_config_def by blast
  define c' where "c' = c1\<lparr>gc_sys := sys3\<lparr>sys_ports := sys_ports sys3 @ [p]\<rparr>\<rparr>"
  have "gc_sys (clear_replay c) = ?sys" by (simp add: clear_replay_def)
  then have run: "start_replay os os' os'' c = (c', Inl Io_open_error)"
    using assms(4,5) o0 o1 c1 by (simp add: start_replay_def at0 c'_def upt_rec numeral_2_eq_2
        c1_def [symmetric] sys1_def [symmetric] Let_def)
  have "rc_port (receiver_at c' 0) = ?n" "receiver_is_running (receiver_at c' 0)"
    using t(2) by (simp_all add: c'_def c1 r3_def receiver_start_def receiver_set_port_def receiver_is_running_def)
  moreover have "sys_ports (gc_sys c') ! rc_port r0 = wrapper_shutdown (sys_ports ?sys ! rc_port r0)"
    using assms(6) q2 by (simp add: c'_def sys3_def sys2_def set_port_obj_def nth_append sys1_def)
  moreover have "stop_replay os'' c' = (c', False)" "\<not> gc_replay_active c'"
    using c1(3) by (simp_all add: stop_replay_def c'_def)
  ultimately show ?thesis using run shutdown_closed by auto
qed

definition two_channels :: "(unit, string) gnss_controller" where
  "two_channels = fst (controller_init (\<lambda>r. r) (\<lambda>r. r) (\<lambda>r. r) (\<lambda>_. os_device [])
     (the (gnss_controller_new [uart_demo, Uart_config (gnss_default ''/dev/ttyS4'')]
       [make_record_path 0 \<mapsto> []])))"

lemma nat_digits_0_1: "nat_digits 0 = ''0''" "nat_digits (Suc 0) = ''1''"
  by (simp_all add: nat_digits.simps digits_def)

theorem replay_missing_file_strands_witness:
  "\<exists>c'. start_replay (\<lambda>_. os_device []) (\<lambda>_. os_device []) (\<lambda>_. os_device []) two_channels = (c', Inl Io_open_error)
     \<and> \<not> port_is_open (sys_ports (gc_sys c') ! 0) \<and> \<not> gc_replay_active c'"
proof -
  let ?c = two_channels and ?os = "\<lambda>_ :: nat. os_device []"
  note defs = two_channels_def controller_init_def gnss_controller_new_def wire_receivers_def Let_def
    n_receivers_def receiver_at_def set_receiver_def receiver_init_def gnss_receiver_new_def
    receiver_setup_ubx_def receiver_setup_nmea_def receiver_set_extra_setup_def uart_demo_def
    uart_open_locked_def uart_port_new_def os_device_def set_port_obj_def gnss_default_def upt_rec
  have s: "\<exists>r0 r1. gc_receivers ?c = [r0, r1] \<and> receiver_ok r0 \<and> rc_state r0 \<noteq> Rc_idle \<and> rc_port r0 = 0"
    "length (sys_ports (gc_sys ?c)) = 2" "\<not> gc_record_active ?c" "\<not> gc_replay_active ?c"
    "w_files (sys_world (gc_sys ?c)) = [make_record_path 0 \<mapsto> []]"
    by (simp_all add: defs receiver_ok_def)
  then obtain r0 r1 where r: "gc_receivers ?c = [r0, r1]" "receiver_ok r0" "rc_state r0 \<noteq> Rc_idle"
    "rc_port r0 = 0" by blast
  have f: "w_files (sys_world (gc_sys ?c)) (make_record_path 0) = Some []"
    "w_files (sys_world (gc_sys ?c)) (make_record_path 1) = None"
    by (simp_all add: s(5) make_record_path_def nat_digits_0_1)
  have o: "0 \<le> os_open (?os 0) (make_record_path 0) O_RDONLY" by (simp add: os_device_def)
  from replay_missing_file_strands [OF r(1-3) s(3,4) _ f o o, of ?os] r(4) s(2) show ?thesis
    by auto
qed

end
