(* ===== verification/Ubx_Data_Fields.thy ===== *)
theory Ubx_Data_Fields
  imports Ubx_Messages
begin

text \<open>
  \<open>ext_libs/ubx_parser/include/database/ubx_data_fields.h\<close>: the slots of the field store and the message
  types. The enumerators are the numbers C gives them: one more than the enumerator before, where no
  value is written. An array field is the slot of its element 0; its enumerator with the suffix
  \<open>_X\<close> is the slot \<open>MAX\<close> further, so the next field starts behind the array.
\<close>

named_theorems data_field_defs \<open>the numbers of the field slots\<close>
named_theorems msg_type_defs \<open>the numbers of the message types\<close>

type_synonym data_field = nat
type_synonym msg_type = nat

section \<open>Array lengths\<close>

definition MAX_MON_RF_BLOCK :: nat where [data_field_defs]: "MAX_MON_RF_BLOCK = 4"
definition MAX_SATELLITES_IN_VIEW :: nat where [data_field_defs]: "MAX_SATELLITES_IN_VIEW = 64"
definition MAX_ALL_GNSS_SIGNALS :: nat where [data_field_defs]: "MAX_ALL_GNSS_SIGNALS = 128"
definition MAX_ESF_SENSORS :: nat where [data_field_defs]: "MAX_ESF_SENSORS = 32"
definition MAX_ESF_MEAS_DATA :: nat where [data_field_defs]: "MAX_ESF_MEAS_DATA = 32"
definition MAX_RXM_MEASX_MEAS :: nat where [data_field_defs]: "MAX_RXM_MEASX_MEAS = 64"
definition MAX_MON_IO_PORTS :: nat where [data_field_defs]: "MAX_MON_IO_PORTS = 8"
definition MAX_MON_SPAN_RF_BLOCKS :: nat where [data_field_defs]: "MAX_MON_SPAN_RF_BLOCKS = 4"

section \<open>Field slots\<close>

text \<open>UBX-NAV-PVT\<close>

definition DATA_UBX_NAV_PVT_ITOW :: data_field where [data_field_defs]: "DATA_UBX_NAV_PVT_ITOW = 0"
definition DATA_UBX_NAV_PVT_FIXTYPE :: data_field where [data_field_defs]: "DATA_UBX_NAV_PVT_FIXTYPE = 1"
definition DATA_UBX_NAV_PVT_LAT :: data_field where [data_field_defs]: "DATA_UBX_NAV_PVT_LAT = 2"
definition DATA_UBX_NAV_PVT_LON :: data_field where [data_field_defs]: "DATA_UBX_NAV_PVT_LON = 3"
definition DATA_UBX_NAV_PVT_ALT :: data_field where [data_field_defs]: "DATA_UBX_NAV_PVT_ALT = 4"
definition DATA_UBX_NAV_PVT_HMSL :: data_field where [data_field_defs]: "DATA_UBX_NAV_PVT_HMSL = 5"
definition DATA_UBX_NAV_PVT_FLAGS :: data_field where [data_field_defs]: "DATA_UBX_NAV_PVT_FLAGS = 6"
definition DATA_UBX_NAV_PVT_FLAGS2 :: data_field where [data_field_defs]: "DATA_UBX_NAV_PVT_FLAGS2 = 7"
definition DATA_UBX_NAV_PVT_NUMSV :: data_field where [data_field_defs]: "DATA_UBX_NAV_PVT_NUMSV = 8"
definition DATA_UBX_NAV_PVT_GSPEED :: data_field where [data_field_defs]: "DATA_UBX_NAV_PVT_GSPEED = 9"
definition DATA_UBX_NAV_PVT_VEHICLE_HEADING_DEGREE :: data_field where [data_field_defs]: "DATA_UBX_NAV_PVT_VEHICLE_HEADING_DEGREE = 10"
definition DATA_UBX_NAV_PVT_MOTION_HEADING_DEGREE :: data_field where [data_field_defs]: "DATA_UBX_NAV_PVT_MOTION_HEADING_DEGREE = 11"
definition DATA_UBX_NAV_PVT_MAGNETIC_DECLINATION :: data_field where [data_field_defs]: "DATA_UBX_NAV_PVT_MAGNETIC_DECLINATION = 12"
definition DATA_UBX_NAV_PVT_GEAR :: data_field where [data_field_defs]: "DATA_UBX_NAV_PVT_GEAR = 13"
definition DATA_UBX_NAV_PVT_TIME_STATUS :: data_field where [data_field_defs]: "DATA_UBX_NAV_PVT_TIME_STATUS = 14"
definition DATA_UBX_NAV_PVT_VEL_N :: data_field where [data_field_defs]: "DATA_UBX_NAV_PVT_VEL_N = 15"
definition DATA_UBX_NAV_PVT_VEL_E :: data_field where [data_field_defs]: "DATA_UBX_NAV_PVT_VEL_E = 16"
definition DATA_UBX_NAV_PVT_VEL_D :: data_field where [data_field_defs]: "DATA_UBX_NAV_PVT_VEL_D = 17"
definition DATA_UBX_NAV_PVT_T_ACC :: data_field where [data_field_defs]: "DATA_UBX_NAV_PVT_T_ACC = 18"
definition DATA_UBX_NAV_PVT_H_ACC :: data_field where [data_field_defs]: "DATA_UBX_NAV_PVT_H_ACC = 19"
definition DATA_UBX_NAV_PVT_V_ACC :: data_field where [data_field_defs]: "DATA_UBX_NAV_PVT_V_ACC = 20"
definition DATA_UBX_NAV_PVT_S_ACC :: data_field where [data_field_defs]: "DATA_UBX_NAV_PVT_S_ACC = 21"
definition DATA_UBX_NAV_PVT_HEAD_ACC :: data_field where [data_field_defs]: "DATA_UBX_NAV_PVT_HEAD_ACC = 22"
definition DATA_UBX_NAV_PVT_YEAR :: data_field where [data_field_defs]: "DATA_UBX_NAV_PVT_YEAR = 23"
definition DATA_UBX_NAV_PVT_MONTH :: data_field where [data_field_defs]: "DATA_UBX_NAV_PVT_MONTH = 24"
definition DATA_UBX_NAV_PVT_DAY :: data_field where [data_field_defs]: "DATA_UBX_NAV_PVT_DAY = 25"
definition DATA_UBX_NAV_PVT_HOUR :: data_field where [data_field_defs]: "DATA_UBX_NAV_PVT_HOUR = 26"
definition DATA_UBX_NAV_PVT_MINUTE :: data_field where [data_field_defs]: "DATA_UBX_NAV_PVT_MINUTE = 27"
definition DATA_UBX_NAV_PVT_SECOND :: data_field where [data_field_defs]: "DATA_UBX_NAV_PVT_SECOND = 28"
definition DATA_UBX_NAV_PVT_MILI_SECOND :: data_field where [data_field_defs]: "DATA_UBX_NAV_PVT_MILI_SECOND = 29"
definition DATA_UBX_NAV_PVT_MICRO_SECOND :: data_field where [data_field_defs]: "DATA_UBX_NAV_PVT_MICRO_SECOND = 30"
definition DATA_UBX_NAV_PVT_TIMESTAMP :: data_field where [data_field_defs]: "DATA_UBX_NAV_PVT_TIMESTAMP = 31"
definition DATA_UBX_NAV_PVT_TIME_VALID :: data_field where [data_field_defs]: "DATA_UBX_NAV_PVT_TIME_VALID = 32"

text \<open>UBX-NAV-DOP\<close>

definition DATA_UBX_NAV_GEOMETRIC_DILUTION_OF_PRECISION :: data_field where [data_field_defs]: "DATA_UBX_NAV_GEOMETRIC_DILUTION_OF_PRECISION = 33"
definition DATA_UBX_NAV_POSITION_DILUTION_OF_PRECISION :: data_field where [data_field_defs]: "DATA_UBX_NAV_POSITION_DILUTION_OF_PRECISION = 34"
definition DATA_UBX_NAV_TIME_DILUTION_OF_PRECISION :: data_field where [data_field_defs]: "DATA_UBX_NAV_TIME_DILUTION_OF_PRECISION = 35"
definition DATA_UBX_NAV_VERTICAL_DILUTION_OF_PRECISION :: data_field where [data_field_defs]: "DATA_UBX_NAV_VERTICAL_DILUTION_OF_PRECISION = 36"
definition DATA_UBX_NAV_HORIZONAL_DILUTION_OF_PRECISION :: data_field where [data_field_defs]: "DATA_UBX_NAV_HORIZONAL_DILUTION_OF_PRECISION = 37"

text \<open>UBX-NAV-EELL\<close>

definition DATA_UBX_SEMI_MAJOR_AXIS_ACC :: data_field where [data_field_defs]: "DATA_UBX_SEMI_MAJOR_AXIS_ACC = 38"
definition DATA_UBX_SEMI_MINOR_AXIS_ACC :: data_field where [data_field_defs]: "DATA_UBX_SEMI_MINOR_AXIS_ACC = 39"
definition DATA_UBX_SEMI_MAJOR_AXIS_ORIENTATION :: data_field where [data_field_defs]: "DATA_UBX_SEMI_MAJOR_AXIS_ORIENTATION = 40"

text \<open>UBX-NAV-TIMEGPS\<close>

definition DATA_UBX_NAV_GPSTIME_TOW :: data_field where [data_field_defs]: "DATA_UBX_NAV_GPSTIME_TOW = 41"
definition DATA_UBX_NAV_GPSTIME_WEEK :: data_field where [data_field_defs]: "DATA_UBX_NAV_GPSTIME_WEEK = 42"
definition DATA_UBX_NAV_GPSTIME_LEAP_SECONDS :: data_field where [data_field_defs]: "DATA_UBX_NAV_GPSTIME_LEAP_SECONDS = 43"

text \<open>UBX-NAV-STATUS\<close>

definition DATA_UBX_TTFF :: data_field where [data_field_defs]: "DATA_UBX_TTFF = 44"

text \<open>UBX-TIM-TP\<close>

definition DATA_TIME_PULSE_TIMESTAMP :: data_field where [data_field_defs]: "DATA_TIME_PULSE_TIMESTAMP = 45"
definition DATA_TIME_PULSE_QUANTIZATION_ERROR :: data_field where [data_field_defs]: "DATA_TIME_PULSE_QUANTIZATION_ERROR = 46"
definition DATA_TIME_PULSE_UTC_TIME_BASE :: data_field where [data_field_defs]: "DATA_TIME_PULSE_UTC_TIME_BASE = 47"
definition DATA_TIME_PULSE_UTC_AVAILABLE :: data_field where [data_field_defs]: "DATA_TIME_PULSE_UTC_AVAILABLE = 48"
definition DATA_TIME_PULSE_RAIM_ACTIVE :: data_field where [data_field_defs]: "DATA_TIME_PULSE_RAIM_ACTIVE = 49"
definition DATA_TIME_PULSE_Q_ERROR_VALID :: data_field where [data_field_defs]: "DATA_TIME_PULSE_Q_ERROR_VALID = 50"
definition DATA_TIME_PULSE_TP_LOCKED_GNSS :: data_field where [data_field_defs]: "DATA_TIME_PULSE_TP_LOCKED_GNSS = 51"
definition DATA_TIME_PULSE_TIME_REF :: data_field where [data_field_defs]: "DATA_TIME_PULSE_TIME_REF = 52"
definition DATA_TIME_PULSE_UTC_STANDARD :: data_field where [data_field_defs]: "DATA_TIME_PULSE_UTC_STANDARD = 53"

text \<open>UBX-MON-RF\<close>

definition DATA_UBX_MON_RF_NBLOCKS :: data_field where [data_field_defs]: "DATA_UBX_MON_RF_NBLOCKS = 54"
definition DATA_UBX_MON_RF_BLOCK_ID :: data_field where [data_field_defs]: "DATA_UBX_MON_RF_BLOCK_ID = 55"
definition DATA_UBX_MON_RF_BLOCK_ID_X :: data_field where [data_field_defs]: "DATA_UBX_MON_RF_BLOCK_ID_X = 59"
definition DATA_UBX_MON_RF_AGCCNT :: data_field where [data_field_defs]: "DATA_UBX_MON_RF_AGCCNT = 60"
definition DATA_UBX_MON_RF_AGCCNT_X :: data_field where [data_field_defs]: "DATA_UBX_MON_RF_AGCCNT_X = 64"
definition DATA_UBX_MON_RF_NOISEPERMS :: data_field where [data_field_defs]: "DATA_UBX_MON_RF_NOISEPERMS = 65"
definition DATA_UBX_MON_RF_NOISEPERMS_X :: data_field where [data_field_defs]: "DATA_UBX_MON_RF_NOISEPERMS_X = 69"
definition DATA_UBX_MON_RF_JAMIND :: data_field where [data_field_defs]: "DATA_UBX_MON_RF_JAMIND = 70"
definition DATA_UBX_MON_RF_JAMIND_X :: data_field where [data_field_defs]: "DATA_UBX_MON_RF_JAMIND_X = 74"

text \<open>UBX-NAV-SAT\<close>

definition DATA_SATELLITES_IN_VIEW :: data_field where [data_field_defs]: "DATA_SATELLITES_IN_VIEW = 75"
definition DATA_SATELLITES_IN_VIEW_GNSSID :: data_field where [data_field_defs]: "DATA_SATELLITES_IN_VIEW_GNSSID = 76"
definition DATA_SATELLITES_IN_VIEW_GNSSID_X :: data_field where [data_field_defs]: "DATA_SATELLITES_IN_VIEW_GNSSID_X = 140"
definition DATA_SATELLITES_IN_VIEW_SVID :: data_field where [data_field_defs]: "DATA_SATELLITES_IN_VIEW_SVID = 141"
definition DATA_SATELLITES_IN_VIEW_SVID_X :: data_field where [data_field_defs]: "DATA_SATELLITES_IN_VIEW_SVID_X = 205"
definition DATA_SATELLITES_IN_VIEW_AZIMUTH :: data_field where [data_field_defs]: "DATA_SATELLITES_IN_VIEW_AZIMUTH = 206"
definition DATA_SATELLITES_IN_VIEW_AZIMUTH_X :: data_field where [data_field_defs]: "DATA_SATELLITES_IN_VIEW_AZIMUTH_X = 270"
definition DATA_SATELLITES_IN_VIEW_ELEVATION :: data_field where [data_field_defs]: "DATA_SATELLITES_IN_VIEW_ELEVATION = 271"
definition DATA_SATELLITES_IN_VIEW_ELEVATION_X :: data_field where [data_field_defs]: "DATA_SATELLITES_IN_VIEW_ELEVATION_X = 335"
definition DATA_SATELLITES_IN_VIEW_CN0_RATIO :: data_field where [data_field_defs]: "DATA_SATELLITES_IN_VIEW_CN0_RATIO = 336"
definition DATA_SATELLITES_IN_VIEW_CN0_RATIO_X :: data_field where [data_field_defs]: "DATA_SATELLITES_IN_VIEW_CN0_RATIO_X = 400"
definition DATA_SATELLITES_IN_VIEW_ALMANAC :: data_field where [data_field_defs]: "DATA_SATELLITES_IN_VIEW_ALMANAC = 401"
definition DATA_SATELLITES_IN_VIEW_ALMANAC_X :: data_field where [data_field_defs]: "DATA_SATELLITES_IN_VIEW_ALMANAC_X = 465"
definition DATA_SATELLITES_IN_VIEW_EPHEMERIS :: data_field where [data_field_defs]: "DATA_SATELLITES_IN_VIEW_EPHEMERIS = 466"
definition DATA_SATELLITES_IN_VIEW_EPHEMERIS_X :: data_field where [data_field_defs]: "DATA_SATELLITES_IN_VIEW_EPHEMERIS_X = 530"
definition DATA_SATELLITES_IN_VIEW_HEALTH :: data_field where [data_field_defs]: "DATA_SATELLITES_IN_VIEW_HEALTH = 531"
definition DATA_SATELLITES_IN_VIEW_HEALTH_X :: data_field where [data_field_defs]: "DATA_SATELLITES_IN_VIEW_HEALTH_X = 595"
definition DATA_SATELLITES_IN_VIEW_USED :: data_field where [data_field_defs]: "DATA_SATELLITES_IN_VIEW_USED = 596"
definition DATA_SATELLITES_IN_VIEW_USED_X :: data_field where [data_field_defs]: "DATA_SATELLITES_IN_VIEW_USED_X = 660"
definition DATA_SATELLITES_IN_VIEW_DIFF_CORR :: data_field where [data_field_defs]: "DATA_SATELLITES_IN_VIEW_DIFF_CORR = 661"
definition DATA_SATELLITES_IN_VIEW_DIFF_CORR_X :: data_field where [data_field_defs]: "DATA_SATELLITES_IN_VIEW_DIFF_CORR_X = 725"
definition DATA_SATELLITES_IN_VIEW_SBAS_USED :: data_field where [data_field_defs]: "DATA_SATELLITES_IN_VIEW_SBAS_USED = 726"
definition DATA_SATELLITES_IN_VIEW_SBAS_USED_X :: data_field where [data_field_defs]: "DATA_SATELLITES_IN_VIEW_SBAS_USED_X = 790"
definition DATA_SATELLITES_IN_VIEW_RTCM_USED :: data_field where [data_field_defs]: "DATA_SATELLITES_IN_VIEW_RTCM_USED = 791"
definition DATA_SATELLITES_IN_VIEW_RTCM_USED_X :: data_field where [data_field_defs]: "DATA_SATELLITES_IN_VIEW_RTCM_USED_X = 855"
definition DATA_SATELLITES_IN_VIEW_L1_SIG_ID :: data_field where [data_field_defs]: "DATA_SATELLITES_IN_VIEW_L1_SIG_ID = 856"
definition DATA_SATELLITES_IN_VIEW_L1_SIG_ID_X :: data_field where [data_field_defs]: "DATA_SATELLITES_IN_VIEW_L1_SIG_ID_X = 920"
definition DATA_SATELLITES_IN_VIEW_L1_CN0 :: data_field where [data_field_defs]: "DATA_SATELLITES_IN_VIEW_L1_CN0 = 921"
definition DATA_SATELLITES_IN_VIEW_L1_CN0_X :: data_field where [data_field_defs]: "DATA_SATELLITES_IN_VIEW_L1_CN0_X = 985"
definition DATA_SATELLITES_IN_VIEW_L5_SIG_ID :: data_field where [data_field_defs]: "DATA_SATELLITES_IN_VIEW_L5_SIG_ID = 986"
definition DATA_SATELLITES_IN_VIEW_L5_SIG_ID_X :: data_field where [data_field_defs]: "DATA_SATELLITES_IN_VIEW_L5_SIG_ID_X = 1050"
definition DATA_SATELLITES_IN_VIEW_L5_CN0 :: data_field where [data_field_defs]: "DATA_SATELLITES_IN_VIEW_L5_CN0 = 1051"
definition DATA_SATELLITES_IN_VIEW_L5_CN0_X :: data_field where [data_field_defs]: "DATA_SATELLITES_IN_VIEW_L5_CN0_X = 1115"

text \<open>UBX-NAV2-PVT (secondary navigation solution)\<close>

definition DATA_UBX_NAV2_PVT_ITOW :: data_field where [data_field_defs]: "DATA_UBX_NAV2_PVT_ITOW = 1116"
definition DATA_UBX_NAV2_PVT_FIXTYPE :: data_field where [data_field_defs]: "DATA_UBX_NAV2_PVT_FIXTYPE = 1117"
definition DATA_UBX_NAV2_PVT_LAT :: data_field where [data_field_defs]: "DATA_UBX_NAV2_PVT_LAT = 1118"
definition DATA_UBX_NAV2_PVT_LON :: data_field where [data_field_defs]: "DATA_UBX_NAV2_PVT_LON = 1119"
definition DATA_UBX_NAV2_PVT_ALT :: data_field where [data_field_defs]: "DATA_UBX_NAV2_PVT_ALT = 1120"
definition DATA_UBX_NAV2_PVT_HMSL :: data_field where [data_field_defs]: "DATA_UBX_NAV2_PVT_HMSL = 1121"
definition DATA_UBX_NAV2_PVT_FLAGS :: data_field where [data_field_defs]: "DATA_UBX_NAV2_PVT_FLAGS = 1122"
definition DATA_UBX_NAV2_PVT_FLAGS2 :: data_field where [data_field_defs]: "DATA_UBX_NAV2_PVT_FLAGS2 = 1123"
definition DATA_UBX_NAV2_PVT_NUMSV :: data_field where [data_field_defs]: "DATA_UBX_NAV2_PVT_NUMSV = 1124"
definition DATA_UBX_NAV2_PVT_GSPEED :: data_field where [data_field_defs]: "DATA_UBX_NAV2_PVT_GSPEED = 1125"
definition DATA_UBX_NAV2_PVT_VEHICLE_HEADING_DEGREE :: data_field where [data_field_defs]: "DATA_UBX_NAV2_PVT_VEHICLE_HEADING_DEGREE = 1126"
definition DATA_UBX_NAV2_PVT_MOTION_HEADING_DEGREE :: data_field where [data_field_defs]: "DATA_UBX_NAV2_PVT_MOTION_HEADING_DEGREE = 1127"
definition DATA_UBX_NAV2_PVT_MAGNETIC_DECLINATION :: data_field where [data_field_defs]: "DATA_UBX_NAV2_PVT_MAGNETIC_DECLINATION = 1128"
definition DATA_UBX_NAV2_PVT_VEL_N :: data_field where [data_field_defs]: "DATA_UBX_NAV2_PVT_VEL_N = 1129"
definition DATA_UBX_NAV2_PVT_VEL_E :: data_field where [data_field_defs]: "DATA_UBX_NAV2_PVT_VEL_E = 1130"
definition DATA_UBX_NAV2_PVT_VEL_D :: data_field where [data_field_defs]: "DATA_UBX_NAV2_PVT_VEL_D = 1131"
definition DATA_UBX_NAV2_PVT_H_ACC :: data_field where [data_field_defs]: "DATA_UBX_NAV2_PVT_H_ACC = 1132"
definition DATA_UBX_NAV2_PVT_V_ACC :: data_field where [data_field_defs]: "DATA_UBX_NAV2_PVT_V_ACC = 1133"
definition DATA_UBX_NAV2_PVT_YEAR :: data_field where [data_field_defs]: "DATA_UBX_NAV2_PVT_YEAR = 1134"
definition DATA_UBX_NAV2_PVT_MONTH :: data_field where [data_field_defs]: "DATA_UBX_NAV2_PVT_MONTH = 1135"
definition DATA_UBX_NAV2_PVT_DAY :: data_field where [data_field_defs]: "DATA_UBX_NAV2_PVT_DAY = 1136"
definition DATA_UBX_NAV2_PVT_HOUR :: data_field where [data_field_defs]: "DATA_UBX_NAV2_PVT_HOUR = 1137"
definition DATA_UBX_NAV2_PVT_MINUTE :: data_field where [data_field_defs]: "DATA_UBX_NAV2_PVT_MINUTE = 1138"
definition DATA_UBX_NAV2_PVT_SECOND :: data_field where [data_field_defs]: "DATA_UBX_NAV2_PVT_SECOND = 1139"
definition DATA_UBX_NAV2_PVT_MILI_SECOND :: data_field where [data_field_defs]: "DATA_UBX_NAV2_PVT_MILI_SECOND = 1140"
definition DATA_UBX_NAV2_PVT_MICRO_SECOND :: data_field where [data_field_defs]: "DATA_UBX_NAV2_PVT_MICRO_SECOND = 1141"
definition DATA_UBX_NAV2_PVT_TIME_VALID :: data_field where [data_field_defs]: "DATA_UBX_NAV2_PVT_TIME_VALID = 1142"
definition DATA_UBX_NAV2_PVT_TIMESTAMP :: data_field where [data_field_defs]: "DATA_UBX_NAV2_PVT_TIMESTAMP = 1143"

text \<open>UBX-NAV2-DOP\<close>

definition DATA_UBX_NAV2_GEOMETRIC_DILUTION_OF_PRECISION :: data_field where [data_field_defs]: "DATA_UBX_NAV2_GEOMETRIC_DILUTION_OF_PRECISION = 1144"
definition DATA_UBX_NAV2_POSITION_DILUTION_OF_PRECISION :: data_field where [data_field_defs]: "DATA_UBX_NAV2_POSITION_DILUTION_OF_PRECISION = 1145"
definition DATA_UBX_NAV2_TIME_DILUTION_OF_PRECISION :: data_field where [data_field_defs]: "DATA_UBX_NAV2_TIME_DILUTION_OF_PRECISION = 1146"
definition DATA_UBX_NAV2_VERTICAL_DILUTION_OF_PRECISION :: data_field where [data_field_defs]: "DATA_UBX_NAV2_VERTICAL_DILUTION_OF_PRECISION = 1147"
definition DATA_UBX_NAV2_HORIZONAL_DILUTION_OF_PRECISION :: data_field where [data_field_defs]: "DATA_UBX_NAV2_HORIZONAL_DILUTION_OF_PRECISION = 1148"

text \<open>UBX-NAV2-EELL\<close>

definition DATA_UBX_NAV2_SEMI_MAJOR_AXIS_ACC :: data_field where [data_field_defs]: "DATA_UBX_NAV2_SEMI_MAJOR_AXIS_ACC = 1149"
definition DATA_UBX_NAV2_SEMI_MINOR_AXIS_ACC :: data_field where [data_field_defs]: "DATA_UBX_NAV2_SEMI_MINOR_AXIS_ACC = 1150"
definition DATA_UBX_NAV2_SEMI_MAJOR_AXIS_ORIENTATION :: data_field where [data_field_defs]: "DATA_UBX_NAV2_SEMI_MAJOR_AXIS_ORIENTATION = 1151"

text \<open>UBX-NAV2-TIMEGPS\<close>

definition DATA_UBX_NAV2_GPSTIME_TOW :: data_field where [data_field_defs]: "DATA_UBX_NAV2_GPSTIME_TOW = 1152"
definition DATA_UBX_NAV2_GPSTIME_WEEK :: data_field where [data_field_defs]: "DATA_UBX_NAV2_GPSTIME_WEEK = 1153"
definition DATA_UBX_NAV2_GPSTIME_LEAP_SECONDS :: data_field where [data_field_defs]: "DATA_UBX_NAV2_GPSTIME_LEAP_SECONDS = 1154"

text \<open>UBX-NAV-ODO\<close>

definition DATA_UBX_NAV_ODO_ITOW :: data_field where [data_field_defs]: "DATA_UBX_NAV_ODO_ITOW = 1155"
definition DATA_UBX_NAV_ODO_DISTANCE :: data_field where [data_field_defs]: "DATA_UBX_NAV_ODO_DISTANCE = 1156"
definition DATA_UBX_NAV_ODO_TOTAL_DISTANCE :: data_field where [data_field_defs]: "DATA_UBX_NAV_ODO_TOTAL_DISTANCE = 1157"
definition DATA_UBX_NAV_ODO_DISTANCE_STD :: data_field where [data_field_defs]: "DATA_UBX_NAV_ODO_DISTANCE_STD = 1158"

text \<open>UBX-ESF-INS\<close>

definition DATA_UBX_ESF_INS_ITOW :: data_field where [data_field_defs]: "DATA_UBX_ESF_INS_ITOW = 1159"
definition DATA_UBX_ESF_INS_X_ANG_RATE :: data_field where [data_field_defs]: "DATA_UBX_ESF_INS_X_ANG_RATE = 1160"
definition DATA_UBX_ESF_INS_Y_ANG_RATE :: data_field where [data_field_defs]: "DATA_UBX_ESF_INS_Y_ANG_RATE = 1161"
definition DATA_UBX_ESF_INS_Z_ANG_RATE :: data_field where [data_field_defs]: "DATA_UBX_ESF_INS_Z_ANG_RATE = 1162"
definition DATA_UBX_ESF_INS_X_ACCEL :: data_field where [data_field_defs]: "DATA_UBX_ESF_INS_X_ACCEL = 1163"
definition DATA_UBX_ESF_INS_Y_ACCEL :: data_field where [data_field_defs]: "DATA_UBX_ESF_INS_Y_ACCEL = 1164"
definition DATA_UBX_ESF_INS_Z_ACCEL :: data_field where [data_field_defs]: "DATA_UBX_ESF_INS_Z_ACCEL = 1165"
definition DATA_UBX_ESF_INS_BITFIELD0 :: data_field where [data_field_defs]: "DATA_UBX_ESF_INS_BITFIELD0 = 1166"

text \<open>UBX-ESF-STATUS\<close>

definition DATA_UBX_ESF_STATUS_ITOW :: data_field where [data_field_defs]: "DATA_UBX_ESF_STATUS_ITOW = 1167"
definition DATA_UBX_ESF_STATUS_FUSION_MODE :: data_field where [data_field_defs]: "DATA_UBX_ESF_STATUS_FUSION_MODE = 1168"
definition DATA_UBX_ESF_STATUS_NUM_SENS :: data_field where [data_field_defs]: "DATA_UBX_ESF_STATUS_NUM_SENS = 1169"
definition DATA_UBX_ESF_STATUS_SENS_TYPE :: data_field where [data_field_defs]: "DATA_UBX_ESF_STATUS_SENS_TYPE = 1170"
definition DATA_UBX_ESF_STATUS_SENS_TYPE_X :: data_field where [data_field_defs]: "DATA_UBX_ESF_STATUS_SENS_TYPE_X = 1202"
definition DATA_UBX_ESF_STATUS_SENS_USED :: data_field where [data_field_defs]: "DATA_UBX_ESF_STATUS_SENS_USED = 1203"
definition DATA_UBX_ESF_STATUS_SENS_USED_X :: data_field where [data_field_defs]: "DATA_UBX_ESF_STATUS_SENS_USED_X = 1235"
definition DATA_UBX_ESF_STATUS_SENS_READY :: data_field where [data_field_defs]: "DATA_UBX_ESF_STATUS_SENS_READY = 1236"
definition DATA_UBX_ESF_STATUS_SENS_READY_X :: data_field where [data_field_defs]: "DATA_UBX_ESF_STATUS_SENS_READY_X = 1268"
definition DATA_UBX_ESF_STATUS_SENS_CALIB :: data_field where [data_field_defs]: "DATA_UBX_ESF_STATUS_SENS_CALIB = 1269"
definition DATA_UBX_ESF_STATUS_SENS_CALIB_X :: data_field where [data_field_defs]: "DATA_UBX_ESF_STATUS_SENS_CALIB_X = 1301"
definition DATA_UBX_ESF_STATUS_SENS_TIME_STATUS :: data_field where [data_field_defs]: "DATA_UBX_ESF_STATUS_SENS_TIME_STATUS = 1302"
definition DATA_UBX_ESF_STATUS_SENS_TIME_STATUS_X :: data_field where [data_field_defs]: "DATA_UBX_ESF_STATUS_SENS_TIME_STATUS_X = 1334"
definition DATA_UBX_ESF_STATUS_SENS_FREQ :: data_field where [data_field_defs]: "DATA_UBX_ESF_STATUS_SENS_FREQ = 1335"
definition DATA_UBX_ESF_STATUS_SENS_FREQ_X :: data_field where [data_field_defs]: "DATA_UBX_ESF_STATUS_SENS_FREQ_X = 1367"
definition DATA_UBX_ESF_STATUS_SENS_FAULTS :: data_field where [data_field_defs]: "DATA_UBX_ESF_STATUS_SENS_FAULTS = 1368"
definition DATA_UBX_ESF_STATUS_SENS_FAULTS_X :: data_field where [data_field_defs]: "DATA_UBX_ESF_STATUS_SENS_FAULTS_X = 1400"

text \<open>UBX-ESF-MEAS\<close>

definition DATA_UBX_ESF_MEAS_TIME_TAG :: data_field where [data_field_defs]: "DATA_UBX_ESF_MEAS_TIME_TAG = 1401"
definition DATA_UBX_ESF_MEAS_FLAGS :: data_field where [data_field_defs]: "DATA_UBX_ESF_MEAS_FLAGS = 1402"
definition DATA_UBX_ESF_MEAS_NUM_MEAS :: data_field where [data_field_defs]: "DATA_UBX_ESF_MEAS_NUM_MEAS = 1403"
definition DATA_UBX_ESF_MEAS_DATA_TYPE :: data_field where [data_field_defs]: "DATA_UBX_ESF_MEAS_DATA_TYPE = 1404"
definition DATA_UBX_ESF_MEAS_DATA_TYPE_X :: data_field where [data_field_defs]: "DATA_UBX_ESF_MEAS_DATA_TYPE_X = 1436"
definition DATA_UBX_ESF_MEAS_DATA_VALUE :: data_field where [data_field_defs]: "DATA_UBX_ESF_MEAS_DATA_VALUE = 1437"
definition DATA_UBX_ESF_MEAS_DATA_VALUE_X :: data_field where [data_field_defs]: "DATA_UBX_ESF_MEAS_DATA_VALUE_X = 1469"

text \<open>UBX-NAV-SIG\<close>

definition DATA_UBX_NAV_SIG_NUM_SIGS :: data_field where [data_field_defs]: "DATA_UBX_NAV_SIG_NUM_SIGS = 1470"
definition DATA_UBX_NAV_SIG_GNSSID :: data_field where [data_field_defs]: "DATA_UBX_NAV_SIG_GNSSID = 1471"
definition DATA_UBX_NAV_SIG_GNSSID_X :: data_field where [data_field_defs]: "DATA_UBX_NAV_SIG_GNSSID_X = 1599"
definition DATA_UBX_NAV_SIG_SVID :: data_field where [data_field_defs]: "DATA_UBX_NAV_SIG_SVID = 1600"
definition DATA_UBX_NAV_SIG_SVID_X :: data_field where [data_field_defs]: "DATA_UBX_NAV_SIG_SVID_X = 1728"
definition DATA_UBX_NAV_SIG_SIGID :: data_field where [data_field_defs]: "DATA_UBX_NAV_SIG_SIGID = 1729"
definition DATA_UBX_NAV_SIG_SIGID_X :: data_field where [data_field_defs]: "DATA_UBX_NAV_SIG_SIGID_X = 1857"
definition DATA_UBX_NAV_SIG_FREQID :: data_field where [data_field_defs]: "DATA_UBX_NAV_SIG_FREQID = 1858"
definition DATA_UBX_NAV_SIG_FREQID_X :: data_field where [data_field_defs]: "DATA_UBX_NAV_SIG_FREQID_X = 1986"
definition DATA_UBX_NAV_SIG_PR_RES :: data_field where [data_field_defs]: "DATA_UBX_NAV_SIG_PR_RES = 1987"
definition DATA_UBX_NAV_SIG_PR_RES_X :: data_field where [data_field_defs]: "DATA_UBX_NAV_SIG_PR_RES_X = 2115"
definition DATA_UBX_NAV_SIG_CNO :: data_field where [data_field_defs]: "DATA_UBX_NAV_SIG_CNO = 2116"
definition DATA_UBX_NAV_SIG_CNO_X :: data_field where [data_field_defs]: "DATA_UBX_NAV_SIG_CNO_X = 2244"
definition DATA_UBX_NAV_SIG_QUAL_IND :: data_field where [data_field_defs]: "DATA_UBX_NAV_SIG_QUAL_IND = 2245"
definition DATA_UBX_NAV_SIG_QUAL_IND_X :: data_field where [data_field_defs]: "DATA_UBX_NAV_SIG_QUAL_IND_X = 2373"
definition DATA_UBX_NAV_SIG_CORR_SOURCE :: data_field where [data_field_defs]: "DATA_UBX_NAV_SIG_CORR_SOURCE = 2374"
definition DATA_UBX_NAV_SIG_CORR_SOURCE_X :: data_field where [data_field_defs]: "DATA_UBX_NAV_SIG_CORR_SOURCE_X = 2502"
definition DATA_UBX_NAV_SIG_IONO_MODEL :: data_field where [data_field_defs]: "DATA_UBX_NAV_SIG_IONO_MODEL = 2503"
definition DATA_UBX_NAV_SIG_IONO_MODEL_X :: data_field where [data_field_defs]: "DATA_UBX_NAV_SIG_IONO_MODEL_X = 2631"
definition DATA_UBX_NAV_SIG_HEALTH :: data_field where [data_field_defs]: "DATA_UBX_NAV_SIG_HEALTH = 2632"
definition DATA_UBX_NAV_SIG_HEALTH_X :: data_field where [data_field_defs]: "DATA_UBX_NAV_SIG_HEALTH_X = 2760"
definition DATA_UBX_NAV_SIG_PR_USED :: data_field where [data_field_defs]: "DATA_UBX_NAV_SIG_PR_USED = 2761"
definition DATA_UBX_NAV_SIG_PR_USED_X :: data_field where [data_field_defs]: "DATA_UBX_NAV_SIG_PR_USED_X = 2889"
definition DATA_UBX_NAV_SIG_CR_USED :: data_field where [data_field_defs]: "DATA_UBX_NAV_SIG_CR_USED = 2890"
definition DATA_UBX_NAV_SIG_CR_USED_X :: data_field where [data_field_defs]: "DATA_UBX_NAV_SIG_CR_USED_X = 3018"
definition DATA_UBX_NAV_SIG_DO_USED :: data_field where [data_field_defs]: "DATA_UBX_NAV_SIG_DO_USED = 3019"
definition DATA_UBX_NAV_SIG_DO_USED_X :: data_field where [data_field_defs]: "DATA_UBX_NAV_SIG_DO_USED_X = 3147"

text \<open>UBX-NAV-TIMEUTC\<close>

definition DATA_UBX_NAV_TIMEUTC_ITOW :: data_field where [data_field_defs]: "DATA_UBX_NAV_TIMEUTC_ITOW = 3148"
definition DATA_UBX_NAV_TIMEUTC_T_ACC :: data_field where [data_field_defs]: "DATA_UBX_NAV_TIMEUTC_T_ACC = 3149"
definition DATA_UBX_NAV_TIMEUTC_NANO :: data_field where [data_field_defs]: "DATA_UBX_NAV_TIMEUTC_NANO = 3150"
definition DATA_UBX_NAV_TIMEUTC_YEAR :: data_field where [data_field_defs]: "DATA_UBX_NAV_TIMEUTC_YEAR = 3151"
definition DATA_UBX_NAV_TIMEUTC_MONTH :: data_field where [data_field_defs]: "DATA_UBX_NAV_TIMEUTC_MONTH = 3152"
definition DATA_UBX_NAV_TIMEUTC_DAY :: data_field where [data_field_defs]: "DATA_UBX_NAV_TIMEUTC_DAY = 3153"
definition DATA_UBX_NAV_TIMEUTC_HOUR :: data_field where [data_field_defs]: "DATA_UBX_NAV_TIMEUTC_HOUR = 3154"
definition DATA_UBX_NAV_TIMEUTC_MIN :: data_field where [data_field_defs]: "DATA_UBX_NAV_TIMEUTC_MIN = 3155"
definition DATA_UBX_NAV_TIMEUTC_SEC :: data_field where [data_field_defs]: "DATA_UBX_NAV_TIMEUTC_SEC = 3156"
definition DATA_UBX_NAV_TIMEUTC_VALID :: data_field where [data_field_defs]: "DATA_UBX_NAV_TIMEUTC_VALID = 3157"

text \<open>UBX-NAV-CLOCK\<close>

definition DATA_UBX_NAV_CLOCK_ITOW :: data_field where [data_field_defs]: "DATA_UBX_NAV_CLOCK_ITOW = 3158"
definition DATA_UBX_NAV_CLOCK_CLKB :: data_field where [data_field_defs]: "DATA_UBX_NAV_CLOCK_CLKB = 3159"
definition DATA_UBX_NAV_CLOCK_CLKD :: data_field where [data_field_defs]: "DATA_UBX_NAV_CLOCK_CLKD = 3160"
definition DATA_UBX_NAV_CLOCK_T_ACC :: data_field where [data_field_defs]: "DATA_UBX_NAV_CLOCK_T_ACC = 3161"
definition DATA_UBX_NAV_CLOCK_F_ACC :: data_field where [data_field_defs]: "DATA_UBX_NAV_CLOCK_F_ACC = 3162"

text \<open>UBX-NAV-ATT\<close>

definition DATA_UBX_NAV_ATT_ITOW :: data_field where [data_field_defs]: "DATA_UBX_NAV_ATT_ITOW = 3163"
definition DATA_UBX_NAV_ATT_VERSION :: data_field where [data_field_defs]: "DATA_UBX_NAV_ATT_VERSION = 3164"
definition DATA_UBX_NAV_ATT_ROLL :: data_field where [data_field_defs]: "DATA_UBX_NAV_ATT_ROLL = 3165"
definition DATA_UBX_NAV_ATT_PITCH :: data_field where [data_field_defs]: "DATA_UBX_NAV_ATT_PITCH = 3166"
definition DATA_UBX_NAV_ATT_HEADING :: data_field where [data_field_defs]: "DATA_UBX_NAV_ATT_HEADING = 3167"
definition DATA_UBX_NAV_ATT_ACC_ROLL :: data_field where [data_field_defs]: "DATA_UBX_NAV_ATT_ACC_ROLL = 3168"
definition DATA_UBX_NAV_ATT_ACC_PITCH :: data_field where [data_field_defs]: "DATA_UBX_NAV_ATT_ACC_PITCH = 3169"
definition DATA_UBX_NAV_ATT_ACC_HEADING :: data_field where [data_field_defs]: "DATA_UBX_NAV_ATT_ACC_HEADING = 3170"

text \<open>UBX-RXM-MEASX\<close>

definition DATA_UBX_RXM_MEASX_GPS_TOW :: data_field where [data_field_defs]: "DATA_UBX_RXM_MEASX_GPS_TOW = 3171"
definition DATA_UBX_RXM_MEASX_GLO_TOW :: data_field where [data_field_defs]: "DATA_UBX_RXM_MEASX_GLO_TOW = 3172"
definition DATA_UBX_RXM_MEASX_BDS_TOW :: data_field where [data_field_defs]: "DATA_UBX_RXM_MEASX_BDS_TOW = 3173"
definition DATA_UBX_RXM_MEASX_QZS_TOW :: data_field where [data_field_defs]: "DATA_UBX_RXM_MEASX_QZS_TOW = 3174"
definition DATA_UBX_RXM_MEASX_GPS_TOW_ACC :: data_field where [data_field_defs]: "DATA_UBX_RXM_MEASX_GPS_TOW_ACC = 3175"
definition DATA_UBX_RXM_MEASX_GLO_TOW_ACC :: data_field where [data_field_defs]: "DATA_UBX_RXM_MEASX_GLO_TOW_ACC = 3176"
definition DATA_UBX_RXM_MEASX_BDS_TOW_ACC :: data_field where [data_field_defs]: "DATA_UBX_RXM_MEASX_BDS_TOW_ACC = 3177"
definition DATA_UBX_RXM_MEASX_QZS_TOW_ACC :: data_field where [data_field_defs]: "DATA_UBX_RXM_MEASX_QZS_TOW_ACC = 3178"
definition DATA_UBX_RXM_MEASX_NUM_SV :: data_field where [data_field_defs]: "DATA_UBX_RXM_MEASX_NUM_SV = 3179"
definition DATA_UBX_RXM_MEASX_FLAGS :: data_field where [data_field_defs]: "DATA_UBX_RXM_MEASX_FLAGS = 3180"
definition DATA_UBX_RXM_MEASX_GNSS_ID :: data_field where [data_field_defs]: "DATA_UBX_RXM_MEASX_GNSS_ID = 3181"
definition DATA_UBX_RXM_MEASX_GNSS_ID_X :: data_field where [data_field_defs]: "DATA_UBX_RXM_MEASX_GNSS_ID_X = 3245"
definition DATA_UBX_RXM_MEASX_SV_ID :: data_field where [data_field_defs]: "DATA_UBX_RXM_MEASX_SV_ID = 3246"
definition DATA_UBX_RXM_MEASX_SV_ID_X :: data_field where [data_field_defs]: "DATA_UBX_RXM_MEASX_SV_ID_X = 3310"
definition DATA_UBX_RXM_MEASX_CN0 :: data_field where [data_field_defs]: "DATA_UBX_RXM_MEASX_CN0 = 3311"
definition DATA_UBX_RXM_MEASX_CN0_X :: data_field where [data_field_defs]: "DATA_UBX_RXM_MEASX_CN0_X = 3375"
definition DATA_UBX_RXM_MEASX_MPH :: data_field where [data_field_defs]: "DATA_UBX_RXM_MEASX_MPH = 3376"
definition DATA_UBX_RXM_MEASX_MPH_X :: data_field where [data_field_defs]: "DATA_UBX_RXM_MEASX_MPH_X = 3440"
definition DATA_UBX_RXM_MEASX_DOPPLER :: data_field where [data_field_defs]: "DATA_UBX_RXM_MEASX_DOPPLER = 3441"
definition DATA_UBX_RXM_MEASX_DOPPLER_X :: data_field where [data_field_defs]: "DATA_UBX_RXM_MEASX_DOPPLER_X = 3505"
definition DATA_UBX_RXM_MEASX_WHOLE_CHIPS :: data_field where [data_field_defs]: "DATA_UBX_RXM_MEASX_WHOLE_CHIPS = 3506"
definition DATA_UBX_RXM_MEASX_WHOLE_CHIPS_X :: data_field where [data_field_defs]: "DATA_UBX_RXM_MEASX_WHOLE_CHIPS_X = 3570"
definition DATA_UBX_RXM_MEASX_FRAC_CHIPS :: data_field where [data_field_defs]: "DATA_UBX_RXM_MEASX_FRAC_CHIPS = 3571"
definition DATA_UBX_RXM_MEASX_FRAC_CHIPS_X :: data_field where [data_field_defs]: "DATA_UBX_RXM_MEASX_FRAC_CHIPS_X = 3635"
definition DATA_UBX_RXM_MEASX_CODE_PHASE :: data_field where [data_field_defs]: "DATA_UBX_RXM_MEASX_CODE_PHASE = 3636"
definition DATA_UBX_RXM_MEASX_CODE_PHASE_X :: data_field where [data_field_defs]: "DATA_UBX_RXM_MEASX_CODE_PHASE_X = 3700"
definition DATA_UBX_RXM_MEASX_INT_CODE_PHASE :: data_field where [data_field_defs]: "DATA_UBX_RXM_MEASX_INT_CODE_PHASE = 3701"
definition DATA_UBX_RXM_MEASX_INT_CODE_PHASE_X :: data_field where [data_field_defs]: "DATA_UBX_RXM_MEASX_INT_CODE_PHASE_X = 3765"
definition DATA_UBX_RXM_MEASX_PSEU_RANGE_RMS_ERR :: data_field where [data_field_defs]: "DATA_UBX_RXM_MEASX_PSEU_RANGE_RMS_ERR = 3766"
definition DATA_UBX_RXM_MEASX_PSEU_RANGE_RMS_ERR_X :: data_field where [data_field_defs]: "DATA_UBX_RXM_MEASX_PSEU_RANGE_RMS_ERR_X = 3830"

text \<open>UBX-MON-IO\<close>

definition DATA_UBX_MON_IO_NUM_PORTS :: data_field where [data_field_defs]: "DATA_UBX_MON_IO_NUM_PORTS = 3831"
definition DATA_UBX_MON_IO_RX_BYTES :: data_field where [data_field_defs]: "DATA_UBX_MON_IO_RX_BYTES = 3832"
definition DATA_UBX_MON_IO_RX_BYTES_X :: data_field where [data_field_defs]: "DATA_UBX_MON_IO_RX_BYTES_X = 3840"
definition DATA_UBX_MON_IO_TX_BYTES :: data_field where [data_field_defs]: "DATA_UBX_MON_IO_TX_BYTES = 3841"
definition DATA_UBX_MON_IO_TX_BYTES_X :: data_field where [data_field_defs]: "DATA_UBX_MON_IO_TX_BYTES_X = 3849"
definition DATA_UBX_MON_IO_PARITY_ERRS :: data_field where [data_field_defs]: "DATA_UBX_MON_IO_PARITY_ERRS = 3850"
definition DATA_UBX_MON_IO_PARITY_ERRS_X :: data_field where [data_field_defs]: "DATA_UBX_MON_IO_PARITY_ERRS_X = 3858"
definition DATA_UBX_MON_IO_FRAMING_ERRS :: data_field where [data_field_defs]: "DATA_UBX_MON_IO_FRAMING_ERRS = 3859"
definition DATA_UBX_MON_IO_FRAMING_ERRS_X :: data_field where [data_field_defs]: "DATA_UBX_MON_IO_FRAMING_ERRS_X = 3867"
definition DATA_UBX_MON_IO_OVERRUN_ERRS :: data_field where [data_field_defs]: "DATA_UBX_MON_IO_OVERRUN_ERRS = 3868"
definition DATA_UBX_MON_IO_OVERRUN_ERRS_X :: data_field where [data_field_defs]: "DATA_UBX_MON_IO_OVERRUN_ERRS_X = 3876"
definition DATA_UBX_MON_IO_BREAK_COND :: data_field where [data_field_defs]: "DATA_UBX_MON_IO_BREAK_COND = 3877"
definition DATA_UBX_MON_IO_BREAK_COND_X :: data_field where [data_field_defs]: "DATA_UBX_MON_IO_BREAK_COND_X = 3885"
definition DATA_UBX_MON_IO_RX_BUSY :: data_field where [data_field_defs]: "DATA_UBX_MON_IO_RX_BUSY = 3886"
definition DATA_UBX_MON_IO_RX_BUSY_X :: data_field where [data_field_defs]: "DATA_UBX_MON_IO_RX_BUSY_X = 3894"
definition DATA_UBX_MON_IO_TX_BUSY :: data_field where [data_field_defs]: "DATA_UBX_MON_IO_TX_BUSY = 3895"
definition DATA_UBX_MON_IO_TX_BUSY_X :: data_field where [data_field_defs]: "DATA_UBX_MON_IO_TX_BUSY_X = 3903"

text \<open>UBX-MON-TXBUF\<close>

definition DATA_UBX_MON_TXBUF_ERRORS :: data_field where [data_field_defs]: "DATA_UBX_MON_TXBUF_ERRORS = 3904"
definition DATA_UBX_MON_TXBUF_LIMIT :: data_field where [data_field_defs]: "DATA_UBX_MON_TXBUF_LIMIT = 3905"
definition DATA_UBX_MON_TXBUF_AVAIL_0 :: data_field where [data_field_defs]: "DATA_UBX_MON_TXBUF_AVAIL_0 = 3906"
definition DATA_UBX_MON_TXBUF_AVAIL_1 :: data_field where [data_field_defs]: "DATA_UBX_MON_TXBUF_AVAIL_1 = 3907"
definition DATA_UBX_MON_TXBUF_AVAIL_2 :: data_field where [data_field_defs]: "DATA_UBX_MON_TXBUF_AVAIL_2 = 3908"
definition DATA_UBX_MON_TXBUF_AVAIL_3 :: data_field where [data_field_defs]: "DATA_UBX_MON_TXBUF_AVAIL_3 = 3909"
definition DATA_UBX_MON_TXBUF_AVAIL_4 :: data_field where [data_field_defs]: "DATA_UBX_MON_TXBUF_AVAIL_4 = 3910"
definition DATA_UBX_MON_TXBUF_AVAIL_5 :: data_field where [data_field_defs]: "DATA_UBX_MON_TXBUF_AVAIL_5 = 3911"
definition DATA_UBX_MON_TXBUF_PENDING_0 :: data_field where [data_field_defs]: "DATA_UBX_MON_TXBUF_PENDING_0 = 3912"
definition DATA_UBX_MON_TXBUF_PENDING_1 :: data_field where [data_field_defs]: "DATA_UBX_MON_TXBUF_PENDING_1 = 3913"
definition DATA_UBX_MON_TXBUF_PENDING_2 :: data_field where [data_field_defs]: "DATA_UBX_MON_TXBUF_PENDING_2 = 3914"
definition DATA_UBX_MON_TXBUF_PENDING_3 :: data_field where [data_field_defs]: "DATA_UBX_MON_TXBUF_PENDING_3 = 3915"
definition DATA_UBX_MON_TXBUF_PENDING_4 :: data_field where [data_field_defs]: "DATA_UBX_MON_TXBUF_PENDING_4 = 3916"
definition DATA_UBX_MON_TXBUF_PENDING_5 :: data_field where [data_field_defs]: "DATA_UBX_MON_TXBUF_PENDING_5 = 3917"
definition DATA_UBX_MON_TXBUF_USAGE_0 :: data_field where [data_field_defs]: "DATA_UBX_MON_TXBUF_USAGE_0 = 3918"
definition DATA_UBX_MON_TXBUF_USAGE_1 :: data_field where [data_field_defs]: "DATA_UBX_MON_TXBUF_USAGE_1 = 3919"
definition DATA_UBX_MON_TXBUF_USAGE_2 :: data_field where [data_field_defs]: "DATA_UBX_MON_TXBUF_USAGE_2 = 3920"
definition DATA_UBX_MON_TXBUF_USAGE_3 :: data_field where [data_field_defs]: "DATA_UBX_MON_TXBUF_USAGE_3 = 3921"
definition DATA_UBX_MON_TXBUF_USAGE_4 :: data_field where [data_field_defs]: "DATA_UBX_MON_TXBUF_USAGE_4 = 3922"
definition DATA_UBX_MON_TXBUF_USAGE_5 :: data_field where [data_field_defs]: "DATA_UBX_MON_TXBUF_USAGE_5 = 3923"
definition DATA_UBX_MON_TXBUF_PEAK_USAGE_0 :: data_field where [data_field_defs]: "DATA_UBX_MON_TXBUF_PEAK_USAGE_0 = 3924"
definition DATA_UBX_MON_TXBUF_PEAK_USAGE_1 :: data_field where [data_field_defs]: "DATA_UBX_MON_TXBUF_PEAK_USAGE_1 = 3925"
definition DATA_UBX_MON_TXBUF_PEAK_USAGE_2 :: data_field where [data_field_defs]: "DATA_UBX_MON_TXBUF_PEAK_USAGE_2 = 3926"
definition DATA_UBX_MON_TXBUF_PEAK_USAGE_3 :: data_field where [data_field_defs]: "DATA_UBX_MON_TXBUF_PEAK_USAGE_3 = 3927"
definition DATA_UBX_MON_TXBUF_PEAK_USAGE_4 :: data_field where [data_field_defs]: "DATA_UBX_MON_TXBUF_PEAK_USAGE_4 = 3928"
definition DATA_UBX_MON_TXBUF_PEAK_USAGE_5 :: data_field where [data_field_defs]: "DATA_UBX_MON_TXBUF_PEAK_USAGE_5 = 3929"
definition DATA_UBX_MON_TXBUF_TUSED :: data_field where [data_field_defs]: "DATA_UBX_MON_TXBUF_TUSED = 3930"
definition DATA_UBX_MON_TXBUF_TPEAK :: data_field where [data_field_defs]: "DATA_UBX_MON_TXBUF_TPEAK = 3931"

text \<open>UBX-MON-SPAN\<close>

definition DATA_UBX_MON_SPAN_NUM_RF_BLOCKS :: data_field where [data_field_defs]: "DATA_UBX_MON_SPAN_NUM_RF_BLOCKS = 3932"
definition DATA_UBX_MON_SPAN_PGA :: data_field where [data_field_defs]: "DATA_UBX_MON_SPAN_PGA = 3933"
definition DATA_UBX_MON_SPAN_PGA_X :: data_field where [data_field_defs]: "DATA_UBX_MON_SPAN_PGA_X = 3937"

text \<open>UBX-SEC-SIG\<close>

definition DATA_UBX_SEC_SIG_VERSION :: data_field where [data_field_defs]: "DATA_UBX_SEC_SIG_VERSION = 3938"
definition DATA_UBX_SEC_SIG_JAM_FLAGS :: data_field where [data_field_defs]: "DATA_UBX_SEC_SIG_JAM_FLAGS = 3939"
definition DATA_UBX_SEC_SIG_JAM_DET_ENABLED :: data_field where [data_field_defs]: "DATA_UBX_SEC_SIG_JAM_DET_ENABLED = 3940"
definition DATA_UBX_SEC_SIG_JAMMING_STATE :: data_field where [data_field_defs]: "DATA_UBX_SEC_SIG_JAMMING_STATE = 3941"
definition DATA_UBX_SEC_SIG_SPF_FLAGS :: data_field where [data_field_defs]: "DATA_UBX_SEC_SIG_SPF_FLAGS = 3942"
definition DATA_UBX_SEC_SIG_SPF_DET_ENABLED :: data_field where [data_field_defs]: "DATA_UBX_SEC_SIG_SPF_DET_ENABLED = 3943"
definition DATA_UBX_SEC_SIG_SPOOFING_STATE :: data_field where [data_field_defs]: "DATA_UBX_SEC_SIG_SPOOFING_STATE = 3944"

text \<open>sentinel / calculated fields\<close>

definition DATA_PARSE :: data_field where [data_field_defs]: "DATA_PARSE = 3945"
definition DATA_PARSE_X :: data_field where [data_field_defs]: "DATA_PARSE_X = 3944"
definition DATA_NUM :: data_field where [data_field_defs]: "DATA_NUM = 3945"

text \<open>The enumerators that the source computes.\<close>

lemma data_field_computed:
  "DATA_UBX_MON_RF_BLOCK_ID_X = MAX_MON_RF_BLOCK + DATA_UBX_MON_RF_BLOCK_ID"
  "DATA_UBX_MON_RF_AGCCNT_X = MAX_MON_RF_BLOCK + DATA_UBX_MON_RF_AGCCNT"
  "DATA_UBX_MON_RF_NOISEPERMS_X = MAX_MON_RF_BLOCK + DATA_UBX_MON_RF_NOISEPERMS"
  "DATA_UBX_MON_RF_JAMIND_X = MAX_MON_RF_BLOCK + DATA_UBX_MON_RF_JAMIND"
  "DATA_SATELLITES_IN_VIEW_GNSSID_X = MAX_SATELLITES_IN_VIEW + DATA_SATELLITES_IN_VIEW_GNSSID"
  "DATA_SATELLITES_IN_VIEW_SVID_X = MAX_SATELLITES_IN_VIEW + DATA_SATELLITES_IN_VIEW_SVID"
  "DATA_SATELLITES_IN_VIEW_AZIMUTH_X = MAX_SATELLITES_IN_VIEW + DATA_SATELLITES_IN_VIEW_AZIMUTH"
  "DATA_SATELLITES_IN_VIEW_ELEVATION_X = MAX_SATELLITES_IN_VIEW + DATA_SATELLITES_IN_VIEW_ELEVATION"
  "DATA_SATELLITES_IN_VIEW_CN0_RATIO_X = MAX_SATELLITES_IN_VIEW + DATA_SATELLITES_IN_VIEW_CN0_RATIO"
  "DATA_SATELLITES_IN_VIEW_ALMANAC_X = MAX_SATELLITES_IN_VIEW + DATA_SATELLITES_IN_VIEW_ALMANAC"
  "DATA_SATELLITES_IN_VIEW_EPHEMERIS_X = MAX_SATELLITES_IN_VIEW + DATA_SATELLITES_IN_VIEW_EPHEMERIS"
  "DATA_SATELLITES_IN_VIEW_HEALTH_X = MAX_SATELLITES_IN_VIEW + DATA_SATELLITES_IN_VIEW_HEALTH"
  "DATA_SATELLITES_IN_VIEW_USED_X = MAX_SATELLITES_IN_VIEW + DATA_SATELLITES_IN_VIEW_USED"
  "DATA_SATELLITES_IN_VIEW_DIFF_CORR_X = MAX_SATELLITES_IN_VIEW + DATA_SATELLITES_IN_VIEW_DIFF_CORR"
  "DATA_SATELLITES_IN_VIEW_SBAS_USED_X = MAX_SATELLITES_IN_VIEW + DATA_SATELLITES_IN_VIEW_SBAS_USED"
  "DATA_SATELLITES_IN_VIEW_RTCM_USED_X = MAX_SATELLITES_IN_VIEW + DATA_SATELLITES_IN_VIEW_RTCM_USED"
  "DATA_SATELLITES_IN_VIEW_L1_SIG_ID_X = MAX_SATELLITES_IN_VIEW + DATA_SATELLITES_IN_VIEW_L1_SIG_ID"
  "DATA_SATELLITES_IN_VIEW_L1_CN0_X = MAX_SATELLITES_IN_VIEW + DATA_SATELLITES_IN_VIEW_L1_CN0"
  "DATA_SATELLITES_IN_VIEW_L5_SIG_ID_X = MAX_SATELLITES_IN_VIEW + DATA_SATELLITES_IN_VIEW_L5_SIG_ID"
  "DATA_SATELLITES_IN_VIEW_L5_CN0_X = MAX_SATELLITES_IN_VIEW + DATA_SATELLITES_IN_VIEW_L5_CN0"
  "DATA_UBX_ESF_STATUS_SENS_TYPE_X = MAX_ESF_SENSORS + DATA_UBX_ESF_STATUS_SENS_TYPE"
  "DATA_UBX_ESF_STATUS_SENS_USED_X = MAX_ESF_SENSORS + DATA_UBX_ESF_STATUS_SENS_USED"
  "DATA_UBX_ESF_STATUS_SENS_READY_X = MAX_ESF_SENSORS + DATA_UBX_ESF_STATUS_SENS_READY"
  "DATA_UBX_ESF_STATUS_SENS_CALIB_X = MAX_ESF_SENSORS + DATA_UBX_ESF_STATUS_SENS_CALIB"
  "DATA_UBX_ESF_STATUS_SENS_TIME_STATUS_X = MAX_ESF_SENSORS + DATA_UBX_ESF_STATUS_SENS_TIME_STATUS"
  "DATA_UBX_ESF_STATUS_SENS_FREQ_X = MAX_ESF_SENSORS + DATA_UBX_ESF_STATUS_SENS_FREQ"
  "DATA_UBX_ESF_STATUS_SENS_FAULTS_X = MAX_ESF_SENSORS + DATA_UBX_ESF_STATUS_SENS_FAULTS"
  "DATA_UBX_ESF_MEAS_DATA_TYPE_X = MAX_ESF_MEAS_DATA + DATA_UBX_ESF_MEAS_DATA_TYPE"
  "DATA_UBX_ESF_MEAS_DATA_VALUE_X = MAX_ESF_MEAS_DATA + DATA_UBX_ESF_MEAS_DATA_VALUE"
  "DATA_UBX_NAV_SIG_GNSSID_X = MAX_ALL_GNSS_SIGNALS + DATA_UBX_NAV_SIG_GNSSID"
  "DATA_UBX_NAV_SIG_SVID_X = MAX_ALL_GNSS_SIGNALS + DATA_UBX_NAV_SIG_SVID"
  "DATA_UBX_NAV_SIG_SIGID_X = MAX_ALL_GNSS_SIGNALS + DATA_UBX_NAV_SIG_SIGID"
  "DATA_UBX_NAV_SIG_FREQID_X = MAX_ALL_GNSS_SIGNALS + DATA_UBX_NAV_SIG_FREQID"
  "DATA_UBX_NAV_SIG_PR_RES_X = MAX_ALL_GNSS_SIGNALS + DATA_UBX_NAV_SIG_PR_RES"
  "DATA_UBX_NAV_SIG_CNO_X = MAX_ALL_GNSS_SIGNALS + DATA_UBX_NAV_SIG_CNO"
  "DATA_UBX_NAV_SIG_QUAL_IND_X = MAX_ALL_GNSS_SIGNALS + DATA_UBX_NAV_SIG_QUAL_IND"
  "DATA_UBX_NAV_SIG_CORR_SOURCE_X = MAX_ALL_GNSS_SIGNALS + DATA_UBX_NAV_SIG_CORR_SOURCE"
  "DATA_UBX_NAV_SIG_IONO_MODEL_X = MAX_ALL_GNSS_SIGNALS + DATA_UBX_NAV_SIG_IONO_MODEL"
  "DATA_UBX_NAV_SIG_HEALTH_X = MAX_ALL_GNSS_SIGNALS + DATA_UBX_NAV_SIG_HEALTH"
  "DATA_UBX_NAV_SIG_PR_USED_X = MAX_ALL_GNSS_SIGNALS + DATA_UBX_NAV_SIG_PR_USED"
  "DATA_UBX_NAV_SIG_CR_USED_X = MAX_ALL_GNSS_SIGNALS + DATA_UBX_NAV_SIG_CR_USED"
  "DATA_UBX_NAV_SIG_DO_USED_X = MAX_ALL_GNSS_SIGNALS + DATA_UBX_NAV_SIG_DO_USED"
  "DATA_UBX_RXM_MEASX_GNSS_ID_X = MAX_RXM_MEASX_MEAS + DATA_UBX_RXM_MEASX_GNSS_ID"
  "DATA_UBX_RXM_MEASX_SV_ID_X = MAX_RXM_MEASX_MEAS + DATA_UBX_RXM_MEASX_SV_ID"
  "DATA_UBX_RXM_MEASX_CN0_X = MAX_RXM_MEASX_MEAS + DATA_UBX_RXM_MEASX_CN0"
  "DATA_UBX_RXM_MEASX_MPH_X = MAX_RXM_MEASX_MEAS + DATA_UBX_RXM_MEASX_MPH"
  "DATA_UBX_RXM_MEASX_DOPPLER_X = MAX_RXM_MEASX_MEAS + DATA_UBX_RXM_MEASX_DOPPLER"
  "DATA_UBX_RXM_MEASX_WHOLE_CHIPS_X = MAX_RXM_MEASX_MEAS + DATA_UBX_RXM_MEASX_WHOLE_CHIPS"
  "DATA_UBX_RXM_MEASX_FRAC_CHIPS_X = MAX_RXM_MEASX_MEAS + DATA_UBX_RXM_MEASX_FRAC_CHIPS"
  "DATA_UBX_RXM_MEASX_CODE_PHASE_X = MAX_RXM_MEASX_MEAS + DATA_UBX_RXM_MEASX_CODE_PHASE"
  "DATA_UBX_RXM_MEASX_INT_CODE_PHASE_X = MAX_RXM_MEASX_MEAS + DATA_UBX_RXM_MEASX_INT_CODE_PHASE"
  "DATA_UBX_RXM_MEASX_PSEU_RANGE_RMS_ERR_X = MAX_RXM_MEASX_MEAS + DATA_UBX_RXM_MEASX_PSEU_RANGE_RMS_ERR"
  "DATA_UBX_MON_IO_RX_BYTES_X = MAX_MON_IO_PORTS + DATA_UBX_MON_IO_RX_BYTES"
  "DATA_UBX_MON_IO_TX_BYTES_X = MAX_MON_IO_PORTS + DATA_UBX_MON_IO_TX_BYTES"
  "DATA_UBX_MON_IO_PARITY_ERRS_X = MAX_MON_IO_PORTS + DATA_UBX_MON_IO_PARITY_ERRS"
  "DATA_UBX_MON_IO_FRAMING_ERRS_X = MAX_MON_IO_PORTS + DATA_UBX_MON_IO_FRAMING_ERRS"
  "DATA_UBX_MON_IO_OVERRUN_ERRS_X = MAX_MON_IO_PORTS + DATA_UBX_MON_IO_OVERRUN_ERRS"
  "DATA_UBX_MON_IO_BREAK_COND_X = MAX_MON_IO_PORTS + DATA_UBX_MON_IO_BREAK_COND"
  "DATA_UBX_MON_IO_RX_BUSY_X = MAX_MON_IO_PORTS + DATA_UBX_MON_IO_RX_BUSY"
  "DATA_UBX_MON_IO_TX_BUSY_X = MAX_MON_IO_PORTS + DATA_UBX_MON_IO_TX_BUSY"
  "DATA_UBX_MON_SPAN_PGA_X = MAX_MON_SPAN_RF_BLOCKS + DATA_UBX_MON_SPAN_PGA"
  "DATA_PARSE_X = DATA_PARSE - 1"
  by (simp_all add: data_field_defs)

section \<open>Message types\<close>

definition MSG_UNKNOWN :: msg_type where [msg_type_defs]: "MSG_UNKNOWN = 0"
definition MSG_NMEA_GBS :: msg_type where [msg_type_defs]: "MSG_NMEA_GBS = 1"
definition MSG_NMEA_GGA :: msg_type where [msg_type_defs]: "MSG_NMEA_GGA = 2"
definition MSG_NMEA_GLL :: msg_type where [msg_type_defs]: "MSG_NMEA_GLL = 3"
definition MSG_NMEA_GNS :: msg_type where [msg_type_defs]: "MSG_NMEA_GNS = 4"
definition MSG_NMEA_GRS :: msg_type where [msg_type_defs]: "MSG_NMEA_GRS = 5"
definition MSG_NMEA_GSA :: msg_type where [msg_type_defs]: "MSG_NMEA_GSA = 6"
definition MSG_NMEA_GST :: msg_type where [msg_type_defs]: "MSG_NMEA_GST = 7"
definition MSG_NMEA_GSV :: msg_type where [msg_type_defs]: "MSG_NMEA_GSV = 8"
definition MSG_NMEA_RMC :: msg_type where [msg_type_defs]: "MSG_NMEA_RMC = 9"
definition MSG_NMEA_VTG :: msg_type where [msg_type_defs]: "MSG_NMEA_VTG = 10"
definition MSG_NMEA_ZDA :: msg_type where [msg_type_defs]: "MSG_NMEA_ZDA = 11"
definition MSG_UBX_NAV_PVT :: msg_type where [msg_type_defs]: "MSG_UBX_NAV_PVT = 12"
definition MSG_UBX_NAV_PVAT :: msg_type where [msg_type_defs]: "MSG_UBX_NAV_PVAT = 13"
definition MSG_UBX_NAV_DOP :: msg_type where [msg_type_defs]: "MSG_UBX_NAV_DOP = 14"
definition MSG_UBX_NAV_EELL :: msg_type where [msg_type_defs]: "MSG_UBX_NAV_EELL = 15"
definition MSG_UBX_NAV_TIMEGPS :: msg_type where [msg_type_defs]: "MSG_UBX_NAV_TIMEGPS = 16"
definition MSG_UBX_NAV_EOE :: msg_type where [msg_type_defs]: "MSG_UBX_NAV_EOE = 17"
definition MSG_UBX_NAV_ODO :: msg_type where [msg_type_defs]: "MSG_UBX_NAV_ODO = 18"
definition MSG_UBX_NAV2_PVT :: msg_type where [msg_type_defs]: "MSG_UBX_NAV2_PVT = 19"
definition MSG_UBX_NAV2_DOP :: msg_type where [msg_type_defs]: "MSG_UBX_NAV2_DOP = 20"
definition MSG_UBX_NAV2_EELL :: msg_type where [msg_type_defs]: "MSG_UBX_NAV2_EELL = 21"
definition MSG_UBX_NAV2_TIMEGPS :: msg_type where [msg_type_defs]: "MSG_UBX_NAV2_TIMEGPS = 22"
definition MSG_UBX_NAV2_EOE :: msg_type where [msg_type_defs]: "MSG_UBX_NAV2_EOE = 23"
definition MSG_UBX_ESF_INS :: msg_type where [msg_type_defs]: "MSG_UBX_ESF_INS = 24"
definition MSG_UBX_ESF_MEAS :: msg_type where [msg_type_defs]: "MSG_UBX_ESF_MEAS = 25"
definition MSG_UBX_ESF_STATUS :: msg_type where [msg_type_defs]: "MSG_UBX_ESF_STATUS = 26"
definition MSG_UBX_TIM_TP :: msg_type where [msg_type_defs]: "MSG_UBX_TIM_TP = 27"
definition MSG_UBX_NAV_SAT :: msg_type where [msg_type_defs]: "MSG_UBX_NAV_SAT = 28"
definition MSG_UBX_NAV_SIG :: msg_type where [msg_type_defs]: "MSG_UBX_NAV_SIG = 29"
definition MSG_UBX_SEC_CRC :: msg_type where [msg_type_defs]: "MSG_UBX_SEC_CRC = 30"
definition MSG_UBX_SEC_SIG :: msg_type where [msg_type_defs]: "MSG_UBX_SEC_SIG = 31"
definition MSG_UBX_NAV_STATUS :: msg_type where [msg_type_defs]: "MSG_UBX_NAV_STATUS = 32"
definition MSG_UBX_RXM_MEAS :: msg_type where [msg_type_defs]: "MSG_UBX_RXM_MEAS = 33"
definition MSG_UBX_MON_RF :: msg_type where [msg_type_defs]: "MSG_UBX_MON_RF = 34"
definition MSG_UBX_MON_VER :: msg_type where [msg_type_defs]: "MSG_UBX_MON_VER = 35"
definition MSG_UBX_INF_ERR :: msg_type where [msg_type_defs]: "MSG_UBX_INF_ERR = 36"
definition MSG_UBX_INF_DBG :: msg_type where [msg_type_defs]: "MSG_UBX_INF_DBG = 37"
definition MSG_UBX_ACK_ACK :: msg_type where [msg_type_defs]: "MSG_UBX_ACK_ACK = 38"
definition MSG_UBX_ACK_NAK :: msg_type where [msg_type_defs]: "MSG_UBX_ACK_NAK = 39"
definition MSG_UBX_CFG_VALGET :: msg_type where [msg_type_defs]: "MSG_UBX_CFG_VALGET = 40"
definition MSG_UBX_CFG_VALSET :: msg_type where [msg_type_defs]: "MSG_UBX_CFG_VALSET = 41"
definition MSG_UBX_NAV_TIMEUTC :: msg_type where [msg_type_defs]: "MSG_UBX_NAV_TIMEUTC = 42"
definition MSG_UBX_NAV_CLOCK :: msg_type where [msg_type_defs]: "MSG_UBX_NAV_CLOCK = 43"
definition MSG_UBX_NAV_ATT :: msg_type where [msg_type_defs]: "MSG_UBX_NAV_ATT = 44"
definition MSG_UBX_RXM_MEASX :: msg_type where [msg_type_defs]: "MSG_UBX_RXM_MEASX = 45"
definition MSG_UBX_MON_IO :: msg_type where [msg_type_defs]: "MSG_UBX_MON_IO = 46"
definition MSG_UBX_MON_TXBUF :: msg_type where [msg_type_defs]: "MSG_UBX_MON_TXBUF = 47"
definition MSG_UBX_MON_SPAN :: msg_type where [msg_type_defs]: "MSG_UBX_MON_SPAN = 48"
definition MSG_NUM :: msg_type where [msg_type_defs]: "MSG_NUM = 49"

section \<open>Offsets into array fields\<close>

definition db_index_with_offset :: "data_field \<Rightarrow> u8 \<Rightarrow> data_field" where
  "db_index_with_offset base off =
     (let idx = (base + unat off) mod 2 ^ 16 in if idx < DATA_PARSE then idx else DATA_PARSE)"

lemma db_index_inside:
  "base + n < DATA_PARSE \<Longrightarrow> n < 256 \<Longrightarrow> db_index_with_offset base (of_nat n) = base + n"
  by (simp add: db_index_with_offset_def DATA_PARSE_def unat_of_nat)

end
