(* ===== verification/Ieee_Round.thy ===== *)
theory Ieee_Round
  imports Gnss_Prelude Complex_Main
begin

text \<open>
  The floating-point arithmetic of the database and of the shared buffers: \<open>float\<close> and \<open>double\<close>
  values as the rationals they denote, every operation rounded to the nearest value of 24 or 53
  significant bits, ties to even. The program only converts integers of at most 64 bits, decimal
  literals between \<open>2e-12\<close> and \<open>1e3\<close> and products of the two, so no value leaves the normal range:
  infinities, NaN, subnormals and the sign of zero do not arise, and an unbounded exponent gives
  the result of the hardware.
\<close>

section \<open>Rounding\<close>

fun ilog2 :: "nat \<Rightarrow> nat" where
  "ilog2 n = (if n < 2 then 0 else Suc (ilog2 (n div 2)))"

declare ilog2.simps [simp del]

text \<open>The binary exponent: the \<open>k\<close> with \<open>2\<^sup>k \<le> \<bar>x\<bar> < 2\<^sup>k\<^sup>+\<^sup>1\<close>.\<close>

definition binade :: "rat \<Rightarrow> int" where
  "binade x =
     (case quotient_of \<bar>x\<bar> of (a, b) \<Rightarrow>
        let k = int (ilog2 (nat a)) - int (ilog2 (nat b))
        in if 2 powi k \<le> \<bar>x\<bar> then k else k - 1)"

definition round_half_even :: "rat \<Rightarrow> int" where
  "round_half_even x =
     (let f = \<lfloor>x\<rfloor>; d = x - of_int f
      in if d < 1 / 2 then f else if 1 / 2 < d then f + 1 else if even f then f else f + 1)"

definition round_prec :: "nat \<Rightarrow> rat \<Rightarrow> rat" where
  "round_prec p x =
     (if x = 0 then 0
      else let e = binade x - int p + 1
        in of_int (round_half_even (x / 2 powi e)) * 2 powi e)"

section \<open>Double and float\<close>

definition to_double :: "int \<Rightarrow> rat" where
  "to_double n = round_prec 53 (of_int n)"

definition to_float :: "int \<Rightarrow> rat" where
  "to_float n = round_prec 24 (of_int n)"

definition dlit :: "rat \<Rightarrow> rat" where
  "dlit x = round_prec 53 x"

definition flit :: "rat \<Rightarrow> rat" where
  "flit x = round_prec 24 x"

definition dmul :: "rat \<Rightarrow> rat \<Rightarrow> rat" where
  "dmul x y = round_prec 53 (x * y)"

definition fmul :: "rat \<Rightarrow> rat \<Rightarrow> rat" where
  "fmul x y = round_prec 24 (x * y)"

definition double_to_float :: "rat \<Rightarrow> rat" where
  "double_to_float x = round_prec 24 x"

definition float_to_double :: "rat \<Rightarrow> rat" where
  "float_to_double x = round_prec 53 x"

text \<open>
  Conversion to an integer type truncates towards zero. Outside the range of the type it is
  undefined in C++; the reduction modulo the type's width used here is then only one of the
  possible results.
\<close>

definition trunc :: "rat \<Rightarrow> int" where
  "trunc x = (if 0 \<le> x then \<lfloor>x\<rfloor> else - \<lfloor>- x\<rfloor>)"

definition to_word :: "rat \<Rightarrow> 'a::len word" where
  "to_word x = word_of_int (trunc x)"

definition to_bool :: "rat \<Rightarrow> bool" where
  "to_bool x \<longleftrightarrow> x \<noteq> 0"

section \<open>The exponent\<close>

lemma ilog2_bounds: "0 < n \<Longrightarrow> 2 ^ ilog2 n \<le> n \<and> n < 2 ^ Suc (ilog2 n)"
proof (induction n rule: ilog2.induct)
  case (1 n)
  show ?case
  proof (cases "n < 2")
    case True
    with "1.prems" show ?thesis by (simp add: ilog2.simps [of n])
  next
    case False
    then have "2 ^ ilog2 (n div 2) \<le> n div 2 \<and> n div 2 < 2 ^ Suc (ilog2 (n div 2))"
      using "1.IH" by simp
    with False show ?thesis by (subst (1 2) ilog2.simps) auto
  qed
qed

lemma powi_add2: "(2::rat) powi (a + b) = 2 powi a * 2 powi b"
  by (simp add: power_int_add)

lemma powi_Suc2: "(2::rat) powi (k + 1) = 2 * 2 powi k" "(2::rat) powi (k - 1) = 2 powi k / 2"
  by (simp_all add: power_int_add power_int_diff)

lemma powi_pos2 [simp]: "0 < (2::rat) powi k"
  by (simp add: zero_less_power_int)

lemma powi_less2: "(2::rat) powi a < 2 powi b \<longleftrightarrow> a < b"
  using power_int_strict_increasing [of a b "2::rat"] power_int_increasing [of b a "2::rat"]
  by (meson leD leI one_le_numeral one_less_numeral_iff semiring_norm(76))

lemma powi_le2: "(2::rat) powi a \<le> 2 powi b \<longleftrightarrow> a \<le> b"
  using powi_less2 [of b a] by (simp add: linorder_not_less [symmetric])

lemma binade_bounds:
  assumes "x \<noteq> 0"
  shows "2 powi binade x \<le> \<bar>x\<bar> \<and> \<bar>x\<bar> < 2 powi (binade x + 1)"
proof -
  obtain a b where q: "quotient_of \<bar>x\<bar> = (a, b)" by fastforce
  then have x: "\<bar>x\<bar> = of_int a / of_int b" and b: "0 < b"
    using quotient_of_div quotient_of_denom_pos by blast+
  moreover have "0 < \<bar>x\<bar>" using assms by simp
  ultimately have a: "0 < a" by (simp add: zero_less_divide_iff)
  let ?a = "ilog2 (nat a)" and ?b = "ilog2 (nat b)"
  let ?k = "int ?a - int ?b"
  have "2 ^ ?a \<le> nat a \<and> nat a < 2 ^ Suc ?a" "2 ^ ?b \<le> nat b \<and> nat b < 2 ^ Suc ?b"
    by (rule ilog2_bounds, use a b in simp)+
  then have ab: "2 ^ ?a \<le> a" "a < 2 ^ Suc ?a" "2 ^ ?b \<le> b" "b < 2 ^ Suc ?b"
    using a b by (auto simp add: le_nat_iff nat_less_iff simp del: power_Suc)
  then have r: "(2::rat) ^ ?a \<le> of_int a" "of_int a < (2::rat) ^ Suc ?a"
      "(2::rat) ^ ?b \<le> of_int b" "of_int b < (2::rat) ^ Suc ?b"
    by (metis of_int_le_iff of_int_less_iff of_int_numeral of_int_power)+
  have pk: "(2::rat) powi ?k = 2 ^ ?a / 2 ^ ?b"
    by (simp add: power_int_diff)
  have up: "\<bar>x\<bar> < 2 powi (?k + 1)"
  proof -
    have "of_int a * 2 ^ ?b < 2 ^ Suc ?a * (2::rat) ^ ?b" using r(2) by simp
    also have "\<dots> \<le> 2 ^ Suc ?a * of_int b" using r(3) by (intro mult_left_mono) simp_all
    finally show ?thesis
      using b unfolding x powi_Suc2 pk by (simp add: field_simps)
  qed
  have lo: "2 powi (?k - 1) \<le> \<bar>x\<bar>"
  proof -
    have "2 ^ ?a * of_int b \<le> of_int a * (2::rat) ^ Suc ?b"
      using r(1,4) a b by (intro mult_mono) simp_all
    then show ?thesis
      using b unfolding x powi_Suc2 pk by (simp add: field_simps)
  qed
  show ?thesis
    using up lo by (simp add: binade_def q Let_def)
qed
lemma binade_unique:
  assumes "2 powi k \<le> \<bar>x\<bar>" and "\<bar>x\<bar> < 2 powi (k + 1)"
  shows "binade x = k"
proof -
  have "x \<noteq> 0" using assms(1) powi_pos2 [of k] by (metis abs_zero not_less)
  then have "2 powi binade x \<le> \<bar>x\<bar>" "\<bar>x\<bar> < 2 powi (binade x + 1)"
    using binade_bounds by blast+
  with assms have "(2::rat) powi k < 2 powi (binade x + 1)" "(2::rat) powi binade x < 2 powi (k + 1)"
    by linarith+
  then show ?thesis by (simp add: powi_less2)
qed

section \<open>What rounding keeps\<close>

lemma round_half_even_int [simp]: "round_half_even (of_int n) = n"
  by (simp add: round_half_even_def)

lemma round_half_even_near: "\<bar>of_int (round_half_even x) - x\<bar> \<le> 1 / 2"
  unfolding round_half_even_def Let_def
  using floor_correct [of x] by (auto simp: abs_le_iff)

text \<open>The values of \<open>p\<close> significant bits, which rounding does not change.\<close>

definition fits :: "nat \<Rightarrow> rat \<Rightarrow> bool" where
  "fits p x \<longleftrightarrow> (\<exists>m e. x = of_int m * 2 powi e \<and> \<bar>m\<bar> < 2 ^ p)"

lemma fitsI: "x = of_int m * 2 powi e \<Longrightarrow> \<bar>m\<bar> < 2 ^ p \<Longrightarrow> fits p x"
  unfolding fits_def by blast

lemma round_prec_exact:
  assumes "fits p x"
  shows "round_prec p x = x"
proof (cases "x = 0")
  case True
  then show ?thesis by (simp add: round_prec_def)
next
  case False
  obtain m k where x: "x = of_int m * 2 powi k" and m: "\<bar>m\<bar> < 2 ^ p"
    using assms by (auto simp: fits_def)
  let ?e = "binade x - int p + 1"
  have "\<bar>x\<bar> < 2 powi (int p + k)"
  proof -
    have "\<bar>of_int m\<bar> < (2::rat) ^ p" using m by (metis of_int_abs of_int_less_iff of_int_numeral of_int_power)
    then show ?thesis unfolding x powi_add2 by (simp add: abs_mult)
  qed
  then have "(2::rat) powi binade x < 2 powi (int p + k)"
    using binade_bounds [OF False] by linarith
  then have "binade x < int p + k" by (simp add: powi_less2)
  then obtain n where n: "k = ?e + int n" using zle_iff_zadd [of ?e k] by auto
  define e where "e = ?e"
  have k: "k = e + int n" using n by (simp add: e_def)
  have y: "x / 2 powi e = of_int (m * 2 ^ n)"
    unfolding x k powi_add2 by simp
  have "round_prec p x = of_int (round_half_even (x / 2 powi e)) * 2 powi e"
    using False by (simp add: round_prec_def Let_def e_def)
  also have "\<dots> = of_int (m * 2 ^ n) * 2 powi e" unfolding y round_half_even_int ..
  also have "\<dots> = x" unfolding x k powi_add2 by simp
  finally show ?thesis .
qed

lemma fits_round_prec:
  assumes "0 < p"
  shows "fits p (round_prec p x)"
proof (cases "x = 0")
  case True
  then show ?thesis using assms by (intro fitsI [of _ 0 0]) (simp_all add: round_prec_def)
next
  case False
  define e where "e = binade x - int p + 1"
  define y where "y = x / 2 powi e"
  define m where "m = round_half_even y"
  have r: "round_prec p x = of_int m * 2 powi e"
    using False by (simp add: round_prec_def Let_def m_def y_def e_def)
  have "\<bar>x\<bar> < 2 powi (int p + e)" using binade_bounds [OF False] by (simp add: e_def)
  then have "\<bar>y\<bar> < 2 ^ p" unfolding y_def powi_add2 by (simp add: abs_divide pos_divide_less_eq)
  then have "\<bar>of_int m\<bar> < (2::rat) ^ p + 1"
    using round_half_even_near [of y] unfolding m_def by linarith
  then have "of_int \<bar>m\<bar> < (of_int (2 ^ p + 1) :: rat)" by simp
  then have le: "\<bar>m\<bar> \<le> 2 ^ p" unfolding of_int_less_iff by simp
  show ?thesis
  proof (cases "\<bar>m\<bar> < 2 ^ p")
    case True
    then show ?thesis using r by (rule fitsI [rotated])
  next
    case False
    then have "\<bar>m\<bar> = 2 ^ p" using le by simp
    then have m: "m = sgn m * 2 ^ p" by (metis sgn_mult_abs)
    have "round_prec p x = of_int (sgn m * 2 ^ p) * 2 powi e" using r m by simp
    then have "round_prec p x = of_int (sgn m) * 2 powi (int p + e)"
      unfolding powi_add2 by simp
    moreover have "\<bar>sgn m\<bar> < 2 ^ p"
      using assms one_less_power [of "2::int" p] by (simp add: sgn_if)
    ultimately show ?thesis by (rule fitsI)
  qed
qed

lemma fits_mono:
  assumes "fits p x" and "p \<le> q"
  shows "fits q x"
proof -
  have "(2::int) ^ p \<le> 2 ^ q" using assms(2) by (intro power_increasing) simp_all
  moreover obtain m e where "x = of_int m * 2 powi e" "\<bar>m\<bar> < 2 ^ p"
    using assms(1) by (auto simp: fits_def)
  ultimately show ?thesis by (meson fitsI less_le_trans)
qed

lemma fits_int: "\<bar>n\<bar> < 2 ^ p \<Longrightarrow> fits p (of_int n)"
  by (rule fitsI [of _ n 0]) simp_all

lemma round_prec_error: "\<bar>round_prec p x - x\<bar> \<le> \<bar>x\<bar> / 2 ^ p"
proof (cases "x = 0")
  case False
  let ?e = "binade x - int p + 1"
  let ?y = "x / 2 powi ?e"
  have "round_prec p x - x = (of_int (round_half_even ?y) - ?y) * 2 powi ?e"
    using False by (simp add: round_prec_def Let_def left_diff_distrib)
  then have "\<bar>round_prec p x - x\<bar> \<le> 1 / 2 * 2 powi ?e"
    using round_half_even_near [of ?y] by (simp add: abs_mult)
  also have "\<dots> = 2 powi binade x / 2 ^ p"
    by (simp add: power_int_add power_int_diff)
  also have "\<dots> \<le> \<bar>x\<bar> / 2 ^ p"
    using binade_bounds [OF False] by (simp add: divide_right_mono)
  finally show ?thesis .
qed (simp add: round_prec_def)

section \<open>Conversions\<close>

lemma trunc_int [simp]: "trunc (of_int n) = n"
  by (simp add: trunc_def)

lemma to_double_int: "\<bar>n\<bar> < 2 ^ 53 \<Longrightarrow> to_double n = of_int n"
  by (simp add: to_double_def round_prec_exact fits_int)

lemma to_float_int: "\<bar>n\<bar> < 2 ^ 24 \<Longrightarrow> to_float n = of_int n"
  by (simp add: to_float_def round_prec_exact fits_int)

text \<open>A float survives the way through a double, and a double through itself.\<close>

lemma fits_values [simp]:
  "fits 53 (to_double n)" "fits 53 (dmul x y)" "fits 53 (dlit x)"
  "fits 24 (to_float n)" "fits 24 (fmul x y)" "fits 24 (flit x)"
  by (simp_all add: to_double_def dmul_def dlit_def to_float_def fmul_def flit_def fits_round_prec)

lemma float_through_double:
  assumes "fits 24 x"
  shows "double_to_float (float_to_double x) = x"
proof -
  have "fits 53 x" using assms by (rule fits_mono) simp
  then show ?thesis
    using assms by (simp add: double_to_float_def float_to_double_def round_prec_exact)
qed

lemma double_unchanged: "fits 53 x \<Longrightarrow> float_to_double x = x"
  by (simp add: float_to_double_def round_prec_exact)

text \<open>The words of at most 53 bits survive the way through a double.\<close>

lemma to_word_uint:
  fixes w :: "'a::len word"
  assumes "LENGTH('a) \<le> 53"
  shows "to_word (to_double (uint w)) = w"
proof -
  have "uint w < 2 ^ LENGTH('a)" by simp
  also have "(2::int) ^ LENGTH('a) \<le> 2 ^ 53" using assms by (intro power_increasing) simp_all
  finally have "to_double (uint w) = of_int (uint w)" by (intro to_double_int) simp
  then show ?thesis unfolding to_word_def by (simp only: trunc_int word_of_int_uint)
qed

lemma to_word_sint:
  fixes w :: "'a::len word"
  assumes "LENGTH('a) \<le> 53"
  shows "to_word (to_double (sint w)) = w"
proof -
  have "- (2 ^ (LENGTH('a) - 1)) \<le> sint w" "sint w < 2 ^ (LENGTH('a) - 1)"
    using sint_ge [of w] sint_lt [of w] by simp_all
  moreover have "(2::int) ^ (LENGTH('a) - 1) < 2 ^ 53"
    using assms by (intro power_strict_increasing) (simp_all add: less_le_trans)
  ultimately have "\<bar>sint w\<bar> < 2 ^ 53" by linarith
  from to_double_int [OF this] have "trunc (to_double (sint w)) = sint w"
    by (metis trunc_int)
  then show ?thesis by (simp add: to_word_def)
qed

end
