(* ===== verification/Ubx_Db_Handlers.thy ===== *)
theory Ubx_Db_Handlers
  imports Ubx_Data_Fields Ieee_Round "HOL-Library.Signed_Division"
begin

text \<open>
  \<open>ext_libs/ubx_parser/src/database/handlers/db_*_handler.cpp\<close>: what each handler stores for a decoded
  message, as the list of its \<open>store.set\<close> calls in their order: the slot and the value after its
  conversion to \<open>double\<close>. \<open>update\<close> keeps the message in the handler and \<open>handle\<close> is only called right
  after it, so the message is the argument. An out-of-range element of a C array, which no decoded
  message leads to, is \<open>!\<close> outside the list.
\<close>

type_synonym field_write = "data_field \<times> rat"

section \<open>Calendar time\<close>

text \<open>\<open>timegm\<close> of the C library: the seconds since 1970 of a broken-down UTC time; months outside a year carry over.\<close>

definition leap_days :: "int \<Rightarrow> int" where
  "leap_days y = y div 4 - y div 100 + y div 400"

definition leap_year :: "int \<Rightarrow> bool" where
  "leap_year y \<longleftrightarrow> y mod 4 = 0 \<and> (y mod 100 \<noteq> 0 \<or> y mod 400 = 0)"

definition days_before_month :: "bool \<Rightarrow> int \<Rightarrow> int" where
  "days_before_month leap m =
     [0, 31, 59, 90, 120, 151, 181, 212, 243, 273, 304, 334] ! nat m + of_bool (leap \<and> 2 \<le> m)"

definition timegm :: "int \<Rightarrow> int \<Rightarrow> int \<Rightarrow> int \<Rightarrow> int \<Rightarrow> int \<Rightarrow> int" where
  "timegm tm_year tm_mon tm_mday tm_hour tm_min tm_sec =
     (let y = 1900 + tm_year + tm_mon div 12; m = tm_mon mod 12;
          days = 365 * (y - 1970) + leap_days (y - 1) - leap_days 1969
                 + days_before_month (leap_year y) m + tm_mday - 1
      in ((days * 24 + tm_hour) * 60 + tm_min) * 60 + tm_sec)"

text \<open>The millisecond time stamp of the two position solutions.\<close>

definition utc_timestamp :: "u16 \<Rightarrow> u8 \<Rightarrow> u8 \<Rightarrow> u8 \<Rightarrow> u8 \<Rightarrow> u8 \<Rightarrow> u32 \<Rightarrow> int" where
  "utc_timestamp year month day hour minute sec i_tow =
     (let tm_year = (if 1900 \<le> year then uint (year - 1900) else uint year);
          tm_mon = (if 1 \<le> month then uint (month - 1) else uint month);
          epoch_sec = timegm tm_year tm_mon (uint day) (uint hour) (uint minute) (uint sec)
      in epoch_sec * 1000 + uint i_tow mod 1000)"

section \<open>The handlers\<close>

definition db_nav_pvt_handle :: "ubx_nav_pvt \<Rightarrow> field_write list" where
  "db_nav_pvt_handle p =
     [(DATA_UBX_NAV_PVT_ITOW, to_double (uint (nav_pvt_i_tow p))),
      (DATA_UBX_NAV_PVT_FIXTYPE, to_double (uint (nav_pvt_fix_type p))),
      (DATA_UBX_NAV_PVT_FLAGS, to_double (uint (nav_pvt_flags p))),
      (DATA_UBX_NAV_PVT_FLAGS2, to_double (uint (nav_pvt_flags2 p))),
      (DATA_UBX_NAV_PVT_GSPEED, float_to_double (to_float (sint (nav_pvt_g_speed p)))),
      (DATA_UBX_NAV_PVT_VEHICLE_HEADING_DEGREE, float_to_double (fmul (to_float (sint (nav_pvt_head_veh p))) (flit (1 / 10 ^ 5)))),
      (DATA_UBX_NAV_PVT_MOTION_HEADING_DEGREE, float_to_double (fmul (to_float (sint (nav_pvt_head_mot p))) (flit (1 / 10 ^ 5)))),
      (DATA_UBX_NAV_PVT_MAGNETIC_DECLINATION, float_to_double (fmul (to_float (sint (nav_pvt_mag_dec p))) (flit (1 / 10 ^ 2)))),
      (DATA_UBX_NAV_PVT_LAT, dmul (to_double (sint (nav_pvt_lat p))) (dlit (1 / 10 ^ 7))),
      (DATA_UBX_NAV_PVT_LON, dmul (to_double (sint (nav_pvt_lon p))) (dlit (1 / 10 ^ 7))),
      (DATA_UBX_NAV_PVT_ALT, to_double (sint (nav_pvt_height p))),
      (DATA_UBX_NAV_PVT_HMSL, to_double (sint (nav_pvt_h_msl p))),
      (DATA_UBX_NAV_PVT_T_ACC, to_double (uint (nav_pvt_t_acc p))),
      (DATA_UBX_NAV_PVT_H_ACC, float_to_double (to_float (uint (nav_pvt_h_acc p)))),
      (DATA_UBX_NAV_PVT_V_ACC, float_to_double (to_float (uint (nav_pvt_v_acc p)))),
      (DATA_UBX_NAV_PVT_S_ACC, float_to_double (to_float (uint (nav_pvt_s_acc p)))),
      (DATA_UBX_NAV_PVT_HEAD_ACC, float_to_double (fmul (to_float (uint (nav_pvt_head_acc p))) (flit (1 / 10 ^ 5)))),
      (DATA_UBX_NAV_PVT_VEL_N, float_to_double (to_float (sint (nav_pvt_vel_n p)))),
      (DATA_UBX_NAV_PVT_VEL_E, float_to_double (to_float (sint (nav_pvt_vel_e p)))),
      (DATA_UBX_NAV_PVT_VEL_D, float_to_double (to_float (sint (nav_pvt_vel_d p)))),
      (DATA_UBX_NAV_PVT_NUMSV, to_double (uint (nav_pvt_num_sv p))),
      (DATA_UBX_NAV_PVT_YEAR, to_double (uint (nav_pvt_year p))),
      (DATA_UBX_NAV_PVT_MONTH, to_double (uint (nav_pvt_month p))),
      (DATA_UBX_NAV_PVT_DAY, to_double (uint (nav_pvt_day p))),
      (DATA_UBX_NAV_PVT_HOUR, to_double (uint (nav_pvt_hour p))),
      (DATA_UBX_NAV_PVT_MINUTE, to_double (uint (nav_pvt_min p))),
      (DATA_UBX_NAV_PVT_SECOND, to_double (uint (nav_pvt_sec p))),
      (DATA_UBX_NAV_PVT_MILI_SECOND, to_double (uint (nav_pvt_i_tow p) mod 1000)),
      (DATA_UBX_NAV_PVT_MICRO_SECOND, to_double (sint (nav_pvt_nano p) sdiv 1000)),
      (DATA_UBX_NAV_PVT_TIME_VALID, to_double (uint (nav_pvt_valid p))),
      (DATA_UBX_NAV_PVT_TIMESTAMP, to_double (utc_timestamp (nav_pvt_year p) (nav_pvt_month p) (nav_pvt_day p) (nav_pvt_hour p)
        (nav_pvt_min p) (nav_pvt_sec p) (nav_pvt_i_tow p)))]"

definition FLAG_SV_USED :: u32 where [ubx_consts]: "FLAG_SV_USED = 8"
definition FLAG_DIFF_CORR :: u32 where [ubx_consts]: "FLAG_DIFF_CORR = 64"
definition FLAG_EPH_AVAIL :: u32 where [ubx_consts]: "FLAG_EPH_AVAIL = 2048"
definition FLAG_ALM_AVAIL :: u32 where [ubx_consts]: "FLAG_ALM_AVAIL = 4096"
definition FLAG_SBAS_CORR :: u32 where [ubx_consts]: "FLAG_SBAS_CORR = 65536"
definition FLAG_RTCM_CORR :: u32 where [ubx_consts]: "FLAG_RTCM_CORR = 131072"
definition FLAG_HEALTH :: u32 where [ubx_consts]: "FLAG_HEALTH = 48"

definition db_nav_sat_block :: "u8 \<Rightarrow> nav_sat_sv \<Rightarrow> field_write list" where
  "db_nav_sat_block i sv =
     [(db_index_with_offset DATA_SATELLITES_IN_VIEW_GNSSID i, to_double (uint (nav_sat_sv_gnss_id sv))),
      (db_index_with_offset DATA_SATELLITES_IN_VIEW_SVID i, to_double (uint (nav_sat_sv_sv_id sv))),
      (db_index_with_offset DATA_SATELLITES_IN_VIEW_AZIMUTH i, to_double (sint (nav_sat_sv_azim sv))),
      (db_index_with_offset DATA_SATELLITES_IN_VIEW_ELEVATION i, to_double (sint (nav_sat_sv_elev sv))),
      (db_index_with_offset DATA_SATELLITES_IN_VIEW_CN0_RATIO i, to_double (uint (nav_sat_sv_cno sv))),
      (db_index_with_offset DATA_SATELLITES_IN_VIEW_ALMANAC i, to_double (of_bool (nav_sat_sv_flags sv AND FLAG_ALM_AVAIL \<noteq> 0))),
      (db_index_with_offset DATA_SATELLITES_IN_VIEW_EPHEMERIS i, to_double (of_bool (nav_sat_sv_flags sv AND FLAG_EPH_AVAIL \<noteq> 0))),
      (db_index_with_offset DATA_SATELLITES_IN_VIEW_HEALTH i, to_double (of_bool (drop_bit 4 (nav_sat_sv_flags sv AND FLAG_HEALTH) = 1))),
      (db_index_with_offset DATA_SATELLITES_IN_VIEW_USED i, to_double (of_bool (nav_sat_sv_flags sv AND FLAG_SV_USED \<noteq> 0))),
      (db_index_with_offset DATA_SATELLITES_IN_VIEW_DIFF_CORR i, to_double (of_bool (nav_sat_sv_flags sv AND FLAG_DIFF_CORR \<noteq> 0))),
      (db_index_with_offset DATA_SATELLITES_IN_VIEW_SBAS_USED i, to_double (of_bool (nav_sat_sv_flags sv AND FLAG_SBAS_CORR \<noteq> 0))),
      (db_index_with_offset DATA_SATELLITES_IN_VIEW_RTCM_USED i, to_double (of_bool (nav_sat_sv_flags sv AND FLAG_RTCM_CORR \<noteq> 0)))]"

definition db_nav_sat_handle :: "ubx_nav_sat \<Rightarrow> field_write list" where
  "db_nav_sat_handle p =
     [(DATA_SATELLITES_IN_VIEW, to_double (int (min (unat (nav_sat_num_svs p)) MAX_SATELLITES_IN_VIEW)))]
     @ concat (map (\<lambda>i. db_nav_sat_block (of_nat i) (nav_sat_svs p ! i))
         [0..<min (unat (nav_sat_num_svs p)) MAX_SATELLITES_IN_VIEW])"

definition db_nav_dop_handle :: "ubx_nav_dop \<Rightarrow> field_write list" where
  "db_nav_dop_handle p =
     [(DATA_UBX_NAV_GEOMETRIC_DILUTION_OF_PRECISION, dmul (to_double (uint (nav_dop_g_dop p))) (dlit (1 / 10 ^ 2))),
      (DATA_UBX_NAV_POSITION_DILUTION_OF_PRECISION, dmul (to_double (uint (nav_dop_p_dop p))) (dlit (1 / 10 ^ 2))),
      (DATA_UBX_NAV_TIME_DILUTION_OF_PRECISION, dmul (to_double (uint (nav_dop_t_dop p))) (dlit (1 / 10 ^ 2))),
      (DATA_UBX_NAV_VERTICAL_DILUTION_OF_PRECISION, dmul (to_double (uint (nav_dop_v_dop p))) (dlit (1 / 10 ^ 2))),
      (DATA_UBX_NAV_HORIZONAL_DILUTION_OF_PRECISION, dmul (to_double (uint (nav_dop_h_dop p))) (dlit (1 / 10 ^ 2)))]"

definition db_nav_eell_handle :: "ubx_nav_eell \<Rightarrow> field_write list" where
  "db_nav_eell_handle p =
     [(DATA_UBX_SEMI_MAJOR_AXIS_ACC, to_double (uint (nav_eell_err_maj p))),
      (DATA_UBX_SEMI_MINOR_AXIS_ACC, to_double (uint (nav_eell_err_min p))),
      (DATA_UBX_SEMI_MAJOR_AXIS_ORIENTATION, dmul (to_double (uint (nav_eell_err_orient p))) (dlit (1 / 10 ^ 2)))]"

definition db_nav_timegps_handle :: "ubx_nav_timegps \<Rightarrow> field_write list" where
  "db_nav_timegps_handle p =
     [(DATA_UBX_NAV_GPSTIME_TOW, to_double (uint (nav_timegps_i_tow p))),
      (DATA_UBX_NAV_GPSTIME_WEEK, to_double (sint (nav_timegps_week p))),
      (DATA_UBX_NAV_GPSTIME_LEAP_SECONDS, to_double (sint (nav_timegps_leap_s p)))]"

definition db_nav_status_handle :: "ubx_nav_status \<Rightarrow> field_write list" where
  "db_nav_status_handle p =
     [(DATA_UBX_TTFF, to_double (uint (nav_status_ttff p)))]"

definition db_tim_tp_handle :: "ubx_tim_tp \<Rightarrow> field_write list" where
  "db_tim_tp_handle p =
     [(DATA_TIME_PULSE_TIMESTAMP, to_double (uint (tim_tp_tow_ms p))),
      (DATA_TIME_PULSE_QUANTIZATION_ERROR, to_double (sint (tim_tp_q_err p))),
      (DATA_TIME_PULSE_UTC_TIME_BASE, to_double (uint (tim_tp_flags p AND 0x03))),
      (DATA_TIME_PULSE_UTC_AVAILABLE, to_double (of_bool (tim_tp_flags p AND 0x04 \<noteq> 0))),
      (DATA_TIME_PULSE_RAIM_ACTIVE, to_double 0),
      (DATA_TIME_PULSE_Q_ERROR_VALID, to_double (of_bool (tim_tp_flags p AND 0x08 \<noteq> 0))),
      (DATA_TIME_PULSE_TP_LOCKED_GNSS, to_double 0),
      (DATA_TIME_PULSE_TIME_REF, to_double (uint (drop_bit 4 (tim_tp_ref_info p) AND 0x0F))),
      (DATA_TIME_PULSE_UTC_STANDARD, to_double (uint (tim_tp_ref_info p AND 0x0F)))]"

definition db_nav2_pvt_handle :: "ubx_nav2_pvt \<Rightarrow> field_write list" where
  "db_nav2_pvt_handle p =
     [(DATA_UBX_NAV2_PVT_ITOW, to_double (uint (nav2_pvt_i_tow p))),
      (DATA_UBX_NAV2_PVT_FIXTYPE, to_double (uint (nav2_pvt_fix_type p))),
      (DATA_UBX_NAV2_PVT_FLAGS, to_double (uint (nav2_pvt_flags p))),
      (DATA_UBX_NAV2_PVT_FLAGS2, to_double (uint (nav2_pvt_flags2 p))),
      (DATA_UBX_NAV2_PVT_NUMSV, to_double (uint (nav2_pvt_num_sv p))),
      (DATA_UBX_NAV2_PVT_LAT, dmul (to_double (sint (nav2_pvt_lat p))) (dlit (1 / 10 ^ 7))),
      (DATA_UBX_NAV2_PVT_LON, dmul (to_double (sint (nav2_pvt_lon p))) (dlit (1 / 10 ^ 7))),
      (DATA_UBX_NAV2_PVT_ALT, to_double (sint (nav2_pvt_height p))),
      (DATA_UBX_NAV2_PVT_HMSL, to_double (sint (nav2_pvt_h_msl p))),
      (DATA_UBX_NAV2_PVT_H_ACC, float_to_double (to_float (uint (nav2_pvt_h_acc p)))),
      (DATA_UBX_NAV2_PVT_V_ACC, float_to_double (to_float (uint (nav2_pvt_v_acc p)))),
      (DATA_UBX_NAV2_PVT_GSPEED, float_to_double (to_float (sint (nav2_pvt_g_speed p)))),
      (DATA_UBX_NAV2_PVT_VEHICLE_HEADING_DEGREE, float_to_double (fmul (to_float (sint (nav2_pvt_head_veh p))) (flit (1 / 10 ^ 5)))),
      (DATA_UBX_NAV2_PVT_MOTION_HEADING_DEGREE, float_to_double (fmul (to_float (sint (nav2_pvt_head_mot p))) (flit (1 / 10 ^ 5)))),
      (DATA_UBX_NAV2_PVT_MAGNETIC_DECLINATION, float_to_double (fmul (to_float (sint (nav2_pvt_mag_dec p))) (flit (1 / 10 ^ 2)))),
      (DATA_UBX_NAV2_PVT_VEL_N, float_to_double (to_float (sint (nav2_pvt_vel_n p)))),
      (DATA_UBX_NAV2_PVT_VEL_E, float_to_double (to_float (sint (nav2_pvt_vel_e p)))),
      (DATA_UBX_NAV2_PVT_VEL_D, float_to_double (to_float (sint (nav2_pvt_vel_d p)))),
      (DATA_UBX_NAV2_PVT_YEAR, to_double (uint (nav2_pvt_year p))),
      (DATA_UBX_NAV2_PVT_MONTH, to_double (uint (nav2_pvt_month p))),
      (DATA_UBX_NAV2_PVT_DAY, to_double (uint (nav2_pvt_day p))),
      (DATA_UBX_NAV2_PVT_HOUR, to_double (uint (nav2_pvt_hour p))),
      (DATA_UBX_NAV2_PVT_MINUTE, to_double (uint (nav2_pvt_min p))),
      (DATA_UBX_NAV2_PVT_SECOND, to_double (uint (nav2_pvt_sec p))),
      (DATA_UBX_NAV2_PVT_MILI_SECOND, to_double (uint (nav2_pvt_i_tow p) mod 1000)),
      (DATA_UBX_NAV2_PVT_MICRO_SECOND, to_double (sint (nav2_pvt_nano p) sdiv 1000)),
      (DATA_UBX_NAV2_PVT_TIME_VALID, to_double (uint (nav2_pvt_valid p))),
      (DATA_UBX_NAV2_PVT_TIMESTAMP, to_double (utc_timestamp (nav2_pvt_year p) (nav2_pvt_month p) (nav2_pvt_day p) (nav2_pvt_hour p)
        (nav2_pvt_min p) (nav2_pvt_sec p) (nav2_pvt_i_tow p)))]"

definition db_nav2_eell_handle :: "ubx_nav2_eell \<Rightarrow> field_write list" where
  "db_nav2_eell_handle p =
     [(DATA_UBX_NAV2_SEMI_MAJOR_AXIS_ACC, to_double (uint (nav2_eell_err_maj p))),
      (DATA_UBX_NAV2_SEMI_MINOR_AXIS_ACC, to_double (uint (nav2_eell_err_min p))),
      (DATA_UBX_NAV2_SEMI_MAJOR_AXIS_ORIENTATION, dmul (to_double (uint (nav2_eell_err_orient p))) (dlit (1 / 10 ^ 2)))]"

definition db_nav2_dop_handle :: "ubx_nav2_dop \<Rightarrow> field_write list" where
  "db_nav2_dop_handle p =
     [(DATA_UBX_NAV2_GEOMETRIC_DILUTION_OF_PRECISION, dmul (to_double (uint (nav2_dop_g_dop p))) (dlit (1 / 10 ^ 2))),
      (DATA_UBX_NAV2_POSITION_DILUTION_OF_PRECISION, dmul (to_double (uint (nav2_dop_p_dop p))) (dlit (1 / 10 ^ 2))),
      (DATA_UBX_NAV2_TIME_DILUTION_OF_PRECISION, dmul (to_double (uint (nav2_dop_t_dop p))) (dlit (1 / 10 ^ 2))),
      (DATA_UBX_NAV2_VERTICAL_DILUTION_OF_PRECISION, dmul (to_double (uint (nav2_dop_v_dop p))) (dlit (1 / 10 ^ 2))),
      (DATA_UBX_NAV2_HORIZONAL_DILUTION_OF_PRECISION, dmul (to_double (uint (nav2_dop_h_dop p))) (dlit (1 / 10 ^ 2)))]"

definition db_nav2_timegps_handle :: "ubx_nav2_timegps \<Rightarrow> field_write list" where
  "db_nav2_timegps_handle p =
     [(DATA_UBX_NAV2_GPSTIME_TOW, to_double (uint (nav2_timegps_i_tow p))),
      (DATA_UBX_NAV2_GPSTIME_WEEK, to_double (sint (nav2_timegps_week p))),
      (DATA_UBX_NAV2_GPSTIME_LEAP_SECONDS, to_double (sint (nav2_timegps_leap_s p)))]"

definition db_nav_odo_handle :: "ubx_nav_odo \<Rightarrow> field_write list" where
  "db_nav_odo_handle p =
     [(DATA_UBX_NAV_ODO_ITOW, to_double (uint (nav_odo_i_tow p))),
      (DATA_UBX_NAV_ODO_DISTANCE, to_double (uint (nav_odo_distance p))),
      (DATA_UBX_NAV_ODO_TOTAL_DISTANCE, to_double (uint (nav_odo_total_distance p))),
      (DATA_UBX_NAV_ODO_DISTANCE_STD, to_double (uint (nav_odo_distance_std p)))]"

definition db_esf_ins_handle :: "ubx_esf_ins \<Rightarrow> field_write list" where
  "db_esf_ins_handle p =
     [(DATA_UBX_ESF_INS_ITOW, to_double (uint (esf_ins_i_tow p))),
      (DATA_UBX_ESF_INS_BITFIELD0, to_double (uint (esf_ins_bitfield0 p))),
      (DATA_UBX_ESF_INS_X_ANG_RATE, dmul (to_double (sint (esf_ins_x_ang_rate p))) (dlit (1 / 10 ^ 3))),
      (DATA_UBX_ESF_INS_Y_ANG_RATE, dmul (to_double (sint (esf_ins_y_ang_rate p))) (dlit (1 / 10 ^ 3))),
      (DATA_UBX_ESF_INS_Z_ANG_RATE, dmul (to_double (sint (esf_ins_z_ang_rate p))) (dlit (1 / 10 ^ 3))),
      (DATA_UBX_ESF_INS_X_ACCEL, dmul (to_double (sint (esf_ins_x_accel p))) (dlit (1 / 10 ^ 2))),
      (DATA_UBX_ESF_INS_Y_ACCEL, dmul (to_double (sint (esf_ins_y_accel p))) (dlit (1 / 10 ^ 2))),
      (DATA_UBX_ESF_INS_Z_ACCEL, dmul (to_double (sint (esf_ins_z_accel p))) (dlit (1 / 10 ^ 2)))]"

definition ESF_TYPE_MASK :: u8 where [ubx_consts]: "ESF_TYPE_MASK = 0x1F"
definition ESF_USED :: u8 where [ubx_consts]: "ESF_USED = 0x20"
definition ESF_READY :: u8 where [ubx_consts]: "ESF_READY = 0x40"
definition CALIB_STATUS_MASK :: u8 where [ubx_consts]: "CALIB_STATUS_MASK = 0x03"
definition TIME_STATUS_MASK :: u8 where [ubx_consts]: "TIME_STATUS_MASK = 0x0C"

definition db_esf_status_block :: "u8 \<Rightarrow> ubx_esf_status_sensor \<Rightarrow> field_write list" where
  "db_esf_status_block i s =
     [(db_index_with_offset DATA_UBX_ESF_STATUS_SENS_TYPE i, to_double (uint (esf_sensor_sens_status1 s AND ESF_TYPE_MASK))),
      (db_index_with_offset DATA_UBX_ESF_STATUS_SENS_USED i, to_double (of_bool (esf_sensor_sens_status1 s AND ESF_USED \<noteq> 0))),
      (db_index_with_offset DATA_UBX_ESF_STATUS_SENS_READY i, to_double (of_bool (esf_sensor_sens_status1 s AND ESF_READY \<noteq> 0))),
      (db_index_with_offset DATA_UBX_ESF_STATUS_SENS_CALIB i, to_double (uint (esf_sensor_sens_status2 s AND CALIB_STATUS_MASK))),
      (db_index_with_offset DATA_UBX_ESF_STATUS_SENS_TIME_STATUS i, to_double (uint (drop_bit 2 (esf_sensor_sens_status2 s AND TIME_STATUS_MASK)))),
      (db_index_with_offset DATA_UBX_ESF_STATUS_SENS_FREQ i, to_double (uint (esf_sensor_freq s))),
      (db_index_with_offset DATA_UBX_ESF_STATUS_SENS_FAULTS i, to_double (uint (esf_sensor_faults s)))]"

definition db_esf_status_handle :: "ubx_esf_status \<Rightarrow> field_write list" where
  "db_esf_status_handle p =
     [(DATA_UBX_ESF_STATUS_ITOW, to_double (uint (esf_status_i_tow p))),
      (DATA_UBX_ESF_STATUS_FUSION_MODE, to_double (uint (esf_status_fusion_mode p))),
      (DATA_UBX_ESF_STATUS_NUM_SENS, to_double (uint (esf_status_num_sens p)))]
     @ concat (map (\<lambda>i. db_esf_status_block (of_nat i) (esf_status_sensors p ! i))
         [0..<min (unat (esf_status_num_sens p)) MAX_ESF_SENSORS])"

definition ESF_SENSOR_NONE :: u8 where [ubx_consts]: "ESF_SENSOR_NONE = 0"
definition ESF_SENSOR_Z_GYRO_ANG_RATE :: u8 where [ubx_consts]: "ESF_SENSOR_Z_GYRO_ANG_RATE = 5"
definition ESF_SENSOR_FRONT_LEFT_WHEEL_TICKS :: u8 where [ubx_consts]: "ESF_SENSOR_FRONT_LEFT_WHEEL_TICKS = 6"
definition ESF_SENSOR_FRONT_RIGHT_WHEEL_TICKS :: u8 where [ubx_consts]: "ESF_SENSOR_FRONT_RIGHT_WHEEL_TICKS = 7"
definition ESF_SENSOR_REAR_LEFT_WHEEL_TICKS :: u8 where [ubx_consts]: "ESF_SENSOR_REAR_LEFT_WHEEL_TICKS = 8"
definition ESF_SENSOR_REAR_RIGHT_WHEEL_TICKS :: u8 where [ubx_consts]: "ESF_SENSOR_REAR_RIGHT_WHEEL_TICKS = 9"
definition ESF_SENSOR_SPEED :: u8 where [ubx_consts]: "ESF_SENSOR_SPEED = 10"
definition ESF_SENSOR_GYRO_TEMP :: u8 where [ubx_consts]: "ESF_SENSOR_GYRO_TEMP = 11"
definition ESF_SENSOR_X_GYRO_ANG_RATE :: u8 where [ubx_consts]: "ESF_SENSOR_X_GYRO_ANG_RATE = 12"
definition ESF_SENSOR_Y_GYRO_ANG_RATE :: u8 where [ubx_consts]: "ESF_SENSOR_Y_GYRO_ANG_RATE = 13"
definition ESF_SENSOR_X_ACCEL :: u8 where [ubx_consts]: "ESF_SENSOR_X_ACCEL = 14"
definition ESF_SENSOR_Y_ACCEL :: u8 where [ubx_consts]: "ESF_SENSOR_Y_ACCEL = 16"
definition ESF_SENSOR_Z_ACCEL :: u8 where [ubx_consts]: "ESF_SENSOR_Z_ACCEL = 17"

definition esf_scale_factor :: "u8 \<Rightarrow> rat" where
  "esf_scale_factor data_type =
     (if data_type \<in> {ESF_SENSOR_X_ACCEL, ESF_SENSOR_Y_ACCEL, ESF_SENSOR_Z_ACCEL} then dlit (2 / 10 ^ 10)
      else if data_type \<in> {ESF_SENSOR_X_GYRO_ANG_RATE, ESF_SENSOR_Y_GYRO_ANG_RATE, ESF_SENSOR_Z_GYRO_ANG_RATE}
      then dlit (2 / 10 ^ 12)
      else if data_type = ESF_SENSOR_SPEED then dlit (1 / 10 ^ 3)
      else if data_type = ESF_SENSOR_GYRO_TEMP then dlit (1 / 10 ^ 2)
      else 1)"

definition db_esf_meas_block :: "u8 \<Rightarrow> ubx_esf_meas_datum \<Rightarrow> field_write list" where
  "db_esf_meas_block i d =
     [(db_index_with_offset DATA_UBX_ESF_MEAS_DATA_TYPE i, to_double (uint (esf_datum_data_type d))),
      (db_index_with_offset DATA_UBX_ESF_MEAS_DATA_VALUE i, dmul (to_double (sint (esf_datum_data_value d))) (esf_scale_factor (esf_datum_data_type d)))]"

definition db_esf_meas_handle :: "ubx_esf_meas \<Rightarrow> field_write list" where
  "db_esf_meas_handle p =
     [(DATA_UBX_ESF_MEAS_TIME_TAG, to_double (uint (esf_meas_time_tag p))),
      (DATA_UBX_ESF_MEAS_FLAGS, to_double (uint (esf_meas_flags p))),
      (DATA_UBX_ESF_MEAS_NUM_MEAS, to_double (uint (esf_meas_num_meas p)))]
     @ concat (map (\<lambda>i. db_esf_meas_block (of_nat i) (esf_meas_data p ! i))
         [0..<min (unat (esf_meas_num_meas p)) MAX_ESF_MEAS_DATA])"

definition SIG_FLAG_HEALTH_MASK :: u16 where [ubx_consts]: "SIG_FLAG_HEALTH_MASK = 3"
definition SIG_FLAG_PR_USED :: u16 where [ubx_consts]: "SIG_FLAG_PR_USED = 8"
definition SIG_FLAG_CR_USED :: u16 where [ubx_consts]: "SIG_FLAG_CR_USED = 16"
definition SIG_FLAG_DO_USED :: u16 where [ubx_consts]: "SIG_FLAG_DO_USED = 32"

definition db_nav_sig_block :: "u8 \<Rightarrow> nav_sig_info \<Rightarrow> field_write list" where
  "db_nav_sig_block i sig =
     [(db_index_with_offset DATA_UBX_NAV_SIG_GNSSID i, to_double (uint (nav_sig_info_gnss_id sig))),
      (db_index_with_offset DATA_UBX_NAV_SIG_SVID i, to_double (uint (nav_sig_info_sv_id sig))),
      (db_index_with_offset DATA_UBX_NAV_SIG_SIGID i, to_double (uint (nav_sig_info_sig_id sig))),
      (db_index_with_offset DATA_UBX_NAV_SIG_FREQID i, to_double (uint (nav_sig_info_freq_id sig))),
      (db_index_with_offset DATA_UBX_NAV_SIG_PR_RES i, to_double (sint (nav_sig_info_pr_res sig))),
      (db_index_with_offset DATA_UBX_NAV_SIG_CNO i, to_double (uint (nav_sig_info_cno sig))),
      (db_index_with_offset DATA_UBX_NAV_SIG_QUAL_IND i, to_double (uint (nav_sig_info_qual_ind sig))),
      (db_index_with_offset DATA_UBX_NAV_SIG_CORR_SOURCE i, to_double (uint (nav_sig_info_corr_source sig))),
      (db_index_with_offset DATA_UBX_NAV_SIG_IONO_MODEL i, to_double (uint (nav_sig_info_iono_model sig))),
      (db_index_with_offset DATA_UBX_NAV_SIG_HEALTH i, to_double (of_bool (nav_sig_info_sig_flags sig AND SIG_FLAG_HEALTH_MASK = 1))),
      (db_index_with_offset DATA_UBX_NAV_SIG_PR_USED i, to_double (of_bool (nav_sig_info_sig_flags sig AND SIG_FLAG_PR_USED \<noteq> 0))),
      (db_index_with_offset DATA_UBX_NAV_SIG_CR_USED i, to_double (of_bool (nav_sig_info_sig_flags sig AND SIG_FLAG_CR_USED \<noteq> 0))),
      (db_index_with_offset DATA_UBX_NAV_SIG_DO_USED i, to_double (of_bool (nav_sig_info_sig_flags sig AND SIG_FLAG_DO_USED \<noteq> 0)))]"

definition db_nav_sig_handle :: "ubx_nav_sig \<Rightarrow> field_write list" where
  "db_nav_sig_handle p =
     [(DATA_UBX_NAV_SIG_NUM_SIGS, to_double (int (min (unat (nav_sig_num_sigs p)) MAX_ALL_GNSS_SIGNALS)))]
     @ concat (map (\<lambda>i. db_nav_sig_block (of_nat i) (nav_sig_signals p ! i))
         [0..<min (unat (nav_sig_num_sigs p)) MAX_ALL_GNSS_SIGNALS])"

definition db_nav_timeutc_handle :: "ubx_nav_timeutc \<Rightarrow> field_write list" where
  "db_nav_timeutc_handle p =
     [(DATA_UBX_NAV_TIMEUTC_ITOW, to_double (uint (nav_timeutc_i_tow p))),
      (DATA_UBX_NAV_TIMEUTC_T_ACC, to_double (uint (nav_timeutc_t_acc p))),
      (DATA_UBX_NAV_TIMEUTC_NANO, to_double (sint (nav_timeutc_nano p))),
      (DATA_UBX_NAV_TIMEUTC_YEAR, to_double (uint (nav_timeutc_year p))),
      (DATA_UBX_NAV_TIMEUTC_MONTH, to_double (uint (nav_timeutc_month p))),
      (DATA_UBX_NAV_TIMEUTC_DAY, to_double (uint (nav_timeutc_day p))),
      (DATA_UBX_NAV_TIMEUTC_HOUR, to_double (uint (nav_timeutc_hour p))),
      (DATA_UBX_NAV_TIMEUTC_MIN, to_double (uint (nav_timeutc_min p))),
      (DATA_UBX_NAV_TIMEUTC_SEC, to_double (uint (nav_timeutc_sec p))),
      (DATA_UBX_NAV_TIMEUTC_VALID, to_double (uint (nav_timeutc_valid p)))]"

definition db_nav_clock_handle :: "ubx_nav_clock \<Rightarrow> field_write list" where
  "db_nav_clock_handle p =
     [(DATA_UBX_NAV_CLOCK_ITOW, to_double (uint (nav_clock_i_tow p))),
      (DATA_UBX_NAV_CLOCK_CLKB, float_to_double (to_float (sint (nav_clock_clk_b p)))),
      (DATA_UBX_NAV_CLOCK_CLKD, float_to_double (to_float (sint (nav_clock_clk_d p)))),
      (DATA_UBX_NAV_CLOCK_T_ACC, to_double (uint (nav_clock_t_acc p))),
      (DATA_UBX_NAV_CLOCK_F_ACC, to_double (uint (nav_clock_f_acc p)))]"

definition db_nav_att_handle :: "ubx_nav_att \<Rightarrow> field_write list" where
  "db_nav_att_handle p =
     [(DATA_UBX_NAV_ATT_ITOW, to_double (uint (nav_att_i_tow p))),
      (DATA_UBX_NAV_ATT_VERSION, to_double (uint (nav_att_version p))),
      (DATA_UBX_NAV_ATT_ROLL, float_to_double (fmul (to_float (sint (nav_att_roll p))) (flit (1 / 10 ^ 5)))),
      (DATA_UBX_NAV_ATT_PITCH, float_to_double (fmul (to_float (sint (nav_att_pitch p))) (flit (1 / 10 ^ 5)))),
      (DATA_UBX_NAV_ATT_HEADING, float_to_double (fmul (to_float (sint (nav_att_heading p))) (flit (1 / 10 ^ 5)))),
      (DATA_UBX_NAV_ATT_ACC_ROLL, float_to_double (fmul (to_float (uint (nav_att_acc_roll p))) (flit (1 / 10 ^ 5)))),
      (DATA_UBX_NAV_ATT_ACC_PITCH, float_to_double (fmul (to_float (uint (nav_att_acc_pitch p))) (flit (1 / 10 ^ 5)))),
      (DATA_UBX_NAV_ATT_ACC_HEADING, float_to_double (fmul (to_float (uint (nav_att_acc_heading p))) (flit (1 / 10 ^ 5))))]"

definition db_rxm_measx_block :: "u8 \<Rightarrow> rxm_measx_sv \<Rightarrow> field_write list" where
  "db_rxm_measx_block i sv =
     [(db_index_with_offset DATA_UBX_RXM_MEASX_GNSS_ID i, to_double (uint (measx_sv_gnss_id sv))),
      (db_index_with_offset DATA_UBX_RXM_MEASX_SV_ID i, to_double (uint (measx_sv_sv_id sv))),
      (db_index_with_offset DATA_UBX_RXM_MEASX_CN0 i, to_double (uint (measx_sv_cno sv))),
      (db_index_with_offset DATA_UBX_RXM_MEASX_MPH i, to_double (uint (measx_sv_mpath_indic sv))),
      (db_index_with_offset DATA_UBX_RXM_MEASX_DOPPLER i, float_to_double (fmul (to_float (sint (measx_sv_doppler_ms sv))) (flit (4 / 10 ^ 2)))),
      (db_index_with_offset DATA_UBX_RXM_MEASX_WHOLE_CHIPS i, to_double (uint (measx_sv_whole_chips sv))),
      (db_index_with_offset DATA_UBX_RXM_MEASX_FRAC_CHIPS i, to_double (uint (measx_sv_frac_chips sv))),
      (db_index_with_offset DATA_UBX_RXM_MEASX_CODE_PHASE i, to_double (uint (measx_sv_code_phase sv))),
      (db_index_with_offset DATA_UBX_RXM_MEASX_INT_CODE_PHASE i, to_double (uint (measx_sv_int_code_phase sv))),
      (db_index_with_offset DATA_UBX_RXM_MEASX_PSEU_RANGE_RMS_ERR i, to_double (uint (measx_sv_pseu_range_rms_err sv)))]"

definition db_rxm_measx_handle :: "ubx_rxm_measx \<Rightarrow> field_write list" where
  "db_rxm_measx_handle p =
     [(DATA_UBX_RXM_MEASX_GPS_TOW, to_double (uint (rxm_measx_gps_tow p))),
      (DATA_UBX_RXM_MEASX_GLO_TOW, to_double (uint (rxm_measx_glo_tow p))),
      (DATA_UBX_RXM_MEASX_BDS_TOW, to_double (uint (rxm_measx_bds_tow p))),
      (DATA_UBX_RXM_MEASX_QZS_TOW, to_double (uint (rxm_measx_qzss_tow p))),
      (DATA_UBX_RXM_MEASX_GPS_TOW_ACC, to_double (uint (rxm_measx_gps_tow_acc p))),
      (DATA_UBX_RXM_MEASX_GLO_TOW_ACC, to_double (uint (rxm_measx_glo_tow_acc p))),
      (DATA_UBX_RXM_MEASX_BDS_TOW_ACC, to_double (uint (rxm_measx_bds_tow_acc p))),
      (DATA_UBX_RXM_MEASX_QZS_TOW_ACC, to_double (uint (rxm_measx_qzss_tow_acc p))),
      (DATA_UBX_RXM_MEASX_NUM_SV, to_double (uint (rxm_measx_num_svs p))),
      (DATA_UBX_RXM_MEASX_FLAGS, to_double (uint (rxm_measx_flags p)))]
     @ concat (map (\<lambda>i. db_rxm_measx_block (of_nat i) (rxm_measx_svs p ! i))
         [0..<unat (rxm_measx_num_svs p)])"

definition db_mon_io_block :: "u8 \<Rightarrow> mon_io_port \<Rightarrow> field_write list" where
  "db_mon_io_block i port =
     [(db_index_with_offset DATA_UBX_MON_IO_RX_BYTES i, to_double (uint (mon_io_port_rx_bytes port))),
      (db_index_with_offset DATA_UBX_MON_IO_TX_BYTES i, to_double (uint (mon_io_port_tx_bytes port))),
      (db_index_with_offset DATA_UBX_MON_IO_PARITY_ERRS i, to_double (uint (mon_io_port_parity_errs port))),
      (db_index_with_offset DATA_UBX_MON_IO_FRAMING_ERRS i, to_double (uint (mon_io_port_framing_errs port))),
      (db_index_with_offset DATA_UBX_MON_IO_OVERRUN_ERRS i, to_double (uint (mon_io_port_overrun_errs port))),
      (db_index_with_offset DATA_UBX_MON_IO_BREAK_COND i, to_double (uint (mon_io_port_break_cond port))),
      (db_index_with_offset DATA_UBX_MON_IO_RX_BUSY i, to_double (uint (mon_io_port_rx_busy port))),
      (db_index_with_offset DATA_UBX_MON_IO_TX_BUSY i, to_double (uint (mon_io_port_tx_busy port)))]"

definition db_mon_io_handle :: "ubx_mon_io \<Rightarrow> field_write list" where
  "db_mon_io_handle p =
     [(DATA_UBX_MON_IO_NUM_PORTS, to_double (uint (mon_io_num_ports p)))]
     @ concat (map (\<lambda>i. db_mon_io_block (of_nat i) (mon_io_ports p ! i))
         [0..<unat (mon_io_num_ports p)])"

definition db_mon_txbuf_handle :: "ubx_mon_txbuf \<Rightarrow> field_write list" where
  "db_mon_txbuf_handle p =
     [(DATA_UBX_MON_TXBUF_ERRORS, to_double (uint (mon_txbuf_errors p))),
      (DATA_UBX_MON_TXBUF_TUSED, to_double (uint (mon_txbuf_t_used p))),
      (DATA_UBX_MON_TXBUF_TPEAK, to_double (uint (mon_txbuf_t_peak p))),
      (DATA_UBX_MON_TXBUF_AVAIL_0, to_double (uint (mon_txbuf_pending p ! 0))),
      (DATA_UBX_MON_TXBUF_AVAIL_1, to_double (uint (mon_txbuf_pending p ! 1))),
      (DATA_UBX_MON_TXBUF_AVAIL_2, to_double (uint (mon_txbuf_pending p ! 2))),
      (DATA_UBX_MON_TXBUF_AVAIL_3, to_double (uint (mon_txbuf_pending p ! 3))),
      (DATA_UBX_MON_TXBUF_AVAIL_4, to_double (uint (mon_txbuf_pending p ! 4))),
      (DATA_UBX_MON_TXBUF_AVAIL_5, to_double (uint (mon_txbuf_pending p ! 5))),
      (DATA_UBX_MON_TXBUF_USAGE_0, to_double (uint (mon_txbuf_usage p ! 0))),
      (DATA_UBX_MON_TXBUF_USAGE_1, to_double (uint (mon_txbuf_usage p ! 1))),
      (DATA_UBX_MON_TXBUF_USAGE_2, to_double (uint (mon_txbuf_usage p ! 2))),
      (DATA_UBX_MON_TXBUF_USAGE_3, to_double (uint (mon_txbuf_usage p ! 3))),
      (DATA_UBX_MON_TXBUF_USAGE_4, to_double (uint (mon_txbuf_usage p ! 4))),
      (DATA_UBX_MON_TXBUF_USAGE_5, to_double (uint (mon_txbuf_usage p ! 5))),
      (DATA_UBX_MON_TXBUF_PEAK_USAGE_0, to_double (uint (mon_txbuf_peak_usage p ! 0))),
      (DATA_UBX_MON_TXBUF_PEAK_USAGE_1, to_double (uint (mon_txbuf_peak_usage p ! 1))),
      (DATA_UBX_MON_TXBUF_PEAK_USAGE_2, to_double (uint (mon_txbuf_peak_usage p ! 2))),
      (DATA_UBX_MON_TXBUF_PEAK_USAGE_3, to_double (uint (mon_txbuf_peak_usage p ! 3))),
      (DATA_UBX_MON_TXBUF_PEAK_USAGE_4, to_double (uint (mon_txbuf_peak_usage p ! 4))),
      (DATA_UBX_MON_TXBUF_PEAK_USAGE_5, to_double (uint (mon_txbuf_peak_usage p ! 5))),
      (DATA_UBX_MON_TXBUF_LIMIT, to_double (uint (mon_txbuf_pending p ! 0)))]"

definition db_mon_span_block :: "u8 \<Rightarrow> mon_span_rf_block \<Rightarrow> field_write list" where
  "db_mon_span_block i b =
     [(db_index_with_offset DATA_UBX_MON_SPAN_PGA i, to_double (uint (rf_block_pga b)))]"

definition db_mon_span_handle :: "ubx_mon_span \<Rightarrow> field_write list" where
  "db_mon_span_handle p =
     [(DATA_UBX_MON_SPAN_NUM_RF_BLOCKS, to_double (uint (mon_span_num_rf_blocks p)))]
     @ concat (map (\<lambda>i. db_mon_span_block (of_nat i) (mon_span_rf_blocks p ! i))
         [0..<min (unat (mon_span_num_rf_blocks p)) MAX_MON_SPAN_RF_BLOCKS])"

definition db_sec_sig_handle :: "ubx_sec_sig \<Rightarrow> field_write list" where
  "db_sec_sig_handle p =
     [(DATA_UBX_SEC_SIG_VERSION, to_double (uint (sec_sig_version p))),
      (DATA_UBX_SEC_SIG_JAM_FLAGS, to_double (uint (sec_sig_jam_flags p))),
      (DATA_UBX_SEC_SIG_JAM_DET_ENABLED, to_double (uint (sec_sig_jam_det_enabled p))),
      (DATA_UBX_SEC_SIG_JAMMING_STATE, to_double (uint (sec_sig_jamming_state p))),
      (DATA_UBX_SEC_SIG_SPF_FLAGS, to_double (uint (sec_sig_spf_flags p))),
      (DATA_UBX_SEC_SIG_SPF_DET_ENABLED, to_double (uint (sec_sig_spf_det_enabled p))),
      (DATA_UBX_SEC_SIG_SPOOFING_STATE, to_double (uint (sec_sig_spoofing_state p)))]"

lemmas db_handle_defs = db_nav_pvt_handle_def db_nav_sat_handle_def db_nav_sat_block_def
  db_nav_dop_handle_def db_nav_eell_handle_def db_nav_timegps_handle_def
  db_nav_status_handle_def db_tim_tp_handle_def db_nav2_pvt_handle_def
  db_nav2_eell_handle_def db_nav2_dop_handle_def db_nav2_timegps_handle_def
  db_nav_odo_handle_def db_esf_ins_handle_def db_esf_status_handle_def
  db_esf_status_block_def db_esf_meas_handle_def db_esf_meas_block_def
  db_nav_sig_handle_def db_nav_sig_block_def db_nav_timeutc_handle_def
  db_nav_clock_handle_def db_nav_att_handle_def db_rxm_measx_handle_def
  db_rxm_measx_block_def db_mon_io_handle_def db_mon_io_block_def
  db_mon_txbuf_handle_def db_mon_span_handle_def db_mon_span_block_def
  db_sec_sig_handle_def

end
