(* ===== verification/Ubx_Database.thy ===== *)
theory Ubx_Database
  imports Ubx_Db_Handlers
begin

text \<open>
  \<open>ext_libs/ubx_parser/{include,src}/database\<close>: the field store, the message mask, the commit policy and
  the database that ties them together. Every operation of \<open>ubx_database\<close> runs under its mutex, so it
  is one step. A commit callback is named by the kind it is registered for; that it is called, and
  with which snapshot, is the result of \<open>apply_update\<close>.
\<close>

section \<open>\<open>ubx_field_store\<close>\<close>

record field_store =
  fs_values :: "data_field \<Rightarrow> rat"
  fs_valid :: "data_field \<Rightarrow> bool"

definition fs_empty :: field_store where
  "fs_empty = \<lparr>fs_values = (\<lambda>_. 0), fs_valid = (\<lambda>_. False)\<rparr>"

text \<open>\<open>set\<close>, with the value already converted to \<open>double\<close>.\<close>

definition fs_set :: "data_field \<Rightarrow> rat \<Rightarrow> field_store \<Rightarrow> field_store" where
  "fs_set field v st =
     (if field < DATA_PARSE
      then st\<lparr>fs_values := (fs_values st)(field := v), fs_valid := (fs_valid st)(field := True)\<rparr>
      else st)"

text \<open>\<open>get\<close> into a variable: the conversion to its type, or its old value when it returns false.\<close>

definition fs_get :: "(rat \<Rightarrow> 'a) \<Rightarrow> field_store \<Rightarrow> data_field \<Rightarrow> 'a \<Rightarrow> 'a" where
  "fs_get conv st field out =
     (if field < DATA_NUM \<and> fs_valid st field then conv (fs_values st field) else out)"

definition fs_is_valid :: "field_store \<Rightarrow> data_field \<Rightarrow> bool" where
  "fs_is_valid st field \<longleftrightarrow> field < DATA_NUM \<and> fs_valid st field"

definition fs_reset_field :: "data_field \<Rightarrow> field_store \<Rightarrow> field_store" where
  "fs_reset_field field st =
     (if field < DATA_NUM
      then st\<lparr>fs_values := (fs_values st)(field := 0), fs_valid := (fs_valid st)(field := False)\<rparr>
      else st)"

text \<open>The \<open>set\<close> calls of a handler, in their order.\<close>

definition fs_set_all :: "field_write list \<Rightarrow> field_store \<Rightarrow> field_store" where
  "fs_set_all ws st = fold (\<lambda>(f, v). fs_set f v) ws st"

section \<open>\<open>ubx_msg_mask\<close>\<close>

definition bit_of :: "msg_type \<Rightarrow> u64" where
  "bit_of msg = push_bit msg 1"

definition mask_set :: "msg_type \<Rightarrow> u64 \<Rightarrow> u64" where
  "mask_set msg m = m OR bit_of msg"

definition mask_is_set :: "msg_type \<Rightarrow> u64 \<Rightarrow> bool" where
  "mask_is_set msg m \<longleftrightarrow> m AND bit_of msg \<noteq> 0"

definition mask_clear :: "u64 \<Rightarrow> u64 \<Rightarrow> u64" where
  "mask_clear bits m = m AND NOT bits"

section \<open>Commit policy\<close>

datatype commit_kind = High_priority | Low_priority | No_commit

text \<open>Any \<open>i_commit_policy\<close>: its \<open>should_commit\<close>.\<close>

type_synonym commit_policy = "msg_type \<Rightarrow> commit_kind"

record epoch_commit_policy =
  hp_epoch :: msg_type
  lp_epoch :: msg_type

definition epoch_policy_new :: epoch_commit_policy where
  "epoch_policy_new = \<lparr>hp_epoch = MSG_UBX_NAV_PVT, lp_epoch = MSG_UBX_NAV_SAT\<rparr>"

definition set_hp_epoch :: "msg_type \<Rightarrow> epoch_commit_policy \<Rightarrow> epoch_commit_policy" where
  "set_hp_epoch msg p = (if msg \<noteq> MSG_NUM then p\<lparr>hp_epoch := msg\<rparr> else p)"

definition set_lp_epoch :: "msg_type \<Rightarrow> epoch_commit_policy \<Rightarrow> epoch_commit_policy" where
  "set_lp_epoch msg p = (if msg \<noteq> MSG_NUM then p\<lparr>lp_epoch := msg\<rparr> else p)"

definition should_commit :: "epoch_commit_policy \<Rightarrow> commit_policy" where
  "should_commit p msg =
     (if msg = hp_epoch p then High_priority
      else if msg = lp_epoch p then Low_priority
      else No_commit)"

section \<open>\<open>ubx_database\<close>\<close>

record ubx_location_snapshot =
  snap_store :: field_store
  snap_msg_mask :: u64
  snap_kind :: commit_kind

definition snap_get :: "(rat \<Rightarrow> 'a) \<Rightarrow> ubx_location_snapshot \<Rightarrow> data_field \<Rightarrow> 'a \<Rightarrow> 'a" where
  "snap_get conv snap field out = fs_get conv (snap_store snap) field out"

definition snap_is_valid :: "ubx_location_snapshot \<Rightarrow> data_field \<Rightarrow> bool" where
  "snap_is_valid snap field = fs_is_valid (snap_store snap) field"

text \<open>The commit callbacks, by the kinds that have one; the policy may be set to null.\<close>

record ubx_database =
  db_store :: field_store
  db_mask :: u64
  db_policy :: "commit_policy option"
  db_commit_callbacks :: "commit_kind set"

definition ubx_database_new :: "commit_policy option \<Rightarrow> ubx_database" where
  "ubx_database_new policy =
     \<lparr>db_store = fs_empty, db_mask = 0,
      db_policy = Some (case policy of Some p \<Rightarrow> p | None \<Rightarrow> should_commit epoch_policy_new),
      db_commit_callbacks = {}\<rparr>"

definition set_commit_policy :: "commit_policy option \<Rightarrow> ubx_database \<Rightarrow> ubx_database" where
  "set_commit_policy policy db = db\<lparr>db_policy := policy\<rparr>"

text \<open>\<open>cb\<close> says whether the given function is non-empty.\<close>

definition set_commit_callback :: "commit_kind \<Rightarrow> bool \<Rightarrow> ubx_database \<Rightarrow> ubx_database" where
  "set_commit_callback kind cb db =
     (if kind = No_commit then db
      else if cb then db\<lparr>db_commit_callbacks := insert kind (db_commit_callbacks db)\<rparr>
      else db\<lparr>db_commit_callbacks := db_commit_callbacks db - {kind}\<rparr>)"

definition db_snapshot :: "commit_kind \<Rightarrow> ubx_database \<Rightarrow> ubx_location_snapshot" where
  "db_snapshot kind db =
     \<lparr>snap_store = db_store db, snap_msg_mask = db_mask db, snap_kind = kind\<rparr>"

definition db_reset :: "ubx_database \<Rightarrow> ubx_database" where
  "db_reset db = db\<lparr>db_store := fs_empty, db_mask := 0\<rparr>"

definition do_commit :: "commit_kind \<Rightarrow> ubx_database \<Rightarrow> ubx_database \<times> ubx_location_snapshot option" where
  "do_commit kind db =
     (if kind \<notin> db_commit_callbacks db then (db\<lparr>db_mask := 0\<rparr>, None)
      else (db\<lparr>db_mask := 0\<rparr>, Some (db_snapshot kind db)))"

text \<open>
  \<open>apply_update\<close> with the handler of message type \<open>msg\<close>: \<open>None\<close> is the null policy it would
  dereference; otherwise the snapshot the callback of its kind is called with, if one is.
\<close>

definition apply_update ::
    "msg_type \<Rightarrow> field_write list \<Rightarrow> ubx_database
     \<Rightarrow> (ubx_database \<times> ubx_location_snapshot option) option" where
  "apply_update msg ws db =
     (let db = db\<lparr>db_store := fs_set_all ws (db_store db), db_mask := mask_set msg (db_mask db)\<rparr>
      in case db_policy db of
           None \<Rightarrow> None
         | Some policy \<Rightarrow>
             let kind = policy msg
             in if kind \<noteq> No_commit then Some (do_commit kind db) else Some (db, None))"

section \<open>The contents of the store\<close>

text \<open>
  What the readers rely on: a store of slots in which a write to a slot is found by the next reader
  of that slot and by no other. A list of writes without repeated slots then is found as a whole.
\<close>

locale slot_store =
  fixes put :: "'f \<Rightarrow> 'v \<Rightarrow> 's \<Rightarrow> 's"
    and look :: "'s \<Rightarrow> 'f \<Rightarrow> 'v option"
    and slot :: "'f \<Rightarrow> bool"
  assumes look_put: "look (put f v s) g = (if slot f \<and> g = f then Some v else look s g)"
begin

lemma look_all_other:
  "f \<notin> fst ` set ws \<Longrightarrow> look (fold (\<lambda>(f, v). put f v) ws s) f = look s f"
  by (induction ws arbitrary: s) (auto simp: look_put)

lemma look_all_written:
  assumes "distinct (map fst ws)" and "(f, v) \<in> set ws" and "slot f"
  shows "look (fold (\<lambda>(f, v). put f v) ws s) f = Some v"
  using assms
proof (induction ws arbitrary: s)
  case (Cons w ws)
  obtain g u where w: "w = (g, u)" by fastforce
  show ?case
  proof (cases "(f, v) = w")
    case True
    then have "f \<notin> fst ` set ws" using Cons.prems(1) by (auto simp: w)
    then show ?thesis using True Cons.prems(3) by (simp add: w look_all_other look_put)
  next
    case False
    then have "(f, v) \<in> set ws" "distinct (map fst ws)" using Cons.prems by simp_all
    from Cons.IH [OF this(2,1) Cons.prems(3)] show ?thesis by (simp add: w)
  qed
qed simp

end

definition fs_look :: "field_store \<Rightarrow> data_field \<Rightarrow> rat option" where
  "fs_look st f = (if fs_valid st f then Some (fs_values st f) else None)"

interpretation fs: slot_store fs_set fs_look "\<lambda>f. f < DATA_PARSE"
  by unfold_locales (simp add: fs_look_def fs_set_def)

lemmas fs_look_all_other = fs.look_all_other [folded fs_set_all_def]
lemmas fs_look_all_written = fs.look_all_written [folded fs_set_all_def]

lemma fs_look_empty [simp]: "fs_look fs_empty f = None"
  by (simp add: fs_look_def fs_empty_def)

text \<open>Only slots of the store are ever marked valid.\<close>

definition store_bounded :: "field_store \<Rightarrow> bool" where
  "store_bounded st \<longleftrightarrow> (\<forall>f. fs_valid st f \<longrightarrow> f < DATA_PARSE)"

lemma store_bounded_empty [simp]: "store_bounded fs_empty"
  by (simp add: store_bounded_def fs_empty_def)

lemma store_bounded_set: "store_bounded st \<Longrightarrow> store_bounded (fs_set f v st)"
  by (auto simp: store_bounded_def fs_set_def)

lemma store_bounded_set_all: "store_bounded st \<Longrightarrow> store_bounded (fs_set_all ws st)"
  unfolding fs_set_all_def by (induction ws arbitrary: st) (auto simp: store_bounded_set)

lemma fs_get_look:
  "store_bounded st \<Longrightarrow> fs_get conv st f out = (case fs_look st f of Some v \<Rightarrow> conv v | None \<Rightarrow> out)"
  by (auto simp: fs_get_def fs_look_def store_bounded_def DATA_NUM_def DATA_PARSE_def)

lemma fs_is_valid_look: "store_bounded st \<Longrightarrow> fs_is_valid st f \<longleftrightarrow> fs_look st f \<noteq> None"
  by (auto simp: fs_is_valid_def fs_look_def store_bounded_def DATA_NUM_def DATA_PARSE_def)

end
