(* ===== verification/Shared_Buffers.thy ===== *)
theory Shared_Buffers
  imports Ieee_Round
begin

text \<open>
  \<open>shared_buffer/*_data_buffer.h\<close>: the buffers the database wrapper hands to the clients, one record
  each with the members of the struct (prefixed), and the zero value that value-initialisation gives.
  A \<open>float\<close> or \<open>double\<close> member is the rational it denotes; a C array is a list of its length.
  \<open>global_constants.h\<close>: the kinds of buffers the update signal names.
\<close>

datatype buffer_type =
    Buf_location
  | Buf_satellites
  | Buf_timing
  | Buf_attitude
  | Buf_dop
  | Buf_raw_measurements
  | Buf_monitor
  | Buf_security
  | Buf_dead_reckoning_out
  | Buf_dead_reckoning_in
  | Buf_ack_response
  | Buf_nack_response
  | Buf_chip_version
  | Buf_valget_response
  | Buf_default_config_applied
  | Buf_backup_operation_completed
  | Buf_restore_operation_completed
  | Buf_datum_config
  | Buf_nmea_data

section \<open>\<open>location_data_buffer.h\<close>\<close>

record location_data =
  loc_latitude_deg :: rat
  loc_longitude_deg :: rat
  loc_altitude_ellipsoid_mm :: rat
  loc_altitude_msl_mm :: rat
  loc_h_accuracy_mm :: rat
  loc_v_accuracy_mm :: rat
  loc_speed_accuracy_mmps :: rat
  loc_heading_accuracy_deg :: rat
  loc_vel_n_mmps :: rat
  loc_vel_e_mmps :: rat
  loc_vel_d_mmps :: rat
  loc_ground_speed_mmps :: rat
  loc_vehicle_heading_deg :: rat
  loc_motion_heading_deg :: rat
  loc_magnetic_declination_deg :: rat
  loc_fix_type :: u8
  loc_num_sv :: u8
  loc_flags :: u8
  loc_flags2 :: u8
  loc_year :: u16
  loc_month :: u8
  loc_day :: u8
  loc_hour :: u8
  loc_minute :: u8
  loc_second :: u8
  loc_time_valid :: u8
  loc_millisecond :: u32
  loc_microsecond :: i32
  loc_i_tow_ms :: u32
  loc_utc_timestamp_ms :: i64
  loc_valid :: bool

definition location_data_zero :: location_data where
  "location_data_zero =
     \<lparr>loc_latitude_deg = 0, loc_longitude_deg = 0, loc_altitude_ellipsoid_mm = 0,
      loc_altitude_msl_mm = 0, loc_h_accuracy_mm = 0, loc_v_accuracy_mm = 0,
      loc_speed_accuracy_mmps = 0, loc_heading_accuracy_deg = 0, loc_vel_n_mmps = 0,
      loc_vel_e_mmps = 0, loc_vel_d_mmps = 0, loc_ground_speed_mmps = 0,
      loc_vehicle_heading_deg = 0, loc_motion_heading_deg = 0, loc_magnetic_declination_deg = 0,
      loc_fix_type = 0, loc_num_sv = 0, loc_flags = 0, loc_flags2 = 0, loc_year = 0,
      loc_month = 0, loc_day = 0, loc_hour = 0, loc_minute = 0, loc_second = 0,
      loc_time_valid = 0, loc_millisecond = 0, loc_microsecond = 0, loc_i_tow_ms = 0,
      loc_utc_timestamp_ms = 0, loc_valid = False\<rparr>"

section \<open>\<open>dop_data_buffer.h\<close>\<close>

record dop_data =
  dop_i_tow_ms :: u32
  dop_gdop :: rat
  dop_pdop :: rat
  dop_tdop :: rat
  dop_vdop :: rat
  dop_hdop :: rat
  dop_ndop :: rat
  dop_edop :: rat
  dop_valid :: bool

definition dop_data_zero :: dop_data where
  "dop_data_zero =
     \<lparr>dop_i_tow_ms = 0, dop_gdop = 0, dop_pdop = 0, dop_tdop = 0, dop_vdop = 0, dop_hdop = 0,
      dop_ndop = 0, dop_edop = 0, dop_valid = False\<rparr>"

section \<open>\<open>timing_data_buffer.h\<close>\<close>

record timing_data =
  tim_tow_ms :: i64
  tim_q_err_ps :: i32
  tim_time_base :: u8
  tim_time_ref :: u8
  tim_utc_standard :: u8
  tim_utc_available :: bool
  tim_q_err_valid :: bool
  tim_gps_tow_ms :: u32
  tim_gps_week :: u16
  tim_leap_seconds :: i8
  tim_ttff_ms :: u64
  tim_utc_i_tow_ms :: u32
  tim_utc_t_acc_ns :: u32
  tim_utc_nano_ns :: i32
  tim_utc_year :: u16
  tim_utc_month :: u8
  tim_utc_day :: u8
  tim_utc_hour :: u8
  tim_utc_min :: u8
  tim_utc_sec :: u8
  tim_utc_valid_flags :: u8
  tim_clock_i_tow_ms :: u32
  tim_clock_bias_ns :: i32
  tim_clock_drift_nsps :: i32
  tim_clock_t_acc_ns :: u32
  tim_clock_f_acc_psps :: u32
  tim_valid :: bool

definition timing_data_zero :: timing_data where
  "timing_data_zero =
     \<lparr>tim_tow_ms = 0, tim_q_err_ps = 0, tim_time_base = 0, tim_time_ref = 0,
      tim_utc_standard = 0, tim_utc_available = False, tim_q_err_valid = False,
      tim_gps_tow_ms = 0, tim_gps_week = 0, tim_leap_seconds = 0, tim_ttff_ms = 0,
      tim_utc_i_tow_ms = 0, tim_utc_t_acc_ns = 0, tim_utc_nano_ns = 0, tim_utc_year = 0,
      tim_utc_month = 0, tim_utc_day = 0, tim_utc_hour = 0, tim_utc_min = 0, tim_utc_sec = 0,
      tim_utc_valid_flags = 0, tim_clock_i_tow_ms = 0, tim_clock_bias_ns = 0,
      tim_clock_drift_nsps = 0, tim_clock_t_acc_ns = 0, tim_clock_f_acc_psps = 0,
      tim_valid = False\<rparr>"

section \<open>\<open>satellites_data_buffer.h\<close>\<close>

definition GNSS_MAX_SV_COUNT :: u8 where [ubx_consts]: "GNSS_MAX_SV_COUNT = 64"

record satellite_record =
  svr_gnss_id :: u8
  svr_sv_id :: u8
  svr_cno :: u8
  svr_elevation_deg :: i8
  svr_azimuth_deg :: i16
  svr_used :: bool
  svr_has_almanac :: bool
  svr_has_ephemeris :: bool
  svr_healthy :: bool
  svr_diff_correction :: bool
  svr_sbas_correction :: bool
  svr_rtcm_correction :: bool

definition satellite_record_zero :: satellite_record where
  "satellite_record_zero =
     \<lparr>svr_gnss_id = 0, svr_sv_id = 0, svr_cno = 0, svr_elevation_deg = 0, svr_azimuth_deg = 0,
      svr_used = False, svr_has_almanac = False, svr_has_ephemeris = False, svr_healthy = False,
      svr_diff_correction = False, svr_sbas_correction = False, svr_rtcm_correction = False\<rparr>"

record satellites_data =
  sats_num_svs :: u8
  sats_svs :: "satellite_record list"
  sats_valid :: bool

definition satellites_data_zero :: satellites_data where
  "satellites_data_zero =
     \<lparr>sats_num_svs = 0, sats_svs = replicate 64 satellite_record_zero, sats_valid = False\<rparr>"

section \<open>\<open>attitude_data_buffer.h\<close>\<close>

record attitude_data =
  att_i_tow_ms :: u32
  att_version :: u8
  att_roll_deg :: rat
  att_pitch_deg :: rat
  att_heading_deg :: rat
  att_acc_roll_deg :: rat
  att_acc_pitch_deg :: rat
  att_acc_heading_deg :: rat
  att_valid :: bool

definition attitude_data_zero :: attitude_data where
  "attitude_data_zero =
     \<lparr>att_i_tow_ms = 0, att_version = 0, att_roll_deg = 0, att_pitch_deg = 0,
      att_heading_deg = 0, att_acc_roll_deg = 0, att_acc_pitch_deg = 0, att_acc_heading_deg = 0,
      att_valid = False\<rparr>"

section \<open>\<open>dead_reckoning_data_buffer.h\<close>\<close>

definition GNSS_MAX_DR_SENSORS :: u8 where [ubx_consts]: "GNSS_MAX_DR_SENSORS = 32"

record dr_sensor_out_record =
  dso_type :: u8
  dso_used :: bool
  dso_ready :: bool
  dso_calib_status :: u8
  dso_time_status :: u8
  dso_freq :: u8
  dso_faults :: u8

definition dr_sensor_out_record_zero :: dr_sensor_out_record where
  "dr_sensor_out_record_zero =
     \<lparr>dso_type = 0, dso_used = False, dso_ready = False, dso_calib_status = 0,
      dso_time_status = 0, dso_freq = 0, dso_faults = 0\<rparr>"

record dr_sensor_in_record =
  dsi_type :: u8
  dsi_value :: rat

definition dr_sensor_in_record_zero :: dr_sensor_in_record where
  "dr_sensor_in_record_zero =
     \<lparr>dsi_type = 0, dsi_value = 0\<rparr>"

record dead_reckoning_data_out =
  dro_ins_i_tow_ms :: u32
  dro_ins_bitfield0 :: u32
  dro_x_ang_rate_dps :: rat
  dro_y_ang_rate_dps :: rat
  dro_z_ang_rate_dps :: rat
  dro_x_accel_mss :: rat
  dro_y_accel_mss :: rat
  dro_z_accel_mss :: rat
  dro_ins_valid :: bool
  dro_status_i_tow_ms :: u32
  dro_fusion_mode :: u8
  dro_num_sens :: u8
  dro_sensors :: "dr_sensor_out_record list"
  dro_status_valid :: bool
  dro_valid :: bool

definition dead_reckoning_data_out_zero :: dead_reckoning_data_out where
  "dead_reckoning_data_out_zero =
     \<lparr>dro_ins_i_tow_ms = 0, dro_ins_bitfield0 = 0, dro_x_ang_rate_dps = 0,
      dro_y_ang_rate_dps = 0, dro_z_ang_rate_dps = 0, dro_x_accel_mss = 0, dro_y_accel_mss = 0,
      dro_z_accel_mss = 0, dro_ins_valid = False, dro_status_i_tow_ms = 0, dro_fusion_mode = 0,
      dro_num_sens = 0, dro_sensors = replicate 32 dr_sensor_out_record_zero,
      dro_status_valid = False, dro_valid = False\<rparr>"

record dead_reckoning_data_in =
  dri_time_tag_ms :: u32
  dri_wheeltick_dir_backward :: bool
  dri_num_sens :: u8
  dri_sensors :: "dr_sensor_in_record list"

definition dead_reckoning_data_in_zero :: dead_reckoning_data_in where
  "dead_reckoning_data_in_zero =
     \<lparr>dri_time_tag_ms = 0, dri_wheeltick_dir_backward = False, dri_num_sens = 0,
      dri_sensors = replicate 32 dr_sensor_in_record_zero\<rparr>"

section \<open>\<open>monitor_data_buffer.h\<close>\<close>

definition GNSS_MAX_MON_IO_PORTS :: u8 where [ubx_consts]: "GNSS_MAX_MON_IO_PORTS = 8"

definition GNSS_MON_TXBUF_TARGETS :: u8 where [ubx_consts]: "GNSS_MON_TXBUF_TARGETS = 6"

definition GNSS_MON_SPAN_RF_BLOCKS :: u8 where [ubx_consts]: "GNSS_MON_SPAN_RF_BLOCKS = 4"

record mon_io_port_record =
  iop_rx_bytes :: u32
  iop_tx_bytes :: u32
  iop_parity_errs :: u16
  iop_framing_errs :: u16
  iop_overrun_errs :: u16
  iop_break_cond :: u16
  iop_rx_busy :: u8
  iop_tx_busy :: u8

definition mon_io_port_record_zero :: mon_io_port_record where
  "mon_io_port_record_zero =
     \<lparr>iop_rx_bytes = 0, iop_tx_bytes = 0, iop_parity_errs = 0, iop_framing_errs = 0,
      iop_overrun_errs = 0, iop_break_cond = 0, iop_rx_busy = 0, iop_tx_busy = 0\<rparr>"

record mon_txbuf_data =
  txb_pending :: "u16 list"
  txb_usage :: "u8 list"
  txb_peak_usage :: "u8 list"
  txb_t_used :: u8
  txb_t_peak :: u8
  txb_errors :: u8

definition mon_txbuf_data_zero :: mon_txbuf_data where
  "mon_txbuf_data_zero =
     \<lparr>txb_pending = replicate 6 0, txb_usage = replicate 6 0, txb_peak_usage = replicate 6 0,
      txb_t_used = 0, txb_t_peak = 0, txb_errors = 0\<rparr>"

record mon_span_data =
  spn_num_rf_blocks :: u8
  spn_pga :: "u8 list"

definition mon_span_data_zero :: mon_span_data where
  "mon_span_data_zero =
     \<lparr>spn_num_rf_blocks = 0, spn_pga = replicate 4 0\<rparr>"

record monitor_data =
  mon_num_ports :: u8
  mon_ports :: "mon_io_port_record list"
  mon_io_valid :: bool
  mon_txbuf :: mon_txbuf_data
  mon_txbuf_valid :: bool
  mon_span :: mon_span_data
  mon_span_valid :: bool
  mon_valid :: bool

definition monitor_data_zero :: monitor_data where
  "monitor_data_zero =
     \<lparr>mon_num_ports = 0, mon_ports = replicate 8 mon_io_port_record_zero, mon_io_valid = False,
      mon_txbuf = mon_txbuf_data_zero, mon_txbuf_valid = False, mon_span = mon_span_data_zero,
      mon_span_valid = False, mon_valid = False\<rparr>"

section \<open>\<open>raw_measurements_data_buffer.h\<close>\<close>

definition GNSS_MAX_MEASX_SV_COUNT :: u8 where [ubx_consts]: "GNSS_MAX_MEASX_SV_COUNT = 64"

record raw_sv_record =
  rsv_gnss_id :: u8
  rsv_sv_id :: u8
  rsv_cno :: u8
  rsv_mpath_indic :: u8
  rsv_doppler_ms :: i32
  rsv_doppler_hz :: i32
  rsv_whole_chips :: u16
  rsv_frac_chips :: u16
  rsv_code_phase :: u32
  rsv_int_code_phase :: u8
  rsv_pseu_range_rms_err :: u8

definition raw_sv_record_zero :: raw_sv_record where
  "raw_sv_record_zero =
     \<lparr>rsv_gnss_id = 0, rsv_sv_id = 0, rsv_cno = 0, rsv_mpath_indic = 0, rsv_doppler_ms = 0,
      rsv_doppler_hz = 0, rsv_whole_chips = 0, rsv_frac_chips = 0, rsv_code_phase = 0,
      rsv_int_code_phase = 0, rsv_pseu_range_rms_err = 0\<rparr>"

record raw_measurements_data =
  rawm_gps_tow_ms :: u32
  rawm_glo_tow_ms :: u32
  rawm_bds_tow_ms :: u32
  rawm_qzss_tow_ms :: u32
  rawm_gps_tow_acc :: u16
  rawm_glo_tow_acc :: u16
  rawm_bds_tow_acc :: u16
  rawm_qzss_tow_acc :: u16
  rawm_flags :: u8
  rawm_num_svs :: u8
  rawm_svs :: "raw_sv_record list"
  rawm_valid :: bool

definition raw_measurements_data_zero :: raw_measurements_data where
  "raw_measurements_data_zero =
     \<lparr>rawm_gps_tow_ms = 0, rawm_glo_tow_ms = 0, rawm_bds_tow_ms = 0, rawm_qzss_tow_ms = 0,
      rawm_gps_tow_acc = 0, rawm_glo_tow_acc = 0, rawm_bds_tow_acc = 0, rawm_qzss_tow_acc = 0,
      rawm_flags = 0, rawm_num_svs = 0, rawm_svs = replicate 64 raw_sv_record_zero,
      rawm_valid = False\<rparr>"

section \<open>\<open>security_data_buffer.h\<close>\<close>

record security_data =
  secd_jam_flags :: u8
  secd_jam_det_enabled :: u8
  secd_jamming_state :: u8
  secd_spf_flags :: u8
  secd_spf_det_enabled :: u8
  secd_spoofing_state :: u8
  secd_valid :: bool

definition security_data_zero :: security_data where
  "security_data_zero =
     \<lparr>secd_jam_flags = 0, secd_jam_det_enabled = 0, secd_jamming_state = 0, secd_spf_flags = 0,
      secd_spf_det_enabled = 0, secd_spoofing_state = 0, secd_valid = False\<rparr>"

lemmas buffer_zero_defs = location_data_zero_def
  dop_data_zero_def
  timing_data_zero_def
  satellite_record_zero_def
  satellites_data_zero_def
  attitude_data_zero_def
  dr_sensor_out_record_zero_def
  dr_sensor_in_record_zero_def
  dead_reckoning_data_out_zero_def
  dead_reckoning_data_in_zero_def
  mon_io_port_record_zero_def
  mon_txbuf_data_zero_def
  mon_span_data_zero_def
  monitor_data_zero_def
  raw_sv_record_zero_def
  raw_measurements_data_zero_def
  security_data_zero_def

end
