(* ===== verification/Ubx_Database_Wrapper.thy ===== *)
theory Ubx_Database_Wrapper
  imports Ubx_Database Shared_Buffers Ubx_Decoding
begin

text \<open>
  \<open>ubx_database_adapter\<close>, which connects the decoders with the database, and
  \<open>shared_buffer/ubx_database_wrapper\<close>, which turns each committed snapshot into the buffers the clients
  read. The commit callbacks and the emissions of the update signal happen inside \<open>apply_update\<close>, on
  the parser's thread; the buffers are each replaced as a whole under their mutex.
\<close>

section \<open>\<open>ubx_database_adapter\<close>\<close>

text \<open>
  The decoder stub \<open>register_with_parser\<close> makes for a handler, by its message type: the decoder of the
  message, with the handler's \<open>update\<close> and the database's \<open>apply_update\<close> as callback. Types without a
  case are skipped.
\<close>

definition decoder_stub :: "msg_type \<Rightarrow> ubx_message i_message_decoder option" where
  "decoder_stub mt =
     (if mt = MSG_UBX_NAV_PVT then Some nav_pvt_decoder
      else if mt = MSG_UBX_NAV_SAT then Some nav_sat_decoder
      else if mt = MSG_UBX_NAV_DOP then Some nav_dop_decoder
      else if mt = MSG_UBX_NAV_EELL then Some nav_eell_decoder
      else if mt = MSG_UBX_NAV_TIMEGPS then Some nav_timegps_decoder
      else if mt = MSG_UBX_NAV_STATUS then Some nav_status_decoder
      else if mt = MSG_UBX_TIM_TP then Some tim_tp_decoder
      else if mt = MSG_UBX_NAV2_PVT then Some nav2_pvt_decoder
      else if mt = MSG_UBX_NAV2_EELL then Some nav2_eell_decoder
      else if mt = MSG_UBX_NAV2_DOP then Some nav2_dop_decoder
      else if mt = MSG_UBX_NAV2_TIMEGPS then Some nav2_timegps_decoder
      else if mt = MSG_UBX_NAV_ODO then Some nav_odo_decoder
      else if mt = MSG_UBX_ESF_INS then Some esf_ins_decoder
      else if mt = MSG_UBX_ESF_STATUS then Some esf_status_decoder
      else if mt = MSG_UBX_ESF_MEAS then Some esf_meas_decoder
      else if mt = MSG_UBX_NAV_SIG then Some nav_sig_decoder
      else if mt = MSG_UBX_NAV_TIMEUTC then Some nav_timeutc_decoder
      else if mt = MSG_UBX_NAV_CLOCK then Some nav_clock_decoder
      else if mt = MSG_UBX_NAV_ATT then Some nav_att_decoder
      else if mt = MSG_UBX_RXM_MEASX then Some rxm_measx_decoder
      else if mt = MSG_UBX_MON_IO then Some mon_io_decoder
      else if mt = MSG_UBX_MON_TXBUF then Some mon_txbuf_decoder
      else if mt = MSG_UBX_SEC_SIG then Some sec_sig_decoder
      else None)"

fun adapter_register :: "msg_type list \<Rightarrow> ubx_message ubx_decoder_registry \<Rightarrow> ubx_message ubx_decoder_registry" where
  "adapter_register [] reg = reg"
| "adapter_register (mt # handlers) reg =
     adapter_register handlers
       (case decoder_stub mt of None \<Rightarrow> reg | Some d \<Rightarrow> register_decoder (Some d) reg)"

text \<open>The callback of the stub that decoded a message: which handler it drives, and what that writes.\<close>

fun handler_writes :: "ubx_message \<Rightarrow> (msg_type \<times> field_write list) option" where
  "handler_writes (Nav_pvt m) = Some (MSG_UBX_NAV_PVT, db_nav_pvt_handle m)"
| "handler_writes (Nav_sat m) = Some (MSG_UBX_NAV_SAT, db_nav_sat_handle m)"
| "handler_writes (Nav_dop m) = Some (MSG_UBX_NAV_DOP, db_nav_dop_handle m)"
| "handler_writes (Nav_eell m) = Some (MSG_UBX_NAV_EELL, db_nav_eell_handle m)"
| "handler_writes (Nav_timegps m) = Some (MSG_UBX_NAV_TIMEGPS, db_nav_timegps_handle m)"
| "handler_writes (Nav_status m) = Some (MSG_UBX_NAV_STATUS, db_nav_status_handle m)"
| "handler_writes (Tim_tp m) = Some (MSG_UBX_TIM_TP, db_tim_tp_handle m)"
| "handler_writes (Nav2_pvt m) = Some (MSG_UBX_NAV2_PVT, db_nav2_pvt_handle m)"
| "handler_writes (Nav2_eell m) = Some (MSG_UBX_NAV2_EELL, db_nav2_eell_handle m)"
| "handler_writes (Nav2_dop m) = Some (MSG_UBX_NAV2_DOP, db_nav2_dop_handle m)"
| "handler_writes (Nav2_timegps m) = Some (MSG_UBX_NAV2_TIMEGPS, db_nav2_timegps_handle m)"
| "handler_writes (Nav_odo m) = Some (MSG_UBX_NAV_ODO, db_nav_odo_handle m)"
| "handler_writes (Esf_ins m) = Some (MSG_UBX_ESF_INS, db_esf_ins_handle m)"
| "handler_writes (Esf_status m) = Some (MSG_UBX_ESF_STATUS, db_esf_status_handle m)"
| "handler_writes (Esf_meas m) = Some (MSG_UBX_ESF_MEAS, db_esf_meas_handle m)"
| "handler_writes (Nav_sig m) = Some (MSG_UBX_NAV_SIG, db_nav_sig_handle m)"
| "handler_writes (Nav_timeutc m) = Some (MSG_UBX_NAV_TIMEUTC, db_nav_timeutc_handle m)"
| "handler_writes (Nav_clock m) = Some (MSG_UBX_NAV_CLOCK, db_nav_clock_handle m)"
| "handler_writes (Nav_att m) = Some (MSG_UBX_NAV_ATT, db_nav_att_handle m)"
| "handler_writes (Rxm_measx m) = Some (MSG_UBX_RXM_MEASX, db_rxm_measx_handle m)"
| "handler_writes (Mon_io m) = Some (MSG_UBX_MON_IO, db_mon_io_handle m)"
| "handler_writes (Mon_txbuf m) = Some (MSG_UBX_MON_TXBUF, db_mon_txbuf_handle m)"
| "handler_writes (Mon_span m) = Some (MSG_UBX_MON_SPAN, db_mon_span_handle m)"
| "handler_writes (Sec_sig m) = Some (MSG_UBX_SEC_SIG, db_sec_sig_handle m)"
| "handler_writes _ = None"

section \<open>Reading a snapshot into the buffers\<close>

definition read_location :: "ubx_location_snapshot \<Rightarrow> location_data" where
  "read_location snap =
     location_data_zero\<lparr>loc_latitude_deg := snap_get id snap DATA_UBX_NAV_PVT_LAT 0,
        loc_longitude_deg := snap_get id snap DATA_UBX_NAV_PVT_LON 0,
        loc_altitude_ellipsoid_mm := snap_get id snap DATA_UBX_NAV_PVT_ALT 0,
        loc_altitude_msl_mm := snap_get id snap DATA_UBX_NAV_PVT_HMSL 0,
        loc_h_accuracy_mm := snap_get double_to_float snap DATA_UBX_NAV_PVT_H_ACC 0,
        loc_v_accuracy_mm := snap_get double_to_float snap DATA_UBX_NAV_PVT_V_ACC 0,
        loc_speed_accuracy_mmps := snap_get double_to_float snap DATA_UBX_NAV_PVT_S_ACC 0,
        loc_heading_accuracy_deg := snap_get double_to_float snap DATA_UBX_NAV_PVT_HEAD_ACC 0,
        loc_vel_n_mmps := snap_get double_to_float snap DATA_UBX_NAV_PVT_VEL_N 0,
        loc_vel_e_mmps := snap_get double_to_float snap DATA_UBX_NAV_PVT_VEL_E 0,
        loc_vel_d_mmps := snap_get double_to_float snap DATA_UBX_NAV_PVT_VEL_D 0,
        loc_ground_speed_mmps := snap_get double_to_float snap DATA_UBX_NAV_PVT_GSPEED 0,
        loc_vehicle_heading_deg := snap_get double_to_float snap DATA_UBX_NAV_PVT_VEHICLE_HEADING_DEGREE 0,
        loc_motion_heading_deg := snap_get double_to_float snap DATA_UBX_NAV_PVT_MOTION_HEADING_DEGREE 0,
        loc_magnetic_declination_deg := snap_get double_to_float snap DATA_UBX_NAV_PVT_MAGNETIC_DECLINATION 0,
        loc_fix_type := snap_get to_word snap DATA_UBX_NAV_PVT_FIXTYPE 0,
        loc_num_sv := snap_get to_word snap DATA_UBX_NAV_PVT_NUMSV 0,
        loc_flags := snap_get to_word snap DATA_UBX_NAV_PVT_FLAGS 0,
        loc_flags2 := snap_get to_word snap DATA_UBX_NAV_PVT_FLAGS2 0,
        loc_year := snap_get to_word snap DATA_UBX_NAV_PVT_YEAR 0,
        loc_month := snap_get to_word snap DATA_UBX_NAV_PVT_MONTH 0,
        loc_day := snap_get to_word snap DATA_UBX_NAV_PVT_DAY 0,
        loc_hour := snap_get to_word snap DATA_UBX_NAV_PVT_HOUR 0,
        loc_minute := snap_get to_word snap DATA_UBX_NAV_PVT_MINUTE 0,
        loc_second := snap_get to_word snap DATA_UBX_NAV_PVT_SECOND 0,
        loc_time_valid := snap_get to_word snap DATA_UBX_NAV_PVT_TIME_VALID 0,
        loc_millisecond := snap_get to_word snap DATA_UBX_NAV_PVT_MILI_SECOND 0,
        loc_microsecond := snap_get to_word snap DATA_UBX_NAV_PVT_MICRO_SECOND 0,
        loc_i_tow_ms := snap_get to_word snap DATA_UBX_NAV_PVT_ITOW 0,
        loc_utc_timestamp_ms := snap_get to_word snap DATA_UBX_NAV_PVT_TIMESTAMP 0,
        loc_valid := True\<rparr>"

text \<open>The supplements of the timing buffer: what the messages behind it have left in the store.\<close>

definition read_tp :: "ubx_location_snapshot \<Rightarrow> timing_data \<Rightarrow> timing_data" where
  "read_tp snap tim =
     tim\<lparr>tim_tow_ms := snap_get to_word snap DATA_TIME_PULSE_TIMESTAMP 0,
        tim_q_err_ps := snap_get to_word snap DATA_TIME_PULSE_QUANTIZATION_ERROR 0,
        tim_time_base := snap_get to_word snap DATA_TIME_PULSE_UTC_TIME_BASE 0,
        tim_time_ref := snap_get to_word snap DATA_TIME_PULSE_TIME_REF 0,
        tim_utc_standard := snap_get to_word snap DATA_TIME_PULSE_UTC_STANDARD 0,
        tim_utc_available := snap_get to_bool snap DATA_TIME_PULSE_UTC_AVAILABLE False,
        tim_q_err_valid := snap_get to_bool snap DATA_TIME_PULSE_Q_ERROR_VALID False\<rparr>"

definition read_gps :: "ubx_location_snapshot \<Rightarrow> timing_data \<Rightarrow> timing_data" where
  "read_gps snap tim =
     tim\<lparr>tim_gps_tow_ms := snap_get to_word snap DATA_UBX_NAV_GPSTIME_TOW 0,
        tim_gps_week := snap_get to_word snap DATA_UBX_NAV_GPSTIME_WEEK 0,
        tim_leap_seconds := snap_get to_word snap DATA_UBX_NAV_GPSTIME_LEAP_SECONDS 0\<rparr>"

definition read_ttff :: "ubx_location_snapshot \<Rightarrow> timing_data \<Rightarrow> timing_data" where
  "read_ttff snap tim =
     tim\<lparr>tim_ttff_ms := snap_get to_word snap DATA_UBX_TTFF 0\<rparr>"

definition read_timeutc :: "ubx_location_snapshot \<Rightarrow> timing_data \<Rightarrow> timing_data" where
  "read_timeutc snap tim =
     tim\<lparr>tim_utc_i_tow_ms := snap_get to_word snap DATA_UBX_NAV_TIMEUTC_ITOW 0,
        tim_utc_t_acc_ns := snap_get to_word snap DATA_UBX_NAV_TIMEUTC_T_ACC 0,
        tim_utc_nano_ns := snap_get to_word snap DATA_UBX_NAV_TIMEUTC_NANO 0,
        tim_utc_year := snap_get to_word snap DATA_UBX_NAV_TIMEUTC_YEAR 0,
        tim_utc_month := snap_get to_word snap DATA_UBX_NAV_TIMEUTC_MONTH 0,
        tim_utc_day := snap_get to_word snap DATA_UBX_NAV_TIMEUTC_DAY 0,
        tim_utc_hour := snap_get to_word snap DATA_UBX_NAV_TIMEUTC_HOUR 0,
        tim_utc_min := snap_get to_word snap DATA_UBX_NAV_TIMEUTC_MIN 0,
        tim_utc_sec := snap_get to_word snap DATA_UBX_NAV_TIMEUTC_SEC 0,
        tim_utc_valid_flags := snap_get to_word snap DATA_UBX_NAV_TIMEUTC_VALID 0\<rparr>"

definition read_clock :: "ubx_location_snapshot \<Rightarrow> timing_data \<Rightarrow> timing_data" where
  "read_clock snap tim =
     tim\<lparr>tim_clock_i_tow_ms := snap_get to_word snap DATA_UBX_NAV_CLOCK_ITOW 0,
        tim_clock_bias_ns := snap_get to_word snap DATA_UBX_NAV_CLOCK_CLKB 0,
        tim_clock_drift_nsps := snap_get to_word snap DATA_UBX_NAV_CLOCK_CLKD 0,
        tim_clock_t_acc_ns := snap_get to_word snap DATA_UBX_NAV_CLOCK_T_ACC 0,
        tim_clock_f_acc_psps := snap_get to_word snap DATA_UBX_NAV_CLOCK_F_ACC 0\<rparr>"

definition read_timing :: "ubx_location_snapshot \<Rightarrow> timing_data" where
  "read_timing snap =
     (let tim = timing_data_zero;
          has_tp = snap_is_valid snap DATA_TIME_PULSE_TIMESTAMP;
          tim = (if has_tp then read_tp snap tim else tim);
          has_gps = snap_is_valid snap DATA_UBX_NAV_GPSTIME_TOW;
          tim = (if has_gps then read_gps snap tim else tim);
          has_ttff = snap_is_valid snap DATA_UBX_TTFF;
          tim = (if has_ttff then read_ttff snap tim else tim);
          has_timeutc = snap_is_valid snap DATA_UBX_NAV_TIMEUTC_ITOW;
          tim = (if has_timeutc then read_timeutc snap tim else tim);
          has_clock = snap_is_valid snap DATA_UBX_NAV_CLOCK_ITOW;
          tim = (if has_clock then read_clock snap tim else tim)
      in tim\<lparr>tim_valid := has_tp \<or> has_gps \<or> has_ttff \<or> has_timeutc \<or> has_clock\<rparr>)"

definition read_attitude :: "ubx_location_snapshot \<Rightarrow> attitude_data" where
  "read_attitude snap =
     attitude_data_zero\<lparr>att_i_tow_ms := snap_get to_word snap DATA_UBX_NAV_ATT_ITOW 0,
        att_version := snap_get to_word snap DATA_UBX_NAV_ATT_VERSION 0,
        att_roll_deg := snap_get double_to_float snap DATA_UBX_NAV_ATT_ROLL 0,
        att_pitch_deg := snap_get double_to_float snap DATA_UBX_NAV_ATT_PITCH 0,
        att_heading_deg := snap_get double_to_float snap DATA_UBX_NAV_ATT_HEADING 0,
        att_acc_roll_deg := snap_get double_to_float snap DATA_UBX_NAV_ATT_ACC_ROLL 0,
        att_acc_pitch_deg := snap_get double_to_float snap DATA_UBX_NAV_ATT_ACC_PITCH 0,
        att_acc_heading_deg := snap_get double_to_float snap DATA_UBX_NAV_ATT_ACC_HEADING 0,
        att_valid := True\<rparr>"

definition read_dop :: "ubx_location_snapshot \<Rightarrow> dop_data" where
  "read_dop snap =
     dop_data_zero\<lparr>dop_gdop := snap_get double_to_float snap DATA_UBX_NAV_GEOMETRIC_DILUTION_OF_PRECISION 0,
        dop_pdop := snap_get double_to_float snap DATA_UBX_NAV_POSITION_DILUTION_OF_PRECISION 0,
        dop_tdop := snap_get double_to_float snap DATA_UBX_NAV_TIME_DILUTION_OF_PRECISION 0,
        dop_vdop := snap_get double_to_float snap DATA_UBX_NAV_VERTICAL_DILUTION_OF_PRECISION 0,
        dop_hdop := snap_get double_to_float snap DATA_UBX_NAV_HORIZONAL_DILUTION_OF_PRECISION 0,
        dop_valid := True\<rparr>"

definition read_security :: "ubx_location_snapshot \<Rightarrow> security_data" where
  "read_security snap =
     security_data_zero\<lparr>secd_jam_flags := snap_get to_word snap DATA_UBX_SEC_SIG_JAM_FLAGS 0,
        secd_jam_det_enabled := snap_get to_word snap DATA_UBX_SEC_SIG_JAM_DET_ENABLED 0,
        secd_jamming_state := snap_get to_word snap DATA_UBX_SEC_SIG_JAMMING_STATE 0,
        secd_spf_flags := snap_get to_word snap DATA_UBX_SEC_SIG_SPF_FLAGS 0,
        secd_spf_det_enabled := snap_get to_word snap DATA_UBX_SEC_SIG_SPF_DET_ENABLED 0,
        secd_spoofing_state := snap_get to_word snap DATA_UBX_SEC_SIG_SPOOFING_STATE 0,
        secd_valid := True\<rparr>"

definition read_ins :: "ubx_location_snapshot \<Rightarrow> dead_reckoning_data_out \<Rightarrow> dead_reckoning_data_out" where
  "read_ins snap dr =
     dr\<lparr>dro_ins_i_tow_ms := snap_get to_word snap DATA_UBX_ESF_INS_ITOW 0,
        dro_ins_bitfield0 := snap_get to_word snap DATA_UBX_ESF_INS_BITFIELD0 0,
        dro_x_ang_rate_dps := snap_get id snap DATA_UBX_ESF_INS_X_ANG_RATE 0,
        dro_y_ang_rate_dps := snap_get id snap DATA_UBX_ESF_INS_Y_ANG_RATE 0,
        dro_z_ang_rate_dps := snap_get id snap DATA_UBX_ESF_INS_Z_ANG_RATE 0,
        dro_x_accel_mss := snap_get id snap DATA_UBX_ESF_INS_X_ACCEL 0,
        dro_y_accel_mss := snap_get id snap DATA_UBX_ESF_INS_Y_ACCEL 0,
        dro_z_accel_mss := snap_get id snap DATA_UBX_ESF_INS_Z_ACCEL 0,
        dro_ins_valid := True\<rparr>"

definition read_dr_sensor :: "ubx_location_snapshot \<Rightarrow> u8 \<Rightarrow> dr_sensor_out_record" where
  "read_dr_sensor snap i =
     dr_sensor_out_record_zero\<lparr>dso_type := snap_get to_word snap (db_index_with_offset DATA_UBX_ESF_STATUS_SENS_TYPE i) 0,
        dso_used := snap_get to_bool snap (db_index_with_offset DATA_UBX_ESF_STATUS_SENS_USED i) False,
        dso_ready := snap_get to_bool snap (db_index_with_offset DATA_UBX_ESF_STATUS_SENS_READY i) False,
        dso_calib_status := snap_get to_word snap (db_index_with_offset DATA_UBX_ESF_STATUS_SENS_CALIB i) 0,
        dso_time_status := snap_get to_word snap (db_index_with_offset DATA_UBX_ESF_STATUS_SENS_TIME_STATUS i) 0,
        dso_freq := snap_get to_word snap (db_index_with_offset DATA_UBX_ESF_STATUS_SENS_FREQ i) 0,
        dso_faults := snap_get to_word snap (db_index_with_offset DATA_UBX_ESF_STATUS_SENS_FAULTS i) 0\<rparr>"

definition read_status :: "ubx_location_snapshot \<Rightarrow> dead_reckoning_data_out \<Rightarrow> dead_reckoning_data_out" where
  "read_status snap dr =
     (let dr = dr\<lparr>dro_status_i_tow_ms := snap_get to_word snap DATA_UBX_ESF_STATUS_ITOW 0,
          dro_fusion_mode := snap_get to_word snap DATA_UBX_ESF_STATUS_FUSION_MODE 0,
          dro_num_sens := snap_get to_word snap DATA_UBX_ESF_STATUS_NUM_SENS 0\<rparr>;
          count = min (unat (dro_num_sens dr)) (unat GNSS_MAX_DR_SENSORS)
      in dr\<lparr>dro_sensors := fill_array (unat GNSS_MAX_DR_SENSORS) dr_sensor_out_record_zero
              (map (\<lambda>i. read_dr_sensor snap (of_nat i)) [0..<count]),
            dro_status_valid := True\<rparr>)"

definition read_dead_reckoning :: "ubx_location_snapshot \<Rightarrow> dead_reckoning_data_out" where
  "read_dead_reckoning snap =
     (let dr = dead_reckoning_data_out_zero;
          dr = (if snap_is_valid snap DATA_UBX_ESF_INS_ITOW then read_ins snap dr else dr);
          dr = (if snap_is_valid snap DATA_UBX_ESF_STATUS_ITOW then read_status snap dr else dr)
      in dr\<lparr>dro_valid := dro_ins_valid dr \<or> dro_status_valid dr\<rparr>)"

definition read_satellite :: "ubx_location_snapshot \<Rightarrow> u8 \<Rightarrow> satellite_record" where
  "read_satellite snap i =
     satellite_record_zero\<lparr>svr_gnss_id := snap_get to_word snap (db_index_with_offset DATA_SATELLITES_IN_VIEW_GNSSID i) 0,
        svr_sv_id := snap_get to_word snap (db_index_with_offset DATA_SATELLITES_IN_VIEW_SVID i) 0,
        svr_cno := snap_get to_word snap (db_index_with_offset DATA_SATELLITES_IN_VIEW_CN0_RATIO i) 0,
        svr_elevation_deg := snap_get to_word snap (db_index_with_offset DATA_SATELLITES_IN_VIEW_ELEVATION i) 0,
        svr_azimuth_deg := snap_get to_word snap (db_index_with_offset DATA_SATELLITES_IN_VIEW_AZIMUTH i) 0,
        svr_used := snap_get to_bool snap (db_index_with_offset DATA_SATELLITES_IN_VIEW_USED i) False,
        svr_has_almanac := snap_get to_bool snap (db_index_with_offset DATA_SATELLITES_IN_VIEW_ALMANAC i) False,
        svr_has_ephemeris := snap_get to_bool snap (db_index_with_offset DATA_SATELLITES_IN_VIEW_EPHEMERIS i) False,
        svr_healthy := snap_get to_bool snap (db_index_with_offset DATA_SATELLITES_IN_VIEW_HEALTH i) False,
        svr_diff_correction := snap_get to_bool snap (db_index_with_offset DATA_SATELLITES_IN_VIEW_DIFF_CORR i) False,
        svr_sbas_correction := snap_get to_bool snap (db_index_with_offset DATA_SATELLITES_IN_VIEW_SBAS_USED i) False,
        svr_rtcm_correction := snap_get to_bool snap (db_index_with_offset DATA_SATELLITES_IN_VIEW_RTCM_USED i) False\<rparr>"

definition read_satellites :: "ubx_location_snapshot \<Rightarrow> satellites_data" where
  "read_satellites snap =
     (let count = (snap_get to_word snap DATA_SATELLITES_IN_VIEW 0 :: u32);
          num_svs = ucast (min (ucast GNSS_MAX_SV_COUNT) count)
      in \<lparr>sats_num_svs = num_svs,
          sats_svs = fill_array (unat GNSS_MAX_SV_COUNT) satellite_record_zero
            (map (\<lambda>i. read_satellite snap (of_nat i)) [0..<unat num_svs]),
          sats_valid = True\<rparr>)"

definition read_raw_sv :: "ubx_location_snapshot \<Rightarrow> u8 \<Rightarrow> raw_sv_record" where
  "read_raw_sv snap i =
     raw_sv_record_zero\<lparr>rsv_gnss_id := snap_get to_word snap (db_index_with_offset DATA_UBX_RXM_MEASX_GNSS_ID i) 0,
        rsv_sv_id := snap_get to_word snap (db_index_with_offset DATA_UBX_RXM_MEASX_SV_ID i) 0,
        rsv_cno := snap_get to_word snap (db_index_with_offset DATA_UBX_RXM_MEASX_CN0 i) 0,
        rsv_mpath_indic := snap_get to_word snap (db_index_with_offset DATA_UBX_RXM_MEASX_MPH i) 0,
        rsv_doppler_ms := snap_get to_word snap (db_index_with_offset DATA_UBX_RXM_MEASX_DOPPLER i) 0,
        rsv_whole_chips := snap_get to_word snap (db_index_with_offset DATA_UBX_RXM_MEASX_WHOLE_CHIPS i) 0,
        rsv_frac_chips := snap_get to_word snap (db_index_with_offset DATA_UBX_RXM_MEASX_FRAC_CHIPS i) 0,
        rsv_code_phase := snap_get to_word snap (db_index_with_offset DATA_UBX_RXM_MEASX_CODE_PHASE i) 0,
        rsv_int_code_phase := snap_get to_word snap (db_index_with_offset DATA_UBX_RXM_MEASX_INT_CODE_PHASE i) 0,
        rsv_pseu_range_rms_err := snap_get to_word snap (db_index_with_offset DATA_UBX_RXM_MEASX_PSEU_RANGE_RMS_ERR i) 0\<rparr>"

definition read_raw_measurements :: "ubx_location_snapshot \<Rightarrow> raw_measurements_data" where
  "read_raw_measurements snap =
     (let raw = raw_measurements_data_zero\<lparr>rawm_gps_tow_ms := snap_get to_word snap DATA_UBX_RXM_MEASX_GPS_TOW 0,
            rawm_glo_tow_ms := snap_get to_word snap DATA_UBX_RXM_MEASX_GLO_TOW 0,
            rawm_bds_tow_ms := snap_get to_word snap DATA_UBX_RXM_MEASX_BDS_TOW 0,
            rawm_qzss_tow_ms := snap_get to_word snap DATA_UBX_RXM_MEASX_QZS_TOW 0,
            rawm_gps_tow_acc := snap_get to_word snap DATA_UBX_RXM_MEASX_GPS_TOW_ACC 0,
            rawm_glo_tow_acc := snap_get to_word snap DATA_UBX_RXM_MEASX_GLO_TOW_ACC 0,
            rawm_bds_tow_acc := snap_get to_word snap DATA_UBX_RXM_MEASX_BDS_TOW_ACC 0,
            rawm_qzss_tow_acc := snap_get to_word snap DATA_UBX_RXM_MEASX_QZS_TOW_ACC 0,
            rawm_flags := snap_get to_word snap DATA_UBX_RXM_MEASX_FLAGS 0\<rparr>;
          num_sv = (snap_get to_word snap DATA_UBX_RXM_MEASX_NUM_SV 0 :: u32);
          num_svs = ucast (min (ucast GNSS_MAX_MEASX_SV_COUNT) num_sv)
      in raw\<lparr>rawm_num_svs := num_svs,
            rawm_svs := fill_array (unat GNSS_MAX_MEASX_SV_COUNT) raw_sv_record_zero
              (map (\<lambda>i. read_raw_sv snap (of_nat i)) [0..<unat num_svs]),
            rawm_valid := True\<rparr>)"

definition read_mon_port :: "ubx_location_snapshot \<Rightarrow> u8 \<Rightarrow> mon_io_port_record" where
  "read_mon_port snap i =
     mon_io_port_record_zero\<lparr>iop_rx_bytes := snap_get to_word snap (db_index_with_offset DATA_UBX_MON_IO_RX_BYTES i) 0,
        iop_tx_bytes := snap_get to_word snap (db_index_with_offset DATA_UBX_MON_IO_TX_BYTES i) 0,
        iop_parity_errs := snap_get to_word snap (db_index_with_offset DATA_UBX_MON_IO_PARITY_ERRS i) 0,
        iop_framing_errs := snap_get to_word snap (db_index_with_offset DATA_UBX_MON_IO_FRAMING_ERRS i) 0,
        iop_overrun_errs := snap_get to_word snap (db_index_with_offset DATA_UBX_MON_IO_OVERRUN_ERRS i) 0,
        iop_break_cond := snap_get to_word snap (db_index_with_offset DATA_UBX_MON_IO_BREAK_COND i) 0,
        iop_rx_busy := snap_get to_word snap (db_index_with_offset DATA_UBX_MON_IO_RX_BUSY i) 0,
        iop_tx_busy := snap_get to_word snap (db_index_with_offset DATA_UBX_MON_IO_TX_BUSY i) 0\<rparr>"

definition read_mon_io :: "ubx_location_snapshot \<Rightarrow> monitor_data \<Rightarrow> monitor_data" where
  "read_mon_io snap mon =
     (let np = (snap_get to_word snap DATA_UBX_MON_IO_NUM_PORTS 0 :: u32);
          num_ports = ucast (min (ucast GNSS_MAX_MON_IO_PORTS) np)
      in mon\<lparr>mon_num_ports := num_ports,
            mon_ports := fill_array (unat GNSS_MAX_MON_IO_PORTS) mon_io_port_record_zero
              (map (\<lambda>i. read_mon_port snap (of_nat i)) [0..<unat num_ports]),
            mon_io_valid := True\<rparr>)"

definition read_mon_txbuf :: "ubx_location_snapshot \<Rightarrow> mon_txbuf_data" where
  "read_mon_txbuf snap =
     mon_txbuf_data_zero\<lparr>txb_usage :=
          [snap_get to_word snap DATA_UBX_MON_TXBUF_AVAIL_0 0,
           snap_get to_word snap DATA_UBX_MON_TXBUF_AVAIL_1 0,
           snap_get to_word snap DATA_UBX_MON_TXBUF_AVAIL_2 0,
           snap_get to_word snap DATA_UBX_MON_TXBUF_AVAIL_3 0,
           snap_get to_word snap DATA_UBX_MON_TXBUF_AVAIL_4 0,
           snap_get to_word snap DATA_UBX_MON_TXBUF_AVAIL_5 0],
        txb_pending :=
          [snap_get to_word snap DATA_UBX_MON_TXBUF_PENDING_0 0,
           snap_get to_word snap DATA_UBX_MON_TXBUF_PENDING_1 0,
           snap_get to_word snap DATA_UBX_MON_TXBUF_PENDING_2 0,
           snap_get to_word snap DATA_UBX_MON_TXBUF_PENDING_3 0,
           snap_get to_word snap DATA_UBX_MON_TXBUF_PENDING_4 0,
           snap_get to_word snap DATA_UBX_MON_TXBUF_PENDING_5 0],
        txb_peak_usage :=
          [snap_get to_word snap DATA_UBX_MON_TXBUF_USAGE_0 0,
           snap_get to_word snap DATA_UBX_MON_TXBUF_USAGE_1 0,
           snap_get to_word snap DATA_UBX_MON_TXBUF_USAGE_2 0,
           snap_get to_word snap DATA_UBX_MON_TXBUF_USAGE_3 0,
           snap_get to_word snap DATA_UBX_MON_TXBUF_USAGE_4 0,
           snap_get to_word snap DATA_UBX_MON_TXBUF_USAGE_5 0],
        txb_t_used := snap_get to_word snap DATA_UBX_MON_TXBUF_TUSED 0,
        txb_t_peak := snap_get to_word snap DATA_UBX_MON_TXBUF_TPEAK 0,
        txb_errors := snap_get to_word snap DATA_UBX_MON_TXBUF_ERRORS 0\<rparr>"

definition read_mon_span :: "ubx_location_snapshot \<Rightarrow> mon_span_data" where
  "read_mon_span snap =
     (let nr = (snap_get to_word snap DATA_UBX_MON_SPAN_NUM_RF_BLOCKS 0 :: u32);
          num = ucast (min (ucast GNSS_MON_SPAN_RF_BLOCKS) nr)
      in \<lparr>spn_num_rf_blocks = num,
          spn_pga = fill_array (unat GNSS_MON_SPAN_RF_BLOCKS) 0
            (map (\<lambda>i. snap_get to_word snap (db_index_with_offset DATA_UBX_MON_SPAN_PGA (of_nat i)) 0)
              [0..<unat num])\<rparr>)"

definition read_monitor :: "ubx_location_snapshot \<Rightarrow> monitor_data" where
  "read_monitor snap =
     (let mon = monitor_data_zero;
          mon = (if snap_is_valid snap DATA_UBX_MON_IO_NUM_PORTS then read_mon_io snap mon else mon);
          mon = (if snap_is_valid snap DATA_UBX_MON_TXBUF_ERRORS
                 then mon\<lparr>mon_txbuf := read_mon_txbuf snap, mon_txbuf_valid := True\<rparr> else mon);
          mon = (if snap_is_valid snap DATA_UBX_MON_SPAN_NUM_RF_BLOCKS
                 then mon\<lparr>mon_span := read_mon_span snap, mon_span_valid := True\<rparr> else mon)
      in mon)"

section \<open>\<open>ubx_database_wrapper\<close>\<close>

record shared_buffers =
  sb_location :: location_data
  sb_satellites :: satellites_data
  sb_timing :: timing_data
  sb_attitude :: attitude_data
  sb_dop :: dop_data
  sb_raw_measurements :: raw_measurements_data
  sb_monitor :: monitor_data
  sb_security :: security_data
  sb_dead_reckoning_out :: dead_reckoning_data_out
  sb_dead_reckoning_in :: dead_reckoning_data_in

definition shared_buffers_zero :: shared_buffers where
  "shared_buffers_zero =
     \<lparr>sb_location = location_data_zero, sb_satellites = satellites_data_zero,
      sb_timing = timing_data_zero, sb_attitude = attitude_data_zero, sb_dop = dop_data_zero,
      sb_raw_measurements = raw_measurements_data_zero, sb_monitor = monitor_data_zero,
      sb_security = security_data_zero, sb_dead_reckoning_out = dead_reckoning_data_out_zero,
      sb_dead_reckoning_in = dead_reckoning_data_in_zero\<rparr>"

text \<open>
  The commit callbacks: the buffers they fill and the emissions of \<open>data_updated\<close>, in their order. A
  buffer is published when its condition holds and left alone otherwise.
\<close>

definition publish ::
    "bool \<Rightarrow> (shared_buffers \<Rightarrow> shared_buffers) \<Rightarrow> buffer_type
     \<Rightarrow> shared_buffers \<times> buffer_type list \<Rightarrow> shared_buffers \<times> buffer_type list" where
  "publish cond write_buf kind s =
     (case s of (sb, es) \<Rightarrow> if cond then (write_buf sb, es @ [kind]) else (sb, es))"

definition on_hp_commit ::
    "ubx_location_snapshot \<Rightarrow> shared_buffers \<Rightarrow> shared_buffers \<times> buffer_type list" where
  "on_hp_commit snap sb =
     (let s = publish True (sb_location_update (\<lambda>_. read_location snap)) Buf_location (sb, []);
          tim = read_timing snap;
          s = ((fst s)\<lparr>sb_timing := tim\<rparr>, snd s);
          s = publish (tim_valid (sb_timing (fst s))) (\<lambda>sb. sb) Buf_timing s;
          s = publish (snap_is_valid snap DATA_UBX_NAV_ATT_ITOW)
                (sb_attitude_update (\<lambda>_. read_attitude snap)) Buf_attitude s;
          s = publish (snap_is_valid snap DATA_UBX_NAV_HORIZONAL_DILUTION_OF_PRECISION)
                (sb_dop_update (\<lambda>_. read_dop snap)) Buf_dop s;
          s = publish (snap_is_valid snap DATA_UBX_SEC_SIG_VERSION)
                (sb_security_update (\<lambda>_. read_security snap)) Buf_security s;
          dr = read_dead_reckoning snap
      in publish (dro_valid dr) (sb_dead_reckoning_out_update (\<lambda>_. dr)) Buf_dead_reckoning_out s)"

definition on_lp_commit ::
    "ubx_location_snapshot \<Rightarrow> shared_buffers \<Rightarrow> shared_buffers \<times> buffer_type list" where
  "on_lp_commit snap sb =
     (let s = publish True (sb_satellites_update (\<lambda>_. read_satellites snap)) Buf_satellites (sb, []);
          s = publish (snap_is_valid snap DATA_UBX_RXM_MEASX_NUM_SV)
                (sb_raw_measurements_update (\<lambda>_. read_raw_measurements snap)) Buf_raw_measurements s;
          mon = read_monitor snap
      in publish (mon_io_valid mon \<or> mon_txbuf_valid mon \<or> mon_span_valid mon)
           (sb_monitor_update (\<lambda>_. mon\<lparr>mon_valid := True\<rparr>)) Buf_monitor s)"

record ubx_database_wrapper =
  wr_db :: ubx_database
  wr_handlers :: "msg_type list"
  wr_buffers :: shared_buffers

definition wrapper_new :: ubx_database_wrapper where
  "wrapper_new =
     \<lparr>wr_db = set_commit_callback Low_priority True
        (set_commit_callback High_priority True (ubx_database_new None)),
      wr_handlers = [MSG_UBX_NAV_PVT, MSG_UBX_NAV_SAT, MSG_UBX_NAV_DOP, MSG_UBX_NAV_TIMEGPS,
        MSG_UBX_NAV_STATUS, MSG_UBX_TIM_TP, MSG_UBX_NAV_TIMEUTC, MSG_UBX_NAV_CLOCK, MSG_UBX_NAV_ATT,
        MSG_UBX_RXM_MEASX, MSG_UBX_MON_IO, MSG_UBX_MON_TXBUF, MSG_UBX_MON_SPAN, MSG_UBX_SEC_SIG,
        MSG_UBX_ESF_INS, MSG_UBX_ESF_STATUS],
      wr_buffers = shared_buffers_zero\<rparr>"

definition wrapper_register ::
    "ubx_database_wrapper \<Rightarrow> ubx_message ubx_decoder_registry \<Rightarrow> ubx_message ubx_decoder_registry" where
  "wrapper_register w reg = adapter_register (wr_handlers w) reg"

definition update_dead_reckoning_in ::
    "dead_reckoning_data_in \<Rightarrow> ubx_database_wrapper \<Rightarrow> ubx_database_wrapper \<times> buffer_type list" where
  "update_dead_reckoning_in d w =
     (w\<lparr>wr_buffers := (wr_buffers w)\<lparr>sb_dead_reckoning_in := d\<rparr>\<rparr>, [Buf_dead_reckoning_in])"

text \<open>
  A decoded message reaches the wrapper through the callback of its stub. \<open>None\<close> is the null policy of
  \<open>apply_update\<close>.
\<close>

definition wrapper_message ::
    "ubx_message \<Rightarrow> ubx_database_wrapper \<Rightarrow> (ubx_database_wrapper \<times> buffer_type list) option" where
  "wrapper_message m w =
     (case handler_writes m of
        None \<Rightarrow> Some (w, [])
      | Some (msg, ws) \<Rightarrow>
          (case apply_update msg ws (wr_db w) of
             None \<Rightarrow> None
           | Some (db, None) \<Rightarrow> Some (w\<lparr>wr_db := db\<rparr>, [])
           | Some (db, Some snap) \<Rightarrow>
               let (sb, es) = (if snap_kind snap = High_priority then on_hp_commit snap (wr_buffers w)
                               else on_lp_commit snap (wr_buffers w))
               in Some (w\<lparr>wr_db := db, wr_buffers := sb\<rparr>, es)))"

fun wrapper_run ::
    "ubx_message list \<Rightarrow> ubx_database_wrapper \<Rightarrow> (ubx_database_wrapper \<times> buffer_type list) option" where
  "wrapper_run [] w = Some (w, [])"
| "wrapper_run (m # ms) w =
     (case wrapper_message m w of
        None \<Rightarrow> None
      | Some (w', es) \<Rightarrow>
          (case wrapper_run ms w' of None \<Rightarrow> None | Some (w'', es') \<Rightarrow> Some (w'', es @ es')))"

text \<open>The getters: each returns its buffer under its own mutex.\<close>

definition get_location :: "ubx_database_wrapper \<Rightarrow> location_data" where
  "get_location w = sb_location (wr_buffers w)"

definition get_satellites :: "ubx_database_wrapper \<Rightarrow> satellites_data" where
  "get_satellites w = sb_satellites (wr_buffers w)"

definition get_timing :: "ubx_database_wrapper \<Rightarrow> timing_data" where
  "get_timing w = sb_timing (wr_buffers w)"

definition get_attitude :: "ubx_database_wrapper \<Rightarrow> attitude_data" where
  "get_attitude w = sb_attitude (wr_buffers w)"

definition get_dop :: "ubx_database_wrapper \<Rightarrow> dop_data" where
  "get_dop w = sb_dop (wr_buffers w)"

definition get_raw_measurements :: "ubx_database_wrapper \<Rightarrow> raw_measurements_data" where
  "get_raw_measurements w = sb_raw_measurements (wr_buffers w)"

definition get_monitor :: "ubx_database_wrapper \<Rightarrow> monitor_data" where
  "get_monitor w = sb_monitor (wr_buffers w)"

definition get_security :: "ubx_database_wrapper \<Rightarrow> security_data" where
  "get_security w = sb_security (wr_buffers w)"

definition get_dead_reckoning_out :: "ubx_database_wrapper \<Rightarrow> dead_reckoning_data_out" where
  "get_dead_reckoning_out w = sb_dead_reckoning_out (wr_buffers w)"

definition get_dead_reckoning_in :: "ubx_database_wrapper \<Rightarrow> dead_reckoning_data_in" where
  "get_dead_reckoning_in w = sb_dead_reckoning_in (wr_buffers w)"

lemmas get_defs = get_location_def get_satellites_def get_timing_def get_attitude_def get_dop_def
  get_raw_measurements_def get_monitor_def get_security_def get_dead_reckoning_out_def
  get_dead_reckoning_in_def

end
