(* ===== verification/Ubx_Slots.thy ===== *)
theory Ubx_Slots
  imports Ubx_Database_Wrapper
begin

text \<open>
  Which slots of the field store each handler writes: those of its own message type, each once, all
  inside the store. So a message never disturbs what the messages of other types have left, and a
  reader finds the values of the last message of a type.
\<close>

section \<open>Slots of a message type\<close>

text \<open>Slots that no handler writes belong to no type (\<open>MSG_UNKNOWN\<close>).\<close>

definition slot_owner :: "data_field \<Rightarrow> msg_type" where
  "slot_owner f =
     (if f < DATA_UBX_NAV_GEOMETRIC_DILUTION_OF_PRECISION then MSG_UBX_NAV_PVT
      else if f < DATA_UBX_SEMI_MAJOR_AXIS_ACC then MSG_UBX_NAV_DOP
      else if f < DATA_UBX_NAV_GPSTIME_TOW then MSG_UBX_NAV_EELL
      else if f < DATA_UBX_TTFF then MSG_UBX_NAV_TIMEGPS
      else if f < DATA_TIME_PULSE_TIMESTAMP then MSG_UBX_NAV_STATUS
      else if f < DATA_UBX_MON_RF_NBLOCKS then MSG_UBX_TIM_TP
      else if f < DATA_SATELLITES_IN_VIEW then MSG_UNKNOWN
      else if f < DATA_UBX_NAV2_PVT_ITOW then MSG_UBX_NAV_SAT
      else if f < DATA_UBX_NAV2_GEOMETRIC_DILUTION_OF_PRECISION then MSG_UBX_NAV2_PVT
      else if f < DATA_UBX_NAV2_SEMI_MAJOR_AXIS_ACC then MSG_UBX_NAV2_DOP
      else if f < DATA_UBX_NAV2_GPSTIME_TOW then MSG_UBX_NAV2_EELL
      else if f < DATA_UBX_NAV_ODO_ITOW then MSG_UBX_NAV2_TIMEGPS
      else if f < DATA_UBX_ESF_INS_ITOW then MSG_UBX_NAV_ODO
      else if f < DATA_UBX_ESF_STATUS_ITOW then MSG_UBX_ESF_INS
      else if f < DATA_UBX_ESF_MEAS_TIME_TAG then MSG_UBX_ESF_STATUS
      else if f < DATA_UBX_NAV_SIG_NUM_SIGS then MSG_UBX_ESF_MEAS
      else if f < DATA_UBX_NAV_TIMEUTC_ITOW then MSG_UBX_NAV_SIG
      else if f < DATA_UBX_NAV_CLOCK_ITOW then MSG_UBX_NAV_TIMEUTC
      else if f < DATA_UBX_NAV_ATT_ITOW then MSG_UBX_NAV_CLOCK
      else if f < DATA_UBX_RXM_MEASX_GPS_TOW then MSG_UBX_NAV_ATT
      else if f < DATA_UBX_MON_IO_NUM_PORTS then MSG_UBX_RXM_MEASX
      else if f < DATA_UBX_MON_TXBUF_ERRORS then MSG_UBX_MON_IO
      else if f < DATA_UBX_MON_TXBUF_PENDING_0 then MSG_UBX_MON_TXBUF
      else if f < DATA_UBX_MON_TXBUF_USAGE_0 then MSG_UNKNOWN
      else if f < DATA_UBX_MON_SPAN_NUM_RF_BLOCKS then MSG_UBX_MON_TXBUF
      else if f < DATA_UBX_SEC_SIG_VERSION then MSG_UBX_MON_SPAN
      else if f < DATA_PARSE then MSG_UBX_SEC_SIG
      else MSG_UNKNOWN)"

text \<open>A decoded message has at most as many blocks as the arrays behind them hold.\<close>

definition message_ok :: "ubx_message \<Rightarrow> bool" where
  "message_ok m =
     (case m of
        Rxm_measx p \<Rightarrow> unat (rxm_measx_num_svs p) \<le> 64
      | Mon_io p \<Rightarrow> unat (mon_io_num_ports p) \<le> 8
      | _ \<Rightarrow> True)"

definition owned :: "msg_type \<Rightarrow> field_write list \<Rightarrow> bool" where
  "owned mt ws \<longleftrightarrow> distinct (map fst ws) \<and> (\<forall>f \<in> fst ` set ws. slot_owner f = mt \<and> f < DATA_PARSE)"

section \<open>Array fields\<close>

text \<open>Bases further apart than the arrays are long.\<close>

definition spread :: "nat \<Rightarrow> nat list \<Rightarrow> bool" where
  "spread n bs \<longleftrightarrow> distinct bs \<and> (\<forall>b \<in> set bs. \<forall>c \<in> set bs. b < c \<longrightarrow> b + n \<le> c)"

lemma spread_offsets:
  assumes "spread n bs" and "b \<in> set bs" and "c \<in> set bs" and "b + i = c + j" and "i < n" and "j < n"
  shows "b = c \<and> i = j"
proof -
  have "\<not> b < c" "\<not> c < b" using assms by (fastforce simp: spread_def)+
  with assms(4) show ?thesis by simp
qed

lemma distinct_spread:
  assumes "spread N bs" and "n \<le> N"
  shows "distinct (concat (map (\<lambda>i. map (\<lambda>b. b + i) bs) [0..<n]))"
  using assms(2)
proof (induction n)
  case (Suc n)
  have "distinct (map (\<lambda>b. b + n) bs)"
    using assms(1) by (simp add: spread_def distinct_map inj_on_def)
  moreover have "set (concat (map (\<lambda>i. map (\<lambda>b. b + i) bs) [0..<n])) \<inter> set (map (\<lambda>b. b + n) bs) = {}"
  proof -
    have False if "b \<in> set bs" "c \<in> set bs" "i < n" "c + n = b + i" for b c i
      using spread_offsets [OF assms(1) that(2,1,4)] that(3) Suc.prems by simp
    then show ?thesis by auto
  qed
  ultimately show ?case using Suc by simp
qed simp

lemma distinct_blocks:
  assumes "distinct ss" and "\<forall>s \<in> set ss. \<forall>b \<in> set bs. s < b" and "spread N bs" and "n \<le> N"
    and "\<And>i. i < n \<Longrightarrow> map fst (block i) = map (\<lambda>b. b + i) bs"
    and "map fst ws = ss"
  shows "distinct (map fst (ws @ concat (map block [0..<n])))"
proof -
  have "map fst (concat (map block [0..<n])) = concat (map (\<lambda>i. map (\<lambda>b. b + i) bs) [0..<n])"
  proof -
    have "map (\<lambda>i. map fst (block i)) [0..<n] = map (\<lambda>i. map (\<lambda>b. b + i) bs) [0..<n]"
      using assms(5) by (intro map_cong) simp_all
    then have "concat (map (\<lambda>i. map fst (block i)) [0..<n]) = concat (map (\<lambda>i. map (\<lambda>b. b + i) bs) [0..<n])"
      by (rule arg_cong)
    then show ?thesis unfolding map_concat map_map comp_def .
  qed
  moreover have "set ss \<inter> set (concat (map (\<lambda>i. map (\<lambda>b. b + i) bs) [0..<n])) = {}"
    using assms(2) by fastforce
  ultimately show ?thesis
    using assms(1,6) distinct_spread [OF assms(3,4)] by simp
qed

text \<open>The slots of block \<open>i\<close> of each message with blocks.\<close>

lemma db_nav_sat_block_slots:
  "i < 64 \<Longrightarrow> map fst (db_nav_sat_block (of_nat i) sv) = map (\<lambda>b. b + i)
     [DATA_SATELLITES_IN_VIEW_GNSSID,
      DATA_SATELLITES_IN_VIEW_SVID,
      DATA_SATELLITES_IN_VIEW_AZIMUTH,
      DATA_SATELLITES_IN_VIEW_ELEVATION,
      DATA_SATELLITES_IN_VIEW_CN0_RATIO,
      DATA_SATELLITES_IN_VIEW_ALMANAC,
      DATA_SATELLITES_IN_VIEW_EPHEMERIS,
      DATA_SATELLITES_IN_VIEW_HEALTH,
      DATA_SATELLITES_IN_VIEW_USED,
      DATA_SATELLITES_IN_VIEW_DIFF_CORR,
      DATA_SATELLITES_IN_VIEW_SBAS_USED,
      DATA_SATELLITES_IN_VIEW_RTCM_USED]"
  by (simp add: db_nav_sat_block_def db_index_inside data_field_defs)

lemma db_esf_status_block_slots:
  "i < 32 \<Longrightarrow> map fst (db_esf_status_block (of_nat i) s) = map (\<lambda>b. b + i)
     [DATA_UBX_ESF_STATUS_SENS_TYPE,
      DATA_UBX_ESF_STATUS_SENS_USED,
      DATA_UBX_ESF_STATUS_SENS_READY,
      DATA_UBX_ESF_STATUS_SENS_CALIB,
      DATA_UBX_ESF_STATUS_SENS_TIME_STATUS,
      DATA_UBX_ESF_STATUS_SENS_FREQ,
      DATA_UBX_ESF_STATUS_SENS_FAULTS]"
  by (simp add: db_esf_status_block_def db_index_inside data_field_defs)

lemma db_esf_meas_block_slots:
  "i < 32 \<Longrightarrow> map fst (db_esf_meas_block (of_nat i) d) = map (\<lambda>b. b + i)
     [DATA_UBX_ESF_MEAS_DATA_TYPE,
      DATA_UBX_ESF_MEAS_DATA_VALUE]"
  by (simp add: db_esf_meas_block_def db_index_inside data_field_defs)

lemma db_nav_sig_block_slots:
  "i < 128 \<Longrightarrow> map fst (db_nav_sig_block (of_nat i) sig) = map (\<lambda>b. b + i)
     [DATA_UBX_NAV_SIG_GNSSID,
      DATA_UBX_NAV_SIG_SVID,
      DATA_UBX_NAV_SIG_SIGID,
      DATA_UBX_NAV_SIG_FREQID,
      DATA_UBX_NAV_SIG_PR_RES,
      DATA_UBX_NAV_SIG_CNO,
      DATA_UBX_NAV_SIG_QUAL_IND,
      DATA_UBX_NAV_SIG_CORR_SOURCE,
      DATA_UBX_NAV_SIG_IONO_MODEL,
      DATA_UBX_NAV_SIG_HEALTH,
      DATA_UBX_NAV_SIG_PR_USED,
      DATA_UBX_NAV_SIG_CR_USED,
      DATA_UBX_NAV_SIG_DO_USED]"
  by (simp add: db_nav_sig_block_def db_index_inside data_field_defs)

lemma db_rxm_measx_block_slots:
  "i < 64 \<Longrightarrow> map fst (db_rxm_measx_block (of_nat i) sv) = map (\<lambda>b. b + i)
     [DATA_UBX_RXM_MEASX_GNSS_ID,
      DATA_UBX_RXM_MEASX_SV_ID,
      DATA_UBX_RXM_MEASX_CN0,
      DATA_UBX_RXM_MEASX_MPH,
      DATA_UBX_RXM_MEASX_DOPPLER,
      DATA_UBX_RXM_MEASX_WHOLE_CHIPS,
      DATA_UBX_RXM_MEASX_FRAC_CHIPS,
      DATA_UBX_RXM_MEASX_CODE_PHASE,
      DATA_UBX_RXM_MEASX_INT_CODE_PHASE,
      DATA_UBX_RXM_MEASX_PSEU_RANGE_RMS_ERR]"
  by (simp add: db_rxm_measx_block_def db_index_inside data_field_defs)

lemma db_mon_io_block_slots:
  "i < 8 \<Longrightarrow> map fst (db_mon_io_block (of_nat i) port) = map (\<lambda>b. b + i)
     [DATA_UBX_MON_IO_RX_BYTES,
      DATA_UBX_MON_IO_TX_BYTES,
      DATA_UBX_MON_IO_PARITY_ERRS,
      DATA_UBX_MON_IO_FRAMING_ERRS,
      DATA_UBX_MON_IO_OVERRUN_ERRS,
      DATA_UBX_MON_IO_BREAK_COND,
      DATA_UBX_MON_IO_RX_BUSY,
      DATA_UBX_MON_IO_TX_BUSY]"
  by (simp add: db_mon_io_block_def db_index_inside data_field_defs)

lemma db_mon_span_block_slots:
  "i < 4 \<Longrightarrow> map fst (db_mon_span_block (of_nat i) b) = map (\<lambda>b. b + i)
     [DATA_UBX_MON_SPAN_PGA]"
  by (simp add: db_mon_span_block_def db_index_inside data_field_defs)

lemmas db_block_slots = db_nav_sat_block_slots
  db_esf_status_block_slots
  db_esf_meas_block_slots
  db_nav_sig_block_slots
  db_rxm_measx_block_slots
  db_mon_io_block_slots
  db_mon_span_block_slots

section \<open>Every handler keeps to its slots\<close>

lemma owned_scalars:
  "distinct (map fst ws) \<Longrightarrow> list_all (\<lambda>f. slot_owner f = mt \<and> f < DATA_PARSE) (map fst ws) \<Longrightarrow> owned mt ws"
  by (auto simp: owned_def list_all_iff)

lemma owned_blocks:
  assumes "owned mt ws" and "list_all (\<lambda>s. \<forall>b \<in> set bs. s < b) (map fst ws)" and "spread N bs" and "n \<le> N"
    and "\<And>i. i < n \<Longrightarrow> map fst (block i) = map (\<lambda>b. b + i) bs"
    and "\<And>b i. b \<in> set bs \<Longrightarrow> i < N \<Longrightarrow> slot_owner (b + i) = mt \<and> b + i < DATA_PARSE"
  shows "owned mt (ws @ concat (map block [0..<n]))"
proof -
  have "distinct (map fst (ws @ concat (map block [0..<n])))"
    using assms(1,2) by (intro distinct_blocks [OF _ _ assms(3,4,5) refl]) (auto simp: owned_def list_all_iff)
  moreover have "slot_owner f = mt \<and> f < DATA_PARSE"
    if "f \<in> fst ` set (concat (map block [0..<n]))" for f
  proof -
    have "\<exists>i < n. f \<in> set (map fst (block i))" using that by (auto simp: image_iff)
    then obtain i where i: "i < n" "f \<in> set (map fst (block i))" by blast
    then show ?thesis unfolding assms(5) [OF i(1)] using assms(4,6) by auto
  qed
  ultimately show ?thesis
    using assms(1) unfolding owned_def set_append image_Un by blast
qed

lemmas slot_simps = data_field_defs msg_type_defs slot_owner_def

lemma db_nav_pvt_owned: "owned MSG_UBX_NAV_PVT (db_nav_pvt_handle p)"
  by (rule owned_scalars) (simp_all add: db_nav_pvt_handle_def slot_simps)

lemma db_nav_dop_owned: "owned MSG_UBX_NAV_DOP (db_nav_dop_handle p)"
  by (rule owned_scalars) (simp_all add: db_nav_dop_handle_def slot_simps)

lemma db_nav_eell_owned: "owned MSG_UBX_NAV_EELL (db_nav_eell_handle p)"
  by (rule owned_scalars) (simp_all add: db_nav_eell_handle_def slot_simps)

lemma db_nav_timegps_owned: "owned MSG_UBX_NAV_TIMEGPS (db_nav_timegps_handle p)"
  by (rule owned_scalars) (simp_all add: db_nav_timegps_handle_def slot_simps)

lemma db_nav_status_owned: "owned MSG_UBX_NAV_STATUS (db_nav_status_handle p)"
  by (rule owned_scalars) (simp_all add: db_nav_status_handle_def slot_simps)

lemma db_tim_tp_owned: "owned MSG_UBX_TIM_TP (db_tim_tp_handle p)"
  by (rule owned_scalars) (simp_all add: db_tim_tp_handle_def slot_simps)

lemma db_nav2_pvt_owned: "owned MSG_UBX_NAV2_PVT (db_nav2_pvt_handle p)"
  by (rule owned_scalars) (simp_all add: db_nav2_pvt_handle_def slot_simps)

lemma db_nav2_eell_owned: "owned MSG_UBX_NAV2_EELL (db_nav2_eell_handle p)"
  by (rule owned_scalars) (simp_all add: db_nav2_eell_handle_def slot_simps)

lemma db_nav2_dop_owned: "owned MSG_UBX_NAV2_DOP (db_nav2_dop_handle p)"
  by (rule owned_scalars) (simp_all add: db_nav2_dop_handle_def slot_simps)

lemma db_nav2_timegps_owned: "owned MSG_UBX_NAV2_TIMEGPS (db_nav2_timegps_handle p)"
  by (rule owned_scalars) (simp_all add: db_nav2_timegps_handle_def slot_simps)

lemma db_nav_odo_owned: "owned MSG_UBX_NAV_ODO (db_nav_odo_handle p)"
  by (rule owned_scalars) (simp_all add: db_nav_odo_handle_def slot_simps)

lemma db_esf_ins_owned: "owned MSG_UBX_ESF_INS (db_esf_ins_handle p)"
  by (rule owned_scalars) (simp_all add: db_esf_ins_handle_def slot_simps)

lemma db_nav_timeutc_owned: "owned MSG_UBX_NAV_TIMEUTC (db_nav_timeutc_handle p)"
  by (rule owned_scalars) (simp_all add: db_nav_timeutc_handle_def slot_simps)

lemma db_nav_clock_owned: "owned MSG_UBX_NAV_CLOCK (db_nav_clock_handle p)"
  by (rule owned_scalars) (simp_all add: db_nav_clock_handle_def slot_simps)

lemma db_nav_att_owned: "owned MSG_UBX_NAV_ATT (db_nav_att_handle p)"
  by (rule owned_scalars) (simp_all add: db_nav_att_handle_def slot_simps)

lemma db_mon_txbuf_owned: "owned MSG_UBX_MON_TXBUF (db_mon_txbuf_handle p)"
  by (rule owned_scalars) (simp_all add: db_mon_txbuf_handle_def slot_simps)

lemma db_sec_sig_owned: "owned MSG_UBX_SEC_SIG (db_sec_sig_handle p)"
  by (rule owned_scalars) (simp_all add: db_sec_sig_handle_def slot_simps)

lemma db_nav_sat_owned: "owned MSG_UBX_NAV_SAT (db_nav_sat_handle p)"
  unfolding db_nav_sat_handle_def
  by (rule owned_blocks [OF owned_scalars _ _ _ db_nav_sat_block_slots, where N = 64])
    (auto simp: spread_def slot_simps)

lemma db_nav_sig_owned: "owned MSG_UBX_NAV_SIG (db_nav_sig_handle p)"
  unfolding db_nav_sig_handle_def
  by (rule owned_blocks [OF owned_scalars _ _ _ db_nav_sig_block_slots, where N = 128])
    (auto simp: spread_def slot_simps)

lemma db_esf_status_owned: "owned MSG_UBX_ESF_STATUS (db_esf_status_handle p)"
  unfolding db_esf_status_handle_def
  by (rule owned_blocks [OF owned_scalars _ _ _ db_esf_status_block_slots, where N = 32])
    (auto simp: spread_def slot_simps)

lemma db_esf_meas_owned: "owned MSG_UBX_ESF_MEAS (db_esf_meas_handle p)"
  unfolding db_esf_meas_handle_def
  by (rule owned_blocks [OF owned_scalars _ _ _ db_esf_meas_block_slots, where N = 32])
    (auto simp: spread_def slot_simps)

lemma db_rxm_measx_owned: "unat (rxm_measx_num_svs p) \<le> 64 \<Longrightarrow> owned MSG_UBX_RXM_MEASX (db_rxm_measx_handle p)"
  unfolding db_rxm_measx_handle_def
  by (rule owned_blocks [OF owned_scalars _ _ _ db_rxm_measx_block_slots, where N = 64])
    (auto simp: spread_def slot_simps)

lemma db_mon_io_owned: "unat (mon_io_num_ports p) \<le> 8 \<Longrightarrow> owned MSG_UBX_MON_IO (db_mon_io_handle p)"
  unfolding db_mon_io_handle_def
  by (rule owned_blocks [OF owned_scalars _ _ _ db_mon_io_block_slots, where N = 8])
    (auto simp: spread_def slot_simps)

lemma db_mon_span_owned: "owned MSG_UBX_MON_SPAN (db_mon_span_handle p)"
  unfolding db_mon_span_handle_def
  by (rule owned_blocks [OF owned_scalars _ _ _ db_mon_span_block_slots, where N = 4])
    (auto simp: spread_def slot_simps)

lemmas db_handle_owned =
  db_nav_pvt_owned
  db_nav_sat_owned
  db_nav_dop_owned
  db_nav_eell_owned
  db_nav_timegps_owned
  db_nav_status_owned
  db_tim_tp_owned
  db_nav2_pvt_owned
  db_nav2_eell_owned
  db_nav2_dop_owned
  db_nav2_timegps_owned
  db_nav_odo_owned
  db_esf_ins_owned
  db_esf_status_owned
  db_esf_meas_owned
  db_nav_sig_owned
  db_nav_timeutc_owned
  db_nav_clock_owned
  db_nav_att_owned
  db_rxm_measx_owned
  db_mon_io_owned
  db_mon_txbuf_owned
  db_mon_span_owned
  db_sec_sig_owned

lemma handler_owned:
  "handler_writes m = Some (mt, ws) \<Longrightarrow> message_ok m \<Longrightarrow> owned mt ws"
  by (cases m) (auto simp: db_handle_owned message_ok_def)

end
