(* ===== verification/Ubx_Database_Spec.thy ===== *)
theory Ubx_Database_Spec
  imports Ubx_Slots
begin

text \<open>
  What the database wrapper promises, without the field store: it remembers the last message of each
  type, a position solution publishes the location and what the remembered messages say, a satellite
  list publishes the satellites, the raw measurements and the monitor data. The wrapper refines this:
  every buffer and every emission of the update signal is the one of the specification, for every
  sequence of messages.
\<close>

section \<open>What each message contributes to the buffers\<close>

definition location_of :: "ubx_nav_pvt \<Rightarrow> location_data" where
  "location_of p =
     location_data_zero\<lparr>loc_latitude_deg := dmul (to_double (sint (nav_pvt_lat p))) (dlit (1 / 10 ^ 7)),
        loc_longitude_deg := dmul (to_double (sint (nav_pvt_lon p))) (dlit (1 / 10 ^ 7)),
        loc_altitude_ellipsoid_mm := to_double (sint (nav_pvt_height p)),
        loc_altitude_msl_mm := to_double (sint (nav_pvt_h_msl p)),
        loc_h_accuracy_mm := to_float (uint (nav_pvt_h_acc p)),
        loc_v_accuracy_mm := to_float (uint (nav_pvt_v_acc p)),
        loc_speed_accuracy_mmps := to_float (uint (nav_pvt_s_acc p)),
        loc_heading_accuracy_deg := fmul (to_float (uint (nav_pvt_head_acc p))) (flit (1 / 10 ^ 5)),
        loc_vel_n_mmps := to_float (sint (nav_pvt_vel_n p)),
        loc_vel_e_mmps := to_float (sint (nav_pvt_vel_e p)),
        loc_vel_d_mmps := to_float (sint (nav_pvt_vel_d p)),
        loc_ground_speed_mmps := to_float (sint (nav_pvt_g_speed p)),
        loc_vehicle_heading_deg := fmul (to_float (sint (nav_pvt_head_veh p))) (flit (1 / 10 ^ 5)),
        loc_motion_heading_deg := fmul (to_float (sint (nav_pvt_head_mot p))) (flit (1 / 10 ^ 5)),
        loc_magnetic_declination_deg := fmul (to_float (sint (nav_pvt_mag_dec p))) (flit (1 / 10 ^ 2)),
        loc_fix_type := nav_pvt_fix_type p,
        loc_num_sv := nav_pvt_num_sv p,
        loc_flags := nav_pvt_flags p,
        loc_flags2 := nav_pvt_flags2 p,
        loc_year := nav_pvt_year p,
        loc_month := nav_pvt_month p,
        loc_day := nav_pvt_day p,
        loc_hour := nav_pvt_hour p,
        loc_minute := nav_pvt_min p,
        loc_second := nav_pvt_sec p,
        loc_time_valid := nav_pvt_valid p,
        loc_millisecond := nav_pvt_i_tow p mod 1000,
        loc_microsecond := word_of_int (sint (nav_pvt_nano p) sdiv 1000),
        loc_i_tow_ms := nav_pvt_i_tow p,
        loc_utc_timestamp_ms := word_of_int (utc_timestamp (nav_pvt_year p) (nav_pvt_month p) (nav_pvt_day p) (nav_pvt_hour p)
        (nav_pvt_min p) (nav_pvt_sec p) (nav_pvt_i_tow p)),
        loc_valid := True\<rparr>"

definition with_tp :: "ubx_tim_tp \<Rightarrow> timing_data \<Rightarrow> timing_data" where
  "with_tp p tim =
     tim\<lparr>tim_tow_ms := ucast (tim_tp_tow_ms p),
        tim_q_err_ps := tim_tp_q_err p,
        tim_time_base := tim_tp_flags p AND 0x03,
        tim_time_ref := drop_bit 4 (tim_tp_ref_info p) AND 0x0F,
        tim_utc_standard := tim_tp_ref_info p AND 0x0F,
        tim_utc_available := tim_tp_flags p AND 0x04 \<noteq> 0,
        tim_q_err_valid := tim_tp_flags p AND 0x08 \<noteq> 0\<rparr>"

definition with_gps :: "ubx_nav_timegps \<Rightarrow> timing_data \<Rightarrow> timing_data" where
  "with_gps p tim =
     tim\<lparr>tim_gps_tow_ms := nav_timegps_i_tow p,
        tim_gps_week := nav_timegps_week p,
        tim_leap_seconds := nav_timegps_leap_s p\<rparr>"

definition with_ttff :: "ubx_nav_status \<Rightarrow> timing_data \<Rightarrow> timing_data" where
  "with_ttff p tim =
     tim\<lparr>tim_ttff_ms := ucast (nav_status_ttff p)\<rparr>"

definition with_timeutc :: "ubx_nav_timeutc \<Rightarrow> timing_data \<Rightarrow> timing_data" where
  "with_timeutc p tim =
     tim\<lparr>tim_utc_i_tow_ms := nav_timeutc_i_tow p,
        tim_utc_t_acc_ns := nav_timeutc_t_acc p,
        tim_utc_nano_ns := nav_timeutc_nano p,
        tim_utc_year := nav_timeutc_year p,
        tim_utc_month := nav_timeutc_month p,
        tim_utc_day := nav_timeutc_day p,
        tim_utc_hour := nav_timeutc_hour p,
        tim_utc_min := nav_timeutc_min p,
        tim_utc_sec := nav_timeutc_sec p,
        tim_utc_valid_flags := nav_timeutc_valid p\<rparr>"

definition with_clock :: "ubx_nav_clock \<Rightarrow> timing_data \<Rightarrow> timing_data" where
  "with_clock p tim =
     tim\<lparr>tim_clock_i_tow_ms := nav_clock_i_tow p,
        tim_clock_bias_ns := to_word (to_float (sint (nav_clock_clk_b p))),
        tim_clock_drift_nsps := to_word (to_float (sint (nav_clock_clk_d p))),
        tim_clock_t_acc_ns := nav_clock_t_acc p,
        tim_clock_f_acc_psps := nav_clock_f_acc p\<rparr>"

definition attitude_of :: "ubx_nav_att \<Rightarrow> attitude_data" where
  "attitude_of p =
     attitude_data_zero\<lparr>att_i_tow_ms := nav_att_i_tow p,
        att_version := nav_att_version p,
        att_roll_deg := fmul (to_float (sint (nav_att_roll p))) (flit (1 / 10 ^ 5)),
        att_pitch_deg := fmul (to_float (sint (nav_att_pitch p))) (flit (1 / 10 ^ 5)),
        att_heading_deg := fmul (to_float (sint (nav_att_heading p))) (flit (1 / 10 ^ 5)),
        att_acc_roll_deg := fmul (to_float (uint (nav_att_acc_roll p))) (flit (1 / 10 ^ 5)),
        att_acc_pitch_deg := fmul (to_float (uint (nav_att_acc_pitch p))) (flit (1 / 10 ^ 5)),
        att_acc_heading_deg := fmul (to_float (uint (nav_att_acc_heading p))) (flit (1 / 10 ^ 5)),
        att_valid := True\<rparr>"

definition dop_of :: "ubx_nav_dop \<Rightarrow> dop_data" where
  "dop_of p =
     dop_data_zero\<lparr>dop_gdop := double_to_float (dmul (to_double (uint (nav_dop_g_dop p))) (dlit (1 / 10 ^ 2))),
        dop_pdop := double_to_float (dmul (to_double (uint (nav_dop_p_dop p))) (dlit (1 / 10 ^ 2))),
        dop_tdop := double_to_float (dmul (to_double (uint (nav_dop_t_dop p))) (dlit (1 / 10 ^ 2))),
        dop_vdop := double_to_float (dmul (to_double (uint (nav_dop_v_dop p))) (dlit (1 / 10 ^ 2))),
        dop_hdop := double_to_float (dmul (to_double (uint (nav_dop_h_dop p))) (dlit (1 / 10 ^ 2))),
        dop_valid := True\<rparr>"

definition security_of :: "ubx_sec_sig \<Rightarrow> security_data" where
  "security_of p =
     security_data_zero\<lparr>secd_jam_flags := sec_sig_jam_flags p,
        secd_jam_det_enabled := sec_sig_jam_det_enabled p,
        secd_jamming_state := sec_sig_jamming_state p,
        secd_spf_flags := sec_sig_spf_flags p,
        secd_spf_det_enabled := sec_sig_spf_det_enabled p,
        secd_spoofing_state := sec_sig_spoofing_state p,
        secd_valid := True\<rparr>"

definition with_ins :: "ubx_esf_ins \<Rightarrow> dead_reckoning_data_out \<Rightarrow> dead_reckoning_data_out" where
  "with_ins p dr =
     dr\<lparr>dro_ins_i_tow_ms := esf_ins_i_tow p,
        dro_ins_bitfield0 := esf_ins_bitfield0 p,
        dro_x_ang_rate_dps := dmul (to_double (sint (esf_ins_x_ang_rate p))) (dlit (1 / 10 ^ 3)),
        dro_y_ang_rate_dps := dmul (to_double (sint (esf_ins_y_ang_rate p))) (dlit (1 / 10 ^ 3)),
        dro_z_ang_rate_dps := dmul (to_double (sint (esf_ins_z_ang_rate p))) (dlit (1 / 10 ^ 3)),
        dro_x_accel_mss := dmul (to_double (sint (esf_ins_x_accel p))) (dlit (1 / 10 ^ 2)),
        dro_y_accel_mss := dmul (to_double (sint (esf_ins_y_accel p))) (dlit (1 / 10 ^ 2)),
        dro_z_accel_mss := dmul (to_double (sint (esf_ins_z_accel p))) (dlit (1 / 10 ^ 2)),
        dro_ins_valid := True\<rparr>"

definition dr_sensor_of :: "ubx_esf_status_sensor \<Rightarrow> dr_sensor_out_record" where
  "dr_sensor_of s =
     dr_sensor_out_record_zero\<lparr>dso_type := esf_sensor_sens_status1 s AND ESF_TYPE_MASK,
        dso_used := esf_sensor_sens_status1 s AND ESF_USED \<noteq> 0,
        dso_ready := esf_sensor_sens_status1 s AND ESF_READY \<noteq> 0,
        dso_calib_status := esf_sensor_sens_status2 s AND CALIB_STATUS_MASK,
        dso_time_status := drop_bit 2 (esf_sensor_sens_status2 s AND TIME_STATUS_MASK),
        dso_freq := esf_sensor_freq s,
        dso_faults := esf_sensor_faults s\<rparr>"

definition with_status :: "ubx_esf_status \<Rightarrow> dead_reckoning_data_out \<Rightarrow> dead_reckoning_data_out" where
  "with_status p dr =
     dr\<lparr>dro_status_i_tow_ms := esf_status_i_tow p,
        dro_fusion_mode := esf_status_fusion_mode p,
        dro_num_sens := esf_status_num_sens p,
        dro_sensors := fill_array 32 dr_sensor_out_record_zero
          (map (\<lambda>i. dr_sensor_of (esf_status_sensors p ! i)) [0..<min (unat (esf_status_num_sens p)) 32]),
        dro_status_valid := True\<rparr>"

definition satellite_of :: "nav_sat_sv \<Rightarrow> satellite_record" where
  "satellite_of sv =
     satellite_record_zero\<lparr>svr_gnss_id := nav_sat_sv_gnss_id sv,
        svr_sv_id := nav_sat_sv_sv_id sv,
        svr_cno := nav_sat_sv_cno sv,
        svr_elevation_deg := nav_sat_sv_elev sv,
        svr_azimuth_deg := nav_sat_sv_azim sv,
        svr_used := nav_sat_sv_flags sv AND FLAG_SV_USED \<noteq> 0,
        svr_has_almanac := nav_sat_sv_flags sv AND FLAG_ALM_AVAIL \<noteq> 0,
        svr_has_ephemeris := nav_sat_sv_flags sv AND FLAG_EPH_AVAIL \<noteq> 0,
        svr_healthy := drop_bit 4 (nav_sat_sv_flags sv AND FLAG_HEALTH) = 1,
        svr_diff_correction := nav_sat_sv_flags sv AND FLAG_DIFF_CORR \<noteq> 0,
        svr_sbas_correction := nav_sat_sv_flags sv AND FLAG_SBAS_CORR \<noteq> 0,
        svr_rtcm_correction := nav_sat_sv_flags sv AND FLAG_RTCM_CORR \<noteq> 0\<rparr>"

definition satellites_of :: "ubx_nav_sat \<Rightarrow> satellites_data" where
  "satellites_of p =
     (let n = min (unat (nav_sat_num_svs p)) 64
      in \<lparr>sats_num_svs = of_nat n,
          sats_svs = fill_array 64 satellite_record_zero
            (map (\<lambda>i. satellite_of (nav_sat_svs p ! i)) [0..<n]),
          sats_valid = True\<rparr>)"

definition raw_sv_of :: "rxm_measx_sv \<Rightarrow> raw_sv_record" where
  "raw_sv_of sv =
     raw_sv_record_zero\<lparr>rsv_gnss_id := measx_sv_gnss_id sv,
        rsv_sv_id := measx_sv_sv_id sv,
        rsv_cno := measx_sv_cno sv,
        rsv_mpath_indic := measx_sv_mpath_indic sv,
        rsv_doppler_ms := to_word (fmul (to_float (sint (measx_sv_doppler_ms sv))) (flit (4 / 10 ^ 2))),
        rsv_whole_chips := measx_sv_whole_chips sv,
        rsv_frac_chips := measx_sv_frac_chips sv,
        rsv_code_phase := measx_sv_code_phase sv,
        rsv_int_code_phase := measx_sv_int_code_phase sv,
        rsv_pseu_range_rms_err := measx_sv_pseu_range_rms_err sv\<rparr>"

definition raw_measurements_of :: "ubx_rxm_measx \<Rightarrow> raw_measurements_data" where
  "raw_measurements_of p =
     raw_measurements_data_zero\<lparr>rawm_gps_tow_ms := rxm_measx_gps_tow p,
        rawm_glo_tow_ms := rxm_measx_glo_tow p,
        rawm_bds_tow_ms := rxm_measx_bds_tow p,
        rawm_qzss_tow_ms := rxm_measx_qzss_tow p,
        rawm_gps_tow_acc := rxm_measx_gps_tow_acc p,
        rawm_glo_tow_acc := rxm_measx_glo_tow_acc p,
        rawm_bds_tow_acc := rxm_measx_bds_tow_acc p,
        rawm_qzss_tow_acc := rxm_measx_qzss_tow_acc p,
        rawm_flags := rxm_measx_flags p,
        rawm_num_svs := rxm_measx_num_svs p,
        rawm_svs := fill_array 64 raw_sv_record_zero
          (map (\<lambda>i. raw_sv_of (rxm_measx_svs p ! i)) [0..<unat (rxm_measx_num_svs p)]),
        rawm_valid := True\<rparr>"

definition mon_port_of :: "mon_io_port \<Rightarrow> mon_io_port_record" where
  "mon_port_of port =
     mon_io_port_record_zero\<lparr>iop_rx_bytes := mon_io_port_rx_bytes port,
        iop_tx_bytes := mon_io_port_tx_bytes port,
        iop_parity_errs := mon_io_port_parity_errs port,
        iop_framing_errs := mon_io_port_framing_errs port,
        iop_overrun_errs := mon_io_port_overrun_errs port,
        iop_break_cond := mon_io_port_break_cond port,
        iop_rx_busy := mon_io_port_rx_busy port,
        iop_tx_busy := mon_io_port_tx_busy port\<rparr>"

definition with_mon_io :: "ubx_mon_io \<Rightarrow> monitor_data \<Rightarrow> monitor_data" where
  "with_mon_io p mon =
     mon\<lparr>mon_num_ports := mon_io_num_ports p,
        mon_ports := fill_array 8 mon_io_port_record_zero
          (map (\<lambda>i. mon_port_of (mon_io_ports p ! i)) [0..<unat (mon_io_num_ports p)]),
        mon_io_valid := True\<rparr>"

text \<open>
  The transmit-buffer member as it is filled: the bytes pending are stored in the slots named after
  the available space and read into the usage, cut to a byte; the usage is read into the peak usage;
  the slots of the bytes pending are read but never written, so they stay zero.
\<close>

definition txbuf_of :: "ubx_mon_txbuf \<Rightarrow> mon_txbuf_data" where
  "txbuf_of p =
     mon_txbuf_data_zero\<lparr>txb_usage := map (\<lambda>i. ucast (mon_txbuf_pending p ! i)) [0..<6],
        txb_pending := replicate 6 0,
        txb_peak_usage := map (\<lambda>i. mon_txbuf_usage p ! i) [0..<6],
        txb_t_used := mon_txbuf_t_used p,
        txb_t_peak := mon_txbuf_t_peak p,
        txb_errors := mon_txbuf_errors p\<rparr>"

definition span_of :: "ubx_mon_span \<Rightarrow> mon_span_data" where
  "span_of p =
     (let n = min (unat (mon_span_num_rf_blocks p)) 4
      in \<lparr>spn_num_rf_blocks = of_nat n,
          spn_pga = fill_array 4 0 (map (\<lambda>i. rf_block_pga (mon_span_rf_blocks p ! i)) [0..<n])\<rparr>)"

section \<open>The specification\<close>

type_synonym latest = "msg_type \<Rightarrow> ubx_message option"

text \<open>What the last message of a type adds, when there is one.\<close>

definition add_tp :: "latest \<Rightarrow> timing_data \<Rightarrow> timing_data" where
  "add_tp l x = (case l MSG_UBX_TIM_TP of Some (Tim_tp p) \<Rightarrow> with_tp p x | _ \<Rightarrow> x)"

definition add_gps :: "latest \<Rightarrow> timing_data \<Rightarrow> timing_data" where
  "add_gps l x = (case l MSG_UBX_NAV_TIMEGPS of Some (Nav_timegps p) \<Rightarrow> with_gps p x | _ \<Rightarrow> x)"

definition add_ttff :: "latest \<Rightarrow> timing_data \<Rightarrow> timing_data" where
  "add_ttff l x = (case l MSG_UBX_NAV_STATUS of Some (Nav_status p) \<Rightarrow> with_ttff p x | _ \<Rightarrow> x)"

definition add_timeutc :: "latest \<Rightarrow> timing_data \<Rightarrow> timing_data" where
  "add_timeutc l x = (case l MSG_UBX_NAV_TIMEUTC of Some (Nav_timeutc p) \<Rightarrow> with_timeutc p x | _ \<Rightarrow> x)"

definition add_clock :: "latest \<Rightarrow> timing_data \<Rightarrow> timing_data" where
  "add_clock l x = (case l MSG_UBX_NAV_CLOCK of Some (Nav_clock p) \<Rightarrow> with_clock p x | _ \<Rightarrow> x)"

definition add_ins :: "latest \<Rightarrow> dead_reckoning_data_out \<Rightarrow> dead_reckoning_data_out" where
  "add_ins l x = (case l MSG_UBX_ESF_INS of Some (Esf_ins p) \<Rightarrow> with_ins p x | _ \<Rightarrow> x)"

definition add_status :: "latest \<Rightarrow> dead_reckoning_data_out \<Rightarrow> dead_reckoning_data_out" where
  "add_status l x = (case l MSG_UBX_ESF_STATUS of Some (Esf_status p) \<Rightarrow> with_status p x | _ \<Rightarrow> x)"

definition add_mon_io :: "latest \<Rightarrow> monitor_data \<Rightarrow> monitor_data" where
  "add_mon_io l x = (case l MSG_UBX_MON_IO of Some (Mon_io p) \<Rightarrow> with_mon_io p x | _ \<Rightarrow> x)"

definition add_txbuf :: "latest \<Rightarrow> monitor_data \<Rightarrow> monitor_data" where
  "add_txbuf l x = (case l MSG_UBX_MON_TXBUF of Some (Mon_txbuf p) \<Rightarrow> x\<lparr>mon_txbuf := txbuf_of p, mon_txbuf_valid := True\<rparr> | _ \<Rightarrow> x)"

definition add_span :: "latest \<Rightarrow> monitor_data \<Rightarrow> monitor_data" where
  "add_span l x = (case l MSG_UBX_MON_SPAN of Some (Mon_span p) \<Rightarrow> x\<lparr>mon_span := span_of p, mon_span_valid := True\<rparr> | _ \<Rightarrow> x)"

definition publish_attitude :: "latest \<Rightarrow> shared_buffers \<times> buffer_type list \<Rightarrow> shared_buffers \<times> buffer_type list" where
  "publish_attitude l x = (case l MSG_UBX_NAV_ATT of Some (Nav_att p) \<Rightarrow> publish True (sb_attitude_update (\<lambda>_. attitude_of p)) Buf_attitude x | _ \<Rightarrow> x)"

definition publish_dop :: "latest \<Rightarrow> shared_buffers \<times> buffer_type list \<Rightarrow> shared_buffers \<times> buffer_type list" where
  "publish_dop l x = (case l MSG_UBX_NAV_DOP of Some (Nav_dop p) \<Rightarrow> publish True (sb_dop_update (\<lambda>_. dop_of p)) Buf_dop x | _ \<Rightarrow> x)"

definition publish_security :: "latest \<Rightarrow> shared_buffers \<times> buffer_type list \<Rightarrow> shared_buffers \<times> buffer_type list" where
  "publish_security l x = (case l MSG_UBX_SEC_SIG of Some (Sec_sig p) \<Rightarrow> publish True (sb_security_update (\<lambda>_. security_of p)) Buf_security x | _ \<Rightarrow> x)"

definition publish_raw_measurements :: "latest \<Rightarrow> shared_buffers \<times> buffer_type list \<Rightarrow> shared_buffers \<times> buffer_type list" where
  "publish_raw_measurements l x = (case l MSG_UBX_RXM_MEASX of Some (Rxm_measx p) \<Rightarrow> publish True (sb_raw_measurements_update (\<lambda>_. raw_measurements_of p)) Buf_raw_measurements x | _ \<Rightarrow> x)"

lemmas add_defs = add_tp_def add_gps_def add_ttff_def add_timeutc_def add_clock_def add_ins_def add_status_def
  add_mon_io_def add_txbuf_def add_span_def
lemmas publish_defs = publish_attitude_def publish_dop_def publish_security_def publish_raw_measurements_def publish_def

definition timing_spec :: "latest \<Rightarrow> timing_data" where
  "timing_spec l =
     (add_clock l (add_timeutc l (add_ttff l (add_gps l (add_tp l timing_data_zero)))))
       \<lparr>tim_valid := l MSG_UBX_TIM_TP \<noteq> None \<or> l MSG_UBX_NAV_TIMEGPS \<noteq> None
            \<or> l MSG_UBX_NAV_STATUS \<noteq> None \<or> l MSG_UBX_NAV_TIMEUTC \<noteq> None \<or> l MSG_UBX_NAV_CLOCK \<noteq> None\<rparr>"

definition dead_reckoning_spec :: "latest \<Rightarrow> dead_reckoning_data_out" where
  "dead_reckoning_spec l =
     (let dr = add_status l (add_ins l dead_reckoning_data_out_zero)
      in dr\<lparr>dro_valid := dro_ins_valid dr \<or> dro_status_valid dr\<rparr>)"

definition monitor_spec :: "latest \<Rightarrow> monitor_data" where
  "monitor_spec l = add_span l (add_txbuf l (add_mon_io l monitor_data_zero))"

definition hp_spec :: "ubx_nav_pvt \<Rightarrow> latest \<Rightarrow> shared_buffers \<Rightarrow> shared_buffers \<times> buffer_type list" where
  "hp_spec pvt l sb =
     (let tim = timing_spec l; dr = dead_reckoning_spec l;
          s = (sb\<lparr>sb_location := location_of pvt, sb_timing := tim\<rparr>,
               Buf_location # (if tim_valid tim then [Buf_timing] else []));
          s = publish_security l (publish_dop l (publish_attitude l s))
      in publish (dro_valid dr) (sb_dead_reckoning_out_update (\<lambda>_. dr)) Buf_dead_reckoning_out s)"

definition lp_spec :: "ubx_nav_sat \<Rightarrow> latest \<Rightarrow> shared_buffers \<Rightarrow> shared_buffers \<times> buffer_type list" where
  "lp_spec sat l sb =
     (let mon = monitor_spec l;
          s = publish_raw_measurements l (sb\<lparr>sb_satellites := satellites_of sat\<rparr>, [Buf_satellites])
      in publish (mon_io_valid mon \<or> mon_txbuf_valid mon \<or> mon_span_valid mon)
           (sb_monitor_update (\<lambda>_. mon\<lparr>mon_valid := True\<rparr>)) Buf_monitor s)"

definition spec_message ::
    "ubx_message \<Rightarrow> latest \<times> shared_buffers \<Rightarrow> (latest \<times> shared_buffers) \<times> buffer_type list" where
  "spec_message m s =
     (case s of (l, sb) \<Rightarrow>
        (case handler_writes m of
           None \<Rightarrow> ((l, sb), [])
         | Some (mt, _) \<Rightarrow>
             let l = l(mt \<mapsto> m);
                 (sb, es) = (case m of Nav_pvt p \<Rightarrow> hp_spec p l sb | Nav_sat p \<Rightarrow> lp_spec p l sb | _ \<Rightarrow> (sb, []))
             in ((l, sb), es)))"

fun spec_run ::
    "ubx_message list \<Rightarrow> latest \<times> shared_buffers \<Rightarrow> (latest \<times> shared_buffers) \<times> buffer_type list" where
  "spec_run [] s = (s, [])"
| "spec_run (m # ms) s =
     (case spec_message m s of (s', es) \<Rightarrow> (case spec_run ms s' of (s'', es') \<Rightarrow> (s'', es @ es')))"

definition spec_new :: "latest \<times> shared_buffers" where
  "spec_new = ((\<lambda>_. None), shared_buffers_zero)"

section \<open>The store represents the last messages\<close>

definition holds :: "field_store \<Rightarrow> field_write list \<Rightarrow> bool" where
  "holds st ws \<longleftrightarrow> list_all (\<lambda>(f, v). fs_look st f = Some v) ws"

definition represents :: "field_store \<Rightarrow> latest \<Rightarrow> bool" where
  "represents st l \<longleftrightarrow>
     store_bounded st \<and> l MSG_UNKNOWN = None
     \<and> (\<forall>f. l (slot_owner f) = None \<longrightarrow> fs_look st f = None)
     \<and> (\<forall>mt m. l mt = Some m \<longrightarrow> (\<exists>ws. handler_writes m = Some (mt, ws) \<and> owned mt ws \<and> holds st ws))"

lemma represents_new: "represents fs_empty (\<lambda>_. None)"
  by (simp add: represents_def)

lemma holds_other:
  assumes "owned mt ws" and "owned mt' vs" and "mt \<noteq> mt'" and "holds st vs"
  shows "holds (fs_set_all ws st) vs"
proof -
  have "fs_look (fs_set_all ws st) f = Some v" if "(f, v) \<in> set vs" for f v
  proof -
    have "slot_owner f = mt'" using that assms(2) by (force simp: owned_def)
    then have "f \<notin> fst ` set ws" using assms(1,3) by (auto simp: owned_def)
    then show ?thesis
      using that assms(4) by (auto simp: fs_look_all_other holds_def list_all_iff)
  qed
  then show ?thesis by (auto simp: holds_def list_all_iff)
qed

lemma holds_written: "owned mt ws \<Longrightarrow> holds (fs_set_all ws st) ws"
  by (fastforce simp: holds_def list_all_iff owned_def intro!: fs_look_all_written)

lemma represents_step:
  assumes "represents st l" and w: "handler_writes m = Some (mt, ws)" and "message_ok m"
  shows "represents (fs_set_all ws st) (l(mt \<mapsto> m))"
proof -
  have own: "owned mt ws" using handler_owned [OF w assms(3)] .
  have "mt \<noteq> MSG_UNKNOWN" using w by (cases m) (auto simp: msg_type_defs)
  moreover have "fs_look (fs_set_all ws st) f = None" if "slot_owner f \<noteq> mt" "l (slot_owner f) = None" for f
  proof -
    have "f \<notin> fst ` set ws" using that(1) own by (auto simp: owned_def)
    then show ?thesis using assms(1) that(2) by (simp add: fs_look_all_other represents_def)
  qed
  moreover have "\<exists>vs. handler_writes m' = Some (mt', vs) \<and> owned mt' vs \<and> holds (fs_set_all ws st) vs"
    if "mt' \<noteq> mt" "l mt' = Some m'" for mt' m'
    using assms(1) that holds_other [OF own] unfolding represents_def by metis
  ultimately show ?thesis
    using assms(1) w own holds_written [OF own] unfolding represents_def
    by (auto simp: store_bounded_set_all)
qed

section \<open>Reading what a message has left\<close>

named_theorems conv_simps \<open>a value read back from the store\<close>

text \<open>The integers a double holds exactly.\<close>

definition exact_int :: "int \<Rightarrow> bool" where
  "exact_int n \<longleftrightarrow> \<bar>n\<bar> < 2 ^ 53"

lemma trunc_to_double: "exact_int n \<Longrightarrow> trunc (to_double n) = n"
  by (simp add: exact_int_def to_double_int)

lemma exact_uint: "LENGTH('a) \<le> 53 \<Longrightarrow> exact_int (uint (w :: 'a::len word))"
proof -
  assume "LENGTH('a) \<le> 53"
  then have "(2::int) ^ LENGTH('a) \<le> 2 ^ 53" by (intro power_increasing) simp_all
  moreover have "uint w < 2 ^ LENGTH('a)" by simp
  ultimately have "uint w < 2 ^ 53" by (rule less_le_trans [rotated])
  then show ?thesis by (simp add: exact_int_def)
qed

lemma exact_sint: "LENGTH('a) \<le> 53 \<Longrightarrow> exact_int (sint (w :: 'a::len word))"
proof -
  assume "LENGTH('a) \<le> 53"
  then have "(2::int) ^ (LENGTH('a) - 1) < 2 ^ 53"
    by (intro power_strict_increasing) (simp_all add: less_le_trans)
  then have "\<bar>sint w\<bar> < 2 ^ 53" using sint_ge [of w] sint_lt [of w] by linarith
  then show ?thesis by (simp add: exact_int_def)
qed

lemma word_of_int_casts:
  "word_of_int (uint (w :: 'a::len word)) = (ucast w :: 'b::len word)"
  "word_of_int (sint (w :: 'a::len word)) = (scast w :: 'b::len word)"
  by simp_all

lemma to_word_casts [conv_simps]:
  fixes w :: "'a::len word"
  assumes "LENGTH('a) \<le> 53"
  shows "to_word (to_double (uint w)) = (ucast w :: 'b::len word)"
    and "to_word (to_double (sint w)) = (scast w :: 'b::len word)"
  unfolding to_word_def trunc_to_double [OF exact_uint [OF assms]] trunc_to_double [OF exact_sint [OF assms]]
  by (rule word_of_int_casts)+

lemma to_word_mod [conv_simps]:
  "to_word (to_double (uint (w :: u32) mod 1000)) = w mod 1000"
proof -
  have "exact_int (uint w mod 1000)"
    using pos_mod_bound [of 1000 "uint w"] pos_mod_sign [of 1000 "uint w"] by (simp add: exact_int_def)
  then show ?thesis by (simp add: to_word_def trunc_to_double word_mod_def)
qed

lemma to_word_nat [conv_simps]: "n < 2 ^ 53 \<Longrightarrow> to_word (to_double (int n)) = of_nat n"
  by (simp add: to_word_def trunc_to_double exact_int_def)

lemma to_bool_of_bool [conv_simps]: "to_bool (to_double (of_bool b)) \<longleftrightarrow> b"
  by (cases b) (simp_all add: to_bool_def to_double_int)

lemma float_conv [conv_simps]:
  "float_to_double (to_float n) = to_float n" "float_to_double (fmul x y) = fmul x y"
  "double_to_float (to_float n) = to_float n" "double_to_float (fmul x y) = fmul x y"
  by (simp_all add: double_to_float_def round_prec_exact double_unchanged fits_mono [of 24])

lemma exact_sdiv: "exact_int n \<Longrightarrow> exact_int (n sdiv 1000)"
proof -
  have "\<bar>n\<bar> div 1000 \<le> \<bar>n\<bar>" "0 \<le> \<bar>n\<bar> div 1000" by linarith+
  moreover have "\<bar>n sdiv 1000\<bar> = \<bar>n\<bar> div 1000"
    by (auto simp: signed_divide_int_def sgn_if)
  ultimately show "exact_int n \<Longrightarrow> exact_int (n sdiv 1000)" by (simp add: exact_int_def)
qed

lemma to_word_sdiv [conv_simps]:
  "to_word (to_double (sint (w :: i32) sdiv 1000)) = word_of_int (sint w sdiv 1000)"
proof -
  have "exact_int (sint w sdiv 1000)" by (intro exact_sdiv exact_sint) simp
  then show ?thesis by (simp add: to_word_def trunc_to_double)
qed

text \<open>A time stamp is at most eight digits of years away from 1970, so a double holds it exactly.\<close>

lemma leap_days_range:
  assumes "0 \<le> y" and "y \<le> n"
  shows "0 \<le> leap_days y \<and> leap_days y \<le> n"
proof -
  have "y div 100 \<le> y div 4" "0 \<le> y div 100" "0 \<le> y div 400" "y div 4 \<le> y" "y div 400 \<le> y div 100"
    using assms(1) by linarith+
  then show ?thesis using assms by (simp add: leap_days_def)
qed

lemma days_before_month_range:
  assumes "0 \<le> m" and "m < 12"
  shows "0 \<le> days_before_month leap m \<and> days_before_month leap m \<le> 335"
proof -
  let ?days = "[0, 31, 59, 90, 120, 151, 181, 212, 243, 273, 304, 334] :: int list"
  have "?days ! nat m \<in> set ?days" using assms by (intro nth_mem) simp
  then show ?thesis by (auto simp: days_before_month_def)
qed

lemma seconds_range:
  fixes y q l b d h mi s :: int
  assumes "0 \<le> y" "y < 65536" "0 \<le> q" "q \<le> 21" "0 \<le> l" "l \<le> 67456" "0 \<le> b" "b \<le> 335"
    "0 \<le> d" "d < 256" "0 \<le> h" "h < 256" "0 \<le> mi" "mi < 256" "0 \<le> s" "s < 256"
  shows "\<bar>(((365 * (1900 + y + q - 1970) + l - 477 + b + d - 1) * 24 + h) * 60 + mi) * 60 + s\<bar> < 4000000000000"
  unfolding abs_less_iff using assms by simp

lemma timegm_range:
  assumes "0 \<le> y" "y < 65536" "0 \<le> m" "m < 256" "0 \<le> d" "d < 256" "0 \<le> h" "h < 256"
    "0 \<le> mi" "mi < 256" "0 \<le> s" "s < 256"
  shows "\<bar>timegm y m d h mi s\<bar> < 4000000000000"
proof -
  let ?Y = "1900 + y + m div 12"
  have div: "0 \<le> m div 12" "m div 12 \<le> 21" using assms(3,4) by linarith+
  let ?b = "days_before_month (leap_year ?Y) (m mod 12)" and ?l = "leap_days (?Y - 1)"
  have b: "0 \<le> ?b \<and> ?b \<le> 335"
    by (rule days_before_month_range) simp_all
  have l: "0 \<le> ?l \<and> ?l \<le> 67456"
    by (rule leap_days_range) (use assms div in linarith)+
  have l0: "leap_days 1969 = 477" by (simp add: leap_days_def)
  show ?thesis
    unfolding timegm_def Let_def l0
    by (rule seconds_range) (use assms(1,2,5-12) div b l in simp_all)
qed

lemma exact_timestamp: "exact_int (utc_timestamp year month day hour minute sec i_tow)"
proof -
  let ?y = "if 1900 \<le> year then uint (year - 1900) else uint year"
  let ?m = "if 1 \<le> month then uint (month - 1) else uint month"
  have "0 \<le> ?y" "?y < 65536" "0 \<le> ?m" "?m < 256"
    using uint_bounded [of year] uint_bounded [of "year - 1900"]
      uint_bounded [of month] uint_bounded [of "month - 1"] by (simp_all split: if_splits)
  moreover have "0 \<le> uint b" "uint b < 256" for b :: u8
    using uint_bounded [of b] by simp_all
  ultimately have T: "\<bar>timegm ?y ?m (uint day) (uint hour) (uint minute) (uint sec)\<bar> < 4000000000000"
    (is "\<bar>?T\<bar> < _") by (intro timegm_range)
  have "0 \<le> uint i_tow mod 1000" "uint i_tow mod 1000 < 1000" by simp_all
  with T have "\<bar>?T * 1000 + uint i_tow mod 1000\<bar> < 9007199254740992" by linarith
  then show ?thesis unfolding utc_timestamp_def Let_def exact_int_def by simp
qed

lemma to_word_timestamp [conv_simps]:
  "to_word (to_double (utc_timestamp y mo d h mi s t)) = word_of_int (utc_timestamp y mo d h mi s t)"
  by (simp add: to_word_def trunc_to_double exact_timestamp)

end
