(* ===== verification/Ubx_Database_Refine.thy ===== *)
theory Ubx_Database_Refine
  imports Ubx_Database_Spec
begin

text \<open>
  The wrapper refines its specification: what the commit callbacks read from a snapshot is what the
  last message of each type contributes, so a run of the wrapper and a run of the specification
  publish the same buffers and emit the same updates.
\<close>

section \<open>Snapshots of a store that represents the last messages\<close>

lemma represents_bounded [simp]: "represents st l \<Longrightarrow> store_bounded st"
  by (simp add: represents_def)

lemma snap_reads:
  assumes "represents (snap_store snap) l"
  shows "snap_get conv snap f out = (case fs_look (snap_store snap) f of Some v \<Rightarrow> conv v | None \<Rightarrow> out)"
    and "snap_is_valid snap f \<longleftrightarrow> fs_look (snap_store snap) f \<noteq> None"
  using assms by (simp_all add: snap_get_def snap_is_valid_def fs_get_look fs_is_valid_look)

text \<open>No remembered message has more blocks than the arrays behind it hold.\<close>

definition latest_ok :: "latest \<Rightarrow> bool" where
  "latest_ok l \<longleftrightarrow> (\<forall>mt m. l mt = Some m \<longrightarrow> message_ok m)"

lemma latest_okD: "latest_ok l \<Longrightarrow> l mt = Some m \<Longrightarrow> message_ok m"
  by (simp add: latest_ok_def)

text \<open>
  A reader guarded by the marker of a message type: it runs exactly when a message of the type has
  arrived, and then sees the writes of the last one.
\<close>

lemma represents_none:
  "represents st l \<Longrightarrow> l (slot_owner f) = None \<Longrightarrow> fs_look st f = None"
  by (simp add: represents_def)

lemma represents_some:
  assumes "represents st l" and "l mt = Some m"
  shows "\<exists>ws. handler_writes m = Some (mt, ws) \<and> holds st ws"
  using assms unfolding represents_def by blast

lemma guarded_read:
  assumes r: "represents (snap_store snap) l" and ok: "latest_ok l"
    and owner: "slot_owner marker = mt"
    and kind: "\<And>m ws. handler_writes m = Some (mt, ws) \<Longrightarrow> \<exists>p. m = K p \<and> ws = handle p"
    and marked: "\<And>p. holds (snap_store snap) (handle p) \<Longrightarrow> fs_look (snap_store snap) marker \<noteq> None"
    and read: "\<And>p. holds (snap_store snap) (handle p) \<Longrightarrow> message_ok (K p) \<Longrightarrow> rd = spec p"
  shows "(\<exists>p. l mt = Some (K p) \<and> snap_is_valid snap marker \<and> rd = spec p)
         \<or> (l mt = None \<and> \<not> snap_is_valid snap marker)"
proof (cases "l mt")
  case None
  then have "fs_look (snap_store snap) marker = None" using represents_none [OF r] owner by simp
  then show ?thesis using None by (simp add: snap_reads [OF r])
next
  case (Some m)
  then obtain ws where ws: "handler_writes m = Some (mt, ws)" "holds (snap_store snap) ws"
    using represents_some [OF r] by blast
  then obtain p where p: "m = K p" "ws = handle p" using kind by blast
  have "rd = spec p" using read ws(2) p latest_okD [OF ok Some] by simp
  moreover have "snap_is_valid snap marker" using marked ws(2) p by (simp add: snap_reads [OF r])
  ultimately show ?thesis using Some p by blast
qed

text \<open>The messages that drive each handler the readers depend on.\<close>

lemma handler_kind:
  "handler_writes m = Some (MSG_UBX_NAV_PVT, ws) \<Longrightarrow> \<exists>p. m = Nav_pvt p \<and> ws = db_nav_pvt_handle p"
  "handler_writes m = Some (MSG_UBX_TIM_TP, ws) \<Longrightarrow> \<exists>p. m = Tim_tp p \<and> ws = db_tim_tp_handle p"
  "handler_writes m = Some (MSG_UBX_NAV_TIMEGPS, ws) \<Longrightarrow> \<exists>p. m = Nav_timegps p \<and> ws = db_nav_timegps_handle p"
  "handler_writes m = Some (MSG_UBX_NAV_STATUS, ws) \<Longrightarrow> \<exists>p. m = Nav_status p \<and> ws = db_nav_status_handle p"
  "handler_writes m = Some (MSG_UBX_NAV_TIMEUTC, ws) \<Longrightarrow> \<exists>p. m = Nav_timeutc p \<and> ws = db_nav_timeutc_handle p"
  "handler_writes m = Some (MSG_UBX_NAV_CLOCK, ws) \<Longrightarrow> \<exists>p. m = Nav_clock p \<and> ws = db_nav_clock_handle p"
  "handler_writes m = Some (MSG_UBX_NAV_ATT, ws) \<Longrightarrow> \<exists>p. m = Nav_att p \<and> ws = db_nav_att_handle p"
  "handler_writes m = Some (MSG_UBX_NAV_DOP, ws) \<Longrightarrow> \<exists>p. m = Nav_dop p \<and> ws = db_nav_dop_handle p"
  "handler_writes m = Some (MSG_UBX_SEC_SIG, ws) \<Longrightarrow> \<exists>p. m = Sec_sig p \<and> ws = db_sec_sig_handle p"
  "handler_writes m = Some (MSG_UBX_ESF_INS, ws) \<Longrightarrow> \<exists>p. m = Esf_ins p \<and> ws = db_esf_ins_handle p"
  "handler_writes m = Some (MSG_UBX_ESF_STATUS, ws) \<Longrightarrow> \<exists>p. m = Esf_status p \<and> ws = db_esf_status_handle p"
  "handler_writes m = Some (MSG_UBX_RXM_MEASX, ws) \<Longrightarrow> \<exists>p. m = Rxm_measx p \<and> ws = db_rxm_measx_handle p"
  "handler_writes m = Some (MSG_UBX_MON_IO, ws) \<Longrightarrow> \<exists>p. m = Mon_io p \<and> ws = db_mon_io_handle p"
  "handler_writes m = Some (MSG_UBX_MON_TXBUF, ws) \<Longrightarrow> \<exists>p. m = Mon_txbuf p \<and> ws = db_mon_txbuf_handle p"
  "handler_writes m = Some (MSG_UBX_MON_SPAN, ws) \<Longrightarrow> \<exists>p. m = Mon_span p \<and> ws = db_mon_span_handle p"
  "handler_writes m = Some (MSG_UBX_NAV_SAT, ws) \<Longrightarrow> \<exists>p. m = Nav_sat p \<and> ws = db_nav_sat_handle p"
  by (cases m; simp add: msg_type_defs)+

section \<open>Messages without blocks\<close>

lemma pvt_latest:
  assumes r: "represents (snap_store snap) l" and ok: "latest_ok l"
  shows "(\<exists>p. l MSG_UBX_NAV_PVT = Some (Nav_pvt p) \<and> snap_is_valid snap DATA_UBX_NAV_PVT_ITOW \<and> read_location snap = location_of p)
    \<or> (l MSG_UBX_NAV_PVT = None \<and> \<not> snap_is_valid snap DATA_UBX_NAV_PVT_ITOW)"
  by (rule guarded_read [OF r ok, where handle = db_nav_pvt_handle], simp add: slot_simps, rule handler_kind,
      assumption, simp add: holds_def db_nav_pvt_handle_def,
      simp add: snap_reads [OF r] read_location_def location_of_def holds_def db_nav_pvt_handle_def conv_simps)

lemma tp_latest:
  assumes r: "represents (snap_store snap) l" and ok: "latest_ok l"
  shows "(\<exists>p. l MSG_UBX_TIM_TP = Some (Tim_tp p) \<and> snap_is_valid snap DATA_TIME_PULSE_TIMESTAMP \<and> read_tp snap = with_tp p)
    \<or> (l MSG_UBX_TIM_TP = None \<and> \<not> snap_is_valid snap DATA_TIME_PULSE_TIMESTAMP)"
  by (rule guarded_read [OF r ok, where handle = db_tim_tp_handle], simp add: slot_simps, rule handler_kind,
      assumption, simp add: holds_def db_tim_tp_handle_def,
      rule ext, simp add: snap_reads [OF r] read_tp_def with_tp_def holds_def db_tim_tp_handle_def conv_simps)

lemma gps_latest:
  assumes r: "represents (snap_store snap) l" and ok: "latest_ok l"
  shows "(\<exists>p. l MSG_UBX_NAV_TIMEGPS = Some (Nav_timegps p) \<and> snap_is_valid snap DATA_UBX_NAV_GPSTIME_TOW \<and> read_gps snap = with_gps p)
    \<or> (l MSG_UBX_NAV_TIMEGPS = None \<and> \<not> snap_is_valid snap DATA_UBX_NAV_GPSTIME_TOW)"
  by (rule guarded_read [OF r ok, where handle = db_nav_timegps_handle], simp add: slot_simps, rule handler_kind,
      assumption, simp add: holds_def db_nav_timegps_handle_def,
      rule ext, simp add: snap_reads [OF r] read_gps_def with_gps_def holds_def db_nav_timegps_handle_def conv_simps)

lemma ttff_latest:
  assumes r: "represents (snap_store snap) l" and ok: "latest_ok l"
  shows "(\<exists>p. l MSG_UBX_NAV_STATUS = Some (Nav_status p) \<and> snap_is_valid snap DATA_UBX_TTFF \<and> read_ttff snap = with_ttff p)
    \<or> (l MSG_UBX_NAV_STATUS = None \<and> \<not> snap_is_valid snap DATA_UBX_TTFF)"
  by (rule guarded_read [OF r ok, where handle = db_nav_status_handle], simp add: slot_simps, rule handler_kind,
      assumption, simp add: holds_def db_nav_status_handle_def,
      rule ext, simp add: snap_reads [OF r] read_ttff_def with_ttff_def holds_def db_nav_status_handle_def conv_simps)

lemma timeutc_latest:
  assumes r: "represents (snap_store snap) l" and ok: "latest_ok l"
  shows "(\<exists>p. l MSG_UBX_NAV_TIMEUTC = Some (Nav_timeutc p) \<and> snap_is_valid snap DATA_UBX_NAV_TIMEUTC_ITOW \<and> read_timeutc snap = with_timeutc p)
    \<or> (l MSG_UBX_NAV_TIMEUTC = None \<and> \<not> snap_is_valid snap DATA_UBX_NAV_TIMEUTC_ITOW)"
  by (rule guarded_read [OF r ok, where handle = db_nav_timeutc_handle], simp add: slot_simps, rule handler_kind,
      assumption, simp add: holds_def db_nav_timeutc_handle_def,
      rule ext, simp add: snap_reads [OF r] read_timeutc_def with_timeutc_def holds_def db_nav_timeutc_handle_def conv_simps)

lemma clock_latest:
  assumes r: "represents (snap_store snap) l" and ok: "latest_ok l"
  shows "(\<exists>p. l MSG_UBX_NAV_CLOCK = Some (Nav_clock p) \<and> snap_is_valid snap DATA_UBX_NAV_CLOCK_ITOW \<and> read_clock snap = with_clock p)
    \<or> (l MSG_UBX_NAV_CLOCK = None \<and> \<not> snap_is_valid snap DATA_UBX_NAV_CLOCK_ITOW)"
  by (rule guarded_read [OF r ok, where handle = db_nav_clock_handle], simp add: slot_simps, rule handler_kind,
      assumption, simp add: holds_def db_nav_clock_handle_def,
      rule ext, simp add: snap_reads [OF r] read_clock_def with_clock_def holds_def db_nav_clock_handle_def conv_simps)

lemma att_latest:
  assumes r: "represents (snap_store snap) l" and ok: "latest_ok l"
  shows "(\<exists>p. l MSG_UBX_NAV_ATT = Some (Nav_att p) \<and> snap_is_valid snap DATA_UBX_NAV_ATT_ITOW \<and> read_attitude snap = attitude_of p)
    \<or> (l MSG_UBX_NAV_ATT = None \<and> \<not> snap_is_valid snap DATA_UBX_NAV_ATT_ITOW)"
  by (rule guarded_read [OF r ok, where handle = db_nav_att_handle], simp add: slot_simps, rule handler_kind,
      assumption, simp add: holds_def db_nav_att_handle_def,
      simp add: snap_reads [OF r] read_attitude_def attitude_of_def holds_def db_nav_att_handle_def conv_simps)

lemma dop_latest:
  assumes r: "represents (snap_store snap) l" and ok: "latest_ok l"
  shows "(\<exists>p. l MSG_UBX_NAV_DOP = Some (Nav_dop p) \<and> snap_is_valid snap DATA_UBX_NAV_HORIZONAL_DILUTION_OF_PRECISION \<and> read_dop snap = dop_of p)
    \<or> (l MSG_UBX_NAV_DOP = None \<and> \<not> snap_is_valid snap DATA_UBX_NAV_HORIZONAL_DILUTION_OF_PRECISION)"
  by (rule guarded_read [OF r ok, where handle = db_nav_dop_handle], simp add: slot_simps, rule handler_kind,
      assumption, simp add: holds_def db_nav_dop_handle_def,
      simp add: snap_reads [OF r] read_dop_def dop_of_def holds_def db_nav_dop_handle_def conv_simps)

lemma sec_latest:
  assumes r: "represents (snap_store snap) l" and ok: "latest_ok l"
  shows "(\<exists>p. l MSG_UBX_SEC_SIG = Some (Sec_sig p) \<and> snap_is_valid snap DATA_UBX_SEC_SIG_VERSION \<and> read_security snap = security_of p)
    \<or> (l MSG_UBX_SEC_SIG = None \<and> \<not> snap_is_valid snap DATA_UBX_SEC_SIG_VERSION)"
  by (rule guarded_read [OF r ok, where handle = db_sec_sig_handle], simp add: slot_simps, rule handler_kind,
      assumption, simp add: holds_def db_sec_sig_handle_def,
      simp add: snap_reads [OF r] read_security_def security_of_def holds_def db_sec_sig_handle_def conv_simps)

lemma ins_latest:
  assumes r: "represents (snap_store snap) l" and ok: "latest_ok l"
  shows "(\<exists>p. l MSG_UBX_ESF_INS = Some (Esf_ins p) \<and> snap_is_valid snap DATA_UBX_ESF_INS_ITOW \<and> read_ins snap = with_ins p)
    \<or> (l MSG_UBX_ESF_INS = None \<and> \<not> snap_is_valid snap DATA_UBX_ESF_INS_ITOW)"
  by (rule guarded_read [OF r ok, where handle = db_esf_ins_handle], simp add: slot_simps, rule handler_kind,
      assumption, simp add: holds_def db_esf_ins_handle_def,
      rule ext, simp add: snap_reads [OF r] read_ins_def with_ins_def holds_def db_esf_ins_handle_def conv_simps)

section \<open>Messages with blocks\<close>

lemma holds_append:
  "holds st ((f, v) # ws) \<longleftrightarrow> fs_look st f = Some v \<and> holds st ws" "holds st (ws @ vs) \<longleftrightarrow> holds st ws \<and> holds st vs"
  by (simp_all add: holds_def)

lemma holds_blocks: "holds st (concat (map block [0..<n])) \<longleftrightarrow> (\<forall>i < n. holds st (block i))"
  by (auto simp: holds_def list_all_iff)

lemma count_read:
  assumes "n \<le> 255" and "c \<le> 255"
  shows "(ucast (min (of_nat n :: u32) (of_nat c)) :: u8) = of_nat (min n c)"
    and "unat (of_nat (min n c) :: u8) = min n c"
proof -
  have "unat (of_nat k :: u32) = k" if "k \<le> 255" for k
    using that by (simp add: unat_of_nat take_bit_eq_mod)
  then show "(ucast (min (of_nat n :: u32) (of_nat c)) :: u8) = of_nat (min n c)"
    using assms by (auto simp: min_def word_le_nat_alt unsigned_of_nat)
  show "unat (of_nat (min n c) :: u8) = min n c"
    using assms by (simp add: unat_of_nat take_bit_eq_mod)
qed

lemma read_satellite_block:
  assumes r: "represents (snap_store snap) l" and "holds (snap_store snap) (db_nav_sat_block i sv)"
  shows "read_satellite snap i = satellite_of sv"
  using assms(2)
  by (simp add: snap_reads [OF r] read_satellite_def satellite_of_def holds_def db_nav_sat_block_def conv_simps)

lemma read_raw_sv_block:
  assumes r: "represents (snap_store snap) l" and "holds (snap_store snap) (db_rxm_measx_block i sv)"
  shows "read_raw_sv snap i = raw_sv_of sv"
  using assms(2)
  by (simp add: snap_reads [OF r] read_raw_sv_def raw_sv_of_def holds_def db_rxm_measx_block_def conv_simps)

lemma read_mon_port_block:
  assumes r: "represents (snap_store snap) l" and "holds (snap_store snap) (db_mon_io_block i sv)"
  shows "read_mon_port snap i = mon_port_of sv"
  using assms(2)
  by (simp add: snap_reads [OF r] read_mon_port_def mon_port_of_def holds_def db_mon_io_block_def conv_simps)

lemma read_dr_sensor_block:
  assumes r: "represents (snap_store snap) l" and "holds (snap_store snap) (db_esf_status_block i s)"
  shows "read_dr_sensor snap i = dr_sensor_of s"
  using assms(2)
  by (simp add: snap_reads [OF r] read_dr_sensor_def dr_sensor_of_def holds_def db_esf_status_block_def conv_simps)

lemma count_cast: "(ucast (min (ucast k :: u32) (ucast n :: u32)) :: u8) = min k n" for k n :: u8
proof -
  have "unat (ucast w :: u32) = unat w" "(ucast (ucast w :: u32) :: u8) = w" for w :: u8
    by (simp_all add: unsigned_ucast_eq take_bit_word_eq_self word_unat_eq_iff)
  then show ?thesis by (simp add: min_def word_le_nat_alt)
qed

lemma u8_capped: "unat n \<le> unat k \<Longrightarrow> min k n = n" for k n :: u8
  by (intro min.absorb2) (simp add: word_le_nat_alt)

lemma sat_latest:
  assumes r: "represents (snap_store snap) l" and ok: "latest_ok l"
  shows "(\<exists>p. l MSG_UBX_NAV_SAT = Some (Nav_sat p) \<and> snap_is_valid snap DATA_SATELLITES_IN_VIEW
      \<and> read_satellites snap = satellites_of p)
    \<or> (l MSG_UBX_NAV_SAT = None \<and> \<not> snap_is_valid snap DATA_SATELLITES_IN_VIEW)"
proof (rule guarded_read [OF r ok, where handle = db_nav_sat_handle])
  fix p assume h: "holds (snap_store snap) (db_nav_sat_handle p)"
  let ?n = "min (unat (nav_sat_num_svs p)) 64"
  have "read_satellite snap (of_nat i) = satellite_of (nav_sat_svs p ! i)" if "i < ?n" for i
    using h that by (intro read_satellite_block [OF r])
      (simp add: db_nav_sat_handle_def MAX_SATELLITES_IN_VIEW_def holds_append holds_blocks)
  then have svs: "map (\<lambda>i. read_satellite snap (of_nat i)) [0..<?n] = map (\<lambda>i. satellite_of (nav_sat_svs p ! i)) [0..<?n]"
    by simp
  have count: "snap_get to_word snap DATA_SATELLITES_IN_VIEW 0 = (of_nat ?n :: u32)"
    using h by (simp add: snap_reads [OF r] db_nav_sat_handle_def MAX_SATELLITES_IN_VIEW_def holds_def to_word_nat min_less_iff_disj)
  have n: "(ucast (min (ucast GNSS_MAX_SV_COUNT) (of_nat ?n :: u32)) :: u8) = of_nat ?n" "unat (of_nat ?n :: u8) = ?n"
    using count_read [of ?n 64] count_read [of 64 ?n] by (simp_all add: GNSS_MAX_SV_COUNT_def min.commute)
  show "read_satellites snap = satellites_of p"
    unfolding read_satellites_def satellites_of_def Let_def count n svs by (simp add: GNSS_MAX_SV_COUNT_def)
  show "fs_look (snap_store snap) DATA_SATELLITES_IN_VIEW \<noteq> None"
    using h by (simp add: db_nav_sat_handle_def holds_def)
qed (auto simp: slot_simps intro!: handler_kind)

lemma measx_latest:
  assumes r: "represents (snap_store snap) l" and ok: "latest_ok l"
  shows "(\<exists>p. l MSG_UBX_RXM_MEASX = Some (Rxm_measx p) \<and> snap_is_valid snap DATA_UBX_RXM_MEASX_NUM_SV
      \<and> read_raw_measurements snap = raw_measurements_of p)
    \<or> (l MSG_UBX_RXM_MEASX = None \<and> \<not> snap_is_valid snap DATA_UBX_RXM_MEASX_NUM_SV)"
proof (rule guarded_read [OF r ok, where handle = db_rxm_measx_handle])
  fix p assume h: "holds (snap_store snap) (db_rxm_measx_handle p)" and m: "message_ok (Rxm_measx p)"
  let ?n = "unat (rxm_measx_num_svs p)"
  have "read_raw_sv snap (of_nat i) = raw_sv_of (rxm_measx_svs p ! i)" if "i < ?n" for i
    using h that by (intro read_raw_sv_block [OF r]) (simp add: db_rxm_measx_handle_def holds_append holds_blocks)
  then have svs: "map (\<lambda>i. read_raw_sv snap (of_nat i)) [0..<?n] = map (\<lambda>i. raw_sv_of (rxm_measx_svs p ! i)) [0..<?n]"
    by simp
  have count: "snap_get to_word snap DATA_UBX_RXM_MEASX_NUM_SV 0 = (ucast (rxm_measx_num_svs p) :: u32)"
    using h by (simp add: snap_reads [OF r] db_rxm_measx_handle_def holds_def conv_simps)
  have n: "min GNSS_MAX_MEASX_SV_COUNT (rxm_measx_num_svs p) = rxm_measx_num_svs p"
    using m by (intro u8_capped) (simp add: GNSS_MAX_MEASX_SV_COUNT_def message_ok_def)
  show "read_raw_measurements snap = raw_measurements_of p"
    unfolding read_raw_measurements_def raw_measurements_of_def Let_def count count_cast n svs
    using h by (simp add: snap_reads [OF r] db_rxm_measx_handle_def holds_def conv_simps GNSS_MAX_MEASX_SV_COUNT_def)
next
  fix p assume "holds (snap_store snap) (db_rxm_measx_handle p)"
  then show "fs_look (snap_store snap) DATA_UBX_RXM_MEASX_NUM_SV \<noteq> None"
    by (simp add: db_rxm_measx_handle_def holds_def)
qed (auto simp: slot_simps intro!: handler_kind)

lemma io_latest:
  assumes r: "represents (snap_store snap) l" and ok: "latest_ok l"
  shows "(\<exists>p. l MSG_UBX_MON_IO = Some (Mon_io p) \<and> snap_is_valid snap DATA_UBX_MON_IO_NUM_PORTS
      \<and> read_mon_io snap = with_mon_io p)
    \<or> (l MSG_UBX_MON_IO = None \<and> \<not> snap_is_valid snap DATA_UBX_MON_IO_NUM_PORTS)"
proof (rule guarded_read [OF r ok, where handle = db_mon_io_handle])
  fix p assume h: "holds (snap_store snap) (db_mon_io_handle p)" and m: "message_ok (Mon_io p)"
  let ?n = "unat (mon_io_num_ports p)"
  have "read_mon_port snap (of_nat i) = mon_port_of (mon_io_ports p ! i)" if "i < ?n" for i
    using h that by (intro read_mon_port_block [OF r]) (simp add: db_mon_io_handle_def holds_append holds_blocks)
  then have ports: "map (\<lambda>i. read_mon_port snap (of_nat i)) [0..<?n] = map (\<lambda>i. mon_port_of (mon_io_ports p ! i)) [0..<?n]"
    by simp
  have count: "snap_get to_word snap DATA_UBX_MON_IO_NUM_PORTS 0 = (ucast (mon_io_num_ports p) :: u32)"
    using h by (simp add: snap_reads [OF r] db_mon_io_handle_def holds_def conv_simps)
  have n: "min GNSS_MAX_MON_IO_PORTS (mon_io_num_ports p) = mon_io_num_ports p"
    using m by (intro u8_capped) (simp add: GNSS_MAX_MON_IO_PORTS_def message_ok_def)
  show "read_mon_io snap = with_mon_io p"
    by (rule ext) (unfold read_mon_io_def with_mon_io_def Let_def count count_cast n ports, simp add: GNSS_MAX_MON_IO_PORTS_def)
next
  fix p assume "holds (snap_store snap) (db_mon_io_handle p)"
  then show "fs_look (snap_store snap) DATA_UBX_MON_IO_NUM_PORTS \<noteq> None"
    by (simp add: db_mon_io_handle_def holds_def)
qed (auto simp: slot_simps intro!: handler_kind)

lemma status_latest:
  assumes r: "represents (snap_store snap) l" and ok: "latest_ok l"
  shows "(\<exists>p. l MSG_UBX_ESF_STATUS = Some (Esf_status p) \<and> snap_is_valid snap DATA_UBX_ESF_STATUS_ITOW
      \<and> read_status snap = with_status p)
    \<or> (l MSG_UBX_ESF_STATUS = None \<and> \<not> snap_is_valid snap DATA_UBX_ESF_STATUS_ITOW)"
proof (rule guarded_read [OF r ok, where handle = db_esf_status_handle])
  fix p assume h: "holds (snap_store snap) (db_esf_status_handle p)"
  let ?n = "min (unat (esf_status_num_sens p)) 32"
  have "read_dr_sensor snap (of_nat i) = dr_sensor_of (esf_status_sensors p ! i)" if "i < ?n" for i
    using h that by (intro read_dr_sensor_block [OF r])
      (simp add: db_esf_status_handle_def MAX_ESF_SENSORS_def holds_append holds_blocks)
  then have sens: "map (\<lambda>i. read_dr_sensor snap (of_nat i)) [0..<?n] = map (\<lambda>i. dr_sensor_of (esf_status_sensors p ! i)) [0..<?n]"
    by simp
  have "snap_get to_word snap DATA_UBX_ESF_STATUS_ITOW 0 = esf_status_i_tow p"
    "snap_get to_word snap DATA_UBX_ESF_STATUS_FUSION_MODE 0 = esf_status_fusion_mode p"
    "snap_get to_word snap DATA_UBX_ESF_STATUS_NUM_SENS 0 = esf_status_num_sens p"
    using h by (simp_all add: snap_reads [OF r] db_esf_status_handle_def holds_def conv_simps)
  then show "read_status snap = with_status p"
    using sens by (intro ext) (simp add: read_status_def with_status_def Let_def GNSS_MAX_DR_SENSORS_def del: map_eq_conv)
next
  fix p assume "holds (snap_store snap) (db_esf_status_handle p)"
  then show "fs_look (snap_store snap) DATA_UBX_ESF_STATUS_ITOW \<noteq> None"
    by (simp add: db_esf_status_handle_def holds_def)
qed (auto simp: slot_simps intro!: handler_kind)

lemma span_latest:
  assumes r: "represents (snap_store snap) l" and ok: "latest_ok l"
  shows "(\<exists>p. l MSG_UBX_MON_SPAN = Some (Mon_span p) \<and> snap_is_valid snap DATA_UBX_MON_SPAN_NUM_RF_BLOCKS
      \<and> read_mon_span snap = span_of p)
    \<or> (l MSG_UBX_MON_SPAN = None \<and> \<not> snap_is_valid snap DATA_UBX_MON_SPAN_NUM_RF_BLOCKS)"
proof (rule guarded_read [OF r ok, where handle = db_mon_span_handle])
  fix p assume h: "holds (snap_store snap) (db_mon_span_handle p)"
  let ?n = "min (unat (mon_span_num_rf_blocks p)) 4"
  have "snap_get to_word snap (db_index_with_offset DATA_UBX_MON_SPAN_PGA (of_nat i)) 0 = rf_block_pga (mon_span_rf_blocks p ! i)"
    if "i < ?n" for i
  proof -
    have "holds (snap_store snap) (db_mon_span_block (of_nat i) (mon_span_rf_blocks p ! i))"
      using h that unfolding db_mon_span_handle_def MAX_MON_SPAN_RF_BLOCKS_def holds_append holds_blocks by blast
    then show ?thesis by (simp add: db_mon_span_block_def holds_def snap_reads [OF r] conv_simps)
  qed
  then have pga: "map (\<lambda>i. snap_get to_word snap (db_index_with_offset DATA_UBX_MON_SPAN_PGA (of_nat i)) 0) [0..<?n]
      = map (\<lambda>i. rf_block_pga (mon_span_rf_blocks p ! i)) [0..<?n]"
    by simp
  have count: "snap_get to_word snap DATA_UBX_MON_SPAN_NUM_RF_BLOCKS 0 = (ucast (mon_span_num_rf_blocks p) :: u32)"
    using h by (simp add: snap_reads [OF r] db_mon_span_handle_def holds_def conv_simps)
  have n: "min GNSS_MON_SPAN_RF_BLOCKS (mon_span_num_rf_blocks p) = of_nat ?n" "unat (of_nat ?n :: u8) = ?n"
    using count_read(2) [of "unat (mon_span_num_rf_blocks p)" 4] unat_u8_less [of "mon_span_num_rf_blocks p"]
    by (simp_all add: GNSS_MON_SPAN_RF_BLOCKS_def min_def word_le_nat_alt)
  show "read_mon_span snap = span_of p"
    unfolding read_mon_span_def span_of_def Let_def count count_cast n pga by (simp add: GNSS_MON_SPAN_RF_BLOCKS_def)
  show "fs_look (snap_store snap) DATA_UBX_MON_SPAN_NUM_RF_BLOCKS \<noteq> None"
    using h by (simp add: db_mon_span_handle_def holds_def)
qed (auto simp: slot_simps intro!: handler_kind)

section \<open>The transmit buffer\<close>

lemma no_pending_slots:
  assumes "represents st l"
  shows "fs_look st DATA_UBX_MON_TXBUF_PENDING_0 = None" "fs_look st DATA_UBX_MON_TXBUF_PENDING_1 = None"
    "fs_look st DATA_UBX_MON_TXBUF_PENDING_2 = None" "fs_look st DATA_UBX_MON_TXBUF_PENDING_3 = None"
    "fs_look st DATA_UBX_MON_TXBUF_PENDING_4 = None" "fs_look st DATA_UBX_MON_TXBUF_PENDING_5 = None"
proof -
  have unknown: "l MSG_UNKNOWN = None" using assms unfolding represents_def by blast
  have none: "fs_look st f = None" if "slot_owner f = MSG_UNKNOWN" for f
    using represents_none [OF assms] unknown that by metis
  show "fs_look st DATA_UBX_MON_TXBUF_PENDING_0 = None" "fs_look st DATA_UBX_MON_TXBUF_PENDING_1 = None"
    "fs_look st DATA_UBX_MON_TXBUF_PENDING_2 = None" "fs_look st DATA_UBX_MON_TXBUF_PENDING_3 = None"
    "fs_look st DATA_UBX_MON_TXBUF_PENDING_4 = None" "fs_look st DATA_UBX_MON_TXBUF_PENDING_5 = None"
    by (rule none, simp add: slot_simps)+
qed

lemma six_targets: "[0..<6] = [0, 1, 2, 3, 4, 5]" "replicate 6 x = [x, x, x, x, x, x]"
  by (simp_all add: upt_rec numeral_eq_Suc)

lemma txbuf_latest:
  assumes r: "represents (snap_store snap) l" and ok: "latest_ok l"
  shows "(\<exists>p. l MSG_UBX_MON_TXBUF = Some (Mon_txbuf p) \<and> snap_is_valid snap DATA_UBX_MON_TXBUF_ERRORS
      \<and> read_mon_txbuf snap = txbuf_of p)
    \<or> (l MSG_UBX_MON_TXBUF = None \<and> \<not> snap_is_valid snap DATA_UBX_MON_TXBUF_ERRORS)"
proof (rule guarded_read [OF r ok, where handle = db_mon_txbuf_handle])
  fix p assume h: "holds (snap_store snap) (db_mon_txbuf_handle p)"
  have reads: "snap_get to_word snap f 0 = (case fs_look (snap_store snap) f of Some v \<Rightarrow> to_word v | None \<Rightarrow> 0)" for f
    by (rule snap_reads [OF r])
  show "read_mon_txbuf snap = txbuf_of p"
    unfolding read_mon_txbuf_def txbuf_of_def six_targets reads no_pending_slots [OF r]
    using h unfolding db_mon_txbuf_handle_def holds_append by (simp add: conv_simps)
  show "fs_look (snap_store snap) DATA_UBX_MON_TXBUF_ERRORS \<noteq> None"
    using h by (simp add: db_mon_txbuf_handle_def holds_def)
qed (auto simp: slot_simps intro!: handler_kind)

section \<open>The commit callbacks\<close>

lemma tim_valid_simps [simp]:
  "tim_valid (with_tp p t) = tim_valid t" "tim_valid (with_gps g t) = tim_valid t"
  "tim_valid (with_ttff s t) = tim_valid t" "tim_valid (with_timeutc u t) = tim_valid t"
  "tim_valid (with_clock c t) = tim_valid t"
  by (simp_all add: with_tp_def with_gps_def with_ttff_def with_timeutc_def with_clock_def)

text \<open>The guarded readers in the form of the specification.\<close>

lemma guarded_adds:
  assumes "represents (snap_store snap) l" and "latest_ok l"
  shows "(if snap_is_valid snap DATA_TIME_PULSE_TIMESTAMP then read_tp snap t else t) = add_tp l t"
    and "(if snap_is_valid snap DATA_UBX_NAV_GPSTIME_TOW then read_gps snap t else t) = add_gps l t"
    and "(if snap_is_valid snap DATA_UBX_TTFF then read_ttff snap t else t) = add_ttff l t"
    and "(if snap_is_valid snap DATA_UBX_NAV_TIMEUTC_ITOW then read_timeutc snap t else t) = add_timeutc l t"
    and "(if snap_is_valid snap DATA_UBX_NAV_CLOCK_ITOW then read_clock snap t else t) = add_clock l t"
    and "(if snap_is_valid snap DATA_UBX_ESF_INS_ITOW then read_ins snap d else d) = add_ins l d"
    and "(if snap_is_valid snap DATA_UBX_ESF_STATUS_ITOW then read_status snap d else d) = add_status l d"
    and "(if snap_is_valid snap DATA_UBX_MON_IO_NUM_PORTS then read_mon_io snap m else m) = add_mon_io l m"
    and "(if snap_is_valid snap DATA_UBX_MON_TXBUF_ERRORS
          then m\<lparr>mon_txbuf := read_mon_txbuf snap, mon_txbuf_valid := True\<rparr> else m) = add_txbuf l m"
    and "(if snap_is_valid snap DATA_UBX_MON_SPAN_NUM_RF_BLOCKS
          then m\<lparr>mon_span := read_mon_span snap, mon_span_valid := True\<rparr> else m) = add_span l m"
  subgoal using tp_latest [OF assms] by (auto simp: add_tp_def)
  subgoal using gps_latest [OF assms] by (auto simp: add_gps_def)
  subgoal using ttff_latest [OF assms] by (auto simp: add_ttff_def)
  subgoal using timeutc_latest [OF assms] by (auto simp: add_timeutc_def)
  subgoal using clock_latest [OF assms] by (auto simp: add_clock_def)
  subgoal using ins_latest [OF assms] by (auto simp: add_ins_def)
  subgoal using status_latest [OF assms] by (auto simp: add_status_def)
  subgoal using io_latest [OF assms] by (auto simp: add_mon_io_def)
  subgoal using txbuf_latest [OF assms] by (auto simp: add_txbuf_def)
  subgoal using span_latest [OF assms] by (auto simp: add_span_def)
  done

lemma guarded_publishes:
  assumes "represents (snap_store snap) l" and "latest_ok l"
  shows "publish (snap_is_valid snap DATA_UBX_NAV_ATT_ITOW) (sb_attitude_update (\<lambda>_. read_attitude snap)) Buf_attitude s
      = publish_attitude l s"
    and "publish (snap_is_valid snap DATA_UBX_NAV_HORIZONAL_DILUTION_OF_PRECISION)
        (sb_dop_update (\<lambda>_. read_dop snap)) Buf_dop s = publish_dop l s"
    and "publish (snap_is_valid snap DATA_UBX_SEC_SIG_VERSION)
        (sb_security_update (\<lambda>_. read_security snap)) Buf_security s = publish_security l s"
    and "publish (snap_is_valid snap DATA_UBX_RXM_MEASX_NUM_SV)
        (sb_raw_measurements_update (\<lambda>_. read_raw_measurements snap)) Buf_raw_measurements s = publish_raw_measurements l s"
  subgoal using att_latest [OF assms] by (auto simp: publish_attitude_def publish_def)
  subgoal using dop_latest [OF assms] by (auto simp: publish_dop_def publish_def)
  subgoal using sec_latest [OF assms] by (auto simp: publish_security_def publish_def)
  subgoal using measx_latest [OF assms] by (auto simp: publish_raw_measurements_def publish_def)
  done

lemma timing_markers:
  assumes "represents (snap_store snap) l" and "latest_ok l"
  shows "snap_is_valid snap DATA_TIME_PULSE_TIMESTAMP \<longleftrightarrow> l MSG_UBX_TIM_TP \<noteq> None"
    and "snap_is_valid snap DATA_UBX_NAV_GPSTIME_TOW \<longleftrightarrow> l MSG_UBX_NAV_TIMEGPS \<noteq> None"
    and "snap_is_valid snap DATA_UBX_TTFF \<longleftrightarrow> l MSG_UBX_NAV_STATUS \<noteq> None"
    and "snap_is_valid snap DATA_UBX_NAV_TIMEUTC_ITOW \<longleftrightarrow> l MSG_UBX_NAV_TIMEUTC \<noteq> None"
    and "snap_is_valid snap DATA_UBX_NAV_CLOCK_ITOW \<longleftrightarrow> l MSG_UBX_NAV_CLOCK \<noteq> None"
  subgoal using tp_latest [OF assms] by auto
  subgoal using gps_latest [OF assms] by auto
  subgoal using ttff_latest [OF assms] by auto
  subgoal using timeutc_latest [OF assms] by auto
  subgoal using clock_latest [OF assms] by auto
  done

lemma read_timing_spec:
  assumes "represents (snap_store snap) l" and "latest_ok l"
  shows "read_timing snap = timing_spec l"
  unfolding read_timing_def timing_spec_def Let_def guarded_adds [OF assms]
  unfolding timing_markers [OF assms] ..

lemma read_dead_reckoning_spec:
  "represents (snap_store snap) l \<Longrightarrow> latest_ok l \<Longrightarrow> read_dead_reckoning snap = dead_reckoning_spec l"
  unfolding read_dead_reckoning_def dead_reckoning_spec_def Let_def by (simp only: guarded_adds)

lemma read_monitor_spec:
  "represents (snap_store snap) l \<Longrightarrow> latest_ok l \<Longrightarrow> read_monitor snap = monitor_spec l"
  unfolding read_monitor_def monitor_spec_def Let_def by (simp only: guarded_adds)

lemma on_hp_commit_spec:
  assumes "represents (snap_store snap) l" and "latest_ok l" and "l MSG_UBX_NAV_PVT = Some (Nav_pvt p)"
  shows "on_hp_commit snap sb = hp_spec p l sb"
proof -
  have "read_location snap = location_of p" using pvt_latest [OF assms(1,2)] assms(3) by auto
  then have start: "publish (tim_valid tim) (\<lambda>sb. sb) Buf_timing
        ((fst (publish True (sb_location_update (\<lambda>_. read_location snap)) Buf_location (sb, [])))\<lparr>sb_timing := tim\<rparr>,
          snd (publish True (sb_location_update (\<lambda>_. read_location snap)) Buf_location (sb, [])))
      = (sb\<lparr>sb_location := location_of p, sb_timing := tim\<rparr>, Buf_location # (if tim_valid tim then [Buf_timing] else []))"
    for tim by (simp add: publish_def)
  show ?thesis
    unfolding on_hp_commit_def hp_spec_def Let_def guarded_publishes [OF assms(1,2)]
      read_timing_spec [OF assms(1,2)] read_dead_reckoning_spec [OF assms(1,2)]
    using start by simp
qed

lemma on_lp_commit_spec:
  assumes "represents (snap_store snap) l" and "latest_ok l" and "l MSG_UBX_NAV_SAT = Some (Nav_sat p)"
  shows "on_lp_commit snap sb = lp_spec p l sb"
proof -
  have sats: "read_satellites snap = satellites_of p" using sat_latest [OF assms(1,2)] assms(3) by auto
  have start: "publish True (sb_satellites_update (\<lambda>_. sat)) Buf_satellites (sb, [])
      = (sb\<lparr>sb_satellites := sat\<rparr>, [Buf_satellites])" for sat
    by (simp add: publish_def)
  show ?thesis
    unfolding on_lp_commit_def lp_spec_def Let_def guarded_publishes [OF assms(1,2)] sats start
      read_monitor_spec [OF assms(1,2)] ..
qed

section \<open>The simulation\<close>

definition refines :: "ubx_database_wrapper \<Rightarrow> latest \<times> shared_buffers \<Rightarrow> bool" where
  "refines w s \<longleftrightarrow>
     db_policy (wr_db w) = Some (should_commit epoch_policy_new)
     \<and> db_commit_callbacks (wr_db w) = {High_priority, Low_priority}
     \<and> represents (db_store (wr_db w)) (fst s) \<and> latest_ok (fst s) \<and> wr_buffers w = snd s"

lemma refines_new: "refines wrapper_new spec_new"
  by (simp add: refines_def wrapper_new_def spec_new_def ubx_database_new_def set_commit_callback_def
      represents_new latest_ok_def insert_commute)

lemma should_commit_kind:
  "should_commit epoch_policy_new mt =
     (if mt = MSG_UBX_NAV_PVT then High_priority else if mt = MSG_UBX_NAV_SAT then Low_priority else No_commit)"
  by (simp add: should_commit_def epoch_policy_new_def)

lemma apply_update_refines:
  assumes "refines w (l, sb)"
  shows "\<exists>db. apply_update mt ws (wr_db w) =
           Some (db, if should_commit epoch_policy_new mt = No_commit then None
                     else Some \<lparr>snap_store = fs_set_all ws (db_store (wr_db w)),
                       snap_msg_mask = mask_set mt (db_mask (wr_db w)), snap_kind = should_commit epoch_policy_new mt\<rparr>)
         \<and> db_store db = fs_set_all ws (db_store (wr_db w)) \<and> db_policy db = db_policy (wr_db w)
         \<and> db_commit_callbacks db = db_commit_callbacks (wr_db w)"
  using assms by (auto simp: refines_def apply_update_def Let_def do_commit_def db_snapshot_def
      should_commit_def epoch_policy_new_def)

lemma wrapper_message_refines:
  assumes "refines w s" and "message_ok m"
  shows "\<exists>w'. wrapper_message m w = Some (w', snd (spec_message m s)) \<and> refines w' (fst (spec_message m s))"
proof (cases "handler_writes m")
  case None
  then show ?thesis using assms(1) by (cases s) (simp add: wrapper_message_def spec_message_def)
next
  case (Some mw)
  obtain mt ws where w: "handler_writes m = Some (mt, ws)" using Some by (cases mw) simp
  obtain l sb where s: "s = (l, sb)" by (cases s)
  note ref = assms(1) [unfolded s]
  let ?l = "l(mt \<mapsto> m)" and ?kind = "should_commit epoch_policy_new mt"
  obtain db where db: "apply_update mt ws (wr_db w) = Some (db, if ?kind = No_commit then None
                     else Some \<lparr>snap_store = fs_set_all ws (db_store (wr_db w)),
                       snap_msg_mask = mask_set mt (db_mask (wr_db w)), snap_kind = ?kind\<rparr>)"
      "db_store db = fs_set_all ws (db_store (wr_db w))" "db_policy db = db_policy (wr_db w)"
      "db_commit_callbacks db = db_commit_callbacks (wr_db w)"
    using apply_update_refines [OF ref] by blast
  have rep: "represents (fs_set_all ws (db_store (wr_db w))) ?l"
    using ref represents_step [OF _ w assms(2)] by (simp add: refines_def)
  have ok: "latest_ok ?l" using ref assms(2) by (auto simp: refines_def latest_ok_def)
  have new: "refines (w\<lparr>wr_db := db, wr_buffers := sb'\<rparr>) (?l, sb')" for sb'
    using ref rep ok db by (simp add: refines_def)
  have wr_buffers: "wr_buffers w = sb" using ref by (simp add: refines_def)
  consider (pvt) p where "m = Nav_pvt p" "mt = MSG_UBX_NAV_PVT" | (sat) p where "m = Nav_sat p" "mt = MSG_UBX_NAV_SAT"
    | (other) "?kind = No_commit" "spec_message m s = ((?l, sb), [])"
    using w by (cases m) (auto simp: s spec_message_def should_commit_kind msg_type_defs)
  then show ?thesis
  proof cases
    case pvt
    have "on_hp_commit snap sb = hp_spec p ?l sb" if "snap_store snap = fs_set_all ws (db_store (wr_db w))" for snap
      using that rep ok pvt by (intro on_hp_commit_spec) simp_all
    then show ?thesis
      using w db(1) new wr_buffers pvt
      by (simp add: wrapper_message_def spec_message_def s should_commit_kind Let_def split: prod.split)
  next
    case sat
    have "on_lp_commit snap sb = lp_spec p ?l sb" if "snap_store snap = fs_set_all ws (db_store (wr_db w))" for snap
      using that rep ok sat by (intro on_lp_commit_spec) simp_all
    then show ?thesis
      using w db(1) new wr_buffers sat
      by (simp add: wrapper_message_def spec_message_def s should_commit_kind Let_def msg_type_defs split: prod.split)
  next
    case other
    have "wrapper_message m w = Some (w\<lparr>wr_db := db\<rparr>, [])"
      using w db(1) other(1) by (simp add: wrapper_message_def)
    moreover have "refines (w\<lparr>wr_db := db\<rparr>) (?l, sb)" using new [of sb] wr_buffers by (metis ubx_database_wrapper.surjective ubx_database_wrapper.update_convs(1,3))
    ultimately show ?thesis using other(2) by simp
  qed
qed

lemma wrapper_run_refines:
  assumes "refines w s" and "list_all message_ok ms"
  shows "\<exists>w'. wrapper_run ms w = Some (w', snd (spec_run ms s)) \<and> refines w' (fst (spec_run ms s))"
  using assms
proof (induction ms arbitrary: w s)
  case (Cons m ms)
  obtain w1 where w1: "wrapper_message m w = Some (w1, snd (spec_message m s))" "refines w1 (fst (spec_message m s))"
    using wrapper_message_refines Cons.prems by fastforce
  obtain w2 where w2: "wrapper_run ms w1 = Some (w2, snd (spec_run ms (fst (spec_message m s))))"
    "refines w2 (fst (spec_run ms (fst (spec_message m s))))"
    using Cons.IH [OF w1(2)] Cons.prems(2) by auto
  show ?case using w1(1) w2 by (simp add: case_prod_beta)
qed simp

end
