(* ===== verification/Ubx_Database_Stream.thy ===== *)
theory Ubx_Database_Stream
  imports Ubx_Database_Refine
begin

text \<open>
  From the bytes a receiver reads to the buffers the clients see: the parser with the decoder stubs
  the wrapper registers, the database and the wrapper together.
\<close>

section \<open>From the received bytes\<close>

text \<open>The messages a decoder callback delivers, and those the reference scan of the bytes gives.\<close>

definition callbacks :: "'m ubx_event list \<Rightarrow> 'm list" where
  "callbacks evs = concat (map (\<lambda>e. case e of Decoder_callback m \<Rightarrow> [m] | _ \<Rightarrow> []) evs)"

definition frame_messages :: "'m ubx_decoder_registry \<Rightarrow> scan_item \<Rightarrow> 'm list" where
  "frame_messages reg item =
     (case item of
        Frame_bad _ \<Rightarrow> []
      | Frame_ok f \<Rightarrow>
          (case registry_find reg (hdr_class (frame_header f)) (hdr_id (frame_header f)) of
             None \<Rightarrow> []
           | Some d \<Rightarrow> (case dec_decode d f of None \<Rightarrow> [] | Some m \<Rightarrow> [m])))"

lemma callbacks_append: "callbacks (es @ fs) = callbacks es @ callbacks fs"
  by (simp add: callbacks_def)

lemma callbacks_emit: "callbacks (emit p item) = frame_messages (p_registry p) item"
  by (cases item) (auto simp: callbacks_def frame_messages_def emit_def ubx_dispatch_def ubx_dispatch_error_def
      split: option.split)

lemma callbacks_feed:
  assumes "idle p"
  shows "callbacks (snd (ubx_feed p bs)) = concat (map (frame_messages (p_registry p)) (scan (p_max_payload_len p) bs))"
proof -
  have "callbacks (concat (map (emit p) items)) = concat (map (frame_messages (p_registry p)) items)" for items
    by (induction items) (simp_all add: callbacks_append callbacks_emit, simp add: callbacks_def)
  then show ?thesis using feed_simulates [OF assms, of bs] by (simp add: simulates_def)
qed

text \<open>Every decoder the adapter registers is a stub's.\<close>

lemma adapter_register_find:
  "registry_find (adapter_register hs reg) c i = Some d \<Longrightarrow>
     registry_find reg c i = Some d \<or> (\<exists>mt \<in> set hs. decoder_stub mt = Some d)"
proof (induction hs arbitrary: reg)
  case (Cons mt hs)
  then show ?case
    by (cases "decoder_stub mt") (fastforce simp: registry_find_register split: if_splits)+
qed simp

lemmas stub_decoders = nav_pvt_decoder_def nav_sat_decoder_def nav_dop_decoder_def nav_eell_decoder_def
  nav_timegps_decoder_def nav_status_decoder_def tim_tp_decoder_def nav2_pvt_decoder_def nav2_eell_decoder_def
  nav2_dop_decoder_def nav2_timegps_decoder_def nav_odo_decoder_def esf_ins_decoder_def esf_status_decoder_def
  esf_meas_decoder_def nav_sig_decoder_def nav_timeutc_decoder_def nav_clock_decoder_def nav_att_decoder_def
  rxm_measx_decoder_def mon_io_decoder_def mon_txbuf_decoder_def sec_sig_decoder_def

lemma stub_message:
  assumes "decoder_stub mt = Some d" and "dec_decode d f = Some m" and "frame_ok f"
  shows "message_ok m \<and> (\<exists>ws. handler_writes m = Some (mt, ws))"
proof -
  have "unat (rxm_measx_num_svs p) \<le> 64" if "decode_rxm_measx f = Some p" for p
    using rxm_measx_capped [OF assms(3) that] by (simp add: capped_array_def)
  moreover have "unat (mon_io_num_ports p) \<le> 8" if "decode_mon_io f = Some p" for p
    using mon_io_capped [OF assms(3) that] by (simp add: capped_array_def)
  ultimately show ?thesis
    using assms(1,2) unfolding decoder_stub_def
    by (auto simp: stub_decoders message_ok_def split: if_split_asm)
qed

lemma scanned_messages_ok:
  assumes "p_registry p = wrapper_register wrapper_new []"
  shows "list_all message_ok (concat (map (frame_messages (p_registry p)) (scan k bs)))"
proof -
  have "message_ok m" if "item \<in> set (scan k bs)" "m \<in> set (frame_messages (p_registry p) item)" for item m
  proof -
    note item = that
    obtain f d where f: "item = Frame_ok f" "dec_decode d f = Some m"
        "registry_find (p_registry p) (hdr_class (frame_header f)) (hdr_id (frame_header f)) = Some d"
      using item(2) by (auto simp: frame_messages_def split: scan_item.splits option.splits)
    then obtain mt where "decoder_stub mt = Some d"
      using adapter_register_find [of "wr_handlers wrapper_new" "[]"] assms
      by (fastforce simp: wrapper_register_def registry_find_def)
    moreover have "frame_ok f" using item(1) f(1) scan_sound by (fastforce simp: frame_ok_def)
    ultimately show ?thesis using stub_message f(2) by blast
  qed
  then show ?thesis by (auto simp: list_all_iff)
qed

section \<open>Every buffer is the specification's\<close>

text \<open>
  C6 (refinement). Whatever bytes the parser reads, with the decoder stubs the wrapper registers: no
  update meets a null policy, and the buffers and the sequence of update signals are those of the
  specification run over the messages of the reference scan, which knows only the last message of each
  type and no field store. A position solution publishes the location and whatever attitude, DOP,
  security, timing and dead-reckoning messages have come before it; a satellite list publishes the
  satellites, raw measurements and monitor data; nothing else changes a buffer.
\<close>

theorem wrapper_refines_spec:
  assumes "idle p" and "p_registry p = wrapper_register wrapper_new []"
  shows "\<exists>w es l. wrapper_run (callbacks (snd (ubx_feed p bytes))) wrapper_new = Some (w, es)
    \<and> spec_run (concat (map (frame_messages (p_registry p)) (scan (p_max_payload_len p) bytes))) spec_new
        = ((l, wr_buffers w), es)"
proof -
  let ?ms = "concat (map (frame_messages (p_registry p)) (scan (p_max_payload_len p) bytes))"
  have "list_all message_ok ?ms" by (rule scanned_messages_ok [OF assms(2)])
  with wrapper_run_refines [OF refines_new] obtain w where
    w: "wrapper_run ?ms wrapper_new = Some (w, snd (spec_run ?ms spec_new))" "refines w (fst (spec_run ?ms spec_new))"
    by blast
  then have "spec_run ?ms spec_new = ((fst (fst (spec_run ?ms spec_new)), wr_buffers w), snd (spec_run ?ms spec_new))"
    by (simp add: refines_def prod_eq_iff)
  with w(1) show ?thesis unfolding callbacks_feed [OF assms(1)] by metis
qed

text \<open>The parser a receiver starts with when only the wrapper has registered decoders.\<close>

definition wrapper_parser :: "ubx_message ubx_parser" where
  "wrapper_parser = ubx_parser_new (wrapper_register wrapper_new [])"

lemma wrapper_parser [simp]:
  "idle wrapper_parser" "p_registry wrapper_parser = wrapper_register wrapper_new []" "p_max_payload_len wrapper_parser = 4096"
  by (simp add: wrapper_parser_def) (simp_all add: wrapper_parser_def ubx_parser_new_def UBX_SAFE_MAX_PAYLOAD_LEN_def)

lemma wrapper_registers_pvt:
  "registry_find (wrapper_register wrapper_new []) UBX_CLASS_NAV UBX_ID_NAV_PVT = Some nav_pvt_decoder"
  by (simp add: wrapper_register_def wrapper_new_def decoder_stub_def msg_type_defs registry_find_register stub_decoders ubx_consts)

lemma only_position:
  assumes "l = (\<lambda>_. None)(MSG_UBX_NAV_PVT \<mapsto> m)"
  shows "add_tp l t = t" "add_gps l t = t" "add_ttff l t = t" "add_timeutc l t = t" "add_clock l t = t"
    "add_ins l d = d" "add_status l d = d"
    "publish_attitude l s = s" "publish_dop l s = s" "publish_security l s = s"
  by (simp_all add: assms msg_type_defs add_defs publish_attitude_def publish_dop_def publish_security_def)

lemma first_position:
  "snd (spec_run [Nav_pvt m] spec_new) = [Buf_location]"
  "loc_valid (sb_location (snd (fst (spec_run [Nav_pvt m] spec_new))))"
proof -
  let ?l = "(\<lambda>_. None)(MSG_UBX_NAV_PVT \<mapsto> Nav_pvt m) :: latest"
  have "\<not> tim_valid (timing_spec ?l)" "\<not> dro_valid (dead_reckoning_spec ?l)"
    by (simp_all add: timing_spec_def dead_reckoning_spec_def only_position [OF refl] Let_def dead_reckoning_data_out_zero_def)
      (simp add: msg_type_defs)
  moreover have valid: "loc_valid (location_of m)" by (simp add: location_of_def)
  ultimately have "hp_spec m ?l sb = (sb\<lparr>sb_location := location_of m, sb_timing := timing_spec ?l\<rparr>, [Buf_location])" for sb
    by (simp add: hp_spec_def Let_def only_position [OF refl] publish_def)
  then show "snd (spec_run [Nav_pvt m] spec_new) = [Buf_location]"
    "loc_valid (sb_location (snd (fst (spec_run [Nav_pvt m] spec_new))))"
    using valid by (simp_all add: spec_message_def spec_new_def Let_def)
qed

theorem wrapper_refines_spec_witness:
  "\<exists>w. wrapper_run (callbacks (snd (ubx_feed wrapper_parser
        (build_ubx_frame UBX_CLASS_NAV UBX_ID_NAV_PVT (replicate 92 0))))) wrapper_new = Some (w, [Buf_location])
    \<and> loc_valid (get_location w)"
proof -
  let ?bytes = "build_ubx_frame UBX_CLASS_NAV UBX_ID_NAV_PVT (replicate 92 0)"
  obtain m where m: "decode_nav_pvt (built_frame UBX_CLASS_NAV UBX_ID_NAV_PVT (replicate 92 0)) = Some m"
    by (simp add: decode_nav_pvt_layout [OF frame_ok_built frame_payload_built])
  have nil: "scan (4096 :: u16) [] = []" by (simp add: scan.simps)
  have msg: "frame_messages (wrapper_register wrapper_new [])
      (Frame_ok (built_frame UBX_CLASS_NAV UBX_ID_NAV_PVT (replicate 92 0))) = [Nav_pvt m]"
    unfolding frame_messages_def scan_item.case frame_header_built wrapper_registers_pvt option.case
    by (simp add: nav_pvt_decoder_def m)
  have "scan (4096 :: u16) (?bytes @ [])
      = Frame_ok (built_frame UBX_CLASS_NAV UBX_ID_NAV_PVT (replicate 92 0)) # scan 4096 []"
    by (rule scan_built) simp
  then have "concat (map (frame_messages (p_registry wrapper_parser)) (scan (p_max_payload_len wrapper_parser) ?bytes)) = [Nav_pvt m]"
    by (simp only: nil append_Nil2 wrapper_parser list.map concat.simps msg)
  moreover note first_position [of m]
  ultimately show ?thesis
    using wrapper_refines_spec [OF wrapper_parser(1,2), of ?bytes] unfolding get_defs by (metis prod.inject snd_conv fst_conv)
qed

section \<open>Rounding\<close>

text \<open>A product of two rounded factors, rounded: three relative errors of at most \<open>d\<close>.\<close>

lemma relative_error:
  fixes x y d :: rat
  assumes "\<bar>y - x\<bar> \<le> \<bar>x\<bar> * d"
  obtains a where "y = x * (1 + a)" and "\<bar>a\<bar> \<le> d \<or> x = 0"
proof (cases "x = 0")
  case True
  then have "y = x * (1 + 0)" using assms by simp
  with True that show ?thesis by blast
next
  case False
  have "y = x * (1 + (y - x) / x)" using False by (simp add: field_simps)
  moreover have "\<bar>(y - x) / x\<bar> \<le> d"
    using assms False by (simp add: abs_divide divide_le_eq mult.commute)
  ultimately show ?thesis using that by blast
qed

lemma three_errors:
  fixes a b e d :: rat
  assumes "\<bar>a\<bar> \<le> d" "\<bar>b\<bar> \<le> d" "\<bar>e\<bar> \<le> d" "d \<le> 1 / 16"
  shows "\<bar>(1 + a) * (1 + b) * (1 + e) - 1\<bar> \<le> 4 * d"
proof -
  have d: "0 \<le> d" using assms(1) by linarith
  have dd: "d * d \<le> d / 16" using mult_left_mono [OF assms(4) d] by simp
  have prod: "\<bar>x * y\<bar> \<le> d * d" if "\<bar>x\<bar> \<le> d" "\<bar>y\<bar> \<le> d" for x y
    unfolding abs_mult using that d by (intro mult_mono) simp_all
  have "\<bar>a * b * e\<bar> \<le> (d * d) * (1 / 16)"
    unfolding abs_mult [of "a * b"] using prod [OF assms(1,2)] assms(3,4) d by (intro mult_mono) simp_all
  moreover have "(1 + a) * (1 + b) * (1 + e) - 1 = a + b + e + a * b + a * e + b * e + a * b * e"
    by (simp add: algebra_simps)
  ultimately show ?thesis
    using assms(1,2,3) prod [OF assms(1,2)] prod [OF assms(1,3)] prod [OF assms(2,3)] dd d by linarith
qed

lemma product_error:
  fixes x c d :: rat
  assumes "\<bar>x' - x\<bar> \<le> \<bar>x\<bar> * d" "\<bar>c' - c\<bar> \<le> \<bar>c\<bar> * d" "\<bar>r - x' * c'\<bar> \<le> \<bar>x' * c'\<bar> * d" "d \<le> 1 / 16"
  shows "\<bar>r - x * c\<bar> \<le> \<bar>x * c\<bar> * (4 * d)"
proof (cases "x * c * (x' * c') = 0")
  case False
  obtain a b e where e: "x' = x * (1 + a)" "c' = c * (1 + b)" "r = x' * c' * (1 + e)"
    and d: "\<bar>a\<bar> \<le> d" "\<bar>b\<bar> \<le> d" "\<bar>e\<bar> \<le> d"
    using relative_error [OF assms(1)] relative_error [OF assms(2)] relative_error [OF assms(3)] False
    by (metis mult_eq_0_iff)
  have "r - x * c = x * c * ((1 + a) * (1 + b) * (1 + e) - 1)"
    unfolding e by (simp add: algebra_simps)
  then show ?thesis using three_errors [OF d assms(4)] by (simp add: abs_mult mult_left_mono)
next
  case True
  have "1 + a \<noteq> 0" if "\<bar>a\<bar> \<le> d" for a using that assms(4) by linarith
  with True have "x * c = 0 \<and> x' * c' = 0"
    using relative_error [OF assms(1)] relative_error [OF assms(2)] by (metis mult_eq_0_iff)
  then show ?thesis using assms(3) by auto
qed

lemma dmul_error: "\<bar>dmul (to_double n) (dlit c) - of_int n * c\<bar> \<le> \<bar>of_int n * c\<bar> / 2 ^ 51"
proof -
  have "\<bar>dmul (to_double n) (dlit c) - of_int n * c\<bar> \<le> \<bar>of_int n * c\<bar> * (4 * (1 / 2 ^ 53))"
    by (rule product_error [where x' = "to_double n" and c' = "dlit c"])
      (use round_prec_error [of 53] in \<open>simp_all add: to_double_def dlit_def dmul_def\<close>)
  then show ?thesis by simp
qed

lemma fmul_error: "\<bar>fmul (to_float n) (flit c) - of_int n * c\<bar> \<le> \<bar>of_int n * c\<bar> / 2 ^ 22"
proof -
  have "\<bar>fmul (to_float n) (flit c) - of_int n * c\<bar> \<le> \<bar>of_int n * c\<bar> * (4 * (1 / 2 ^ 24))"
    by (rule product_error [where x' = "to_float n" and c' = "flit c"])
      (use round_prec_error [of 24] in \<open>simp_all add: to_float_def flit_def fmul_def\<close>)
  then show ?thesis by simp
qed

text \<open>Within a relative error of \<open>2 ^ - k\<close>.\<close>

definition near :: "nat \<Rightarrow> rat \<Rightarrow> rat \<Rightarrow> bool" where
  "near k x y \<longleftrightarrow> \<bar>y - x\<bar> \<le> \<bar>x\<bar> / 2 ^ k"

lemma to_float_error: "\<bar>to_float n - of_int n\<bar> \<le> \<bar>of_int n\<bar> / 2 ^ 24"
  unfolding to_float_def by (rule round_prec_error)

section \<open>The last message decides\<close>

lemma spec_run_append:
  "spec_run (ms @ ns) s = (fst (spec_run ns (fst (spec_run ms s))), snd (spec_run ms s) @ snd (spec_run ns (fst (spec_run ms s))))"
  by (induction ms arbitrary: s) (simp_all add: case_prod_beta)

lemma run_refines_spec:
  assumes "wrapper_run ms wrapper_new = Some (w, es)" and "list_all message_ok ms"
  shows "refines w (fst (spec_run ms spec_new)) \<and> es = snd (spec_run ms spec_new)"
  using wrapper_run_refines [OF refines_new assms(2)] assms(1) by auto

lemma publish_location [simp]:
  "sb_location (fst (publish_attitude l s)) = sb_location (fst s)"
  "sb_location (fst (publish_dop l s)) = sb_location (fst s)"
  "sb_location (fst (publish_security l s)) = sb_location (fst s)"
  "sb_location (fst (publish c (sb_dead_reckoning_out_update f) k s)) = sb_location (fst s)"
  by (auto simp: publish_defs split: option.split ubx_message.split prod.split)

lemma hp_spec_location: "sb_location (fst (hp_spec p l sb)) = location_of p"
  by (simp add: hp_spec_def Let_def)

lemma run_location:
  assumes "wrapper_run (ms @ [Nav_pvt p]) wrapper_new = Some (w, es)" and "list_all message_ok ms"
  shows "get_location w = location_of p"
proof -
  have "list_all message_ok (ms @ [Nav_pvt p])" using assms(2) by (simp add: message_ok_def)
  then have "refines w (fst (spec_run (ms @ [Nav_pvt p]) spec_new))" using run_refines_spec [OF assms(1)] by simp
  then show ?thesis
    by (simp add: refines_def get_defs spec_run_append spec_message_def case_prod_beta Let_def hp_spec_location)
qed

text \<open>
  C8 (bounds). After a position solution has been processed, whatever came before it, the location
  buffer holds that solution to the precision of its members: the coordinates within a relative error
  of 2^-51 of the transmitted multiples of 1e-7 degrees, the altitudes exactly, the accuracies and
  velocities (which pass through single precision) within 2^-24, the headings within 2^-22, and the
  fix, the date and the time of day exactly.
\<close>

theorem location_precision:
  assumes "wrapper_run (ms @ [Nav_pvt p]) wrapper_new = Some (w, es)" and "list_all message_ok ms"
  shows "let loc = get_location w in
     near 51 (of_int (sint (nav_pvt_lat p)) / 10 ^ 7) (loc_latitude_deg loc)
     \<and> near 51 (of_int (sint (nav_pvt_lon p)) / 10 ^ 7) (loc_longitude_deg loc)
     \<and> loc_altitude_ellipsoid_mm loc = of_int (sint (nav_pvt_height p))
     \<and> loc_altitude_msl_mm loc = of_int (sint (nav_pvt_h_msl p))
     \<and> near 24 (of_int (uint (nav_pvt_h_acc p))) (loc_h_accuracy_mm loc)
     \<and> near 24 (of_int (uint (nav_pvt_v_acc p))) (loc_v_accuracy_mm loc)
     \<and> near 24 (of_int (sint (nav_pvt_vel_n p))) (loc_vel_n_mmps loc)
     \<and> near 24 (of_int (sint (nav_pvt_vel_e p))) (loc_vel_e_mmps loc)
     \<and> near 24 (of_int (sint (nav_pvt_vel_d p))) (loc_vel_d_mmps loc)
     \<and> near 24 (of_int (sint (nav_pvt_g_speed p))) (loc_ground_speed_mmps loc)
     \<and> near 22 (of_int (sint (nav_pvt_head_veh p)) / 10 ^ 5) (loc_vehicle_heading_deg loc)
     \<and> near 22 (of_int (sint (nav_pvt_head_mot p)) / 10 ^ 5) (loc_motion_heading_deg loc)
     \<and> loc_fix_type loc = nav_pvt_fix_type p \<and> loc_num_sv loc = nav_pvt_num_sv p
     \<and> loc_flags loc = nav_pvt_flags p
     \<and> loc_year loc = nav_pvt_year p \<and> loc_month loc = nav_pvt_month p \<and> loc_day loc = nav_pvt_day p
     \<and> loc_hour loc = nav_pvt_hour p \<and> loc_minute loc = nav_pvt_min p \<and> loc_second loc = nav_pvt_sec p
     \<and> loc_millisecond loc = nav_pvt_i_tow p mod 1000 \<and> loc_valid loc"
proof -
  have exact: "to_double (sint w) = of_int (sint w)" for w :: i32
    using exact_sint [of w] by (intro to_double_int) (simp add: exact_int_def)
  have deg: "near 51 (of_int (sint w) / 10 ^ 7) (dmul (to_double (sint w)) (dlit (1 / 10 ^ 7)))"
    and single: "near 24 (of_int (uint u)) (to_float (uint u))" "near 24 (of_int (sint w)) (to_float (sint w))"
    and heading: "near 22 (of_int (sint w) / 10 ^ 5) (fmul (to_float (sint w)) (flit (1 / 10 ^ 5)))" for u w :: i32
    using dmul_error [of "sint w" "1 / 10 ^ 7"] to_float_error [of "uint u"] to_float_error [of "sint w"] fmul_error [of "sint w" "1 / 10 ^ 5"]
    by (simp_all add: near_def)
  show ?thesis
    unfolding run_location [OF assms] Let_def location_of_def
    by (simp add: exact deg [unfolded exact, simplified] single [simplified] heading [simplified])
qed

definition nav_pvt_demo :: ubx_nav_pvt where
  "nav_pvt_demo =
     \<lparr>nav_pvt_i_tow = 345600250, nav_pvt_year = 2024, nav_pvt_month = 5, nav_pvt_day = 17, nav_pvt_hour = 12,
      nav_pvt_min = 30, nav_pvt_sec = 59, nav_pvt_valid = 7, nav_pvt_t_acc = 20, nav_pvt_nano = - 1500,
      nav_pvt_fix_type = 3, nav_pvt_flags = 1, nav_pvt_flags2 = 0, nav_pvt_num_sv = 14,
      nav_pvt_lon = 134050000, nav_pvt_lat = 525200000, nav_pvt_height = 83000, nav_pvt_h_msl = 34000,
      nav_pvt_h_acc = 1200, nav_pvt_v_acc = 1800, nav_pvt_vel_n = 250, nav_pvt_vel_e = - 40, nav_pvt_vel_d = 3,
      nav_pvt_g_speed = 253, nav_pvt_head_mot = 35090000, nav_pvt_s_acc = 90, nav_pvt_head_acc = 300000,
      nav_pvt_p_dop = 140, nav_pvt_flags3 = 0, nav_pvt_head_veh = 35100000, nav_pvt_mag_dec = 410,
      nav_pvt_mag_acc = 50\<rparr>"

theorem location_precision_witness:
  "\<exists>w es. wrapper_run [Nav_pvt nav_pvt_demo] wrapper_new = Some (w, es)
    \<and> near 51 (5252 / 100) (loc_latitude_deg (get_location w))
    \<and> loc_vel_e_mmps (get_location w) < 0 \<and> loc_millisecond (get_location w) = 250"
proof -
  obtain w es where w: "wrapper_run ([] @ [Nav_pvt nav_pvt_demo]) wrapper_new = Some (w, es)"
    using wrapper_run_refines [OF refines_new, of "[Nav_pvt nav_pvt_demo]"] by (auto simp: message_ok_def)
  have "near 24 (- 40) x \<Longrightarrow> x < 0" for x by (simp add: near_def) (simp add: abs_if split: if_splits)
  then show ?thesis
    using w location_precision [OF w] by (auto simp: Let_def nav_pvt_demo_def simp del: wrapper_run.simps)
qed

section \<open>The typing of the store\<close>

text \<open>Every handler converts what it stores to double.\<close>

definition doubles :: "field_write list \<Rightarrow> bool" where
  "doubles ws \<longleftrightarrow> list_all (\<lambda>w. fits 53 (snd w)) ws"

lemma doubles_append: "doubles [] " "doubles ((f, v) # ws) \<longleftrightarrow> fits 53 v \<and> doubles ws"
    "doubles (ws @ vs) \<longleftrightarrow> doubles ws \<and> doubles vs"
  by (simp_all add: doubles_def)

lemma doubles_blocks: "(\<And>i. doubles (block i)) \<Longrightarrow> doubles (concat (map block [0..<n]))"
  by (induction n) (simp_all add: doubles_append)

lemma fits_float [simp]: "fits 53 (float_to_double x)"
  by (simp add: float_to_double_def fits_round_prec)

lemmas handler_defs = db_nav_pvt_handle_def db_nav_sat_handle_def db_nav_dop_handle_def db_nav_eell_handle_def
  db_nav_timegps_handle_def db_nav_status_handle_def db_tim_tp_handle_def db_nav2_pvt_handle_def
  db_nav2_eell_handle_def db_nav2_dop_handle_def db_nav2_timegps_handle_def db_nav_odo_handle_def
  db_esf_ins_handle_def db_esf_status_handle_def db_esf_meas_handle_def db_nav_sig_handle_def
  db_nav_timeutc_handle_def db_nav_clock_handle_def db_nav_att_handle_def db_rxm_measx_handle_def
  db_mon_io_handle_def db_mon_txbuf_handle_def db_mon_span_handle_def db_sec_sig_handle_def

lemma block_doubles:
  "doubles (db_nav_sat_block i a)" "doubles (db_esf_status_block i b)" "doubles (db_esf_meas_block i c)"
  "doubles (db_nav_sig_block i d)" "doubles (db_rxm_measx_block i e)" "doubles (db_mon_io_block i f)"
  "doubles (db_mon_span_block i g)"
  by (simp_all add: doubles_append db_nav_sat_block_def db_esf_status_block_def db_esf_meas_block_def
      db_nav_sig_block_def db_rxm_measx_block_def db_mon_io_block_def db_mon_span_block_def)

lemma handler_doubles: "handler_writes m = Some (mt, ws) \<Longrightarrow> doubles ws"
  by (cases m) (auto simp: handler_defs doubles_append block_doubles intro!: doubles_blocks)

definition store_typed :: "ubx_message list \<Rightarrow> field_store \<Rightarrow> bool" where
  "store_typed ms st \<longleftrightarrow>
     (\<forall>f v. fs_look st f = Some v \<longrightarrow> f < DATA_PARSE \<and> fits 53 v
        \<and> (\<exists>m \<in> set ms. \<exists>ws. handler_writes m = Some (slot_owner f, ws) \<and> (f, v) \<in> set ws))"

lemma store_typed_mono: "store_typed ms st \<Longrightarrow> set ms \<subseteq> set ns \<Longrightarrow> store_typed ns st"
  unfolding store_typed_def by (meson subsetD)

lemma store_typed_writes:
  assumes "store_typed ms st" and "handler_writes m = Some (mt, ws)" and "message_ok m"
  shows "store_typed (ms @ [m]) (fs_set_all ws st)"
  unfolding store_typed_def
proof (intro allI impI)
  fix f v assume look: "fs_look (fs_set_all ws st) f = Some v"
  have own: "owned mt ws" using handler_owned [OF assms(2,3)] .
  show "f < DATA_PARSE \<and> fits 53 v
      \<and> (\<exists>m' \<in> set (ms @ [m]). \<exists>ws. handler_writes m' = Some (slot_owner f, ws) \<and> (f, v) \<in> set ws)"
  proof (cases "f \<in> fst ` set ws")
    case True
    then obtain u where u: "(f, u) \<in> set ws" by auto
    then have f: "f < DATA_PARSE" "slot_owner f = mt" using own by (force simp: owned_def)+
    have "v = u" using look fs_look_all_written [of ws f u st] own u f(1) by (simp add: owned_def)
    then show ?thesis
      using u f assms(2) handler_doubles [OF assms(2)] by (auto simp: doubles_def list_all_iff)
  next
    case False
    then show ?thesis using look assms(1) by (auto simp: fs_look_all_other store_typed_def)
  qed
qed

lemma wrapper_message_typed:
  assumes "wrapper_message m w = Some (w', es)" and "message_ok m" and "store_typed ms (db_store (wr_db w))"
  shows "store_typed (ms @ [m]) (db_store (wr_db w'))"
proof (cases "handler_writes m")
  case None
  then show ?thesis using assms by (auto simp: wrapper_message_def intro: store_typed_mono)
next
  case (Some mw)
  obtain mt ws where w: "handler_writes m = Some (mt, ws)" using Some by (cases mw) simp
  have "db_store (wr_db w') = fs_set_all ws (db_store (wr_db w))"
    using assms(1) by (auto simp: wrapper_message_def w apply_update_def Let_def do_commit_def
        split: option.splits prod.splits if_splits)
  then show ?thesis using store_typed_writes [OF assms(3) w assms(2)] by simp
qed

lemma wrapper_run_typed:
  "wrapper_run ms w = Some (w', es) \<Longrightarrow> list_all message_ok ms \<Longrightarrow> store_typed ns (db_store (wr_db w))
   \<Longrightarrow> store_typed (ns @ ms) (db_store (wr_db w'))"
proof (induction ms arbitrary: w es ns)
  case (Cons m ms)
  then obtain w1 es1 where 1: "wrapper_message m w = Some (w1, es1)" by (auto split: option.splits)
  moreover from this Cons.prems(1) obtain es2 where "wrapper_run ms w1 = Some (w', es2)"
    by (auto split: option.splits)
  ultimately show ?case
    using Cons.IH [of w1 es2 "ns @ [m]"] wrapper_message_typed [OF 1 _ Cons.prems(3)] Cons.prems(2) by simp
qed simp

text \<open>
  C9 (type). The field store stays well typed, whatever sequence of decoded messages the database is
  updated with: a slot that can be read lies inside the store, holds a value a double represents, and
  that value was written by a message of the type the slot belongs to. So no handler writes into the
  slots of another message type, past the end of an array field into the next one, or past the store.
\<close>

theorem store_well_typed:
  assumes "wrapper_run ms wrapper_new = Some (w, es)" and "list_all message_ok ms"
    and "fs_is_valid (db_store (wr_db w)) f"
  shows "f < DATA_PARSE \<and> fits 53 (fs_values (db_store (wr_db w)) f)
    \<and> (\<exists>m \<in> set ms. \<exists>ws. handler_writes m = Some (slot_owner f, ws)
          \<and> (f, fs_values (db_store (wr_db w)) f) \<in> set ws)"
proof -
  have "store_typed [] (db_store (wr_db wrapper_new))"
    by (simp add: wrapper_new_def ubx_database_new_def set_commit_callback_def store_typed_def)
  from wrapper_run_typed [OF assms(1,2) this]
  have "store_typed ms (db_store (wr_db w))" by simp
  moreover have "fs_look (db_store (wr_db w)) f = Some (fs_values (db_store (wr_db w)) f)"
    using assms(3) by (simp add: fs_look_def fs_is_valid_def)
  ultimately show ?thesis unfolding store_typed_def by blast
qed

theorem store_well_typed_witness:
  "\<exists>w es. wrapper_run [Nav_pvt nav_pvt_demo] wrapper_new = Some (w, es)
    \<and> fs_is_valid (db_store (wr_db w)) DATA_UBX_NAV_PVT_LAT
    \<and> fits 53 (fs_values (db_store (wr_db w)) DATA_UBX_NAV_PVT_LAT)"
proof -
  have ok: "list_all message_ok [Nav_pvt nav_pvt_demo]" by (simp add: message_ok_def)
  obtain w es where w: "wrapper_run [Nav_pvt nav_pvt_demo] wrapper_new = Some (w, es)"
    using wrapper_run_refines [OF refines_new ok] by auto
  have "refines w (fst (spec_run [Nav_pvt nav_pvt_demo] spec_new))" using run_refines_spec [OF w ok] by simp
  then have rep: "represents (db_store (wr_db w)) ((\<lambda>_. None)(MSG_UBX_NAV_PVT \<mapsto> Nav_pvt nav_pvt_demo))"
    by (simp add: refines_def spec_message_def spec_new_def Let_def case_prod_beta)
  then have "holds (db_store (wr_db w)) (db_nav_pvt_handle nav_pvt_demo)"
    using represents_some [OF rep, of MSG_UBX_NAV_PVT "Nav_pvt nav_pvt_demo"] by auto
  then have "fs_is_valid (db_store (wr_db w)) DATA_UBX_NAV_PVT_LAT"
    using fs_is_valid_look [OF represents_bounded [OF rep]] by (simp add: holds_def db_nav_pvt_handle_def)
  then show ?thesis using w store_well_typed [OF w ok] by blast
qed

section \<open>The monitor buffer\<close>

lemma latest_unchanged:
  "list_all (\<lambda>m. \<forall>ws. handler_writes m \<noteq> Some (mt, ws)) ns \<Longrightarrow> fst (fst (spec_run ns s)) mt = fst s mt"
proof (induction ns arbitrary: s)
  case (Cons m ns)
  obtain l sb where s: "s = (l, sb)" by (cases s)
  have "fst (fst (spec_message m s)) mt = l mt"
    using Cons.prems by (auto simp: s spec_message_def Let_def case_prod_beta split: option.split)
  then show ?case using Cons by (simp add: case_prod_beta s)
qed simp

lemma txbuf_in_monitor:
  assumes "l MSG_UBX_MON_TXBUF = Some (Mon_txbuf p)"
  shows "mon_txbuf (monitor_spec l) = txbuf_of p" "mon_txbuf_valid (monitor_spec l)"
  using assms by (auto simp: monitor_spec_def add_span_def add_txbuf_def split: option.split ubx_message.split)

lemma lp_spec_monitor:
  assumes "mon_txbuf_valid (monitor_spec l)"
  shows "sb_monitor (fst (lp_spec q l sb)) = (monitor_spec l)\<lparr>mon_valid := True\<rparr>"
  using assms by (simp add: lp_spec_def Let_def publish_def case_prod_beta)

text \<open>
  The monitor buffer does not say what its members are documented to: whenever it reports
  the transmit buffer, after any sequence of messages that ends with a satellite list, the usage is the
  number of bytes pending cut to a byte, the peak usage is the current usage and the pending bytes are
  zero, because the handler stores the pending bytes in the slots of the available space and nothing is
  ever stored in the slots of the pending bytes.
\<close>

theorem monitor_txbuf_mixed_up:
  assumes "wrapper_run (ms @ [Mon_txbuf p] @ ns @ [Nav_sat q]) wrapper_new = Some (w, es)"
    and "list_all message_ok (ms @ ns)" and "list_all (\<lambda>m. case m of Mon_txbuf _ \<Rightarrow> False | _ \<Rightarrow> True) ns"
  shows "mon_txbuf_valid (get_monitor w)
    \<and> txb_usage (mon_txbuf (get_monitor w)) = map (\<lambda>i. ucast (mon_txbuf_pending p ! i)) [0..<6]
    \<and> txb_peak_usage (mon_txbuf (get_monitor w)) = map (\<lambda>i. mon_txbuf_usage p ! i) [0..<6]
    \<and> txb_pending (mon_txbuf (get_monitor w)) = replicate 6 0"
proof -
  let ?before = "ms @ [Mon_txbuf p] @ ns"
  have ok: "list_all message_ok (?before @ [Nav_sat q])" using assms(2) by (simp add: message_ok_def)
  have others: "list_all (\<lambda>m. \<forall>ws. handler_writes m \<noteq> Some (MSG_UBX_MON_TXBUF, ws)) ns"
    using assms(3) by (rule list.pred_mono_strong) (auto simp: msg_type_defs elim!: handler_writes.elims)
  let ?l = "fst (fst (spec_run ?before spec_new))"
  have l: "?l MSG_UBX_MON_TXBUF = Some (Mon_txbuf p)"
    by (simp add: spec_run_append latest_unchanged [OF others] spec_message_def case_prod_beta Let_def)
  then have l': "(?l(MSG_UBX_NAV_SAT \<mapsto> Nav_sat q)) MSG_UBX_MON_TXBUF = Some (Mon_txbuf p)"
    by (simp add: msg_type_defs)
  note tx = txbuf_in_monitor [of "?l(MSG_UBX_NAV_SAT \<mapsto> Nav_sat q)", OF l']
  have "refines w (fst (spec_run (?before @ [Nav_sat q]) spec_new))"
    using run_refines_spec [OF _ ok] assms(1) by simp
  then have "get_monitor w = (monitor_spec (?l(MSG_UBX_NAV_SAT \<mapsto> Nav_sat q)))\<lparr>mon_valid := True\<rparr>"
    unfolding spec_run_append [of ?before] refines_def get_defs
    by (simp add: spec_message_def case_prod_beta Let_def lp_spec_monitor [OF tx(2)] del: append.simps)
  then show ?thesis
    using tx by (simp add: txbuf_of_def)
qed

theorem monitor_txbuf_mixed_up_witness:
  "\<exists>w es. wrapper_run [Mon_txbuf \<lparr>mon_txbuf_pending = [300, 0, 0, 0, 0, 0], mon_txbuf_usage = [5, 0, 0, 0, 0, 0],
        mon_txbuf_peak_usage = [90, 0, 0, 0, 0, 0], mon_txbuf_t_used = 5, mon_txbuf_t_peak = 90, mon_txbuf_errors = 0\<rparr>,
      Nav_sat \<lparr>nav_sat_i_tow = 0, nav_sat_version = 1, nav_sat_num_svs = 0, nav_sat_svs = []\<rparr>] wrapper_new = Some (w, es)
    \<and> txb_usage (mon_txbuf (get_monitor w)) = [44, 0, 0, 0, 0, 0]
    \<and> txb_peak_usage (mon_txbuf (get_monitor w)) = [5, 0, 0, 0, 0, 0]
    \<and> txb_pending (mon_txbuf (get_monitor w)) = [0, 0, 0, 0, 0, 0]"
proof -
  let ?p = "\<lparr>mon_txbuf_pending = [300, 0, 0, 0, 0, 0], mon_txbuf_usage = [5, 0, 0, 0, 0, 0],
        mon_txbuf_peak_usage = [90, 0, 0, 0, 0, 0], mon_txbuf_t_used = 5, mon_txbuf_t_peak = 90, mon_txbuf_errors = 0\<rparr>"
  let ?q = "\<lparr>nav_sat_i_tow = 0, nav_sat_version = 1, nav_sat_num_svs = 0, nav_sat_svs = []\<rparr>"
  obtain w es where w: "wrapper_run ([] @ [Mon_txbuf ?p] @ [] @ [Nav_sat ?q]) wrapper_new = Some (w, es)"
    using wrapper_run_refines [OF refines_new, of "[Mon_txbuf ?p, Nav_sat ?q]"] by (auto simp: message_ok_def simp del: wrapper_run.simps)
  show ?thesis
    using w monitor_txbuf_mixed_up [OF w] by (auto simp: six_targets simp del: wrapper_run.simps)
qed

end
