(* ===== verification/Ieee_Double.thy ===== *)
theory Ieee_Double
  imports Ieee_Round
begin

text \<open>
  All of the \<open>double\<close> type, where \<open>Ieee_Round\<close> only has the rationals the database computes with: signed
  zeros, subnormals, infinities and NaN, the 64-bit patterns that are copied to and from a \<open>double\<close>
  with \<open>memcpy\<close>, comparison and subtraction.
\<close>

section \<open>Values\<close>

text \<open>A finite \<open>double\<close> by its sign and the rational it denotes without it, so that \<open>-0.0\<close> is kept.\<close>

datatype dbl = Finite bool rat | Infinite bool | Not_a_number bool

definition dbl_value :: "bool \<Rightarrow> rat \<Rightarrow> rat" where
  "dbl_value neg x = (if neg then - x else x)"

text \<open>The nearest \<open>double\<close> to a non-negative rational, subnormals included.\<close>

definition round_magnitude :: "rat \<Rightarrow> rat" where
  "round_magnitude x =
     (if x = 0 then 0
      else let e = max (binade x - 52) (- 1074)
           in of_int (round_half_even (x / 2 powi e)) * 2 powi e)"

fun dbl_eq :: "dbl \<Rightarrow> dbl \<Rightarrow> bool" where
  "dbl_eq (Finite s x) (Finite t y) \<longleftrightarrow> dbl_value s x = dbl_value t y"
| "dbl_eq (Infinite s) (Infinite t) \<longleftrightarrow> s = t"
| "dbl_eq d e \<longleftrightarrow> False"

text \<open>Ordered comparison; nothing compares with NaN.\<close>

fun dbl_le :: "dbl \<Rightarrow> dbl \<Rightarrow> bool" where
  "dbl_le (Finite s x) (Finite t y) \<longleftrightarrow> dbl_value s x \<le> dbl_value t y"
| "dbl_le (Infinite s) (Finite t y) \<longleftrightarrow> s"
| "dbl_le (Finite s x) (Infinite t) \<longleftrightarrow> \<not> t"
| "dbl_le (Infinite s) (Infinite t) \<longleftrightarrow> s \<or> \<not> t"
| "dbl_le d e \<longleftrightarrow> False"

section \<open>Arithmetic\<close>

definition dbl_round :: "rat \<Rightarrow> dbl" where
  "dbl_round x = (let r = round_magnitude \<bar>x\<bar>
     in if r \<ge> 2 ^ 1024 then Infinite (x < 0) else Finite (x < 0) r)"

fun dbl_sub :: "dbl \<Rightarrow> dbl \<Rightarrow> dbl" where
  "dbl_sub (Finite s x) (Finite t y) =
     (let d = dbl_value s x - dbl_value t y in if d = 0 then Finite (s \<and> \<not> t) 0 else dbl_round d)"
| "dbl_sub (Infinite s) (Infinite t) = (if s = t then Not_a_number True else Infinite s)"
| "dbl_sub (Infinite s) (Finite t y) = Infinite s"
| "dbl_sub (Finite s x) (Infinite t) = Infinite (\<not> t)"
| "dbl_sub (Not_a_number s) e = Not_a_number s"
| "dbl_sub d (Not_a_number t) = Not_a_number t"

fun dbl_abs :: "dbl \<Rightarrow> dbl" where
  "dbl_abs (Finite s x) = Finite False x"
| "dbl_abs (Infinite s) = Infinite False"
| "dbl_abs (Not_a_number s) = Not_a_number False"

section \<open>Bit patterns\<close>

text \<open>The sign, eleven bits of exponent and 52 bits of fraction.\<close>

definition dbl_of_bits :: "u64 \<Rightarrow> dbl" where
  "dbl_of_bits w =
     (let neg = bit w 63; e = uint (take_bit 11 (drop_bit 52 w)); m = uint (take_bit 52 w)
      in if e = 2047 then (if m = 0 then Infinite neg else Not_a_number neg)
         else if e = 0 then Finite neg (of_int m * 2 powi (- 1074))
         else Finite neg (of_int (2 ^ 52 + m) * 2 powi (e - 1075)))"

text \<open>The pattern of the \<open>double\<close> a positive decimal literal denotes, in the normal range.\<close>

definition bits_of_literal :: "rat \<Rightarrow> u64" where
  "bits_of_literal x =
     (let r = round_magnitude x; e = binade r
      in push_bit 52 (word_of_int (e + 1023)) + word_of_int (\<lfloor>r / 2 powi (e - 52)\<rfloor> - 2 ^ 52))"

section \<open>Evaluating literals\<close>

lemma round_half_even_within:
  assumes "\<bar>x - of_int m\<bar> < 1 / 2"
  shows "round_half_even x = m"
proof -
  have "of_int m - 1 / 2 < x \<and> x < of_int m + 1 / 2" using assms unfolding abs_less_iff by linarith
  then have "\<lfloor>x\<rfloor> = m \<or> \<lfloor>x\<rfloor> = m - 1" by linarith
  with assms show ?thesis by (auto simp: round_half_even_def Let_def)
qed

text \<open>A value whose binary exponent is \<open>k\<close> and whose nearest multiple of the last place is the \<open>m\<close>-th.\<close>

lemma round_magnitude_eval:
  assumes "2 powi k \<le> x" "x < 2 powi (k + 1)" "- 1022 \<le> k" "\<bar>x / 2 powi (k - 52) - of_int m\<bar> < 1 / 2"
  shows "round_magnitude x = of_int m * 2 powi (k - 52)"
proof -
  have "0 < x" using assms(1) by (meson less_le_trans zero_less_power_int zero_less_numeral)
  then have "binade x = k" using assms(1,2) by (intro binade_unique) simp_all
  with \<open>0 < x\<close> assms(3) show ?thesis by (simp add: round_magnitude_def round_half_even_within [OF assms(4)])
qed

lemma bits_of_literal_eval:
  assumes "2 powi k \<le> x" "x < 2 powi (k + 1)" "- 1022 \<le> k" "\<bar>x / 2 powi (k - 52) - of_int m\<bar> < 1 / 2"
    and "2 ^ 52 \<le> m" "m < 2 ^ 53"
  shows "bits_of_literal x = push_bit 52 (word_of_int (k + 1023)) + word_of_int (m - 2 ^ 52)"
proof -
  let ?u = "(2 :: rat) powi (k - 52)"
  note r = round_magnitude_eval [OF assms(1-4)]
  have u: "0 < ?u" "2 powi k = 2 ^ 52 * ?u" "2 powi (k + 1) = 2 ^ 53 * ?u"
    by (simp_all add: power_int_diff power_int_add)
  have "(2 :: rat) ^ 52 \<le> of_int m" "of_int m < (2 :: rat) ^ 53" using assms(5,6) by simp_all
  then have "2 powi k \<le> of_int m * ?u" "of_int m * ?u < 2 powi (k + 1)"
    unfolding u(2,3) using u(1) by (simp_all del: power_numeral)
  then have "binade (of_int m * ?u) = k"
    using u(1) assms(5) by (intro binade_unique) (simp_all add: abs_mult)
  then show ?thesis
    using u(1) by (simp add: bits_of_literal_def r)
qed

end
