(* ===== verification/Ini_Values.thy ===== *)
theory Ini_Values
  imports Nmea_Fields Ieee_Double "HOL-Library.Sublist" "HOL-Library.Char_ord" "HOL-Library.List_Lexorder"
begin

text \<open>
  The values of \<open>ext_libs/ini_parser/ini_parser.h\<close>: the tagged union \<open>config_value\<close> with its getters and
  its array and object operations, over the conversions of the C++ library it calls (\<open>std::stoi\<close>,
  \<open>std::stod\<close>, \<open>std::to_string\<close>, \<open>operator<<\<close> for \<open>double\<close>, \<open>std::tolower\<close>, in the C locale). What is thrown
  is the left component of a sum.
\<close>

section \<open>Exceptions\<close>

text \<open>
  \<open>config_error\<close> with its two subclasses (\<open>parse_error\<close> carries its line number), the standard
  exceptions of the number conversions, and the conversion of a \<open>double\<close> that no \<open>int\<close> can hold,
  which has no defined result.
\<close>

datatype ini_exception =
  Config_error | Io_error | Parse_error nat | Invalid_argument | Out_of_range | Undefined_cast

fun is_config_error :: "ini_exception \<Rightarrow> bool" where
  "is_config_error Config_error = True"
| "is_config_error Io_error = True"
| "is_config_error (Parse_error n) = True"
| "is_config_error e = False"

section \<open>The number conversions of the library\<close>

text \<open>\<open>errno\<close> becomes \<open>ERANGE\<close> on overflow and on an inexact result below the normal range.\<close>

definition to_dbl :: "bool \<Rightarrow> rat \<Rightarrow> ini_exception + dbl" where
  "to_dbl neg x =
     (let r = round_magnitude x
      in if r \<ge> 2 ^ 1024 then Inl Out_of_range
         else if r \<noteq> x \<and> round_prec 53 x < 2 powi (- 1022) then Inl Out_of_range
         else Inr (Finite neg r))"

definition lower_char :: "char \<Rightarrow> char" where
  "lower_char c = (let n = of_char c :: nat in if 65 \<le> n \<and> n \<le> 90 then char_of (n + 32) else c)"

definition to_lower :: "string \<Rightarrow> string" where
  "to_lower str = map lower_char str"

text \<open>The number of characters \<open>strtol\<close> consumes.\<close>

definition strtol_end :: "string \<Rightarrow> nat" where
  "strtol_end s =
     (let sign = (case dropWhile is_space s of
                    c # r \<Rightarrow> if c = CHR ''-'' \<or> c = CHR ''+'' then 1 else 0
                  | [] \<Rightarrow> 0)
      in length (takeWhile is_space s) + sign + length (snd (strto_parts s)))"

definition stoi :: "string \<Rightarrow> ini_exception + i32 \<times> nat" where
  "stoi s =
     (case strtol s of
        None \<Rightarrow> Inl Invalid_argument
      | Some v \<Rightarrow> if v < - (2 ^ 31) \<or> 2 ^ 31 \<le> v then Inl Out_of_range
                  else Inr (word_of_int v, strtol_end s))"

definition scan_sign :: "string \<Rightarrow> bool \<times> string" where
  "scan_sign s =
     (case s of
        c # s' \<Rightarrow> if c = CHR ''-'' then (True, s') else if c = CHR ''+'' then (False, s') else (False, s)
      | [] \<Rightarrow> (False, []))"

text \<open>A signed exponent after its letter; nothing is consumed when no digit follows.\<close>

definition scan_exponent :: "char \<Rightarrow> string \<Rightarrow> int \<times> string" where
  "scan_exponent e s =
     (case s of
        c # s' \<Rightarrow>
          if lower_char c = e
          then let (neg, r) = scan_sign s'; ds = takeWhile is_digit r
               in if ds = [] then (0, s)
                  else ((if neg then - int (digits_value ds) else int (digits_value ds)), drop (length ds) r)
          else (0, s)
      | [] \<Rightarrow> (0, []))"

definition is_hex_digit :: "char \<Rightarrow> bool" where
  "is_hex_digit c \<longleftrightarrow> lower_char c \<in> set ''0123456789abcdef''"

definition hex_value :: "char \<Rightarrow> nat" where
  "hex_value c = (let c = lower_char c in if is_digit c then digit_value c else of_char c - 87)"

text \<open>Digits with at most one point among them: the value and what follows.\<close>

definition scan_mantissa :: "nat \<Rightarrow> (char \<Rightarrow> bool) \<Rightarrow> (char \<Rightarrow> nat) \<Rightarrow> string \<Rightarrow> (rat \<times> string) option" where
  "scan_mantissa base p val s =
     (let i = takeWhile p s; r = dropWhile p s;
          (f, r') = (case r of
                       c # t \<Rightarrow> if c = CHR ''.'' then (takeWhile p t, dropWhile p t) else ([], r)
                     | [] \<Rightarrow> ([], []))
      in if i = [] \<and> f = [] then None
         else Some (of_nat (foldl (\<lambda>n c. base * n + val c) 0 (i @ f)) / of_nat base ^ length f, r'))"

definition scan_decimal :: "string \<Rightarrow> (rat \<times> string) option" where
  "scan_decimal s =
     (case scan_mantissa 10 is_digit digit_value s of
        None \<Rightarrow> None
      | Some (m, r) \<Rightarrow> let (e, r') = scan_exponent CHR ''e'' r in Some (m * 10 powi e, r'))"

definition scan_float :: "string \<Rightarrow> (rat \<times> string) option" where
  "scan_float s =
     (case (if take 2 (to_lower s) = ''0x'' then scan_mantissa 16 is_hex_digit hex_value (drop 2 s)
            else None) of
        Some (m, r) \<Rightarrow> let (e, r') = scan_exponent CHR ''p'' r in Some (m * 2 powi e, r')
      | None \<Rightarrow> scan_decimal s)"

definition is_nan_char :: "char \<Rightarrow> bool" where
  "is_nan_char c \<longleftrightarrow> is_digit c \<or> lower_char c \<in> set ''abcdefghijklmnopqrstuvwxyz_''"

definition after_nan :: "string \<Rightarrow> string" where
  "after_nan s =
     (case s of
        c # t \<Rightarrow> if c = CHR ''('' \<and> take 1 (dropWhile is_nan_char t) = '')''
                 then drop 1 (dropWhile is_nan_char t) else s
      | [] \<Rightarrow> [])"

text \<open>\<open>strtod\<close>: the converted value, or \<open>ERANGE\<close>, and what is left of the string.\<close>

definition strtod :: "string \<Rightarrow> ((ini_exception + dbl) \<times> string) option" where
  "strtod s =
     (let (neg, r) = scan_sign (dropWhile is_space s); low = to_lower r
      in if prefix ''infinity'' low then Some (Inr (Infinite neg), drop 8 r)
         else if prefix ''inf'' low then Some (Inr (Infinite neg), drop 3 r)
         else if prefix ''nan'' low then Some (Inr (Not_a_number neg), after_nan (drop 3 r))
         else case scan_float r of
                None \<Rightarrow> None
              | Some (x, r') \<Rightarrow> Some (to_dbl neg x, r'))"

definition stod :: "string \<Rightarrow> ini_exception + dbl \<times> nat" where
  "stod s =
     (case strtod s of
        None \<Rightarrow> Inl Invalid_argument
      | Some (Inl e, r) \<Rightarrow> Inl e
      | Some (Inr d, r) \<Rightarrow> Inr (d, length s - length r))"

section \<open>Printing numbers\<close>

definition int_to_string :: "i32 \<Rightarrow> string" where
  "int_to_string i = sprint_int 0 (sint i)"

definition sign_text :: "bool \<Rightarrow> string" where
  "sign_text neg = (if neg then ''-'' else '''')"

text \<open>\<open>%.pf\<close> of a non-negative value.\<close>

definition print_fixed :: "nat \<Rightarrow> rat \<Rightarrow> string" where
  "print_fixed p x =
     (let n = nat (round_half_even (x * 10 ^ p))
      in nat_digits (n div 10 ^ p) @ (if p = 0 then [] else ''.'' @ sprint_uint p (n mod 10 ^ p)))"

definition dbl_to_string :: "dbl \<Rightarrow> string" where
  "dbl_to_string d =
     (case d of
        Finite neg x \<Rightarrow> sign_text neg @ print_fixed 6 x
      | Infinite neg \<Rightarrow> sign_text neg @ ''inf''
      | Not_a_number neg \<Rightarrow> sign_text neg @ ''nan'')"

text \<open>\<open>%g\<close>: six significant digits, without trailing zeros.\<close>

definition decade :: "rat \<Rightarrow> int" where
  "decade x =
     (case quotient_of x of (a, b) \<Rightarrow>
        let k = int (length (nat_digits (nat a))) - int (length (nat_digits (nat b)))
        in if 10 powi k \<le> x then k else k - 1)"

definition strip_zeros :: "string \<Rightarrow> string" where
  "strip_zeros s = rev (dropWhile (\<lambda>c. c = CHR ''0'') (rev s))"

definition point_text :: "string \<Rightarrow> string" where
  "point_text f = (let f = strip_zeros f in if f = [] then [] else ''.'' @ f)"

definition print_general :: "rat \<Rightarrow> string" where
  "print_general x =
     (if x = 0 then ''0''
      else let e = decade x; m = nat (round_half_even (x / 10 powi (e - 5)));
               (m, e) = (if m = 1000000 then (100000, e + 1) else (m, e));
               ds = nat_digits m
           in if e < - 4 \<or> 6 \<le> e
              then take 1 ds @ point_text (drop 1 ds) @ ''e'' @ (if e < 0 then ''-'' else ''+'')
                     @ sprint_uint 2 (nat \<bar>e\<bar>)
              else if e < 0 then ''0'' @ point_text (replicate (nat (- e) - 1) CHR ''0'' @ ds)
              else take (nat e + 1) ds @ point_text (drop (nat e + 1) ds))"

definition dbl_output :: "dbl \<Rightarrow> string" where
  "dbl_output d =
     (case d of
        Finite neg x \<Rightarrow> sign_text neg @ print_general x
      | Infinite neg \<Rightarrow> sign_text neg @ ''inf''
      | Not_a_number neg \<Rightarrow> sign_text neg @ ''nan'')"

section \<open>Values\<close>

text \<open>\<open>config_value\<close>; the integer is a 32-bit \<open>int\<close>, an object an ordered map kept as a sorted list of pairs.\<close>

datatype ini_value =
  Ini_null | Ini_bool bool | Ini_int i32 | Ini_double dbl | Ini_string string
| Ini_array "ini_value list" | Ini_object "(string \<times> ini_value) list"

datatype value_type =
  Type_null | Type_bool | Type_int | Type_double | Type_string | Type_array | Type_object

fun type_of_value :: "ini_value \<Rightarrow> value_type" where
  "type_of_value Ini_null = Type_null"
| "type_of_value (Ini_bool b) = Type_bool"
| "type_of_value (Ini_int i) = Type_int"
| "type_of_value (Ini_double d) = Type_double"
| "type_of_value (Ini_string s) = Type_string"
| "type_of_value (Ini_array xs) = Type_array"
| "type_of_value (Ini_object m) = Type_object"

definition is_null :: "ini_value \<Rightarrow> bool" where "is_null v \<longleftrightarrow> type_of_value v = Type_null"
definition is_bool :: "ini_value \<Rightarrow> bool" where "is_bool v \<longleftrightarrow> type_of_value v = Type_bool"
definition is_int :: "ini_value \<Rightarrow> bool" where "is_int v \<longleftrightarrow> type_of_value v = Type_int"
definition is_double :: "ini_value \<Rightarrow> bool" where "is_double v \<longleftrightarrow> type_of_value v = Type_double"
definition is_string :: "ini_value \<Rightarrow> bool" where "is_string v \<longleftrightarrow> type_of_value v = Type_string"
definition is_array :: "ini_value \<Rightarrow> bool" where "is_array v \<longleftrightarrow> type_of_value v = Type_array"
definition is_object :: "ini_value \<Rightarrow> bool" where "is_object v \<longleftrightarrow> type_of_value v = Type_object"
definition is_number :: "ini_value \<Rightarrow> bool" where "is_number v \<longleftrightarrow> is_int v \<or> is_double v"

definition dbl_truth :: "dbl \<Rightarrow> bool" where
  "dbl_truth d = (case d of Finite neg x \<Rightarrow> x \<noteq> 0 | _ \<Rightarrow> True)"

fun as_bool :: "ini_value \<Rightarrow> ini_exception + bool" where
  "as_bool (Ini_bool b) = Inr b"
| "as_bool (Ini_int i) = Inr (i \<noteq> 0)"
| "as_bool (Ini_double d) = Inr (dbl_truth d)"
| "as_bool (Ini_string s) = Inr (s \<noteq> [] \<and> s \<noteq> ''false'' \<and> s \<noteq> ''0'')"
| "as_bool v = Inl Config_error"

text \<open>The conversion to \<open>int\<close> truncates, where the result is an \<open>int\<close>.\<close>

definition dbl_to_int :: "dbl \<Rightarrow> ini_exception + i32" where
  "dbl_to_int d =
     (case d of
        Finite neg x \<Rightarrow>
          let i = trunc (dbl_value neg x)
          in if - (2 ^ 31) \<le> i \<and> i < 2 ^ 31 then Inr (word_of_int i) else Inl Undefined_cast
      | _ \<Rightarrow> Inl Undefined_cast)"

fun as_int :: "ini_value \<Rightarrow> ini_exception + i32" where
  "as_int (Ini_int i) = Inr i"
| "as_int (Ini_double d) = dbl_to_int d"
| "as_int (Ini_bool b) = Inr (if b then 1 else 0)"
| "as_int (Ini_string s) = (case stoi s of Inl e \<Rightarrow> Inl e | Inr (i, idx) \<Rightarrow> Inr i)"
| "as_int v = Inl Config_error"

definition int_to_dbl :: "i32 \<Rightarrow> dbl" where
  "int_to_dbl i = Finite (sint i < 0) (of_int \<bar>sint i\<bar>)"

fun as_double :: "ini_value \<Rightarrow> ini_exception + dbl" where
  "as_double (Ini_double d) = Inr d"
| "as_double (Ini_int i) = Inr (int_to_dbl i)"
| "as_double (Ini_bool b) = Inr (Finite False (if b then 1 else 0))"
| "as_double (Ini_string s) = (case stod s of Inl e \<Rightarrow> Inl e | Inr (d, idx) \<Rightarrow> Inr d)"
| "as_double v = Inl Config_error"

fun as_string :: "ini_value \<Rightarrow> ini_exception + string" where
  "as_string (Ini_string s) = Inr s"
| "as_string (Ini_int i) = Inr (int_to_string i)"
| "as_string (Ini_double d) = Inr (dbl_to_string d)"
| "as_string (Ini_bool b) = Inr (if b then ''true'' else ''false'')"
| "as_string Ini_null = Inr ''null''"
| "as_string v = Inl Config_error"

fun as_array :: "ini_value \<Rightarrow> ini_exception + ini_value list" where
  "as_array (Ini_array xs) = Inr xs"
| "as_array v = Inl Config_error"

fun as_object :: "ini_value \<Rightarrow> ini_exception + (string \<times> ini_value) list" where
  "as_object (Ini_object m) = Inr m"
| "as_object v = Inl Config_error"

section \<open>Ordered maps\<close>

text \<open>\<open>std::map<std::string, T>\<close>: pairs in ascending order of the keys, bytes compared unsigned.\<close>

type_synonym 'a ordered_map = "(string \<times> 'a) list"

fun map_set :: "string \<Rightarrow> 'a \<Rightarrow> 'a ordered_map \<Rightarrow> 'a ordered_map" where
  "map_set k v [] = [(k, v)]"
| "map_set k v ((k', v') # m) =
     (if k < k' then (k, v) # (k', v') # m
      else if k = k' then (k, v) # m
      else (k', v') # map_set k v m)"

definition map_erase :: "string \<Rightarrow> 'a ordered_map \<Rightarrow> 'a ordered_map" where
  "map_erase k m = filter (\<lambda>(k', v). k' \<noteq> k) m"

definition ordered :: "'a ordered_map \<Rightarrow> bool" where
  "ordered m \<longleftrightarrow> sorted_wrt (<) (map fst m)"

section \<open>Arrays and objects\<close>

definition array_size :: "ini_value \<Rightarrow> ini_exception + nat" where
  "array_size v = (case as_array v of Inl e \<Rightarrow> Inl e | Inr xs \<Rightarrow> Inr (length xs))"

definition array_at :: "ini_value \<Rightarrow> nat \<Rightarrow> ini_exception + ini_value" where
  "array_at v i =
     (case as_array v of
        Inl e \<Rightarrow> Inl e
      | Inr xs \<Rightarrow> if i \<ge> length xs then Inl Config_error else Inr (xs ! i))"

definition array_push_back :: "ini_value \<Rightarrow> ini_value \<Rightarrow> ini_exception + ini_value" where
  "array_push_back v x = (case as_array v of Inl e \<Rightarrow> Inl e | Inr xs \<Rightarrow> Inr (Ini_array (xs @ [x])))"

definition has_key :: "ini_value \<Rightarrow> string \<Rightarrow> bool" where
  "has_key v k = (case as_object v of Inl e \<Rightarrow> False | Inr m \<Rightarrow> map_of m k \<noteq> None)"

definition object_at :: "ini_value \<Rightarrow> string \<Rightarrow> ini_exception + ini_value" where
  "object_at v k =
     (case as_object v of
        Inl e \<Rightarrow> Inl e
      | Inr m \<Rightarrow> (case map_of m k of None \<Rightarrow> Inl Config_error | Some x \<Rightarrow> Inr x))"

text \<open>The non-constant \<open>operator[]\<close>: a missing key is created with a null value; \<open>x\<close> is stored through the reference.\<close>

definition object_entry :: "ini_value \<Rightarrow> string \<Rightarrow> ini_exception + ini_value \<times> ini_value" where
  "object_entry v k =
     (case as_object v of
        Inl e \<Rightarrow> Inl e
      | Inr m \<Rightarrow> (case map_of m k of
                    Some x \<Rightarrow> Inr (x, v)
                  | None \<Rightarrow> Inr (Ini_null, Ini_object (map_set k Ini_null m))))"

section \<open>Comparison\<close>

fun ini_eq :: "ini_value \<Rightarrow> ini_value \<Rightarrow> bool"
  and ini_eq_array :: "ini_value list \<Rightarrow> ini_value list \<Rightarrow> bool"
  and ini_eq_object :: "(string \<times> ini_value) list \<Rightarrow> (string \<times> ini_value) list \<Rightarrow> bool" where
  "ini_eq Ini_null Ini_null \<longleftrightarrow> True"
| "ini_eq (Ini_bool a) (Ini_bool b) \<longleftrightarrow> a = b"
| "ini_eq (Ini_int a) (Ini_int b) \<longleftrightarrow> a = b"
| "ini_eq (Ini_double a) (Ini_double b) \<longleftrightarrow> dbl_eq a b"
| "ini_eq (Ini_string a) (Ini_string b) \<longleftrightarrow> a = b"
| "ini_eq (Ini_array a) (Ini_array b) \<longleftrightarrow> ini_eq_array a b"
| "ini_eq (Ini_object a) (Ini_object b) \<longleftrightarrow> ini_eq_object a b"
| "ini_eq a b \<longleftrightarrow> False"
| "ini_eq_array [] [] \<longleftrightarrow> True"
| "ini_eq_array (x # xs) (y # ys) \<longleftrightarrow> ini_eq x y \<and> ini_eq_array xs ys"
| "ini_eq_array xs ys \<longleftrightarrow> False"
| "ini_eq_object [] [] \<longleftrightarrow> True"
| "ini_eq_object ((k, x) # xs) ((l, y) # ys) \<longleftrightarrow> k = l \<and> ini_eq x y \<and> ini_eq_object xs ys"
| "ini_eq_object xs ys \<longleftrightarrow> False"

section \<open>The map laws\<close>

lemma map_of_map_set [simp]: "map_of (map_set k v m) = (map_of m)(k \<mapsto> v)"
  by (induction m) (auto simp: fun_eq_iff)

lemma keys_map_set [simp]: "set (map fst (map_set k v m)) = insert k (set (map fst m))"
  by (induction k v m rule: map_set.induct) (simp_all add: insert_commute)

lemma ordered_Nil [simp]: "ordered []"
  by (simp add: ordered_def)

lemma ordered_map_set [simp]: "ordered m \<Longrightarrow> ordered (map_set k v m)"
proof (induction k v m rule: map_set.induct)
  case (2 k v k' v' m)
  have "\<forall>x \<in> set (map fst (map_set k v m)). k' < x" if "k' < k"
    using 2(2) that unfolding keys_map_set by (simp add: ordered_def)
  then show ?case using 2 by (auto simp: ordered_def not_less_iff_gr_or_eq)
qed (simp add: ordered_def)

lemma map_of_map_erase [simp]: "map_of (map_erase k m) = (map_of m)(k := None)"
  by (induction m) (auto simp: map_erase_def fun_eq_iff)

lemma ordered_map_erase [simp]: "ordered m \<Longrightarrow> ordered (map_erase k m)"
  by (simp add: ordered_def map_erase_def sorted_wrt_map sorted_wrt_filter)

lemma ordered_distinct: "ordered m \<Longrightarrow> distinct (map fst m) \<and> sorted (map fst m)"
  by (auto simp: ordered_def strict_sorted_iff)

lemma ordered_eqI: "ordered m \<Longrightarrow> ordered m' \<Longrightarrow> map_of m = map_of m' \<Longrightarrow> m = m'"
proof -
  assume "ordered m" "ordered m'" "map_of m = map_of m'"
  then have keys: "distinct (map fst m)" "sorted (map fst m)" "distinct (map fst m')" "sorted (map fst m')"
    and eq: "set m = set m'"
    using ordered_distinct map_of_inject_set [of m m'] by auto
  have "inj_on fst (set m \<union> set m')"
    using keys(1) eq by (simp add: distinct_map)
  then show "m = m'"
    using keys eq by (intro map_sorted_distinct_set_unique [of fst]) auto
qed

end
