(* ===== verification/Ini_Parser.thy ===== *)
theory Ini_Parser
  imports Ini_Values "HOL-Library.Multiset"
begin

text \<open>
  The classes \<open>base_ini_parser\<close> and \<open>ini_parser\<close> of \<open>ext_libs/ini_parser/ini_parser.h\<close>. A parser is its map
  \<open>data_\<close> from \<open>section.key\<close> to values. A file is what the stream delivers: \<open>None\<close> when it does not open.
\<close>

section \<open>The base class\<close>

type_synonym ini_data = "ini_value ordered_map"

datatype merge_strategy = Overwrite | Preserve

definition ini_has :: "ini_data \<Rightarrow> string \<Rightarrow> bool" where
  "ini_has d k \<longleftrightarrow> map_of d k \<noteq> None"

definition ini_get :: "ini_data \<Rightarrow> string \<Rightarrow> ini_exception + ini_value" where
  "ini_get d k = (case map_of d k of None \<Rightarrow> Inl Config_error | Some v \<Rightarrow> Inr v)"

definition ini_get_default :: "ini_data \<Rightarrow> string \<Rightarrow> ini_value \<Rightarrow> ini_value" where
  "ini_get_default d k def = (case map_of d k of None \<Rightarrow> def | Some v \<Rightarrow> v)"

definition ini_set :: "string \<Rightarrow> ini_value \<Rightarrow> ini_data \<Rightarrow> ini_data" where
  "ini_set k v d = map_set k v d"

definition ini_remove :: "string \<Rightarrow> ini_data \<Rightarrow> bool \<times> ini_data" where
  "ini_remove k d = (map_of d k \<noteq> None, map_erase k d)"

definition ini_clear :: "ini_data \<Rightarrow> ini_data" where
  "ini_clear d = []"

fun ini_merge :: "merge_strategy \<Rightarrow> ini_data \<Rightarrow> ini_data \<Rightarrow> ini_data" where
  "ini_merge strategy [] d = d"
| "ini_merge strategy ((k, v) # other) d =
     ini_merge strategy other (if strategy = Overwrite \<or> \<not> ini_has d k then map_set k v d else d)"

definition get_keys :: "ini_data \<Rightarrow> string list" where
  "get_keys d = map fst d"

definition ini_size :: "ini_data \<Rightarrow> nat" where
  "ini_size d = length d"

definition ini_empty :: "ini_data \<Rightarrow> bool" where
  "ini_empty d \<longleftrightarrow> d = []"

definition has_section :: "ini_data \<Rightarrow> string \<Rightarrow> bool" where
  "has_section d sec \<longleftrightarrow> list_ex (\<lambda>(k, v). prefix (sec @ ''.'') k) d"

definition get_section_keys :: "ini_data \<Rightarrow> string \<Rightarrow> string list" where
  "get_section_keys d sec =
     map (\<lambda>(k, v). drop (length (sec @ ''.'')) k) (filter (\<lambda>(k, v). prefix (sec @ ''.'') k) d)"

definition get_section :: "ini_data \<Rightarrow> string \<Rightarrow> ini_data" where
  "get_section d sec =
     foldl (\<lambda>m (k, v). if prefix (sec @ ''.'') k then map_set (drop (length (sec @ ''.'')) k) v m else m) [] d"

section \<open>Lines\<close>

abbreviation newline :: char where "newline \<equiv> CHR 0x0A"

text \<open>\<open>std::getline\<close> until it fails: a last line without its newline counts, an empty one does not.\<close>

function file_lines :: "string \<Rightarrow> string list" where
  "file_lines s =
     (if s = [] then []
      else takeWhile (\<lambda>c. c \<noteq> newline) s # file_lines (drop 1 (dropWhile (\<lambda>c. c \<noteq> newline) s)))"
  by pat_completeness auto
termination
  by (relation "measure length") (auto simp: le_less_trans [OF diff_le_mono [OF length_dropWhile_le]])

declare file_lines.simps [simp del]

definition trim :: "string \<Rightarrow> string" where
  "trim s = rev (dropWhile is_space (rev (dropWhile is_space s)))"

definition is_comment :: "string \<Rightarrow> bool" where
  "is_comment line \<longleftrightarrow> line \<noteq> [] \<and> (line ! 0 = CHR ''#'' \<or> line ! 0 = CHR '';'')"

text \<open>\<open>find\<close> of a character: its first position.\<close>

definition find_char :: "char \<Rightarrow> string \<Rightarrow> nat option" where
  "find_char c s = (if c \<in> set s then Some (length (takeWhile (\<lambda>d. d \<noteq> c) s)) else None)"

text \<open>\<open>Some\<close> is the result true, with the name in the output parameter.\<close>

definition is_section_header :: "string \<Rightarrow> string option" where
  "is_section_header line =
     (if length line < 3 \<or> line ! 0 \<noteq> CHR ''['' then None
      else case find_char CHR '']'' line of
             None \<Rightarrow> None
           | Some close_bracket \<Rightarrow>
               let sec = trim (take (close_bracket - 1) (drop 1 line))
               in if sec = [] \<or> CHR ''.'' \<in> set sec then None else Some sec)"

definition unquote :: "string \<Rightarrow> string" where
  "unquote v =
     (if length v \<ge> 2 \<and> (hd v = CHR 0x22 \<and> last v = CHR 0x22 \<or> hd v = CHR 0x27 \<and> last v = CHR 0x27)
      then take (length v - 2) (drop 1 v) else v)"

definition parse_key_value :: "string \<Rightarrow> (string \<times> string) option" where
  "parse_key_value line =
     (case (case find_char CHR ''='' line of None \<Rightarrow> find_char CHR '':'' line | Some p \<Rightarrow> Some p) of
        None \<Rightarrow> None
      | Some pos \<Rightarrow>
          if pos = 0 then None
          else let key = trim (take pos line); val = unquote (trim (drop (pos + 1) line))
               in if key = [] then None else Some (key, val))"

text \<open>The number of the whole string, if it is one; what the conversions throw is caught.\<close>

definition parse_number :: "string \<Rightarrow> ini_value option" where
  "parse_number s =
     (if CHR ''.'' \<in> set s
      then (case stod s of Inr (d, idx) \<Rightarrow> if idx = length s then Some (Ini_double d) else None | Inl e \<Rightarrow> None)
      else (case stoi s of Inr (i, idx) \<Rightarrow> if idx = length s then Some (Ini_int i) else None | Inl e \<Rightarrow> None))"

definition parse_value :: "string \<Rightarrow> ini_value" where
  "parse_value s =
     (if s = [] then Ini_string []
      else let low = to_lower s
        in if low = ''true'' \<or> low = ''yes'' \<or> low = ''on'' then Ini_bool True
           else if low = ''false'' \<or> low = ''no'' \<or> low = ''off'' then Ini_bool False
           else if low = ''null'' \<or> low = ''nil'' \<or> low = ''none'' then Ini_null
           else case parse_number s of Some v \<Rightarrow> v | None \<Rightarrow> Ini_string s)"

section \<open>Loading\<close>

definition full_key :: "string \<Rightarrow> string \<Rightarrow> string" where
  "full_key current_section key = (if current_section = [] then key else current_section @ ''.'' @ key)"

text \<open>
  The loop over the lines. The entries read before a line that is no entry stay in the map.
\<close>

fun load_lines ::
  "merge_strategy \<Rightarrow> ini_data \<Rightarrow> nat \<Rightarrow> string \<Rightarrow> ini_data \<Rightarrow> string list \<Rightarrow> (ini_exception + bool) \<times> ini_data" where
  "load_lines strategy backup n current_section d [] = (Inr True, d)"
| "load_lines strategy backup n current_section d (l # ls) =
     (let n = n + 1; line = trim l
      in if line = [] \<or> is_comment line then load_lines strategy backup n current_section d ls
         else case is_section_header line of
                Some sec \<Rightarrow> load_lines strategy backup n sec d ls
              | None \<Rightarrow>
                  (case parse_key_value line of
                     None \<Rightarrow> (Inl (Parse_error n), d)
                   | Some (key, val) \<Rightarrow>
                       let k = full_key current_section key;
                           v = (case map_of backup k of
                                  Some old \<Rightarrow> if strategy = Preserve then old else parse_value val
                                | None \<Rightarrow> parse_value val)
                       in load_lines strategy backup n current_section (map_set k v d) ls))"

definition ini_load :: "string option \<Rightarrow> merge_strategy \<Rightarrow> ini_data \<Rightarrow> (ini_exception + bool) \<times> ini_data" where
  "ini_load content strategy d =
     (case content of
        None \<Rightarrow> (Inl Io_error, d)
      | Some s \<Rightarrow>
          (if strategy = Preserve then load_lines strategy d 0 [] d (file_lines s)
           else load_lines strategy [] 0 [] [] (file_lines s)))"

section \<open>Saving\<close>

definition needs_quoting :: "string \<Rightarrow> bool" where
  "needs_quoting s \<longleftrightarrow> s = [] \<or> list_ex (\<lambda>c. is_space c \<or> c \<in> set ''#;=:[]'') s"

definition escape_char :: "char \<Rightarrow> string" where
  "escape_char c =
     (if c = CHR 0x22 then [CHR 0x5C, CHR 0x22]
      else if c = CHR 0x5C then [CHR 0x5C, CHR 0x5C]
      else if c = CHR 0x0A then [CHR 0x5C, CHR ''n'']
      else if c = CHR 0x0D then [CHR 0x5C, CHR ''r'']
      else if c = CHR 0x09 then [CHR 0x5C, CHR ''t'']
      else [c])"

definition escape_string :: "string \<Rightarrow> string" where
  "escape_string s = concat (map escape_char s)"

fun value_text :: "ini_value \<Rightarrow> string" where
  "value_text (Ini_string s) = (if needs_quoting s then [CHR 0x22] @ escape_string s @ [CHR 0x22] else s)"
| "value_text (Ini_int i) = int_to_string i"
| "value_text (Ini_double d) = dbl_output d"
| "value_text (Ini_bool b) = (if b then ''true'' else ''false'')"
| "value_text Ini_null = ''null''"
| "value_text v = [CHR 0x22] @ ''[complex value]'' @ [CHR 0x22]"

definition write_key_value :: "string \<Rightarrow> ini_value \<Rightarrow> string" where
  "write_key_value k v = k @ '' = '' @ value_text v @ [newline]"

type_synonym sections = "(string \<times> ini_value) list ordered_map"

definition sections_add :: "string \<Rightarrow> string \<times> ini_value \<Rightarrow> sections \<Rightarrow> sections" where
  "sections_add sec kv m = map_set sec ((case map_of m sec of None \<Rightarrow> [] | Some kvs \<Rightarrow> kvs) @ [kv]) m"

definition split_key :: "string \<Rightarrow> string \<times> string" where
  "split_key k =
     (case find_char CHR ''.'' k of
        Some pos \<Rightarrow> (take pos k, drop (pos + 1) k)
      | None \<Rightarrow> ([], k))"

definition group_sections :: "ini_data \<Rightarrow> sections" where
  "group_sections d =
     foldl (\<lambda>m (k, v). case split_key k of (sec, key) \<Rightarrow> sections_add sec (key, v) m) [] d"

definition write_pairs :: "(string \<times> ini_value) list \<Rightarrow> string" where
  "write_pairs kvs = concat (map (\<lambda>(k, v). write_key_value k v) kvs) @ [newline]"

definition write_section :: "string \<times> (string \<times> ini_value) list \<Rightarrow> string" where
  "write_section s = (case s of (sec, kvs) \<Rightarrow>
     if sec = [] then [] else ''['' @ sec @ '']'' @ [newline] @ write_pairs kvs)"

text \<open>What is written to the file.\<close>

definition ini_text :: "ini_data \<Rightarrow> string" where
  "ini_text d =
     (let m = group_sections d
      in (case map_of m [] of
            None \<Rightarrow> []
          | Some kvs \<Rightarrow> if kvs = [] then [] else write_pairs kvs)
         @ concat (map write_section m))"

definition ini_save :: "bool \<Rightarrow> ini_data \<Rightarrow> ini_exception + string" where
  "ini_save opens d = (if \<not> opens then Inl Io_error else Inr (ini_text d))"

section \<open>Reading lines back\<close>

lemma file_lines_built:
  "\<forall>l \<in> set ls. newline \<notin> set l \<Longrightarrow> file_lines (concat (map (\<lambda>l. l @ [newline]) ls)) = ls"
proof (induction ls)
  case (Cons l ls)
  then have "takeWhile (\<lambda>c. c \<noteq> newline) (l @ newline # t) = l"
    "dropWhile (\<lambda>c. c \<noteq> newline) (l @ newline # t) = newline # t" for t
    by (induction l) auto
  then show ?case using Cons by (subst file_lines.simps) simp
qed (simp add: file_lines.simps)

definition trimmed :: "string \<Rightarrow> bool" where
  "trimmed s \<longleftrightarrow> s \<noteq> [] \<and> \<not> is_space (hd s) \<and> \<not> is_space (last s)"

lemma dropWhile_hd: "s \<noteq> [] \<Longrightarrow> \<not> P (hd s) \<Longrightarrow> dropWhile P s = s"
  by (cases s) auto

lemma trim_trimmed [simp]: "trimmed s \<Longrightarrow> trim s = s"
  by (simp add: trim_def trimmed_def dropWhile_hd hd_rev)

lemma trim_blank [simp]: "is_space c \<Longrightarrow> trim (c # s) = trim s"
  by (simp add: trim_def)

lemma trim_snoc_blank: "trimmed s \<Longrightarrow> is_space c \<Longrightarrow> trim (s @ [c]) = s"
  by (simp add: trim_def trimmed_def dropWhile_hd hd_rev)

lemma space_blank [simp]: "is_space CHR '' ''"
  by (simp add: is_space_def)

section \<open>The entries that survive a round trip\<close>

text \<open>The characters the file gives a meaning to, and the text of a value as the parser sees it.\<close>

definition key_ok :: "string \<Rightarrow> bool" where
  "key_ok k \<longleftrightarrow> trimmed k \<and> set k \<inter> {newline, CHR ''=''} = {} \<and> hd k \<notin> set ''#;[''"

definition section_ok :: "string \<Rightarrow> bool" where
  "section_ok s \<longleftrightarrow> trimmed s \<and> set s \<inter> {newline, CHR '']'', CHR ''.''} = {}"

definition full_key_ok :: "string \<Rightarrow> bool" where
  "full_key_ok k \<longleftrightarrow>
     (case split_key k of (sec, key) \<Rightarrow>
        key_ok key \<and> (if CHR ''.'' \<in> set k then section_ok sec else True))"

definition quoted :: "string \<Rightarrow> bool" where
  "quoted s \<longleftrightarrow> length s \<ge> 2 \<and> (hd s = CHR 0x22 \<and> last s = CHR 0x22 \<or> hd s = CHR 0x27 \<and> last s = CHR 0x27)"

text \<open>
  A string survives when it needs no escape (what \<open>escape_string\<close> writes is not read back) and does
  not look like a value of another type.
\<close>

fun value_ok :: "ini_value \<Rightarrow> bool" where
  "value_ok (Ini_string s) \<longleftrightarrow>
     parse_value s = Ini_string s \<and> escape_string s = s \<and> (needs_quoting s \<or> \<not> quoted s)"
| "value_ok (Ini_int i) \<longleftrightarrow> True"
| "value_ok (Ini_bool b) \<longleftrightarrow> True"
| "value_ok Ini_null \<longleftrightarrow> True"
| "value_ok v \<longleftrightarrow> False"

lemma unquote_quotes [simp]: "unquote (CHR 0x22 # s @ [CHR 0x22]) = s"
  by (simp add: unquote_def)

lemma unquote_plain [simp]: "\<not> quoted s \<Longrightarrow> unquote s = s"
  by (auto simp: unquote_def quoted_def)

text \<open>Integers: \<open>stoi\<close> reads back all of what \<open>std::to_string\<close> writes.\<close>

lemma digit_not_special: "is_digit c \<Longrightarrow> c \<notin> set ''+-.'' \<and> \<not> is_space c \<and> c \<noteq> newline \<and> c \<noteq> CHR 0x22 \<and> c \<noteq> CHR 0x27"
  by (auto simp: is_digit_def digits_def is_space_def)

lemma int_to_string_cases:
  "int_to_string i = (if sint i < 0 then ''-'' else []) @ nat_digits (nat \<bar>sint i\<bar>)"
  by (simp add: int_to_string_def sprint_int_def)

lemma nat_digits_digits: "c \<in> set (nat_digits n) \<Longrightarrow> is_digit c"
  using nat_digits_ok(2) [of n] by (auto simp: list_all_iff)

lemma strto_parts_int [simp]:
  "strto_parts (int_to_string i) = (sint i < 0, nat_digits (nat \<bar>sint i\<bar>))"
  by (simp add: int_to_string_def strto_parts_sprint)

lemma hd_nat_digits: "is_digit (hd (nat_digits n))"
  by (rule nat_digits_digits [OF hd_in_set [OF nat_digits_ok(3)]])

lemma stoi_int [simp]: "stoi (int_to_string i) = Inr (i, length (int_to_string i))"
proof -
  let ?ds = "nat_digits (nat \<bar>sint i\<bar>)"
  have "strtol (int_to_string i) = Some (sint i)"
    using sint_i32_bounds [of i] by (simp add: int_to_string_def strtol_sprint)
  moreover have "strtol_end (int_to_string i) = length (int_to_string i)"
  proof -
    obtain c ds where ds: "?ds = c # ds" using nat_digits_ok(3) by (cases ?ds) auto
    then have "\<not> is_space c \<and> c \<noteq> CHR ''-'' \<and> c \<noteq> CHR ''+''"
      using hd_nat_digits [of "nat \<bar>sint i\<bar>"] is_digit_cases by simp
    then show ?thesis
      unfolding strtol_end_def strto_parts_int unfolding int_to_string_cases
      by (simp add: ds is_space_def)
  qed
  ultimately show ?thesis
    using sint_i32_bounds [of i] by (simp add: stoi_def)
qed

lemma number_chars:
  "c \<in> set (int_to_string i) \<Longrightarrow> is_digit c \<or> c = CHR ''-''"
  by (auto simp: int_to_string_cases nat_digits_digits split: if_splits)

lemma lower_number_char: "is_digit c \<or> c = CHR ''-'' \<Longrightarrow> lower_char c = c"
  by (auto simp: is_digit_def digits_def lower_char_def)

lemma int_to_string_nonempty [simp]: "int_to_string i \<noteq> []"
  by (simp add: int_to_string_def)

lemma number_no_letter: "is_digit c \<or> c = CHR ''-'' \<Longrightarrow> c \<notin> set ''tyofn.''"
  by (auto simp: is_digit_def digits_def)

lemma parse_value_int [simp]: "parse_value (int_to_string i) = Ini_int i"
proof -
  have low: "to_lower (int_to_string i) = int_to_string i"
    unfolding to_lower_def by (rule map_idI) (use number_chars lower_number_char in blast)
  have none: "int_to_string i \<noteq> c # s" if "c \<in> set ''tyofn''" for c s
    using that number_chars [of c i] number_no_letter [of c] by auto
  have "CHR ''.'' \<notin> set (int_to_string i)"
    using number_chars [of "CHR ''.''" i] number_no_letter [of "CHR ''.''"] by auto
  then show ?thesis
    by (simp add: parse_value_def low none parse_number_def)
qed

lemma parse_value_words [simp]:
  "parse_value ''true'' = Ini_bool True" "parse_value ''false'' = Ini_bool False"
  "parse_value ''null'' = Ini_null"
  by (simp_all add: parse_value_def to_lower_def lower_char_def)

section \<open>An entry is read back\<close>

text \<open>The value as the parser takes it from the line, before it removes quotes, and after.\<close>

lemma unquoted_text:
  "value_ok v \<Longrightarrow> trimmed (value_text v) \<and> newline \<notin> set (value_text v)
     \<and> parse_value (unquote (value_text v)) = v"
proof (cases v)
  case (Ini_string s)
  assume ok: "value_ok v"
  show ?thesis
  proof (cases "needs_quoting s")
    case True
    have "newline \<notin> set (escape_string s)"
      by (auto simp: escape_string_def escape_char_def)
    then show ?thesis
      using ok True Ini_string by (auto simp: trimmed_def is_space_def)
  next
    case False
    then have "trimmed s \<and> newline \<notin> set s"
      by (auto simp: needs_quoting_def trimmed_def list_ex_iff is_space_def)
    then show ?thesis using ok False Ini_string by simp
  qed
next
  case (Ini_int i)
  let ?t = "int_to_string i"
  have ch: "\<not> is_space c \<and> c \<noteq> newline \<and> c \<noteq> CHR 0x22 \<and> c \<noteq> CHR 0x27" if "c \<in> set ?t" for c
    using number_chars [OF that] by (auto simp: is_digit_def digits_def is_space_def)
  have "hd ?t \<in> set ?t" "last ?t \<in> set ?t" by simp_all
  with ch show ?thesis
    by (auto simp: Ini_int trimmed_def quoted_def)
qed (auto simp: trimmed_def is_space_def quoted_def)

lemma find_char_append: "c \<notin> set a \<Longrightarrow> find_char c (a @ c # b) = Some (length a)"
  by (induction a) (auto simp: find_char_def split: if_splits)

lemma parse_line:
  assumes "key_ok k" and "value_ok v"
  shows "parse_key_value (k @ '' = '' @ value_text v) = Some (k, unquote (value_text v))"
proof -
  have k: "CHR ''='' \<notin> set k" "trimmed k" "k \<noteq> []" using assms(1) by (auto simp: key_ok_def trimmed_def)
  define a where "a = k @ '' ''"
  have eq: "k @ '' = '' @ value_text v = a @ CHR ''='' # '' '' @ value_text v" by (simp add: a_def)
  have "find_char CHR ''='' (a @ CHR ''='' # '' '' @ value_text v) = Some (length a)"
    using k(1) by (intro find_char_append) (simp add: a_def)
  moreover have "trim a = k" "a \<noteq> []" using k(2) by (simp_all add: a_def trim_snoc_blank)
  moreover have "trim (value_text v) = value_text v" using unquoted_text [OF assms(2)] by simp
  ultimately show ?thesis
    using k(3) unfolding parse_key_value_def eq by simp
qed

lemma line_trimmed:
  assumes "key_ok k" and "value_ok v"
  shows "trim (k @ '' = '' @ value_text v) = k @ '' = '' @ value_text v"
    "\<not> is_comment (k @ '' = '' @ value_text v)"
    "is_section_header (k @ '' = '' @ value_text v) = None"
    "newline \<notin> set (k @ '' = '' @ value_text v)"
proof -
  have k: "k \<noteq> []" "\<not> is_space (hd k)" "hd k \<notin> set ''#;[''" "newline \<notin> set k"
    using assms(1) by (auto simp: key_ok_def trimmed_def)
  have v: "trimmed (value_text v)" "newline \<notin> set (value_text v)"
    using unquoted_text [OF assms(2)] by simp_all
  show "trim (k @ '' = '' @ value_text v) = k @ '' = '' @ value_text v"
    using k v(1) by (intro trim_trimmed) (simp add: trimmed_def)
  show "\<not> is_comment (k @ '' = '' @ value_text v)" "is_section_header (k @ '' = '' @ value_text v) = None"
    using k(1,3) by (cases k; simp add: is_comment_def is_section_header_def)+
  show "newline \<notin> set (k @ '' = '' @ value_text v)" using k(4) v(2) by simp
qed

section \<open>A file is read back\<close>

definition pair_lines :: "(string \<times> ini_value) list \<Rightarrow> string list" where
  "pair_lines kvs = map (\<lambda>(k, v). k @ '' = '' @ value_text v) kvs @ [[]]"

definition section_lines :: "string \<times> (string \<times> ini_value) list \<Rightarrow> string list" where
  "section_lines s = (case s of (sec, kvs) \<Rightarrow> if sec = [] then [] else (''['' @ sec @ '']'') # pair_lines kvs)"

definition global_lines :: "sections \<Rightarrow> string list" where
  "global_lines m = (case map_of m [] of None \<Rightarrow> [] | Some kvs \<Rightarrow> if kvs = [] then [] else pair_lines kvs)"

definition built :: "string list \<Rightarrow> string" where
  "built ls = concat (map (\<lambda>l. l @ [newline]) ls)"

lemma built_simps [simp]:
  "built [] = []" "built (l # ls) = l @ newline # built ls" "built (ls @ ls') = built ls @ built ls'"
  by (simp_all add: built_def)

lemma write_pairs_built: "write_pairs kvs = built (pair_lines kvs)"
  by (induction kvs) (auto simp: write_pairs_def pair_lines_def write_key_value_def)

lemma ini_text_built:
  "ini_text d = built (global_lines (group_sections d) @ concat (map section_lines (group_sections d)))"
proof -
  have "concat (map write_section m) = built (concat (map section_lines m))" for m
    by (induction m) (auto simp: write_section_def section_lines_def write_pairs_built)
  then show ?thesis
    by (simp add: ini_text_def global_lines_def Let_def write_pairs_built split: option.split)
qed

definition pairs_ok :: "(string \<times> ini_value) list \<Rightarrow> bool" where
  "pairs_ok kvs \<longleftrightarrow> (\<forall>(k, v) \<in> set kvs. key_ok k \<and> value_ok v)"

definition add_pairs :: "string \<Rightarrow> (string \<times> ini_value) list \<Rightarrow> ini_data \<Rightarrow> ini_data" where
  "add_pairs sec kvs d = foldl (\<lambda>d (k, v). map_set (full_key sec k) v d) d kvs"

lemma trim_Nil [simp]: "trim [] = []"
  by (simp add: trim_def)

lemma load_pairs:
  "pairs_ok kvs \<Longrightarrow> load_lines st [] n sec d (pair_lines kvs @ ls)
     = load_lines st [] (n + length kvs + 1) sec (add_pairs sec kvs d) ls"
proof (induction kvs arbitrary: n d)
  case Nil
  show ?case by (simp add: pair_lines_def add_pairs_def Let_def)
next
  case (Cons kv kvs)
  obtain k v where kv: "kv = (k, v)" by force
  have ok: "key_ok k" "value_ok v" and IH: "pairs_ok kvs" using Cons.prems by (simp_all add: pairs_ok_def kv)
  define l where "l = k @ '' = '' @ value_text v"
  have l: "pair_lines ((k, v) # kvs) = l # pair_lines kvs" by (simp add: pair_lines_def l_def)
  have "l \<noteq> []" "trim l = l" "\<not> is_comment l" "is_section_header l = None"
    "parse_key_value l = Some (k, unquote (value_text v))"
    using line_trimmed [OF ok] parse_line [OF ok] by (auto simp: l_def)
  then have "load_lines st [] n sec d (l # ls') = load_lines st [] (n + 1) sec (map_set (full_key sec k) v d) ls'" for ls'
    using unquoted_text [OF ok(2)] by (simp add: Let_def)
  then show ?case
    unfolding kv l by (simp add: Cons.IH [OF IH] add_pairs_def)
qed

lemma header_read:
  assumes "section_ok sec"
  shows "load_lines st [] n s d ((''['' @ sec @ '']'') # ls) = load_lines st [] (n + 1) sec d ls"
    "newline \<notin> set (''['' @ sec @ '']'')"
proof -
  let ?l = "(CHR ''['' # sec) @ CHR '']'' # []"
  have "find_char CHR '']'' ?l = Some (length (CHR ''['' # sec))"
    using assms by (intro find_char_append) (simp add: section_ok_def)
  then have "is_section_header ?l = Some sec"
    using assms by (auto simp: is_section_header_def section_ok_def trimmed_def Let_def Suc_le_eq)
  moreover have "trim ?l = ?l" by (rule trim_trimmed) (simp add: trimmed_def is_space_def)
  ultimately show "load_lines st [] n s d ((''['' @ sec @ '']'') # ls) = load_lines st [] (n + 1) sec d ls"
    by (simp add: is_comment_def)
  show "newline \<notin> set (''['' @ sec @ '']'')" using assms by (auto simp: section_ok_def)
qed

definition sections_ok :: "sections \<Rightarrow> bool" where
  "sections_ok m \<longleftrightarrow> ordered m \<and> (\<forall>(sec, kvs) \<in> set m. (sec = [] \<or> section_ok sec) \<and> pairs_ok kvs)"

definition add_sections :: "sections \<Rightarrow> ini_data \<Rightarrow> ini_data" where
  "add_sections m d = foldl (\<lambda>d (sec, kvs). if sec = [] then d else add_pairs sec kvs d) d m"

lemma section_lines_simps [simp]:
  "section_lines ([], kvs) = []" "sec \<noteq> [] \<Longrightarrow> section_lines (sec, kvs) = (''['' @ sec @ '']'') # pair_lines kvs"
  by (simp_all add: section_lines_def)

lemma add_sections_simps [simp]:
  "add_sections [] d = d" "add_sections (([], kvs) # m) d = add_sections m d"
  "sec \<noteq> [] \<Longrightarrow> add_sections ((sec, kvs) # m) d = add_sections m (add_pairs sec kvs d)"
  by (simp_all add: add_sections_def)

lemma load_sections:
  "\<forall>(sec, kvs) \<in> set m. (sec = [] \<or> section_ok sec) \<and> pairs_ok kvs \<Longrightarrow>
     load_lines st [] n s d (concat (map section_lines m)) = (Inr True, add_sections m d)"
proof (induction m arbitrary: n s d)
  case (Cons sk m)
  obtain sec kvs where sk: "sk = (sec, kvs)" by force
  show ?case
  proof (cases "sec = []")
    case True
    with Cons show ?thesis by (simp add: sk)
  next
    case False
    then have "section_ok sec" "pairs_ok kvs" using Cons.prems by (auto simp: sk)
    then show ?thesis
      using False Cons.prems
      by (simp add: sk header_read(1) [simplified] load_pairs Cons.IH)
  qed
qed simp

definition entries :: "sections \<Rightarrow> ini_data" where
  "entries m = concat (map (\<lambda>(sec, kvs). map (\<lambda>(k, v). (full_key sec k, v)) kvs) m)"

definition add_all :: "ini_data \<Rightarrow> ini_data \<Rightarrow> ini_data" where
  "add_all es d = foldl (\<lambda>d (k, v). map_set k v d) d es"

lemma entries_simps [simp]:
  "entries [] = []" "entries ((sec, kvs) # m) = map (\<lambda>(k, v). (full_key sec k, v)) kvs @ entries m"
  by (simp_all add: entries_def)

lemma add_all_append [simp]: "add_all (es @ es') d = add_all es' (add_all es d)"
  by (simp add: add_all_def)

lemma add_pairs_all: "add_pairs sec kvs d = add_all (map (\<lambda>(k, v). (full_key sec k, v)) kvs) d"
  by (induction kvs arbitrary: d) (auto simp: add_pairs_def add_all_def)

lemma add_sections_all:
  "\<forall>(sec, kvs) \<in> set m. sec \<noteq> [] \<Longrightarrow> add_sections m d = add_all (entries m) d"
  by (induction m arbitrary: d) (auto simp: add_all_def [of "[]"] add_pairs_all)

lemma ordered_add_all: "ordered d \<Longrightarrow> ordered (add_all es d)"
  by (induction es arbitrary: d) (auto simp: add_all_def)

lemma map_of_add_all: "map_of (add_all es d) = map_of d ++ map_of (rev es)"
proof (induction es arbitrary: d)
  case (Cons e es)
  obtain k v where "e = (k, v)" by force
  with Cons show ?case by (simp add: add_all_def map_add_upd_left fun_eq_iff map_add_def split: option.split)
qed (simp add: add_all_def)

lemma add_all_same:
  assumes "ordered d" and "mset es = mset d"
  shows "add_all es [] = d"
proof (rule ordered_eqI)
  have "mset (map fst es) = mset (map fst d)" using assms(2) by simp
  then have dist: "distinct (map fst es)" "distinct (map fst d)"
    using ordered_distinct [OF assms(1)] mset_eq_imp_distinct_iff by blast+
  have "set es = set d" using assms(2) by (rule mset_eq_setD)
  with dist have "map_of (rev es) = map_of d"
    by (subst map_of_inject_set) (simp_all flip: rev_map)
  then show "map_of (add_all es []) = map_of d" by (simp add: map_of_add_all)
qed (simp_all add: assms(1) ordered_add_all)

text \<open>The empty section name comes first in the order.\<close>

lemma global_first:
  assumes "ordered m"
  shows "(\<exists>kvs m'. m = ([], kvs) # m' \<and> (\<forall>(sec, kvs) \<in> set m'. sec \<noteq> []))
    \<or> (\<forall>(sec, kvs) \<in> set m. sec \<noteq> [])"
proof (cases m)
  case (Cons sk m')
  have "\<forall>(sec, kvs) \<in> set m'. sec \<noteq> []"
    using assms by (fastforce simp: Cons ordered_def)
  then show ?thesis using Cons by (cases sk) auto
qed simp

lemma load_text:
  assumes "sections_ok m"
  shows "load_lines st [] 0 [] [] (global_lines m @ concat (map section_lines m)) = (Inr True, add_all (entries m) [])"
proof -
  have ord: "ordered m" and ok: "\<forall>(sec, kvs) \<in> set m. (sec = [] \<or> section_ok sec) \<and> pairs_ok kvs"
    using assms by (auto simp: sections_ok_def)
  from global_first [OF ord] show ?thesis
  proof (elim disjE exE conjE)
    fix kvs m' assume m: "m = ([], kvs) # m'" "\<forall>(sec, kvs) \<in> set m'. sec \<noteq> []"
    then have "pairs_ok kvs" "\<forall>(sec, kvs) \<in> set m'. (sec = [] \<or> section_ok sec) \<and> pairs_ok kvs"
      using ok by auto
    then show ?thesis
      by (cases "kvs = []")
        (simp_all add: m(1) global_lines_def load_pairs load_sections add_sections_all [OF m(2)] add_pairs_all)
  next
    assume none: "\<forall>(sec, kvs) \<in> set m. sec \<noteq> []"
    then have "map_of m [] = None" by (force simp: map_of_eq_None_iff)
    with ok show ?thesis
      by (simp add: global_lines_def load_sections add_sections_all [OF none])
  qed
qed

section \<open>Grouping by section loses nothing\<close>

lemma set_map_set: "set (map_set k v m) \<subseteq> insert (k, v) (set m)"
  by (induction k v m rule: map_set.induct) auto

lemma entries_add:
  "ordered m \<Longrightarrow> mset (entries (sections_add sec (k, v) m)) = add_mset (full_key sec k, v) (mset (entries m))"
proof (induction m)
  case (Cons sk m)
  obtain sec' kvs where sk: "sk = (sec', kvs)" by force
  have ord: "ordered m" and above: "\<forall>x \<in> fst ` set m. sec' < x"
    using Cons.prems by (auto simp: sk ordered_def)
  consider "sec < sec'" | "sec = sec'" | "sec' < sec" by force
  then show ?case
  proof cases
    case 1
    with above have "map_of m sec = None" by (auto simp: map_of_eq_None_iff)
    with 1 show ?thesis by (simp add: sk sections_add_def)
  next
    case 2
    then show ?thesis by (simp add: sk sections_add_def)
  next
    case 3
    then have "sections_add sec (k, v) ((sec', kvs) # m) = (sec', kvs) # sections_add sec (k, v) m"
      by (auto simp: sections_add_def)
    then show ?thesis using Cons.IH [OF ord] by (simp add: sk)
  qed
qed (simp add: sections_add_def)

lemma section_pairs:
  "sections_ok m \<Longrightarrow> map_of m sec = Some kvs \<Longrightarrow> pairs_ok kvs"
  using map_of_SomeD [of m sec kvs] by (auto simp: sections_ok_def)

lemma sections_ok_add:
  assumes "sections_ok m" and "sec = [] \<or> section_ok sec" and "key_ok k" and "value_ok v"
  shows "sections_ok (sections_add sec (k, v) m)"
proof -
  define kvs where "kvs = (case map_of m sec of None \<Rightarrow> [] | Some kvs \<Rightarrow> kvs) @ [(k, v)]"
  have "pairs_ok kvs"
    using assms section_pairs [OF assms(1)]
    by (cases "map_of m sec") (simp_all add: kvs_def pairs_ok_def ball_Un)
  moreover have "(sec', kvs') = (sec, kvs) \<or> (sec', kvs') \<in> set m"
    if "(sec', kvs') \<in> set (map_set sec kvs m)" for sec' kvs'
    using that set_map_set [of sec kvs m] by blast
  ultimately have "(sec' = [] \<or> section_ok sec') \<and> pairs_ok kvs'"
    if "(sec', kvs') \<in> set (map_set sec kvs m)" for sec' kvs'
    using that assms(1,2) unfolding sections_ok_def by blast
  moreover have "ordered (map_set sec kvs m)" using assms(1) by (simp add: sections_ok_def)
  ultimately show ?thesis
    unfolding sections_ok_def sections_add_def kvs_def [symmetric] by blast
qed

lemma split_key_dot: "CHR ''.'' \<notin> set a \<Longrightarrow> split_key (a @ CHR ''.'' # b) = (a, b)"
  by (simp add: split_key_def find_char_append)

lemma split_key_full:
  assumes ok: "full_key_ok k" and split: "split_key k = (sec, key)"
  shows "full_key sec key = k" "sec = [] \<or> section_ok sec" "key_ok key"
proof -
  show "key_ok key" using ok by (simp add: full_key_ok_def split)
  have "full_key sec key = k \<and> (sec = [] \<or> section_ok sec)"
  proof (cases "CHR ''.'' \<in> set k")
    case False
    then show ?thesis using split by (auto simp: split_key_def find_char_def full_key_def)
  next
    case True
    then obtain a b where k: "k = a @ CHR ''.'' # b" "CHR ''.'' \<notin> set a" by (metis split_list_first)
    then have "sec = a \<and> key = b" using split by (simp add: split_key_dot)
    moreover have "section_ok sec" using ok True by (simp add: full_key_ok_def split)
    ultimately show ?thesis by (simp add: k full_key_def section_ok_def trimmed_def)
  qed
  then show "full_key sec key = k" "sec = [] \<or> section_ok sec" by simp_all
qed

definition data_ok :: "ini_data \<Rightarrow> bool" where
  "data_ok d \<longleftrightarrow> ordered d \<and> (\<forall>(k, v) \<in> set d. full_key_ok k \<and> value_ok v)"

lemma grouped:
  "\<forall>(k, v) \<in> set d. full_key_ok k \<and> value_ok v \<Longrightarrow>
     sections_ok (group_sections d) \<and> mset (entries (group_sections d)) = mset d"
proof (induction d rule: rev_induct)
  case Nil
  show ?case by (simp add: group_sections_def sections_ok_def ordered_def)
next
  case (snoc kv d)
  obtain k v where kv: "kv = (k, v)" by force
  obtain sec key where split: "split_key k = (sec, key)" by force
  let ?m = "group_sections d"
  have IH: "sections_ok ?m" "mset (entries ?m) = mset d" using snoc by auto
  have ok: "full_key_ok k" "value_ok v" using snoc.prems by (simp_all add: kv)
  have "group_sections (d @ [kv]) = sections_add sec (key, v) ?m"
    by (simp add: group_sections_def kv split)
  moreover have "sections_ok (sections_add sec (key, v) ?m)"
    using split_key_full [OF ok(1) split] IH(1) ok(2) by (intro sections_ok_add)
  moreover have "ordered ?m" using IH(1) by (simp add: sections_ok_def)
  ultimately show ?case
    using split_key_full(1) [OF ok(1) split] IH(2) by (simp add: entries_add kv)
qed

lemma pair_lines_clean: "pairs_ok kvs \<Longrightarrow> l \<in> set (pair_lines kvs) \<Longrightarrow> newline \<notin> set l"
  using line_trimmed(4) by (fastforce simp: pair_lines_def pairs_ok_def)

lemma section_lines_clean:
  assumes "sec = [] \<or> section_ok sec" and "pairs_ok kvs" and "l \<in> set (section_lines (sec, kvs))"
  shows "newline \<notin> set l"
proof (cases "sec = []")
  case False
  then have "l = ''['' @ sec @ '']'' \<or> l \<in> set (pair_lines kvs)" using assms(3) by simp
  with False assms(1,2) show ?thesis using header_read(2) [of sec] pair_lines_clean by blast
qed (use assms in simp)

lemma lines_clean:
  assumes "sections_ok m"
  shows "\<forall>l \<in> set (global_lines m @ concat (map section_lines m)). newline \<notin> set l"
proof
  fix l assume "l \<in> set (global_lines m @ concat (map section_lines m))"
  then consider kvs where "map_of m [] = Some kvs" "l \<in> set (pair_lines kvs)"
    | sec kvs where "(sec, kvs) \<in> set m" "l \<in> set (section_lines (sec, kvs))"
    by (cases "map_of m []") (auto simp: global_lines_def split: if_splits)
  then show "newline \<notin> set l"
  proof cases
    case 1
    then show ?thesis using section_pairs [OF assms] pair_lines_clean by blast
  next
    case 2
    moreover have "(sec = [] \<or> section_ok sec) \<and> pairs_ok kvs" using assms 2(1) by (auto simp: sections_ok_def)
    ultimately show ?thesis using section_lines_clean by blast
  qed
qed

lemma load_saved:
  assumes "data_ok d"
  shows "ini_load (Some (ini_text d)) Overwrite d' = (Inr True, d)"
proof -
  let ?m = "group_sections d"
  let ?ls = "global_lines ?m @ concat (map section_lines ?m)"
  have m: "sections_ok ?m" "mset (entries ?m) = mset d" using assms grouped by (auto simp: data_ok_def)
  have "file_lines (ini_text d) = ?ls"
    unfolding ini_text_built built_def by (rule file_lines_built [OF lines_clean [OF m(1)]])
  then show ?thesis
    using assms load_text [OF m(1)] add_all_same [OF _ m(2)] by (simp add: ini_load_def data_ok_def)
qed

text \<open>An integer that no \<open>int\<close> holds is kept as a string, and saved as it was.\<close>

lemma large_number:
  assumes "2 ^ 31 \<le> n"
  shows "stoi (nat_digits n) = Inl Out_of_range" "value_ok (Ini_string (nat_digits n))"
proof -
  let ?s = "nat_digits n"
  have parts: "strto_parts ?s = (False, ?s)" by (rule strto_parts_digits) simp_all
  have "2 ^ 31 \<le> int n" using of_nat_mono [OF assms, where 'a = int] by simp
  then show stoi: "stoi ?s = Inl Out_of_range"
    by (simp add: stoi_def strtol_def parts Let_def min_def)
  have dig: "is_digit c" if "c \<in> set ?s" for c using that by (rule nat_digits_digits)
  have low: "to_lower ?s = ?s"
    unfolding to_lower_def by (rule map_idI) (use dig lower_number_char in blast)
  have none: "?s \<noteq> c # s" if "c \<in> set ''tyofn''" for c s
    using that dig [of c] number_no_letter [of c] by auto
  have "CHR ''.'' \<notin> set ?s"
    using dig [of "CHR ''.''"] number_no_letter [of "CHR ''.''"] by auto
  then have "parse_value ?s = Ini_string ?s"
    by (simp add: parse_value_def low none parse_number_def stoi)
  moreover have "escape_string ?s = ?s"
  proof -
    have "escape_char c = [c]" if "c \<in> set ?s" for c
      using dig [OF that] by (auto simp: escape_char_def is_digit_def digits_def)
    then show ?thesis by (simp add: escape_string_def cong: map_cong)
  qed
  moreover have "\<not> quoted ?s"
    using digit_not_special [OF dig [OF hd_in_set [OF nat_digits_ok(3)]]] by (auto simp: quoted_def)
  ultimately show "value_ok (Ini_string ?s)" by simp
qed

section \<open>What is read is an ordered map\<close>

lemma load_lines_ordered: "ordered d \<Longrightarrow> ordered (snd (load_lines st backup n sec d ls))"
  by (induction st backup n sec d ls rule: load_lines.induct)
    (auto simp: Let_def split: option.splits)


definition settings_demo :: ini_data where
  "settings_demo =
     [(''device'', Ini_string ''F9R of the rover''), (''rate.rate_meas'', Ini_int 1000), (''rate.use'', Ini_bool True)]"

lemma settings_demo_ok: "data_ok settings_demo"
  by code_simp


text \<open>An escaped character is not read back as itself: \<open>save\<close> writes a backslash that \<open>load\<close> keeps.\<close>

lemma escape_not_undone:
  "ini_load (Some (ini_text [(''k'', Ini_string (''a b'' @ [newline]))])) Overwrite []
     = (Inr True, [(''k'', Ini_string (''a b'' @ [CHR 0x5C, CHR ''n'']))])"
  by code_simp

text \<open>Neither is a string that spells a number.\<close>

lemma number_string_not_kept:
  "ini_load (Some (ini_text [(''k'', Ini_string ''12'')])) Overwrite [] = (Inr True, [(''k'', Ini_int 12)])"
  by code_simp

end
