(* ===== verification/Ubx_Cfg_Keys.thy ===== *)
theory Ubx_Cfg_Keys
  imports Ubx_Config
begin

text \<open>
  \<open>config/ubx_config_key.h\<close>: the configuration keys of the receiver, one constant each. Bits 28 to 30 of
  a key give the size of its value.
\<close>


text \<open>ANA\<close>

definition ana_use_ana :: u32 where "ana_use_ana = 0x10230001"
definition ana_orbmaxerr :: u32 where "ana_orbmaxerr = 0x30230002"

text \<open>BATCH\<close>

definition batch_enable :: u32 where "batch_enable = 0x10260013"
definition batch_pioenable :: u32 where "batch_pioenable = 0x10260014"
definition batch_maxentries :: u32 where "batch_maxentries = 0x30260015"
definition batch_warnthrs :: u32 where "batch_warnthrs = 0x30260016"
definition batch_pioactivelow :: u32 where "batch_pioactivelow = 0x10260018"
definition batch_pioid :: u32 where "batch_pioid = 0x20260019"
definition batch_extrapvt :: u32 where "batch_extrapvt = 0x1026001a"
definition batch_extraodo :: u32 where "batch_extraodo = 0x1026001b"

text \<open>BDS\<close>

definition bds_use_geo_prn :: u32 where "bds_use_geo_prn = 0x10340014"

text \<open>GEOFENCE\<close>

definition geofence_conflvl :: u32 where "geofence_conflvl = 0x20240011"
definition geofence_use_pio :: u32 where "geofence_use_pio = 0x10240012"
definition geofence_pinpol :: u32 where "geofence_pinpol = 0x20240013"
definition geofence_pin :: u32 where "geofence_pin = 0x20240014"
definition geofence_use_fence1 :: u32 where "geofence_use_fence1 = 0x10240020"
definition geofence_fence1_lat :: u32 where "geofence_fence1_lat = 0x40240021"
definition geofence_fence1_lon :: u32 where "geofence_fence1_lon = 0x40240022"
definition geofence_fence1_rad :: u32 where "geofence_fence1_rad = 0x40240023"
definition geofence_use_fence2 :: u32 where "geofence_use_fence2 = 0x10240030"
definition geofence_fence2_lat :: u32 where "geofence_fence2_lat = 0x40240031"
definition geofence_fence2_lon :: u32 where "geofence_fence2_lon = 0x40240032"
definition geofence_fence2_rad :: u32 where "geofence_fence2_rad = 0x40240033"
definition geofence_use_fence3 :: u32 where "geofence_use_fence3 = 0x10240040"
definition geofence_fence3_lat :: u32 where "geofence_fence3_lat = 0x40240041"
definition geofence_fence3_lon :: u32 where "geofence_fence3_lon = 0x40240042"
definition geofence_fence3_rad :: u32 where "geofence_fence3_rad = 0x40240043"
definition geofence_use_fence4 :: u32 where "geofence_use_fence4 = 0x10240050"
definition geofence_fence4_lat :: u32 where "geofence_fence4_lat = 0x40240051"
definition geofence_fence4_lon :: u32 where "geofence_fence4_lon = 0x40240052"
definition geofence_fence4_rad :: u32 where "geofence_fence4_rad = 0x40240053"

text \<open>HW\<close>

definition hw_ant_cfg_voltctrl :: u32 where "hw_ant_cfg_voltctrl = 0x10a3002e"
definition hw_ant_cfg_shortdet :: u32 where "hw_ant_cfg_shortdet = 0x10a3002f"
definition hw_ant_cfg_shortdet_pol :: u32 where "hw_ant_cfg_shortdet_pol = 0x10a30030"
definition hw_ant_cfg_opendet :: u32 where "hw_ant_cfg_opendet = 0x10a30031"
definition hw_ant_cfg_opendet_pol :: u32 where "hw_ant_cfg_opendet_pol = 0x10a30032"
definition hw_ant_cfg_pwrdown :: u32 where "hw_ant_cfg_pwrdown = 0x10a30033"
definition hw_ant_cfg_pwrdown_pol :: u32 where "hw_ant_cfg_pwrdown_pol = 0x10a30034"
definition hw_ant_cfg_recover :: u32 where "hw_ant_cfg_recover = 0x10a30035"
definition hw_ant_sup_switch_pin :: u32 where "hw_ant_sup_switch_pin = 0x20a30036"
definition hw_ant_sup_short_pin :: u32 where "hw_ant_sup_short_pin = 0x20a30037"
definition hw_ant_sup_open_pin :: u32 where "hw_ant_sup_open_pin = 0x20a30038"
definition hw_ant_sup_engine :: u32 where "hw_ant_sup_engine = 0x20a30054"
definition hw_ant_sup_short_thr :: u32 where "hw_ant_sup_short_thr = 0x20a30055"
definition hw_ant_sup_open_thr :: u32 where "hw_ant_sup_open_thr = 0x20a30056"
definition hw_rf_lna_mode :: u32 where "hw_rf_lna_mode = 0x20a30057"

text \<open>I2C\<close>

definition i2c_address :: u32 where "i2c_address = 0x20510001"
definition i2c_extendedtimeout :: u32 where "i2c_extendedtimeout = 0x10510002"
definition i2c_enabled :: u32 where "i2c_enabled = 0x10510003"

text \<open>I2CINPROT\<close>

definition i2cinprot_ubx :: u32 where "i2cinprot_ubx = 0x10710001"
definition i2cinprot_nmea :: u32 where "i2cinprot_nmea = 0x10710002"
definition i2cinprot_rtcm3x :: u32 where "i2cinprot_rtcm3x = 0x10710004"
definition i2cinprot_spartn :: u32 where "i2cinprot_spartn = 0x10710005"

text \<open>I2COUTPROT\<close>

definition i2coutprot_ubx :: u32 where "i2coutprot_ubx = 0x10720001"
definition i2coutprot_nmea :: u32 where "i2coutprot_nmea = 0x10720002"
definition i2coutprot_rtcm3x :: u32 where "i2coutprot_rtcm3x = 0x10720004"

text \<open>INFMSG\<close>

definition infmsg_ubx_i2c :: u32 where "infmsg_ubx_i2c = 0x20920001"
definition infmsg_ubx_uart1 :: u32 where "infmsg_ubx_uart1 = 0x20920002"
definition infmsg_ubx_uart2 :: u32 where "infmsg_ubx_uart2 = 0x20920003"
definition infmsg_ubx_usb :: u32 where "infmsg_ubx_usb = 0x20920004"
definition infmsg_ubx_spi :: u32 where "infmsg_ubx_spi = 0x20920005"
definition infmsg_nmea_i2c :: u32 where "infmsg_nmea_i2c = 0x20920006"
definition infmsg_nmea_uart1 :: u32 where "infmsg_nmea_uart1 = 0x20920007"
definition infmsg_nmea_uart2 :: u32 where "infmsg_nmea_uart2 = 0x20920008"
definition infmsg_nmea_usb :: u32 where "infmsg_nmea_usb = 0x20920009"
definition infmsg_nmea_spi :: u32 where "infmsg_nmea_spi = 0x2092000a"

text \<open>ITFM\<close>

definition itfm_bbthreshold :: u32 where "itfm_bbthreshold = 0x20410001"
definition itfm_cwthreshold :: u32 where "itfm_cwthreshold = 0x20410002"
definition itfm_enable :: u32 where "itfm_enable = 0x1041000d"
definition itfm_antsetting :: u32 where "itfm_antsetting = 0x20410010"
definition itfm_enable_aux :: u32 where "itfm_enable_aux = 0x10410013"

text \<open>LOGFILTER\<close>

definition logfilter_record_ena :: u32 where "logfilter_record_ena = 0x10de0002"
definition logfilter_once_per_wake_up_ena :: u32 where "logfilter_once_per_wake_up_ena = 0x10de0003"
definition logfilter_apply_all_filters :: u32 where "logfilter_apply_all_filters = 0x10de0004"
definition logfilter_min_interval :: u32 where "logfilter_min_interval = 0x30de0005"
definition logfilter_time_thrs :: u32 where "logfilter_time_thrs = 0x30de0006"
definition logfilter_speed_thrs :: u32 where "logfilter_speed_thrs = 0x30de0007"
definition logfilter_position_thrs :: u32 where "logfilter_position_thrs = 0x40de0008"

text \<open>MOT\<close>

definition mot_gnssspeed_thrs :: u32 where "mot_gnssspeed_thrs = 0x20250038"
definition mot_gnssdist_thrs :: u32 where "mot_gnssdist_thrs = 0x3025003b"

text \<open>MSGOUT - NMEA\<close>

definition msgout_nmea_id_dtm_i2c :: u32 where "msgout_nmea_id_dtm_i2c = 0x209100a6"
definition msgout_nmea_id_dtm_spi :: u32 where "msgout_nmea_id_dtm_spi = 0x209100aa"
definition msgout_nmea_id_dtm_uart1 :: u32 where "msgout_nmea_id_dtm_uart1 = 0x209100a7"
definition msgout_nmea_id_dtm_uart2 :: u32 where "msgout_nmea_id_dtm_uart2 = 0x209100a8"
definition msgout_nmea_id_dtm_usb :: u32 where "msgout_nmea_id_dtm_usb = 0x209100a9"
definition msgout_nmea_id_gbs_i2c :: u32 where "msgout_nmea_id_gbs_i2c = 0x209100dd"
definition msgout_nmea_id_gbs_spi :: u32 where "msgout_nmea_id_gbs_spi = 0x209100e1"
definition msgout_nmea_id_gbs_uart1 :: u32 where "msgout_nmea_id_gbs_uart1 = 0x209100de"
definition msgout_nmea_id_gbs_uart2 :: u32 where "msgout_nmea_id_gbs_uart2 = 0x209100df"
definition msgout_nmea_id_gbs_usb :: u32 where "msgout_nmea_id_gbs_usb = 0x209100e0"
definition msgout_nmea_id_gga_i2c :: u32 where "msgout_nmea_id_gga_i2c = 0x209100ba"
definition msgout_nmea_id_gga_spi :: u32 where "msgout_nmea_id_gga_spi = 0x209100be"
definition msgout_nmea_id_gga_uart1 :: u32 where "msgout_nmea_id_gga_uart1 = 0x209100bb"
definition msgout_nmea_id_gga_uart2 :: u32 where "msgout_nmea_id_gga_uart2 = 0x209100bc"
definition msgout_nmea_id_gga_usb :: u32 where "msgout_nmea_id_gga_usb = 0x209100bd"
definition msgout_nmea_id_gll_i2c :: u32 where "msgout_nmea_id_gll_i2c = 0x209100c9"
definition msgout_nmea_id_gll_spi :: u32 where "msgout_nmea_id_gll_spi = 0x209100cd"
definition msgout_nmea_id_gll_uart1 :: u32 where "msgout_nmea_id_gll_uart1 = 0x209100ca"
definition msgout_nmea_id_gll_uart2 :: u32 where "msgout_nmea_id_gll_uart2 = 0x209100cb"
definition msgout_nmea_id_gll_usb :: u32 where "msgout_nmea_id_gll_usb = 0x209100cc"
definition msgout_nmea_id_gns_i2c :: u32 where "msgout_nmea_id_gns_i2c = 0x209100b5"
definition msgout_nmea_id_gns_spi :: u32 where "msgout_nmea_id_gns_spi = 0x209100b9"
definition msgout_nmea_id_gns_uart1 :: u32 where "msgout_nmea_id_gns_uart1 = 0x209100b6"
definition msgout_nmea_id_gns_uart2 :: u32 where "msgout_nmea_id_gns_uart2 = 0x209100b7"
definition msgout_nmea_id_gns_usb :: u32 where "msgout_nmea_id_gns_usb = 0x209100b8"
definition msgout_nmea_id_grs_i2c :: u32 where "msgout_nmea_id_grs_i2c = 0x209100ce"
definition msgout_nmea_id_grs_spi :: u32 where "msgout_nmea_id_grs_spi = 0x209100d2"
definition msgout_nmea_id_grs_uart1 :: u32 where "msgout_nmea_id_grs_uart1 = 0x209100cf"
definition msgout_nmea_id_grs_uart2 :: u32 where "msgout_nmea_id_grs_uart2 = 0x209100d0"
definition msgout_nmea_id_grs_usb :: u32 where "msgout_nmea_id_grs_usb = 0x209100d1"
definition msgout_nmea_id_gsa_i2c :: u32 where "msgout_nmea_id_gsa_i2c = 0x209100bf"
definition msgout_nmea_id_gsa_spi :: u32 where "msgout_nmea_id_gsa_spi = 0x209100c3"
definition msgout_nmea_id_gsa_uart1 :: u32 where "msgout_nmea_id_gsa_uart1 = 0x209100c0"
definition msgout_nmea_id_gsa_uart2 :: u32 where "msgout_nmea_id_gsa_uart2 = 0x209100c1"
definition msgout_nmea_id_gsa_usb :: u32 where "msgout_nmea_id_gsa_usb = 0x209100c2"
definition msgout_nmea_id_gst_i2c :: u32 where "msgout_nmea_id_gst_i2c = 0x209100d3"
definition msgout_nmea_id_gst_spi :: u32 where "msgout_nmea_id_gst_spi = 0x209100d7"
definition msgout_nmea_id_gst_uart1 :: u32 where "msgout_nmea_id_gst_uart1 = 0x209100d4"
definition msgout_nmea_id_gst_uart2 :: u32 where "msgout_nmea_id_gst_uart2 = 0x209100d5"
definition msgout_nmea_id_gst_usb :: u32 where "msgout_nmea_id_gst_usb = 0x209100d6"
definition msgout_nmea_id_gsv_i2c :: u32 where "msgout_nmea_id_gsv_i2c = 0x209100c4"
definition msgout_nmea_id_gsv_spi :: u32 where "msgout_nmea_id_gsv_spi = 0x209100c8"
definition msgout_nmea_id_gsv_uart1 :: u32 where "msgout_nmea_id_gsv_uart1 = 0x209100c5"
definition msgout_nmea_id_gsv_uart2 :: u32 where "msgout_nmea_id_gsv_uart2 = 0x209100c6"
definition msgout_nmea_id_gsv_usb :: u32 where "msgout_nmea_id_gsv_usb = 0x209100c7"
definition msgout_nmea_id_rlm_i2c :: u32 where "msgout_nmea_id_rlm_i2c = 0x20910400"
definition msgout_nmea_id_rlm_spi :: u32 where "msgout_nmea_id_rlm_spi = 0x20910404"
definition msgout_nmea_id_rlm_uart1 :: u32 where "msgout_nmea_id_rlm_uart1 = 0x20910401"
definition msgout_nmea_id_rlm_uart2 :: u32 where "msgout_nmea_id_rlm_uart2 = 0x20910402"
definition msgout_nmea_id_rlm_usb :: u32 where "msgout_nmea_id_rlm_usb = 0x20910403"
definition msgout_nmea_id_rmc_i2c :: u32 where "msgout_nmea_id_rmc_i2c = 0x209100ab"
definition msgout_nmea_id_rmc_spi :: u32 where "msgout_nmea_id_rmc_spi = 0x209100af"
definition msgout_nmea_id_rmc_uart1 :: u32 where "msgout_nmea_id_rmc_uart1 = 0x209100ac"
definition msgout_nmea_id_rmc_uart2 :: u32 where "msgout_nmea_id_rmc_uart2 = 0x209100ad"
definition msgout_nmea_id_rmc_usb :: u32 where "msgout_nmea_id_rmc_usb = 0x209100ae"
definition msgout_nmea_id_vlw_i2c :: u32 where "msgout_nmea_id_vlw_i2c = 0x209100e7"
definition msgout_nmea_id_vlw_spi :: u32 where "msgout_nmea_id_vlw_spi = 0x209100eb"
definition msgout_nmea_id_vlw_uart1 :: u32 where "msgout_nmea_id_vlw_uart1 = 0x209100e8"
definition msgout_nmea_id_vlw_uart2 :: u32 where "msgout_nmea_id_vlw_uart2 = 0x209100e9"
definition msgout_nmea_id_vlw_usb :: u32 where "msgout_nmea_id_vlw_usb = 0x209100ea"
definition msgout_nmea_id_vtg_i2c :: u32 where "msgout_nmea_id_vtg_i2c = 0x209100b0"
definition msgout_nmea_id_vtg_spi :: u32 where "msgout_nmea_id_vtg_spi = 0x209100b4"
definition msgout_nmea_id_vtg_uart1 :: u32 where "msgout_nmea_id_vtg_uart1 = 0x209100b1"
definition msgout_nmea_id_vtg_uart2 :: u32 where "msgout_nmea_id_vtg_uart2 = 0x209100b2"
definition msgout_nmea_id_vtg_usb :: u32 where "msgout_nmea_id_vtg_usb = 0x209100b3"
definition msgout_nmea_id_zda_i2c :: u32 where "msgout_nmea_id_zda_i2c = 0x209100d8"
definition msgout_nmea_id_zda_spi :: u32 where "msgout_nmea_id_zda_spi = 0x209100dc"
definition msgout_nmea_id_zda_uart1 :: u32 where "msgout_nmea_id_zda_uart1 = 0x209100d9"
definition msgout_nmea_id_zda_uart2 :: u32 where "msgout_nmea_id_zda_uart2 = 0x209100da"
definition msgout_nmea_id_zda_usb :: u32 where "msgout_nmea_id_zda_usb = 0x209100db"

text \<open>MSGOUT - NMEA NAV2\<close>

definition msgout_nmea_nav2_id_gga_i2c :: u32 where "msgout_nmea_nav2_id_gga_i2c = 0x20910661"
definition msgout_nmea_nav2_id_gga_spi :: u32 where "msgout_nmea_nav2_id_gga_spi = 0x20910665"
definition msgout_nmea_nav2_id_gga_uart1 :: u32 where "msgout_nmea_nav2_id_gga_uart1 = 0x20910662"
definition msgout_nmea_nav2_id_gga_uart2 :: u32 where "msgout_nmea_nav2_id_gga_uart2 = 0x20910663"
definition msgout_nmea_nav2_id_gga_usb :: u32 where "msgout_nmea_nav2_id_gga_usb = 0x20910664"
definition msgout_nmea_nav2_id_gll_i2c :: u32 where "msgout_nmea_nav2_id_gll_i2c = 0x20910670"
definition msgout_nmea_nav2_id_gll_spi :: u32 where "msgout_nmea_nav2_id_gll_spi = 0x20910674"
definition msgout_nmea_nav2_id_gll_uart1 :: u32 where "msgout_nmea_nav2_id_gll_uart1 = 0x20910671"
definition msgout_nmea_nav2_id_gll_uart2 :: u32 where "msgout_nmea_nav2_id_gll_uart2 = 0x20910672"
definition msgout_nmea_nav2_id_gll_usb :: u32 where "msgout_nmea_nav2_id_gll_usb = 0x20910673"
definition msgout_nmea_nav2_id_gns_i2c :: u32 where "msgout_nmea_nav2_id_gns_i2c = 0x2091065c"
definition msgout_nmea_nav2_id_gns_spi :: u32 where "msgout_nmea_nav2_id_gns_spi = 0x20910660"
definition msgout_nmea_nav2_id_gns_uart1 :: u32 where "msgout_nmea_nav2_id_gns_uart1 = 0x2091065d"
definition msgout_nmea_nav2_id_gns_uart2 :: u32 where "msgout_nmea_nav2_id_gns_uart2 = 0x2091065e"
definition msgout_nmea_nav2_id_gns_usb :: u32 where "msgout_nmea_nav2_id_gns_usb = 0x2091065f"
definition msgout_nmea_nav2_id_gsa_i2c :: u32 where "msgout_nmea_nav2_id_gsa_i2c = 0x20910666"
definition msgout_nmea_nav2_id_gsa_spi :: u32 where "msgout_nmea_nav2_id_gsa_spi = 0x2091066a"
definition msgout_nmea_nav2_id_gsa_uart1 :: u32 where "msgout_nmea_nav2_id_gsa_uart1 = 0x20910667"
definition msgout_nmea_nav2_id_gsa_uart2 :: u32 where "msgout_nmea_nav2_id_gsa_uart2 = 0x20910668"
definition msgout_nmea_nav2_id_gsa_usb :: u32 where "msgout_nmea_nav2_id_gsa_usb = 0x20910669"
definition msgout_nmea_nav2_id_rmc_i2c :: u32 where "msgout_nmea_nav2_id_rmc_i2c = 0x20910652"
definition msgout_nmea_nav2_id_rmc_spi :: u32 where "msgout_nmea_nav2_id_rmc_spi = 0x20910656"
definition msgout_nmea_nav2_id_rmc_uart1 :: u32 where "msgout_nmea_nav2_id_rmc_uart1 = 0x20910653"
definition msgout_nmea_nav2_id_rmc_uart2 :: u32 where "msgout_nmea_nav2_id_rmc_uart2 = 0x20910654"
definition msgout_nmea_nav2_id_rmc_usb :: u32 where "msgout_nmea_nav2_id_rmc_usb = 0x20910655"
definition msgout_nmea_nav2_id_vtg_i2c :: u32 where "msgout_nmea_nav2_id_vtg_i2c = 0x20910657"
definition msgout_nmea_nav2_id_vtg_spi :: u32 where "msgout_nmea_nav2_id_vtg_spi = 0x2091065b"
definition msgout_nmea_nav2_id_vtg_uart1 :: u32 where "msgout_nmea_nav2_id_vtg_uart1 = 0x20910658"
definition msgout_nmea_nav2_id_vtg_uart2 :: u32 where "msgout_nmea_nav2_id_vtg_uart2 = 0x20910649"
definition msgout_nmea_nav2_id_vtg_usb :: u32 where "msgout_nmea_nav2_id_vtg_usb = 0x2091065a"
definition msgout_nmea_nav2_id_zda_i2c :: u32 where "msgout_nmea_nav2_id_zda_i2c = 0x2091067f"
definition msgout_nmea_nav2_id_zda_spi :: u32 where "msgout_nmea_nav2_id_zda_spi = 0x20910683"
definition msgout_nmea_nav2_id_zda_uart1 :: u32 where "msgout_nmea_nav2_id_zda_uart1 = 0x20910680"
definition msgout_nmea_nav2_id_zda_uart2 :: u32 where "msgout_nmea_nav2_id_zda_uart2 = 0x20910681"
definition msgout_nmea_nav2_id_zda_usb :: u32 where "msgout_nmea_nav2_id_zda_usb = 0x20910682"

text \<open>MSGOUT - PUBX\<close>

definition msgout_pubx_id_polyp_i2c :: u32 where "msgout_pubx_id_polyp_i2c = 0x209100ec"
definition msgout_pubx_id_polyp_spi :: u32 where "msgout_pubx_id_polyp_spi = 0x209100f0"
definition msgout_pubx_id_polyp_uart1 :: u32 where "msgout_pubx_id_polyp_uart1 = 0x209100ed"
definition msgout_pubx_id_polyp_uart2 :: u32 where "msgout_pubx_id_polyp_uart2 = 0x209100ee"
definition msgout_pubx_id_polyp_usb :: u32 where "msgout_pubx_id_polyp_usb = 0x209100ef"
definition msgout_pubx_id_polys_i2c :: u32 where "msgout_pubx_id_polys_i2c = 0x209100f1"
definition msgout_pubx_id_polys_spi :: u32 where "msgout_pubx_id_polys_spi = 0x209100f5"
definition msgout_pubx_id_polys_uart1 :: u32 where "msgout_pubx_id_polys_uart1 = 0x209100f2"
definition msgout_pubx_id_polys_uart2 :: u32 where "msgout_pubx_id_polys_uart2 = 0x209100f3"
definition msgout_pubx_id_polys_usb :: u32 where "msgout_pubx_id_polys_usb = 0x209100f4"
definition msgout_pubx_id_polyt_i2c :: u32 where "msgout_pubx_id_polyt_i2c = 0x209100f6"
definition msgout_pubx_id_polyt_spi :: u32 where "msgout_pubx_id_polyt_spi = 0x209100fa"
definition msgout_pubx_id_polyt_uart1 :: u32 where "msgout_pubx_id_polyt_uart1 = 0x209100f7"
definition msgout_pubx_id_polyt_uart2 :: u32 where "msgout_pubx_id_polyt_uart2 = 0x209100f8"
definition msgout_pubx_id_polyt_usb :: u32 where "msgout_pubx_id_polyt_usb = 0x209100f9"

text \<open>MSGOUT - RTCM\<close>

definition msgout_rtcm_3x_type1005_i2c :: u32 where "msgout_rtcm_3x_type1005_i2c = 0x209102bd"
definition msgout_rtcm_3x_type1005_spi :: u32 where "msgout_rtcm_3x_type1005_spi = 0x209102c1"
definition msgout_rtcm_3x_type1005_uart1 :: u32 where "msgout_rtcm_3x_type1005_uart1 = 0x209102be"
definition msgout_rtcm_3x_type1005_uart2 :: u32 where "msgout_rtcm_3x_type1005_uart2 = 0x209102bf"
definition msgout_rtcm_3x_type1005_usb :: u32 where "msgout_rtcm_3x_type1005_usb = 0x209102c0"
definition msgout_rtcm_3x_type1074_i2c :: u32 where "msgout_rtcm_3x_type1074_i2c = 0x2091035e"
definition msgout_rtcm_3x_type1074_spi :: u32 where "msgout_rtcm_3x_type1074_spi = 0x20910362"
definition msgout_rtcm_3x_type1074_uart1 :: u32 where "msgout_rtcm_3x_type1074_uart1 = 0x2091035f"
definition msgout_rtcm_3x_type1074_uart2 :: u32 where "msgout_rtcm_3x_type1074_uart2 = 0x20910360"
definition msgout_rtcm_3x_type1074_usb :: u32 where "msgout_rtcm_3x_type1074_usb = 0x20910361"
definition msgout_rtcm_3x_type1077_i2c :: u32 where "msgout_rtcm_3x_type1077_i2c = 0x209102cc"
definition msgout_rtcm_3x_type1077_spi :: u32 where "msgout_rtcm_3x_type1077_spi = 0x209102d0"
definition msgout_rtcm_3x_type1077_uart1 :: u32 where "msgout_rtcm_3x_type1077_uart1 = 0x209102cd"
definition msgout_rtcm_3x_type1077_uart2 :: u32 where "msgout_rtcm_3x_type1077_uart2 = 0x209102ce"
definition msgout_rtcm_3x_type1077_usb :: u32 where "msgout_rtcm_3x_type1077_usb = 0x209102cf"
definition msgout_rtcm_3x_type1084_i2c :: u32 where "msgout_rtcm_3x_type1084_i2c = 0x20910363"
definition msgout_rtcm_3x_type1084_spi :: u32 where "msgout_rtcm_3x_type1084_spi = 0x20910367"
definition msgout_rtcm_3x_type1084_uart1 :: u32 where "msgout_rtcm_3x_type1084_uart1 = 0x20910364"
definition msgout_rtcm_3x_type1084_uart2 :: u32 where "msgout_rtcm_3x_type1084_uart2 = 0x20910365"
definition msgout_rtcm_3x_type1084_usb :: u32 where "msgout_rtcm_3x_type1084_usb = 0x20910366"
definition msgout_rtcm_3x_type1087_i2c :: u32 where "msgout_rtcm_3x_type1087_i2c = 0x209102d1"
definition msgout_rtcm_3x_type1087_spi :: u32 where "msgout_rtcm_3x_type1087_spi = 0x209102d5"
definition msgout_rtcm_3x_type1087_uart1 :: u32 where "msgout_rtcm_3x_type1087_uart1 = 0x209102d2"
definition msgout_rtcm_3x_type1087_uart2 :: u32 where "msgout_rtcm_3x_type1087_uart2 = 0x209102d3"
definition msgout_rtcm_3x_type1087_usb :: u32 where "msgout_rtcm_3x_type1087_usb = 0x209102d4"
definition msgout_rtcm_3x_type1094_i2c :: u32 where "msgout_rtcm_3x_type1094_i2c = 0x20910368"
definition msgout_rtcm_3x_type1094_spi :: u32 where "msgout_rtcm_3x_type1094_spi = 0x2091036c"
definition msgout_rtcm_3x_type1094_uart1 :: u32 where "msgout_rtcm_3x_type1094_uart1 = 0x20910369"
definition msgout_rtcm_3x_type1094_uart2 :: u32 where "msgout_rtcm_3x_type1094_uart2 = 0x2091036a"
definition msgout_rtcm_3x_type1094_usb :: u32 where "msgout_rtcm_3x_type1094_usb = 0x2091036b"
definition msgout_rtcm_3x_type1097_i2c :: u32 where "msgout_rtcm_3x_type1097_i2c = 0x20910318"
definition msgout_rtcm_3x_type1097_spi :: u32 where "msgout_rtcm_3x_type1097_spi = 0x2091031c"
definition msgout_rtcm_3x_type1097_uart1 :: u32 where "msgout_rtcm_3x_type1097_uart1 = 0x20910319"
definition msgout_rtcm_3x_type1097_uart2 :: u32 where "msgout_rtcm_3x_type1097_uart2 = 0x2091031a"
definition msgout_rtcm_3x_type1097_usb :: u32 where "msgout_rtcm_3x_type1097_usb = 0x2091031b"
definition msgout_rtcm_3x_type1124_i2c :: u32 where "msgout_rtcm_3x_type1124_i2c = 0x2091036d"
definition msgout_rtcm_3x_type1124_spi :: u32 where "msgout_rtcm_3x_type1124_spi = 0x20910371"
definition msgout_rtcm_3x_type1124_uart1 :: u32 where "msgout_rtcm_3x_type1124_uart1 = 0x2091036e"
definition msgout_rtcm_3x_type1124_uart2 :: u32 where "msgout_rtcm_3x_type1124_uart2 = 0x2091036f"
definition msgout_rtcm_3x_type1124_usb :: u32 where "msgout_rtcm_3x_type1124_usb = 0x20910370"
definition msgout_rtcm_3x_type1127_i2c :: u32 where "msgout_rtcm_3x_type1127_i2c = 0x209102d6"
definition msgout_rtcm_3x_type1127_spi :: u32 where "msgout_rtcm_3x_type1127_spi = 0x209102da"
definition msgout_rtcm_3x_type1127_uart1 :: u32 where "msgout_rtcm_3x_type1127_uart1 = 0x209102d7"
definition msgout_rtcm_3x_type1127_uart2 :: u32 where "msgout_rtcm_3x_type1127_uart2 = 0x209102d8"
definition msgout_rtcm_3x_type1127_usb :: u32 where "msgout_rtcm_3x_type1127_usb = 0x209102d9"
definition msgout_rtcm_3x_type1230_i2c :: u32 where "msgout_rtcm_3x_type1230_i2c = 0x20910303"
definition msgout_rtcm_3x_type1230_spi :: u32 where "msgout_rtcm_3x_type1230_spi = 0x20910307"
definition msgout_rtcm_3x_type1230_uart1 :: u32 where "msgout_rtcm_3x_type1230_uart1 = 0x20910304"
definition msgout_rtcm_3x_type1230_uart2 :: u32 where "msgout_rtcm_3x_type1230_uart2 = 0x20910305"
definition msgout_rtcm_3x_type1230_usb :: u32 where "msgout_rtcm_3x_type1230_usb = 0x20910306"
definition msgout_rtcm_3x_type4072_0_i2c :: u32 where "msgout_rtcm_3x_type4072_0_i2c = 0x209102fe"
definition msgout_rtcm_3x_type4072_0_spi :: u32 where "msgout_rtcm_3x_type4072_0_spi = 0x20910302"
definition msgout_rtcm_3x_type4072_0_uart1 :: u32 where "msgout_rtcm_3x_type4072_0_uart1 = 0x209102ff"
definition msgout_rtcm_3x_type4072_0_uart2 :: u32 where "msgout_rtcm_3x_type4072_0_uart2 = 0x20910300"

text \<open>MSGOUT - UBX ESF\<close>

definition msgout_ubx_esf_alg_i2c :: u32 where "msgout_ubx_esf_alg_i2c = 0x2091010f"
definition msgout_ubx_esf_alg_spi :: u32 where "msgout_ubx_esf_alg_spi = 0x20910113"
definition msgout_ubx_esf_alg_uart1 :: u32 where "msgout_ubx_esf_alg_uart1 = 0x20910110"
definition msgout_ubx_esf_alg_uart2 :: u32 where "msgout_ubx_esf_alg_uart2 = 0x20910111"
definition msgout_ubx_esf_alg_usb :: u32 where "msgout_ubx_esf_alg_usb = 0x20910112"
definition msgout_ubx_esf_ins_i2c :: u32 where "msgout_ubx_esf_ins_i2c = 0x20910114"
definition msgout_ubx_esf_ins_spi :: u32 where "msgout_ubx_esf_ins_spi = 0x20910118"
definition msgout_ubx_esf_ins_uart1 :: u32 where "msgout_ubx_esf_ins_uart1 = 0x20910115"
definition msgout_ubx_esf_ins_uart2 :: u32 where "msgout_ubx_esf_ins_uart2 = 0x20910116"
definition msgout_ubx_esf_ins_usb :: u32 where "msgout_ubx_esf_ins_usb = 0x20910117"
definition msgout_ubx_esf_meas_i2c :: u32 where "msgout_ubx_esf_meas_i2c = 0x20910277"
definition msgout_ubx_esf_meas_spi :: u32 where "msgout_ubx_esf_meas_spi = 0x2091027b"
definition msgout_ubx_esf_meas_uart1 :: u32 where "msgout_ubx_esf_meas_uart1 = 0x20910278"
definition msgout_ubx_esf_meas_uart2 :: u32 where "msgout_ubx_esf_meas_uart2 = 0x20910279"
definition msgout_ubx_esf_meas_usb :: u32 where "msgout_ubx_esf_meas_usb = 0x2091027a"
definition msgout_ubx_esf_raw_i2c :: u32 where "msgout_ubx_esf_raw_i2c = 0x2091029f"
definition msgout_ubx_esf_raw_spi :: u32 where "msgout_ubx_esf_raw_spi = 0x209102a3"
definition msgout_ubx_esf_raw_uart1 :: u32 where "msgout_ubx_esf_raw_uart1 = 0x209102a0"
definition msgout_ubx_esf_raw_uart2 :: u32 where "msgout_ubx_esf_raw_uart2 = 0x209102a1"
definition msgout_ubx_esf_raw_usb :: u32 where "msgout_ubx_esf_raw_usb = 0x209102a2"
definition msgout_ubx_esf_status_i2c :: u32 where "msgout_ubx_esf_status_i2c = 0x20910105"
definition msgout_ubx_esf_status_spi :: u32 where "msgout_ubx_esf_status_spi = 0x20910109"
definition msgout_ubx_esf_status_uart1 :: u32 where "msgout_ubx_esf_status_uart1 = 0x20910106"
definition msgout_ubx_esf_status_uart2 :: u32 where "msgout_ubx_esf_status_uart2 = 0x20910107"
definition msgout_ubx_esf_status_usb :: u32 where "msgout_ubx_esf_status_usb = 0x20910108"

text \<open>MSGOUT - UBX LOG\<close>

definition msgout_ubx_log_info_i2c :: u32 where "msgout_ubx_log_info_i2c = 0x20910259"
definition msgout_ubx_log_info_spi :: u32 where "msgout_ubx_log_info_spi = 0x2091025d"
definition msgout_ubx_log_info_uart1 :: u32 where "msgout_ubx_log_info_uart1 = 0x2091025a"
definition msgout_ubx_log_info_uart2 :: u32 where "msgout_ubx_log_info_uart2 = 0x2091025b"
definition msgout_ubx_log_info_usb :: u32 where "msgout_ubx_log_info_usb = 0x2091025c"

text \<open>MSGOUT - UBX MON\<close>

definition msgout_ubx_mon_comms_i2c :: u32 where "msgout_ubx_mon_comms_i2c = 0x2091034f"
definition msgout_ubx_mon_comms_spi :: u32 where "msgout_ubx_mon_comms_spi = 0x20910353"
definition msgout_ubx_mon_comms_uart1 :: u32 where "msgout_ubx_mon_comms_uart1 = 0x20910350"
definition msgout_ubx_mon_comms_uart2 :: u32 where "msgout_ubx_mon_comms_uart2 = 0x20910351"
definition msgout_ubx_mon_comms_usb :: u32 where "msgout_ubx_mon_comms_usb = 0x20910352"
definition msgout_ubx_mon_hw2_i2c :: u32 where "msgout_ubx_mon_hw2_i2c = 0x209101b9"
definition msgout_ubx_mon_hw2_spi :: u32 where "msgout_ubx_mon_hw2_spi = 0x209101bd"
definition msgout_ubx_mon_hw2_uart1 :: u32 where "msgout_ubx_mon_hw2_uart1 = 0x209101ba"
definition msgout_ubx_mon_hw2_uart2 :: u32 where "msgout_ubx_mon_hw2_uart2 = 0x209101bb"
definition msgout_ubx_mon_hw2_usb :: u32 where "msgout_ubx_mon_hw2_usb = 0x209101bc"
definition msgout_ubx_mon_hw3_i2c :: u32 where "msgout_ubx_mon_hw3_i2c = 0x20910354"
definition msgout_ubx_mon_hw3_spi :: u32 where "msgout_ubx_mon_hw3_spi = 0x20910358"
definition msgout_ubx_mon_hw3_uart1 :: u32 where "msgout_ubx_mon_hw3_uart1 = 0x20910355"
definition msgout_ubx_mon_hw3_uart2 :: u32 where "msgout_ubx_mon_hw3_uart2 = 0x20910356"
definition msgout_ubx_mon_hw3_usb :: u32 where "msgout_ubx_mon_hw3_usb = 0x20910357"
definition msgout_ubx_mon_hw_i2c :: u32 where "msgout_ubx_mon_hw_i2c = 0x209101b4"
definition msgout_ubx_mon_hw_spi :: u32 where "msgout_ubx_mon_hw_spi = 0x209101b8"
definition msgout_ubx_mon_hw_uart1 :: u32 where "msgout_ubx_mon_hw_uart1 = 0x209101b5"
definition msgout_ubx_mon_hw_uart2 :: u32 where "msgout_ubx_mon_hw_uart2 = 0x209101b6"
definition msgout_ubx_mon_hw_usb :: u32 where "msgout_ubx_mon_hw_usb = 0x209101b7"
definition msgout_ubx_mon_io_i2c :: u32 where "msgout_ubx_mon_io_i2c = 0x209101a5"
definition msgout_ubx_mon_io_spi :: u32 where "msgout_ubx_mon_io_spi = 0x209101a9"
definition msgout_ubx_mon_io_uart1 :: u32 where "msgout_ubx_mon_io_uart1 = 0x209101a6"
definition msgout_ubx_mon_io_uart2 :: u32 where "msgout_ubx_mon_io_uart2 = 0x209101a7"
definition msgout_ubx_mon_io_usb :: u32 where "msgout_ubx_mon_io_usb = 0x209101a8"
definition msgout_ubx_mon_msgpp_i2c :: u32 where "msgout_ubx_mon_msgpp_i2c = 0x20910196"
definition msgout_ubx_mon_msgpp_spi :: u32 where "msgout_ubx_mon_msgpp_spi = 0x2091019a"
definition msgout_ubx_mon_msgpp_uart1 :: u32 where "msgout_ubx_mon_msgpp_uart1 = 0x20910197"
definition msgout_ubx_mon_msgpp_uart2 :: u32 where "msgout_ubx_mon_msgpp_uart2 = 0x20910198"
definition msgout_ubx_mon_msgpp_usb :: u32 where "msgout_ubx_mon_msgpp_usb = 0x20910199"
definition msgout_ubx_mon_rf_i2c :: u32 where "msgout_ubx_mon_rf_i2c = 0x20910359"
definition msgout_ubx_mon_rf_spi :: u32 where "msgout_ubx_mon_rf_spi = 0x2091035d"
definition msgout_ubx_mon_rf_uart1 :: u32 where "msgout_ubx_mon_rf_uart1 = 0x2091035a"
definition msgout_ubx_mon_rf_uart2 :: u32 where "msgout_ubx_mon_rf_uart2 = 0x2091035b"
definition msgout_ubx_mon_rf_usb :: u32 where "msgout_ubx_mon_rf_usb = 0x2091035c"
definition msgout_ubx_mon_rxbuf_i2c :: u32 where "msgout_ubx_mon_rxbuf_i2c = 0x209101a0"
definition msgout_ubx_mon_rxbuf_spi :: u32 where "msgout_ubx_mon_rxbuf_spi = 0x209101a4"
definition msgout_ubx_mon_rxbuf_uart1 :: u32 where "msgout_ubx_mon_rxbuf_uart1 = 0x209101a1"
definition msgout_ubx_mon_rxbuf_uart2 :: u32 where "msgout_ubx_mon_rxbuf_uart2 = 0x209101a2"
definition msgout_ubx_mon_rxbuf_usb :: u32 where "msgout_ubx_mon_rxbuf_usb = 0x209101a3"
definition msgout_ubx_mon_rxr_i2c :: u32 where "msgout_ubx_mon_rxr_i2c = 0x20910187"
definition msgout_ubx_mon_rxr_spi :: u32 where "msgout_ubx_mon_rxr_spi = 0x2091018b"
definition msgout_ubx_mon_rxr_uart1 :: u32 where "msgout_ubx_mon_rxr_uart1 = 0x20910188"
definition msgout_ubx_mon_rxr_uart2 :: u32 where "msgout_ubx_mon_rxr_uart2 = 0x20910189"
definition msgout_ubx_mon_rxr_usb :: u32 where "msgout_ubx_mon_rxr_usb = 0x2091018a"
definition msgout_ubx_mon_span_i2c :: u32 where "msgout_ubx_mon_span_i2c = 0x2091038b"
definition msgout_ubx_mon_span_spi :: u32 where "msgout_ubx_mon_span_spi = 0x2091038f"
definition msgout_ubx_mon_span_uart1 :: u32 where "msgout_ubx_mon_span_uart1 = 0x2091038c"
definition msgout_ubx_mon_span_uart2 :: u32 where "msgout_ubx_mon_span_uart2 = 0x2091038d"
definition msgout_ubx_mon_span_usb :: u32 where "msgout_ubx_mon_span_usb = 0x2091038e"
definition msgout_ubx_mon_sys_i2c :: u32 where "msgout_ubx_mon_sys_i2c = 0x2091069d"
definition msgout_ubx_mon_sys_spi :: u32 where "msgout_ubx_mon_sys_spi = 0x209106a1"
definition msgout_ubx_mon_sys_uart1 :: u32 where "msgout_ubx_mon_sys_uart1 = 0x2091069e"
definition msgout_ubx_mon_sys_uart2 :: u32 where "msgout_ubx_mon_sys_uart2 = 0x2091069f"
definition msgout_ubx_mon_sys_usb :: u32 where "msgout_ubx_mon_sys_usb = 0x209106a0"
definition msgout_ubx_mon_txbuf_i2c :: u32 where "msgout_ubx_mon_txbuf_i2c = 0x2091019b"
definition msgout_ubx_mon_txbuf_spi :: u32 where "msgout_ubx_mon_txbuf_spi = 0x2091019f"
definition msgout_ubx_mon_txbuf_uart1 :: u32 where "msgout_ubx_mon_txbuf_uart1 = 0x2091019c"
definition msgout_ubx_mon_txbuf_uart2 :: u32 where "msgout_ubx_mon_txbuf_uart2 = 0x2091019d"
definition msgout_ubx_mon_txbuf_usb :: u32 where "msgout_ubx_mon_txbuf_usb = 0x2091019e"

text \<open>MSGOUT - UBX NAV2\<close>

definition msgout_ubx_nav2_clock_i2c :: u32 where "msgout_ubx_nav2_clock_i2c = 0x20910430"
definition msgout_ubx_nav2_clock_spi :: u32 where "msgout_ubx_nav2_clock_spi = 0x20910434"
definition msgout_ubx_nav2_clock_uart1 :: u32 where "msgout_ubx_nav2_clock_uart1 = 0x20910431"
definition msgout_ubx_nav2_clock_uart2 :: u32 where "msgout_ubx_nav2_clock_uart2 = 0x20910432"
definition msgout_ubx_nav2_clock_usb :: u32 where "msgout_ubx_nav2_clock_usb = 0x20910433"
definition msgout_ubx_nav2_cov_i2c :: u32 where "msgout_ubx_nav2_cov_i2c = 0x20910435"
definition msgout_ubx_nav2_cov_spi :: u32 where "msgout_ubx_nav2_cov_spi = 0x20910439"
definition msgout_ubx_nav2_cov_uart1 :: u32 where "msgout_ubx_nav2_cov_uart1 = 0x20910436"
definition msgout_ubx_nav2_cov_uart2 :: u32 where "msgout_ubx_nav2_cov_uart2 = 0x20910437"
definition msgout_ubx_nav2_cov_usb :: u32 where "msgout_ubx_nav2_cov_usb = 0x20910438"
definition msgout_ubx_nav2_dop_i2c :: u32 where "msgout_ubx_nav2_dop_i2c = 0x20910465"
definition msgout_ubx_nav2_dop_spi :: u32 where "msgout_ubx_nav2_dop_spi = 0x20910469"
definition msgout_ubx_nav2_dop_uart1 :: u32 where "msgout_ubx_nav2_dop_uart1 = 0x20910466"
definition msgout_ubx_nav2_dop_uart2 :: u32 where "msgout_ubx_nav2_dop_uart2 = 0x20910467"
definition msgout_ubx_nav2_dop_usb :: u32 where "msgout_ubx_nav2_dop_usb = 0x20910468"
definition msgout_ubx_nav2_eoe_i2c :: u32 where "msgout_ubx_nav2_eoe_i2c = 0x20910565"
definition msgout_ubx_nav2_eoe_spi :: u32 where "msgout_ubx_nav2_eoe_spi = 0x20910569"
definition msgout_ubx_nav2_eoe_uart1 :: u32 where "msgout_ubx_nav2_eoe_uart1 = 0x20910566"
definition msgout_ubx_nav2_eoe_uart2 :: u32 where "msgout_ubx_nav2_eoe_uart2 = 0x20910567"
definition msgout_ubx_nav2_eoe_usb :: u32 where "msgout_ubx_nav2_eoe_usb = 0x20910568"
definition msgout_ubx_nav2_odo_i2c :: u32 where "msgout_ubx_nav2_odo_i2c = 0x20910475"
definition msgout_ubx_nav2_odo_spi :: u32 where "msgout_ubx_nav2_odo_spi = 0x20910479"
definition msgout_ubx_nav2_odo_uart1 :: u32 where "msgout_ubx_nav2_odo_uart1 = 0x20910476"
definition msgout_ubx_nav2_odo_uart2 :: u32 where "msgout_ubx_nav2_odo_uart2 = 0x20910477"
definition msgout_ubx_nav2_odo_usb :: u32 where "msgout_ubx_nav2_odo_usb = 0x20910478"
definition msgout_ubx_nav2_posecef_i2c :: u32 where "msgout_ubx_nav2_posecef_i2c = 0x20910480"
definition msgout_ubx_nav2_posecef_spi :: u32 where "msgout_ubx_nav2_posecef_spi = 0x20910484"
definition msgout_ubx_nav2_posecef_uart1 :: u32 where "msgout_ubx_nav2_posecef_uart1 = 0x20910481"
definition msgout_ubx_nav2_posecef_uart2 :: u32 where "msgout_ubx_nav2_posecef_uart2 = 0x20910482"
definition msgout_ubx_nav2_posecef_usb :: u32 where "msgout_ubx_nav2_posecef_usb = 0x20910483"
definition msgout_ubx_nav2_posllh_i2c :: u32 where "msgout_ubx_nav2_posllh_i2c = 0x20910485"
definition msgout_ubx_nav2_posllh_spi :: u32 where "msgout_ubx_nav2_posllh_spi = 0x20910489"
definition msgout_ubx_nav2_posllh_uart1 :: u32 where "msgout_ubx_nav2_posllh_uart1 = 0x20910486"
definition msgout_ubx_nav2_posllh_uart2 :: u32 where "msgout_ubx_nav2_posllh_uart2 = 0x20910487"
definition msgout_ubx_nav2_posllh_usb :: u32 where "msgout_ubx_nav2_posllh_usb = 0x20910488"
definition msgout_ubx_nav2_pvt_i2c :: u32 where "msgout_ubx_nav2_pvt_i2c = 0x20910490"
definition msgout_ubx_nav2_pvt_spi :: u32 where "msgout_ubx_nav2_pvt_spi = 0x20910494"
definition msgout_ubx_nav2_pvt_uart1 :: u32 where "msgout_ubx_nav2_pvt_uart1 = 0x20910491"
definition msgout_ubx_nav2_pvt_uart2 :: u32 where "msgout_ubx_nav2_pvt_uart2 = 0x20910492"
definition msgout_ubx_nav2_pvt_usb :: u32 where "msgout_ubx_nav2_pvt_usb = 0x20910493"
definition msgout_ubx_nav2_sat_i2c :: u32 where "msgout_ubx_nav2_sat_i2c = 0x20910495"
definition msgout_ubx_nav2_sat_spi :: u32 where "msgout_ubx_nav2_sat_spi = 0x20910499"
definition msgout_ubx_nav2_sat_uart1 :: u32 where "msgout_ubx_nav2_sat_uart1 = 0x20910496"
definition msgout_ubx_nav2_sat_uart2 :: u32 where "msgout_ubx_nav2_sat_uart2 = 0x20910497"
definition msgout_ubx_nav2_sat_usb :: u32 where "msgout_ubx_nav2_sat_usb = 0x20910498"
definition msgout_ubx_nav2_sbas_i2c :: u32 where "msgout_ubx_nav2_sbas_i2c = 0x20910500"
definition msgout_ubx_nav2_sbas_spi :: u32 where "msgout_ubx_nav2_sbas_spi = 0x20910504"
definition msgout_ubx_nav2_sbas_uart1 :: u32 where "msgout_ubx_nav2_sbas_uart1 = 0x20910501"
definition msgout_ubx_nav2_sbas_uart2 :: u32 where "msgout_ubx_nav2_sbas_uart2 = 0x20910502"
definition msgout_ubx_nav2_sbas_usb :: u32 where "msgout_ubx_nav2_sbas_usb = 0x20910503"
definition msgout_ubx_nav2_sig_i2c :: u32 where "msgout_ubx_nav2_sig_i2c = 0x20910505"
definition msgout_ubx_nav2_sig_spi :: u32 where "msgout_ubx_nav2_sig_spi = 0x20910509"
definition msgout_ubx_nav2_sig_uart1 :: u32 where "msgout_ubx_nav2_sig_uart1 = 0x20910506"
definition msgout_ubx_nav2_sig_uart2 :: u32 where "msgout_ubx_nav2_sig_uart2 = 0x20910507"
definition msgout_ubx_nav2_sig_usb :: u32 where "msgout_ubx_nav2_sig_usb = 0x20910508"
definition msgout_ubx_nav2_slas_i2c :: u32 where "msgout_ubx_nav2_slas_i2c = 0x20910510"
definition msgout_ubx_nav2_slas_spi :: u32 where "msgout_ubx_nav2_slas_spi = 0x20910514"
definition msgout_ubx_nav2_slas_uart1 :: u32 where "msgout_ubx_nav2_slas_uart1 = 0x20910511"
definition msgout_ubx_nav2_slas_uart2 :: u32 where "msgout_ubx_nav2_slas_uart2 = 0x20910512"
definition msgout_ubx_nav2_slas_usb :: u32 where "msgout_ubx_nav2_slas_usb = 0x20910513"
definition msgout_ubx_nav2_status_i2c :: u32 where "msgout_ubx_nav2_status_i2c = 0x20910515"
definition msgout_ubx_nav2_status_spi :: u32 where "msgout_ubx_nav2_status_spi = 0x20910519"
definition msgout_ubx_nav2_status_uart1 :: u32 where "msgout_ubx_nav2_status_uart1 = 0x20910516"
definition msgout_ubx_nav2_status_uart2 :: u32 where "msgout_ubx_nav2_status_uart2 = 0x20910517"
definition msgout_ubx_nav2_status_usb :: u32 where "msgout_ubx_nav2_status_usb = 0x20910518"
definition msgout_ubx_nav2_svin_i2c :: u32 where "msgout_ubx_nav2_svin_i2c = 0x20910520"
definition msgout_ubx_nav2_svin_spi :: u32 where "msgout_ubx_nav2_svin_spi = 0x20910524"
definition msgout_ubx_nav2_svin_uart1 :: u32 where "msgout_ubx_nav2_svin_uart1 = 0x20910521"
definition msgout_ubx_nav2_svin_uart2 :: u32 where "msgout_ubx_nav2_svin_uart2 = 0x20910522"
definition msgout_ubx_nav2_svin_usb :: u32 where "msgout_ubx_nav2_svin_usb = 0x20910523"
definition msgout_ubx_nav2_timebds_i2c :: u32 where "msgout_ubx_nav2_timebds_i2c = 0x20910525"
definition msgout_ubx_nav2_timebds_spi :: u32 where "msgout_ubx_nav2_timebds_spi = 0x20910529"
definition msgout_ubx_nav2_timebds_uart1 :: u32 where "msgout_ubx_nav2_timebds_uart1 = 0x20910526"
definition msgout_ubx_nav2_timebds_uart2 :: u32 where "msgout_ubx_nav2_timebds_uart2 = 0x20910527"
definition msgout_ubx_nav2_timebds_usb :: u32 where "msgout_ubx_nav2_timebds_usb = 0x20910528"
definition msgout_ubx_nav2_timegal_i2c :: u32 where "msgout_ubx_nav2_timegal_i2c = 0x20910530"
definition msgout_ubx_nav2_timegal_spi :: u32 where "msgout_ubx_nav2_timegal_spi = 0x20910534"
definition msgout_ubx_nav2_timegal_uart1 :: u32 where "msgout_ubx_nav2_timegal_uart1 = 0x20910531"
definition msgout_ubx_nav2_timegal_uart2 :: u32 where "msgout_ubx_nav2_timegal_uart2 = 0x20910532"
definition msgout_ubx_nav2_timegal_usb :: u32 where "msgout_ubx_nav2_timegal_usb = 0x20910533"
definition msgout_ubx_nav2_timeglo_i2c :: u32 where "msgout_ubx_nav2_timeglo_i2c = 0x20910535"
definition msgout_ubx_nav2_timeglo_spi :: u32 where "msgout_ubx_nav2_timeglo_spi = 0x20910539"
definition msgout_ubx_nav2_timeglo_uart1 :: u32 where "msgout_ubx_nav2_timeglo_uart1 = 0x20910536"
definition msgout_ubx_nav2_timeglo_uart2 :: u32 where "msgout_ubx_nav2_timeglo_uart2 = 0x20910537"
definition msgout_ubx_nav2_timeglo_usb :: u32 where "msgout_ubx_nav2_timeglo_usb = 0x20910538"
definition msgout_ubx_nav2_timegps_i2c :: u32 where "msgout_ubx_nav2_timegps_i2c = 0x20910540"
definition msgout_ubx_nav2_timegps_spi :: u32 where "msgout_ubx_nav2_timegps_spi = 0x20910544"
definition msgout_ubx_nav2_timegps_uart1 :: u32 where "msgout_ubx_nav2_timegps_uart1 = 0x20910541"
definition msgout_ubx_nav2_timegps_uart2 :: u32 where "msgout_ubx_nav2_timegps_uart2 = 0x20910542"
definition msgout_ubx_nav2_timegps_usb :: u32 where "msgout_ubx_nav2_timegps_usb = 0x20910543"
definition msgout_ubx_nav2_timels_i2c :: u32 where "msgout_ubx_nav2_timels_i2c = 0x20910545"
definition msgout_ubx_nav2_timels_spi :: u32 where "msgout_ubx_nav2_timels_spi = 0x20910549"
definition msgout_ubx_nav2_timels_uart1 :: u32 where "msgout_ubx_nav2_timels_uart1 = 0x20910546"
definition msgout_ubx_nav2_timels_uart2 :: u32 where "msgout_ubx_nav2_timels_uart2 = 0x20910547"
definition msgout_ubx_nav2_timels_usb :: u32 where "msgout_ubx_nav2_timels_usb = 0x20910548"
definition msgout_ubx_nav2_timeqzss_i2c :: u32 where "msgout_ubx_nav2_timeqzss_i2c = 0x20910575"
definition msgout_ubx_nav2_timeqzss_spi :: u32 where "msgout_ubx_nav2_timeqzss_spi = 0x20910579"
definition msgout_ubx_nav2_timeqzss_uart1 :: u32 where "msgout_ubx_nav2_timeqzss_uart1 = 0x20910576"
definition msgout_ubx_nav2_timeqzss_uart2 :: u32 where "msgout_ubx_nav2_timeqzss_uart2 = 0x20910577"
definition msgout_ubx_nav2_timeqzss_usb :: u32 where "msgout_ubx_nav2_timeqzss_usb = 0x20910578"
definition msgout_ubx_nav2_timeutc_i2c :: u32 where "msgout_ubx_nav2_timeutc_i2c = 0x20910550"
definition msgout_ubx_nav2_timeutc_spi :: u32 where "msgout_ubx_nav2_timeutc_spi = 0x20910554"
definition msgout_ubx_nav2_timeutc_uart1 :: u32 where "msgout_ubx_nav2_timeutc_uart1 = 0x20910551"
definition msgout_ubx_nav2_timeutc_uart2 :: u32 where "msgout_ubx_nav2_timeutc_uart2 = 0x20910552"
definition msgout_ubx_nav2_timeutc_usb :: u32 where "msgout_ubx_nav2_timeutc_usb = 0x20910553"
definition msgout_ubx_nav2_velecef_i2c :: u32 where "msgout_ubx_nav2_velecef_i2c = 0x20910555"
definition msgout_ubx_nav2_velecef_spi :: u32 where "msgout_ubx_nav2_velecef_spi = 0x20910559"
definition msgout_ubx_nav2_velecef_uart1 :: u32 where "msgout_ubx_nav2_velecef_uart1 = 0x20910556"
definition msgout_ubx_nav2_velecef_uart2 :: u32 where "msgout_ubx_nav2_velecef_uart2 = 0x20910557"
definition msgout_ubx_nav2_velecef_usb :: u32 where "msgout_ubx_nav2_velecef_usb = 0x20910558"
definition msgout_ubx_nav2_velned_i2c :: u32 where "msgout_ubx_nav2_velned_i2c = 0x20910560"
definition msgout_ubx_nav2_velned_spi :: u32 where "msgout_ubx_nav2_velned_spi = 0x20910564"
definition msgout_ubx_nav2_velned_uart1 :: u32 where "msgout_ubx_nav2_velned_uart1 = 0x20910561"
definition msgout_ubx_nav2_velned_uart2 :: u32 where "msgout_ubx_nav2_velned_uart2 = 0x20910562"
definition msgout_ubx_nav2_velned_usb :: u32 where "msgout_ubx_nav2_velned_usb = 0x20910563"

text \<open>MSGOUT - UBX NAV\<close>

definition msgout_ubx_nav_att_i2c :: u32 where "msgout_ubx_nav_att_i2c = 0x2091001f"
definition msgout_ubx_nav_att_spi :: u32 where "msgout_ubx_nav_att_spi = 0x20910023"
definition msgout_ubx_nav_att_uart1 :: u32 where "msgout_ubx_nav_att_uart1 = 0x20910020"
definition msgout_ubx_nav_att_uart2 :: u32 where "msgout_ubx_nav_att_uart2 = 0x20910021"
definition msgout_ubx_nav_att_usb :: u32 where "msgout_ubx_nav_att_usb = 0x20910022"
definition msgout_ubx_nav_aopstatus_i2c :: u32 where "msgout_ubx_nav_aopstatus_i2c = 0x20910079"
definition msgout_ubx_nav_aopstatus_spi :: u32 where "msgout_ubx_nav_aopstatus_spi = 0x2091007d"
definition msgout_ubx_nav_aopstatus_uart1 :: u32 where "msgout_ubx_nav_aopstatus_uart1 = 0x2091007a"
definition msgout_ubx_nav_aopstatus_uart2 :: u32 where "msgout_ubx_nav_aopstatus_uart2 = 0x2091007b"
definition msgout_ubx_nav_aopstatus_usb :: u32 where "msgout_ubx_nav_aopstatus_usb = 0x2091007c"
definition msgout_ubx_nav_clock_i2c :: u32 where "msgout_ubx_nav_clock_i2c = 0x20910065"
definition msgout_ubx_nav_clock_spi :: u32 where "msgout_ubx_nav_clock_spi = 0x20910069"
definition msgout_ubx_nav_clock_uart1 :: u32 where "msgout_ubx_nav_clock_uart1 = 0x20910066"
definition msgout_ubx_nav_clock_uart2 :: u32 where "msgout_ubx_nav_clock_uart2 = 0x20910067"
definition msgout_ubx_nav_clock_usb :: u32 where "msgout_ubx_nav_clock_usb = 0x20910068"
definition msgout_ubx_nav_cov_i2c :: u32 where "msgout_ubx_nav_cov_i2c = 0x20910083"
definition msgout_ubx_nav_cov_spi :: u32 where "msgout_ubx_nav_cov_spi = 0x20910087"
definition msgout_ubx_nav_cov_uart1 :: u32 where "msgout_ubx_nav_cov_uart1 = 0x20910084"
definition msgout_ubx_nav_cov_uart2 :: u32 where "msgout_ubx_nav_cov_uart2 = 0x20910085"
definition msgout_ubx_nav_cov_usb :: u32 where "msgout_ubx_nav_cov_usb = 0x20910086"
definition msgout_ubx_nav_dop_i2c :: u32 where "msgout_ubx_nav_dop_i2c = 0x20910038"
definition msgout_ubx_nav_dop_spi :: u32 where "msgout_ubx_nav_dop_spi = 0x2091003c"
definition msgout_ubx_nav_dop_uart1 :: u32 where "msgout_ubx_nav_dop_uart1 = 0x20910039"
definition msgout_ubx_nav_dop_uart2 :: u32 where "msgout_ubx_nav_dop_uart2 = 0x2091003a"
definition msgout_ubx_nav_dop_usb :: u32 where "msgout_ubx_nav_dop_usb = 0x2091003b"
definition msgout_ubx_nav_eell_i2c :: u32 where "msgout_ubx_nav_eell_i2c = 0x20910313"
definition msgout_ubx_nav_eell_spi :: u32 where "msgout_ubx_nav_eell_spi = 0x20910317"
definition msgout_ubx_nav_eell_uart1 :: u32 where "msgout_ubx_nav_eell_uart1 = 0x20910314"
definition msgout_ubx_nav_eell_uart2 :: u32 where "msgout_ubx_nav_eell_uart2 = 0x20910315"
definition msgout_ubx_nav_eell_usb :: u32 where "msgout_ubx_nav_eell_usb = 0x20910316"
definition msgout_ubx_nav_eoe_i2c :: u32 where "msgout_ubx_nav_eoe_i2c = 0x2091015f"
definition msgout_ubx_nav_eoe_spi :: u32 where "msgout_ubx_nav_eoe_spi = 0x20910163"
definition msgout_ubx_nav_eoe_uart1 :: u32 where "msgout_ubx_nav_eoe_uart1 = 0x20910160"
definition msgout_ubx_nav_eoe_uart2 :: u32 where "msgout_ubx_nav_eoe_uart2 = 0x20910161"
definition msgout_ubx_nav_eoe_usb :: u32 where "msgout_ubx_nav_eoe_usb = 0x20910162"
definition msgout_ubx_nav_geofence_i2c :: u32 where "msgout_ubx_nav_geofence_i2c = 0x209100a1"
definition msgout_ubx_nav_geofence_spi :: u32 where "msgout_ubx_nav_geofence_spi = 0x209100a5"
definition msgout_ubx_nav_geofence_uart1 :: u32 where "msgout_ubx_nav_geofence_uart1 = 0x209100a2"
definition msgout_ubx_nav_geofence_uart2 :: u32 where "msgout_ubx_nav_geofence_uart2 = 0x209100a3"
definition msgout_ubx_nav_geofence_usb :: u32 where "msgout_ubx_nav_geofence_usb = 0x209100a4"
definition msgout_ubx_nav_hpposecef_i2c :: u32 where "msgout_ubx_nav_hpposecef_i2c = 0x2091002e"
definition msgout_ubx_nav_hpposecef_spi :: u32 where "msgout_ubx_nav_hpposecef_spi = 0x20910032"
definition msgout_ubx_nav_hpposecef_uart1 :: u32 where "msgout_ubx_nav_hpposecef_uart1 = 0x2091002f"
definition msgout_ubx_nav_hpposecef_uart2 :: u32 where "msgout_ubx_nav_hpposecef_uart2 = 0x20910030"
definition msgout_ubx_nav_hpposecef_usb :: u32 where "msgout_ubx_nav_hpposecef_usb = 0x20910031"
definition msgout_ubx_nav_hpposllh_i2c :: u32 where "msgout_ubx_nav_hpposllh_i2c = 0x20910033"
definition msgout_ubx_nav_hpposllh_spi :: u32 where "msgout_ubx_nav_hpposllh_spi = 0x20910037"
definition msgout_ubx_nav_hpposllh_uart1 :: u32 where "msgout_ubx_nav_hpposllh_uart1 = 0x20910034"
definition msgout_ubx_nav_hpposllh_uart2 :: u32 where "msgout_ubx_nav_hpposllh_uart2 = 0x20910035"
definition msgout_ubx_nav_hpposllh_usb :: u32 where "msgout_ubx_nav_hpposllh_usb = 0x20910036"
definition msgout_ubx_nav_odo_i2c :: u32 where "msgout_ubx_nav_odo_i2c = 0x2091007e"
definition msgout_ubx_nav_odo_spi :: u32 where "msgout_ubx_nav_odo_spi = 0x20910082"
definition msgout_ubx_nav_odo_uart1 :: u32 where "msgout_ubx_nav_odo_uart1 = 0x2091007f"
definition msgout_ubx_nav_odo_uart2 :: u32 where "msgout_ubx_nav_odo_uart2 = 0x20910080"
definition msgout_ubx_nav_odo_usb :: u32 where "msgout_ubx_nav_odo_usb = 0x20910081"
definition msgout_ubx_nav_orb_i2c :: u32 where "msgout_ubx_nav_orb_i2c = 0x20910010"
definition msgout_ubx_nav_orb_spi :: u32 where "msgout_ubx_nav_orb_spi = 0x20910014"
definition msgout_ubx_nav_orb_uart1 :: u32 where "msgout_ubx_nav_orb_uart1 = 0x20910011"
definition msgout_ubx_nav_orb_uart2 :: u32 where "msgout_ubx_nav_orb_uart2 = 0x20910012"
definition msgout_ubx_nav_orb_usb :: u32 where "msgout_ubx_nav_orb_usb = 0x20910013"
definition msgout_ubx_nav_pl_i2c :: u32 where "msgout_ubx_nav_pl_i2c = 0x20910415"
definition msgout_ubx_nav_pl_spi :: u32 where "msgout_ubx_nav_pl_spi = 0x20910419"
definition msgout_ubx_nav_pl_uart1 :: u32 where "msgout_ubx_nav_pl_uart1 = 0x20910416"
definition msgout_ubx_nav_pl_uart2 :: u32 where "msgout_ubx_nav_pl_uart2 = 0x20910417"
definition msgout_ubx_nav_pl_usb :: u32 where "msgout_ubx_nav_pl_usb = 0x20910418"
definition msgout_ubx_nav_posecef_i2c :: u32 where "msgout_ubx_nav_posecef_i2c = 0x20910024"
definition msgout_ubx_nav_posecef_spi :: u32 where "msgout_ubx_nav_posecef_spi = 0x20910028"
definition msgout_ubx_nav_posecef_uart1 :: u32 where "msgout_ubx_nav_posecef_uart1 = 0x20910025"
definition msgout_ubx_nav_posecef_uart2 :: u32 where "msgout_ubx_nav_posecef_uart2 = 0x20910026"
definition msgout_ubx_nav_posecef_usb :: u32 where "msgout_ubx_nav_posecef_usb = 0x20910027"
definition msgout_ubx_nav_posllh_i2c :: u32 where "msgout_ubx_nav_posllh_i2c = 0x20910029"
definition msgout_ubx_nav_posllh_spi :: u32 where "msgout_ubx_nav_posllh_spi = 0x2091002d"
definition msgout_ubx_nav_posllh_uart1 :: u32 where "msgout_ubx_nav_posllh_uart1 = 0x2091002a"
definition msgout_ubx_nav_posllh_uart2 :: u32 where "msgout_ubx_nav_posllh_uart2 = 0x2091002b"
definition msgout_ubx_nav_posllh_usb :: u32 where "msgout_ubx_nav_posllh_usb = 0x2091002c"
definition msgout_ubx_nav_pvt_i2c :: u32 where "msgout_ubx_nav_pvt_i2c = 0x20910006"
definition msgout_ubx_nav_pvt_spi :: u32 where "msgout_ubx_nav_pvt_spi = 0x2091000a"
definition msgout_ubx_nav_pvt_uart1 :: u32 where "msgout_ubx_nav_pvt_uart1 = 0x20910007"
definition msgout_ubx_nav_pvt_uart2 :: u32 where "msgout_ubx_nav_pvt_uart2 = 0x20910008"
definition msgout_ubx_nav_pvt_usb :: u32 where "msgout_ubx_nav_pvt_usb = 0x20910009"
definition msgout_ubx_nav_relposned_i2c :: u32 where "msgout_ubx_nav_relposned_i2c = 0x2091008d"
definition msgout_ubx_nav_relposned_spi :: u32 where "msgout_ubx_nav_relposned_spi = 0x20910091"
definition msgout_ubx_nav_relposned_uart1 :: u32 where "msgout_ubx_nav_relposned_uart1 = 0x2091008e"
definition msgout_ubx_nav_relposned_uart2 :: u32 where "msgout_ubx_nav_relposned_uart2 = 0x2091008f"
definition msgout_ubx_nav_relposned_usb :: u32 where "msgout_ubx_nav_relposned_usb = 0x20910090"
definition msgout_ubx_nav_sat_i2c :: u32 where "msgout_ubx_nav_sat_i2c = 0x20910015"
definition msgout_ubx_nav_sat_spi :: u32 where "msgout_ubx_nav_sat_spi = 0x20910019"
definition msgout_ubx_nav_sat_uart1 :: u32 where "msgout_ubx_nav_sat_uart1 = 0x20910016"
definition msgout_ubx_nav_sat_uart2 :: u32 where "msgout_ubx_nav_sat_uart2 = 0x20910017"
definition msgout_ubx_nav_sat_usb :: u32 where "msgout_ubx_nav_sat_usb = 0x20910018"
definition msgout_ubx_nav_sbas_i2c :: u32 where "msgout_ubx_nav_sbas_i2c = 0x2091006a"
definition msgout_ubx_nav_sbas_spi :: u32 where "msgout_ubx_nav_sbas_spi = 0x2091006e"
definition msgout_ubx_nav_sbas_uart1 :: u32 where "msgout_ubx_nav_sbas_uart1 = 0x2091006b"
definition msgout_ubx_nav_sbas_uart2 :: u32 where "msgout_ubx_nav_sbas_uart2 = 0x2091006c"
definition msgout_ubx_nav_sbas_usb :: u32 where "msgout_ubx_nav_sbas_usb = 0x2091006d"
definition msgout_ubx_nav_sig_i2c :: u32 where "msgout_ubx_nav_sig_i2c = 0x20910345"
definition msgout_ubx_nav_sig_spi :: u32 where "msgout_ubx_nav_sig_spi = 0x20910349"
definition msgout_ubx_nav_sig_uart1 :: u32 where "msgout_ubx_nav_sig_uart1 = 0x20910346"
definition msgout_ubx_nav_sig_uart2 :: u32 where "msgout_ubx_nav_sig_uart2 = 0x20910347"
definition msgout_ubx_nav_sig_usb :: u32 where "msgout_ubx_nav_sig_usb = 0x20910348"
definition msgout_ubx_nav_slas_i2c :: u32 where "msgout_ubx_nav_slas_i2c = 0x20910336"
definition msgout_ubx_nav_slas_spi :: u32 where "msgout_ubx_nav_slas_spi = 0x2091033a"
definition msgout_ubx_nav_slas_uart1 :: u32 where "msgout_ubx_nav_slas_uart1 = 0x20910337"
definition msgout_ubx_nav_slas_uart2 :: u32 where "msgout_ubx_nav_slas_uart2 = 0x20910338"
definition msgout_ubx_nav_slas_usb :: u32 where "msgout_ubx_nav_slas_usb = 0x20910339"
definition msgout_ubx_nav_status_i2c :: u32 where "msgout_ubx_nav_status_i2c = 0x2091001a"
definition msgout_ubx_nav_status_spi :: u32 where "msgout_ubx_nav_status_spi = 0x2091001e"
definition msgout_ubx_nav_status_uart1 :: u32 where "msgout_ubx_nav_status_uart1 = 0x2091001b"
definition msgout_ubx_nav_status_uart2 :: u32 where "msgout_ubx_nav_status_uart2 = 0x2091001c"
definition msgout_ubx_nav_status_usb :: u32 where "msgout_ubx_nav_status_usb = 0x2091001d"
definition msgout_ubx_nav_svin_i2c :: u32 where "msgout_ubx_nav_svin_i2c = 0x20910088"
definition msgout_ubx_nav_svin_spi :: u32 where "msgout_ubx_nav_svin_spi = 0x2091008c"
definition msgout_ubx_nav_svin_uart1 :: u32 where "msgout_ubx_nav_svin_uart1 = 0x20910089"
definition msgout_ubx_nav_svin_uart2 :: u32 where "msgout_ubx_nav_svin_uart2 = 0x2091008a"
definition msgout_ubx_nav_svin_usb :: u32 where "msgout_ubx_nav_svin_usb = 0x2091008b"
definition msgout_ubx_nav_timebds_i2c :: u32 where "msgout_ubx_nav_timebds_i2c = 0x20910051"
definition msgout_ubx_nav_timebds_spi :: u32 where "msgout_ubx_nav_timebds_spi = 0x20910055"
definition msgout_ubx_nav_timebds_uart1 :: u32 where "msgout_ubx_nav_timebds_uart1 = 0x20910052"
definition msgout_ubx_nav_timebds_uart2 :: u32 where "msgout_ubx_nav_timebds_uart2 = 0x20910053"
definition msgout_ubx_nav_timebds_usb :: u32 where "msgout_ubx_nav_timebds_usb = 0x20910054"
definition msgout_ubx_nav_timegal_i2c :: u32 where "msgout_ubx_nav_timegal_i2c = 0x20910056"
definition msgout_ubx_nav_timegal_spi :: u32 where "msgout_ubx_nav_timegal_spi = 0x2091005a"
definition msgout_ubx_nav_timegal_uart1 :: u32 where "msgout_ubx_nav_timegal_uart1 = 0x20910057"
definition msgout_ubx_nav_timegal_uart2 :: u32 where "msgout_ubx_nav_timegal_uart2 = 0x20910058"
definition msgout_ubx_nav_timegal_usb :: u32 where "msgout_ubx_nav_timegal_usb = 0x20910059"
definition msgout_ubx_nav_timeglo_i2c :: u32 where "msgout_ubx_nav_timeglo_i2c = 0x2091004c"
definition msgout_ubx_nav_timeglo_spi :: u32 where "msgout_ubx_nav_timeglo_spi = 0x20910050"
definition msgout_ubx_nav_timeglo_uart1 :: u32 where "msgout_ubx_nav_timeglo_uart1 = 0x2091004d"
definition msgout_ubx_nav_timeglo_uart2 :: u32 where "msgout_ubx_nav_timeglo_uart2 = 0x2091004e"
definition msgout_ubx_nav_timeglo_usb :: u32 where "msgout_ubx_nav_timeglo_usb = 0x2091004f"
definition msgout_ubx_nav_timegps_i2c :: u32 where "msgout_ubx_nav_timegps_i2c = 0x20910047"
definition msgout_ubx_nav_timegps_spi :: u32 where "msgout_ubx_nav_timegps_spi = 0x2091004b"
definition msgout_ubx_nav_timegps_uart1 :: u32 where "msgout_ubx_nav_timegps_uart1 = 0x20910048"
definition msgout_ubx_nav_timegps_uart2 :: u32 where "msgout_ubx_nav_timegps_uart2 = 0x20910049"
definition msgout_ubx_nav_timegps_usb :: u32 where "msgout_ubx_nav_timegps_usb = 0x2091004a"
definition msgout_ubx_nav_timels_i2c :: u32 where "msgout_ubx_nav_timels_i2c = 0x20910060"
definition msgout_ubx_nav_timels_spi :: u32 where "msgout_ubx_nav_timels_spi = 0x20910064"
definition msgout_ubx_nav_timels_uart1 :: u32 where "msgout_ubx_nav_timels_uart1 = 0x20910061"
definition msgout_ubx_nav_timels_uart2 :: u32 where "msgout_ubx_nav_timels_uart2 = 0x20910062"
definition msgout_ubx_nav_timels_usb :: u32 where "msgout_ubx_nav_timels_usb = 0x20910063"
definition msgout_ubx_nav_timeqzss_i2c :: u32 where "msgout_ubx_nav_timeqzss_i2c = 0x20910386"
definition msgout_ubx_nav_timeqzss_spi :: u32 where "msgout_ubx_nav_timeqzss_spi = 0x2091038a"
definition msgout_ubx_nav_timeqzss_uart1 :: u32 where "msgout_ubx_nav_timeqzss_uart1 = 0x20910387"
definition msgout_ubx_nav_timeqzss_uart2 :: u32 where "msgout_ubx_nav_timeqzss_uart2 = 0x20910388"
definition msgout_ubx_nav_timeqzss_usb :: u32 where "msgout_ubx_nav_timeqzss_usb = 0x20910389"
definition msgout_ubx_nav_timeutc_i2c :: u32 where "msgout_ubx_nav_timeutc_i2c = 0x2091005b"
definition msgout_ubx_nav_timeutc_spi :: u32 where "msgout_ubx_nav_timeutc_spi = 0x2091005f"
definition msgout_ubx_nav_timeutc_uart1 :: u32 where "msgout_ubx_nav_timeutc_uart1 = 0x2091005c"
definition msgout_ubx_nav_timeutc_uart2 :: u32 where "msgout_ubx_nav_timeutc_uart2 = 0x2091005d"
definition msgout_ubx_nav_timeutc_usb :: u32 where "msgout_ubx_nav_timeutc_usb = 0x2091005e"
definition msgout_ubx_nav_velecef_i2c :: u32 where "msgout_ubx_nav_velecef_i2c = 0x2091003d"
definition msgout_ubx_nav_velecef_spi :: u32 where "msgout_ubx_nav_velecef_spi = 0x20910041"
definition msgout_ubx_nav_velecef_uart1 :: u32 where "msgout_ubx_nav_velecef_uart1 = 0x2091003e"
definition msgout_ubx_nav_velecef_uart2 :: u32 where "msgout_ubx_nav_velecef_uart2 = 0x2091003f"
definition msgout_ubx_nav_velecef_usb :: u32 where "msgout_ubx_nav_velecef_usb = 0x20910040"
definition msgout_ubx_nav_velned_i2c :: u32 where "msgout_ubx_nav_velned_i2c = 0x20910042"
definition msgout_ubx_nav_velned_spi :: u32 where "msgout_ubx_nav_velned_spi = 0x20910046"
definition msgout_ubx_nav_velned_uart1 :: u32 where "msgout_ubx_nav_velned_uart1 = 0x20910043"
definition msgout_ubx_nav_velned_uart2 :: u32 where "msgout_ubx_nav_velned_uart2 = 0x20910044"
definition msgout_ubx_nav_velned_usb :: u32 where "msgout_ubx_nav_velned_usb = 0x20910045"

text \<open>MSGOUT - UBX RXM\<close>

definition msgout_ubx_rxm_cor_i2c :: u32 where "msgout_ubx_rxm_cor_i2c = 0x209106b6"
definition msgout_ubx_rxm_cor_spi :: u32 where "msgout_ubx_rxm_cor_spi = 0x209106ba"
definition msgout_ubx_rxm_cor_uart1 :: u32 where "msgout_ubx_rxm_cor_uart1 = 0x209106b7"
definition msgout_ubx_rxm_cor_uart2 :: u32 where "msgout_ubx_rxm_cor_uart2 = 0x209106b8"
definition msgout_ubx_rxm_cor_usb :: u32 where "msgout_ubx_rxm_cor_usb = 0x209106b9"
definition msgout_ubx_rxm_measx_i2c :: u32 where "msgout_ubx_rxm_measx_i2c = 0x20910204"
definition msgout_ubx_rxm_measx_spi :: u32 where "msgout_ubx_rxm_measx_spi = 0x20910208"
definition msgout_ubx_rxm_measx_uart1 :: u32 where "msgout_ubx_rxm_measx_uart1 = 0x20910205"
definition msgout_ubx_rxm_measx_uart2 :: u32 where "msgout_ubx_rxm_measx_uart2 = 0x20910206"
definition msgout_ubx_rxm_measx_usb :: u32 where "msgout_ubx_rxm_measx_usb = 0x20910207"
definition msgout_ubx_rxm_pmp_i2c :: u32 where "msgout_ubx_rxm_pmp_i2c = 0x2091031d"
definition msgout_ubx_rxm_pmp_spi :: u32 where "msgout_ubx_rxm_pmp_spi = 0x20910321"
definition msgout_ubx_rxm_pmp_uart1 :: u32 where "msgout_ubx_rxm_pmp_uart1 = 0x2091031e"
definition msgout_ubx_rxm_pmp_uart2 :: u32 where "msgout_ubx_rxm_pmp_uart2 = 0x2091031f"
definition msgout_ubx_rxm_pmp_usb :: u32 where "msgout_ubx_rxm_pmp_usb = 0x20910320"
definition msgout_ubx_rxm_qzssl6_uart1 :: u32 where "msgout_ubx_rxm_qzssl6_uart1 = 0x2091033b"
definition msgout_ubx_rxm_qzssl6_uart2 :: u32 where "msgout_ubx_rxm_qzssl6_uart2 = 0x2091033c"
definition msgout_ubx_rxm_qzssl6_usb :: u32 where "msgout_ubx_rxm_qzssl6_usb = 0x2091033d"
definition msgout_ubx_rxm_qzssl6_i2c :: u32 where "msgout_ubx_rxm_qzssl6_i2c = 0x2091033f"
definition msgout_ubx_rxm_qzssl6_spi :: u32 where "msgout_ubx_rxm_qzssl6_spi = 0x2091033e"
definition msgout_ubx_rxm_rawx_i2c :: u32 where "msgout_ubx_rxm_rawx_i2c = 0x209102a4"
definition msgout_ubx_rxm_rawx_spi :: u32 where "msgout_ubx_rxm_rawx_spi = 0x209102a8"
definition msgout_ubx_rxm_rawx_uart1 :: u32 where "msgout_ubx_rxm_rawx_uart1 = 0x209102a5"
definition msgout_ubx_rxm_rawx_uart2 :: u32 where "msgout_ubx_rxm_rawx_uart2 = 0x209102a6"
definition msgout_ubx_rxm_rawx_usb :: u32 where "msgout_ubx_rxm_rawx_usb = 0x209102a7"
definition msgout_ubx_rxm_rlm_i2c :: u32 where "msgout_ubx_rxm_rlm_i2c = 0x2091025e"
definition msgout_ubx_rxm_rlm_spi :: u32 where "msgout_ubx_rxm_rlm_spi = 0x20910262"
definition msgout_ubx_rxm_rlm_uart1 :: u32 where "msgout_ubx_rxm_rlm_uart1 = 0x2091025f"
definition msgout_ubx_rxm_rlm_uart2 :: u32 where "msgout_ubx_rxm_rlm_uart2 = 0x20910260"
definition msgout_ubx_rxm_rlm_usb :: u32 where "msgout_ubx_rxm_rlm_usb = 0x20910261"
definition msgout_ubx_rxm_rtc5_i2c :: u32 where "msgout_ubx_rxm_rtc5_i2c = 0x20910155"
definition msgout_ubx_rxm_rtc5_spi :: u32 where "msgout_ubx_rxm_rtc5_spi = 0x20910159"
definition msgout_ubx_rxm_rtc5_uart1 :: u32 where "msgout_ubx_rxm_rtc5_uart1 = 0x20910156"
definition msgout_ubx_rxm_rtc5_uart2 :: u32 where "msgout_ubx_rxm_rtc5_uart2 = 0x20910157"
definition msgout_ubx_rxm_rtc5_usb :: u32 where "msgout_ubx_rxm_rtc5_usb = 0x20910158"
definition msgout_ubx_rxm_rtcm_i2c :: u32 where "msgout_ubx_rxm_rtcm_i2c = 0x20910268"
definition msgout_ubx_rxm_rtcm_spi :: u32 where "msgout_ubx_rxm_rtcm_spi = 0x2091026c"
definition msgout_ubx_rxm_rtcm_uart1 :: u32 where "msgout_ubx_rxm_rtcm_uart1 = 0x20910269"
definition msgout_ubx_rxm_rtcm_uart2 :: u32 where "msgout_ubx_rxm_rtcm_uart2 = 0x2091026a"
definition msgout_ubx_rxm_rtcm_usb :: u32 where "msgout_ubx_rxm_rtcm_usb = 0x2091026b"
definition msgout_ubx_rxm_sfrbx_i2c :: u32 where "msgout_ubx_rxm_sfrbx_i2c = 0x20910231"
definition msgout_ubx_rxm_sfrbx_spi :: u32 where "msgout_ubx_rxm_sfrbx_spi = 0x20910235"
definition msgout_ubx_rxm_sfrbx_uart1 :: u32 where "msgout_ubx_rxm_sfrbx_uart1 = 0x20910232"
definition msgout_ubx_rxm_sfrbx_uart2 :: u32 where "msgout_ubx_rxm_sfrbx_uart2 = 0x20910233"
definition msgout_ubx_rxm_sfrbx_usb :: u32 where "msgout_ubx_rxm_sfrbx_usb = 0x20910234"
definition msgout_ubx_rxm_spartn_i2c :: u32 where "msgout_ubx_rxm_spartn_i2c = 0x20910605"
definition msgout_ubx_rxm_spartn_spi :: u32 where "msgout_ubx_rxm_spartn_spi = 0x20910609"
definition msgout_ubx_rxm_spartn_uart1 :: u32 where "msgout_ubx_rxm_spartn_uart1 = 0x20910606"
definition msgout_ubx_rxm_spartn_uart2 :: u32 where "msgout_ubx_rxm_spartn_uart2 = 0x20910607"
definition msgout_ubx_rxm_spartn_usb :: u32 where "msgout_ubx_rxm_spartn_usb = 0x20910608"
definition msgout_ubx_rxm_tm_i2c :: u32 where "msgout_ubx_rxm_tm_i2c = 0x20910610"
definition msgout_ubx_rxm_tm_spi :: u32 where "msgout_ubx_rxm_tm_spi = 0x20910614"
definition msgout_ubx_rxm_tm_uart1 :: u32 where "msgout_ubx_rxm_tm_uart1 = 0x20910611"
definition msgout_ubx_rxm_tm_uart2 :: u32 where "msgout_ubx_rxm_tm_uart2 = 0x20910612"
definition msgout_ubx_rxm_tm_usb :: u32 where "msgout_ubx_rxm_tm_usb = 0x20910613"

text \<open>MSGOUT - UBX SEC\<close>

definition msgout_ubx_sec_crc_i2c :: u32 where "msgout_ubx_sec_crc_i2c = 0x209103b2"
definition msgout_ubx_sec_crc_spi :: u32 where "msgout_ubx_sec_crc_spi = 0x209103b6"
definition msgout_ubx_sec_crc_uart1 :: u32 where "msgout_ubx_sec_crc_uart1 = 0x209103b3"
definition msgout_ubx_sec_crc_uart2 :: u32 where "msgout_ubx_sec_crc_uart2 = 0x209103b4"
definition msgout_ubx_sec_crc_usb :: u32 where "msgout_ubx_sec_crc_usb = 0x209103b5"
definition msgout_ubx_sec_sig_i2c :: u32 where "msgout_ubx_sec_sig_i2c = 0x20910634"
definition msgout_ubx_sec_sig_spi :: u32 where "msgout_ubx_sec_sig_spi = 0x20910638"
definition msgout_ubx_sec_sig_uart1 :: u32 where "msgout_ubx_sec_sig_uart1 = 0x20910635"
definition msgout_ubx_sec_sig_uart2 :: u32 where "msgout_ubx_sec_sig_uart2 = 0x20910636"
definition msgout_ubx_sec_sig_usb :: u32 where "msgout_ubx_sec_sig_usb = 0x20910637"
definition msgout_ubx_sec_siglog_i2c :: u32 where "msgout_ubx_sec_siglog_i2c = 0x20910689"
definition msgout_ubx_sec_siglog_spi :: u32 where "msgout_ubx_sec_siglog_spi = 0x2091068d"
definition msgout_ubx_sec_siglog_uart1 :: u32 where "msgout_ubx_sec_siglog_uart1 = 0x2091068a"
definition msgout_ubx_sec_siglog_uart2 :: u32 where "msgout_ubx_sec_siglog_uart2 = 0x2091068b"
definition msgout_ubx_sec_siglog_usb :: u32 where "msgout_ubx_sec_siglog_usb = 0x2091068c"

text \<open>MSGOUT - UBX TIM\<close>

definition msgout_ubx_tim_tm2_i2c :: u32 where "msgout_ubx_tim_tm2_i2c = 0x20910178"
definition msgout_ubx_tim_tm2_spi :: u32 where "msgout_ubx_tim_tm2_spi = 0x2091017c"
definition msgout_ubx_tim_tm2_uart1 :: u32 where "msgout_ubx_tim_tm2_uart1 = 0x20910179"
definition msgout_ubx_tim_tm2_uart2 :: u32 where "msgout_ubx_tim_tm2_uart2 = 0x2091017a"
definition msgout_ubx_tim_tm2_usb :: u32 where "msgout_ubx_tim_tm2_usb = 0x2091017b"
definition msgout_ubx_tim_tp_i2c :: u32 where "msgout_ubx_tim_tp_i2c = 0x2091017d"
definition msgout_ubx_tim_tp_spi :: u32 where "msgout_ubx_tim_tp_spi = 0x20910181"
definition msgout_ubx_tim_tp_uart1 :: u32 where "msgout_ubx_tim_tp_uart1 = 0x2091017e"
definition msgout_ubx_tim_tp_uart2 :: u32 where "msgout_ubx_tim_tp_uart2 = 0x2091017f"
definition msgout_ubx_tim_tp_usb :: u32 where "msgout_ubx_tim_tp_usb = 0x20910180"
definition msgout_ubx_tim_vrfy_i2c :: u32 where "msgout_ubx_tim_vrfy_i2c = 0x20910092"
definition msgout_ubx_tim_vrfy_spi :: u32 where "msgout_ubx_tim_vrfy_spi = 0x20910096"
definition msgout_ubx_tim_vrfy_uart1 :: u32 where "msgout_ubx_tim_vrfy_uart1 = 0x20910093"
definition msgout_ubx_tim_vrfy_uart2 :: u32 where "msgout_ubx_tim_vrfy_uart2 = 0x20910094"
definition msgout_ubx_tim_vrfy_usb :: u32 where "msgout_ubx_tim_vrfy_usb = 0x20910095"

text \<open>NAV2\<close>

definition nav2_out_enabled :: u32 where "nav2_out_enabled = 0x10170001"
definition nav2_sbas_use_integrity :: u32 where "nav2_sbas_use_integrity = 0x10170002"

text \<open>NAVHPG\<close>

definition navhpg_dgnssmode :: u32 where "navhpg_dgnssmode = 0x20140011"

text \<open>NAVSPG\<close>

definition navspg_fixmode :: u32 where "navspg_fixmode = 0x20110011"
definition navspg_inifix3d :: u32 where "navspg_inifix3d = 0x10110013"
definition navspg_wknrollover :: u32 where "navspg_wknrollover = 0x30110017"
definition navspg_use_ppp :: u32 where "navspg_use_ppp = 0x10110019"
definition navspg_utcstandard :: u32 where "navspg_utcstandard = 0x2011001c"
definition navspg_dynmodel :: u32 where "navspg_dynmodel = 0x20110021"
definition navspg_ackaiding :: u32 where "navspg_ackaiding = 0x10110025"
definition navspg_usrdat :: u32 where "navspg_usrdat = 0x10110061"
definition navspg_usrdat_maja :: u32 where "navspg_usrdat_maja = 0x50110062"
definition navspg_usrdat_flat :: u32 where "navspg_usrdat_flat = 0x50110063"
definition navspg_usrdat_dx :: u32 where "navspg_usrdat_dx = 0x40110064"
definition navspg_usrdat_dy :: u32 where "navspg_usrdat_dy = 0x40110065"
definition navspg_usrdat_dz :: u32 where "navspg_usrdat_dz = 0x40110066"
definition navspg_usrdat_rotx :: u32 where "navspg_usrdat_rotx = 0x40110067"
definition navspg_usrdat_roty :: u32 where "navspg_usrdat_roty = 0x40110068"
definition navspg_usrdat_rotz :: u32 where "navspg_usrdat_rotz = 0x40110069"
definition navspg_usrdat_scale :: u32 where "navspg_usrdat_scale = 0x4011006a"
definition navspg_infil_minsvs :: u32 where "navspg_infil_minsvs = 0x201100a1"
definition navspg_infil_maxsvs :: u32 where "navspg_infil_maxsvs = 0x201100a2"
definition navspg_infil_mincno :: u32 where "navspg_infil_mincno = 0x201100a3"
definition navspg_infil_minelev :: u32 where "navspg_infil_minelev = 0x201100a4"
definition navspg_infil_ncnothrs :: u32 where "navspg_infil_ncnothrs = 0x201100aa"
definition navspg_infil_cnothrs :: u32 where "navspg_infil_cnothrs = 0x201100ab"
definition navspg_outfil_pdop :: u32 where "navspg_outfil_pdop = 0x301100b1"
definition navspg_outfil_tdop :: u32 where "navspg_outfil_tdop = 0x301100b2"
definition navspg_outfil_pacc :: u32 where "navspg_outfil_pacc = 0x301100b3"
definition navspg_outfil_tacc :: u32 where "navspg_outfil_tacc = 0x301100b4"
definition navspg_outfil_facc :: u32 where "navspg_outfil_facc = 0x301100b5"
definition navspg_constr_alt :: u32 where "navspg_constr_alt = 0x401100c1"
definition navspg_constr_altvar :: u32 where "navspg_constr_altvar = 0x401100c2"
definition navspg_constr_dgnssto :: u32 where "navspg_constr_dgnssto = 0x201100c4"
definition navspg_sigattcomp :: u32 where "navspg_sigattcomp = 0x201100d6"
definition navspg_pl_ena :: u32 where "navspg_pl_ena = 0x101100d7"

text \<open>NMEA\<close>

definition nmea_protver :: u32 where "nmea_protver = 0x20930001"
definition nmea_maxsvs :: u32 where "nmea_maxsvs = 0x20930002"
definition nmea_compat :: u32 where "nmea_compat = 0x10930003"
definition nmea_consider :: u32 where "nmea_consider = 0x10930004"
definition nmea_limit82 :: u32 where "nmea_limit82 = 0x10930005"
definition nmea_highprec :: u32 where "nmea_highprec = 0x10930006"
definition nmea_svnumbering :: u32 where "nmea_svnumbering = 0x20930007"
definition nmea_filt_gps :: u32 where "nmea_filt_gps = 0x10930011"
definition nmea_filt_sbas :: u32 where "nmea_filt_sbas = 0x10930012"
definition nmea_filt_gal :: u32 where "nmea_filt_gal = 0x10930013"
definition nmea_filt_qzss :: u32 where "nmea_filt_qzss = 0x10930015"
definition nmea_filt_glo :: u32 where "nmea_filt_glo = 0x10930016"
definition nmea_filt_bds :: u32 where "nmea_filt_bds = 0x10930017"
definition nmea_out_invfix :: u32 where "nmea_out_invfix = 0x10930021"
definition nmea_out_mskfix :: u32 where "nmea_out_mskfix = 0x10930022"
definition nmea_out_invtime :: u32 where "nmea_out_invtime = 0x10930023"
definition nmea_out_invdate :: u32 where "nmea_out_invdate = 0x10930024"
definition nmea_out_onlygps :: u32 where "nmea_out_onlygps = 0x10930025"
definition nmea_out_frozencog :: u32 where "nmea_out_frozencog = 0x10930026"
definition nmea_maintalkerid :: u32 where "nmea_maintalkerid = 0x20930031"
definition nmea_gsvtalkerid :: u32 where "nmea_gsvtalkerid = 0x20930032"
definition nmea_bdstalkerid :: u32 where "nmea_bdstalkerid = 0x30930033"

text \<open>ODO\<close>

definition odo_use_odo :: u32 where "odo_use_odo = 0x10220001"
definition odo_use_cog :: u32 where "odo_use_cog = 0x10220002"
definition odo_outlpvel :: u32 where "odo_outlpvel = 0x10220003"
definition odo_outlpcog :: u32 where "odo_outlpcog = 0x10220004"
definition odo_profile :: u32 where "odo_profile = 0x20220005"
definition odo_cogmaxspeed :: u32 where "odo_cogmaxspeed = 0x20220021"
definition odo_cogmaxposacc :: u32 where "odo_cogmaxposacc = 0x20220022"
definition odo_vellpgain :: u32 where "odo_vellpgain = 0x20220031"
definition odo_coglpgain :: u32 where "odo_coglpgain = 0x20220032"

text \<open>PM\<close>

definition pm_operatemode :: u32 where "pm_operatemode = 0x20d00001"
definition pm_posupdateperiod :: u32 where "pm_posupdateperiod = 0x40d00002"
definition pm_acqperiod :: u32 where "pm_acqperiod = 0x40d00003"
definition pm_gridoffset :: u32 where "pm_gridoffset = 0x40d00004"
definition pm_ontime :: u32 where "pm_ontime = 0x30d00005"
definition pm_minfixacc :: u32 where "pm_minfixacc = 0x40d00006"
definition pm_donotenterhot :: u32 where "pm_donotenterhot = 0x10d00007"
definition pm_waittimefix :: u32 where "pm_waittimefix = 0x10d00008"
definition pm_updateeph :: u32 where "pm_updateeph = 0x10d0000a"
definition pm_extintsel :: u32 where "pm_extintsel = 0x20d0000b"
definition pm_extintwake :: u32 where "pm_extintwake = 0x10d0000c"
definition pm_extintbackup :: u32 where "pm_extintbackup = 0x10d0000d"
definition pm_extintinactive :: u32 where "pm_extintinactive = 0x10d0000e"
definition pm_extintinactivity :: u32 where "pm_extintinactivity = 0x40d0000f"
definition pm_limitpeakcurr :: u32 where "pm_limitpeakcurr = 0x10d00010"

text \<open>PMP\<close>

definition pmp_center_frequency :: u32 where "pmp_center_frequency = 0x40b10011"
definition pmp_search_window :: u32 where "pmp_search_window = 0x30b10012"
definition pmp_use_service_id :: u32 where "pmp_use_service_id = 0x10b10016"
definition pmp_service_id :: u32 where "pmp_service_id = 0x30b10017"
definition pmp_data_rate :: u32 where "pmp_data_rate = 0x30b10013"
definition pmp_use_descrambler :: u32 where "pmp_use_descrambler = 0x10b10014"
definition pmp_descrambler_init :: u32 where "pmp_descrambler_init = 0x30b10015"
definition pmp_use_prescrambling :: u32 where "pmp_use_prescrambling = 0x10b10019"
definition pmp_unique_word :: u32 where "pmp_unique_word = 0x50b1001a"

text \<open>QZSS\<close>

definition qzss_use_slas_dgnss :: u32 where "qzss_use_slas_dgnss = 0x10370005"
definition qzss_use_slas_testmode :: u32 where "qzss_use_slas_testmode = 0x10370006"
definition qzss_use_slas_raim_uncorr :: u32 where "qzss_use_slas_raim_uncorr = 0x10370007"
definition qzss_slas_max_baseline :: u32 where "qzss_slas_max_baseline = 0x30370008"
definition qzss_l6_svida :: u32 where "qzss_l6_svida = 0x20370020"
definition qzss_l6_svidb :: u32 where "qzss_l6_svidb = 0x20370030"
definition qzss_l6_msga :: u32 where "qzss_l6_msga = 0x20370050"
definition qzss_l6_msgb :: u32 where "qzss_l6_msgb = 0x20370060"
definition qzss_l6_rsdecoder :: u32 where "qzss_l6_rsdecoder = 0x20370080"

text \<open>RATE\<close>

definition rate_meas :: u32 where "rate_meas = 0x30210001"
definition rate_nav :: u32 where "rate_nav = 0x30210002"
definition rate_timeref :: u32 where "rate_timeref = 0x20210003"
definition rate_nav_prio :: u32 where "rate_nav_prio = 0x20210004"

text \<open>RINV\<close>

definition rinv_dump :: u32 where "rinv_dump = 0x10c70001"
definition rinv_binary :: u32 where "rinv_binary = 0x10c70002"
definition rinv_data_size :: u32 where "rinv_data_size = 0x20c70003"
definition rinv_chunk0 :: u32 where "rinv_chunk0 = 0x50c70004"
definition rinv_chunk1 :: u32 where "rinv_chunk1 = 0x50c70005"
definition rinv_chunk2 :: u32 where "rinv_chunk2 = 0x50c70006"
definition rinv_chunk3 :: u32 where "rinv_chunk3 = 0x50c70007"

text \<open>RTCM\<close>

definition rtcm_df003_out :: u32 where "rtcm_df003_out = 0x30090001"
definition rtcm_df003_in :: u32 where "rtcm_df003_in = 0x30090008"
definition rtcm_df003_in_filter :: u32 where "rtcm_df003_in_filter = 0x20090009"

text \<open>SBAS\<close>

definition sbas_use_testmode :: u32 where "sbas_use_testmode = 0x10360002"
definition sbas_use_ranging :: u32 where "sbas_use_ranging = 0x10360003"
definition sbas_use_diffcorr :: u32 where "sbas_use_diffcorr = 0x10360004"
definition sbas_use_integrity :: u32 where "sbas_use_integrity = 0x10360005"
definition sbas_prnscanmask :: u32 where "sbas_prnscanmask = 0x50360006"

text \<open>SEC\<close>

definition sec_cfg_lock :: u32 where "sec_cfg_lock = 0x10f60009"
definition sec_cfg_lock_unlockgrp1 :: u32 where "sec_cfg_lock_unlockgrp1 = 0x30f6000a"
definition sec_cfg_lock_unlockgrp2 :: u32 where "sec_cfg_lock_unlockgrp2 = 0x30f6000b"
definition sec_jamdet_sensitivity_hi :: u32 where "sec_jamdet_sensitivity_hi = 0x10f60051"

text \<open>SFCORE\<close>

definition sfcore_use_sf :: u32 where "sfcore_use_sf = 0x10080001"
definition sfcore_imu2crp_la_x :: u32 where "sfcore_imu2crp_la_x = 0x30080002"
definition sfcore_imu2crp_la_y :: u32 where "sfcore_imu2crp_la_y = 0x30080003"
definition sfcore_imu2crp_la_z :: u32 where "sfcore_imu2crp_la_z = 0x30080004"
definition sfcore_sen_ttag_fact :: u32 where "sfcore_sen_ttag_fact = 0x40080006"
definition sfcore_sen_ttag_max :: u32 where "sfcore_sen_ttag_max = 0x40080007"
definition sfcore_outfil_pacc :: u32 where "sfcore_outfil_pacc = 0x3008000f"

text \<open>SFIMU\<close>

definition sfimu_gyro_tc_update_period :: u32 where "sfimu_gyro_tc_update_period = 0x30060007"
definition sfimu_gyro_rmsthdl :: u32 where "sfimu_gyro_rmsthdl = 0x20060008"
definition sfimu_gyro_frequency :: u32 where "sfimu_gyro_frequency = 0x20060009"
definition sfimu_gyro_latency :: u32 where "sfimu_gyro_latency = 0x3006000a"
definition sfimu_gyro_accuracy :: u32 where "sfimu_gyro_accuracy = 0x3006000b"
definition sfimu_accel_rmsthdl :: u32 where "sfimu_accel_rmsthdl = 0x20060015"
definition sfimu_accel_frequency :: u32 where "sfimu_accel_frequency = 0x20060016"
definition sfimu_accel_latency :: u32 where "sfimu_accel_latency = 0x30060017"
definition sfimu_accel_accuracy :: u32 where "sfimu_accel_accuracy = 0x30060018"
definition sfimu_imu_en :: u32 where "sfimu_imu_en = 0x1006001d"
definition sfimu_imu_i2c_scl_pio :: u32 where "sfimu_imu_i2c_scl_pio = 0x2006001e"
definition sfimu_imu_i2c_sda_pio :: u32 where "sfimu_imu_i2c_sda_pio = 0x2006001f"
definition sfimu_imu2ant_la_x :: u32 where "sfimu_imu2ant_la_x = 0x30060020"
definition sfimu_imu2ant_la_y :: u32 where "sfimu_imu2ant_la_y = 0x30060021"
definition sfimu_imu2ant_la_z :: u32 where "sfimu_imu2ant_la_z = 0x30060022"
definition sfimu_auto_mntalg_ena :: u32 where "sfimu_auto_mntalg_ena = 0x10060027"
definition sfimu_imu_mntalg_yaw :: u32 where "sfimu_imu_mntalg_yaw = 0x4006002d"
definition sfimu_imu_mntalg_pitch :: u32 where "sfimu_imu_mntalg_pitch = 0x3006002e"
definition sfimu_imu_mntalg_roll :: u32 where "sfimu_imu_mntalg_roll = 0x3006002f"

text \<open>SFODO\<close>

definition sfodo_combine_ticks :: u32 where "sfodo_combine_ticks = 0x10070001"
definition sfodo_use_speed :: u32 where "sfodo_use_speed = 0x10070003"
definition sfodo_dis_autocountmax :: u32 where "sfodo_dis_autocountmax = 0x10070004"
definition sfodo_dis_autodirpinpol :: u32 where "sfodo_dis_autodirpinpol = 0x10070005"
definition sfodo_dis_autospeed :: u32 where "sfodo_dis_autospeed = 0x10070006"
definition sfodo_factor :: u32 where "sfodo_factor = 0x40070007"
definition sfodo_quant_error :: u32 where "sfodo_quant_error = 0x40070008"
definition sfodo_count_max :: u32 where "sfodo_count_max = 0x40070009"
definition sfodo_latency :: u32 where "sfodo_latency = 0x3007000a"
definition sfodo_frequency :: u32 where "sfodo_frequency = 0x2007000b"
definition sfodo_cnt_both_edges :: u32 where "sfodo_cnt_both_edges = 0x1007000d"
definition sfodo_speed_band :: u32 where "sfodo_speed_band = 0x3007000e"
definition sfodo_use_wt_pin :: u32 where "sfodo_use_wt_pin = 0x1007000f"
definition sfodo_dir_pinpol :: u32 where "sfodo_dir_pinpol = 0x10070010"
definition sfodo_dis_autosw :: u32 where "sfodo_dis_autosw = 0x10070011"
definition sfodo_imu2vrp_la_x :: u32 where "sfodo_imu2vrp_la_x = 0x30070012"
definition sfodo_imu2vrp_la_y :: u32 where "sfodo_imu2vrp_la_y = 0x30070013"
definition sfodo_imu2vrp_la_z :: u32 where "sfodo_imu2vrp_la_z = 0x30070014"
definition sfodo_trackgauge_rear :: u32 where "sfodo_trackgauge_rear = 0x30070018"
definition sfodo_dis_dir_info :: u32 where "sfodo_dis_dir_info = 0x1007001c"

text \<open>SIGNAL\<close>

definition signal_gps_ena :: u32 where "signal_gps_ena = 0x1031001f"
definition signal_gps_l1ca_ena :: u32 where "signal_gps_l1ca_ena = 0x10310001"
definition signal_gps_l2c_ena :: u32 where "signal_gps_l2c_ena = 0x10310003"
definition signal_gps_l5_ena :: u32 where "signal_gps_l5_ena = 0x10310004"
definition signal_sbas_ena :: u32 where "signal_sbas_ena = 0x10310020"
definition signal_sbas_l1ca_ena :: u32 where "signal_sbas_l1ca_ena = 0x10310005"
definition signal_gal_ena :: u32 where "signal_gal_ena = 0x10310021"
definition signal_gal_e1_ena :: u32 where "signal_gal_e1_ena = 0x10310007"
definition signal_gal_e5a_ena :: u32 where "signal_gal_e5a_ena = 0x10310009"
definition signal_gal_e5b_ena :: u32 where "signal_gal_e5b_ena = 0x1031000a"
definition signal_bds_ena :: u32 where "signal_bds_ena = 0x10310022"
definition signal_bds_b1_ena :: u32 where "signal_bds_b1_ena = 0x1031000d"
definition signal_bds_b2_ena :: u32 where "signal_bds_b2_ena = 0x1031000e"
definition signal_bds_b1c_ena :: u32 where "signal_bds_b1c_ena = 0x1031000f"
definition signal_bds_b2a_ena :: u32 where "signal_bds_b2a_ena = 0x10310028"
definition signal_qzss_ena :: u32 where "signal_qzss_ena = 0x10310024"
definition signal_qzss_l1ca_ena :: u32 where "signal_qzss_l1ca_ena = 0x10310012"
definition signal_qzss_l1s_ena :: u32 where "signal_qzss_l1s_ena = 0x10310014"
definition signal_qzss_l2c_ena :: u32 where "signal_qzss_l2c_ena = 0x10310015"
definition signal_qzss_l5_ena :: u32 where "signal_qzss_l5_ena = 0x10310017"
definition signal_glo_ena :: u32 where "signal_glo_ena = 0x10310025"
definition signal_glo_l1_ena :: u32 where "signal_glo_l1_ena = 0x10310018"
definition signal_glo_l2_ena :: u32 where "signal_glo_l2_ena = 0x1031001a"
definition signal_navic_ena :: u32 where "signal_navic_ena = 0x10310026"
definition signal_navic_l5_ena :: u32 where "signal_navic_l5_ena = 0x1031001d"

text \<open>SPARTN\<close>

definition spartn_use_source :: u32 where "spartn_use_source = 0x20a70001"

text \<open>SPI\<close>

definition spi_maxff :: u32 where "spi_maxff = 0x20640001"
definition spi_cpolarity :: u32 where "spi_cpolarity = 0x10640002"
definition spi_cphase :: u32 where "spi_cphase = 0x10640003"
definition spi_extendedtimeout :: u32 where "spi_extendedtimeout = 0x10640005"
definition spi_enabled :: u32 where "spi_enabled = 0x10640006"

text \<open>SPIINPROT\<close>

definition spiinprot_ubx :: u32 where "spiinprot_ubx = 0x10790001"
definition spiinprot_nmea :: u32 where "spiinprot_nmea = 0x10790002"
definition spiinprot_rtcm3x :: u32 where "spiinprot_rtcm3x = 0x10790004"
definition spiinprot_spartn :: u32 where "spiinprot_spartn = 0x10790005"

text \<open>SPIOUTPROT\<close>

definition spioutprot_ubx :: u32 where "spioutprot_ubx = 0x107a0001"
definition spioutprot_nmea :: u32 where "spioutprot_nmea = 0x107a0002"
definition spioutprot_rtcm3x :: u32 where "spioutprot_rtcm3x = 0x107a0004"

text \<open>TMODE\<close>

definition tmode_mode :: u32 where "tmode_mode = 0x20030001"
definition tmode_pos_type :: u32 where "tmode_pos_type = 0x20030002"
definition tmode_ecef_x :: u32 where "tmode_ecef_x = 0x40030003"
definition tmode_ecef_y :: u32 where "tmode_ecef_y = 0x40030004"
definition tmode_ecef_z :: u32 where "tmode_ecef_z = 0x40030005"
definition tmode_ecef_x_hp :: u32 where "tmode_ecef_x_hp = 0x20030006"
definition tmode_ecef_y_hp :: u32 where "tmode_ecef_y_hp = 0x20030007"
definition tmode_ecef_z_hp :: u32 where "tmode_ecef_z_hp = 0x20030008"
definition tmode_lat :: u32 where "tmode_lat = 0x40030009"
definition tmode_lon :: u32 where "tmode_lon = 0x4003000a"
definition tmode_height :: u32 where "tmode_height = 0x4003000b"
definition tmode_lat_hp :: u32 where "tmode_lat_hp = 0x2003000c"
definition tmode_lon_hp :: u32 where "tmode_lon_hp = 0x2003000d"
definition tmode_height_hp :: u32 where "tmode_height_hp = 0x2003000e"
definition tmode_fixed_pos_acc :: u32 where "tmode_fixed_pos_acc = 0x4003000f"
definition tmode_svin_min_dur :: u32 where "tmode_svin_min_dur = 0x40030010"
definition tmode_svin_acc_limit :: u32 where "tmode_svin_acc_limit = 0x40030011"

text \<open>TP\<close>

definition tp_pulse_def :: u32 where "tp_pulse_def = 0x20050023"
definition tp_pulse_length_def :: u32 where "tp_pulse_length_def = 0x20050030"
definition tp_ant_cabledelay :: u32 where "tp_ant_cabledelay = 0x30050001"
definition tp_period_tp1 :: u32 where "tp_period_tp1 = 0x40050002"
definition tp_period_lock_tp1 :: u32 where "tp_period_lock_tp1 = 0x40050003"
definition tp_freq_tp1 :: u32 where "tp_freq_tp1 = 0x40050024"
definition tp_freq_lock_tp1 :: u32 where "tp_freq_lock_tp1 = 0x40050025"
definition tp_len_tp1 :: u32 where "tp_len_tp1 = 0x40050004"
definition tp_len_lock_tp1 :: u32 where "tp_len_lock_tp1 = 0x40050005"
definition tp_duty_tp1 :: u32 where "tp_duty_tp1 = 0x5005002a"
definition tp_duty_lock_tp1 :: u32 where "tp_duty_lock_tp1 = 0x5005002b"
definition tp_user_delay_tp1 :: u32 where "tp_user_delay_tp1 = 0x40050006"
definition tp_tp1_ena :: u32 where "tp_tp1_ena = 0x10050007"
definition tp_sync_gnss_tp1 :: u32 where "tp_sync_gnss_tp1 = 0x10050008"
definition tp_use_locked_tp1 :: u32 where "tp_use_locked_tp1 = 0x10050009"
definition tp_align_to_tow_tp1 :: u32 where "tp_align_to_tow_tp1 = 0x1005000a"
definition tp_pol_tp1 :: u32 where "tp_pol_tp1 = 0x1005000b"
definition tp_timegrid_tp1 :: u32 where "tp_timegrid_tp1 = 0x2005000c"
definition tp_drstr_tp1 :: u32 where "tp_drstr_tp1 = 0x20050035"
definition tp_period_tp2 :: u32 where "tp_period_tp2 = 0x4005000d"
definition tp_period_lock_tp2 :: u32 where "tp_period_lock_tp2 = 0x4005000e"
definition tp_freq_tp2 :: u32 where "tp_freq_tp2 = 0x40050026"
definition tp_freq_lock_tp2 :: u32 where "tp_freq_lock_tp2 = 0x40050027"
definition tp_len_tp2 :: u32 where "tp_len_tp2 = 0x4005000f"
definition tp_len_lock_tp2 :: u32 where "tp_len_lock_tp2 = 0x40050010"
definition tp_duty_tp2 :: u32 where "tp_duty_tp2 = 0x5005002c"
definition tp_duty_lock_tp2 :: u32 where "tp_duty_lock_tp2 = 0x5005002d"
definition tp_user_delay_tp2 :: u32 where "tp_user_delay_tp2 = 0x40050011"
definition tp_tp2_ena :: u32 where "tp_tp2_ena = 0x10050012"
definition tp_sync_gnss_tp2 :: u32 where "tp_sync_gnss_tp2 = 0x10050013"
definition tp_use_locked_tp2 :: u32 where "tp_use_locked_tp2 = 0x10050014"
definition tp_align_to_tow_tp2 :: u32 where "tp_align_to_tow_tp2 = 0x10050015"
definition tp_pol_tp2 :: u32 where "tp_pol_tp2 = 0x10050016"
definition tp_timegrid_tp2 :: u32 where "tp_timegrid_tp2 = 0x20050017"
definition tp_drstr_tp2 :: u32 where "tp_drstr_tp2 = 0x20050036"

text \<open>TXREADY\<close>

definition txready_enabled :: u32 where "txready_enabled = 0x10a20001"
definition txready_polarity :: u32 where "txready_polarity = 0x10a20002"
definition txready_pin :: u32 where "txready_pin = 0x20a20003"
definition txready_threshold :: u32 where "txready_threshold = 0x30a20004"
definition txready_interface :: u32 where "txready_interface = 0x20a20005"

text \<open>UART1\<close>

definition uart1_baudrate :: u32 where "uart1_baudrate = 0x40520001"
definition uart1_stopbits :: u32 where "uart1_stopbits = 0x20520002"
definition uart1_databits :: u32 where "uart1_databits = 0x20520003"
definition uart1_parity :: u32 where "uart1_parity = 0x20520004"
definition uart1_enabled :: u32 where "uart1_enabled = 0x10520005"

text \<open>UART1INPROT\<close>

definition uart1inprot_ubx :: u32 where "uart1inprot_ubx = 0x10730001"
definition uart1inprot_nmea :: u32 where "uart1inprot_nmea = 0x10730002"
definition uart1inprot_rtcm3x :: u32 where "uart1inprot_rtcm3x = 0x10730004"
definition uart1inprot_spartn :: u32 where "uart1inprot_spartn = 0x10730005"

text \<open>UART1OUTPROT\<close>

definition uart1outprot_ubx :: u32 where "uart1outprot_ubx = 0x10740001"
definition uart1outprot_nmea :: u32 where "uart1outprot_nmea = 0x10740002"
definition uart1outprot_rtcm3x :: u32 where "uart1outprot_rtcm3x = 0x10740004"

text \<open>UART2\<close>

definition uart2_baudrate :: u32 where "uart2_baudrate = 0x40530001"
definition uart2_stopbits :: u32 where "uart2_stopbits = 0x20530002"
definition uart2_databits :: u32 where "uart2_databits = 0x20530003"
definition uart2_parity :: u32 where "uart2_parity = 0x20530004"
definition uart2_enabled :: u32 where "uart2_enabled = 0x10530005"

text \<open>UART2INPROT\<close>

definition uart2inprot_ubx :: u32 where "uart2inprot_ubx = 0x10750001"
definition uart2inprot_nmea :: u32 where "uart2inprot_nmea = 0x10750002"
definition uart2inprot_rtcm3x :: u32 where "uart2inprot_rtcm3x = 0x10750004"
definition uart2inprot_spartn :: u32 where "uart2inprot_spartn = 0x10750005"

text \<open>UART2OUTPROT\<close>

definition uart2outprot_ubx :: u32 where "uart2outprot_ubx = 0x10760001"
definition uart2outprot_nmea :: u32 where "uart2outprot_nmea = 0x10760002"
definition uart2outprot_rtcm3x :: u32 where "uart2outprot_rtcm3x = 0x10760004"

text \<open>USB\<close>

definition usb_enabled :: u32 where "usb_enabled = 0x10650001"
definition usb_selfpow :: u32 where "usb_selfpow = 0x10650002"
definition usb_vendor_id :: u32 where "usb_vendor_id = 0x3065000a"
definition usb_product_id :: u32 where "usb_product_id = 0x3065000b"
definition usb_power :: u32 where "usb_power = 0x3065000c"
definition usb_vendor_str0 :: u32 where "usb_vendor_str0 = 0x5065000d"
definition usb_vendor_str1 :: u32 where "usb_vendor_str1 = 0x5065000e"
definition usb_vendor_str2 :: u32 where "usb_vendor_str2 = 0x5065000f"
definition usb_vendor_str3 :: u32 where "usb_vendor_str3 = 0x50650010"
definition usb_product_str0 :: u32 where "usb_product_str0 = 0x50650011"
definition usb_product_str1 :: u32 where "usb_product_str1 = 0x50650012"
definition usb_product_str2 :: u32 where "usb_product_str2 = 0x50650013"
definition usb_product_str3 :: u32 where "usb_product_str3 = 0x50650014"
definition usb_serial_no_str0 :: u32 where "usb_serial_no_str0 = 0x50650015"
definition usb_serial_no_str1 :: u32 where "usb_serial_no_str1 = 0x50650016"
definition usb_serial_no_str2 :: u32 where "usb_serial_no_str2 = 0x50650017"
definition usb_serial_no_str3 :: u32 where "usb_serial_no_str3 = 0x50650018"

text \<open>USBINPROT\<close>

definition usbinprot_ubx :: u32 where "usbinprot_ubx = 0x10770001"
definition usbinprot_nmea :: u32 where "usbinprot_nmea = 0x10770002"
definition usbinprot_rtcm3x :: u32 where "usbinprot_rtcm3x = 0x10770004"
definition usbinprot_spartn :: u32 where "usbinprot_spartn = 0x10770005"

text \<open>USBOUTPROT\<close>

definition usboutprot_ubx :: u32 where "usboutprot_ubx = 0x10780001"
definition usboutprot_nmea :: u32 where "usboutprot_nmea = 0x10780002"
definition usboutprot_rtcm3x :: u32 where "usboutprot_rtcm3x = 0x10780004"

end
