(* ===== verification/Ubx_Cfg_Registry.thy ===== *)
theory Ubx_Cfg_Registry
  imports Ubx_Cfg_Keys "HOL-Library.Multiset" "HOL-Library.Sublist"
begin

text \<open>
  \<open>config/ubx_cfg_key_registry\<close>: the table from the names of the configuration keys to their identifiers,
  section by section, and the two lookups by linear scan.
\<close>

section \<open>The table\<close>

record key_info =
  key_name :: string
  key_info_id :: u32

definition key_entry :: "string \<Rightarrow> u32 \<Rightarrow> key_info" where
  "key_entry nm k = \<lparr>key_name = nm, key_info_id = k\<rparr>"

definition keys_ana :: "key_info list" where
  "keys_ana =
     [key_entry ''ana_use_ana'' ana_use_ana,
      key_entry ''ana_orbmaxerr'' ana_orbmaxerr]"

definition keys_batch :: "key_info list" where
  "keys_batch =
     [key_entry ''batch_enable'' batch_enable,
      key_entry ''batch_pioenable'' batch_pioenable,
      key_entry ''batch_maxentries'' batch_maxentries,
      key_entry ''batch_warnthrs'' batch_warnthrs,
      key_entry ''batch_pioactivelow'' batch_pioactivelow,
      key_entry ''batch_pioid'' batch_pioid,
      key_entry ''batch_extrapvt'' batch_extrapvt,
      key_entry ''batch_extraodo'' batch_extraodo]"

definition keys_bds :: "key_info list" where
  "keys_bds =
     [key_entry ''bds_use_geo_prn'' bds_use_geo_prn]"

definition keys_geofence :: "key_info list" where
  "keys_geofence =
     [key_entry ''geofence_conflvl'' geofence_conflvl,
      key_entry ''geofence_use_pio'' geofence_use_pio,
      key_entry ''geofence_pinpol'' geofence_pinpol,
      key_entry ''geofence_pin'' geofence_pin,
      key_entry ''geofence_use_fence1'' geofence_use_fence1,
      key_entry ''geofence_fence1_lat'' geofence_fence1_lat,
      key_entry ''geofence_fence1_lon'' geofence_fence1_lon,
      key_entry ''geofence_fence1_rad'' geofence_fence1_rad,
      key_entry ''geofence_use_fence2'' geofence_use_fence2,
      key_entry ''geofence_fence2_lat'' geofence_fence2_lat,
      key_entry ''geofence_fence2_lon'' geofence_fence2_lon,
      key_entry ''geofence_fence2_rad'' geofence_fence2_rad,
      key_entry ''geofence_use_fence3'' geofence_use_fence3,
      key_entry ''geofence_fence3_lat'' geofence_fence3_lat,
      key_entry ''geofence_fence3_lon'' geofence_fence3_lon,
      key_entry ''geofence_fence3_rad'' geofence_fence3_rad,
      key_entry ''geofence_use_fence4'' geofence_use_fence4,
      key_entry ''geofence_fence4_lat'' geofence_fence4_lat,
      key_entry ''geofence_fence4_lon'' geofence_fence4_lon,
      key_entry ''geofence_fence4_rad'' geofence_fence4_rad]"

definition keys_hw :: "key_info list" where
  "keys_hw =
     [key_entry ''hw_ant_cfg_voltctrl'' hw_ant_cfg_voltctrl,
      key_entry ''hw_ant_cfg_shortdet'' hw_ant_cfg_shortdet,
      key_entry ''hw_ant_cfg_shortdet_pol'' hw_ant_cfg_shortdet_pol,
      key_entry ''hw_ant_cfg_opendet'' hw_ant_cfg_opendet,
      key_entry ''hw_ant_cfg_opendet_pol'' hw_ant_cfg_opendet_pol,
      key_entry ''hw_ant_cfg_pwrdown'' hw_ant_cfg_pwrdown,
      key_entry ''hw_ant_cfg_pwrdown_pol'' hw_ant_cfg_pwrdown_pol,
      key_entry ''hw_ant_cfg_recover'' hw_ant_cfg_recover,
      key_entry ''hw_ant_sup_switch_pin'' hw_ant_sup_switch_pin,
      key_entry ''hw_ant_sup_short_pin'' hw_ant_sup_short_pin,
      key_entry ''hw_ant_sup_open_pin'' hw_ant_sup_open_pin,
      key_entry ''hw_ant_sup_engine'' hw_ant_sup_engine,
      key_entry ''hw_ant_sup_short_thr'' hw_ant_sup_short_thr,
      key_entry ''hw_ant_sup_open_thr'' hw_ant_sup_open_thr,
      key_entry ''hw_rf_lna_mode'' hw_rf_lna_mode]"

definition keys_i2c :: "key_info list" where
  "keys_i2c =
     [key_entry ''i2c_address'' i2c_address,
      key_entry ''i2c_extendedtimeout'' i2c_extendedtimeout,
      key_entry ''i2c_enabled'' i2c_enabled]"

definition keys_i2cinprot :: "key_info list" where
  "keys_i2cinprot =
     [key_entry ''i2cinprot_ubx'' i2cinprot_ubx,
      key_entry ''i2cinprot_nmea'' i2cinprot_nmea,
      key_entry ''i2cinprot_rtcm3x'' i2cinprot_rtcm3x,
      key_entry ''i2cinprot_spartn'' i2cinprot_spartn]"

definition keys_i2coutprot :: "key_info list" where
  "keys_i2coutprot =
     [key_entry ''i2coutprot_ubx'' i2coutprot_ubx,
      key_entry ''i2coutprot_nmea'' i2coutprot_nmea,
      key_entry ''i2coutprot_rtcm3x'' i2coutprot_rtcm3x]"

definition keys_infmsg :: "key_info list" where
  "keys_infmsg =
     [key_entry ''infmsg_ubx_i2c'' infmsg_ubx_i2c,
      key_entry ''infmsg_ubx_uart1'' infmsg_ubx_uart1,
      key_entry ''infmsg_ubx_uart2'' infmsg_ubx_uart2,
      key_entry ''infmsg_ubx_usb'' infmsg_ubx_usb,
      key_entry ''infmsg_ubx_spi'' infmsg_ubx_spi,
      key_entry ''infmsg_nmea_i2c'' infmsg_nmea_i2c,
      key_entry ''infmsg_nmea_uart1'' infmsg_nmea_uart1,
      key_entry ''infmsg_nmea_uart2'' infmsg_nmea_uart2,
      key_entry ''infmsg_nmea_usb'' infmsg_nmea_usb,
      key_entry ''infmsg_nmea_spi'' infmsg_nmea_spi]"

definition keys_itfm :: "key_info list" where
  "keys_itfm =
     [key_entry ''itfm_bbthreshold'' itfm_bbthreshold,
      key_entry ''itfm_cwthreshold'' itfm_cwthreshold,
      key_entry ''itfm_enable'' itfm_enable,
      key_entry ''itfm_antsetting'' itfm_antsetting,
      key_entry ''itfm_enable_aux'' itfm_enable_aux]"

definition keys_logfilter :: "key_info list" where
  "keys_logfilter =
     [key_entry ''logfilter_record_ena'' logfilter_record_ena,
      key_entry ''logfilter_once_per_wake_up_ena'' logfilter_once_per_wake_up_ena,
      key_entry ''logfilter_apply_all_filters'' logfilter_apply_all_filters,
      key_entry ''logfilter_min_interval'' logfilter_min_interval,
      key_entry ''logfilter_time_thrs'' logfilter_time_thrs,
      key_entry ''logfilter_speed_thrs'' logfilter_speed_thrs,
      key_entry ''logfilter_position_thrs'' logfilter_position_thrs]"

definition keys_mot :: "key_info list" where
  "keys_mot =
     [key_entry ''mot_gnssspeed_thrs'' mot_gnssspeed_thrs,
      key_entry ''mot_gnssdist_thrs'' mot_gnssdist_thrs]"

definition keys_msgout_nmea :: "key_info list" where
  "keys_msgout_nmea =
     [key_entry ''msgout_nmea_id_dtm_i2c'' msgout_nmea_id_dtm_i2c,
      key_entry ''msgout_nmea_id_dtm_spi'' msgout_nmea_id_dtm_spi,
      key_entry ''msgout_nmea_id_dtm_uart1'' msgout_nmea_id_dtm_uart1,
      key_entry ''msgout_nmea_id_dtm_uart2'' msgout_nmea_id_dtm_uart2,
      key_entry ''msgout_nmea_id_dtm_usb'' msgout_nmea_id_dtm_usb,
      key_entry ''msgout_nmea_id_gbs_i2c'' msgout_nmea_id_gbs_i2c,
      key_entry ''msgout_nmea_id_gbs_spi'' msgout_nmea_id_gbs_spi,
      key_entry ''msgout_nmea_id_gbs_uart1'' msgout_nmea_id_gbs_uart1,
      key_entry ''msgout_nmea_id_gbs_uart2'' msgout_nmea_id_gbs_uart2,
      key_entry ''msgout_nmea_id_gbs_usb'' msgout_nmea_id_gbs_usb,
      key_entry ''msgout_nmea_id_gga_i2c'' msgout_nmea_id_gga_i2c,
      key_entry ''msgout_nmea_id_gga_spi'' msgout_nmea_id_gga_spi,
      key_entry ''msgout_nmea_id_gga_uart1'' msgout_nmea_id_gga_uart1,
      key_entry ''msgout_nmea_id_gga_uart2'' msgout_nmea_id_gga_uart2,
      key_entry ''msgout_nmea_id_gga_usb'' msgout_nmea_id_gga_usb,
      key_entry ''msgout_nmea_id_gll_i2c'' msgout_nmea_id_gll_i2c,
      key_entry ''msgout_nmea_id_gll_spi'' msgout_nmea_id_gll_spi,
      key_entry ''msgout_nmea_id_gll_uart1'' msgout_nmea_id_gll_uart1,
      key_entry ''msgout_nmea_id_gll_uart2'' msgout_nmea_id_gll_uart2,
      key_entry ''msgout_nmea_id_gll_usb'' msgout_nmea_id_gll_usb,
      key_entry ''msgout_nmea_id_gns_i2c'' msgout_nmea_id_gns_i2c,
      key_entry ''msgout_nmea_id_gns_spi'' msgout_nmea_id_gns_spi,
      key_entry ''msgout_nmea_id_gns_uart1'' msgout_nmea_id_gns_uart1,
      key_entry ''msgout_nmea_id_gns_uart2'' msgout_nmea_id_gns_uart2,
      key_entry ''msgout_nmea_id_gns_usb'' msgout_nmea_id_gns_usb,
      key_entry ''msgout_nmea_id_grs_i2c'' msgout_nmea_id_grs_i2c,
      key_entry ''msgout_nmea_id_grs_spi'' msgout_nmea_id_grs_spi,
      key_entry ''msgout_nmea_id_grs_uart1'' msgout_nmea_id_grs_uart1,
      key_entry ''msgout_nmea_id_grs_uart2'' msgout_nmea_id_grs_uart2,
      key_entry ''msgout_nmea_id_grs_usb'' msgout_nmea_id_grs_usb,
      key_entry ''msgout_nmea_id_gsa_i2c'' msgout_nmea_id_gsa_i2c,
      key_entry ''msgout_nmea_id_gsa_spi'' msgout_nmea_id_gsa_spi,
      key_entry ''msgout_nmea_id_gsa_uart1'' msgout_nmea_id_gsa_uart1,
      key_entry ''msgout_nmea_id_gsa_uart2'' msgout_nmea_id_gsa_uart2,
      key_entry ''msgout_nmea_id_gsa_usb'' msgout_nmea_id_gsa_usb,
      key_entry ''msgout_nmea_id_gst_i2c'' msgout_nmea_id_gst_i2c,
      key_entry ''msgout_nmea_id_gst_spi'' msgout_nmea_id_gst_spi,
      key_entry ''msgout_nmea_id_gst_uart1'' msgout_nmea_id_gst_uart1,
      key_entry ''msgout_nmea_id_gst_uart2'' msgout_nmea_id_gst_uart2,
      key_entry ''msgout_nmea_id_gst_usb'' msgout_nmea_id_gst_usb,
      key_entry ''msgout_nmea_id_gsv_i2c'' msgout_nmea_id_gsv_i2c,
      key_entry ''msgout_nmea_id_gsv_spi'' msgout_nmea_id_gsv_spi,
      key_entry ''msgout_nmea_id_gsv_uart1'' msgout_nmea_id_gsv_uart1,
      key_entry ''msgout_nmea_id_gsv_uart2'' msgout_nmea_id_gsv_uart2,
      key_entry ''msgout_nmea_id_gsv_usb'' msgout_nmea_id_gsv_usb,
      key_entry ''msgout_nmea_id_rlm_i2c'' msgout_nmea_id_rlm_i2c,
      key_entry ''msgout_nmea_id_rlm_spi'' msgout_nmea_id_rlm_spi,
      key_entry ''msgout_nmea_id_rlm_uart1'' msgout_nmea_id_rlm_uart1,
      key_entry ''msgout_nmea_id_rlm_uart2'' msgout_nmea_id_rlm_uart2,
      key_entry ''msgout_nmea_id_rlm_usb'' msgout_nmea_id_rlm_usb,
      key_entry ''msgout_nmea_id_rmc_i2c'' msgout_nmea_id_rmc_i2c,
      key_entry ''msgout_nmea_id_rmc_spi'' msgout_nmea_id_rmc_spi,
      key_entry ''msgout_nmea_id_rmc_uart1'' msgout_nmea_id_rmc_uart1,
      key_entry ''msgout_nmea_id_rmc_uart2'' msgout_nmea_id_rmc_uart2,
      key_entry ''msgout_nmea_id_rmc_usb'' msgout_nmea_id_rmc_usb,
      key_entry ''msgout_nmea_id_vlw_i2c'' msgout_nmea_id_vlw_i2c,
      key_entry ''msgout_nmea_id_vlw_spi'' msgout_nmea_id_vlw_spi,
      key_entry ''msgout_nmea_id_vlw_uart1'' msgout_nmea_id_vlw_uart1,
      key_entry ''msgout_nmea_id_vlw_uart2'' msgout_nmea_id_vlw_uart2,
      key_entry ''msgout_nmea_id_vlw_usb'' msgout_nmea_id_vlw_usb,
      key_entry ''msgout_nmea_id_vtg_i2c'' msgout_nmea_id_vtg_i2c,
      key_entry ''msgout_nmea_id_vtg_spi'' msgout_nmea_id_vtg_spi,
      key_entry ''msgout_nmea_id_vtg_uart1'' msgout_nmea_id_vtg_uart1,
      key_entry ''msgout_nmea_id_vtg_uart2'' msgout_nmea_id_vtg_uart2,
      key_entry ''msgout_nmea_id_vtg_usb'' msgout_nmea_id_vtg_usb,
      key_entry ''msgout_nmea_id_zda_i2c'' msgout_nmea_id_zda_i2c,
      key_entry ''msgout_nmea_id_zda_spi'' msgout_nmea_id_zda_spi,
      key_entry ''msgout_nmea_id_zda_uart1'' msgout_nmea_id_zda_uart1,
      key_entry ''msgout_nmea_id_zda_uart2'' msgout_nmea_id_zda_uart2,
      key_entry ''msgout_nmea_id_zda_usb'' msgout_nmea_id_zda_usb]"

definition keys_msgout_nmea_nav2 :: "key_info list" where
  "keys_msgout_nmea_nav2 =
     [key_entry ''msgout_nmea_nav2_id_gga_i2c'' msgout_nmea_nav2_id_gga_i2c,
      key_entry ''msgout_nmea_nav2_id_gga_spi'' msgout_nmea_nav2_id_gga_spi,
      key_entry ''msgout_nmea_nav2_id_gga_uart1'' msgout_nmea_nav2_id_gga_uart1,
      key_entry ''msgout_nmea_nav2_id_gga_uart2'' msgout_nmea_nav2_id_gga_uart2,
      key_entry ''msgout_nmea_nav2_id_gga_usb'' msgout_nmea_nav2_id_gga_usb,
      key_entry ''msgout_nmea_nav2_id_gll_i2c'' msgout_nmea_nav2_id_gll_i2c,
      key_entry ''msgout_nmea_nav2_id_gll_spi'' msgout_nmea_nav2_id_gll_spi,
      key_entry ''msgout_nmea_nav2_id_gll_uart1'' msgout_nmea_nav2_id_gll_uart1,
      key_entry ''msgout_nmea_nav2_id_gll_uart2'' msgout_nmea_nav2_id_gll_uart2,
      key_entry ''msgout_nmea_nav2_id_gll_usb'' msgout_nmea_nav2_id_gll_usb,
      key_entry ''msgout_nmea_nav2_id_gns_i2c'' msgout_nmea_nav2_id_gns_i2c,
      key_entry ''msgout_nmea_nav2_id_gns_spi'' msgout_nmea_nav2_id_gns_spi,
      key_entry ''msgout_nmea_nav2_id_gns_uart1'' msgout_nmea_nav2_id_gns_uart1,
      key_entry ''msgout_nmea_nav2_id_gns_uart2'' msgout_nmea_nav2_id_gns_uart2,
      key_entry ''msgout_nmea_nav2_id_gns_usb'' msgout_nmea_nav2_id_gns_usb,
      key_entry ''msgout_nmea_nav2_id_gsa_i2c'' msgout_nmea_nav2_id_gsa_i2c,
      key_entry ''msgout_nmea_nav2_id_gsa_spi'' msgout_nmea_nav2_id_gsa_spi,
      key_entry ''msgout_nmea_nav2_id_gsa_uart1'' msgout_nmea_nav2_id_gsa_uart1,
      key_entry ''msgout_nmea_nav2_id_gsa_uart2'' msgout_nmea_nav2_id_gsa_uart2,
      key_entry ''msgout_nmea_nav2_id_gsa_usb'' msgout_nmea_nav2_id_gsa_usb,
      key_entry ''msgout_nmea_nav2_id_rmc_i2c'' msgout_nmea_nav2_id_rmc_i2c,
      key_entry ''msgout_nmea_nav2_id_rmc_spi'' msgout_nmea_nav2_id_rmc_spi,
      key_entry ''msgout_nmea_nav2_id_rmc_uart1'' msgout_nmea_nav2_id_rmc_uart1,
      key_entry ''msgout_nmea_nav2_id_rmc_uart2'' msgout_nmea_nav2_id_rmc_uart2,
      key_entry ''msgout_nmea_nav2_id_rmc_usb'' msgout_nmea_nav2_id_rmc_usb,
      key_entry ''msgout_nmea_nav2_id_vtg_i2c'' msgout_nmea_nav2_id_vtg_i2c,
      key_entry ''msgout_nmea_nav2_id_vtg_spi'' msgout_nmea_nav2_id_vtg_spi,
      key_entry ''msgout_nmea_nav2_id_vtg_uart1'' msgout_nmea_nav2_id_vtg_uart1,
      key_entry ''msgout_nmea_nav2_id_vtg_uart2'' msgout_nmea_nav2_id_vtg_uart2,
      key_entry ''msgout_nmea_nav2_id_vtg_usb'' msgout_nmea_nav2_id_vtg_usb,
      key_entry ''msgout_nmea_nav2_id_zda_i2c'' msgout_nmea_nav2_id_zda_i2c,
      key_entry ''msgout_nmea_nav2_id_zda_spi'' msgout_nmea_nav2_id_zda_spi,
      key_entry ''msgout_nmea_nav2_id_zda_uart1'' msgout_nmea_nav2_id_zda_uart1,
      key_entry ''msgout_nmea_nav2_id_zda_uart2'' msgout_nmea_nav2_id_zda_uart2,
      key_entry ''msgout_nmea_nav2_id_zda_usb'' msgout_nmea_nav2_id_zda_usb]"

definition keys_msgout_pubx :: "key_info list" where
  "keys_msgout_pubx =
     [key_entry ''msgout_pubx_id_polyp_i2c'' msgout_pubx_id_polyp_i2c,
      key_entry ''msgout_pubx_id_polyp_spi'' msgout_pubx_id_polyp_spi,
      key_entry ''msgout_pubx_id_polyp_uart1'' msgout_pubx_id_polyp_uart1,
      key_entry ''msgout_pubx_id_polyp_uart2'' msgout_pubx_id_polyp_uart2,
      key_entry ''msgout_pubx_id_polyp_usb'' msgout_pubx_id_polyp_usb,
      key_entry ''msgout_pubx_id_polys_i2c'' msgout_pubx_id_polys_i2c,
      key_entry ''msgout_pubx_id_polys_spi'' msgout_pubx_id_polys_spi,
      key_entry ''msgout_pubx_id_polys_uart1'' msgout_pubx_id_polys_uart1,
      key_entry ''msgout_pubx_id_polys_uart2'' msgout_pubx_id_polys_uart2,
      key_entry ''msgout_pubx_id_polys_usb'' msgout_pubx_id_polys_usb,
      key_entry ''msgout_pubx_id_polyt_i2c'' msgout_pubx_id_polyt_i2c,
      key_entry ''msgout_pubx_id_polyt_spi'' msgout_pubx_id_polyt_spi,
      key_entry ''msgout_pubx_id_polyt_uart1'' msgout_pubx_id_polyt_uart1,
      key_entry ''msgout_pubx_id_polyt_uart2'' msgout_pubx_id_polyt_uart2,
      key_entry ''msgout_pubx_id_polyt_usb'' msgout_pubx_id_polyt_usb]"

definition keys_msgout_rtcm :: "key_info list" where
  "keys_msgout_rtcm =
     [key_entry ''msgout_rtcm_3x_type1005_i2c'' msgout_rtcm_3x_type1005_i2c,
      key_entry ''msgout_rtcm_3x_type1005_spi'' msgout_rtcm_3x_type1005_spi,
      key_entry ''msgout_rtcm_3x_type1005_uart1'' msgout_rtcm_3x_type1005_uart1,
      key_entry ''msgout_rtcm_3x_type1005_uart2'' msgout_rtcm_3x_type1005_uart2,
      key_entry ''msgout_rtcm_3x_type1005_usb'' msgout_rtcm_3x_type1005_usb,
      key_entry ''msgout_rtcm_3x_type1074_i2c'' msgout_rtcm_3x_type1074_i2c,
      key_entry ''msgout_rtcm_3x_type1074_spi'' msgout_rtcm_3x_type1074_spi,
      key_entry ''msgout_rtcm_3x_type1074_uart1'' msgout_rtcm_3x_type1074_uart1,
      key_entry ''msgout_rtcm_3x_type1074_uart2'' msgout_rtcm_3x_type1074_uart2,
      key_entry ''msgout_rtcm_3x_type1074_usb'' msgout_rtcm_3x_type1074_usb,
      key_entry ''msgout_rtcm_3x_type1077_i2c'' msgout_rtcm_3x_type1077_i2c,
      key_entry ''msgout_rtcm_3x_type1077_spi'' msgout_rtcm_3x_type1077_spi,
      key_entry ''msgout_rtcm_3x_type1077_uart1'' msgout_rtcm_3x_type1077_uart1,
      key_entry ''msgout_rtcm_3x_type1077_uart2'' msgout_rtcm_3x_type1077_uart2,
      key_entry ''msgout_rtcm_3x_type1077_usb'' msgout_rtcm_3x_type1077_usb,
      key_entry ''msgout_rtcm_3x_type1084_i2c'' msgout_rtcm_3x_type1084_i2c,
      key_entry ''msgout_rtcm_3x_type1084_spi'' msgout_rtcm_3x_type1084_spi,
      key_entry ''msgout_rtcm_3x_type1084_uart1'' msgout_rtcm_3x_type1084_uart1,
      key_entry ''msgout_rtcm_3x_type1084_uart2'' msgout_rtcm_3x_type1084_uart2,
      key_entry ''msgout_rtcm_3x_type1084_usb'' msgout_rtcm_3x_type1084_usb,
      key_entry ''msgout_rtcm_3x_type1087_i2c'' msgout_rtcm_3x_type1087_i2c,
      key_entry ''msgout_rtcm_3x_type1087_spi'' msgout_rtcm_3x_type1087_spi,
      key_entry ''msgout_rtcm_3x_type1087_uart1'' msgout_rtcm_3x_type1087_uart1,
      key_entry ''msgout_rtcm_3x_type1087_uart2'' msgout_rtcm_3x_type1087_uart2,
      key_entry ''msgout_rtcm_3x_type1087_usb'' msgout_rtcm_3x_type1087_usb,
      key_entry ''msgout_rtcm_3x_type1094_i2c'' msgout_rtcm_3x_type1094_i2c,
      key_entry ''msgout_rtcm_3x_type1094_spi'' msgout_rtcm_3x_type1094_spi,
      key_entry ''msgout_rtcm_3x_type1094_uart1'' msgout_rtcm_3x_type1094_uart1,
      key_entry ''msgout_rtcm_3x_type1094_uart2'' msgout_rtcm_3x_type1094_uart2,
      key_entry ''msgout_rtcm_3x_type1094_usb'' msgout_rtcm_3x_type1094_usb,
      key_entry ''msgout_rtcm_3x_type1097_i2c'' msgout_rtcm_3x_type1097_i2c,
      key_entry ''msgout_rtcm_3x_type1097_spi'' msgout_rtcm_3x_type1097_spi,
      key_entry ''msgout_rtcm_3x_type1097_uart1'' msgout_rtcm_3x_type1097_uart1,
      key_entry ''msgout_rtcm_3x_type1097_uart2'' msgout_rtcm_3x_type1097_uart2,
      key_entry ''msgout_rtcm_3x_type1097_usb'' msgout_rtcm_3x_type1097_usb,
      key_entry ''msgout_rtcm_3x_type1124_i2c'' msgout_rtcm_3x_type1124_i2c,
      key_entry ''msgout_rtcm_3x_type1124_spi'' msgout_rtcm_3x_type1124_spi,
      key_entry ''msgout_rtcm_3x_type1124_uart1'' msgout_rtcm_3x_type1124_uart1,
      key_entry ''msgout_rtcm_3x_type1124_uart2'' msgout_rtcm_3x_type1124_uart2,
      key_entry ''msgout_rtcm_3x_type1124_usb'' msgout_rtcm_3x_type1124_usb,
      key_entry ''msgout_rtcm_3x_type1127_i2c'' msgout_rtcm_3x_type1127_i2c,
      key_entry ''msgout_rtcm_3x_type1127_spi'' msgout_rtcm_3x_type1127_spi,
      key_entry ''msgout_rtcm_3x_type1127_uart1'' msgout_rtcm_3x_type1127_uart1,
      key_entry ''msgout_rtcm_3x_type1127_uart2'' msgout_rtcm_3x_type1127_uart2,
      key_entry ''msgout_rtcm_3x_type1127_usb'' msgout_rtcm_3x_type1127_usb,
      key_entry ''msgout_rtcm_3x_type1230_i2c'' msgout_rtcm_3x_type1230_i2c,
      key_entry ''msgout_rtcm_3x_type1230_spi'' msgout_rtcm_3x_type1230_spi,
      key_entry ''msgout_rtcm_3x_type1230_uart1'' msgout_rtcm_3x_type1230_uart1,
      key_entry ''msgout_rtcm_3x_type1230_uart2'' msgout_rtcm_3x_type1230_uart2,
      key_entry ''msgout_rtcm_3x_type1230_usb'' msgout_rtcm_3x_type1230_usb,
      key_entry ''msgout_rtcm_3x_type4072_0_i2c'' msgout_rtcm_3x_type4072_0_i2c,
      key_entry ''msgout_rtcm_3x_type4072_0_spi'' msgout_rtcm_3x_type4072_0_spi,
      key_entry ''msgout_rtcm_3x_type4072_0_uart1'' msgout_rtcm_3x_type4072_0_uart1,
      key_entry ''msgout_rtcm_3x_type4072_0_uart2'' msgout_rtcm_3x_type4072_0_uart2]"

definition keys_msgout_ubx_esf :: "key_info list" where
  "keys_msgout_ubx_esf =
     [key_entry ''msgout_ubx_esf_alg_i2c'' msgout_ubx_esf_alg_i2c,
      key_entry ''msgout_ubx_esf_alg_spi'' msgout_ubx_esf_alg_spi,
      key_entry ''msgout_ubx_esf_alg_uart1'' msgout_ubx_esf_alg_uart1,
      key_entry ''msgout_ubx_esf_alg_uart2'' msgout_ubx_esf_alg_uart2,
      key_entry ''msgout_ubx_esf_alg_usb'' msgout_ubx_esf_alg_usb,
      key_entry ''msgout_ubx_esf_ins_i2c'' msgout_ubx_esf_ins_i2c,
      key_entry ''msgout_ubx_esf_ins_spi'' msgout_ubx_esf_ins_spi,
      key_entry ''msgout_ubx_esf_ins_uart1'' msgout_ubx_esf_ins_uart1,
      key_entry ''msgout_ubx_esf_ins_uart2'' msgout_ubx_esf_ins_uart2,
      key_entry ''msgout_ubx_esf_ins_usb'' msgout_ubx_esf_ins_usb,
      key_entry ''msgout_ubx_esf_meas_i2c'' msgout_ubx_esf_meas_i2c,
      key_entry ''msgout_ubx_esf_meas_spi'' msgout_ubx_esf_meas_spi,
      key_entry ''msgout_ubx_esf_meas_uart1'' msgout_ubx_esf_meas_uart1,
      key_entry ''msgout_ubx_esf_meas_uart2'' msgout_ubx_esf_meas_uart2,
      key_entry ''msgout_ubx_esf_meas_usb'' msgout_ubx_esf_meas_usb,
      key_entry ''msgout_ubx_esf_raw_i2c'' msgout_ubx_esf_raw_i2c,
      key_entry ''msgout_ubx_esf_raw_spi'' msgout_ubx_esf_raw_spi,
      key_entry ''msgout_ubx_esf_raw_uart1'' msgout_ubx_esf_raw_uart1,
      key_entry ''msgout_ubx_esf_raw_uart2'' msgout_ubx_esf_raw_uart2,
      key_entry ''msgout_ubx_esf_raw_usb'' msgout_ubx_esf_raw_usb,
      key_entry ''msgout_ubx_esf_status_i2c'' msgout_ubx_esf_status_i2c,
      key_entry ''msgout_ubx_esf_status_spi'' msgout_ubx_esf_status_spi,
      key_entry ''msgout_ubx_esf_status_uart1'' msgout_ubx_esf_status_uart1,
      key_entry ''msgout_ubx_esf_status_uart2'' msgout_ubx_esf_status_uart2,
      key_entry ''msgout_ubx_esf_status_usb'' msgout_ubx_esf_status_usb]"

definition keys_msgout_ubx_log :: "key_info list" where
  "keys_msgout_ubx_log =
     [key_entry ''msgout_ubx_log_info_i2c'' msgout_ubx_log_info_i2c,
      key_entry ''msgout_ubx_log_info_spi'' msgout_ubx_log_info_spi,
      key_entry ''msgout_ubx_log_info_uart1'' msgout_ubx_log_info_uart1,
      key_entry ''msgout_ubx_log_info_uart2'' msgout_ubx_log_info_uart2,
      key_entry ''msgout_ubx_log_info_usb'' msgout_ubx_log_info_usb]"

definition keys_msgout_ubx_mon :: "key_info list" where
  "keys_msgout_ubx_mon =
     [key_entry ''msgout_ubx_mon_comms_i2c'' msgout_ubx_mon_comms_i2c,
      key_entry ''msgout_ubx_mon_comms_spi'' msgout_ubx_mon_comms_spi,
      key_entry ''msgout_ubx_mon_comms_uart1'' msgout_ubx_mon_comms_uart1,
      key_entry ''msgout_ubx_mon_comms_uart2'' msgout_ubx_mon_comms_uart2,
      key_entry ''msgout_ubx_mon_comms_usb'' msgout_ubx_mon_comms_usb,
      key_entry ''msgout_ubx_mon_hw2_i2c'' msgout_ubx_mon_hw2_i2c,
      key_entry ''msgout_ubx_mon_hw2_spi'' msgout_ubx_mon_hw2_spi,
      key_entry ''msgout_ubx_mon_hw2_uart1'' msgout_ubx_mon_hw2_uart1,
      key_entry ''msgout_ubx_mon_hw2_uart2'' msgout_ubx_mon_hw2_uart2,
      key_entry ''msgout_ubx_mon_hw2_usb'' msgout_ubx_mon_hw2_usb,
      key_entry ''msgout_ubx_mon_hw3_i2c'' msgout_ubx_mon_hw3_i2c,
      key_entry ''msgout_ubx_mon_hw3_spi'' msgout_ubx_mon_hw3_spi,
      key_entry ''msgout_ubx_mon_hw3_uart1'' msgout_ubx_mon_hw3_uart1,
      key_entry ''msgout_ubx_mon_hw3_uart2'' msgout_ubx_mon_hw3_uart2,
      key_entry ''msgout_ubx_mon_hw3_usb'' msgout_ubx_mon_hw3_usb,
      key_entry ''msgout_ubx_mon_hw_i2c'' msgout_ubx_mon_hw_i2c,
      key_entry ''msgout_ubx_mon_hw_spi'' msgout_ubx_mon_hw_spi,
      key_entry ''msgout_ubx_mon_hw_uart1'' msgout_ubx_mon_hw_uart1,
      key_entry ''msgout_ubx_mon_hw_uart2'' msgout_ubx_mon_hw_uart2,
      key_entry ''msgout_ubx_mon_hw_usb'' msgout_ubx_mon_hw_usb,
      key_entry ''msgout_ubx_mon_io_i2c'' msgout_ubx_mon_io_i2c,
      key_entry ''msgout_ubx_mon_io_spi'' msgout_ubx_mon_io_spi,
      key_entry ''msgout_ubx_mon_io_uart1'' msgout_ubx_mon_io_uart1,
      key_entry ''msgout_ubx_mon_io_uart2'' msgout_ubx_mon_io_uart2,
      key_entry ''msgout_ubx_mon_io_usb'' msgout_ubx_mon_io_usb,
      key_entry ''msgout_ubx_mon_msgpp_i2c'' msgout_ubx_mon_msgpp_i2c,
      key_entry ''msgout_ubx_mon_msgpp_spi'' msgout_ubx_mon_msgpp_spi,
      key_entry ''msgout_ubx_mon_msgpp_uart1'' msgout_ubx_mon_msgpp_uart1,
      key_entry ''msgout_ubx_mon_msgpp_uart2'' msgout_ubx_mon_msgpp_uart2,
      key_entry ''msgout_ubx_mon_msgpp_usb'' msgout_ubx_mon_msgpp_usb,
      key_entry ''msgout_ubx_mon_rf_i2c'' msgout_ubx_mon_rf_i2c,
      key_entry ''msgout_ubx_mon_rf_spi'' msgout_ubx_mon_rf_spi,
      key_entry ''msgout_ubx_mon_rf_uart1'' msgout_ubx_mon_rf_uart1,
      key_entry ''msgout_ubx_mon_rf_uart2'' msgout_ubx_mon_rf_uart2,
      key_entry ''msgout_ubx_mon_rf_usb'' msgout_ubx_mon_rf_usb,
      key_entry ''msgout_ubx_mon_rxbuf_i2c'' msgout_ubx_mon_rxbuf_i2c,
      key_entry ''msgout_ubx_mon_rxbuf_spi'' msgout_ubx_mon_rxbuf_spi,
      key_entry ''msgout_ubx_mon_rxbuf_uart1'' msgout_ubx_mon_rxbuf_uart1,
      key_entry ''msgout_ubx_mon_rxbuf_uart2'' msgout_ubx_mon_rxbuf_uart2,
      key_entry ''msgout_ubx_mon_rxbuf_usb'' msgout_ubx_mon_rxbuf_usb,
      key_entry ''msgout_ubx_mon_rxr_i2c'' msgout_ubx_mon_rxr_i2c,
      key_entry ''msgout_ubx_mon_rxr_spi'' msgout_ubx_mon_rxr_spi,
      key_entry ''msgout_ubx_mon_rxr_uart1'' msgout_ubx_mon_rxr_uart1,
      key_entry ''msgout_ubx_mon_rxr_uart2'' msgout_ubx_mon_rxr_uart2,
      key_entry ''msgout_ubx_mon_rxr_usb'' msgout_ubx_mon_rxr_usb,
      key_entry ''msgout_ubx_mon_span_i2c'' msgout_ubx_mon_span_i2c,
      key_entry ''msgout_ubx_mon_span_spi'' msgout_ubx_mon_span_spi,
      key_entry ''msgout_ubx_mon_span_uart1'' msgout_ubx_mon_span_uart1,
      key_entry ''msgout_ubx_mon_span_uart2'' msgout_ubx_mon_span_uart2,
      key_entry ''msgout_ubx_mon_span_usb'' msgout_ubx_mon_span_usb,
      key_entry ''msgout_ubx_mon_sys_i2c'' msgout_ubx_mon_sys_i2c,
      key_entry ''msgout_ubx_mon_sys_spi'' msgout_ubx_mon_sys_spi,
      key_entry ''msgout_ubx_mon_sys_uart1'' msgout_ubx_mon_sys_uart1,
      key_entry ''msgout_ubx_mon_sys_uart2'' msgout_ubx_mon_sys_uart2,
      key_entry ''msgout_ubx_mon_sys_usb'' msgout_ubx_mon_sys_usb,
      key_entry ''msgout_ubx_mon_txbuf_i2c'' msgout_ubx_mon_txbuf_i2c,
      key_entry ''msgout_ubx_mon_txbuf_spi'' msgout_ubx_mon_txbuf_spi,
      key_entry ''msgout_ubx_mon_txbuf_uart1'' msgout_ubx_mon_txbuf_uart1,
      key_entry ''msgout_ubx_mon_txbuf_uart2'' msgout_ubx_mon_txbuf_uart2,
      key_entry ''msgout_ubx_mon_txbuf_usb'' msgout_ubx_mon_txbuf_usb]"

definition keys_msgout_ubx_nav2 :: "key_info list" where
  "keys_msgout_ubx_nav2 =
     [key_entry ''msgout_ubx_nav2_clock_i2c'' msgout_ubx_nav2_clock_i2c,
      key_entry ''msgout_ubx_nav2_clock_spi'' msgout_ubx_nav2_clock_spi,
      key_entry ''msgout_ubx_nav2_clock_uart1'' msgout_ubx_nav2_clock_uart1,
      key_entry ''msgout_ubx_nav2_clock_uart2'' msgout_ubx_nav2_clock_uart2,
      key_entry ''msgout_ubx_nav2_clock_usb'' msgout_ubx_nav2_clock_usb,
      key_entry ''msgout_ubx_nav2_cov_i2c'' msgout_ubx_nav2_cov_i2c,
      key_entry ''msgout_ubx_nav2_cov_spi'' msgout_ubx_nav2_cov_spi,
      key_entry ''msgout_ubx_nav2_cov_uart1'' msgout_ubx_nav2_cov_uart1,
      key_entry ''msgout_ubx_nav2_cov_uart2'' msgout_ubx_nav2_cov_uart2,
      key_entry ''msgout_ubx_nav2_cov_usb'' msgout_ubx_nav2_cov_usb,
      key_entry ''msgout_ubx_nav2_dop_i2c'' msgout_ubx_nav2_dop_i2c,
      key_entry ''msgout_ubx_nav2_dop_spi'' msgout_ubx_nav2_dop_spi,
      key_entry ''msgout_ubx_nav2_dop_uart1'' msgout_ubx_nav2_dop_uart1,
      key_entry ''msgout_ubx_nav2_dop_uart2'' msgout_ubx_nav2_dop_uart2,
      key_entry ''msgout_ubx_nav2_dop_usb'' msgout_ubx_nav2_dop_usb,
      key_entry ''msgout_ubx_nav2_eoe_i2c'' msgout_ubx_nav2_eoe_i2c,
      key_entry ''msgout_ubx_nav2_eoe_spi'' msgout_ubx_nav2_eoe_spi,
      key_entry ''msgout_ubx_nav2_eoe_uart1'' msgout_ubx_nav2_eoe_uart1,
      key_entry ''msgout_ubx_nav2_eoe_uart2'' msgout_ubx_nav2_eoe_uart2,
      key_entry ''msgout_ubx_nav2_eoe_usb'' msgout_ubx_nav2_eoe_usb,
      key_entry ''msgout_ubx_nav2_odo_i2c'' msgout_ubx_nav2_odo_i2c,
      key_entry ''msgout_ubx_nav2_odo_spi'' msgout_ubx_nav2_odo_spi,
      key_entry ''msgout_ubx_nav2_odo_uart1'' msgout_ubx_nav2_odo_uart1,
      key_entry ''msgout_ubx_nav2_odo_uart2'' msgout_ubx_nav2_odo_uart2,
      key_entry ''msgout_ubx_nav2_odo_usb'' msgout_ubx_nav2_odo_usb,
      key_entry ''msgout_ubx_nav2_posecef_i2c'' msgout_ubx_nav2_posecef_i2c,
      key_entry ''msgout_ubx_nav2_posecef_spi'' msgout_ubx_nav2_posecef_spi,
      key_entry ''msgout_ubx_nav2_posecef_uart1'' msgout_ubx_nav2_posecef_uart1,
      key_entry ''msgout_ubx_nav2_posecef_uart2'' msgout_ubx_nav2_posecef_uart2,
      key_entry ''msgout_ubx_nav2_posecef_usb'' msgout_ubx_nav2_posecef_usb,
      key_entry ''msgout_ubx_nav2_posllh_i2c'' msgout_ubx_nav2_posllh_i2c,
      key_entry ''msgout_ubx_nav2_posllh_spi'' msgout_ubx_nav2_posllh_spi,
      key_entry ''msgout_ubx_nav2_posllh_uart1'' msgout_ubx_nav2_posllh_uart1,
      key_entry ''msgout_ubx_nav2_posllh_uart2'' msgout_ubx_nav2_posllh_uart2,
      key_entry ''msgout_ubx_nav2_posllh_usb'' msgout_ubx_nav2_posllh_usb,
      key_entry ''msgout_ubx_nav2_pvt_i2c'' msgout_ubx_nav2_pvt_i2c,
      key_entry ''msgout_ubx_nav2_pvt_spi'' msgout_ubx_nav2_pvt_spi,
      key_entry ''msgout_ubx_nav2_pvt_uart1'' msgout_ubx_nav2_pvt_uart1,
      key_entry ''msgout_ubx_nav2_pvt_uart2'' msgout_ubx_nav2_pvt_uart2,
      key_entry ''msgout_ubx_nav2_pvt_usb'' msgout_ubx_nav2_pvt_usb,
      key_entry ''msgout_ubx_nav2_sat_i2c'' msgout_ubx_nav2_sat_i2c,
      key_entry ''msgout_ubx_nav2_sat_spi'' msgout_ubx_nav2_sat_spi,
      key_entry ''msgout_ubx_nav2_sat_uart1'' msgout_ubx_nav2_sat_uart1,
      key_entry ''msgout_ubx_nav2_sat_uart2'' msgout_ubx_nav2_sat_uart2,
      key_entry ''msgout_ubx_nav2_sat_usb'' msgout_ubx_nav2_sat_usb,
      key_entry ''msgout_ubx_nav2_sbas_i2c'' msgout_ubx_nav2_sbas_i2c,
      key_entry ''msgout_ubx_nav2_sbas_spi'' msgout_ubx_nav2_sbas_spi,
      key_entry ''msgout_ubx_nav2_sbas_uart1'' msgout_ubx_nav2_sbas_uart1,
      key_entry ''msgout_ubx_nav2_sbas_uart2'' msgout_ubx_nav2_sbas_uart2,
      key_entry ''msgout_ubx_nav2_sbas_usb'' msgout_ubx_nav2_sbas_usb,
      key_entry ''msgout_ubx_nav2_sig_i2c'' msgout_ubx_nav2_sig_i2c,
      key_entry ''msgout_ubx_nav2_sig_spi'' msgout_ubx_nav2_sig_spi,
      key_entry ''msgout_ubx_nav2_sig_uart1'' msgout_ubx_nav2_sig_uart1,
      key_entry ''msgout_ubx_nav2_sig_uart2'' msgout_ubx_nav2_sig_uart2,
      key_entry ''msgout_ubx_nav2_sig_usb'' msgout_ubx_nav2_sig_usb,
      key_entry ''msgout_ubx_nav2_slas_i2c'' msgout_ubx_nav2_slas_i2c,
      key_entry ''msgout_ubx_nav2_slas_spi'' msgout_ubx_nav2_slas_spi,
      key_entry ''msgout_ubx_nav2_slas_uart1'' msgout_ubx_nav2_slas_uart1,
      key_entry ''msgout_ubx_nav2_slas_uart2'' msgout_ubx_nav2_slas_uart2,
      key_entry ''msgout_ubx_nav2_slas_usb'' msgout_ubx_nav2_slas_usb,
      key_entry ''msgout_ubx_nav2_status_i2c'' msgout_ubx_nav2_status_i2c,
      key_entry ''msgout_ubx_nav2_status_spi'' msgout_ubx_nav2_status_spi,
      key_entry ''msgout_ubx_nav2_status_uart1'' msgout_ubx_nav2_status_uart1,
      key_entry ''msgout_ubx_nav2_status_uart2'' msgout_ubx_nav2_status_uart2,
      key_entry ''msgout_ubx_nav2_status_usb'' msgout_ubx_nav2_status_usb,
      key_entry ''msgout_ubx_nav2_svin_i2c'' msgout_ubx_nav2_svin_i2c,
      key_entry ''msgout_ubx_nav2_svin_spi'' msgout_ubx_nav2_svin_spi,
      key_entry ''msgout_ubx_nav2_svin_uart1'' msgout_ubx_nav2_svin_uart1,
      key_entry ''msgout_ubx_nav2_svin_uart2'' msgout_ubx_nav2_svin_uart2,
      key_entry ''msgout_ubx_nav2_svin_usb'' msgout_ubx_nav2_svin_usb,
      key_entry ''msgout_ubx_nav2_timebds_i2c'' msgout_ubx_nav2_timebds_i2c,
      key_entry ''msgout_ubx_nav2_timebds_spi'' msgout_ubx_nav2_timebds_spi,
      key_entry ''msgout_ubx_nav2_timebds_uart1'' msgout_ubx_nav2_timebds_uart1,
      key_entry ''msgout_ubx_nav2_timebds_uart2'' msgout_ubx_nav2_timebds_uart2,
      key_entry ''msgout_ubx_nav2_timebds_usb'' msgout_ubx_nav2_timebds_usb,
      key_entry ''msgout_ubx_nav2_timegal_i2c'' msgout_ubx_nav2_timegal_i2c,
      key_entry ''msgout_ubx_nav2_timegal_spi'' msgout_ubx_nav2_timegal_spi,
      key_entry ''msgout_ubx_nav2_timegal_uart1'' msgout_ubx_nav2_timegal_uart1,
      key_entry ''msgout_ubx_nav2_timegal_uart2'' msgout_ubx_nav2_timegal_uart2,
      key_entry ''msgout_ubx_nav2_timegal_usb'' msgout_ubx_nav2_timegal_usb,
      key_entry ''msgout_ubx_nav2_timeglo_i2c'' msgout_ubx_nav2_timeglo_i2c,
      key_entry ''msgout_ubx_nav2_timeglo_spi'' msgout_ubx_nav2_timeglo_spi,
      key_entry ''msgout_ubx_nav2_timeglo_uart1'' msgout_ubx_nav2_timeglo_uart1,
      key_entry ''msgout_ubx_nav2_timeglo_uart2'' msgout_ubx_nav2_timeglo_uart2,
      key_entry ''msgout_ubx_nav2_timeglo_usb'' msgout_ubx_nav2_timeglo_usb,
      key_entry ''msgout_ubx_nav2_timegps_i2c'' msgout_ubx_nav2_timegps_i2c,
      key_entry ''msgout_ubx_nav2_timegps_spi'' msgout_ubx_nav2_timegps_spi,
      key_entry ''msgout_ubx_nav2_timegps_uart1'' msgout_ubx_nav2_timegps_uart1,
      key_entry ''msgout_ubx_nav2_timegps_uart2'' msgout_ubx_nav2_timegps_uart2,
      key_entry ''msgout_ubx_nav2_timegps_usb'' msgout_ubx_nav2_timegps_usb,
      key_entry ''msgout_ubx_nav2_timels_i2c'' msgout_ubx_nav2_timels_i2c,
      key_entry ''msgout_ubx_nav2_timels_spi'' msgout_ubx_nav2_timels_spi,
      key_entry ''msgout_ubx_nav2_timels_uart1'' msgout_ubx_nav2_timels_uart1,
      key_entry ''msgout_ubx_nav2_timels_uart2'' msgout_ubx_nav2_timels_uart2,
      key_entry ''msgout_ubx_nav2_timels_usb'' msgout_ubx_nav2_timels_usb,
      key_entry ''msgout_ubx_nav2_timeqzss_i2c'' msgout_ubx_nav2_timeqzss_i2c,
      key_entry ''msgout_ubx_nav2_timeqzss_spi'' msgout_ubx_nav2_timeqzss_spi,
      key_entry ''msgout_ubx_nav2_timeqzss_uart1'' msgout_ubx_nav2_timeqzss_uart1,
      key_entry ''msgout_ubx_nav2_timeqzss_uart2'' msgout_ubx_nav2_timeqzss_uart2,
      key_entry ''msgout_ubx_nav2_timeqzss_usb'' msgout_ubx_nav2_timeqzss_usb,
      key_entry ''msgout_ubx_nav2_timeutc_i2c'' msgout_ubx_nav2_timeutc_i2c,
      key_entry ''msgout_ubx_nav2_timeutc_spi'' msgout_ubx_nav2_timeutc_spi,
      key_entry ''msgout_ubx_nav2_timeutc_uart1'' msgout_ubx_nav2_timeutc_uart1,
      key_entry ''msgout_ubx_nav2_timeutc_uart2'' msgout_ubx_nav2_timeutc_uart2,
      key_entry ''msgout_ubx_nav2_timeutc_usb'' msgout_ubx_nav2_timeutc_usb,
      key_entry ''msgout_ubx_nav2_velecef_i2c'' msgout_ubx_nav2_velecef_i2c,
      key_entry ''msgout_ubx_nav2_velecef_spi'' msgout_ubx_nav2_velecef_spi,
      key_entry ''msgout_ubx_nav2_velecef_uart1'' msgout_ubx_nav2_velecef_uart1,
      key_entry ''msgout_ubx_nav2_velecef_uart2'' msgout_ubx_nav2_velecef_uart2,
      key_entry ''msgout_ubx_nav2_velecef_usb'' msgout_ubx_nav2_velecef_usb,
      key_entry ''msgout_ubx_nav2_velned_i2c'' msgout_ubx_nav2_velned_i2c,
      key_entry ''msgout_ubx_nav2_velned_spi'' msgout_ubx_nav2_velned_spi,
      key_entry ''msgout_ubx_nav2_velned_uart1'' msgout_ubx_nav2_velned_uart1,
      key_entry ''msgout_ubx_nav2_velned_uart2'' msgout_ubx_nav2_velned_uart2,
      key_entry ''msgout_ubx_nav2_velned_usb'' msgout_ubx_nav2_velned_usb]"

definition keys_msgout_ubx_nav_1 :: "key_info list" where
  "keys_msgout_ubx_nav_1 =
     [key_entry ''msgout_ubx_nav_att_i2c'' msgout_ubx_nav_att_i2c,
      key_entry ''msgout_ubx_nav_att_spi'' msgout_ubx_nav_att_spi,
      key_entry ''msgout_ubx_nav_att_uart1'' msgout_ubx_nav_att_uart1,
      key_entry ''msgout_ubx_nav_att_uart2'' msgout_ubx_nav_att_uart2,
      key_entry ''msgout_ubx_nav_att_usb'' msgout_ubx_nav_att_usb,
      key_entry ''msgout_ubx_nav_aopstatus_i2c'' msgout_ubx_nav_aopstatus_i2c,
      key_entry ''msgout_ubx_nav_aopstatus_spi'' msgout_ubx_nav_aopstatus_spi,
      key_entry ''msgout_ubx_nav_aopstatus_uart1'' msgout_ubx_nav_aopstatus_uart1,
      key_entry ''msgout_ubx_nav_aopstatus_uart2'' msgout_ubx_nav_aopstatus_uart2,
      key_entry ''msgout_ubx_nav_aopstatus_usb'' msgout_ubx_nav_aopstatus_usb,
      key_entry ''msgout_ubx_nav_clock_i2c'' msgout_ubx_nav_clock_i2c,
      key_entry ''msgout_ubx_nav_clock_spi'' msgout_ubx_nav_clock_spi,
      key_entry ''msgout_ubx_nav_clock_uart1'' msgout_ubx_nav_clock_uart1,
      key_entry ''msgout_ubx_nav_clock_uart2'' msgout_ubx_nav_clock_uart2,
      key_entry ''msgout_ubx_nav_clock_usb'' msgout_ubx_nav_clock_usb,
      key_entry ''msgout_ubx_nav_cov_i2c'' msgout_ubx_nav_cov_i2c,
      key_entry ''msgout_ubx_nav_cov_spi'' msgout_ubx_nav_cov_spi,
      key_entry ''msgout_ubx_nav_cov_uart1'' msgout_ubx_nav_cov_uart1,
      key_entry ''msgout_ubx_nav_cov_uart2'' msgout_ubx_nav_cov_uart2,
      key_entry ''msgout_ubx_nav_cov_usb'' msgout_ubx_nav_cov_usb,
      key_entry ''msgout_ubx_nav_dop_i2c'' msgout_ubx_nav_dop_i2c,
      key_entry ''msgout_ubx_nav_dop_spi'' msgout_ubx_nav_dop_spi,
      key_entry ''msgout_ubx_nav_dop_uart1'' msgout_ubx_nav_dop_uart1,
      key_entry ''msgout_ubx_nav_dop_uart2'' msgout_ubx_nav_dop_uart2,
      key_entry ''msgout_ubx_nav_dop_usb'' msgout_ubx_nav_dop_usb,
      key_entry ''msgout_ubx_nav_eell_i2c'' msgout_ubx_nav_eell_i2c,
      key_entry ''msgout_ubx_nav_eell_spi'' msgout_ubx_nav_eell_spi,
      key_entry ''msgout_ubx_nav_eell_uart1'' msgout_ubx_nav_eell_uart1,
      key_entry ''msgout_ubx_nav_eell_uart2'' msgout_ubx_nav_eell_uart2,
      key_entry ''msgout_ubx_nav_eell_usb'' msgout_ubx_nav_eell_usb,
      key_entry ''msgout_ubx_nav_eoe_i2c'' msgout_ubx_nav_eoe_i2c,
      key_entry ''msgout_ubx_nav_eoe_spi'' msgout_ubx_nav_eoe_spi,
      key_entry ''msgout_ubx_nav_eoe_uart1'' msgout_ubx_nav_eoe_uart1,
      key_entry ''msgout_ubx_nav_eoe_uart2'' msgout_ubx_nav_eoe_uart2,
      key_entry ''msgout_ubx_nav_eoe_usb'' msgout_ubx_nav_eoe_usb,
      key_entry ''msgout_ubx_nav_geofence_i2c'' msgout_ubx_nav_geofence_i2c,
      key_entry ''msgout_ubx_nav_geofence_spi'' msgout_ubx_nav_geofence_spi,
      key_entry ''msgout_ubx_nav_geofence_uart1'' msgout_ubx_nav_geofence_uart1,
      key_entry ''msgout_ubx_nav_geofence_uart2'' msgout_ubx_nav_geofence_uart2,
      key_entry ''msgout_ubx_nav_geofence_usb'' msgout_ubx_nav_geofence_usb,
      key_entry ''msgout_ubx_nav_hpposecef_i2c'' msgout_ubx_nav_hpposecef_i2c,
      key_entry ''msgout_ubx_nav_hpposecef_spi'' msgout_ubx_nav_hpposecef_spi,
      key_entry ''msgout_ubx_nav_hpposecef_uart1'' msgout_ubx_nav_hpposecef_uart1,
      key_entry ''msgout_ubx_nav_hpposecef_uart2'' msgout_ubx_nav_hpposecef_uart2,
      key_entry ''msgout_ubx_nav_hpposecef_usb'' msgout_ubx_nav_hpposecef_usb,
      key_entry ''msgout_ubx_nav_hpposllh_i2c'' msgout_ubx_nav_hpposllh_i2c,
      key_entry ''msgout_ubx_nav_hpposllh_spi'' msgout_ubx_nav_hpposllh_spi,
      key_entry ''msgout_ubx_nav_hpposllh_uart1'' msgout_ubx_nav_hpposllh_uart1,
      key_entry ''msgout_ubx_nav_hpposllh_uart2'' msgout_ubx_nav_hpposllh_uart2,
      key_entry ''msgout_ubx_nav_hpposllh_usb'' msgout_ubx_nav_hpposllh_usb,
      key_entry ''msgout_ubx_nav_odo_i2c'' msgout_ubx_nav_odo_i2c,
      key_entry ''msgout_ubx_nav_odo_spi'' msgout_ubx_nav_odo_spi,
      key_entry ''msgout_ubx_nav_odo_uart1'' msgout_ubx_nav_odo_uart1,
      key_entry ''msgout_ubx_nav_odo_uart2'' msgout_ubx_nav_odo_uart2,
      key_entry ''msgout_ubx_nav_odo_usb'' msgout_ubx_nav_odo_usb,
      key_entry ''msgout_ubx_nav_orb_i2c'' msgout_ubx_nav_orb_i2c,
      key_entry ''msgout_ubx_nav_orb_spi'' msgout_ubx_nav_orb_spi,
      key_entry ''msgout_ubx_nav_orb_uart1'' msgout_ubx_nav_orb_uart1,
      key_entry ''msgout_ubx_nav_orb_uart2'' msgout_ubx_nav_orb_uart2,
      key_entry ''msgout_ubx_nav_orb_usb'' msgout_ubx_nav_orb_usb,
      key_entry ''msgout_ubx_nav_pl_i2c'' msgout_ubx_nav_pl_i2c,
      key_entry ''msgout_ubx_nav_pl_spi'' msgout_ubx_nav_pl_spi,
      key_entry ''msgout_ubx_nav_pl_uart1'' msgout_ubx_nav_pl_uart1,
      key_entry ''msgout_ubx_nav_pl_uart2'' msgout_ubx_nav_pl_uart2,
      key_entry ''msgout_ubx_nav_pl_usb'' msgout_ubx_nav_pl_usb,
      key_entry ''msgout_ubx_nav_posecef_i2c'' msgout_ubx_nav_posecef_i2c,
      key_entry ''msgout_ubx_nav_posecef_spi'' msgout_ubx_nav_posecef_spi,
      key_entry ''msgout_ubx_nav_posecef_uart1'' msgout_ubx_nav_posecef_uart1,
      key_entry ''msgout_ubx_nav_posecef_uart2'' msgout_ubx_nav_posecef_uart2,
      key_entry ''msgout_ubx_nav_posecef_usb'' msgout_ubx_nav_posecef_usb,
      key_entry ''msgout_ubx_nav_posllh_i2c'' msgout_ubx_nav_posllh_i2c,
      key_entry ''msgout_ubx_nav_posllh_spi'' msgout_ubx_nav_posllh_spi,
      key_entry ''msgout_ubx_nav_posllh_uart1'' msgout_ubx_nav_posllh_uart1,
      key_entry ''msgout_ubx_nav_posllh_uart2'' msgout_ubx_nav_posllh_uart2,
      key_entry ''msgout_ubx_nav_posllh_usb'' msgout_ubx_nav_posllh_usb,
      key_entry ''msgout_ubx_nav_pvt_i2c'' msgout_ubx_nav_pvt_i2c,
      key_entry ''msgout_ubx_nav_pvt_spi'' msgout_ubx_nav_pvt_spi,
      key_entry ''msgout_ubx_nav_pvt_uart1'' msgout_ubx_nav_pvt_uart1,
      key_entry ''msgout_ubx_nav_pvt_uart2'' msgout_ubx_nav_pvt_uart2,
      key_entry ''msgout_ubx_nav_pvt_usb'' msgout_ubx_nav_pvt_usb,
      key_entry ''msgout_ubx_nav_relposned_i2c'' msgout_ubx_nav_relposned_i2c,
      key_entry ''msgout_ubx_nav_relposned_spi'' msgout_ubx_nav_relposned_spi,
      key_entry ''msgout_ubx_nav_relposned_uart1'' msgout_ubx_nav_relposned_uart1,
      key_entry ''msgout_ubx_nav_relposned_uart2'' msgout_ubx_nav_relposned_uart2,
      key_entry ''msgout_ubx_nav_relposned_usb'' msgout_ubx_nav_relposned_usb,
      key_entry ''msgout_ubx_nav_sat_i2c'' msgout_ubx_nav_sat_i2c,
      key_entry ''msgout_ubx_nav_sat_spi'' msgout_ubx_nav_sat_spi,
      key_entry ''msgout_ubx_nav_sat_uart1'' msgout_ubx_nav_sat_uart1,
      key_entry ''msgout_ubx_nav_sat_uart2'' msgout_ubx_nav_sat_uart2,
      key_entry ''msgout_ubx_nav_sat_usb'' msgout_ubx_nav_sat_usb,
      key_entry ''msgout_ubx_nav_sbas_i2c'' msgout_ubx_nav_sbas_i2c,
      key_entry ''msgout_ubx_nav_sbas_spi'' msgout_ubx_nav_sbas_spi,
      key_entry ''msgout_ubx_nav_sbas_uart1'' msgout_ubx_nav_sbas_uart1,
      key_entry ''msgout_ubx_nav_sbas_uart2'' msgout_ubx_nav_sbas_uart2,
      key_entry ''msgout_ubx_nav_sbas_usb'' msgout_ubx_nav_sbas_usb,
      key_entry ''msgout_ubx_nav_sig_i2c'' msgout_ubx_nav_sig_i2c,
      key_entry ''msgout_ubx_nav_sig_spi'' msgout_ubx_nav_sig_spi,
      key_entry ''msgout_ubx_nav_sig_uart1'' msgout_ubx_nav_sig_uart1,
      key_entry ''msgout_ubx_nav_sig_uart2'' msgout_ubx_nav_sig_uart2,
      key_entry ''msgout_ubx_nav_sig_usb'' msgout_ubx_nav_sig_usb,
      key_entry ''msgout_ubx_nav_slas_i2c'' msgout_ubx_nav_slas_i2c,
      key_entry ''msgout_ubx_nav_slas_spi'' msgout_ubx_nav_slas_spi,
      key_entry ''msgout_ubx_nav_slas_uart1'' msgout_ubx_nav_slas_uart1,
      key_entry ''msgout_ubx_nav_slas_uart2'' msgout_ubx_nav_slas_uart2,
      key_entry ''msgout_ubx_nav_slas_usb'' msgout_ubx_nav_slas_usb,
      key_entry ''msgout_ubx_nav_status_i2c'' msgout_ubx_nav_status_i2c,
      key_entry ''msgout_ubx_nav_status_spi'' msgout_ubx_nav_status_spi,
      key_entry ''msgout_ubx_nav_status_uart1'' msgout_ubx_nav_status_uart1,
      key_entry ''msgout_ubx_nav_status_uart2'' msgout_ubx_nav_status_uart2,
      key_entry ''msgout_ubx_nav_status_usb'' msgout_ubx_nav_status_usb,
      key_entry ''msgout_ubx_nav_svin_i2c'' msgout_ubx_nav_svin_i2c,
      key_entry ''msgout_ubx_nav_svin_spi'' msgout_ubx_nav_svin_spi,
      key_entry ''msgout_ubx_nav_svin_uart1'' msgout_ubx_nav_svin_uart1,
      key_entry ''msgout_ubx_nav_svin_uart2'' msgout_ubx_nav_svin_uart2,
      key_entry ''msgout_ubx_nav_svin_usb'' msgout_ubx_nav_svin_usb,
      key_entry ''msgout_ubx_nav_timebds_i2c'' msgout_ubx_nav_timebds_i2c,
      key_entry ''msgout_ubx_nav_timebds_spi'' msgout_ubx_nav_timebds_spi,
      key_entry ''msgout_ubx_nav_timebds_uart1'' msgout_ubx_nav_timebds_uart1,
      key_entry ''msgout_ubx_nav_timebds_uart2'' msgout_ubx_nav_timebds_uart2,
      key_entry ''msgout_ubx_nav_timebds_usb'' msgout_ubx_nav_timebds_usb,
      key_entry ''msgout_ubx_nav_timegal_i2c'' msgout_ubx_nav_timegal_i2c,
      key_entry ''msgout_ubx_nav_timegal_spi'' msgout_ubx_nav_timegal_spi,
      key_entry ''msgout_ubx_nav_timegal_uart1'' msgout_ubx_nav_timegal_uart1,
      key_entry ''msgout_ubx_nav_timegal_uart2'' msgout_ubx_nav_timegal_uart2,
      key_entry ''msgout_ubx_nav_timegal_usb'' msgout_ubx_nav_timegal_usb,
      key_entry ''msgout_ubx_nav_timeglo_i2c'' msgout_ubx_nav_timeglo_i2c,
      key_entry ''msgout_ubx_nav_timeglo_spi'' msgout_ubx_nav_timeglo_spi,
      key_entry ''msgout_ubx_nav_timeglo_uart1'' msgout_ubx_nav_timeglo_uart1,
      key_entry ''msgout_ubx_nav_timeglo_uart2'' msgout_ubx_nav_timeglo_uart2,
      key_entry ''msgout_ubx_nav_timeglo_usb'' msgout_ubx_nav_timeglo_usb,
      key_entry ''msgout_ubx_nav_timegps_i2c'' msgout_ubx_nav_timegps_i2c,
      key_entry ''msgout_ubx_nav_timegps_spi'' msgout_ubx_nav_timegps_spi,
      key_entry ''msgout_ubx_nav_timegps_uart1'' msgout_ubx_nav_timegps_uart1,
      key_entry ''msgout_ubx_nav_timegps_uart2'' msgout_ubx_nav_timegps_uart2,
      key_entry ''msgout_ubx_nav_timegps_usb'' msgout_ubx_nav_timegps_usb,
      key_entry ''msgout_ubx_nav_timels_i2c'' msgout_ubx_nav_timels_i2c,
      key_entry ''msgout_ubx_nav_timels_spi'' msgout_ubx_nav_timels_spi,
      key_entry ''msgout_ubx_nav_timels_uart1'' msgout_ubx_nav_timels_uart1,
      key_entry ''msgout_ubx_nav_timels_uart2'' msgout_ubx_nav_timels_uart2,
      key_entry ''msgout_ubx_nav_timels_usb'' msgout_ubx_nav_timels_usb]"

definition keys_msgout_ubx_nav_2 :: "key_info list" where
  "keys_msgout_ubx_nav_2 =
     [key_entry ''msgout_ubx_nav_timeqzss_i2c'' msgout_ubx_nav_timeqzss_i2c,
      key_entry ''msgout_ubx_nav_timeqzss_spi'' msgout_ubx_nav_timeqzss_spi,
      key_entry ''msgout_ubx_nav_timeqzss_uart1'' msgout_ubx_nav_timeqzss_uart1,
      key_entry ''msgout_ubx_nav_timeqzss_uart2'' msgout_ubx_nav_timeqzss_uart2,
      key_entry ''msgout_ubx_nav_timeqzss_usb'' msgout_ubx_nav_timeqzss_usb,
      key_entry ''msgout_ubx_nav_timeutc_i2c'' msgout_ubx_nav_timeutc_i2c,
      key_entry ''msgout_ubx_nav_timeutc_spi'' msgout_ubx_nav_timeutc_spi,
      key_entry ''msgout_ubx_nav_timeutc_uart1'' msgout_ubx_nav_timeutc_uart1,
      key_entry ''msgout_ubx_nav_timeutc_uart2'' msgout_ubx_nav_timeutc_uart2,
      key_entry ''msgout_ubx_nav_timeutc_usb'' msgout_ubx_nav_timeutc_usb,
      key_entry ''msgout_ubx_nav_velecef_i2c'' msgout_ubx_nav_velecef_i2c,
      key_entry ''msgout_ubx_nav_velecef_spi'' msgout_ubx_nav_velecef_spi,
      key_entry ''msgout_ubx_nav_velecef_uart1'' msgout_ubx_nav_velecef_uart1,
      key_entry ''msgout_ubx_nav_velecef_uart2'' msgout_ubx_nav_velecef_uart2,
      key_entry ''msgout_ubx_nav_velecef_usb'' msgout_ubx_nav_velecef_usb,
      key_entry ''msgout_ubx_nav_velned_i2c'' msgout_ubx_nav_velned_i2c,
      key_entry ''msgout_ubx_nav_velned_spi'' msgout_ubx_nav_velned_spi,
      key_entry ''msgout_ubx_nav_velned_uart1'' msgout_ubx_nav_velned_uart1,
      key_entry ''msgout_ubx_nav_velned_uart2'' msgout_ubx_nav_velned_uart2,
      key_entry ''msgout_ubx_nav_velned_usb'' msgout_ubx_nav_velned_usb]"

definition keys_msgout_ubx_rxm :: "key_info list" where
  "keys_msgout_ubx_rxm =
     [key_entry ''msgout_ubx_rxm_cor_i2c'' msgout_ubx_rxm_cor_i2c,
      key_entry ''msgout_ubx_rxm_cor_spi'' msgout_ubx_rxm_cor_spi,
      key_entry ''msgout_ubx_rxm_cor_uart1'' msgout_ubx_rxm_cor_uart1,
      key_entry ''msgout_ubx_rxm_cor_uart2'' msgout_ubx_rxm_cor_uart2,
      key_entry ''msgout_ubx_rxm_cor_usb'' msgout_ubx_rxm_cor_usb,
      key_entry ''msgout_ubx_rxm_measx_i2c'' msgout_ubx_rxm_measx_i2c,
      key_entry ''msgout_ubx_rxm_measx_spi'' msgout_ubx_rxm_measx_spi,
      key_entry ''msgout_ubx_rxm_measx_uart1'' msgout_ubx_rxm_measx_uart1,
      key_entry ''msgout_ubx_rxm_measx_uart2'' msgout_ubx_rxm_measx_uart2,
      key_entry ''msgout_ubx_rxm_measx_usb'' msgout_ubx_rxm_measx_usb,
      key_entry ''msgout_ubx_rxm_pmp_i2c'' msgout_ubx_rxm_pmp_i2c,
      key_entry ''msgout_ubx_rxm_pmp_spi'' msgout_ubx_rxm_pmp_spi,
      key_entry ''msgout_ubx_rxm_pmp_uart1'' msgout_ubx_rxm_pmp_uart1,
      key_entry ''msgout_ubx_rxm_pmp_uart2'' msgout_ubx_rxm_pmp_uart2,
      key_entry ''msgout_ubx_rxm_pmp_usb'' msgout_ubx_rxm_pmp_usb,
      key_entry ''msgout_ubx_rxm_qzssl6_uart1'' msgout_ubx_rxm_qzssl6_uart1,
      key_entry ''msgout_ubx_rxm_qzssl6_uart2'' msgout_ubx_rxm_qzssl6_uart2,
      key_entry ''msgout_ubx_rxm_qzssl6_usb'' msgout_ubx_rxm_qzssl6_usb,
      key_entry ''msgout_ubx_rxm_qzssl6_i2c'' msgout_ubx_rxm_qzssl6_i2c,
      key_entry ''msgout_ubx_rxm_qzssl6_spi'' msgout_ubx_rxm_qzssl6_spi,
      key_entry ''msgout_ubx_rxm_rawx_i2c'' msgout_ubx_rxm_rawx_i2c,
      key_entry ''msgout_ubx_rxm_rawx_spi'' msgout_ubx_rxm_rawx_spi,
      key_entry ''msgout_ubx_rxm_rawx_uart1'' msgout_ubx_rxm_rawx_uart1,
      key_entry ''msgout_ubx_rxm_rawx_uart2'' msgout_ubx_rxm_rawx_uart2,
      key_entry ''msgout_ubx_rxm_rawx_usb'' msgout_ubx_rxm_rawx_usb,
      key_entry ''msgout_ubx_rxm_rlm_i2c'' msgout_ubx_rxm_rlm_i2c,
      key_entry ''msgout_ubx_rxm_rlm_spi'' msgout_ubx_rxm_rlm_spi,
      key_entry ''msgout_ubx_rxm_rlm_uart1'' msgout_ubx_rxm_rlm_uart1,
      key_entry ''msgout_ubx_rxm_rlm_uart2'' msgout_ubx_rxm_rlm_uart2,
      key_entry ''msgout_ubx_rxm_rlm_usb'' msgout_ubx_rxm_rlm_usb,
      key_entry ''msgout_ubx_rxm_rtc5_i2c'' msgout_ubx_rxm_rtc5_i2c,
      key_entry ''msgout_ubx_rxm_rtc5_spi'' msgout_ubx_rxm_rtc5_spi,
      key_entry ''msgout_ubx_rxm_rtc5_uart1'' msgout_ubx_rxm_rtc5_uart1,
      key_entry ''msgout_ubx_rxm_rtc5_uart2'' msgout_ubx_rxm_rtc5_uart2,
      key_entry ''msgout_ubx_rxm_rtc5_usb'' msgout_ubx_rxm_rtc5_usb,
      key_entry ''msgout_ubx_rxm_rtcm_i2c'' msgout_ubx_rxm_rtcm_i2c,
      key_entry ''msgout_ubx_rxm_rtcm_spi'' msgout_ubx_rxm_rtcm_spi,
      key_entry ''msgout_ubx_rxm_rtcm_uart1'' msgout_ubx_rxm_rtcm_uart1,
      key_entry ''msgout_ubx_rxm_rtcm_uart2'' msgout_ubx_rxm_rtcm_uart2,
      key_entry ''msgout_ubx_rxm_rtcm_usb'' msgout_ubx_rxm_rtcm_usb,
      key_entry ''msgout_ubx_rxm_sfrbx_i2c'' msgout_ubx_rxm_sfrbx_i2c,
      key_entry ''msgout_ubx_rxm_sfrbx_spi'' msgout_ubx_rxm_sfrbx_spi,
      key_entry ''msgout_ubx_rxm_sfrbx_uart1'' msgout_ubx_rxm_sfrbx_uart1,
      key_entry ''msgout_ubx_rxm_sfrbx_uart2'' msgout_ubx_rxm_sfrbx_uart2,
      key_entry ''msgout_ubx_rxm_sfrbx_usb'' msgout_ubx_rxm_sfrbx_usb,
      key_entry ''msgout_ubx_rxm_spartn_i2c'' msgout_ubx_rxm_spartn_i2c,
      key_entry ''msgout_ubx_rxm_spartn_spi'' msgout_ubx_rxm_spartn_spi,
      key_entry ''msgout_ubx_rxm_spartn_uart1'' msgout_ubx_rxm_spartn_uart1,
      key_entry ''msgout_ubx_rxm_spartn_uart2'' msgout_ubx_rxm_spartn_uart2,
      key_entry ''msgout_ubx_rxm_spartn_usb'' msgout_ubx_rxm_spartn_usb,
      key_entry ''msgout_ubx_rxm_tm_i2c'' msgout_ubx_rxm_tm_i2c,
      key_entry ''msgout_ubx_rxm_tm_spi'' msgout_ubx_rxm_tm_spi,
      key_entry ''msgout_ubx_rxm_tm_uart1'' msgout_ubx_rxm_tm_uart1,
      key_entry ''msgout_ubx_rxm_tm_uart2'' msgout_ubx_rxm_tm_uart2,
      key_entry ''msgout_ubx_rxm_tm_usb'' msgout_ubx_rxm_tm_usb]"

definition keys_msgout_ubx_sec :: "key_info list" where
  "keys_msgout_ubx_sec =
     [key_entry ''msgout_ubx_sec_crc_i2c'' msgout_ubx_sec_crc_i2c,
      key_entry ''msgout_ubx_sec_crc_spi'' msgout_ubx_sec_crc_spi,
      key_entry ''msgout_ubx_sec_crc_uart1'' msgout_ubx_sec_crc_uart1,
      key_entry ''msgout_ubx_sec_crc_uart2'' msgout_ubx_sec_crc_uart2,
      key_entry ''msgout_ubx_sec_crc_usb'' msgout_ubx_sec_crc_usb,
      key_entry ''msgout_ubx_sec_sig_i2c'' msgout_ubx_sec_sig_i2c,
      key_entry ''msgout_ubx_sec_sig_spi'' msgout_ubx_sec_sig_spi,
      key_entry ''msgout_ubx_sec_sig_uart1'' msgout_ubx_sec_sig_uart1,
      key_entry ''msgout_ubx_sec_sig_uart2'' msgout_ubx_sec_sig_uart2,
      key_entry ''msgout_ubx_sec_sig_usb'' msgout_ubx_sec_sig_usb,
      key_entry ''msgout_ubx_sec_siglog_i2c'' msgout_ubx_sec_siglog_i2c,
      key_entry ''msgout_ubx_sec_siglog_spi'' msgout_ubx_sec_siglog_spi,
      key_entry ''msgout_ubx_sec_siglog_uart1'' msgout_ubx_sec_siglog_uart1,
      key_entry ''msgout_ubx_sec_siglog_uart2'' msgout_ubx_sec_siglog_uart2,
      key_entry ''msgout_ubx_sec_siglog_usb'' msgout_ubx_sec_siglog_usb]"

definition keys_msgout_ubx_tim :: "key_info list" where
  "keys_msgout_ubx_tim =
     [key_entry ''msgout_ubx_tim_tm2_i2c'' msgout_ubx_tim_tm2_i2c,
      key_entry ''msgout_ubx_tim_tm2_spi'' msgout_ubx_tim_tm2_spi,
      key_entry ''msgout_ubx_tim_tm2_uart1'' msgout_ubx_tim_tm2_uart1,
      key_entry ''msgout_ubx_tim_tm2_uart2'' msgout_ubx_tim_tm2_uart2,
      key_entry ''msgout_ubx_tim_tm2_usb'' msgout_ubx_tim_tm2_usb,
      key_entry ''msgout_ubx_tim_tp_i2c'' msgout_ubx_tim_tp_i2c,
      key_entry ''msgout_ubx_tim_tp_spi'' msgout_ubx_tim_tp_spi,
      key_entry ''msgout_ubx_tim_tp_uart1'' msgout_ubx_tim_tp_uart1,
      key_entry ''msgout_ubx_tim_tp_uart2'' msgout_ubx_tim_tp_uart2,
      key_entry ''msgout_ubx_tim_tp_usb'' msgout_ubx_tim_tp_usb,
      key_entry ''msgout_ubx_tim_vrfy_i2c'' msgout_ubx_tim_vrfy_i2c,
      key_entry ''msgout_ubx_tim_vrfy_spi'' msgout_ubx_tim_vrfy_spi,
      key_entry ''msgout_ubx_tim_vrfy_uart1'' msgout_ubx_tim_vrfy_uart1,
      key_entry ''msgout_ubx_tim_vrfy_uart2'' msgout_ubx_tim_vrfy_uart2,
      key_entry ''msgout_ubx_tim_vrfy_usb'' msgout_ubx_tim_vrfy_usb]"

definition keys_nav2 :: "key_info list" where
  "keys_nav2 =
     [key_entry ''nav2_out_enabled'' nav2_out_enabled,
      key_entry ''nav2_sbas_use_integrity'' nav2_sbas_use_integrity]"

definition keys_navhpg :: "key_info list" where
  "keys_navhpg =
     [key_entry ''navhpg_dgnssmode'' navhpg_dgnssmode]"

definition keys_navspg :: "key_info list" where
  "keys_navspg =
     [key_entry ''navspg_fixmode'' navspg_fixmode,
      key_entry ''navspg_inifix3d'' navspg_inifix3d,
      key_entry ''navspg_wknrollover'' navspg_wknrollover,
      key_entry ''navspg_use_ppp'' navspg_use_ppp,
      key_entry ''navspg_utcstandard'' navspg_utcstandard,
      key_entry ''navspg_dynmodel'' navspg_dynmodel,
      key_entry ''navspg_ackaiding'' navspg_ackaiding,
      key_entry ''navspg_usrdat'' navspg_usrdat,
      key_entry ''navspg_usrdat_maja'' navspg_usrdat_maja,
      key_entry ''navspg_usrdat_flat'' navspg_usrdat_flat,
      key_entry ''navspg_usrdat_dx'' navspg_usrdat_dx,
      key_entry ''navspg_usrdat_dy'' navspg_usrdat_dy,
      key_entry ''navspg_usrdat_dz'' navspg_usrdat_dz,
      key_entry ''navspg_usrdat_rotx'' navspg_usrdat_rotx,
      key_entry ''navspg_usrdat_roty'' navspg_usrdat_roty,
      key_entry ''navspg_usrdat_rotz'' navspg_usrdat_rotz,
      key_entry ''navspg_usrdat_scale'' navspg_usrdat_scale,
      key_entry ''navspg_infil_minsvs'' navspg_infil_minsvs,
      key_entry ''navspg_infil_maxsvs'' navspg_infil_maxsvs,
      key_entry ''navspg_infil_mincno'' navspg_infil_mincno,
      key_entry ''navspg_infil_minelev'' navspg_infil_minelev,
      key_entry ''navspg_infil_ncnothrs'' navspg_infil_ncnothrs,
      key_entry ''navspg_infil_cnothrs'' navspg_infil_cnothrs,
      key_entry ''navspg_outfil_pdop'' navspg_outfil_pdop,
      key_entry ''navspg_outfil_tdop'' navspg_outfil_tdop,
      key_entry ''navspg_outfil_pacc'' navspg_outfil_pacc,
      key_entry ''navspg_outfil_tacc'' navspg_outfil_tacc,
      key_entry ''navspg_outfil_facc'' navspg_outfil_facc,
      key_entry ''navspg_constr_alt'' navspg_constr_alt,
      key_entry ''navspg_constr_altvar'' navspg_constr_altvar,
      key_entry ''navspg_constr_dgnssto'' navspg_constr_dgnssto,
      key_entry ''navspg_sigattcomp'' navspg_sigattcomp,
      key_entry ''navspg_pl_ena'' navspg_pl_ena]"

definition keys_nmea :: "key_info list" where
  "keys_nmea =
     [key_entry ''nmea_protver'' nmea_protver,
      key_entry ''nmea_maxsvs'' nmea_maxsvs,
      key_entry ''nmea_compat'' nmea_compat,
      key_entry ''nmea_consider'' nmea_consider,
      key_entry ''nmea_limit82'' nmea_limit82,
      key_entry ''nmea_highprec'' nmea_highprec,
      key_entry ''nmea_svnumbering'' nmea_svnumbering,
      key_entry ''nmea_filt_gps'' nmea_filt_gps,
      key_entry ''nmea_filt_sbas'' nmea_filt_sbas,
      key_entry ''nmea_filt_gal'' nmea_filt_gal,
      key_entry ''nmea_filt_qzss'' nmea_filt_qzss,
      key_entry ''nmea_filt_glo'' nmea_filt_glo,
      key_entry ''nmea_filt_bds'' nmea_filt_bds,
      key_entry ''nmea_out_invfix'' nmea_out_invfix,
      key_entry ''nmea_out_mskfix'' nmea_out_mskfix,
      key_entry ''nmea_out_invtime'' nmea_out_invtime,
      key_entry ''nmea_out_invdate'' nmea_out_invdate,
      key_entry ''nmea_out_onlygps'' nmea_out_onlygps,
      key_entry ''nmea_out_frozencog'' nmea_out_frozencog,
      key_entry ''nmea_maintalkerid'' nmea_maintalkerid,
      key_entry ''nmea_gsvtalkerid'' nmea_gsvtalkerid,
      key_entry ''nmea_bdstalkerid'' nmea_bdstalkerid]"

definition keys_odo :: "key_info list" where
  "keys_odo =
     [key_entry ''odo_use_odo'' odo_use_odo,
      key_entry ''odo_use_cog'' odo_use_cog,
      key_entry ''odo_outlpvel'' odo_outlpvel,
      key_entry ''odo_outlpcog'' odo_outlpcog,
      key_entry ''odo_profile'' odo_profile,
      key_entry ''odo_cogmaxspeed'' odo_cogmaxspeed,
      key_entry ''odo_cogmaxposacc'' odo_cogmaxposacc,
      key_entry ''odo_vellpgain'' odo_vellpgain,
      key_entry ''odo_coglpgain'' odo_coglpgain]"

definition keys_pm :: "key_info list" where
  "keys_pm =
     [key_entry ''pm_operatemode'' pm_operatemode,
      key_entry ''pm_posupdateperiod'' pm_posupdateperiod,
      key_entry ''pm_acqperiod'' pm_acqperiod,
      key_entry ''pm_gridoffset'' pm_gridoffset,
      key_entry ''pm_ontime'' pm_ontime,
      key_entry ''pm_minfixacc'' pm_minfixacc,
      key_entry ''pm_donotenterhot'' pm_donotenterhot,
      key_entry ''pm_waittimefix'' pm_waittimefix,
      key_entry ''pm_updateeph'' pm_updateeph,
      key_entry ''pm_extintsel'' pm_extintsel,
      key_entry ''pm_extintwake'' pm_extintwake,
      key_entry ''pm_extintbackup'' pm_extintbackup,
      key_entry ''pm_extintinactive'' pm_extintinactive,
      key_entry ''pm_extintinactivity'' pm_extintinactivity,
      key_entry ''pm_limitpeakcurr'' pm_limitpeakcurr]"

definition keys_pmp :: "key_info list" where
  "keys_pmp =
     [key_entry ''pmp_center_frequency'' pmp_center_frequency,
      key_entry ''pmp_search_window'' pmp_search_window,
      key_entry ''pmp_use_service_id'' pmp_use_service_id,
      key_entry ''pmp_service_id'' pmp_service_id,
      key_entry ''pmp_data_rate'' pmp_data_rate,
      key_entry ''pmp_use_descrambler'' pmp_use_descrambler,
      key_entry ''pmp_descrambler_init'' pmp_descrambler_init,
      key_entry ''pmp_use_prescrambling'' pmp_use_prescrambling,
      key_entry ''pmp_unique_word'' pmp_unique_word]"

definition keys_qzss :: "key_info list" where
  "keys_qzss =
     [key_entry ''qzss_use_slas_dgnss'' qzss_use_slas_dgnss,
      key_entry ''qzss_use_slas_testmode'' qzss_use_slas_testmode,
      key_entry ''qzss_use_slas_raim_uncorr'' qzss_use_slas_raim_uncorr,
      key_entry ''qzss_slas_max_baseline'' qzss_slas_max_baseline,
      key_entry ''qzss_l6_svida'' qzss_l6_svida,
      key_entry ''qzss_l6_svidb'' qzss_l6_svidb,
      key_entry ''qzss_l6_msga'' qzss_l6_msga,
      key_entry ''qzss_l6_msgb'' qzss_l6_msgb,
      key_entry ''qzss_l6_rsdecoder'' qzss_l6_rsdecoder]"

definition keys_rate :: "key_info list" where
  "keys_rate =
     [key_entry ''rate_meas'' rate_meas,
      key_entry ''rate_nav'' rate_nav,
      key_entry ''rate_timeref'' rate_timeref,
      key_entry ''rate_nav_prio'' rate_nav_prio]"

definition keys_rinv :: "key_info list" where
  "keys_rinv =
     [key_entry ''rinv_dump'' rinv_dump,
      key_entry ''rinv_binary'' rinv_binary,
      key_entry ''rinv_data_size'' rinv_data_size,
      key_entry ''rinv_chunk0'' rinv_chunk0,
      key_entry ''rinv_chunk1'' rinv_chunk1,
      key_entry ''rinv_chunk2'' rinv_chunk2,
      key_entry ''rinv_chunk3'' rinv_chunk3]"

definition keys_rtcm :: "key_info list" where
  "keys_rtcm =
     [key_entry ''rtcm_df003_out'' rtcm_df003_out,
      key_entry ''rtcm_df003_in'' rtcm_df003_in,
      key_entry ''rtcm_df003_in_filter'' rtcm_df003_in_filter]"

definition keys_sbas :: "key_info list" where
  "keys_sbas =
     [key_entry ''sbas_use_testmode'' sbas_use_testmode,
      key_entry ''sbas_use_ranging'' sbas_use_ranging,
      key_entry ''sbas_use_diffcorr'' sbas_use_diffcorr,
      key_entry ''sbas_use_integrity'' sbas_use_integrity,
      key_entry ''sbas_prnscanmask'' sbas_prnscanmask]"

definition keys_sec :: "key_info list" where
  "keys_sec =
     [key_entry ''sec_cfg_lock'' sec_cfg_lock,
      key_entry ''sec_cfg_lock_unlockgrp1'' sec_cfg_lock_unlockgrp1,
      key_entry ''sec_cfg_lock_unlockgrp2'' sec_cfg_lock_unlockgrp2,
      key_entry ''sec_jamdet_sensitivity_hi'' sec_jamdet_sensitivity_hi]"

definition keys_sfcore :: "key_info list" where
  "keys_sfcore =
     [key_entry ''sfcore_use_sf'' sfcore_use_sf,
      key_entry ''sfcore_imu2crp_la_x'' sfcore_imu2crp_la_x,
      key_entry ''sfcore_imu2crp_la_y'' sfcore_imu2crp_la_y,
      key_entry ''sfcore_imu2crp_la_z'' sfcore_imu2crp_la_z,
      key_entry ''sfcore_sen_ttag_fact'' sfcore_sen_ttag_fact,
      key_entry ''sfcore_sen_ttag_max'' sfcore_sen_ttag_max,
      key_entry ''sfcore_outfil_pacc'' sfcore_outfil_pacc]"

definition keys_sfimu :: "key_info list" where
  "keys_sfimu =
     [key_entry ''sfimu_gyro_tc_update_period'' sfimu_gyro_tc_update_period,
      key_entry ''sfimu_gyro_rmsthdl'' sfimu_gyro_rmsthdl,
      key_entry ''sfimu_gyro_frequency'' sfimu_gyro_frequency,
      key_entry ''sfimu_gyro_latency'' sfimu_gyro_latency,
      key_entry ''sfimu_gyro_accuracy'' sfimu_gyro_accuracy,
      key_entry ''sfimu_accel_rmsthdl'' sfimu_accel_rmsthdl,
      key_entry ''sfimu_accel_frequency'' sfimu_accel_frequency,
      key_entry ''sfimu_accel_latency'' sfimu_accel_latency,
      key_entry ''sfimu_accel_accuracy'' sfimu_accel_accuracy,
      key_entry ''sfimu_imu_en'' sfimu_imu_en,
      key_entry ''sfimu_imu_i2c_scl_pio'' sfimu_imu_i2c_scl_pio,
      key_entry ''sfimu_imu_i2c_sda_pio'' sfimu_imu_i2c_sda_pio,
      key_entry ''sfimu_imu2ant_la_x'' sfimu_imu2ant_la_x,
      key_entry ''sfimu_imu2ant_la_y'' sfimu_imu2ant_la_y,
      key_entry ''sfimu_imu2ant_la_z'' sfimu_imu2ant_la_z,
      key_entry ''sfimu_auto_mntalg_ena'' sfimu_auto_mntalg_ena,
      key_entry ''sfimu_imu_mntalg_yaw'' sfimu_imu_mntalg_yaw,
      key_entry ''sfimu_imu_mntalg_pitch'' sfimu_imu_mntalg_pitch,
      key_entry ''sfimu_imu_mntalg_roll'' sfimu_imu_mntalg_roll]"

definition keys_sfodo :: "key_info list" where
  "keys_sfodo =
     [key_entry ''sfodo_combine_ticks'' sfodo_combine_ticks,
      key_entry ''sfodo_use_speed'' sfodo_use_speed,
      key_entry ''sfodo_dis_autocountmax'' sfodo_dis_autocountmax,
      key_entry ''sfodo_dis_autodirpinpol'' sfodo_dis_autodirpinpol,
      key_entry ''sfodo_dis_autospeed'' sfodo_dis_autospeed,
      key_entry ''sfodo_factor'' sfodo_factor,
      key_entry ''sfodo_quant_error'' sfodo_quant_error,
      key_entry ''sfodo_count_max'' sfodo_count_max,
      key_entry ''sfodo_latency'' sfodo_latency,
      key_entry ''sfodo_frequency'' sfodo_frequency,
      key_entry ''sfodo_cnt_both_edges'' sfodo_cnt_both_edges,
      key_entry ''sfodo_speed_band'' sfodo_speed_band,
      key_entry ''sfodo_use_wt_pin'' sfodo_use_wt_pin,
      key_entry ''sfodo_dir_pinpol'' sfodo_dir_pinpol,
      key_entry ''sfodo_dis_autosw'' sfodo_dis_autosw,
      key_entry ''sfodo_imu2vrp_la_x'' sfodo_imu2vrp_la_x,
      key_entry ''sfodo_imu2vrp_la_y'' sfodo_imu2vrp_la_y,
      key_entry ''sfodo_imu2vrp_la_z'' sfodo_imu2vrp_la_z,
      key_entry ''sfodo_trackgauge_rear'' sfodo_trackgauge_rear,
      key_entry ''sfodo_dis_dir_info'' sfodo_dis_dir_info]"

definition keys_signal :: "key_info list" where
  "keys_signal =
     [key_entry ''signal_gps_ena'' signal_gps_ena,
      key_entry ''signal_gps_l1ca_ena'' signal_gps_l1ca_ena,
      key_entry ''signal_gps_l2c_ena'' signal_gps_l2c_ena,
      key_entry ''signal_gps_l5_ena'' signal_gps_l5_ena,
      key_entry ''signal_sbas_ena'' signal_sbas_ena,
      key_entry ''signal_sbas_l1ca_ena'' signal_sbas_l1ca_ena,
      key_entry ''signal_gal_ena'' signal_gal_ena,
      key_entry ''signal_gal_e1_ena'' signal_gal_e1_ena,
      key_entry ''signal_gal_e5a_ena'' signal_gal_e5a_ena,
      key_entry ''signal_gal_e5b_ena'' signal_gal_e5b_ena,
      key_entry ''signal_bds_ena'' signal_bds_ena,
      key_entry ''signal_bds_b1_ena'' signal_bds_b1_ena,
      key_entry ''signal_bds_b2_ena'' signal_bds_b2_ena,
      key_entry ''signal_bds_b1c_ena'' signal_bds_b1c_ena,
      key_entry ''signal_bds_b2a_ena'' signal_bds_b2a_ena,
      key_entry ''signal_qzss_ena'' signal_qzss_ena,
      key_entry ''signal_qzss_l1ca_ena'' signal_qzss_l1ca_ena,
      key_entry ''signal_qzss_l1s_ena'' signal_qzss_l1s_ena,
      key_entry ''signal_qzss_l2c_ena'' signal_qzss_l2c_ena,
      key_entry ''signal_qzss_l5_ena'' signal_qzss_l5_ena,
      key_entry ''signal_glo_ena'' signal_glo_ena,
      key_entry ''signal_glo_l1_ena'' signal_glo_l1_ena,
      key_entry ''signal_glo_l2_ena'' signal_glo_l2_ena,
      key_entry ''signal_navic_ena'' signal_navic_ena,
      key_entry ''signal_navic_l5_ena'' signal_navic_l5_ena]"

definition keys_spartn :: "key_info list" where
  "keys_spartn =
     [key_entry ''spartn_use_source'' spartn_use_source]"

definition keys_spi :: "key_info list" where
  "keys_spi =
     [key_entry ''spi_maxff'' spi_maxff,
      key_entry ''spi_cpolarity'' spi_cpolarity,
      key_entry ''spi_cphase'' spi_cphase,
      key_entry ''spi_extendedtimeout'' spi_extendedtimeout,
      key_entry ''spi_enabled'' spi_enabled]"

definition keys_spiinprot :: "key_info list" where
  "keys_spiinprot =
     [key_entry ''spiinprot_ubx'' spiinprot_ubx,
      key_entry ''spiinprot_nmea'' spiinprot_nmea,
      key_entry ''spiinprot_rtcm3x'' spiinprot_rtcm3x,
      key_entry ''spiinprot_spartn'' spiinprot_spartn]"

definition keys_spioutprot :: "key_info list" where
  "keys_spioutprot =
     [key_entry ''spioutprot_ubx'' spioutprot_ubx,
      key_entry ''spioutprot_nmea'' spioutprot_nmea,
      key_entry ''spioutprot_rtcm3x'' spioutprot_rtcm3x]"

definition keys_tmode :: "key_info list" where
  "keys_tmode =
     [key_entry ''tmode_mode'' tmode_mode,
      key_entry ''tmode_pos_type'' tmode_pos_type,
      key_entry ''tmode_ecef_x'' tmode_ecef_x,
      key_entry ''tmode_ecef_y'' tmode_ecef_y,
      key_entry ''tmode_ecef_z'' tmode_ecef_z,
      key_entry ''tmode_ecef_x_hp'' tmode_ecef_x_hp,
      key_entry ''tmode_ecef_y_hp'' tmode_ecef_y_hp,
      key_entry ''tmode_ecef_z_hp'' tmode_ecef_z_hp,
      key_entry ''tmode_lat'' tmode_lat,
      key_entry ''tmode_lon'' tmode_lon,
      key_entry ''tmode_height'' tmode_height,
      key_entry ''tmode_lat_hp'' tmode_lat_hp,
      key_entry ''tmode_lon_hp'' tmode_lon_hp,
      key_entry ''tmode_height_hp'' tmode_height_hp,
      key_entry ''tmode_fixed_pos_acc'' tmode_fixed_pos_acc,
      key_entry ''tmode_svin_min_dur'' tmode_svin_min_dur,
      key_entry ''tmode_svin_acc_limit'' tmode_svin_acc_limit]"

definition keys_tp :: "key_info list" where
  "keys_tp =
     [key_entry ''tp_pulse_def'' tp_pulse_def,
      key_entry ''tp_pulse_length_def'' tp_pulse_length_def,
      key_entry ''tp_ant_cabledelay'' tp_ant_cabledelay,
      key_entry ''tp_period_tp1'' tp_period_tp1,
      key_entry ''tp_period_lock_tp1'' tp_period_lock_tp1,
      key_entry ''tp_freq_tp1'' tp_freq_tp1,
      key_entry ''tp_freq_lock_tp1'' tp_freq_lock_tp1,
      key_entry ''tp_len_tp1'' tp_len_tp1,
      key_entry ''tp_len_lock_tp1'' tp_len_lock_tp1,
      key_entry ''tp_duty_tp1'' tp_duty_tp1,
      key_entry ''tp_duty_lock_tp1'' tp_duty_lock_tp1,
      key_entry ''tp_user_delay_tp1'' tp_user_delay_tp1,
      key_entry ''tp_tp1_ena'' tp_tp1_ena,
      key_entry ''tp_sync_gnss_tp1'' tp_sync_gnss_tp1,
      key_entry ''tp_use_locked_tp1'' tp_use_locked_tp1,
      key_entry ''tp_align_to_tow_tp1'' tp_align_to_tow_tp1,
      key_entry ''tp_pol_tp1'' tp_pol_tp1,
      key_entry ''tp_timegrid_tp1'' tp_timegrid_tp1,
      key_entry ''tp_drstr_tp1'' tp_drstr_tp1,
      key_entry ''tp_period_tp2'' tp_period_tp2,
      key_entry ''tp_period_lock_tp2'' tp_period_lock_tp2,
      key_entry ''tp_freq_tp2'' tp_freq_tp2,
      key_entry ''tp_freq_lock_tp2'' tp_freq_lock_tp2,
      key_entry ''tp_len_tp2'' tp_len_tp2,
      key_entry ''tp_len_lock_tp2'' tp_len_lock_tp2,
      key_entry ''tp_duty_tp2'' tp_duty_tp2,
      key_entry ''tp_duty_lock_tp2'' tp_duty_lock_tp2,
      key_entry ''tp_user_delay_tp2'' tp_user_delay_tp2,
      key_entry ''tp_tp2_ena'' tp_tp2_ena,
      key_entry ''tp_sync_gnss_tp2'' tp_sync_gnss_tp2,
      key_entry ''tp_use_locked_tp2'' tp_use_locked_tp2,
      key_entry ''tp_align_to_tow_tp2'' tp_align_to_tow_tp2,
      key_entry ''tp_pol_tp2'' tp_pol_tp2,
      key_entry ''tp_timegrid_tp2'' tp_timegrid_tp2,
      key_entry ''tp_drstr_tp2'' tp_drstr_tp2]"

definition keys_txready :: "key_info list" where
  "keys_txready =
     [key_entry ''txready_enabled'' txready_enabled,
      key_entry ''txready_polarity'' txready_polarity,
      key_entry ''txready_pin'' txready_pin,
      key_entry ''txready_threshold'' txready_threshold,
      key_entry ''txready_interface'' txready_interface]"

definition keys_uart1 :: "key_info list" where
  "keys_uart1 =
     [key_entry ''uart1_baudrate'' uart1_baudrate,
      key_entry ''uart1_stopbits'' uart1_stopbits,
      key_entry ''uart1_databits'' uart1_databits,
      key_entry ''uart1_parity'' uart1_parity,
      key_entry ''uart1_enabled'' uart1_enabled]"

definition keys_uart1inprot :: "key_info list" where
  "keys_uart1inprot =
     [key_entry ''uart1inprot_ubx'' uart1inprot_ubx,
      key_entry ''uart1inprot_nmea'' uart1inprot_nmea,
      key_entry ''uart1inprot_rtcm3x'' uart1inprot_rtcm3x,
      key_entry ''uart1inprot_spartn'' uart1inprot_spartn]"

definition keys_uart1outprot :: "key_info list" where
  "keys_uart1outprot =
     [key_entry ''uart1outprot_ubx'' uart1outprot_ubx,
      key_entry ''uart1outprot_nmea'' uart1outprot_nmea,
      key_entry ''uart1outprot_rtcm3x'' uart1outprot_rtcm3x]"

definition keys_uart2 :: "key_info list" where
  "keys_uart2 =
     [key_entry ''uart2_baudrate'' uart2_baudrate,
      key_entry ''uart2_stopbits'' uart2_stopbits,
      key_entry ''uart2_databits'' uart2_databits,
      key_entry ''uart2_parity'' uart2_parity,
      key_entry ''uart2_enabled'' uart2_enabled]"

definition keys_uart2inprot :: "key_info list" where
  "keys_uart2inprot =
     [key_entry ''uart2inprot_ubx'' uart2inprot_ubx,
      key_entry ''uart2inprot_nmea'' uart2inprot_nmea,
      key_entry ''uart2inprot_rtcm3x'' uart2inprot_rtcm3x,
      key_entry ''uart2inprot_spartn'' uart2inprot_spartn]"

definition keys_uart2outprot :: "key_info list" where
  "keys_uart2outprot =
     [key_entry ''uart2outprot_ubx'' uart2outprot_ubx,
      key_entry ''uart2outprot_nmea'' uart2outprot_nmea,
      key_entry ''uart2outprot_rtcm3x'' uart2outprot_rtcm3x]"

definition keys_usb :: "key_info list" where
  "keys_usb =
     [key_entry ''usb_enabled'' usb_enabled,
      key_entry ''usb_selfpow'' usb_selfpow,
      key_entry ''usb_vendor_id'' usb_vendor_id,
      key_entry ''usb_product_id'' usb_product_id,
      key_entry ''usb_power'' usb_power,
      key_entry ''usb_vendor_str0'' usb_vendor_str0,
      key_entry ''usb_vendor_str1'' usb_vendor_str1,
      key_entry ''usb_vendor_str2'' usb_vendor_str2,
      key_entry ''usb_vendor_str3'' usb_vendor_str3,
      key_entry ''usb_product_str0'' usb_product_str0,
      key_entry ''usb_product_str1'' usb_product_str1,
      key_entry ''usb_product_str2'' usb_product_str2,
      key_entry ''usb_product_str3'' usb_product_str3,
      key_entry ''usb_serial_no_str0'' usb_serial_no_str0,
      key_entry ''usb_serial_no_str1'' usb_serial_no_str1,
      key_entry ''usb_serial_no_str2'' usb_serial_no_str2,
      key_entry ''usb_serial_no_str3'' usb_serial_no_str3]"

definition keys_usbinprot :: "key_info list" where
  "keys_usbinprot =
     [key_entry ''usbinprot_ubx'' usbinprot_ubx,
      key_entry ''usbinprot_nmea'' usbinprot_nmea,
      key_entry ''usbinprot_rtcm3x'' usbinprot_rtcm3x,
      key_entry ''usbinprot_spartn'' usbinprot_spartn]"

definition keys_usboutprot :: "key_info list" where
  "keys_usboutprot =
     [key_entry ''usboutprot_ubx'' usboutprot_ubx,
      key_entry ''usboutprot_nmea'' usboutprot_nmea,
      key_entry ''usboutprot_rtcm3x'' usboutprot_rtcm3x]"

definition keys_msgout_ubx_nav :: "key_info list" where
  "keys_msgout_ubx_nav = keys_msgout_ubx_nav_1 @ keys_msgout_ubx_nav_2"

definition s_key_table :: "key_info list" where
  "s_key_table =
     keys_ana @
     keys_batch @
     keys_bds @
     keys_geofence @
     keys_hw @
     keys_i2c @
     keys_i2cinprot @
     keys_i2coutprot @
     keys_infmsg @
     keys_itfm @
     keys_logfilter @
     keys_mot @
     keys_msgout_nmea @
     keys_msgout_nmea_nav2 @
     keys_msgout_pubx @
     keys_msgout_rtcm @
     keys_msgout_ubx_esf @
     keys_msgout_ubx_log @
     keys_msgout_ubx_mon @
     keys_msgout_ubx_nav2 @
     keys_msgout_ubx_nav @
     keys_msgout_ubx_rxm @
     keys_msgout_ubx_sec @
     keys_msgout_ubx_tim @
     keys_nav2 @
     keys_navhpg @
     keys_navspg @
     keys_nmea @
     keys_odo @
     keys_pm @
     keys_pmp @
     keys_qzss @
     keys_rate @
     keys_rinv @
     keys_rtcm @
     keys_sbas @
     keys_sec @
     keys_sfcore @
     keys_sfimu @
     keys_sfodo @
     keys_signal @
     keys_spartn @
     keys_spi @
     keys_spiinprot @
     keys_spioutprot @
     keys_tmode @
     keys_tp @
     keys_txready @
     keys_uart1 @
     keys_uart1inprot @
     keys_uart1outprot @
     keys_uart2 @
     keys_uart2inprot @
     keys_uart2outprot @
     keys_usb @
     keys_usbinprot @
     keys_usboutprot"

text \<open>
  A name is a C string, \<open>None\<close> the null pointer; the scan stops at the first entry that compares equal.
  \<open>Some k\<close> is the return value \<open>true\<close> with \<open>k\<close> in the output parameter.
\<close>

section \<open>The lookups\<close>

fun scan_names :: "key_info list \<Rightarrow> string \<Rightarrow> u32 option" where
  "scan_names [] nm = None"
| "scan_names (e # es) nm = (if key_name e = nm then Some (key_info_id e) else scan_names es nm)"

definition lookup_by_name :: "string option \<Rightarrow> u32 option" where
  "lookup_by_name nm = (case nm of None \<Rightarrow> None | Some s \<Rightarrow> scan_names s_key_table s)"

fun scan_ids :: "key_info list \<Rightarrow> u32 \<Rightarrow> string option" where
  "scan_ids [] k = None"
| "scan_ids (e # es) k = (if key_info_id e = k then Some (key_name e) else scan_ids es k)"

definition lookup_by_id :: "u32 \<Rightarrow> string option" where
  "lookup_by_id k = scan_ids s_key_table k"

definition table_size :: nat where
  "table_size = length s_key_table"

section \<open>Duplicate-free tables\<close>

text \<open>
  That no name and no identifier is listed twice is evaluated block by block: a block has a tag of
  its own, and within it a numeric code of the entries is sorted and compared neighbour by neighbour.
\<close>

fun merge_by :: "int list \<Rightarrow> int list \<Rightarrow> int list" where
  "merge_by [] ys = ys"
| "merge_by xs [] = xs"
| "merge_by (x # xs) (y # ys) = (if x < y then x # merge_by xs (y # ys) else y # merge_by (x # xs) ys)"

fun merge_pairs :: "int list list \<Rightarrow> int list list" where
  "merge_pairs (xs # ys # zss) = merge_by xs ys # merge_pairs zss"
| "merge_pairs zss = zss"

lemma length_merge_pairs [simp]: "length (merge_pairs xss) \<le> length xss"
  by (induction xss rule: merge_pairs.induct) simp_all

function merge_all :: "int list list \<Rightarrow> int list" where
  "merge_all [] = []"
| "merge_all [xs] = xs"
| "merge_all (xs # ys # zss) = merge_all (merge_pairs (xs # ys # zss))"
  by pat_completeness auto
termination
  by (relation "measure length") (auto simp: le_imp_less_Suc)

definition merge_sort :: "int list \<Rightarrow> int list" where
  "merge_sort xs = merge_all (map (\<lambda>x. [x]) xs)"

lemma mset_merge_by: "mset (merge_by xs ys) = mset xs + mset ys"
  by (induction xs ys rule: merge_by.induct) simp_all

lemma mset_merge_pairs: "mset (concat (merge_pairs xss)) = mset (concat xss)"
  by (induction xss rule: merge_pairs.induct) (auto simp: mset_merge_by)

lemma mset_merge_all: "mset (merge_all xss) = mset (concat xss)"
  by (induction xss rule: merge_all.induct) (simp_all add: mset_merge_by mset_merge_pairs)

lemma mset_merge_sort: "mset (merge_sort xs) = mset xs"
  by (simp add: merge_sort_def mset_merge_all)

definition no_duplicates :: "int list \<Rightarrow> bool" where
  "no_duplicates xs \<longleftrightarrow> successively (<) (merge_sort xs)"

lemma no_duplicates_distinct: "no_duplicates xs \<Longrightarrow> distinct xs"
proof -
  assume "no_duplicates xs"
  then have "distinct (merge_sort xs)"
    by (simp add: no_duplicates_def successively_conv_sorted_wrt strict_sorted_iff)
  then show "distinct xs"
    using mset_eq_imp_distinct_iff [OF mset_merge_sort] by blast
qed

lemma distinct_concat_tagged:
  assumes tag: "\<forall>(t, xs) \<in> set bs. \<forall>x \<in> set xs. P t (f x)"
    and ok: "\<forall>(t, xs) \<in> set bs. distinct (map f xs)"
    and apart: "sorted_wrt (\<lambda>t u. \<forall>y. \<not> (P t y \<and> P u y)) (map fst bs)"
  shows "distinct (map f (concat (map snd bs)))"
  using assms
proof (induction bs)
  case (Cons b bs)
  obtain t xs where b: "b = (t, xs)" by force
  have "distinct (map f (concat (map snd bs)))" using Cons by (auto simp: b)
  moreover have "f x \<noteq> f y" if "x \<in> set xs" "(u, ys) \<in> set bs" "y \<in> set ys" for x u ys y
  proof -
    have "P t (f x)" and "P u (f y)" using Cons.prems(1) that by (auto simp: b)
    moreover have "\<not> (P t (f x) \<and> P u (f x))" using Cons.prems(3) that(2) by (force simp: b)
    ultimately show ?thesis by auto
  qed
  ultimately show ?case using Cons.prems(2) by (fastforce simp: b)
qed simp

fun char_low :: "char \<Rightarrow> int" where
  "char_low (Char b0 b1 b2 b3 b4 b5 b6 b7) =
     of_bool b0 + 2 * (of_bool b1 + 2 * (of_bool b2 + 2 * (of_bool b3 + 2 * of_bool b4)))"

definition name_code :: "string \<Rightarrow> int" where
  "name_code s = foldl (\<lambda>h c. 4 * h + char_low c) 0 s"

definition name_block :: "string \<Rightarrow> key_info list \<Rightarrow> bool" where
  "name_block p xs \<longleftrightarrow> list_all (\<lambda>e. prefix p (key_name e)) xs
     \<and> no_duplicates (map (\<lambda>e. name_code (drop (length p) (key_name e))) xs)"

definition id_block :: "int \<Rightarrow> key_info list list \<Rightarrow> bool" where
  "id_block g xss \<longleftrightarrow> list_all (list_all (\<lambda>e. let k = uint (key_info_id e)
        in k div 65536 mod 4096 = g \<and> (let size = k div 268435456 in 1 \<le> size \<and> size \<le> 5))) xss
     \<and> no_duplicates (concat (map (map (\<lambda>e. uint (key_info_id e) mod 65536)) xss))"

lemma distinct_of_code: "distinct (map (\<lambda>e. c (f e)) xs) \<Longrightarrow> distinct (map f xs)"
  by (simp add: distinct_map inj_on_def)

lemma name_block_distinct: "name_block p xs \<Longrightarrow> distinct (map key_name xs)"
  unfolding name_block_def by (blast intro: distinct_of_code [of "\<lambda>s. name_code (drop (length p) s)"] no_duplicates_distinct)

lemma id_block_distinct: "id_block g xss \<Longrightarrow> distinct (map key_info_id (concat xss))"
proof -
  assume "id_block g xss"
  then have "distinct (map (\<lambda>e. uint (key_info_id e) mod 65536) (concat xss))"
    by (auto simp: id_block_def map_concat dest!: no_duplicates_distinct)
  then show ?thesis by (rule distinct_of_code [of "\<lambda>k. uint k mod 65536"])
qed

lemma keys_ana_named: "name_block ''ana_'' keys_ana" by code_simp
lemma keys_batch_named: "name_block ''batch_'' keys_batch" by code_simp
lemma keys_bds_named: "name_block ''bds_use_geo_'' keys_bds" by code_simp
lemma keys_geofence_named: "name_block ''geofence_'' keys_geofence" by code_simp
lemma keys_hw_named: "name_block ''hw_'' keys_hw" by code_simp
lemma keys_i2c_named: "name_block ''i2c_'' keys_i2c" by code_simp
lemma keys_i2cinprot_named: "name_block ''i2cinprot_'' keys_i2cinprot" by code_simp
lemma keys_i2coutprot_named: "name_block ''i2coutprot_'' keys_i2coutprot" by code_simp
lemma keys_infmsg_named: "name_block ''infmsg_'' keys_infmsg" by code_simp
lemma keys_itfm_named: "name_block ''itfm_'' keys_itfm" by code_simp
lemma keys_logfilter_named: "name_block ''logfilter_'' keys_logfilter" by code_simp
lemma keys_mot_named: "name_block ''mot_'' keys_mot" by code_simp
lemma keys_msgout_nmea_named: "name_block ''msgout_nmea_id_'' keys_msgout_nmea" by code_simp
lemma keys_msgout_nmea_nav2_named: "name_block ''msgout_nmea_nav2_id_'' keys_msgout_nmea_nav2" by code_simp
lemma keys_msgout_pubx_named: "name_block ''msgout_pubx_id_'' keys_msgout_pubx" by code_simp
lemma keys_msgout_rtcm_named: "name_block ''msgout_rtcm_3x_'' keys_msgout_rtcm" by code_simp
lemma keys_msgout_ubx_esf_named: "name_block ''msgout_ubx_esf_'' keys_msgout_ubx_esf" by code_simp
lemma keys_msgout_ubx_log_named: "name_block ''msgout_ubx_log_info_'' keys_msgout_ubx_log" by code_simp
lemma keys_msgout_ubx_mon_named: "name_block ''msgout_ubx_mon_'' keys_msgout_ubx_mon" by code_simp
lemma keys_msgout_ubx_nav2_named: "name_block ''msgout_ubx_nav2_'' keys_msgout_ubx_nav2" by code_simp
lemma keys_msgout_ubx_nav_named: "name_block ''msgout_ubx_nav_'' keys_msgout_ubx_nav" by code_simp
lemma keys_msgout_ubx_rxm_named: "name_block ''msgout_ubx_rxm_'' keys_msgout_ubx_rxm" by code_simp
lemma keys_msgout_ubx_sec_named: "name_block ''msgout_ubx_sec_'' keys_msgout_ubx_sec" by code_simp
lemma keys_msgout_ubx_tim_named: "name_block ''msgout_ubx_tim_'' keys_msgout_ubx_tim" by code_simp
lemma keys_nav2_named: "name_block ''nav2_'' keys_nav2" by code_simp
lemma keys_navhpg_named: "name_block ''navhpg_'' keys_navhpg" by code_simp
lemma keys_navspg_named: "name_block ''navspg_'' keys_navspg" by code_simp
lemma keys_nmea_named: "name_block ''nmea_'' keys_nmea" by code_simp
lemma keys_odo_named: "name_block ''odo_'' keys_odo" by code_simp
lemma keys_pm_named: "name_block ''pm_'' keys_pm" by code_simp
lemma keys_pmp_named: "name_block ''pmp_'' keys_pmp" by code_simp
lemma keys_qzss_named: "name_block ''qzss_'' keys_qzss" by code_simp
lemma keys_rate_named: "name_block ''rate_'' keys_rate" by code_simp
lemma keys_rinv_named: "name_block ''rinv_'' keys_rinv" by code_simp
lemma keys_rtcm_named: "name_block ''rtcm_df003_'' keys_rtcm" by code_simp
lemma keys_sbas_named: "name_block ''sbas_'' keys_sbas" by code_simp
lemma keys_sec_named: "name_block ''sec_'' keys_sec" by code_simp
lemma keys_sfcore_named: "name_block ''sfcore_'' keys_sfcore" by code_simp
lemma keys_sfimu_named: "name_block ''sfimu_'' keys_sfimu" by code_simp
lemma keys_sfodo_named: "name_block ''sfodo_'' keys_sfodo" by code_simp
lemma keys_signal_named: "name_block ''signal_'' keys_signal" by code_simp
lemma keys_spartn_named: "name_block ''spartn_use_'' keys_spartn" by code_simp
lemma keys_spi_named: "name_block ''spi_'' keys_spi" by code_simp
lemma keys_spiinprot_named: "name_block ''spiinprot_'' keys_spiinprot" by code_simp
lemma keys_spioutprot_named: "name_block ''spioutprot_'' keys_spioutprot" by code_simp
lemma keys_tmode_named: "name_block ''tmode_'' keys_tmode" by code_simp
lemma keys_tp_named: "name_block ''tp_'' keys_tp" by code_simp
lemma keys_txready_named: "name_block ''txready_'' keys_txready" by code_simp
lemma keys_uart1_named: "name_block ''uart1_'' keys_uart1" by code_simp
lemma keys_uart1inprot_named: "name_block ''uart1inprot_'' keys_uart1inprot" by code_simp
lemma keys_uart1outprot_named: "name_block ''uart1outprot_'' keys_uart1outprot" by code_simp
lemma keys_uart2_named: "name_block ''uart2_'' keys_uart2" by code_simp
lemma keys_uart2inprot_named: "name_block ''uart2inprot_'' keys_uart2inprot" by code_simp
lemma keys_uart2outprot_named: "name_block ''uart2outprot_'' keys_uart2outprot" by code_simp
lemma keys_usb_named: "name_block ''usb_'' keys_usb" by code_simp
lemma keys_usbinprot_named: "name_block ''usbinprot_'' keys_usbinprot" by code_simp
lemma keys_usboutprot_named: "name_block ''usboutprot_'' keys_usboutprot" by code_simp

lemma keys_ana_numbered: "id_block 35 [keys_ana]" by code_simp
lemma keys_batch_numbered: "id_block 38 [keys_batch]" by code_simp
lemma keys_bds_numbered: "id_block 52 [keys_bds]" by code_simp
lemma keys_geofence_numbered: "id_block 36 [keys_geofence]" by code_simp
lemma keys_hw_numbered: "id_block 163 [keys_hw]" by code_simp
lemma keys_i2c_numbered: "id_block 81 [keys_i2c]" by code_simp
lemma keys_i2cinprot_numbered: "id_block 113 [keys_i2cinprot]" by code_simp
lemma keys_i2coutprot_numbered: "id_block 114 [keys_i2coutprot]" by code_simp
lemma keys_infmsg_numbered: "id_block 146 [keys_infmsg]" by code_simp
lemma keys_itfm_numbered: "id_block 65 [keys_itfm]" by code_simp
lemma keys_logfilter_numbered: "id_block 222 [keys_logfilter]" by code_simp
lemma keys_mot_numbered: "id_block 37 [keys_mot]" by code_simp
lemma keys_msgout_numbered:
  "id_block 145
     [keys_msgout_nmea, keys_msgout_nmea_nav2, keys_msgout_pubx, keys_msgout_rtcm, keys_msgout_ubx_esf,
     keys_msgout_ubx_log, keys_msgout_ubx_mon, keys_msgout_ubx_nav2, keys_msgout_ubx_nav,
     keys_msgout_ubx_rxm, keys_msgout_ubx_sec, keys_msgout_ubx_tim]"
  by code_simp
lemma keys_nav2_numbered: "id_block 23 [keys_nav2]" by code_simp
lemma keys_navhpg_numbered: "id_block 20 [keys_navhpg]" by code_simp
lemma keys_navspg_numbered: "id_block 17 [keys_navspg]" by code_simp
lemma keys_nmea_numbered: "id_block 147 [keys_nmea]" by code_simp
lemma keys_odo_numbered: "id_block 34 [keys_odo]" by code_simp
lemma keys_pm_numbered: "id_block 208 [keys_pm]" by code_simp
lemma keys_pmp_numbered: "id_block 177 [keys_pmp]" by code_simp
lemma keys_qzss_numbered: "id_block 55 [keys_qzss]" by code_simp
lemma keys_rate_numbered: "id_block 33 [keys_rate]" by code_simp
lemma keys_rinv_numbered: "id_block 199 [keys_rinv]" by code_simp
lemma keys_rtcm_numbered: "id_block 9 [keys_rtcm]" by code_simp
lemma keys_sbas_numbered: "id_block 54 [keys_sbas]" by code_simp
lemma keys_sec_numbered: "id_block 246 [keys_sec]" by code_simp
lemma keys_sfcore_numbered: "id_block 8 [keys_sfcore]" by code_simp
lemma keys_sfimu_numbered: "id_block 6 [keys_sfimu]" by code_simp
lemma keys_sfodo_numbered: "id_block 7 [keys_sfodo]" by code_simp
lemma keys_signal_numbered: "id_block 49 [keys_signal]" by code_simp
lemma keys_spartn_numbered: "id_block 167 [keys_spartn]" by code_simp
lemma keys_spi_numbered: "id_block 100 [keys_spi]" by code_simp
lemma keys_spiinprot_numbered: "id_block 121 [keys_spiinprot]" by code_simp
lemma keys_spioutprot_numbered: "id_block 122 [keys_spioutprot]" by code_simp
lemma keys_tmode_numbered: "id_block 3 [keys_tmode]" by code_simp
lemma keys_tp_numbered: "id_block 5 [keys_tp]" by code_simp
lemma keys_txready_numbered: "id_block 162 [keys_txready]" by code_simp
lemma keys_uart1_numbered: "id_block 82 [keys_uart1]" by code_simp
lemma keys_uart1inprot_numbered: "id_block 115 [keys_uart1inprot]" by code_simp
lemma keys_uart1outprot_numbered: "id_block 116 [keys_uart1outprot]" by code_simp
lemma keys_uart2_numbered: "id_block 83 [keys_uart2]" by code_simp
lemma keys_uart2inprot_numbered: "id_block 117 [keys_uart2inprot]" by code_simp
lemma keys_uart2outprot_numbered: "id_block 118 [keys_uart2outprot]" by code_simp
lemma keys_usb_numbered: "id_block 101 [keys_usb]" by code_simp
lemma keys_usbinprot_numbered: "id_block 119 [keys_usbinprot]" by code_simp
lemma keys_usboutprot_numbered: "id_block 120 [keys_usboutprot]" by code_simp

definition name_blocks :: "(string \<times> key_info list) list" where
  "name_blocks =
    [(''ana_'', keys_ana), (''batch_'', keys_batch), (''bds_use_geo_'', keys_bds),
     (''geofence_'', keys_geofence), (''hw_'', keys_hw), (''i2c_'', keys_i2c),
     (''i2cinprot_'', keys_i2cinprot), (''i2coutprot_'', keys_i2coutprot), (''infmsg_'', keys_infmsg),
     (''itfm_'', keys_itfm), (''logfilter_'', keys_logfilter), (''mot_'', keys_mot),
     (''msgout_nmea_id_'', keys_msgout_nmea), (''msgout_nmea_nav2_id_'', keys_msgout_nmea_nav2),
     (''msgout_pubx_id_'', keys_msgout_pubx), (''msgout_rtcm_3x_'', keys_msgout_rtcm),
     (''msgout_ubx_esf_'', keys_msgout_ubx_esf), (''msgout_ubx_log_info_'', keys_msgout_ubx_log),
     (''msgout_ubx_mon_'', keys_msgout_ubx_mon), (''msgout_ubx_nav2_'', keys_msgout_ubx_nav2),
     (''msgout_ubx_nav_'', keys_msgout_ubx_nav), (''msgout_ubx_rxm_'', keys_msgout_ubx_rxm),
     (''msgout_ubx_sec_'', keys_msgout_ubx_sec), (''msgout_ubx_tim_'', keys_msgout_ubx_tim),
     (''nav2_'', keys_nav2), (''navhpg_'', keys_navhpg), (''navspg_'', keys_navspg),
     (''nmea_'', keys_nmea), (''odo_'', keys_odo), (''pm_'', keys_pm), (''pmp_'', keys_pmp),
     (''qzss_'', keys_qzss), (''rate_'', keys_rate), (''rinv_'', keys_rinv),
     (''rtcm_df003_'', keys_rtcm), (''sbas_'', keys_sbas), (''sec_'', keys_sec),
     (''sfcore_'', keys_sfcore), (''sfimu_'', keys_sfimu), (''sfodo_'', keys_sfodo),
     (''signal_'', keys_signal), (''spartn_use_'', keys_spartn), (''spi_'', keys_spi),
     (''spiinprot_'', keys_spiinprot), (''spioutprot_'', keys_spioutprot), (''tmode_'', keys_tmode),
     (''tp_'', keys_tp), (''txready_'', keys_txready), (''uart1_'', keys_uart1),
     (''uart1inprot_'', keys_uart1inprot), (''uart1outprot_'', keys_uart1outprot),
     (''uart2_'', keys_uart2), (''uart2inprot_'', keys_uart2inprot),
     (''uart2outprot_'', keys_uart2outprot), (''usb_'', keys_usb), (''usbinprot_'', keys_usbinprot),
     (''usboutprot_'', keys_usboutprot)]"

definition id_blocks :: "(int \<times> key_info list list) list" where
  "id_blocks =
    [(35, [keys_ana]), (38, [keys_batch]), (52, [keys_bds]), (36, [keys_geofence]), (163, [keys_hw]),
     (81, [keys_i2c]), (113, [keys_i2cinprot]), (114, [keys_i2coutprot]), (146, [keys_infmsg]),
     (65, [keys_itfm]), (222, [keys_logfilter]), (37, [keys_mot]),
     (145, [keys_msgout_nmea, keys_msgout_nmea_nav2, keys_msgout_pubx, keys_msgout_rtcm, keys_msgout_ubx_esf, keys_msgout_ubx_log, keys_msgout_ubx_mon, keys_msgout_ubx_nav2, keys_msgout_ubx_nav, keys_msgout_ubx_rxm, keys_msgout_ubx_sec, keys_msgout_ubx_tim]),
     (23, [keys_nav2]), (20, [keys_navhpg]), (17, [keys_navspg]), (147, [keys_nmea]), (34, [keys_odo]),
     (208, [keys_pm]), (177, [keys_pmp]), (55, [keys_qzss]), (33, [keys_rate]), (199, [keys_rinv]),
     (9, [keys_rtcm]), (54, [keys_sbas]), (246, [keys_sec]), (8, [keys_sfcore]), (6, [keys_sfimu]),
     (7, [keys_sfodo]), (49, [keys_signal]), (167, [keys_spartn]), (100, [keys_spi]),
     (121, [keys_spiinprot]), (122, [keys_spioutprot]), (3, [keys_tmode]), (5, [keys_tp]),
     (162, [keys_txready]), (82, [keys_uart1]), (115, [keys_uart1inprot]), (116, [keys_uart1outprot]),
     (83, [keys_uart2]), (117, [keys_uart2inprot]), (118, [keys_uart2outprot]), (101, [keys_usb]),
     (119, [keys_usbinprot]), (120, [keys_usboutprot])]"

lemmas key_sections =
       keys_ana_def keys_batch_def keys_bds_def keys_geofence_def keys_hw_def keys_i2c_def
     keys_i2cinprot_def keys_i2coutprot_def keys_infmsg_def keys_itfm_def keys_logfilter_def
     keys_mot_def keys_msgout_nmea_def keys_msgout_nmea_nav2_def keys_msgout_pubx_def
     keys_msgout_rtcm_def keys_msgout_ubx_esf_def keys_msgout_ubx_log_def keys_msgout_ubx_mon_def
     keys_msgout_ubx_nav2_def keys_msgout_ubx_nav_1_def keys_msgout_ubx_nav_2_def
     keys_msgout_ubx_rxm_def keys_msgout_ubx_sec_def keys_msgout_ubx_tim_def keys_nav2_def
     keys_navhpg_def keys_navspg_def keys_nmea_def keys_odo_def keys_pm_def keys_pmp_def
     keys_qzss_def keys_rate_def keys_rinv_def keys_rtcm_def keys_sbas_def keys_sec_def
     keys_sfcore_def keys_sfimu_def keys_sfodo_def keys_signal_def keys_spartn_def keys_spi_def
     keys_spiinprot_def keys_spioutprot_def keys_tmode_def keys_tp_def keys_txready_def
     keys_uart1_def keys_uart1inprot_def keys_uart1outprot_def keys_uart2_def keys_uart2inprot_def
     keys_uart2outprot_def keys_usb_def keys_usbinprot_def keys_usboutprot_def
     keys_msgout_ubx_nav_def

lemmas named =
       keys_ana_named keys_batch_named keys_bds_named keys_geofence_named keys_hw_named
     keys_i2c_named keys_i2cinprot_named keys_i2coutprot_named keys_infmsg_named keys_itfm_named
     keys_logfilter_named keys_mot_named keys_msgout_nmea_named keys_msgout_nmea_nav2_named
     keys_msgout_pubx_named keys_msgout_rtcm_named keys_msgout_ubx_esf_named
     keys_msgout_ubx_log_named keys_msgout_ubx_mon_named keys_msgout_ubx_nav2_named
     keys_msgout_ubx_nav_named keys_msgout_ubx_rxm_named keys_msgout_ubx_sec_named
     keys_msgout_ubx_tim_named keys_nav2_named keys_navhpg_named keys_navspg_named keys_nmea_named
     keys_odo_named keys_pm_named keys_pmp_named keys_qzss_named keys_rate_named keys_rinv_named
     keys_rtcm_named keys_sbas_named keys_sec_named keys_sfcore_named keys_sfimu_named
     keys_sfodo_named keys_signal_named keys_spartn_named keys_spi_named keys_spiinprot_named
     keys_spioutprot_named keys_tmode_named keys_tp_named keys_txready_named keys_uart1_named
     keys_uart1inprot_named keys_uart1outprot_named keys_uart2_named keys_uart2inprot_named
     keys_uart2outprot_named keys_usb_named keys_usbinprot_named keys_usboutprot_named

lemmas numbered =
       keys_ana_numbered keys_batch_numbered keys_bds_numbered keys_geofence_numbered keys_hw_numbered
     keys_i2c_numbered keys_i2cinprot_numbered keys_i2coutprot_numbered keys_infmsg_numbered
     keys_itfm_numbered keys_logfilter_numbered keys_mot_numbered keys_msgout_numbered
     keys_nav2_numbered keys_navhpg_numbered keys_navspg_numbered keys_nmea_numbered
     keys_odo_numbered keys_pm_numbered keys_pmp_numbered keys_qzss_numbered keys_rate_numbered
     keys_rinv_numbered keys_rtcm_numbered keys_sbas_numbered keys_sec_numbered
     keys_sfcore_numbered keys_sfimu_numbered keys_sfodo_numbered keys_signal_numbered
     keys_spartn_numbered keys_spi_numbered keys_spiinprot_numbered keys_spioutprot_numbered
     keys_tmode_numbered keys_tp_numbered keys_txready_numbered keys_uart1_numbered
     keys_uart1inprot_numbered keys_uart1outprot_numbered keys_uart2_numbered
     keys_uart2inprot_numbered keys_uart2outprot_numbered keys_usb_numbered keys_usbinprot_numbered
     keys_usboutprot_numbered

lemma s_key_table_names: "concat (map snd name_blocks) = s_key_table"
  by (simp add: name_blocks_def s_key_table_def)

lemma s_key_table_ids: "concat (map (concat \<circ> snd) id_blocks) = s_key_table"
  by (simp add: id_blocks_def s_key_table_def)

lemma prefixes_apart:
  "sorted_wrt (\<lambda>p q. \<not> prefix p q \<and> \<not> prefix q p) (map fst name_blocks)"
  by code_simp

lemma groups_apart: "distinct (map fst id_blocks)"
  by (simp add: id_blocks_def)

lemma all_named: "\<forall>(p, xs) \<in> set name_blocks. name_block p xs"
  by (simp add: name_blocks_def named)

lemma all_numbered: "\<forall>(g, xs) \<in> set id_blocks. id_block g xs"
  by (simp add: id_blocks_def numbered)

lemma names_distinct: "distinct (map key_name s_key_table)"
proof -
  have "sorted_wrt (\<lambda>p q. \<forall>s. \<not> (prefix p s \<and> prefix q s)) (map fst name_blocks)"
    by (rule sorted_wrt_mono_rel [OF _ prefixes_apart]) (use prefix_same_cases in blast)
  moreover have "\<forall>(p, xs) \<in> set name_blocks. \<forall>e \<in> set xs. prefix p (key_name e)"
    using all_named by (fastforce simp: name_block_def list_all_iff)
  moreover have "\<forall>(p, xs) \<in> set name_blocks. distinct (map key_name xs)"
    using all_named name_block_distinct by fast
  ultimately show ?thesis
    using distinct_concat_tagged [of name_blocks prefix key_name] by (simp add: s_key_table_names)
qed

lemma distinct_iff_sorted_wrt: "distinct xs \<longleftrightarrow> sorted_wrt (\<noteq>) xs"
  by (induction xs) auto

lemma ids_distinct: "distinct (map key_info_id s_key_table)"
proof -
  let ?group = "\<lambda>g k. uint k div 65536 mod 4096 = (g :: int)"
  let ?blocks = "map (\<lambda>(g, xss). (g, concat xss)) id_blocks"
  have blocks: "map fst ?blocks = map fst id_blocks" "concat (map snd ?blocks) = s_key_table"
    by (simp_all add: s_key_table_ids [symmetric] split_def comp_def)
  have "sorted_wrt (\<lambda>g h. \<forall>k. \<not> (?group g k \<and> ?group h k)) (map fst ?blocks)"
    unfolding blocks by (rule sorted_wrt_mono_rel [of _ "(\<noteq>)"]) (use groups_apart in \<open>auto simp: distinct_iff_sorted_wrt\<close>)
  moreover have "\<forall>(g, xs) \<in> set ?blocks. \<forall>e \<in> set xs. ?group g (key_info_id e)"
    using all_numbered by (fastforce simp: id_block_def list_all_iff Let_def)
  moreover have "\<forall>(g, xs) \<in> set ?blocks. distinct (map key_info_id xs)"
    using all_numbered id_block_distinct by fastforce
  ultimately show ?thesis
    using distinct_concat_tagged [of ?blocks ?group key_info_id] by (simp only: blocks)
qed

section \<open>The lookups invert each other\<close>

lemma key_entry_sel [simp]: "key_name (key_entry nm k) = nm" "key_info_id (key_entry nm k) = k"
  by (simp_all add: key_entry_def)

lemma key_entry_iff: "key_entry nm k = e \<longleftrightarrow> key_name e = nm \<and> key_info_id e = k"
  by (cases e) (auto simp: key_entry_def)

lemma scan_names_iff:
  "distinct (map key_name es) \<Longrightarrow> scan_names es nm = Some k \<longleftrightarrow> key_entry nm k \<in> set es"
  by (induction es) (auto simp: key_entry_iff dest: imageI [of _ _ key_name])

lemma scan_ids_iff:
  "distinct (map key_info_id es) \<Longrightarrow> scan_ids es k = Some nm \<longleftrightarrow> key_entry nm k \<in> set es"
  by (induction es) (auto simp: key_entry_iff dest: imageI [of _ _ key_info_id])

lemma lookup_by_name_iff: "lookup_by_name (Some nm) = Some k \<longleftrightarrow> key_entry nm k \<in> set s_key_table"
  by (simp add: lookup_by_name_def scan_names_iff names_distinct)

lemma lookup_by_id_iff: "lookup_by_id k = Some nm \<longleftrightarrow> key_entry nm k \<in> set s_key_table"
  by (simp add: lookup_by_id_def scan_ids_iff ids_distinct)

section \<open>Every key has a size\<close>

lemma code_is_div: "drop_bit 28 k AND 0x0F = (word_of_int (uint k div 268435456) :: u32)" for k :: u32
proof -
  have "uint k < 4294967296" using uint_lt2p [of k] by simp
  moreover have "0 \<le> uint k" by simp
  ultimately have "0 \<le> uint k div 268435456 \<and> uint k div 268435456 < 16" by linarith
  moreover have "uint (drop_bit 28 k) = uint k div 268435456" by (simp add: drop_bit_eq_div uint_div)
  moreover have "drop_bit 28 k AND 0x0F = take_bit 4 (drop_bit 28 k)" by (simp add: take_bit_eq_mask mask_eq_exp_minus_1)
  ultimately have "uint (drop_bit 28 k AND 0x0F) = uint k div 268435456"
    by (simp add: unsigned_take_bit_eq) (simp add: take_bit_eq_mod)
  then show ?thesis by (metis word_of_int_uint)
qed

lemma size_code_value:
  fixes k :: u32
  assumes "1 \<le> uint k div 268435456" "uint k div 268435456 \<le> 5"
  shows "value_byte_size k \<in> {1, 2, 4, 8}"
proof -
  have "uint k div 268435456 \<in> {1, 2, 3, 4, 5}" using assms by auto
  then show ?thesis by (auto simp: value_byte_size_def code_is_div)
qed

lemma table_sized: "e \<in> set s_key_table \<Longrightarrow> value_byte_size (key_info_id e) \<in> {1, 2, 4, 8}"
proof -
  assume "e \<in> set s_key_table"
  then obtain g xss where "(g, xss) \<in> set id_blocks" "e \<in> set (concat xss)"
    by (force simp flip: s_key_table_ids)
  moreover from this(1) have "id_block g xss" using all_numbered by blast
  ultimately show ?thesis
    by (intro size_code_value) (auto simp: id_block_def list_all_iff Let_def)
qed

text \<open>C19 (roundtrip). The two lookups of the key registry invert each other: a name resolves to a key exactly
  when the key resolves back to that name, over all 1016 entries of the table; the null name resolves
  to nothing. No entry is hidden behind another with its name or its identifier.\<close>

theorem registry_lookups_inverse:
  "(lookup_by_name (Some nm) = Some k \<longleftrightarrow> lookup_by_id k = Some nm) \<and> lookup_by_name None = None
     \<and> table_size = 1016"
proof -
  have "length s_key_table = 1016" by (simp add: s_key_table_def key_sections)
  then show ?thesis by (simp add: lookup_by_name_iff lookup_by_id_iff table_size_def lookup_by_name_def [of None])
qed

text \<open>The identifier of \<open>NAV2-VTG\<close> on UART2 does not follow the run of its message: its neighbours
  end in \<open>0x658\<close> and \<open>0x65a\<close>, it ends in \<open>0x649\<close>.\<close>

lemma vtg_uart2_off_run:
  "msgout_nmea_nav2_id_vtg_uart1 = msgout_nmea_nav2_id_vtg_i2c + 1
   \<and> msgout_nmea_nav2_id_vtg_usb = msgout_nmea_nav2_id_vtg_i2c + 3
   \<and> msgout_nmea_nav2_id_vtg_uart2 \<noteq> msgout_nmea_nav2_id_vtg_i2c + 2"
  by (simp add: msgout_nmea_nav2_id_vtg_uart1_def msgout_nmea_nav2_id_vtg_i2c_def
      msgout_nmea_nav2_id_vtg_usb_def msgout_nmea_nav2_id_vtg_uart2_def)

end
