(* ===== verification/Config_Provision.thy ===== *)
theory Config_Provision
  imports Ini_Parser Ubx_Cfg_Registry Ubx_Config_Sync
begin

text \<open>
  From an INI file to the receiver: \<open>ini_config_provider_impl\<close>, which turns the entries of the file into
  configuration entries by the key registry, and the configuration commands of \<open>gnss_controller\<close> over
  the synchronisation service. The file system is a function from paths to the content of the file,
  \<open>None\<close> when it does not open.
\<close>

section \<open>The provider\<close>

definition c_str :: "string \<Rightarrow> string" where
  "c_str s = takeWhile (\<lambda>c. c \<noteq> CHR 0x00) s"

definition flat_key :: "string \<Rightarrow> string" where
  "flat_key k = (case find_char CHR ''.'' k of Some dot_pos \<Rightarrow> drop (dot_pos + 1) k | None \<Rightarrow> k)"

text \<open>
  The loop over the keys. A \<open>config_error\<close> skips the entry; an exception of another type leaves the
  loop, and the entries collected so far stay.
\<close>

fun provider_loop :: "ini_data \<Rightarrow> config_entry list \<Rightarrow> string list \<Rightarrow> (ini_exception + bool) \<times> config_entry list" where
  "provider_loop d es [] = (Inr True, es)"
| "provider_loop d es (k # ks) =
     (case ini_get d k of
        Inl e \<Rightarrow> if is_config_error e then provider_loop d es ks else (Inl e, es)
      | Inr v \<Rightarrow>
          (case lookup_by_name (Some (c_str (flat_key k))) of
             None \<Rightarrow> provider_loop d es ks
           | Some n \<Rightarrow>
               (case as_int v of
                  Inl e \<Rightarrow> if is_config_error e then provider_loop d es ks else (Inl e, es)
                | Inr i \<Rightarrow> provider_loop d (es @ [\<lparr>key_id = n, cfg_value = config_value_i32 i\<rparr>]) ks)))"

definition provider_load :: "string option \<Rightarrow> (ini_exception + bool) \<times> config_entry list" where
  "provider_load content =
     (case ini_load content Overwrite [] of
        (Inl e, d) \<Rightarrow> if is_config_error e then (Inr False, []) else (Inl e, [])
      | (Inr ok, d) \<Rightarrow> provider_loop d [] (get_keys d))"

text \<open>What the synchronisation service sees of a load that returns.\<close>

definition provider_of :: "(string \<Rightarrow> string option) \<Rightarrow> ini_provider" where
  "provider_of files path = (case provider_load (files path) of (Inr True, es) \<Rightarrow> Some es | _ \<Rightarrow> None)"

section \<open>The commands of the controller\<close>

text \<open>\<open>poll_config\<close> catches what the provider throws; nothing has been stored by then.\<close>

definition controller_poll_config ::
  "'t send_op \<Rightarrow> (string \<Rightarrow> string option) \<Rightarrow> string \<Rightarrow> sync_service \<Rightarrow> 't \<Rightarrow> bool \<times> sync_service \<times> 't" where
  "controller_poll_config send_sync files path s t =
     (case fst (provider_load (files path)) of
        Inl e \<Rightarrow> (False, s, t)
      | Inr ok \<Rightarrow> start_poll send_sync (provider_of files) path s t)"

text \<open>\<open>sync_config\<close>: the flag is the \<open>default_config_applied\<close> signal. The layer is the default argument.\<close>

definition controller_sync_config :: "'t send_op \<Rightarrow> sync_service \<Rightarrow> 't \<Rightarrow> bool \<times> bool \<times> 't" where
  "controller_sync_config send_sync s t =
     (let (ok, t) = apply_configuration send_sync Layer_ram s t in (ok, ok, t))"

text \<open>\<open>force_sync_config\<close> has no handler: the exception is the caller's.\<close>

definition controller_force_sync_config ::
  "'t send_op \<Rightarrow> (string \<Rightarrow> string option) \<Rightarrow> string \<Rightarrow> sync_service \<Rightarrow> 't
     \<Rightarrow> (ini_exception + bool) \<times> sync_service \<times> 't" where
  "controller_force_sync_config send_sync files path s t =
     (case fst (provider_load (files path)) of
        Inl e \<Rightarrow> (Inl e, s, t)
      | Inr ok \<Rightarrow>
          let (loaded, s) = load_default_config (provider_of files) path s
          in if \<not> loaded then (Inr False, s, t)
             else let (sent, t) = force_apply_configuration send_sync Layer_ram s t in (Inr sent, s, t))"

section \<open>What a settings file becomes\<close>

definition setting_entry :: "string \<times> ini_value \<Rightarrow> config_entry option" where
  "setting_entry kv = (case kv of (k, v) \<Rightarrow>
     case lookup_by_name (Some (c_str (flat_key k))) of
       None \<Rightarrow> None
     | Some n \<Rightarrow> (case as_int v of Inl e \<Rightarrow> None | Inr i \<Rightarrow> Some \<lparr>key_id = n, cfg_value = config_value_i32 i\<rparr>))"

lemma provider_loop_entries:
  assumes "\<forall>(k, v) \<in> set kvs. map_of d k = Some v \<and> (\<forall>e. as_int v = Inl e \<longrightarrow> is_config_error e)"
  shows "provider_loop d es (map fst kvs) = (Inr True, es @ List.map_filter setting_entry kvs)"
  using assms
proof (induction kvs arbitrary: es)
  case (Cons kv kvs)
  obtain k v where kv: "kv = (k, v)" by force
  have IH: "provider_loop d es' (map fst kvs) = (Inr True, es' @ List.map_filter setting_entry kvs)" for es'
    using Cons by simp
  have "map_of d k = Some v" and thrown: "\<And>e. as_int v = Inl e \<Longrightarrow> is_config_error e"
    using Cons.prems by (auto simp: kv)
  moreover have "setting_entry (k, v) = (case lookup_by_name (Some (c_str (flat_key k))) of
      None \<Rightarrow> None | Some n \<Rightarrow> (case as_int v of Inl e \<Rightarrow> None | Inr i \<Rightarrow> Some \<lparr>key_id = n, cfg_value = config_value_i32 i\<rparr>))"
    by (simp add: setting_entry_def)
  ultimately show ?case
    by (auto simp: kv ini_get_def List.map_filter_simps IH split: option.split sum.split)
qed (simp add: List.map_filter_simps)

lemma provider_load_saved:
  assumes "data_ok d" and "\<forall>(k, v) \<in> set d. \<not> is_string v"
  shows "provider_load (Some (ini_text d)) = (Inr True, List.map_filter setting_entry d)"
proof -
  have "distinct (map fst d)" using assms(1) ordered_distinct [of d] by (simp add: data_ok_def)
  moreover have "is_config_error e" if "(k, v) \<in> set d" "as_int v = Inl e" for k v e
  proof -
    have "value_ok v" "\<not> is_string v" using assms that(1) by (auto simp: data_ok_def)
    with that(2) show ?thesis by (cases v) (auto simp: is_string_def)
  qed
  ultimately have "\<forall>(k, v) \<in> set d. map_of d k = Some v \<and> (\<forall>e. as_int v = Inl e \<longrightarrow> is_config_error e)"
    by auto
  from provider_loop_entries [OF this, of "[]"] show ?thesis
    by (simp add: provider_load_def load_saved [OF assms(1)] get_keys_def)
qed

lemma setting_entry_sized:
  "setting_entry kv = Some e \<Longrightarrow> value_byte_size (key_id e) \<noteq> 0"
proof -
  assume "setting_entry kv = Some e"
  then obtain nm where "lookup_by_name (Some nm) = Some (key_id e)"
    by (auto simp: setting_entry_def split: prod.splits option.splits sum.splits)
  then have "value_byte_size (key_id e) \<in> {1, 2, 4, 8}"
    using table_sized by (fastforce simp: lookup_by_name_iff)
  then show ?thesis by auto
qed

lemma setting_entries_sent:
  assumes "List.map_filter setting_entry d \<noteq> []"
  shows "valset_build (List.map_filter setting_entry d) layer \<noteq> []"
proof -
  obtain e where e: "e \<in> set (List.map_filter setting_entry d)"
    using assms list.set_sel(1) by blast
  then have "value_byte_size (key_id e) \<noteq> 0"
    using setting_entry_sized by (auto simp: List.map_filter_def)
  with e show ?thesis by (auto simp: valset_build_Nil)
qed


definition rover_settings :: ini_data where
  "rover_settings = [(''rate.rate_meas'', Ini_int 100), (''uart1.uart1_enabled'', Ini_bool True), (''usb.usb_enabled'', Ini_null)]"

lemma rover_lookups:
  "lookup_by_name (Some ''rate_meas'') = Some rate_meas" "lookup_by_name (Some ''uart1_enabled'') = Some uart1_enabled"
  "lookup_by_name (Some ''usb_enabled'') = Some usb_enabled"
  by (simp_all add: lookup_by_name_iff s_key_table_def keys_rate_def keys_uart1_def keys_usb_def)


section \<open>Values an \<open>int\<close> does not hold\<close>

text \<open>A setting of 2147483648 or more cannot be given. The file loads, with the number kept as a
  string, but its conversion throws \<open>std::out_of_range\<close>, which is no \<open>config_error\<close>: the provider does not skip
  the entry but gives up on the file. \<open>poll_config\<close> reports failure and sends nothing; \<open>force_sync_config\<close>
  lets the exception through to its caller.\<close>

theorem large_setting_throws:
  assumes "key_ok k" and "CHR ''.'' \<notin> set k" and "lookup_by_name (Some (c_str k)) = Some n"
    and "2 ^ 31 \<le> value" and "files path = Some (k @ '' = '' @ nat_digits value @ [newline, newline])"
  shows "provider_load (files path) = (Inl Out_of_range, [])
    \<and> controller_poll_config send_sync files path s t = (False, s, t)
    \<and> controller_force_sync_config send_sync files path s t = (Inl Out_of_range, s, t)"
proof -
  let ?d = "[(k, Ini_string (nat_digits value))]"
  have global_k: "split_key k = ([], k)" using assms(2) by (simp add: split_key_def find_char_def)
  have ok: "value_ok (Ini_string (nat_digits value))" using large_number(2) [OF assms(4)] .
  have data: "data_ok ?d"
    using assms(1,2) ok by (simp add: data_ok_def ordered_def full_key_ok_def global_k del: value_ok.simps)
  have "\<not> needs_quoting (nat_digits value)"
    using nat_digits_digits by (auto simp: needs_quoting_def list_ex_iff is_digit_def digits_def is_space_def)
  then have "ini_text ?d = k @ '' = '' @ nat_digits value @ [newline, newline]"
    by (simp add: ini_text_def group_sections_def global_k sections_add_def write_pairs_def write_key_value_def
        write_section_def)
  then have "provider_load (files path) = (Inl Out_of_range, [])"
    using load_saved [OF data, of "[]"] assms(2,3) large_number(1) [OF assms(4)]
    by (simp add: provider_load_def assms(5) get_keys_def ini_get_def flat_key_def find_char_def)
  then show ?thesis by (simp add: controller_poll_config_def controller_force_sync_config_def)
qed

theorem large_setting_throws_witness:
  "controller_force_sync_config (\<lambda>msg sent. (True, sent @ [msg]))
     (\<lambda>path. Some (''uart1_baudrate = 4294967295'' @ [newline, newline])) ''a.ini'' sync_service_new []
     = (Inl Out_of_range, sync_service_new, [])"
proof -
  let ?k = "''uart1_baudrate''"
  have "key_ok ?k" "CHR ''.'' \<notin> set ?k" by (simp_all add: key_ok_def trimmed_def is_space_def)
  moreover have "lookup_by_name (Some (c_str ?k)) = Some uart1_baudrate"
    by (simp add: c_str_def lookup_by_name_iff s_key_table_def keys_uart1_def)
  moreover have digits: "nat_digits 4294967295 = ''4294967295''" by (simp add: nat_digits.simps digits_def)
  ultimately show ?thesis
    by (intro large_setting_throws [THEN conjunct2, THEN conjunct2, of ?k uart1_baudrate 4294967295])
      (simp_all add: digits)
qed

text \<open>A hexadecimal value converts to the zero before its \<open>x\<close>, without an error.\<close>

lemma hex_setting_is_zero: "parse_value ''0x10'' = Ini_string ''0x10''" "as_int (Ini_string ''0x10'') = Inr 0"
  by code_simp+

text \<open>A comment after a value is part of the value; an integer is read up to it.\<close>

lemma inline_comment_kept:
  "parse_key_value ''rate_meas = 1000  ; ms'' = Some (''rate_meas'', ''1000  ; ms'')"
  "parse_value ''1000  ; ms'' = Ini_string ''1000  ; ms''" "as_int (Ini_string ''1000  ; ms'') = Inr 1000"
  by code_simp+

text \<open>A fractional value, such as the axis of a datum, is cut to its integer part.\<close>

lemma double_setting_truncated:
  "0 \<le> x \<Longrightarrow> x < 2 ^ 31 \<Longrightarrow> as_int (Ini_double (Finite False x)) = Inr (word_of_int \<lfloor>x\<rfloor>)"
  by (simp add: dbl_to_int_def dbl_value_def trunc_def floor_less_iff Let_def)

end
