(* ===== verification/Datum_Service.thy ===== *)
theory Datum_Service
  imports Ubx_Config_Sync Ubx_Cfg_Keys Ieee_Double
begin

text \<open>
  The coordinate datum of the receiver: \<open>ubx_datum.h\<close>, \<open>config/ubx_datum_service\<close>, the datum operations of
  \<open>config/ubx_config_manager\<close> and of \<open>gnss_controller\<close>. A \<open>double\<close> that is copied by \<open>memcpy\<close> is its 64-bit
  pattern; it is read as a number only to be compared.
\<close>

section \<open>Datums\<close>

type_synonym double_bits = u64

definition MAJA_TOLERANCE :: double_bits where "MAJA_TOLERANCE = bits_of_literal (1 / 1000)"
definition FLAT_TOLERANCE :: double_bits where "FLAT_TOLERANCE = bits_of_literal (1 / 10000000)"

text \<open>\<open>enum class datum_id : uint8_t\<close>; a cast from a byte may give any of the 256 values.\<close>

type_synonym datum_id = u8

definition datum_unknown :: datum_id where "datum_unknown = 0"
definition datum_wgs84 :: datum_id where "datum_wgs84 = 1"
definition datum_pz90 :: datum_id where "datum_pz90 = 2"
definition datum_user_defined :: datum_id where "datum_user_defined = 255"

record datum_ellipsoid_params =
  params_maja :: double_bits
  params_flat :: double_bits

record datum_data =
  usrdat_enabled :: bool
  datum_data_id :: datum_id
  datum_data_name :: string
  datum_params :: datum_ellipsoid_params
  datum_valid :: bool

record datum_signature =
  sig_id :: datum_id
  sig_maja :: double_bits
  sig_flat :: double_bits

definition KNOWN_DATUMS :: "datum_signature list" where
  "KNOWN_DATUMS =
     [\<lparr>sig_id = datum_wgs84, sig_maja = bits_of_literal 6378137, sig_flat = bits_of_literal 298.257223563\<rparr>,
      \<lparr>sig_id = datum_pz90, sig_maja = bits_of_literal 6378136, sig_flat = bits_of_literal 298.257839303\<rparr>]"

definition datum_name :: "datum_id \<Rightarrow> string" where
  "datum_name d =
     (if d = datum_wgs84 then ''WGS-84''
      else if d = datum_pz90 then ''PZ-90.11''
      else if d = datum_user_defined then ''User-Defined''
      else ''Unknown'')"

definition close_to :: "double_bits \<Rightarrow> double_bits \<Rightarrow> double_bits \<Rightarrow> bool" where
  "close_to a b tolerance \<longleftrightarrow> dbl_le (dbl_abs (dbl_sub (dbl_of_bits a) (dbl_of_bits b))) (dbl_of_bits tolerance)"

fun resolve_among :: "datum_signature list \<Rightarrow> double_bits \<Rightarrow> double_bits \<Rightarrow> datum_id" where
  "resolve_among [] maja flat = datum_user_defined"
| "resolve_among (sig # sigs) maja flat =
     (if close_to maja (sig_maja sig) MAJA_TOLERANCE \<and> close_to flat (sig_flat sig) FLAT_TOLERANCE
      then sig_id sig else resolve_among sigs maja flat)"

definition resolve_datum_id :: "double_bits \<Rightarrow> double_bits \<Rightarrow> datum_id" where
  "resolve_datum_id maja flat = resolve_among KNOWN_DATUMS maja flat"

section \<open>The service\<close>

record 'c datum_service =
  datum :: datum_data
  received_usrdat :: bool
  received_maja :: bool
  received_flat :: bool
  on_datum_resolved :: "'c option"

definition datum_service_new :: "'c datum_service" where
  "datum_service_new =
     \<lparr>datum = \<lparr>usrdat_enabled = False, datum_data_id = datum_wgs84, datum_data_name = datum_name datum_wgs84,
                 datum_params = \<lparr>params_maja = 0, params_flat = 0\<rparr>, datum_valid = False\<rparr>,
      received_usrdat = False, received_maja = False, received_flat = False, on_datum_resolved = None\<rparr>"

definition datum_keys :: "u32 list" where
  "datum_keys = [navspg_usrdat, navspg_usrdat_maja, navspg_usrdat_flat]"

definition datum_start_valget_poll :: "'t send_op \<Rightarrow> 'c datum_service \<Rightarrow> 't \<Rightarrow> bool \<times> 'c datum_service \<times> 't" where
  "datum_start_valget_poll send_sync s t =
     (let s = s\<lparr>received_usrdat := False, received_maja := False, received_flat := False\<rparr>;
          msg = valget_build datum_keys VALGET_LAYER_RAM 0
      in if msg = [] then (False, s, t)
         else let (ok, t) = send_sync msg t in (ok, s, t))"

text \<open>One turn of the loop over the entries; the flag is \<open>any_datum_key_found\<close>.\<close>

definition datum_entry :: "'c datum_service \<times> bool \<Rightarrow> cfg_valget_entry \<Rightarrow> 'c datum_service \<times> bool" where
  "datum_entry sf e = (case sf of (s, found) \<Rightarrow>
     if valget_entry_key_id e = navspg_usrdat
     then (s\<lparr>datum := (datum s)\<lparr>usrdat_enabled := valget_entry_value e \<noteq> 0\<rparr>, received_usrdat := True\<rparr>, True)
     else if valget_entry_key_id e = navspg_usrdat_maja
     then (s\<lparr>datum := (datum s)\<lparr>datum_params := (datum_params (datum s))\<lparr>params_maja := valget_entry_value e\<rparr>\<rparr>,
              received_maja := True\<rparr>, True)
     else if valget_entry_key_id e = navspg_usrdat_flat
     then (s\<lparr>datum := (datum s)\<lparr>datum_params := (datum_params (datum s))\<lparr>params_flat := valget_entry_value e\<rparr>\<rparr>,
              received_flat := True\<rparr>, True)
     else (s, found))"

definition resolve_step :: "'c datum_service \<Rightarrow> datum_data" where
  "resolve_step s =
     (let d = datum s
      in if \<not> usrdat_enabled d
         then d\<lparr>datum_data_id := datum_wgs84, datum_data_name := datum_name datum_wgs84\<rparr>
         else if received_maja s \<and> received_flat s
         then let n = resolve_datum_id (params_maja (datum_params d)) (params_flat (datum_params d))
              in d\<lparr>datum_data_id := n, datum_data_name := datum_name n\<rparr>
         else d)"

text \<open>The service afterwards and the calls of the callback with the data they pass.\<close>

definition datum_on_valget_response ::
  "ubx_cfg_valget \<Rightarrow> 'c datum_service \<Rightarrow> 'c datum_service \<times> ('c \<times> datum_data) list" where
  "datum_on_valget_response msg s =
     (if cfg_valget_version msg \<noteq> UBX_VALGET_VERSION_RESP then (s, [])
      else let (s, found) = foldl datum_entry (s, False) (cfg_valget_entries msg)
        in if \<not> found then (s, [])
           else let d = (resolve_step s)\<lparr>datum_valid := True\<rparr>; s = s\<lparr>datum := d\<rparr>
             in (s, case on_datum_resolved s of None \<Rightarrow> [] | Some cb \<Rightarrow> [(cb, d)]))"

definition get_datum_data :: "'c datum_service \<Rightarrow> datum_data" where
  "get_datum_data s = datum s"

definition set_datum_resolved_callback :: "'c option \<Rightarrow> 'c datum_service \<Rightarrow> 'c datum_service" where
  "set_datum_resolved_callback cb s = s\<lparr>on_datum_resolved := cb\<rparr>"

section \<open>Setting the datum\<close>

definition not_positive :: "double_bits \<Rightarrow> bool" where
  "not_positive x \<longleftrightarrow> dbl_le (dbl_of_bits x) (Finite False 0)"

definition datum_entries :: "double_bits \<Rightarrow> double_bits \<Rightarrow> config_entry list" where
  "datum_entries maja_raw flat_raw =
     [\<lparr>key_id = navspg_usrdat, cfg_value = config_value_bool True\<rparr>,
      \<lparr>key_id = navspg_usrdat_maja, cfg_value = config_value_u64 maja_raw\<rparr>,
      \<lparr>key_id = navspg_usrdat_flat, cfg_value = config_value_u64 flat_raw\<rparr>]"

definition start_valset_by_params :: "'t send_op \<Rightarrow> double_bits \<Rightarrow> double_bits \<Rightarrow> config_layer \<Rightarrow> 't \<Rightarrow> bool \<times> 't" where
  "start_valset_by_params send_async maja flat layer t =
     (if not_positive maja \<or> not_positive flat then (False, t)
      else let frame = valset_build (datum_entries maja flat) layer
        in if frame = [] then (False, t) else send_async frame t)"

definition start_valset_by_id :: "'t send_op \<Rightarrow> datum_id \<Rightarrow> config_layer \<Rightarrow> 't \<Rightarrow> bool \<times> 't" where
  "start_valset_by_id send_async d layer t =
     (if d = datum_unknown \<or> d = datum_user_defined then (False, t)
      else case find (\<lambda>sig. sig_id sig = d) KNOWN_DATUMS of
             Some sig \<Rightarrow> start_valset_by_params send_async (sig_maja sig) (sig_flat sig) layer t
           | None \<Rightarrow> (False, t))"

definition reset_to_default :: "'t send_op \<Rightarrow> config_layer \<Rightarrow> 't \<Rightarrow> bool \<times> 't" where
  "reset_to_default send_async layer t =
     (let frame = valset_build [\<lparr>key_id = navspg_usrdat, cfg_value = config_value_bool False\<rparr>] layer
      in if frame = [] then (False, t) else send_async frame t)"

section \<open>Manager and controller\<close>

definition manager_on_valget_response ::
  "ubx_cfg_valget \<Rightarrow> sync_service \<Rightarrow> 'c datum_service \<Rightarrow> sync_service \<times> 'c datum_service \<times> ('c \<times> datum_data) list" where
  "manager_on_valget_response msg s d =
     (let s = sync_on_valget_response msg s; (d, calls) = datum_on_valget_response msg d in (s, d, calls))"

definition query_datum :: "'t send_op \<Rightarrow> 'c \<Rightarrow> 'c datum_service \<Rightarrow> 't \<Rightarrow> bool \<times> 'c datum_service \<times> 't" where
  "query_datum send_sync cb s t =
     datum_start_valget_poll send_sync (set_datum_resolved_callback (Some cb) s) t"

text \<open>The layer is the default argument of the manager's operations.\<close>

definition controller_set_datum :: "'t send_op \<Rightarrow> u8 \<Rightarrow> 't \<Rightarrow> bool \<times> 't" where
  "controller_set_datum send_async d t =
     (if d = datum_unknown \<or> d = datum_user_defined then reset_to_default send_async Layer_ram t
      else start_valset_by_id send_async d Layer_ram t)"

definition controller_reset_datum :: "'t send_op \<Rightarrow> 't \<Rightarrow> bool \<times> 't" where
  "controller_reset_datum send_async t = reset_to_default send_async Layer_ram t"

section \<open>The table of datums, evaluated\<close>

lemma literal_maja_wgs84: "bits_of_literal 6378137 = 4708606483430899712" "dbl_of_bits 4708606483430899712 = Finite False (6378137)"
  using bits_of_literal_eval [of "22" "6378137" 6848472456101888]
  by (simp_all add: dbl_of_bits_def Let_def power_int_def power_divide)

lemma literal_maja_pz90: "bits_of_literal 6378136 = 4708606482357157888" "dbl_of_bits 4708606482357157888 = Finite False (6378136)"
  using bits_of_literal_eval [of "22" "6378136" 6848471382360064]
  by (simp_all add: dbl_of_bits_def Let_def power_int_def power_divide)

lemma literal_flat_wgs84: "bits_of_literal (298257223563 / 1000000000) = 4643954612757622152" "dbl_of_bits 4643954612757622152 = Finite False (655874570751409 / 2199023255552)"
  using bits_of_literal_eval [of "8" "(298257223563 / 1000000000)" 5246996566011272]
  by (simp_all add: dbl_of_bits_def Let_def power_int_def power_divide)

lemma literal_flat_pz90: "bits_of_literal (298257839303 / 1000000000) = 4643954623589834787" "dbl_of_bits 4643954623589834787 = Finite False (5247007398223907 / 17592186044416)"
  using bits_of_literal_eval [of "8" "(298257839303 / 1000000000)" 5247007398223907]
  by (simp_all add: dbl_of_bits_def Let_def power_int_def power_divide)

lemma literal_tol_maja: "bits_of_literal (1 / 1000) = 4562254508917369340" "dbl_of_bits 4562254508917369340 = Finite False (1152921504606847 / 1152921504606846976)"
  using bits_of_literal_eval [of "-10" "(1 / 1000)" 4611686018427388]
  by (simp_all add: dbl_of_bits_def Let_def power_int_def power_divide)

lemma literal_tol_flat: "bits_of_literal (1 / 10000000) = 4502148214488346440" "dbl_of_bits 4502148214488346440 = Finite False (944473296573929 / 9444732965739290427392)"
  using bits_of_literal_eval [of "-24" "(1 / 10000000)" 7555786372591432]
  by (simp_all add: dbl_of_bits_def Let_def power_int_def power_divide)

lemmas literals = literal_maja_wgs84 literal_maja_pz90 literal_flat_wgs84 literal_flat_pz90 literal_tol_maja literal_tol_flat

lemma one_metre: "round_magnitude 1 = 1"
  using round_magnitude_eval [of 0 1 "2 ^ 52"] by (simp add: power_int_def power_divide)

lemma known_datums_resolved:
  "resolve_datum_id (bits_of_literal 6378137) (bits_of_literal (298257223563 / 1000000000)) = datum_wgs84"
  "resolve_datum_id (bits_of_literal 6378136) (bits_of_literal (298257839303 / 1000000000)) = datum_pz90"
  by (simp_all add: resolve_datum_id_def KNOWN_DATUMS_def close_to_def MAJA_TOLERANCE_def FLAT_TOLERANCE_def
      literals dbl_value_def dbl_round_def one_metre Let_def)

section \<open>What a response does\<close>

text \<open>The last value a response carries for a key.\<close>

definition response_value :: "cfg_valget_entry list \<Rightarrow> u32 \<Rightarrow> u64 option" where
  "response_value es = map_of (rev (map (\<lambda>e. (valget_entry_key_id e, valget_entry_value e)) es))"

lemma response_value_snoc [simp]:
  "response_value (es @ [e]) = (response_value es)(valget_entry_key_id e \<mapsto> valget_entry_value e)"
  "response_value [] = Map.empty"
  by (simp_all add: response_value_def)

definition updated :: "cfg_valget_entry list \<Rightarrow> 'c datum_service \<Rightarrow> 'c datum_service" where
  "updated es s =
     (let kv = response_value es
      in s\<lparr>datum := (datum s)
             \<lparr>usrdat_enabled := (case kv navspg_usrdat of None \<Rightarrow> usrdat_enabled (datum s) | Some v \<Rightarrow> v \<noteq> 0),
              datum_params :=
                \<lparr>params_maja = (case kv navspg_usrdat_maja of None \<Rightarrow> params_maja (datum_params (datum s)) | Some v \<Rightarrow> v),
                 params_flat = (case kv navspg_usrdat_flat of None \<Rightarrow> params_flat (datum_params (datum s)) | Some v \<Rightarrow> v)\<rparr>\<rparr>,
           received_usrdat := received_usrdat s \<or> kv navspg_usrdat \<noteq> None,
           received_maja := received_maja s \<or> kv navspg_usrdat_maja \<noteq> None,
           received_flat := received_flat s \<or> kv navspg_usrdat_flat \<noteq> None\<rparr>)"

lemmas datum_key_defs = navspg_usrdat_def navspg_usrdat_maja_def navspg_usrdat_flat_def

lemma fold_datum_entries:
  "foldl datum_entry (s, found) es =
     (updated es s, found \<or> (\<exists>k \<in> set datum_keys. response_value es k \<noteq> None))"
proof (induction es rule: rev_induct)
  case Nil
  show ?case by (cases "datum_params (datum s)") (simp add: updated_def)
next
  case (snoc e es)
  then show ?case
    by (auto simp: datum_entry_def updated_def datum_keys_def datum_key_defs Let_def)
qed

lemma datum_response:
  assumes "cfg_valget_version msg = UBX_VALGET_VERSION_RESP"
    and "k \<in> set datum_keys" and "response_value (cfg_valget_entries msg) k \<noteq> None"
  shows "datum_on_valget_response msg s =
    (let s' = updated (cfg_valget_entries msg) s; d = (resolve_step s')\<lparr>datum_valid := True\<rparr>
     in (s'\<lparr>datum := d\<rparr>, case on_datum_resolved s of None \<Rightarrow> [] | Some cb \<Rightarrow> [(cb, d)]))"
proof -
  have "\<exists>k \<in> set datum_keys. response_value (cfg_valget_entries msg) k \<noteq> None" using assms(2,3) by blast
  then show ?thesis
    by (simp add: datum_on_valget_response_def assms(1) fold_datum_entries Let_def) (simp add: updated_def Let_def)
qed

lemma datum_resolved:
  assumes "cfg_valget_version msg = UBX_VALGET_VERSION_RESP"
    and "response_value (cfg_valget_entries msg) navspg_usrdat = Some u"
    and "response_value (cfg_valget_entries msg) navspg_usrdat_maja = Some a"
    and "response_value (cfg_valget_entries msg) navspg_usrdat_flat = Some f"
  shows "let n = (if u = 0 then datum_wgs84 else resolve_datum_id a f);
      d = \<lparr>usrdat_enabled = (u \<noteq> 0), datum_data_id = n, datum_data_name = datum_name n,
           datum_params = \<lparr>params_maja = a, params_flat = f\<rparr>, datum_valid = True\<rparr>
    in get_datum_data (fst (datum_on_valget_response msg s)) = d
    \<and> snd (datum_on_valget_response msg s) = (case on_datum_resolved s of None \<Rightarrow> [] | Some cb \<Rightarrow> [(cb, d)])"
proof -
  define d where "d = (resolve_step (updated (cfg_valget_entries msg) s))\<lparr>datum_valid := True\<rparr>"
  have "navspg_usrdat \<in> set datum_keys" by (simp add: datum_keys_def)
  then have calls: "datum_on_valget_response msg s =
    ((updated (cfg_valget_entries msg) s)\<lparr>datum := d\<rparr>, case on_datum_resolved s of None \<Rightarrow> [] | Some cb \<Rightarrow> [(cb, d)])"
    using datum_response [OF assms(1), of navspg_usrdat s] assms(2) by (simp add: d_def Let_def split: option.split)
  have d: "d = (let n = (if u = 0 then datum_wgs84 else resolve_datum_id a f)
    in \<lparr>usrdat_enabled = (u \<noteq> 0), datum_data_id = n, datum_data_name = datum_name n,
           datum_params = \<lparr>params_maja = a, params_flat = f\<rparr>, datum_valid = True\<rparr>)"
    by (simp add: d_def assms(2-) updated_def resolve_step_def Let_def)
  from calls have "get_datum_data (fst (datum_on_valget_response msg s)) = d
    \<and> snd (datum_on_valget_response msg s) = (case on_datum_resolved s of None \<Rightarrow> [] | Some cb \<Rightarrow> [(cb, d)])"
    by (simp add: get_datum_data_def)
  then show ?thesis unfolding Let_def by (simp only: d Let_def)
qed

text \<open>A response that carries the three datum keys, in any order and among any others, resolves the
  datum: WGS-84 when the user datum is off, otherwise what the table of known ellipsoids gives for the two
  parameters, the last value of a repeated key counting. The data become valid, and the callback is called
  once with them.\<close>

theorem datum_response_resolves:
  assumes "cfg_valget_version msg = UBX_VALGET_VERSION_RESP"
    and "response_value (cfg_valget_entries msg) navspg_usrdat = Some u"
    and "response_value (cfg_valget_entries msg) navspg_usrdat_maja = Some a"
    and "response_value (cfg_valget_entries msg) navspg_usrdat_flat = Some f"
    and "n = (if u = 0 then datum_wgs84 else resolve_datum_id a f)"
    and "d = \<lparr>usrdat_enabled = (u \<noteq> 0), datum_data_id = n, datum_data_name = datum_name n,
              datum_params = \<lparr>params_maja = a, params_flat = f\<rparr>, datum_valid = True\<rparr>"
  shows "get_datum_data (fst (datum_on_valget_response msg s)) = d
    \<and> snd (datum_on_valget_response msg s) = (case on_datum_resolved s of None \<Rightarrow> [] | Some cb \<Rightarrow> [(cb, d)])"
  using datum_resolved [OF assms(1-4), of s] unfolding assms(5,6) Let_def .

definition pz90_response :: ubx_cfg_valget where
  "pz90_response = \<lparr>cfg_valget_version = 1, cfg_valget_layer = 0, cfg_valget_position = 0,
     cfg_valget_entries =
       [\<lparr>valget_entry_key_id = navspg_usrdat_flat, valget_entry_value = bits_of_literal (298257839303 / 1000000000)\<rparr>,
        \<lparr>valget_entry_key_id = navspg_usrdat, valget_entry_value = 1\<rparr>,
        \<lparr>valget_entry_key_id = navspg_usrdat_maja, valget_entry_value = bits_of_literal 6378136\<rparr>]\<rparr>"

theorem datum_response_resolves_witness:
  "datum_data_id (get_datum_data (fst (datum_on_valget_response pz90_response
     (set_datum_resolved_callback (Some ()) datum_service_new)))) = datum_pz90"
proof -
  note r = datum_response_resolves [of pz90_response 1 "bits_of_literal 6378136" "bits_of_literal (298257839303 / 1000000000)"
      datum_pz90 _ "set_datum_resolved_callback (Some ()) datum_service_new"]
  show ?thesis
    by (subst r [THEN conjunct1, OF _ _ _ _ _ refl])
      (simp_all add: pz90_response_def UBX_VALGET_VERSION_RESP_def response_value_def datum_key_defs known_datums_resolved)
qed

section \<open>A datum that is set is reported\<close>

lemma datum_entries_sized: "\<forall>e \<in> set (datum_entries a f). value_byte_size (key_id e) \<noteq> 0"
  by (simp add: datum_entries_def datum_key_defs value_byte_size_def)

lemma datum_entries_response:
  "map valget_entry_of (filter (\<lambda>e. value_byte_size (key_id e) \<noteq> 0) (datum_entries a f)) =
     [\<lparr>valget_entry_key_id = navspg_usrdat, valget_entry_value = 1\<rparr>,
      \<lparr>valget_entry_key_id = navspg_usrdat_maja, valget_entry_value = a\<rparr>,
      \<lparr>valget_entry_key_id = navspg_usrdat_flat, valget_entry_value = f\<rparr>]"
  by (simp add: datum_entries_def valget_entry_of_def wire_value_def value_byte_size_def datum_key_defs
      config_value_bool_def config_value_u64_def take_bit_word_eq_self)

lemma known_datum_cases:
  "find (\<lambda>sig. sig_id sig = d) KNOWN_DATUMS = Some sig \<Longrightarrow>
     (d = 1 \<and> sig = KNOWN_DATUMS ! 0) \<or> (d = 2 \<and> sig = KNOWN_DATUMS ! 1)"
  by (auto simp: KNOWN_DATUMS_def datum_wgs84_def datum_pz90_def split: if_splits)

lemma known_datum:
  assumes "find (\<lambda>sig. sig_id sig = d) KNOWN_DATUMS = Some sig"
  shows "d \<noteq> datum_unknown" "d \<noteq> datum_user_defined" "\<not> not_positive (sig_maja sig)" "\<not> not_positive (sig_flat sig)"
    "resolve_datum_id (sig_maja sig) (sig_flat sig) = d"
  using known_datum_cases [OF assms] known_datums_resolved
  by (auto simp: KNOWN_DATUMS_def datum_unknown_def datum_user_defined_def datum_wgs84_def datum_pz90_def
      not_positive_def literals dbl_value_def)

text \<open>C17 (roundtrip). A datum of the table that is set is the datum that is reported: \<open>set_datum\<close> sends one VALSET frame
  with the flag and the two parameters of the table, bit for bit, and the response of a receiver that
  returns these three settings resolves to the same datum, valid, with the callback called once.\<close>

theorem datum_set_reads_back:
  assumes "find (\<lambda>sig. sig_id sig = d) KNOWN_DATUMS = Some sig"
    and "length (valget_response l pos (datum_entries (sig_maja sig) (sig_flat sig))) < 65536"
  shows "controller_set_datum send_async d t = send_async (valset_build (datum_entries (sig_maja sig) (sig_flat sig)) Layer_ram) t
    \<and> (\<exists>m. decode_cfg_valget (built_frame c i (valget_response l pos (datum_entries (sig_maja sig) (sig_flat sig)))) = Some m
         \<and> (case datum_on_valget_response m s of (s', calls) \<Rightarrow>
              datum_data_id (get_datum_data s') = d \<and> datum_valid (get_datum_data s')
              \<and> calls = (case on_datum_resolved s of None \<Rightarrow> [] | Some cb \<Rightarrow> [(cb, get_datum_data s')])))"
proof
  let ?es = "datum_entries (sig_maja sig) (sig_flat sig)"
  have "valset_build ?es Layer_ram \<noteq> []"
    unfolding valset_build_Nil using datum_entries_sized by (simp add: datum_entries_def)
  then show "controller_set_datum send_async d t = send_async (valset_build ?es Layer_ram) t"
    using known_datum [OF assms(1)]
    by (simp add: controller_set_datum_def start_valset_by_id_def assms(1) start_valset_by_params_def)
  define m where "m = \<lparr>cfg_valget_version = UBX_VALGET_VERSION_RESP, cfg_valget_layer = l, cfg_valget_position = pos,
    cfg_valget_entries = map valget_entry_of (filter (\<lambda>e. value_byte_size (key_id e) \<noteq> 0) ?es)\<rparr>"
  have decoded: "decode_cfg_valget (built_frame c i (valget_response l pos ?es)) = Some m"
    using decode_valget_response [OF assms(2), of c i] by (simp add: m_def)
  have "response_value (cfg_valget_entries m) navspg_usrdat = Some 1"
    "response_value (cfg_valget_entries m) navspg_usrdat_maja = Some (sig_maja sig)"
    "response_value (cfg_valget_entries m) navspg_usrdat_flat = Some (sig_flat sig)"
    unfolding m_def by (simp_all add: datum_entries_response response_value_def datum_key_defs)
  moreover have "cfg_valget_version m = UBX_VALGET_VERSION_RESP" by (simp add: m_def)
  ultimately have resolved: "get_datum_data (fst (datum_on_valget_response m s))
      = \<lparr>usrdat_enabled = True, datum_data_id = d, datum_data_name = datum_name d,
         datum_params = \<lparr>params_maja = sig_maja sig, params_flat = sig_flat sig\<rparr>, datum_valid = True\<rparr>"
    "snd (datum_on_valget_response m s) = (case on_datum_resolved s of None \<Rightarrow> []
       | Some cb \<Rightarrow> [(cb, get_datum_data (fst (datum_on_valget_response m s)))])"
    using datum_resolved [of m 1 "sig_maja sig" "sig_flat sig" s] known_datum(5) [OF assms(1)]
    by (simp_all add: Let_def split: option.split)
  have "case datum_on_valget_response m s of (s', calls) \<Rightarrow>
      datum_data_id (get_datum_data s') = d \<and> datum_valid (get_datum_data s')
      \<and> calls = (case on_datum_resolved s of None \<Rightarrow> [] | Some cb \<Rightarrow> [(cb, get_datum_data s')])"
    using resolved by (simp add: split_def)
  with decoded show "\<exists>m. decode_cfg_valget (built_frame c i (valget_response l pos ?es)) = Some m
         \<and> (case datum_on_valget_response m s of (s', calls) \<Rightarrow>
              datum_data_id (get_datum_data s') = d \<and> datum_valid (get_datum_data s')
              \<and> calls = (case on_datum_resolved s of None \<Rightarrow> [] | Some cb \<Rightarrow> [(cb, get_datum_data s')]))"
    by (intro exI [of _ m] conjI)
qed

theorem datum_set_reads_back_witness:
  "controller_set_datum (\<lambda>msg sent. (True, sent @ [msg])) 2 [] =
     (True, [valset_build (datum_entries 4708606482357157888 4643954623589834787) Layer_ram])"
proof -
  have "find (\<lambda>sig. sig_id sig = 2) KNOWN_DATUMS = Some (KNOWN_DATUMS ! 1)"
    by (simp add: KNOWN_DATUMS_def datum_wgs84_def datum_pz90_def)
  moreover have "length (valget_response 0 0 (datum_entries a f)) < 65536" for a f
    by (simp add: valget_response_def datum_entries_def
      kv_bytes_def write_le32_bytes write_config_value_def value_byte_size_def datum_key_defs write_le16_bytes
      le64.enc_width as_u8_def write_u8_def)
  ultimately have "controller_set_datum (\<lambda>msg sent. (True, sent @ [msg])) 2 [] =
      (True, [] @ [valset_build (datum_entries (sig_maja (KNOWN_DATUMS ! 1)) (sig_flat (KNOWN_DATUMS ! 1))) Layer_ram])"
    by (rule datum_set_reads_back [THEN conjunct1])
  moreover have "sig_maja (KNOWN_DATUMS ! 1) = 4708606482357157888" "sig_flat (KNOWN_DATUMS ! 1) = 4643954623589834787"
    by (simp_all add: KNOWN_DATUMS_def literals)
  ultimately show ?thesis by simp
qed

section \<open>Incomplete responses\<close>

text \<open>A response that switches the user datum on without both of its parameters, none having arrived
  since the poll, is reported all the same: the data become valid and the callback is called, with the user
  datum enabled, the parameters of an earlier poll where none came, and the identifier and name of whatever
  datum was reported before, WGS-84 at first.\<close>

theorem datum_partial_response_stale:
  assumes "cfg_valget_version msg = UBX_VALGET_VERSION_RESP"
    and "response_value (cfg_valget_entries msg) navspg_usrdat = Some u" and "u \<noteq> 0"
    and "response_value (cfg_valget_entries msg) navspg_usrdat_maja = None
      \<or> response_value (cfg_valget_entries msg) navspg_usrdat_flat = None"
    and "s' = fst (snd (query_datum send_sync cb s t))"
  shows "\<exists>d. snd (datum_on_valget_response msg s') = [(cb, d)] \<and> get_datum_data (fst (datum_on_valget_response msg s')) = d
    \<and> datum_valid d \<and> usrdat_enabled d
    \<and> datum_data_id d = datum_data_id (datum s) \<and> datum_data_name d = datum_data_name (datum s)"
proof -
  have s': "datum s' = datum s" "\<not> received_maja s'" "\<not> received_flat s'" "on_datum_resolved s' = Some cb"
    by (auto simp: assms(5) query_datum_def datum_start_valget_poll_def set_datum_resolved_callback_def Let_def split_def)
  have "navspg_usrdat \<in> set datum_keys" by (simp add: datum_keys_def)
  then have "datum_on_valget_response msg s' =
    (let s'' = updated (cfg_valget_entries msg) s'; d = (resolve_step s'')\<lparr>datum_valid := True\<rparr>
     in (s''\<lparr>datum := d\<rparr>, [(cb, d)]))"
    using assms(1,2) datum_response [of msg navspg_usrdat s'] by (simp add: s'(4))
  moreover have "resolve_step (updated (cfg_valget_entries msg) s') = datum (updated (cfg_valget_entries msg) s')"
    using assms(2-4) s'(2,3) by (auto simp: resolve_step_def updated_def Let_def)
  ultimately show ?thesis
    using assms(2,3) by (simp add: get_datum_data_def Let_def) (simp add: updated_def s'(1) Let_def)
qed

theorem datum_partial_response_stale_witness:
  "\<exists>d. snd (datum_on_valget_response
      \<lparr>cfg_valget_version = 1, cfg_valget_layer = 0, cfg_valget_position = 0,
       cfg_valget_entries = [\<lparr>valget_entry_key_id = navspg_usrdat, valget_entry_value = 1\<rparr>]\<rparr>
      (fst (snd (query_datum (\<lambda>msg sent. (True, sent @ [msg])) ''cb'' datum_service_new [])))) = [(''cb'', d)]
    \<and> usrdat_enabled d \<and> datum_data_name d = ''WGS-84''"
proof -
  let ?m = "\<lparr>cfg_valget_version = 1, cfg_valget_layer = 0, cfg_valget_position = 0,
       cfg_valget_entries = [\<lparr>valget_entry_key_id = navspg_usrdat, valget_entry_value = 1\<rparr>]\<rparr>"
  note stale = datum_partial_response_stale [of ?m 1 _ "\<lambda>msg sent. (True, sent @ [msg])" "''cb''" datum_service_new "[]", OF _ _ _ _ refl]
  show ?thesis
    using stale by (fastforce simp: UBX_VALGET_VERSION_RESP_def response_value_def datum_key_defs
        datum_service_new_def datum_name_def datum_wgs84_def)
qed

end
