(* ===== verification/Sensor_Feed.thy ===== *)
theory Sensor_Feed
  imports Ubx_Builders Shared_Buffers
begin

text \<open>
  The sensor data the application feeds to the receiver: the slot of \<open>gnss_controller\<close> that turns the
  dead-reckoning input buffer into a UBX-ESF-MEAS frame. A sensor value is the rational its \<open>double\<close> holds;
  \<open>None\<close> is a conversion to an integer that C++ leaves undefined.
\<close>

section \<open>Encoding\<close>

definition ESF_SENSOR_NONE :: u8 where "ESF_SENSOR_NONE = 0"
definition ESF_SENSOR_Z_GYRO_ANG_RATE :: u8 where "ESF_SENSOR_Z_GYRO_ANG_RATE = 5"
definition ESF_SENSOR_FRONT_LEFT_WHEEL_TICKS :: u8 where "ESF_SENSOR_FRONT_LEFT_WHEEL_TICKS = 6"
definition ESF_SENSOR_FRONT_RIGHT_WHEEL_TICKS :: u8 where "ESF_SENSOR_FRONT_RIGHT_WHEEL_TICKS = 7"
definition ESF_SENSOR_REAR_LEFT_WHEEL_TICKS :: u8 where "ESF_SENSOR_REAR_LEFT_WHEEL_TICKS = 8"
definition ESF_SENSOR_REAR_RIGHT_WHEEL_TICKS :: u8 where "ESF_SENSOR_REAR_RIGHT_WHEEL_TICKS = 9"
definition ESF_SENSOR_SPEED :: u8 where "ESF_SENSOR_SPEED = 10"
definition ESF_SENSOR_GYRO_TEMP :: u8 where "ESF_SENSOR_GYRO_TEMP = 11"
definition ESF_SENSOR_X_GYRO_ANG_RATE :: u8 where "ESF_SENSOR_X_GYRO_ANG_RATE = 12"
definition ESF_SENSOR_Y_GYRO_ANG_RATE :: u8 where "ESF_SENSOR_Y_GYRO_ANG_RATE = 13"
definition ESF_SENSOR_X_ACCEL :: u8 where "ESF_SENSOR_X_ACCEL = 14"
definition ESF_SENSOR_Y_ACCEL :: u8 where "ESF_SENSOR_Y_ACCEL = 16"
definition ESF_SENSOR_Z_ACCEL :: u8 where "ESF_SENSOR_Z_ACCEL = 17"

lemmas esf_sensor_defs =
  ESF_SENSOR_Z_GYRO_ANG_RATE_def ESF_SENSOR_FRONT_LEFT_WHEEL_TICKS_def ESF_SENSOR_FRONT_RIGHT_WHEEL_TICKS_def
  ESF_SENSOR_REAR_LEFT_WHEEL_TICKS_def ESF_SENSOR_REAR_RIGHT_WHEEL_TICKS_def ESF_SENSOR_SPEED_def
  ESF_SENSOR_GYRO_TEMP_def ESF_SENSOR_X_GYRO_ANG_RATE_def ESF_SENSOR_Y_GYRO_ANG_RATE_def
  ESF_SENSOR_X_ACCEL_def ESF_SENSOR_Y_ACCEL_def ESF_SENSOR_Z_ACCEL_def

definition to_int32 :: "rat \<Rightarrow> i32 option" where
  "to_int32 x = (let i = trunc x in if - (2 ^ 31) \<le> i \<and> i < 2 ^ 31 then Some (word_of_int i) else None)"

definition to_uint32 :: "rat \<Rightarrow> u32 option" where
  "to_uint32 x = (let i = trunc x in if 0 \<le> i \<and> i < 2 ^ 32 then Some (word_of_int i) else None)"

definition encode_ticks :: "rat \<Rightarrow> bool \<Rightarrow> i32 option" where
  "encode_ticks val backward =
     (case to_uint32 val of
        None \<Rightarrow> None
      | Some n \<Rightarrow> Some ((n AND 0x007FFFFF) OR (if backward then push_bit 23 1 else 0)))"

text \<open>The negation of the smallest integer overflows.\<close>

definition encode_speed :: "rat \<Rightarrow> bool \<Rightarrow> i32 option" where
  "encode_speed val backward =
     (case to_int32 (dmul val 1000) of
        None \<Rightarrow> None
      | Some i \<Rightarrow> if \<not> backward then Some i else if sint i = - (2 ^ 31) then None else Some (- i))"

definition encode_sensor_value :: "u8 \<Rightarrow> rat \<Rightarrow> bool \<Rightarrow> i32 option" where
  "encode_sensor_value sensor_type val wheeltick_dir_backward =
     (if sensor_type \<in> {ESF_SENSOR_FRONT_LEFT_WHEEL_TICKS, ESF_SENSOR_FRONT_RIGHT_WHEEL_TICKS,
                        ESF_SENSOR_REAR_LEFT_WHEEL_TICKS, ESF_SENSOR_REAR_RIGHT_WHEEL_TICKS}
      then encode_ticks val wheeltick_dir_backward
      else if sensor_type = ESF_SENSOR_GYRO_TEMP then to_int32 (dmul val 100)
      else if sensor_type \<in> {ESF_SENSOR_Z_GYRO_ANG_RATE, ESF_SENSOR_X_GYRO_ANG_RATE, ESF_SENSOR_Y_GYRO_ANG_RATE}
      then to_int32 (dmul val 4096)
      else if sensor_type \<in> {ESF_SENSOR_X_ACCEL, ESF_SENSOR_Y_ACCEL, ESF_SENSOR_Z_ACCEL}
      then to_int32 (dmul val 1024)
      else if sensor_type = ESF_SENSOR_SPEED then encode_speed val wheeltick_dir_backward
      else to_int32 val)"

section \<open>The slot\<close>

fun encode_sensors :: "bool \<Rightarrow> dr_sensor_in_record list \<Rightarrow> ubx_esf_meas_datum list option" where
  "encode_sensors backward [] = Some []"
| "encode_sensors backward (s # ss) =
     (case encode_sensor_value (dsi_type s) (dsi_value s) backward of
        None \<Rightarrow> None
      | Some v \<Rightarrow>
          (case encode_sensors backward ss of
             None \<Rightarrow> None
           | Some ds \<Rightarrow> Some (\<lparr>esf_datum_data_type = dsi_type s, esf_datum_data_value = v\<rparr> # ds)))"

text \<open>The message the slot fills from the buffer; the data beyond the count stay zero.\<close>

definition sensor_message :: "dead_reckoning_data_in \<Rightarrow> ubx_esf_meas option" where
  "sensor_message dr =
     (let n = min (dri_num_sens dr) UBX_ESF_MEAS_MAX_DATA
      in case encode_sensors (dri_wheeltick_dir_backward dr) (take (unat n) (dri_sensors dr)) of
           None \<Rightarrow> None
         | Some ds \<Rightarrow> Some
             \<lparr>esf_meas_time_tag = dri_time_tag_ms dr, esf_meas_flags = 0, esf_meas_id = 0, esf_meas_num_meas = n,
              esf_meas_data = fill_array 32 esf_datum_zero ds,
              esf_meas_has_calib_ttag = False, esf_meas_calib_ttag = 0\<rparr>)"

text \<open>
  \<open>slot_external_data_update\<close>: the transport afterwards, which has been given a frame only for the
  dead-reckoning input and only when one was built. A failure is only logged. \<open>None\<close> is undefined behaviour.
\<close>

definition slot_external_data_update ::
  "(bytes \<Rightarrow> 't \<Rightarrow> bool \<times> 't) \<Rightarrow> buffer_type \<Rightarrow> dead_reckoning_data_in \<Rightarrow> 't \<Rightarrow> 't option" where
  "slot_external_data_update send_async type dr t =
     (if type \<noteq> Buf_dead_reckoning_in then Some t
      else case sensor_message dr of
             None \<Rightarrow> None
           | Some m \<Rightarrow> let frame = build_esf_meas m in Some (if frame = [] then t else snd (send_async frame t)))"

section \<open>What the receiver gets\<close>

text \<open>A product with a power of two is exact.\<close>

lemma binade_scale: "x \<noteq> 0 \<Longrightarrow> binade (x * 2 ^ k) = binade x + int k"
proof -
  assume "x \<noteq> 0"
  from binade_bounds [OF this] show ?thesis
    by (intro binade_unique) (simp_all add: abs_mult power_int_add add.assoc)
qed

lemma round_prec_scale: "round_prec p (x * 2 ^ k) = round_prec p x * 2 ^ k"
proof (cases "x = 0")
  case False
  let ?e = "binade x - int p + 1"
  have "x * 2 ^ k / 2 powi (?e + int k) = x / 2 powi ?e"
    by (simp add: power_int_add)
  then show ?thesis
    using False by (simp add: round_prec_def binade_scale [OF False] Let_def power_int_add ac_simps)
      (simp add: power_int_diff power_int_add field_simps)
qed (simp add: round_prec_def)

lemma dmul_power: "round_prec 53 x = x \<Longrightarrow> dmul x (2 ^ k) = x * 2 ^ k"
  by (simp add: dmul_def round_prec_scale)

lemma trunc_error: "\<bar>of_int (trunc x) - x\<bar> < 1" "\<bar>of_int (trunc x)\<bar> \<le> \<bar>x\<bar>"
proof -
  show "\<bar>of_int (trunc x) - x\<bar> < 1"
    unfolding trunc_def using floor_correct [of x] floor_correct [of "- x"]
    by (cases "0 \<le> x"; simp add: abs_less_iff; linarith)
  show "\<bar>of_int (trunc x)\<bar> \<le> \<bar>x\<bar>"
    unfolding trunc_def using floor_correct [of x] floor_correct [of "- x"]
    by (cases "0 \<le> x"; simp add: abs_le_iff; linarith)
qed

text \<open>The sensors that measure in a power of two, and the values that fit 24 bits.\<close>

definition sensor_scale :: "u8 \<Rightarrow> nat option" where
  "sensor_scale t =
     (if t \<in> {ESF_SENSOR_Z_GYRO_ANG_RATE, ESF_SENSOR_X_GYRO_ANG_RATE, ESF_SENSOR_Y_GYRO_ANG_RATE} then Some 12
      else if t \<in> {ESF_SENSOR_X_ACCEL, ESF_SENSOR_Y_ACCEL, ESF_SENSOR_Z_ACCEL} then Some 10
      else None)"

definition inertial :: "dr_sensor_in_record \<Rightarrow> bool" where
  "inertial s \<longleftrightarrow>
     (case sensor_scale (dsi_type s) of
        None \<Rightarrow> False
      | Some k \<Rightarrow> round_prec 53 (dsi_value s) = dsi_value s \<and> \<bar>dsi_value s * 2 ^ k\<bar> < 2 ^ 23)"

definition inertial_close :: "dr_sensor_in_record \<Rightarrow> ubx_esf_meas_datum \<Rightarrow> bool" where
  "inertial_close s d \<longleftrightarrow>
     esf_datum_data_type d = dsi_type s
     \<and> (case sensor_scale (dsi_type s) of
          None \<Rightarrow> False
        | Some k \<Rightarrow> \<bar>of_int (sint (esf_datum_data_value d)) / 2 ^ k - dsi_value s\<bar> < 1 / 2 ^ k)"

lemma encode_scaled: "sensor_scale t = Some k \<Longrightarrow> encode_sensor_value t x b = to_int32 (dmul x (2 ^ k))"
  by (auto simp: sensor_scale_def encode_sensor_value_def esf_sensor_defs split: if_splits)

lemma inertial_encoded:
  assumes "inertial s"
  obtains v where "encode_sensor_value (dsi_type s) (dsi_value s) b = Some v"
    and "dsi_type s < 64" and "- (2 ^ 23) \<le> sint v" and "sint v < 2 ^ 23"
    and "inertial_close s \<lparr>esf_datum_data_type = dsi_type s, esf_datum_data_value = v\<rparr>"
proof -
  obtain k where k: "sensor_scale (dsi_type s) = Some k" "round_prec 53 (dsi_value s) = dsi_value s"
    "\<bar>dsi_value s * 2 ^ k\<bar> < 2 ^ 23"
    using assms by (auto simp: inertial_def split: option.splits)
  define i where "i = trunc (dsi_value s * 2 ^ k)"
  define v :: i32 where "v = word_of_int i"
  have "\<bar>of_int i :: rat\<bar> < 2 ^ 23" using trunc_error(2) [of "dsi_value s * 2 ^ k"] k(3) by (simp add: i_def)
  then have "\<bar>of_int i :: rat\<bar> < of_int (2 ^ 23)" by simp
  then have i: "- (2 ^ 23) < i" "i < 2 ^ 23" by (simp_all only: of_int_abs [symmetric] of_int_less_iff)
  then have "signed_take_bit 31 i = i" by (intro signed_take_bit_int_eq_self) simp_all
  then have v: "sint v = i" by (simp add: v_def signed_of_int)
  have "encode_sensor_value (dsi_type s) (dsi_value s) b = Some v"
    using i by (simp add: encode_scaled [OF k(1)] dmul_power [OF k(2)] to_int32_def i_def [symmetric] v_def)
  moreover have "dsi_type s < 64"
    using k(1) by (auto simp: sensor_scale_def esf_sensor_defs split: if_splits)
  moreover have "\<bar>of_int i / 2 ^ k - dsi_value s\<bar> < 1 / 2 ^ k"
  proof -
    have "of_int i / 2 ^ k - dsi_value s = (of_int i - dsi_value s * 2 ^ k) / 2 ^ k"
      by (simp add: diff_divide_distrib)
    moreover have "\<bar>of_int i - dsi_value s * 2 ^ k\<bar> < 1" using trunc_error(1) by (simp add: i_def)
    ultimately show ?thesis by (simp add: abs_divide divide_strict_right_mono)
  qed
  then have "inertial_close s \<lparr>esf_datum_data_type = dsi_type s, esf_datum_data_value = v\<rparr>"
    by (simp add: inertial_close_def k(1) v)
  ultimately show thesis using that i v by simp
qed

lemma encode_inertial:
  assumes "\<forall>s \<in> set ss. inertial s"
  shows "\<exists>ds. encode_sensors b ss = Some ds \<and> list_all2 inertial_close ss ds
    \<and> (\<forall>d \<in> set ds. esf_datum_data_type d < 64 \<and> - (2 ^ 23) \<le> sint (esf_datum_data_value d)
         \<and> sint (esf_datum_data_value d) < 2 ^ 23)"
  using assms
proof (induction ss)
  case (Cons s ss)
  obtain v where "encode_sensor_value (dsi_type s) (dsi_value s) b = Some v"
    "dsi_type s < 64" "- (2 ^ 23) \<le> sint v" "sint v < 2 ^ 23"
    "inertial_close s \<lparr>esf_datum_data_type = dsi_type s, esf_datum_data_value = v\<rparr>"
    using inertial_encoded Cons.prems by (metis list.set_intros(1))
  with Cons show ?case by fastforce
qed simp

lemma esf_meas_delivered:
  assumes "idle p" and "\<not> p_raw_cb p" and "136 \<le> unat (p_max_payload_len p)"
    and "registry_find (p_registry p) UBX_CLASS_ESF UBX_ID_ESF_MEAS = Some esf_meas_decoder"
    and "length (esf_meas_data m) = 32" and n: "esf_meas_num_meas m \<noteq> 0" "esf_meas_num_meas m \<le> 32"
  shows "snd (ubx_feed p (build_esf_meas m)) = [Decoder_callback (Esf_meas (esf_meas_received m))]"
proof -
  from n(2) have "length (esf_meas_payload m) \<le> unat (p_max_payload_len p)"
    using assms(3) by (simp add: length_esf_meas_payload word_le_nat_alt)
  from feed_decoder [OF assms(1,2) this assms(4)] show ?thesis
    by (simp add: build_esf_meas_frame [OF n] esf_meas_decoder_def decode_esf_meas_payload [OF assms(5) n(2)])
qed

text \<open>The transport that keeps the frames it is given.\<close>

definition log_send :: "bytes \<Rightarrow> bytes list \<Rightarrow> bool \<times> bytes list" where
  "log_send frame sent = (True, sent @ [frame])"

lemma sensor_message_received:
  assumes "0 < dri_num_sens dr" and "dri_num_sens dr \<le> 32" and "length (dri_sensors dr) = 32"
    and "\<forall>s \<in> set (take (unat (dri_num_sens dr)) (dri_sensors dr)). inertial s"
  obtains m where "sensor_message dr = Some m" and "esf_meas_num_meas m = dri_num_sens dr"
    and "esf_meas_time_tag m = dri_time_tag_ms dr" and "length (esf_meas_data m) = 32"
    and "list_all2 inertial_close (take (unat (dri_num_sens dr)) (dri_sensors dr))
           (take (unat (dri_num_sens dr)) (esf_meas_data (esf_meas_received m)))"
proof -
  define n where "n = unat (dri_num_sens dr)"
  have n: "n \<le> 32" using assms(2) by (simp add: n_def word_le_nat_alt)
  obtain ds where ds: "encode_sensors (dri_wheeltick_dir_backward dr) (take n (dri_sensors dr)) = Some ds"
      "list_all2 inertial_close (take n (dri_sensors dr)) ds"
      "\<forall>d \<in> set ds. esf_datum_data_type d < 64 \<and> - (2 ^ 23) \<le> sint (esf_datum_data_value d)
         \<and> sint (esf_datum_data_value d) < 2 ^ 23"
    using encode_inertial assms(4) unfolding n_def by blast
  from list_all2_lengthD [OF ds(2)] have len: "length ds = n" using n assms(3) by simp
  define m where "m = \<lparr>esf_meas_time_tag = dri_time_tag_ms dr, esf_meas_flags = 0, esf_meas_id = 0,
    esf_meas_num_meas = dri_num_sens dr, esf_meas_data = fill_array 32 esf_datum_zero ds,
    esf_meas_has_calib_ttag = False, esf_meas_calib_ttag = 0\<rparr>"
  have "sensor_message dr = Some m"
    using ds(1) assms(2) by (simp add: sensor_message_def m_def n_def ubx_consts min_def)
  moreover have l: "length (esf_meas_data m) = 32" using n len by (simp add: m_def length_fill_array)
  moreover have "take n (esf_meas_data (esf_meas_received m)) = ds"
  proof -
    have "\<forall>d \<in> set (esf_meas_data m). esf_datum_data_type d < 64
        \<and> - (2 ^ 23) \<le> sint (esf_datum_data_value d) \<and> sint (esf_datum_data_value d) < 2 ^ 23"
      using ds(3) by (auto simp: m_def fill_array_def esf_datum_zero_def)
    from esf_meas_received_same [OF l _ this] show ?thesis
      using assms(2) len by (simp add: m_def n_def)
  qed
  ultimately show thesis using that ds(2) by (simp add: m_def n_def)
qed

text \<open>
  C25 (bounds). Feeding 1 to 32 gyroscope and accelerometer readings: when the dead-reckoning input is
  updated the slot sends exactly one frame, and a UBX parser reading that frame delivers one ESF-MEAS
  message with the time tag, the number of readings and, for each of them in order, its type and a value
  that differs from the reading by less than one unit of the last place the field has (2 to the -12 of a
  degree per second, 2 to the -10 of a metre per second squared). The readings are doubles whose scaled
  value fits 24 bits. Any other buffer update sends nothing.
\<close>

theorem sensor_feed_delivers:
  assumes "idle p" and "\<not> p_raw_cb p" and "136 \<le> unat (p_max_payload_len p)"
    and "registry_find (p_registry p) UBX_CLASS_ESF UBX_ID_ESF_MEAS = Some esf_meas_decoder"
    and "0 < dri_num_sens dr" and "dri_num_sens dr \<le> 32" and "length (dri_sensors dr) = 32"
    and "\<forall>s \<in> set (take (unat (dri_num_sens dr)) (dri_sensors dr)). inertial s"
  shows "(\<exists>frame r. slot_external_data_update log_send Buf_dead_reckoning_in dr sent = Some (sent @ [frame])
      \<and> snd (ubx_feed p frame) = [Decoder_callback (Esf_meas r)]
      \<and> esf_meas_time_tag r = dri_time_tag_ms dr \<and> esf_meas_num_meas r = dri_num_sens dr
      \<and> list_all2 inertial_close (take (unat (dri_num_sens dr)) (dri_sensors dr))
           (take (unat (dri_num_sens dr)) (esf_meas_data r)))
    \<and> (type \<noteq> Buf_dead_reckoning_in \<longrightarrow> slot_external_data_update log_send type dr sent = Some sent)"
proof -
  obtain m where m: "sensor_message dr = Some m" "esf_meas_num_meas m = dri_num_sens dr"
      "esf_meas_time_tag m = dri_time_tag_ms dr" "length (esf_meas_data m) = 32"
      "list_all2 inertial_close (take (unat (dri_num_sens dr)) (dri_sensors dr))
         (take (unat (dri_num_sens dr)) (esf_meas_data (esf_meas_received m)))"
    using sensor_message_received [OF assms(5-8)] by blast
  have n: "esf_meas_num_meas m \<noteq> 0" "esf_meas_num_meas m \<le> 32" using assms(5,6) m(2) by auto
  have fed: "snd (ubx_feed p (build_esf_meas m)) = [Decoder_callback (Esf_meas (esf_meas_received m))]"
    by (rule esf_meas_delivered [OF assms(1-4) m(4) n])
  then have "build_esf_meas m \<noteq> []" by (auto simp: ubx_machine.feed_Nil)
  then have "slot_external_data_update log_send Buf_dead_reckoning_in dr sent = Some (sent @ [build_esf_meas m])"
    by (simp add: slot_external_data_update_def m(1) log_send_def)
  with fed m(2,3,5) show ?thesis
    by (auto simp: slot_external_data_update_def esf_meas_received_def)
qed

definition sensor_demo :: dead_reckoning_data_in where
  "sensor_demo = dead_reckoning_data_in_zero
     \<lparr>dri_time_tag_ms := 1000, dri_num_sens := 2,
      dri_sensors := [\<lparr>dsi_type = 14, dsi_value = - 3 / 2\<rparr>, \<lparr>dsi_type = 5, dsi_value = 5 / 4\<rparr>]
        @ replicate 30 dr_sensor_in_record_zero\<rparr>"

lemma sensor_demo_inertial: "inertial \<lparr>dsi_type = 14, dsi_value = - 3 / 2\<rparr>" "inertial \<lparr>dsi_type = 5, dsi_value = 5 / 4\<rparr>"
proof -
  have "round_prec 53 (- 3 / 2) = - 3 / 2" by (intro round_prec_exact fitsI [of _ "- 3" "- 1"]) (simp_all add: power_int_def)
  then show "inertial \<lparr>dsi_type = 14, dsi_value = - 3 / 2\<rparr>"
    by (simp add: inertial_def sensor_scale_def esf_sensor_defs)
  have "round_prec 53 (5 / 4) = 5 / 4" by (intro round_prec_exact fitsI [of _ 5 "- 2"]) (simp_all add: power_int_def power2_eq_square)
  then show "inertial \<lparr>dsi_type = 5, dsi_value = 5 / 4\<rparr>"
    by (simp add: inertial_def sensor_scale_def esf_sensor_defs)
qed

theorem sensor_feed_delivers_witness:
  "\<exists>frame r. slot_external_data_update log_send Buf_dead_reckoning_in sensor_demo [] = Some [frame]
     \<and> snd (ubx_feed (parser_with esf_meas_decoder) frame) = [Decoder_callback (Esf_meas r)]
     \<and> esf_meas_time_tag r = 1000
     \<and> list_all2 inertial_close [\<lparr>dsi_type = 14, dsi_value = - 3 / 2\<rparr>, \<lparr>dsi_type = 5, dsi_value = 5 / 4\<rparr>]
          (take 2 (esf_meas_data r))"
proof -
  have reg: "registry_find (p_registry (parser_with esf_meas_decoder)) UBX_CLASS_ESF UBX_ID_ESF_MEAS
      = Some esf_meas_decoder"
    using parser_with(4) [of esf_meas_decoder] by (simp add: esf_meas_decoder_def)
  have "136 \<le> unat (p_max_payload_len (parser_with esf_meas_decoder))" by simp
  moreover have "0 < dri_num_sens sensor_demo" "dri_num_sens sensor_demo \<le> 32" "length (dri_sensors sensor_demo) = 32"
    by (simp_all add: sensor_demo_def)
  moreover have "\<forall>s \<in> set (take (unat (dri_num_sens sensor_demo)) (dri_sensors sensor_demo)). inertial s"
    using sensor_demo_inertial by (simp add: sensor_demo_def)
  ultimately obtain frame r where
    "slot_external_data_update log_send Buf_dead_reckoning_in sensor_demo [] = Some [frame]"
    "snd (ubx_feed (parser_with esf_meas_decoder) frame) = [Decoder_callback (Esf_meas r)]"
    "esf_meas_time_tag r = dri_time_tag_ms sensor_demo"
    "list_all2 inertial_close (take (unat (dri_num_sens sensor_demo)) (dri_sensors sensor_demo))
       (take (unat (dri_num_sens sensor_demo)) (esf_meas_data r))"
    using sensor_feed_delivers [OF parser_with(1,2) _ reg, of sensor_demo "[]" Buf_dead_reckoning_in] by auto
  then show ?thesis by (intro exI [of _ frame] exI [of _ r]) (simp add: sensor_demo_def dead_reckoning_data_in_zero_def)
qed

end
