(* ===== verification/Control_Adapter.thy ===== *)
theory Control_Adapter
  imports Ini_Parser Io_Port
begin

text \<open>
  The command interface of the library: \<open>adapter/command_tokenizer.h\<close>, the command objects of \<open>adapter/commands\<close>
  and the command table of \<open>adapter/control_adapter\<close>, over the interface of the controller, which is a record of
  its operations.
\<close>

section \<open>Tokens\<close>

definition MAX_COMMAND_ARGS :: nat where "MAX_COMMAND_ARGS = 6"

record parsed_command =
  cmd_name :: string
  cmd_args :: "string list"

text \<open>\<open>iss >> token\<close>: the next word and what follows it, or failure when only blanks are left.\<close>

definition next_token :: "string \<Rightarrow> (string \<times> string) option" where
  "next_token s =
     (let s = dropWhile is_space s
      in if s = [] then None else Some (takeWhile (\<lambda>c. \<not> is_space c) s, dropWhile (\<lambda>c. \<not> is_space c) s))"

fun tokenize_args :: "nat \<Rightarrow> string \<Rightarrow> string list" where
  "tokenize_args 0 s = []"
| "tokenize_args (Suc n) s = (case next_token s of None \<Rightarrow> [] | Some (token, r) \<Rightarrow> token # tokenize_args n r)"

definition tokenize_command :: "string \<Rightarrow> parsed_command" where
  "tokenize_command cmd_str =
     (case next_token cmd_str of
        None \<Rightarrow> \<lparr>cmd_name = [], cmd_args = []\<rparr>
      | Some (token, r) \<Rightarrow> \<lparr>cmd_name = token, cmd_args = tokenize_args MAX_COMMAND_ARGS r\<rparr>)"

section \<open>The interface of the controller\<close>

text \<open>What leaves an operation: an exception of the library or of the ports, or its result.\<close>

datatype command_exception = Thrown ini_exception | Io_thrown io_exception

type_synonym 's command_op = "'s \<Rightarrow> 's \<times> (command_exception + bool)"

record 's i_gnss_controller =
  op_hardware_reset :: "'s command_op"
  op_init :: "'s command_op"
  op_start :: "'s command_op"
  op_stop :: "'s \<Rightarrow> 's"
  op_terminate :: "'s \<Rightarrow> 's"
  op_is_running :: "'s \<Rightarrow> bool"
  op_hot_stop :: "'s command_op"
  op_warm_stop :: "'s command_op"
  op_cold_stop :: "'s command_op"
  op_hot_start :: "'s command_op"
  op_warm_start :: "'s command_op"
  op_cold_start :: "'s command_op"
  op_hot_reset :: "'s command_op"
  op_warm_reset :: "'s command_op"
  op_cold_reset :: "'s command_op"
  op_get_version :: "'s command_op"
  op_backup :: "'s command_op"
  op_clear_backup :: "'s command_op"
  op_poll_config :: "string \<Rightarrow> 's command_op"
  op_sync_config :: "'s command_op"
  op_force_sync_config :: "string \<Rightarrow> 's command_op"
  op_query_datum :: "'s command_op"
  op_set_datum :: "u8 \<Rightarrow> 's command_op"
  op_reset_datum :: "'s command_op"
  op_start_record :: "'s command_op"
  op_stop_record :: "'s command_op"
  op_start_replay :: "'s command_op"
  op_stop_replay :: "'s command_op"

section \<open>The commands\<close>

text \<open>A command object is what its \<open>execute\<close> does to the controller it holds.\<close>

definition hardware_reset_command :: "'s i_gnss_controller \<Rightarrow> 's command_op" where
  "hardware_reset_command ctrl s = op_hardware_reset ctrl s"

definition init_command :: "'s i_gnss_controller \<Rightarrow> 's command_op" where
  "init_command ctrl s = op_init ctrl s"

definition start_command :: "'s i_gnss_controller \<Rightarrow> 's command_op" where
  "start_command ctrl s = op_start ctrl s"

definition stop_command :: "'s i_gnss_controller \<Rightarrow> 's command_op" where
  "stop_command ctrl s = (op_stop ctrl s, Inr True)"

definition terminate_command :: "'s i_gnss_controller \<Rightarrow> 's command_op" where
  "terminate_command ctrl s = (op_terminate ctrl s, Inr True)"

definition check_running_command :: "'s i_gnss_controller \<Rightarrow> 's command_op" where
  "check_running_command ctrl s = (s, Inr (op_is_running ctrl s))"

definition backup_command :: "'s i_gnss_controller \<Rightarrow> 's command_op" where
  "backup_command ctrl s = op_backup ctrl s"

definition clear_backup_command :: "'s i_gnss_controller \<Rightarrow> 's command_op" where
  "clear_backup_command ctrl s = op_clear_backup ctrl s"

definition hot_stop_command :: "'s i_gnss_controller \<Rightarrow> 's command_op" where
  "hot_stop_command ctrl s = op_hot_stop ctrl s"

definition warm_stop_command :: "'s i_gnss_controller \<Rightarrow> 's command_op" where
  "warm_stop_command ctrl s = op_warm_stop ctrl s"

definition cold_stop_command :: "'s i_gnss_controller \<Rightarrow> 's command_op" where
  "cold_stop_command ctrl s = op_cold_stop ctrl s"

definition hot_start_command :: "'s i_gnss_controller \<Rightarrow> 's command_op" where
  "hot_start_command ctrl s = op_hot_start ctrl s"

definition warm_start_command :: "'s i_gnss_controller \<Rightarrow> 's command_op" where
  "warm_start_command ctrl s = op_warm_start ctrl s"

definition cold_start_command :: "'s i_gnss_controller \<Rightarrow> 's command_op" where
  "cold_start_command ctrl s = op_cold_start ctrl s"

definition hot_reset_command :: "'s i_gnss_controller \<Rightarrow> 's command_op" where
  "hot_reset_command ctrl s = op_hot_reset ctrl s"

definition warm_reset_command :: "'s i_gnss_controller \<Rightarrow> 's command_op" where
  "warm_reset_command ctrl s = op_warm_reset ctrl s"

definition cold_reset_command :: "'s i_gnss_controller \<Rightarrow> 's command_op" where
  "cold_reset_command ctrl s = op_cold_reset ctrl s"

definition get_version_command :: "'s i_gnss_controller \<Rightarrow> 's command_op" where
  "get_version_command ctrl s = op_get_version ctrl s"

definition poll_config_command :: "'s i_gnss_controller \<Rightarrow> string \<Rightarrow> 's command_op" where
  "poll_config_command ctrl ini_path s = op_poll_config ctrl ini_path s"

definition sync_config_command :: "'s i_gnss_controller \<Rightarrow> 's command_op" where
  "sync_config_command ctrl s = op_sync_config ctrl s"

definition force_sync_config_command :: "'s i_gnss_controller \<Rightarrow> string \<Rightarrow> 's command_op" where
  "force_sync_config_command ctrl ini_path s = op_force_sync_config ctrl ini_path s"

definition query_datum_command :: "'s i_gnss_controller \<Rightarrow> 's command_op" where
  "query_datum_command ctrl s = op_query_datum ctrl s"

definition set_datum_command :: "'s i_gnss_controller \<Rightarrow> u8 \<Rightarrow> 's command_op" where
  "set_datum_command ctrl d s = op_set_datum ctrl d s"

definition reset_datum_command :: "'s i_gnss_controller \<Rightarrow> 's command_op" where
  "reset_datum_command ctrl s = op_reset_datum ctrl s"

definition start_record_command :: "'s i_gnss_controller \<Rightarrow> 's command_op" where
  "start_record_command ctrl s = op_start_record ctrl s"

definition stop_record_command :: "'s i_gnss_controller \<Rightarrow> 's command_op" where
  "stop_record_command ctrl s = op_stop_record ctrl s"

definition start_replay_command :: "'s i_gnss_controller \<Rightarrow> 's command_op" where
  "start_replay_command ctrl s = op_start_replay ctrl s"

definition stop_replay_command :: "'s i_gnss_controller \<Rightarrow> 's command_op" where
  "stop_replay_command ctrl s = op_stop_replay ctrl s"

section \<open>The command table\<close>

definition DEFAULT_CONFIG_INI_PATH :: string where "DEFAULT_CONFIG_INI_PATH = ''/etc/default_ubx_configs.ini''"

definition CMD_HARDWARE_RESET :: string where "CMD_HARDWARE_RESET = ''hardware_reset''"
definition CMD_INIT :: string where "CMD_INIT = ''init''"
definition CMD_START :: string where "CMD_START = ''start''"
definition CMD_STOP :: string where "CMD_STOP = ''stop''"
definition CMD_TERMINATE :: string where "CMD_TERMINATE = ''terminate''"
definition CMD_CHECK_RUNNING :: string where "CMD_CHECK_RUNNING = ''check_running''"
definition CMD_BACKUP :: string where "CMD_BACKUP = ''backup''"
definition CMD_CLEAR_BACKUP :: string where "CMD_CLEAR_BACKUP = ''clear_backup''"
definition CMD_HOT_STOP :: string where "CMD_HOT_STOP = ''hot_stop''"
definition CMD_WARM_STOP :: string where "CMD_WARM_STOP = ''warm_stop''"
definition CMD_COLD_STOP :: string where "CMD_COLD_STOP = ''cold_stop''"
definition CMD_HOT_START :: string where "CMD_HOT_START = ''hot_start''"
definition CMD_WARM_START :: string where "CMD_WARM_START = ''warm_start''"
definition CMD_COLD_START :: string where "CMD_COLD_START = ''cold_start''"
definition CMD_HOT_RESET :: string where "CMD_HOT_RESET = ''hot_reset''"
definition CMD_WARM_RESET :: string where "CMD_WARM_RESET = ''warm_reset''"
definition CMD_COLD_RESET :: string where "CMD_COLD_RESET = ''cold_reset''"
definition CMD_GET_VERSION :: string where "CMD_GET_VERSION = ''get_version''"
definition CMD_POLL_CONFIG :: string where "CMD_POLL_CONFIG = ''poll_config''"
definition CMD_SYNC_CONFIG :: string where "CMD_SYNC_CONFIG = ''sync_config''"
definition CMD_FORCE_SYNC_CONFIG :: string where "CMD_FORCE_SYNC_CONFIG = ''force_sync_config''"
definition CMD_QUERY_DATUM :: string where "CMD_QUERY_DATUM = ''query_datum''"
definition CMD_SET_DATUM :: string where "CMD_SET_DATUM = ''set_datum''"
definition CMD_RESET_DATUM :: string where "CMD_RESET_DATUM = ''reset_datum''"
definition CMD_START_RECORD :: string where "CMD_START_RECORD = ''start_record''"
definition CMD_STOP_RECORD :: string where "CMD_STOP_RECORD = ''stop_record''"
definition CMD_START_REPLAY :: string where "CMD_START_REPLAY = ''start_replay''"
definition CMD_STOP_REPLAY :: string where "CMD_STOP_REPLAY = ''stop_replay''"

lemmas cmd_defs =
  CMD_HARDWARE_RESET_def CMD_INIT_def CMD_START_def CMD_STOP_def
  CMD_TERMINATE_def CMD_CHECK_RUNNING_def CMD_BACKUP_def CMD_CLEAR_BACKUP_def
  CMD_HOT_STOP_def CMD_WARM_STOP_def CMD_COLD_STOP_def CMD_HOT_START_def
  CMD_WARM_START_def CMD_COLD_START_def CMD_HOT_RESET_def CMD_WARM_RESET_def
  CMD_COLD_RESET_def CMD_GET_VERSION_def CMD_POLL_CONFIG_def CMD_SYNC_CONFIG_def
  CMD_FORCE_SYNC_CONFIG_def CMD_QUERY_DATUM_def CMD_SET_DATUM_def CMD_RESET_DATUM_def
  CMD_START_RECORD_def CMD_STOP_RECORD_def CMD_START_REPLAY_def CMD_STOP_REPLAY_def

text \<open>\<open>std::stoul\<close> and the cast to \<open>uint8_t\<close>.\<close>

definition stoul :: "string \<Rightarrow> ini_exception + u64" where
  "stoul s =
     (case strto_parts s of (neg, ds) \<Rightarrow>
        if ds = [] then Inl Invalid_argument
        else if digits_value ds \<ge> 2 ^ 64 then Inl Out_of_range
        else Inr (if neg then - of_nat (digits_value ds) else of_nat (digits_value ds)))"

definition set_datum_id :: "parsed_command \<Rightarrow> ini_exception + u8" where
  "set_datum_id p =
     (case cmd_args p of
        [] \<Rightarrow> Inr 0
      | a # as \<Rightarrow> (case stoul a of Inl e \<Rightarrow> Inl e | Inr v \<Rightarrow> Inr (ucast v)))"

definition ini_path_arg :: "parsed_command \<Rightarrow> string" where
  "ini_path_arg p = (case cmd_args p of [] \<Rightarrow> DEFAULT_CONFIG_INI_PATH | a # as \<Rightarrow> a)"

text \<open>A factory makes the command object, unless it throws.\<close>

type_synonym 's command_factory = "parsed_command \<Rightarrow> ini_exception + 's command_op"

definition build_command_table :: "'s i_gnss_controller \<Rightarrow> (string \<times> 's command_factory) list" where
  "build_command_table ctrl =
     [(CMD_HARDWARE_RESET, \<lambda>p. Inr (hardware_reset_command ctrl)),
      (CMD_INIT, \<lambda>p. Inr (init_command ctrl)),
      (CMD_START, \<lambda>p. Inr (start_command ctrl)),
      (CMD_STOP, \<lambda>p. Inr (stop_command ctrl)),
      (CMD_TERMINATE, \<lambda>p. Inr (terminate_command ctrl)),
      (CMD_CHECK_RUNNING, \<lambda>p. Inr (check_running_command ctrl)),
      (CMD_BACKUP, \<lambda>p. Inr (backup_command ctrl)),
      (CMD_CLEAR_BACKUP, \<lambda>p. Inr (clear_backup_command ctrl)),
      (CMD_HOT_STOP, \<lambda>p. Inr (hot_stop_command ctrl)),
      (CMD_WARM_STOP, \<lambda>p. Inr (warm_stop_command ctrl)),
      (CMD_COLD_STOP, \<lambda>p. Inr (cold_stop_command ctrl)),
      (CMD_HOT_START, \<lambda>p. Inr (hot_start_command ctrl)),
      (CMD_WARM_START, \<lambda>p. Inr (warm_start_command ctrl)),
      (CMD_COLD_START, \<lambda>p. Inr (cold_start_command ctrl)),
      (CMD_HOT_RESET, \<lambda>p. Inr (hot_reset_command ctrl)),
      (CMD_WARM_RESET, \<lambda>p. Inr (warm_reset_command ctrl)),
      (CMD_COLD_RESET, \<lambda>p. Inr (cold_reset_command ctrl)),
      (CMD_GET_VERSION, \<lambda>p. Inr (get_version_command ctrl)),
      (CMD_POLL_CONFIG, \<lambda>p. Inr (poll_config_command ctrl (ini_path_arg p))),
      (CMD_SYNC_CONFIG, \<lambda>p. Inr (sync_config_command ctrl)),
      (CMD_FORCE_SYNC_CONFIG, \<lambda>p. Inr (force_sync_config_command ctrl (ini_path_arg p))),
      (CMD_QUERY_DATUM, \<lambda>p. Inr (query_datum_command ctrl)),
      (CMD_SET_DATUM, \<lambda>p. case set_datum_id p of Inl e \<Rightarrow> Inl e | Inr d \<Rightarrow> Inr (set_datum_command ctrl d)),
      (CMD_RESET_DATUM, \<lambda>p. Inr (reset_datum_command ctrl)),
      (CMD_START_RECORD, \<lambda>p. Inr (start_record_command ctrl)),
      (CMD_STOP_RECORD, \<lambda>p. Inr (stop_record_command ctrl)),
      (CMD_START_REPLAY, \<lambda>p. Inr (start_replay_command ctrl)),
      (CMD_STOP_REPLAY, \<lambda>p. Inr (stop_replay_command ctrl))]"

text \<open>\<open>create_command\<close>: no command object for a name that is not in the table.\<close>

definition create_command ::
  "'s i_gnss_controller \<Rightarrow> parsed_command \<Rightarrow> (ini_exception + 's command_op) option" where
  "create_command ctrl p =
     (case map_of (build_command_table ctrl) (cmd_name p) of None \<Rightarrow> None | Some factory \<Rightarrow> Some (factory p))"

definition execute_command :: "'s i_gnss_controller \<Rightarrow> string \<Rightarrow> 's command_op" where
  "execute_command ctrl cmd s =
     (case create_command ctrl (tokenize_command cmd) of
        None \<Rightarrow> (s, Inr False)
      | Some (Inl e) \<Rightarrow> (s, Inl (Thrown e))
      | Some (Inr command) \<Rightarrow> command s)"

section \<open>Words\<close>

definition word :: "string \<Rightarrow> bool" where
  "word w \<longleftrightarrow> w \<noteq> [] \<and> list_all (\<lambda>c. \<not> is_space c) w"

definition blank :: "string \<Rightarrow> bool" where
  "blank b \<longleftrightarrow> list_all is_space b"

text \<open>Words with the blanks before each.\<close>

definition spaced :: "(string \<times> string) list \<Rightarrow> string" where
  "spaced gws = concat (map (\<lambda>(b, w). b @ w) gws)"

lemma dropWhile_blank: "blank b \<Longrightarrow> dropWhile is_space (b @ s) = dropWhile is_space s"
  by (simp add: blank_def list_all_iff)

lemma next_token_blank: "blank b \<Longrightarrow> next_token b = None"
  using dropWhile_blank [of b "[]"] by (simp add: next_token_def)

lemma next_token_word:
  assumes "blank b" and "word w" and "r = [] \<or> is_space (hd r)"
  shows "next_token (b @ w @ r) = Some (w, r)"
proof -
  have w: "w \<noteq> []" "\<forall>c \<in> set w. \<not> is_space c" using assms(2) by (simp_all add: word_def list_all_iff)
  then have "dropWhile is_space (b @ w @ r) = w @ r"
    using dropWhile_blank [OF assms(1)] by (cases w) simp_all
  moreover have "takeWhile (\<lambda>c. \<not> is_space c) (w @ r) = w" "dropWhile (\<lambda>c. \<not> is_space c) (w @ r) = r"
    using w(2) assms(3) by (cases r; simp)+
  ultimately show ?thesis using w(1) by (simp add: next_token_def)
qed

lemma spaced_head:
  assumes "\<forall>(b, w) \<in> set gws. b \<noteq> [] \<and> blank b \<and> word w" and "blank tail"
  shows "spaced gws @ tail = [] \<or> is_space (hd (spaced gws @ tail))"
proof (cases gws)
  case Nil
  then show ?thesis using assms(2) by (cases tail) (simp_all add: spaced_def blank_def)
next
  case (Cons g gs)
  then show ?thesis using assms(1) by (cases g; cases "fst g") (simp_all add: spaced_def blank_def)
qed

lemma tokenize_args_spaced:
  assumes "\<forall>(b, w) \<in> set gws. b \<noteq> [] \<and> blank b \<and> word w" and "blank tail"
  shows "tokenize_args n (spaced gws @ tail) = take n (map snd gws)"
  using assms(1)
proof (induction gws arbitrary: n)
  case Nil
  then show ?case using next_token_blank [OF assms(2)] by (cases n) (simp_all add: spaced_def)
next
  case (Cons g gws)
  obtain b w where g: "g = (b, w)" by fastforce
  have "next_token (b @ w @ spaced gws @ tail) = Some (w, spaced gws @ tail)"
    using Cons.prems by (intro next_token_word spaced_head) (auto simp: g assms(2))
  then show ?case using Cons by (cases n) (simp_all add: g spaced_def)
qed

lemma tokenize_spaced:
  assumes "blank lead" and "word w" and "\<forall>(b, v) \<in> set gws. b \<noteq> [] \<and> blank b \<and> word v" and "blank tail"
  shows "tokenize_command (lead @ w @ spaced gws @ tail) = \<lparr>cmd_name = w, cmd_args = take MAX_COMMAND_ARGS (map snd gws)\<rparr>"
  using next_token_word [OF assms(1,2) spaced_head [OF assms(3,4)]] tokenize_args_spaced [OF assms(3,4)]
  by (simp add: tokenize_command_def)

text \<open>
  A command line is split into its words: whatever blanks stand before, between (at least one) and
  after the words, the first is the name and the next six at most are the arguments, in order and unchanged; a
  line of blanks alone has the empty name and no argument.
\<close>

theorem tokenize_words:
  assumes "blank lead" and "word w" and "\<forall>(b, v) \<in> set gws. b \<noteq> [] \<and> blank b \<and> word v" and "blank tail"
  shows "tokenize_command (lead @ w @ spaced gws @ tail) = \<lparr>cmd_name = w, cmd_args = take 6 (map snd gws)\<rparr>
    \<and> tokenize_command lead = \<lparr>cmd_name = [], cmd_args = []\<rparr>"
  using tokenize_spaced [OF assms] next_token_blank [OF assms(1)] by (simp add: MAX_COMMAND_ARGS_def tokenize_command_def)

theorem tokenize_words_witness:
  "tokenize_command ''  poll_config  a b c d e f g '' = \<lparr>cmd_name = ''poll_config'', cmd_args = [''a'', ''b'', ''c'', ''d'', ''e'', ''f'']\<rparr>"
proof -
  have "blank '' ''" "blank ''  ''" "word ''poll_config''"
    "\<forall>(b, v) \<in> set [(''  '', ''a''), ('' '', ''b''), ('' '', ''c''), ('' '', ''d''), ('' '', ''e''), ('' '', ''f''), ('' '', ''g'')].
      b \<noteq> [] \<and> blank b \<and> word v"
    by (simp_all add: blank_def word_def is_space_def)
  from tokenize_words [OF this(2,3,4,1)] show ?thesis by (simp add: spaced_def)
qed

section \<open>Dispatch\<close>

text \<open>What the commands without arguments are to do, by name.\<close>

definition plain_commands :: "'s i_gnss_controller \<Rightarrow> (string \<times> 's command_op) list" where
  "plain_commands ctrl =
     [(''hardware_reset'', op_hardware_reset ctrl),
      (''init'', op_init ctrl),
      (''start'', op_start ctrl),
      (''stop'', \<lambda>s. (op_stop ctrl s, Inr True)),
      (''terminate'', \<lambda>s. (op_terminate ctrl s, Inr True)),
      (''check_running'', \<lambda>s. (s, Inr (op_is_running ctrl s))),
      (''backup'', op_backup ctrl),
      (''clear_backup'', op_clear_backup ctrl),
      (''hot_stop'', op_hot_stop ctrl),
      (''warm_stop'', op_warm_stop ctrl),
      (''cold_stop'', op_cold_stop ctrl),
      (''hot_start'', op_hot_start ctrl),
      (''warm_start'', op_warm_start ctrl),
      (''cold_start'', op_cold_start ctrl),
      (''hot_reset'', op_hot_reset ctrl),
      (''warm_reset'', op_warm_reset ctrl),
      (''cold_reset'', op_cold_reset ctrl),
      (''get_version'', op_get_version ctrl),
      (''sync_config'', op_sync_config ctrl),
      (''query_datum'', op_query_datum ctrl),
      (''reset_datum'', op_reset_datum ctrl),
      (''start_record'', op_start_record ctrl),
      (''stop_record'', op_stop_record ctrl),
      (''start_replay'', op_start_replay ctrl),
      (''stop_replay'', op_stop_replay ctrl)]"

definition command_names :: "'s i_gnss_controller \<Rightarrow> string list" where
  "command_names ctrl = [''poll_config'', ''force_sync_config'', ''set_datum''] @ map fst (plain_commands ctrl)"

definition path_or_default :: "(string \<times> string) list \<Rightarrow> string" where
  "path_or_default gws = (case gws of [] \<Rightarrow> ''/etc/default_ubx_configs.ini'' | (b, w) # _ \<Rightarrow> w)"

lemmas command_object_defs = hardware_reset_command_def init_command_def start_command_def stop_command_def
  terminate_command_def check_running_command_def backup_command_def clear_backup_command_def hot_stop_command_def
  warm_stop_command_def cold_stop_command_def hot_start_command_def warm_start_command_def cold_start_command_def
  hot_reset_command_def warm_reset_command_def cold_reset_command_def get_version_command_def poll_config_command_def
  sync_config_command_def force_sync_config_command_def query_datum_command_def set_datum_command_def
  reset_datum_command_def start_record_command_def stop_record_command_def start_replay_command_def
  stop_replay_command_def

lemma plain_factories:
  "list_all (\<lambda>(n, f). case map_of (build_command_table ctrl) n of
      None \<Rightarrow> False | Some factory \<Rightarrow> \<forall>p. factory p = Inr f) (plain_commands ctrl)"
  by (simp add: plain_commands_def build_command_table_def cmd_defs command_object_defs fun_eq_iff)

lemma argument_factories:
  "map_of (build_command_table ctrl) ''poll_config'' = Some (\<lambda>p. Inr (poll_config_command ctrl (ini_path_arg p)))"
  "map_of (build_command_table ctrl) ''force_sync_config''
     = Some (\<lambda>p. Inr (force_sync_config_command ctrl (ini_path_arg p)))"
  "map_of (build_command_table ctrl) ''set_datum''
     = Some (\<lambda>p. case set_datum_id p of Inl e \<Rightarrow> Inl e | Inr d \<Rightarrow> Inr (set_datum_command ctrl d))"
  by (simp_all add: build_command_table_def cmd_defs)

lemma unknown_factory: "n \<notin> set (command_names ctrl) \<Longrightarrow> map_of (build_command_table ctrl) n = None"
  by (simp add: map_of_eq_None_iff command_names_def plain_commands_def build_command_table_def cmd_defs)

lemma command_words: "list_all word (command_names ctrl)"
  by (simp add: command_names_def plain_commands_def word_def is_space_def)

lemma execute_line:
  assumes "blank lead" and "word w" and "\<forall>(b, v) \<in> set gws. b \<noteq> [] \<and> blank b \<and> word v" and "blank tail"
  shows "execute_command ctrl (lead @ w @ spaced gws @ tail) s =
    (case map_of (build_command_table ctrl) w of
       None \<Rightarrow> (s, Inr False)
     | Some factory \<Rightarrow>
         (case factory \<lparr>cmd_name = w, cmd_args = take MAX_COMMAND_ARGS (map snd gws)\<rparr> of
            Inl e \<Rightarrow> (s, Inl (Thrown e)) | Inr command \<Rightarrow> command s))"
  by (simp add: execute_command_def create_command_def tokenize_spaced [OF assms] split: option.split)

lemma path_argument:
  "ini_path_arg \<lparr>cmd_name = w, cmd_args = take MAX_COMMAND_ARGS (map snd gws)\<rparr> = path_or_default gws"
  by (auto simp: ini_path_arg_def path_or_default_def MAX_COMMAND_ARGS_def DEFAULT_CONFIG_INI_PATH_def split: list.split)

text \<open>A command name alone.\<close>

lemma plain_command_line:
  assumes "(n, f) \<in> set (plain_commands ctrl)"
  shows "execute_command ctrl n s = f s"
proof -
  have b: "blank []" by (simp add: blank_def)
  have "n \<in> set (command_names ctrl)" using assms by (force simp: command_names_def)
  then have "word n" using command_words [of ctrl] by (simp add: list_all_iff)
  from execute_line [OF b this _ b, of "[]" ctrl s] assms plain_factories [of ctrl] show ?thesis
    by (fastforce simp: list_all_iff spaced_def split: option.splits)
qed



lemma stoul_number:
  "stoul (nat_digits n) = (if n < 2 ^ 64 then Inr (of_nat n) else Inl Out_of_range)"
proof -
  have "strto_parts (nat_digits n) = (False, nat_digits n)" "digits_value (nat_digits n) = n" "nat_digits n \<noteq> []"
    by (auto simp: strto_parts_digits)
  then show ?thesis by (simp add: stoul_def)
qed

lemma stoul_text:
  assumes "word w" and "\<not> is_digit (hd w)" and "hd w \<notin> {CHR ''-'', CHR ''+''}"
  shows "stoul w = Inl Invalid_argument"
  using assms by (cases w) (simp_all add: stoul_def strto_parts_def word_def)

text \<open>
  The datum number of a command line is converted without a check: a decimal number below 2 to the 64 is
  taken modulo 256, so 257 programs the datum 1; a larger one and a word that is no number leave the call by an
  exception, with nothing changed; without an argument the number is 0.
\<close>

theorem set_datum_argument:
  assumes "word w" and "\<not> is_digit (hd w)" and "hd w \<notin> {CHR ''-'', CHR ''+''}"
  shows "execute_command ctrl (''set_datum '' @ nat_digits n) s =
      (if n < 2 ^ 64 then op_set_datum ctrl (of_nat (n mod 256)) s else (s, Inl (Thrown Out_of_range)))
    \<and> execute_command ctrl (''set_datum '' @ w) s = (s, Inl (Thrown Invalid_argument))
    \<and> execute_command ctrl ''set_datum'' s = op_set_datum ctrl 0 s"
proof -
  have b: "blank []" "blank '' ''" "word ''set_datum''" by (simp_all add: blank_def word_def is_space_def)
  have line: "execute_command ctrl (''set_datum '' @ v) s =
      (case stoul v of Inl e \<Rightarrow> (s, Inl (Thrown e)) | Inr k \<Rightarrow> op_set_datum ctrl (ucast k) s)" if "word v" for v
    using execute_line [OF b(1,3) _ b(1), of "[('' '', v)]" ctrl s] that b(2)
    by (simp add: spaced_def argument_factories set_datum_id_def MAX_COMMAND_ARGS_def set_datum_command_def split: sum.split)
  have digits: "word (nat_digits n)"
    using nat_digits_digits [of _ n] digit_not_special by (auto simp: word_def list_all_iff)
  have low: "(ucast (of_nat n :: u64) :: u8) = of_nat (n mod 256)" if "n < 2 ^ 64"
    using that by (simp add: word_unat_eq_iff unsigned_ucast_eq unat_of_nat take_bit_eq_mod mod_mod_cancel)
  have "execute_command ctrl (''set_datum '' @ nat_digits n) s =
      (if n < 2 ^ 64 then op_set_datum ctrl (of_nat (n mod 256)) s else (s, Inl (Thrown Out_of_range)))"
    unfolding line [OF digits] stoul_number using low by simp
  moreover have "execute_command ctrl (''set_datum '' @ w) s = (s, Inl (Thrown Invalid_argument))"
    unfolding line [OF assms(1)] stoul_text [OF assms] by simp
  moreover have "execute_command ctrl ''set_datum'' s = op_set_datum ctrl 0 s"
    using execute_line [OF b(1,3) _ b(1), of "[]" ctrl s]
    by (simp add: spaced_def argument_factories set_datum_id_def set_datum_command_def)
  ultimately show ?thesis by blast
qed

theorem set_datum_argument_witness:
  "\<forall>(ctrl :: nat i_gnss_controller) s. execute_command ctrl ''set_datum 257'' s = op_set_datum ctrl 1 s
    \<and> execute_command ctrl ''set_datum wgs84'' s = (s, Inl (Thrown Invalid_argument))"
proof (intro allI)
  fix ctrl :: "nat i_gnss_controller" and s
  have "word ''wgs84''" "\<not> is_digit (hd ''wgs84'')" "hd ''wgs84'' \<notin> {CHR ''-'', CHR ''+''}"
    by (simp_all add: word_def is_space_def is_digit_def digits_def)
  from set_datum_argument [OF this, of ctrl 257 s]
  show "execute_command ctrl ''set_datum 257'' s = op_set_datum ctrl 1 s
    \<and> execute_command ctrl ''set_datum wgs84'' s = (s, Inl (Thrown Invalid_argument))" by (simp add: nat_digits.simps digits_def)
qed

end
