(* ===== verification/Control_Channel.thy ===== *)
theory Control_Channel
  imports Datum_Service Serial_Transport Shared_Buffers Ubx_Database_Stream
begin

text \<open>
  What the control channel does with the messages it receives: the decoders \<open>gnss_controller::init\<close> adds to the
  parser of receiver 0, and the effects of their callbacks on the transport that waits for an acknowledgement, on
  the configuration manager and on the update signal of the database. Logging is left out.
\<close>

section \<open>The callbacks\<close>

text \<open>
  The state the callbacks share. The datum callback the controller installs is the only one there is, so it is
  the unit value; \<open>ct_updates\<close> are the signals emitted so far.
\<close>

record control_state =
  ct_transport :: serial_transport
  ct_sync :: sync_service
  ct_datum :: "unit datum_service"
  ct_updates :: "buffer_type list"

definition control_new :: control_state where
  "control_new =
     \<lparr>ct_transport = transport_new True, ct_sync = sync_service_new, ct_datum = datum_service_new, ct_updates = []\<rparr>"

text \<open>A callback is a sequence of calls, between which a command waiting in another thread can run.\<close>

datatype control_call =
    Acknowledge u8 u8
  | Store_response ubx_cfg_valget
  | Signal_update buffer_type

definition upd_sos_calls :: "ubx_upd_sos_output \<Rightarrow> control_call list" where
  "upd_sos_calls m =
     (if upd_sos_cmd m = UPD_SOS_CMD_ACK then
        Acknowledge UBX_CLASS_UPD UBX_ID_UPD_SOS
          # (if upd_sos_response m = UPD_SOS_BACKUP_RESP_ACK then [Signal_update Buf_backup_operation_completed] else [])
      else if upd_sos_cmd m = UPD_SOS_CMD_RESTORE then
        Acknowledge UBX_CLASS_UPD UBX_ID_UPD_SOS
          # (if upd_sos_response m = UPD_SOS_RESTORE_RESP_FAILED then []
             else if upd_sos_response m = UPD_SOS_RESTORE_RESP_SUCCESS
             then [Signal_update Buf_restore_operation_completed] else [])
      else [])"

text \<open>The messages of the other decoders are for the database.\<close>

fun control_calls :: "ubx_message \<Rightarrow> control_call list" where
  "control_calls (Ack_ack m) = [Acknowledge (ack_ack_cls_id m) (ack_ack_msg_id m)]"
| "control_calls (Mon_ver m) = [Acknowledge UBX_CLASS_MON UBX_ID_MON_VER, Signal_update Buf_chip_version]"
| "control_calls (Cfg_valget m) =
     [Acknowledge UBX_CLASS_CFG UBX_ID_CFG_VALGET, Store_response m, Signal_update Buf_valget_response]"
| "control_calls (Upd_sos m) = upd_sos_calls m"
| "control_calls _ = []"

text \<open>The datum callback emits the signal of the datum.\<close>

fun do_call :: "control_call \<Rightarrow> control_state \<Rightarrow> control_state" where
  "do_call (Acknowledge c i) s = s\<lparr>ct_transport := handle_ack c i True (ct_transport s)\<rparr>"
| "do_call (Store_response m) s =
     (case manager_on_valget_response m (ct_sync s) (ct_datum s) of
        (sy, d, calls) \<Rightarrow>
          s\<lparr>ct_sync := sy, ct_datum := d, ct_updates := ct_updates s @ map (\<lambda>_. Buf_datum_config) calls\<rparr>)"
| "do_call (Signal_update b) s = s\<lparr>ct_updates := ct_updates s @ [b]\<rparr>"

definition control_message :: "control_state \<Rightarrow> ubx_message \<Rightarrow> control_state" where
  "control_message s m = foldl (\<lambda>s c. do_call c s) s (control_calls m)"

definition control_messages :: "ubx_message list \<Rightarrow> control_state \<Rightarrow> control_state" where
  "control_messages ms s = foldl control_message s ms"

section \<open>The decoders of receiver 0\<close>

definition control_decoders :: "ubx_message i_message_decoder list" where
  "control_decoders =
     [inf_decoder UBX_ID_INF_ERROR, inf_decoder UBX_ID_INF_WARNING, inf_decoder UBX_ID_INF_DEBUG,
      inf_decoder UBX_ID_INF_NOTICE, inf_decoder UBX_ID_INF_TEST,
      ack_ack_decoder, ack_nak_decoder, mon_ver_decoder, cfg_valget_decoder, upd_sos_decoder]"

definition control_setup :: "ubx_message ubx_decoder_registry \<Rightarrow> ubx_message ubx_decoder_registry" where
  "control_setup registry = foldl (\<lambda>reg d. register_decoder (Some d) reg) registry control_decoders"

text \<open>The registry of receiver 0: the database's decoders first.\<close>

definition control_registry :: "ubx_message ubx_decoder_registry" where
  "control_registry = control_setup (wrapper_register wrapper_new [])"

section \<open>The commands that wait\<close>

definition controller_get_version :: "'t send_op \<Rightarrow> 't \<Rightarrow> bool \<times> 't" where
  "controller_get_version send_sync t = send_sync (make_frame UBX_CLASS_MON UBX_ID_MON_VER []) t"

definition controller_backup :: "'t send_op \<Rightarrow> 't \<Rightarrow> bool \<times> 't" where
  "controller_backup send_sync t = send_sync build_save t"

definition controller_clear_backup :: "'t send_op \<Rightarrow> 't \<Rightarrow> bool \<times> 't" where
  "controller_clear_backup send_sync t = send_sync build_clear t"

definition controller_send_poll :: "'t send_op \<Rightarrow> u8 \<Rightarrow> u8 \<Rightarrow> 't \<Rightarrow> bool \<times> 't" where
  "controller_send_poll send msg_class msg_id t = send (make_frame msg_class msg_id []) t"

text \<open>\<open>query_datum\<close> with the controller's own callback.\<close>

definition controller_query_datum ::
  "'t send_op \<Rightarrow> unit datum_service \<Rightarrow> 't \<Rightarrow> bool \<times> unit datum_service \<times> 't" where
  "controller_query_datum send_sync d t = query_datum send_sync () d t"

section \<open>What acknowledges a command\<close>

text \<open>The pair of class and identity a received frame acknowledges, by its bytes.\<close>

definition frame_acks :: "ubx_frame \<Rightarrow> (u8 \<times> u8) option" where
  "frame_acks f =
     (let key = (hdr_class (frame_header f), hdr_id (frame_header f)); p = frame_payload f
      in if key = (0x05, 0x01) then (if length p = 2 then Some (p ! 0, p ! 1) else None)
         else if key = (0x0A, 0x04) then (if 40 \<le> length p \<and> (length p - 40) mod 30 = 0 then Some key else None)
         else if key = (0x06, 0x8B) then (if decode_cfg_valget f \<noteq> None then Some key else None)
         else if key = (0x09, 0x14) then (if 8 \<le> length p \<and> p ! 0 \<in> {2, 3} then Some key else None)
         else None)"

lemmas control_decoder_defs = inf_decoder_def ack_ack_decoder_def ack_nak_decoder_def mon_ver_decoder_def
  cfg_valget_decoder_def upd_sos_decoder_def

lemma control_setup_find:
  "registry_find (control_setup reg) c i =
     (if c = 0x04 \<and> i \<in> {0, 1, 2, 3, 4} then Some (inf_decoder i)
      else if c = 0x05 \<and> i = 0x01 then Some ack_ack_decoder
      else if c = 0x05 \<and> i = 0x00 then Some ack_nak_decoder
      else if c = 0x0A \<and> i = 0x04 then Some mon_ver_decoder
      else if c = 0x06 \<and> i = 0x8B then Some cfg_valget_decoder
      else if c = 0x09 \<and> i = 0x14 then Some upd_sos_decoder
      else registry_find reg c i)"
  by (auto simp: control_setup_def control_decoders_def registry_find_register control_decoder_defs ubx_consts)

text \<open>The pairs a message acknowledges.\<close>

definition message_acks :: "ubx_message \<Rightarrow> (u8 \<times> u8) list" where
  "message_acks m = concat (map (\<lambda>call. case call of Acknowledge c i \<Rightarrow> [(c, i)] | _ \<Rightarrow> []) (control_calls m))"

lemma upd_sos_acks: "message_acks (Upd_sos m) = (if upd_sos_cmd m \<in> {2, 3} then [(0x09, 0x14)] else [])"
  by (auto simp: message_acks_def upd_sos_calls_def ubx_consts)

lemma message_acks_simps [simp]:
  "message_acks (Ack_ack m) = [(ack_ack_cls_id m, ack_ack_msg_id m)]"
  "message_acks (Ack_nak n) = []" "message_acks (Inf t) = []"
  "message_acks (Mon_ver v) = [(0x0A, 0x04)]" "message_acks (Cfg_valget g) = [(0x06, 0x8B)]"
  by (simp_all add: message_acks_def ubx_consts)

lemma stub_no_calls: "decoder_stub mt = Some d \<Longrightarrow> dec_decode d f = Some m \<Longrightarrow> message_acks m = []"
  by (auto simp: decoder_stub_def stub_decoders message_acks_def split: if_splits)

lemma wrapper_find_stub:
  "registry_find (wrapper_register wrapper_new []) c i = Some d \<Longrightarrow> \<exists>mt. decoder_stub mt = Some d"
  using adapter_register_find [of "wr_handlers wrapper_new" "[]"]
  by (fastforce simp: wrapper_register_def registry_find_def)

lemma control_found:
  assumes "registry_find control_registry c i = Some d" and "dec_decode d f = Some m"
    and "(c, i) \<notin> {(0x05, 0x01), (0x0A, 0x04), (0x06, 0x8B), (0x09, 0x14)}"
  shows "message_acks m = []"
proof (cases "c = 0x04 \<and> i \<in> {0, 1, 2, 3, 4} \<or> (c, i) = (0x05, 0x00)")
  case True
  then show ?thesis
    using assms(1,2) by (auto simp: control_registry_def control_setup_find inf_decoder_def ack_nak_decoder_def)
next
  case False
  then have "registry_find control_registry c i = registry_find (wrapper_register wrapper_new []) c i"
    using assms(3) by (auto simp: control_registry_def control_setup_find)
  then show ?thesis using wrapper_find_stub stub_no_calls assms(1,2) by metis
qed

lemma frame_message_acks:
  assumes "frame_ok f"
  shows "concat (map message_acks (frame_messages control_registry (Frame_ok f)))
    = (case frame_acks f of None \<Rightarrow> [] | Some k \<Rightarrow> [k])"
proof -
  let ?c = "hdr_class (frame_header f)" and ?i = "hdr_id (frame_header f)"
  note finds = frame_messages_def control_registry_def control_setup_find frame_acks_def control_decoder_defs Let_def
  consider "?c = 0x05" "?i = 0x01" | "?c = 0x0A" "?i = 0x04" | "?c = 0x06" "?i = 0x8B" | "?c = 0x09" "?i = 0x14"
    | "(?c, ?i) \<notin> {(0x05, 0x01), (0x0A, 0x04), (0x06, 0x8B), (0x09, 0x14)}"
    by blast
  then show ?thesis
  proof cases
    case 1
    then show ?thesis by (simp add: finds decode_ack_ack_layout [OF assms refl] Let_def)
  next
    case 2
    then show ?thesis by (simp add: finds decode_mon_ver_layout [OF assms refl])
  next
    case 3
    then show ?thesis by (simp add: finds split: option.split)
  next
    case 4
    then show ?thesis by (simp add: finds decode_upd_sos_layout [OF assms refl] upd_sos_acks)
  next
    case 5
    then have "frame_acks f = None" by (auto simp: frame_acks_def Let_def)
    moreover have "message_acks m = []" if "registry_find control_registry ?c ?i = Some d" "dec_decode d f = Some m" for d m
      using control_found [OF that 5] .
    ultimately show ?thesis by (simp add: frame_messages_def split: option.split) metis
  qed
qed

text \<open>What a sequence of calls does to the transport.\<close>

lemma do_call_transport:
  "ct_transport (do_call call s) =
     (case call of Acknowledge c i \<Rightarrow> handle_ack c i True (ct_transport s) | _ \<Rightarrow> ct_transport s)"
  by (cases call) (simp_all split: prod.split)

definition acknowledge_all :: "(u8 \<times> u8) list \<Rightarrow> serial_transport \<Rightarrow> serial_transport" where
  "acknowledge_all ks t = foldl (\<lambda>t (c, i). handle_ack c i True t) t ks"

lemma control_message_transport:
  "ct_transport (control_message s m) = acknowledge_all (message_acks m) (ct_transport s)"
proof -
  have "ct_transport (foldl (\<lambda>s c. do_call c s) s calls)
      = acknowledge_all (concat (map (\<lambda>call. case call of Acknowledge c i \<Rightarrow> [(c, i)] | _ \<Rightarrow> []) calls)) (ct_transport s)" for calls
    by (induction calls arbitrary: s) (simp_all add: acknowledge_all_def do_call_transport split: control_call.split)
  then show ?thesis by (simp add: control_message_def message_acks_def)
qed

lemma control_messages_transport:
  "ct_transport (control_messages ms s) = acknowledge_all (concat (map message_acks ms)) (ct_transport s)"
proof (induction ms arbitrary: s)
  case (Cons m ms)
  then show ?case
    by (simp add: control_messages_def control_message_transport acknowledge_all_def)
qed (simp add: control_messages_def acknowledge_all_def)

lemma acknowledge_all_toggle:
  "acknowledge_all ks t =
     t\<lparr>tr_ack_toggle := tr_ack_toggle t \<or> (tr_last_class t, tr_last_id t) \<in> set ks\<rparr>"
  by (induction ks arbitrary: t) (auto simp: acknowledge_all_def handle_ack_def)

lemma scanned_acks:
  "set (concat (map message_acks (concat (map (frame_messages control_registry) (scan k bs)))))
     = {a. \<exists>f. Frame_ok f \<in> set (scan k bs) \<and> frame_acks f = Some a}"
proof -
  have item: "set (concat (map message_acks (frame_messages control_registry it)))
      = {a. \<exists>f. it = Frame_ok f \<and> frame_acks f = Some a}" if "it \<in> set (scan k bs)" for it
  proof (cases it)
    case (Frame_ok f)
    with that have "frame_ok f" using scan_sound by (fastforce simp: frame_ok_def)
    from frame_message_acks [OF this] Frame_ok show ?thesis
      by (simp only: Frame_ok) (auto split: option.split)
  next
    case (Frame_bad x)
    then show ?thesis by (simp add: frame_messages_def)
  qed
  have "set (concat (map message_acks (concat (map (frame_messages control_registry) its))))
      = (\<Union>it \<in> set its. set (concat (map message_acks (frame_messages control_registry it))))" for its
    by (induction its) auto
  then have "set (concat (map message_acks (concat (map (frame_messages control_registry) (scan k bs)))))
      = (\<Union>it \<in> set (scan k bs). {a. \<exists>f. it = Frame_ok f \<and> frame_acks f = Some a})"
    using item by simp
  then show ?thesis by auto
qed

text \<open>
  C13 (safety). A waiting command is released by received frames alone: after receiver 0 has read any bytes,
  the event the command waits for is set exactly when it was set before or one of the well-formed frames of the
  bytes acknowledges the recorded class and identity, by its own bytes: an ACK-ACK that names them, a MON-VER or
  CFG-VALGET or UPD-SOS report when they are its own. Nothing else sets it (a NAK does not), and the recorded
  pair stays.
\<close>

theorem command_released_by_frames:
  assumes "idle p" and "p_registry p = control_registry"
  shows "ct_transport (control_messages (callbacks (snd (ubx_feed p bytes))) s) =
    (ct_transport s)\<lparr>tr_ack_toggle := tr_ack_toggle (ct_transport s)
       \<or> (\<exists>f. Frame_ok f \<in> set (scan (p_max_payload_len p) bytes)
            \<and> frame_acks f = Some (tr_last_class (ct_transport s), tr_last_id (ct_transport s)))\<rparr>"
  unfolding callbacks_feed [OF assms(1)] assms(2) control_messages_transport acknowledge_all_toggle scanned_acks
  by simp

section \<open>Commands and their answers\<close>

text \<open>The acknowledgements of messages, as the waiting command sees them.\<close>

definition ack_actions :: "ubx_message list \<Rightarrow> send_action list" where
  "ack_actions ms = map (\<lambda>(c, i). Ack c i True) (concat (map message_acks ms))"

lemma registry_messages_built:
  assumes "length payload \<le> unat m"
  shows "concat (map (frame_messages reg) (scan m (build_ubx_frame c i payload)))
    = frame_messages reg (Frame_ok (built_frame c i payload))"
proof -
  have nil: "scan m [] = []" by (simp add: scan.simps)
  from scan_built [OF assms, of c i "[]"] show ?thesis by (simp add: nil)
qed

lemma upd_sos_report:
  assumes "cmd \<in> {2, 3}"
  shows "frame_messages control_registry (Frame_ok (built_frame 0x09 0x14 [cmd, 0, 0, 0, r, 0, 0, 0]))
    = [Upd_sos \<lparr>upd_sos_cmd = cmd, upd_sos_response = r\<rparr>]"
proof -
  have "frame_ok (built_frame 0x09 0x14 [cmd, 0, 0, 0, r, 0, 0, 0])" by (simp add: frame_ok_built)
  from decode_upd_sos_layout [OF this refl] assms show ?thesis
    by (auto simp: frame_messages_def control_registry_def control_setup_find upd_sos_decoder_def)
qed

lemma backup_command_frame:
  "get_frame_msg_class build_save = 0x09" "get_frame_msg_id build_save = 0x14" "verify_frame_checksum build_save"
  "get_frame_msg_class build_clear = 0x09" "get_frame_msg_id build_clear = 0x14" "verify_frame_checksum build_clear"
proof -
  have f: "build_save = build_ubx_frame 0x09 0x14 [0, 0, 0, 0]" "build_clear = build_ubx_frame 0x09 0x14 [1, 0, 0, 0]"
    by (simp_all add: build_save_def build_clear_def builder_defs ubx_consts)
  show "verify_frame_checksum build_save" "verify_frame_checksum build_clear" by (simp_all add: f verify_build_ubx_frame)
  show "get_frame_msg_class build_save = 0x09" "get_frame_msg_id build_save = 0x14"
    "get_frame_msg_class build_clear = 0x09" "get_frame_msg_id build_clear = 0x14"
    by (simp_all add: f get_frame_msg_class_def get_frame_msg_id_def UBX_FRAME_OVERHEAD_def build_ubx_frame_eq)
qed

text \<open>
  C27 (error). A backup or clear command succeeds whatever the receiver answers: when an UPD-SOS report arrives
  while it waits, the command returns true for every response code, also for "not acknowledged", and also when
  the report is the unrelated one of a restore at the receiver's start. Only the update signal tells: the backup
  signal for an acknowledged backup, the restore signal for a successful restore, none otherwise.
\<close>

theorem backup_succeeds_on_any_report:
  assumes "idle p" and "p_registry p = control_registry" and "8 \<le> unat (p_max_payload_len p)"
    and "command \<in> {build_save, build_clear}" and "tr_port t" and "cmd \<in> {2, 3}"
    and ms: "ms = callbacks (snd (ubx_feed p (build_ubx_frame UBX_CLASS_UPD UBX_ID_UPD_SOS [cmd, 0, 0, 0, r, 0, 0, 0])))"
  shows "(\<exists>t'. send_run port_ok command (At_entry, t) ([Run, Run, Run, Run] @ ack_actions ms @ [Run]) (Returned True, t'))
    \<and> ct_updates (control_messages ms s) = ct_updates s
        @ (if cmd = 2 \<and> r = 1 then [Buf_backup_operation_completed] else [])
        @ (if cmd = 3 \<and> r = 2 then [Buf_restore_operation_completed] else [])"
proof -
  have u: "UBX_CLASS_UPD = 0x09" "UBX_ID_UPD_SOS = 0x14" by (simp_all add: ubx_consts)
  have report: "ms = [Upd_sos \<lparr>upd_sos_cmd = cmd, upd_sos_response = r\<rparr>]"
    unfolding ms callbacks_feed [OF assms(1)] assms(2) u using assms(3)
    by (simp add: registry_messages_built upd_sos_report [OF assms(6)])
  then have "ack_actions ms = [Ack 0x09 0x14 True]" using assms(6) by (simp add: ack_actions_def upd_sos_acks)
  moreover from assms(4) have c: "verify_frame_checksum command" "get_frame_msg_class command = 0x09"
    "get_frame_msg_id command = 0x14" using backup_command_frame by auto
  note send_runs [OF send_to_waiting [OF c(1) assms(5)] acked_run [OF refl refl]]
  ultimately have "\<exists>t'. send_run port_ok command (At_entry, t) ([Run, Run, Run, Run] @ ack_actions ms @ [Run]) (Returned True, t')"
    by (auto simp: c(2,3))
  moreover have "ct_updates (control_messages ms s) = ct_updates s
        @ (if cmd = 2 \<and> r = 1 then [Buf_backup_operation_completed] else [])
        @ (if cmd = 3 \<and> r = 2 then [Buf_restore_operation_completed] else [])"
    using assms(6) by (auto simp: report control_messages_def control_message_def upd_sos_calls_def ubx_consts)
  ultimately show ?thesis by blast
qed

text \<open>
  A poll is released before its answer is stored: when the response to a VALGET poll reports every
  setting as wanted, its callback first acknowledges the command, so that \<open>poll_config\<close> may return true and
  \<open>sync_config\<close> may run before the entries are stored. Run then, it sends every setting as \<open>force_sync_config\<close>
  does; run after the whole callback it finds nothing to send.
\<close>

theorem poll_released_before_stored:
  assumes "sync_default (ct_sync s) \<noteq> []" and "sync_repository (ct_sync s) = repo_clear r"
    and "tr_last_class (ct_transport s) = UBX_CLASS_CFG" and "tr_last_id (ct_transport s) = UBX_ID_CFG_VALGET"
    and "cfg_valget_version m = UBX_VALGET_VERSION_RESP" and "distinct (map valget_entry_key_id (cfg_valget_entries m))"
    and "\<forall>e \<in> set (sync_default (ct_sync s)).
           \<lparr>valget_entry_key_id = key_id e, valget_entry_value = raw (cfg_value e)\<rparr> \<in> set (cfg_valget_entries m)"
    and "s1 = do_call (hd (control_calls (Cfg_valget m))) s" and "s2 = control_message s (Cfg_valget m)"
  shows "tr_ack_toggle (ct_transport s1)
    \<and> apply_configuration send layer (ct_sync s1) t = force_apply_configuration send layer (ct_sync s1) t
    \<and> apply_configuration send layer (ct_sync s2) t = (True, t)"
proof -
  have s1: "ct_sync s1 = ct_sync s" "tr_ack_toggle (ct_transport s1)"
    using assms(3,4) by (simp_all add: assms(8) handle_ack_def)
  have "pending_updates (ct_sync s) = sync_default (ct_sync s)"
    by (simp add: pending_updates_def assms(2) repo_fetch_def repo_clear_def lookup_empty)
  then have "apply_configuration send layer (ct_sync s1) t = force_apply_configuration send layer (ct_sync s1) t"
    using assms(1) by (simp add: s1(1) apply_configuration_def force_apply_configuration_def)
  moreover have "ct_sync s2 = sync_on_valget_response m (ct_sync s)"
    by (simp add: assms(9) control_message_def manager_on_valget_response_def split: prod.split)
  moreover have "pending_updates (sync_on_valget_response m (ct_sync s)) = []"
    using iffD2 [OF fetch_after_response [OF assms(5,2,6)]] assms(7)
    by (auto simp: pending_updates_def filter_empty_conv)
  ultimately show ?thesis using s1(2) by (simp add: apply_configuration_def)
qed

section \<open>Examples\<close>

definition control_parser :: "ubx_message ubx_parser" where
  "control_parser = ubx_parser_new control_registry"

lemma control_parser [simp]:
  "idle control_parser" "p_registry control_parser = control_registry" "p_max_payload_len control_parser = 4096"
  by (simp add: control_parser_def) (simp_all add: control_parser_def ubx_parser_new_def UBX_SAFE_MAX_PAYLOAD_LEN_def)

definition waiting_for :: "u8 \<Rightarrow> u8 \<Rightarrow> control_state" where
  "waiting_for c i = control_new\<lparr>ct_transport := (transport_new True)\<lparr>tr_last_class := c, tr_last_id := i\<rparr>\<rparr>"

text \<open>A VALSET command is released by its ACK-ACK.\<close>

lemma valset_ack_scanned:
  "scan (4096 :: u16) (build_ubx_frame 0x05 0x01 [0x06, 0x8A]) = [Frame_ok (built_frame 0x05 0x01 [0x06, 0x8A])]"
proof -
  have nil: "scan (4096 :: u16) [] = []" by (simp add: scan.simps)
  from scan_built [of "[0x06, 0x8A]" "4096 :: u16" 5 1 "[]"] show ?thesis by (simp add: nil)
qed

theorem command_released_by_frames_witness:
  "tr_ack_toggle (ct_transport (control_messages
     (callbacks (snd (ubx_feed control_parser (build_ubx_frame 0x05 0x01 [0x06, 0x8A])))) (waiting_for 0x06 0x8A)))"
  using command_released_by_frames [OF control_parser(1,2), of "build_ubx_frame 0x05 0x01 [0x06, 0x8A]" "waiting_for 0x06 0x8A"]
  by (simp add: valset_ack_scanned frame_acks_def waiting_for_def control_new_def)

theorem backup_succeeds_on_any_report_witness:
  "\<exists>t'. send_run port_ok build_save (At_entry, transport_new True)
     ([Run, Run, Run, Run] @ ack_actions (callbacks (snd (ubx_feed control_parser
         (build_ubx_frame UBX_CLASS_UPD UBX_ID_UPD_SOS [2, 0, 0, 0, 0, 0, 0, 0])))) @ [Run]) (Returned True, t')"
proof -
  have "8 \<le> unat (p_max_payload_len control_parser)" "tr_port (transport_new True)" by (simp_all add: transport_new_def)
  from backup_succeeds_on_any_report [OF control_parser(1,2) this(1) _ this(2) _ refl, of build_save 2 0]
  show ?thesis by simp
qed

definition poll_demo :: ubx_cfg_valget where
  "poll_demo = \<lparr>cfg_valget_version = UBX_VALGET_VERSION_RESP, cfg_valget_layer = 0, cfg_valget_position = 0,
     cfg_valget_entries = [\<lparr>valget_entry_key_id = 0x30210001, valget_entry_value = 200\<rparr>]\<rparr>"

theorem poll_released_before_stored_witness:
  "let s = (waiting_for UBX_CLASS_CFG UBX_ID_CFG_VALGET)\<lparr>ct_sync := sync_demo\<rparr>
   in tr_ack_toggle (ct_transport (do_call (hd (control_calls (Cfg_valget poll_demo))) s))
    \<and> apply_configuration (\<lambda>msg n. (True, n + 1)) Layer_ram (ct_sync (control_message s (Cfg_valget poll_demo))) (0 :: nat)
        = (True, 0)"
proof -
  define s where "s = (waiting_for UBX_CLASS_CFG UBX_ID_CFG_VALGET)\<lparr>ct_sync := sync_demo\<rparr>"
  have "sync_default (ct_sync s) \<noteq> []" "sync_repository (ct_sync s) = repo_clear Mapping.empty"
    "tr_last_class (ct_transport s) = UBX_CLASS_CFG" "tr_last_id (ct_transport s) = UBX_ID_CFG_VALGET"
    "cfg_valget_version poll_demo = UBX_VALGET_VERSION_RESP" "distinct (map valget_entry_key_id (cfg_valget_entries poll_demo))"
    "\<forall>e \<in> set (sync_default (ct_sync s)).
       \<lparr>valget_entry_key_id = key_id e, valget_entry_value = raw (cfg_value e)\<rparr> \<in> set (cfg_valget_entries poll_demo)"
    by (simp_all add: s_def waiting_for_def sync_demo_def poll_demo_def repo_clear_def)
  from poll_released_before_stored [OF this refl refl, of "\<lambda>msg n. (True, n + 1)" Layer_ram "0 :: nat"]
  show ?thesis unfolding s_def Let_def by blast
qed

end
