(* ===== verification/Control_System.thy ===== *)
theory Control_System
  imports Control_Adapter Control_Channel Config_Provision Gnss_Record
begin

text \<open>
  The interface of the controller on the controller itself, the adapter that owns it, and what its clients rely on:
  a command line keeps the controller in a proper state, and a stopped system is not running.
\<close>

section \<open>The interface on the controller\<close>

text \<open>
  The objects behind the interface: the controller's channels and modes, the configuration manager with its datum
  service, the signals emitted, the reset pin and the levels driven on it.
\<close>

record 'n app_state =
  app_controller :: "(ubx_message, 'n) gnss_controller"
  app_sync :: sync_service
  app_datum :: "unit datum_service"
  app_updates :: "buffer_type list"
  app_reset_pin :: "(bool \<Rightarrow> bool) option"
  app_pin_levels :: "bool list"

text \<open>
  What a command finds around it: the answers of the kernel to its calls, in the three phases a replay has, the
  files with settings, the NMEA database's registration, the answer to a frame sent synchronously (any, the
  transport says which are possible) and the iterations of the workers that run while it waits.
\<close>

record 'n command_env =
  env_os :: os_at
  env_os2 :: os_at
  env_os3 :: os_at
  env_files :: "string \<Rightarrow> string option"
  env_nmea_db :: "'n nmea_sentence_registry \<Rightarrow> 'n nmea_sentence_registry"
  env_answer :: "bytes \<Rightarrow> bool"
  env_meanwhile :: "bytes \<Rightarrow> (loop_env \<times> os_at \<times> nat) list"

definition run_workers ::
  "(loop_env \<times> os_at \<times> nat) list \<Rightarrow> (ubx_message, 'n) gnss_controller \<Rightarrow> (ubx_message, 'n) gnss_controller" where
  "run_workers its c = controller_steps (map (\<lambda>(e, os, i). Worker_iteration e os i) its) c"

definition app_send_async :: "'n command_env \<Rightarrow> (ubx_message, 'n) gnss_controller send_op" where
  "app_send_async env frame c = (case send_command (env_os env 0) frame c of (c', ok) \<Rightarrow> (ok, c'))"

definition app_send_sync :: "'n command_env \<Rightarrow> (ubx_message, 'n) gnss_controller send_op" where
  "app_send_sync env frame c =
     (env_answer env frame, run_workers (env_meanwhile env frame) (fst (send_command (env_os env 0) frame c)))"

definition on_controller ::
  "((ubx_message, 'n) gnss_controller \<Rightarrow> (ubx_message, 'n) gnss_controller \<times> bool) \<Rightarrow> 'n app_state command_op" where
  "on_controller f a = (case f (app_controller a) of (c, ok) \<Rightarrow> (a\<lparr>app_controller := c\<rparr>, Inr ok))"

definition on_files ::
  "((ubx_message, 'n) gnss_controller \<Rightarrow> (ubx_message, 'n) gnss_controller \<times> (io_exception + bool))
     \<Rightarrow> 'n app_state command_op" where
  "on_files f a =
     (case f (app_controller a) of (c, r) \<Rightarrow> (a\<lparr>app_controller := c\<rparr>, map_sum Io_thrown id r))"

definition on_transport ::
  "((ubx_message, 'n) gnss_controller \<Rightarrow> bool \<times> (ubx_message, 'n) gnss_controller) \<Rightarrow> 'n app_state command_op" where
  "on_transport f a = (case f (app_controller a) of (ok, c) \<Rightarrow> (a\<lparr>app_controller := c\<rparr>, Inr ok))"

definition app_hardware_reset :: "'n app_state command_op" where
  "app_hardware_reset a =
     (case hardware_reset (app_reset_pin a) of
        (ok, levels) \<Rightarrow> (a\<lparr>app_pin_levels := app_pin_levels a @ levels\<rparr>, Inr ok))"

definition app_poll_config :: "'n command_env \<Rightarrow> string \<Rightarrow> 'n app_state command_op" where
  "app_poll_config env path a =
     (case controller_poll_config (app_send_sync env) (env_files env) path (app_sync a) (app_controller a) of
        (ok, sy, c) \<Rightarrow> (a\<lparr>app_sync := sy, app_controller := c\<rparr>, Inr ok))"

definition app_sync_config :: "'n command_env \<Rightarrow> 'n app_state command_op" where
  "app_sync_config env a =
     (case controller_sync_config (app_send_sync env) (app_sync a) (app_controller a) of
        (ok, applied, c) \<Rightarrow>
          (a\<lparr>app_controller := c,
             app_updates := app_updates a @ (if applied then [Buf_default_config_applied] else [])\<rparr>, Inr ok))"

definition app_force_sync_config :: "'n command_env \<Rightarrow> string \<Rightarrow> 'n app_state command_op" where
  "app_force_sync_config env path a =
     (case controller_force_sync_config (app_send_sync env) (env_files env) path (app_sync a) (app_controller a) of
        (r, sy, c) \<Rightarrow> (a\<lparr>app_sync := sy, app_controller := c\<rparr>, map_sum Thrown id r))"

definition app_query_datum :: "'n command_env \<Rightarrow> 'n app_state command_op" where
  "app_query_datum env a =
     (case controller_query_datum (app_send_sync env) (app_datum a) (app_controller a) of
        (ok, d, c) \<Rightarrow> (a\<lparr>app_datum := d, app_controller := c\<rparr>, Inr ok))"

definition app_ops :: "'n command_env \<Rightarrow> 'n app_state i_gnss_controller" where
  "app_ops env =
     \<lparr>op_hardware_reset = app_hardware_reset,
      op_init = on_controller (controller_init (wrapper_register wrapper_new) (env_nmea_db env) control_setup (env_os env)),
      op_start = on_controller controller_start,
      op_stop = (\<lambda>a. a\<lparr>app_controller := controller_stop (app_controller a)\<rparr>),
      op_terminate = (\<lambda>a. a\<lparr>app_controller := controller_terminate (app_controller a)\<rparr>),
      op_is_running = (\<lambda>a. controller_is_running (app_controller a)),
      op_hot_stop = on_controller (controller_hot_stop (env_os env 0)),
      op_warm_stop = on_controller (controller_warm_stop (env_os env 0)),
      op_cold_stop = on_controller (controller_cold_stop (env_os env 0)),
      op_hot_start = on_controller (controller_hot_start (env_os env 0)),
      op_warm_start = on_controller (controller_warm_start (env_os env 0)),
      op_cold_start = on_controller (controller_cold_start (env_os env 0)),
      op_hot_reset = on_controller (controller_hot_reset (env_os env 0)),
      op_warm_reset = on_controller (controller_warm_reset (env_os env 0)),
      op_cold_reset = on_controller (controller_cold_reset (env_os env 0)),
      op_get_version = on_transport (controller_get_version (app_send_sync env)),
      op_backup = on_transport (controller_backup (app_send_sync env)),
      op_clear_backup = on_transport (controller_clear_backup (app_send_sync env)),
      op_poll_config = app_poll_config env,
      op_sync_config = app_sync_config env,
      op_force_sync_config = app_force_sync_config env,
      op_query_datum = app_query_datum env,
      op_set_datum = (\<lambda>d. on_transport (controller_set_datum (app_send_async env) d)),
      op_reset_datum = on_transport (controller_reset_datum (app_send_async env)),
      op_start_record = on_files (start_record (env_os env)),
      op_stop_record = on_controller stop_record,
      op_start_replay = on_files (start_replay (env_os env) (env_os2 env) (env_os3 env)),
      op_stop_replay = on_controller (stop_replay (env_os env))\<rparr>"

section \<open>The adapter\<close>

definition control_adapter_new :: "i_io_config list \<Rightarrow> (string \<Rightarrow> bytes option) \<Rightarrow> 'n app_state option" where
  "control_adapter_new configs files =
     map_option (\<lambda>c. \<lparr>app_controller = c, app_sync = sync_service_new, app_datum = datum_service_new,
        app_updates = [], app_reset_pin = None, app_pin_levels = []\<rparr>) (gnss_controller_new configs files)"

definition control_adapter_new_single :: "i_io_config \<Rightarrow> (string \<Rightarrow> bytes option) \<Rightarrow> 'n app_state option" where
  "control_adapter_new_single config files = control_adapter_new [config] files"

definition adapter_set_reset_pin :: "(bool \<Rightarrow> bool) option \<Rightarrow> 'n app_state \<Rightarrow> 'n app_state" where
  "adapter_set_reset_pin pin a = a\<lparr>app_reset_pin := pin\<rparr>"

section \<open>What a client relies on\<close>

text \<open>An operation that keeps an invariant, also when it is left by an exception.\<close>

definition keeps :: "('s \<Rightarrow> bool) \<Rightarrow> 's command_op \<Rightarrow> bool" where
  "keeps proper f \<longleftrightarrow> (\<forall>s. proper s \<longrightarrow> proper (fst (f s)))"

locale command_interface =
  fixes ctrl :: "'s i_gnss_controller" and proper :: "'s \<Rightarrow> bool"
  assumes stops: "proper s \<Longrightarrow> proper (op_stop ctrl s) \<and> \<not> op_is_running ctrl (op_stop ctrl s)"
    and terminates: "proper s \<Longrightarrow> proper (op_terminate ctrl s) \<and> \<not> op_is_running ctrl (op_terminate ctrl s)"
    and lifecycle: "keeps proper (op_init ctrl)" "keeps proper (op_start ctrl)" "keeps proper (op_hardware_reset ctrl)"
    and chip: "keeps proper (op_hot_stop ctrl)" "keeps proper (op_warm_stop ctrl)" "keeps proper (op_cold_stop ctrl)"
      "keeps proper (op_hot_start ctrl)" "keeps proper (op_warm_start ctrl)" "keeps proper (op_cold_start ctrl)"
      "keeps proper (op_hot_reset ctrl)" "keeps proper (op_warm_reset ctrl)" "keeps proper (op_cold_reset ctrl)"
      "keeps proper (op_get_version ctrl)" "keeps proper (op_backup ctrl)" "keeps proper (op_clear_backup ctrl)"
    and config: "keeps proper (op_poll_config ctrl path)" "keeps proper (op_sync_config ctrl)"
      "keeps proper (op_force_sync_config ctrl path)" "keeps proper (op_query_datum ctrl)" "keeps proper (op_set_datum ctrl d)"
      "keeps proper (op_reset_datum ctrl)"
    and files: "keeps proper (op_start_record ctrl)" "keeps proper (op_stop_record ctrl)" "keeps proper (op_start_replay ctrl)"
      "keeps proper (op_stop_replay ctrl)"
begin

lemma command_keeps:
  assumes "(n, factory) \<in> set (build_command_table ctrl)" and "factory p = Inr command"
  shows "keeps proper command"
proof -
  have total: "keeps proper (\<lambda>s. (op_stop ctrl s, Inr True))" "keeps proper (\<lambda>s. (op_terminate ctrl s, Inr True))"
    "keeps proper (\<lambda>s. (s, Inr (op_is_running ctrl s)))"
    using stops terminates by (simp_all add: keeps_def)
  show ?thesis
    using assms unfolding build_command_table_def
    by (auto simp: total lifecycle chip config files command_object_defs [abs_def] split: sum.splits)
qed

lemma execute_keeps: "keeps proper (execute_command ctrl cmd)"
  unfolding keeps_def
proof (intro allI impI)
  fix s assume s: "proper s"
  show "proper (fst (execute_command ctrl cmd s))"
  proof (cases "create_command ctrl (tokenize_command cmd)")
    case (Some r)
    then obtain n factory where f: "(n, factory) \<in> set (build_command_table ctrl)" "factory (tokenize_command cmd) = r"
      by (auto simp: create_command_def dest: map_of_SomeD split: option.splits)
    with s command_keeps show ?thesis
      by (cases r) (auto simp: execute_command_def Some keeps_def)
  qed (simp add: execute_command_def s)
qed

text \<open>The lines \<open>stop\<close> and \<open>terminate\<close>, then \<open>check_running\<close>.\<close>

lemma stopped_not_running:
  assumes "proper s" and "cmd \<in> {''stop'', ''terminate''}"
  shows "snd (execute_command ctrl ''check_running'' (fst (execute_command ctrl cmd s))) = Inr False"
proof -
  have "execute_command ctrl ''check_running'' t = (t, Inr (op_is_running ctrl t))"
    "execute_command ctrl ''stop'' t = (op_stop ctrl t, Inr True)"
    "execute_command ctrl ''terminate'' t = (op_terminate ctrl t, Inr True)" for t
    by (rule trans [OF plain_command_line refl]; simp add: plain_commands_def; fail)+
  then show ?thesis using assms stops terminates by auto
qed

end

section \<open>The controller as provider\<close>

lemma stopped_receiver: "receiver_ok r \<Longrightarrow> \<not> rc_running (receiver_stop r)"
  by (auto simp: receiver_stop_def receiver_ok_def)

lemma terminated_receiver: "\<not> rc_running r \<Longrightarrow> \<not> rc_running (snd (receiver_terminate sys r))"
  by (auto simp: receiver_terminate_def receiver_stop_def Let_def)

lemma terminate_loop_quiet:
  "list_all (\<lambda>r. \<not> rc_running r) (gc_receivers c) \<Longrightarrow> list_all (\<lambda>r. \<not> rc_running r) (gc_receivers (terminate_loop is c))"
proof (induction "is" arbitrary: c)
  case (Cons i "is")
  obtain sys' r' where t: "receiver_terminate (gc_sys c) (receiver_at c i) = (sys', r')" by fastforce
  have "list_all (\<lambda>r. \<not> rc_running r) ((gc_receivers c)[i := r'])"
  proof (cases "i < length (gc_receivers c)")
    case True
    then have "\<not> rc_running r'"
      using Cons.prems terminated_receiver [of "receiver_at c i" "gc_sys c", unfolded t]
      by (simp add: receiver_at_def list_all_length)
    then show ?thesis using Cons.prems by (auto simp: list_all_iff dest!: set_update_subset_insert [THEN subsetD])
  qed (simp add: Cons.prems list_update_beyond)
  with Cons.IH show ?case by (simp add: t set_receiver_def)
qed simp

lemma controller_quiet:
  assumes "controller_ok n c"
  shows "\<not> controller_is_running (controller_stop c)" "\<not> controller_is_running (controller_terminate c)"
proof -
  have stopped: "list_all (\<lambda>r. \<not> rc_running r) (gc_receivers (controller_stop c))"
    using assms stopped_receiver
    by (auto simp: controller_stop_def controller_ok_def channels_ok_def list_all_iff)
  have quiet: "\<not> controller_is_running c'" if "list_all (\<lambda>r. \<not> rc_running r) (gc_receivers c')" "controller_ok n c'" for c'
    using that by (auto simp: controller_is_running_def receiver_is_running_def receiver_at_def controller_ok_def
        channels_ok_def list_all_length)
  from quiet [OF stopped] controller_step_ok [OF assms, of Cmd_stop] show "\<not> controller_is_running (controller_stop c)"
    by simp
  from terminate_loop_quiet [OF stopped] have "list_all (\<lambda>r. \<not> rc_running r) (gc_receivers (controller_terminate c))"
    by (simp add: controller_terminate_def Let_def)
  from quiet [OF this] controller_step_ok [OF assms, of Cmd_terminate] show "\<not> controller_is_running (controller_terminate c)"
    by simp
qed

definition app_ok :: "nat \<Rightarrow> 'n app_state \<Rightarrow> bool" where
  "app_ok n a \<longleftrightarrow> controller_ok n (app_controller a)"

lemma on_controller_keeps:
  "(\<And>c. fst (f c) = controller_step cmd c) \<Longrightarrow> keeps (app_ok n) (on_controller f)"
  by (simp add: keeps_def on_controller_def app_ok_def controller_step_ok split: prod.split) (metis controller_step_ok fst_conv)

lemma on_files_keeps:
  "(\<And>c. fst (f c) = controller_step cmd c) \<Longrightarrow> keeps (app_ok n) (on_files f)"
  by (simp add: keeps_def on_files_def app_ok_def split: prod.split) (metis controller_step_ok fst_conv)

text \<open>A send keeps the controller proper, so does what is made of one.\<close>

definition send_keeps :: "nat \<Rightarrow> (ubx_message, 'n) gnss_controller send_op \<Rightarrow> bool" where
  "send_keeps n send \<longleftrightarrow> (\<forall>msg c. controller_ok n c \<longrightarrow> controller_ok n (snd (send msg c)))"

lemma sent_ok: "controller_ok n c \<Longrightarrow> controller_ok n (fst (send_command os frame c))"
  using controller_step_ok [of n c "Cmd_send os frame"] by simp

lemma send_async_keeps: "send_keeps n (app_send_async env)"
  by (simp add: send_keeps_def app_send_async_def case_prod_beta sent_ok)

lemma send_sync_keeps: "send_keeps n (app_send_sync env)"
  by (simp add: send_keeps_def app_send_sync_def run_workers_def controller_steps_ok sent_ok)

lemma on_transport_keeps:
  "(\<And>c. controller_ok n c \<Longrightarrow> controller_ok n (snd (f c))) \<Longrightarrow> keeps (app_ok n) (on_transport f)"
  by (simp add: keeps_def on_transport_def app_ok_def split: prod.split) (metis snd_conv)

lemma transport_commands_keep:
  assumes "send_keeps n send" and "controller_ok n c"
  shows "controller_ok n (snd (controller_get_version send c))" "controller_ok n (snd (controller_backup send c))"
    "controller_ok n (snd (controller_clear_backup send c))" "controller_ok n (snd (controller_set_datum send d c))"
    "controller_ok n (snd (controller_reset_datum send c))"
    "controller_ok n (snd (snd (controller_query_datum send ds c)))"
    "controller_ok n (snd (snd (controller_poll_config send files path sy c)))"
    "controller_ok n (snd (snd (controller_sync_config send sy c)))"
    "controller_ok n (snd (snd (controller_force_sync_config send files path sy c)))"
proof -
  have send: "controller_ok n (snd (send msg c))" for msg using assms by (simp add: send_keeps_def)
  have reset: "controller_ok n (snd (reset_to_default send layer c))" for layer
    by (simp add: reset_to_default_def Let_def send assms(2))
  show "controller_ok n (snd (controller_get_version send c))" "controller_ok n (snd (controller_backup send c))"
    "controller_ok n (snd (controller_clear_backup send c))" "controller_ok n (snd (controller_reset_datum send c))"
    by (simp_all add: controller_get_version_def controller_backup_def controller_clear_backup_def
        controller_reset_datum_def send reset)
  show "controller_ok n (snd (controller_set_datum send d c))"
    by (simp add: controller_set_datum_def reset start_valset_by_id_def start_valset_by_params_def Let_def send assms(2)
        split: option.split)
  show "controller_ok n (snd (snd (controller_query_datum send ds c)))"
    by (simp add: controller_query_datum_def query_datum_def datum_start_valget_poll_def Let_def send assms(2) case_prod_beta)
  show "controller_ok n (snd (snd (controller_poll_config send files path sy c)))"
    by (simp add: controller_poll_config_def start_poll_def sync_start_valget_poll_def Let_def send assms(2) case_prod_beta
        split: sum.split)
  show "controller_ok n (snd (snd (controller_sync_config send sy c)))"
    by (simp add: controller_sync_config_def apply_configuration_def Let_def send assms(2) case_prod_beta)
  show "controller_ok n (snd (snd (controller_force_sync_config send files path sy c)))"
    by (simp add: controller_force_sync_config_def force_apply_configuration_def Let_def send assms(2) case_prod_beta
        split: sum.split)
qed

interpretation app: command_interface "app_ops env" "app_ok n" for env :: "'n command_env"
proof
  fix path d
  note sync = transport_commands_keep [OF send_sync_keeps [of n env]]
  note async = transport_commands_keep [OF send_async_keeps [of n env]]
  note defs = app_ops_def i_gnss_controller.simps
  show "keeps (app_ok n) (op_init (app_ops env))" unfolding defs
    by (rule on_controller_keeps [where cmd = "Cmd_init (wrapper_register wrapper_new) (env_nmea_db env) control_setup (env_os env)"]) simp
  show "keeps (app_ok n) (op_start (app_ops env))" unfolding defs by (rule on_controller_keeps [where cmd = Cmd_start]) simp
  show "keeps (app_ok n) (op_hardware_reset (app_ops env))" unfolding defs
    by (simp add: keeps_def app_hardware_reset_def app_ok_def split: prod.split)
  show "keeps (app_ok n) (op_hot_stop (app_ops env))" "keeps (app_ok n) (op_warm_stop (app_ops env))"
    "keeps (app_ok n) (op_cold_stop (app_ops env))" "keeps (app_ok n) (op_hot_start (app_ops env))"
    "keeps (app_ok n) (op_warm_start (app_ops env))" "keeps (app_ok n) (op_cold_start (app_ops env))"
    "keeps (app_ok n) (op_hot_reset (app_ops env))" "keeps (app_ok n) (op_warm_reset (app_ops env))"
    "keeps (app_ok n) (op_cold_reset (app_ops env))"
    unfolding defs by (rule on_controller_keeps [where cmd = "Cmd_send (env_os env 0) _"],
      simp add: controller_hot_stop_def controller_warm_stop_def controller_cold_stop_def controller_hot_start_def
        controller_warm_start_def controller_cold_start_def controller_hot_reset_def controller_warm_reset_def
        controller_cold_reset_def; fail)+
  show "keeps (app_ok n) (op_get_version (app_ops env))" "keeps (app_ok n) (op_backup (app_ops env))"
    "keeps (app_ok n) (op_clear_backup (app_ops env))" "keeps (app_ok n) (op_set_datum (app_ops env) d)"
    "keeps (app_ok n) (op_reset_datum (app_ops env))"
    unfolding defs by (rule on_transport_keeps, erule sync async, fail?)+
  show "keeps (app_ok n) (op_poll_config (app_ops env) path)" unfolding defs
    by (simp add: keeps_def app_ok_def app_poll_config_def case_prod_beta sync)
  show "keeps (app_ok n) (op_sync_config (app_ops env))" unfolding defs
    by (simp add: keeps_def app_ok_def app_sync_config_def case_prod_beta sync)
  show "keeps (app_ok n) (op_force_sync_config (app_ops env) path)" unfolding defs
    by (simp add: keeps_def app_ok_def app_force_sync_config_def case_prod_beta sync)
  show "keeps (app_ok n) (op_query_datum (app_ops env))" unfolding defs
    by (simp add: keeps_def app_ok_def app_query_datum_def case_prod_beta sync)
  show "keeps (app_ok n) (op_start_record (app_ops env))" unfolding defs
    by (rule on_files_keeps [where cmd = "Cmd_start_record (env_os env)"]) simp
  show "keeps (app_ok n) (op_stop_record (app_ops env))" unfolding defs
    by (rule on_controller_keeps [where cmd = Cmd_stop_record]) simp
  show "keeps (app_ok n) (op_start_replay (app_ops env))" unfolding defs
    by (rule on_files_keeps [where cmd = "Cmd_start_replay (env_os env) (env_os2 env) (env_os3 env)"]) simp
  show "keeps (app_ok n) (op_stop_replay (app_ops env))" unfolding defs
    by (rule on_controller_keeps [where cmd = "Cmd_stop_replay (env_os env)"]) simp
  fix a :: "'n app_state"
  assume ok: "app_ok n a"
  show "app_ok n (op_stop (app_ops env) a) \<and> \<not> op_is_running (app_ops env) (op_stop (app_ops env) a)"
    using ok controller_step_ok [of n "app_controller a" Cmd_stop] controller_quiet
    by (auto simp: app_ops_def app_ok_def)
  show "app_ok n (op_terminate (app_ops env) a) \<and> \<not> op_is_running (app_ops env) (op_terminate (app_ops env) a)"
    using ok controller_step_ok [of n "app_controller a" Cmd_terminate] controller_quiet
    by (auto simp: app_ops_def app_ok_def)
qed

section \<open>Properties\<close>

text \<open>What happens to a system: command lines, iterations of the workers between them, a pin given or taken.\<close>

datatype 'n system_event =
    Line "'n command_env" string
  | Worker_runs loop_env os_at nat
  | Pin_set "(bool \<Rightarrow> bool) option"

fun system_step :: "'n system_event \<Rightarrow> 'n app_state \<Rightarrow> 'n app_state" where
  "system_step (Line env cmd) a = fst (execute_command (app_ops env) cmd a)"
| "system_step (Worker_runs e os i) a = a\<lparr>app_controller := run_workers [(e, os, i)] (app_controller a)\<rparr>"
| "system_step (Pin_set pin) a = adapter_set_reset_pin pin a"

lemma system_step_ok: "app_ok n a \<Longrightarrow> app_ok n (system_step ev a)"
proof (cases ev)
  case (Line env cmd)
  assume "app_ok n a"
  then show ?thesis using app.execute_keeps [of n env cmd] by (simp add: Line keeps_def)
qed (simp_all add: app_ok_def run_workers_def controller_steps_ok adapter_set_reset_pin_def)

lemma system_run_ok: "app_ok n a \<Longrightarrow> app_ok n (fold system_step evs a)"
  by (induction evs arbitrary: a) (simp_all add: system_step_ok)

lemma adapter_new_ok: "control_adapter_new configs files = Some a \<Longrightarrow> app_ok (length configs) a"
  by (auto simp: control_adapter_new_def app_ok_def controller_new_ok)

text \<open>
  C14 (invariant). Whatever lines an adapter is given, well-formed or not, whatever the kernel, the files and the
  receiver answer and whenever the workers run, commands left by an exception included: there are as many receivers
  as configured channels, each in a proper state, record and replay are never active together, and their lists
  cover the channels while they are active. The line \<open>stop\<close>, and \<open>terminate\<close>, then always leaves the system not
  running: \<open>check_running\<close> answers false.
\<close>

theorem adapter_commands_safe:
  assumes "control_adapter_new configs files = Some a0" and "cmd \<in> {''stop'', ''terminate''}"
  shows "let a = fold system_step evs a0; c = app_controller a; n = length configs in
     length (gc_receivers c) = n \<and> length (gc_ports c) = n \<and> list_all receiver_ok (gc_receivers c)
     \<and> \<not> (gc_record_active c \<and> gc_replay_active c)
     \<and> (gc_record_active c \<longrightarrow> n \<le> length (gc_record_ports c))
     \<and> (gc_replay_active c \<longrightarrow> length (gc_saved_ports c) = n \<and> length (gc_saved_configs c) = n
          \<and> length (gc_replay_ports c) = n)
     \<and> snd (execute_command (app_ops env) ''check_running'' (fst (execute_command (app_ops env) cmd a))) = Inr False"
proof -
  have ok: "app_ok (length configs) (fold system_step evs a0)" by (rule system_run_ok [OF adapter_new_ok [OF assms(1)]])
  from app.stopped_not_running [OF this assms(2)] ok show ?thesis
    by (simp add: Let_def app_ok_def controller_ok_def channels_ok_def modes_ok_def)
qed

definition env_demo :: "string command_env" where
  "env_demo = \<lparr>env_os = (\<lambda>_. os_device []), env_os2 = (\<lambda>_. os_device []), env_os3 = (\<lambda>_. os_device []),
     env_files = (\<lambda>_. None), env_nmea_db = (\<lambda>r. r), env_answer = (\<lambda>_. True), env_meanwhile = (\<lambda>_. [])\<rparr>"

definition adapter_demo :: "string app_state" where
  "adapter_demo = the (control_adapter_new [uart_demo] (\<lambda>_. None))"

theorem adapter_commands_safe_witness:
  "snd (execute_command (app_ops env_demo) ''check_running'' (fst (execute_command (app_ops env_demo) ''stop''
     (fold system_step [Line env_demo ''init'', Line env_demo ''start'', Line env_demo ''set_datum x''] adapter_demo))))
   = Inr False"
proof -
  have "control_adapter_new [uart_demo] (\<lambda>_. None) = Some adapter_demo"
    by (simp add: adapter_demo_def control_adapter_new_def gnss_controller_new_def)
  from adapter_commands_safe [OF this insertI1, unfolded Let_def] show ?thesis by blast
qed

end
