(* ===== verification/Safe_Cast.thy ===== *)
theory Safe_Cast
  imports Ieee_Double
begin

text \<open>
  \<open>ext_libs/casting/safecast\<close>: conversions between the arithmetic types that do not overflow. A \<open>float\<close> is a
  \<open>double\<close> of the same value; a word is read as signed or unsigned according to its C++ type. \<open>None\<close> is the
  conversion of a NaN to an integer, which C++ leaves undefined.
\<close>

section \<open>Constants and conversions of the language\<close>

abbreviation INT8_MIN :: int where "INT8_MIN \<equiv> - 128"
abbreviation INT8_MAX :: int where "INT8_MAX \<equiv> 127"
abbreviation UINT8_MAX :: int where "UINT8_MAX \<equiv> 255"
abbreviation INT16_MIN :: int where "INT16_MIN \<equiv> - 32768"
abbreviation INT16_MAX :: int where "INT16_MAX \<equiv> 32767"
abbreviation UINT16_MAX :: int where "UINT16_MAX \<equiv> 65535"
abbreviation INT32_MIN :: int where "INT32_MIN \<equiv> - 2147483648"
abbreviation INT32_MAX :: int where "INT32_MAX \<equiv> 2147483647"
abbreviation UINT32_MAX :: int where "UINT32_MAX \<equiv> 4294967295"
abbreviation INT64_MIN :: int where "INT64_MIN \<equiv> - 9223372036854775808"
abbreviation INT64_MAX :: int where "INT64_MAX \<equiv> 9223372036854775807"
abbreviation UINT64_MAX :: int where "UINT64_MAX \<equiv> 18446744073709551615"

definition FLT_MAX :: rat where "FLT_MAX = 2 ^ 128 - 2 ^ 104"

definition EPSILON :: dbl where "EPSILON = Finite False (round_magnitude (1 / 10 ^ 9))"

text \<open>The nearest \<open>float\<close> to a non-negative rational, subnormals included.\<close>

definition float_magnitude :: "rat \<Rightarrow> rat" where
  "float_magnitude x =
     (if x = 0 then 0
      else let e = max (binade x - 23) (- 149)
           in of_int (round_half_even (x / 2 powi e)) * 2 powi e)"

definition int_to_double :: "int \<Rightarrow> dbl" where
  "int_to_double i = Finite (i < 0) (round_magnitude (of_int \<bar>i\<bar>))"

definition int_to_float :: "int \<Rightarrow> dbl" where
  "int_to_float i = Finite (i < 0) (float_magnitude (of_int \<bar>i\<bar>))"

text \<open>A finite value that rounds beyond the largest \<open>float\<close> becomes infinite.\<close>

fun narrow_to_float :: "dbl \<Rightarrow> dbl" where
  "narrow_to_float (Finite s x) =
     (let r = float_magnitude x in if FLT_MAX < r then Infinite s else Finite s r)"
| "narrow_to_float d = d"

definition dbl_less :: "dbl \<Rightarrow> dbl \<Rightarrow> bool" where
  "dbl_less d e \<longleftrightarrow> dbl_le d e \<and> \<not> dbl_eq d e"

text \<open>Truncation to an integer of a type with the given limits; undefined outside them.\<close>

fun dbl_to_word :: "int \<Rightarrow> int \<Rightarrow> dbl \<Rightarrow> 'w::len word option" where
  "dbl_to_word lo hi (Finite s x) =
     (let i = trunc (dbl_value s x) in if lo \<le> i \<and> i \<le> hi then Some (word_of_int i) else None)"
| "dbl_to_word lo hi d = None"

section \<open>The conversions\<close>

definition bool_to_int8 :: "bool \<Rightarrow> 8 word" where
  "bool_to_int8 value = (if value then 1 else 0)"

definition bool_to_int16 :: "bool \<Rightarrow> 16 word" where
  "bool_to_int16 value = (if value then 1 else 0)"

definition bool_to_int32 :: "bool \<Rightarrow> 32 word" where
  "bool_to_int32 value = (if value then 1 else 0)"

definition bool_to_int64 :: "bool \<Rightarrow> 64 word" where
  "bool_to_int64 value = (if value then 1 else 0)"

definition bool_to_uint8 :: "bool \<Rightarrow> 8 word" where
  "bool_to_uint8 value = (if value then 1 else 0)"

definition bool_to_uint16 :: "bool \<Rightarrow> 16 word" where
  "bool_to_uint16 value = (if value then 1 else 0)"

definition bool_to_uint32 :: "bool \<Rightarrow> 32 word" where
  "bool_to_uint32 value = (if value then 1 else 0)"

definition bool_to_uint64 :: "bool \<Rightarrow> 64 word" where
  "bool_to_uint64 value = (if value then 1 else 0)"

definition bool_to_float :: "bool \<Rightarrow> dbl" where
  "bool_to_float value = (if value then Finite False 1 else Finite False 0)"

definition bool_to_double :: "bool \<Rightarrow> dbl" where
  "bool_to_double value = (if value then Finite False 1 else Finite False 0)"

definition int8_to_bool :: "8 word \<Rightarrow> bool" where
  "int8_to_bool value \<longleftrightarrow> value \<noteq> 0"

definition int8_to_int16 :: "8 word \<Rightarrow> 16 word" where
  "int8_to_int16 value = word_of_int (sint value)"

definition int8_to_int32 :: "8 word \<Rightarrow> 32 word" where
  "int8_to_int32 value = word_of_int (sint value)"

definition int8_to_int64 :: "8 word \<Rightarrow> 64 word" where
  "int8_to_int64 value = word_of_int (sint value)"

definition int8_to_uint8 :: "8 word \<Rightarrow> 8 word" where
  "int8_to_uint8 value = (if sint value < 0 then 0
      else word_of_int (sint value))"

definition int8_to_uint16 :: "8 word \<Rightarrow> 16 word" where
  "int8_to_uint16 value = (if sint value < 0 then 0
      else word_of_int (sint value))"

definition int8_to_uint32 :: "8 word \<Rightarrow> 32 word" where
  "int8_to_uint32 value = (if sint value < 0 then 0
      else word_of_int (sint value))"

definition int8_to_uint64 :: "8 word \<Rightarrow> 64 word" where
  "int8_to_uint64 value = (if sint value < 0 then 0
      else word_of_int (sint value))"

definition int8_to_float :: "8 word \<Rightarrow> dbl" where
  "int8_to_float value = int_to_float (sint value)"

definition int8_to_double :: "8 word \<Rightarrow> dbl" where
  "int8_to_double value = int_to_double (sint value)"

definition int16_to_bool :: "16 word \<Rightarrow> bool" where
  "int16_to_bool value \<longleftrightarrow> value \<noteq> 0"

definition int16_to_int8 :: "16 word \<Rightarrow> 8 word" where
  "int16_to_int8 value = (if sint value < INT8_MIN then word_of_int INT8_MIN
      else if INT8_MAX < sint value then word_of_int INT8_MAX
      else word_of_int (sint value))"

definition int16_to_int32 :: "16 word \<Rightarrow> 32 word" where
  "int16_to_int32 value = word_of_int (sint value)"

definition int16_to_int64 :: "16 word \<Rightarrow> 64 word" where
  "int16_to_int64 value = word_of_int (sint value)"

definition int16_to_uint8 :: "16 word \<Rightarrow> 8 word" where
  "int16_to_uint8 value = (if sint value < 0 then 0
      else if UINT8_MAX < sint value then word_of_int UINT8_MAX
      else word_of_int (sint value))"

definition int16_to_uint16 :: "16 word \<Rightarrow> 16 word" where
  "int16_to_uint16 value = (if sint value < 0 then 0
      else word_of_int (sint value))"

definition int16_to_uint32 :: "16 word \<Rightarrow> 32 word" where
  "int16_to_uint32 value = (if sint value < 0 then 0
      else word_of_int (sint value))"

definition int16_to_uint64 :: "16 word \<Rightarrow> 64 word" where
  "int16_to_uint64 value = (if sint value < 0 then 0
      else word_of_int (sint value))"

definition int16_to_float :: "16 word \<Rightarrow> dbl" where
  "int16_to_float value = int_to_float (sint value)"

definition int16_to_double :: "16 word \<Rightarrow> dbl" where
  "int16_to_double value = int_to_double (sint value)"

definition int32_to_bool :: "32 word \<Rightarrow> bool" where
  "int32_to_bool value \<longleftrightarrow> value \<noteq> 0"

definition int32_to_int8 :: "32 word \<Rightarrow> 8 word" where
  "int32_to_int8 value = (if sint value < INT8_MIN then word_of_int INT8_MIN
      else if INT8_MAX < sint value then word_of_int INT8_MAX
      else word_of_int (sint value))"

definition int32_to_int16 :: "32 word \<Rightarrow> 16 word" where
  "int32_to_int16 value = (if sint value < INT16_MIN then word_of_int INT16_MIN
      else if INT16_MAX < sint value then word_of_int INT16_MAX
      else word_of_int (sint value))"

definition int32_to_int64 :: "32 word \<Rightarrow> 64 word" where
  "int32_to_int64 value = word_of_int (sint value)"

definition int32_to_uint8 :: "32 word \<Rightarrow> 8 word" where
  "int32_to_uint8 value = (if sint value < 0 then 0
      else if UINT8_MAX < sint value then word_of_int UINT8_MAX
      else word_of_int (sint value))"

definition int32_to_uint16 :: "32 word \<Rightarrow> 16 word" where
  "int32_to_uint16 value = (if sint value < 0 then 0
      else if UINT16_MAX < sint value then word_of_int UINT16_MAX
      else word_of_int (sint value))"

definition int32_to_uint32 :: "32 word \<Rightarrow> 32 word" where
  "int32_to_uint32 value = (if sint value < 0 then 0
      else word_of_int (sint value))"

definition int32_to_uint64 :: "32 word \<Rightarrow> 64 word" where
  "int32_to_uint64 value = (if sint value < 0 then 0
      else word_of_int (sint value))"

definition int32_to_float :: "32 word \<Rightarrow> dbl" where
  "int32_to_float value = int_to_float (sint value)"

definition int32_to_double :: "32 word \<Rightarrow> dbl" where
  "int32_to_double value = int_to_double (sint value)"

definition int64_to_bool :: "64 word \<Rightarrow> bool" where
  "int64_to_bool value \<longleftrightarrow> value \<noteq> 0"

definition int64_to_int8 :: "64 word \<Rightarrow> 8 word" where
  "int64_to_int8 value = (if sint value < INT8_MIN then word_of_int INT8_MIN
      else if INT8_MAX < sint value then word_of_int INT8_MAX
      else word_of_int (sint value))"

definition int64_to_int16 :: "64 word \<Rightarrow> 16 word" where
  "int64_to_int16 value = (if sint value < INT16_MIN then word_of_int INT16_MIN
      else if INT16_MAX < sint value then word_of_int INT16_MAX
      else word_of_int (sint value))"

definition int64_to_int32 :: "64 word \<Rightarrow> 32 word" where
  "int64_to_int32 value = (if sint value < INT32_MIN then word_of_int INT32_MIN
      else if INT32_MAX < sint value then word_of_int INT32_MAX
      else word_of_int (sint value))"

definition int64_to_uint8 :: "64 word \<Rightarrow> 8 word" where
  "int64_to_uint8 value = (if sint value < 0 then 0
      else if UINT8_MAX < sint value then word_of_int UINT8_MAX
      else word_of_int (sint value))"

definition int64_to_uint16 :: "64 word \<Rightarrow> 16 word" where
  "int64_to_uint16 value = (if sint value < 0 then 0
      else if UINT16_MAX < sint value then word_of_int UINT16_MAX
      else word_of_int (sint value))"

definition int64_to_uint32 :: "64 word \<Rightarrow> 32 word" where
  "int64_to_uint32 value = (if sint value < 0 then 0
      else if UINT32_MAX < sint value then word_of_int UINT32_MAX
      else word_of_int (sint value))"

definition int64_to_uint64 :: "64 word \<Rightarrow> 64 word" where
  "int64_to_uint64 value = (if sint value < 0 then 0
      else word_of_int (sint value))"

definition int64_to_float :: "64 word \<Rightarrow> dbl" where
  "int64_to_float value = (if dbl_less (int_to_double (sint value)) (Finite True FLT_MAX) then Finite True FLT_MAX
      else if dbl_less (Finite False FLT_MAX) (int_to_double (sint value)) then Finite False FLT_MAX
      else int_to_float (sint value))"

definition int64_to_double :: "64 word \<Rightarrow> dbl" where
  "int64_to_double value = int_to_double (sint value)"

definition uint8_to_bool :: "8 word \<Rightarrow> bool" where
  "uint8_to_bool value \<longleftrightarrow> value \<noteq> 0"

definition uint8_to_int8 :: "8 word \<Rightarrow> 8 word" where
  "uint8_to_int8 value = (if INT8_MAX < uint value then word_of_int INT8_MAX
      else word_of_int (uint value))"

definition uint8_to_int16 :: "8 word \<Rightarrow> 16 word" where
  "uint8_to_int16 value = word_of_int (uint value)"

definition uint8_to_int32 :: "8 word \<Rightarrow> 32 word" where
  "uint8_to_int32 value = word_of_int (uint value)"

definition uint8_to_int64 :: "8 word \<Rightarrow> 64 word" where
  "uint8_to_int64 value = word_of_int (uint value)"

definition uint8_to_uint16 :: "8 word \<Rightarrow> 16 word" where
  "uint8_to_uint16 value = word_of_int (uint value)"

definition uint8_to_uint32 :: "8 word \<Rightarrow> 32 word" where
  "uint8_to_uint32 value = word_of_int (uint value)"

definition uint8_to_uint64 :: "8 word \<Rightarrow> 64 word" where
  "uint8_to_uint64 value = word_of_int (uint value)"

definition uint8_to_float :: "8 word \<Rightarrow> dbl" where
  "uint8_to_float value = int_to_float (uint value)"

definition uint8_to_double :: "8 word \<Rightarrow> dbl" where
  "uint8_to_double value = int_to_double (uint value)"

definition uint16_to_bool :: "16 word \<Rightarrow> bool" where
  "uint16_to_bool value \<longleftrightarrow> value \<noteq> 0"

definition uint16_to_int8 :: "16 word \<Rightarrow> 8 word" where
  "uint16_to_int8 value = (if INT8_MAX < uint value then word_of_int INT8_MAX
      else word_of_int (uint value))"

definition uint16_to_int16 :: "16 word \<Rightarrow> 16 word" where
  "uint16_to_int16 value = (if INT16_MAX < uint value then word_of_int INT16_MAX
      else word_of_int (uint value))"

definition uint16_to_int32 :: "16 word \<Rightarrow> 32 word" where
  "uint16_to_int32 value = word_of_int (uint value)"

definition uint16_to_int64 :: "16 word \<Rightarrow> 64 word" where
  "uint16_to_int64 value = word_of_int (uint value)"

definition uint16_to_uint8 :: "16 word \<Rightarrow> 8 word" where
  "uint16_to_uint8 value = (if UINT8_MAX < uint value then word_of_int UINT8_MAX
      else word_of_int (uint value))"

definition uint16_to_uint32 :: "16 word \<Rightarrow> 32 word" where
  "uint16_to_uint32 value = word_of_int (uint value)"

definition uint16_to_uint64 :: "16 word \<Rightarrow> 64 word" where
  "uint16_to_uint64 value = word_of_int (uint value)"

definition uint16_to_float :: "16 word \<Rightarrow> dbl" where
  "uint16_to_float value = int_to_float (uint value)"

definition uint16_to_double :: "16 word \<Rightarrow> dbl" where
  "uint16_to_double value = int_to_double (uint value)"

definition uint32_to_bool :: "32 word \<Rightarrow> bool" where
  "uint32_to_bool value \<longleftrightarrow> value \<noteq> 0"

definition uint32_to_int8 :: "32 word \<Rightarrow> 8 word" where
  "uint32_to_int8 value = (if INT8_MAX < uint value then word_of_int INT8_MAX
      else word_of_int (uint value))"

definition uint32_to_int16 :: "32 word \<Rightarrow> 16 word" where
  "uint32_to_int16 value = (if INT16_MAX < uint value then word_of_int INT16_MAX
      else word_of_int (uint value))"

definition uint32_to_int32 :: "32 word \<Rightarrow> 32 word" where
  "uint32_to_int32 value = (if INT32_MAX < uint value then word_of_int INT32_MAX
      else word_of_int (uint value))"

definition uint32_to_int64 :: "32 word \<Rightarrow> 64 word" where
  "uint32_to_int64 value = word_of_int (uint value)"

definition uint32_to_uint8 :: "32 word \<Rightarrow> 8 word" where
  "uint32_to_uint8 value = (if UINT8_MAX < uint value then word_of_int UINT8_MAX
      else word_of_int (uint value))"

definition uint32_to_uint16 :: "32 word \<Rightarrow> 16 word" where
  "uint32_to_uint16 value = (if UINT16_MAX < uint value then word_of_int UINT16_MAX
      else word_of_int (uint value))"

definition uint32_to_uint64 :: "32 word \<Rightarrow> 64 word" where
  "uint32_to_uint64 value = word_of_int (uint value)"

definition uint32_to_float :: "32 word \<Rightarrow> dbl" where
  "uint32_to_float value = int_to_float (uint value)"

definition uint32_to_double :: "32 word \<Rightarrow> dbl" where
  "uint32_to_double value = int_to_double (uint value)"

definition uint64_to_bool :: "64 word \<Rightarrow> bool" where
  "uint64_to_bool value \<longleftrightarrow> value \<noteq> 0"

definition uint64_to_int8 :: "64 word \<Rightarrow> 8 word" where
  "uint64_to_int8 value = (if INT8_MAX < uint value then word_of_int INT8_MAX
      else word_of_int (uint value))"

definition uint64_to_int16 :: "64 word \<Rightarrow> 16 word" where
  "uint64_to_int16 value = (if INT16_MAX < uint value then word_of_int INT16_MAX
      else word_of_int (uint value))"

definition uint64_to_int32 :: "64 word \<Rightarrow> 32 word" where
  "uint64_to_int32 value = (if INT32_MAX < uint value then word_of_int INT32_MAX
      else word_of_int (uint value))"

definition uint64_to_int64 :: "64 word \<Rightarrow> 64 word" where
  "uint64_to_int64 value = (if INT64_MAX < uint value then word_of_int INT64_MAX
      else word_of_int (uint value))"

definition uint64_to_uint8 :: "64 word \<Rightarrow> 8 word" where
  "uint64_to_uint8 value = (if UINT8_MAX < uint value then word_of_int UINT8_MAX
      else word_of_int (uint value))"

definition uint64_to_uint16 :: "64 word \<Rightarrow> 16 word" where
  "uint64_to_uint16 value = (if UINT16_MAX < uint value then word_of_int UINT16_MAX
      else word_of_int (uint value))"

definition uint64_to_uint32 :: "64 word \<Rightarrow> 32 word" where
  "uint64_to_uint32 value = (if UINT32_MAX < uint value then word_of_int UINT32_MAX
      else word_of_int (uint value))"

definition uint64_to_float :: "64 word \<Rightarrow> dbl" where
  "uint64_to_float value = int_to_float (uint value)"

definition uint64_to_double :: "64 word \<Rightarrow> dbl" where
  "uint64_to_double value = int_to_double (uint value)"

definition float_to_bool :: "dbl \<Rightarrow> bool" where
  "float_to_bool value \<longleftrightarrow> dbl_le EPSILON (dbl_abs value)"

definition float_to_int8 :: "dbl \<Rightarrow> 8 word option" where
  "float_to_int8 value = (if dbl_le value (int_to_double INT8_MIN) then Some (word_of_int INT8_MIN)
      else if dbl_le (int_to_double INT8_MAX) value then Some (word_of_int INT8_MAX)
      else dbl_to_word (- (2 ^ 7)) (2 ^ 7 - 1) value)"

definition float_to_int16 :: "dbl \<Rightarrow> 16 word option" where
  "float_to_int16 value = (if dbl_le value (int_to_double INT16_MIN) then Some (word_of_int INT16_MIN)
      else if dbl_le (int_to_double INT16_MAX) value then Some (word_of_int INT16_MAX)
      else dbl_to_word (- (2 ^ 15)) (2 ^ 15 - 1) value)"

definition float_to_int32 :: "dbl \<Rightarrow> 32 word option" where
  "float_to_int32 value = (if dbl_le value (int_to_double INT32_MIN) then Some (word_of_int INT32_MIN)
      else if dbl_le (int_to_double INT32_MAX) value then Some (word_of_int INT32_MAX)
      else dbl_to_word (- (2 ^ 31)) (2 ^ 31 - 1) value)"

definition float_to_int64 :: "dbl \<Rightarrow> 64 word option" where
  "float_to_int64 value = (if dbl_le value (int_to_double INT64_MIN) then Some (word_of_int INT64_MIN)
      else if dbl_le (int_to_double INT64_MAX) value then Some (word_of_int INT64_MAX)
      else dbl_to_word (- (2 ^ 63)) (2 ^ 63 - 1) value)"

definition float_to_uint8 :: "dbl \<Rightarrow> 8 word option" where
  "float_to_uint8 value = (if dbl_le value (Finite False 0) then Some 0
      else if dbl_le (int_to_double UINT8_MAX) value then Some (word_of_int UINT8_MAX)
      else dbl_to_word 0 (2 ^ 8 - 1) value)"

definition float_to_uint16 :: "dbl \<Rightarrow> 16 word option" where
  "float_to_uint16 value = (if dbl_le value (Finite False 0) then Some 0
      else if dbl_le (int_to_double UINT16_MAX) value then Some (word_of_int UINT16_MAX)
      else dbl_to_word 0 (2 ^ 16 - 1) value)"

definition float_to_uint32 :: "dbl \<Rightarrow> 32 word option" where
  "float_to_uint32 value = (if dbl_le value (Finite False 0) then Some 0
      else if dbl_le (int_to_double UINT32_MAX) value then Some (word_of_int UINT32_MAX)
      else dbl_to_word 0 (2 ^ 32 - 1) value)"

definition float_to_uint64 :: "dbl \<Rightarrow> 64 word option" where
  "float_to_uint64 value = (if dbl_le value (Finite False 0) then Some 0
      else if dbl_le (int_to_double UINT64_MAX) value then Some (word_of_int UINT64_MAX)
      else dbl_to_word 0 (2 ^ 64 - 1) value)"

definition float_to_double_cast :: "dbl \<Rightarrow> dbl" where
  "float_to_double_cast value = value"

definition double_to_bool :: "dbl \<Rightarrow> bool" where
  "double_to_bool value \<longleftrightarrow> dbl_le EPSILON (dbl_abs value)"

definition double_to_int8 :: "dbl \<Rightarrow> 8 word option" where
  "double_to_int8 value = (if dbl_le value (int_to_double INT8_MIN) then Some (word_of_int INT8_MIN)
      else if dbl_le (int_to_double INT8_MAX) value then Some (word_of_int INT8_MAX)
      else dbl_to_word (- (2 ^ 7)) (2 ^ 7 - 1) value)"

definition double_to_int16 :: "dbl \<Rightarrow> 16 word option" where
  "double_to_int16 value = (if dbl_le value (int_to_double INT16_MIN) then Some (word_of_int INT16_MIN)
      else if dbl_le (int_to_double INT16_MAX) value then Some (word_of_int INT16_MAX)
      else dbl_to_word (- (2 ^ 15)) (2 ^ 15 - 1) value)"

definition double_to_int32 :: "dbl \<Rightarrow> 32 word option" where
  "double_to_int32 value = (if dbl_le value (int_to_double INT32_MIN) then Some (word_of_int INT32_MIN)
      else if dbl_le (int_to_double INT32_MAX) value then Some (word_of_int INT32_MAX)
      else dbl_to_word (- (2 ^ 31)) (2 ^ 31 - 1) value)"

definition double_to_int64 :: "dbl \<Rightarrow> 64 word option" where
  "double_to_int64 value = (if dbl_le value (int_to_double INT64_MIN) then Some (word_of_int INT64_MIN)
      else if dbl_le (int_to_double INT64_MAX) value then Some (word_of_int INT64_MAX)
      else dbl_to_word (- (2 ^ 63)) (2 ^ 63 - 1) value)"

definition double_to_uint8 :: "dbl \<Rightarrow> 8 word option" where
  "double_to_uint8 value = (if dbl_le value (Finite False 0) then Some 0
      else if dbl_le (int_to_double UINT8_MAX) value then Some (word_of_int UINT8_MAX)
      else dbl_to_word 0 (2 ^ 8 - 1) value)"

definition double_to_uint16 :: "dbl \<Rightarrow> 16 word option" where
  "double_to_uint16 value = (if dbl_le value (Finite False 0) then Some 0
      else if dbl_le (int_to_double UINT16_MAX) value then Some (word_of_int UINT16_MAX)
      else dbl_to_word 0 (2 ^ 16 - 1) value)"

definition double_to_uint32 :: "dbl \<Rightarrow> 32 word option" where
  "double_to_uint32 value = (if dbl_le value (Finite False 0) then Some 0
      else if dbl_le (int_to_double UINT32_MAX) value then Some (word_of_int UINT32_MAX)
      else dbl_to_word 0 (2 ^ 32 - 1) value)"

definition double_to_uint64 :: "dbl \<Rightarrow> 64 word option" where
  "double_to_uint64 value = (if dbl_le value (Finite False 0) then Some 0
      else if dbl_le (int_to_double UINT64_MAX) value then Some (word_of_int UINT64_MAX)
      else dbl_to_word 0 (2 ^ 64 - 1) value)"

definition double_to_float_cast :: "dbl \<Rightarrow> dbl" where
  "double_to_float_cast value = (if dbl_le value (Finite True FLT_MAX) then Finite True FLT_MAX
      else if dbl_le (Finite False FLT_MAX) value then Finite False FLT_MAX
      else narrow_to_float value)"

lemmas int_cast_defs =
  int8_to_int16_def int8_to_int32_def int8_to_int64_def int8_to_uint8_def int8_to_uint16_def
  int8_to_uint32_def int8_to_uint64_def int16_to_int8_def int16_to_int32_def int16_to_int64_def
  int16_to_uint8_def int16_to_uint16_def int16_to_uint32_def int16_to_uint64_def int32_to_int8_def
  int32_to_int16_def int32_to_int64_def int32_to_uint8_def int32_to_uint16_def int32_to_uint32_def
  int32_to_uint64_def int64_to_int8_def int64_to_int16_def int64_to_int32_def int64_to_uint8_def
  int64_to_uint16_def int64_to_uint32_def int64_to_uint64_def uint8_to_int8_def uint8_to_int16_def
  uint8_to_int32_def uint8_to_int64_def uint8_to_uint16_def uint8_to_uint32_def uint8_to_uint64_def
  uint16_to_int8_def uint16_to_int16_def uint16_to_int32_def uint16_to_int64_def uint16_to_uint8_def
  uint16_to_uint32_def uint16_to_uint64_def uint32_to_int8_def uint32_to_int16_def uint32_to_int32_def
  uint32_to_int64_def uint32_to_uint8_def uint32_to_uint16_def uint32_to_uint64_def uint64_to_int8_def
  uint64_to_int16_def uint64_to_int32_def uint64_to_int64_def uint64_to_uint8_def uint64_to_uint16_def
  uint64_to_uint32_def

lemmas dbl_cast_defs =
  float_to_int8_def float_to_int16_def float_to_int32_def float_to_int64_def float_to_uint8_def
  float_to_uint16_def float_to_uint32_def float_to_uint64_def double_to_int8_def double_to_int16_def
  double_to_int32_def double_to_int64_def double_to_uint8_def double_to_uint16_def double_to_uint32_def
  double_to_uint64_def
section \<open>Saturation\<close>

text \<open>
  A conversion of words, whose values \<open>rs\<close> and \<open>rd\<close> read, gives the nearest value the target type has. A
  conversion of a \<open>double\<close> gives the nearest to its integral part, and nothing for a NaN.
\<close>

definition saturates :: "('a::len word \<Rightarrow> int) \<Rightarrow> ('b::len word \<Rightarrow> int) \<Rightarrow> int \<Rightarrow> int \<Rightarrow> ('a word \<Rightarrow> 'b word) \<Rightarrow> bool" where
  "saturates rs rd lo hi f \<longleftrightarrow> (\<forall>v. rd (f v) = max lo (min hi (rs v)))"

definition truncates :: "('b::len word \<Rightarrow> int) \<Rightarrow> int \<Rightarrow> int \<Rightarrow> (dbl \<Rightarrow> 'b word option) \<Rightarrow> bool" where
  "truncates rd lo hi f \<longleftrightarrow>
     (\<forall>d. case d of
        Finite s x \<Rightarrow> map_option rd (f d) = Some (max lo (min hi (trunc (dbl_value s x))))
      | Infinite s \<Rightarrow> map_option rd (f d) = Some (if s then lo else hi)
      | Not_a_number s \<Rightarrow> f d = None)"

lemma word_limits:
  "- 128 \<le> sint (v8 :: 8 word) \<and> sint v8 \<le> 127" "0 \<le> uint (v8 :: 8 word) \<and> uint v8 \<le> 255"
  "- 32768 \<le> sint (v16 :: 16 word) \<and> sint v16 \<le> 32767" "0 \<le> uint (v16 :: 16 word) \<and> uint v16 \<le> 65535"
  "- 2147483648 \<le> sint (v32 :: 32 word) \<and> sint v32 \<le> 2147483647"
  "0 \<le> uint (v32 :: 32 word) \<and> uint v32 \<le> 4294967295"
  "- 9223372036854775808 \<le> sint (v64 :: 64 word) \<and> sint v64 \<le> 9223372036854775807"
  "0 \<le> uint (v64 :: 64 word) \<and> uint v64 \<le> 18446744073709551615"
  using sint_ge [of v8] sint_lt [of v8] sint_ge [of v16] sint_lt [of v16] sint_ge [of v32] sint_lt [of v32]
    sint_ge [of v64] sint_lt [of v64] uint_bounded [of v8] uint_bounded [of v16] uint_bounded [of v32] uint_bounded [of v64]
  by simp_all

lemma value_kept:
  "- 128 \<le> i \<Longrightarrow> i \<le> 127 \<Longrightarrow> sint (word_of_int i :: 8 word) = i"
  "0 \<le> i \<Longrightarrow> i \<le> 255 \<Longrightarrow> uint (word_of_int i :: 8 word) = i"
  "- 32768 \<le> i \<Longrightarrow> i \<le> 32767 \<Longrightarrow> sint (word_of_int i :: 16 word) = i"
  "0 \<le> i \<Longrightarrow> i \<le> 65535 \<Longrightarrow> uint (word_of_int i :: 16 word) = i"
  "- 2147483648 \<le> i \<Longrightarrow> i \<le> 2147483647 \<Longrightarrow> sint (word_of_int i :: 32 word) = i"
  "0 \<le> i \<Longrightarrow> i \<le> 4294967295 \<Longrightarrow> uint (word_of_int i :: 32 word) = i"
  "- 9223372036854775808 \<le> i \<Longrightarrow> i \<le> 9223372036854775807 \<Longrightarrow> sint (word_of_int i :: 64 word) = i"
  "0 \<le> i \<Longrightarrow> i \<le> 18446744073709551615 \<Longrightarrow> uint (word_of_int i :: 64 word) = i"
  by (simp_all add: signed_of_int unsigned_of_int signed_take_bit_int_eq_self take_bit_int_eq_self)

lemma round_magnitude_nat:
  assumes "n < 2 ^ 53"
  shows "round_magnitude (of_nat n) = of_nat n"
proof (cases "n = 0")
  case False
  define k where "k = binade (of_nat n)"
  have k: "2 powi k \<le> (of_nat n :: rat)" "(of_nat n :: rat) < 2 powi (k + 1)"
    using binade_bounds [of "of_nat n"] False by (simp_all add: k_def)
  have "0 \<le> k"
  proof (rule ccontr)
    assume "\<not> 0 \<le> k"
    then have "(2 :: rat) powi (k + 1) \<le> 2 powi 0" by (intro power_int_increasing) simp_all
    moreover have "1 \<le> (of_nat n :: rat)" using False by simp
    ultimately show False using k(2) by simp
  qed
  moreover have "k \<le> 52"
  proof (rule ccontr)
    assume "\<not> k \<le> 52"
    then have "(2 :: rat) powi 53 \<le> 2 powi k" by (intro power_int_increasing) simp_all
    moreover have "(of_nat n :: rat) < of_nat (2 ^ 53)" using assms by (simp only: of_nat_less_iff)
    ultimately show False using k(1) by (simp add: power_int_def)
  qed
  moreover define j where "j = nat (52 - k)"
  ultimately have j: "k - 52 = - int j" and lo: "- 1022 \<le> k" by simp_all
  have scaled: "(of_nat n :: rat) / 2 powi (k - 52) = of_int (int n * 2 ^ j)" by (simp add: j power_int_minus divide_inverse)
  then have "round_magnitude (of_nat n) = of_int (int n * 2 ^ j) * 2 powi (k - 52)"
    by (intro round_magnitude_eval [OF k lo]) simp
  then show ?thesis by (simp add: j power_int_minus)
qed (simp add: round_magnitude_def)

lemma int_to_double_small:
  assumes "\<bar>i\<bar> < 2 ^ 53"
  shows "int_to_double i = Finite (i < 0) (of_int \<bar>i\<bar>)"
proof -
  have "nat \<bar>i\<bar> < 2 ^ 53" using assms by (simp add: nat_less_iff)
  from round_magnitude_nat [OF this] show ?thesis by (simp add: int_to_double_def)
qed

text \<open>The limits of the 64-bit types; the upper ones are rounded up.\<close>

lemma int_to_double_64:
  "int_to_double (- 9223372036854775808) = Finite True 9223372036854775808"
  "int_to_double 9223372036854775807 = Finite False 9223372036854775808"
  "int_to_double 18446744073709551615 = Finite False 18446744073709551616"
proof -
  have "round_magnitude 9223372036854775808 = of_int (2 ^ 52) * 2 powi (63 - 52)"
    by (rule round_magnitude_eval) (simp_all add: power_int_def)
  then show "int_to_double (- 9223372036854775808) = Finite True 9223372036854775808"
    by (simp add: int_to_double_def power_int_def)
  have "round_magnitude 9223372036854775807 = of_int (2 ^ 53) * 2 powi (62 - 52)"
    by (rule round_magnitude_eval) (simp_all add: power_int_def)
  then show "int_to_double 9223372036854775807 = Finite False 9223372036854775808"
    by (simp add: int_to_double_def power_int_def)
  have "round_magnitude 18446744073709551615 = of_int (2 ^ 53) * 2 powi (63 - 52)"
    by (rule round_magnitude_eval) (simp_all add: power_int_def)
  then show "int_to_double 18446744073709551615 = Finite False 18446744073709551616"
    by (simp add: int_to_double_def power_int_def)
qed

text \<open>A guarded conversion: the limit is exact below and exact or rounded up by less than one above.\<close>

lemma trunc_bounds:
  "x \<le> of_int lo \<Longrightarrow> lo \<le> 0 \<Longrightarrow> trunc x \<le> lo" "of_int lo < x \<Longrightarrow> lo \<le> 0 \<Longrightarrow> lo \<le> trunc x"
  "of_int hi \<le> x \<Longrightarrow> 0 \<le> hi \<Longrightarrow> hi \<le> trunc x" "x < of_int hi + 1 \<Longrightarrow> 0 \<le> hi \<Longrightarrow> trunc x \<le> hi"
  unfolding trunc_def by (auto split: if_splits simp: le_floor_iff floor_less_iff) linarith+

lemma guarded_truncates:
  assumes f: "\<And>d. f d = (if dbl_le d (Finite neg l) then Some (word_of_int lo)
      else if dbl_le (Finite False h) d then Some (word_of_int hi) else dbl_to_word lo hi d)"
    and lo: "dbl_value neg l = of_int lo" "lo \<le> 0"
    and hi: "of_int hi \<le> h" "h \<le> of_int hi + 1" "0 \<le> hi"
    and kept: "\<And>i. lo \<le> i \<Longrightarrow> i \<le> hi \<Longrightarrow> rd (word_of_int i) = i"
  shows "truncates rd lo hi f"
proof -
  have k: "rd (word_of_int lo) = lo" "rd (word_of_int hi) = hi" using kept lo(2) hi(3) by simp_all
  have "map_option rd (f (Finite s x)) = Some (max lo (min hi (trunc (dbl_value s x))))" for s x
  proof -
    let ?v = "dbl_value s x"
    have h: "dbl_value False h = h" by (simp add: dbl_value_def)
    consider "?v \<le> of_int lo" | "of_int lo < ?v" "h \<le> ?v" | "of_int lo < ?v" "?v < h" by linarith
    then show ?thesis
    proof cases
      case 1
      with trunc_bounds(1) [OF 1 lo(2)] show ?thesis using lo(2) hi(3) by (simp add: f lo(1) k)
    next
      case 2
      then have "hi \<le> trunc ?v" using hi by (intro trunc_bounds) linarith+
      with 2 show ?thesis using lo(2) hi(3) by (simp add: f lo(1) h k)
    next
      case 3
      then have "lo \<le> trunc ?v" "trunc ?v \<le> hi" using lo hi by (intro trunc_bounds; linarith)+
      with 3 show ?thesis by (simp add: f lo(1) h kept Let_def)
    qed
  qed
  then show ?thesis using lo(2) hi(3) by (auto simp: truncates_def f k split: dbl.split)
qed

lemma limits_weak:
  "i \<le> - 128 \<Longrightarrow> i \<le> sint (v8 :: 8 word)" "127 \<le> i \<Longrightarrow> sint v8 \<le> i"
  "i \<le> 0 \<Longrightarrow> i \<le> uint (v8 :: 8 word)" "255 \<le> i \<Longrightarrow> uint v8 \<le> i"
  "i \<le> - 32768 \<Longrightarrow> i \<le> sint (v16 :: 16 word)" "32767 \<le> i \<Longrightarrow> sint v16 \<le> i"
  "i \<le> 0 \<Longrightarrow> i \<le> uint (v16 :: 16 word)" "65535 \<le> i \<Longrightarrow> uint v16 \<le> i"
  "i \<le> - 2147483648 \<Longrightarrow> i \<le> sint (v32 :: 32 word)" "2147483647 \<le> i \<Longrightarrow> sint v32 \<le> i"
  "i \<le> 0 \<Longrightarrow> i \<le> uint (v32 :: 32 word)" "4294967295 \<le> i \<Longrightarrow> uint v32 \<le> i"
  "i \<le> - 9223372036854775808 \<Longrightarrow> i \<le> sint (v64 :: 64 word)" "9223372036854775807 \<le> i \<Longrightarrow> sint v64 \<le> i"
  "i \<le> 0 \<Longrightarrow> i \<le> uint (v64 :: 64 word)" "18446744073709551615 \<le> i \<Longrightarrow> uint v64 \<le> i"
  using word_limits(1,2) [of v8] word_limits(3,4) [of v16] word_limits(5,6) [of v32] word_limits(7,8) [of v64] by linarith+

lemma int_saturates:
  assumes "\<And>v. f v = word_of_int (max lo (min hi (rs v)))" and "lo \<le> hi"
    and "\<And>i. lo \<le> i \<Longrightarrow> i \<le> hi \<Longrightarrow> rd (word_of_int i) = i"
  shows "saturates rs rd lo hi f"
  using assms(2) by (simp add: saturates_def assms(1,3))

lemma int_casts_saturate:
  "saturates sint sint INT16_MIN INT16_MAX int8_to_int16
    \<and> saturates sint sint INT32_MIN INT32_MAX int8_to_int32
    \<and> saturates sint sint INT64_MIN INT64_MAX int8_to_int64
    \<and> saturates sint uint 0 UINT8_MAX int8_to_uint8
    \<and> saturates sint uint 0 UINT16_MAX int8_to_uint16
    \<and> saturates sint uint 0 UINT32_MAX int8_to_uint32
    \<and> saturates sint uint 0 UINT64_MAX int8_to_uint64
    \<and> saturates sint sint INT8_MIN INT8_MAX int16_to_int8
    \<and> saturates sint sint INT32_MIN INT32_MAX int16_to_int32
    \<and> saturates sint sint INT64_MIN INT64_MAX int16_to_int64
    \<and> saturates sint uint 0 UINT8_MAX int16_to_uint8
    \<and> saturates sint uint 0 UINT16_MAX int16_to_uint16
    \<and> saturates sint uint 0 UINT32_MAX int16_to_uint32
    \<and> saturates sint uint 0 UINT64_MAX int16_to_uint64
    \<and> saturates sint sint INT8_MIN INT8_MAX int32_to_int8
    \<and> saturates sint sint INT16_MIN INT16_MAX int32_to_int16
    \<and> saturates sint sint INT64_MIN INT64_MAX int32_to_int64
    \<and> saturates sint uint 0 UINT8_MAX int32_to_uint8
    \<and> saturates sint uint 0 UINT16_MAX int32_to_uint16
    \<and> saturates sint uint 0 UINT32_MAX int32_to_uint32
    \<and> saturates sint uint 0 UINT64_MAX int32_to_uint64
    \<and> saturates sint sint INT8_MIN INT8_MAX int64_to_int8
    \<and> saturates sint sint INT16_MIN INT16_MAX int64_to_int16
    \<and> saturates sint sint INT32_MIN INT32_MAX int64_to_int32
    \<and> saturates sint uint 0 UINT8_MAX int64_to_uint8
    \<and> saturates sint uint 0 UINT16_MAX int64_to_uint16
    \<and> saturates sint uint 0 UINT32_MAX int64_to_uint32
    \<and> saturates sint uint 0 UINT64_MAX int64_to_uint64
    \<and> saturates uint sint INT8_MIN INT8_MAX uint8_to_int8
    \<and> saturates uint sint INT16_MIN INT16_MAX uint8_to_int16
    \<and> saturates uint sint INT32_MIN INT32_MAX uint8_to_int32
    \<and> saturates uint sint INT64_MIN INT64_MAX uint8_to_int64
    \<and> saturates uint uint 0 UINT16_MAX uint8_to_uint16
    \<and> saturates uint uint 0 UINT32_MAX uint8_to_uint32
    \<and> saturates uint uint 0 UINT64_MAX uint8_to_uint64
    \<and> saturates uint sint INT8_MIN INT8_MAX uint16_to_int8
    \<and> saturates uint sint INT16_MIN INT16_MAX uint16_to_int16
    \<and> saturates uint sint INT32_MIN INT32_MAX uint16_to_int32
    \<and> saturates uint sint INT64_MIN INT64_MAX uint16_to_int64
    \<and> saturates uint uint 0 UINT8_MAX uint16_to_uint8
    \<and> saturates uint uint 0 UINT32_MAX uint16_to_uint32
    \<and> saturates uint uint 0 UINT64_MAX uint16_to_uint64
    \<and> saturates uint sint INT8_MIN INT8_MAX uint32_to_int8
    \<and> saturates uint sint INT16_MIN INT16_MAX uint32_to_int16
    \<and> saturates uint sint INT32_MIN INT32_MAX uint32_to_int32
    \<and> saturates uint sint INT64_MIN INT64_MAX uint32_to_int64
    \<and> saturates uint uint 0 UINT8_MAX uint32_to_uint8
    \<and> saturates uint uint 0 UINT16_MAX uint32_to_uint16
    \<and> saturates uint uint 0 UINT64_MAX uint32_to_uint64
    \<and> saturates uint sint INT8_MIN INT8_MAX uint64_to_int8
    \<and> saturates uint sint INT16_MIN INT16_MAX uint64_to_int16
    \<and> saturates uint sint INT32_MIN INT32_MAX uint64_to_int32
    \<and> saturates uint sint INT64_MIN INT64_MAX uint64_to_int64
    \<and> saturates uint uint 0 UINT8_MAX uint64_to_uint8
    \<and> saturates uint uint 0 UINT16_MAX uint64_to_uint16
    \<and> saturates uint uint 0 UINT32_MAX uint64_to_uint32"
  by (intro conjI; rule int_saturates;
    auto simp: int_cast_defs limits_weak value_kept min_absorb1 min_absorb2 max_absorb1 max_absorb2 not_less)

definition double_limits :: "int \<Rightarrow> int \<Rightarrow> bool" where
  "double_limits lo hi \<longleftrightarrow>
     (\<exists>neg l h. int_to_double lo = Finite neg l \<and> dbl_value neg l = of_int lo \<and> lo \<le> 0
        \<and> int_to_double hi = Finite False h \<and> of_int hi \<le> h \<and> h \<le> of_int hi + 1 \<and> 0 \<le> hi)"

lemma double_limits_types:
  "double_limits INT8_MIN INT8_MAX" "double_limits INT16_MIN INT16_MAX" "double_limits INT32_MIN INT32_MAX"
  "double_limits INT64_MIN INT64_MAX" "double_limits 0 UINT8_MAX" "double_limits 0 UINT16_MAX"
  "double_limits 0 UINT32_MAX" "double_limits 0 UINT64_MAX"
  by (auto simp: double_limits_def int_to_double_small int_to_double_64 dbl_value_def)

lemma double_truncates:
  assumes "\<And>d. f d = (if dbl_le d (int_to_double lo) then Some (word_of_int lo)
      else if dbl_le (int_to_double hi) d then Some (word_of_int hi) else dbl_to_word lo hi d)"
    and "double_limits lo hi" and "\<And>i. lo \<le> i \<Longrightarrow> i \<le> hi \<Longrightarrow> rd (word_of_int i) = i"
  shows "truncates rd lo hi f"
proof -
  obtain neg l h where "int_to_double lo = Finite neg l" "dbl_value neg l = of_int lo" "lo \<le> 0"
      "int_to_double hi = Finite False h" "of_int hi \<le> h" "h \<le> of_int hi + 1" "0 \<le> hi"
    using assms(2) by (auto simp: double_limits_def)
  then show ?thesis using assms(1,3) by (intro guarded_truncates) simp_all
qed

lemma dbl_casts_truncate:
  "truncates sint INT8_MIN INT8_MAX float_to_int8
    \<and> truncates sint INT16_MIN INT16_MAX float_to_int16
    \<and> truncates sint INT32_MIN INT32_MAX float_to_int32
    \<and> truncates sint INT64_MIN INT64_MAX float_to_int64
    \<and> truncates uint 0 UINT8_MAX float_to_uint8
    \<and> truncates uint 0 UINT16_MAX float_to_uint16
    \<and> truncates uint 0 UINT32_MAX float_to_uint32
    \<and> truncates uint 0 UINT64_MAX float_to_uint64
    \<and> truncates sint INT8_MIN INT8_MAX double_to_int8
    \<and> truncates sint INT16_MIN INT16_MAX double_to_int16
    \<and> truncates sint INT32_MIN INT32_MAX double_to_int32
    \<and> truncates sint INT64_MIN INT64_MAX double_to_int64
    \<and> truncates uint 0 UINT8_MAX double_to_uint8
    \<and> truncates uint 0 UINT16_MAX double_to_uint16
    \<and> truncates uint 0 UINT32_MAX double_to_uint32
    \<and> truncates uint 0 UINT64_MAX double_to_uint64"
proof -
  have zero: "Finite False 0 = int_to_double 0" by (simp add: int_to_double_small)
  show ?thesis
    by (intro conjI; rule double_truncates; (rule double_limits_types)?;
      simp add: dbl_cast_defs zero value_kept)
qed

text \<open>
  C26 (bounds). No conversion between integers or from a floating-point value to an integer wraps around: each of the
  56 conversions between the eight integer types gives the value of the target type that is nearest to the argument,
  and each of the 16 conversions from \<open>float\<close> and \<open>double\<close> gives the one nearest to the integral part of the argument,
  the greatest or smallest for an infinity. Only a NaN is converted by an undefined cast.
\<close>

theorem casts_saturate:
  "saturates sint sint INT16_MIN INT16_MAX int8_to_int16
    \<and> saturates sint sint INT32_MIN INT32_MAX int8_to_int32
    \<and> saturates sint sint INT64_MIN INT64_MAX int8_to_int64
    \<and> saturates sint uint 0 UINT8_MAX int8_to_uint8
    \<and> saturates sint uint 0 UINT16_MAX int8_to_uint16
    \<and> saturates sint uint 0 UINT32_MAX int8_to_uint32
    \<and> saturates sint uint 0 UINT64_MAX int8_to_uint64
    \<and> saturates sint sint INT8_MIN INT8_MAX int16_to_int8
    \<and> saturates sint sint INT32_MIN INT32_MAX int16_to_int32
    \<and> saturates sint sint INT64_MIN INT64_MAX int16_to_int64
    \<and> saturates sint uint 0 UINT8_MAX int16_to_uint8
    \<and> saturates sint uint 0 UINT16_MAX int16_to_uint16
    \<and> saturates sint uint 0 UINT32_MAX int16_to_uint32
    \<and> saturates sint uint 0 UINT64_MAX int16_to_uint64
    \<and> saturates sint sint INT8_MIN INT8_MAX int32_to_int8
    \<and> saturates sint sint INT16_MIN INT16_MAX int32_to_int16
    \<and> saturates sint sint INT64_MIN INT64_MAX int32_to_int64
    \<and> saturates sint uint 0 UINT8_MAX int32_to_uint8
    \<and> saturates sint uint 0 UINT16_MAX int32_to_uint16
    \<and> saturates sint uint 0 UINT32_MAX int32_to_uint32
    \<and> saturates sint uint 0 UINT64_MAX int32_to_uint64
    \<and> saturates sint sint INT8_MIN INT8_MAX int64_to_int8
    \<and> saturates sint sint INT16_MIN INT16_MAX int64_to_int16
    \<and> saturates sint sint INT32_MIN INT32_MAX int64_to_int32
    \<and> saturates sint uint 0 UINT8_MAX int64_to_uint8
    \<and> saturates sint uint 0 UINT16_MAX int64_to_uint16
    \<and> saturates sint uint 0 UINT32_MAX int64_to_uint32
    \<and> saturates sint uint 0 UINT64_MAX int64_to_uint64
    \<and> saturates uint sint INT8_MIN INT8_MAX uint8_to_int8
    \<and> saturates uint sint INT16_MIN INT16_MAX uint8_to_int16
    \<and> saturates uint sint INT32_MIN INT32_MAX uint8_to_int32
    \<and> saturates uint sint INT64_MIN INT64_MAX uint8_to_int64
    \<and> saturates uint uint 0 UINT16_MAX uint8_to_uint16
    \<and> saturates uint uint 0 UINT32_MAX uint8_to_uint32
    \<and> saturates uint uint 0 UINT64_MAX uint8_to_uint64
    \<and> saturates uint sint INT8_MIN INT8_MAX uint16_to_int8
    \<and> saturates uint sint INT16_MIN INT16_MAX uint16_to_int16
    \<and> saturates uint sint INT32_MIN INT32_MAX uint16_to_int32
    \<and> saturates uint sint INT64_MIN INT64_MAX uint16_to_int64
    \<and> saturates uint uint 0 UINT8_MAX uint16_to_uint8
    \<and> saturates uint uint 0 UINT32_MAX uint16_to_uint32
    \<and> saturates uint uint 0 UINT64_MAX uint16_to_uint64
    \<and> saturates uint sint INT8_MIN INT8_MAX uint32_to_int8
    \<and> saturates uint sint INT16_MIN INT16_MAX uint32_to_int16
    \<and> saturates uint sint INT32_MIN INT32_MAX uint32_to_int32
    \<and> saturates uint sint INT64_MIN INT64_MAX uint32_to_int64
    \<and> saturates uint uint 0 UINT8_MAX uint32_to_uint8
    \<and> saturates uint uint 0 UINT16_MAX uint32_to_uint16
    \<and> saturates uint uint 0 UINT64_MAX uint32_to_uint64
    \<and> saturates uint sint INT8_MIN INT8_MAX uint64_to_int8
    \<and> saturates uint sint INT16_MIN INT16_MAX uint64_to_int16
    \<and> saturates uint sint INT32_MIN INT32_MAX uint64_to_int32
    \<and> saturates uint sint INT64_MIN INT64_MAX uint64_to_int64
    \<and> saturates uint uint 0 UINT8_MAX uint64_to_uint8
    \<and> saturates uint uint 0 UINT16_MAX uint64_to_uint16
    \<and> saturates uint uint 0 UINT32_MAX uint64_to_uint32
    \<and> truncates sint INT8_MIN INT8_MAX float_to_int8
    \<and> truncates sint INT16_MIN INT16_MAX float_to_int16
    \<and> truncates sint INT32_MIN INT32_MAX float_to_int32
    \<and> truncates sint INT64_MIN INT64_MAX float_to_int64
    \<and> truncates uint 0 UINT8_MAX float_to_uint8
    \<and> truncates uint 0 UINT16_MAX float_to_uint16
    \<and> truncates uint 0 UINT32_MAX float_to_uint32
    \<and> truncates uint 0 UINT64_MAX float_to_uint64
    \<and> truncates sint INT8_MIN INT8_MAX double_to_int8
    \<and> truncates sint INT16_MIN INT16_MAX double_to_int16
    \<and> truncates sint INT32_MIN INT32_MAX double_to_int32
    \<and> truncates sint INT64_MIN INT64_MAX double_to_int64
    \<and> truncates uint 0 UINT8_MAX double_to_uint8
    \<and> truncates uint 0 UINT16_MAX double_to_uint16
    \<and> truncates uint 0 UINT32_MAX double_to_uint32
    \<and> truncates uint 0 UINT64_MAX double_to_uint64"
  by (simp only: int_casts_saturate dbl_casts_truncate simp_thms)

end
