(* ===== verification/Nmea_Coordinates.thy ===== *)
theory Nmea_Coordinates
  imports Nmea_Fields Ini_Values
begin

text \<open>
  The floating-point fields of a sentence: reading them (\<open>internal/field_parser.h\<close>, over \<open>strtod\<close>) and
  writing them (\<open>generator/nmea_formatter.cpp\<close>, over \<open>snprintf\<close> with the conversion \<open>f\<close>). Coordinates
  travel as degrees and minutes in one number, so the two directions are proved inverse up to the
  last printed digit and the roundings on the way.
\<close>

section \<open>Arithmetic of the type \<open>double\<close>\<close>

definition dbl_signed :: "bool \<Rightarrow> rat \<Rightarrow> dbl" where
  "dbl_signed neg x =
     (let r = round_magnitude x in if r \<ge> 2 ^ 1024 then Infinite neg else Finite neg r)"

fun dbl_neg :: "dbl \<Rightarrow> dbl" where
  "dbl_neg (Finite s x) = Finite (\<not> s) x"
| "dbl_neg (Infinite s) = Infinite (\<not> s)"
| "dbl_neg (Not_a_number s) = Not_a_number (\<not> s)"

fun dbl_add :: "dbl \<Rightarrow> dbl \<Rightarrow> dbl" where
  "dbl_add (Not_a_number s) e = Not_a_number s"
| "dbl_add d (Not_a_number t) = Not_a_number t"
| "dbl_add d e = dbl_sub d (dbl_neg e)"

fun dbl_mul :: "dbl \<Rightarrow> dbl \<Rightarrow> dbl" where
  "dbl_mul (Finite s x) (Finite t y) = dbl_signed (s \<noteq> t) (x * y)"
| "dbl_mul (Not_a_number s) e = Not_a_number s"
| "dbl_mul d (Not_a_number t) = Not_a_number t"
| "dbl_mul (Infinite s) (Infinite t) = Infinite (s \<noteq> t)"
| "dbl_mul (Infinite s) (Finite t y) = (if y = 0 then Not_a_number True else Infinite (s \<noteq> t))"
| "dbl_mul (Finite s x) (Infinite t) = (if x = 0 then Not_a_number True else Infinite (s \<noteq> t))"

fun dbl_div :: "dbl \<Rightarrow> dbl \<Rightarrow> dbl" where
  "dbl_div (Finite s x) (Finite t y) =
     (if y = 0 then if x = 0 then Not_a_number True else Infinite (s \<noteq> t)
      else dbl_signed (s \<noteq> t) (x / y))"
| "dbl_div (Not_a_number s) e = Not_a_number s"
| "dbl_div d (Not_a_number t) = Not_a_number t"
| "dbl_div (Infinite s) (Infinite t) = Not_a_number True"
| "dbl_div (Infinite s) (Finite t y) = Infinite (s \<noteq> t)"
| "dbl_div (Finite s x) (Infinite t) = Finite (s \<noteq> t) 0"

text \<open>\<open>std::floor\<close>; an integer of a \<open>double\<close>'s magnitude needs no rounding.\<close>

fun dbl_floor :: "dbl \<Rightarrow> dbl" where
  "dbl_floor (Finite s x) = (let f = \<lfloor>dbl_value s x\<rfloor> in if f = 0 then Finite s 0 else Finite (f < 0) (of_int \<bar>f\<bar>))"
| "dbl_floor d = d"

text \<open>A constant, and a value known as the rational it denotes.\<close>

definition dbl_const :: "rat \<Rightarrow> dbl" where
  "dbl_const x = dbl_signed (x < 0) \<bar>x\<bar>"

definition dbl_of :: "rat \<Rightarrow> dbl" where
  "dbl_of x = Finite (x < 0) \<bar>x\<bar>"

definition dbl_less :: "dbl \<Rightarrow> dbl \<Rightarrow> bool" where
  "dbl_less d e \<longleftrightarrow> dbl_le d e \<and> \<not> dbl_eq d e"

section \<open>Field parsing\<close>

text \<open>\<open>parse_double\<close> ignores \<open>errno\<close>: what is out of range is an infinity or the rounded small value.\<close>

definition parse_double :: "string \<Rightarrow> dbl option" where
  "parse_double s =
     (if s = [] then None
      else case strtod s of
        None \<Rightarrow> None
      | Some (Inr d, r) \<Rightarrow> Some d
      | Some (Inl e, r) \<Rightarrow>
          (let (neg, t) = scan_sign (dropWhile is_space s)
           in map_option (\<lambda>(x, r). dbl_signed neg x) (scan_float t)))"

definition parse_latlon :: "string \<Rightarrow> string \<Rightarrow> dbl option" where
  "parse_latlon value dir =
     (if value = [] then None
      else case parse_double value of
        None \<Rightarrow> None
      | Some raw_value \<Rightarrow>
          let degrees = dbl_floor (dbl_div raw_value (dbl_const 100));
              minutes = dbl_sub raw_value (dbl_mul degrees (dbl_const 100));
              out = dbl_add degrees (dbl_div minutes (dbl_const 60))
          in Some (if dir \<noteq> [] \<and> (let d = dir ! 0 in d = CHR ''S'' \<or> d = CHR ''s'' \<or> d = CHR ''W'' \<or> d = CHR ''w'')
                   then dbl_neg out else out))"

definition parse_utc_time :: "string \<Rightarrow> dbl option" where
  "parse_utc_time s = parse_double s"

section \<open>Field formatting\<close>

text \<open>\<open>%.pf\<close>, and \<open>%0w.pf\<close>, whose zeros pad a number but not an infinity or a NaN.\<close>

definition dbl_fixed :: "nat \<Rightarrow> dbl \<Rightarrow> string" where
  "dbl_fixed p d =
     (case d of
        Finite neg x \<Rightarrow> sign_text neg @ print_fixed p x
      | Infinite neg \<Rightarrow> sign_text neg @ ''inf''
      | Not_a_number neg \<Rightarrow> sign_text neg @ ''nan'')"

definition dbl_padded :: "nat \<Rightarrow> nat \<Rightarrow> dbl \<Rightarrow> string" where
  "dbl_padded w p d =
     (let s = dbl_fixed p d
      in case d of
           Finite neg x \<Rightarrow> sign_text neg @ replicate (w - length s) CHR ''0'' @ print_fixed p x
         | Infinite neg \<Rightarrow> replicate (w - length s) CHR '' '' @ s
         | Not_a_number neg \<Rightarrow> replicate (w - length s) CHR '' '' @ s)"

text \<open>
  The degrees in at least \<open>w\<close> digits and the minutes after them, in a buffer that keeps 31 characters. The
  configured number of decimals is taken to be non-negative; no other makes a valid format.
\<close>

definition format_degrees :: "nat \<Rightarrow> int \<Rightarrow> dbl \<Rightarrow> string" where
  "format_degrees w latlon_decimals angle =
     (let abs_deg = dbl_abs angle;
          degrees = dbl_floor abs_deg;
          minutes = dbl_mul (dbl_sub abs_deg degrees) (dbl_const 60)
      in take 31 (dbl_padded w 0 degrees @ dbl_padded (nat (latlon_decimals + 3)) (nat latlon_decimals) minutes))"

definition format_latitude :: "int \<Rightarrow> dbl \<Rightarrow> string" where
  "format_latitude latlon_decimals latitude_deg = format_degrees 2 latlon_decimals latitude_deg"

definition ns_indicator :: "dbl \<Rightarrow> char" where
  "ns_indicator latitude_deg = (if dbl_le (dbl_const 0) latitude_deg then CHR ''N'' else CHR ''S'')"

definition format_longitude :: "int \<Rightarrow> dbl \<Rightarrow> string" where
  "format_longitude latlon_decimals longitude_deg = format_degrees 3 latlon_decimals longitude_deg"

definition ew_indicator :: "dbl \<Rightarrow> char" where
  "ew_indicator longitude_deg = (if dbl_le (dbl_const 0) longitude_deg then CHR ''E'' else CHR ''W'')"

definition format_double :: "dbl \<Rightarrow> int \<Rightarrow> string" where
  "format_double value precision = take 63 (dbl_fixed (nat precision) value)"

section \<open>The error of one rounding\<close>

lemma round_magnitude_error:
  assumes "0 \<le> x"
  shows "\<bar>round_magnitude x - x\<bar> \<le> x / 2 ^ 53 + 2 powi (- 1075)"
proof (cases "x = 0")
  case False
  define e where "e = max (binade x - 52) (- 1074)"
  let ?y = "x / 2 powi e"
  have "round_magnitude x - x = (of_int (round_half_even ?y) - ?y) * 2 powi e"
    using False by (simp add: round_magnitude_def Let_def left_diff_distrib e_def)
  then have "\<bar>round_magnitude x - x\<bar> \<le> 1 / 2 * 2 powi e"
    using round_half_even_near [of ?y] by (simp add: abs_mult)
  also have "1 / 2 * 2 powi e = (2 :: rat) powi (e - 1)" by (simp add: powi_Suc2)
  also have "\<dots> \<le> x / 2 ^ 53 + 2 powi (- 1075)"
  proof (cases "e = - 1074")
    case True
    then show ?thesis using assms by simp
  next
    case False
    then have "binade x = (e - 1) + int 53" by (simp add: e_def)
    then have "(2 :: rat) powi binade x = 2 powi (e - 1) * 2 ^ 53" by (simp only: powi_add2 power_int_of_nat)
    then have "(2 :: rat) powi (e - 1) = 2 powi binade x / 2 ^ 53" by simp
    also have "\<dots> \<le> x / 2 ^ 53"
      using binade_bounds [OF \<open>x \<noteq> 0\<close>] assms by (simp add: divide_right_mono)
    finally show ?thesis by (meson add_increasing2 less_imp_le powi_pos2)
  qed
  finally show ?thesis .
qed (simp add: round_magnitude_def)

lemma round_magnitude_near:
  assumes "0 \<le> x" and "x \<le> b" and "1 \<le> b"
  shows "\<bar>round_magnitude x - x\<bar> \<le> b / 1000000000000000"
proof -
  have "(2 :: rat) powi (- 1075) \<le> 2 powi (- 53)" by (rule power_int_increasing) simp_all
  also have "\<dots> = 1 / 2 ^ 53" by (simp add: power_int_minus field_simps)
  also have "\<dots> \<le> b / 2 ^ 53" using assms(3) by (simp add: divide_right_mono)
  finally have "(2 :: rat) powi (- 1075) \<le> b / 2 ^ 53" .
  moreover have "x / 2 ^ 53 \<le> b / 2 ^ 53" using assms(2) by (simp add: divide_right_mono)
  ultimately have "\<bar>round_magnitude x - x\<bar> \<le> b / 2 ^ 53 + b / 2 ^ 53"
    using round_magnitude_error [OF assms(1)] by linarith
  also have "\<dots> \<le> b / 1000000000000000" using assms(3) by simp
  finally show ?thesis .
qed

lemma round_half_even_nonneg: "0 \<le> x \<Longrightarrow> 0 \<le> round_half_even x"
  by (simp add: round_half_even_def Let_def)

lemma round_magnitude_nonneg: "0 \<le> x \<Longrightarrow> 0 \<le> round_magnitude x"
  by (simp add: round_magnitude_def Let_def round_half_even_nonneg)

lemma round_magnitude_whole:
  assumes "n < 2 ^ 53"
  shows "round_magnitude (of_nat n) = of_nat n"
proof (cases "n = 0")
  case False
  have "binade (of_nat n) \<ge> 0"
  proof (rule ccontr)
    assume "\<not> binade (of_nat n) \<ge> 0"
    then have "(2 :: rat) powi (binade (of_nat n) + 1) \<le> 2 powi 0" by (intro power_int_increasing) simp_all
    with binade_bounds [of "of_nat n"] False show False by simp
  qed
  then have "max (binade (of_nat n) - 52) (- 1074) = binade (of_nat n) - int 53 + 1" by simp
  then have "round_magnitude (of_nat n) = round_prec 53 (of_nat n)"
    using False by (simp add: round_magnitude_def round_prec_def Let_def)
  moreover have "fits 53 (of_int (int n))" using assms by (intro fits_int) simp
  ultimately show ?thesis using round_prec_exact [of 53 "of_nat n"] by simp
qed (simp add: round_magnitude_def)

lemma dbl_signed_finite:
  assumes "0 \<le> x" and "x \<le> 2 ^ 1000"
  shows "dbl_signed neg x = Finite neg (round_magnitude x)"
proof -
  have "\<bar>round_magnitude x - x\<bar> \<le> 2 ^ 1000 / 1000000000000000"
    by (rule round_magnitude_near [OF assms]) simp
  then have "round_magnitude x \<le> 2 ^ 1000 + 2 ^ 1000 / 1000000000000000" using assms(2) by linarith
  also have "\<dots> < 2 ^ 1024" by simp
  finally show ?thesis by (simp add: dbl_signed_def)
qed

lemma dbl_const_numeral [simp]: "dbl_const 100 = Finite False 100" "dbl_const 60 = Finite False 60"
    "dbl_const 0 = Finite False 0"
  using round_magnitude_whole [of 100] round_magnitude_whole [of 60] round_magnitude_whole [of 0]
  by (simp_all add: dbl_const_def dbl_signed_def)

section \<open>Printed numbers\<close>

lemma digits_value_append: "digits_value (a @ b) = digits_value a * 10 ^ length b + digits_value b"
proof (induction b rule: rev_induct)
  case (snoc c b)
  then show ?case by (simp flip: append_assoc add: algebra_simps)
qed (simp add: digits_value_def)

lemma digits_value_foldl: "foldl (\<lambda>n c. 10 * n + digit_value c) 0 ds = digits_value ds"
  by (simp add: digits_value_def)

lemma point_not_digit [simp]: "\<not> is_digit CHR ''.''" "\<not> is_digit CHR ''-''" "\<not> is_digit CHR '',''"
  by (simp_all add: is_digit_def digits_def)

lemma zeros_digits [simp]: "list_all is_digit (replicate k CHR ''0'')"
  by (induction k) (simp_all add: is_digit_def digits_def)

lemma sprint_uint_digits [simp]: "list_all is_digit (sprint_uint w n)"
  by (simp add: sprint_uint_def)

lemma digits_value_sprint_uint [simp]: "digits_value (sprint_uint w n) = n"
  by (simp add: sprint_uint_def)

lemma length_sprint_uint: "n < 10 ^ w \<Longrightarrow> 0 < w \<Longrightarrow> length (sprint_uint w n) = w"
  using nat_digits_length [of n w] by (simp add: sprint_uint_def)

lemma dropWhile_digits: "list_all P ds \<Longrightarrow> \<not> P c \<Longrightarrow> takeWhile P (ds @ c # t) = ds \<and> dropWhile P (ds @ c # t) = c # t"
  by (induction ds) auto

lemma dropWhile_all: "list_all P ds \<Longrightarrow> dropWhile P ds = []"
  by (induction ds) auto

text \<open>Digits, a point and digits, as every conversion with a positive precision prints them.\<close>

lemma scan_float_digits:
  assumes "list_all is_digit i" "i \<noteq> []" "list_all is_digit f"
  shows "scan_float (i @ CHR ''.'' # f) = Some (of_nat (digits_value (i @ f)) / 10 ^ length f, [])"
proof -
  have "scan_mantissa 10 is_digit digit_value (i @ CHR ''.'' # f) =
      Some (of_nat (digits_value (i @ f)) / 10 ^ length f, [])"
    using assms dropWhile_digits [OF assms(1) point_not_digit(1), of f]
    by (simp add: scan_mantissa_def takeWhile_digits dropWhile_all digits_value_foldl del: foldl_append)
  moreover have "take 2 (to_lower (i @ CHR ''.'' # f)) \<noteq> ''0x''"
  proof -
    obtain c t where i: "i = c # t" using assms(2) by (cases i) auto
    have "lower_char CHR ''.'' \<noteq> CHR ''x''" by (simp add: lower_char_def)
    moreover have "lower_char d \<noteq> CHR ''x''" if "is_digit d" for d
      using that by (auto simp: is_digit_def digits_def lower_char_def)
    ultimately show ?thesis using assms(1) by (cases t) (auto simp: i to_lower_def take_Suc)
  qed
  ultimately show ?thesis by (simp add: scan_float_def scan_decimal_def scan_exponent_def)
qed

lemma parse_double_digits:
  assumes "list_all is_digit i" "i \<noteq> []" "list_all is_digit f"
  shows "parse_double (sign_text neg @ i @ CHR ''.'' # f) =
    Some (dbl_signed neg (of_nat (digits_value (i @ f)) / 10 ^ length f))"
proof -
  let ?t = "i @ CHR ''.'' # f" and ?x = "of_nat (digits_value (i @ f)) / 10 ^ length f :: rat"
  obtain c t where i: "i = c # t" "is_digit c" using assms(1,2) by (cases i) auto
  have not_space: "dropWhile is_space (sign_text neg @ ?t) = sign_text neg @ ?t"
    using is_digit_cases [OF i(2)] by (simp add: sign_text_def i is_space_def)
  have sign: "scan_sign (sign_text neg @ ?t) = (neg, ?t)"
    using is_digit_cases [OF i(2)] by (auto simp: scan_sign_def sign_text_def i)
  have "lower_char c \<noteq> CHR ''i''" "lower_char c \<noteq> CHR ''n''"
    using i(2) by (auto simp: is_digit_def digits_def lower_char_def)
  then have no_word: "\<not> prefix ''infinity'' (to_lower ?t)" "\<not> prefix ''inf'' (to_lower ?t)"
    "\<not> prefix ''nan'' (to_lower ?t)"
    by (simp_all add: to_lower_def i)
  have range: "to_dbl neg x = Inl Out_of_range \<or> to_dbl neg x = Inr (dbl_signed neg x)" for x
    by (simp add: to_dbl_def dbl_signed_def Let_def)
  have strtod: "strtod (sign_text neg @ ?t) = Some (to_dbl neg ?x, [])"
    using no_word by (simp add: strtod_def not_space sign scan_float_digits [OF assms] Let_def)
  have nonempty: "sign_text neg @ ?t \<noteq> []" using assms(2) by simp
  show ?thesis
    unfolding parse_double_def strtod not_space sign prod.case scan_float_digits [OF assms] option.case
    using range [of ?x] by (elim disjE) (simp_all add: nonempty scan_float_digits [OF assms])
qed

section \<open>Coordinates\<close>

lemma dbl_sub_pos:
  assumes "y \<le> x" and "x \<le> 2 ^ 1000" and "0 \<le> y"
  shows "dbl_sub (Finite False x) (Finite False y) = Finite False (round_magnitude (x - y))"
proof (cases "x = y")
  case True
  then show ?thesis by (simp add: dbl_value_def round_magnitude_def)
next
  case False
  have "dbl_signed False (x - y) = Finite False (round_magnitude (x - y))"
    using assms by (intro dbl_signed_finite) simp_all
  then show ?thesis using False assms(1)
    by (simp add: dbl_value_def dbl_round_def dbl_signed_def Let_def split: if_splits)
qed

lemma dbl_add_pos:
  assumes "0 \<le> x" and "0 \<le> y" and "x + y \<le> 2 ^ 1000"
  shows "dbl_add (Finite False x) (Finite False y) = Finite False (round_magnitude (x + y))"
proof (cases "x + y = 0")
  case True
  then show ?thesis by (simp add: dbl_value_def round_magnitude_def)
next
  case False
  have "dbl_signed False (x + y) = Finite False (round_magnitude (x + y))"
    using assms by (intro dbl_signed_finite) simp_all
  moreover have "0 < x + y" using False assms(1,2) by linarith
  ultimately show ?thesis
    by (simp add: dbl_value_def dbl_round_def dbl_signed_def Let_def split: if_splits)
qed

lemma dbl_floor_pos: "0 \<le> x \<Longrightarrow> dbl_floor (Finite False x) = Finite False (of_int \<lfloor>x\<rfloor>)"
  by (simp add: dbl_value_def Let_def)

lemma print_fixed_zero: "print_fixed 0 (of_nat n) = nat_digits n"
proof -
  have "round_half_even (of_nat n :: rat) = int n" using round_half_even_int [of "int n"] by simp
  then show ?thesis by (simp add: print_fixed_def)
qed

text \<open>The text of a number below 60 with two digits before the point, and of the degrees.\<close>

lemma dbl_padded_minutes:
  assumes "0 < p" and "n = nat (round_half_even (m * 10 ^ p))" and "n \<le> 60 * 10 ^ p"
  shows "dbl_padded (p + 3) p (Finite False m) = sprint_uint 2 (n div 10 ^ p) @ CHR ''.'' # sprint_uint p (n mod 10 ^ p)"
proof -
  have "length (sprint_uint p (n mod 10 ^ p)) = p" using assms(1) by (intro length_sprint_uint) simp_all
  moreover have "n div 10 ^ p \<le> 60" using div_le_mono [OF assms(3), of "10 ^ p"] by simp
  then have "length (nat_digits (n div 10 ^ p)) \<le> 2" by (intro nat_digits_length) simp_all
  ultimately show ?thesis
    using assms(1) by (simp add: dbl_padded_def dbl_fixed_def print_fixed_def sign_text_def Let_def
      sprint_uint_def [of 2] flip: assms(2))
qed

lemma dbl_padded_degrees: "dbl_padded w 0 (Finite False (of_nat n)) = sprint_uint w n"
  by (simp add: dbl_padded_def dbl_fixed_def print_fixed_zero sign_text_def Let_def sprint_uint_def)

text \<open>
  The field of an angle \<open>x\<close> in terms of its whole degrees and of the printed minutes, counted in units of the last
  place.
\<close>

definition whole_degrees :: "rat \<Rightarrow> nat" where
  "whole_degrees x = nat \<lfloor>x\<rfloor>"

definition exact_minutes :: "rat \<Rightarrow> rat" where
  "exact_minutes x = round_magnitude (round_magnitude (x - of_int \<lfloor>x\<rfloor>) * 60)"

definition printed_minutes :: "nat \<Rightarrow> rat \<Rightarrow> nat" where
  "printed_minutes p x = nat (round_half_even (exact_minutes x * 10 ^ p))"

lemma exact_minutes_near:
  fixes x :: rat
  defines "f \<equiv> x - of_int \<lfloor>x\<rfloor>"
  shows "\<bar>exact_minutes x - 60 * f\<bar> \<le> 200 / 1000000000000000" and "0 \<le> exact_minutes x"
proof -
  have f: "0 \<le> f" "f < 1" unfolding f_def by linarith+
  then have r: "\<bar>round_magnitude f - f\<bar> \<le> 1 / 1000000000000000" "0 \<le> round_magnitude f"
    using round_magnitude_near [of f 1] by (auto intro: round_magnitude_nonneg)
  moreover have "(1 :: rat) / 1000000000000000 \<le> 1 / 10" by simp
  ultimately have "0 \<le> round_magnitude f * 60" "round_magnitude f * 60 \<le> 70" using f by linarith+
  then have "\<bar>exact_minutes x - round_magnitude f * 60\<bar> \<le> 70 / 1000000000000000" "0 \<le> exact_minutes x"
    using round_magnitude_near [of "round_magnitude f * 60" 70]
    unfolding exact_minutes_def f_def by (auto intro: round_magnitude_nonneg)
  with r show "\<bar>exact_minutes x - 60 * f\<bar> \<le> 200 / 1000000000000000" "0 \<le> exact_minutes x" by linarith+
qed

lemma printed_minutes_near:
  assumes "0 < p" and "p \<le> 8"
  shows "\<bar>of_nat (printed_minutes p x) / 10 ^ p - 60 * (x - of_int \<lfloor>x\<rfloor>)\<bar> \<le> 1 / (2 * 10 ^ p) + 200 / 1000000000000000"
    and "printed_minutes p x \<le> 60 * 10 ^ p"
proof -
  let ?q = "(10 :: rat) ^ p" and ?m = "exact_minutes x"
  let ?n = "round_half_even (?m * ?q)"
  have q: "?q \<le> 10 ^ 8" "0 < ?q" using assms(2) by (intro power_increasing) simp_all
  have nonneg: "0 \<le> ?n" using exact_minutes_near(2) [of x] by (simp add: round_half_even_nonneg)
  have n: "(of_nat (printed_minutes p x) :: rat) = of_int ?n"
    using nonneg by (simp add: printed_minutes_def)
  have near: "\<bar>of_int ?n - ?m * ?q\<bar> \<le> 1 / 2" by (rule round_half_even_near)
  have "of_int ?n / ?q - ?m = (of_int ?n - ?m * ?q) / ?q" using q(2) by (simp add: field_simps)
  then have "\<bar>of_int ?n / ?q - ?m\<bar> = \<bar>of_int ?n - ?m * ?q\<bar> / ?q" using q(2) by (simp add: abs_divide)
  also have "\<dots> \<le> 1 / 2 / ?q" using near q(2) by (intro divide_right_mono) simp_all
  finally have print: "\<bar>of_int ?n / ?q - ?m\<bar> \<le> 1 / (2 * ?q)" by simp
  then show "\<bar>of_nat (printed_minutes p x) / ?q - 60 * (x - of_int \<lfloor>x\<rfloor>)\<bar> \<le> 1 / (2 * ?q) + 200 / 1000000000000000"
    using exact_minutes_near(1) [of x] unfolding n by linarith
  have "x - of_int \<lfloor>x\<rfloor> < 1" by linarith
  then have "60 * (x - of_int \<lfloor>x\<rfloor>) < 60" by simp
  then have "?m < 60 + 200 / 1000000000000000" using exact_minutes_near(1) [of x] by linarith
  then have "?m * ?q < (60 + 200 / 1000000000000000) * ?q" using q(2) by simp
  also have "\<dots> \<le> 60 * ?q + 200 / 1000000000000000 * 10 ^ 8" using q(1) by (simp add: algebra_simps)
  also have "\<dots> < 60 * ?q + 1 / 2" by simp
  finally have "of_int ?n < (60 * ?q + 1 :: rat)" using near by linarith
  then have "of_int ?n < (of_int (60 * 10 ^ p + 1) :: rat)" by simp
  then have "?n \<le> 60 * 10 ^ p" unfolding of_int_less_iff by simp
  then show "printed_minutes p x \<le> 60 * 10 ^ p" by (simp add: printed_minutes_def nat_le_iff)
qed

lemma format_degrees_text:
  assumes "0 \<le> x" "x < 1000" "0 < p" "p \<le> 8" "w \<le> 3"
  shows "format_degrees w (int p) (Finite neg x) =
    sprint_uint w (whole_degrees x) @ sprint_uint 2 (printed_minutes p x div 10 ^ p)
      @ CHR ''.'' # sprint_uint p (printed_minutes p x mod 10 ^ p)"
proof -
  let ?D = "whole_degrees x" and ?n = "printed_minutes p x"
  have D: "of_int \<lfloor>x\<rfloor> = (of_nat ?D :: rat)" and "?D < 10 ^ 3"
    using assms(1,2) by (simp_all add: whole_degrees_def nat_less_iff floor_less_iff)
  have small: "x \<le> 2 ^ 1000" using assms(2) by simp
  have deg: "dbl_floor (dbl_abs (Finite neg x)) = Finite False (of_nat ?D)"
    using dbl_floor_pos [OF assms(1)] D by simp
  have sub: "dbl_sub (dbl_abs (Finite neg x)) (Finite False (of_nat ?D)) =
      Finite False (round_magnitude (x - of_int \<lfloor>x\<rfloor>))"
    using dbl_sub_pos [OF _ small, of "of_int \<lfloor>x\<rfloor>"] assms(1) by (simp flip: D)
  have "0 \<le> round_magnitude (x - of_int \<lfloor>x\<rfloor>)" by (simp add: round_magnitude_nonneg)
  moreover have f: "0 \<le> x - of_int \<lfloor>x\<rfloor>" "x - of_int \<lfloor>x\<rfloor> < 1" by linarith+
  then have "round_magnitude (x - of_int \<lfloor>x\<rfloor>) \<le> x - of_int \<lfloor>x\<rfloor> + 1 / 1000000000000000"
    using round_magnitude_near [of "x - of_int \<lfloor>x\<rfloor>" 1] by linarith
  then have "round_magnitude (x - of_int \<lfloor>x\<rfloor>) \<le> 2" using f(2) by simp
  ultimately have mul: "dbl_mul (Finite False (round_magnitude (x - of_int \<lfloor>x\<rfloor>))) (dbl_const 60) =
      Finite False (exact_minutes x)"
    using dbl_signed_finite [of "round_magnitude (x - of_int \<lfloor>x\<rfloor>) * 60" False]
    by (simp add: exact_minutes_def)
  have min: "dbl_padded (p + 3) p (Finite False (exact_minutes x)) =
      sprint_uint 2 (?n div 10 ^ p) @ CHR ''.'' # sprint_uint p (?n mod 10 ^ p)"
    using printed_minutes_near(2) [OF assms(3,4)] assms(3) by (intro dbl_padded_minutes) (simp_all add: printed_minutes_def)
  have "length (sprint_uint w ?D) \<le> 3"
    using nat_digits_length [OF \<open>?D < 10 ^ 3\<close>] assms(5) by (simp add: sprint_uint_def)
  moreover have "length (sprint_uint 2 (?n div 10 ^ p)) \<le> 2"
    using nat_digits_length [of "?n div 10 ^ p" 2] div_le_mono [OF printed_minutes_near(2) [OF assms(3,4)], of x "10 ^ p"]
    by (simp add: sprint_uint_def)
  moreover have "length (sprint_uint p (?n mod 10 ^ p)) = p" using assms(3) by (intro length_sprint_uint) simp_all
  moreover have "nat (int p + 3) = p + 3" by simp
  ultimately show ?thesis
    using assms(4) unfolding format_degrees_def Let_def deg sub mul dbl_padded_degrees by (simp add: min)
qed

lemma parse_printed_degrees:
  assumes "0 \<le> x" "x < 1000" "0 < p" "p \<le> 8" "0 < w" "w \<le> 3"
  shows "parse_double (format_degrees w (int p) (Finite neg x)) =
    Some (dbl_signed False (of_nat (whole_degrees x) * 100 + of_nat (printed_minutes p x) / 10 ^ p))"
proof -
  let ?D = "whole_degrees x" and ?n = "printed_minutes p x"
  let ?i = "sprint_uint w ?D @ sprint_uint 2 (?n div 10 ^ p)" and ?f = "sprint_uint p (?n mod 10 ^ p)"
  have "?n div 10 ^ p < 10 ^ 2"
    using div_le_mono [OF printed_minutes_near(2) [OF assms(3,4)], of x "10 ^ p"] by simp
  then have l: "length (sprint_uint 2 (?n div 10 ^ p)) = 2" "length ?f = p"
    using assms(3) by (auto intro: length_sprint_uint)
  have digits: "list_all is_digit ?i" "?i \<noteq> []" "list_all is_digit ?f"
    by (simp_all add: sprint_uint_def [of w])
  have "digits_value (?i @ ?f) = ?D * 10 ^ (p + 2) + (?n div 10 ^ p) * 10 ^ p + ?n mod 10 ^ p"
    by (simp add: digits_value_append l power_add)
  also have "\<dots> = ?D * 100 * 10 ^ p + (?n div 10 ^ p * 10 ^ p + ?n mod 10 ^ p)" by (simp add: power_add)
  also have "\<dots> = ?D * 100 * 10 ^ p + ?n" by (simp only: div_mult_mod_eq)
  finally have "of_nat (digits_value (?i @ ?f)) / (10 :: rat) ^ length ?f = of_nat ?D * 100 + of_nat ?n / 10 ^ p"
    by (simp add: l add_divide_distrib)
  with parse_double_digits [OF digits, of False] format_degrees_text [OF assms(1-4,6), of neg] show ?thesis
    by (simp add: sign_text_def)
qed

text \<open>Splitting the parsed number into degrees and minutes again finds the printed ones.\<close>

lemma parse_latlon_near:
  fixes m :: rat and D :: nat
  assumes "D < 1000" and "m = 0 \<or> 1 / 10 ^ 8 \<le> m" and "0 \<le> m" "m \<le> 60"
  defines "y \<equiv> dbl_signed False (of_nat D * 100 + m)"
  shows "\<exists>v. dbl_add (dbl_floor (dbl_div y (dbl_const 100)))
        (dbl_div (dbl_sub y (dbl_mul (dbl_floor (dbl_div y (dbl_const 100))) (dbl_const 100))) (dbl_const 60)) = Finite False v
      \<and> 0 \<le> v \<and> \<bar>v - (of_nat D + m / 60)\<bar> \<le> 3 / 10 ^ 12"
proof -
  define s where "s = of_nat D * 100 + m"
  define r where "r = round_magnitude s"
  have "D \<le> 999" using assms(1) by simp
  then have D: "(of_nat D :: rat) \<le> 999" by (metis of_nat_le_iff of_nat_numeral)
  then have s: "0 \<le> s" "s \<le> 100000" using assms(3,4) by (simp_all add: s_def)
  then have r: "\<bar>r - s\<bar> \<le> 100000 / 1000000000000000" "0 \<le> r"
    using round_magnitude_near [of s "100000"] by (simp_all add: r_def round_magnitude_nonneg)
  have y: "y = Finite False r"
    using dbl_signed_finite [of s False] s unfolding y_def r_def s_def by simp
  define q where "q = round_magnitude (r / 100)"
  have r_le: "r \<le> 100000 + 1" using r(1) s(2) by linarith
  then have q: "\<bar>q - r / 100\<bar> \<le> 1001 / 1000000000000000" "0 \<le> q"
    using round_magnitude_near [of "r / 100" 1001] r(2) by (simp_all add: q_def round_magnitude_nonneg)
  have div: "dbl_div y (dbl_const 100) = Finite False q"
    using dbl_signed_finite [of "r / 100" False] r(2) r_le by (simp add: y q_def)
  have whole: "round_magnitude (of_nat k) = of_nat k" if "k \<le> 10 ^ 6" for k
    using that by (intro round_magnitude_whole) simp
  have floor: "\<lfloor>q\<rfloor> = int D" and D_le: "of_nat (D * 100) \<le> r"
  proof -
    have "of_nat D \<le> q \<and> of_nat (D * 100) \<le> r"
    proof (cases "m = 0")
      case True
      then have "r = of_nat (D * 100)" using whole [of "D * 100"] assms(1) by (simp add: r_def s_def)
      moreover from this have "q = of_nat D" using whole [of D] assms(1) by (simp add: q_def)
      ultimately show ?thesis by simp
    next
      case False
      then have "1 / 100000000 \<le> m" using assms(2) by simp
      then have "of_nat D * 100 \<le> r" "of_nat D \<le> q" using r(1) q(1) unfolding s_def by linarith+
      then show ?thesis by simp
    qed
    moreover have "q < of_nat D + 1" using r(1) q(1) assms(4) unfolding s_def by linarith
    ultimately show "\<lfloor>q\<rfloor> = int D" "of_nat (D * 100) \<le> r" by (auto intro: floor_unique)
  qed
  then have degrees: "dbl_floor (dbl_div y (dbl_const 100)) = Finite False (of_nat D)"
    unfolding div using dbl_floor_pos [OF q(2)] by (simp del: dbl_floor.simps)
  have hundred: "dbl_mul (Finite False (of_nat D)) (dbl_const 100) = Finite False (of_nat (D * 100))"
    using dbl_signed_finite [of "of_nat (D * 100)" False] whole [of "D * 100"] assms(1) D by simp
  define t where "t = round_magnitude (r - of_nat (D * 100))"
  have hundreds: "of_nat (D * 100) = (of_nat D * 100 :: rat)" by simp
  have rest_le: "r - of_nat (D * 100) \<le> 61" using r(1) assms(4) unfolding s_def hundreds by linarith
  then have t: "\<bar>t - (r - of_nat (D * 100))\<bar> \<le> 61 / 1000000000000000" "0 \<le> t"
    using round_magnitude_near [of "r - of_nat (D * 100)" 61] D_le by (simp_all add: t_def round_magnitude_nonneg)
  have minutes: "dbl_sub y (Finite False (of_nat (D * 100))) = Finite False t"
    using dbl_sub_pos [OF D_le] r_le by (simp add: y t_def)
  define u where "u = round_magnitude (t / 60)"
  have t_le: "t \<le> 62" using t(1) rest_le by linarith
  then have u: "\<bar>u - t / 60\<bar> \<le> 2 / 1000000000000000" "0 \<le> u"
    using round_magnitude_near [of "t / 60" 2] t(2) by (simp_all add: u_def round_magnitude_nonneg)
  have sixty: "dbl_div (Finite False t) (dbl_const 60) = Finite False u"
    using dbl_signed_finite [of "t / 60" False] t(2) t_le by (simp add: u_def)
  define v where "v = round_magnitude (of_nat D + u)"
  have u_le: "u \<le> 2" using u(1) t_le by linarith
  then have v: "\<bar>v - (of_nat D + u)\<bar> \<le> 1001 / 1000000000000000" "0 \<le> v"
    using round_magnitude_near [of "of_nat D + u" 1001] u(2) D by (simp_all add: v_def round_magnitude_nonneg)
  have sum: "dbl_add (Finite False (of_nat D)) (Finite False u) = Finite False v"
    using dbl_add_pos [of "of_nat D" u] u(2) u_le D by (simp add: v_def)
  have "\<bar>v - (of_nat D + m / 60)\<bar> \<le> 3 / 1000000000000"
    using v(1) u(1) t(1) r(1) unfolding s_def hundreds by linarith
  then have "\<bar>v - (of_nat D + m / 60)\<bar> \<le> 3 / 10 ^ 12" by simp
  with v(2) show ?thesis unfolding degrees hundred minutes sixty sum by blast
qed

text \<open>The error of a coordinate on its way through a field with \<open>p\<close> decimals of minutes.\<close>

definition position_error :: "nat \<Rightarrow> rat" where
  "position_error p = 1 / (120 * 10 ^ p) + 4 / 10 ^ 12"

lemma parse_format_degrees:
  assumes "0 \<le> x" "x < 1000" "0 < p" "p \<le> 8" "0 < w" "w \<le> 3"
  shows "\<exists>v. parse_latlon (format_degrees w (int p) (Finite neg x)) dir =
      Some (Finite (dir \<noteq> [] \<and> dir ! 0 \<in> {CHR ''S'', CHR ''s'', CHR ''W'', CHR ''w''}) v)
      \<and> 0 \<le> v \<and> \<bar>v - x\<bar> \<le> position_error p"
proof -
  let ?D = "whole_degrees x" and ?m = "of_nat (printed_minutes p x) / (10 :: rat) ^ p"
  note near = printed_minutes_near [OF assms(3,4), of x]
  have D: "?D < 1000" using assms(1,2) by (simp add: whole_degrees_def nat_less_iff floor_less_iff)
  have "(of_nat (printed_minutes p x) :: rat) \<le> of_nat (60 * 10 ^ p)" using near(2) by (simp only: of_nat_le_iff)
  then have m60: "?m \<le> 60" by (simp add: field_simps)
  have m0: "?m = 0 \<or> 1 / 10 ^ 8 \<le> ?m"
  proof (cases "printed_minutes p x = 0")
    case False
    then have "1 / 10 ^ p \<le> ?m" by (simp add: divide_right_mono)
    moreover have "1 / (10 :: rat) ^ 8 \<le> 1 / 10 ^ p"
      using assms(4) by (intro divide_left_mono power_increasing) simp_all
    ultimately show ?thesis by linarith
  qed simp
  obtain v :: rat where v: "dbl_add (dbl_floor (dbl_div (dbl_signed False (of_nat ?D * 100 + ?m)) (dbl_const 100)))
        (dbl_div (dbl_sub (dbl_signed False (of_nat ?D * 100 + ?m))
          (dbl_mul (dbl_floor (dbl_div (dbl_signed False (of_nat ?D * 100 + ?m)) (dbl_const 100))) (dbl_const 100)))
          (dbl_const 60)) = Finite False v"
    and pos: "0 \<le> v" and close: "\<bar>v - (of_nat ?D + ?m / 60)\<bar> \<le> 3 / 10 ^ 12"
    using parse_latlon_near [OF D m0 _ m60] by auto
  have nonempty: "format_degrees w (int p) (Finite neg x) \<noteq> []"
    unfolding format_degrees_text [OF assms(1-4,6)] by simp
  have "(of_nat ?D :: rat) = of_int \<lfloor>x\<rfloor>" using assms(1) by (simp add: whole_degrees_def)
  then have "\<bar>of_nat ?D + ?m / 60 - x\<bar> = \<bar>(?m - 60 * (x - of_int \<lfloor>x\<rfloor>)) / 60\<bar>" by (simp add: field_simps)
  also have "\<dots> = \<bar>?m - 60 * (x - of_int \<lfloor>x\<rfloor>)\<bar> / 60" by simp
  also have "\<dots> \<le> (1 / (2 * 10 ^ p) + 200 / 1000000000000000) / 60" using near(1) by (intro divide_right_mono) simp_all
  also have "\<dots> \<le> 1 / (120 * 10 ^ p) + 1 / 10 ^ 12" by (simp add: add_divide_distrib)
  finally have whole: "\<bar>of_nat ?D + ?m / 60 - x\<bar> \<le> 1 / (120 * 10 ^ p) + 1 / 10 ^ 12" .
  have "\<bar>v - x\<bar> \<le> \<bar>v - a\<bar> + \<bar>a - x\<bar>" for a :: rat by linarith
  from order_trans [OF this add_mono [OF close whole]]
  have "\<bar>v - x\<bar> \<le> 3 / 10 ^ 12 + (1 / (120 * 10 ^ p) + 1 / 10 ^ 12)" .
  also have "\<dots> = position_error p" by (simp add: position_error_def)
  finally have "\<bar>v - x\<bar> \<le> position_error p" .
  moreover have "parse_latlon (format_degrees w (int p) (Finite neg x)) dir =
      Some (Finite (dir \<noteq> [] \<and> dir ! 0 \<in> {CHR ''S'', CHR ''s'', CHR ''W'', CHR ''w''}) v)"
    unfolding parse_latlon_def parse_printed_degrees [OF assms] option.case Let_def v by (simp add: nonempty)
  ultimately show ?thesis using pos by blast
qed

section \<open>The last minute of a degree\<close>

text \<open>
  C34 (error). Within less than a hundred-and-thirtieth of a unit of the last decimal below a whole degree
  the minutes of a coordinate are printed as 60 and the degrees are not carried: the field is not a
  latitude in degrees and minutes, although the parser of this library still reads the next whole degree from it.
\<close>

theorem minutes_field_rolls_over:
  assumes "0 \<le> x" "x < 1000" "0 < p" "p \<le> 5" and "1 - 1 / (130 * 10 ^ p) < x - of_int \<lfloor>x\<rfloor>"
  shows "format_latitude (int p) (Finite neg x) = sprint_uint 2 (nat \<lfloor>x\<rfloor>) @ ''60.'' @ replicate p CHR ''0''"
proof -
  let ?q = "(10 :: rat) ^ p" and ?m = "exact_minutes x"
  have p8: "p \<le> 8" using assms(4) by simp
  have "?q \<le> 10 ^ 5" using assms(4) by (intro power_increasing) simp_all
  then have q: "0 < ?q" "?q \<le> 10 ^ 5" by simp_all
  have "60 * (1 - 1 / (130 * ?q)) < 60 * (x - of_int \<lfloor>x\<rfloor>)" using assms(5) by simp
  then have "60 * (1 - 1 / (130 * ?q)) - 200 / 1000000000000000 < ?m"
    using exact_minutes_near(1) [of x] by linarith
  then have "(60 * (1 - 1 / (130 * ?q)) - 200 / 1000000000000000) * ?q < ?m * ?q" using q(1) by simp
  moreover have "(60 * (1 - 1 / (130 * ?q)) - 200 / 1000000000000000) * ?q = 60 * ?q - 6 / 13 - ?q * (200 / 1000000000000000)"
    using q(1) by (simp add: field_simps)
  moreover have "?q * (200 / 1000000000000000) \<le> 10 ^ 5 * (200 / 1000000000000000)"
    using q(2) by (intro mult_right_mono) simp_all
  moreover have "(10 ^ 5 * (200 / 1000000000000000) :: rat) \<le> 1 / 100" by simp
  ultimately have "60 * ?q - 1 / 2 < ?m * ?q" by linarith
  then have "60 * ?q - 1 < of_int (round_half_even (?m * ?q))"
    using round_half_even_near [of "?m * ?q"] by linarith
  then have "(of_int (60 * 10 ^ p - 1) :: rat) < of_int (round_half_even (?m * ?q))" by simp
  then have "60 * 10 ^ p \<le> round_half_even (?m * ?q)" unfolding of_int_less_iff by simp
  then have "int (60 * 10 ^ p) \<le> round_half_even (?m * ?q)" by simp
  then have "60 * 10 ^ p \<le> printed_minutes p x" unfolding printed_minutes_def by linarith
  with printed_minutes_near(2) [OF assms(3) p8, of x] have n: "printed_minutes p x = 60 * 10 ^ p" by simp
  have sixty: "sprint_uint 2 60 = ''60''" by (simp add: sprint_uint_def nat_digits.simps digits_def)
  have zeros: "sprint_uint p 0 = replicate p CHR ''0''"
    using assms(3) by (cases p) (simp_all add: sprint_uint_def nat_digits.simps digits_def replicate_append_same)
  show ?thesis
    unfolding format_latitude_def by (subst format_degrees_text) (use assms p8 in \<open>simp_all add: n sixty zeros whole_degrees_def\<close>)
qed

theorem minutes_field_rolls_over_witness:
  "format_latitude 5 (Finite False (48 - 1 / 2 ^ 30)) = ''4760.00000''"
proof -
  have f: "\<lfloor>48 - 1 / 2 ^ 30 :: rat\<rfloor> = 47" by (intro floor_unique) simp_all
  have "sprint_uint 2 47 = ''47''" by (simp add: sprint_uint_def nat_digits.simps digits_def)
  moreover have "replicate 5 CHR ''0'' = ''00000''" by (simp add: numeral_eq_Suc)
  ultimately show ?thesis
    using minutes_field_rolls_over [of "48 - 1 / 2 ^ 30" 5 False] unfolding f by simp
qed

end
