(* ===== verification/Nmea_Messages.thy ===== *)
theory Nmea_Messages
  imports Nmea_Coordinates Nmea_Gsv
begin

text \<open>
  The sentences besides satellites in view: their messages (\<open>sentences/*.h\<close>) and their parsers
  (\<open>parsers/*.cpp\<close>). A field that does not parse leaves the default of its member, unless the parser
  returns false for it.
\<close>

section \<open>Stores\<close>

abbreviation dzero :: dbl where "dzero \<equiv> Finite False 0"

abbreviation minus_one :: dbl where "minus_one \<equiv> Finite True 1"

text \<open>A parse function writes its output argument only when it succeeds.\<close>

definition stored :: "'a \<Rightarrow> 'a option \<Rightarrow> 'a" where
  "stored old v = (case v of None \<Rightarrow> old | Some x \<Rightarrow> x)"

lemma stored_simps [simp]: "stored old None = old" "stored old (Some x) = x"
  by (simp_all add: stored_def)

section \<open>Fix data: GGA\<close>

record nmea_gga =
  gga_talker :: string
  gga_utc_time :: dbl
  gga_latitude :: dbl
  gga_longitude :: dbl
  gga_fix_quality :: u8
  gga_num_satellites :: u8
  gga_hdop :: dbl
  gga_altitude_msl :: dbl
  gga_geoid_sep :: dbl
  gga_dgps_age :: dbl
  gga_dgps_station_id :: u16
  gga_valid :: bool

definition gga_parse :: "nmea_sentence \<Rightarrow> nmea_gga option" where
  "gga_parse s =
     (if sen_field_count s < 14 then None
      else case parse_utc_time (sen_field s 0) of None \<Rightarrow> None
      | Some utc_time \<Rightarrow> (case parse_latlon (sen_field s 1) (sen_field s 2) of None \<Rightarrow> None
      | Some latitude \<Rightarrow> (case parse_latlon (sen_field s 3) (sen_field s 4) of None \<Rightarrow> None
      | Some longitude \<Rightarrow> (case parse_int (sen_field s 5) of None \<Rightarrow> None
      | Some quality \<Rightarrow> (case parse_int (sen_field s 6) of None \<Rightarrow> None
      | Some num_sats \<Rightarrow>
          Some \<lparr>gga_talker = sen_talker s, gga_utc_time = utc_time, gga_latitude = latitude,
            gga_longitude = longitude, gga_fix_quality = ucast quality, gga_num_satellites = ucast num_sats,
            gga_hdop = stored dzero (parse_double (sen_field s 7)),
            gga_altitude_msl = stored dzero (parse_double (sen_field s 8)),
            gga_geoid_sep = stored dzero (parse_double (sen_field s 10)),
            gga_dgps_age = (if sen_has_field s 12 then stored minus_one (parse_double (sen_field s 12)) else minus_one),
            gga_dgps_station_id = (if sen_has_field s 13
              then case parse_uint (sen_field s 13) of None \<Rightarrow> 0 | Some st_id \<Rightarrow> ucast st_id else 0),
            gga_valid = True\<rparr>)))))"

definition gga_parser :: "(nmea_gga \<Rightarrow> 'm) \<Rightarrow> 'm sentence_parser" where
  "gga_parser cb = \<lparr>sp_type = ''GGA'', sp_parse = map_option cb \<circ> gga_parse\<rparr>"

section \<open>Recommended minimum: RMC\<close>

text \<open>The mode is an enumeration over \<open>char\<close>; any character is cast to it.\<close>

record nmea_rmc =
  rmc_talker :: string
  rmc_utc_time :: dbl
  rmc_status_active :: bool
  rmc_latitude :: dbl
  rmc_longitude :: dbl
  rmc_speed_knots :: dbl
  rmc_course_true :: dbl
  rmc_date :: u32
  rmc_mag_variation :: dbl
  rmc_mode :: char
  rmc_valid :: bool

definition rmc_parse :: "nmea_sentence \<Rightarrow> nmea_rmc option" where
  "rmc_parse s =
     (if sen_field_count s < 9 then None
      else case parse_utc_time (sen_field s 0) of None \<Rightarrow> None
      | Some utc_time \<Rightarrow> (case parse_char (sen_field s 1) of None \<Rightarrow> None
      | Some status \<Rightarrow> (case parse_latlon (sen_field s 2) (sen_field s 3) of None \<Rightarrow> None
      | Some latitude \<Rightarrow> (case parse_latlon (sen_field s 4) (sen_field s 5) of None \<Rightarrow> None
      | Some longitude \<Rightarrow>
          let mag = (if sen_has_field s 9 then stored dzero (parse_double (sen_field s 9)) else dzero);
              mag = (if sen_field_count s > 10
                then case parse_char (sen_field s 10) of None \<Rightarrow> mag
                  | Some magdir \<Rightarrow> if magdir = CHR ''W'' \<or> magdir = CHR ''w'' then dbl_neg mag else mag
                else mag)
          in Some \<lparr>rmc_talker = sen_talker s, rmc_utc_time = utc_time,
            rmc_status_active = (status = CHR ''A'' \<or> status = CHR ''a''),
            rmc_latitude = latitude, rmc_longitude = longitude,
            rmc_speed_knots = stored dzero (parse_double (sen_field s 6)),
            rmc_course_true = stored dzero (parse_double (sen_field s 7)),
            rmc_date = stored 0 (parse_utc_date (sen_field s 8)),
            rmc_mag_variation = mag,
            rmc_mode = (if sen_field_count s > 11 then stored (CHR 0x00) (parse_char (sen_field s 11)) else CHR 0x00),
            rmc_valid = True\<rparr>))))"

definition rmc_parser :: "(nmea_rmc \<Rightarrow> 'm) \<Rightarrow> 'm sentence_parser" where
  "rmc_parser cb = \<lparr>sp_type = ''RMC'', sp_parse = map_option cb \<circ> rmc_parse\<rparr>"

section \<open>Active satellites: GSA\<close>

datatype gsa_op_mode = Gsa_auto_mode | Gsa_manual | Gsa_unknown

text \<open>The navigation mode is an enumeration over \<open>uint8_t\<close> that any number is cast to.\<close>

record nmea_gsa =
  gsa_talker :: string
  gsa_op_mode :: gsa_op_mode
  gsa_nav_mode :: u8
  gsa_sat_ids :: "u8 list"
  gsa_pdop :: dbl
  gsa_hdop :: dbl
  gsa_vdop :: dbl
  gsa_system_id :: u8
  gsa_valid :: bool

definition gsa_parse :: "nmea_sentence \<Rightarrow> nmea_gsa option" where
  "gsa_parse s =
     (if sen_field_count s < 17 then None
      else Some \<lparr>gsa_talker = sen_talker s,
        gsa_op_mode = (case parse_char (sen_field s 0) of None \<Rightarrow> Gsa_unknown
          | Some op \<Rightarrow> if op = CHR ''A'' \<or> op = CHR ''a'' then Gsa_auto_mode
                       else if op = CHR ''M'' \<or> op = CHR ''m'' then Gsa_manual else Gsa_unknown),
        gsa_nav_mode = (case parse_int (sen_field s 1) of None \<Rightarrow> 0 | Some nav \<Rightarrow> ucast nav),
        gsa_sat_ids = map (\<lambda>i. case parse_int (sen_field s (2 + i)) of None \<Rightarrow> 0 | Some sv \<Rightarrow> ucast sv) [0..<12],
        gsa_pdop = stored dzero (parse_double (sen_field s 14)),
        gsa_hdop = stored dzero (parse_double (sen_field s 15)),
        gsa_vdop = stored dzero (parse_double (sen_field s 16)),
        gsa_system_id = (if sen_field_count s > 17 \<and> sen_has_field s 17
          then case parse_int (sen_field s 17) of None \<Rightarrow> 0 | Some sys \<Rightarrow> ucast sys else 0),
        gsa_valid = True\<rparr>)"

definition gsa_parser :: "(nmea_gsa \<Rightarrow> 'm) \<Rightarrow> 'm sentence_parser" where
  "gsa_parser cb = \<lparr>sp_type = ''GSA'', sp_parse = map_option cb \<circ> gsa_parse\<rparr>"

section \<open>Course and speed: VTG\<close>

record nmea_vtg =
  vtg_talker :: string
  vtg_course_true :: dbl
  vtg_course_mag :: dbl
  vtg_course_mag_valid :: bool
  vtg_speed_knots :: dbl
  vtg_speed_kmh :: dbl
  vtg_mode :: char
  vtg_valid :: bool

definition vtg_parse :: "nmea_sentence \<Rightarrow> nmea_vtg option" where
  "vtg_parse s =
     (if sen_field_count s < 7 then None
      else let mag = (if sen_has_field s 2 then parse_double (sen_field s 2) else None)
        in Some \<lparr>vtg_talker = sen_talker s,
        vtg_course_true = stored dzero (parse_double (sen_field s 0)),
        vtg_course_mag = stored dzero mag, vtg_course_mag_valid = (mag \<noteq> None),
        vtg_speed_knots = stored dzero (parse_double (sen_field s 4)),
        vtg_speed_kmh = stored dzero (parse_double (sen_field s 6)),
        vtg_mode = (if sen_field_count s > 8 then stored (CHR 0x00) (parse_char (sen_field s 8)) else CHR 0x00),
        vtg_valid = True\<rparr>)"

definition vtg_parser :: "(nmea_vtg \<Rightarrow> 'm) \<Rightarrow> 'm sentence_parser" where
  "vtg_parser cb = \<lparr>sp_type = ''VTG'', sp_parse = map_option cb \<circ> vtg_parse\<rparr>"

section \<open>Geographic position: GLL\<close>

text \<open>The status is active for a capital \<open>A\<close> only.\<close>

record nmea_gll =
  gll_talker :: string
  gll_latitude :: dbl
  gll_longitude :: dbl
  gll_utc_time :: dbl
  gll_status_active :: bool
  gll_mode :: char
  gll_valid :: bool

definition gll_parse :: "nmea_sentence \<Rightarrow> nmea_gll option" where
  "gll_parse s =
     (if sen_field_count s < 5 then None
      else case parse_latlon (sen_field s 0) (sen_field s 1) of None \<Rightarrow> None
      | Some latitude \<Rightarrow> (case parse_latlon (sen_field s 2) (sen_field s 3) of None \<Rightarrow> None
      | Some longitude \<Rightarrow>
          Some \<lparr>gll_talker = sen_talker s, gll_latitude = latitude, gll_longitude = longitude,
            gll_utc_time = stored dzero (parse_utc_time (sen_field s 4)),
            gll_status_active = (if sen_has_field s 5 then sen_field s 5 ! 0 = CHR ''A'' else False),
            gll_mode = (if sen_has_field s 6 then stored (CHR 0x00) (parse_char (sen_field s 6)) else CHR 0x00),
            gll_valid = True\<rparr>))"

definition gll_parser :: "(nmea_gll \<Rightarrow> 'm) \<Rightarrow> 'm sentence_parser" where
  "gll_parser cb = \<lparr>sp_type = ''GLL'', sp_parse = map_option cb \<circ> gll_parse\<rparr>"

section \<open>Time and date: ZDA\<close>

record nmea_zda =
  zda_talker :: string
  zda_utc_time :: dbl
  zda_day :: u8
  zda_month :: u8
  zda_year :: u16
  zda_tz_hour :: i8
  zda_tz_min :: u8
  zda_valid :: bool

definition zda_parse :: "nmea_sentence \<Rightarrow> nmea_zda option" where
  "zda_parse s =
     (if sen_field_count s < 4 then None
      else Some \<lparr>zda_talker = sen_talker s,
        zda_utc_time = stored dzero (parse_utc_time (sen_field s 0)),
        zda_day = (case parse_int (sen_field s 1) of None \<Rightarrow> 0 | Some day \<Rightarrow> ucast day),
        zda_month = (case parse_int (sen_field s 2) of None \<Rightarrow> 0 | Some month \<Rightarrow> ucast month),
        zda_year = (case parse_int (sen_field s 3) of None \<Rightarrow> 0 | Some year \<Rightarrow> ucast year),
        zda_tz_hour = (if sen_has_field s 4
          then case parse_int (sen_field s 4) of None \<Rightarrow> 0 | Some h \<Rightarrow> ucast h else 0),
        zda_tz_min = (if sen_has_field s 5
          then case parse_int (sen_field s 5) of None \<Rightarrow> 0 | Some m \<Rightarrow> ucast m else 0),
        zda_valid = True\<rparr>)"

definition zda_parser :: "(nmea_zda \<Rightarrow> 'm) \<Rightarrow> 'm sentence_parser" where
  "zda_parser cb = \<lparr>sp_type = ''ZDA'', sp_parse = map_option cb \<circ> zda_parse\<rparr>"

section \<open>Sentences that are only received: GNS, GST, GBS, DTM\<close>

record nmea_gns =
  gns_talker :: string
  gns_utc_time :: dbl
  gns_latitude :: dbl
  gns_longitude :: dbl
  gns_mode_indicator :: string
  gns_num_sats :: i32
  gns_hdop :: dbl
  gns_altitude :: dbl
  gns_geoid_sep :: dbl
  gns_diff_age :: dbl
  gns_diff_ref :: i32
  gns_valid :: bool

definition gns_parse :: "nmea_sentence \<Rightarrow> nmea_gns option" where
  "gns_parse s =
     (if sen_field_count s < 8 then None
      else Some \<lparr>gns_talker = sen_talker s,
        gns_utc_time = stored dzero (parse_utc_time (sen_field s 0)),
        gns_latitude = stored dzero (parse_latlon (sen_field s 1) (sen_field s 2)),
        gns_longitude = stored dzero (parse_latlon (sen_field s 3) (sen_field s 4)),
        gns_mode_indicator = (if sen_has_field s 5 then sen_field s 5 else []),
        gns_num_sats = stored 0 (parse_int (sen_field s 6)),
        gns_hdop = stored dzero (parse_double (sen_field s 7)),
        gns_altitude = (if sen_has_field s 8 then stored dzero (parse_double (sen_field s 8)) else dzero),
        gns_geoid_sep = (if sen_has_field s 9 then stored dzero (parse_double (sen_field s 9)) else dzero),
        gns_diff_age = (if sen_has_field s 10 then stored minus_one (parse_double (sen_field s 10)) else minus_one),
        gns_diff_ref = (if sen_has_field s 11 then stored (- 1) (parse_int (sen_field s 11)) else - 1),
        gns_valid = True\<rparr>)"

record nmea_gst =
  gst_talker :: string
  gst_utc_time :: dbl
  gst_rms_dev :: dbl
  gst_semi_major :: dbl
  gst_semi_minor :: dbl
  gst_orient :: dbl
  gst_lat_err :: dbl
  gst_lon_err :: dbl
  gst_alt_err :: dbl
  gst_valid :: bool

definition gst_parse :: "nmea_sentence \<Rightarrow> nmea_gst option" where
  "gst_parse s =
     (if sen_field_count s < 8 then None
      else Some \<lparr>gst_talker = sen_talker s,
        gst_utc_time = stored dzero (parse_utc_time (sen_field s 0)),
        gst_rms_dev = stored dzero (parse_double (sen_field s 1)),
        gst_semi_major = stored dzero (parse_double (sen_field s 2)),
        gst_semi_minor = stored dzero (parse_double (sen_field s 3)),
        gst_orient = stored dzero (parse_double (sen_field s 4)),
        gst_lat_err = stored dzero (parse_double (sen_field s 5)),
        gst_lon_err = stored dzero (parse_double (sen_field s 6)),
        gst_alt_err = stored dzero (parse_double (sen_field s 7)),
        gst_valid = True\<rparr>)"

record nmea_gbs =
  gbs_talker :: string
  gbs_utc_time :: dbl
  gbs_err_lat :: dbl
  gbs_err_lon :: dbl
  gbs_err_alt :: dbl
  gbs_failed_sv_id :: i32
  gbs_probability :: dbl
  gbs_bias :: dbl
  gbs_std_dev :: dbl
  gbs_valid :: bool

definition gbs_parse :: "nmea_sentence \<Rightarrow> nmea_gbs option" where
  "gbs_parse s =
     (if sen_field_count s < 4 then None
      else Some \<lparr>gbs_talker = sen_talker s,
        gbs_utc_time = stored dzero (parse_utc_time (sen_field s 0)),
        gbs_err_lat = stored dzero (parse_double (sen_field s 1)),
        gbs_err_lon = stored dzero (parse_double (sen_field s 2)),
        gbs_err_alt = stored dzero (parse_double (sen_field s 3)),
        gbs_failed_sv_id = (if sen_has_field s 4 then stored (- 1) (parse_int (sen_field s 4)) else - 1),
        gbs_probability = (if sen_has_field s 5 then stored dzero (parse_double (sen_field s 5)) else dzero),
        gbs_bias = (if sen_has_field s 6 then stored dzero (parse_double (sen_field s 6)) else dzero),
        gbs_std_dev = (if sen_has_field s 7 then stored dzero (parse_double (sen_field s 7)) else dzero),
        gbs_valid = True\<rparr>)"

record nmea_dtm =
  dtm_talker :: string
  dtm_datum_code :: string
  dtm_datum_sub :: string
  dtm_lat_offset :: dbl
  dtm_lon_offset :: dbl
  dtm_alt_offset :: dbl
  dtm_ref_datum :: string
  dtm_valid :: bool

definition dtm_offset :: "string \<Rightarrow> string \<Rightarrow> char set \<Rightarrow> dbl" where
  "dtm_offset value dir negative =
     (case parse_double value of None \<Rightarrow> dzero
      | Some off \<Rightarrow> if dir \<noteq> [] \<and> dir ! 0 \<in> negative then dbl_neg off else off)"

definition dtm_parse :: "nmea_sentence \<Rightarrow> nmea_dtm option" where
  "dtm_parse s =
     (if sen_field_count s < 7 then None
      else Some \<lparr>dtm_talker = sen_talker s,
        dtm_datum_code = sen_field s 0,
        dtm_datum_sub = (if sen_has_field s 1 then sen_field s 1 else []),
        dtm_lat_offset = dtm_offset (sen_field s 2) (sen_field s 3) {CHR ''S'', CHR ''s''},
        dtm_lon_offset = dtm_offset (sen_field s 4) (sen_field s 5) {CHR ''W'', CHR ''w''},
        dtm_alt_offset = stored dzero (parse_double (sen_field s 6)),
        dtm_ref_datum = (if sen_has_field s 7 then sen_field s 7 else []),
        dtm_valid = True\<rparr>)"

definition gns_parser :: "(nmea_gns \<Rightarrow> 'm) \<Rightarrow> 'm sentence_parser" where
  "gns_parser cb = \<lparr>sp_type = ''GNS'', sp_parse = map_option cb \<circ> gns_parse\<rparr>"

definition gst_parser :: "(nmea_gst \<Rightarrow> 'm) \<Rightarrow> 'm sentence_parser" where
  "gst_parser cb = \<lparr>sp_type = ''GST'', sp_parse = map_option cb \<circ> gst_parse\<rparr>"

definition gbs_parser :: "(nmea_gbs \<Rightarrow> 'm) \<Rightarrow> 'm sentence_parser" where
  "gbs_parser cb = \<lparr>sp_type = ''GBS'', sp_parse = map_option cb \<circ> gbs_parse\<rparr>"

definition dtm_parser :: "(nmea_dtm \<Rightarrow> 'm) \<Rightarrow> 'm sentence_parser" where
  "dtm_parser cb = \<lparr>sp_type = ''DTM'', sp_parse = map_option cb \<circ> dtm_parse\<rparr>"

end
