(* ===== verification/Nmea_Builders.thy ===== *)
theory Nmea_Builders
  imports Nmea_Messages
begin

text \<open>
  The sentence builders of the generator besides the satellites in view: their inputs
  (\<open>generator/nmea_sentence_inputs.h\<close>) and \<open>prepare\<close> and \<open>build\<close> of each
  (\<open>generator/builders/*_builder.cpp\<close>). The builders hold a reference to the generator's formatter; the two
  settings of the formatter are an argument of \<open>build\<close> here.
\<close>

section \<open>Inputs\<close>

record gga_input =
  gga_in_hour :: u8
  gga_in_minute :: u8
  gga_in_second :: u8
  gga_in_millisecond :: u32
  gga_in_latitude_deg :: dbl
  gga_in_longitude_deg :: dbl
  gga_in_fix_quality :: u8
  gga_in_num_satellites :: u8
  gga_in_hdop :: dbl
  gga_in_altitude_msl_m :: dbl
  gga_in_geoid_sep_m :: dbl
  gga_in_dgps_age_s :: dbl
  gga_in_dgps_station_id :: u16
  gga_in_valid :: bool

definition gga_input_new :: gga_input where
  "gga_input_new = \<lparr>gga_in_hour = 0, gga_in_minute = 0, gga_in_second = 0, gga_in_millisecond = 0,
     gga_in_latitude_deg = dzero, gga_in_longitude_deg = dzero, gga_in_fix_quality = 0,
     gga_in_num_satellites = 0, gga_in_hdop = dzero, gga_in_altitude_msl_m = dzero,
     gga_in_geoid_sep_m = dzero, gga_in_dgps_age_s = minus_one, gga_in_dgps_station_id = 0,
     gga_in_valid = False\<rparr>"

record rmc_input =
  rmc_in_hour :: u8
  rmc_in_minute :: u8
  rmc_in_second :: u8
  rmc_in_millisecond :: u32
  rmc_in_status_active :: bool
  rmc_in_latitude_deg :: dbl
  rmc_in_longitude_deg :: dbl
  rmc_in_speed_knots :: dbl
  rmc_in_course_true :: dbl
  rmc_in_day :: u8
  rmc_in_month :: u8
  rmc_in_year :: u16
  rmc_in_mag_variation :: dbl
  rmc_in_mag_var_valid :: bool
  rmc_in_mode :: char
  rmc_in_valid :: bool

definition rmc_input_new :: rmc_input where
  "rmc_input_new = \<lparr>rmc_in_hour = 0, rmc_in_minute = 0, rmc_in_second = 0, rmc_in_millisecond = 0,
     rmc_in_status_active = False, rmc_in_latitude_deg = dzero, rmc_in_longitude_deg = dzero,
     rmc_in_speed_knots = dzero, rmc_in_course_true = dzero, rmc_in_day = 0, rmc_in_month = 0,
     rmc_in_year = 0, rmc_in_mag_variation = dzero, rmc_in_mag_var_valid = False, rmc_in_mode = CHR ''N'',
     rmc_in_valid = False\<rparr>"

record gsa_input =
  gsa_in_op_mode :: char
  gsa_in_nav_mode :: u8
  gsa_in_sat_ids :: "u8 list"
  gsa_in_pdop :: dbl
  gsa_in_hdop :: dbl
  gsa_in_vdop :: dbl
  gsa_in_system_id :: u8
  gsa_in_valid :: bool

definition gsa_input_new :: gsa_input where
  "gsa_input_new = \<lparr>gsa_in_op_mode = CHR ''A'', gsa_in_nav_mode = 1, gsa_in_sat_ids = replicate 12 0,
     gsa_in_pdop = dzero, gsa_in_hdop = dzero, gsa_in_vdop = dzero, gsa_in_system_id = 0,
     gsa_in_valid = False\<rparr>"

record vtg_input =
  vtg_in_course_true :: dbl
  vtg_in_course_mag :: dbl
  vtg_in_course_mag_valid :: bool
  vtg_in_speed_knots :: dbl
  vtg_in_speed_kmh :: dbl
  vtg_in_mode :: char
  vtg_in_valid :: bool

definition vtg_input_new :: vtg_input where
  "vtg_input_new = \<lparr>vtg_in_course_true = dzero, vtg_in_course_mag = dzero, vtg_in_course_mag_valid = False,
     vtg_in_speed_knots = dzero, vtg_in_speed_kmh = dzero, vtg_in_mode = CHR ''N'', vtg_in_valid = False\<rparr>"

record gll_input =
  gll_in_latitude_deg :: dbl
  gll_in_longitude_deg :: dbl
  gll_in_hour :: u8
  gll_in_minute :: u8
  gll_in_second :: u8
  gll_in_millisecond :: u32
  gll_in_status_active :: bool
  gll_in_mode :: char
  gll_in_valid :: bool

definition gll_input_new :: gll_input where
  "gll_input_new = \<lparr>gll_in_latitude_deg = dzero, gll_in_longitude_deg = dzero, gll_in_hour = 0,
     gll_in_minute = 0, gll_in_second = 0, gll_in_millisecond = 0, gll_in_status_active = False,
     gll_in_mode = CHR ''N'', gll_in_valid = False\<rparr>"

record zda_input =
  zda_in_hour :: u8
  zda_in_minute :: u8
  zda_in_second :: u8
  zda_in_millisecond :: u32
  zda_in_day :: u8
  zda_in_month :: u8
  zda_in_year :: u16
  zda_in_tz_hour :: i8
  zda_in_tz_min :: u8
  zda_in_valid :: bool

definition zda_input_new :: zda_input where
  "zda_input_new = \<lparr>zda_in_hour = 0, zda_in_minute = 0, zda_in_second = 0, zda_in_millisecond = 0,
     zda_in_day = 0, zda_in_month = 0, zda_in_year = 0, zda_in_tz_hour = 0, zda_in_tz_min = 0,
     zda_in_valid = False\<rparr>"

section \<open>Formatter settings and builder state\<close>

record nmea_formatter =
  fmt_latlon_decimals :: int
  fmt_time_decimals :: int

text \<open>The members every builder has: those of the base class, the prepared input and its validity.\<close>

record 'i sentence_builder =
  sb_talker :: string
  sb_enabled :: bool
  sb_input :: 'i
  sb_input_valid :: bool

definition builder_new :: "'i \<Rightarrow> string \<Rightarrow> bool \<Rightarrow> 'i sentence_builder" where
  "builder_new input talker enabled =
     \<lparr>sb_talker = talker, sb_enabled = enabled, sb_input = input, sb_input_valid = False\<rparr>"

definition set_enabled :: "bool \<Rightarrow> 'i sentence_builder \<Rightarrow> 'i sentence_builder" where
  "set_enabled enabled b = b\<lparr>sb_enabled := enabled\<rparr>"

definition set_talker :: "string \<Rightarrow> 'i sentence_builder \<Rightarrow> 'i sentence_builder" where
  "set_talker t b = b\<lparr>sb_talker := t\<rparr>"

definition gga_prepare :: "gga_input \<Rightarrow> gga_input sentence_builder \<Rightarrow> gga_input sentence_builder" where
  "gga_prepare input b = b\<lparr>sb_input := input, sb_input_valid := gga_in_valid input\<rparr>"

definition rmc_prepare :: "rmc_input \<Rightarrow> rmc_input sentence_builder \<Rightarrow> rmc_input sentence_builder" where
  "rmc_prepare input b = b\<lparr>sb_input := input, sb_input_valid := rmc_in_valid input\<rparr>"

definition gsa_prepare :: "gsa_input \<Rightarrow> gsa_input sentence_builder \<Rightarrow> gsa_input sentence_builder" where
  "gsa_prepare input b = b\<lparr>sb_input := input, sb_input_valid := gsa_in_valid input\<rparr>"

definition vtg_prepare :: "vtg_input \<Rightarrow> vtg_input sentence_builder \<Rightarrow> vtg_input sentence_builder" where
  "vtg_prepare input b = b\<lparr>sb_input := input, sb_input_valid := vtg_in_valid input\<rparr>"

definition gll_prepare :: "gll_input \<Rightarrow> gll_input sentence_builder \<Rightarrow> gll_input sentence_builder" where
  "gll_prepare input b = b\<lparr>sb_input := input, sb_input_valid := gll_in_valid input\<rparr>"

definition zda_prepare :: "zda_input \<Rightarrow> zda_input sentence_builder \<Rightarrow> zda_input sentence_builder" where
  "zda_prepare input b = b\<lparr>sb_input := input, sb_input_valid := zda_in_valid input\<rparr>"

section \<open>Building\<close>

definition gga_build :: "nmea_formatter \<Rightarrow> gga_input sentence_builder \<Rightarrow> string" where
  "gga_build fmt b =
     (if \<not> sb_enabled b \<or> \<not> sb_input_valid b then []
      else let d = sb_input b in
        assemble (sb_talker b) ''GGA''
          (format_utc_time (fmt_time_decimals fmt) (gga_in_hour d) (gga_in_minute d) (gga_in_second d)
             (gga_in_millisecond d) @ '','' @
           format_latitude (fmt_latlon_decimals fmt) (gga_in_latitude_deg d) @ '','' @
           [ns_indicator (gga_in_latitude_deg d)] @ '','' @
           format_longitude (fmt_latlon_decimals fmt) (gga_in_longitude_deg d) @ '','' @
           [ew_indicator (gga_in_longitude_deg d)] @ '','' @
           format_int (ucast (gga_in_fix_quality d)) 0 @ '','' @
           format_int (ucast (gga_in_num_satellites d)) 2 @ '','' @
           (if dbl_less dzero (gga_in_hdop d) then format_double (gga_in_hdop d) 1 else []) @ '','' @
           format_double (gga_in_altitude_msl_m d) 1 @ '','' @ ''M'' @ '','' @
           format_double (gga_in_geoid_sep_m d) 1 @ '','' @ ''M'' @ '','' @
           (if dbl_le dzero (gga_in_dgps_age_s d) then format_double (gga_in_dgps_age_s d) 1 else []) @ '','' @
           (if dbl_le dzero (gga_in_dgps_age_s d) then format_int (ucast (gga_in_dgps_station_id d)) 0 else [])))"

definition rmc_build :: "nmea_formatter \<Rightarrow> rmc_input sentence_builder \<Rightarrow> string" where
  "rmc_build fmt b =
     (if \<not> sb_enabled b \<or> \<not> sb_input_valid b then []
      else let d = sb_input b in
        assemble (sb_talker b) ''RMC''
          (format_utc_time (fmt_time_decimals fmt) (rmc_in_hour d) (rmc_in_minute d) (rmc_in_second d)
             (rmc_in_millisecond d) @ '','' @
           [if rmc_in_status_active d then CHR ''A'' else CHR ''V''] @ '','' @
           format_latitude (fmt_latlon_decimals fmt) (rmc_in_latitude_deg d) @ '','' @
           [ns_indicator (rmc_in_latitude_deg d)] @ '','' @
           format_longitude (fmt_latlon_decimals fmt) (rmc_in_longitude_deg d) @ '','' @
           [ew_indicator (rmc_in_longitude_deg d)] @ '','' @
           format_double (rmc_in_speed_knots d) 2 @ '','' @
           format_double (rmc_in_course_true d) 2 @ '','' @
           format_date (rmc_in_day d) (rmc_in_month d) (rmc_in_year d) @ '','' @
           (if rmc_in_mag_var_valid d
            then format_double (dbl_abs (rmc_in_mag_variation d)) 1 @ '','' @
              [if dbl_le dzero (rmc_in_mag_variation d) then CHR ''E'' else CHR ''W'']
            else '','') @ '','' @
           [rmc_in_mode d]))"

definition gsa_build :: "nmea_formatter \<Rightarrow> gsa_input sentence_builder \<Rightarrow> string" where
  "gsa_build fmt b =
     (if \<not> sb_enabled b \<or> \<not> sb_input_valid b then []
      else let d = sb_input b in
        assemble (sb_talker b) ''GSA''
          ([gsa_in_op_mode d] @ '','' @
           format_int (ucast (gsa_in_nav_mode d)) 0 @ '','' @
           concat (map (\<lambda>i. (if gsa_in_sat_ids d ! i \<noteq> 0 then format_int (ucast (gsa_in_sat_ids d ! i)) 2 else [])
             @ (if i < 11 then '','' else [])) [0..<12]) @ '','' @
           (if dbl_less dzero (gsa_in_pdop d) then format_double (gsa_in_pdop d) 2 else []) @ '','' @
           (if dbl_less dzero (gsa_in_hdop d) then format_double (gsa_in_hdop d) 2 else []) @ '','' @
           (if dbl_less dzero (gsa_in_vdop d) then format_double (gsa_in_vdop d) 2 else []) @
           (if gsa_in_system_id d \<noteq> 0 then '','' @ format_int (ucast (gsa_in_system_id d)) 0 else [])))"

definition vtg_build :: "nmea_formatter \<Rightarrow> vtg_input sentence_builder \<Rightarrow> string" where
  "vtg_build fmt b =
     (if \<not> sb_enabled b \<or> \<not> sb_input_valid b then []
      else let d = sb_input b in
        assemble (sb_talker b) ''VTG''
          (format_double (vtg_in_course_true d) 2 @ '','' @ ''T'' @ '','' @
           (if vtg_in_course_mag_valid d then format_double (vtg_in_course_mag d) 2 else []) @ '','' @ ''M'' @ '','' @
           format_double (vtg_in_speed_knots d) 2 @ '','' @ ''N'' @ '','' @
           format_double (vtg_in_speed_kmh d) 2 @ '','' @ ''K'' @ '','' @
           [vtg_in_mode d]))"

definition gll_build :: "nmea_formatter \<Rightarrow> gll_input sentence_builder \<Rightarrow> string" where
  "gll_build fmt b =
     (if \<not> sb_enabled b \<or> \<not> sb_input_valid b then []
      else let d = sb_input b in
        assemble (sb_talker b) ''GLL''
          (format_latitude (fmt_latlon_decimals fmt) (gll_in_latitude_deg d) @ '','' @
           [ns_indicator (gll_in_latitude_deg d)] @ '','' @
           format_longitude (fmt_latlon_decimals fmt) (gll_in_longitude_deg d) @ '','' @
           [ew_indicator (gll_in_longitude_deg d)] @ '','' @
           format_utc_time (fmt_time_decimals fmt) (gll_in_hour d) (gll_in_minute d) (gll_in_second d)
             (gll_in_millisecond d) @ '','' @
           [if gll_in_status_active d then CHR ''A'' else CHR ''V''] @ '','' @
           [gll_in_mode d]))"

definition zda_build :: "nmea_formatter \<Rightarrow> zda_input sentence_builder \<Rightarrow> string" where
  "zda_build fmt b =
     (if \<not> sb_enabled b \<or> \<not> sb_input_valid b then []
      else let d = sb_input b in
        assemble (sb_talker b) ''ZDA''
          (format_utc_time (fmt_time_decimals fmt) (zda_in_hour d) (zda_in_minute d) (zda_in_second d)
             (zda_in_millisecond d) @ '','' @
           format_int (ucast (zda_in_day d)) 2 @ '','' @
           format_int (ucast (zda_in_month d)) 2 @ '','' @
           format_int (ucast (zda_in_year d)) 4 @ '','' @
           format_int (scast (zda_in_tz_hour d)) 2 @ '','' @
           format_int (ucast (zda_in_tz_min d)) 2))"

end
