(* ===== verification/Nmea_Codecs.thy ===== *)
theory Nmea_Codecs
  imports Nmea_Builders
begin

text \<open>
  What a builder writes, its parser reads back: the contract of a pair of builder and parser as a locale,
  and its instances for the six sentences that the generator makes of one input each. Integers, characters and
  dates return exactly, a number with \<open>p\<close> decimals as the \<open>double\<close> nearest to the printed decimal,
  a coordinate within \<open>position_error\<close>.
\<close>

section \<open>Numbers with a fixed number of decimals\<close>

definition decimal_read :: "nat \<Rightarrow> dbl \<Rightarrow> dbl" where
  "decimal_read p d =
     (case d of Finite neg x \<Rightarrow> dbl_signed neg (of_nat (nat (round_half_even (x * 10 ^ p))) / 10 ^ p)
      | _ \<Rightarrow> d)"

text \<open>Values whose text with \<open>p\<close> decimals has at most eleven characters.\<close>

definition decimal_ok :: "nat \<Rightarrow> dbl \<Rightarrow> bool" where
  "decimal_ok p d \<longleftrightarrow> (case d of Finite neg x \<Rightarrow> 0 \<le> x \<and> x < 10 ^ (8 - p) | _ \<Rightarrow> False)"

lemma numeric_field_ok:
  assumes "length f \<le> 11" and "\<forall>c \<in> set f. is_digit c \<or> c = CHR ''.'' \<or> c = CHR ''-''"
  shows "field_ok f"
proof -
  have "\<forall>c \<in> set digits. plain c \<and> c \<noteq> CHR '',''" by (simp add: digits_def plain_def)
  moreover have "plain CHR ''.''" "plain CHR ''-''" by (simp_all add: plain_def)
  ultimately show ?thesis using assms unfolding field_ok_def is_digit_def by auto
qed

lemma digits_set: "list_all is_digit ds \<Longrightarrow> c \<in> set ds \<Longrightarrow> is_digit c"
  by (simp add: list_all_iff)

lemma print_fixed_text:
  assumes "0 < p" and "p \<le> 8" and "0 \<le> x" and "x < 10 ^ (8 - p)"
  defines "n \<equiv> nat (round_half_even (x * 10 ^ p))"
  shows "print_fixed p x = nat_digits (n div 10 ^ p) @ CHR ''.'' # sprint_uint p (n mod 10 ^ p)"
    and "length (print_fixed p x) \<le> 10" and "length (sprint_uint p (n mod 10 ^ p)) = p"
proof -
  show t: "print_fixed p x = nat_digits (n div 10 ^ p) @ CHR ''.'' # sprint_uint p (n mod 10 ^ p)"
    using assms(1) by (simp add: print_fixed_def n_def Let_def)
  show l: "length (sprint_uint p (n mod 10 ^ p)) = p"
    using assms(1) by (intro length_sprint_uint) simp_all
  have "x * 10 ^ p < 10 ^ (8 - p) * 10 ^ p" using assms(4) by simp
  also have "\<dots> = (10 :: rat) ^ 8" using assms(2) by (simp flip: power_add)
  finally have "of_int (round_half_even (x * 10 ^ p)) < (10 ^ 8 + 1 :: rat)"
    using round_half_even_near [of "x * 10 ^ p"] by linarith
  then have "of_int (round_half_even (x * 10 ^ p)) < (of_int (10 ^ 8 + 1) :: rat)" by simp
  then have "n \<le> 10 ^ 8" unfolding of_int_less_iff n_def by simp
  also have "(10 :: nat) ^ 8 = 10 ^ (8 - p) * 10 ^ p" using assms(2) by (simp flip: power_add)
  finally have "n div 10 ^ p \<le> 10 ^ (8 - p)" using div_le_mono [of n "10 ^ (8 - p) * 10 ^ p" "10 ^ p"] by simp
  also have "\<dots> < (10 :: nat) ^ Suc (8 - p)" by simp
  finally have "length (nat_digits (n div 10 ^ p)) \<le> Suc (8 - p)" by (intro nat_digits_length) simp_all
  then show "length (print_fixed p x) \<le> 10" using assms(2) by (simp add: t l)
qed

lemma format_double_decimal:
  assumes "decimal_ok p d" and "0 < p" and "p \<le> 8"
  shows "parse_double (format_double d (int p)) = Some (decimal_read p d)"
    and "field_ok (format_double d (int p))" and "format_double d (int p) \<noteq> []"
proof -
  obtain neg x where d: "d = Finite neg x" "0 \<le> x" "x < 10 ^ (8 - p)"
    using assms(1) by (auto simp: decimal_ok_def split: dbl.splits)
  define n where "n = nat (round_half_even (x * 10 ^ p))"
  note t = print_fixed_text [OF assms(2,3) d(2,3), folded n_def]
  have short: "length (sign_text neg @ print_fixed p x) \<le> 11" using t(2) by (simp add: sign_text_def)
  then have f: "format_double d (int p) = sign_text neg @ print_fixed p x"
    by (simp add: format_double_def dbl_fixed_def d(1))
  have "digits_value (nat_digits (n div 10 ^ p) @ sprint_uint p (n mod 10 ^ p)) = n div 10 ^ p * 10 ^ p + n mod 10 ^ p"
    by (simp add: digits_value_append t(3))
  also have "\<dots> = n" by (rule div_mult_mod_eq)
  finally have "digits_value (nat_digits (n div 10 ^ p) @ sprint_uint p (n mod 10 ^ p)) = n" .
  then show "parse_double (format_double d (int p)) = Some (decimal_read p d)"
    unfolding f t(1) by (subst parse_double_digits) (simp_all add: decimal_read_def d(1) n_def t(3) [unfolded n_def])
  have "\<forall>c \<in> set (format_double d (int p)). is_digit c \<or> c = CHR ''.'' \<or> c = CHR ''-''"
    unfolding f t(1) using digits_set [OF nat_digits_ok(2)] digits_set [OF sprint_uint_digits]
    by (auto simp: sign_text_def)
  then show "field_ok (format_double d (int p))" using short by (intro numeric_field_ok) (simp_all add: f)
  show "format_double d (int p) \<noteq> []" by (simp add: f t(1))
qed

lemmas one_decimal = format_double_decimal [of 1, simplified] and two_decimals = format_double_decimal [of 2, simplified]

section \<open>Times, dates, identifiers\<close>

definition time_ok :: "u8 \<Rightarrow> u8 \<Rightarrow> u8 \<Rightarrow> bool" where
  "time_ok h m s \<longleftrightarrow> unat h < 100 \<and> unat m < 100 \<and> unat s < 100"

text \<open>The fraction of the second is cut to hundredths or to tenths.\<close>

definition time_read :: "int \<Rightarrow> u8 \<Rightarrow> u8 \<Rightarrow> u8 \<Rightarrow> u32 \<Rightarrow> dbl" where
  "time_read time_decimals h m s ms =
     dbl_signed False (of_nat (unat h * 10000 + unat m * 100 + unat s)
       + (if time_decimals \<ge> 2 then of_nat (unat ms div 10 mod 100) / 100 else of_nat (unat ms div 100 mod 10) / 10))"

lemma format_utc_time_read:
  assumes "time_ok h m s"
  shows "parse_utc_time (format_utc_time tp h m s ms) = Some (time_read tp h m s ms)"
    and "field_ok (format_utc_time tp h m s ms)" and "format_utc_time tp h m s ms \<noteq> []"
proof -
  define w c where wc: "w = (if tp \<ge> 2 then 2 else 1 :: nat)"
    "c = (if tp \<ge> 2 then unat ms div 10 mod 100 else unat ms div 100 mod 10)"
  let ?i = "sprint_uint 2 (unat h) @ sprint_uint 2 (unat m) @ sprint_uint 2 (unat s)"
  have l: "length (sprint_uint 2 (unat h)) = 2" "length (sprint_uint 2 (unat m)) = 2" "length (sprint_uint 2 (unat s)) = 2"
    using assms by (simp_all add: time_ok_def length_sprint_uint)
  have w: "0 < w" "w \<le> 2" and c: "c < 10 ^ w" by (simp_all add: wc)
  then have lc: "length (sprint_uint w c) = w" by (intro length_sprint_uint)
  have f: "format_utc_time tp h m s ms = ?i @ CHR ''.'' # sprint_uint w c"
    using l lc w by (auto simp: format_utc_time_def Let_def wc unat_div unat_mod)
  have "parse_double (sign_text False @ ?i @ CHR ''.'' # sprint_uint w c) = Some (time_read tp h m s ms)"
  proof (subst parse_double_digits)
    define a where "a = unat h * 10000 + unat m * 100 + unat s"
    have "digits_value (?i @ sprint_uint w c) = a * 10 ^ w + c"
      by (simp add: digits_value_append l lc algebra_simps power_add a_def)
    moreover have "of_nat (a * 10 ^ w + c) / 10 ^ w = (of_nat a + of_nat c / 10 ^ w :: rat)"
      by (simp add: add_divide_distrib)
    moreover have "time_read tp h m s ms = dbl_signed False (of_nat a + of_nat c / 10 ^ w)"
      by (cases "tp \<ge> 2") (simp_all add: time_read_def a_def wc)
    ultimately show "Some (dbl_signed False (of_nat (digits_value (?i @ sprint_uint w c)) / 10 ^ length (sprint_uint w c)))
        = Some (time_read tp h m s ms)"
      by (simp only: lc)
  qed (simp_all add: sprint_uint_def [of 2])
  then show "parse_utc_time (format_utc_time tp h m s ms) = Some (time_read tp h m s ms)"
    unfolding f by (simp add: parse_utc_time_def sign_text_def)
  have "\<forall>c \<in> set (?i @ CHR ''.'' # sprint_uint w c). is_digit c \<or> c = CHR ''.'' \<or> c = CHR ''-''"
    using digits_set [OF sprint_uint_digits] by auto
  then show "field_ok (format_utc_time tp h m s ms)" unfolding f
    using l lc w by (intro numeric_field_ok) simp_all
  show "format_utc_time tp h m s ms \<noteq> []" by (simp add: f)
qed

definition date_read :: "u8 \<Rightarrow> u8 \<Rightarrow> u16 \<Rightarrow> u32" where
  "date_read day month year = of_nat (unat day mod 100 * 10000 + unat month mod 100 * 100 + unat year mod 100)"

lemma ucast_of_nat64: "(ucast (of_nat n :: u64) :: u32) = of_nat n"
  by (rule bit_word_eqI) (simp add: bit_simps)

lemma strtoul_digits:
  assumes "list_all is_digit ds" "ds \<noteq> []" "digits_value ds < 2 ^ 64"
  shows "strtoul ds = Some (of_nat (digits_value ds))"
  using assms by (simp add: strtoul_def strto_parts_digits)

lemma format_date_read:
  "parse_utc_date (format_date d m y) = Some (date_read d m y)"
  "field_ok (format_date d m y)" "format_date d m y \<noteq> []"
proof -
  let ?ds = "sprint_uint 2 (unat d mod 100) @ sprint_uint 2 (unat m mod 100) @ sprint_uint 2 (unat y mod 100)"
  have l: "length (sprint_uint 2 (n mod 100)) = 2" for n by (intro length_sprint_uint) simp_all
  have f: "format_date d m y = ?ds" by (simp add: format_date_def l)
  have ne: "?ds \<noteq> []" by (simp add: sprint_uint_def)
  have v: "digits_value ?ds = unat d mod 100 * 10000 + unat m mod 100 * 100 + unat y mod 100"
    by (simp add: digits_value_append l algebra_simps)
  have "unat d mod 100 < 100" "unat m mod 100 < 100" "unat y mod 100 < 100" by simp_all
  then have "digits_value ?ds < 2 ^ 64" unfolding v by simp
  then have "strtoul ?ds = Some (of_nat (digits_value ?ds))" using ne by (intro strtoul_digits) simp_all
  then show "parse_utc_date (format_date d m y) = Some (date_read d m y)"
    unfolding f parse_utc_date_def parse_uint_def date_read_def v by (simp only: ne if_False option.case ucast_of_nat64)
  show "format_date d m y \<noteq> []" using ne f by simp
  have "\<forall>c \<in> set ?ds. is_digit c \<or> c = CHR ''.'' \<or> c = CHR ''-''"
    using digits_set [OF sprint_uint_digits] by auto
  then show "field_ok (format_date d m y)" unfolding f by (intro numeric_field_ok) (simp_all add: l)
qed

lemma parse_uint_format_int:
  fixes v :: u16
  shows "parse_uint (format_int (ucast v) 0) = Some (ucast v)"
proof -
  have v: "unat v < 65536" and "0 \<le> uint v" "uint v < 65536" using unsigned_less [of v] by simp_all
  moreover from this have "- 2147483648 \<le> uint v" by linarith
  ultimately have "take_bit 32 (uint v) = uint v" "signed_take_bit 31 (uint v) = uint v"
    by (simp_all add: take_bit_int_eq_self signed_take_bit_int_eq_self)
  then have s: "sint (ucast v :: i32) = int (unat v)"
    by (simp add: sint_uint unsigned_ucast_eq)
  have f: "format_int (ucast v) 0 = nat_digits (unat v)"
    by (simp add: format_int_sprint s sprint_int_def)
  have "unat v < 2 ^ 64" using v by (rule order_less_trans) simp
  then have "strtoul (nat_digits (unat v)) = Some (of_nat (unat v))"
    using strtoul_digits [of "nat_digits (unat v)"] by simp
  moreover have "(of_nat (unat v) :: u32) = ucast v" by simp
  ultimately show ?thesis by (simp only: f parse_uint_def ucast_of_nat64 option.case) (simp add: nat_digits_ok)
qed

section \<open>Coordinates\<close>

definition angle_ok :: "dbl \<Rightarrow> bool" where
  "angle_ok d \<longleftrightarrow> (case d of Finite neg x \<Rightarrow> 0 \<le> x \<and> x < 1000 | _ \<Rightarrow> False)"

definition fmt_ok :: "nmea_formatter \<Rightarrow> bool" where
  "fmt_ok fmt \<longleftrightarrow> 0 < fmt_latlon_decimals fmt \<and> fmt_latlon_decimals fmt \<le> 5"

definition near :: "nmea_formatter \<Rightarrow> dbl \<Rightarrow> dbl \<Rightarrow> bool" where
  "near fmt d m \<longleftrightarrow>
     (case d of Finite s x \<Rightarrow> (case m of
          Finite t y \<Rightarrow> \<bar>dbl_value t y - dbl_value s x\<bar> \<le> position_error (nat (fmt_latlon_decimals fmt))
        | _ \<Rightarrow> False)
      | _ \<Rightarrow> False)"

lemma degrees_received:
  assumes "angle_ok d" and "fmt_ok fmt" and "0 < w" "w \<le> 3"
    and dir: "dir \<in> {CHR ''S'', CHR ''s'', CHR ''W'', CHR ''w''} \<longleftrightarrow> \<not> dbl_le dzero d"
  shows "\<exists>m. parse_latlon (format_degrees w (fmt_latlon_decimals fmt) d) [dir] = Some m \<and> near fmt d m"
    and "field_ok (format_degrees w (fmt_latlon_decimals fmt) d)"
proof -
  obtain neg x where d: "d = Finite neg x" "0 \<le> x" "x < 1000"
    using assms(1) by (auto simp: angle_ok_def split: dbl.splits)
  define p where "p = nat (fmt_latlon_decimals fmt)"
  then have p: "fmt_latlon_decimals fmt = int p" "0 < p" "p \<le> 5"
    using assms(2) unfolding fmt_ok_def by linarith+
  then have "p \<le> 8" by simp
  note bounds = d(2,3) p(2) this
  have south: "\<not> dbl_le dzero d \<longleftrightarrow> neg \<and> 0 < x" using d(2) by (auto simp: d(1) dbl_value_def)
  obtain v where v: "parse_latlon (format_degrees w (int p) d) [dir] = Some (Finite (neg \<and> 0 < x) v)"
    and close: "0 \<le> v" "\<bar>v - x\<bar> \<le> position_error p"
    using parse_format_degrees [OF bounds assms(3,4), of neg "[dir]"] unfolding d(1) [symmetric]
    using dir south by auto
  have "near fmt d (Finite (neg \<and> 0 < x) v)"
    using close d(2) by (auto simp: near_def d(1) dbl_value_def p_def abs_minus_commute)
  with v show "\<exists>m. parse_latlon (format_degrees w (fmt_latlon_decimals fmt) d) [dir] = Some m \<and> near fmt d m"
    by (simp add: p(1))
  let ?n = "printed_minutes p x"
  have "\<lfloor>x\<rfloor> < 1000" using d(3) by linarith
  then have "whole_degrees x < 10 ^ 3" by (simp add: whole_degrees_def nat_less_iff d(2))
  then have "length (sprint_uint w (whole_degrees x)) \<le> 3"
    using nat_digits_length [of "whole_degrees x" 3] assms(4) by (simp add: sprint_uint_def)
  moreover have "length (sprint_uint 2 (?n div 10 ^ p)) \<le> 2"
    using nat_digits_length [of "?n div 10 ^ p" 2] div_le_mono [OF printed_minutes_near(2) [OF bounds(3,4)], of x "10 ^ p"]
    by (simp add: sprint_uint_def)
  moreover have "length (sprint_uint p (?n mod 10 ^ p)) = p" using p(2) by (intro length_sprint_uint) simp_all
  ultimately show "field_ok (format_degrees w (fmt_latlon_decimals fmt) d)"
    unfolding p(1) d(1) format_degrees_text [OF bounds assms(4)] using p(3) digits_set [OF sprint_uint_digits]
    by (intro numeric_field_ok) auto
qed

lemma latitude_received:
  assumes "angle_ok d" and "fmt_ok fmt"
  shows "\<exists>m. parse_latlon (format_latitude (fmt_latlon_decimals fmt) d) [ns_indicator d] = Some m \<and> near fmt d m"
    and "field_ok (format_latitude (fmt_latlon_decimals fmt) d)"
  unfolding format_latitude_def
  by (rule degrees_received [OF assms, of _ "ns_indicator d"]; simp add: ns_indicator_def)+

lemma longitude_received:
  assumes "angle_ok d" and "fmt_ok fmt"
  shows "\<exists>m. parse_latlon (format_longitude (fmt_latlon_decimals fmt) d) [ew_indicator d] = Some m \<and> near fmt d m"
    and "field_ok (format_longitude (fmt_latlon_decimals fmt) d)"
  unfolding format_longitude_def
  by (rule degrees_received [OF assms, of _ "ew_indicator d"]; simp add: ew_indicator_def)+

section \<open>The contract of a builder and its parser\<close>

text \<open>A sentence on the wire that the dispatcher answers with the given events.\<close>

definition delivers :: "'m nmea_parser \<Rightarrow> string \<Rightarrow> 'm nmea_event list \<Rightarrow> bool" where
  "delivers p s es \<longleftrightarrow> (\<exists>talker type fs. s = assemble talker type (join_fields fs)
     \<and> well_formed talker type fs \<and> nmea_dispatch p (valid_sentence talker type fs) = es)"

lemma delivers_all:
  assumes "nmea_idle p" and "list_all2 (delivers p) ss ess"
  shows "snd (nmea_feed p (map byte_of (concat ss))) = concat ess"
proof -
  have "\<exists>items. ss = map (\<lambda>(noise, talker, type, fs). noise @ assemble talker type (join_fields fs)) items
      \<and> (\<forall>(noise, talker, type, fs) \<in> set items. CHR ''$'' \<notin> set noise \<and> well_formed talker type fs)
      \<and> ess = map (\<lambda>(noise, talker, type, fs). nmea_dispatch p (valid_sentence talker type fs)) items"
    using assms(2)
  proof (induction rule: list_all2_induct)
    case Nil
    show ?case by (intro exI [of _ "[]"]) simp
  next
    case (Cons s ss es ess)
    from Cons(1) obtain talker type fs where
      "s = assemble talker type (join_fields fs)" "well_formed talker type fs"
      "nmea_dispatch p (valid_sentence talker type fs) = es"
      unfolding delivers_def by blast
    moreover from Cons(3) obtain items where
      "ss = map (\<lambda>(noise, talker, type, fs). noise @ assemble talker type (join_fields fs)) items"
      "\<forall>(noise, talker, type, fs) \<in> set items. CHR ''$'' \<notin> set noise \<and> well_formed talker type fs"
      "ess = map (\<lambda>(noise, talker, type, fs). nmea_dispatch p (valid_sentence talker type fs)) items"
      by blast
    ultimately show ?case by (intro exI [of _ "([], talker, type, fs) # items"]) simp
  qed
  then obtain items where
    ss: "ss = map (\<lambda>(noise, talker, type, fs). noise @ assemble talker type (join_fields fs)) items" and
    ok: "\<forall>(noise, talker, type, fs) \<in> set items. CHR ''$'' \<notin> set noise \<and> well_formed talker type fs" and
    ess: "ess = map (\<lambda>(noise, talker, type, fs). nmea_dispatch p (valid_sentence talker type fs)) items"
    by blast
  show ?thesis unfolding ss ess by (rule assembled_feed_events [OF assms(1) ok])
qed

lemma well_formed_fields:
  assumes "talker_ok t" and "length ident = 3" and "\<forall>c \<in> set ident. plain c \<and> c \<noteq> CHR '',''"
    and "fs \<noteq> []" and "length fs \<le> 18" and "\<forall>f \<in> set fs. field_ok f"
  shows "well_formed t ident fs"
proof -
  have "length (join_fields fs) \<le> Suc 11 * length fs"
    using assms(6) unfolding field_ok_def by (intro length_join_fields) blast
  also have "\<dots> \<le> 12 * 18" using assms(5) by simp
  finally have "length (t @ ident @ '','' @ join_fields fs) \<le> NMEA_BUFFER_LEN"
    using assms(1,2) by (simp add: NMEA_BUFFER_LEN_def talker_ok_def)
  moreover have "\<forall>f \<in> set fs. \<forall>c \<in> set f. plain c \<and> c \<noteq> CHR '',''" using assms(6) unfolding field_ok_def by blast
  ultimately show ?thesis using assms(1-4) unfolding well_formed_def talker_ok_def set_append by auto
qed

locale sentence_codec =
  fixes prepare :: "'i \<Rightarrow> 'i sentence_builder \<Rightarrow> 'i sentence_builder"
    and build :: "nmea_formatter \<Rightarrow> 'i sentence_builder \<Rightarrow> string"
    and parse :: "nmea_sentence \<Rightarrow> 'r option"
    and ident :: string
    and content :: "nmea_formatter \<Rightarrow> 'i \<Rightarrow> string list"
    and input_ok :: "'i \<Rightarrow> bool"
    and agrees :: "nmea_formatter \<Rightarrow> string \<Rightarrow> 'i \<Rightarrow> 'r \<Rightarrow> bool"
  assumes built: "input_ok d \<Longrightarrow> sb_enabled b \<Longrightarrow>
      build fmt (prepare d b) = assemble (sb_talker b) ident (join_fields (content fmt d))"
    and ident_ok: "length ident = 3 \<and> (\<forall>c \<in> set ident. plain c \<and> c \<noteq> CHR '','')"
    and content_ok: "input_ok d \<Longrightarrow> fmt_ok fmt \<Longrightarrow>
      content fmt d \<noteq> [] \<and> length (content fmt d) \<le> 18 \<and> (\<forall>f \<in> set (content fmt d). field_ok f)"
    and parsed: "input_ok d \<Longrightarrow> fmt_ok fmt \<Longrightarrow> sen_fields s = content fmt d \<Longrightarrow>
      \<exists>m. parse s = Some m \<and> agrees fmt (sen_talker s) d m"
begin

lemma delivered:
  assumes "input_ok d" and "fmt_ok fmt" and "sb_enabled b" and "talker_ok (sb_talker b)"
    and "\<not> np_raw_cb p" and "nmea_registry_find (np_registry p) ident = [\<lparr>sp_type = ident, sp_parse = map_option cb \<circ> parse\<rparr>]"
  shows "\<exists>m. agrees fmt (sb_talker b) d m \<and> delivers p (build fmt (prepare d b)) [Sentence_callback (cb m)]"
proof -
  let ?s = "valid_sentence (sb_talker b) ident (content fmt d)"
  have "well_formed (sb_talker b) ident (content fmt d)"
    using content_ok [OF assms(1,2)] ident_ok assms(4) by (intro well_formed_fields) simp_all
  moreover obtain m where "parse ?s = Some m" "agrees fmt (sb_talker b) d m"
    using parsed [OF assms(1,2), of ?s] by (auto simp: valid_sentence_def)
  moreover from this(1) have "nmea_dispatch p ?s = [Sentence_callback (cb m)]"
    using assms(5,6) by (simp add: nmea_dispatch_def Let_def valid_sentence_def)
  ultimately show ?thesis unfolding delivers_def built [OF assms(1,3)] by blast
qed

end

end
