(* ===== verification/Nmea_Roundtrips.thy ===== *)
theory Nmea_Roundtrips
  imports Nmea_Codecs
begin

text \<open>
  The six instances of \<open>sentence_codec\<close>. For each sentence: the fields of a built one, the inputs it is
  proved for (times with two digits, angles below 1000 degrees, numbers of at most eleven characters,
  mode letters that do not frame), and what its parser reports of the input.
\<close>

named_theorems codec_simps

declare format_utc_time_read [codec_simps] latitude_received(2) [codec_simps] longitude_received(2) [codec_simps]
  one_decimal [codec_simps] two_decimals [codec_simps] format_date_read [codec_simps]
  parse_uint_format_int [codec_simps] cast_back [codec_simps]

definition letter_ok :: "char \<Rightarrow> bool" where
  "letter_ok c \<longleftrightarrow> plain c \<and> c \<noteq> CHR '',''"

lemma letter_field [codec_simps]: "letter_ok c \<Longrightarrow> field_ok [c]"
  by (simp add: letter_ok_def field_ok_def)

lemma letters [codec_simps]:
  "letter_ok CHR ''A''" "letter_ok CHR ''E''" "letter_ok CHR ''K''" "letter_ok CHR ''M''" "letter_ok CHR ''N''"
  "letter_ok CHR ''S''" "letter_ok CHR ''T''" "letter_ok CHR ''V''" "letter_ok CHR ''W''"
  "letter_ok (ns_indicator d)" "letter_ok (ew_indicator d)"
  by (simp_all add: letter_ok_def plain_def ns_indicator_def ew_indicator_def)

lemma ident_letters:
  "\<forall>c \<in> set ''GGA'' \<union> set ''RMC'' \<union> set ''GSA'' \<union> set ''VTG'' \<union> set ''GLL'' \<union> set ''ZDA''. plain c \<and> c \<noteq> CHR '',''"
  by (simp add: plain_def)

section \<open>GGA\<close>

definition gga_content :: "nmea_formatter \<Rightarrow> gga_input \<Rightarrow> string list" where
  "gga_content fmt d =
     [format_utc_time (fmt_time_decimals fmt) (gga_in_hour d) (gga_in_minute d) (gga_in_second d) (gga_in_millisecond d),
      format_latitude (fmt_latlon_decimals fmt) (gga_in_latitude_deg d), [ns_indicator (gga_in_latitude_deg d)],
      format_longitude (fmt_latlon_decimals fmt) (gga_in_longitude_deg d), [ew_indicator (gga_in_longitude_deg d)],
      format_int (ucast (gga_in_fix_quality d)) 0, format_int (ucast (gga_in_num_satellites d)) 2,
      if dbl_less dzero (gga_in_hdop d) then format_double (gga_in_hdop d) 1 else [],
      format_double (gga_in_altitude_msl_m d) 1, ''M'', format_double (gga_in_geoid_sep_m d) 1, ''M'',
      if dbl_le dzero (gga_in_dgps_age_s d) then format_double (gga_in_dgps_age_s d) 1 else [],
      if dbl_le dzero (gga_in_dgps_age_s d) then format_int (ucast (gga_in_dgps_station_id d)) 0 else []]"

definition gga_ok :: "gga_input \<Rightarrow> bool" where
  "gga_ok d \<longleftrightarrow> gga_in_valid d \<and> time_ok (gga_in_hour d) (gga_in_minute d) (gga_in_second d)
     \<and> angle_ok (gga_in_latitude_deg d) \<and> angle_ok (gga_in_longitude_deg d)
     \<and> decimal_ok 1 (gga_in_hdop d) \<and> decimal_ok 1 (gga_in_altitude_msl_m d)
     \<and> decimal_ok 1 (gga_in_geoid_sep_m d) \<and> decimal_ok 1 (gga_in_dgps_age_s d)"

definition gga_agrees :: "nmea_formatter \<Rightarrow> string \<Rightarrow> gga_input \<Rightarrow> nmea_gga \<Rightarrow> bool" where
  "gga_agrees fmt t d m \<longleftrightarrow> gga_talker m = t
     \<and> gga_utc_time m = time_read (fmt_time_decimals fmt) (gga_in_hour d) (gga_in_minute d) (gga_in_second d)
         (gga_in_millisecond d)
     \<and> near fmt (gga_in_latitude_deg d) (gga_latitude m) \<and> near fmt (gga_in_longitude_deg d) (gga_longitude m)
     \<and> gga_fix_quality m = gga_in_fix_quality d \<and> gga_num_satellites m = gga_in_num_satellites d
     \<and> gga_hdop m = (if dbl_less dzero (gga_in_hdop d) then decimal_read 1 (gga_in_hdop d) else dzero)
     \<and> gga_altitude_msl m = decimal_read 1 (gga_in_altitude_msl_m d)
     \<and> gga_geoid_sep m = decimal_read 1 (gga_in_geoid_sep_m d)
     \<and> gga_dgps_age m = (if dbl_le dzero (gga_in_dgps_age_s d) then decimal_read 1 (gga_in_dgps_age_s d) else minus_one)
     \<and> gga_dgps_station_id m = (if dbl_le dzero (gga_in_dgps_age_s d) then gga_in_dgps_station_id d else 0)
     \<and> gga_valid m"

lemma ucast_u16_u32 [codec_simps]: "(ucast (ucast (v :: u16) :: u32) :: u16) = v"
  by (rule bit_word_eqI) (simp add: bit_simps)

lemma gga_parsed:
  assumes "gga_ok d" and "fmt_ok fmt" and "sen_fields s = gga_content fmt d"
  shows "\<exists>m. gga_parse s = Some m \<and> gga_agrees fmt (sen_talker s) d m"
proof -
  obtain lat where lat: "parse_latlon (format_latitude (fmt_latlon_decimals fmt) (gga_in_latitude_deg d))
      [ns_indicator (gga_in_latitude_deg d)] = Some lat" "near fmt (gga_in_latitude_deg d) lat"
    using latitude_received(1) [of "gga_in_latitude_deg d" fmt] assms(1,2) by (auto simp: gga_ok_def)
  obtain lon where lon: "parse_latlon (format_longitude (fmt_latlon_decimals fmt) (gga_in_longitude_deg d))
      [ew_indicator (gga_in_longitude_deg d)] = Some lon" "near fmt (gga_in_longitude_deg d) lon"
    using longitude_received(1) [of "gga_in_longitude_deg d" fmt] assms(1,2) by (auto simp: gga_ok_def)
  have absent: "parse_double [] = None" by (simp add: parse_double_def)
  show ?thesis
    using assms(1,3) lat lon
    by (simp add: gga_parse_def gga_agrees_def gga_ok_def gga_content_def sen_field_def sen_has_field_def
        sen_field_count_def codec_simps absent)
qed

interpretation gga: sentence_codec gga_prepare gga_build gga_parse "''GGA''" gga_content gga_ok gga_agrees
proof
  show "gga_build fmt (gga_prepare d b) = assemble (sb_talker b) ''GGA'' (join_fields (gga_content fmt d))"
    if "gga_ok d" "sb_enabled b" for d b fmt
    using that by (simp add: gga_build_def gga_prepare_def gga_ok_def gga_content_def)
  show "length ''GGA'' = 3 \<and> (\<forall>c \<in> set ''GGA''. plain c \<and> c \<noteq> CHR '','')" using ident_letters by simp
  show "gga_content fmt d \<noteq> [] \<and> length (gga_content fmt d) \<le> 18 \<and> (\<forall>f \<in> set (gga_content fmt d). field_ok f)"
    if "gga_ok d" "fmt_ok fmt" for d fmt
    using that by (simp add: gga_content_def gga_ok_def codec_simps)
qed (rule gga_parsed)

section \<open>RMC\<close>

definition rmc_content :: "nmea_formatter \<Rightarrow> rmc_input \<Rightarrow> string list" where
  "rmc_content fmt d =
     [format_utc_time (fmt_time_decimals fmt) (rmc_in_hour d) (rmc_in_minute d) (rmc_in_second d) (rmc_in_millisecond d),
      if rmc_in_status_active d then ''A'' else ''V'',
      format_latitude (fmt_latlon_decimals fmt) (rmc_in_latitude_deg d), [ns_indicator (rmc_in_latitude_deg d)],
      format_longitude (fmt_latlon_decimals fmt) (rmc_in_longitude_deg d), [ew_indicator (rmc_in_longitude_deg d)],
      format_double (rmc_in_speed_knots d) 2, format_double (rmc_in_course_true d) 2,
      format_date (rmc_in_day d) (rmc_in_month d) (rmc_in_year d),
      if rmc_in_mag_var_valid d then format_double (dbl_abs (rmc_in_mag_variation d)) 1 else [],
      if rmc_in_mag_var_valid d then (if dbl_le dzero (rmc_in_mag_variation d) then ''E'' else ''W'') else [],
      [rmc_in_mode d]]"

definition rmc_ok :: "rmc_input \<Rightarrow> bool" where
  "rmc_ok d \<longleftrightarrow> rmc_in_valid d \<and> time_ok (rmc_in_hour d) (rmc_in_minute d) (rmc_in_second d)
     \<and> angle_ok (rmc_in_latitude_deg d) \<and> angle_ok (rmc_in_longitude_deg d)
     \<and> decimal_ok 2 (rmc_in_speed_knots d) \<and> decimal_ok 2 (rmc_in_course_true d)
     \<and> decimal_ok 1 (rmc_in_mag_variation d) \<and> letter_ok (rmc_in_mode d)"

definition rmc_agrees :: "nmea_formatter \<Rightarrow> string \<Rightarrow> rmc_input \<Rightarrow> nmea_rmc \<Rightarrow> bool" where
  "rmc_agrees fmt t d m \<longleftrightarrow> rmc_talker m = t
     \<and> rmc_utc_time m = time_read (fmt_time_decimals fmt) (rmc_in_hour d) (rmc_in_minute d) (rmc_in_second d)
         (rmc_in_millisecond d)
     \<and> rmc_status_active m = rmc_in_status_active d
     \<and> near fmt (rmc_in_latitude_deg d) (rmc_latitude m) \<and> near fmt (rmc_in_longitude_deg d) (rmc_longitude m)
     \<and> rmc_speed_knots m = decimal_read 2 (rmc_in_speed_knots d)
     \<and> rmc_course_true m = decimal_read 2 (rmc_in_course_true d)
     \<and> rmc_date m = date_read (rmc_in_day d) (rmc_in_month d) (rmc_in_year d)
     \<and> rmc_mag_variation m =
         (if rmc_in_mag_var_valid d
          then let v = decimal_read 1 (dbl_abs (rmc_in_mag_variation d))
               in if dbl_le dzero (rmc_in_mag_variation d) then v else dbl_neg v
          else dzero)
     \<and> rmc_mode m = rmc_in_mode d \<and> rmc_valid m"

lemma decimal_ok_abs [codec_simps]: "decimal_ok p d \<Longrightarrow> decimal_ok p (dbl_abs d)"
  by (cases d) (simp_all add: decimal_ok_def)

lemma rmc_parsed:
  assumes "rmc_ok d" and "fmt_ok fmt" and "sen_fields s = rmc_content fmt d"
  shows "\<exists>m. rmc_parse s = Some m \<and> rmc_agrees fmt (sen_talker s) d m"
proof -
  obtain lat where lat: "parse_latlon (format_latitude (fmt_latlon_decimals fmt) (rmc_in_latitude_deg d))
      [ns_indicator (rmc_in_latitude_deg d)] = Some lat" "near fmt (rmc_in_latitude_deg d) lat"
    using latitude_received(1) [of "rmc_in_latitude_deg d" fmt] assms(1,2) by (auto simp: rmc_ok_def)
  obtain lon where lon: "parse_latlon (format_longitude (fmt_latlon_decimals fmt) (rmc_in_longitude_deg d))
      [ew_indicator (rmc_in_longitude_deg d)] = Some lon" "near fmt (rmc_in_longitude_deg d) lon"
    using longitude_received(1) [of "rmc_in_longitude_deg d" fmt] assms(1,2) by (auto simp: rmc_ok_def)
  show ?thesis
    using assms(1,3) lat lon
    by (simp add: rmc_parse_def rmc_agrees_def rmc_ok_def rmc_content_def sen_field_def sen_has_field_def
        sen_field_count_def codec_simps parse_char_def Let_def)
qed

interpretation rmc: sentence_codec rmc_prepare rmc_build rmc_parse "''RMC''" rmc_content rmc_ok rmc_agrees
proof
  show "rmc_build fmt (rmc_prepare d b) = assemble (sb_talker b) ''RMC'' (join_fields (rmc_content fmt d))"
    if "rmc_ok d" "sb_enabled b" for d b fmt
    using that by (simp add: rmc_build_def rmc_prepare_def rmc_ok_def rmc_content_def)
  show "length ''RMC'' = 3 \<and> (\<forall>c \<in> set ''RMC''. plain c \<and> c \<noteq> CHR '','')" using ident_letters by simp
  show "rmc_content fmt d \<noteq> [] \<and> length (rmc_content fmt d) \<le> 18 \<and> (\<forall>f \<in> set (rmc_content fmt d). field_ok f)"
    if "rmc_ok d" "fmt_ok fmt" for d fmt
    using that by (simp add: rmc_content_def rmc_ok_def codec_simps)
qed (rule rmc_parsed)

section \<open>GSA\<close>

definition gsa_id_field :: "u8 \<Rightarrow> string" where
  "gsa_id_field sv = (if sv \<noteq> 0 then format_int (ucast sv) 2 else [])"

definition gsa_content :: "nmea_formatter \<Rightarrow> gsa_input \<Rightarrow> string list" where
  "gsa_content fmt d =
     [[gsa_in_op_mode d], format_int (ucast (gsa_in_nav_mode d)) 0] @ map gsa_id_field (gsa_in_sat_ids d) @
     [if dbl_less dzero (gsa_in_pdop d) then format_double (gsa_in_pdop d) 2 else [],
      if dbl_less dzero (gsa_in_hdop d) then format_double (gsa_in_hdop d) 2 else [],
      if dbl_less dzero (gsa_in_vdop d) then format_double (gsa_in_vdop d) 2 else []] @
     (if gsa_in_system_id d \<noteq> 0 then [format_int (ucast (gsa_in_system_id d)) 0] else [])"

definition gsa_ok :: "gsa_input \<Rightarrow> bool" where
  "gsa_ok d \<longleftrightarrow> gsa_in_valid d \<and> letter_ok (gsa_in_op_mode d) \<and> length (gsa_in_sat_ids d) = 12
     \<and> decimal_ok 2 (gsa_in_pdop d) \<and> decimal_ok 2 (gsa_in_hdop d) \<and> decimal_ok 2 (gsa_in_vdop d)"

definition dop_read :: "dbl \<Rightarrow> dbl" where
  "dop_read d = (if dbl_less dzero d then decimal_read 2 d else dzero)"

definition gsa_agrees :: "nmea_formatter \<Rightarrow> string \<Rightarrow> gsa_input \<Rightarrow> nmea_gsa \<Rightarrow> bool" where
  "gsa_agrees fmt t d m \<longleftrightarrow> gsa_talker m = t
     \<and> gsa_op_mode m = (let op = gsa_in_op_mode d in
         if op = CHR ''A'' \<or> op = CHR ''a'' then Gsa_auto_mode
         else if op = CHR ''M'' \<or> op = CHR ''m'' then Gsa_manual else Gsa_unknown)
     \<and> gsa_nav_mode m = gsa_in_nav_mode d \<and> gsa_sat_ids m = gsa_in_sat_ids d
     \<and> gsa_pdop m = dop_read (gsa_in_pdop d) \<and> gsa_hdop m = dop_read (gsa_in_hdop d)
     \<and> gsa_vdop m = dop_read (gsa_in_vdop d) \<and> gsa_system_id m = gsa_in_system_id d \<and> gsa_valid m"

lemma twelve:
  assumes "length xs = 12"
  obtains a0 a1 a2 a3 a4 a5 a6 a7 a8 a9 a10 a11 where "xs = [a0, a1, a2, a3, a4, a5, a6, a7, a8, a9, a10, a11]"
  using assms by (auto simp: numeral_eq_Suc length_Suc_conv)

lemma join_twelve:
  assumes "length xs = 12"
  shows "concat (map (\<lambda>i. g (xs ! i) @ (if i < 11 then '','' else [])) [0..<12]) = join_fields (map g xs)"
proof -
  obtain a0 a1 a2 a3 a4 a5 a6 a7 a8 a9 a10 a11
    where "xs = [a0, a1, a2, a3, a4, a5, a6, a7, a8, a9, a10, a11]" using assms by (rule twelve)
  then show ?thesis by (simp add: upt_rec)
qed

lemma join_fields_more: "fs \<noteq> [] \<Longrightarrow> join_fields (f # fs) = f @ CHR '','' # join_fields fs"
  by (cases fs) simp_all

lemma join_fields_append:
  "as \<noteq> [] \<Longrightarrow> bs \<noteq> [] \<Longrightarrow> join_fields (as @ bs) = join_fields as @ CHR '','' # join_fields bs"
  by (induction as rule: join_fields.induct) (auto simp: neq_Nil_conv)

lemma parse_gsa_id [codec_simps]:
  "(case parse_int (gsa_id_field sv) of None \<Rightarrow> 0 | Some v \<Rightarrow> ucast v) = sv"
  by (simp add: gsa_id_field_def cast_back) (simp add: parse_int_def)

lemma gsa_id_field_ok [codec_simps]: "field_ok (gsa_id_field sv)"
  by (simp add: gsa_id_field_def)

lemma gsa_parsed:
  assumes "gsa_ok d" and "sen_fields s = gsa_content fmt d"
  shows "\<exists>m. gsa_parse s = Some m \<and> gsa_agrees fmt (sen_talker s) d m"
proof -
  have "length (gsa_in_sat_ids d) = 12" using assms(1) by (simp add: gsa_ok_def)
  then obtain a0 a1 a2 a3 a4 a5 a6 a7 a8 a9 a10 a11
    where ids: "gsa_in_sat_ids d = [a0, a1, a2, a3, a4, a5, a6, a7, a8, a9, a10, a11]" by (rule twelve)
  have absent: "parse_double [] = None" by (simp add: parse_double_def)
  show ?thesis
    using assms
    by (simp add: gsa_parse_def gsa_agrees_def gsa_ok_def gsa_content_def sen_field_def sen_has_field_def
        sen_field_count_def codec_simps absent ids upt_rec parse_char_def Let_def dop_read_def)
qed

interpretation gsa: sentence_codec gsa_prepare gsa_build gsa_parse "''GSA''" gsa_content gsa_ok gsa_agrees
proof
  fix d fmt and b :: "gsa_input sentence_builder" assume d: "gsa_ok d" "sb_enabled b"
  then have l: "length (gsa_in_sat_ids d) = 12" by (simp add: gsa_ok_def)
  then have ne: "map gsa_id_field (gsa_in_sat_ids d) \<noteq> []" by auto
  show "gsa_build fmt (gsa_prepare d b) = assemble (sb_talker b) ''GSA'' (join_fields (gsa_content fmt d))"
    using d ne join_twelve [OF l, of gsa_id_field] unfolding gsa_content_def
    by (simp add: gsa_build_def gsa_prepare_def gsa_ok_def join_fields_append join_fields_more
      flip: gsa_id_field_def)
next
  show "length ''GSA'' = 3 \<and> (\<forall>c \<in> set ''GSA''. plain c \<and> c \<noteq> CHR '','')" using ident_letters by simp
  show "gsa_content fmt d \<noteq> [] \<and> length (gsa_content fmt d) \<le> 18 \<and> (\<forall>f \<in> set (gsa_content fmt d). field_ok f)"
    if "gsa_ok d" "fmt_ok fmt" for d fmt
    using that by (auto simp add: gsa_content_def gsa_ok_def codec_simps)
qed (rule gsa_parsed)

section \<open>VTG\<close>

definition vtg_content :: "nmea_formatter \<Rightarrow> vtg_input \<Rightarrow> string list" where
  "vtg_content fmt d =
     [format_double (vtg_in_course_true d) 2, ''T'',
      if vtg_in_course_mag_valid d then format_double (vtg_in_course_mag d) 2 else [], ''M'',
      format_double (vtg_in_speed_knots d) 2, ''N'', format_double (vtg_in_speed_kmh d) 2, ''K'', [vtg_in_mode d]]"

definition vtg_ok :: "vtg_input \<Rightarrow> bool" where
  "vtg_ok d \<longleftrightarrow> vtg_in_valid d \<and> decimal_ok 2 (vtg_in_course_true d) \<and> decimal_ok 2 (vtg_in_course_mag d)
     \<and> decimal_ok 2 (vtg_in_speed_knots d) \<and> decimal_ok 2 (vtg_in_speed_kmh d) \<and> letter_ok (vtg_in_mode d)"

definition vtg_agrees :: "nmea_formatter \<Rightarrow> string \<Rightarrow> vtg_input \<Rightarrow> nmea_vtg \<Rightarrow> bool" where
  "vtg_agrees fmt t d m \<longleftrightarrow> vtg_talker m = t
     \<and> vtg_course_true m = decimal_read 2 (vtg_in_course_true d)
     \<and> vtg_course_mag_valid m = vtg_in_course_mag_valid d
     \<and> vtg_course_mag m = (if vtg_in_course_mag_valid d then decimal_read 2 (vtg_in_course_mag d) else dzero)
     \<and> vtg_speed_knots m = decimal_read 2 (vtg_in_speed_knots d)
     \<and> vtg_speed_kmh m = decimal_read 2 (vtg_in_speed_kmh d) \<and> vtg_mode m = vtg_in_mode d \<and> vtg_valid m"

lemma vtg_parsed:
  assumes "vtg_ok d" and "sen_fields s = vtg_content fmt d"
  shows "\<exists>m. vtg_parse s = Some m \<and> vtg_agrees fmt (sen_talker s) d m"
  using assms
  by (simp add: vtg_parse_def vtg_agrees_def vtg_ok_def vtg_content_def sen_field_def sen_has_field_def
      sen_field_count_def codec_simps parse_char_def Let_def)

interpretation vtg: sentence_codec vtg_prepare vtg_build vtg_parse "''VTG''" vtg_content vtg_ok vtg_agrees
proof
  show "vtg_build fmt (vtg_prepare d b) = assemble (sb_talker b) ''VTG'' (join_fields (vtg_content fmt d))"
    if "vtg_ok d" "sb_enabled b" for d b fmt
    using that by (simp add: vtg_build_def vtg_prepare_def vtg_ok_def vtg_content_def)
  show "length ''VTG'' = 3 \<and> (\<forall>c \<in> set ''VTG''. plain c \<and> c \<noteq> CHR '','')" using ident_letters by simp
  show "vtg_content fmt d \<noteq> [] \<and> length (vtg_content fmt d) \<le> 18 \<and> (\<forall>f \<in> set (vtg_content fmt d). field_ok f)"
    if "vtg_ok d" "fmt_ok fmt" for d fmt
    using that by (simp add: vtg_content_def vtg_ok_def codec_simps)
qed (rule vtg_parsed)

section \<open>GLL\<close>

definition gll_content :: "nmea_formatter \<Rightarrow> gll_input \<Rightarrow> string list" where
  "gll_content fmt d =
     [format_latitude (fmt_latlon_decimals fmt) (gll_in_latitude_deg d), [ns_indicator (gll_in_latitude_deg d)],
      format_longitude (fmt_latlon_decimals fmt) (gll_in_longitude_deg d), [ew_indicator (gll_in_longitude_deg d)],
      format_utc_time (fmt_time_decimals fmt) (gll_in_hour d) (gll_in_minute d) (gll_in_second d) (gll_in_millisecond d),
      if gll_in_status_active d then ''A'' else ''V'', [gll_in_mode d]]"

definition gll_ok :: "gll_input \<Rightarrow> bool" where
  "gll_ok d \<longleftrightarrow> gll_in_valid d \<and> time_ok (gll_in_hour d) (gll_in_minute d) (gll_in_second d)
     \<and> angle_ok (gll_in_latitude_deg d) \<and> angle_ok (gll_in_longitude_deg d) \<and> letter_ok (gll_in_mode d)"

definition gll_agrees :: "nmea_formatter \<Rightarrow> string \<Rightarrow> gll_input \<Rightarrow> nmea_gll \<Rightarrow> bool" where
  "gll_agrees fmt t d m \<longleftrightarrow> gll_talker m = t
     \<and> gll_utc_time m = time_read (fmt_time_decimals fmt) (gll_in_hour d) (gll_in_minute d) (gll_in_second d)
         (gll_in_millisecond d)
     \<and> near fmt (gll_in_latitude_deg d) (gll_latitude m) \<and> near fmt (gll_in_longitude_deg d) (gll_longitude m)
     \<and> gll_status_active m = gll_in_status_active d \<and> gll_mode m = gll_in_mode d \<and> gll_valid m"

lemma gll_parsed:
  assumes "gll_ok d" and "fmt_ok fmt" and "sen_fields s = gll_content fmt d"
  shows "\<exists>m. gll_parse s = Some m \<and> gll_agrees fmt (sen_talker s) d m"
proof -
  obtain lat where lat: "parse_latlon (format_latitude (fmt_latlon_decimals fmt) (gll_in_latitude_deg d))
      [ns_indicator (gll_in_latitude_deg d)] = Some lat" "near fmt (gll_in_latitude_deg d) lat"
    using latitude_received(1) [of "gll_in_latitude_deg d" fmt] assms(1,2) by (auto simp: gll_ok_def)
  obtain lon where lon: "parse_latlon (format_longitude (fmt_latlon_decimals fmt) (gll_in_longitude_deg d))
      [ew_indicator (gll_in_longitude_deg d)] = Some lon" "near fmt (gll_in_longitude_deg d) lon"
    using longitude_received(1) [of "gll_in_longitude_deg d" fmt] assms(1,2) by (auto simp: gll_ok_def)
  show ?thesis
    using assms(1,3) lat lon
    by (simp add: gll_parse_def gll_agrees_def gll_ok_def gll_content_def sen_field_def sen_has_field_def
        sen_field_count_def codec_simps parse_char_def)
qed

interpretation gll: sentence_codec gll_prepare gll_build gll_parse "''GLL''" gll_content gll_ok gll_agrees
proof
  show "gll_build fmt (gll_prepare d b) = assemble (sb_talker b) ''GLL'' (join_fields (gll_content fmt d))"
    if "gll_ok d" "sb_enabled b" for d b fmt
    using that by (simp add: gll_build_def gll_prepare_def gll_ok_def gll_content_def)
  show "length ''GLL'' = 3 \<and> (\<forall>c \<in> set ''GLL''. plain c \<and> c \<noteq> CHR '','')" using ident_letters by simp
  show "gll_content fmt d \<noteq> [] \<and> length (gll_content fmt d) \<le> 18 \<and> (\<forall>f \<in> set (gll_content fmt d). field_ok f)"
    if "gll_ok d" "fmt_ok fmt" for d fmt
    using that by (simp add: gll_content_def gll_ok_def codec_simps)
qed (rule gll_parsed)

section \<open>ZDA\<close>

definition zda_content :: "nmea_formatter \<Rightarrow> zda_input \<Rightarrow> string list" where
  "zda_content fmt d =
     [format_utc_time (fmt_time_decimals fmt) (zda_in_hour d) (zda_in_minute d) (zda_in_second d) (zda_in_millisecond d),
      format_int (ucast (zda_in_day d)) 2, format_int (ucast (zda_in_month d)) 2, format_int (ucast (zda_in_year d)) 4,
      format_int (scast (zda_in_tz_hour d)) 2, format_int (ucast (zda_in_tz_min d)) 2]"

definition zda_ok :: "zda_input \<Rightarrow> bool" where
  "zda_ok d \<longleftrightarrow> zda_in_valid d \<and> time_ok (zda_in_hour d) (zda_in_minute d) (zda_in_second d)"

definition zda_agrees :: "nmea_formatter \<Rightarrow> string \<Rightarrow> zda_input \<Rightarrow> nmea_zda \<Rightarrow> bool" where
  "zda_agrees fmt t d m \<longleftrightarrow> m = \<lparr>zda_talker = t,
     zda_utc_time = time_read (fmt_time_decimals fmt) (zda_in_hour d) (zda_in_minute d) (zda_in_second d)
       (zda_in_millisecond d),
     zda_day = zda_in_day d, zda_month = zda_in_month d, zda_year = zda_in_year d,
     zda_tz_hour = zda_in_tz_hour d, zda_tz_min = zda_in_tz_min d, zda_valid = True\<rparr>"

lemma ucast_u16_i32 [codec_simps]: "(ucast (ucast (v :: u16) :: i32) :: u16) = v"
  by (rule bit_word_eqI) (simp add: bit_simps)

lemma zda_parsed:
  assumes "zda_ok d" and "sen_fields s = zda_content fmt d"
  shows "\<exists>m. zda_parse s = Some m \<and> zda_agrees fmt (sen_talker s) d m"
  using assms
  by (simp add: zda_parse_def zda_agrees_def zda_ok_def zda_content_def sen_field_def sen_has_field_def
      sen_field_count_def codec_simps)

interpretation zda: sentence_codec zda_prepare zda_build zda_parse "''ZDA''" zda_content zda_ok zda_agrees
proof
  show "zda_build fmt (zda_prepare d b) = assemble (sb_talker b) ''ZDA'' (join_fields (zda_content fmt d))"
    if "zda_ok d" "sb_enabled b" for d b fmt
    using that by (simp add: zda_build_def zda_prepare_def zda_ok_def zda_content_def)
  show "length ''ZDA'' = 3 \<and> (\<forall>c \<in> set ''ZDA''. plain c \<and> c \<noteq> CHR '','')" using ident_letters by simp
  show "zda_content fmt d \<noteq> [] \<and> length (zda_content fmt d) \<le> 18 \<and> (\<forall>f \<in> set (zda_content fmt d). field_ok f)"
    if "zda_ok d" "fmt_ok fmt" for d fmt
    using that by (simp add: zda_content_def zda_ok_def codec_simps)
qed (rule zda_parsed)

end
