(* ===== verification/Nmea_Generator.thy ===== *)
theory Nmea_Generator
  imports Nmea_Roundtrips Shared_Buffers "HOL-Library.Sublist" "HOL-Library.Signed_Division"
begin

unbundle bit_operations_syntax

text \<open>
  The generator (\<open>generator/nmea_generator_facade.cpp\<close>) over the mapping of the shared buffers to the builders'
  inputs (\<open>generator/shared_buffer_mapper.h\<close>). The buffers' numbers are the rationals the database
  commits, none of which is a negative zero; the mapping computes with them as \<open>double\<close>s.
\<close>

section \<open>Mapping the shared buffers\<close>

definition fix_type_to_quality :: "u8 \<Rightarrow> u8 \<Rightarrow> u8" where
  "fix_type_to_quality fix_type flags2 =
     (let carr_soln = drop_bit 5 flags2 AND 3 in
      if fix_type = 0 then 0
      else if fix_type = 1 then 6
      else if fix_type = 2 \<or> fix_type = 3
      then (if carr_soln = 2 then 4 else if carr_soln = 1 then 5 else 1)
      else if fix_type = 4 then 6
      else if fix_type = 5 then 0
      else 0)"

definition fix_type_to_rmc_mode :: "u8 \<Rightarrow> u8 \<Rightarrow> char" where
  "fix_type_to_rmc_mode fix_type flags =
     (let gnss_fix_ok = flags AND 1 \<noteq> 0 in
      if \<not> gnss_fix_ok then CHR ''N''
      else if fix_type = 1 \<or> fix_type = 4 then CHR ''E''
      else if fix_type = 2 \<or> fix_type = 3 then CHR ''A''
      else CHR ''N'')"

definition to_gga :: "location_data \<Rightarrow> dop_data \<Rightarrow> gga_input" where
  "to_gga loc dop =
     (if \<not> loc_valid loc then gga_input_new
      else gga_input_new\<lparr>gga_in_hour := loc_hour loc, gga_in_minute := loc_minute loc,
        gga_in_second := loc_second loc, gga_in_millisecond := loc_millisecond loc,
        gga_in_latitude_deg := dbl_of (loc_latitude_deg loc),
        gga_in_longitude_deg := dbl_of (loc_longitude_deg loc),
        gga_in_fix_quality := fix_type_to_quality (loc_fix_type loc) (loc_flags2 loc),
        gga_in_num_satellites := loc_num_sv loc,
        gga_in_hdop := dbl_of (dop_hdop dop),
        gga_in_altitude_msl_m := dbl_div (dbl_of (loc_altitude_msl_mm loc)) (dbl_const 1000),
        gga_in_geoid_sep_m := dbl_div (dbl_sub (dbl_of (loc_altitude_ellipsoid_mm loc))
          (dbl_of (loc_altitude_msl_mm loc))) (dbl_const 1000),
        gga_in_dgps_age_s := minus_one, gga_in_valid := True\<rparr>)"

definition status_active_of :: "location_data \<Rightarrow> bool" where
  "status_active_of loc \<longleftrightarrow> loc_flags loc AND 1 \<noteq> 0 \<and> 2 \<le> loc_fix_type loc"

definition to_rmc :: "location_data \<Rightarrow> rmc_input" where
  "to_rmc loc =
     (if \<not> loc_valid loc then rmc_input_new
      else let mag_dec = dbl_of (loc_magnetic_declination_deg loc) in
        rmc_input_new\<lparr>rmc_in_hour := loc_hour loc, rmc_in_minute := loc_minute loc,
        rmc_in_second := loc_second loc, rmc_in_millisecond := loc_millisecond loc,
        rmc_in_status_active := status_active_of loc,
        rmc_in_latitude_deg := dbl_of (loc_latitude_deg loc),
        rmc_in_longitude_deg := dbl_of (loc_longitude_deg loc),
        rmc_in_speed_knots := dbl_div (dbl_of (loc_ground_speed_mmps loc)) (dbl_const (514444 / 1000)),
        rmc_in_course_true := dbl_of (loc_motion_heading_deg loc),
        rmc_in_day := loc_day loc, rmc_in_month := loc_month loc, rmc_in_year := loc_year loc,
        rmc_in_mag_variation := mag_dec,
        rmc_in_mag_var_valid := dbl_less (dbl_const (1 / 10000)) (dbl_abs mag_dec),
        rmc_in_mode := fix_type_to_rmc_mode (loc_fix_type loc) (loc_flags loc),
        rmc_in_valid := True\<rparr>)"

text \<open>
  The loop over the used satellites; a satellite count above the 64 elements of the array, which the
  database never commits, would read past its end.
\<close>

fun gsa_fill :: "satellite_record list \<Rightarrow> u8 list \<Rightarrow> nat \<Rightarrow> u8 list" where
  "gsa_fill [] ids slot = ids"
| "gsa_fill (sv # svs) ids slot =
     (if slot < 12
      then if svr_used sv then gsa_fill svs (ids[slot := svr_sv_id sv]) (Suc slot) else gsa_fill svs ids slot
      else ids)"

definition to_gsa :: "location_data \<Rightarrow> satellites_data \<Rightarrow> dop_data \<Rightarrow> gsa_input" where
  "to_gsa loc sats dop =
     (if \<not> loc_valid loc then gsa_input_new
      else gsa_input_new\<lparr>gsa_in_op_mode := CHR ''A'',
        gsa_in_nav_mode := (if loc_fix_type loc = 2 then 2 else if 3 \<le> loc_fix_type loc then 3 else 1),
        gsa_in_sat_ids := (if sats_valid sats
          then gsa_fill (take (unat (sats_num_svs sats)) (sats_svs sats)) (replicate 12 0) 0
          else replicate 12 0),
        gsa_in_pdop := dbl_of (dop_pdop dop), gsa_in_hdop := dbl_of (dop_hdop dop),
        gsa_in_vdop := dbl_of (dop_vdop dop), gsa_in_system_id := 0, gsa_in_valid := True\<rparr>)"

definition to_vtg :: "location_data \<Rightarrow> vtg_input" where
  "to_vtg loc =
     (if \<not> loc_valid loc then vtg_input_new
      else let course_true = dbl_of (loc_motion_heading_deg loc);
               mag_dec = dbl_of (loc_magnetic_declination_deg loc);
               mag_valid = dbl_less (dbl_const (1 / 10000)) (dbl_abs mag_dec);
               speed_mps = dbl_div (dbl_of (loc_ground_speed_mmps loc)) (dbl_const 1000) in
        vtg_input_new\<lparr>vtg_in_course_true := course_true,
        vtg_in_course_mag := (if mag_valid then dbl_add course_true mag_dec else dzero),
        vtg_in_course_mag_valid := mag_valid,
        vtg_in_speed_knots := dbl_div speed_mps (dbl_const (514444 / 1000000)),
        vtg_in_speed_kmh := dbl_mul speed_mps (dbl_const (36 / 10)),
        vtg_in_mode := fix_type_to_rmc_mode (loc_fix_type loc) (loc_flags loc),
        vtg_in_valid := True\<rparr>)"

definition to_gll :: "location_data \<Rightarrow> gll_input" where
  "to_gll loc =
     (if \<not> loc_valid loc then gll_input_new
      else gll_input_new\<lparr>gll_in_latitude_deg := dbl_of (loc_latitude_deg loc),
        gll_in_longitude_deg := dbl_of (loc_longitude_deg loc),
        gll_in_hour := loc_hour loc, gll_in_minute := loc_minute loc, gll_in_second := loc_second loc,
        gll_in_millisecond := loc_millisecond loc, gll_in_status_active := status_active_of loc,
        gll_in_mode := fix_type_to_rmc_mode (loc_fix_type loc) (loc_flags loc), gll_in_valid := True\<rparr>)"

definition to_zda :: "location_data \<Rightarrow> zda_input" where
  "to_zda loc =
     (if \<not> loc_valid loc then zda_input_new
      else zda_input_new\<lparr>zda_in_hour := loc_hour loc, zda_in_minute := loc_minute loc,
        zda_in_second := loc_second loc, zda_in_millisecond := loc_millisecond loc, zda_in_day := loc_day loc,
        zda_in_month := loc_month loc, zda_in_year := loc_year loc, zda_in_tz_hour := 0, zda_in_tz_min := 0,
        zda_in_valid := True\<rparr>)"

definition timing_to_zda :: "timing_data \<Rightarrow> zda_input" where
  "timing_to_zda tim =
     (if \<not> tim_valid tim then zda_input_new
      else let ms = sint (tim_utc_nano_ns tim) sdiv 1000000 in
        zda_input_new\<lparr>zda_in_hour := tim_utc_hour tim, zda_in_minute := tim_utc_min tim,
        zda_in_second := tim_utc_sec tim,
        zda_in_millisecond := word_of_int (if ms < 0 then 0 else if ms > 999 then 999 else ms),
        zda_in_day := tim_utc_day tim, zda_in_month := tim_utc_month tim, zda_in_year := tim_utc_year tim,
        zda_in_tz_hour := 0, zda_in_tz_min := 0, zda_in_valid := True\<rparr>)"

definition gnss_id_to_talker :: "u8 \<Rightarrow> string option" where
  "gnss_id_to_talker gnss_id =
     (if gnss_id = 0 then Some ''GP'' else if gnss_id = 2 then Some ''GA'' else if gnss_id = 3 then Some ''GB''
      else if gnss_id = 5 then Some ''GQ'' else if gnss_id = 6 then Some ''GL'' else None)"

text \<open>Every satellite goes to the first constellation of its identifier, which are all different.\<close>

definition constellations :: "(string \<times> u8) list" where
  "constellations = [(''GP'', 0), (''GL'', 6), (''GA'', 2), (''GB'', 3), (''GQ'', 5)]"

definition gsv_record :: "satellite_record \<Rightarrow> gsv_satellite_record" where
  "gsv_record sv = \<lparr>rec_sv_id = svr_sv_id sv, rec_elevation_deg = svr_elevation_deg sv,
     rec_azimuth_deg = svr_azimuth_deg sv, rec_snr = svr_cno sv\<rparr>"

definition to_gsv_all :: "satellites_data \<Rightarrow> gsv_input list" where
  "to_gsv_all sats =
     (let svs = (if sats_valid sats then take (unat (sats_num_svs sats)) (sats_svs sats) else [])
      in concat (map (\<lambda>(talker, gnss_id).
           let records = map gsv_record (filter (\<lambda>sv. svr_gnss_id sv = gnss_id) svs)
           in if records = [] then []
              else [\<lparr>gi_talker = talker, gi_satellites = records, gi_valid = True\<rparr>]) constellations))"

section \<open>The generator\<close>

record nmea_generator_config =
  talker_id :: string
  enable_gga :: bool
  enable_rmc :: bool
  enable_gsa :: bool
  enable_gsv :: bool
  enable_vtg :: bool
  enable_gll :: bool
  enable_zda :: bool
  enable_gsv_gps :: bool
  enable_gsv_glonass :: bool
  enable_gsv_galileo :: bool
  enable_gsv_beidou :: bool
  enable_gsv_qzss :: bool
  latlon_decimal_digits :: int
  time_decimal_digits :: int

definition default_config :: nmea_generator_config where
  "default_config = \<lparr>talker_id = ''GN'', enable_gga = True, enable_rmc = True, enable_gsa = True,
     enable_gsv = True, enable_vtg = True, enable_gll = True, enable_zda = True, enable_gsv_gps = True,
     enable_gsv_glonass = True, enable_gsv_galileo = True, enable_gsv_beidou = True, enable_gsv_qzss = True,
     latlon_decimal_digits = 5, time_decimal_digits = 2\<rparr>"

record nmea_generator =
  gen_config :: nmea_generator_config
  gen_formatter :: nmea_formatter
  gen_gga :: "gga_input sentence_builder"
  gen_rmc :: "rmc_input sentence_builder"
  gen_gsa :: "gsa_input sentence_builder"
  gen_gsv :: gsv_builder
  gen_vtg :: "vtg_input sentence_builder"
  gen_gll :: "gll_input sentence_builder"
  gen_zda :: "zda_input sentence_builder"

definition rebuild_builders :: "nmea_generator_config \<Rightarrow> nmea_generator" where
  "rebuild_builders cfg =
     (let t = talker_id cfg in
      \<lparr>gen_config = cfg,
       gen_formatter = \<lparr>fmt_latlon_decimals = latlon_decimal_digits cfg, fmt_time_decimals = time_decimal_digits cfg\<rparr>,
       gen_gga = builder_new gga_input_new t (enable_gga cfg), gen_rmc = builder_new rmc_input_new t (enable_rmc cfg),
       gen_gsa = builder_new gsa_input_new t (enable_gsa cfg), gen_gsv = gsv_builder_new t (enable_gsv cfg),
       gen_vtg = builder_new vtg_input_new t (enable_vtg cfg), gen_gll = builder_new gll_input_new t (enable_gll cfg),
       gen_zda = builder_new zda_input_new t (enable_zda cfg)\<rparr>)"

definition nmea_generator_new :: "nmea_generator_config \<Rightarrow> nmea_generator" where
  "nmea_generator_new config = rebuild_builders config"

definition configure :: "nmea_generator_config \<Rightarrow> nmea_generator \<Rightarrow> nmea_generator" where
  "configure config gen = rebuild_builders config"

definition generate_gga :: "gga_input \<Rightarrow> nmea_generator \<Rightarrow> string \<times> nmea_generator" where
  "generate_gga input gen =
     (let b = gga_prepare input (gen_gga gen) in (gga_build (gen_formatter gen) b, gen\<lparr>gen_gga := b\<rparr>))"

definition generate_rmc :: "rmc_input \<Rightarrow> nmea_generator \<Rightarrow> string \<times> nmea_generator" where
  "generate_rmc input gen =
     (let b = rmc_prepare input (gen_rmc gen) in (rmc_build (gen_formatter gen) b, gen\<lparr>gen_rmc := b\<rparr>))"

definition generate_gsa :: "gsa_input \<Rightarrow> nmea_generator \<Rightarrow> string \<times> nmea_generator" where
  "generate_gsa input gen =
     (let b = gsa_prepare input (gen_gsa gen) in (gsa_build (gen_formatter gen) b, gen\<lparr>gen_gsa := b\<rparr>))"

definition generate_vtg :: "vtg_input \<Rightarrow> nmea_generator \<Rightarrow> string \<times> nmea_generator" where
  "generate_vtg input gen =
     (let b = vtg_prepare input (gen_vtg gen) in (vtg_build (gen_formatter gen) b, gen\<lparr>gen_vtg := b\<rparr>))"

definition generate_gll :: "gll_input \<Rightarrow> nmea_generator \<Rightarrow> string \<times> nmea_generator" where
  "generate_gll input gen =
     (let b = gll_prepare input (gen_gll gen) in (gll_build (gen_formatter gen) b, gen\<lparr>gen_gll := b\<rparr>))"

definition generate_zda :: "zda_input \<Rightarrow> nmea_generator \<Rightarrow> string \<times> nmea_generator" where
  "generate_zda input gen =
     (let b = zda_prepare input (gen_zda gen) in (zda_build (gen_formatter gen) b, gen\<lparr>gen_zda := b\<rparr>))"

definition generate_gsv :: "gsv_input \<Rightarrow> nmea_generator \<Rightarrow> string list \<times> nmea_generator" where
  "generate_gsv input gen =
     (let b = gsv_prepare input (gen_gsv gen) in (gsv_build_all b, gen\<lparr>gen_gsv := b\<rparr>))"

fun generate_gsv_each :: "gsv_input list \<Rightarrow> nmea_generator \<Rightarrow> string list \<times> nmea_generator" where
  "generate_gsv_each [] gen = ([], gen)"
| "generate_gsv_each (gi # gis) gen =
     (let (sentences, gen) = generate_gsv gi gen; (more, gen) = generate_gsv_each gis gen
      in (sentences @ more, gen))"

definition generate_gsv_all :: "satellites_data \<Rightarrow> nmea_generator \<Rightarrow> string list \<times> nmea_generator" where
  "generate_gsv_all sats gen = generate_gsv_each (to_gsv_all sats) gen"

definition gsv_constellation_enabled :: "nmea_generator_config \<Rightarrow> string \<Rightarrow> bool" where
  "gsv_constellation_enabled cfg tk =
     (if tk = ''GP'' then enable_gsv_gps cfg
      else if tk = ''GL'' then enable_gsv_glonass cfg
      else if tk = ''GA'' then enable_gsv_galileo cfg
      else if tk = ''GB'' then enable_gsv_beidou cfg
      else if tk = ''GQ'' then enable_gsv_qzss cfg
      else True)"

definition push :: "string \<Rightarrow> string list" where
  "push s = (if s \<noteq> [] then [s] else [])"

definition generate :: "location_data \<Rightarrow> satellites_data \<Rightarrow> dop_data \<Rightarrow> nmea_generator \<Rightarrow> string list \<times> nmea_generator" where
  "generate loc sats dop gen =
     (let (gga, gen) = generate_gga (to_gga loc dop) gen;
          (rmc, gen) = generate_rmc (to_rmc loc) gen;
          (gsa, gen) = generate_gsa (to_gsa loc sats dop) gen;
          (gsv, gen) = (if enable_gsv (gen_config gen)
            then generate_gsv_each
              (filter (\<lambda>gi. gsv_constellation_enabled (gen_config gen) (gi_talker gi)) (to_gsv_all sats)) gen
            else ([], gen));
          (vtg, gen) = generate_vtg (to_vtg loc) gen;
          (gll, gen) = generate_gll (to_gll loc) gen;
          (zda, gen) = generate_zda (to_zda loc) gen
      in (push gga @ push rmc @ push gsa @ concat (map push gsv) @ push vtg @ push gll @ push zda, gen))"

definition generate_without_dop :: "location_data \<Rightarrow> satellites_data \<Rightarrow> nmea_generator \<Rightarrow> string list \<times> nmea_generator" where
  "generate_without_dop loc sats gen = generate loc sats dop_data_zero gen"

fun replace_zda :: "string \<Rightarrow> string list \<Rightarrow> string list" where
  "replace_zda zda_s [] = [zda_s]"
| "replace_zda zda_s (s # ss) = (if sublist ''ZDA,'' s then zda_s # ss else s # replace_zda zda_s ss)"

definition generate_timed ::
    "location_data \<Rightarrow> satellites_data \<Rightarrow> timing_data \<Rightarrow> dop_data \<Rightarrow> nmea_generator \<Rightarrow> string list \<times> nmea_generator" where
  "generate_timed loc sats tim dop gen =
     (let (sentences, gen) = generate loc sats dop gen
      in if enable_zda (gen_config gen)
         then let (zda_s, gen) = generate_zda (timing_to_zda tim) gen
              in (if zda_s \<noteq> [] then replace_zda zda_s sentences else sentences, gen)
         else (sentences, gen))"

end
