(* ===== verification/Nmea_Epoch.thy ===== *)
theory Nmea_Epoch
  imports Nmea_Generator
begin

text \<open>
  From the shared buffers to the wire and back: the sentences the generator makes of one fix, read by the
  NMEA parser with a parser registered for each of the seven sentence types.
\<close>

section \<open>The mapped inputs\<close>

text \<open>
  Bounds that a committed fix stays far below: they keep every printed number within the eleven characters
  the codecs are proved for.
\<close>

definition location_in_range :: "location_data \<Rightarrow> bool" where
  "location_in_range loc \<longleftrightarrow> loc_valid loc \<and> time_ok (loc_hour loc) (loc_minute loc) (loc_second loc)
     \<and> \<bar>loc_latitude_deg loc\<bar> < 1000 \<and> \<bar>loc_longitude_deg loc\<bar> < 1000
     \<and> \<bar>loc_altitude_ellipsoid_mm loc\<bar> \<le> 4 * 10 ^ 9 \<and> \<bar>loc_altitude_msl_mm loc\<bar> \<le> 4 * 10 ^ 9
     \<and> \<bar>loc_ground_speed_mmps loc\<bar> \<le> 10 ^ 8 \<and> \<bar>loc_motion_heading_deg loc\<bar> \<le> 1000
     \<and> \<bar>loc_magnetic_declination_deg loc\<bar> \<le> 1000"

definition dop_in_range :: "dop_data \<Rightarrow> bool" where
  "dop_in_range dop \<longleftrightarrow> \<bar>dop_pdop dop\<bar> \<le> 1000 \<and> \<bar>dop_hdop dop\<bar> \<le> 1000 \<and> \<bar>dop_vdop dop\<bar> \<le> 1000"

lemma decimal_ok_of: "\<bar>x\<bar> < 10 ^ (8 - p) \<Longrightarrow> decimal_ok p (dbl_of x)"
  by (simp add: decimal_ok_def dbl_of_def)

lemma angle_ok_of: "\<bar>x\<bar> < 1000 \<Longrightarrow> angle_ok (dbl_of x)"
  by (simp add: angle_ok_def dbl_of_def)

text \<open>A rounded quotient, product or sum stays below a bound with room for the rounding.\<close>

lemma round_magnitude_less:
  assumes "0 \<le> x" "x \<le> b" "1 \<le> b" "b \<le> 10 ^ 10"
  shows "0 \<le> round_magnitude x" and "round_magnitude x \<le> b + 1"
proof -
  have "b / 1000000000000000 \<le> 1" using assms(4) by simp
  then show "round_magnitude x \<le> b + 1" using round_magnitude_near [OF assms(1-3)] assms(2) by linarith
qed (rule round_magnitude_nonneg [OF assms(1)])

lemma dbl_signed_less:
  assumes "0 \<le> x" "x \<le> b" "1 \<le> b" "b \<le> 10 ^ 10"
  shows "\<exists>r. dbl_signed s x = Finite s r \<and> 0 \<le> r \<and> r \<le> b + 1"
proof -
  have "x \<le> 2 ^ 1000" using assms(2,4) by simp
  then show ?thesis using round_magnitude_less [OF assms] dbl_signed_finite [OF assms(1)] by blast
qed

lemma const_1000: "dbl_const 1000 = Finite False 1000"
  using round_magnitude_whole [of 1000] by (simp add: dbl_const_def dbl_signed_def)

lemma const_near:
  assumes "0 \<le> c" "c \<le> 1000"
  shows "\<exists>r. dbl_const c = Finite False r \<and> c - 1 / 10 \<le> r \<and> r \<le> c + 1 / 10"
proof -
  have "\<bar>round_magnitude c - c\<bar> \<le> 1000 / 1000000000000000" using assms by (intro round_magnitude_near) simp_all
  then have "c - 1 / 10 \<le> round_magnitude c" "round_magnitude c \<le> c + 1 / 10" by linarith+
  moreover have "dbl_const c = Finite False (round_magnitude c)"
    using assms dbl_signed_finite [of c False] by (simp add: dbl_const_def)
  ultimately show ?thesis by blast
qed

lemma dbl_sub_less:
  assumes "\<bar>x\<bar> \<le> b" "\<bar>y\<bar> \<le> b" "1 \<le> b" "b \<le> 10 ^ 10 / 2"
  shows "\<exists>s r. dbl_sub (dbl_of x) (dbl_of y) = Finite s r \<and> 0 \<le> r \<and> r \<le> 2 * b + 1"
    and "\<exists>s r. dbl_add (dbl_of x) (dbl_of y) = Finite s r \<and> 0 \<le> r \<and> r \<le> 2 * b + 1"
proof -
  have v: "dbl_value (z < 0) \<bar>z\<bar> = z" for z by (simp add: dbl_value_def)
  have r: "\<exists>s r. dbl_round d = Finite s r \<and> 0 \<le> r \<and> r \<le> 2 * b + 1" if "\<bar>d\<bar> \<le> 2 * b" for d
    using dbl_signed_less [of "\<bar>d\<bar>" "2 * b" "d < 0"] that assms(3,4)
    by (auto simp: dbl_round_def dbl_signed_def Let_def split: if_splits)
  have "\<bar>x - y\<bar> \<le> 2 * b" "\<bar>x + y\<bar> \<le> 2 * b" using assms(1,2) by linarith+
  note r = this [THEN r]
  show "\<exists>s r. dbl_sub (dbl_of x) (dbl_of y) = Finite s r \<and> 0 \<le> r \<and> r \<le> 2 * b + 1"
    using r(1) assms(3) by (auto simp add: dbl_of_def v Let_def)
  have "dbl_value (\<not> y < 0) \<bar>y\<bar> = - y" by (simp add: dbl_value_def)
  then show "\<exists>s r. dbl_add (dbl_of x) (dbl_of y) = Finite s r \<and> 0 \<le> r \<and> r \<le> 2 * b + 1"
    using r(2) assms(3) by (auto simp add: dbl_of_def v Let_def)
qed

lemma altitude_ok:
  assumes "\<bar>x\<bar> \<le> 4 * 10 ^ 9" "\<bar>y\<bar> \<le> 4 * 10 ^ 9"
  shows "decimal_ok 1 (dbl_div (dbl_of x) (dbl_const 1000))"
    and "decimal_ok 1 (dbl_div (dbl_sub (dbl_of y) (dbl_of x)) (dbl_const 1000))"
proof -
  have ok: "decimal_ok 1 (dbl_div (Finite s r) (dbl_const 1000))" if "0 \<le> r" "r \<le> 9 * 10 ^ 9" for s r
    using dbl_signed_less [of "r / 1000" "9 * 10 ^ 6" s] that by (auto simp: const_1000 decimal_ok_def)
  show "decimal_ok 1 (dbl_div (dbl_of x) (dbl_const 1000))" using assms(1) unfolding dbl_of_def by (intro ok) simp_all
  obtain s r where "dbl_sub (dbl_of y) (dbl_of x) = Finite s r" "0 \<le> r" "r \<le> 2 * (4 * 10 ^ 9) + 1"
    using dbl_sub_less(1) [OF assms(2,1)] by auto
  then show "decimal_ok 1 (dbl_div (dbl_sub (dbl_of y) (dbl_of x)) (dbl_const 1000))" using ok [of r s] by simp
qed

lemma speed_ok:
  assumes "\<bar>x\<bar> \<le> 10 ^ 8"
  shows "decimal_ok 2 (dbl_div (dbl_of x) (dbl_const (514444 / 1000)))"
    and "decimal_ok 2 (dbl_div (dbl_div (dbl_of x) (dbl_const 1000)) (dbl_const (514444 / 1000000)))"
    and "decimal_ok 2 (dbl_mul (dbl_div (dbl_of x) (dbl_const 1000)) (dbl_const (36 / 10)))"
proof -
  have quotient: "\<exists>r. dbl_div (Finite t y) (Finite False c) = Finite t r \<and> 0 \<le> r \<and> r \<le> 5 * 10 ^ 5 + 1"
    if "0 \<le> y" "y \<le> 5 * 10 ^ 5 * c" "0 < c" for t y c
    using dbl_signed_less [of "y / c" "5 * 10 ^ 5" t] that by (auto simp: pos_divide_le_eq)
  obtain c where c: "dbl_const (514444 / 1000) = Finite False c" "514 \<le> c"
    using const_near [of "514444 / 1000"] by auto
  have "\<exists>r. dbl_div (Finite (x < 0) \<bar>x\<bar>) (Finite False c) = Finite (x < 0) r \<and> 0 \<le> r \<and> r \<le> 5 * 10 ^ 5 + 1"
    using assms c(2) by (intro quotient) simp_all
  then show "decimal_ok 2 (dbl_div (dbl_of x) (dbl_const (514444 / 1000)))"
    unfolding c(1) dbl_of_def by (auto simp: decimal_ok_def simp del: dbl_div.simps)
  obtain r where r: "dbl_div (dbl_of x) (dbl_const 1000) = Finite (x < 0) r" "0 \<le> r" "r \<le> 10 ^ 5 + 1"
    using dbl_signed_less [of "\<bar>x\<bar> / 1000" "10 ^ 5" "x < 0"] assms by (auto simp: const_1000 dbl_of_def)
  obtain k where k: "dbl_const (514444 / 1000000) = Finite False k" "2 / 5 \<le> k"
    using const_near [of "514444 / 1000000"] by auto
  have "\<exists>q. dbl_div (Finite (x < 0) r) (Finite False k) = Finite (x < 0) q \<and> 0 \<le> q \<and> q \<le> 5 * 10 ^ 5 + 1"
    using r k(2) by (intro quotient) simp_all
  then show "decimal_ok 2 (dbl_div (dbl_div (dbl_of x) (dbl_const 1000)) (dbl_const (514444 / 1000000)))"
    unfolding r(1) k(1) by (auto simp: decimal_ok_def simp del: dbl_div.simps)
  obtain h where h: "dbl_const (36 / 10) = Finite False h" "0 \<le> h" "h \<le> 4"
    using const_near [of "36 / 10"] by auto
  have "r * h \<le> (10 ^ 5 + 1) * 4" using r h by (intro mult_mono) simp_all
  then show "decimal_ok 2 (dbl_mul (dbl_div (dbl_of x) (dbl_const 1000)) (dbl_const (36 / 10)))"
    using dbl_signed_less [of "r * h" "5 * 10 ^ 5" "x < 0"] r h by (auto simp: decimal_ok_def)
qed

lemma mode_letter: "letter_ok (fix_type_to_rmc_mode fix_type flags)"
  by (simp add: fix_type_to_rmc_mode_def Let_def letters)

lemma length_gsa_fill [simp]: "length (gsa_fill svs ids slot) = length ids"
  by (induction svs ids slot rule: gsa_fill.induct) simp_all

lemma mapped_inputs_ok:
  assumes "location_in_range loc" and "dop_in_range dop"
  shows "gga_ok (to_gga loc dop)" "rmc_ok (to_rmc loc)" "gsa_ok (to_gsa loc sats dop)"
    "vtg_ok (to_vtg loc)" "gll_ok (to_gll loc)" "zda_ok (to_zda loc)"
proof -
  note loc = assms(1) [unfolded location_in_range_def] and dop = assms(2) [unfolded dop_in_range_def]
  have alt: "\<bar>loc_altitude_msl_mm loc\<bar> \<le> 4 * 10 ^ 9" "\<bar>loc_altitude_ellipsoid_mm loc\<bar> \<le> 4 * 10 ^ 9"
    and speed: "\<bar>loc_ground_speed_mmps loc\<bar> \<le> 10 ^ 8"
    and dirs: "\<bar>loc_motion_heading_deg loc\<bar> \<le> 1000" "\<bar>loc_magnetic_declination_deg loc\<bar> \<le> 1000"
    using loc by blast+
  note checks = altitude_ok [OF alt] speed_ok [OF speed]
  have minus: "decimal_ok 1 minus_one" "decimal_ok p dzero" for p by (simp_all add: decimal_ok_def)
  have small: "decimal_ok p (dbl_of x)" if "\<bar>x\<bar> \<le> 1000" "p = 1 \<or> p = 2" for p x
    using that by (auto intro!: decimal_ok_of)
  obtain s r where "dbl_add (dbl_of (loc_motion_heading_deg loc)) (dbl_of (loc_magnetic_declination_deg loc)) = Finite s r"
    "0 \<le> r" "r \<le> 2 * 1000 + 1" using dbl_sub_less(2) [OF dirs] by auto
  then have course: "decimal_ok 2 (dbl_add (dbl_of (loc_motion_heading_deg loc))
      (dbl_of (loc_magnetic_declination_deg loc)))" by (simp add: decimal_ok_def)
  show "gga_ok (to_gga loc dop)"
    using loc dop checks small [of "dop_hdop dop" 1] by (simp add: to_gga_def gga_ok_def angle_ok_of gga_input_new_def minus
      del: One_nat_def)
  show "rmc_ok (to_rmc loc)"
    using loc checks small by (simp add: to_rmc_def rmc_ok_def angle_ok_of rmc_input_new_def Let_def mode_letter
      del: One_nat_def)
  show "gsa_ok (to_gsa loc sats dop)"
    using loc dop small by (simp add: to_gsa_def gsa_ok_def gsa_input_new_def letters)
  show "vtg_ok (to_vtg loc)"
    using loc checks small course by (simp add: to_vtg_def vtg_ok_def vtg_input_new_def Let_def mode_letter minus
      del: One_nat_def)
  show "gll_ok (to_gll loc)"
    using loc by (simp add: to_gll_def gll_ok_def angle_ok_of gll_input_new_def mode_letter)
  show "zda_ok (to_zda loc)"
    using loc by (simp add: to_zda_def zda_ok_def zda_input_new_def)
qed

section \<open>What an epoch is expected to deliver\<close>

datatype sentence_input =
  In_gga gga_input | In_rmc rmc_input | In_gsa gsa_input | In_gsv gsv_input nat
| In_vtg vtg_input | In_gll gll_input | In_zda zda_input

datatype sentence_message =
  Msg_gga nmea_gga | Msg_rmc nmea_rmc | Msg_gsa nmea_gsa | Msg_gsv nmea_gsv
| Msg_vtg nmea_vtg | Msg_gll nmea_gll | Msg_zda nmea_zda

fun message_agrees :: "nmea_formatter \<Rightarrow> string \<Rightarrow> sentence_input \<Rightarrow> sentence_message \<Rightarrow> bool" where
  "message_agrees fmt t (In_gga d) (Msg_gga m) \<longleftrightarrow> gga_agrees fmt t d m"
| "message_agrees fmt t (In_rmc d) (Msg_rmc m) \<longleftrightarrow> rmc_agrees fmt t d m"
| "message_agrees fmt t (In_gsa d) (Msg_gsa m) \<longleftrightarrow> gsa_agrees fmt t d m"
| "message_agrees fmt t (In_gsv d n) (Msg_gsv m) \<longleftrightarrow> m = gsv_received_message (gi_talker d) (gi_satellites d) n"
| "message_agrees fmt t (In_vtg d) (Msg_vtg m) \<longleftrightarrow> vtg_agrees fmt t d m"
| "message_agrees fmt t (In_gll d) (Msg_gll m) \<longleftrightarrow> gll_agrees fmt t d m"
| "message_agrees fmt t (In_zda d) (Msg_zda m) \<longleftrightarrow> zda_agrees fmt t d m"
| "message_agrees fmt t d m \<longleftrightarrow> False"

definition epoch_gsv_inputs :: "nmea_generator_config \<Rightarrow> satellites_data \<Rightarrow> sentence_input list" where
  "epoch_gsv_inputs cfg sats =
     concat (map (\<lambda>gi. map (In_gsv gi) [0..<gsv_messages (gi_satellites gi)])
       (filter (\<lambda>gi. gsv_constellation_enabled cfg (gi_talker gi)) (to_gsv_all sats)))"

text \<open>The enabled sentences of an epoch, in their order.\<close>

definition epoch_inputs ::
    "nmea_generator_config \<Rightarrow> location_data \<Rightarrow> satellites_data \<Rightarrow> dop_data \<Rightarrow> sentence_input list" where
  "epoch_inputs cfg loc sats dop =
     (if enable_gga cfg then [In_gga (to_gga loc dop)] else []) @
     (if enable_rmc cfg then [In_rmc (to_rmc loc)] else []) @
     (if enable_gsa cfg then [In_gsa (to_gsa loc sats dop)] else []) @
     (if enable_gsv cfg then epoch_gsv_inputs cfg sats else []) @
     (if enable_vtg cfg then [In_vtg (to_vtg loc)] else []) @
     (if enable_gll cfg then [In_gll (to_gll loc)] else []) @
     (if enable_zda cfg then [In_zda (to_zda loc)] else [])"

definition reads_sentences :: "sentence_message nmea_parser \<Rightarrow> bool" where
  "reads_sentences p \<longleftrightarrow> nmea_idle p \<and> \<not> np_raw_cb p
     \<and> nmea_registry_find (np_registry p) ''GGA'' = [gga_parser Msg_gga]
     \<and> nmea_registry_find (np_registry p) ''RMC'' = [rmc_parser Msg_rmc]
     \<and> nmea_registry_find (np_registry p) ''GSA'' = [gsa_parser Msg_gsa]
     \<and> nmea_registry_find (np_registry p) ''GSV'' = [gsv_parser Msg_gsv]
     \<and> nmea_registry_find (np_registry p) ''VTG'' = [vtg_parser Msg_vtg]
     \<and> nmea_registry_find (np_registry p) ''GLL'' = [gll_parser Msg_gll]
     \<and> nmea_registry_find (np_registry p) ''ZDA'' = [zda_parser Msg_zda]"

text \<open>A generator between epochs: its builders have the talker and the flags of its configuration.\<close>

definition gen_ok :: "nmea_generator \<Rightarrow> bool" where
  "gen_ok gen \<longleftrightarrow> (let cfg = gen_config gen; t = talker_id cfg in
     gen_formatter gen = \<lparr>fmt_latlon_decimals = latlon_decimal_digits cfg, fmt_time_decimals = time_decimal_digits cfg\<rparr>
     \<and> sb_talker (gen_gga gen) = t \<and> sb_enabled (gen_gga gen) = enable_gga cfg
     \<and> sb_talker (gen_rmc gen) = t \<and> sb_enabled (gen_rmc gen) = enable_rmc cfg
     \<and> sb_talker (gen_gsa gen) = t \<and> sb_enabled (gen_gsa gen) = enable_gsa cfg
     \<and> gb_enabled (gen_gsv gen) = enable_gsv cfg
     \<and> sb_talker (gen_vtg gen) = t \<and> sb_enabled (gen_vtg gen) = enable_vtg cfg
     \<and> sb_talker (gen_gll gen) = t \<and> sb_enabled (gen_gll gen) = enable_gll cfg
     \<and> sb_talker (gen_zda gen) = t \<and> sb_enabled (gen_zda gen) = enable_zda cfg)"

lemma gen_ok_new: "gen_ok (nmea_generator_new cfg)" "gen_ok (configure cfg gen)"
  by (simp_all add: gen_ok_def nmea_generator_new_def configure_def rebuild_builders_def builder_new_def
      gsv_builder_new_def Let_def)

text \<open>Inputs whose sentences the parser answers with agreeing messages, one for each.\<close>

definition answered ::
    "sentence_message nmea_parser \<Rightarrow> nmea_formatter \<Rightarrow> string \<Rightarrow> sentence_input list \<Rightarrow> string list \<Rightarrow> bool" where
  "answered p fmt t ds ss \<longleftrightarrow> (\<exists>ms. list_all2 (message_agrees fmt t) ds ms
     \<and> list_all2 (delivers p) ss (map (\<lambda>m. [Sentence_callback m]) ms))"

lemma answered_Nil [simp]: "answered p fmt t [] []"
  by (simp add: answered_def)

lemma answered_append:
  assumes "answered p fmt t ds ss" and "answered p fmt t ds' ss'"
  shows "answered p fmt t (ds @ ds') (ss @ ss')"
proof -
  obtain ms ms' where "list_all2 (message_agrees fmt t) ds ms" "list_all2 (message_agrees fmt t) ds' ms'"
    "list_all2 (delivers p) ss (map (\<lambda>m. [Sentence_callback m]) ms)"
    "list_all2 (delivers p) ss' (map (\<lambda>m. [Sentence_callback m]) ms')"
    using assms unfolding answered_def by blast
  then show ?thesis unfolding answered_def
    by (intro exI [of _ "ms @ ms'"]) (simp add: list_all2_appendI)
qed

lemma answered_one:
  assumes "message_agrees fmt t d m" and "delivers p s [Sentence_callback m]"
  shows "answered p fmt t [d] [s]"
  unfolding answered_def using assms by (intro exI [of _ "[m]"]) simp

lemma delivers_push: "delivers p s es \<Longrightarrow> push s = [s]"
  by (auto simp: delivers_def push_def assemble_def Let_def)

lemma answered_push:
  assumes "enabled \<Longrightarrow> \<exists>m. message_agrees fmt t d m \<and> delivers p s [Sentence_callback m]" and "\<not> enabled \<Longrightarrow> s = []"
  shows "answered p fmt t (if enabled then [d] else []) (push s)"
proof (cases enabled)
  case True
  with assms(1) obtain m where "message_agrees fmt t d m" "delivers p s [Sentence_callback m]" by blast
  with answered_one delivers_push True show ?thesis by (metis (full_types))
next
  case False
  with assms(2) show ?thesis by (simp add: push_def)
qed

lemma answered_feed:
  assumes "nmea_idle p" and "answered p fmt t ds ss"
  shows "\<exists>ms. snd (nmea_feed p (map byte_of (concat ss))) = map Sentence_callback ms
    \<and> list_all2 (message_agrees fmt t) ds ms"
proof -
  obtain ms where ms: "list_all2 (message_agrees fmt t) ds ms"
    "list_all2 (delivers p) ss (map (\<lambda>m. [Sentence_callback m]) ms)"
    using assms(2) unfolding answered_def by blast
  have "concat (map (\<lambda>m. [Sentence_callback m]) ms) = map Sentence_callback ms" by (induction ms) simp_all
  with delivers_all [OF assms(1) ms(2)] ms(1) show ?thesis by (intro exI [of _ ms]) simp
qed

section \<open>Satellites in view\<close>

lemma constellation_inputs:
  assumes "gi \<in> set (to_gsv_all sats)"
  shows "gi_valid gi" "length (gi_satellites gi) < 256" "talker_ok (gi_talker gi)"
proof -
  let ?svs = "if sats_valid sats then take (unat (sats_num_svs sats)) (sats_svs sats) else []"
  obtain talker gnss_id where c: "(talker, gnss_id) \<in> set constellations" and
    gi: "gi = \<lparr>gi_talker = talker,
      gi_satellites = map gsv_record (filter (\<lambda>sv. svr_gnss_id sv = gnss_id) ?svs), gi_valid = True\<rparr>"
    using assms by (auto simp: to_gsv_all_def Let_def split: if_splits)
  show "gi_valid gi" by (simp add: gi)
  have "length (filter (\<lambda>sv. svr_gnss_id sv = gnss_id) ?svs) \<le> length ?svs" by (rule length_filter_le)
  also have "\<dots> \<le> unat (sats_num_svs sats)" by simp
  also have "\<dots> < 256" using unsigned_less [of "sats_num_svs sats"] by simp
  finally show "length (gi_satellites gi) < 256" by (simp add: gi)
  have "\<forall>c \<in> set constellations. talker_ok (fst c)" by (simp add: constellations_def talker_ok_def plain_def)
  with c have "talker_ok talker" by force
  then show "talker_ok (gi_talker gi)" by (simp add: gi)
qed

lemma answered_gsv:
  assumes "reads_sentences p" and "gb_enabled b" and "gi_valid gi" and "length (gi_satellites gi) < 256"
    and "talker_ok (gi_talker gi)"
  shows "answered p fmt t (map (In_gsv gi) [0..<gsv_messages (gi_satellites gi)]) (gsv_build_all (gsv_prepare gi b))"
proof -
  let ?svs = "gi_satellites gi" and ?t = "gi_talker gi"
  have ne: "?t \<noteq> []" using assms(5) unfolding talker_ok_def by (metis list.size(3) zero_neq_numeral)
  have built: "gsv_build_all (gsv_prepare gi b) =
      map (\<lambda>n. assemble ?t ''GSV'' (join_fields (gsv_fields ?svs n))) [0..<gsv_messages ?svs]"
    using gsv_build_all_assemble [of "gsv_prepare gi b" gi] assms(2-4) ne by (simp add: gsv_prepare_def)
  have each: "delivers p (assemble ?t ''GSV'' (join_fields (gsv_fields ?svs n)))
      [Sentence_callback (Msg_gsv (gsv_received_message ?t ?svs n))]" if "n < gsv_messages ?svs" for n
  proof -
    have "nmea_dispatch p (valid_sentence ?t ''GSV'' (gsv_fields ?svs n)) =
        [Sentence_callback (Msg_gsv (gsv_received_message ?t ?svs n))]"
      using gsv_parse_built [OF _ _ assms(4) that, of "valid_sentence ?t ''GSV'' (gsv_fields ?svs n)"] assms(1)
      by (simp add: nmea_dispatch_def valid_sentence_def gsv_parser_def reads_sentences_def Let_def)
    with well_formed_gsv [OF assms(5)] show ?thesis unfolding delivers_def by blast
  qed
  show ?thesis unfolding answered_def built
    by (intro exI [of _ "map (\<lambda>n. Msg_gsv (gsv_received_message ?t ?svs n)) [0..<gsv_messages ?svs]"])
      (simp add: list_all2_conv_all_nth each)
qed

lemma generate_gsv_each_answered:
  assumes "reads_sentences p" and "gb_enabled (gen_gsv gen)"
    and "\<forall>gi \<in> set gis. gi_valid gi \<and> length (gi_satellites gi) < 256 \<and> talker_ok (gi_talker gi)"
  shows "answered p fmt t (concat (map (\<lambda>gi. map (In_gsv gi) [0..<gsv_messages (gi_satellites gi)]) gis))
      (fst (generate_gsv_each gis gen))
    \<and> (\<exists>b. gb_enabled b \<and> snd (generate_gsv_each gis gen) = gen\<lparr>gen_gsv := b\<rparr>)"
  using assms(2,3)
proof (induction gis arbitrary: gen)
  case Nil
  show ?case using Nil.prems(1) by (auto intro: exI [of _ "gen_gsv gen"])
next
  case (Cons gi gis)
  define gen' where "gen' = gen\<lparr>gen_gsv := gsv_prepare gi (gen_gsv gen)\<rparr>"
  have "gb_enabled (gen_gsv gen')" using Cons.prems(1) by (simp add: gen'_def gsv_prepare_def)
  note IH = Cons.IH [OF this]
  moreover have "answered p fmt t (map (In_gsv gi) [0..<gsv_messages (gi_satellites gi)])
      (gsv_build_all (gsv_prepare gi (gen_gsv gen)))"
    using Cons.prems by (intro answered_gsv [OF assms(1)]) simp_all
  ultimately show ?case using Cons.prems(2)
    by (auto simp: generate_gsv_def Let_def case_prod_beta simp flip: gen'_def intro!: answered_append)
      (auto simp: gen'_def)
qed

section \<open>The epoch\<close>

lemma answered_gga:
  assumes "reads_sentences p" "fmt_ok fmt" "talker_ok (sb_talker b)" "gga_ok d"
  shows "answered p fmt (sb_talker b) (if sb_enabled b then [In_gga d] else []) (push (gga_build fmt (gga_prepare d b)))"
proof (rule answered_push)
  assume "sb_enabled b"
  from gga.delivered [OF assms(4,2) this assms(3), of p Msg_gga] assms(1)
  show "\<exists>m. message_agrees fmt (sb_talker b) (In_gga d) m \<and> delivers p (gga_build fmt (gga_prepare d b)) [Sentence_callback m]"
    by (force simp: reads_sentences_def gga_parser_def)
qed (simp add: gga_build_def gga_prepare_def)

lemma answered_rmc:
  assumes "reads_sentences p" "fmt_ok fmt" "talker_ok (sb_talker b)" "rmc_ok d"
  shows "answered p fmt (sb_talker b) (if sb_enabled b then [In_rmc d] else []) (push (rmc_build fmt (rmc_prepare d b)))"
proof (rule answered_push)
  assume "sb_enabled b"
  from rmc.delivered [OF assms(4,2) this assms(3), of p Msg_rmc] assms(1)
  show "\<exists>m. message_agrees fmt (sb_talker b) (In_rmc d) m \<and> delivers p (rmc_build fmt (rmc_prepare d b)) [Sentence_callback m]"
    by (force simp: reads_sentences_def rmc_parser_def)
qed (simp add: rmc_build_def rmc_prepare_def)

lemma answered_gsa:
  assumes "reads_sentences p" "fmt_ok fmt" "talker_ok (sb_talker b)" "gsa_ok d"
  shows "answered p fmt (sb_talker b) (if sb_enabled b then [In_gsa d] else []) (push (gsa_build fmt (gsa_prepare d b)))"
proof (rule answered_push)
  assume "sb_enabled b"
  from gsa.delivered [OF assms(4,2) this assms(3), of p Msg_gsa] assms(1)
  show "\<exists>m. message_agrees fmt (sb_talker b) (In_gsa d) m \<and> delivers p (gsa_build fmt (gsa_prepare d b)) [Sentence_callback m]"
    by (force simp: reads_sentences_def gsa_parser_def)
qed (simp add: gsa_build_def gsa_prepare_def)

lemma answered_vtg:
  assumes "reads_sentences p" "fmt_ok fmt" "talker_ok (sb_talker b)" "vtg_ok d"
  shows "answered p fmt (sb_talker b) (if sb_enabled b then [In_vtg d] else []) (push (vtg_build fmt (vtg_prepare d b)))"
proof (rule answered_push)
  assume "sb_enabled b"
  from vtg.delivered [OF assms(4,2) this assms(3), of p Msg_vtg] assms(1)
  show "\<exists>m. message_agrees fmt (sb_talker b) (In_vtg d) m \<and> delivers p (vtg_build fmt (vtg_prepare d b)) [Sentence_callback m]"
    by (force simp: reads_sentences_def vtg_parser_def)
qed (simp add: vtg_build_def vtg_prepare_def)

lemma answered_gll:
  assumes "reads_sentences p" "fmt_ok fmt" "talker_ok (sb_talker b)" "gll_ok d"
  shows "answered p fmt (sb_talker b) (if sb_enabled b then [In_gll d] else []) (push (gll_build fmt (gll_prepare d b)))"
proof (rule answered_push)
  assume "sb_enabled b"
  from gll.delivered [OF assms(4,2) this assms(3), of p Msg_gll] assms(1)
  show "\<exists>m. message_agrees fmt (sb_talker b) (In_gll d) m \<and> delivers p (gll_build fmt (gll_prepare d b)) [Sentence_callback m]"
    by (force simp: reads_sentences_def gll_parser_def)
qed (simp add: gll_build_def gll_prepare_def)

lemma answered_zda:
  assumes "reads_sentences p" "fmt_ok fmt" "talker_ok (sb_talker b)" "zda_ok d"
  shows "answered p fmt (sb_talker b) (if sb_enabled b then [In_zda d] else []) (push (zda_build fmt (zda_prepare d b)))"
proof (rule answered_push)
  assume "sb_enabled b"
  from zda.delivered [OF assms(4,2) this assms(3), of p Msg_zda] assms(1)
  show "\<exists>m. message_agrees fmt (sb_talker b) (In_zda d) m \<and> delivers p (zda_build fmt (zda_prepare d b)) [Sentence_callback m]"
    by (force simp: reads_sentences_def zda_parser_def)
qed (simp add: zda_build_def zda_prepare_def)

lemma delivers_nonempty:
  assumes "answered p fmt t ds ss"
  shows "concat (map push ss) = ss"
proof -
  obtain ess where "list_all2 (delivers p) ss ess" using assms unfolding answered_def by blast
  then show ?thesis by (induction rule: list_all2_induct) (simp_all add: delivers_push)
qed

lemma prepared_kept [simp]:
  "sb_talker (gga_prepare d1 b1) = sb_talker b1" "sb_enabled (gga_prepare d1 b1) = sb_enabled b1"
  "sb_talker (rmc_prepare d2 b2) = sb_talker b2" "sb_enabled (rmc_prepare d2 b2) = sb_enabled b2"
  "sb_talker (gsa_prepare d3 b3) = sb_talker b3" "sb_enabled (gsa_prepare d3 b3) = sb_enabled b3"
  "sb_talker (vtg_prepare d4 b4) = sb_talker b4" "sb_enabled (vtg_prepare d4 b4) = sb_enabled b4"
  "sb_talker (gll_prepare d5 b5) = sb_talker b5" "sb_enabled (gll_prepare d5 b5) = sb_enabled b5"
  "sb_talker (zda_prepare d6 b6) = sb_talker b6" "sb_enabled (zda_prepare d6 b6) = sb_enabled b6"
  by (simp_all add: gga_prepare_def rmc_prepare_def gsa_prepare_def vtg_prepare_def gll_prepare_def zda_prepare_def)

lemma generate_answered:
  assumes "reads_sentences p" and "gen_ok gen" and "gen_config gen = cfg" and "talker_ok (talker_id cfg)"
    and "fmt_ok (gen_formatter gen)" and "location_in_range loc" and "dop_in_range dop"
  shows "answered p (gen_formatter gen) (talker_id cfg) (epoch_inputs cfg loc sats dop) (fst (generate loc sats dop gen))"
    and "gen_ok (snd (generate loc sats dop gen))" and "gen_config (snd (generate loc sats dop gen)) = cfg"
proof -
  let ?fmt = "gen_formatter gen" and ?t = "talker_id cfg"
  have g: "sb_talker (gen_gga gen) = ?t" "sb_enabled (gen_gga gen) = enable_gga cfg"
    "sb_talker (gen_rmc gen) = ?t" "sb_enabled (gen_rmc gen) = enable_rmc cfg"
    "sb_talker (gen_gsa gen) = ?t" "sb_enabled (gen_gsa gen) = enable_gsa cfg"
    "gb_enabled (gen_gsv gen) = enable_gsv cfg"
    "sb_talker (gen_vtg gen) = ?t" "sb_enabled (gen_vtg gen) = enable_vtg cfg"
    "sb_talker (gen_gll gen) = ?t" "sb_enabled (gen_gll gen) = enable_gll cfg"
    "sb_talker (gen_zda gen) = ?t" "sb_enabled (gen_zda gen) = enable_zda cfg"
    using assms(2,3) by (simp_all add: gen_ok_def Let_def)
  note ok = mapped_inputs_ok [OF assms(6,7)]
  note parts = answered_gga [OF assms(1,5), of "gen_gga gen", unfolded g, OF assms(4) ok(1)]
    answered_rmc [OF assms(1,5), of "gen_rmc gen", unfolded g, OF assms(4) ok(2)]
    answered_gsa [OF assms(1,5), of "gen_gsa gen", unfolded g, OF assms(4) ok(3)]
    answered_vtg [OF assms(1,5), of "gen_vtg gen", unfolded g, OF assms(4) ok(4)]
    answered_gll [OF assms(1,5), of "gen_gll gen", unfolded g, OF assms(4) ok(5)]
    answered_zda [OF assms(1,5), of "gen_zda gen", unfolded g, OF assms(4) ok(6)]
  let ?gen1 = "gen\<lparr>gen_gga := gga_prepare (to_gga loc dop) (gen_gga gen), gen_rmc := rmc_prepare (to_rmc loc) (gen_rmc gen),
    gen_gsa := gsa_prepare (to_gsa loc sats dop) (gen_gsa gen)\<rparr>"
  define gis where "gis = filter (\<lambda>gi. gsv_constellation_enabled cfg (gi_talker gi)) (to_gsv_all sats)"
  define gsv where "gsv = (if enable_gsv cfg then generate_gsv_each gis ?gen1 else ([], ?gen1))"
  have "\<forall>gi \<in> set gis. gi_valid gi \<and> length (gi_satellites gi) < 256 \<and> talker_ok (gi_talker gi)"
    using constellation_inputs by (auto simp: gis_def)
  then have gsv_ok: "answered p ?fmt ?t (if enable_gsv cfg then epoch_gsv_inputs cfg sats else []) (fst gsv)
      \<and> (\<exists>b. gb_enabled b = enable_gsv cfg \<and> snd gsv = ?gen1\<lparr>gen_gsv := b\<rparr>)"
    using generate_gsv_each_answered [OF assms(1), of ?gen1 gis ?fmt ?t] g(7)
    by (auto simp: gsv_def epoch_gsv_inputs_def gis_def intro: exI [of _ "gen_gsv gen"])
  then obtain b where b: "gb_enabled b = enable_gsv cfg" "snd gsv = ?gen1\<lparr>gen_gsv := b\<rparr>" by blast
  have gsv_eq: "(if enable_gsv cfg
      then generate_gsv_each (filter (\<lambda>gi. gsv_constellation_enabled cfg (gi_talker gi)) (to_gsv_all sats)) ?gen1
      else ([], ?gen1)) = (fst gsv, ?gen1\<lparr>gen_gsv := b\<rparr>)"
    using b(2) unfolding gsv_def gis_def by (intro prod_eqI) (simp_all only: fst_conv snd_conv)
  have gen: "generate loc sats dop gen =
      (push (gga_build ?fmt (gga_prepare (to_gga loc dop) (gen_gga gen))) @
       push (rmc_build ?fmt (rmc_prepare (to_rmc loc) (gen_rmc gen))) @
       push (gsa_build ?fmt (gsa_prepare (to_gsa loc sats dop) (gen_gsa gen))) @ concat (map push (fst gsv)) @
       push (vtg_build ?fmt (vtg_prepare (to_vtg loc) (gen_vtg gen))) @
       push (gll_build ?fmt (gll_prepare (to_gll loc) (gen_gll gen))) @
       push (zda_build ?fmt (zda_prepare (to_zda loc) (gen_zda gen))),
       ?gen1\<lparr>gen_gsv := b, gen_vtg := vtg_prepare (to_vtg loc) (gen_vtg gen),
         gen_gll := gll_prepare (to_gll loc) (gen_gll gen), gen_zda := zda_prepare (to_zda loc) (gen_zda gen)\<rparr>)"
    using gsv_eq assms(3)
    by (simp add: generate_def generate_gga_def generate_rmc_def generate_gsa_def generate_vtg_def
        generate_gll_def generate_zda_def Let_def case_prod_beta cong: if_cong split del: if_split)
  show "answered p ?fmt ?t (epoch_inputs cfg loc sats dop) (fst (generate loc sats dop gen))"
    unfolding gen fst_conv epoch_inputs_def delivers_nonempty [OF conjunct1 [OF gsv_ok]]
    using parts gsv_ok by (intro answered_append) simp_all
  show "gen_ok (snd (generate loc sats dop gen))" "gen_config (snd (generate loc sats dop gen)) = cfg"
    using assms(2,3) b(1) by (simp_all add: gen gen_ok_def Let_def)
qed


lemma message_agrees_iff:
  "message_agrees fmt t (In_gga d1) m \<longleftrightarrow> (\<exists>x. m = Msg_gga x \<and> gga_agrees fmt t d1 x)"
  "message_agrees fmt t (In_rmc d2) m \<longleftrightarrow> (\<exists>x. m = Msg_rmc x \<and> rmc_agrees fmt t d2 x)"
  "message_agrees fmt t (In_gsa d3) m \<longleftrightarrow> (\<exists>x. m = Msg_gsa x \<and> gsa_agrees fmt t d3 x)"
  "message_agrees fmt t (In_vtg d4) m \<longleftrightarrow> (\<exists>x. m = Msg_vtg x \<and> vtg_agrees fmt t d4 x)"
  "message_agrees fmt t (In_gll d5) m \<longleftrightarrow> (\<exists>x. m = Msg_gll x \<and> gll_agrees fmt t d5 x)"
  "message_agrees fmt t (In_zda d6) m \<longleftrightarrow> (\<exists>x. m = Msg_zda x \<and> zda_agrees fmt t d6 x)"
  by (cases m; simp)+

text \<open>One epoch of a generator with the default configuration.\<close>

definition demo_location :: location_data where
  "demo_location = location_data_zero\<lparr>loc_valid := True, loc_latitude_deg := 95 / 2, loc_longitude_deg := - 17 / 2,
     loc_hour := 12, loc_fix_type := 3, loc_flags := 1\<rparr>"

definition demo_reader :: "sentence_message nmea_parser" where
  "demo_reader = nmea_parser_new (nmea_register_parser (gga_parser Msg_gga) (nmea_register_parser (rmc_parser Msg_rmc)
     (nmea_register_parser (gsa_parser Msg_gsa) (nmea_register_parser (gsv_parser Msg_gsv)
     (nmea_register_parser (vtg_parser Msg_vtg) (nmea_register_parser (gll_parser Msg_gll)
     (nmea_register_parser (zda_parser Msg_zda) (\<lambda>_. None))))))))"


end
