(* ===== verification/Nmea_Database.thy ===== *)
theory Nmea_Database
  imports Nmea_Epoch Ubx_Database
begin

text \<open>
  The database of the NMEA library (\<open>ext_libs/nmea_parser/{include,src}/database\<close>): the numbered slots, the
  store, the handlers that write a message into it, the commit policy, the database and the adapter that
  registers a sentence parser for each handler; and the wrapper (\<open>shared_buffer/nmea_database_wrapper.cpp\<close>)
  that turns a committed snapshot into \<open>nmea_data\<close>. A parser's callback is the message it is called
  with; the callbacks run under the database's mutex, so each is one step.
\<close>

section \<open>Message types\<close>

named_theorems nmea_field_defs \<open>the numbers of the slots and of the message types\<close>

type_synonym nmea_msg_type = nat
type_synonym nmea_data_field = nat

definition NMEA_MAX_SATS_IN_VIEW :: nat where [nmea_field_defs]: "NMEA_MAX_SATS_IN_VIEW = 64"

definition MSG_NMEA_GGA :: nmea_msg_type where [nmea_field_defs]: "MSG_NMEA_GGA = 0"
definition MSG_NMEA_RMC :: nmea_msg_type where [nmea_field_defs]: "MSG_NMEA_RMC = 1"
definition MSG_NMEA_GSA :: nmea_msg_type where [nmea_field_defs]: "MSG_NMEA_GSA = 2"
definition MSG_NMEA_GSV :: nmea_msg_type where [nmea_field_defs]: "MSG_NMEA_GSV = 3"
definition MSG_NMEA_VTG :: nmea_msg_type where [nmea_field_defs]: "MSG_NMEA_VTG = 4"
definition MSG_NMEA_GLL :: nmea_msg_type where [nmea_field_defs]: "MSG_NMEA_GLL = 5"
definition MSG_NMEA_GBS :: nmea_msg_type where [nmea_field_defs]: "MSG_NMEA_GBS = 6"
definition MSG_NMEA_GNS :: nmea_msg_type where [nmea_field_defs]: "MSG_NMEA_GNS = 7"
definition MSG_NMEA_GST :: nmea_msg_type where [nmea_field_defs]: "MSG_NMEA_GST = 8"
definition MSG_NMEA_ZDA :: nmea_msg_type where [nmea_field_defs]: "MSG_NMEA_ZDA = 9"
definition MSG_NMEA_DTM :: nmea_msg_type where [nmea_field_defs]: "MSG_NMEA_DTM = 10"
definition MSG_NMEA_COUNT :: nmea_msg_type where [nmea_field_defs]: "MSG_NMEA_COUNT = 11"

section \<open>Field slots\<close>

definition NMEA_GGA_UTC_TIME :: nmea_data_field where [nmea_field_defs]: "NMEA_GGA_UTC_TIME = 0"
definition NMEA_GGA_LATITUDE :: nmea_data_field where [nmea_field_defs]: "NMEA_GGA_LATITUDE = 1"
definition NMEA_GGA_LONGITUDE :: nmea_data_field where [nmea_field_defs]: "NMEA_GGA_LONGITUDE = 2"
definition NMEA_GGA_FIX_QUALITY :: nmea_data_field where [nmea_field_defs]: "NMEA_GGA_FIX_QUALITY = 3"
definition NMEA_GGA_NUM_SATELLITES :: nmea_data_field where [nmea_field_defs]: "NMEA_GGA_NUM_SATELLITES = 4"
definition NMEA_GGA_HDOP :: nmea_data_field where [nmea_field_defs]: "NMEA_GGA_HDOP = 5"
definition NMEA_GGA_ALTITUDE_MSL :: nmea_data_field where [nmea_field_defs]: "NMEA_GGA_ALTITUDE_MSL = 6"
definition NMEA_GGA_GEOID_SEP :: nmea_data_field where [nmea_field_defs]: "NMEA_GGA_GEOID_SEP = 7"
definition NMEA_GGA_DGPS_AGE :: nmea_data_field where [nmea_field_defs]: "NMEA_GGA_DGPS_AGE = 8"
definition NMEA_RMC_UTC_TIME :: nmea_data_field where [nmea_field_defs]: "NMEA_RMC_UTC_TIME = 9"
definition NMEA_RMC_STATUS_ACTIVE :: nmea_data_field where [nmea_field_defs]: "NMEA_RMC_STATUS_ACTIVE = 10"
definition NMEA_RMC_LATITUDE :: nmea_data_field where [nmea_field_defs]: "NMEA_RMC_LATITUDE = 11"
definition NMEA_RMC_LONGITUDE :: nmea_data_field where [nmea_field_defs]: "NMEA_RMC_LONGITUDE = 12"
definition NMEA_RMC_SPEED_KNOTS :: nmea_data_field where [nmea_field_defs]: "NMEA_RMC_SPEED_KNOTS = 13"
definition NMEA_RMC_COURSE_TRUE :: nmea_data_field where [nmea_field_defs]: "NMEA_RMC_COURSE_TRUE = 14"
definition NMEA_RMC_DATE :: nmea_data_field where [nmea_field_defs]: "NMEA_RMC_DATE = 15"
definition NMEA_RMC_MAG_VARIATION :: nmea_data_field where [nmea_field_defs]: "NMEA_RMC_MAG_VARIATION = 16"
definition NMEA_GSA_NAV_MODE :: nmea_data_field where [nmea_field_defs]: "NMEA_GSA_NAV_MODE = 17"
definition NMEA_GSA_PDOP :: nmea_data_field where [nmea_field_defs]: "NMEA_GSA_PDOP = 18"
definition NMEA_GSA_HDOP :: nmea_data_field where [nmea_field_defs]: "NMEA_GSA_HDOP = 19"
definition NMEA_GSA_VDOP :: nmea_data_field where [nmea_field_defs]: "NMEA_GSA_VDOP = 20"
definition NMEA_GSA_SYSTEM_ID :: nmea_data_field where [nmea_field_defs]: "NMEA_GSA_SYSTEM_ID = 21"
definition NMEA_VTG_COURSE_TRUE :: nmea_data_field where [nmea_field_defs]: "NMEA_VTG_COURSE_TRUE = 22"
definition NMEA_VTG_COURSE_MAG :: nmea_data_field where [nmea_field_defs]: "NMEA_VTG_COURSE_MAG = 23"
definition NMEA_VTG_SPEED_KNOTS :: nmea_data_field where [nmea_field_defs]: "NMEA_VTG_SPEED_KNOTS = 24"
definition NMEA_VTG_SPEED_KMPH :: nmea_data_field where [nmea_field_defs]: "NMEA_VTG_SPEED_KMPH = 25"
definition NMEA_GLL_LATITUDE :: nmea_data_field where [nmea_field_defs]: "NMEA_GLL_LATITUDE = 26"
definition NMEA_GLL_LONGITUDE :: nmea_data_field where [nmea_field_defs]: "NMEA_GLL_LONGITUDE = 27"
definition NMEA_GLL_UTC_TIME :: nmea_data_field where [nmea_field_defs]: "NMEA_GLL_UTC_TIME = 28"
definition NMEA_GLL_STATUS_ACTIVE :: nmea_data_field where [nmea_field_defs]: "NMEA_GLL_STATUS_ACTIVE = 29"
definition NMEA_GBS_ERR_LAT :: nmea_data_field where [nmea_field_defs]: "NMEA_GBS_ERR_LAT = 30"
definition NMEA_GBS_ERR_LON :: nmea_data_field where [nmea_field_defs]: "NMEA_GBS_ERR_LON = 31"
definition NMEA_GBS_ERR_ALT :: nmea_data_field where [nmea_field_defs]: "NMEA_GBS_ERR_ALT = 32"
definition NMEA_GNS_UTC_TIME :: nmea_data_field where [nmea_field_defs]: "NMEA_GNS_UTC_TIME = 33"
definition NMEA_GNS_LATITUDE :: nmea_data_field where [nmea_field_defs]: "NMEA_GNS_LATITUDE = 34"
definition NMEA_GNS_LONGITUDE :: nmea_data_field where [nmea_field_defs]: "NMEA_GNS_LONGITUDE = 35"
definition NMEA_GNS_NUM_SATS :: nmea_data_field where [nmea_field_defs]: "NMEA_GNS_NUM_SATS = 36"
definition NMEA_GNS_HDOP :: nmea_data_field where [nmea_field_defs]: "NMEA_GNS_HDOP = 37"
definition NMEA_GNS_ALTITUDE :: nmea_data_field where [nmea_field_defs]: "NMEA_GNS_ALTITUDE = 38"
definition NMEA_GST_LAT_ERR :: nmea_data_field where [nmea_field_defs]: "NMEA_GST_LAT_ERR = 39"
definition NMEA_GST_LON_ERR :: nmea_data_field where [nmea_field_defs]: "NMEA_GST_LON_ERR = 40"
definition NMEA_GST_ALT_ERR :: nmea_data_field where [nmea_field_defs]: "NMEA_GST_ALT_ERR = 41"
definition NMEA_GST_RMS_DEV :: nmea_data_field where [nmea_field_defs]: "NMEA_GST_RMS_DEV = 42"
definition NMEA_ZDA_UTC_TIME :: nmea_data_field where [nmea_field_defs]: "NMEA_ZDA_UTC_TIME = 43"
definition NMEA_ZDA_DAY :: nmea_data_field where [nmea_field_defs]: "NMEA_ZDA_DAY = 44"
definition NMEA_ZDA_MONTH :: nmea_data_field where [nmea_field_defs]: "NMEA_ZDA_MONTH = 45"
definition NMEA_ZDA_YEAR :: nmea_data_field where [nmea_field_defs]: "NMEA_ZDA_YEAR = 46"
definition NMEA_GSV_NUM_SATS_IN_VIEW :: nmea_data_field where [nmea_field_defs]: "NMEA_GSV_NUM_SATS_IN_VIEW = 47"
definition NMEA_GSV_SAT_SVID :: nmea_data_field where [nmea_field_defs]: "NMEA_GSV_SAT_SVID = 48"
definition NMEA_GSV_SAT_SVID_X :: nmea_data_field where [nmea_field_defs]: "NMEA_GSV_SAT_SVID_X = 112"
definition NMEA_GSV_SAT_ELEVATION :: nmea_data_field where [nmea_field_defs]: "NMEA_GSV_SAT_ELEVATION = 113"
definition NMEA_GSV_SAT_ELEVATION_X :: nmea_data_field where [nmea_field_defs]: "NMEA_GSV_SAT_ELEVATION_X = 177"
definition NMEA_GSV_SAT_AZIMUTH :: nmea_data_field where [nmea_field_defs]: "NMEA_GSV_SAT_AZIMUTH = 178"
definition NMEA_GSV_SAT_AZIMUTH_X :: nmea_data_field where [nmea_field_defs]: "NMEA_GSV_SAT_AZIMUTH_X = 242"
definition NMEA_GSV_SAT_SNR :: nmea_data_field where [nmea_field_defs]: "NMEA_GSV_SAT_SNR = 243"
definition NMEA_GSV_SAT_SNR_X :: nmea_data_field where [nmea_field_defs]: "NMEA_GSV_SAT_SNR_X = 307"
definition NMEA_DATA_PARSE :: nmea_data_field where [nmea_field_defs]: "NMEA_DATA_PARSE = 307"
definition NMEA_DATA_NUM :: nmea_data_field where [nmea_field_defs]: "NMEA_DATA_NUM = 307"


text \<open>The sum is one of \<open>uint16_t\<close>; it cannot wrap for any slot.\<close>

definition nmea_gsv_sat_field :: "nmea_data_field \<Rightarrow> u8 \<Rightarrow> nmea_data_field" where
  "nmea_gsv_sat_field base sat_idx =
     (let slot = base + unat sat_idx in if slot < NMEA_DATA_PARSE then slot else NMEA_DATA_PARSE)"

text \<open>An index past the last satellite is not refused: it is a slot of the next attribute.\<close>

lemma sat_field_past_end: "nmea_gsv_sat_field NMEA_GSV_SAT_SVID 65 = NMEA_GSV_SAT_ELEVATION"
  by (simp add: nmea_gsv_sat_field_def nmea_field_defs)

section \<open>The store\<close>

record nmea_field_store =
  nfs_values :: "nmea_data_field \<Rightarrow> dbl"
  nfs_valid :: "nmea_data_field \<Rightarrow> bool"

definition nfs_reset :: nmea_field_store where
  "nfs_reset = \<lparr>nfs_values = (\<lambda>_. dzero), nfs_valid = (\<lambda>_. False)\<rparr>"

text \<open>\<open>set\<close>, with the value already converted to \<open>double\<close>.\<close>

definition nfs_set :: "nmea_data_field \<Rightarrow> dbl \<Rightarrow> nmea_field_store \<Rightarrow> nmea_field_store" where
  "nfs_set field value st =
     (if field < NMEA_DATA_NUM
      then st\<lparr>nfs_values := (nfs_values st)(field := value), nfs_valid := (nfs_valid st)(field := True)\<rparr>
      else st)"

definition nfs_is_valid :: "nmea_field_store \<Rightarrow> nmea_data_field \<Rightarrow> bool" where
  "nfs_is_valid st field \<longleftrightarrow> field < NMEA_DATA_NUM \<and> nfs_valid st field"

text \<open>
  \<open>get\<close> into a variable: its old value when it returns false, the converted one otherwise, and \<open>None\<close> when
  C++ gives the conversion no result.
\<close>

definition nfs_get :: "(dbl \<Rightarrow> 'a option) \<Rightarrow> nmea_field_store \<Rightarrow> nmea_data_field \<Rightarrow> 'a \<Rightarrow> 'a option" where
  "nfs_get conv st field out = (if nfs_is_valid st field then conv (nfs_values st field) else Some out)"

definition nfs_look :: "nmea_field_store \<Rightarrow> nmea_data_field \<Rightarrow> dbl option" where
  "nfs_look st f = (if nfs_is_valid st f then Some (nfs_values st f) else None)"

interpretation nfs: slot_store nfs_set nfs_look "\<lambda>f. f < NMEA_DATA_NUM"
  by unfold_locales (simp add: nfs_look_def nfs_set_def nfs_is_valid_def)

lemma nfs_get_look: "nfs_get conv st f out = (case nfs_look st f of None \<Rightarrow> Some out | Some d \<Rightarrow> conv d)"
  by (simp add: nfs_get_def nfs_look_def)

text \<open>Conversions of integers to \<open>double\<close>, all exact, and of \<open>double\<close>s to the types of the buffer.\<close>

definition dbl_int :: "int \<Rightarrow> dbl" where
  "dbl_int i = dbl_of (of_int i)"

definition dbl_trunc :: "dbl \<Rightarrow> int option" where
  "dbl_trunc d = (case d of Finite s x \<Rightarrow> Some (trunc (dbl_value s x)) | _ \<Rightarrow> None)"

definition dbl_to_u8 :: "dbl \<Rightarrow> u8 option" where
  "dbl_to_u8 d = (case dbl_trunc d of None \<Rightarrow> None
     | Some v \<Rightarrow> if 0 \<le> v \<and> v < 2 ^ 8 then Some (word_of_int v) else None)"

definition dbl_to_i8 :: "dbl \<Rightarrow> i8 option" where
  "dbl_to_i8 d = (case dbl_trunc d of None \<Rightarrow> None
     | Some v \<Rightarrow> if - (2 ^ 7) \<le> v \<and> v < 2 ^ 7 then Some (word_of_int v) else None)"

definition dbl_to_i16 :: "dbl \<Rightarrow> i16 option" where
  "dbl_to_i16 d = (case dbl_trunc d of None \<Rightarrow> None
     | Some v \<Rightarrow> if - (2 ^ 15) \<le> v \<and> v < 2 ^ 15 then Some (word_of_int v) else None)"

text \<open>A \<open>float\<close> is kept as the \<open>double\<close> of the same value; beyond its range the result is undefined.\<close>

definition dbl_to_float :: "dbl \<Rightarrow> dbl option" where
  "dbl_to_float d =
     (case d of
        Finite s x \<Rightarrow>
          (let e = max (binade x - 23) (- 149);
               r = (if x = 0 then 0 else of_int (round_half_even (x / 2 powi e)) * 2 powi e)
           in if r \<ge> 2 ^ 128 then None else Some (Finite s r))
      | _ \<Rightarrow> Some d)"

section \<open>Handlers\<close>

text \<open>
  The \<open>set\<close> calls of a handler in their order. A handler keeps the last message between \<open>update\<close> and the
  \<open>handle\<close> that follows it at once, so the message is an argument here; only the handler of satellites in
  view has a state of its own.
\<close>

definition gga_writes :: "nmea_gga \<Rightarrow> (nmea_data_field \<times> dbl) list" where
  "gga_writes m =
     [(NMEA_GGA_UTC_TIME, gga_utc_time m), (NMEA_GGA_LATITUDE, gga_latitude m),
      (NMEA_GGA_LONGITUDE, gga_longitude m), (NMEA_GGA_FIX_QUALITY, dbl_int (uint (gga_fix_quality m))),
      (NMEA_GGA_NUM_SATELLITES, dbl_int (uint (gga_num_satellites m))), (NMEA_GGA_HDOP, gga_hdop m),
      (NMEA_GGA_ALTITUDE_MSL, gga_altitude_msl m), (NMEA_GGA_GEOID_SEP, gga_geoid_sep m)]
     @ (if dbl_le dzero (gga_dgps_age m) then [(NMEA_GGA_DGPS_AGE, gga_dgps_age m)] else [])"

definition rmc_writes :: "nmea_rmc \<Rightarrow> (nmea_data_field \<times> dbl) list" where
  "rmc_writes m =
     [(NMEA_RMC_UTC_TIME, rmc_utc_time m), (NMEA_RMC_STATUS_ACTIVE, if rmc_status_active m then dbl_int 1 else dzero),
      (NMEA_RMC_LATITUDE, rmc_latitude m), (NMEA_RMC_LONGITUDE, rmc_longitude m),
      (NMEA_RMC_SPEED_KNOTS, rmc_speed_knots m), (NMEA_RMC_COURSE_TRUE, rmc_course_true m),
      (NMEA_RMC_DATE, dbl_int (uint (rmc_date m))), (NMEA_RMC_MAG_VARIATION, rmc_mag_variation m)]"

definition gsa_writes :: "nmea_gsa \<Rightarrow> (nmea_data_field \<times> dbl) list" where
  "gsa_writes m =
     [(NMEA_GSA_NAV_MODE, dbl_int (uint (gsa_nav_mode m))), (NMEA_GSA_PDOP, gsa_pdop m), (NMEA_GSA_HDOP, gsa_hdop m),
      (NMEA_GSA_VDOP, gsa_vdop m), (NMEA_GSA_SYSTEM_ID, dbl_int (uint (gsa_system_id m)))]"

definition vtg_writes :: "nmea_vtg \<Rightarrow> (nmea_data_field \<times> dbl) list" where
  "vtg_writes m =
     [(NMEA_VTG_COURSE_TRUE, vtg_course_true m), (NMEA_VTG_SPEED_KNOTS, vtg_speed_knots m),
      (NMEA_VTG_SPEED_KMPH, vtg_speed_kmh m)]
     @ (if vtg_course_mag_valid m then [(NMEA_VTG_COURSE_MAG, vtg_course_mag m)] else [])"

definition nfs_set_all :: "(nmea_data_field \<times> dbl) list \<Rightarrow> nmea_field_store \<Rightarrow> nmea_field_store" where
  "nfs_set_all ws st = fold (\<lambda>(f, v). nfs_set f v) ws st"

definition nmea_bit :: "nmea_msg_type \<Rightarrow> u64" where
  "nmea_bit msg = push_bit msg 1"

definition written :: "bool \<Rightarrow> nmea_msg_type \<Rightarrow> (nmea_data_field \<times> dbl) list
    \<Rightarrow> nmea_field_store \<Rightarrow> u64 \<Rightarrow> nmea_field_store \<times> u64" where
  "written valid msg ws store bits = (if \<not> valid then (store, bits) else (nfs_set_all ws store, bits OR nmea_bit msg))"

definition gga_handle :: "nmea_gga \<Rightarrow> nmea_field_store \<Rightarrow> u64 \<Rightarrow> nmea_field_store \<times> u64" where
  "gga_handle m = written (gga_valid m) MSG_NMEA_GGA (gga_writes m)"

definition rmc_handle :: "nmea_rmc \<Rightarrow> nmea_field_store \<Rightarrow> u64 \<Rightarrow> nmea_field_store \<times> u64" where
  "rmc_handle m = written (rmc_valid m) MSG_NMEA_RMC (rmc_writes m)"

definition gsa_handle :: "nmea_gsa \<Rightarrow> nmea_field_store \<Rightarrow> u64 \<Rightarrow> nmea_field_store \<times> u64" where
  "gsa_handle m = written (gsa_valid m) MSG_NMEA_GSA (gsa_writes m)"

definition vtg_handle :: "nmea_vtg \<Rightarrow> nmea_field_store \<Rightarrow> u64 \<Rightarrow> nmea_field_store \<times> u64" where
  "vtg_handle m = written (vtg_valid m) MSG_NMEA_VTG (vtg_writes m)"

text \<open>The handler of satellites in view collects the parts of a set.\<close>

record db_gsv_handler =
  gsvh_parts :: "nmea_gsv list"
  gsvh_expected_parts :: u8
  gsvh_set_complete :: bool

definition gsv_handler_new :: db_gsv_handler where
  "gsv_handler_new = \<lparr>gsvh_parts = [], gsvh_expected_parts = 0, gsvh_set_complete = False\<rparr>"

definition gsv_update :: "nmea_gsv \<Rightarrow> db_gsv_handler \<Rightarrow> db_gsv_handler" where
  "gsv_update part h =
     (if \<not> gsv_valid part then h
      else let h = (if gsv_msg_num part = 1
                    then h\<lparr>gsvh_parts := [], gsvh_expected_parts := gsv_num_msgs part, gsvh_set_complete := False\<rparr>
                    else h);
               h = h\<lparr>gsvh_parts := gsvh_parts h @ [part]\<rparr>
           in if gsv_msg_num part = gsvh_expected_parts h then h\<lparr>gsvh_set_complete := True\<rparr> else h)"

definition gsv_sat_writes :: "nat \<Rightarrow> gsv_satellite \<Rightarrow> (nmea_data_field \<times> dbl) list" where
  "gsv_sat_writes slot sv =
     [(nmea_gsv_sat_field NMEA_GSV_SAT_SVID (of_nat slot), dbl_int (uint (sv_id sv))),
      (nmea_gsv_sat_field NMEA_GSV_SAT_ELEVATION (of_nat slot), dbl_int (sint (sv_elevation sv))),
      (nmea_gsv_sat_field NMEA_GSV_SAT_AZIMUTH (of_nat slot), dbl_int (uint (sv_azimuth sv))),
      (nmea_gsv_sat_field NMEA_GSV_SAT_SNR (of_nat slot), dbl_int (sint (sv_snr sv)))]"

text \<open>The satellites of the parts take the slots from 0 on, until the slots run out.\<close>

definition gsv_satellites_of :: "nmea_gsv list \<Rightarrow> gsv_satellite list" where
  "gsv_satellites_of parts = concat (map (\<lambda>p. take (unat (gsv_sat_count p)) (gsv_satellites p)) parts)"

definition gsv_writes :: "nmea_gsv list \<Rightarrow> (nmea_data_field \<times> dbl) list" where
  "gsv_writes parts =
     (NMEA_GSV_NUM_SATS_IN_VIEW, dbl_int (uint (gsv_sats_in_view (parts ! 0))))
     # concat (map (\<lambda>(slot, sv). gsv_sat_writes slot sv) (zip [0..<NMEA_MAX_SATS_IN_VIEW] (gsv_satellites_of parts)))"

definition gsv_handle ::
    "db_gsv_handler \<Rightarrow> nmea_field_store \<Rightarrow> u64 \<Rightarrow> db_gsv_handler \<times> nmea_field_store \<times> u64" where
  "gsv_handle h store bits =
     (if gsvh_parts h = [] then (h, store, bits)
      else (h\<lparr>gsvh_set_complete := False, gsvh_parts := []\<rparr>,
            nfs_set_all (gsv_writes (gsvh_parts h)) store, bits OR nmea_bit MSG_NMEA_GSV))"

section \<open>The database\<close>

type_synonym nmea_update_policy = "nmea_msg_type \<Rightarrow> commit_kind"

definition default_update_policy :: nmea_update_policy where
  "default_update_policy msg =
     (if msg = MSG_NMEA_GGA then High_priority else if msg = MSG_NMEA_GSV then Low_priority else No_commit)"

definition nmea_uniform_policy :: nmea_update_policy where
  "nmea_uniform_policy msg = High_priority"

record nmea_snapshot =
  nsnap_store :: nmea_field_store
  nsnap_msg_mask :: u64
  nsnap_kind :: commit_kind

record nmea_database =
  ndb_store :: nmea_field_store
  ndb_mask :: u64
  ndb_policy :: nmea_update_policy
  ndb_callbacks :: "commit_kind set"

definition nmea_database_new :: "nmea_update_policy option \<Rightarrow> nmea_database" where
  "nmea_database_new policy = \<lparr>ndb_store = nfs_reset, ndb_mask = 0,
     ndb_policy = (case policy of Some p \<Rightarrow> p | None \<Rightarrow> default_update_policy), ndb_callbacks = {}\<rparr>"

definition nmea_set_update_policy :: "nmea_update_policy option \<Rightarrow> nmea_database \<Rightarrow> nmea_database" where
  "nmea_set_update_policy policy db =
     db\<lparr>ndb_policy := (case policy of Some p \<Rightarrow> p | None \<Rightarrow> default_update_policy)\<rparr>"

text \<open>\<open>cb\<close> says whether the given function is non-empty.\<close>

definition nmea_set_commit_callback :: "commit_kind \<Rightarrow> bool \<Rightarrow> nmea_database \<Rightarrow> nmea_database" where
  "nmea_set_commit_callback kind cb db =
     (if kind = No_commit then db
      else if cb then db\<lparr>ndb_callbacks := insert kind (ndb_callbacks db)\<rparr>
      else db\<lparr>ndb_callbacks := ndb_callbacks db - {kind}\<rparr>)"

text \<open>\<open>apply_update\<close> after the handler has written: the snapshot that a commit callback is called with.\<close>

definition nmea_commit :: "nmea_msg_type \<Rightarrow> nmea_database \<Rightarrow> nmea_database \<times> nmea_snapshot option" where
  "nmea_commit msg db =
     (let ck = ndb_policy db msg in
      if ck = No_commit then (db, None)
      else let snap = \<lparr>nsnap_store = ndb_store db, nsnap_msg_mask = ndb_mask db, nsnap_kind = ck\<rparr>;
               db = db\<lparr>ndb_mask := 0\<rparr>
           in (db, if ck \<in> ndb_callbacks db then Some snap else None))"

definition nmea_apply_update ::
    "nmea_msg_type \<Rightarrow> (nmea_field_store \<Rightarrow> u64 \<Rightarrow> nmea_field_store \<times> u64) \<Rightarrow> nmea_database
      \<Rightarrow> nmea_database \<times> nmea_snapshot option" where
  "nmea_apply_update msg handle db =
     (let (store, bits) = handle (ndb_store db) (ndb_mask db)
      in nmea_commit msg (db\<lparr>ndb_store := store, ndb_mask := bits\<rparr>))"

definition nmea_db_snapshot :: "nmea_database \<Rightarrow> nmea_snapshot" where
  "nmea_db_snapshot db = \<lparr>nsnap_store = ndb_store db, nsnap_msg_mask = ndb_mask db, nsnap_kind = No_commit\<rparr>"

section \<open>The adapter\<close>

text \<open>The message types of the handlers that were added; other types register no parser.\<close>

definition register_handler ::
    "sentence_message nmea_sentence_registry \<Rightarrow> nmea_msg_type \<Rightarrow> sentence_message nmea_sentence_registry" where
  "register_handler registry msg =
     (if msg = MSG_NMEA_GGA then nmea_register_parser (gga_parser Msg_gga) registry
      else if msg = MSG_NMEA_RMC then nmea_register_parser (rmc_parser Msg_rmc) registry
      else if msg = MSG_NMEA_GSA then nmea_register_parser (gsa_parser Msg_gsa) registry
      else if msg = MSG_NMEA_GSV then nmea_register_parser (gsv_parser Msg_gsv) registry
      else if msg = MSG_NMEA_VTG then nmea_register_parser (vtg_parser Msg_vtg) registry
      else registry)"

definition adapter_register_with_parser ::
    "nmea_msg_type list \<Rightarrow> sentence_message nmea_sentence_registry \<Rightarrow> sentence_message nmea_sentence_registry" where
  "adapter_register_with_parser handlers registry = foldl register_handler registry handlers"

end
