(* ===== verification/Nmea_Wrapper.thy ===== *)
theory Nmea_Wrapper
  imports Nmea_Database
begin

text \<open>
  The wrapper around the NMEA database (\<open>shared_buffer/nmea_database_wrapper.cpp\<close>) and its buffer
  (\<open>shared_buffer/nmea_data_buffer.h\<close>), as a machine on the messages of the sentence parsers; the contract of the
  buffer as a view of the messages received so far; and the refinement between the two.
\<close>

section \<open>The buffer\<close>

definition NMEA_MAX_SAT_VIEW :: nat where "NMEA_MAX_SAT_VIEW = 64"

record nmea_satellite_record =
  nsr_sv_id :: u8
  nsr_elevation_deg :: i8
  nsr_azimuth_deg :: i16
  nsr_snr :: u8

definition nsr_zero :: nmea_satellite_record where
  "nsr_zero = \<lparr>nsr_sv_id = 0, nsr_elevation_deg = 0, nsr_azimuth_deg = 0, nsr_snr = 0\<rparr>"

record nmea_data =
  nd_latitude_deg :: dbl
  nd_longitude_deg :: dbl
  nd_altitude_msl_m :: dbl
  nd_geoid_separation_m :: dbl
  nd_hdop :: dbl
  nd_fix_quality :: u8
  nd_num_satellites :: u8
  nd_speed_knots :: dbl
  nd_course_true_deg :: dbl
  nd_rmc_status_active :: bool
  nd_nav_mode :: u8
  nd_pdop :: dbl
  nd_vdop :: dbl
  nd_speed_kmph :: dbl
  nd_course_mag_deg :: dbl
  nd_num_sats_in_view :: u8
  nd_sats :: "nmea_satellite_record list"
  nd_valid :: bool

definition nmea_data_zero :: nmea_data where
  "nmea_data_zero = \<lparr>nd_latitude_deg = dzero, nd_longitude_deg = dzero, nd_altitude_msl_m = dzero,
     nd_geoid_separation_m = dzero, nd_hdop = dzero, nd_fix_quality = 0, nd_num_satellites = 0,
     nd_speed_knots = dzero, nd_course_true_deg = dzero, nd_rmc_status_active = False, nd_nav_mode = 0,
     nd_pdop = dzero, nd_vdop = dzero, nd_speed_kmph = dzero, nd_course_mag_deg = dzero,
     nd_num_sats_in_view = 0, nd_sats = replicate 64 nsr_zero, nd_valid = False\<rparr>"

section \<open>Reading a snapshot\<close>

definition read_sat :: "nmea_field_store \<Rightarrow> nmea_satellite_record list \<Rightarrow> nat \<Rightarrow> nmea_satellite_record list option" where
  "read_sat st sats i =
     do {
       let r = sats ! i;
       sv_id \<leftarrow> nfs_get dbl_to_u8 st (nmea_gsv_sat_field NMEA_GSV_SAT_SVID (of_nat i)) (nsr_sv_id r);
       elevation \<leftarrow> nfs_get dbl_to_i8 st (nmea_gsv_sat_field NMEA_GSV_SAT_ELEVATION (of_nat i)) (nsr_elevation_deg r);
       azimuth \<leftarrow> nfs_get dbl_to_i16 st (nmea_gsv_sat_field NMEA_GSV_SAT_AZIMUTH (of_nat i)) (nsr_azimuth_deg r);
       snr \<leftarrow> nfs_get dbl_to_u8 st (nmea_gsv_sat_field NMEA_GSV_SAT_SNR (of_nat i)) (nsr_snr r);
       Some (sats[i := \<lparr>nsr_sv_id = sv_id, nsr_elevation_deg = elevation, nsr_azimuth_deg = azimuth, nsr_snr = snr\<rparr>])
     }"

fun read_sats :: "nmea_field_store \<Rightarrow> nat list \<Rightarrow> nmea_satellite_record list \<Rightarrow> nmea_satellite_record list option" where
  "read_sats st [] sats = Some sats"
| "read_sats st (i # is) sats = (case read_sat st sats i of None \<Rightarrow> None | Some sats \<Rightarrow> read_sats st is sats)"

text \<open>The block that reads the satellites; the count is read into a variable that starts as zero.\<close>

definition read_view ::
    "nmea_field_store \<Rightarrow> u8 \<times> nmea_satellite_record list \<Rightarrow> (u8 \<times> nmea_satellite_record list) option" where
  "read_view st v =
     (if nfs_is_valid st NMEA_GSV_NUM_SATS_IN_VIEW
      then do {
        n \<leftarrow> nfs_get dbl_to_u8 st NMEA_GSV_NUM_SATS_IN_VIEW 0;
        sats \<leftarrow> read_sats st [0..<min (unat n) NMEA_MAX_SAT_VIEW] (snd v);
        Some (n, sats)
      }
      else Some v)"

definition read_status :: "nmea_field_store \<Rightarrow> bool option" where
  "read_status st =
     (if nfs_is_valid st NMEA_RMC_STATUS_ACTIVE
      then do {
        status \<leftarrow> nfs_get dbl_to_float st NMEA_RMC_STATUS_ACTIVE dzero;
        Some (dbl_le (dbl_int 1) status)
      }
      else Some False)"

text \<open>The data extracted from a snapshot, with the satellites read twice as in the code.\<close>

definition extract_nmea_data :: "nmea_field_store \<Rightarrow> nmea_data option" where
  "extract_nmea_data st =
     do {
       latitude \<leftarrow> nfs_get Some st NMEA_GGA_LATITUDE dzero;
       longitude \<leftarrow> nfs_get Some st NMEA_GGA_LONGITUDE dzero;
       altitude \<leftarrow> nfs_get dbl_to_float st NMEA_GGA_ALTITUDE_MSL dzero;
       geoid \<leftarrow> nfs_get dbl_to_float st NMEA_GGA_GEOID_SEP dzero;
       hdop \<leftarrow> nfs_get dbl_to_float st NMEA_GGA_HDOP dzero;
       quality \<leftarrow> nfs_get dbl_to_u8 st NMEA_GGA_FIX_QUALITY 0;
       num \<leftarrow> nfs_get dbl_to_u8 st NMEA_GGA_NUM_SATELLITES 0;
       knots \<leftarrow> nfs_get dbl_to_float st NMEA_RMC_SPEED_KNOTS dzero;
       course \<leftarrow> nfs_get dbl_to_float st NMEA_RMC_COURSE_TRUE dzero;
       active \<leftarrow> read_status st;
       nav_mode \<leftarrow> nfs_get dbl_to_u8 st NMEA_GSA_NAV_MODE 0;
       pdop \<leftarrow> nfs_get dbl_to_float st NMEA_GSA_PDOP dzero;
       hdop \<leftarrow> nfs_get dbl_to_float st NMEA_GSA_HDOP hdop;
       vdop \<leftarrow> nfs_get dbl_to_float st NMEA_GSA_VDOP dzero;
       kmph \<leftarrow> nfs_get dbl_to_float st NMEA_VTG_SPEED_KMPH dzero;
       mag \<leftarrow> nfs_get dbl_to_float st NMEA_VTG_COURSE_MAG dzero;
       v \<leftarrow> read_view st (0, replicate 64 nsr_zero);
       v \<leftarrow> read_view st v;
       Some \<lparr>nd_latitude_deg = latitude, nd_longitude_deg = longitude, nd_altitude_msl_m = altitude,
         nd_geoid_separation_m = geoid, nd_hdop = hdop, nd_fix_quality = quality, nd_num_satellites = num,
         nd_speed_knots = knots, nd_course_true_deg = course, nd_rmc_status_active = active,
         nd_nav_mode = nav_mode, nd_pdop = pdop, nd_vdop = vdop, nd_speed_kmph = kmph, nd_course_mag_deg = mag,
         nd_num_sats_in_view = fst v, nd_sats = snd v, nd_valid = True\<rparr>
     }"

section \<open>The wrapper\<close>

record nmea_wrapper =
  nw_db :: nmea_database
  nw_handlers :: "nmea_msg_type list"
  nw_gsv :: db_gsv_handler
  nw_data :: nmea_data
  nw_updates :: nat

text \<open>\<open>nw_updates\<close> counts the emissions of \<open>data_updated\<close>.\<close>

definition nmea_wrapper_new :: nmea_wrapper where
  "nmea_wrapper_new =
     \<lparr>nw_db = nmea_set_commit_callback Low_priority True
        (nmea_set_commit_callback High_priority True (nmea_database_new None)),
      nw_handlers = [MSG_NMEA_GGA, MSG_NMEA_RMC, MSG_NMEA_GSA, MSG_NMEA_GSV, MSG_NMEA_VTG],
      nw_gsv = gsv_handler_new, nw_data = nmea_data_zero, nw_updates = 0\<rparr>"

definition wrapper_register_with_parser ::
    "nmea_wrapper \<Rightarrow> sentence_message nmea_sentence_registry \<Rightarrow> sentence_message nmea_sentence_registry" where
  "wrapper_register_with_parser w registry = adapter_register_with_parser (nw_handlers w) registry"

text \<open>A committed snapshot: the high-priority callback fills the buffer, the other does nothing.\<close>

definition on_commit :: "nmea_snapshot option \<Rightarrow> nmea_wrapper \<Rightarrow> nmea_wrapper option" where
  "on_commit snap w =
     (case snap of
        None \<Rightarrow> Some w
      | Some s \<Rightarrow> if nsnap_kind s = High_priority
                  then map_option (\<lambda>d. w\<lparr>nw_data := d, nw_updates := Suc (nw_updates w)\<rparr>) (extract_nmea_data (nsnap_store s))
                  else Some w)"

definition wrapper_update ::
    "nmea_msg_type \<Rightarrow> (nmea_field_store \<Rightarrow> u64 \<Rightarrow> nmea_field_store \<times> u64) \<Rightarrow> nmea_wrapper \<Rightarrow> nmea_wrapper option" where
  "wrapper_update msg handle w =
     (let (db, snap) = nmea_apply_update msg handle (nw_db w) in on_commit snap (w\<lparr>nw_db := db\<rparr>))"

text \<open>The callbacks the adapter gives to the sentence parsers; \<open>None\<close> is an undefined conversion.\<close>

definition wrapper_callback :: "sentence_message \<Rightarrow> nmea_wrapper \<Rightarrow> nmea_wrapper option" where
  "wrapper_callback m w =
     (case m of
        Msg_gga g \<Rightarrow> wrapper_update MSG_NMEA_GGA (gga_handle g) w
      | Msg_rmc r \<Rightarrow> wrapper_update MSG_NMEA_RMC (rmc_handle r) w
      | Msg_gsa a \<Rightarrow> wrapper_update MSG_NMEA_GSA (gsa_handle a) w
      | Msg_vtg v \<Rightarrow> wrapper_update MSG_NMEA_VTG (vtg_handle v) w
      | Msg_gsv p \<Rightarrow>
          (let h = gsv_update p (nw_gsv w); w = w\<lparr>nw_gsv := h\<rparr> in
           if gsvh_set_complete h
           then let (h, store, bits) = gsv_handle h (ndb_store (nw_db w)) (ndb_mask (nw_db w))
                in wrapper_update MSG_NMEA_GSV (\<lambda>_ _. (store, bits)) (w\<lparr>nw_gsv := h\<rparr>)
           else Some w)
      | _ \<Rightarrow> Some w)"

fun nmea_receive :: "sentence_message list \<Rightarrow> nmea_wrapper \<Rightarrow> nmea_wrapper option" where
  "nmea_receive [] w = Some w"
| "nmea_receive (m # ms) w = (case wrapper_callback m w of None \<Rightarrow> None | Some w \<Rightarrow> nmea_receive ms w)"

end
