(* ===== verification/Nmea_View.thy ===== *)
theory Nmea_View
  imports Nmea_Wrapper
begin

text \<open>
  What the buffer of the NMEA database shows, said of the messages and not of slots: the last message of each
  kind, the satellites of the last complete sets, and the buffer as a view of these. The refinement
  then says that the numbered slots, the conversions to \<open>double\<close> and back and the commit policy implement
  this view.
\<close>

section \<open>The messages seen so far\<close>

text \<open>
  The last valid message of each kind; the last magnetic course, which a later VTG may leave out; and the
  satellites of the sets, of which a shorter set only replaces the first.
\<close>

record nmea_latest =
  nl_gga :: "nmea_gga option"
  nl_rmc :: "nmea_rmc option"
  nl_gsa :: "nmea_gsa option"
  nl_vtg :: "nmea_vtg option"
  nl_course_mag :: "dbl option"
  nl_in_view :: "u8 option"
  nl_sats :: "nat \<Rightarrow> gsv_satellite option"
  nl_gsv :: db_gsv_handler
  nl_data :: nmea_data
  nl_updates :: nat

definition nmea_latest_new :: nmea_latest where
  "nmea_latest_new = \<lparr>nl_gga = None, nl_rmc = None, nl_gsa = None, nl_vtg = None, nl_course_mag = None,
     nl_in_view = None, nl_sats = (\<lambda>_. None), nl_gsv = gsv_handler_new, nl_data = nmea_data_zero, nl_updates = 0\<rparr>"

section \<open>The view\<close>

text \<open>A satellite as the buffer has it: without a result for an untracked one and for an azimuth from 32768.\<close>

definition sat_shown :: "gsv_satellite \<Rightarrow> nmea_satellite_record option" where
  "sat_shown sv =
     (if 0 \<le> sint (sv_snr sv) \<and> uint (sv_azimuth sv) < 2 ^ 15
      then Some \<lparr>nsr_sv_id = sv_id sv, nsr_elevation_deg = sv_elevation sv, nsr_azimuth_deg = ucast (sv_azimuth sv),
             nsr_snr = word_of_int (sint (sv_snr sv))\<rparr>
      else None)"

definition slot_shown :: "nmea_latest \<Rightarrow> nat \<Rightarrow> nmea_satellite_record option" where
  "slot_shown l i = (case nl_sats l i of None \<Rightarrow> Some nsr_zero | Some sv \<Rightarrow> sat_shown sv)"

definition sats_shown :: "nmea_latest \<Rightarrow> nat \<Rightarrow> nmea_satellite_record list option" where
  "sats_shown l n =
     (if list_all (\<lambda>i. slot_shown l i \<noteq> None) [0..<n]
      then Some (map (\<lambda>i. if i < n then the (slot_shown l i) else nsr_zero) [0..<64]) else None)"

definition float_shown :: "dbl option \<Rightarrow> dbl option" where
  "float_shown d = (case d of None \<Rightarrow> Some dzero | Some d \<Rightarrow> dbl_to_float d)"

definition nmea_data_shown :: "nmea_latest \<Rightarrow> nmea_data option" where
  "nmea_data_shown l =
     do {
       altitude \<leftarrow> float_shown (map_option gga_altitude_msl (nl_gga l));
       geoid \<leftarrow> float_shown (map_option gga_geoid_sep (nl_gga l));
       gga_hdop \<leftarrow> float_shown (map_option gga_hdop (nl_gga l));
       knots \<leftarrow> float_shown (map_option rmc_speed_knots (nl_rmc l));
       course \<leftarrow> float_shown (map_option rmc_course_true (nl_rmc l));
       pdop \<leftarrow> float_shown (map_option gsa_pdop (nl_gsa l));
       gsa_hdop \<leftarrow> float_shown (map_option gsa_hdop (nl_gsa l));
       vdop \<leftarrow> float_shown (map_option gsa_vdop (nl_gsa l));
       kmph \<leftarrow> float_shown (map_option vtg_speed_kmh (nl_vtg l));
       mag \<leftarrow> float_shown (nl_course_mag l);
       sats \<leftarrow> sats_shown l (case nl_in_view l of None \<Rightarrow> 0 | Some n \<Rightarrow> min (unat n) 64);
       Some \<lparr>nd_latitude_deg = (case nl_gga l of None \<Rightarrow> dzero | Some g \<Rightarrow> gga_latitude g),
         nd_longitude_deg = (case nl_gga l of None \<Rightarrow> dzero | Some g \<Rightarrow> gga_longitude g),
         nd_altitude_msl_m = altitude, nd_geoid_separation_m = geoid,
         nd_hdop = (if nl_gsa l = None then gga_hdop else gsa_hdop),
         nd_fix_quality = (case nl_gga l of None \<Rightarrow> 0 | Some g \<Rightarrow> gga_fix_quality g),
         nd_num_satellites = (case nl_gga l of None \<Rightarrow> 0 | Some g \<Rightarrow> gga_num_satellites g),
         nd_speed_knots = knots, nd_course_true_deg = course,
         nd_rmc_status_active = (case nl_rmc l of None \<Rightarrow> False | Some r \<Rightarrow> rmc_status_active r),
         nd_nav_mode = (case nl_gsa l of None \<Rightarrow> 0 | Some a \<Rightarrow> gsa_nav_mode a),
         nd_pdop = pdop, nd_vdop = vdop, nd_speed_kmph = kmph, nd_course_mag_deg = mag,
         nd_num_sats_in_view = (case nl_in_view l of None \<Rightarrow> 0 | Some n \<Rightarrow> n),
         nd_sats = sats, nd_valid = True\<rparr>
     }"

section \<open>Receiving\<close>

text \<open>The first satellites are those of the set, the others stay.\<close>

definition sats_of_set :: "gsv_satellite list \<Rightarrow> (nat \<Rightarrow> gsv_satellite option) \<Rightarrow> nat \<Rightarrow> gsv_satellite option" where
  "sats_of_set svs old i = (if i < length svs then Some (svs ! i) else old i)"

definition latest_set :: "nmea_gsv list \<Rightarrow> nmea_latest \<Rightarrow> nmea_latest" where
  "latest_set parts l = l\<lparr>nl_in_view := Some (gsv_sats_in_view (parts ! 0)),
     nl_sats := sats_of_set (gsv_satellites_of parts) (nl_sats l)\<rparr>"

text \<open>Only a GGA sentence, valid or not, makes the buffer show the view.\<close>

definition latest_receive :: "sentence_message \<Rightarrow> nmea_latest \<Rightarrow> nmea_latest option" where
  "latest_receive m l =
     (case m of
        Msg_gga g \<Rightarrow> (let l = (if gga_valid g then l\<lparr>nl_gga := Some g\<rparr> else l)
                      in map_option (\<lambda>d. l\<lparr>nl_data := d, nl_updates := Suc (nl_updates l)\<rparr>) (nmea_data_shown l))
      | Msg_rmc r \<Rightarrow> Some (if rmc_valid r then l\<lparr>nl_rmc := Some r\<rparr> else l)
      | Msg_gsa a \<Rightarrow> Some (if gsa_valid a then l\<lparr>nl_gsa := Some a\<rparr> else l)
      | Msg_vtg v \<Rightarrow> Some (if vtg_valid v
          then l\<lparr>nl_vtg := Some v, nl_course_mag := (if vtg_course_mag_valid v then Some (vtg_course_mag v) else nl_course_mag l)\<rparr>
          else l)
      | Msg_gsv p \<Rightarrow>
          (let h = gsv_update p (nl_gsv l); l = l\<lparr>nl_gsv := h\<rparr> in
           Some (if gsvh_set_complete h
                 then if gsvh_parts h = [] then l
                      else latest_set (gsvh_parts h) (l\<lparr>nl_gsv := h\<lparr>gsvh_set_complete := False, gsvh_parts := []\<rparr>\<rparr>)
                 else l))
      | _ \<Rightarrow> Some l)"

fun latest_of :: "sentence_message list \<Rightarrow> nmea_latest \<Rightarrow> nmea_latest option" where
  "latest_of [] l = Some l"
| "latest_of (m # ms) l = (case latest_receive m l of None \<Rightarrow> None | Some l \<Rightarrow> latest_of ms l)"

section \<open>Conversions\<close>

lemma dbl_int_back [simp]: "dbl_trunc (dbl_int i) = Some i"
  by (cases "i < 0") (simp_all add: dbl_trunc_def dbl_int_def dbl_of_def dbl_value_def)

lemma u8_back [simp]: "dbl_to_u8 (dbl_int (uint (w :: u8))) = Some w"
  using uint_bounded [of w] by (simp add: dbl_to_u8_def)

lemma i8_back [simp]: "dbl_to_i8 (dbl_int (sint (w :: i8))) = Some w"
  using sint_ge [of w] sint_lt [of w] by (simp add: dbl_to_i8_def)

lemma i16_of_u16: "dbl_to_i16 (dbl_int (uint (w :: u16))) = (if uint w < 2 ^ 15 then Some (ucast w) else None)"
proof -
  have "- 32768 \<le> uint w" by (rule order_trans [of _ 0]) simp_all
  then show ?thesis by (simp add: dbl_to_i16_def)
qed

lemma u8_of_i8: "dbl_to_u8 (dbl_int (sint (w :: i8))) = (if 0 \<le> sint w then Some (word_of_int (sint w)) else None)"
  using sint_lt [of w] by (simp add: dbl_to_u8_def)

lemma float_of_flag [simp]: "dbl_to_float (dbl_int 1) = Some (Finite False 1)" "dbl_to_float dzero = Some dzero"
proof -
  have b: "binade 1 = 0" by (rule binade_unique) simp_all
  have "(1 :: rat) / 2 powi - 23 = of_int (2 ^ 23)" by (simp add: power_int_def power_divide)
  then have "round_half_even (1 / 2 powi - 23) = 2 ^ 23" by (intro round_half_even_within) simp
  then show "dbl_to_float (dbl_int 1) = Some (Finite False 1)"
    by (simp add: dbl_to_float_def dbl_int_def dbl_of_def b Let_def power_int_def power_divide)
  show "dbl_to_float dzero = Some dzero" by (simp add: dbl_to_float_def Let_def)
qed

section \<open>The slots of a message\<close>

lemma slot_index [simp]: "i < 64 \<Longrightarrow> unat (of_nat i :: u8) = i"
  by (simp add: unat_of_nat)

lemma sat_field_number:
  assumes "i < 64"
  shows "nmea_gsv_sat_field NMEA_GSV_SAT_SVID (of_nat i) = 48 + i"
    "nmea_gsv_sat_field NMEA_GSV_SAT_ELEVATION (of_nat i) = 113 + i"
    "nmea_gsv_sat_field NMEA_GSV_SAT_AZIMUTH (of_nat i) = 178 + i"
    "nmea_gsv_sat_field NMEA_GSV_SAT_SNR (of_nat i) = 243 + i"
  using assms by (simp_all add: nmea_gsv_sat_field_def nmea_field_defs)

text \<open>The value that each of a satellite's four slots has.\<close>

definition slots_of_satellite :: "(nat \<times> (gsv_satellite \<Rightarrow> dbl)) list" where
  "slots_of_satellite = [(48, \<lambda>sv. dbl_int (uint (sv_id sv))), (113, \<lambda>sv. dbl_int (sint (sv_elevation sv))),
     (178, \<lambda>sv. dbl_int (uint (sv_azimuth sv))), (243, \<lambda>sv. dbl_int (sint (sv_snr sv)))]"

lemma look_satellite:
  assumes "a < 64" "i < 64" "(base, val) \<in> set slots_of_satellite"
  shows "nfs_look (nfs_set_all (gsv_sat_writes a sv) st) (base + i) = (if i = a then Some (val sv) else nfs_look st (base + i))"
proof -
  have look: "nfs_look (nfs_set_all (gsv_sat_writes a sv) st) f =
      (if f = 48 + a then Some (dbl_int (uint (sv_id sv))) else if f = 113 + a then Some (dbl_int (sint (sv_elevation sv)))
       else if f = 178 + a then Some (dbl_int (uint (sv_azimuth sv)))
       else if f = 243 + a then Some (dbl_int (sint (sv_snr sv))) else nfs_look st f)" for f
    using assms(1) by (simp add: nfs_set_all_def gsv_sat_writes_def sat_field_number nfs.look_put NMEA_DATA_NUM_def)
  have "(base, val) = (48, \<lambda>sv. dbl_int (uint (sv_id sv))) \<or> (base, val) = (113, \<lambda>sv. dbl_int (sint (sv_elevation sv)))
      \<or> (base, val) = (178, \<lambda>sv. dbl_int (uint (sv_azimuth sv))) \<or> (base, val) = (243, \<lambda>sv. dbl_int (sint (sv_snr sv)))"
    using assms(3) by (simp add: slots_of_satellite_def)
  then show ?thesis using assms(1,2) unfolding look prod.inject by (elim disjE conjE) simp_all
qed

lemma nfs_set_all_append: "nfs_set_all (ws @ vs) st = nfs_set_all vs (nfs_set_all ws st)"
  by (simp add: nfs_set_all_def)

lemma look_satellites:
  assumes "i < 64" "(base, val) \<in> set slots_of_satellite"
  shows "nfs_look (nfs_set_all (concat (map (\<lambda>(slot, sv). gsv_sat_writes slot sv) (zip [a..<64] svs))) st) (base + i) =
    (if a \<le> i \<and> i < a + length svs then Some (val (svs ! (i - a))) else nfs_look st (base + i))"
proof (induction svs arbitrary: a st)
  case (Cons sv svs)
  show ?case
  proof (cases "a < 64")
    case True
    then have "[a..<64] = a # [Suc a..<64]" by (simp add: upt_conv_Cons)
    then show ?thesis
      using True assms by (auto simp: nfs_set_all_append Cons.IH look_satellite nth_Cons' Suc_le_eq)
  qed (use assms in \<open>simp add: nfs_set_all_def\<close>)
qed (auto simp: nfs_set_all_def)

lemma look_satellites_other:
  assumes "f \<le> 47"
  shows "nfs_look (nfs_set_all (concat (map (\<lambda>(slot, sv). gsv_sat_writes slot sv) (zip [a..<64] svs))) st) f = nfs_look st f"
proof -
  have "slot < 64" if "(slot, sv) \<in> set (zip [a..<64] svs)" for slot sv
    using set_zip_leftD [OF that] by simp
  then have "f \<notin> fst ` set (concat (map (\<lambda>(slot, sv). gsv_sat_writes slot sv) (zip [a..<64] svs)))"
    using assms by (fastforce simp: gsv_sat_writes_def sat_field_number)
  then show ?thesis by (simp add: nfs_set_all_def nfs.look_all_other)
qed

section \<open>The relation\<close>

text \<open>The slots a commit reads, and what each shows of the messages.\<close>

definition read_slots :: "(nat \<times> (nmea_latest \<Rightarrow> dbl option)) list" where
  "read_slots =
     [(NMEA_GGA_LATITUDE, \<lambda>l. map_option gga_latitude (nl_gga l)), (NMEA_GGA_LONGITUDE, \<lambda>l. map_option gga_longitude (nl_gga l)),
      (NMEA_GGA_ALTITUDE_MSL, \<lambda>l. map_option gga_altitude_msl (nl_gga l)),
      (NMEA_GGA_GEOID_SEP, \<lambda>l. map_option gga_geoid_sep (nl_gga l)), (NMEA_GGA_HDOP, \<lambda>l. map_option gga_hdop (nl_gga l)),
      (NMEA_GGA_FIX_QUALITY, \<lambda>l. map_option (\<lambda>g. dbl_int (uint (gga_fix_quality g))) (nl_gga l)),
      (NMEA_GGA_NUM_SATELLITES, \<lambda>l. map_option (\<lambda>g. dbl_int (uint (gga_num_satellites g))) (nl_gga l)),
      (NMEA_RMC_SPEED_KNOTS, \<lambda>l. map_option rmc_speed_knots (nl_rmc l)),
      (NMEA_RMC_COURSE_TRUE, \<lambda>l. map_option rmc_course_true (nl_rmc l)),
      (NMEA_RMC_STATUS_ACTIVE, \<lambda>l. map_option (\<lambda>r. if rmc_status_active r then dbl_int 1 else dzero) (nl_rmc l)),
      (NMEA_GSA_NAV_MODE, \<lambda>l. map_option (\<lambda>a. dbl_int (uint (gsa_nav_mode a))) (nl_gsa l)),
      (NMEA_GSA_PDOP, \<lambda>l. map_option gsa_pdop (nl_gsa l)), (NMEA_GSA_HDOP, \<lambda>l. map_option gsa_hdop (nl_gsa l)),
      (NMEA_GSA_VDOP, \<lambda>l. map_option gsa_vdop (nl_gsa l)),
      (NMEA_VTG_SPEED_KMPH, \<lambda>l. map_option vtg_speed_kmh (nl_vtg l)), (NMEA_VTG_COURSE_MAG, nl_course_mag),
      (NMEA_GSV_NUM_SATS_IN_VIEW, \<lambda>l. map_option (\<lambda>n. dbl_int (uint n)) (nl_in_view l))]"

definition store_shows :: "nmea_field_store \<Rightarrow> nmea_latest \<Rightarrow> bool" where
  "store_shows st l \<longleftrightarrow>
     list_all (\<lambda>(f, val). nfs_look st f = val l) read_slots
   \<and> (\<forall>i<64. \<forall>(base, val) \<in> set slots_of_satellite. nfs_look st (base + i) = map_option val (nl_sats l i))"

lemma store_shows_iff:
  "store_shows st l \<longleftrightarrow> list_all (\<lambda>(f, val). nfs_look st f = val l) read_slots
     \<and> (\<forall>i<64. nfs_look st (48 + i) = map_option (\<lambda>sv. dbl_int (uint (sv_id sv))) (nl_sats l i)
       \<and> nfs_look st (113 + i) = map_option (\<lambda>sv. dbl_int (sint (sv_elevation sv))) (nl_sats l i)
       \<and> nfs_look st (178 + i) = map_option (\<lambda>sv. dbl_int (uint (sv_azimuth sv))) (nl_sats l i)
       \<and> nfs_look st (243 + i) = map_option (\<lambda>sv. dbl_int (sint (sv_snr sv))) (nl_sats l i))"
  by (simp add: store_shows_def slots_of_satellite_def)

lemma store_shows_new: "store_shows nfs_reset nmea_latest_new"
  by (simp add: store_shows_iff read_slots_def nfs_look_def nfs_reset_def nfs_is_valid_def nmea_latest_new_def)

lemmas written_slots = written_def store_shows_iff read_slots_def nfs_set_all_def nfs.look_put nmea_field_defs

lemma gga_shows:
  "store_shows st l \<Longrightarrow> store_shows (fst (gga_handle g st bits)) (if gga_valid g then l\<lparr>nl_gga := Some g\<rparr> else l)"
  by (simp add: gga_handle_def gga_writes_def written_slots)

lemma rmc_shows:
  "store_shows st l \<Longrightarrow> store_shows (fst (rmc_handle r st bits)) (if rmc_valid r then l\<lparr>nl_rmc := Some r\<rparr> else l)"
  by (simp add: rmc_handle_def rmc_writes_def written_slots)

lemma gsa_shows:
  "store_shows st l \<Longrightarrow> store_shows (fst (gsa_handle a st bits)) (if gsa_valid a then l\<lparr>nl_gsa := Some a\<rparr> else l)"
  by (simp add: gsa_handle_def gsa_writes_def written_slots)

lemma vtg_shows:
  "store_shows st l \<Longrightarrow> store_shows (fst (vtg_handle v st bits)) (if vtg_valid v
     then l\<lparr>nl_vtg := Some v, nl_course_mag := (if vtg_course_mag_valid v then Some (vtg_course_mag v) else nl_course_mag l)\<rparr>
     else l)"
  by (simp add: vtg_handle_def vtg_writes_def written_slots)

text \<open>A set of satellites.\<close>

lemma nfs_set_all_cons: "nfs_set_all ((f, v) # ws) st = nfs_set_all ws (nfs_set f v st)"
  by (simp add: nfs_set_all_def)

lemma gsv_shows:
  assumes "store_shows st l"
  shows "store_shows (nfs_set_all (gsv_writes parts) st) (latest_set parts l)"
proof -
  let ?st = "nfs_set_all (gsv_writes parts) st"
  have low: "nfs_look ?st f = (if f = 47 then Some (dbl_int (uint (gsv_sats_in_view (parts ! 0)))) else nfs_look st f)"
    if "f \<le> 47" for f
    using that look_satellites_other [OF that, of 0]
    by (simp add: gsv_writes_def NMEA_MAX_SATS_IN_VIEW_def nfs_set_all_cons nfs.look_put nmea_field_defs)
  have sats: "nfs_look ?st (base + i) = map_option val (sats_of_set (gsv_satellites_of parts) (nl_sats l) i)"
    if "i < 64" "(base, val) \<in> set slots_of_satellite" for i base val
  proof -
    have "nfs_look st (base + i) = map_option val (nl_sats l i)"
      using assms that by (auto simp: store_shows_def)
    moreover have "base + i \<noteq> 47" using that(2) by (auto simp: slots_of_satellite_def)
    ultimately show ?thesis
      using look_satellites [OF that, of 0]
      by (simp add: gsv_writes_def NMEA_MAX_SATS_IN_VIEW_def nfs_set_all_cons nfs.look_put NMEA_GSV_NUM_SATS_IN_VIEW_def
          NMEA_DATA_NUM_def sats_of_set_def)
  qed
  have "list_all (\<lambda>(f, val). nfs_look ?st f = val (latest_set parts l)) read_slots"
    using assms by (simp add: store_shows_iff read_slots_def low nmea_field_defs latest_set_def)
  moreover have "\<forall>i<64. \<forall>(base, val) \<in> set slots_of_satellite. nfs_look ?st (base + i) = map_option val (nl_sats (latest_set parts l) i)"
    using sats by (auto simp: latest_set_def)
  ultimately show ?thesis by (simp add: store_shows_def)
qed

section \<open>The view of a store\<close>

text \<open>What reading slot \<open>i\<close> puts over the old record.\<close>

definition slot_over :: "nmea_latest \<Rightarrow> nmea_satellite_record list \<Rightarrow> nat \<Rightarrow> nmea_satellite_record option" where
  "slot_over l sats i = (case nl_sats l i of None \<Rightarrow> Some (sats ! i) | Some sv \<Rightarrow> sat_shown sv)"

lemma nsr_rebuild [simp]:
  "\<lparr>nsr_sv_id = nsr_sv_id r, nsr_elevation_deg = nsr_elevation_deg r, nsr_azimuth_deg = nsr_azimuth_deg r, nsr_snr = nsr_snr r\<rparr> = r"
  by (cases r) simp

lemma read_sat_shown:
  assumes "store_shows st l" "i < 64"
  shows "read_sat st sats i = map_option (\<lambda>r. sats[i := r]) (slot_over l sats i)"
  using assms
  by (cases "nl_sats l i")
    (simp_all add: read_sat_def nfs_get_look sat_field_number store_shows_iff slot_over_def sat_shown_def i16_of_u16 u8_of_i8 Let_def)

lemma read_sats_append:
  "read_sats st (is @ js) sats = (case read_sats st is sats of None \<Rightarrow> None | Some sats \<Rightarrow> read_sats st js sats)"
  by (induction "is" arbitrary: sats) (simp_all split: option.split)

lemma read_sats_shown:
  assumes "store_shows st l" "length sats = 64" "n \<le> 64"
  shows "read_sats st [0..<n] sats =
    (if list_all (\<lambda>i. slot_over l sats i \<noteq> None) [0..<n]
     then Some (map (\<lambda>i. if i < n then the (slot_over l sats i) else sats ! i) [0..<64]) else None)"
  using assms(3)
proof (induction n)
  case 0
  then show ?case using assms(2) map_nth [of sats] by simp
next
  case (Suc n)
  let ?sats = "map (\<lambda>i. if i < n then the (slot_over l sats i) else sats ! i) [0..<64]"
  have same: "slot_over l ?sats n = slot_over l sats n" using Suc.prems by (simp add: slot_over_def del: upt_Suc split: option.split)
  have step: "read_sat st ?sats n = map_option (\<lambda>r. ?sats[n := r]) (slot_over l sats n)"
    using read_sat_shown [OF assms(1), of n ?sats] Suc.prems same by simp
  have upd: "?sats[n := r] = map (\<lambda>i. if i < Suc n then the (slot_over l sats i) else sats ! i) [0..<64]"
    if "slot_over l sats n = Some r" for r
    using that by (intro nth_equalityI) (auto simp: nth_list_update less_Suc_eq)
  show ?case
    using Suc step upd by (cases "slot_over l sats n") (simp_all add: read_sats_append)
qed

lemma nfs_is_valid_look: "nfs_is_valid st f \<longleftrightarrow> nfs_look st f \<noteq> None"
  by (simp add: nfs_look_def)

lemma slot_read:
  assumes "store_shows st l" "(f, val) \<in> set read_slots"
  shows "nfs_look st f = val l"
  using assms by (auto simp: store_shows_def list_all_iff)

lemma read_view_shown:
  assumes "store_shows st l"
  shows "read_view st v = (case nl_in_view l of None \<Rightarrow> Some v
    | Some n \<Rightarrow> map_option (Pair n) (read_sats st [0..<min (unat n) 64] (snd v)))"
proof -
  have "nfs_look st NMEA_GSV_NUM_SATS_IN_VIEW = map_option (\<lambda>n. dbl_int (uint n)) (nl_in_view l)"
    by (rule slot_read [OF assms]) (simp add: read_slots_def)
  then show ?thesis
    by (cases "nl_in_view l"; cases "read_sats st [0..<min (unat (the (nl_in_view l))) 64] (snd v)")
      (simp_all add: read_view_def nfs_get_look nfs_is_valid_look NMEA_MAX_SAT_VIEW_def)
qed

text \<open>The second reading changes nothing.\<close>

lemma slot_over_zero: "i < 64 \<Longrightarrow> slot_over l (replicate 64 nsr_zero) i = slot_shown l i"
  by (simp add: slot_over_def slot_shown_def split: option.split)

lemma read_twice_shown:
  assumes "store_shows st l"
  shows "Option.bind (read_view st (0, replicate 64 nsr_zero)) (\<lambda>v. Option.bind (read_view st v) g) =
    Option.bind (sats_shown l (case nl_in_view l of None \<Rightarrow> 0 | Some n \<Rightarrow> min (unat n) 64))
      (\<lambda>s. g (case nl_in_view l of None \<Rightarrow> 0 | Some n \<Rightarrow> n, s))"
proof (cases "nl_in_view l")
  case None
  have "replicate 64 nsr_zero = map (\<lambda>i. nsr_zero) [0..<64]"
    by (simp add: map_replicate_const del: upt_rec_numeral)
  then show ?thesis by (simp add: None read_view_shown [OF assms] sats_shown_def del: upt_rec_numeral)
next
  case (Some n)
  let ?n = "min (unat n) 64" and ?zero = "replicate 64 nsr_zero"
  let ?shown = "map (\<lambda>i. if i < ?n then the (slot_shown l i) else nsr_zero) [0..<64]"
  have first: "read_sats st [0..<?n] ?zero = sats_shown l ?n"
    using read_sats_shown [OF assms, of ?zero ?n]
    by (simp add: sats_shown_def slot_over_zero list_all_iff cong: if_cong del: upt_rec_numeral)
  have "read_sats st [0..<?n] ?shown = Some ?shown" if ok: "list_all (\<lambda>i. slot_shown l i \<noteq> None) [0..<?n]"
  proof -
    have over: "slot_over l ?shown i = slot_shown l i" if "i < ?n" for i
      using that ok by (auto simp: slot_over_def slot_shown_def list_all_iff split: option.split)
    then have "list_all (\<lambda>i. slot_over l ?shown i \<noteq> None) [0..<?n]" using ok by (simp add: list_all_iff)
    then have "read_sats st [0..<?n] ?shown = Some (map (\<lambda>i. if i < ?n then the (slot_over l ?shown i) else ?shown ! i) [0..<64])"
      using read_sats_shown [OF assms, of ?shown ?n] by simp
    also have "\<dots> = Some ?shown" using over by (simp cong: map_cong del: upt_rec_numeral)
    finally show ?thesis .
  qed
  then have "Option.bind (sats_shown l ?n) (\<lambda>s. read_sats st [0..<?n] s) = sats_shown l ?n"
    by (simp add: sats_shown_def del: upt_rec_numeral)
  with first show ?thesis
    by (cases "sats_shown l ?n") (simp_all add: Some read_view_shown [OF assms])
qed

section \<open>A commit\<close>

lemma committed_view:
  assumes "store_shows st l"
  shows "extract_nmea_data st = nmea_data_shown l"
proof -
  have one: "dbl_le (dbl_int 1) (Finite False 1)" "\<not> dbl_le (dbl_int 1) dzero"
    by (simp_all add: dbl_int_def dbl_of_def dbl_value_def)
  have "nfs_look st NMEA_RMC_STATUS_ACTIVE = map_option (\<lambda>r. if rmc_status_active r then dbl_int 1 else dzero) (nl_rmc l)"
    by (rule slot_read [OF assms]) (simp add: read_slots_def)
  then have status: "read_status st = Some (case nl_rmc l of None \<Rightarrow> False | Some r \<Rightarrow> rmc_status_active r)"
    by (cases "nl_rmc l") (simp_all add: read_status_def nfs_get_look nfs_is_valid_look one)
  show ?thesis
    using assms unfolding store_shows_def read_slots_def
    by (cases "nl_gga l"; cases "nl_gsa l")
      (simp_all add: extract_nmea_data_def nmea_data_shown_def status nfs_get_look float_shown_def
        read_twice_shown [OF assms])
qed

section \<open>The refinement\<close>

text \<open>The database has the callbacks and the policy of the wrapper's constructor.\<close>

definition wrapper_shows :: "nmea_wrapper \<Rightarrow> nmea_latest \<Rightarrow> bool" where
  "wrapper_shows w l \<longleftrightarrow>
     store_shows (ndb_store (nw_db w)) l \<and> ndb_policy (nw_db w) = default_update_policy
   \<and> ndb_callbacks (nw_db w) = {High_priority, Low_priority}
   \<and> nw_gsv w = nl_gsv l \<and> nw_data w = nl_data l \<and> nw_updates w = nl_updates l"

lemma wrapper_shows_new: "wrapper_shows nmea_wrapper_new nmea_latest_new"
  using store_shows_new
  by (auto simp: wrapper_shows_def nmea_wrapper_new_def nmea_latest_new_def nmea_set_commit_callback_def nmea_database_new_def)

lemma store_shows_cong:
  "store_shows st (l\<lparr>nl_gsv := h\<rparr>) = store_shows st l"
  "store_shows st (l\<lparr>nl_data := d, nl_updates := n\<rparr>) = store_shows st l"
  by (simp_all add: store_shows_def read_slots_def slots_of_satellite_def)

text \<open>An update whose message type does not fill the buffer, and one that does.\<close>

lemma update_quiet:
  assumes "wrapper_shows w l" "msg \<noteq> MSG_NMEA_GGA" "store_shows (fst (handle (ndb_store (nw_db w)) (ndb_mask (nw_db w)))) l'"
    and "nl_gsv l' = nl_gsv l" "nl_data l' = nl_data l" "nl_updates l' = nl_updates l"
  shows "\<exists>w'. wrapper_update msg handle w = Some w' \<and> wrapper_shows w' l'"
  using assms
  by (cases "handle (ndb_store (nw_db w)) (ndb_mask (nw_db w))")
    (simp add: wrapper_update_def nmea_apply_update_def nmea_commit_def on_commit_def wrapper_shows_def
      default_update_policy_def Let_def split: if_splits)

lemma update_commits:
  assumes "wrapper_shows w l" "store_shows (fst (handle (ndb_store (nw_db w)) (ndb_mask (nw_db w)))) l'"
    and "nl_gsv l' = nl_gsv l" "nl_data l' = nl_data l" "nl_updates l' = nl_updates l"
  shows "rel_option wrapper_shows (wrapper_update MSG_NMEA_GGA handle w)
    (map_option (\<lambda>d. l'\<lparr>nl_data := d, nl_updates := Suc (nl_updates l')\<rparr>) (nmea_data_shown l'))"
  using assms committed_view [OF assms(2)]
  by (cases "handle (ndb_store (nw_db w)) (ndb_mask (nw_db w))"; cases "nmea_data_shown l'")
    (simp_all add: wrapper_update_def nmea_apply_update_def nmea_commit_def on_commit_def wrapper_shows_def
      default_update_policy_def store_shows_cong Let_def)

lemma gsv_simulates:
  assumes w: "wrapper_shows w l"
  shows "\<exists>w'. wrapper_callback (Msg_gsv p) w = Some w' \<and> wrapper_shows w' (the (latest_receive (Msg_gsv p) l))"
proof -
  let ?h = "gsv_update p (nl_gsv l)"
  have st: "store_shows (ndb_store (nw_db w)) l" and h: "nw_gsv w = nl_gsv l" using w by (simp_all add: wrapper_shows_def)
  have w': "wrapper_shows (w\<lparr>nw_gsv := h\<rparr>) (l\<lparr>nl_gsv := h\<rparr>)" for h
    using w by (simp add: wrapper_shows_def store_shows_cong)
  obtain h' st' bits' where handled: "gsv_handle ?h (ndb_store (nw_db w)) (ndb_mask (nw_db w)) = (h', st', bits')"
    using prod_cases3 by blast
  let ?l' = "if gsvh_parts ?h = [] then l\<lparr>nl_gsv := h'\<rparr> else latest_set (gsvh_parts ?h) (l\<lparr>nl_gsv := h'\<rparr>)"
  have st': "store_shows st' ?l'"
    using handled st gsv_shows [of "ndb_store (nw_db w)" "l\<lparr>nl_gsv := h'\<rparr>"]
    by (auto simp: gsv_handle_def store_shows_cong split: if_splits)
  have h': "h' = (if gsvh_parts ?h = [] then ?h else ?h\<lparr>gsvh_set_complete := False, gsvh_parts := []\<rparr>)"
    using handled by (auto simp: gsv_handle_def split: if_splits)
  have "\<exists>w'. wrapper_update MSG_NMEA_GSV (\<lambda>_ _. (st', bits')) (w\<lparr>nw_gsv := h'\<rparr>) = Some w' \<and> wrapper_shows w' ?l'"
    using st' by (intro update_quiet [OF w' [of h']]) (simp_all add: latest_set_def nmea_field_defs)
  then show ?thesis
    using w' [of ?h] handled h' h
    by (auto simp: wrapper_callback_def latest_receive_def Let_def)
qed

lemma wrapper_simulates:
  assumes w: "wrapper_shows w l"
  shows "rel_option wrapper_shows (wrapper_callback m w) (latest_receive m l)"
proof (cases m)
  case (Msg_gga g)
  let ?l = "if gga_valid g then l\<lparr>nl_gga := Some g\<rparr> else l"
  have "store_shows (ndb_store (nw_db w)) l" using w by (simp add: wrapper_shows_def)
  then have "rel_option wrapper_shows (wrapper_update MSG_NMEA_GGA (gga_handle g) w)
      (map_option (\<lambda>d. ?l\<lparr>nl_data := d, nl_updates := Suc (nl_updates ?l)\<rparr>) (nmea_data_shown ?l))"
    by (intro update_commits [OF w]) (simp_all add: gga_shows)
  then show ?thesis by (simp add: Msg_gga wrapper_callback_def latest_receive_def Let_def)
next
  case (Msg_rmc r)
  have "\<exists>w'. wrapper_update MSG_NMEA_RMC (rmc_handle r) w = Some w' \<and>
      wrapper_shows w' (if rmc_valid r then l\<lparr>nl_rmc := Some r\<rparr> else l)"
    using w by (intro update_quiet [OF w]) (simp_all add: rmc_shows wrapper_shows_def nmea_field_defs)
  then show ?thesis by (auto simp: Msg_rmc wrapper_callback_def latest_receive_def)
next
  case (Msg_gsa a)
  have "\<exists>w'. wrapper_update MSG_NMEA_GSA (gsa_handle a) w = Some w' \<and>
      wrapper_shows w' (if gsa_valid a then l\<lparr>nl_gsa := Some a\<rparr> else l)"
    using w by (intro update_quiet [OF w]) (simp_all add: gsa_shows wrapper_shows_def nmea_field_defs)
  then show ?thesis by (auto simp: Msg_gsa wrapper_callback_def latest_receive_def)
next
  case (Msg_vtg v)
  let ?l = "if vtg_valid v then l\<lparr>nl_vtg := Some v, nl_course_mag :=
    (if vtg_course_mag_valid v then Some (vtg_course_mag v) else nl_course_mag l)\<rparr> else l"
  have st: "store_shows (ndb_store (nw_db w)) l" using w by (simp add: wrapper_shows_def)
  have "\<exists>w'. wrapper_update MSG_NMEA_VTG (vtg_handle v) w = Some w' \<and> wrapper_shows w' ?l"
    by (intro update_quiet [OF w]) (use vtg_shows [OF st] in \<open>simp_all add: nmea_field_defs\<close>)
  then show ?thesis by (auto simp: Msg_vtg wrapper_callback_def latest_receive_def)
next
  case (Msg_gsv p)
  have "latest_receive (Msg_gsv p) l \<noteq> None" by (simp add: latest_receive_def Let_def)
  with gsv_simulates [OF w, of p] show ?thesis unfolding Msg_gsv by fastforce
qed (use w in \<open>simp_all add: wrapper_callback_def latest_receive_def\<close>)

lemma receive_simulates:
  "wrapper_shows w l \<Longrightarrow> rel_option wrapper_shows (nmea_receive ms w) (latest_of ms l)"
proof (induction ms arbitrary: w l)
  case (Cons m ms)
  show ?case
    using wrapper_simulates [OF Cons.prems, of m] Cons.IH
    by (cases "wrapper_callback m w"; cases "latest_receive m l") simp_all
qed simp


section \<open>Untracked satellites\<close>

lemma untracked_not_shown:
  assumes "nl_sats l i = Some sv" "sint (sv_snr sv) < 0" "nl_in_view l = Some n" "i < min (unat n) 64"
  shows "nmea_data_shown l = None"
proof -
  have "slot_shown l i = None" using assms(1,2) by (simp add: slot_shown_def sat_shown_def)
  then have "sats_shown l (min (unat n) 64) = None" using assms(4) by (auto simp: sats_shown_def list_all_iff)
  then show ?thesis using assms(3) by (simp add: nmea_data_shown_def bind_eq_None_conv)
qed

text \<open>
  C33 (error). The sentence parser gives a satellite whose signal-to-noise field is empty, because it is not
  tracked, the value -1; the buffer's field is unsigned. Once a GSV set shows such a satellite first, the
  next GGA sentence converts the double -1.0 to \<open>uint8_t\<close>, which has no defined result, whatever was
  received before.
\<close>

theorem untracked_satellite_undefined:
  assumes "gsv_valid p" "gsv_msg_num p = 1" "gsv_num_msgs p = 1" "0 < gsv_sats_in_view p"
    and "0 < gsv_sat_count p" "gsv_satellites p = sv # svs" "sint (sv_snr sv) < 0"
  shows "nmea_receive (ms @ [Msg_gsv p, Msg_gga g]) nmea_wrapper_new = None"
proof -
  have "latest_of (ms @ [Msg_gsv p, Msg_gga g]) l = None" for l
  proof (induction ms arbitrary: l)
    case Nil
    have "gsv_satellites_of [p] = sv # take (unat (gsv_sat_count p) - 1) svs"
      using assms(5,6) by (cases "unat (gsv_sat_count p)") (simp_all add: gsv_satellites_of_def word_less_nat_alt)
    moreover have "0 < min (unat (gsv_sats_in_view p)) 64" using assms(4) by (simp add: word_less_nat_alt)
    ultimately have none: "nmea_data_shown l' = None"
      if "nl_sats l' = sats_of_set (gsv_satellites_of [p]) old" "nl_in_view l' = Some (gsv_sats_in_view p)" for l' old
      using that assms(7) by (intro untracked_not_shown [of l' 0 sv]) (simp_all add: sats_of_set_def)
    have "\<exists>l'. latest_receive (Msg_gsv p) l = Some l' \<and> nl_sats l' = sats_of_set (gsv_satellites_of [p]) (nl_sats l)
        \<and> nl_in_view l' = Some (gsv_sats_in_view p)"
      using assms(1-3) by (simp add: latest_receive_def gsv_update_def latest_set_def Let_def)
    then obtain l' where l': "latest_receive (Msg_gsv p) l = Some l'" "nl_sats l' = sats_of_set (gsv_satellites_of [p]) (nl_sats l)"
      "nl_in_view l' = Some (gsv_sats_in_view p)" by blast
    have "latest_receive (Msg_gga g) l' = None" by (simp add: latest_receive_def Let_def none l'(2,3))
    with l'(1) show ?case by simp
  qed (simp split: option.split)
  with receive_simulates [OF wrapper_shows_new, of "ms @ [Msg_gsv p, Msg_gga g]"] show ?thesis by simp
qed

text \<open>The sentence \<open>GPGSV,1,1,01,05,40,083,\<close> of one satellite without a signal.\<close>

definition untracked_sentence :: nmea_sentence where
  "untracked_sentence = \<lparr>sen_talker = ''GP'', sen_type = ''GSV'',
     sen_fields = [''1'', ''1'', ''01'', ''05'', ''40'', ''083'', []],
     sen_checksum = 0, sen_checksum_present = False, sen_checksum_valid = False\<rparr>"

theorem untracked_satellite_undefined_witness:
  "\<exists>p. gsv_parse untracked_sentence = Some p \<and> (\<forall>g. nmea_receive [Msg_gsv p, Msg_gga g] nmea_wrapper_new = None)"
proof -
  let ?sv = "\<lparr>sv_id = 5, sv_elevation = 40, sv_azimuth = 83, sv_snr = - 1\<rparr>"
  let ?p = "\<lparr>gsv_talker = ''GP'', gsv_num_msgs = 1, gsv_msg_num = 1, gsv_sats_in_view = 1,
    gsv_satellites = [?sv, gsv_satellite_new, gsv_satellite_new, gsv_satellite_new], gsv_sat_count = 1,
    gsv_signal_id = 0, gsv_valid = True\<rparr>"
  have "gsv_parse untracked_sentence = Some ?p" and snr: "sint (sv_snr ?sv) < 0" by code_simp+
  moreover have "nmea_receive ([] @ [Msg_gsv ?p, Msg_gga g]) nmea_wrapper_new = None" for g
    by (rule untracked_satellite_undefined [where svs = "replicate 3 gsv_satellite_new", OF _ _ _ _ _ _ snr])
      (simp_all add: numeral_3_eq_3)
  ultimately show ?thesis by auto
qed

end
