(* ===== verification/Spec2Isabelle.thy ===== *)
theory Spec2Isabelle
  imports Ubx_Decoding Ubx_Config_Sync Serial_Transport Nmea_Gsv Io_Access Gnss_Record Ubx_Database_Stream Config_Provision
    Datum_Service Sensor_Feed Control_System Safe_Cast Nmea_View
begin

text \<open>
  A verification development for the GNSS wrapper.
\<close>

end
